(* ===== verification/Prelude.thy ===== *)
theory Prelude
  imports Complex_Main "HOL-Library.Word" "HOL-Library.AList" "HOL-Library.Multiset"
begin

text \<open>
  What the components share: the JavaScript value types the sources use, and the lemmas about them.

  \<^item> A JavaScript \<^verbatim>\<open>number\<close> that carries a score, a rate or a count is a \<open>real\<close>: arithmetic is exact, the
    rounding of IEEE doubles is abstracted away, except in the 32-bit hash, where it decides the result
    and \<open>dround\<close> models it bit for bit. Where the code can divide by zero, the result is a \<open>jsnum\<close>, with the
    infinities and NaN.
  \<^item> A \<^verbatim>\<open>Date\<close> is its epoch time in milliseconds (\<open>int\<close>); every reading of the clock is an argument.
  \<^item> A \<^verbatim>\<open>Map\<close> is an association list in insertion order: \<open>map_of\<close> reads it, \<open>AList.update\<close> overwrites in
    place or appends, \<open>AList.delete\<close> removes, exactly as \<^verbatim>\<open>Map.prototype\<close> does.
  \<^item> A string that is hashed is a list of UTF-16 code units (\<open>js_string\<close>); identifiers that are only
    compared are \<open>string\<close>s.
\<close>

named_theorems js_simps \<open>unfolding rules for the JavaScript library functions\<close>
named_theorems keeps_inv \<open>preservation of a component's invariant by its operations\<close>

type_synonym byte = "8 word"
type_synonym js_string = "16 word list"
type_synonym time_ms = int

section \<open>Numbers with infinities and NaN\<close>

datatype jsnum = Fin real | PInf | NInf | NaN

definition js_div :: "real \<Rightarrow> real \<Rightarrow> jsnum" where
  "js_div a b =
     (if b \<noteq> 0 then Fin (a / b) else if a > 0 then PInf else if a < 0 then NInf else NaN)"

fun js_ceil :: "jsnum \<Rightarrow> jsnum" where
  "js_ceil (Fin x) = Fin (of_int \<lceil>x\<rceil>)"
| "js_ceil v = v"

text \<open>\<^verbatim>\<open>Math.max\<close> and \<^verbatim>\<open>Math.min\<close>: a NaN operand makes the result NaN.\<close>

fun js_max :: "jsnum \<Rightarrow> jsnum \<Rightarrow> jsnum" where
  "js_max NaN _ = NaN"
| "js_max _ NaN = NaN"
| "js_max PInf _ = PInf"
| "js_max _ PInf = PInf"
| "js_max NInf v = v"
| "js_max v NInf = v"
| "js_max (Fin a) (Fin b) = Fin (max a b)"

fun js_min :: "jsnum \<Rightarrow> jsnum \<Rightarrow> jsnum" where
  "js_min NaN _ = NaN"
| "js_min _ NaN = NaN"
| "js_min NInf _ = NInf"
| "js_min _ NInf = NInf"
| "js_min PInf v = v"
| "js_min v PInf = v"
| "js_min (Fin a) (Fin b) = Fin (min a b)"

fun js_add :: "jsnum \<Rightarrow> jsnum \<Rightarrow> jsnum" where
  "js_add (Fin a) (Fin b) = Fin (a + b)"
| "js_add NaN _ = NaN"
| "js_add _ NaN = NaN"
| "js_add PInf NInf = NaN"
| "js_add NInf PInf = NaN"
| "js_add PInf _ = PInf"
| "js_add _ PInf = PInf"
| "js_add NInf _ = NInf"
| "js_add _ NInf = NInf"

text \<open>Multiplication by a positive constant.\<close>

fun js_scale :: "real \<Rightarrow> jsnum \<Rightarrow> jsnum" where
  "js_scale c (Fin a) = Fin (c * a)"
| "js_scale c v = v"

text \<open>\<^verbatim>\<open>v > x\<close>: false for NaN.\<close>

fun js_greater :: "jsnum \<Rightarrow> real \<Rightarrow> bool" where
  "js_greater (Fin a) x = (a > x)"
| "js_greater PInf x = True"
| "js_greater _ x = False"

text \<open>\<^verbatim>\<open>v || 0\<close> on an optional number: undefined, NaN and 0 give 0.\<close>

definition or_zero :: "jsnum option \<Rightarrow> jsnum" where
  "or_zero v = (case v of None \<Rightarrow> Fin 0 | Some n \<Rightarrow> if n = NaN then Fin 0 else n)"

section \<open>Rounding of an integer to an IEEE double\<close>

text \<open>
  \<open>bit_length n\<close> is the number of binary digits of \<open>n\<close>. A double holds 53 of them: an integer with more is
  rounded to the nearest multiple of a power of two, ties to an even quotient. The sign is kept
  (round-half-even is symmetric). No value the sources round exceeds \<open>2 ^ 64\<close>, far below overflow.
\<close>

fun bit_length :: "int \<Rightarrow> nat" where
  "bit_length n = (if n \<le> 0 then 0 else Suc (bit_length (n div 2)))"

declare bit_length.simps [simp del]

definition round_pos :: "int \<Rightarrow> int" where
  "round_pos n =
     (if n < 2 ^ 53 then n
      else let e = bit_length n - 53; q = n div 2 ^ e; r = n mod 2 ^ e; half = 2 ^ (e - 1)
           in if r > half \<or> (r = half \<and> odd q) then (q + 1) * 2 ^ e else q * 2 ^ e)"

definition dround :: "int \<Rightarrow> int" where
  "dround x = (if x < 0 then - round_pos (- x) else round_pos x)"

lemma dround_exact: "\<bar>x\<bar> < 2 ^ 53 \<Longrightarrow> dround x = x"
  by (auto simp: dround_def round_pos_def)

section \<open>Strings and bytes\<close>

text \<open>
  \<^verbatim>\<open>Buffer.from(s, 'utf8')\<close>: a surrogate pair is one code point of four bytes, an unpaired surrogate is
  encoded as U+FFFD.
\<close>

definition utf8_point :: "int \<Rightarrow> byte list" where
  "utf8_point c =
     (if c < 128 then [word_of_int c]
      else if c < 2048 then [word_of_int (192 + c div 64), word_of_int (128 + c mod 64)]
      else if c < 65536 then
        [word_of_int (224 + c div 4096), word_of_int (128 + c div 64 mod 64),
         word_of_int (128 + c mod 64)]
      else [word_of_int (240 + c div 262144), word_of_int (128 + c div 4096 mod 64),
            word_of_int (128 + c div 64 mod 64), word_of_int (128 + c mod 64)])"

definition is_high :: "16 word \<Rightarrow> bool" where
  "is_high u \<longleftrightarrow> 55296 \<le> uint u \<and> uint u < 56320"

definition is_low :: "16 word \<Rightarrow> bool" where
  "is_low u \<longleftrightarrow> 56320 \<le> uint u \<and> uint u < 57344"

fun utf8 :: "js_string \<Rightarrow> byte list" where
  "utf8 [] = []"
| "utf8 [u] = utf8_point (if is_high u \<or> is_low u then 65533 else uint u)"
| "utf8 (u # v # us) =
     (if is_high u \<and> is_low v
      then utf8_point (65536 + (uint u - 55296) * 1024 + (uint v - 56320)) @ utf8 us
      else utf8_point (if is_high u \<or> is_low u then 65533 else uint u) @ utf8 (v # us))"

text \<open>A string literal of 8-bit characters as code units.\<close>

definition js :: "string \<Rightarrow> js_string" where
  "js s = map (\<lambda>c. word_of_int (of_char c)) s"

definition starts_with :: "string \<Rightarrow> string \<Rightarrow> bool" where
  "starts_with s p \<longleftrightarrow> take (length p) s = p"

text \<open>\<^verbatim>\<open>s.includes(t)\<close>\<close>

fun includes_str :: "string \<Rightarrow> string \<Rightarrow> bool" where
  "includes_str [] t = (t = [])"
| "includes_str (c # s) t = (starts_with (c # s) t \<or> includes_str s t)"

definition lower_char :: "char \<Rightarrow> char" where
  "lower_char c =
     (let n = (of_char c :: nat)
      in if 65 \<le> n \<and> n \<le> 90 \<or> 192 \<le> n \<and> n \<le> 222 \<and> n \<noteq> 215 then char_of (n + 32) else c)"

definition ends_with :: "string \<Rightarrow> string \<Rightarrow> bool" where
  "ends_with s p \<longleftrightarrow> length p \<le> length s \<and> drop (length s - length p) s = p"

text \<open>The decimal text of a natural number.\<close>

fun digits :: "nat \<Rightarrow> string" where
  "digits n = (if n < 10 then [char_of (48 + n)] else digits (n div 10) @ [char_of (48 + n mod 10)])"

declare digits.simps [simp del]

lemma digits_value_rev: "foldl (\<lambda>n c. 10 * n + (of_char c - 48)) 0 (digits n) = (n :: nat)"
proof (induction n rule: digits.induct)
  case (1 n)
  have "of_char (char_of (48 + m) :: char) - 48 = m" if "m < 10" for m :: nat
    using that by simp
  then show ?case using 1 by (simp add: digits.simps [of n])
qed

lemma digits_inj [simp]: "digits m = digits n \<longleftrightarrow> m = n"
  by (metis digits_value_rev)

lemma digits_chars: "c \<in> set (digits n) \<Longrightarrow> (48::nat) \<le> of_char c \<and> (of_char c :: nat) \<le> 57"
proof (induction n rule: digits.induct)
  case (1 n)
  then show ?case by (auto simp: digits.simps [of n] of_char_of split: if_splits)
qed

section \<open>Arrays and maps\<close>

text \<open>\<^verbatim>\<open>xs.slice(i, j)\<close> and \<^verbatim>\<open>xs.slice(i)\<close>: a negative index counts from the end, all indices are clamped.\<close>

definition slice_index :: "nat \<Rightarrow> int \<Rightarrow> nat" where
  "slice_index n i = nat (if i < 0 then max (int n + i) 0 else min i (int n))"

definition js_slice :: "int \<Rightarrow> int \<Rightarrow> 'a list \<Rightarrow> 'a list" where
  "js_slice i j xs =
     (let a = slice_index (length xs) i; b = slice_index (length xs) j in take (b - a) (drop a xs))"

definition js_slice_from :: "int \<Rightarrow> 'a list \<Rightarrow> 'a list" where
  "js_slice_from i xs = drop (slice_index (length xs) i) xs"

lemma js_slice_take: "0 \<le> k \<Longrightarrow> js_slice 0 k xs = take (nat k) xs"
  by (cases "k \<le> int (length xs)") (auto simp: js_slice_def slice_index_def)

lemma set_js_slice: "set (js_slice i j xs) \<subseteq> set xs"
  unfolding js_slice_def Let_def by (meson dual_order.trans set_drop_subset set_take_subset)

lemma js_slice_from_last: "n > 0 \<Longrightarrow> js_slice_from (- int n) xs = drop (length xs - n) xs"
  by (auto simp: js_slice_from_def slice_index_def nat_diff_distrib max_def)

type_synonym ('k, 'v) js_map = "('k \<times> 'v) list"

abbreviation map_set :: "'k \<Rightarrow> 'v \<Rightarrow> ('k, 'v) js_map \<Rightarrow> ('k, 'v) js_map" where
  "map_set \<equiv> AList.update"

abbreviation map_delete :: "'k \<Rightarrow> ('k, 'v) js_map \<Rightarrow> ('k, 'v) js_map" where
  "map_delete \<equiv> AList.delete"

text \<open>A \<^verbatim>\<open>Set\<close> is a list without repetition in insertion order.\<close>

definition set_add :: "'a \<Rightarrow> 'a list \<Rightarrow> 'a list" where
  "set_add x xs = (if x \<in> set xs then xs else xs @ [x])"

lemma set_add_simps: "set (set_add x xs) = insert x (set xs)" "distinct xs \<Longrightarrow> distinct (set_add x xs)"
  by (auto simp: set_add_def)

lemma fold_set_add: "distinct (acc @ xs) \<Longrightarrow> fold set_add xs acc = acc @ xs"
  by (induction xs arbitrary: acc) (auto simp: set_add_def)

text \<open>\<^verbatim>\<open>new Map(entries)\<close>: a later entry overwrites an earlier one of the same key.\<close>

definition map_of_entries :: "('k \<times> 'v) list \<Rightarrow> ('k, 'v) js_map" where
  "map_of_entries es = fold (\<lambda>(k, v). AList.update k v) es []"

text \<open>\<^verbatim>\<open>m.get(k) || d\<close> for a map of numbers with default \<open>d\<close> of 0.\<close>

definition get_or0 :: "('k, 'v::zero) js_map \<Rightarrow> 'k \<Rightarrow> 'v" where
  "get_or0 m k = (case map_of m k of None \<Rightarrow> 0 | Some v \<Rightarrow> v)"

definition js_map_ok :: "('k, 'v) js_map \<Rightarrow> bool" where
  "js_map_ok m \<longleftrightarrow> distinct (map fst m)"

lemma js_map_ok_Nil [simp]: "js_map_ok []"
  by (simp add: js_map_ok_def)

lemma js_map_ok_set [keeps_inv]: "js_map_ok m \<Longrightarrow> js_map_ok (map_set k v m)"
  by (simp add: js_map_ok_def distinct_update)

lemma js_map_ok_delete [keeps_inv]: "js_map_ok m \<Longrightarrow> js_map_ok (map_delete k m)"
  by (simp add: js_map_ok_def distinct_delete)

lemma get_or0_set: "get_or0 (map_set k v m) k' = (if k' = k then v else get_or0 m k')"
  by (simp add: get_or0_def update_conv')

lemma set_update_subset: "set (AList.update k v m) \<subseteq> insert (k, v) (set m)"
  by (induction m) auto

lemma set_delete_subset: "set (AList.delete k m) \<subseteq> set m"
  by (induction m) auto

lemma update_fresh: "k \<notin> fst ` set m \<Longrightarrow> AList.update k v m = m @ [(k, v)]"
  by (induction m) auto

lemma length_update:
  "length (AList.update k v m) = (if k \<in> fst ` set m then length m else Suc (length m))"
  by (induction m) auto

lemma fold_update_fresh:
  "distinct (map fst (m @ es)) \<Longrightarrow> fold (\<lambda>(k, v). AList.update k v) es m = m @ es"
  by (induction es arbitrary: m) (auto simp: update_fresh)

lemma map_of_entries_id: "js_map_ok m \<Longrightarrow> map_of_entries m = m"
  by (simp add: map_of_entries_def fold_update_fresh js_map_ok_def)

lemma map_of_filter_ok:
  "js_map_ok m \<Longrightarrow> map_of (filter P m) k = (case map_of m k of None \<Rightarrow> None | Some v \<Rightarrow> if P (k, v) then Some v else None)"
proof (induction m)
  case (Cons e m)
  have "map_of (filter P m) (fst e) = None"
    using Cons.prems by (auto simp: js_map_ok_def map_of_eq_None_iff)
  then show ?case using Cons by (cases e) (auto simp: js_map_ok_def split: option.splits)
qed simp

lemma js_map_ok_filter [keeps_inv]: "js_map_ok m \<Longrightarrow> js_map_ok (filter P m)"
  by (simp add: js_map_ok_def distinct_map_filter)

lemma js_map_ok_map: "(\<And>e. fst (f e) = fst e) \<Longrightarrow> js_map_ok (map f m) = js_map_ok m"
  by (simp add: js_map_ok_def comp_def)

lemma js_map_ok_in: "js_map_ok m \<Longrightarrow> (k, v) \<in> set m \<longleftrightarrow> map_of m k = Some v"
  by (auto simp: js_map_ok_def dest: map_of_SomeD)

text \<open>Removing the first \<open>n\<close> keys, in insertion order, drops the first \<open>n\<close> entries.\<close>

lemma fold_delete_take:
  "js_map_ok m \<Longrightarrow> fold map_delete (take n (map fst m)) m = drop n m"
proof (induction m arbitrary: n)
  case Nil
  then show ?case by simp
next
  case (Cons a m)
  then show ?case
    by (cases a; cases n) (auto simp: js_map_ok_def)
qed

lemma set_fold_delete_subset: "set (fold map_delete ks m) \<subseteq> set m"
  using set_delete_subset by (induction ks arbitrary: m) (simp, fastforce)

text \<open>
  The contract every keyed container of the program relies on, and the client facts proved from it alone:
  counting keyed events.
\<close>

locale keyed_store =
  fixes look :: "'m \<Rightarrow> 'k \<Rightarrow> 'v option"
    and put :: "'k \<Rightarrow> 'v \<Rightarrow> 'm \<Rightarrow> 'm"
    and del :: "'k \<Rightarrow> 'm \<Rightarrow> 'm"
    and ok :: "'m \<Rightarrow> bool"
  assumes look_put: "look (put k v m) k' = (if k' = k then Some v else look m k')"
    and look_del: "look (del k m) k' = (if k' = k then None else look m k')"
    and ok_put: "ok m \<Longrightarrow> ok (put k v m)"
    and ok_del: "ok m \<Longrightarrow> ok (del k m)"
begin

lemma look_fold_del:
  "look (fold del ks m) k = (if k \<in> set ks then None else look m k)"
  by (induction ks arbitrary: m) (auto simp: look_del)

lemma ok_fold_del: "ok m \<Longrightarrow> ok (fold del ks m)"
  by (induction ks arbitrary: m) (auto simp: ok_del)

lemma look_fold_put:
  "k \<notin> set (map fst kvs) \<Longrightarrow> look (fold (\<lambda>(k, v). put k v) kvs m) k = look m k"
  by (induction kvs arbitrary: m) (auto simp: look_put)

end

interpretation js_map: keyed_store map_of AList.update AList.delete js_map_ok
  by unfold_locales (auto simp: update_conv' delete_conv' keeps_inv)

lemma map_of_eq_NoneD: "map_of m k = None \<Longrightarrow> k \<notin> fst ` set m"
  by (simp add: map_of_eq_None_iff)

section \<open>Sums and bounds\<close>

definition clamp01 :: "real \<Rightarrow> real" where
  "clamp01 x = max 0 (min 1 x)"

lemma clamp01_bounds [simp]: "0 \<le> clamp01 x" "clamp01 x \<le> 1"
  by (auto simp: clamp01_def)

lemma clamp01_id: "0 \<le> x \<Longrightarrow> x \<le> 1 \<Longrightarrow> clamp01 x = x"
  by (simp add: clamp01_def)

lemma sum_list_update_add:
  fixes xs :: "'a::comm_monoid_add list"
  shows "i < length xs \<Longrightarrow> sum_list (xs[i := xs ! i + c]) = sum_list xs + c"
  by (induction xs arbitrary: i) (auto split: nat.splits simp: ac_simps)

lemma sum_list_ge_member:
  fixes xs :: "real list"
  shows "\<forall>x\<in>set xs. 0 \<le> x \<Longrightarrow> y \<in> set xs \<Longrightarrow> y \<le> sum_list xs"
  by (induction xs) (auto simp: sum_list_nonneg intro: add_increasing add_increasing2)

end
