(* ===== verification/MurmurHash3.thy ===== *)
theory MurmurHash3
  imports Prelude
begin

text \<open>
  The 32-bit hash of the Count-Min Sketch (\<^verbatim>\<open>backend/src/core/sketch/CountMinSketch.ts\<close>, class
  \<^verbatim>\<open>MurmurHash3\<close>). JavaScript's bit operators work on 32-bit patterns, so every intermediate value is a
  \<open>32 word\<close>. The products are computed on doubles before they are cut to 32 bits: \<open>mul_u\<close> multiplies the
  unsigned reading (after \<^verbatim>\<open>>>> 0\<close>), \<open>mul_s\<close> the signed one (after \<^verbatim>\<open>^=\<close>), both rounded by \<open>dround\<close>.
  \<open>reference_hash\<close> is the published MurmurHash3 with exact 32-bit products, for comparison.
\<close>

unbundle bit_operations_syntax

section \<open>The code's hash\<close>

definition C1 :: int where "C1 = 3432918353"
definition C2 :: int where "C2 = 461845907"
definition R1 :: nat where "R1 = 15"
definition R2 :: nat where "R2 = 13"
definition M :: "32 word" where "M = 5"
definition N :: "32 word" where "N = 3864292196"

text \<open>\<^verbatim>\<open>((x * c) & 0xffffffff) >>> 0\<close> for an unsigned and for a signed \<open>x\<close>\<close>

definition mul_u :: "32 word \<Rightarrow> int \<Rightarrow> 32 word" where
  "mul_u x c = word_of_int (dround (uint x * c))"

definition mul_s :: "32 word \<Rightarrow> int \<Rightarrow> 32 word" where
  "mul_s x c = word_of_int (dround (sint x * c))"

text \<open>\<^verbatim>\<open>((x << r) | (x >>> (32 - r))) >>> 0\<close>\<close>

definition rotl32 :: "nat \<Rightarrow> 32 word \<Rightarrow> 32 word" where
  "rotl32 r x = push_bit r x OR drop_bit (32 - r) x"

definition readUInt32LE :: "byte \<Rightarrow> byte \<Rightarrow> byte \<Rightarrow> byte \<Rightarrow> 32 word" where
  "readUInt32LE b0 b1 b2 b3 =
     word_of_int (uint b0 + 256 * uint b1 + 65536 * uint b2 + 16777216 * uint b3)"

definition mix_k1 :: "32 word \<Rightarrow> 32 word" where
  "mix_k1 k1 = mul_u (rotl32 R1 (mul_u k1 C1)) C2"

definition mix_block :: "32 word \<Rightarrow> 32 word \<Rightarrow> 32 word" where
  "mix_block h1 k1 = rotl32 R2 (h1 XOR mix_k1 k1) * M + N"

text \<open>The block loop, then the switch to the remaining one to three bytes.\<close>

definition mix_tail :: "32 word \<Rightarrow> 32 word \<Rightarrow> 32 word" where
  "mix_tail h1 k1 = h1 XOR mix_k1 k1"

fun process_bytes :: "32 word \<Rightarrow> byte list \<Rightarrow> 32 word" where
  "process_bytes h1 (b0 # b1 # b2 # b3 # bs) =
     process_bytes (mix_block h1 (readUInt32LE b0 b1 b2 b3)) bs"
| "process_bytes h1 [] = h1"
| "process_bytes h1 [b0] = mix_tail h1 (readUInt32LE b0 0 0 0)"
| "process_bytes h1 [b0, b1] = mix_tail h1 (readUInt32LE b0 b1 0 0)"
| "process_bytes h1 [b0, b1, b2] = mix_tail h1 (readUInt32LE b0 b1 b2 0)"

definition finalize :: "32 word \<Rightarrow> nat \<Rightarrow> 32 word" where
  "finalize h1 len =
     (let h1 = h1 XOR of_nat len;
          h1 = h1 XOR drop_bit 16 h1;
          h1 = mul_s h1 2246822507;
          h1 = h1 XOR drop_bit 13 h1;
          h1 = mul_s h1 3266489909
      in h1 XOR drop_bit 16 h1)"

definition hash :: "js_string \<Rightarrow> int \<Rightarrow> 32 word" where
  "hash key seed =
     (let bytes = utf8 key in finalize (process_bytes (word_of_int seed) bytes) (length bytes))"

section \<open>The published algorithm\<close>

definition ref_mix_k1 :: "32 word \<Rightarrow> 32 word" where
  "ref_mix_k1 k1 = rotl32 R1 (k1 * word_of_int C1) * word_of_int C2"

fun ref_process_bytes :: "32 word \<Rightarrow> byte list \<Rightarrow> 32 word" where
  "ref_process_bytes h1 (b0 # b1 # b2 # b3 # bs) =
     ref_process_bytes (rotl32 R2 (h1 XOR ref_mix_k1 (readUInt32LE b0 b1 b2 b3)) * M + N) bs"
| "ref_process_bytes h1 [] = h1"
| "ref_process_bytes h1 [b0] = h1 XOR ref_mix_k1 (readUInt32LE b0 0 0 0)"
| "ref_process_bytes h1 [b0, b1] = h1 XOR ref_mix_k1 (readUInt32LE b0 b1 0 0)"
| "ref_process_bytes h1 [b0, b1, b2] = h1 XOR ref_mix_k1 (readUInt32LE b0 b1 b2 0)"

definition ref_finalize :: "32 word \<Rightarrow> nat \<Rightarrow> 32 word" where
  "ref_finalize h1 len =
     (let h1 = h1 XOR of_nat len;
          h1 = (h1 XOR drop_bit 16 h1) * 2246822507;
          h1 = (h1 XOR drop_bit 13 h1) * 3266489909
      in h1 XOR drop_bit 16 h1)"

definition reference_hash :: "js_string \<Rightarrow> int \<Rightarrow> 32 word" where
  "reference_hash key seed =
     (let bytes = utf8 key in ref_finalize (ref_process_bytes (word_of_int seed) bytes) (length bytes))"

section \<open>Where the products are exact\<close>

lemma mul_u_exact: "uint x * c < 2 ^ 53 \<Longrightarrow> 0 \<le> c \<Longrightarrow> mul_u x c = x * word_of_int c"
  by (simp add: mul_u_def dround_exact wi_hom_mult [symmetric])

lemma mul_s_exact: "\<bar>sint x * c\<bar> < 2 ^ 53 \<Longrightarrow> mul_s x c = x * word_of_int c"
  by (simp add: mul_s_def dround_exact wi_hom_mult [symmetric])

end
