(* ===== verification/CountMinSketch.thy ===== *)
theory CountMinSketch
  imports MurmurHash3
begin

text \<open>
  The Count-Min Sketch (\<^verbatim>\<open>backend/src/core/sketch/CountMinSketch.ts\<close>, class \<^verbatim>\<open>CountMinSketch\<close>).
  The object is the record \<open>sketch\<close>: its configuration, its matrix of \<open>depth\<close> rows of \<open>width\<close> counters and
  its metrics. The closures of \<^verbatim>\<open>hashFunctions\<close> are \<open>hashFunction\<close> of the configuration. Elapsed times
  read from \<^verbatim>\<open>process.hrtime\<close>, the clock and \<^verbatim>\<open>Math.random()\<close> are arguments. A raised error is \<open>Inl\<close>.

  The facts about one table are proved in the locale \<open>row_hashing\<close>, from the range of the row hash alone,
  and interpreted on \<open>hashFunction\<close>: no estimate is below the true count or above the inserted total.
\<close>

section \<open>Data\<close>

record sketch_config =
  width :: int
  depth :: int
  hashSeed :: int
  errorRate :: real
  confidence :: real

record sketch_metrics =
  totalInserts :: int
  totalQueries :: int
  memoryUsage :: int
  averageInsertTime :: real
  averageQueryTime :: real
  observedErrorRate :: real
  fillRatio :: real

record sketch =
  config :: sketch_config
  matrix :: "real list list"
  metrics :: sketch_metrics

record frequency_estimate =
  est_item :: js_string
  frequency :: real
  est_confidence :: real
  errorBound :: real
  est_timestamp :: time_ms

record sketch_data =
  data_config :: sketch_config
  data_matrix :: "real list list"
  totalItems :: int
  lastUpdated :: time_ms
  version :: string

datatype sketch_error =
    BadDimensions
  | BadErrorRate
  | BadConfidence
  | CandidatesRequired
  | DimensionMismatch

datatype timed_operation = Insert | Query

section \<open>Construction\<close>

definition getMemoryUsage :: "sketch_config \<Rightarrow> int" where
  "getMemoryUsage c = width c * depth c * 4 + 1024"

definition validateConfig :: "sketch_config \<Rightarrow> sketch_error option" where
  "validateConfig c =
     (if width c \<le> 0 \<or> depth c \<le> 0 then Some BadDimensions
      else if errorRate c \<le> 0 \<or> errorRate c \<ge> 1 then Some BadErrorRate
      else if confidence c \<le> 0 \<or> confidence c \<ge> 1 then Some BadConfidence
      else None)"

definition initializeMatrix :: "sketch_config \<Rightarrow> real list list" where
  "initializeMatrix c = replicate (nat (depth c)) (replicate (nat (width c)) 0)"

definition hashFunction :: "sketch_config \<Rightarrow> nat \<Rightarrow> js_string \<Rightarrow> nat" where
  "hashFunction c i item = nat (uint (hash item (hashSeed c + int i)) mod width c)"

definition initializeMetrics :: "sketch_config \<Rightarrow> sketch_metrics" where
  "initializeMetrics c =
     \<lparr>totalInserts = 0, totalQueries = 0, memoryUsage = getMemoryUsage c, averageInsertTime = 0,
      averageQueryTime = 0, observedErrorRate = 0, fillRatio = 0\<rparr>"

definition new_sketch :: "sketch_config \<Rightarrow> sketch_error + sketch" where
  "new_sketch c =
     (case validateConfig c of
        Some e \<Rightarrow> Inl e
      | None \<Rightarrow> Inr \<lparr>config = c, matrix = initializeMatrix c, metrics = initializeMetrics c\<rparr>)"

section \<open>Metrics\<close>

definition updateAverageTime :: "timed_operation \<Rightarrow> real \<Rightarrow> sketch_metrics \<Rightarrow> sketch_metrics" where
  "updateAverageTime op newTime m =
     (let totalOps = real_of_int (case op of Insert \<Rightarrow> totalInserts m | Query \<Rightarrow> totalQueries m);
          currentAvg = (case op of Insert \<Rightarrow> averageInsertTime m | Query \<Rightarrow> averageQueryTime m);
          newAvg = (currentAvg * (totalOps - 1) + newTime) / totalOps
      in case op of Insert \<Rightarrow> m\<lparr>averageInsertTime := newAvg\<rparr>
                  | Query \<Rightarrow> m\<lparr>averageQueryTime := newAvg\<rparr>)"

definition nonZeroCount :: "real list list \<Rightarrow> nat" where
  "nonZeroCount rows = sum_list (map (\<lambda>row. length (filter (\<lambda>v. v > 0) row)) rows)"

definition updateFillRatio :: "sketch \<Rightarrow> sketch" where
  "updateFillRatio s =
     s\<lparr>metrics := (metrics s)\<lparr>fillRatio :=
         real (nonZeroCount (matrix s)) / real_of_int (width (config s) * depth (config s))\<rparr>\<rparr>"

section \<open>Insert and query\<close>

text \<open>The loops over the rows, with the row hash as an argument.\<close>

definition add_cell :: "nat \<Rightarrow> nat \<Rightarrow> real \<Rightarrow> real list list \<Rightarrow> real list list" where
  "add_cell i j amount rows = rows[i := (rows ! i)[j := rows ! i ! j + amount]]"

definition add_cells ::
  "(nat \<Rightarrow> 'i \<Rightarrow> nat) \<Rightarrow> nat \<Rightarrow> 'i \<Rightarrow> real \<Rightarrow> real list list \<Rightarrow> real list list" where
  "add_cells h d item amount rows = fold (\<lambda>i. add_cell i (h i item) amount) [0..<d] rows"

definition min_step :: "real option \<Rightarrow> real \<Rightarrow> real option" where
  "min_step acc v = Some (case acc of None \<Rightarrow> v | Some a \<Rightarrow> min a v)"

text \<open>\<open>None\<close> is the initial \<^verbatim>\<open>Infinity\<close>, replaced by 0 at the end.\<close>

definition min_cells :: "(nat \<Rightarrow> 'i \<Rightarrow> nat) \<Rightarrow> nat \<Rightarrow> 'i \<Rightarrow> real list list \<Rightarrow> real" where
  "min_cells h d item rows =
     (case foldl (\<lambda>acc i. min_step acc (rows ! i ! h i item)) None [0..<d] of
        None \<Rightarrow> 0 | Some v \<Rightarrow> v)"

definition insert_item :: "js_string \<Rightarrow> real \<Rightarrow> real \<Rightarrow> sketch \<Rightarrow> sketch" where
  "insert_item item amount insertTime s =
     (let c = config s;
          s = s\<lparr>matrix := add_cells (hashFunction c) (nat (depth c)) item amount (matrix s)\<rparr>;
          m = (metrics s)\<lparr>totalInserts := totalInserts (metrics s) + 1\<rparr>
      in updateFillRatio (s\<lparr>metrics := updateAverageTime Insert insertTime m\<rparr>))"

definition calculateErrorBound :: "sketch \<Rightarrow> real" where
  "calculateErrorBound s =
     exp 1 / real_of_int (width (config s)) * real_of_int (totalInserts (metrics s))"

definition query :: "js_string \<Rightarrow> real \<Rightarrow> time_ms \<Rightarrow> sketch \<Rightarrow> frequency_estimate \<times> sketch" where
  "query item queryTime now s =
     (let c = config s;
          minFrequency = min_cells (hashFunction c) (nat (depth c)) item (matrix s);
          m = (metrics s)\<lparr>totalQueries := totalQueries (metrics s) + 1\<rparr>;
          s' = s\<lparr>metrics := updateAverageTime Query queryTime m\<rparr>
      in (\<lparr>est_item = item, frequency = minFrequency, est_confidence = confidence c,
           errorBound = calculateErrorBound s', est_timestamp = now\<rparr>, s'))"

text \<open>One elapsed time and one clock reading per queried item.\<close>

fun queryBatch ::
  "(js_string \<times> real \<times> time_ms) list \<Rightarrow> sketch \<Rightarrow> frequency_estimate list \<times> sketch" where
  "queryBatch [] s = ([], s)"
| "queryBatch ((item, t, now) # items) s =
     (let (e, s1) = query item t now s; (es, s2) = queryBatch items s1 in (e # es, s2))"

definition getTopK ::
  "int \<Rightarrow> (js_string \<times> real \<times> time_ms) list option \<Rightarrow> sketch \<Rightarrow>
   sketch_error + (frequency_estimate list \<times> sketch)" where
  "getTopK k candidates s =
     (case candidates of
        None \<Rightarrow> Inl CandidatesRequired
      | Some items \<Rightarrow>
          (let (estimates, s') = queryBatch items s
           in Inr (js_slice 0 k (sort_key (\<lambda>e. - frequency e) estimates), s')))"

section \<open>Clear, persistence and merge\<close>

definition clear :: "sketch \<Rightarrow> sketch" where
  "clear s =
     s\<lparr>matrix := initializeMatrix (config s),
       metrics := (metrics s)\<lparr>totalInserts := 0, fillRatio := 0\<rparr>\<rparr>"

definition serialize :: "time_ms \<Rightarrow> sketch \<Rightarrow> sketch_data" where
  "serialize now s =
     \<lparr>data_config = config s, data_matrix = matrix s, totalItems = totalInserts (metrics s),
      lastUpdated = now, version = ''1.0.0''\<rparr>"

definition deserialize :: "sketch_data \<Rightarrow> sketch_error + sketch" where
  "deserialize d =
     (case new_sketch (data_config d) of
        Inl e \<Rightarrow> Inl e
      | Inr s \<Rightarrow> Inr (updateFillRatio
          (s\<lparr>matrix := data_matrix d, metrics := (metrics s)\<lparr>totalInserts := totalItems d\<rparr>\<rparr>)))"

definition add_rows :: "real list list \<Rightarrow> real list list \<Rightarrow> real list list" where
  "add_rows xss yss = map2 (map2 (+)) xss yss"

definition merge :: "sketch \<Rightarrow> sketch \<Rightarrow> sketch_error + sketch" where
  "merge s other =
     (if width (config s) \<noteq> width (config other) \<or> depth (config s) \<noteq> depth (config other)
      then Inl DimensionMismatch
      else Inr (updateFillRatio
        (s\<lparr>matrix := add_rows (matrix s) (matrix other),
           metrics := (metrics s)\<lparr>totalInserts :=
             totalInserts (metrics s) + totalInserts (metrics other)\<rparr>\<rparr>)))"

section \<open>Sizing\<close>

text \<open>
  \<open>seed\<close> is \<^verbatim>\<open>Math.floor(Math.random() * 1000000)\<close>. The memory limit is optional, and 0 counts as absent.
\<close>

definition createOptimalConfig :: "real \<Rightarrow> real \<Rightarrow> real option \<Rightarrow> int \<Rightarrow> sketch_config" where
  "createOptimalConfig err conf maxMemoryBytes seed =
     (let w = \<lceil>exp 1 / err\<rceil>;
          d = \<lceil>ln (1 / (1 - conf))\<rceil>;
          estimatedMemory = real_of_int (w * d * 4);
          unscaled = \<lparr>width = w, depth = d, hashSeed = seed, errorRate = err, confidence = conf\<rparr>
      in case maxMemoryBytes of
           None \<Rightarrow> unscaled
         | Some limit \<Rightarrow>
             if limit \<noteq> 0 \<and> estimatedMemory > limit then
               let scaleFactor = sqrt (limit / estimatedMemory);
                   scaledWidth = max 1 \<lfloor>real_of_int w * scaleFactor\<rfloor>;
                   scaledDepth = max 1 \<lfloor>real_of_int d * scaleFactor\<rfloor>
               in \<lparr>width = scaledWidth, depth = scaledDepth, hashSeed = seed,
                   errorRate = err * (real_of_int w / real_of_int scaledWidth),
                   confidence = conf * (real_of_int d / real_of_int scaledDepth)\<rparr>
             else unscaled)"

section \<open>Tables over an arbitrary row hash\<close>

definition table_ok :: "nat \<Rightarrow> nat \<Rightarrow> real list list \<Rightarrow> bool" where
  "table_ok w d rows \<longleftrightarrow> length rows = d \<and> (\<forall>row\<in>set rows. length row = w)"

text \<open>A stream of insertions and the exact answer the sketch approximates.\<close>

definition true_count :: "'i \<Rightarrow> ('i \<times> real) list \<Rightarrow> real" where
  "true_count item stream = sum_list (map snd (filter (\<lambda>p. fst p = item) stream))"

definition stream_total :: "('i \<times> real) list \<Rightarrow> real" where
  "stream_total stream = sum_list (map snd stream)"

definition run_cells ::
  "(nat \<Rightarrow> 'i \<Rightarrow> nat) \<Rightarrow> nat \<Rightarrow> ('i \<times> real) list \<Rightarrow> real list list \<Rightarrow> real list list" where
  "run_cells h d stream rows = fold (\<lambda>(item, amount). add_cells h d item amount) stream rows"

definition nonneg_stream :: "('i \<times> real) list \<Rightarrow> bool" where
  "nonneg_stream stream \<longleftrightarrow> (\<forall>p\<in>set stream. 0 \<le> snd p)"

lemma table_ok_add_cell [keeps_inv]: "table_ok w d rows \<Longrightarrow> table_ok w d (add_cell i j c rows)"
  by (cases "i < length rows")
     (auto simp: table_ok_def add_cell_def list_update_beyond
           dest!: subsetD [OF set_update_subset_insert])

lemma add_cells_Suc: "add_cells h (Suc d) item c rows = add_cell d (h d item) c (add_cells h d item c rows)"
  by (simp add: add_cells_def)

lemma table_ok_add_cells [keeps_inv]: "table_ok w d rows \<Longrightarrow> table_ok w d (add_cells h n item c rows)"
  by (induction n) (auto simp: add_cells_Suc add_cells_def [of _ 0] intro: keeps_inv)

lemma length_add_cells [simp]: "length (add_cells h n item c rows) = length rows"
  by (induction n) (auto simp: add_cells_Suc add_cell_def add_cells_def [of _ 0])

text \<open>After the loop, row \<open>i\<close> has its own cell raised and nothing else changed.\<close>

lemma nth_add_cells:
  "n \<le> length rows \<Longrightarrow> i < length rows \<Longrightarrow>
   add_cells h n item c rows ! i =
     (if i < n then (rows ! i)[h i item := rows ! i ! h i item + c] else rows ! i)"
proof (induction n)
  case 0
  then show ?case by (simp add: add_cells_def)
next
  case (Suc n)
  then show ?case
    by (cases "i = n") (auto simp: add_cells_Suc add_cell_def)
qed

lemma min_step_None: "min_step None v = Some v"
  by (simp add: min_step_def)

lemma min_foldl_Some:
  "foldl (\<lambda>acc i. min_step acc (f i)) (Some a) [m..<n] = Some (fold (\<lambda>i. min (f i)) [m..<n] a)"
  by (induction n) (auto simp: min_step_def min.commute)

lemma fold_min_le: "fold (\<lambda>i. min (f i)) [m..<n] (a::real) \<le> a"
  by (induction n) (auto simp: min_def)

lemma fold_min_le_elem: "m \<le> i \<Longrightarrow> i < n \<Longrightarrow> fold (\<lambda>i. min (f i)) [m..<n] (a::real) \<le> f i"
  by (induction n) (auto simp: less_Suc_eq min_def)

lemma fold_min_ge: "b \<le> a \<Longrightarrow> (\<And>i. m \<le> i \<Longrightarrow> i < n \<Longrightarrow> b \<le> f i) \<Longrightarrow>
    b \<le> fold (\<lambda>i. min (f i)) [m..<n] (a::real)"
  by (induction n) (auto simp: min_def)

lemma min_cells_unfold:
  "0 < d \<Longrightarrow> min_cells h d item rows =
     fold (\<lambda>i. min (rows ! i ! h i item)) [1..<d] (rows ! 0 ! h 0 item)"
  by (simp add: min_cells_def upt_conv_Cons min_step_None min_foldl_Some)

lemma min_cells_le: "i < d \<Longrightarrow> min_cells h d item rows \<le> rows ! i ! h i item"
  by (cases "i = 0") (auto simp: min_cells_unfold fold_min_le intro: fold_min_le_elem)

lemma min_cells_ge: "0 < d \<Longrightarrow> (\<And>i. i < d \<Longrightarrow> b \<le> rows ! i ! h i item) \<Longrightarrow> b \<le> min_cells h d item rows"
  by (auto simp: min_cells_unfold intro!: fold_min_ge)

locale row_hashing =
  fixes w :: nat and h :: "nat \<Rightarrow> 'i \<Rightarrow> nat"
  assumes h_range: "0 < w \<Longrightarrow> h i x < w"
begin

lemma cell_add_cells:
  assumes "table_ok w d rows" and "0 < w" and "i < d" and "j < w"
  shows "add_cells h d item c rows ! i ! j = rows ! i ! j + (if h i item = j then c else 0)"
  using assms h_range [of i item]
  by (simp add: nth_add_cells table_ok_def nth_list_update)

lemma table_ok_run [keeps_inv]: "table_ok w d rows \<Longrightarrow> table_ok w d (run_cells h n stream rows)"
  by (induction stream arbitrary: rows) (auto simp: run_cells_def intro: keeps_inv)

text \<open>A cell holds the total of exactly the insertions that hash to it.\<close>

lemma cell_run:
  assumes "table_ok w d rows" and "0 < w" and "i < d" and "j < w"
  shows "run_cells h d stream rows ! i ! j =
    rows ! i ! j + stream_total (filter (\<lambda>p. h i (fst p) = j) stream)"
  using assms
proof (induction stream arbitrary: rows)
  case Nil
  then show ?case by (simp add: run_cells_def stream_total_def)
next
  case (Cons p stream)
  obtain item c where p: "p = (item, c)" by fastforce
  have ok: "table_ok w d (add_cells h d item c rows)"
    using Cons.prems by (simp add: keeps_inv)
  have "run_cells h d (p # stream) rows = run_cells h d stream (add_cells h d item c rows)"
    by (simp add: run_cells_def p)
  then show ?case
    using Cons.IH [OF ok] Cons.prems
    by (simp add: cell_add_cells p stream_total_def)
qed

lemma estimate_ge_true_count:
  assumes "table_ok w d rows" and "0 < w" and "0 < d" and "nonneg_stream stream"
    and zero: "\<And>i j. i < d \<Longrightarrow> j < w \<Longrightarrow> rows ! i ! j = 0"
  shows "true_count item stream \<le> min_cells h d item (run_cells h d stream rows)"
proof (rule min_cells_ge [OF \<open>0 < d\<close>])
  fix i assume "i < d"
  have "true_count item stream \<le> stream_total (filter (\<lambda>p. h i (fst p) = h i item) stream)"
    using \<open>nonneg_stream stream\<close>
    by (induction stream) (auto simp: true_count_def stream_total_def nonneg_stream_def)
  then show "true_count item stream \<le> run_cells h d stream rows ! i ! h i item"
    using assms \<open>i < d\<close> h_range by (simp add: cell_run)
qed

lemma estimate_le_total:
  assumes "table_ok w d rows" and "0 < w" and "0 < d" and "nonneg_stream stream"
    and zero: "\<And>i j. i < d \<Longrightarrow> j < w \<Longrightarrow> rows ! i ! j = 0"
  shows "min_cells h d item (run_cells h d stream rows) \<le> stream_total stream"
proof -
  have "min_cells h d item (run_cells h d stream rows) \<le> run_cells h d stream rows ! 0 ! h 0 item"
    using \<open>0 < d\<close> by (rule min_cells_le)
  also have "\<dots> = stream_total (filter (\<lambda>p. h 0 (fst p) = h 0 item) stream)"
    using assms h_range by (simp add: cell_run)
  also have "\<dots> \<le> stream_total stream"
    using \<open>nonneg_stream stream\<close>
    by (induction stream) (auto simp: stream_total_def nonneg_stream_def)
  finally show ?thesis .
qed

text \<open>An item that shares no row with another is counted exactly.\<close>

lemma estimate_exact:
  assumes "table_ok w d rows" and "0 < w" and "i < d" and "nonneg_stream stream"
    and zero: "\<And>i j. i < d \<Longrightarrow> j < w \<Longrightarrow> rows ! i ! j = 0"
    and alone: "\<And>p. p \<in> set stream \<Longrightarrow> h i (fst p) = h i item \<Longrightarrow> fst p = item"
  shows "min_cells h d item (run_cells h d stream rows) = true_count item stream"
proof (rule antisym)
  have "filter (\<lambda>p. h i (fst p) = h i item) stream = filter (\<lambda>p. fst p = item) stream"
    using alone by (intro filter_cong) auto
  then have "run_cells h d stream rows ! i ! h i item = true_count item stream"
    using assms h_range by (simp add: cell_run true_count_def stream_total_def)
  then show "min_cells h d item (run_cells h d stream rows) \<le> true_count item stream"
    using min_cells_le [OF \<open>i < d\<close>, of h item "run_cells h d stream rows"] by simp
  show "true_count item stream \<le> min_cells h d item (run_cells h d stream rows)"
    using assms by (intro estimate_ge_true_count) auto
qed

end

interpretation murmur_rows: row_hashing "nat (width c)" "hashFunction c" for c
proof
  fix i x
  assume "0 < nat (width c)"
  then have "0 < width c" by simp
  then show "hashFunction c i x < nat (width c)"
    by (simp add: hashFunction_def nat_less_iff)
qed

section \<open>Runs of the sketch\<close>

text \<open>Insertions of items with their counts, each with its elapsed time.\<close>

definition run_inserts :: "(js_string \<times> real \<times> real) list \<Rightarrow> sketch \<Rightarrow> sketch" where
  "run_inserts stream s = fold (\<lambda>(item, amount, t). insert_item item amount t) stream s"

definition counts_of :: "(js_string \<times> real \<times> real) list \<Rightarrow> (js_string \<times> real) list" where
  "counts_of stream = map (\<lambda>(item, amount, t). (item, amount)) stream"

text \<open>The invariant of a sketch object.\<close>

definition sketch_inv :: "sketch \<Rightarrow> bool" where
  "sketch_inv s \<longleftrightarrow>
     validateConfig (config s) = None
     \<and> table_ok (nat (width (config s))) (nat (depth (config s))) (matrix s)
     \<and> fillRatio (metrics s) =
         real (nonZeroCount (matrix s)) / real_of_int (width (config s) * depth (config s))"

lemma insert_item_simps [simp]:
  "config (insert_item item c t s) = config s"
  "matrix (insert_item item c t s) =
     add_cells (hashFunction (config s)) (nat (depth (config s))) item c (matrix s)"
  "totalInserts (metrics (insert_item item c t s)) = totalInserts (metrics s) + 1"
  by (simp_all add: insert_item_def Let_def updateFillRatio_def updateAverageTime_def)

lemma query_simps [simp]:
  "frequency (fst (query item t now s)) =
     min_cells (hashFunction (config s)) (nat (depth (config s))) item (matrix s)"
  "est_item (fst (query item t now s)) = item"
  "config (snd (query item t now s)) = config s"
  "matrix (snd (query item t now s)) = matrix s"
  "totalInserts (metrics (snd (query item t now s))) = totalInserts (metrics s)"
  "errorBound (fst (query item t now s)) = calculateErrorBound s"
  by (simp_all add: query_def Let_def updateAverageTime_def calculateErrorBound_def)

lemma run_inserts_Nil [simp]: "run_inserts [] s = s"
  by (simp add: run_inserts_def)

lemma run_inserts_Cons [simp]:
  "run_inserts ((item, c, t) # stream) s = run_inserts stream (insert_item item c t s)"
  by (simp add: run_inserts_def)

lemma run_inserts_simps [simp]:
  "config (run_inserts stream s) = config s"
  "matrix (run_inserts stream s) =
     run_cells (hashFunction (config s)) (nat (depth (config s))) (counts_of stream) (matrix s)"
  "totalInserts (metrics (run_inserts stream s)) = totalInserts (metrics s) + int (length stream)"
  by (induction stream arbitrary: s) (auto simp: run_cells_def counts_of_def)

lemma valid_configD:
  assumes "validateConfig c = None"
  shows "0 < width c" "0 < depth c" "0 < errorRate c" "errorRate c < 1" "0 < confidence c"
    "confidence c < 1"
  using assms by (auto simp: validateConfig_def split: if_splits)

lemma new_sketch_Inr:
  "new_sketch c = Inr s \<longleftrightarrow> validateConfig c = None \<and>
     s = \<lparr>config = c, matrix = initializeMatrix c, metrics = initializeMetrics c\<rparr>"
  by (auto simp: new_sketch_def split: option.splits)

lemma table_ok_initial: "table_ok (nat (width c)) (nat (depth c)) (initializeMatrix c)"
  by (auto simp: table_ok_def initializeMatrix_def)

lemma initial_cell:
  "i < nat (depth c) \<Longrightarrow> j < nat (width c) \<Longrightarrow> initializeMatrix c ! i ! j = 0"
  by (simp add: initializeMatrix_def)

lemma nonZeroCount_initial [simp]: "nonZeroCount (initializeMatrix c) = 0"
  by (simp add: nonZeroCount_def initializeMatrix_def)

subsection \<open>The invariant is kept\<close>

lemma new_sketch_inv [keeps_inv]: "new_sketch c = Inr s \<Longrightarrow> sketch_inv s"
  by (auto simp: new_sketch_Inr sketch_inv_def table_ok_initial initializeMetrics_def)

lemma insert_item_inv [keeps_inv]: "sketch_inv s \<Longrightarrow> sketch_inv (insert_item item c t s)"
  unfolding sketch_inv_def
  by (simp add: table_ok_add_cells)
     (simp add: insert_item_def Let_def updateFillRatio_def updateAverageTime_def)

lemma query_inv [keeps_inv]: "sketch_inv s \<Longrightarrow> sketch_inv (snd (query item t now s))"
  unfolding sketch_inv_def
  by simp (simp add: query_def Let_def updateAverageTime_def)

lemma clear_inv [keeps_inv]: "sketch_inv s \<Longrightarrow> sketch_inv (clear s)"
  by (simp add: sketch_inv_def clear_def table_ok_initial)

lemma run_inserts_inv [keeps_inv]: "sketch_inv s \<Longrightarrow> sketch_inv (run_inserts stream s)"
  by (induction stream arbitrary: s) (auto simp: insert_item_inv)

lemma table_ok_add_rows:
  assumes "table_ok w d xss" and "table_ok w d yss"
  shows "table_ok w d (add_rows xss yss)"
proof -
  have "length row = w" if "row \<in> set (add_rows xss yss)" for row
  proof -
    from that obtain i where i: "i < length (add_rows xss yss)" "row = add_rows xss yss ! i"
      by (auto simp: in_set_conv_nth)
    with assms show ?thesis by (simp add: add_rows_def table_ok_def)
  qed
  with assms show ?thesis by (simp add: table_ok_def add_rows_def)
qed

lemma merge_inv [keeps_inv]:
  "sketch_inv s \<Longrightarrow> sketch_inv other \<Longrightarrow> merge s other = Inr s' \<Longrightarrow> sketch_inv s'"
  by (auto simp: merge_def sketch_inv_def updateFillRatio_def table_ok_add_rows split: if_splits)

lemma nonZeroCount_le: "table_ok w d rows \<Longrightarrow> nonZeroCount rows \<le> w * d"
proof -
  assume ok: "table_ok w d rows"
  have "nonZeroCount rows \<le> sum_list (map length rows)"
    unfolding nonZeroCount_def by (intro sum_list_mono) simp
  also have "map length rows = map (\<lambda>_. w) rows"
    using ok by (simp add: table_ok_def)
  finally show ?thesis using ok by (simp add: table_ok_def sum_list_triv mult.commute)
qed

subsection \<open>Merging tables\<close>

lemma nth_add_rows:
  "table_ok w d xss \<Longrightarrow> table_ok w d yss \<Longrightarrow> i < d \<Longrightarrow> j < w \<Longrightarrow>
   add_rows xss yss ! i ! j = xss ! i ! j + yss ! i ! j"
  by (simp add: add_rows_def table_ok_def)

lemma table_eqI:
  assumes "table_ok w d xss" and "table_ok w d yss"
    and "\<And>i j. i < d \<Longrightarrow> j < w \<Longrightarrow> xss ! i ! j = yss ! i ! j"
  shows "xss = yss"
proof (rule nth_equalityI)
  show "length xss = length yss" using assms by (simp add: table_ok_def)
  fix i assume "i < length xss"
  with assms show "xss ! i = yss ! i"
    by (intro nth_equalityI) (auto simp: table_ok_def)
qed

lemma merge_runs:
  assumes valid: "validateConfig c = None"
  defines "run \<equiv> (\<lambda>st. run_cells (hashFunction c) (nat (depth c)) st (initializeMatrix c))"
  shows "add_rows (run xs) (run ys) = run (xs @ ys)"
proof (rule table_eqI)
  note [simp] = valid_configD [OF valid]
  have ok: "table_ok (nat (width c)) (nat (depth c)) (run st)" for st
    unfolding run_def by (intro murmur_rows.table_ok_run table_ok_initial)
  show "table_ok (nat (width c)) (nat (depth c)) (add_rows (run xs) (run ys))"
    by (intro table_ok_add_rows ok)
  show "table_ok (nat (width c)) (nat (depth c)) (run (xs @ ys))" by (rule ok)
  fix i j assume ij: "i < nat (depth c)" "j < nat (width c)"
  have cell: "run st ! i ! j = stream_total (filter (\<lambda>p. hashFunction c i (fst p) = j) st)" for st
    unfolding run_def using ij
    by (simp add: murmur_rows.cell_run [OF table_ok_initial] initial_cell)
  show "add_rows (run xs) (run ys) ! i ! j = run (xs @ ys) ! i ! j"
    using ij by (simp add: nth_add_rows [OF ok ok] cell stream_total_def)
qed

subsection \<open>Reachable sketches\<close>

text \<open>Every object the public operations can build, persistence through \<open>serialize\<close> included.\<close>

inductive reachable_sketch :: "sketch \<Rightarrow> bool" where
  created: "new_sketch c = Inr s \<Longrightarrow> reachable_sketch s"
| inserted: "reachable_sketch s \<Longrightarrow> reachable_sketch (insert_item item amount t s)"
| queried: "reachable_sketch s \<Longrightarrow> reachable_sketch (snd (query item t now s))"
| cleared: "reachable_sketch s \<Longrightarrow> reachable_sketch (clear s)"
| merged: "reachable_sketch s \<Longrightarrow> reachable_sketch other \<Longrightarrow> merge s other = Inr s' \<Longrightarrow> reachable_sketch s'"
| restored: "reachable_sketch s \<Longrightarrow> deserialize (serialize now s) = Inr s' \<Longrightarrow> reachable_sketch s'"

lemma restored_inv [keeps_inv]:
  "sketch_inv s \<Longrightarrow> deserialize (serialize now s) = Inr s' \<Longrightarrow> sketch_inv s'"
  by (auto simp: deserialize_def serialize_def new_sketch_def sketch_inv_def updateFillRatio_def
      split: option.splits sum.splits)

lemma reachable_sketch_inv: "reachable_sketch s \<Longrightarrow> sketch_inv s"
  by (induction rule: reachable_sketch.induct)
     (blast intro: new_sketch_inv insert_item_inv query_inv clear_inv merge_inv restored_inv)+

lemma query_queryBatch:
  "fst (queryBatch ((item, t, now) # items) s) =
     fst (query item t now s) # fst (queryBatch items (snd (query item t now s)))"
  by (simp add: split_beta Let_def)

lemma queryBatch_items: "map est_item (fst (queryBatch items s)) = map fst items"
  by (induction items arbitrary: s) (auto simp: query_queryBatch simp del: queryBatch.simps(2))

lemma getTopK_returns: "\<exists>best s'. getTopK k (Some items) s = Inr (best, s')"
  by (simp add: getTopK_def split: prod.splits)

text \<open>A configuration small enough to evaluate, for the examples below.\<close>

definition small_config :: sketch_config where
  "small_config = \<lparr>width = 8, depth = 2, hashSeed = 7, errorRate = 1 / 10, confidence = 9 / 10\<rparr>"

lemma new_small: "\<exists>s. new_sketch small_config = Inr s"
  by (simp add: new_sketch_def validateConfig_def small_config_def)

section \<open>Properties\<close>

text \<open>
  C1. For every stream of insertions with non-negative counts into a new sketch, the estimate of any item is
  at least the number of times it was inserted and at most the total number of insertions.
\<close>
theorem cms_query_bounds:
  assumes "new_sketch c = Inr s" and "nonneg_stream (counts_of stream)"
  shows "true_count item (counts_of stream)
           \<le> frequency (fst (query item t now (run_inserts stream s)))
         \<and> frequency (fst (query item t now (run_inserts stream s))) \<le> stream_total (counts_of stream)"
proof -
  from assms(1) have v: "validateConfig c = None"
    and s: "config s = c" "matrix s = initializeMatrix c"
    by (simp_all add: new_sketch_Inr)
  note pos = valid_configD [OF v]
  show ?thesis
    using murmur_rows.estimate_ge_true_count [OF table_ok_initial _ _ assms(2), of c item]
      murmur_rows.estimate_le_total [OF table_ok_initial _ _ assms(2), of c item] pos
    by (simp add: s initial_cell)
qed

theorem cms_query_bounds_witness:
  "\<exists>s. new_sketch small_config = Inr s
     \<and> 2 \<le> frequency (fst (query (js ''a'') 0 0 (run_inserts [(js ''a'', 2, 0), (js ''b'', 3, 0)] s)))
     \<and> frequency (fst (query (js ''a'') 0 0 (run_inserts [(js ''a'', 2, 0), (js ''b'', 3, 0)] s))) \<le> 5"
proof -
  let ?stream = "[(js ''a'', 2, 0), (js ''b'', 3, 0)]"
  have cnt: "counts_of ?stream = [(js ''a'', 2), (js ''b'', 3)]" by (simp add: counts_of_def)
  then have nn: "nonneg_stream (counts_of ?stream)" by (simp add: nonneg_stream_def)
  have "js ''b'' \<noteq> js ''a''" by code_simp
  then have tc: "true_count (js ''a'') (counts_of ?stream) = 2" and tt: "stream_total (counts_of ?stream) = 5"
    by (simp_all add: cnt true_count_def stream_total_def)
  obtain s where s: "new_sketch small_config = Inr s" using new_small ..
  show ?thesis using s cms_query_bounds [OF s nn, of "js ''a''" 0 0] unfolding tc tt by blast
qed

text \<open>
  An item that has one row where no other inserted item collides with it is counted exactly.
\<close>
theorem cms_exact_without_collision:
  assumes "new_sketch c = Inr s" and "nonneg_stream (counts_of stream)" and "i < nat (depth c)"
    and "\<forall>p\<in>set (counts_of stream).
           hashFunction c i (fst p) = hashFunction c i item \<longrightarrow> fst p = item"
  shows "frequency (fst (query item t now (run_inserts stream s))) = true_count item (counts_of stream)"
proof -
  from assms(1) have v: "validateConfig c = None"
    and s: "config s = c" "matrix s = initializeMatrix c"
    by (simp_all add: new_sketch_Inr)
  show ?thesis
    using murmur_rows.estimate_exact [OF table_ok_initial _ assms(3,2), of item]
      assms(4) valid_configD [OF v]
    by (simp add: s initial_cell)
qed

theorem cms_exact_without_collision_witness:
  "\<exists>s. new_sketch small_config = Inr s
     \<and> frequency (fst (query (js ''a'') 0 0 (run_inserts [(js ''a'', 2, 0), (js ''b'', 3, 0)] s))) = 2"
proof -
  let ?stream = "[(js ''a'', 2, 0), (js ''b'', 3, 0)]"
  have cnt: "counts_of ?stream = [(js ''a'', 2), (js ''b'', 3)]" by (simp add: counts_of_def)
  have "js ''b'' \<noteq> js ''a''" by code_simp
  then have tc: "true_count (js ''a'') (counts_of ?stream) = 2"
    by (simp add: cnt true_count_def)
  have nn: "nonneg_stream (counts_of ?stream)" by (simp add: cnt nonneg_stream_def)
  have "hashFunction small_config 0 (js ''b'') \<noteq> hashFunction small_config 0 (js ''a'')"
    by code_simp
  then have alone: "\<forall>p\<in>set (counts_of ?stream).
      hashFunction small_config 0 (fst p) = hashFunction small_config 0 (js ''a'') \<longrightarrow> fst p = js ''a''"
    by (simp add: cnt)
  obtain s where s: "new_sketch small_config = Inr s" using new_small ..
  have "0 < nat (depth small_config)" by (simp add: small_config_def)
  then show ?thesis
    using s cms_exact_without_collision [OF s nn _ alone, of 0 0] unfolding tc by blast
qed

text \<open>
  C6. Merging two sketches of the same configuration gives the matrix, the insertion counter and the fill
  ratio of one sketch that received both streams.
\<close>
theorem cms_merge_is_concatenation:
  assumes "new_sketch c = Inr s"
    and "merge (run_inserts xs s) (run_inserts ys s) = Inr m"
  shows "matrix m = matrix (run_inserts (xs @ ys) s)
       \<and> totalInserts (metrics m) = totalInserts (metrics (run_inserts (xs @ ys) s))
       \<and> fillRatio (metrics m) = fillRatio (metrics (run_inserts (xs @ ys) s))"
proof -
  from assms(1) have v: "validateConfig c = None"
    and s: "config s = c" "matrix s = initializeMatrix c" "totalInserts (metrics s) = 0"
    by (simp_all add: new_sketch_Inr initializeMetrics_def)
  have inv: "sketch_inv (run_inserts zs s)" for zs
    using assms(1) by (intro run_inserts_inv new_sketch_inv)
  have mat: "matrix m = matrix (run_inserts (xs @ ys) s)" and tot: "totalInserts (metrics m) = int (length (xs @ ys))"
    and cfg: "config m = c"
    using assms(2) merge_runs [OF v, of "counts_of xs" "counts_of ys"]
    by (auto simp: merge_def s updateFillRatio_def counts_of_def split: if_splits)
  have "sketch_inv m" using assms(2) inv by (blast intro: merge_inv)
  then show ?thesis using mat tot cfg inv [of "xs @ ys"] by (simp add: sketch_inv_def s)
qed

theorem cms_merge_is_concatenation_witness:
  "\<exists>s m. new_sketch small_config = Inr s
     \<and> merge (run_inserts [(js ''a'', 2, 0)] s) (run_inserts [(js ''b'', 3, 0)] s) = Inr m
     \<and> matrix m = matrix (run_inserts ([(js ''a'', 2, 0)] @ [(js ''b'', 3, 0)]) s)"
proof -
  obtain s where s: "new_sketch small_config = Inr s" using new_small ..
  have "\<exists>m. merge (run_inserts [(js ''a'', 2, 0)] s) (run_inserts [(js ''b'', 3, 0)] s) = Inr m"
    by (simp add: merge_def)
  then obtain m where m: "merge (run_inserts [(js ''a'', 2, 0)] s) (run_inserts [(js ''b'', 3, 0)] s) = Inr m" ..
  show ?thesis using s m cms_merge_is_concatenation [OF s m] by blast
qed

text \<open>
  C14. Every reachable sketch has a valid configuration, a matrix of the configured dimensions, and a fill
  ratio that equals the share of positive counters, between 0 and 1.
\<close>
theorem cms_reachable_invariant:
  assumes "reachable_sketch s"
  shows "sketch_inv s \<and> 0 \<le> fillRatio (metrics s) \<and> fillRatio (metrics s) \<le> 1"
proof -
  have inv: "sketch_inv s" using assms by (rule reachable_sketch_inv)
  let ?w = "width (config s)" and ?d = "depth (config s)"
  have "0 < ?w" "0 < ?d"
    using inv valid_configD by (auto simp: sketch_inv_def)
  moreover have "nonZeroCount (matrix s) \<le> nat ?w * nat ?d"
    using inv by (intro nonZeroCount_le) (simp add: sketch_inv_def)
  ultimately have "real (nonZeroCount (matrix s)) \<le> real_of_int (?w * ?d)" and "0 < real_of_int (?w * ?d)"
    by (simp_all add: nat_mult_distrib [symmetric] le_nat_iff of_nat_le_iff [symmetric] del: of_nat_le_iff)
       (metis of_int_le_iff of_int_mult of_int_of_nat_eq)
  then show ?thesis using inv by (simp add: sketch_inv_def)
qed

theorem cms_reachable_invariant_witness:
  "\<exists>s. reachable_sketch s \<and> totalInserts (metrics s) = 1 \<and> fillRatio (metrics s) \<le> 1"
proof -
  obtain s where s: "new_sketch small_config = Inr s" using new_small ..
  then have "totalInserts (metrics s) = 0" by (auto simp: new_sketch_Inr initializeMetrics_def)
  then have "totalInserts (metrics (insert_item (js ''a'') 1 0 s)) = 1" by simp
  moreover have "reachable_sketch (insert_item (js ''a'') 1 0 s)"
    using s by (intro reachable_sketch.intros)
  ultimately show ?thesis using cms_reachable_invariant by blast
qed

text \<open>
  C15. Writing a reachable sketch out and reading it back succeeds and gives an object with the same
  configuration, matrix, insertion counter and fill ratio, hence the same answer to every query.
\<close>
theorem cms_roundtrip:
  assumes "reachable_sketch s"
  shows "\<exists>s'. deserialize (serialize now s) = Inr s' \<and> config s' = config s \<and> matrix s' = matrix s
     \<and> totalInserts (metrics s') = totalInserts (metrics s) \<and> fillRatio (metrics s') = fillRatio (metrics s)
     \<and> (\<forall>item t u. fst (query item t u s') = fst (query item t u s))"
proof -
  have inv: "sketch_inv s" using assms by (rule reachable_sketch_inv)
  then obtain s' where s': "deserialize (serialize now s) = Inr s'" "config s' = config s"
      "matrix s' = matrix s" "totalInserts (metrics s') = totalInserts (metrics s)"
    by (auto simp: deserialize_def serialize_def new_sketch_def sketch_inv_def updateFillRatio_def)
  moreover have "sketch_inv s'" using restored_inv [OF inv s'(1)] .
  ultimately show ?thesis
    using inv by (auto simp: sketch_inv_def query_def Let_def calculateErrorBound_def updateAverageTime_def)
qed

theorem cms_roundtrip_witness:
  "\<exists>s. reachable_sketch s \<and> (\<exists>s'. deserialize (serialize 5 s) = Inr s' \<and> matrix s' = matrix s)"
proof -
  obtain s where "new_sketch small_config = Inr s" using new_small ..
  then have "reachable_sketch (insert_item (js ''a'') 1 0 s)"
    by (intro reachable_sketch.intros)
  then show ?thesis using cms_roundtrip by blast
qed

text \<open>
  \<^verbatim>\<open>getTopK\<close> with a non-negative \<open>k\<close> returns at most \<open>k\<close> estimates, all of candidate items, in descending
  order of frequency; every candidate it leaves out is estimated no higher than every one it returns.
\<close>
theorem cms_topK:
  assumes "getTopK k (Some items) s = Inr (best, s')" and "0 \<le> k"
  shows "length best \<le> nat k \<and> est_item ` set best \<subseteq> fst ` set items
    \<and> sorted_wrt (\<lambda>a b. frequency a \<ge> frequency b) best
    \<and> (\<exists>rest. mset (best @ rest) = mset (fst (queryBatch items s))
         \<and> (\<forall>a\<in>set best. \<forall>b\<in>set rest. frequency b \<le> frequency a))"
proof -
  let ?es = "fst (queryBatch items s)"
  let ?sorted = "sort_key (\<lambda>e. - frequency e) ?es"
  have best: "best = take (nat k) ?sorted"
    using assms by (auto simp: getTopK_def js_slice_take split: prod.splits)
  have split: "best @ drop (nat k) ?sorted = ?sorted" by (simp add: best)
  have "sorted_wrt (\<lambda>a b. frequency a \<ge> frequency b) ?sorted"
    using sorted_sort_key [of "\<lambda>e. - frequency e" ?es] by (simp add: sorted_map)
  then have sorted: "sorted_wrt (\<lambda>a b. frequency a \<ge> frequency b) (best @ drop (nat k) ?sorted)"
    by (simp add: split)
  have "set best \<subseteq> set ?es" by (metis set_sort set_take_subset best)
  then have "est_item ` set best \<subseteq> est_item ` set ?es" by blast
  also have "\<dots> = fst ` set items"
    using queryBatch_items [of items s] by (metis image_set)
  finally have items: "est_item ` set best \<subseteq> fst ` set items" .
  have mset: "mset (best @ drop (nat k) ?sorted) = mset ?es" by (simp add: split)
  have "length best \<le> nat k" by (simp add: best)
  then show ?thesis
    using sorted items mset unfolding sorted_wrt_append by blast
qed

theorem cms_topK_witness:
  "\<exists>s best s'. new_sketch small_config = Inr s
     \<and> getTopK 1 (Some [(js ''a'', 0, 0), (js ''b'', 0, 0)]) s = Inr (best, s') \<and> length best \<le> 1"
proof -
  obtain s where s: "new_sketch small_config = Inr s" using new_small ..
  obtain best s' where best: "getTopK 1 (Some [(js ''a'', 0, 0), (js ''b'', 0, 0)]) s = Inr (best, s')"
    using getTopK_returns by blast
  show ?thesis using s best cms_topK [OF best] by auto
qed

text \<open>
  Without a memory limit, \<^verbatim>\<open>createOptimalConfig\<close> returns a configuration the constructor accepts, wide
  enough that \<open>e / width\<close> is at most the requested error rate and deep enough that the failure
  probability \<open>exp (- depth)\<close> is at most one minus the requested confidence.
\<close>
theorem cms_optimal_config:
  assumes "0 < err" and "err < 1" and "0 < conf" and "conf < 1"
  shows "validateConfig (createOptimalConfig err conf None seed) = None
    \<and> exp 1 / real_of_int (width (createOptimalConfig err conf None seed)) \<le> err
    \<and> exp (- real_of_int (depth (createOptimalConfig err conf None seed))) \<le> 1 - conf"
proof -
  let ?c = "createOptimalConfig err conf None seed"
  have w: "width ?c = \<lceil>exp 1 / err\<rceil>" and d: "depth ?c = \<lceil>ln (1 / (1 - conf))\<rceil>"
    and r: "errorRate ?c = err" "confidence ?c = conf"
    by (simp_all add: createOptimalConfig_def Let_def)
  have wge: "exp 1 / err \<le> real_of_int (width ?c)" and dge: "ln (1 / (1 - conf)) \<le> real_of_int (depth ?c)"
    by (simp_all add: w d)
  have wpos: "0 < width ?c" using assms by (simp add: w)
  have "1 < 1 / (1 - conf)" using assms by simp
  then have dpos: "0 < depth ?c" using assms by (simp add: d)
  have 1: "exp 1 / real_of_int (width ?c) \<le> err"
    using wge wpos assms by (simp add: field_simps)
  have "exp (- real_of_int (depth ?c)) \<le> exp (- ln (1 / (1 - conf)))"
    using dge by simp
  also have "\<dots> = 1 - conf" using assms by (simp add: ln_div)
  finally show ?thesis using 1 wpos dpos assms r by (simp add: validateConfig_def)
qed

theorem cms_optimal_config_witness:
  "validateConfig (createOptimalConfig (1/10) (9/10) None 3) = None"
  using cms_optimal_config [of "1/10" "9/10" 3] by simp

lemma ln10_ceiling: "\<lceil>ln (10::real)\<rceil> = 3"
proof -
  have e: "exp (1::real) \<le> 3" "(5/2 :: real) \<le> exp 1"
    using exp_le exp_lower_Taylor_quadratic [of "1::real"] by simp_all
  have "exp (2::real) = exp 1 * exp 1" by (simp flip: exp_add)
  also have "\<dots> \<le> 3 * 3" using e by (intro mult_mono) auto
  finally have "exp (2::real) < 10" by simp
  then have "ln (exp 2) < ln (10::real)" by (subst ln_less_cancel_iff) auto
  then have lo: "2 < ln (10::real)" by simp
  have "exp (3::real) = exp 1 * exp 1 * exp 1" by (simp flip: exp_add)
  also have "\<dots> \<ge> (5/2) * (5/2) * (5/2)" using e by (intro mult_mono) auto
  finally have "10 \<le> exp (3::real)" by simp
  then have "ln (10::real) \<le> ln (exp 3)" by (subst ln_le_cancel_iff) auto
  then have "ln (10::real) \<le> 3" by simp
  with lo show ?thesis by (simp add: ceiling_eq_iff)
qed

text \<open>
  With a memory limit the returned configuration may be one the constructor refuses: the confidence is
  multiplied by \<open>depth / scaledDepth\<close> and can pass 1. For an error rate of 0.1, a confidence of 0.9 and a
  limit of 4 bytes it does.
\<close>
theorem cms_scaled_config_rejected:
  "validateConfig (createOptimalConfig (1/10) (9/10) (Some 4) seed) \<noteq> None"
proof -
  define w where "w = \<lceil>exp 1 / (1/10 :: real)\<rceil>"
  have "2 \<le> exp (1::real)" using exp_ge_add_one_self [of 1] by simp
  then have "20 \<le> w" by (simp add: le_ceiling_iff w_def)
  then have w: "20 \<le> real_of_int w" by linarith
  have d: "\<lceil>ln (1 / (1 - 9/10 :: real))\<rceil> = 3" using ln10_ceiling by simp
  have mem: "real_of_int (w * 3 * 4) > 4" using w by simp
  have "4 / real_of_int (w * 3 * 4) < (1/3)\<^sup>2" using w by (simp add: field_simps power2_eq_square)
  then have "sqrt (4 / real_of_int (w * 3 * 4)) < 1/3" by (intro real_less_lsqrt) auto
  then have "real_of_int 3 * sqrt (4 / real_of_int (w * 3 * 4)) < 1" by simp
  then have m1: "max 1 \<lfloor>real_of_int 3 * sqrt (4 / real_of_int (w * 3 * 4))\<rfloor> = 1" by linarith
  have "confidence (createOptimalConfig (1/10) (9/10) (Some 4) seed) = 27/10"
    using mem m1 unfolding createOptimalConfig_def Let_def d w_def [symmetric] by simp
  then show ?thesis by (auto simp: validateConfig_def)
qed

text \<open>
  \<^verbatim>\<open>merge\<close> compares the dimensions but not the hash seeds. Merging a sketch of another seed in succeeds,
  and whenever the two seeds place an item in different cells of some row, the merged sketch answers that the
  item was never seen, whatever its count was.
\<close>
theorem cms_merge_ignores_seed:
  assumes "new_sketch c = Inr s" and "new_sketch (c\<lparr>hashSeed := seed\<rparr>) = Inr s2"
    and "i < nat (depth c)" and "hashFunction c i item \<noteq> hashFunction (c\<lparr>hashSeed := seed\<rparr>) i item"
  shows "\<exists>m. merge s (run_inserts [(item, amount, t)] s2) = Inr m \<and> frequency (fst (query item t now m)) \<le> 0"
proof -
  let ?c2 = "c\<lparr>hashSeed := seed\<rparr>"
  let ?w = "nat (width c)" and ?d = "nat (depth c)"
  from assms(1,2) have v: "validateConfig c = None"
    and s: "config s = c" "matrix s = initializeMatrix c"
    and s2: "config s2 = ?c2" "matrix s2 = initializeMatrix ?c2"
    by (simp_all add: new_sketch_Inr)
  note pos = valid_configD [OF v]
  define stream where "stream = [(item, amount, t)]"
  let ?r2 = "run_inserts stream s2"
  have ok: "table_ok ?w ?d (matrix ?r2)"
    using murmur_rows.table_ok_run [OF table_ok_initial, of ?c2] by (simp add: s2)
  have j: "hashFunction c i item < ?w" using murmur_rows.h_range [of c i item] pos by simp
  then have zero: "matrix ?r2 ! i ! hashFunction c i item = 0"
    using murmur_rows.cell_run [OF table_ok_initial, of ?c2] assms(3,4) pos
    by (simp add: s2 initial_cell counts_of_def stream_total_def stream_def run_inserts_simps(2)
        del: run_inserts_Cons run_inserts_Nil)
  obtain m where m: "merge s ?r2 = Inr m" "config m = c" "matrix m = add_rows (initializeMatrix c) (matrix ?r2)"
    by (simp add: merge_def s s2 updateFillRatio_def)
  have "frequency (fst (query item t now m)) \<le> matrix m ! i ! hashFunction c i item"
    using min_cells_le [OF assms(3)] by (simp add: m)
  also have "\<dots> = initializeMatrix c ! i ! hashFunction c i item + matrix ?r2 ! i ! hashFunction c i item"
    unfolding m(3) using assms(3) j by (rule nth_add_rows [OF table_ok_initial ok])
  also have "\<dots> = 0" unfolding zero using j assms(3) by (simp add: initial_cell)
  finally show ?thesis using m(1) unfolding stream_def by blast
qed

theorem cms_merge_ignores_seed_witness:
  "\<exists>s s2 m. new_sketch small_config = Inr s \<and> new_sketch (small_config\<lparr>hashSeed := 8\<rparr>) = Inr s2
     \<and> merge s (run_inserts [(js ''a'', 5, 0)] s2) = Inr m \<and> frequency (fst (query (js ''a'') 0 0 m)) \<le> 0"
proof -
  obtain s where s: "new_sketch small_config = Inr s" using new_small ..
  obtain s2 where s2: "new_sketch (small_config\<lparr>hashSeed := 8\<rparr>) = Inr s2"
    by (simp add: new_sketch_def validateConfig_def small_config_def)
  have h: "hashFunction small_config 0 (js ''a'') \<noteq> hashFunction (small_config\<lparr>hashSeed := 8\<rparr>) 0 (js ''a'')"
    by code_simp
  have "0 < nat (depth small_config)" by (simp add: small_config_def)
  then show ?thesis using s s2 cms_merge_ignores_seed [OF s s2 _ h, of 5 0 0] by blast
qed

text \<open>
  The sketch's hash is not MurmurHash3: its products run over doubles, which keep 53 bits, and the low
  bits that are lost are the ones the 32-bit mask keeps. Already the one-byte key \<^verbatim>\<open>a\<close> hashes differently.
  Where a product stays below \<open>2 ^ 53\<close> it is the exact 32-bit product.
\<close>
theorem murmur_differs_from_reference:
  "hash (js ''a'') 0 \<noteq> reference_hash (js ''a'') 0
   \<and> (\<forall>x c. 0 \<le> c \<and> uint x * c < 2 ^ 53 \<longrightarrow> mul_u x c = x * word_of_int c)"
proof
  show "hash (js ''a'') 0 \<noteq> reference_hash (js ''a'') 0" by code_simp
  show "\<forall>x c. 0 \<le> c \<and> uint x * c < 2 ^ 53 \<longrightarrow> mul_u x c = x * word_of_int c"
    using mul_u_exact by blast
qed

theorem murmur_differs_from_reference_witness: "mul_u 12345 C2 = 12345 * word_of_int C2"
proof -
  have "0 \<le> C2 \<and> uint (12345 :: 32 word) * C2 < 2 ^ 53" by (simp add: C2_def)
  then show ?thesis using murmur_differs_from_reference by blast
qed

end
