(* ===== verification/HLLHashFunctions.thy ===== *)
theory HLLHashFunctions
  imports Prelude
begin

text \<open>
  The hash functions of the HyperLogLog (\<^verbatim>\<open>backend/src/core/hyperloglog/HLLHashFunctions.ts\<close>). The code
  computes on bigints, which do not wrap: they are \<open>int\<close>s here, with the same shifts and masks, so that a
  missing mask shows. The published MurmurHash3 on 64-bit words is \<open>reference_hash64\<close>.

  The main facts: the code's hash has up to 65 bits, and the bucket and the rank the HyperLogLog takes from
  it depend on its low 64 bits only; the rank is between 1 and \<open>65 - precision\<close>.
\<close>

unbundle bit_operations_syntax

section \<open>MurmurHash3, 64 bits\<close>

definition mask64 :: int where "mask64 = 18446744073709551615"
definition C1_64 :: int where "C1_64 = 9782798678568883157"
definition C2_64 :: int where "C2_64 = 5545529020109919103"
definition N1 :: int where "N1 = 1390208809"
definition N2 :: int where "N2 = 944331445"

definition multiply64 :: "int \<Rightarrow> int \<Rightarrow> int" where
  "multiply64 a b = (a * b) AND mask64"

definition rotateLeft64 :: "int \<Rightarrow> nat \<Rightarrow> int" where
  "rotateLeft64 v s = (push_bit s v OR drop_bit (64 - s) v) AND mask64"

definition fmix64 :: "int \<Rightarrow> int" where
  "fmix64 k =
     (let k = k XOR drop_bit 33 k;
          k = multiply64 k 18397679294719823053;
          k = k XOR drop_bit 33 k;
          k = multiply64 k 14181476777654086739
      in k XOR drop_bit 33 k)"

definition readUInt32LE64 :: "byte list \<Rightarrow> nat \<Rightarrow> int" where
  "readUInt32LE64 bs i =
     uint (bs ! i) + 256 * uint (bs ! (i + 1)) + 65536 * uint (bs ! (i + 2)) + 16777216 * uint (bs ! (i + 3))"

definition readUInt64LE :: "byte list \<Rightarrow> nat \<Rightarrow> int" where
  "readUInt64LE bs i = push_bit 32 (readUInt32LE64 bs (i + 4)) OR readUInt32LE64 bs i"

definition mixK1 :: "int \<Rightarrow> int" where
  "mixK1 k1 = multiply64 (rotateLeft64 (multiply64 k1 C1_64) 31) C2_64"

definition mixK2 :: "int \<Rightarrow> int" where
  "mixK2 k2 = multiply64 (rotateLeft64 (multiply64 k2 C2_64) 33) C1_64"

text \<open>The loop over the 16-byte blocks; it returns the two lanes and the remaining bytes.\<close>

fun hash_blocks :: "int \<Rightarrow> int \<Rightarrow> byte list \<Rightarrow> int \<times> int \<times> byte list" where
  "hash_blocks h1 h2 bs =
     (if length bs < 16 then (h1, h2, bs)
      else
        let k1 = readUInt64LE bs 0;
            k2 = readUInt64LE bs 8;
            h1 = h1 XOR mixK1 k1;
            h1 = rotateLeft64 h1 27 + h2;
            h1 = multiply64 h1 5 + N1;
            h2 = h2 XOR mixK2 k2;
            h2 = rotateLeft64 h2 31 + h1;
            h2 = multiply64 h2 5 + N2
        in hash_blocks h1 h2 (drop 16 bs))"

declare hash_blocks.simps [simp del]

text \<open>\<^verbatim>\<open>k ^= BigInt(bytes[tail + j]) << 8j\<close> for the bytes of one lane, the highest first\<close>

fun xor_bytes :: "nat \<Rightarrow> byte list \<Rightarrow> int" where
  "xor_bytes s [] = 0"
| "xor_bytes s (b # bs) = xor_bytes (s + 8) bs XOR push_bit s (uint b)"

definition murmur3_64 :: "byte list \<Rightarrow> int \<Rightarrow> int" where
  "murmur3_64 bytes seed =
     (let len = int (length bytes);
          (h1, h2, tail) = hash_blocks seed seed bytes;
          h2 = (if length tail \<ge> 9 then h2 XOR mixK2 (xor_bytes 0 (drop 8 tail)) else h2);
          h1 = (if length tail \<ge> 1 then h1 XOR mixK1 (xor_bytes 0 (take 8 tail)) else h1);
          h1 = h1 XOR len;
          h2 = h2 XOR len;
          h1 = h1 + h2;
          h2 = h2 + h1;
          h1 = fmix64 h1;
          h2 = fmix64 h2
      in h1 + h2)"

section \<open>FNV-1a\<close>

definition FNV_OFFSET_BASIS :: int where "FNV_OFFSET_BASIS = 14695981039346656037"
definition FNV_PRIME :: int where "FNV_PRIME = 1099511628211"

definition fnv1a :: "byte list \<Rightarrow> int" where
  "fnv1a bytes =
     foldl (\<lambda>h b. ((h XOR uint b) * FNV_PRIME) AND mask64) FNV_OFFSET_BASIS bytes"

section \<open>Bucket and rank\<close>

text \<open>The while loop of \<^verbatim>\<open>countLeadingZeros\<close>: \<open>mask\<close> starts at the top bit and moves right.\<close>

function clz_loop :: "int \<Rightarrow> nat \<Rightarrow> int \<Rightarrow> nat \<Rightarrow> nat" where
  "clz_loop val maxBits mk cnt =
     (if val AND mk = 0 \<and> cnt < maxBits then clz_loop val maxBits (drop_bit 1 mk) (Suc cnt)
      else cnt)"
  by pat_completeness auto
termination
  by (relation "measure (\<lambda>(val, maxBits, mk, cnt). maxBits - cnt)") auto

declare clz_loop.simps [simp del]

definition countLeadingZeros :: "int \<Rightarrow> nat \<Rightarrow> nat" where
  "countLeadingZeros val maxBits =
     (if val = 0 then maxBits else clz_loop val maxBits (push_bit (maxBits - 1) 1) 0)"

definition extractBucket :: "int \<Rightarrow> nat \<Rightarrow> nat" where
  "extractBucket h p = nat (h AND (push_bit p 1 - 1))"

definition extractValue :: "int \<Rightarrow> nat \<Rightarrow> int" where
  "extractValue h p = drop_bit p h"

definition getLeadingZeroCount :: "int \<Rightarrow> nat \<Rightarrow> nat" where
  "getLeadingZeroCount h p =
     (let val = extractValue h p; remainingBits = 64 - p
      in if val = 0 then remainingBits + 1 else countLeadingZeros val remainingBits + 1)"

section \<open>The factory\<close>

datatype hash_type = Murmur3 | Xxhash | Fnv1a | UnsupportedHash string

definition createHashFunction :: "hash_type \<Rightarrow> string + (js_string \<Rightarrow> int)" where
  "createHashFunction ty =
     (case ty of
        Murmur3 \<Rightarrow> Inr (\<lambda>s. murmur3_64 (utf8 s) 0)
      | Fnv1a \<Rightarrow> Inr (\<lambda>s. fnv1a (utf8 s))
      | Xxhash \<Rightarrow> Inr (\<lambda>s. murmur3_64 (utf8 s) 0)
      | UnsupportedHash t \<Rightarrow> Inl (''Unsupported hash function type: '' @ t))"

definition getRecommended :: "string + (js_string \<Rightarrow> int)" where
  "getRecommended = createHashFunction Murmur3"

section \<open>The distribution check\<close>

record distribution_report =
  isUniform :: bool
  uniformityScore :: real
  collisionRate :: real
  recommendations :: "string list"

definition bucket_counts :: "int list \<Rightarrow> nat list" where
  "bucket_counts hashes =
     fold (\<lambda>h buckets. let b = nat (h AND 1023) in buckets[b := buckets ! b + 1]) hashes (replicate 1024 0)"

definition validateHashDistribution ::
  "(js_string \<Rightarrow> int) \<Rightarrow> js_string list \<Rightarrow> real \<Rightarrow> distribution_report" where
  "validateHashDistribution f samples expectedUniformity =
     (if length samples < 1000 then
        \<lparr>isUniform = False, uniformityScore = 0, collisionRate = 0,
         recommendations = [''Need at least 1000 samples for reliable distribution analysis'']\<rparr>
      else
        let hashes = map f samples;
            rate = 1 - real (card (set hashes)) / real (length hashes);
            buckets = bucket_counts hashes;
            expected = real (length hashes) / 1024;
            variance = sum_list (map (\<lambda>n. (real n - expected)\<^sup>2) buckets) / 1024;
            score = max 0 (1 - variance / (expected * expected))
        in \<lparr>isUniform = (score \<ge> expectedUniformity), uniformityScore = score, collisionRate = rate,
            recommendations =
              (if score < expectedUniformity
               then [''Hash function shows poor uniformity - consider using a different hash''] else [])
              @ (if rate > 1/100
                 then [''High collision rate detected - hash function may be unsuitable''] else [])
              @ (if score \<ge> expectedUniformity \<and> rate \<le> 1/100
                 then [''Hash function shows good distribution characteristics''] else [])\<rparr>)"

section \<open>The published algorithm on 64-bit words\<close>

definition ref_fmix64 :: "64 word \<Rightarrow> 64 word" where
  "ref_fmix64 k =
     (let k = k XOR drop_bit 33 k;
          k = k * 18397679294719823053;
          k = k XOR drop_bit 33 k;
          k = k * 14181476777654086739
      in k XOR drop_bit 33 k)"

definition ref_rotl :: "nat \<Rightarrow> 64 word \<Rightarrow> 64 word" where
  "ref_rotl s v = push_bit s v OR drop_bit (64 - s) v"

definition ref_mixK1 :: "64 word \<Rightarrow> 64 word" where
  "ref_mixK1 k = ref_rotl 31 (k * word_of_int C1_64) * word_of_int C2_64"

definition ref_mixK2 :: "64 word \<Rightarrow> 64 word" where
  "ref_mixK2 k = ref_rotl 33 (k * word_of_int C2_64) * word_of_int C1_64"

text \<open>Inputs shorter than one block are enough to compare with.\<close>

definition reference_hash64_short :: "byte list \<Rightarrow> 64 word" where
  "reference_hash64_short bytes =
     (let len = word_of_int (int (length bytes));
          h2 = (if length bytes \<ge> 9 then ref_mixK2 (word_of_int (xor_bytes 0 (drop 8 bytes))) else 0);
          h1 = (if length bytes \<ge> 1 then ref_mixK1 (word_of_int (xor_bytes 0 (take 8 bytes))) else 0);
          h1 = h1 XOR len;
          h2 = h2 XOR len;
          h1 = h1 + h2;
          h2 = h2 + h1
      in ref_fmix64 h1 + ref_fmix64 h2)"

section \<open>Ranges\<close>

lemma mask64_eq: "mask64 = mask 64"
  by (simp add: mask64_def mask_eq_exp_minus_1)

lemma and_mask64: "x AND mask64 = take_bit 64 x"
  by (simp add: mask64_eq take_bit_eq_mask)

lemma take_bit64_range: "0 \<le> take_bit 64 (x::int)" "take_bit 64 (x::int) < 2 ^ 64"
  using take_bit_int_less_exp [of 64 x] by simp_all

lemma multiply64_range: "0 \<le> multiply64 a b" "multiply64 a b < 2 ^ 64"
  unfolding multiply64_def and_mask64 by (rule take_bit64_range)+

lemma xor_shift_range:
  fixes k :: int
  assumes "0 \<le> k" and "k < 2 ^ 64"
  shows "0 \<le> k XOR drop_bit n k" and "k XOR drop_bit n k < 2 ^ 64"
proof -
  have "take_bit 64 k = k" using assms by (simp add: take_bit_int_eq_self)
  moreover have "take_bit 64 (drop_bit n k) = drop_bit n k"
  proof (rule take_bit_int_eq_self)
    show "0 \<le> drop_bit n k" using assms by simp
    have "k * 1 \<le> k * 2 ^ n" using assms by (intro mult_left_mono) auto
    then have "k div 2 ^ n \<le> k * 2 ^ n div 2 ^ n" by (intro zdiv_mono1) auto
    then have "drop_bit n k \<le> k" by (simp add: drop_bit_eq_div)
    then show "drop_bit n k < 2 ^ 64" using assms by simp
  qed
  ultimately have "take_bit 64 (k XOR drop_bit n k) = k XOR drop_bit n k" by simp
  then show "0 \<le> k XOR drop_bit n k" and "k XOR drop_bit n k < 2 ^ 64"
    using take_bit64_range [of "k XOR drop_bit n k"] by simp_all
qed

lemma fmix64_range: "0 \<le> fmix64 k" "fmix64 k < 2 ^ 64"
  unfolding fmix64_def Let_def by (intro xor_shift_range multiply64_range)+

lemma murmur3_64_range: "0 \<le> murmur3_64 bytes seed" "murmur3_64 bytes seed < 2 ^ 65"
proof -
  have "\<exists>a b. murmur3_64 bytes seed = fmix64 a + fmix64 b"
    unfolding murmur3_64_def Let_def by (cases "hash_blocks seed seed bytes") (auto simp del: One_nat_def)
  then obtain a b where "murmur3_64 bytes seed = fmix64 a + fmix64 b" by blast
  then show "0 \<le> murmur3_64 bytes seed" "murmur3_64 bytes seed < 2 ^ 65"
    using fmix64_range [of a] fmix64_range [of b] by simp_all
qed

lemma fnv1a_range: "0 \<le> fnv1a bytes \<and> fnv1a bytes < 2 ^ 64"
proof (cases bytes rule: rev_cases)
  case Nil
  then show ?thesis by (simp add: fnv1a_def FNV_OFFSET_BASIS_def)
next
  case (snoc ys y)
  then show ?thesis unfolding fnv1a_def and_mask64 by (simp only: foldl_append foldl.simps) (intro conjI take_bit64_range)
qed

lemma created_hash_nonneg: "createHashFunction ty = Inr f \<Longrightarrow> 0 \<le> f x"
  by (auto simp: createHashFunction_def murmur3_64_range fnv1a_range split: hash_type.splits)

section \<open>The rank\<close>

text \<open>The loop stops at the first set bit below the starting position, or after \<open>maxBits\<close> steps.\<close>

abbreviation (input) clz_at :: "int \<Rightarrow> nat \<Rightarrow> nat \<Rightarrow> nat" where
  "clz_at v n cnt \<equiv> clz_loop v n (2 ^ (n - Suc cnt)) cnt"

lemma clz_at_step:
  assumes "cnt < n"
  shows "clz_at v n cnt =
     (if bit v (n - Suc cnt) then cnt else if Suc cnt < n then clz_at v n (Suc cnt) else n)"
proof (cases "Suc cnt < n")
  case True
  then have "n - Suc cnt = Suc (n - Suc (Suc cnt))" by simp
  then have "drop_bit 1 (2 ^ (n - Suc cnt) :: int) = 2 ^ (n - Suc (Suc cnt))"
    by (simp add: drop_bit_eq_div)
  then show ?thesis
    using True by (subst clz_loop.simps) (simp add: and_exp_eq_0_iff_not_bit)
next
  case False
  then have "Suc cnt = n" using assms by simp
  then show ?thesis
    by (subst clz_loop.simps)
       (auto simp: and_one_eq bit_0 odd_iff_mod_2_eq_one clz_loop.simps [of v n _ n])
qed

lemma clz_at_take_bit: "cnt < n \<Longrightarrow> clz_at v n cnt = clz_at (take_bit n v) n cnt"
proof (induction "n - cnt" arbitrary: cnt rule: less_induct)
  case less
  then have "clz_at v n (Suc cnt) = clz_at (take_bit n v) n (Suc cnt)" if "Suc cnt < n"
    using that by simp
  then show ?case
    using less.prems by (simp add: clz_at_step [OF less.prems] bit_take_bit_iff del: clz_loop.simps)
qed

lemma clz_at_zero: "cnt < n \<Longrightarrow> clz_at 0 n cnt = n"
proof (induction "n - cnt" arbitrary: cnt rule: less_induct)
  case less
  then have "clz_at 0 n (Suc cnt) = n" if "Suc cnt < n"
    using that by simp
  then show ?case by (simp add: clz_at_step [OF less.prems])
qed

lemma countLeadingZeros_take_bit:
  assumes "0 < n"
  shows "countLeadingZeros v n = countLeadingZeros (take_bit n v) n"
proof -
  have "clz_at v n 0 = clz_at (take_bit n v) n 0" using assms by (rule clz_at_take_bit)
  moreover have "clz_at 0 n 0 = n" using assms by (rule clz_at_zero)
  ultimately show ?thesis by (auto simp: countLeadingZeros_def)
qed

lemma clz_loop_bounds:
  "cnt \<le> n \<Longrightarrow> cnt \<le> clz_loop v n mk cnt \<and> clz_loop v n mk cnt \<le> n"
proof (induction v n mk cnt rule: clz_loop.induct)
  case (1 v n mk cnt)
  show ?case
  proof (cases "v AND mk = 0 \<and> cnt < n")
    case True
    with "1" have "Suc cnt \<le> clz_loop v n (drop_bit 1 mk) (Suc cnt) \<and> clz_loop v n (drop_bit 1 mk) (Suc cnt) \<le> n"
      by simp
    with True show ?thesis by (simp add: clz_loop.simps [of v n mk cnt])
  next
    case False
    with "1.prems" show ?thesis by (auto simp: clz_loop.simps [of v n mk cnt])
  qed
qed

lemma countLeadingZeros_le: "countLeadingZeros v n \<le> n"
  using clz_loop_bounds [of 0 n] by (simp add: countLeadingZeros_def)

text \<open>The bits above the result are clear and, if there is one, the bit at it is set.\<close>

lemma clz_at_spec:
  assumes "cnt < n" and "\<forall>j. n - cnt \<le> j \<and> j < n \<longrightarrow> \<not> bit v j"
  shows "(\<forall>j. n - clz_at v n cnt \<le> j \<and> j < n \<longrightarrow> \<not> bit v j)
       \<and> (clz_at v n cnt < n \<longrightarrow> bit v (n - Suc (clz_at v n cnt)))"
  using assms
proof (induction "n - cnt" arbitrary: cnt rule: less_induct)
  case less
  show ?case
  proof (cases "bit v (n - Suc cnt)")
    case True
    then have "clz_at v n cnt = cnt" using clz_at_step [OF less.prems(1), of v] by simp
    then show ?thesis using less.prems True by simp
  next
    case False
    have above: "\<forall>j. n - Suc cnt \<le> j \<and> j < n \<longrightarrow> \<not> bit v j"
    proof (intro allI impI)
      fix j assume j: "n - Suc cnt \<le> j \<and> j < n"
      show "\<not> bit v j"
        using j False less.prems by (cases "j = n - Suc cnt") auto
    qed
    show ?thesis
    proof (cases "Suc cnt < n")
      case True
      have "clz_at v n cnt = clz_at v n (Suc cnt)"
        using clz_at_step [OF less.prems(1), of v] False True by simp
      then show ?thesis using less.hyps [of "Suc cnt"] above True by simp
    next
      case False
      have "clz_at v n cnt = n"
        using clz_at_step [OF less.prems(1), of v] \<open>\<not> bit v (n - Suc cnt)\<close> False by simp
      then show ?thesis using above False less.prems by (auto simp: not_less)
    qed
  qed
qed

lemma countLeadingZeros_spec:
  assumes "0 < n" and "0 \<le> v" and "v < 2 ^ n"
  shows "v < 2 ^ (n - countLeadingZeros v n)
       \<and> (v \<noteq> 0 \<longrightarrow> 2 ^ (n - Suc (countLeadingZeros v n)) \<le> v)"
proof (cases "v = 0")
  case True
  then show ?thesis by (simp add: countLeadingZeros_def)
next
  case False
  let ?r = "clz_at v n 0"
  have r: "countLeadingZeros v n = ?r" using False by (simp add: countLeadingZeros_def)
  have "\<forall>j. n - 0 \<le> j \<and> j < n \<longrightarrow> \<not> bit v j" by auto
  then have spec: "\<forall>j. n - ?r \<le> j \<and> j < n \<longrightarrow> \<not> bit v j" "?r < n \<longrightarrow> bit v (n - Suc ?r)"
    using clz_at_spec [OF assms(1), of v] by blast+
  have high: "\<not> bit v j" if "n \<le> j" for j
    using that assms by (metis bit_take_bit_iff leD take_bit_int_eq_self)
  have low: "j < n - ?r" if "bit v j" for j
    using that spec(1) high by (metis not_le)
  have "take_bit (n - ?r) v = v"
    using low by (intro bit_eqI) (auto simp: bit_take_bit_iff)
  then have up: "v < 2 ^ (n - ?r)"
    using take_bit_int_less_exp [of "n - ?r" v] by simp
  have "?r < n"
  proof (rule ccontr)
    assume "\<not> ?r < n"
    with up assms False show False by simp
  qed
  then have "bit v (n - Suc ?r)" using spec(2) by simp
  then have "2 ^ (n - Suc ?r) \<le> v"
    using assms(2) by (metis bit_take_bit_iff less_irrefl not_le take_bit_int_eq_self)
  then show ?thesis using up r by simp
qed

lemma rank_pos: "0 < getLeadingZeroCount h p"
  by (simp add: getLeadingZeroCount_def Let_def)

lemma rank_le: "p \<le> 64 \<Longrightarrow> getLeadingZeroCount h p \<le> 65 - p"
  using countLeadingZeros_le [of "extractValue h p" "64 - p"]
  by (auto simp: getLeadingZeroCount_def Let_def)

lemma rank_low64:
  assumes "p < 64"
  shows "getLeadingZeroCount h p = getLeadingZeroCount (take_bit 64 h) p"
proof -
  have "drop_bit p (take_bit 64 h) = take_bit (64 - p) (drop_bit p h)"
    by (simp add: drop_bit_take_bit)
  then show ?thesis
    using assms countLeadingZeros_take_bit [of "64 - p" "drop_bit p h"]
    by (auto simp: getLeadingZeroCount_def Let_def extractValue_def countLeadingZeros_def
        split: if_splits)
qed

lemma extractBucket_eq: "extractBucket h p = nat (take_bit p h)"
  by (simp add: extractBucket_def take_bit_eq_mask mask_eq_exp_minus_1)

lemma bucket_low64: "p \<le> 64 \<Longrightarrow> extractBucket h p = extractBucket (take_bit 64 h) p"
  by (simp add: extractBucket_eq)

lemma bucket_range: "extractBucket h p < 2 ^ p"
  using take_bit_int_less_exp [of p h] by (simp add: extractBucket_eq nat_less_iff)

section \<open>Properties\<close>

text \<open>
  For every hash and every precision below 64 the bucket is an index of the register file, the rank is
  between 1 and \<open>65 - precision\<close> and is exactly the position of the highest set bit of the remaining
  \<open>64 - precision\<close> bits, counted from the left; both are functions of the low 64 bits of the hash, so a hash
  that exceeds 64 bits does no harm here.
\<close>
theorem hll_bucket_and_rank:
  assumes "p < 64"
  shows "extractBucket h p < 2 ^ p
    \<and> extractBucket h p = extractBucket (take_bit 64 h) p
    \<and> getLeadingZeroCount h p = getLeadingZeroCount (take_bit 64 h) p
    \<and> 1 \<le> getLeadingZeroCount h p \<and> getLeadingZeroCount h p \<le> 65 - p
    \<and> extractValue (take_bit 64 h) p < 2 ^ (65 - p - getLeadingZeroCount h p)
    \<and> (extractValue (take_bit 64 h) p \<noteq> 0 \<longrightarrow>
         2 ^ (64 - p - getLeadingZeroCount h p) \<le> extractValue (take_bit 64 h) p)"
proof -
  let ?v = "extractValue (take_bit 64 h) p" and ?n = "64 - p"
  have v: "?v = take_bit ?n (drop_bit p h)" by (simp add: extractValue_def drop_bit_take_bit)
  have range: "0 \<le> ?v" "?v < 2 ^ ?n" using take_bit_int_less_exp [of ?n "drop_bit p h"] by (auto simp: v)
  have rank: "getLeadingZeroCount h p = Suc (countLeadingZeros ?v ?n)"
    using rank_low64 [OF assms, of h] by (simp add: getLeadingZeroCount_def countLeadingZeros_def Let_def)
  have "65 - p - Suc c = ?n - c" "?n - Suc c = 64 - p - Suc c" for c using assms by auto
  then show ?thesis
    using countLeadingZeros_spec [of ?n ?v] range assms rank bucket_range [of h p] bucket_low64 [of p h]
      rank_low64 [OF assms, of h] rank_pos [of h p] rank_le [of p h]
    by simp
qed

theorem hll_bucket_and_rank_witness:
  "extractBucket 27280740936907477486 4 < 16
   \<and> getLeadingZeroCount 27280740936907477486 4 = getLeadingZeroCount (take_bit 64 27280740936907477486) 4"
  using hll_bucket_and_rank [of 4 27280740936907477486] by simp

text \<open>
  The 64-bit MurmurHash3 of the code does not mask its final additions and those after each block: the
  one-letter key b hashes to a number above \<open>2^64\<close>, and on a ten-byte key even the low 64 bits differ from
  the published function.
\<close>
theorem murmur64_not_conformant:
  "2 ^ 64 \<le> murmur3_64 (utf8 (js ''b'')) 0
   \<and> take_bit 64 (murmur3_64 (utf8 (js ''0000000000'')) 0)
       \<noteq> uint (reference_hash64_short (utf8 (js ''0000000000'')))"
  by code_simp

end
