(* ===== verification/HyperLogLog.thy ===== *)
theory HyperLogLog
  imports HLLHashFunctions
begin

text \<open>
  The HyperLogLog (\<^verbatim>\<open>backend/src/core/hyperloglog/HyperLogLog.ts\<close>). The two register classes are the
  constructors of \<open>hll_registers\<close>; the object is the record \<open>hll\<close>. The clock and the elapsed times are
  arguments. \<^verbatim>\<open>merge\<close> converts its argument too, so it returns both objects.

  Abstractly a HyperLogLog is a function from buckets to ranks: \<open>regs\<close> reads it off either representation,
  and \<open>add\<close>, \<open>merge\<close> and the conversions refine the pointwise maximum. The locale \<open>register_file\<close> is the
  contract a register class promises; both constructors are instances of it.
\<close>

section \<open>Registers\<close>

datatype hll_registers =
    SparseRegisters nat "(nat, nat) js_map"
  | DenseRegisters nat "nat list"

fun reg_get :: "hll_registers \<Rightarrow> nat \<Rightarrow> nat" where
  "reg_get (SparseRegisters p m) i = get_or0 m i"
| "reg_get (DenseRegisters p xs) i = xs ! i"

fun reg_set :: "nat \<Rightarrow> nat \<Rightarrow> hll_registers \<Rightarrow> hll_registers" where
  "reg_set i v (SparseRegisters p m) =
     SparseRegisters p (if v > 0 then map_set i v m else map_delete i m)"
| "reg_set i v (DenseRegisters p xs) = DenseRegisters p (xs[i := v])"

fun reg_size :: "hll_registers \<Rightarrow> nat" where
  "reg_size (SparseRegisters p m) = 2 ^ p"
| "reg_size (DenseRegisters p xs) = length xs"

fun isSparse :: "hll_registers \<Rightarrow> bool" where
  "isSparse (SparseRegisters p m) = True"
| "isSparse (DenseRegisters p xs) = False"

fun toDense :: "hll_registers \<Rightarrow> nat list" where
  "toDense (SparseRegisters p m) = fold (\<lambda>(i, v) dense. dense[i := v]) m (replicate (2 ^ p) 0)"
| "toDense (DenseRegisters p xs) = xs"

fun toSparse :: "hll_registers \<Rightarrow> (nat, nat) js_map" where
  "toSparse (SparseRegisters p m) = m"
| "toSparse (DenseRegisters p xs) = filter (\<lambda>(i, v). v > 0) (enumerate 0 xs)"

fun reg_memoryUsage :: "hll_registers \<Rightarrow> nat" where
  "reg_memoryUsage (SparseRegisters p m) = 64 + length m * 16"
| "reg_memoryUsage (DenseRegisters p xs) = length xs * 4"

text \<open>\<^verbatim>\<open>utilization > 0.25\<close>; a dense file is never converted.\<close>

fun shouldConvertToDense :: "hll_registers \<Rightarrow> bool" where
  "shouldConvertToDense (SparseRegisters p m) \<longleftrightarrow> real (length m) / 2 ^ p > 1 / 4"
| "shouldConvertToDense (DenseRegisters p xs) \<longleftrightarrow> False"

section \<open>Configuration, metrics, object\<close>

record hll_config =
  precision :: int
  hashFunctionType :: hash_type
  biasCorrection :: bool
  sparseMode :: bool
  maxMemoryMB :: real

record hll_metrics =
  totalAdds :: int
  hllQueries :: int
  currentCardinality :: jsnum
  hllMemoryUsage :: nat
  averageAddTime :: real
  averageCountTime :: real
  sparseThreshold :: real
  hllLastUpdated :: time_ms

record hll =
  hll_cfg :: hll_config
  registers :: hll_registers
  hll_met :: hll_metrics
  alpha :: real

record cardinality_estimate =
  est_count :: jsnum
  est_precision :: int
  est_errorRate :: real
  est_conf :: real
  est_isSparse :: bool
  est_time :: time_ms

datatype hll_error = BadPrecision | BadMemory | UnsupportedHashType string | PrecisionMismatch

definition prec :: "hll_config \<Rightarrow> nat" where
  "prec c = nat (precision c)"

definition hll_validateConfig :: "hll_config \<Rightarrow> hll_error option" where
  "hll_validateConfig c =
     (if precision c < 4 \<or> precision c > 16 then Some BadPrecision
      else if maxMemoryMB c \<le> 0 then Some BadMemory else None)"

definition calculateAlpha :: "hll_config \<Rightarrow> real" where
  "calculateAlpha c =
     (if precision c = 4 then 673/1000 else if precision c = 5 then 697/1000
      else if precision c = 6 then 709/1000
      else (7213/10000) / (1 + (1079/1000) / 2 ^ prec c))"

definition getTheoreticalError :: "hll_config \<Rightarrow> real" where
  "getTheoreticalError c = (104/100) / sqrt (2 ^ prec c)"

definition fresh_registers :: "hll_config \<Rightarrow> hll_registers" where
  "fresh_registers c =
     (if sparseMode c then SparseRegisters (prec c) []
      else DenseRegisters (prec c) (replicate (2 ^ prec c) 0))"

definition hll_initializeMetrics :: "time_ms \<Rightarrow> hll_registers \<Rightarrow> hll_metrics" where
  "hll_initializeMetrics now r =
     \<lparr>totalAdds = 0, hllQueries = 0, currentCardinality = Fin 0, hllMemoryUsage = reg_memoryUsage r,
      averageAddTime = 0, averageCountTime = 0, sparseThreshold = 1/4, hllLastUpdated = now\<rparr>"

text \<open>The constructor validates first, then asks the factory for the hash function, which may raise.\<close>

definition new_hll :: "time_ms \<Rightarrow> hll_config \<Rightarrow> hll_error + hll" where
  "new_hll now c =
     (case hll_validateConfig c of
        Some e \<Rightarrow> Inl e
      | None \<Rightarrow>
          (case createHashFunction (hashFunctionType c) of
             Inl msg \<Rightarrow> Inl (UnsupportedHashType msg)
           | Inr f \<Rightarrow> Inr \<lparr>hll_cfg = c, registers = fresh_registers c,
               hll_met = hll_initializeMetrics now (fresh_registers c), alpha = calculateAlpha c\<rparr>))"

text \<open>The hash function the constructor stored.\<close>

definition hash_of :: "hll_config \<Rightarrow> js_string \<Rightarrow> int" where
  "hash_of c x = (case createHashFunction (hashFunctionType c) of Inr f \<Rightarrow> f x | Inl msg \<Rightarrow> 0)"

section \<open>Operations\<close>

definition convertToDense :: "hll \<Rightarrow> hll" where
  "convertToDense s =
     (if isSparse (registers s)
      then s\<lparr>registers := DenseRegisters (prec (hll_cfg s)) (toDense (registers s))\<rparr> else s)"

definition avg_add :: "real \<Rightarrow> hll_metrics \<Rightarrow> hll_metrics" where
  "avg_add t m = m\<lparr>averageAddTime :=
     (averageAddTime m * (real_of_int (totalAdds m) - 1) + t) / real_of_int (totalAdds m)\<rparr>"

definition avg_query :: "real \<Rightarrow> hll_metrics \<Rightarrow> hll_metrics" where
  "avg_query t m = m\<lparr>averageCountTime :=
     (averageCountTime m * (real_of_int (hllQueries m) - 1) + t) / real_of_int (hllQueries m)\<rparr>"

definition add_rank :: "nat \<Rightarrow> nat \<Rightarrow> hll_registers \<Rightarrow> hll_registers" where
  "add_rank bucket leadingZeros r =
     (if leadingZeros > reg_get r bucket then reg_set bucket leadingZeros r else r)"

definition add :: "js_string \<Rightarrow> real \<Rightarrow> hll \<Rightarrow> hll" where
  "add element addTime s =
     (let h = hash_of (hll_cfg s) element;
          p = prec (hll_cfg s);
          s = s\<lparr>registers := add_rank (extractBucket h p) (getLeadingZeroCount h p) (registers s)\<rparr>;
          s = (if isSparse (registers s) \<and> shouldConvertToDense (registers s) then convertToDense s else s);
          m = (hll_met s)\<lparr>totalAdds := totalAdds (hll_met s) + 1\<rparr>
      in s\<lparr>hll_met := avg_add addTime m\<rparr>)"

definition register_sum :: "hll \<Rightarrow> real" where
  "register_sum s =
     sum_list (map (\<lambda>i. (1/2) ^ reg_get (registers s) i) [0..<2 ^ prec (hll_cfg s)])"

definition calculateRawEstimate :: "hll \<Rightarrow> real" where
  "calculateRawEstimate s =
     (let m = 2 ^ prec (hll_cfg s) in alpha s * m * m / register_sum s)"

definition zero_registers :: "hll \<Rightarrow> nat" where
  "zero_registers s =
     length (filter (\<lambda>i. reg_get (registers s) i = 0) [0..<2 ^ prec (hll_cfg s)])"

text \<open>\<open>- 2^32 * Math.log(1 - raw / 2^32)\<close>: the logarithm of 0 is minus infinity, of a negative number NaN.\<close>

definition large_range :: "real \<Rightarrow> jsnum" where
  "large_range raw =
     (let x = 1 - raw / 2 ^ 32
      in if x > 0 then Fin (- (2 ^ 32) * ln x) else if x = 0 then PInf else NaN)"

definition applyBiasCorrection :: "hll \<Rightarrow> real \<Rightarrow> jsnum" where
  "applyBiasCorrection s raw =
     (let m = 2 ^ prec (hll_cfg s); zeros = zero_registers s
      in if raw \<le> 5/2 * m \<and> zeros \<noteq> 0 then Fin (m * ln (m / real zeros))
         else if raw \<le> 1/30 * 2 ^ 32 then Fin raw
         else large_range raw)"

definition num_less :: "jsnum \<Rightarrow> real \<Rightarrow> bool" where
  "num_less v x \<longleftrightarrow> (case v of Fin y \<Rightarrow> y < x | NInf \<Rightarrow> True | _ \<Rightarrow> False)"

definition num_greater :: "jsnum \<Rightarrow> real \<Rightarrow> bool" where
  "num_greater v x \<longleftrightarrow> (case v of Fin y \<Rightarrow> y > x | PInf \<Rightarrow> True | _ \<Rightarrow> False)"

definition calculateConfidence :: "hll_config \<Rightarrow> jsnum \<Rightarrow> real" where
  "calculateConfidence c estimate =
     (let m = 2 ^ prec c;
          conf = 1 - getTheoreticalError c;
          conf = (if num_less estimate (m * (5/2)) then conf * (8/10) else conf);
          conf = (if num_greater estimate (2 ^ 30) then conf * (9/10) else conf)
      in max (1/2) (min 1 conf))"

text \<open>\<^verbatim>\<open>Math.round\<close>\<close>

definition js_round :: "jsnum \<Rightarrow> jsnum" where
  "js_round v = (case v of Fin x \<Rightarrow> Fin (of_int \<lfloor>x + 1/2\<rfloor>) | _ \<Rightarrow> v)"

definition count_estimate :: "hll \<Rightarrow> jsnum" where
  "count_estimate s =
     (let raw = calculateRawEstimate s
      in if biasCorrection (hll_cfg s) then applyBiasCorrection s raw else Fin raw)"

definition cardinality :: "real \<Rightarrow> time_ms \<Rightarrow> hll \<Rightarrow> cardinality_estimate \<times> hll" where
  "cardinality queryTime now s =
     (let estimate = count_estimate s;
          m = (hll_met s)\<lparr>hllQueries := hllQueries (hll_met s) + 1, currentCardinality := estimate\<rparr>;
          s' = s\<lparr>hll_met := avg_query queryTime m\<rparr>
      in (\<lparr>est_count = js_round estimate, est_precision = precision (hll_cfg s),
           est_errorRate = getTheoreticalError (hll_cfg s),
           est_conf = calculateConfidence (hll_cfg s) estimate,
           est_isSparse = isSparse (registers s), est_time = now\<rparr>, s'))"

text \<open>\<^verbatim>\<open>merge\<close>: the receiver and the argument after the call.\<close>

definition merge_registers :: "hll_registers \<Rightarrow> hll_registers \<Rightarrow> hll_registers" where
  "merge_registers r other =
     fold (\<lambda>i r. reg_set i (max (reg_get r i) (reg_get other i)) r) [0..<reg_size r] r"

definition merge_hll :: "hll \<Rightarrow> hll \<Rightarrow> hll_error + (hll \<times> hll)" where
  "merge_hll s other =
     (if precision (hll_cfg s) \<noteq> precision (hll_cfg other) then Inl PrecisionMismatch
      else
        let dense = (\<not> isSparse (registers s) \<or> \<not> isSparse (registers other));
            s = (if dense then convertToDense s else s);
            other = (if dense then convertToDense other else other);
            s = s\<lparr>registers := merge_registers (registers s) (registers other),
                  hll_met := (hll_met s)\<lparr>totalAdds := totalAdds (hll_met s) + totalAdds (hll_met other)\<rparr>\<rparr>
        in Inr (s, other))"

definition clear_hll :: "hll \<Rightarrow> hll" where
  "clear_hll s =
     s\<lparr>registers := fresh_registers (hll_cfg s),
       hll_met := (hll_met s)\<lparr>totalAdds := 0, currentCardinality := Fin 0\<rparr>\<rparr>"

definition getMetrics :: "time_ms \<Rightarrow> hll \<Rightarrow> hll_metrics \<times> hll" where
  "getMetrics now s =
     (let m = (hll_met s)\<lparr>hllMemoryUsage := reg_memoryUsage (registers s), hllLastUpdated := now\<rparr>
      in (m, s\<lparr>hll_met := m\<rparr>))"

definition isMemoryUsageHealthy :: "hll \<Rightarrow> bool" where
  "isMemoryUsageHealthy s \<longleftrightarrow>
     real (reg_memoryUsage (registers s)) \<le> maxMemoryMB (hll_cfg s) * 1024 * 1024"

section \<open>Persistence\<close>

datatype register_data = MapData "(nat, nat) js_map" | ArrayData "nat list"

record hll_data =
  hd_config :: hll_config
  hd_registers :: register_data
  hd_sparseMode :: bool
  hd_cardinality :: jsnum
  hd_totalAdds :: int
  hd_lastUpdated :: time_ms
  hd_version :: string

definition serialize_hll :: "time_ms \<Rightarrow> hll \<Rightarrow> hll_data" where
  "serialize_hll now s =
     \<lparr>hd_config = hll_cfg s,
      hd_registers = (if isSparse (registers s) then MapData (toSparse (registers s))
                      else ArrayData (toDense (registers s))),
      hd_sparseMode = isSparse (registers s), hd_cardinality = currentCardinality (hll_met s),
      hd_totalAdds = totalAdds (hll_met s), hd_lastUpdated = now, hd_version = ''1.0.0''\<rparr>"

definition deserialize_hll :: "time_ms \<Rightarrow> hll_data \<Rightarrow> hll_error + hll" where
  "deserialize_hll now d =
     (case new_hll now (hd_config d) of
        Inl e \<Rightarrow> Inl e
      | Inr s \<Rightarrow>
          (let p = prec (hd_config d);
               r = (case hd_registers d of
                      MapData m \<Rightarrow>
                        if hd_sparseMode d
                        then fold (\<lambda>(i, v). reg_set i v) m (SparseRegisters p [])
                        else registers s
                    | ArrayData xs \<Rightarrow> DenseRegisters p xs)
           in Inr (s\<lparr>registers := r,
                     hll_met := (hll_met s)\<lparr>totalAdds := hd_totalAdds d,
                                            currentCardinality := hd_cardinality d\<rparr>\<rparr>)))"

section \<open>The contract of a register file\<close>

locale register_file =
  fixes get :: "'r \<Rightarrow> nat \<Rightarrow> nat" and upd :: "nat \<Rightarrow> nat \<Rightarrow> 'r \<Rightarrow> 'r"
    and ok :: "'r \<Rightarrow> bool" and n :: nat
  assumes get_upd: "ok r \<Longrightarrow> i < n \<Longrightarrow> j < n \<Longrightarrow> get (upd i v r) j = (if j = i then v else get r j)"
    and ok_upd: "ok r \<Longrightarrow> i < n \<Longrightarrow> ok (upd i v r)"
begin

lemma raise_ok: "ok r \<Longrightarrow> b < n \<Longrightarrow> ok (if v > get r b then upd b v r else r)"
  by (simp add: ok_upd)

lemma raise_get:
  "ok r \<Longrightarrow> b < n \<Longrightarrow> j < n \<Longrightarrow>
   get (if v > get r b then upd b v r else r) j = (if j = b then max (get r j) v else get r j)"
  by (auto simp: get_upd max_def)

lemma merge_fold:
  assumes "ok r" and "k \<le> n"
  shows "ok (fold (\<lambda>i r. upd i (max (get r i) (f i)) r) [0..<k] r)
    \<and> (\<forall>j<n. get (fold (\<lambda>i r. upd i (max (get r i) (f i)) r) [0..<k] r) j =
         (if j < k then max (get r j) (f j) else get r j))"
  using assms(2)
proof (induction k)
  case 0
  then show ?case using assms(1) by simp
next
  case (Suc k)
  then show ?case by (auto simp: get_upd ok_upd less_Suc_eq)
qed

end

fun regs_ok :: "nat \<Rightarrow> hll_registers \<Rightarrow> bool" where
  "regs_ok p (SparseRegisters q m) \<longleftrightarrow> q = p \<and> js_map_ok m \<and> (\<forall>(i, v)\<in>set m. i < 2 ^ p \<and> 0 < v)"
| "regs_ok p (DenseRegisters q xs) \<longleftrightarrow> q = p \<and> length xs = 2 ^ p"

lemma get_or0_delete: "get_or0 (map_delete k m) j = (if j = k then 0 else get_or0 m j)"
  by (simp add: get_or0_def delete_conv')

interpretation hll_file: register_file reg_get reg_set "regs_ok p" "2 ^ p" for p
proof
  fix r :: hll_registers and i j v p :: nat
  assume "regs_ok p r" "i < 2 ^ p" "j < 2 ^ p"
  then show "reg_get (reg_set i v r) j = (if j = i then v else reg_get r j)"
    by (cases r) (auto simp: get_or0_set get_or0_delete)
next
  fix r :: hll_registers and i v p :: nat
  assume "regs_ok p r" "i < 2 ^ p"
  then show "regs_ok p (reg_set i v r)"
    by (cases r) (auto simp: keeps_inv dest!: subsetD [OF set_update_subset] subsetD [OF set_delete_subset])
qed

section \<open>Conversion keeps the registers\<close>

lemma nth_fold_dense:
  "js_map_ok m \<Longrightarrow> \<forall>(i, v)\<in>set m. i < length xs \<Longrightarrow> j < length xs \<Longrightarrow>
   fold (\<lambda>(i, v) dense. dense[i := v]) m xs ! j = (case map_of m j of None \<Rightarrow> xs ! j | Some v \<Rightarrow> v)"
proof (induction m arbitrary: xs)
  case Nil
  then show ?case by simp
next
  case (Cons p m)
  then show ?case
    by (cases p) (auto simp: js_map_ok_def nth_list_update map_of_eq_None_iff image_iff
        split: option.splits dest: map_of_SomeD)
qed

lemma length_fold_dense [simp]: "length (fold (\<lambda>(i, v) dense. dense[i := v]) m xs) = length xs"
  by (induction m arbitrary: xs) (auto split: prod.splits)

lemma toDense_nth: "regs_ok p r \<Longrightarrow> i < 2 ^ p \<Longrightarrow> toDense r ! i = reg_get r i"
  by (cases r)
     (auto simp: nth_fold_dense [of _ "replicate (2 ^ p) 0"] case_prod_beta get_or0_def split: option.splits)

lemma length_toDense: "regs_ok p r \<Longrightarrow> length (toDense r) = 2 ^ p"
  by (cases r) auto

lemma convertToDense_simps [simp]:
  "hll_cfg (convertToDense s) = hll_cfg s" "hll_met (convertToDense s) = hll_met s"
  "alpha (convertToDense s) = alpha s"
  by (simp_all add: convertToDense_def)

lemma convertToDense_get:
  "regs_ok (prec (hll_cfg s)) (registers s) \<Longrightarrow> i < 2 ^ prec (hll_cfg s) \<Longrightarrow>
   reg_get (registers (convertToDense s)) i = reg_get (registers s) i"
  by (simp add: convertToDense_def toDense_nth)

lemma convertToDense_if_get:
  "regs_ok (prec (hll_cfg s)) (registers s) \<Longrightarrow> i < 2 ^ prec (hll_cfg s) \<Longrightarrow>
   reg_get (registers (if b then convertToDense s else s)) i = reg_get (registers s) i"
  by (simp add: convertToDense_get)

lemma convertToDense_ok:
  "regs_ok (prec (hll_cfg s)) (registers s) \<Longrightarrow> regs_ok (prec (hll_cfg s)) (registers (convertToDense s))"
  by (simp add: convertToDense_def length_toDense)

section \<open>The invariant\<close>

definition hll_inv :: "hll \<Rightarrow> bool" where
  "hll_inv s \<longleftrightarrow>
     hll_validateConfig (hll_cfg s) = None
     \<and> (\<exists>f. createHashFunction (hashFunctionType (hll_cfg s)) = Inr f)
     \<and> regs_ok (prec (hll_cfg s)) (registers s)
     \<and> (\<forall>i<2 ^ prec (hll_cfg s). reg_get (registers s) i \<le> 65 - prec (hll_cfg s))
     \<and> alpha s = calculateAlpha (hll_cfg s)"

lemma prec_range: "hll_validateConfig c = None \<Longrightarrow> 4 \<le> prec c \<and> prec c \<le> 16"
  by (auto simp: hll_validateConfig_def prec_def nat_le_iff le_nat_iff split: if_splits)

abbreviation bucket_of :: "hll_config \<Rightarrow> js_string \<Rightarrow> nat" where
  "bucket_of c x \<equiv> extractBucket (hash_of c x) (prec c)"

abbreviation rank_of :: "hll_config \<Rightarrow> js_string \<Rightarrow> nat" where
  "rank_of c x \<equiv> getLeadingZeroCount (hash_of c x) (prec c)"

lemma fresh_registers_ok: "regs_ok (prec c) (fresh_registers c)"
  by (simp add: fresh_registers_def)

lemma fresh_registers_get: "i < 2 ^ prec c \<Longrightarrow> reg_get (fresh_registers c) i = 0"
  by (simp add: fresh_registers_def get_or0_def)

lemma new_hll_Inr:
  "new_hll now c = Inr s \<longleftrightarrow>
     hll_validateConfig c = None \<and> (\<exists>f. createHashFunction (hashFunctionType c) = Inr f) \<and>
     s = \<lparr>hll_cfg = c, registers = fresh_registers c,
          hll_met = hll_initializeMetrics now (fresh_registers c), alpha = calculateAlpha c\<rparr>"
  by (auto simp: new_hll_def split: option.splits sum.splits)

lemma new_hll_inv [keeps_inv]: "new_hll now c = Inr s \<Longrightarrow> hll_inv s"
  by (auto simp: new_hll_Inr hll_inv_def fresh_registers_ok fresh_registers_get)

lemma add_simps [simp]: "hll_cfg (add x t s) = hll_cfg s" "alpha (add x t s) = alpha s"
  by (simp_all add: add_def Let_def avg_add_def)

lemma add_registers:
  assumes "regs_ok (prec (hll_cfg s)) (registers s)"
  shows "regs_ok (prec (hll_cfg s)) (registers (add x t s))"
    and "i < 2 ^ prec (hll_cfg s) \<Longrightarrow> reg_get (registers (add x t s)) i =
      (if i = bucket_of (hll_cfg s) x then max (reg_get (registers s) i) (rank_of (hll_cfg s) x)
       else reg_get (registers s) i)"
proof -
  let ?c = "hll_cfg s"
  let ?s1 = "s\<lparr>registers := add_rank (bucket_of ?c x) (rank_of ?c x) (registers s)\<rparr>"
  have b: "bucket_of ?c x < 2 ^ prec ?c" by (rule bucket_range)
  have ok1: "regs_ok (prec (hll_cfg ?s1)) (registers ?s1)"
    unfolding add_rank_def using hll_file.raise_ok [OF assms b] by simp
  have get1: "reg_get (registers ?s1) i = (if i = bucket_of ?c x
      then max (reg_get (registers s) i) (rank_of ?c x) else reg_get (registers s) i)"
    if "i < 2 ^ prec ?c" for i
    unfolding add_rank_def using hll_file.raise_get [OF assms b that] by simp
  have regs: "registers (add x t s) =
      registers (if isSparse (registers ?s1) \<and> shouldConvertToDense (registers ?s1) then convertToDense ?s1 else ?s1)"
    by (simp add: add_def Let_def avg_add_def)
  show "regs_ok (prec ?c) (registers (add x t s))"
    unfolding regs using ok1 convertToDense_ok [OF ok1] by simp
  show "reg_get (registers (add x t s)) i = (if i = bucket_of ?c x
      then max (reg_get (registers s) i) (rank_of ?c x) else reg_get (registers s) i)"
    if "i < 2 ^ prec ?c"
    using get1 [OF that] convertToDense_if_get [OF ok1, of i] that unfolding regs by simp
qed

lemma add_inv [keeps_inv]: "hll_inv s \<Longrightarrow> hll_inv (add x t s)"
proof -
  assume inv: "hll_inv s"
  have "rank_of (hll_cfg s) x \<le> 65 - prec (hll_cfg s)"
    using inv prec_range [of "hll_cfg s"] by (intro rank_le) (auto simp: hll_inv_def)
  then show ?thesis using inv add_registers by (auto simp: hll_inv_def)
qed

lemma cardinality_simps [simp]:
  "hll_cfg (snd (cardinality t now s)) = hll_cfg s" "registers (snd (cardinality t now s)) = registers s"
  "alpha (snd (cardinality t now s)) = alpha s"
  by (simp_all add: cardinality_def Let_def avg_query_def)

lemma cardinality_inv [keeps_inv]: "hll_inv s \<Longrightarrow> hll_inv (snd (cardinality t now s))"
  by (simp add: hll_inv_def)

lemma clear_hll_inv [keeps_inv]: "hll_inv s \<Longrightarrow> hll_inv (clear_hll s)"
  by (simp add: hll_inv_def clear_hll_def fresh_registers_ok fresh_registers_get)

lemma reg_size_ok: "regs_ok p r \<Longrightarrow> reg_size r = 2 ^ p"
  by (cases r) auto

lemma merge_registers_get:
  assumes "regs_ok p r"
  shows "regs_ok p (merge_registers r other)"
    and "i < 2 ^ p \<Longrightarrow> reg_get (merge_registers r other) i = max (reg_get r i) (reg_get other i)"
  using hll_file.merge_fold [OF assms order_refl, of "reg_get other"]
  by (simp_all add: merge_registers_def reg_size_ok [OF assms])

lemma merge_hll_registers:
  assumes "merge_hll s other = Inr (s', other')"
    and "regs_ok (prec (hll_cfg s)) (registers s)" and "regs_ok (prec (hll_cfg other)) (registers other)"
  shows "hll_cfg s' = hll_cfg s" "alpha s' = alpha s"
    and "regs_ok (prec (hll_cfg s)) (registers s')"
    and "i < 2 ^ prec (hll_cfg s) \<Longrightarrow>
      reg_get (registers s') i = max (reg_get (registers s) i) (reg_get (registers other) i)"
proof -
  define b where "b \<longleftrightarrow> \<not> isSparse (registers s) \<or> \<not> isSparse (registers other)"
  define s1 where "s1 = (if b then convertToDense s else s)"
  define o1 where "o1 = (if b then convertToDense other else other)"
  have p: "prec (hll_cfg other) = prec (hll_cfg s)"
    using assms(1) by (auto simp: merge_hll_def prec_def split: if_splits)
  have s': "s' = s1\<lparr>registers := merge_registers (registers s1) (registers o1),
      hll_met := (hll_met s1)\<lparr>totalAdds := totalAdds (hll_met s1) + totalAdds (hll_met o1)\<rparr>\<rparr>"
    using assms(1) by (auto simp: merge_hll_def Let_def b_def s1_def o1_def split: if_splits)
  have ok: "regs_ok (prec (hll_cfg s)) (registers s1)"
    using assms(2) convertToDense_ok [OF assms(2)] by (simp add: s1_def)
  show "hll_cfg s' = hll_cfg s" "alpha s' = alpha s" by (simp_all add: s' s1_def)
  show "regs_ok (prec (hll_cfg s)) (registers s')"
    using merge_registers_get(1) [OF ok] by (simp add: s')
  show "reg_get (registers s') i = max (reg_get (registers s) i) (reg_get (registers other) i)"
    if "i < 2 ^ prec (hll_cfg s)"
    using merge_registers_get(2) [OF ok that, of "registers o1"] that p
      convertToDense_get [OF assms(2) that] convertToDense_get [OF assms(3), of i]
    by (simp add: s' s1_def o1_def)
qed

lemma merge_hll_inv [keeps_inv]:
  assumes "hll_inv s" and "hll_inv other" and "merge_hll s other = Inr (s', other')"
  shows "hll_inv s'"
proof -
  have p: "prec (hll_cfg other) = prec (hll_cfg s)"
    using assms(3) by (auto simp: merge_hll_def prec_def split: if_splits)
  show ?thesis
    using assms(1,2) merge_hll_registers [OF assms(3)] p by (auto simp: hll_inv_def)
qed

section \<open>The set a HyperLogLog stands for\<close>

text \<open>The register contents for a finite set of elements: the highest rank in each bucket.\<close>

definition ideal_register :: "hll_config \<Rightarrow> js_string set \<Rightarrow> nat \<Rightarrow> nat" where
  "ideal_register c X i = Max (insert 0 (rank_of c ` {x\<in>X. bucket_of c x = i}))"

definition run_adds :: "(js_string \<times> real) list \<Rightarrow> hll \<Rightarrow> hll" where
  "run_adds xs s = fold (\<lambda>(x, t). add x t) xs s"

definition represents :: "hll \<Rightarrow> js_string set \<Rightarrow> bool" where
  "represents s X \<longleftrightarrow>
     finite X \<and> hll_inv s \<and>
     (\<forall>i<2 ^ prec (hll_cfg s). reg_get (registers s) i = ideal_register (hll_cfg s) X i)"

lemma ideal_register_empty: "ideal_register c {} i = 0"
  by (simp add: ideal_register_def)

lemma ideal_register_insert:
  assumes "finite X"
  shows "ideal_register c (insert x X) i =
    (if i = bucket_of c x then max (ideal_register c X i) (rank_of c x) else ideal_register c X i)"
proof -
  have "{y \<in> insert x X. bucket_of c y = i} =
      (if bucket_of c x = i then insert x {y\<in>X. bucket_of c y = i} else {y\<in>X. bucket_of c y = i})"
    by auto
  then show ?thesis
    using assms by (auto simp: ideal_register_def insert_commute [of 0] Max_insert max.commute)
qed

lemma ideal_register_union:
  assumes "finite X" and "finite Y"
  shows "ideal_register c (X \<union> Y) i = max (ideal_register c X i) (ideal_register c Y i)"
  using assms(1)
proof (induction X rule: finite_induct)
  case empty
  then show ?case by (simp add: ideal_register_empty)
next
  case (insert x X)
  then show ?case using assms(2)
    by (auto simp: ideal_register_insert max.assoc max.commute max.left_commute)
qed

lemma represents_new: "new_hll now c = Inr s \<Longrightarrow> represents s {}"
  by (auto simp: represents_def ideal_register_empty new_hll_inv)
     (auto simp: new_hll_Inr fresh_registers_get)

lemma represents_add: "represents s X \<Longrightarrow> represents (add x t s) (insert x X)"
proof -
  assume r: "represents s X"
  then have "regs_ok (prec (hll_cfg s)) (registers s)" by (simp add: represents_def hll_inv_def)
  from add_registers(2) [OF this] show ?thesis
    using r by (simp add: represents_def add_inv ideal_register_insert)
qed

lemma run_adds_cfg [simp]: "hll_cfg (run_adds xs s) = hll_cfg s"
  by (induction xs arbitrary: s) (auto simp: run_adds_def)

lemma represents_run: "represents s X \<Longrightarrow> represents (run_adds xs s) (fst ` set xs \<union> X)"
proof (induction xs arbitrary: s X)
  case Nil
  then show ?case by (simp add: run_adds_def)
next
  case (Cons a xs)
  obtain x t where a: "a = (x, t)" by fastforce
  have "represents (run_adds xs (add x t s)) (fst ` set xs \<union> insert x X)"
    using Cons.prems by (intro Cons.IH represents_add)
  then show ?case by (simp add: run_adds_def a)
qed

lemma represents_merge:
  assumes "represents s X" and "represents other Y" and "hll_cfg other = hll_cfg s"
    and "merge_hll s other = Inr (s', other')"
  shows "represents s' (X \<union> Y)"
  using assms merge_hll_registers [OF assms(4)] merge_hll_inv [OF _ _ assms(4)]
  by (auto simp: represents_def ideal_register_union hll_inv_def)

text \<open>The estimate reads nothing but the configuration, \<open>alpha\<close> and the registers.\<close>

lemma register_sum_cong:
  assumes "hll_cfg s = hll_cfg s'"
    and "\<And>i. i < 2 ^ prec (hll_cfg s) \<Longrightarrow> reg_get (registers s) i = reg_get (registers s') i"
  shows "register_sum s = register_sum s'" and "zero_registers s = zero_registers s'"
proof -
  show "register_sum s = register_sum s'"
    unfolding register_sum_def using assms by (intro arg_cong [where f = sum_list] map_cong) auto
  show "zero_registers s = zero_registers s'"
    unfolding zero_registers_def using assms by (intro arg_cong [where f = length] filter_cong) auto
qed

lemma estimate_of_set:
  assumes "represents s X" and "represents s' X" and "hll_cfg s = hll_cfg s'"
  shows "count_estimate s = count_estimate s'"
proof -
  have "reg_get (registers s) i = reg_get (registers s') i" if "i < 2 ^ prec (hll_cfg s)" for i
    using assms that by (simp add: represents_def)
  note regs = register_sum_cong [OF assms(3) this]
  have "alpha s = alpha s'" using assms by (simp add: represents_def hll_inv_def)
  then show ?thesis
    using regs assms(3)
    by (simp add: count_estimate_def calculateRawEstimate_def applyBiasCorrection_def Let_def)
qed

lemma register_sum_pos: "0 < register_sum s"
proof -
  have "(0::nat) \<in> set [0..<2 ^ prec (hll_cfg s)]" by simp
  then have "(1/2::real) ^ reg_get (registers s) 0 \<le> register_sum s"
    unfolding register_sum_def
    by (intro sum_list_ge_member) (auto intro!: imageI)
  then show ?thesis using zero_less_power [of "1/2::real"] by (meson half_gt_zero_iff less_le_trans zero_less_one)
qed

lemma calculateAlpha_pos: "0 < calculateAlpha c"
  by (auto simp: calculateAlpha_def add_pos_pos intro!: divide_pos_pos)

lemma register_sum_antimono:
  assumes "hll_cfg s = hll_cfg s'"
    and "\<And>i. i < 2 ^ prec (hll_cfg s) \<Longrightarrow> reg_get (registers s) i \<le> reg_get (registers s') i"
  shows "register_sum s' \<le> register_sum s"
  unfolding register_sum_def using assms
  by (auto intro!: sum_list_mono power_decreasing)

text \<open>Bounds of the raw estimate, and its growth with the registers.\<close>

lemma register_sum_le: "register_sum s \<le> 2 ^ prec (hll_cfg s)"
proof -
  have "register_sum s \<le> sum_list (map (\<lambda>i. 1) [0..<2 ^ prec (hll_cfg s)])"
    unfolding register_sum_def by (intro sum_list_mono power_le_one) auto
  then show ?thesis by (simp add: sum_list_triv)
qed

lemma raw_estimate_ge: "alpha s > 0 \<Longrightarrow> alpha s * 2 ^ prec (hll_cfg s) \<le> calculateRawEstimate s"
  using register_sum_le [of s] register_sum_pos [of s]
  by (simp add: calculateRawEstimate_def Let_def pos_le_divide_eq mult_left_mono)

lemma raw_estimate_mono:
  assumes "hll_cfg s = hll_cfg s'" and "alpha s = alpha s'" and "alpha s > 0"
    and "\<And>i. i < 2 ^ prec (hll_cfg s) \<Longrightarrow> reg_get (registers s) i \<le> reg_get (registers s') i"
  shows "calculateRawEstimate s \<le> calculateRawEstimate s'"
  using register_sum_antimono [OF assms(1,4)] register_sum_pos [of s'] assms
  by (simp add: calculateRawEstimate_def Let_def divide_left_mono)

section \<open>Serialisation\<close>

lemma fold_reg_set:
  "js_map_ok (acc @ m) \<Longrightarrow> \<forall>(i, v)\<in>set m. 0 < v \<Longrightarrow>
   fold (\<lambda>(i, v). reg_set i v) m (SparseRegisters p acc) = SparseRegisters p (acc @ m)"
proof (induction m arbitrary: acc)
  case Nil
  then show ?case by simp
next
  case (Cons a m)
  obtain k v where a: "a = (k, v)" by fastforce
  have "k \<notin> fst ` set acc" using Cons.prems by (auto simp: a js_map_ok_def)
  then show ?case using Cons.IH [of "acc @ [(k, v)]"] Cons.prems by (simp add: a update_fresh)
qed

lemma deserialize_serialize:
  assumes "hll_inv s"
  shows "\<exists>s'. deserialize_hll now (serialize_hll now' s) = Inr s' \<and> hll_cfg s' = hll_cfg s
    \<and> registers s' = registers s \<and> alpha s' = alpha s
    \<and> totalAdds (hll_met s') = totalAdds (hll_met s)
    \<and> currentCardinality (hll_met s') = currentCardinality (hll_met s)"
proof -
  obtain z where z: "new_hll now (hll_cfg s) = Inr z" "hll_cfg z = hll_cfg s" "alpha z = alpha s"
    using assms by (auto simp: new_hll_Inr hll_inv_def)
  show ?thesis
    using assms z
    by (cases "registers s")
       (auto simp: deserialize_hll_def serialize_hll_def hll_inv_def Let_def split_def
         fold_reg_set [of "[]", unfolded split_def, simplified])
qed

section \<open>Reachable objects\<close>

inductive reachable_hll :: "hll \<Rightarrow> bool" where
  create: "new_hll now c = Inr s \<Longrightarrow> reachable_hll s"
| adding: "reachable_hll s \<Longrightarrow> reachable_hll (add x t s)"
| counting: "reachable_hll s \<Longrightarrow> reachable_hll (snd (cardinality t now s))"
| metrics: "reachable_hll s \<Longrightarrow> reachable_hll (snd (getMetrics now s))"
| clearing: "reachable_hll s \<Longrightarrow> reachable_hll (clear_hll s)"
| merging: "reachable_hll s \<Longrightarrow> reachable_hll other \<Longrightarrow> merge_hll s other = Inr (s', other') \<Longrightarrow> reachable_hll s'"
| merged_in: "reachable_hll s \<Longrightarrow> reachable_hll other \<Longrightarrow> merge_hll s other = Inr (s', other') \<Longrightarrow> reachable_hll other'"
| restoring: "reachable_hll s \<Longrightarrow> deserialize_hll now (serialize_hll now' s) = Inr s' \<Longrightarrow> reachable_hll s'"

lemma getMetrics_inv [keeps_inv]: "hll_inv s \<Longrightarrow> hll_inv (snd (getMetrics now s))"
  by (simp add: getMetrics_def hll_inv_def Let_def)

lemma convertToDense_inv [keeps_inv]: "hll_inv s \<Longrightarrow> hll_inv (convertToDense s)"
  by (auto simp: hll_inv_def convertToDense_ok convertToDense_get)

lemma merge_hll_other:
  "merge_hll s other = Inr (s', other') \<Longrightarrow> other' = other \<or> other' = convertToDense other"
  by (auto simp: merge_hll_def Let_def split: if_splits)

lemma restore_inv [keeps_inv]:
  "hll_inv s \<Longrightarrow> deserialize_hll now (serialize_hll now' s) = Inr s' \<Longrightarrow> hll_inv s'"
  using deserialize_serialize [of s now now'] by (auto simp: hll_inv_def)

lemma reachable_hll_inv: "reachable_hll s \<Longrightarrow> hll_inv s"
proof (induction rule: reachable_hll.induct)
  case (merged_in s other s' other')
  then show ?case using merge_hll_other by (metis convertToDense_inv)
qed (auto intro: keeps_inv)

lemma hll_inv_alpha: "hll_inv s \<Longrightarrow> 0 < alpha s"
  by (simp add: hll_inv_def calculateAlpha_pos)

section \<open>Properties\<close>

definition hll_small_config :: hll_config where
  "hll_small_config = \<lparr>precision = 4, hashFunctionType = Fnv1a, biasCorrection = True,
     sparseMode = True, maxMemoryMB = 1\<rparr>"

lemma new_hll_small: "\<exists>s. new_hll 0 hll_small_config = Inr s"
  by (simp add: new_hll_def hll_small_config_def hll_validateConfig_def createHashFunction_def)

text \<open>
  C3. After any sequence of additions to a new HyperLogLog, in either representation and whatever
  conversions happened on the way, register \<open>i\<close> holds the highest rank among the elements added whose hash
  falls into bucket \<open>i\<close> (0 if there is none): a function of the set of elements alone.
\<close>
theorem hll_registers_of_set:
  assumes "new_hll now c = Inr s" and "i < 2 ^ prec c"
  shows "reg_get (registers (run_adds xs s)) i = ideal_register c (fst ` set xs) i"
proof -
  have "represents (run_adds xs s) (fst ` set xs)"
    using represents_run [OF represents_new [OF assms(1)]] by simp
  then show ?thesis using assms by (auto simp: represents_def new_hll_Inr)
qed

theorem hll_registers_of_set_witness:
  "\<exists>s. new_hll 0 hll_small_config = Inr s
     \<and> reg_get (registers (run_adds [(js ''a'', 1), (js ''b'', 1)] s)) 3
         = ideal_register hll_small_config {js ''a'', js ''b''} 3"
proof -
  obtain s where s: "new_hll 0 hll_small_config = Inr s" using new_hll_small ..
  show ?thesis
    using s hll_registers_of_set [OF s, of 3 "[(js ''a'', 1), (js ''b'', 1)]"]
    by (auto simp: hll_small_config_def prec_def)
qed

text \<open>
  The cardinality estimate depends only on the set of elements added: neither duplicates nor the order
  of additions change the reported count.
\<close>
theorem hll_count_of_set:
  assumes "new_hll now c = Inr s" and "new_hll now' c = Inr s'" and "fst ` set xs = fst ` set ys"
  shows "est_count (fst (cardinality t n (run_adds xs s))) =
         est_count (fst (cardinality t' n' (run_adds ys s')))"
proof -
  have "represents (run_adds xs s) (fst ` set xs)" "represents (run_adds ys s') (fst ` set ys)"
    using represents_run [OF represents_new [OF assms(1)]] represents_run [OF represents_new [OF assms(2)]]
    by auto
  then have "count_estimate (run_adds xs s) = count_estimate (run_adds ys s')"
    using estimate_of_set assms by (metis new_hll_Inr run_adds_cfg hll.select_convs(1))
  then show ?thesis by (simp add: cardinality_def Let_def)
qed

theorem hll_count_of_set_witness:
  "\<exists>s. new_hll 0 hll_small_config = Inr s
     \<and> est_count (fst (cardinality 0 0 (run_adds [(js ''a'', 1), (js ''b'', 1), (js ''a'', 2)] s)))
         = est_count (fst (cardinality 0 0 (run_adds [(js ''b'', 1), (js ''a'', 1)] s)))"
proof -
  obtain s where s: "new_hll 0 hll_small_config = Inr s" using new_hll_small ..
  show ?thesis
    using s hll_count_of_set [OF s s, of "[(js ''a'', 1), (js ''b'', 1), (js ''a'', 2)]"
        "[(js ''b'', 1), (js ''a'', 1)]"] by auto
qed

text \<open>
  C8. Merging two HyperLogLogs of one configuration succeeds, and the receiver then holds exactly the
  registers of the union of the two sets; the argument keeps its own.
\<close>
theorem hll_merge_is_union:
  assumes "new_hll now c = Inr s" and "new_hll now' c = Inr s'"
  shows "\<exists>u v. merge_hll (run_adds xs s) (run_adds ys s') = Inr (u, v)
    \<and> (\<forall>i<2 ^ prec c. reg_get (registers u) i = ideal_register c (fst ` set xs \<union> fst ` set ys) i
                     \<and> reg_get (registers v) i = ideal_register c (fst ` set ys) i)
    \<and> count_estimate u = count_estimate (run_adds (xs @ ys) s)"
proof -
  let ?a = "run_adds xs s" and ?b = "run_adds ys s'"
  have cfg: "hll_cfg s = c" "hll_cfg s' = c" using assms by (auto simp: new_hll_Inr)
  have ra: "represents ?a (fst ` set xs)" and rb: "represents ?b (fst ` set ys)"
    using represents_run [OF represents_new [OF assms(1)]] represents_run [OF represents_new [OF assms(2)]]
    by auto
  obtain u v where m: "merge_hll ?a ?b = Inr (u, v)"
    by (auto simp: merge_hll_def Let_def cfg)
  have ok: "regs_ok (prec c) (registers ?a)" "regs_ok (prec c) (registers ?b)"
    using ra rb by (auto simp: represents_def hll_inv_def cfg)
  have u: "represents u (fst ` set xs \<union> fst ` set ys)"
    using represents_merge [OF ra rb _ m] cfg by simp
  have ucfg: "hll_cfg u = c" using merge_hll_registers(1) [OF m] ok cfg by simp
  have v: "reg_get (registers v) i = reg_get (registers ?b) i" if "i < 2 ^ prec c" for i
    using merge_hll_other [OF m] convertToDense_get [of ?b i] ok that by (auto simp: cfg)
  have "represents (run_adds (xs @ ys) s) (fst ` set xs \<union> fst ` set ys)"
    using represents_run [OF represents_new [OF assms(1)], of "xs @ ys"] by (simp add: image_Un)
  then have "count_estimate u = count_estimate (run_adds (xs @ ys) s)"
    using estimate_of_set [OF u] cfg ucfg by simp
  then show ?thesis using m u rb v ucfg cfg by (auto simp: represents_def)
qed

theorem hll_merge_is_union_witness:
  "\<exists>s u v. new_hll 0 hll_small_config = Inr s
     \<and> merge_hll (run_adds [(js ''a'', 1)] s) (run_adds [(js ''b'', 1)] s) = Inr (u, v)
     \<and> count_estimate u = count_estimate (run_adds [(js ''a'', 1), (js ''b'', 1)] s)"
proof -
  obtain s where s: "new_hll 0 hll_small_config = Inr s" using new_hll_small ..
  show ?thesis
    using s hll_merge_is_union [OF s s, of "[(js ''a'', 1)]" "[(js ''b'', 1)]"] by auto
qed

text \<open>
  C16. In every reachable HyperLogLog, whatever sequence of additions, queries, merges, clears and
  save/restore cycles produced it, the register file has the size of its configuration, every register is at
  most \<open>65 - precision\<close>, and the raw estimate is a positive number at least \<open>alpha * m\<close>: the division by the
  harmonic sum never divides by zero.
\<close>
theorem hll_reachable_invariant:
  assumes "reachable_hll s"
  shows "4 \<le> prec (hll_cfg s) \<and> prec (hll_cfg s) \<le> 16
    \<and> regs_ok (prec (hll_cfg s)) (registers s) \<and> reg_size (registers s) = 2 ^ prec (hll_cfg s)
    \<and> (\<forall>i<2 ^ prec (hll_cfg s). reg_get (registers s) i \<le> 65 - prec (hll_cfg s))
    \<and> 0 < register_sum s
    \<and> 0 < alpha s \<and> alpha s * 2 ^ prec (hll_cfg s) \<le> calculateRawEstimate s"
  using reachable_hll_inv [OF assms] prec_range [of "hll_cfg s"] reg_size_ok register_sum_pos [of s]
    hll_inv_alpha [of s] raw_estimate_ge [of s]
  by (auto simp: hll_inv_def)

theorem hll_reachable_invariant_witness:
  "\<exists>s. new_hll 0 hll_small_config = Inr s \<and> reachable_hll (clear_hll (add (js ''a'') 1 s))
     \<and> reg_size (registers (clear_hll (add (js ''a'') 1 s))) = 16"
proof -
  obtain s where s: "new_hll 0 hll_small_config = Inr s" using new_hll_small ..
  have r: "reachable_hll (clear_hll (add (js ''a'') 1 s))" using s by (auto intro: reachable_hll.intros)
  have "hll_cfg (clear_hll (add (js ''a'') 1 s)) = hll_small_config"
    using s by (simp add: clear_hll_def new_hll_Inr)
  then show ?thesis
    using s r hll_reachable_invariant [OF r] by (auto simp: hll_small_config_def prec_def)
qed

text \<open>
  Adding an element never lowers a register or the raw estimate, and adding one that is already
  represented changes neither.
\<close>
theorem hll_add_monotone:
  assumes "represents s X"
  shows "calculateRawEstimate s \<le> calculateRawEstimate (add x t s)
    \<and> (x \<in> X \<longrightarrow> count_estimate (add x t s) = count_estimate s)"
proof
  have inv: "hll_inv s" using assms by (simp add: represents_def)
  then have ok: "regs_ok (prec (hll_cfg s)) (registers s)" by (simp add: hll_inv_def)
  show "calculateRawEstimate s \<le> calculateRawEstimate (add x t s)"
    using add_registers(2) [OF ok] by (intro raw_estimate_mono) (auto simp: hll_inv_alpha [OF inv])
  show "x \<in> X \<longrightarrow> count_estimate (add x t s) = count_estimate s"
    using estimate_of_set [OF represents_add [OF assms, of x t]] assms by (auto simp: insert_absorb)
qed

theorem hll_add_monotone_witness:
  "\<exists>s. new_hll 0 hll_small_config = Inr s
     \<and> count_estimate (add (js ''a'') 2 (add (js ''a'') 1 s)) = count_estimate (add (js ''a'') 1 s)"
proof -
  obtain s where s: "new_hll 0 hll_small_config = Inr s" using new_hll_small ..
  have r: "represents (add (js ''a'') 1 s) {js ''a''}"
    using represents_add [OF represents_new [OF s]] by simp
  show ?thesis using s hll_add_monotone [OF r, of "js ''a''" 2] by auto
qed

text \<open>
  \<^verbatim>\<open>serialize\<close> then \<^verbatim>\<open>deserialize\<close> gives back the configuration, the same register file in the same
  representation, the count of additions and the last reported cardinality, so every later estimate is the
  one the original would have given.
\<close>
theorem hll_roundtrip:
  assumes "reachable_hll s"
  shows "\<exists>s'. deserialize_hll now (serialize_hll now' s) = Inr s' \<and> hll_cfg s' = hll_cfg s
    \<and> registers s' = registers s \<and> totalAdds (hll_met s') = totalAdds (hll_met s)
    \<and> currentCardinality (hll_met s') = currentCardinality (hll_met s)
    \<and> count_estimate s' = count_estimate s"
proof -
  obtain s' where s': "deserialize_hll now (serialize_hll now' s) = Inr s'" "hll_cfg s' = hll_cfg s"
    "registers s' = registers s" "alpha s' = alpha s" "totalAdds (hll_met s') = totalAdds (hll_met s)"
    "currentCardinality (hll_met s') = currentCardinality (hll_met s)"
    using deserialize_serialize [OF reachable_hll_inv [OF assms]] by blast
  moreover have "count_estimate s' = count_estimate s"
    using s' register_sum_cong [of s' s]
    by (simp add: count_estimate_def calculateRawEstimate_def applyBiasCorrection_def Let_def)
  ultimately show ?thesis by blast
qed

theorem hll_roundtrip_witness:
  "\<exists>s s'. new_hll 0 hll_small_config = Inr s \<and> deserialize_hll 5 (serialize_hll 3 (add (js ''a'') 1 s)) = Inr s'
     \<and> registers s' = registers (add (js ''a'') 1 s)"
proof -
  obtain s where s: "new_hll 0 hll_small_config = Inr s" using new_hll_small ..
  have r: "reachable_hll (add (js ''a'') 1 s)" using s by (auto intro: reachable_hll.intros)
  show ?thesis using s hll_roundtrip [OF r, of 5 3] by blast
qed

text \<open>
  The large-range correction is the one for a 32-bit hash although the hash has 64 bits: as soon as the
  raw estimate exceeds \<open>2^32\<close> the reported count of a HyperLogLog with bias correction is not a number.
\<close>
theorem hll_large_range_nan:
  assumes "hll_inv s" and "biasCorrection (hll_cfg s)" and "calculateRawEstimate s > 2 ^ 32"
  shows "est_count (fst (cardinality t now s)) = NaN"
proof -
  have "(2::real) ^ prec (hll_cfg s) \<le> 2 ^ 16"
    using assms(1) prec_range [of "hll_cfg s"] by (intro power_increasing) (auto simp: hll_inv_def)
  then show ?thesis
    using assms(2,3)
    by (simp add: cardinality_def count_estimate_def applyBiasCorrection_def large_range_def js_round_def Let_def)
qed

theorem hll_large_range_nan_witness:
  "\<exists>s. deserialize_hll 0 \<lparr>hd_config = hll_small_config, hd_registers = ArrayData (replicate 16 40),
         hd_sparseMode = False, hd_cardinality = Fin 0, hd_totalAdds = 1, hd_lastUpdated = 0,
         hd_version = ''1.0.0''\<rparr> = Inr s
     \<and> hll_inv s \<and> est_count (fst (cardinality 0 0 s)) = NaN"
proof -
  obtain z where z: "new_hll 0 hll_small_config = Inr z" using new_hll_small ..
  let ?s = "z\<lparr>registers := DenseRegisters 4 (replicate 16 40),
      hll_met := (hll_met z)\<lparr>totalAdds := 1, currentCardinality := Fin 0\<rparr>\<rparr>"
  have zc: "hll_cfg z = hll_small_config" "alpha z = 673/1000"
    using z by (auto simp: new_hll_Inr calculateAlpha_def hll_small_config_def)
  have p: "prec hll_small_config = 4" by (simp add: prec_def hll_small_config_def)
  have inv: "hll_inv ?s" using new_hll_inv [OF z] by (simp add: hll_inv_def zc p)
  have "map (\<lambda>i. (1/2::real) ^ (replicate 16 40 ! i)) [0..<16] = replicate 16 ((1/2) ^ 40)"
    by (auto simp: list_eq_iff_nth_eq)
  then have sum: "register_sum ?s = 16 * (1/2) ^ 40"
    by (simp add: register_sum_def zc p sum_list_replicate)
  have big: "calculateRawEstimate ?s > 2 ^ 32"
    by (simp add: calculateRawEstimate_def Let_def sum p zc power_one_over)
  have "biasCorrection (hll_cfg ?s)" by (simp add: zc hll_small_config_def)
  then have "est_count (fst (cardinality 0 0 ?s)) = NaN" using hll_large_range_nan inv big by blast
  then show ?thesis using z inv p by (auto simp: deserialize_hll_def Let_def)
qed

end
