(* ===== verification/Patterns.thy ===== *)
theory Patterns
  imports Prelude "HOL-Library.Sublist"
begin

text \<open>
  The texts the detection code works on: JSON values and the text \<^verbatim>\<open>JSON.stringify\<close> makes of them, and regular expressions
  as \<^verbatim>\<open>RegExp.prototype.test\<close> runs them with the flag \<^verbatim>\<open>i\<close>.

  \<^item> A JSON number is its decimal text, as \<^verbatim>\<open>String\<close> and \<^verbatim>\<open>JSON.stringify\<close> print it (0 and -0 are \<^verbatim>\<open>0\<close>). An object is a list of
    members in order.
  \<^item> A pattern is a term of \<open>rx\<close>. \<open>rx_ends\<close> gives the positions where a match that starts at a position can end; a position
    is the character before it and the text after it, which is what the word boundary \<^verbatim>\<open>\b\<close> looks at. The repetitions of the sources
    repeat a class of characters, so the recursion is structural and every match is found.
\<close>

section \<open>JSON values\<close>

datatype json = JNull | JBool bool | JNum string | JStr string | JArr "json list" | JObj "(string \<times> json) list"

definition hex_digit :: "nat \<Rightarrow> char" where
  "hex_digit n = char_of (if n < 10 then 48 + n else 87 + n)"

definition escape_char :: "char \<Rightarrow> string" where
  "escape_char c =
     (let n = (of_char c :: nat)
      in if n = 34 \<or> n = 92 then [char_of (92 :: nat), c]
         else if n = 8 then [char_of (92 :: nat), CHR ''b''] else if n = 9 then [char_of (92 :: nat), CHR ''t'']
         else if n = 10 then [char_of (92 :: nat), CHR ''n''] else if n = 12 then [char_of (92 :: nat), CHR ''f'']
         else if n = 13 then [char_of (92 :: nat), CHR ''r'']
         else if n < 32 then char_of (92 :: nat) # ''u00'' @ [hex_digit (n div 16), hex_digit (n mod 16)]
         else [c])"

definition quoted :: "string \<Rightarrow> string" where
  "quoted s = char_of (34 :: nat) # concat (map escape_char s) @ [char_of (34 :: nat)]"

fun joined :: "string \<Rightarrow> string list \<Rightarrow> string" where
  "joined sep [] = []"
| "joined sep [x] = x"
| "joined sep (x # y # xs) = x @ sep @ joined sep (y # xs)"

fun stringify :: "json \<Rightarrow> string" where
  "stringify JNull = ''null''"
| "stringify (JBool b) = (if b then ''true'' else ''false'')"
| "stringify (JNum n) = n"
| "stringify (JStr s) = quoted s"
| "stringify (JArr xs) = ''['' @ joined '','' (map stringify xs) @ '']''"
| "stringify (JObj ms) = ''{'' @ joined '','' (map (\<lambda>(k, v). quoted k @ '':'' @ stringify v) ms) @ ''}''"

fun json_truthy :: "json \<Rightarrow> bool" where
  "json_truthy JNull = False"
| "json_truthy (JBool b) = b"
| "json_truthy (JNum n) = (n \<noteq> ''0'')"
| "json_truthy (JStr s) = (s \<noteq> [])"
| "json_truthy _ = True"

text \<open>\<^verbatim>\<open>a || b\<close> on values that may be undefined (\<open>None\<close>).\<close>

definition or_json :: "json option \<Rightarrow> json option \<Rightarrow> json option" where
  "or_json a b = (case a of Some v \<Rightarrow> if json_truthy v then a else b | None \<Rightarrow> b)"

definition or_empty :: "json option \<Rightarrow> json" where
  "or_empty a = (case a of Some v \<Rightarrow> if json_truthy v then v else JObj [] | None \<Rightarrow> JObj [])"

text \<open>All strings of a value, the names of members included.\<close>

fun json_strings :: "json \<Rightarrow> string list" where
  "json_strings (JStr s) = [s]"
| "json_strings (JArr xs) = concat (map json_strings xs)"
| "json_strings (JObj ms) = concat (map (\<lambda>(k, v). k # json_strings v) ms)"
| "json_strings _ = []"

section \<open>Occurrences of a text\<close>

lemma includes_sublist: "includes_str s t \<longleftrightarrow> sublist t s"
proof (induction s)
  case (Cons c s)
  have "starts_with (c # s) t \<longleftrightarrow> prefix t (c # s)"
    by (metis append_eq_conv_conj prefix_def starts_with_def take_is_prefix)
  then show ?case using Cons by (simp add: sublist_Cons_right)
qed simp

lemma sublist_surround: "sublist t u \<Longrightarrow> sublist t (a @ u @ b)"
  unfolding sublist_def by (metis append.assoc)

lemma sublist_joined: "x \<in> set xs \<Longrightarrow> sublist x (joined sep xs)"
proof (induction sep xs rule: joined.induct)
  case (3 sep x' y xs)
  show ?case
  proof (cases "x = x'")
    case False
    then have "sublist x (joined sep (y # xs))" using 3 by simp
    from sublist_surround [OF this, of "x' @ sep" "[]"] show ?thesis by simp
  qed simp
qed auto

text \<open>Characters that stand for themselves in JSON text.\<close>

definition plain_char :: "char \<Rightarrow> bool" where
  "plain_char c \<longleftrightarrow> (let n = (of_char c :: nat) in 32 \<le> n \<and> n \<noteq> 34 \<and> n \<noteq> 92)"

lemma escape_plain: "plain_char c \<Longrightarrow> escape_char c = [c]"
  by (auto simp: escape_char_def plain_char_def Let_def )

lemma concat_escape_plain: "list_all plain_char t \<Longrightarrow> concat (map escape_char t) = t"
  by (induction t) (auto simp: escape_plain)

lemma sublist_quoted: "sublist t s \<Longrightarrow> list_all plain_char t \<Longrightarrow> sublist t (quoted s)"
proof -
  assume s: "sublist t s" and p: "list_all plain_char t"
  then obtain a b where "s = a @ t @ b" by (auto simp: sublist_def)
  then have "quoted s = (char_of (34 :: nat) # concat (map escape_char a)) @ t @ (concat (map escape_char b) @ [char_of (34 :: nat)])"
    using p by (simp add: quoted_def concat_escape_plain)
  then show ?thesis by (metis sublist_appendI)
qed

lemma sublist_stringify:
  "s \<in> set (json_strings j) \<Longrightarrow> sublist t s \<Longrightarrow> list_all plain_char t \<Longrightarrow> sublist t (stringify j)"
proof (induction j rule: json_strings.induct)
  case (2 xs)
  then obtain x where "x \<in> set xs" "s \<in> set (json_strings x)" by auto
  then have "sublist t (stringify x)" "sublist (stringify x) (joined '','' (map stringify xs))"
    using 2 by (auto intro: sublist_joined)
  then have "sublist t (joined '','' (map stringify xs))" by (rule sublist_order.order_trans)
  from sublist_surround [OF this, of "''[''" "'']''"] show ?case by simp
next
  case (3 ms)
  then obtain k v where kv: "(k, v) \<in> set ms" "s = k \<or> s \<in> set (json_strings v)" by auto
  let ?m = "quoted k @ '':'' @ stringify v"
  have "sublist t (quoted k) \<or> sublist t (stringify v)"
    using kv 3 sublist_quoted by auto
  then have "sublist t ?m"
    using sublist_surround [of t "quoted k" "[]" "'':'' @ stringify v"]
      sublist_surround [of t "stringify v" "quoted k @ '':''" "[]"] by auto
  moreover have "sublist ?m (joined '','' (map (\<lambda>(k, v). quoted k @ '':'' @ stringify v) ms))"
    using kv(1) by (intro sublist_joined) force
  ultimately have "sublist t (joined '','' (map (\<lambda>(k, v). quoted k @ '':'' @ stringify v) ms))"
    by (rule sublist_order.order_trans)
  from sublist_surround [OF this, of "''{''" "''}''"] show ?case by simp
qed (auto intro: sublist_quoted)

section \<open>Patterns\<close>

datatype rx = Empty | One "char \<Rightarrow> bool" | Many "char \<Rightarrow> bool" | Bound | Then rx rx | Or rx rx

type_synonym text_pos = "char option \<times> string"

definition word_char :: "char \<Rightarrow> bool" where
  "word_char c \<longleftrightarrow> (let n = (of_char c :: nat) in 48 \<le> n \<and> n \<le> 57 \<or> 65 \<le> n \<and> n \<le> 90 \<or> 97 \<le> n \<and> n \<le> 122 \<or> n = 95)"

definition space_char :: "char \<Rightarrow> bool" where
  "space_char c \<longleftrightarrow> (let n = (of_char c :: nat) in 9 \<le> n \<and> n \<le> 13 \<or> n = 32 \<or> n = 160)"

definition line_end :: "char \<Rightarrow> bool" where
  "line_end c \<longleftrightarrow> (let n = (of_char c :: nat) in n = 10 \<or> n = 13)"

definition at_boundary :: "text_pos \<Rightarrow> bool" where
  "at_boundary p \<longleftrightarrow>
     (case fst p of None \<Rightarrow> False | Some c \<Rightarrow> word_char c) \<noteq> (case snd p of [] \<Rightarrow> False | c # _ \<Rightarrow> word_char c)"

fun many_ends :: "(char \<Rightarrow> bool) \<Rightarrow> char option \<Rightarrow> string \<Rightarrow> text_pos list" where
  "many_ends p b [] = [(b, [])]"
| "many_ends p b (c # s) = (b, c # s) # (if p c then many_ends p (Some c) s else [])"

fun rx_ends :: "rx \<Rightarrow> text_pos \<Rightarrow> text_pos list" where
  "rx_ends Empty p = [p]"
| "rx_ends (One q) p = (case snd p of [] \<Rightarrow> [] | c # s \<Rightarrow> if q c then [(Some c, s)] else [])"
| "rx_ends (Many q) p = many_ends q (fst p) (snd p)"
| "rx_ends Bound p = (if at_boundary p then [p] else [])"
| "rx_ends (Then r r') p = concat (map (rx_ends r') (rx_ends r p))"
| "rx_ends (Or r r') p = rx_ends r p @ rx_ends r' p"

fun test_from :: "rx \<Rightarrow> char option \<Rightarrow> string \<Rightarrow> bool" where
  "test_from r b [] = (rx_ends r (b, []) \<noteq> [])"
| "test_from r b (c # s) = (rx_ends r (b, c # s) \<noteq> [] \<or> test_from r (Some c) s)"

definition rx_test :: "rx \<Rightarrow> string \<Rightarrow> bool" where
  "rx_test r s = test_from r None s"

text \<open>A literal, case ignored; a sequence; a choice; \<^verbatim>\<open>+\<close>.\<close>

definition rx_lit :: "string \<Rightarrow> rx" where
  "rx_lit t = foldr (\<lambda>c r. Then (One (\<lambda>d. lower_char d = lower_char c)) r) t Empty"

definition rx_seq :: "rx list \<Rightarrow> rx" where
  "rx_seq rs = foldr Then rs Empty"

definition rx_any :: "rx list \<Rightarrow> rx" where
  "rx_any rs = foldr Or rs (One (\<lambda>_. False))"

definition rx_some :: "(char \<Rightarrow> bool) \<Rightarrow> rx" where
  "rx_some q = Then (One q) (Many q)"

lemma rx_ends_lit: "rx_ends (rx_lit t) (b, s) \<noteq> [] \<longleftrightarrow> prefix (map lower_char t) (map lower_char s)"
  unfolding rx_lit_def
proof (induction t arbitrary: b s)
  case (Cons c t)
  then show ?case by (cases s) auto
qed simp

lemma test_from_sublist: "test_from r b s \<Longrightarrow> \<exists>b p q. s = p @ q \<and> rx_ends r (b, q) \<noteq> []"
proof (induction r b s rule: test_from.induct)
  case (2 r b c s)
  then show ?case by (metis append_Cons append_Nil test_from.simps(2))
qed auto

lemma test_from_at: "rx_ends r (if p = [] then b else Some (last p), q) \<noteq> [] \<Longrightarrow> test_from r b (p @ q)"
proof (induction p arbitrary: b)
  case Nil
  then show ?case by (cases q) auto
next
  case (Cons c p)
  then show ?case by (cases p) (auto simp: Cons.IH)
qed

lemma test_from_lit: "test_from (rx_lit t) b s \<longleftrightarrow> sublist (map lower_char t) (map lower_char s)"
proof (induction s arbitrary: b)
  case (Cons c s)
  then show ?case by (simp add: rx_ends_lit sublist_Cons_right)
qed (simp add: rx_ends_lit)

lemma rx_test_lit: "rx_test (rx_lit t) s \<longleftrightarrow> sublist (map lower_char t) (map lower_char s)"
  by (simp add: rx_test_def test_from_lit)

lemma test_from_Or: "test_from (Or r r') b s \<longleftrightarrow> test_from r b s \<or> test_from r' b s"
  by (induction r b s rule: test_from.induct) auto

lemma test_from_none: "\<not> test_from (One (\<lambda>_. False)) b s"
  by (induction "One (\<lambda>_. False)" b s rule: test_from.induct) auto

lemma rx_test_any: "rx_test (rx_any rs) s \<longleftrightarrow> list_ex (\<lambda>r. rx_test r s) rs"
  unfolding rx_test_def rx_any_def by (induction rs) (simp_all add: test_from_none test_from_Or)

lemma many_ends_ne [simp]: "many_ends q b s \<noteq> []"
  by (cases s) auto

end
