(* ===== verification/RedisService.thy ===== *)
theory RedisService
  imports Prelude
begin

text \<open>
  The Redis wrapper (\<^verbatim>\<open>backend/src/services/RedisService.ts\<close>). The client is the \<^verbatim>\<open>redis\<close> package: its state \<open>'c\<close> and its operations
  are arguments, an operation gives \<open>None\<close> when its promise is rejected. The wrapper itself is the connection flag its event
  handlers keep and \<^verbatim>\<open>safeOperation\<close>, which every command goes through: without a connection, and on every error, a command answers with a
  constant.
\<close>

type_synonym ('a, 'c) client_op = "'c \<Rightarrow> 'a option \<times> 'c"

record 'c redis =
  rd_isConnected :: bool
  rd_isOpen :: bool
  rd_client :: 'c

definition maxRetries :: "bool \<Rightarrow> int" where
  "maxRetries isDevelopment = (if isDevelopment then 3 else 10)"

text \<open>\<open>None\<close>: give up with an error; else the delay in milliseconds before the next attempt.\<close>

definition reconnectStrategy :: "bool \<Rightarrow> int \<Rightarrow> int option" where
  "reconnectStrategy isDevelopment retries =
     (if retries > maxRetries isDevelopment then None else Some (min (retries * 200) 2000))"

definition new_redis :: "'c \<Rightarrow> 'c redis" where
  "new_redis c = \<lparr>rd_isConnected = False, rd_isOpen = False, rd_client = c\<rparr>"

datatype client_event = Ev_connect | Ev_ready | Ev_error | Ev_end | Ev_reconnecting

fun on_event :: "client_event \<Rightarrow> 'c redis \<Rightarrow> 'c redis" where
  "on_event Ev_connect rd = rd\<lparr>rd_isConnected := True\<rparr>"
| "on_event Ev_ready rd = rd"
| "on_event Ev_error rd = rd\<lparr>rd_isConnected := False\<rparr>"
| "on_event Ev_end rd = rd\<lparr>rd_isConnected := False\<rparr>"
| "on_event Ev_reconnecting rd = rd"

definition isRedisAvailable :: "'c redis \<Rightarrow> bool" where
  "isRedisAvailable rd \<longleftrightarrow> rd_isConnected rd \<and> rd_isOpen rd"

definition safeOperation :: "('a, 'c) client_op \<Rightarrow> 'a \<Rightarrow> 'c redis \<Rightarrow> 'a \<times> 'c redis" where
  "safeOperation operation fallback rd =
     (if \<not> isRedisAvailable rd then (fallback, rd)
      else case operation (rd_client rd) of
        (Some v, c) \<Rightarrow> (v, rd\<lparr>rd_client := c\<rparr>)
      | (None, c) \<Rightarrow> (fallback, rd\<lparr>rd_client := c\<rparr>))"

definition redis_ping :: "(string, 'c) client_op \<Rightarrow> 'c redis \<Rightarrow> string \<times> 'c redis" where
  "redis_ping ping = safeOperation ping ''PONG''"

text \<open>A time to live of 0 is falsy, so the key is stored without one.\<close>

definition redis_set ::
  "(string \<Rightarrow> string \<Rightarrow> (unit, 'c) client_op) \<Rightarrow> (string \<Rightarrow> nat \<Rightarrow> string \<Rightarrow> (unit, 'c) client_op)
   \<Rightarrow> string \<Rightarrow> string \<Rightarrow> nat option \<Rightarrow> 'c redis \<Rightarrow> unit \<times> 'c redis" where
  "redis_set cset csetEx key v ttlSeconds =
     safeOperation (case ttlSeconds of Some t \<Rightarrow> if t \<noteq> 0 then csetEx key t v else cset key v | None \<Rightarrow> cset key v) ()"

definition redis_get :: "(string \<Rightarrow> (string option, 'c) client_op) \<Rightarrow> string \<Rightarrow> 'c redis \<Rightarrow> string option \<times> 'c redis" where
  "redis_get cget key = safeOperation (cget key) None"

definition redis_del :: "(string \<Rightarrow> (nat, 'c) client_op) \<Rightarrow> string \<Rightarrow> 'c redis \<Rightarrow> nat \<times> 'c redis" where
  "redis_del cdel key = safeOperation (cdel key) 0"

definition map_op :: "('a \<Rightarrow> 'b) \<Rightarrow> ('a, 'c) client_op \<Rightarrow> ('b, 'c) client_op" where
  "map_op f operation c = (let (r, c) = operation c in (map_option f r, c))"

definition redis_exists :: "(string \<Rightarrow> (nat, 'c) client_op) \<Rightarrow> string \<Rightarrow> 'c redis \<Rightarrow> bool \<times> 'c redis" where
  "redis_exists cexists key = safeOperation (map_op (\<lambda>n. n = 1) (cexists key)) False"

definition redis_expire :: "(string \<Rightarrow> nat \<Rightarrow> (bool, 'c) client_op) \<Rightarrow> string \<Rightarrow> nat \<Rightarrow> 'c redis \<Rightarrow> bool \<times> 'c redis" where
  "redis_expire cexpire key seconds = safeOperation (cexpire key seconds) False"

definition redis_ttl :: "(string \<Rightarrow> (int, 'c) client_op) \<Rightarrow> string \<Rightarrow> 'c redis \<Rightarrow> int \<times> 'c redis" where
  "redis_ttl cttl key = safeOperation (cttl key) (-1)"

definition redis_incr :: "(string \<Rightarrow> (int, 'c) client_op) \<Rightarrow> string \<Rightarrow> 'c redis \<Rightarrow> int \<times> 'c redis" where
  "redis_incr cincr key = safeOperation (cincr key) 0"

definition redis_incrBy :: "(string \<Rightarrow> int \<Rightarrow> (int, 'c) client_op) \<Rightarrow> string \<Rightarrow> int \<Rightarrow> 'c redis \<Rightarrow> int \<times> 'c redis" where
  "redis_incrBy cincrBy key increment = safeOperation (cincrBy key increment) 0"

definition redis_sadd :: "(string \<Rightarrow> string list \<Rightarrow> (nat, 'c) client_op) \<Rightarrow> string \<Rightarrow> string list \<Rightarrow> 'c redis \<Rightarrow> nat \<times> 'c redis" where
  "redis_sadd csAdd key members = safeOperation (csAdd key members) 0"

definition redis_smembers :: "(string \<Rightarrow> (string list, 'c) client_op) \<Rightarrow> string \<Rightarrow> 'c redis \<Rightarrow> string list \<times> 'c redis" where
  "redis_smembers csMembers key = safeOperation (csMembers key) []"

definition redis_sismember :: "(string \<Rightarrow> string \<Rightarrow> (bool, 'c) client_op) \<Rightarrow> string \<Rightarrow> string \<Rightarrow> 'c redis \<Rightarrow> bool \<times> 'c redis" where
  "redis_sismember csIsMember key m = safeOperation (csIsMember key m) False"

definition redis_zadd :: "(string \<Rightarrow> real \<Rightarrow> string \<Rightarrow> (nat, 'c) client_op) \<Rightarrow> string \<Rightarrow> real \<Rightarrow> string \<Rightarrow> 'c redis \<Rightarrow> nat \<times> 'c redis" where
  "redis_zadd czAdd key score m = safeOperation (czAdd key score m) 0"

definition redis_zrange :: "(string \<Rightarrow> int \<Rightarrow> int \<Rightarrow> (string list, 'c) client_op) \<Rightarrow> string \<Rightarrow> int \<Rightarrow> int \<Rightarrow> 'c redis \<Rightarrow> string list \<times> 'c redis" where
  "redis_zrange czRange key start stop = safeOperation (czRange key start stop) []"

definition redis_zrangeWithScores ::
  "(string \<Rightarrow> int \<Rightarrow> int \<Rightarrow> ((real \<times> string) list, 'c) client_op) \<Rightarrow> string \<Rightarrow> int \<Rightarrow> int \<Rightarrow> 'c redis \<Rightarrow> (real \<times> string) list \<times> 'c redis" where
  "redis_zrangeWithScores czRange key start stop = safeOperation (czRange key start stop) []"

definition redis_lpush :: "(string \<Rightarrow> string list \<Rightarrow> (nat, 'c) client_op) \<Rightarrow> string \<Rightarrow> string list \<Rightarrow> 'c redis \<Rightarrow> nat \<times> 'c redis" where
  "redis_lpush clPush key vs = safeOperation (clPush key vs) 0"

definition redis_lpop :: "(string \<Rightarrow> (string option, 'c) client_op) \<Rightarrow> string \<Rightarrow> 'c redis \<Rightarrow> string option \<times> 'c redis" where
  "redis_lpop clPop key = safeOperation (clPop key) None"

definition redis_lrange :: "(string \<Rightarrow> int \<Rightarrow> int \<Rightarrow> (string list, 'c) client_op) \<Rightarrow> string \<Rightarrow> int \<Rightarrow> int \<Rightarrow> 'c redis \<Rightarrow> string list \<times> 'c redis" where
  "redis_lrange clRange key start stop = safeOperation (clRange key start stop) []"

definition redis_ltrim :: "(string \<Rightarrow> int \<Rightarrow> int \<Rightarrow> (unit, 'c) client_op) \<Rightarrow> string \<Rightarrow> int \<Rightarrow> int \<Rightarrow> 'c redis \<Rightarrow> unit \<times> 'c redis" where
  "redis_ltrim clTrim key start stop = safeOperation (clTrim key start stop) ()"

definition redis_llen :: "(string \<Rightarrow> (nat, 'c) client_op) \<Rightarrow> string \<Rightarrow> 'c redis \<Rightarrow> nat \<times> 'c redis" where
  "redis_llen clLen key = safeOperation (clLen key) 0"

definition redis_hset :: "(string \<Rightarrow> string \<Rightarrow> string \<Rightarrow> (nat, 'c) client_op) \<Rightarrow> string \<Rightarrow> string \<Rightarrow> string \<Rightarrow> 'c redis \<Rightarrow> nat \<times> 'c redis" where
  "redis_hset chSet key field v = safeOperation (chSet key field v) 0"

text \<open>An empty field is falsy, so it reads as absent.\<close>

definition redis_hget :: "(string \<Rightarrow> string \<Rightarrow> (string option, 'c) client_op) \<Rightarrow> string \<Rightarrow> string \<Rightarrow> 'c redis \<Rightarrow> string option \<times> 'c redis" where
  "redis_hget chGet key field = safeOperation (map_op (\<lambda>r. if r = Some [] then None else r) (chGet key field)) None"

definition redis_hgetall :: "(string \<Rightarrow> ((string \<times> string) list, 'c) client_op) \<Rightarrow> string \<Rightarrow> 'c redis \<Rightarrow> (string \<times> string) list \<times> 'c redis" where
  "redis_hgetall chGetAll key = safeOperation (chGetAll key) []"

definition redis_hdel :: "(string \<Rightarrow> string list \<Rightarrow> (nat, 'c) client_op) \<Rightarrow> string \<Rightarrow> string list \<Rightarrow> 'c redis \<Rightarrow> nat \<times> 'c redis" where
  "redis_hdel chDel key fs = safeOperation (chDel key fs) 0"

definition redis_flushall :: "(unit, 'c) client_op \<Rightarrow> 'c redis \<Rightarrow> unit \<times> 'c redis" where
  "redis_flushall cflushAll = safeOperation cflushAll ()"

definition redis_info :: "(string, 'c) client_op \<Rightarrow> 'c redis \<Rightarrow> string \<times> 'c redis" where
  "redis_info cinfo = safeOperation cinfo []"

definition is_decimal :: "char \<Rightarrow> bool" where
  "is_decimal c \<longleftrightarrow> (48 :: nat) \<le> of_char c \<and> (of_char c :: nat) \<le> 57"

text \<open>\<^verbatim>\<open>used_memory:(\d+)\<close>: the first occurrence that a digit follows.\<close>

fun used_memory :: "string \<Rightarrow> nat" where
  "used_memory [] = 0"
| "used_memory (c # s) =
     (let t = drop (length ''used_memory:'') (c # s); ds = takeWhile is_decimal t
      in if starts_with (c # s) ''used_memory:'' \<and> ds \<noteq> [] then foldl (\<lambda>n d. 10 * n + (of_char d - 48)) 0 ds else used_memory s)"

definition redis_memoryUsage :: "(string, 'c) client_op \<Rightarrow> 'c redis \<Rightarrow> nat \<times> 'c redis" where
  "redis_memoryUsage cinfoMemory = safeOperation (map_op used_memory cinfoMemory) 0"

section \<open>Availability\<close>

lemma safe_unavailable: "\<not> isRedisAvailable rd \<Longrightarrow> safeOperation operation fallback rd = (fallback, rd)"
  by (simp add: safeOperation_def)

lemma safe_available:
  assumes "isRedisAvailable rd"
  shows "fst (safeOperation operation fallback rd) = (case fst (operation (rd_client rd)) of None \<Rightarrow> fallback | Some v \<Rightarrow> v)"
    and "rd_client (snd (safeOperation operation fallback rd)) = snd (operation (rd_client rd))"
    and "isRedisAvailable (snd (safeOperation operation fallback rd))"
  using assms by (auto simp: safeOperation_def isRedisAvailable_def split: prod.splits option.splits)

lemma new_unavailable: "\<not> isRedisAvailable (new_redis c)"
  by (simp add: isRedisAvailable_def new_redis_def)

text \<open>
  Reconnection ends and waits a bounded time: the delay grows with the number of attempts up to two seconds, and
  exactly from the attempt after the third (in development) or the tenth (in production) on the client gives up.
\<close>
theorem reconnect_bounded:
  "(reconnectStrategy dev n = None \<longleftrightarrow> n > (if dev then 3 else 10))
   \<and> (0 \<le> n \<and> reconnectStrategy dev n = Some d \<longrightarrow> 0 \<le> d \<and> d \<le> 2000 \<and> d \<le> 200 * n)"
  by (auto simp: reconnectStrategy_def maxRetries_def)

theorem reconnect_bounded_witness: "reconnectStrategy True 3 = Some 600 \<and> (600 :: int) \<le> 2000 \<and> reconnectStrategy True 4 = None"
  using reconnect_bounded [of True 3 600] reconnect_bounded [of True 4 0]
  by (simp add: reconnectStrategy_def maxRetries_def)

end
