(* ===== verification/FrequencyAnalysis.thy ===== *)
theory FrequencyAnalysis
  imports CountMinSketch Patterns RedisService
begin

text \<open>
  The frequency analyzer (\<^verbatim>\<open>backend/src/services/FrequencyAnalyzer.ts\<close>), a client of the Count-Min Sketch: one sketch per
  tracked kind of item, thresholds per sketch, and the estimates of the last hour by minute. The object is the record
  \<open>freq_analyzer\<close>; its maps keep insertion order. Elapsed times and clock readings of one call are a \<open>track_env\<close>. A method that
  raises an error gives \<open>Inl\<close> together with the state it leaves behind.

  Texts that show a number rounded by \<^verbatim>\<open>toFixed\<close> are data that hold the number.
\<close>

section \<open>Data\<close>

record frequency_thresholds =
  th_baseline :: real
  th_suspicious :: real
  th_anomalous :: real
  th_critical :: real

datatype freq_level = Fq_normal | Fq_suspicious | Fq_anomalous | Fq_critical

record frequency_result =
  fr_item :: string
  currentFrequency :: real
  baselineFrequency :: real
  deviationRatio :: real
  fr_riskLevel :: freq_level
  fr_riskScore :: real
  fr_confidence :: real
  fr_timeWindow :: int
  fr_lastSeen :: time_ms

record window_frequency =
  tw_item :: string
  tw_frequency :: real
  tw_start :: time_ms
  tw_end :: time_ms
  tw_duration :: int
  tw_buckets :: "real list"

datatype pattern_type = Pt_steady | Pt_increasing | Pt_decreasing | Pt_burst | Pt_periodic

datatype pattern_text = Insufficient_data | Irregular_burst | Trend_detected pattern_type real | Stable_pattern

record frequency_pattern =
  pt_type :: pattern_type
  pt_confidence :: real
  pt_description :: pattern_text
  pt_trend :: real

datatype frequency_error =
    SketchNotFound string
  | NoTimeWindows string
  | ThresholdsUndefined
  | SketchRaised sketch_error

record freq_analyzer =
  fa_sketches :: "(string, sketch) js_map"
  fa_baselines :: "(string, real) js_map"
  fa_thresholds :: "(string, frequency_thresholds) js_map"
  fa_timeWindows :: "(string, window_frequency list) js_map"
  fa_isInitialized :: bool

record track_env =
  te_insertTime :: real
  te_queryTime :: real
  te_queryClock :: time_ms
  te_windowClock :: time_ms
  te_resultClock :: time_ms

section \<open>Set-up\<close>

definition fa_createSketch :: "string \<Rightarrow> sketch_config \<Rightarrow> freq_analyzer \<Rightarrow> frequency_error + freq_analyzer" where
  "fa_createSketch name c a =
     (case new_sketch c of
        Inl e \<Rightarrow> Inl (SketchRaised e)
      | Inr s \<Rightarrow> Inr (a\<lparr>fa_sketches := map_set name s (fa_sketches a), fa_timeWindows := map_set name [] (fa_timeWindows a)\<rparr>))"

definition fa_defaultConfig :: "int \<Rightarrow> sketch_config" where
  "fa_defaultConfig seed =
     \<lparr>width = 4096, depth = 6, hashSeed = seed, errorRate = 1 / 1000, confidence = 99 / 100\<rparr>"

definition fa_default_sketches :: "int \<Rightarrow> (string \<times> sketch_config) list" where
  "fa_default_sketches seed =
     [(''ip_addresses'', (fa_defaultConfig seed)\<lparr>width := 8192\<rparr>),
      (''user_agents'', (fa_defaultConfig seed)\<lparr>width := 2048\<rparr>),
      (''request_paths'', (fa_defaultConfig seed)\<lparr>width := 4096\<rparr>),
      (''session_ids'', (fa_defaultConfig seed)\<lparr>width := 2048\<rparr>),
      (''parameters'', (fa_defaultConfig seed)\<lparr>width := 4096\<rparr>)]"

definition fa_default_thresholds :: "(string, frequency_thresholds) js_map" where
  "fa_default_thresholds =
     [(''ip_addresses'', \<lparr>th_baseline = 10, th_suspicious = 50, th_anomalous = 100, th_critical = 500\<rparr>),
      (''user_agents'', \<lparr>th_baseline = 5, th_suspicious = 20, th_anomalous = 50, th_critical = 200\<rparr>),
      (''request_paths'', \<lparr>th_baseline = 20, th_suspicious = 100, th_anomalous = 500, th_critical = 2000\<rparr>),
      (''session_ids'', \<lparr>th_baseline = 50, th_suspicious = 200, th_anomalous = 1000, th_critical = 5000\<rparr>),
      (''parameters'', \<lparr>th_baseline = 1, th_suspicious = 5, th_anomalous = 20, th_critical = 100\<rparr>)]"

definition setDefaultThresholds :: "freq_analyzer \<Rightarrow> freq_analyzer" where
  "setDefaultThresholds a =
     a\<lparr>fa_thresholds := fold (\<lambda>(name, th). map_set name th) fa_default_thresholds (fa_thresholds a)\<rparr>"

fun create_sketches :: "(string \<times> sketch_config) list \<Rightarrow> freq_analyzer \<Rightarrow> frequency_error + freq_analyzer" where
  "create_sketches [] a = Inr a"
| "create_sketches ((name, c) # rest) a =
     (case fa_createSketch name c a of Inl e \<Rightarrow> Inl e | Inr a \<Rightarrow> create_sketches rest a)"

text \<open>The constructor; \<open>seed\<close> is the random seed all five sketches share.\<close>

definition new_freq_analyzer :: "int \<Rightarrow> frequency_error + freq_analyzer" where
  "new_freq_analyzer seed =
     (case create_sketches (fa_default_sketches seed)
        \<lparr>fa_sketches = [], fa_baselines = [], fa_thresholds = [], fa_timeWindows = [], fa_isInitialized = False\<rparr> of
        Inl e \<Rightarrow> Inl e
      | Inr a \<Rightarrow> Inr ((setDefaultThresholds a)\<lparr>fa_isInitialized := True\<rparr>))"

section \<open>Tracking\<close>

definition determineFreqLevel :: "real \<Rightarrow> frequency_thresholds \<Rightarrow> freq_level" where
  "determineFreqLevel f th =
     (if f \<ge> th_critical th then Fq_critical
      else if f \<ge> th_anomalous th then Fq_anomalous
      else if f \<ge> th_suspicious th then Fq_suspicious
      else Fq_normal)"

definition calculateFreqScore :: "real \<Rightarrow> frequency_thresholds \<Rightarrow> real" where
  "calculateFreqScore f th =
     (if f \<le> th_baseline th then 0
      else if f \<ge> th_critical th then 1
      else min ((f - th_baseline th) / (th_critical th - th_baseline th)) 1)"

definition windowDuration :: int where
  "windowDuration = 60000"

definition windowStart :: "time_ms \<Rightarrow> time_ms" where
  "windowStart ts = ts div windowDuration * windowDuration"

text \<open>The entry of the item and minute is found and changed, or appended.\<close>

fun put_window :: "string \<Rightarrow> time_ms \<Rightarrow> real \<Rightarrow> window_frequency list \<Rightarrow> window_frequency list" where
  "put_window item start f [] =
     [\<lparr>tw_item = item, tw_frequency = f, tw_start = start, tw_end = start + windowDuration, tw_duration = windowDuration, tw_buckets = []\<rparr>]"
| "put_window item start f (w # ws) =
     (if tw_item w = item \<and> tw_start w = start then w\<lparr>tw_frequency := f\<rparr> # ws else w # put_window item start f ws)"

definition updateTimeWindow :: "string \<Rightarrow> string \<Rightarrow> real \<Rightarrow> time_ms \<Rightarrow> freq_analyzer \<Rightarrow> freq_analyzer" where
  "updateTimeWindow name item f ts a =
     (case map_of (fa_timeWindows a) name of
        None \<Rightarrow> a
      | Some ws \<Rightarrow>
          (let oneHourAgo = ts - 3600000
           in a\<lparr>fa_timeWindows := map_set name
                  (filter (\<lambda>w. tw_start w > oneHourAgo) (put_window item (windowStart ts) f ws)) (fa_timeWindows a)\<rparr>))"

definition baselineKey :: "string \<Rightarrow> string \<Rightarrow> string" where
  "baselineKey name item = name @ '':'' @ item"

text \<open>A baseline of 0 is falsy.\<close>

definition baseline_of :: "string \<Rightarrow> string \<Rightarrow> freq_analyzer \<Rightarrow> real" where
  "baseline_of name item a =
     (case map_of (fa_baselines a) (baselineKey name item) of None \<Rightarrow> 1 | Some b \<Rightarrow> if b = 0 then 1 else b)"

definition trackItem ::
  "string \<Rightarrow> string \<Rightarrow> time_ms option \<Rightarrow> track_env \<Rightarrow> freq_analyzer \<Rightarrow> (frequency_error + frequency_result) \<times> freq_analyzer" where
  "trackItem name item timestamp env a =
     (case map_of (fa_sketches a) name of
        None \<Rightarrow> (Inl (SketchNotFound name), a)
      | Some s \<Rightarrow>
          (let s = insert_item (js item) 1 (te_insertTime env) s;
               (estimate, s) = query (js item) (te_queryTime env) (te_queryClock env) s;
               a = a\<lparr>fa_sketches := map_set name s (fa_sketches a)\<rparr>;
               baseline = baseline_of name item a;
               f = frequency estimate
           in case map_of (fa_thresholds a) name of
                None \<Rightarrow> (Inl ThresholdsUndefined, a)
              | Some th \<Rightarrow>
                  (Inr \<lparr>fr_item = item, currentFrequency = f, baselineFrequency = baseline, deviationRatio = f / baseline,
                        fr_riskLevel = determineFreqLevel f th, fr_riskScore = calculateFreqScore f th,
                        fr_confidence = est_confidence estimate, fr_timeWindow = 300000,
                        fr_lastSeen = (case timestamp of None \<Rightarrow> te_resultClock env | Some t \<Rightarrow> t)\<rparr>,
                   updateTimeWindow name item f (case timestamp of None \<Rightarrow> te_windowClock env | Some t \<Rightarrow> t) a)))"

text \<open>\<^verbatim>\<open>/\\/[\\d.]+/g\<close> removed: a slash and the digits and dots after it, when there is at least one.\<close>

definition version_char :: "char \<Rightarrow> bool" where
  "version_char c \<longleftrightarrow> is_decimal c \<or> c = CHR ''.''"

function strip_versions :: "string \<Rightarrow> string" where
  "strip_versions [] = []"
| "strip_versions (c # s) =
     (if c = CHR ''/'' \<and> s \<noteq> [] \<and> version_char (hd s) then strip_versions (dropWhile version_char s)
      else c # strip_versions s)"
  by pat_completeness auto
termination
  by (relation "measure length") (auto simp: less_Suc_eq_le length_dropWhile_le)

text \<open>\<^verbatim>\<open>/\\s+/g\<close> replaced by one space.\<close>

function squeeze_spaces :: "string \<Rightarrow> string" where
  "squeeze_spaces [] = []"
| "squeeze_spaces (c # s) =
     (if space_char c then CHR '' '' # squeeze_spaces (dropWhile space_char s) else c # squeeze_spaces s)"
  by pat_completeness auto
termination
  by (relation "measure length") (auto simp: less_Suc_eq_le length_dropWhile_le)

definition normalizeUserAgent :: "string \<Rightarrow> string" where
  "normalizeUserAgent userAgent =
     (let s = squeeze_spaces (strip_versions userAgent)
      in map lower_char (rev (dropWhile space_char (rev (dropWhile space_char s)))))"

text \<open>\<open>parsed\<close> is the path name the \<^verbatim>\<open>URL\<close> class of the platform reads from the path, \<open>None\<close> when it raises an error.\<close>

definition fa_normalizePath :: "(string \<Rightarrow> string option) \<Rightarrow> string \<Rightarrow> string" where
  "fa_normalizePath parsed path =
     (case parsed path of
        Some pathname \<Rightarrow> map lower_char pathname
      | None \<Rightarrow> map lower_char (takeWhile (\<lambda>c. c \<noteq> CHR ''?'') path))"

definition trackIPAddress where
  "trackIPAddress ipAddress = trackItem ''ip_addresses'' ipAddress"

definition trackUserAgent where
  "trackUserAgent userAgent = trackItem ''user_agents'' (normalizeUserAgent userAgent)"

definition trackRequestPath where
  "trackRequestPath parsed path = trackItem ''request_paths'' (fa_normalizePath parsed path)"

definition trackSessionID where
  "trackSessionID sessionId = trackItem ''session_ids'' sessionId"

definition trackParameter where
  "trackParameter paramName paramValue = trackItem ''parameters'' (paramName @ ''='' @ paramValue)"

section \<open>Patterns\<close>

definition fa_calculateTrend :: "real list \<Rightarrow> real" where
  "fa_calculateTrend fs =
     (if length fs < 2 then 0
      else if hd fs = 0 then (if last fs > 0 then 1 else 0)
      else (last fs - hd fs) / hd fs)"

definition fa_mean :: "real list \<Rightarrow> real" where
  "fa_mean fs = sum_list fs / real (length fs)"

definition fa_calculateVariance :: "real list \<Rightarrow> real" where
  "fa_calculateVariance fs =
     (if length fs < 2 then 0 else sum_list (map (\<lambda>f. (f - fa_mean fs) ^ 2) fs) / real (length fs))"

definition pattern_of :: "real list \<Rightarrow> frequency_pattern" where
  "pattern_of fs =
     (let trend = fa_calculateTrend fs;
          variance = fa_calculateVariance fs;
          (type, description) =
            (if js_greater (js_div variance (fa_mean fs)) 2 then (Pt_burst, Irregular_burst)
             else if \<bar>trend\<bar> > 1 / 2
             then (let t = (if trend > 0 then Pt_increasing else Pt_decreasing) in (t, Trend_detected t (trend * 100)))
             else (Pt_steady, Stable_pattern))
      in \<lparr>pt_type = type, pt_confidence = 8 / 10, pt_description = description, pt_trend = trend\<rparr>)"

definition analyzePattern :: "string \<Rightarrow> string \<Rightarrow> freq_analyzer \<Rightarrow> frequency_error + frequency_pattern" where
  "analyzePattern name item a =
     (case map_of (fa_timeWindows a) name of
        None \<Rightarrow> Inl (NoTimeWindows name)
      | Some ws \<Rightarrow>
          (let itemWindows = sort_key tw_start (filter (\<lambda>w. tw_item w = item) ws)
           in Inr (if length itemWindows < 2
                   then \<lparr>pt_type = Pt_steady, pt_confidence = 1 / 2, pt_description = Insufficient_data, pt_trend = 0\<rparr>
                   else pattern_of (map tw_frequency itemWindows))))"

section \<open>Other operations\<close>

text \<open>\<open>readings\<close> are the elapsed time and the clock at the query of each candidate.\<close>

definition getTopItems ::
  "string \<Rightarrow> (string \<times> real \<times> time_ms) list \<Rightarrow> int option \<Rightarrow> freq_analyzer
   \<Rightarrow> (frequency_error + frequency_estimate list) \<times> freq_analyzer" where
  "getTopItems name candidates limit a =
     (case map_of (fa_sketches a) name of
        None \<Rightarrow> (Inl (SketchNotFound name), a)
      | Some s \<Rightarrow>
          (case getTopK (case limit of None \<Rightarrow> 10 | Some k \<Rightarrow> k) (Some (map (\<lambda>(item, r). (js item, r)) candidates)) s of
             Inl e \<Rightarrow> (Inl (SketchRaised e), a)
           | Inr (best, s) \<Rightarrow> (Inr best, a\<lparr>fa_sketches := map_set name s (fa_sketches a)\<rparr>)))"

definition fa_updateBaseline :: "string \<Rightarrow> string \<Rightarrow> real \<Rightarrow> freq_analyzer \<Rightarrow> freq_analyzer" where
  "fa_updateBaseline name item b a = a\<lparr>fa_baselines := map_set (baselineKey name item) b (fa_baselines a)\<rparr>"

definition fa_updateThresholds :: "string \<Rightarrow> frequency_thresholds \<Rightarrow> freq_analyzer \<Rightarrow> freq_analyzer" where
  "fa_updateThresholds name th a = a\<lparr>fa_thresholds := map_set name th (fa_thresholds a)\<rparr>"

definition getSketchMetrics :: "string \<Rightarrow> freq_analyzer \<Rightarrow> sketch_metrics option" where
  "getSketchMetrics name a = map_option metrics (map_of (fa_sketches a) name)"

definition getSketchNames :: "freq_analyzer \<Rightarrow> string list" where
  "getSketchNames a = map fst (fa_sketches a)"

definition fa_getTotalMemoryUsage :: "freq_analyzer \<Rightarrow> int" where
  "fa_getTotalMemoryUsage a = sum_list (map (\<lambda>(name, s). getMemoryUsage (config s)) (fa_sketches a))"

definition fa_clearAll :: "freq_analyzer \<Rightarrow> freq_analyzer" where
  "fa_clearAll a =
     a\<lparr>fa_sketches := map (\<lambda>(name, s). (name, clear s)) (fa_sketches a), fa_timeWindows := [], fa_baselines := []\<rparr>"

text \<open>
  Persistence goes through the Redis wrapper, whose commands never raise; \<open>text\<close> is \<^verbatim>\<open>JSON.stringify\<close>, \<open>parse\<close> is \<^verbatim>\<open>JSON.parse\<close>
  read as a saved sketch (\<open>None\<close> when it is not one), \<open>now\<close> the clock of each sketch.
\<close>

definition sketch_key :: "string \<Rightarrow> string" where
  "sketch_key name = ''frequency_sketch:'' @ name"

definition fa_persistToRedis where
  "fa_persistToRedis cset csetEx text now a rd =
     fold (\<lambda>(name, s) rd. snd (redis_set cset csetEx (sketch_key name) (text (serialize (now name) s)) (Some 3600) rd))
       (fa_sketches a) rd"

text \<open>The first entry that cannot be read ends the loop; an empty text is falsy.\<close>

fun load_sketches where
  "load_sketches cget parse [] a rd = (a, rd)"
| "load_sketches cget parse (name # names) a rd =
     (case redis_get cget (sketch_key name) rd of
        (None, rd) \<Rightarrow> load_sketches cget parse names a rd
      | (Some d, rd) \<Rightarrow>
          (if d = [] then load_sketches cget parse names a rd
           else case parse d of
             None \<Rightarrow> (a, rd)
           | Some sd \<Rightarrow>
               (case deserialize sd of
                  Inl e \<Rightarrow> (a, rd)
                | Inr s \<Rightarrow> load_sketches cget parse names (a\<lparr>fa_sketches := map_set name s (fa_sketches a)\<rparr>) rd)))"

definition fa_loadFromRedis where
  "fa_loadFromRedis cget parse a rd = load_sketches cget parse (getSketchNames a) a rd"

section \<open>Tracking histories\<close>

text \<open>Levels are ordered by gravity.\<close>

instantiation freq_level :: linorder
begin

definition level_rank :: "freq_level \<Rightarrow> nat" where
  "level_rank l = (case l of Fq_normal \<Rightarrow> 0 | Fq_suspicious \<Rightarrow> 1 | Fq_anomalous \<Rightarrow> 2 | Fq_critical \<Rightarrow> 3)"

definition less_eq_freq_level :: "freq_level \<Rightarrow> freq_level \<Rightarrow> bool" where
  "less_eq_freq_level l m \<longleftrightarrow> level_rank l \<le> level_rank m"

definition less_freq_level :: "freq_level \<Rightarrow> freq_level \<Rightarrow> bool" where
  "less_freq_level l m \<longleftrightarrow> level_rank l < level_rank m"

instance
  by standard (auto simp: less_eq_freq_level_def less_freq_level_def level_rank_def split: freq_level.splits)

end

record track_event =
  ev_sketch :: string
  ev_item :: string
  ev_time :: "time_ms option"
  ev_env :: track_env

definition handle_event :: "track_event \<Rightarrow> freq_analyzer \<Rightarrow> (frequency_error + frequency_result) \<times> freq_analyzer" where
  "handle_event e = trackItem (ev_sketch e) (ev_item e) (ev_time e) (ev_env e)"

definition track_all :: "track_event list \<Rightarrow> freq_analyzer \<Rightarrow> freq_analyzer" where
  "track_all es a = fold (\<lambda>e a. snd (handle_event e a)) es a"

text \<open>The items tracked under a name.\<close>

definition tracked :: "string \<Rightarrow> track_event list \<Rightarrow> string list" where
  "tracked name es = map ev_item (filter (\<lambda>e. ev_sketch e = name) es)"

text \<open>The table of a sketch that has counted each item of a list once.\<close>

definition count_table :: "sketch_config \<Rightarrow> string list \<Rightarrow> real list list" where
  "count_table c items =
     run_cells (hashFunction c) (nat (depth c)) (map (\<lambda>i. (js i, 1)) items) (initializeMatrix c)"

definition table_estimate :: "sketch_config \<Rightarrow> string list \<Rightarrow> string \<Rightarrow> real" where
  "table_estimate c items item = min_cells (hashFunction c) (nat (depth c)) (js item) (count_table c items)"

text \<open>Every sketch has counted the items of a history and nothing else.\<close>

definition fa_counts :: "(string \<Rightarrow> string list) \<Rightarrow> freq_analyzer \<Rightarrow> bool" where
  "fa_counts hist a \<longleftrightarrow>
     (\<forall>name s. map_of (fa_sketches a) name = Some s \<longrightarrow>
        validateConfig (config s) = None \<and> matrix s = count_table (config s) (hist name))"

lemma track_all_simps [simp]:
  "track_all [] a = a"
  "track_all (e # es) a = track_all es (snd (handle_event e a))"
  "track_all (es @ es') a = track_all es' (track_all es a)"
  by (simp_all add: track_all_def)

lemma tracked_simps [simp]:
  "tracked name [] = []"
  "tracked name (e # es) = (if ev_sketch e = name then ev_item e # tracked name es else tracked name es)"
  "tracked name (es @ es') = tracked name es @ tracked name es'"
  by (simp_all add: tracked_def)

lemma updateTimeWindow_simps [simp]:
  "fa_sketches (updateTimeWindow name item f ts a) = fa_sketches a"
  "fa_thresholds (updateTimeWindow name item f ts a) = fa_thresholds a"
  "fa_baselines (updateTimeWindow name item f ts a) = fa_baselines a"
  by (simp_all add: updateTimeWindow_def Let_def split: option.splits)

lemma trackItem_found:
  assumes "map_of (fa_sketches a) name = Some s" and "map_of (fa_thresholds a) name = Some th"
  obtains r a' s' where "trackItem name item ts env a = (Inr r, updateTimeWindow name item (currentFrequency r)
        (case ts of None \<Rightarrow> te_windowClock env | Some t \<Rightarrow> t) a')"
    and "a' = a\<lparr>fa_sketches := map_set name s' (fa_sketches a)\<rparr>"
    and "config s' = config s" "matrix s' = add_cells (hashFunction (config s)) (nat (depth (config s))) (js item) 1 (matrix s)"
    and "currentFrequency r = min_cells (hashFunction (config s)) (nat (depth (config s))) (js item) (matrix s')"
    and "fr_riskLevel r = determineFreqLevel (currentFrequency r) th"
    and "fr_riskScore r = calculateFreqScore (currentFrequency r) th"
    and "fr_item r = item"
    and "totalInserts (metrics s') = totalInserts (metrics s) + 1"
proof -
  obtain e s' where q: "query (js item) (te_queryTime env) (te_queryClock env) (insert_item (js item) 1 (te_insertTime env) s) = (e, s')"
    by fastforce
  have "config s' = config s" "matrix s' = add_cells (hashFunction (config s)) (nat (depth (config s))) (js item) 1 (matrix s)"
    "frequency e = min_cells (hashFunction (config s)) (nat (depth (config s))) (js item) (matrix s')"
    "totalInserts (metrics s') = totalInserts (metrics s) + 1"
    using query_simps [of "js item" "te_queryTime env" "te_queryClock env" "insert_item (js item) 1 (te_insertTime env) s"]
    by (simp_all add: q)
  then show thesis
    using assms q that by (simp add: trackItem_def Let_def)
qed

lemma count_table_snoc:
  "count_table c (items @ [i]) = add_cells (hashFunction c) (nat (depth c)) (js i) 1 (count_table c items)"
  by (simp add: count_table_def run_cells_def)

text \<open>The estimates of a counted history.\<close>

lemma js_inj [simp]: "js s = js t \<longleftrightarrow> s = t"
proof -
  have "inj (\<lambda>c :: char. word_of_int (of_char c) :: 16 word)"
  proof (rule injI)
    fix c d :: char
    assume eq: "(word_of_int (of_char c) :: 16 word) = word_of_int (of_char d)"
    have bound: "(0 :: int) \<le> of_char e \<and> (of_char e :: int) < 256" for e :: char
      using of_char_mod_256 [of e, where 'a = int, symmetric] pos_mod_bound [of 256 "of_char e"] pos_mod_sign [of 256 "of_char e"]
      by simp
    have bound: "(of_char e :: int) mod 65536 = of_char e" for e :: char using bound [of e] by simp
    from eq have "uint (word_of_int (of_char c) :: 16 word) = uint (word_of_int (of_char d) :: 16 word)" by simp
    then have "(of_char c :: int) = of_char d" using bound by (simp add: unsigned_of_int take_bit_eq_mod)
    then show "c = d" by simp
  qed
  then show ?thesis unfolding js_def by simp
qed

lemma true_count_ones: "true_count (js i) (map (\<lambda>i. (js i, 1)) items) = real (count_list items i)"
  by (induction items) (auto simp: true_count_def)

lemma ones_stream: "nonneg_stream (map (\<lambda>i. (js i, 1)) items)" "stream_total (map (\<lambda>i. (js i, 1)) items) = real (length items)"
  by (auto simp: nonneg_stream_def stream_total_def sum_list_triv comp_def)

lemma table_estimate_bounds:
  assumes "validateConfig c = None"
  shows "real (count_list items i) \<le> table_estimate c items i" "table_estimate c items i \<le> real (length items)"
  using murmur_rows.estimate_ge_true_count [OF table_ok_initial _ _ ones_stream(1), of c "js i" items]
    murmur_rows.estimate_le_total [OF table_ok_initial _ _ ones_stream(1), of c "js i" items] valid_configD [OF assms]
  by (simp_all add: table_estimate_def count_table_def initial_cell true_count_ones ones_stream)

lemma count_table_ok: "table_ok (nat (width c)) (nat (depth c)) (count_table c items)"
  by (simp add: count_table_def table_ok_initial murmur_rows.table_ok_run)

lemma table_estimate_snoc:
  assumes "validateConfig c = None"
  shows "table_estimate c items i + (if j = i then 1 else 0) \<le> table_estimate c (items @ [j]) i"
  unfolding table_estimate_def
proof (rule min_cells_ge)
  show "0 < nat (depth c)" using valid_configD [OF assms] by simp
  fix k assume k: "k < nat (depth c)"
  have w: "0 < nat (width c)" using valid_configD [OF assms] by simp
  have "count_table c (items @ [j]) ! k ! hashFunction c k (js i)
      = count_table c items ! k ! hashFunction c k (js i) + (if hashFunction c k (js j) = hashFunction c k (js i) then 1 else 0)"
    unfolding count_table_snoc using count_table_ok w k murmur_rows.h_range [OF w] by (rule murmur_rows.cell_add_cells)
  then show "min_cells (hashFunction c) (nat (depth c)) (js i) (count_table c items) + (if j = i then 1 else 0)
      \<le> count_table c (items @ [j]) ! k ! hashFunction c k (js i)"
    using min_cells_le [OF k, of "hashFunction c" "js i" "count_table c items"] by auto
qed

lemma table_estimate_grows:
  assumes "validateConfig c = None"
  shows "table_estimate c items i \<le> table_estimate c (items @ later) i"
proof (induction later rule: rev_induct)
  case (snoc j later)
  have "table_estimate c (items @ later) i \<le> table_estimate c (items @ later @ [j]) i"
    using table_estimate_snoc [OF assms, of "items @ later" i j] by (simp split: if_splits)
  with snoc show ?case by simp
qed simp

text \<open>Tracking keeps the correspondence.\<close>

lemma track_sketches:
  "fa_sketches (snd (trackItem name item ts env a)) =
     (case map_of (fa_sketches a) name of None \<Rightarrow> fa_sketches a
      | Some s \<Rightarrow> map_set name (snd (query (js item) (te_queryTime env) (te_queryClock env)
           (insert_item (js item) 1 (te_insertTime env) s))) (fa_sketches a))"
  by (simp add: trackItem_def Let_def case_prod_beta split: option.splits)

lemma track_thresholds [simp]: "fa_thresholds (snd (trackItem name item ts env a)) = fa_thresholds a"
  by (simp add: trackItem_def Let_def case_prod_beta split: option.splits)

lemma track_all_thresholds [simp]: "fa_thresholds (track_all es a) = fa_thresholds a"
  by (induction es arbitrary: a) (simp_all add: handle_event_def)

lemma fa_counts_track:
  assumes "fa_counts hist a"
  shows "fa_counts (hist(name := hist name @ [item])) (snd (trackItem name item ts env a))"
  using assms unfolding fa_counts_def track_sketches
  by (auto simp: count_table_snoc update_conv' split: option.splits if_splits)

lemma fa_counts_all: "fa_counts hist a \<Longrightarrow> fa_counts (\<lambda>n. hist n @ tracked n es) (track_all es a)"
proof (induction es arbitrary: hist a)
  case (Cons e es)
  have "(\<lambda>n. (hist(ev_sketch e := hist (ev_sketch e) @ [ev_item e])) n @ tracked n es) = (\<lambda>n. hist n @ tracked n (e # es))"
    by auto
  then show ?case
    using Cons.IH [OF fa_counts_track [OF Cons.prems, of "ev_sketch e" "ev_item e" "ev_time e" "ev_env e"]]
    by (simp add: handle_event_def)
qed simp

lemma track_sketch_kept:
  assumes "map_of (fa_sketches a) name = Some s"
  shows "\<exists>s'. map_of (fa_sketches (snd (trackItem n item ts env a))) name = Some s' \<and> config s' = config s
    \<and> totalInserts (metrics s') = totalInserts (metrics s) + (if n = name then 1 else 0)"
  using assms unfolding track_sketches by (auto simp: update_conv' split: option.splits)

lemma track_all_sketch_kept:
  assumes "map_of (fa_sketches a) name = Some s"
  shows "\<exists>s'. map_of (fa_sketches (track_all es a)) name = Some s' \<and> config s' = config s
    \<and> totalInserts (metrics s') = totalInserts (metrics s) + int (length (tracked name es))"
  using assms
proof (induction es arbitrary: a s)
  case (Cons e es)
  obtain s' where s': "map_of (fa_sketches (snd (handle_event e a))) name = Some s'" "config s' = config s"
    "totalInserts (metrics s') = totalInserts (metrics s) + (if ev_sketch e = name then 1 else 0)"
    using track_sketch_kept [OF Cons.prems, of "ev_sketch e"] unfolding handle_event_def by blast
  then show ?case using Cons.IH [OF s'(1)] by auto
qed simp

text \<open>The result of tracking, for a history.\<close>

lemma track_result:
  assumes "fa_counts hist a" and "map_of (fa_sketches a) name = Some s" and "map_of (fa_thresholds a) name = Some th"
  shows "\<exists>r. fst (trackItem name item ts env a) = Inr r \<and> fr_item r = item
    \<and> currentFrequency r = table_estimate (config s) (hist name @ [item]) item
    \<and> fr_riskLevel r = determineFreqLevel (currentFrequency r) th \<and> fr_riskScore r = calculateFreqScore (currentFrequency r) th"
proof -
  have m: "matrix s = count_table (config s) (hist name)" using assms(1, 2) by (simp add: fa_counts_def)
  show ?thesis
    using trackItem_found [OF assms(2, 3), of item ts env] by (metis m count_table_snoc table_estimate_def fst_conv)
qed

section \<open>Windows of a minute\<close>

definition window_key :: "window_frequency \<Rightarrow> string \<times> time_ms" where
  "window_key w = (tw_item w, tw_start w)"

text \<open>One entry per item and minute, all within an hour, with estimates that do not fall.\<close>

definition windows_ok :: "(string \<Rightarrow> real) \<Rightarrow> time_ms \<Rightarrow> window_frequency list \<Rightarrow> bool" where
  "windows_ok est now ws \<longleftrightarrow>
     distinct (map window_key ws)
     \<and> (\<forall>w\<in>set ws. windowDuration dvd tw_start w \<and> tw_start w \<le> now \<and> 0 \<le> tw_frequency w \<and> tw_frequency w \<le> est (tw_item w))
     \<and> (\<forall>w\<in>set ws. \<forall>w'\<in>set ws. tw_item w = tw_item w' \<and> tw_start w \<le> tw_start w' \<longrightarrow> tw_frequency w \<le> tw_frequency w')
     \<and> (\<exists>t. \<forall>w\<in>set ws. t - 3600000 < tw_start w \<and> tw_start w \<le> t)"

definition ev_when :: "track_event \<Rightarrow> time_ms" where
  "ev_when e = (case ev_time e of None \<Rightarrow> te_windowClock (ev_env e) | Some t \<Rightarrow> t)"

lemma put_window_keys:
  "map window_key (put_window item st f ws) =
     (if (item, st) \<in> set (map window_key ws) then map window_key ws else map window_key ws @ [(item, st)])"
  by (induction ws) (auto simp: window_key_def)

lemma put_window_mem:
  assumes "distinct (map window_key ws)" and "w \<in> set (put_window item st f ws)"
  shows "w \<in> set ws \<and> window_key w \<noteq> (item, st) \<or> window_key w = (item, st) \<and> tw_frequency w = f"
  using assms
proof (induction ws)
  case (Cons v ws)
  then show ?case by (auto simp: window_key_def image_iff split: if_splits) 
qed (auto simp: window_key_def)

lemma windowStart_simps: "windowDuration dvd windowStart ts" "windowStart ts \<le> ts"
  unfolding windowStart_def windowDuration_def by simp_all

lemma windowStart_greatest: "windowDuration dvd st \<Longrightarrow> st \<le> ts \<Longrightarrow> st \<le> windowStart ts"
  using zdiv_mono1 [of st ts windowDuration] by (auto simp: windowStart_def windowDuration_def elim!: dvdE)

lemma windows_ok_weaken:
  assumes "windows_ok est now ws" and "now \<le> now'" and "\<And>i. est i \<le> est' i"
  shows "windows_ok est' now' ws"
  using assms unfolding windows_ok_def by (meson order_trans)

lemma windows_ok_put:
  assumes ok: "windows_ok est now ws" and later: "now \<le> ts" and grows: "\<And>i. est i \<le> est' i" and f: "f = est' item" "0 \<le> f"
  shows "windows_ok est' ts (filter (\<lambda>w. tw_start w > ts - 3600000) (put_window item (windowStart ts) f ws))"
    (is "windows_ok _ _ (filter ?recent ?ws)")
proof -
  have d: "distinct (map window_key ws)" using ok by (simp add: windows_ok_def)
  then have "distinct (map window_key ?ws)" unfolding put_window_keys by simp
  then have 1: "distinct (map window_key (filter ?recent ?ws))" by (rule distinct_map_filter)
  have old: "windowDuration dvd tw_start w" "tw_start w \<le> windowStart ts" "0 \<le> tw_frequency w" "tw_frequency w \<le> est' (tw_item w)"
    if "w \<in> set ws" for w
    using ok that later order_trans [OF _ grows] windowStart_greatest [of "tw_start w" ts]
    by (fastforce simp: windows_ok_def)+
  have mem: "w \<in> set ws \<and> window_key w \<noteq> (item, windowStart ts) \<or> window_key w = (item, windowStart ts) \<and> tw_frequency w = f"
    if "w \<in> set ?ws" for w using put_window_mem [OF d that] .
  have 2: "windowDuration dvd tw_start w \<and> tw_start w \<le> ts \<and> 0 \<le> tw_frequency w \<and> tw_frequency w \<le> est' (tw_item w)"
    if "w \<in> set ?ws" for w
    using mem [OF that] old [of w] f windowStart_simps [of ts] by (auto simp: window_key_def)
  have 3: "tw_frequency w \<le> tw_frequency w'"
    if "w \<in> set ?ws" "w' \<in> set ?ws" "tw_item w = tw_item w'" "tw_start w \<le> tw_start w'" for w w'
    using mem [OF that(1)] mem [OF that(2)] that(3, 4) old [of w] old [of w'] ok f
    by (auto simp: window_key_def windows_ok_def)
  show ?thesis
    unfolding windows_ok_def using 1 2 3 by (auto intro!: exI [of _ ts])
qed

text \<open>Tracking under one name changes the windows of that name only.\<close>

lemma track_windows_other:
  "n \<noteq> name \<Longrightarrow> map_of (fa_timeWindows (snd (trackItem n item ts env a))) name = map_of (fa_timeWindows a) name"
  by (simp add: trackItem_def updateTimeWindow_def Let_def case_prod_beta update_conv' split: option.splits)

lemma track_windows:
  assumes c: "fa_counts hist a" and s: "map_of (fa_sketches a) name = Some s" and ws: "map_of (fa_timeWindows a) name = Some ws"
    and ok: "windows_ok (table_estimate (config s) (hist name)) now ws"
    and later: "now \<le> (case ts of None \<Rightarrow> te_windowClock env | Some t \<Rightarrow> t)" (is "now \<le> ?t")
  shows "\<exists>ws'. map_of (fa_timeWindows (snd (trackItem name item ts env a))) name = Some ws'
    \<and> windows_ok (table_estimate (config s) (hist name @ [item])) ?t ws'"
proof -
  have v: "validateConfig (config s) = None" using c s by (simp add: fa_counts_def)
  have grows: "table_estimate (config s) (hist name) i \<le> table_estimate (config s) (hist name @ [item]) i" for i
    using table_estimate_grows [OF v] .
  show ?thesis
  proof (cases "map_of (fa_thresholds a) name")
    case None
    then have "fa_timeWindows (snd (trackItem name item ts env a)) = fa_timeWindows a"
      by (simp add: trackItem_def Let_def case_prod_beta s)
    then show ?thesis using ws windows_ok_weaken [OF ok later grows] by simp
  next
    case (Some th)
    obtain r a' where r: "trackItem name item ts env a = (Inr r, updateTimeWindow name item (currentFrequency r) ?t a')"
      "fa_timeWindows a' = fa_timeWindows a"
      using trackItem_found [OF s Some, of item ts env] by (metis freq_analyzer.select_convs(4) freq_analyzer.surjective freq_analyzer.update_convs(1))
    have f: "currentFrequency r = table_estimate (config s) (hist name @ [item]) item"
      using track_result [OF c s Some, of item ts env] r(1) by auto
    have "0 \<le> currentFrequency r" using table_estimate_bounds(1) [OF v, of "hist name @ [item]" item] f
      by (metis of_nat_0_le_iff order_trans)
    from windows_ok_put [OF ok later grows f this] show ?thesis
      by (simp add: r updateTimeWindow_def ws Let_def update_conv')
  qed
qed

lemma track_all_windows:
  assumes "fa_counts hist a" and "map_of (fa_sketches a) name = Some s" and "map_of (fa_timeWindows a) name = Some ws"
    and "windows_ok (table_estimate (config s) (hist name)) now ws" and "sorted (now # map ev_when es)"
  shows "\<exists>ws'. map_of (fa_timeWindows (track_all es a)) name = Some ws'
    \<and> windows_ok (table_estimate (config s) (hist name @ tracked name es)) (last (now # map ev_when es)) ws'"
  using assms
proof (induction es arbitrary: hist a s ws now)
  case (Cons e es)
  let ?a = "snd (handle_event e a)" and ?hist = "hist(ev_sketch e := hist (ev_sketch e) @ [ev_item e])"
  have c: "fa_counts ?hist ?a" unfolding handle_event_def by (rule fa_counts_track [OF Cons.prems(1)])
  obtain s' where s': "map_of (fa_sketches ?a) name = Some s'" "config s' = config s"
    using track_sketch_kept [OF Cons.prems(2)] unfolding handle_event_def by blast
  have now: "now \<le> ev_when e" using Cons.prems(5) by simp
  have "\<exists>ws'. map_of (fa_timeWindows ?a) name = Some ws' \<and> windows_ok (table_estimate (config s') (?hist name)) (ev_when e) ws'"
  proof (cases "ev_sketch e = name")
    case True
    then show ?thesis
      using track_windows [OF Cons.prems(1-4), where ts = "ev_time e" and env = "ev_env e" and item = "ev_item e"] now s'(2)
      unfolding handle_event_def ev_when_def by auto
  next
    case False
    then show ?thesis
      using track_windows_other [OF False] Cons.prems(3) windows_ok_weaken [OF Cons.prems(4) now order_refl] s'(2)
      by (auto simp: handle_event_def)
  qed
  then obtain ws' where "map_of (fa_timeWindows ?a) name = Some ws'" "windows_ok (table_estimate (config s') (?hist name)) (ev_when e) ws'"
    by blast
  from Cons.IH [OF c s'(1) this] Cons.prems(5) s'(2) show ?case by (auto split: if_splits)
qed auto

text \<open>At most sixty minutes fit into an hour.\<close>

lemma windows_bound:
  assumes "windows_ok est now ws"
  shows "length (filter (\<lambda>w. tw_item w = item) ws) \<le> 60"
proof -
  let ?ws = "filter (\<lambda>w. tw_item w = item) ws" and ?minute = "\<lambda>w. tw_start w div windowDuration"
  obtain t where t: "\<And>w. w \<in> set ws \<Longrightarrow> t - 3600000 < tw_start w \<and> tw_start w \<le> t"
    using assms unfolding windows_ok_def by blast
  have dvd: "windowDuration dvd tw_start w" if "w \<in> set ws" for w using assms that by (simp add: windows_ok_def)
  have "inj_on window_key (set ws)" "distinct ws" using assms by (simp_all add: windows_ok_def distinct_map)
  then have inj: "inj_on ?minute (set ?ws)"
    using dvd by (auto simp: inj_on_def window_key_def windowDuration_def dvd_div_eq_iff)
  have "?minute ` set ?ws \<subseteq> {t div 60000 - 59 .. t div 60000}"
  proof (rule image_subsetI)
    fix w assume "w \<in> set ?ws"
    then have w: "60000 dvd tw_start w" "t - 3600000 < tw_start w" "tw_start w \<le> t"
      using t [of w] dvd [of w] by (auto simp: windowDuration_def)
    then show "?minute w \<in> {t div 60000 - 59 .. t div 60000}"
      using zdiv_mono1 [of "t - 3600000 + 1" "tw_start w" 60000] zdiv_mono1 [of "tw_start w" t 60000]
      by (auto simp: windowDuration_def elim!: dvdE)
  qed
  then have "card (?minute ` set ?ws) \<le> card {t div 60000 - 59 .. t div 60000}" by (intro card_mono) simp_all
  then have "card (set ?ws) \<le> 60" using card_image [OF inj] by simp
  then show ?thesis using distinct_card [OF distinct_filter [OF \<open>distinct ws\<close>]] by simp
qed

lemma windows_kept:
  "map_of (fa_timeWindows a) name = Some ws \<Longrightarrow> \<exists>ws'. map_of (fa_timeWindows (track_all es a)) name = Some ws'"
proof (induction es arbitrary: a ws)
  case (Cons e es)
  have "\<exists>ws'. map_of (fa_timeWindows (snd (handle_event e a))) name = Some ws'"
    using Cons.prems
    by (auto simp: handle_event_def trackItem_def updateTimeWindow_def Let_def case_prod_beta update_conv' split: option.splits)
  then show ?case using Cons.IH by auto
qed simp

text \<open>The analyzer of the constructor.\<close>

lemma default_configs: "(name, c) \<in> set (fa_default_sketches seed) \<Longrightarrow> validateConfig c = None"
  by (auto simp: fa_default_sketches_def fa_defaultConfig_def validateConfig_def)

lemma new_analyzer_parts:
  assumes "new_freq_analyzer seed = Inr a"
  shows "fa_sketches a = map (\<lambda>(name, c). (name, \<lparr>config = c, matrix = initializeMatrix c, metrics = initializeMetrics c\<rparr>))
      (fa_default_sketches seed)"
    and "fa_timeWindows a = map (\<lambda>(name, c). (name, [])) (fa_default_sketches seed)"
    and "fa_thresholds a = fa_default_thresholds" and "fa_baselines a = []"
proof -
  have create: "fa_createSketch name c a = Inr (a\<lparr>fa_sketches := map_set name \<lparr>config = c, matrix = initializeMatrix c,
      metrics = initializeMetrics c\<rparr> (fa_sketches a), fa_timeWindows := map_set name [] (fa_timeWindows a)\<rparr>)"
    if "validateConfig c = None" for name c and a :: freq_analyzer
    using that by (simp add: fa_createSketch_def new_sketch_def)
  have valid: "validateConfig ((fa_defaultConfig seed)\<lparr>width := w\<rparr>) = None" if "0 < w" for w
    using that by (simp add: fa_defaultConfig_def validateConfig_def)
  show "fa_sketches a = map (\<lambda>(name, c). (name, \<lparr>config = c, matrix = initializeMatrix c, metrics = initializeMetrics c\<rparr>))
      (fa_default_sketches seed)" and "fa_timeWindows a = map (\<lambda>(name, c). (name, [])) (fa_default_sketches seed)"
    and "fa_thresholds a = fa_default_thresholds" and "fa_baselines a = []"
    using assms by (auto simp: new_freq_analyzer_def fa_default_sketches_def create valid setDefaultThresholds_def fa_default_thresholds_def)
qed

lemma new_freq_analyzer_ok: "\<exists>a. new_freq_analyzer seed = Inr a"
proof -
  have create: "\<exists>a'. fa_createSketch name c a = Inr a'" if "validateConfig c = None" for name c a
    using that by (simp add: fa_createSketch_def new_sketch_def)
  have "\<exists>a'. create_sketches cs a = Inr a'" if "\<And>name c. (name, c) \<in> set cs \<Longrightarrow> validateConfig c = None" for cs a
    using that
  proof (induction cs arbitrary: a)
    case (Cons p cs)
    obtain name c where p: "p = (name, c)" by fastforce
    have "validateConfig c = None" using Cons.prems [of name c] p by simp
    then obtain a' where "fa_createSketch name c a = Inr a'" using create [of c name a] by blast
    then show ?case using Cons.IH [of a'] Cons.prems p by auto
  qed simp
  then obtain a' where "create_sketches (fa_default_sketches seed)
      \<lparr>fa_sketches = [], fa_baselines = [], fa_thresholds = [], fa_timeWindows = [], fa_isInitialized = False\<rparr> = Inr a'"
    using default_configs by blast
  then show ?thesis by (simp add: new_freq_analyzer_def)
qed

lemma new_analyzer_counts: "new_freq_analyzer seed = Inr a \<Longrightarrow> fa_counts (\<lambda>_. []) a"
  using default_configs [of _ _ seed] unfolding fa_counts_def
  by (fastforce simp: new_analyzer_parts(1) count_table_def run_cells_def dest!: map_of_SomeD)

lemma new_analyzer_named:
  assumes "new_freq_analyzer seed = Inr a" and "map_of fa_default_thresholds name = Some th"
  shows "\<exists>s. map_of (fa_sketches a) name = Some s \<and> totalInserts (metrics s) = 0" and "map_of (fa_timeWindows a) name = Some []"
  using assms(2) unfolding new_analyzer_parts [OF assms(1)]
  by (auto simp: fa_default_thresholds_def fa_default_sketches_def initializeMetrics_def split: if_splits)

lemma windows_ok_Nil: "windows_ok est now []"
  by (simp add: windows_ok_def)

lemma new_analyzer_windows:
  assumes a: "new_freq_analyzer seed = Inr a" and times: "sorted (map ev_when es)"
    and ws: "map_of (fa_timeWindows (track_all es a)) name = Some ws" and name: "map_of fa_default_thresholds name = Some th"
  shows "\<exists>est now. windows_ok est now ws"
proof -
  obtain s where s: "map_of (fa_sketches a) name = Some s" using new_analyzer_named [OF a name] by blast
  define now where "now = (case es of [] \<Rightarrow> 0 | e # _ \<Rightarrow> ev_when e)"
  have "sorted (now # map ev_when es)" using times by (auto simp: now_def split: list.splits)
  from track_all_windows [OF new_analyzer_counts [OF a] s new_analyzer_named(2) [OF a name] windows_ok_Nil this]
  show ?thesis using ws by auto
qed

lemma pattern_not_falling:
  assumes "sorted fs" and "2 \<le> length fs" and "0 \<le> hd fs"
  shows "pt_type (pattern_of fs) \<noteq> Pt_decreasing" and "0 \<le> pt_trend (pattern_of fs)"
proof -
  have "hd fs \<le> last fs" using assms(1, 2) by (cases fs) (auto simp: last_in_set)
  then have "0 \<le> fa_calculateTrend fs" using assms by (auto simp: fa_calculateTrend_def)
  then show "pt_type (pattern_of fs) \<noteq> Pt_decreasing" "0 \<le> pt_trend (pattern_of fs)"
    by (auto simp: pattern_of_def Let_def)
qed

lemma windows_sorted:
  assumes "windows_ok est now ws"
  shows "sorted (map tw_frequency (sort_key tw_start (filter (\<lambda>w. tw_item w = item) ws)))" (is "sorted (map _ ?ws)")
proof -
  have "tw_frequency w \<le> tw_frequency w'" if "w \<in> set ?ws" "w' \<in> set ?ws" "tw_start w \<le> tw_start w'" for w w'
    using assms that by (auto simp: windows_ok_def)
  moreover have "sorted_wrt (\<lambda>w w'. tw_start w \<le> tw_start w') ?ws"
    using sorted_sort_key [of tw_start] by (simp add: sorted_wrt_map)
  ultimately have "sorted_wrt (\<lambda>w w'. tw_frequency w \<le> tw_frequency w') ?ws"
    by (metis (mono_tags, lifting) sorted_wrt_mono_rel)
  then show ?thesis by (simp add: sorted_wrt_map)
qed

section \<open>Properties\<close>

text \<open>
  C31. Whatever has been tracked by a new analyzer, tracking an item of one of its five kinds returns a result whose
  frequency is at least the number of times the item has been tracked and at most the number of items of its kind. Its score is a
  number between 0 and 1, and an item that has been tracked as often as the critical threshold says is reported as critical with
  score 1.
\<close>
theorem tracked_frequency:
  assumes "new_freq_analyzer seed = Inr a" and "map_of fa_default_thresholds name = Some th"
    and "n = count_list (tracked name es) item + 1"
  shows "\<exists>r. fst (trackItem name item ts env (track_all es a)) = Inr r
    \<and> real n \<le> currentFrequency r \<and> currentFrequency r \<le> real (length (tracked name es) + 1)
    \<and> 0 \<le> fr_riskScore r \<and> fr_riskScore r \<le> 1
    \<and> (real n \<ge> th_critical th \<longrightarrow> fr_riskLevel r = Fq_critical \<and> fr_riskScore r = 1)"
proof -
  have c: "fa_counts (\<lambda>n. [] @ tracked n es) (track_all es a)"
    by (rule fa_counts_all [OF new_analyzer_counts [OF assms(1)]])
  obtain s where s: "map_of (fa_sketches (track_all es a)) name = Some s"
    using new_analyzer_named(1) [OF assms(1, 2)] track_all_sketch_kept by metis
  have th: "map_of (fa_thresholds (track_all es a)) name = Some th" using assms(2) by (simp add: new_analyzer_parts(3) [OF assms(1)])
  obtain r where r: "fst (trackItem name item ts env (track_all es a)) = Inr r"
    "currentFrequency r = table_estimate (config s) (tracked name es @ [item]) item"
    "fr_riskLevel r = determineFreqLevel (currentFrequency r) th" "fr_riskScore r = calculateFreqScore (currentFrequency r) th"
    using track_result [OF c s th, of item ts env] by auto
  have v: "validateConfig (config s) = None" using c s by (simp add: fa_counts_def)
  have b: "th_baseline th < th_critical th" using assms(2) by (auto simp: fa_default_thresholds_def split: if_splits)
  show ?thesis
    using r table_estimate_bounds [OF v, of "tracked name es @ [item]" item] b assms(3)
    by (auto simp: determineFreqLevel_def calculateFreqScore_def)
qed

text \<open>
  The frequency of an item never falls, whatever time has passed: a later result for the item, after any other tracking, has a
  frequency larger by at least one, and no lower score or level. The thresholds are written as requests per time window.
\<close>
theorem frequency_never_decays:
  assumes "new_freq_analyzer seed = Inr a" and "map_of fa_default_thresholds name = Some th"
    and "trackItem name item ts env (track_all es a) = (Inr r, a')" and "trackItem name item ts' env' (track_all es' a') = (Inr r', a'')"
  shows "currentFrequency r + 1 \<le> currentFrequency r' \<and> fr_riskLevel r \<le> fr_riskLevel r' \<and> fr_riskScore r \<le> fr_riskScore r'"
proof -
  let ?h = "tracked name es"
  have c: "fa_counts (\<lambda>n. [] @ tracked n es) (track_all es a)"
    by (rule fa_counts_all [OF new_analyzer_counts [OF assms(1)]])
  obtain s where s: "map_of (fa_sketches (track_all es a)) name = Some s"
    using new_analyzer_named(1) [OF assms(1, 2)] track_all_sketch_kept by metis
  have th: "map_of (fa_thresholds (track_all es a)) name = Some th" using assms(2) by (simp add: new_analyzer_parts(3) [OF assms(1)])
  have a': "a' = snd (trackItem name item ts env (track_all es a))" using assms(3) by simp
  have c': "fa_counts (\<lambda>n. (if n = name then ?h @ [item] else tracked n es) @ tracked n es') (track_all es' a')"
    using fa_counts_all [OF fa_counts_track [OF c, of name item ts env], of es'] by (simp add: a' fun_upd_def)
  obtain s' where s': "map_of (fa_sketches (track_all es' a')) name = Some s'" "config s' = config s"
    using track_sketch_kept [OF s] track_all_sketch_kept unfolding a' by metis
  have th': "map_of (fa_thresholds (track_all es' a')) name = Some th" using th by (simp add: a')
  have v: "validateConfig (config s) = None" using c s by (simp add: fa_counts_def)
  have "currentFrequency r = table_estimate (config s) (?h @ [item]) item" "fr_riskLevel r = determineFreqLevel (currentFrequency r) th"
    "fr_riskScore r = calculateFreqScore (currentFrequency r) th"
    using track_result [OF c s th, of item ts env] assms(3) by auto
  moreover have "currentFrequency r' = table_estimate (config s) ((?h @ [item] @ tracked name es') @ [item]) item"
    "fr_riskLevel r' = determineFreqLevel (currentFrequency r') th" "fr_riskScore r' = calculateFreqScore (currentFrequency r') th"
    using track_result [OF c' s'(1) th', of item ts' env'] assms(4) s'(2) by auto
  moreover have "table_estimate (config s) (?h @ [item]) item + 1 \<le> table_estimate (config s) ((?h @ [item] @ tracked name es') @ [item]) item"
    using table_estimate_grows [OF v, of "?h @ [item]" item "tracked name es'"]
      table_estimate_snoc [OF v, of "?h @ [item] @ tracked name es'" item item] by simp
  moreover have "th_baseline th < th_critical th" using assms(2) by (auto simp: fa_default_thresholds_def split: if_splits)
  ultimately show ?thesis
    by (auto simp: determineFreqLevel_def calculateFreqScore_def less_eq_freq_level_def level_rank_def divide_right_mono min_def)
qed

text \<open>
  While the times of tracking do not go back, every item of a new analyzer has at most sixty windows, and because a window holds
  the total so far, not the count of its minute, the pattern of an item is never a decreasing one.
\<close>
theorem patterns_never_fall:
  assumes "new_freq_analyzer seed = Inr a" and "sorted (map ev_when es)" and "map_of fa_default_thresholds name = Some th"
  shows "\<exists>ws p. map_of (fa_timeWindows (track_all es a)) name = Some ws \<and> length (filter (\<lambda>w. tw_item w = item) ws) \<le> 60
    \<and> analyzePattern name item (track_all es a) = Inr p \<and> pt_type p \<noteq> Pt_decreasing \<and> 0 \<le> pt_trend p"
proof -
  obtain s where s: "map_of (fa_sketches a) name = Some s" using new_analyzer_named [OF assms(1, 3)] by blast
  obtain ws where ws: "map_of (fa_timeWindows (track_all es a)) name = Some ws"
    using windows_kept [OF new_analyzer_named(2) [OF assms(1, 3)]] by blast
  obtain est now where ok: "windows_ok est now ws" using new_analyzer_windows [OF assms(1, 2) ws assms(3)] by blast
  let ?fs = "map tw_frequency (sort_key tw_start (filter (\<lambda>w. tw_item w = item) ws))"
  have "0 \<le> f" if "f \<in> set ?fs" for f using ok that by (auto simp: windows_ok_def)
  then have "0 \<le> hd ?fs" if "2 \<le> length ?fs" using that by (metis hd_in_set list.size(3) not_numeral_le_zero)
  then show ?thesis
    using ws windows_bound [OF ok, of item] pattern_not_falling [OF windows_sorted [OF ok], of item]
    by (auto simp: analyzePattern_def Let_def not_less)
qed

definition demo_env :: track_env where
  "demo_env = \<lparr>te_insertTime = 0, te_queryTime = 0, te_queryClock = 0, te_windowClock = 0, te_resultClock = 0\<rparr>"

definition demo_track :: "time_ms \<Rightarrow> track_event" where
  "demo_track t = \<lparr>ev_sketch = ''ip_addresses'', ev_item = ''10.0.0.1'', ev_time = Some t, ev_env = demo_env\<rparr>"

lemma demo_track_simps [simp]:
  "ev_sketch (demo_track t) = ''ip_addresses''" "ev_item (demo_track t) = ''10.0.0.1''" "ev_when (demo_track t) = t"
  by (simp_all add: demo_track_def ev_when_def)

lemma demo_thresholds:
  "map_of fa_default_thresholds ''ip_addresses'' = Some \<lparr>th_baseline = 10, th_suspicious = 50, th_anomalous = 100, th_critical = 500\<rparr>"
  by (simp add: fa_default_thresholds_def)

lemma demo_tracked: "tracked ''ip_addresses'' (replicate n (demo_track t)) = replicate n ''10.0.0.1''"
  by (induction n) simp_all

theorem tracked_frequency_witness:
  "\<exists>a r. new_freq_analyzer 7 = Inr a
    \<and> fst (trackItem ''ip_addresses'' ''10.0.0.1'' None demo_env (track_all (replicate 499 (demo_track 0)) a)) = Inr r
    \<and> currentFrequency r = 500 \<and> fr_riskLevel r = Fq_critical"
proof -
  obtain a where a: "new_freq_analyzer 7 = Inr a" using new_freq_analyzer_ok by blast
  have "count_list (replicate n x) x = n" for n and x :: string by (induction n) simp_all
  then have n: "500 = count_list (tracked ''ip_addresses'' (replicate 499 (demo_track 0))) ''10.0.0.1'' + 1"
    unfolding demo_tracked by simp
  show ?thesis
    using a tracked_frequency [OF a demo_thresholds n, of None demo_env] unfolding demo_tracked by fastforce
qed

lemma demo_track_returns:
  assumes "new_freq_analyzer seed = Inr a"
  shows "\<exists>r a'. trackItem ''ip_addresses'' item ts env (track_all es a) = (Inr r, a')"
proof -
  obtain s where "map_of (fa_sketches (track_all es a)) ''ip_addresses'' = Some s"
    using new_analyzer_named(1) [OF assms demo_thresholds] track_all_sketch_kept by metis
  then show ?thesis
    using track_result [OF fa_counts_all [OF new_analyzer_counts [OF assms]], of es "''ip_addresses''" s _ item ts env]
    by (metis demo_thresholds new_analyzer_parts(3) [OF assms] prod.collapse track_all_thresholds)
qed

text \<open>A second request fifty years later.\<close>

theorem frequency_never_decays_witness:
  "\<exists>a r a' r' a''. new_freq_analyzer 7 = Inr a
    \<and> trackItem ''ip_addresses'' ''10.0.0.1'' (Some 0) demo_env (track_all [] a) = (Inr r, a')
    \<and> trackItem ''ip_addresses'' ''10.0.0.1'' (Some 1577836800000) demo_env (track_all [] a') = (Inr r', a'')
    \<and> currentFrequency r + 1 \<le> currentFrequency r'"
proof -
  obtain a where a: "new_freq_analyzer 7 = Inr a" using new_freq_analyzer_ok by blast
  obtain r a' where r: "trackItem ''ip_addresses'' ''10.0.0.1'' (Some 0) demo_env (track_all [] a) = (Inr r, a')"
    using demo_track_returns [OF a] by blast
  have a': "track_all [] a' = track_all [demo_track 0] a" using r by (simp add: handle_event_def demo_track_def)
  obtain r' a'' where r': "trackItem ''ip_addresses'' ''10.0.0.1'' (Some 1577836800000) demo_env (track_all [] a') = (Inr r', a'')"
    using demo_track_returns [OF a, of _ _ _ "[demo_track 0]"] unfolding a' by blast
  show ?thesis using a r r' frequency_never_decays [OF a demo_thresholds r r'] by blast
qed

theorem patterns_never_fall_witness:
  "\<exists>a ws p. new_freq_analyzer 7 = Inr a
    \<and> map_of (fa_timeWindows (track_all [demo_track 0, demo_track 60000] a)) ''ip_addresses'' = Some ws
    \<and> analyzePattern ''ip_addresses'' ''10.0.0.1'' (track_all [demo_track 0, demo_track 60000] a) = Inr p
    \<and> pt_type p \<noteq> Pt_decreasing"
proof -
  obtain a where a: "new_freq_analyzer 7 = Inr a" using new_freq_analyzer_ok by blast
  have "sorted (map ev_when [demo_track 0, demo_track 60000])" by simp
  from patterns_never_fall [OF a this demo_thresholds, of "''10.0.0.1''"] a show ?thesis by blast
qed

end
