(* ===== verification/SketchDetection.thy ===== *)
theory SketchDetection
  imports FrequencyAnalysis
begin

text \<open>
  The anomaly detector over the frequency analyzer (\<^verbatim>\<open>backend/src/core/sketch/SketchAnomalyDetector.ts\<close>): four checks of a tracking
  result, each of which may ask the analyzer for the pattern of the item, and a history of detections per sketch. A check that
  raises an error ends the analysis: what was found before is returned and nothing is added to the history. The clock is an argument, one
  reading for the sustained check and one for the history.
\<close>

section \<open>Data\<close>

record anomaly_config =
  enableFrequencySpikes :: bool
  enableRareItemDetection :: bool
  enableBurstPatterns :: bool
  enableSustainedHighActivity :: bool
  an_sensitivity :: real
  shortTermWindow :: int
  longTermWindow :: int
  minSamples :: real
  spikeThreshold :: real
  rarityThreshold :: real
  burstVarianceThreshold :: real
  sustainedDuration :: int

text \<open>The \<^verbatim>\<open>Partial\<close> of the configuration.\<close>

record anomaly_patch =
  p_enableFrequencySpikes :: "bool option"
  p_enableRareItemDetection :: "bool option"
  p_enableBurstPatterns :: "bool option"
  p_enableSustainedHighActivity :: "bool option"
  p_sensitivity :: "real option"
  p_shortTermWindow :: "int option"
  p_longTermWindow :: "int option"
  p_minSamples :: "real option"
  p_spikeThreshold :: "real option"
  p_rarityThreshold :: "real option"
  p_burstVarianceThreshold :: "real option"
  p_sustainedDuration :: "int option"

datatype sketch_anomaly_type = Frequency_spike | Rare_item | Burst_pattern | Sustained_high

datatype anomaly_severity = An_low | An_medium | An_high | An_critical

datatype anomaly_text =
    Spike_text string real real
  | Rare_text string
  | Burst_text string
  | Sustained_text string freq_level

datatype advice = Advice string | Item_advice string string | Frequency_advice real | Deviation_advice real

record sketch_anomaly =
  an_detected :: bool
  anomalyType :: sketch_anomaly_type
  an_severity :: anomaly_severity
  an_confidence :: real
  an_description :: anomaly_text
  affectedItems :: "string list"
  an_start :: time_ms
  an_end :: time_ms
  an_duration :: int
  recommendations :: "advice list"

record anomaly_detector =
  ad_config :: anomaly_config
  detectionHistory :: "(string, sketch_anomaly list) js_map"

section \<open>Configuration\<close>

definition default_anomaly_config :: anomaly_config where
  "default_anomaly_config =
     \<lparr>enableFrequencySpikes = True, enableRareItemDetection = True, enableBurstPatterns = True, enableSustainedHighActivity = True,
      an_sensitivity = 7 / 10, shortTermWindow = 300000, longTermWindow = 3600000, minSamples = 10, spikeThreshold = 5,
      rarityThreshold = 1 / 1000, burstVarianceThreshold = 2, sustainedDuration = 600000\<rparr>"

definition patch_config :: "anomaly_patch \<Rightarrow> anomaly_config \<Rightarrow> anomaly_config" where
  "patch_config p c =
     (let keep = \<lambda>new old. case new of None \<Rightarrow> old | Some b \<Rightarrow> b;
          keepr = \<lambda>new old. case new of None \<Rightarrow> old | Some (r :: real) \<Rightarrow> r;
          keepi = \<lambda>new old. case new of None \<Rightarrow> old | Some (i :: int) \<Rightarrow> i
      in \<lparr>enableFrequencySpikes = keep (p_enableFrequencySpikes p) (enableFrequencySpikes c),
          enableRareItemDetection = keep (p_enableRareItemDetection p) (enableRareItemDetection c),
          enableBurstPatterns = keep (p_enableBurstPatterns p) (enableBurstPatterns c),
          enableSustainedHighActivity = keep (p_enableSustainedHighActivity p) (enableSustainedHighActivity c),
          an_sensitivity = keepr (p_sensitivity p) (an_sensitivity c),
          shortTermWindow = keepi (p_shortTermWindow p) (shortTermWindow c),
          longTermWindow = keepi (p_longTermWindow p) (longTermWindow c),
          minSamples = keepr (p_minSamples p) (minSamples c),
          spikeThreshold = keepr (p_spikeThreshold p) (spikeThreshold c),
          rarityThreshold = keepr (p_rarityThreshold p) (rarityThreshold c),
          burstVarianceThreshold = keepr (p_burstVarianceThreshold p) (burstVarianceThreshold c),
          sustainedDuration = keepi (p_sustainedDuration p) (sustainedDuration c)\<rparr>)"

definition new_anomaly_detector :: "anomaly_patch option \<Rightarrow> anomaly_detector" where
  "new_anomaly_detector partial =
     \<lparr>ad_config = (case partial of None \<Rightarrow> default_anomaly_config | Some p \<Rightarrow> patch_config p default_anomaly_config),
      detectionHistory = []\<rparr>"

definition ad_updateConfig :: "anomaly_patch \<Rightarrow> anomaly_detector \<Rightarrow> anomaly_detector" where
  "ad_updateConfig p d = d\<lparr>ad_config := patch_config p (ad_config d)\<rparr>"

section \<open>Severities and advice\<close>

definition calculateSpikeSeverity :: "real \<Rightarrow> anomaly_severity" where
  "calculateSpikeSeverity ratio =
     (if ratio \<ge> 50 then An_critical else if ratio \<ge> 20 then An_high else if ratio \<ge> 10 then An_medium else An_low)"

definition version_path :: rx where
  "version_path = rx_seq [rx_lit ''api/v'', rx_some is_decimal]"

text \<open>A pattern that ends with \<^verbatim>\<open>$\<close> is a suffix, case ignored.\<close>

definition isSuspiciousItem :: "string \<Rightarrow> bool" where
  "isSuspiciousItem item \<longleftrightarrow>
     list_ex (\<lambda>t. rx_test (rx_lit t) item)
       [''admin'', ''phpmyadmin'', ''wp-admin'', ''config'', ''backup'', ''test'', ''debug'', ''dev'', ''bot'', ''crawler'', ''spider'',
        ''scanner'']
     \<or> list_ex (ends_with (map lower_char item)) [''.php'', ''.asp'', ''.env'']
     \<or> rx_test version_path item"

fun js_less :: "jsnum \<Rightarrow> real \<Rightarrow> bool" where
  "js_less (Fin x) y = (x < y)"
| "js_less NInf y = True"
| "js_less _ y = False"

definition calculateRaritySeverity :: "jsnum \<Rightarrow> string \<Rightarrow> anomaly_severity" where
  "calculateRaritySeverity relativeFrequency item =
     (let isSuspicious = isSuspiciousItem item
      in if isSuspicious \<and> js_less relativeFrequency (1 / 10000) then An_critical
         else if isSuspicious \<and> js_less relativeFrequency (1 / 1000) then An_high
         else if js_less relativeFrequency (1 / 10000) then An_medium
         else An_low)"

definition calculateBurstSeverity :: "real \<Rightarrow> real \<Rightarrow> anomaly_severity" where
  "calculateBurstSeverity conf riskScore =
     (let combinedScore = conf * riskScore
      in if combinedScore \<ge> 8 / 10 then An_critical else if combinedScore \<ge> 6 / 10 then An_high
         else if combinedScore \<ge> 4 / 10 then An_medium else An_low)"

definition calculateSustainedSeverity :: "real \<Rightarrow> nat \<Rightarrow> anomaly_severity" where
  "calculateSustainedSeverity riskScore detectionCount =
     (if riskScore \<ge> 8 / 10 \<and> detectionCount \<ge> 10 then An_critical
      else if riskScore \<ge> 6 / 10 \<and> detectionCount \<ge> 7 then An_high
      else if riskScore \<ge> 4 / 10 \<and> detectionCount \<ge> 5 then An_medium
      else An_low)"

definition generateSpikeRecommendations :: "frequency_result \<Rightarrow> anomaly_severity \<Rightarrow> advice list" where
  "generateSpikeRecommendations r severity =
     (if severity = An_critical
      then map Advice [''Immediately block or rate-limit the source'', ''Investigate for potential DDoS attack'', ''Alert security team'']
      else if severity = An_high
      then map Advice [''Apply temporary rate limiting'', ''Monitor closely for continued activity'', ''Consider blocking if pattern continues'']
      else map Advice [''Monitor for pattern continuation'', ''Log activity for further analysis''])
     @ [Item_advice ''Item: '' (fr_item r), Frequency_advice (currentFrequency r), Deviation_advice (deviationRatio r)]"

definition generateRarityRecommendations :: "frequency_result \<Rightarrow> anomaly_severity \<Rightarrow> advice list" where
  "generateRarityRecommendations r severity =
     (if severity = An_critical \<or> severity = An_high
      then map Advice [''Block access to suspicious resource'', ''Investigate source IP and user agent'', ''Check for scanning or probing activity'']
      else map Advice [''Log activity for pattern analysis'', ''Monitor for repeated access attempts''])
     @ [Item_advice ''Rare item: '' (fr_item r), Advice ''Consider if this resource should be accessible'']"

definition generateBurstRecommendations :: "frequency_result \<Rightarrow> anomaly_severity \<Rightarrow> advice list" where
  "generateBurstRecommendations r severity =
     (if severity = An_critical \<or> severity = An_high
      then map Advice [''Apply adaptive rate limiting'', ''Investigate burst source and pattern'', ''Consider temporary blocking during bursts'']
      else map Advice [''Monitor burst patterns'', ''Analyze timing and frequency distribution''])
     @ [Item_advice ''Burst pattern detected for: '' (fr_item r), Advice ''Irregular activity pattern may indicate automated behavior'']"

definition generateSustainedRecommendations :: "frequency_result \<Rightarrow> anomaly_severity \<Rightarrow> advice list" where
  "generateSustainedRecommendations r severity =
     (if severity = An_critical
      then map Advice [''Implement immediate blocking or quarantine'', ''Escalate to security incident response team'', ''Investigate for potential compromise'']
      else if severity = An_high
      then map Advice [''Apply strict rate limiting'', ''Require additional authentication'', ''Monitor all related activity'']
      else map Advice [''Continue monitoring sustained activity'', ''Consider gradual response escalation''])
     @ [Item_advice ''Sustained activity from: '' (fr_item r), Advice ''Pattern suggests persistent automated behavior'']"

section \<open>The four checks\<close>

definition detectFrequencySpike ::
  "string \<Rightarrow> frequency_result \<Rightarrow> freq_analyzer \<Rightarrow> anomaly_detector \<Rightarrow> frequency_error + sketch_anomaly option" where
  "detectFrequencySpike name r a d =
     (let c = ad_config d; threshold = baselineFrequency r * spikeThreshold c
      in if currentFrequency r < threshold then Inr None
         else case analyzePattern name (fr_item r) a of
           Inl e \<Rightarrow> Inl e
         | Inr p \<Rightarrow>
             if pt_type p \<noteq> Pt_increasing \<and> pt_type p \<noteq> Pt_burst then Inr None
             else (let severity = calculateSpikeSeverity (deviationRatio r)
                   in Inr (Some \<lparr>an_detected = True, anomalyType = Frequency_spike, an_severity = severity,
                        an_confidence = min (pt_confidence p * fr_confidence r) 1,
                        an_description = Spike_text (fr_item r) (currentFrequency r) (deviationRatio r),
                        affectedItems = [fr_item r], an_start = fr_lastSeen r - shortTermWindow c, an_end = fr_lastSeen r,
                        an_duration = shortTermWindow c, recommendations = generateSpikeRecommendations r severity\<rparr>)))"

definition detectRareItem ::
  "string \<Rightarrow> frequency_result \<Rightarrow> freq_analyzer \<Rightarrow> anomaly_detector \<Rightarrow> sketch_anomaly option" where
  "detectRareItem name r a d =
     (let c = ad_config d
      in case getSketchMetrics name a of
           None \<Rightarrow> None
         | Some m \<Rightarrow>
             if real_of_int (totalInserts m) < minSamples c then None
             else (let relativeFrequency = js_div (currentFrequency r) (real_of_int (totalInserts m))
                   in if js_greater relativeFrequency (rarityThreshold c) then None
                      else if currentFrequency r = 1 \<and> isSuspiciousItem (fr_item r)
                      then (let severity = calculateRaritySeverity relativeFrequency (fr_item r)
                            in Some \<lparr>an_detected = True, anomalyType = Rare_item, an_severity = severity, an_confidence = 8 / 10,
                                 an_description = Rare_text (fr_item r), affectedItems = [fr_item r],
                                 an_start = fr_lastSeen r, an_end = fr_lastSeen r, an_duration = 0,
                                 recommendations = generateRarityRecommendations r severity\<rparr>)
                      else None))"

definition detectBurstPattern ::
  "string \<Rightarrow> frequency_result \<Rightarrow> freq_analyzer \<Rightarrow> anomaly_detector \<Rightarrow> frequency_error + sketch_anomaly option" where
  "detectBurstPattern name r a d =
     (let c = ad_config d
      in case analyzePattern name (fr_item r) a of
           Inl e \<Rightarrow> Inl e
         | Inr p \<Rightarrow>
             if pt_type p \<noteq> Pt_burst then Inr None
             else if pt_confidence p < 6 / 10 then Inr None
             else (let severity = calculateBurstSeverity (pt_confidence p) (fr_riskScore r)
                   in Inr (Some \<lparr>an_detected = True, anomalyType = Burst_pattern, an_severity = severity,
                        an_confidence = pt_confidence p, an_description = Burst_text (fr_item r), affectedItems = [fr_item r],
                        an_start = fr_lastSeen r - longTermWindow c, an_end = fr_lastSeen r, an_duration = longTermWindow c,
                        recommendations = generateBurstRecommendations r severity\<rparr>)))"

definition getDetectionHistory :: "string \<Rightarrow> anomaly_detector \<Rightarrow> sketch_anomaly list" where
  "getDetectionHistory name d = (case map_of (detectionHistory d) name of None \<Rightarrow> [] | Some h \<Rightarrow> h)"

definition recent_detections :: "string \<Rightarrow> string \<Rightarrow> time_ms \<Rightarrow> anomaly_detector \<Rightarrow> sketch_anomaly list" where
  "recent_detections name item now d =
     filter (\<lambda>an. item \<in> set (affectedItems an) \<and> an_end an > now - sustainedDuration (ad_config d)) (getDetectionHistory name d)"

definition detectSustainedHighActivity ::
  "string \<Rightarrow> frequency_result \<Rightarrow> time_ms \<Rightarrow> freq_analyzer \<Rightarrow> anomaly_detector \<Rightarrow> frequency_error + sketch_anomaly option" where
  "detectSustainedHighActivity name r now a d =
     (let c = ad_config d
      in if fr_riskLevel r \<noteq> Fq_anomalous \<and> fr_riskLevel r \<noteq> Fq_critical then Inr None
         else case analyzePattern name (fr_item r) a of
           Inl e \<Rightarrow> Inl e
         | Inr p \<Rightarrow>
             if pt_type p \<noteq> Pt_steady \<and> pt_type p \<noteq> Pt_increasing then Inr None
             else (let n = length (recent_detections name (fr_item r) now d); severity = calculateSustainedSeverity (fr_riskScore r) n
                   in if n < 3 then Inr None
                      else Inr (Some \<lparr>an_detected = True, anomalyType = Sustained_high, an_severity = severity,
                        an_confidence = 9 / 10, an_description = Sustained_text (fr_item r) (fr_riskLevel r),
                        affectedItems = [fr_item r], an_start = fr_lastSeen r - sustainedDuration c, an_end = fr_lastSeen r,
                        an_duration = sustainedDuration c, recommendations = generateSustainedRecommendations r severity\<rparr>)))"

section \<open>Analysis and history\<close>

definition storeDetectionHistory :: "string \<Rightarrow> sketch_anomaly list \<Rightarrow> time_ms \<Rightarrow> anomaly_detector \<Rightarrow> anomaly_detector" where
  "storeDetectionHistory name ans now d =
     (let oneDayAgo = now - 86400000
      in d\<lparr>detectionHistory := map_set name (filter (\<lambda>an. an_end an > oneDayAgo) (getDetectionHistory name d @ ans)) (detectionHistory d)\<rparr>)"

text \<open>The checks in order, up to the first error; the flag tells that there was none.\<close>

fun run_checks :: "(frequency_error + sketch_anomaly option) list \<Rightarrow> sketch_anomaly list \<times> bool" where
  "run_checks [] = ([], True)"
| "run_checks (Inl e # rest) = ([], False)"
| "run_checks (Inr found # rest) =
     (let (ans, complete) = run_checks rest in ((case found of None \<Rightarrow> ans | Some an \<Rightarrow> an # ans), complete))"

definition when_enabled :: "bool \<Rightarrow> 'e + 'a option \<Rightarrow> 'e + 'a option" where
  "when_enabled enabled check = (if enabled then check else Inr None)"

definition analyzeFrequency ::
  "string \<Rightarrow> frequency_result \<Rightarrow> time_ms \<times> time_ms \<Rightarrow> freq_analyzer \<Rightarrow> anomaly_detector \<Rightarrow> sketch_anomaly list \<times> anomaly_detector" where
  "analyzeFrequency name r clocks a d =
     (let c = ad_config d;
          (ans, complete) = run_checks
            [when_enabled (enableFrequencySpikes c) (detectFrequencySpike name r a d),
             when_enabled (enableRareItemDetection c) (Inr (detectRareItem name r a d)),
             when_enabled (enableBurstPatterns c) (detectBurstPattern name r a d),
             when_enabled (enableSustainedHighActivity c) (detectSustainedHighActivity name r (fst clocks) a d)]
      in (ans, if complete \<and> ans \<noteq> [] then storeDetectionHistory name ans (snd clocks) d else d))"

text \<open>An empty name is falsy.\<close>

definition clearHistory :: "string option \<Rightarrow> anomaly_detector \<Rightarrow> anomaly_detector" where
  "clearHistory name d =
     (case name of
        Some n \<Rightarrow> if n = [] then d\<lparr>detectionHistory := []\<rparr> else d\<lparr>detectionHistory := map_delete n (detectionHistory d)\<rparr>
      | None \<Rightarrow> d\<lparr>detectionHistory := []\<rparr>)"

record detection_summary =
  totalDetections :: nat
  ds_byType :: "(sketch_anomaly_type, nat) js_map"
  ds_bySeverity :: "(anomaly_severity, nat) js_map"
  averageConfidence :: real

definition getDetectionSummary :: "string \<Rightarrow> anomaly_detector \<Rightarrow> detection_summary" where
  "getDetectionSummary name d =
     (let history = getDetectionHistory name d;
          count = \<lambda>k m. map_set k (get_or0 m k + 1) m;
          countS = \<lambda>k m. map_set k (get_or0 m k + 1) m
      in \<lparr>totalDetections = length history,
          ds_byType = fold (\<lambda>an. count (anomalyType an)) history [],
          ds_bySeverity = fold (\<lambda>an. countS (an_severity an)) history [],
          averageConfidence = (if length history > 0 then sum_list (map an_confidence history) / real (length history) else 0)\<rparr>)"

section \<open>Facts about the analysis\<close>

lemma run_checks_mem:
  assumes "an \<in> set (fst (run_checks checks))"
  shows "Inr (Some an) \<in> set checks"
  using assms by (induction checks rule: run_checks.induct) (auto split: option.splits prod.splits)

lemma when_enabled_found [simp]: "Inr (Some an) = when_enabled b check \<longleftrightarrow> b \<and> check = Inr (Some an)"
  by (auto simp: when_enabled_def)

text \<open>What an anomaly that is found tells of the check that found it.\<close>

lemma anomaly_found:
  assumes "an \<in> set (fst (analyzeFrequency name r clocks a d))"
  shows "detectFrequencySpike name r a d = Inr (Some an) \<or> detectRareItem name r a d = Some an
    \<or> detectBurstPattern name r a d = Inr (Some an) \<or> detectSustainedHighActivity name r (fst clocks) a d = Inr (Some an)"
  using assms run_checks_mem [of an] by (fastforce simp: analyzeFrequency_def Let_def case_prod_beta)

lemma spike_found:
  "detectFrequencySpike name r a d = Inr (Some an) \<Longrightarrow> affectedItems an = [fr_item r] \<and> anomalyType an = Frequency_spike
    \<and> (\<exists>p. analyzePattern name (fr_item r) a = Inr p \<and> pt_type p \<in> {Pt_increasing, Pt_burst})"
  by (auto simp: detectFrequencySpike_def Let_def split: if_splits sum.splits)

lemma rare_found:
  "detectRareItem name r a d = Some an \<Longrightarrow> affectedItems an = [fr_item r] \<and> anomalyType an = Rare_item \<and> currentFrequency r = 1"
  by (auto simp: detectRareItem_def Let_def split: if_splits option.splits)

lemma burst_found:
  "detectBurstPattern name r a d = Inr (Some an) \<Longrightarrow> affectedItems an = [fr_item r] \<and> anomalyType an = Burst_pattern
    \<and> (\<exists>p. analyzePattern name (fr_item r) a = Inr p \<and> pt_type p = Pt_burst)"
  by (auto simp: detectBurstPattern_def Let_def split: if_splits sum.splits)

lemma sustained_found:
  "detectSustainedHighActivity name r now a d = Inr (Some an) \<Longrightarrow> affectedItems an = [fr_item r] \<and> anomalyType an = Sustained_high
    \<and> 3 \<le> length (recent_detections name (fr_item r) now d) \<and> (\<exists>p. analyzePattern name (fr_item r) a = Inr p)"
  by (auto simp: detectSustainedHighActivity_def Let_def split: if_splits sum.splits)

lemmas checks_found = spike_found rare_found burst_found sustained_found

lemma anomaly_items: "an \<in> set (fst (analyzeFrequency name r clocks a d)) \<Longrightarrow> affectedItems an = [fr_item r]"
  by (drule anomaly_found) (elim disjE; drule checks_found; simp)

lemma history_store:
  "getDetectionHistory n (storeDetectionHistory name ans now d) =
     (if n = name then filter (\<lambda>an. an_end an > now - 86400000) (getDetectionHistory name d @ ans) else getDetectionHistory n d)"
  by (simp add: storeDetectionHistory_def getDetectionHistory_def Let_def update_conv')

lemma analyze_history:
  "snd (analyzeFrequency name r clocks a d) = d
   \<or> snd (analyzeFrequency name r clocks a d) = storeDetectionHistory name (fst (analyzeFrequency name r clocks a d)) (snd clocks) d"
  by (simp add: analyzeFrequency_def Let_def case_prod_beta)

lemma analyze_config [simp]: "ad_config (snd (analyzeFrequency name r clocks a d)) = ad_config d"
  by (simp add: analyzeFrequency_def Let_def case_prod_beta storeDetectionHistory_def)

text \<open>Once cleared, an analyzer has no windows.\<close>

lemma cleared_windows: "fa_timeWindows (track_all es (fa_clearAll a)) = []"
proof -
  have "fa_timeWindows (track_all es a') = []" if "fa_timeWindows a' = []" for a'
    using that
  proof (induction es arbitrary: a')
    case (Cons e es)
    have "fa_timeWindows (snd (handle_event e a')) = []"
      using Cons.prems by (simp add: handle_event_def trackItem_def updateTimeWindow_def Let_def case_prod_beta split: option.splits)
    then show ?case using Cons.IH by simp
  qed simp
  then show ?thesis by (simp add: fa_clearAll_def)
qed

section \<open>Properties\<close>

text \<open>
  After the analyzer has been cleared, whatever is tracked, the detector in its default configuration reports nothing but rare
  items for any result and its history never changes: clearing removes the window lists, so every request for a pattern raises an
  error.
\<close>
theorem cleared_analyzer_silent:
  assumes "ad_config d = default_anomaly_config" and "analyzeFrequency name r clocks (track_all es (fa_clearAll a)) d = (ans, d')"
  shows "d' = d \<and> (\<forall>an\<in>set ans. anomalyType an = Rare_item)"
proof -
  let ?a = "track_all es (fa_clearAll a)"
  have none: "analyzePattern name item ?a = Inl (NoTimeWindows name)" for item
    by (simp add: analyzePattern_def cleared_windows)
  have "anomalyType an = Rare_item" if "an \<in> set ans" for an
  proof -
    have "an \<in> set (fst (analyzeFrequency name r clocks ?a d))" using that assms(2) by simp
    from anomaly_found [OF this] show ?thesis by (elim disjE) (auto dest!: checks_found simp: none)
  qed
  moreover have "detectBurstPattern name r ?a d = Inl (NoTimeWindows name)"
    by (simp add: detectBurstPattern_def none)
  then have "d' = d"
    using assms by (cases "detectFrequencySpike name r ?a d")
      (auto simp: analyzeFrequency_def Let_def when_enabled_def default_anomaly_config_def case_prod_beta)
  ultimately show ?thesis by blast
qed

text \<open>
  In the default configuration an item is reported as rare exactly when its sketch has counted at least a thousand items, the item
  once, and its text is suspicious; the severity is critical beyond ten thousand items, high beyond one thousand, low at exactly one
  thousand, and never medium.
\<close>
theorem rare_item_reported:
  assumes "ad_config d = default_anomaly_config" and "getSketchMetrics name a = Some m" and "totalInserts m = int n"
  shows "map_option an_severity (detectRareItem name r a d) =
    (if 1000 \<le> n \<and> currentFrequency r = 1 \<and> isSuspiciousItem (fr_item r)
     then Some (if 10000 < n then An_critical else if 1000 < n then An_high else An_low) else None)"
proof (cases "currentFrequency r = 1 \<and> isSuspiciousItem (fr_item r) \<and> 10 \<le> n")
  case True
  then have n: "0 < n" by simp
  then have "1 / real n > 1 / 1000 \<longleftrightarrow> n < 1000" "1 / real n < 1 / 10000 \<longleftrightarrow> 10000 < n" "1 / real n < 1 / 1000 \<longleftrightarrow> 1000 < n"
    by (auto simp: field_simps)
  then show ?thesis
    using True assms
    by (auto simp: detectRareItem_def default_anomaly_config_def js_div_def calculateRaritySeverity_def Let_def)
next
  case False
  then show ?thesis
    using assms by (auto simp: detectRareItem_def default_anomaly_config_def js_div_def Let_def)
qed

definition demo_result :: frequency_result where
  "demo_result = \<lparr>fr_item = ''/wp-admin'', currentFrequency = 1, baselineFrequency = 1, deviationRatio = 1, fr_riskLevel = Fq_normal,
     fr_riskScore = 0, fr_confidence = 99 / 100, fr_timeWindow = 300000, fr_lastSeen = 0\<rparr>"

definition demo_metrics :: sketch_metrics where
  "demo_metrics = \<lparr>totalInserts = 2000, totalQueries = 0, memoryUsage = 0, averageInsertTime = 0, averageQueryTime = 0,
     observedErrorRate = 0, fillRatio = 0\<rparr>"

definition demo_analyzer :: freq_analyzer where
  "demo_analyzer = \<lparr>fa_sketches = [(''request_paths'', \<lparr>config = small_config, matrix = [], metrics = demo_metrics\<rparr>)],
     fa_baselines = [], fa_thresholds = [], fa_timeWindows = [], fa_isInitialized = True\<rparr>"

lemma demo_suspicious: "isSuspiciousItem ''/wp-admin''"
  by code_simp

theorem rare_item_reported_witness:
  "map_option an_severity (detectRareItem ''request_paths'' demo_result demo_analyzer (new_anomaly_detector None)) = Some An_high"
proof -
  have m: "getSketchMetrics ''request_paths'' demo_analyzer = Some demo_metrics"
    by (simp add: getSketchMetrics_def demo_analyzer_def)
  have c: "ad_config (new_anomaly_detector None) = default_anomaly_config" by (simp add: new_anomaly_detector_def)
  have "totalInserts demo_metrics = int 2000" by (simp add: demo_metrics_def)
  from rare_item_reported [OF c m this, of demo_result] show ?thesis
    by (simp add: demo_result_def demo_suspicious)
qed

theorem cleared_analyzer_silent_witness:
  "\<exists>ans. analyzeFrequency ''request_paths'' demo_result (0, 0) (track_all [] (fa_clearAll demo_analyzer)) (new_anomaly_detector None)
      = (ans, new_anomaly_detector None) \<and> (\<forall>an\<in>set ans. anomalyType an = Rare_item)"
proof -
  have c: "ad_config (new_anomaly_detector None) = default_anomaly_config" by (simp add: new_anomaly_detector_def)
  obtain ans d' where e: "analyzeFrequency ''request_paths'' demo_result (0, 0) (track_all [] (fa_clearAll demo_analyzer))
      (new_anomaly_detector None) = (ans, d')" by fastforce
  from cleared_analyzer_silent [OF c e] e show ?thesis by blast
qed

end
