(* ===== verification/SketchConfig.thy ===== *)
theory SketchConfig
  imports SketchDetection
begin

text \<open>
  The sketch configurations (\<^verbatim>\<open>backend/src/config/sketchConfig.ts\<close>). The environment \<^verbatim>\<open>process.env\<close> is a function from names to texts;
  an empty text is falsy. \<^verbatim>\<open>parseInt\<close> and \<^verbatim>\<open>parseFloat\<close> read the longest prefix that is a number and give NaN when there is none, so the
  numbers of a configuration that is read are \<open>jsnum\<close>s. A random seed is an argument.
\<close>

section \<open>Reading numbers\<close>

type_synonym env_vars = "string \<Rightarrow> string option"

definition env_or :: "env_vars \<Rightarrow> string \<Rightarrow> string \<Rightarrow> string" where
  "env_or env key fallback = (case env key of None \<Rightarrow> fallback | Some t \<Rightarrow> if t = [] then fallback else t)"

definition env_not_false :: "env_vars \<Rightarrow> string \<Rightarrow> bool" where
  "env_not_false env key \<longleftrightarrow> env key \<noteq> Some ''false''"

definition hex_value :: "char \<Rightarrow> nat option" where
  "hex_value c =
     (let n = (of_char c :: nat)
      in if 48 \<le> n \<and> n \<le> 57 then Some (n - 48)
         else if 65 \<le> n \<and> n \<le> 70 then Some (n - 55)
         else if 97 \<le> n \<and> n \<le> 102 then Some (n - 87)
         else None)"

definition decimal_value :: "string \<Rightarrow> nat" where
  "decimal_value ds = foldl (\<lambda>n d. 10 * n + (of_char d - 48)) 0 ds"

definition take_sign :: "string \<Rightarrow> real \<times> string" where
  "take_sign s =
     (case s of
        c # t \<Rightarrow> if c = CHR ''-'' then (-1, t) else if c = CHR ''+'' then (1, t) else (1, s)
      | [] \<Rightarrow> (1, []))"

definition parseInt :: "string \<Rightarrow> jsnum" where
  "parseInt text =
     (let (sign, s) = take_sign (dropWhile space_char text)
      in if starts_with (map lower_char s) ''0x''
         then (let ds = takeWhile (\<lambda>c. hex_value c \<noteq> None) (drop 2 s)
               in if ds = [] then NaN
                  else Fin (sign * real (foldl (\<lambda>n d. 16 * n + (case hex_value d of None \<Rightarrow> 0 | Some v \<Rightarrow> v)) 0 ds)))
         else (let ds = takeWhile is_decimal s
               in if ds = [] then NaN else Fin (sign * real (decimal_value ds))))"

text \<open>The exponent part of a number, 0 when there is none.\<close>

definition parse_exponent :: "string \<Rightarrow> int" where
  "parse_exponent s =
     (if s \<noteq> [] \<and> lower_char (hd s) = CHR ''e''
      then (let (sign, t) = take_sign (tl s); ds = takeWhile is_decimal t
            in if sign < 0 then - int (decimal_value ds) else int (decimal_value ds))
      else 0)"

definition parseFloat :: "string \<Rightarrow> jsnum" where
  "parseFloat text =
     (let (sign, s) = take_sign (dropWhile space_char text)
      in if starts_with s ''Infinity'' then (if sign < 0 then NInf else PInf)
         else (let whole = takeWhile is_decimal s;
                   rest = dropWhile is_decimal s;
                   fraction = (if rest \<noteq> [] \<and> hd rest = CHR ''.'' then takeWhile is_decimal (tl rest) else []);
                   rest' = (if rest \<noteq> [] \<and> hd rest = CHR ''.'' then dropWhile is_decimal (tl rest) else rest)
               in if whole = [] \<and> fraction = [] then NaN
                  else Fin (sign * (real (decimal_value (whole @ fraction)) / 10 ^ length fraction)
                            * 10 powi parse_exponent rest')))"

section \<open>Configurations\<close>

record raw_config =
  rc_width :: jsnum
  rc_depth :: jsnum
  rc_hashSeed :: jsnum
  rc_errorRate :: jsnum
  rc_confidence :: jsnum
  rc_name :: string

definition getDefaultSketchConfig :: "env_vars \<Rightarrow> nat \<Rightarrow> raw_config" where
  "getDefaultSketchConfig env seed =
     \<lparr>rc_width = parseInt (env_or env ''SKETCH_DEFAULT_WIDTH'' ''4096''),
      rc_depth = parseInt (env_or env ''SKETCH_DEFAULT_DEPTH'' ''6''),
      rc_hashSeed = parseInt (env_or env ''SKETCH_HASH_SEED'' (digits seed)),
      rc_errorRate = parseFloat (env_or env ''SKETCH_ERROR_RATE'' ''0.001''),
      rc_confidence = parseFloat (env_or env ''SKETCH_CONFIDENCE'' ''0.99''),
      rc_name = ''default''\<rparr>"

definition getHighPerformanceSketchConfig :: "env_vars \<Rightarrow> nat \<Rightarrow> raw_config" where
  "getHighPerformanceSketchConfig env seed =
     \<lparr>rc_width = parseInt (env_or env ''SKETCH_HP_WIDTH'' ''8192''),
      rc_depth = parseInt (env_or env ''SKETCH_HP_DEPTH'' ''8''),
      rc_hashSeed = parseInt (env_or env ''SKETCH_HP_HASH_SEED'' (digits seed)),
      rc_errorRate = parseFloat (env_or env ''SKETCH_HP_ERROR_RATE'' ''0.0005''),
      rc_confidence = parseFloat (env_or env ''SKETCH_HP_CONFIDENCE'' ''0.995''),
      rc_name = ''high_performance''\<rparr>"

definition getMemoryEfficientSketchConfig :: "env_vars \<Rightarrow> nat \<Rightarrow> raw_config" where
  "getMemoryEfficientSketchConfig env seed =
     \<lparr>rc_width = parseInt (env_or env ''SKETCH_ME_WIDTH'' ''2048''),
      rc_depth = parseInt (env_or env ''SKETCH_ME_DEPTH'' ''4''),
      rc_hashSeed = parseInt (env_or env ''SKETCH_ME_HASH_SEED'' (digits seed)),
      rc_errorRate = parseFloat (env_or env ''SKETCH_ME_ERROR_RATE'' ''0.01''),
      rc_confidence = parseFloat (env_or env ''SKETCH_ME_CONFIDENCE'' ''0.95''),
      rc_name = ''memory_efficient''\<rparr>"

definition getDevelopmentSketchConfig :: "env_vars \<Rightarrow> raw_config" where
  "getDevelopmentSketchConfig env =
     \<lparr>rc_width = parseInt (env_or env ''SKETCH_DEV_WIDTH'' ''1024''),
      rc_depth = parseInt (env_or env ''SKETCH_DEV_DEPTH'' ''4''),
      rc_hashSeed = parseInt (env_or env ''SKETCH_DEV_HASH_SEED'' ''12345''),
      rc_errorRate = parseFloat (env_or env ''SKETCH_DEV_ERROR_RATE'' ''0.01''),
      rc_confidence = parseFloat (env_or env ''SKETCH_DEV_CONFIDENCE'' ''0.9''),
      rc_name = ''development''\<rparr>"

definition isDevelopment :: "env_vars \<Rightarrow> bool" where
  "isDevelopment env \<longleftrightarrow> env ''NODE_ENV'' = Some ''development''"

definition dev_or :: "env_vars \<Rightarrow> string \<Rightarrow> string \<Rightarrow> string" where
  "dev_or env dev other = (if isDevelopment env then dev else other)"

datatype sketch_use_case = Ip_tracking | Path_tracking | Ua_tracking | Session_tracking | Param_tracking

definition getSketchConfigForUseCase :: "env_vars \<Rightarrow> nat \<Rightarrow> sketch_use_case \<Rightarrow> raw_config" where
  "getSketchConfigForUseCase env seed useCase =
     (let baseConfig = (if isDevelopment env then getDevelopmentSketchConfig env else getDefaultSketchConfig env seed);
          sized = \<lambda>wkey w dkey d name. baseConfig\<lparr>rc_width := parseInt (env_or env wkey w), rc_depth := parseInt (env_or env dkey d), rc_name := name\<rparr>
      in case useCase of
           Ip_tracking \<Rightarrow> sized ''SKETCH_IP_WIDTH'' (dev_or env ''2048'' ''8192'') ''SKETCH_IP_DEPTH'' ''6'' ''ip_tracker''
         | Path_tracking \<Rightarrow> sized ''SKETCH_PATH_WIDTH'' (dev_or env ''1024'' ''4096'') ''SKETCH_PATH_DEPTH'' ''5'' ''path_tracker''
         | Ua_tracking \<Rightarrow> sized ''SKETCH_UA_WIDTH'' (dev_or env ''512'' ''2048'') ''SKETCH_UA_DEPTH'' ''4'' ''ua_tracker''
         | Session_tracking \<Rightarrow> sized ''SKETCH_SESSION_WIDTH'' (dev_or env ''1024'' ''4096'') ''SKETCH_SESSION_DEPTH'' ''5'' ''session_tracker''
         | Param_tracking \<Rightarrow> sized ''SKETCH_PARAM_WIDTH'' (dev_or env ''1024'' ''4096'') ''SKETCH_PARAM_DEPTH'' ''5'' ''param_tracker'')"

datatype tracker_type = Tr_ip_address | Tr_user_agent | Tr_request_path | Tr_parameter | Tr_session_id

record frequency_tracker =
  tr_type :: tracker_type
  tr_sketch :: raw_config
  tr_baseline :: jsnum
  tr_suspicious :: jsnum
  tr_anomalous :: jsnum
  tr_critical :: jsnum
  tr_timeWindow :: jsnum
  tr_enabled :: bool

text \<open>\<open>seeds\<close> gives the random seed of each use case.\<close>

definition getFrequencyTrackersConfig :: "env_vars \<Rightarrow> (sketch_use_case \<Rightarrow> nat) \<Rightarrow> frequency_tracker list" where
  "getFrequencyTrackersConfig env seeds =
     (let num = \<lambda>key dev other. parseInt (env_or env key (dev_or env dev other));
          sk = \<lambda>u. getSketchConfigForUseCase env (seeds u) u
      in [\<lparr>tr_type = Tr_ip_address, tr_sketch = sk Ip_tracking,
           tr_baseline = num ''IP_BASELINE_FREQUENCY'' ''5'' ''10'', tr_suspicious = num ''IP_SUSPICIOUS_FREQUENCY'' ''20'' ''50'',
           tr_anomalous = num ''IP_ANOMALOUS_FREQUENCY'' ''50'' ''100'', tr_critical = num ''IP_CRITICAL_FREQUENCY'' ''100'' ''500'',
           tr_timeWindow = num ''IP_TIME_WINDOW'' ''300000'' ''300000'', tr_enabled = env_not_false env ''ENABLE_IP_TRACKING''\<rparr>,
          \<lparr>tr_type = Tr_user_agent, tr_sketch = sk Ua_tracking,
           tr_baseline = num ''UA_BASELINE_FREQUENCY'' ''2'' ''5'', tr_suspicious = num ''UA_SUSPICIOUS_FREQUENCY'' ''10'' ''20'',
           tr_anomalous = num ''UA_ANOMALOUS_FREQUENCY'' ''25'' ''50'', tr_critical = num ''UA_CRITICAL_FREQUENCY'' ''50'' ''200'',
           tr_timeWindow = num ''UA_TIME_WINDOW'' ''300000'' ''300000'', tr_enabled = env_not_false env ''ENABLE_UA_TRACKING''\<rparr>,
          \<lparr>tr_type = Tr_request_path, tr_sketch = sk Path_tracking,
           tr_baseline = num ''PATH_BASELINE_FREQUENCY'' ''10'' ''20'', tr_suspicious = num ''PATH_SUSPICIOUS_FREQUENCY'' ''50'' ''100'',
           tr_anomalous = num ''PATH_ANOMALOUS_FREQUENCY'' ''200'' ''500'', tr_critical = num ''PATH_CRITICAL_FREQUENCY'' ''500'' ''2000'',
           tr_timeWindow = num ''PATH_TIME_WINDOW'' ''300000'' ''300000'', tr_enabled = env_not_false env ''ENABLE_PATH_TRACKING''\<rparr>,
          \<lparr>tr_type = Tr_session_id, tr_sketch = sk Session_tracking,
           tr_baseline = num ''SESSION_BASELINE_FREQUENCY'' ''25'' ''50'', tr_suspicious = num ''SESSION_SUSPICIOUS_FREQUENCY'' ''100'' ''200'',
           tr_anomalous = num ''SESSION_ANOMALOUS_FREQUENCY'' ''500'' ''1000'', tr_critical = num ''SESSION_CRITICAL_FREQUENCY'' ''1000'' ''5000'',
           tr_timeWindow = num ''SESSION_TIME_WINDOW'' ''600000'' ''600000'', tr_enabled = env_not_false env ''ENABLE_SESSION_TRACKING''\<rparr>,
          \<lparr>tr_type = Tr_parameter, tr_sketch = sk Param_tracking,
           tr_baseline = num ''PARAM_BASELINE_FREQUENCY'' ''1'' ''1'', tr_suspicious = num ''PARAM_SUSPICIOUS_FREQUENCY'' ''3'' ''5'',
           tr_anomalous = num ''PARAM_ANOMALOUS_FREQUENCY'' ''10'' ''20'', tr_critical = num ''PARAM_CRITICAL_FREQUENCY'' ''25'' ''100'',
           tr_timeWindow = num ''PARAM_TIME_WINDOW'' ''300000'' ''300000'', tr_enabled = env_not_false env ''ENABLE_PARAM_TRACKING''\<rparr>])"

record sketch_manager_config =
  trackers :: "frequency_tracker list"
  persistenceInterval :: jsnum
  cleanupInterval :: jsnum
  maxMemoryUsage :: jsnum
  enableMetrics :: bool

definition getSketchManagerConfig :: "env_vars \<Rightarrow> (sketch_use_case \<Rightarrow> nat) \<Rightarrow> sketch_manager_config" where
  "getSketchManagerConfig env seeds =
     \<lparr>trackers = getFrequencyTrackersConfig env seeds,
      persistenceInterval = parseInt (env_or env ''SKETCH_PERSISTENCE_INTERVAL'' (dev_or env ''60000'' ''300000'')),
      cleanupInterval = parseInt (env_or env ''SKETCH_CLEANUP_INTERVAL'' (dev_or env ''300000'' ''900000'')),
      maxMemoryUsage = js_scale 1024 (js_scale 1024 (parseInt (env_or env ''SKETCH_MAX_MEMORY'' (dev_or env ''50'' ''200'')))),
      enableMetrics = env_not_false env ''ENABLE_SKETCH_METRICS''\<rparr>"

text \<open>\<open>None\<close> when a setting is not a finite number: the detector is modelled on numbers.\<close>

fun fin :: "jsnum \<Rightarrow> real option" where
  "fin (Fin x) = Some x"
| "fin _ = None"

definition getAnomalyDetectionConfig :: "env_vars \<Rightarrow> anomaly_config option" where
  "getAnomalyDetectionConfig env =
     (let int_setting = \<lambda>key t. fin (parseInt (env_or env key t)); float_setting = \<lambda>key t. fin (parseFloat (env_or env key t))
      in case (float_setting ''ANOMALY_SENSITIVITY'' (dev_or env ''0.5'' ''0.7''), int_setting ''ANOMALY_SHORT_WINDOW'' ''300000'',
               int_setting ''ANOMALY_LONG_WINDOW'' ''3600000'', int_setting ''ANOMALY_MIN_SAMPLES'' (dev_or env ''5'' ''10'')) of
        (Some sens, Some short, Some long, Some samples) \<Rightarrow>
          (case (float_setting ''SPIKE_THRESHOLD'' (dev_or env ''3.0'' ''5.0''), float_setting ''RARITY_THRESHOLD'' ''0.001'',
                 float_setting ''BURST_VARIANCE_THRESHOLD'' ''2.0'', int_setting ''SUSTAINED_DURATION'' ''600000'') of
             (Some spike, Some rarity, Some burst, Some sustained) \<Rightarrow>
               Some \<lparr>enableFrequencySpikes = env_not_false env ''ENABLE_FREQUENCY_SPIKE_DETECTION'',
                     enableRareItemDetection = env_not_false env ''ENABLE_RARE_ITEM_DETECTION'',
                     enableBurstPatterns = env_not_false env ''ENABLE_BURST_PATTERN_DETECTION'',
                     enableSustainedHighActivity = env_not_false env ''ENABLE_SUSTAINED_ACTIVITY_DETECTION'',
                     an_sensitivity = sens, shortTermWindow = \<lfloor>short\<rfloor>, longTermWindow = \<lfloor>long\<rfloor>, minSamples = samples,
                     spikeThreshold = spike, rarityThreshold = rarity, burstVarianceThreshold = burst, sustainedDuration = \<lfloor>sustained\<rfloor>\<rparr>
           | _ \<Rightarrow> None)
      | _ \<Rightarrow> None)"

section \<open>Sizing\<close>

text \<open>The text of a non-negative whole number; the name of a tuned configuration is not modelled for other rates.\<close>

definition getPerformanceTunedConfig :: "nat \<Rightarrow> nat \<Rightarrow> raw_config" where
  "getPerformanceTunedConfig rps seed =
     (let (w, d) = (if rps < 100 then (2048, 4) else if rps < 1000 then (4096, 6) else if rps < 10000 then (8192, 8) else (16384, 10))
      in \<lparr>rc_width = Fin w, rc_depth = Fin d, rc_hashSeed = Fin (real seed), rc_errorRate = Fin (1 / 1000), rc_confidence = Fin (99 / 100),
          rc_name = ''performance_tuned_'' @ digits rps @ ''rps''\<rparr>)"

definition getMemoryBudgetConfig :: "nat \<Rightarrow> nat \<Rightarrow> raw_config" where
  "getMemoryBudgetConfig maxMemoryBytes seed =
     (let usableMemory = real maxMemoryBytes * (8 / 10);
          maxCells = \<lfloor>usableMemory / 4\<rfloor>;
          d = max 4 \<lfloor>sqrt (real_of_int maxCells / 1024)\<rfloor>;
          w = \<lfloor>real_of_int maxCells / real_of_int d\<rfloor>
      in \<lparr>rc_width = Fin (real_of_int (max w 512)), rc_depth = Fin (real_of_int (max d 4)), rc_hashSeed = Fin (real seed),
          rc_errorRate = js_div (exp 1) (real_of_int w), rc_confidence = Fin (1 - exp (- real_of_int d)),
          rc_name = ''memory_budget_'' @ digits (maxMemoryBytes div 1024) @ ''KB''\<rparr>)"

fun js_le :: "jsnum \<Rightarrow> real \<Rightarrow> bool" where
  "js_le (Fin x) y = (x \<le> y)"
| "js_le NInf y = True"
| "js_le _ y = False"

fun js_ge :: "jsnum \<Rightarrow> real \<Rightarrow> bool" where
  "js_ge (Fin x) y = (x \<ge> y)"
| "js_ge PInf y = True"
| "js_ge _ y = False"

fun isInteger :: "jsnum \<Rightarrow> bool" where
  "isInteger (Fin x) = (real_of_int \<lfloor>x\<rfloor> = x)"
| "isInteger _ = False"

fun js_times :: "jsnum \<Rightarrow> jsnum \<Rightarrow> jsnum" where
  "js_times (Fin x) (Fin y) = Fin (x * y)"
| "js_times NaN _ = NaN"
| "js_times _ NaN = NaN"
| "js_times (Fin x) PInf = (if x = 0 then NaN else if x > 0 then PInf else NInf)"
| "js_times (Fin x) NInf = (if x = 0 then NaN else if x > 0 then NInf else PInf)"
| "js_times PInf (Fin x) = (if x = 0 then NaN else if x > 0 then PInf else NInf)"
| "js_times NInf (Fin x) = (if x = 0 then NaN else if x > 0 then NInf else PInf)"
| "js_times PInf PInf = PInf"
| "js_times NInf NInf = PInf"
| "js_times _ _ = NInf"

datatype config_problem =
    Width_not_positive_integer | Depth_not_positive_integer | Error_rate_out_of_range | Confidence_out_of_range | Seed_not_integer
  | Memory_warning jsnum

definition validateSketchConfig :: "raw_config \<Rightarrow> config_problem list" where
  "validateSketchConfig c =
     (let memory = js_scale 4 (js_times (rc_width c) (rc_depth c))
      in (if js_le (rc_width c) 0 \<or> \<not> isInteger (rc_width c) then [Width_not_positive_integer] else [])
         @ (if js_le (rc_depth c) 0 \<or> \<not> isInteger (rc_depth c) then [Depth_not_positive_integer] else [])
         @ (if js_le (rc_errorRate c) 0 \<or> js_ge (rc_errorRate c) 1 then [Error_rate_out_of_range] else [])
         @ (if js_le (rc_confidence c) 0 \<or> js_ge (rc_confidence c) 1 then [Confidence_out_of_range] else [])
         @ (if \<not> isInteger (rc_hashSeed c) then [Seed_not_integer] else [])
         @ (if js_greater memory (100 * 1024 * 1024) then [Memory_warning memory] else []))"

datatype deploy_environment = Dep_development | Dep_testing | Dep_production

datatype accuracy_requirement = Acc_low | Acc_medium | Acc_high

text \<open>A budget or a rate of 0 is falsy.\<close>

definition getRecommendedConfig ::
  "env_vars \<Rightarrow> nat \<Rightarrow> nat option \<Rightarrow> nat option \<Rightarrow> accuracy_requirement option \<Rightarrow> deploy_environment option \<Rightarrow> raw_config" where
  "getRecommendedConfig env seed expectedQPS memoryBudget accuracyRequirement environment =
     (let given = \<lambda>n. case n of None \<Rightarrow> 0 | Some k \<Rightarrow> k
      in if given memoryBudget \<noteq> 0 then getMemoryBudgetConfig (given memoryBudget) seed
         else if given expectedQPS \<noteq> 0 then getPerformanceTunedConfig (given expectedQPS) seed
         else case environment of
           Some Dep_development \<Rightarrow> getDevelopmentSketchConfig env
         | Some Dep_testing \<Rightarrow> getMemoryEfficientSketchConfig env seed
         | _ \<Rightarrow> if accuracyRequirement = Some Acc_high then getHighPerformanceSketchConfig env seed else getDefaultSketchConfig env seed)"

section \<open>Sizes that fit\<close>

text \<open>The configuration the sketch is built from, when its numbers are finite and its sizes whole.\<close>

definition sketch_config_of :: "raw_config \<Rightarrow> sketch_config option" where
  "sketch_config_of c =
     (case (fin (rc_width c), fin (rc_depth c), fin (rc_hashSeed c), fin (rc_errorRate c), fin (rc_confidence c)) of
        (Some w, Some d, Some seed, Some err, Some conf) \<Rightarrow>
          if isInteger (Fin w) \<and> isInteger (Fin d) \<and> isInteger (Fin seed)
          then Some \<lparr>width = \<lfloor>w\<rfloor>, depth = \<lfloor>d\<rfloor>, hashSeed = \<lfloor>seed\<rfloor>, errorRate = err, confidence = conf\<rparr> else None
      | _ \<Rightarrow> None)"

definition constructs :: "raw_config \<Rightarrow> bool" where
  "constructs c \<longleftrightarrow> (case sketch_config_of c of None \<Rightarrow> False | Some sc \<Rightarrow> \<not> isl (new_sketch sc))"

definition cell_bytes :: "raw_config \<Rightarrow> real" where
  "cell_bytes c = (case (fin (rc_width c), fin (rc_depth c)) of (Some w, Some d) \<Rightarrow> w * d * 4 | _ \<Rightarrow> 0)"

lemma isl_new_sketch: "isl (new_sketch sc) \<longleftrightarrow> validateConfig sc \<noteq> None"
  by (auto simp: new_sketch_def split: option.splits)

lemma budget_cells: "\<lfloor>real b * (8 / 10) / 4\<rfloor> = int (b div 5)"
proof -
  have "real b * (8 / 10) / 4 = real b / real 5" by simp
  then show ?thesis by (simp only: floor_divide_of_nat_eq of_nat_id)
qed

lemma e_bounds: "(2 :: real) < exp 1" "exp 1 < (3 :: real)"
proof -
  have "exp (1 :: real) = exp (1 / 4) ^ 4" by (simp flip: exp_of_nat_mult)
  also have "\<dots> \<le> (1 + 1 / 4 + (1 / 4)\<^sup>2) ^ 4" using exp_bound [of "1 / 4 :: real"] by (intro power_mono) simp_all
  also have "\<dots> < 3" by (simp add: power_divide power4_eq_xxxx power2_eq_square)
  finally show "exp 1 < (3 :: real)" .
  show "(2 :: real) < exp 1" using exp_lower_Taylor_quadratic [of "1 :: real"] by simp
qed

lemma budget_parts:
  fixes mc :: int
  assumes mc: "0 \<le> mc" and d: "d = max 4 \<lfloor>sqrt (real_of_int mc / 1024)\<rfloor>" and w: "w = \<lfloor>real_of_int mc / real_of_int d\<rfloor>"
  shows "4 \<le> d" "w * d \<le> mc" "12 \<le> mc \<longleftrightarrow> 3 \<le> w" "mc < 2048 \<longleftrightarrow> w < 512" "mc < 2048 \<Longrightarrow> d = 4"
proof -
  show d4: "4 \<le> d" using d by simp
  have w': "w = mc div d" using w by (simp add: floor_divide_of_int_eq)
  have "0 \<le> mc mod d" using d4 by simp
  then show "w * d \<le> mc" using div_mult_mod_eq [of mc d] unfolding w' by linarith
  have small: "d = 4 \<or> 4 < d \<and> 1024 * d * d \<le> mc"
  proof (cases "\<lfloor>sqrt (real_of_int mc / 1024)\<rfloor> \<le> 4")
    case False
    then have dd: "d = \<lfloor>sqrt (real_of_int mc / 1024)\<rfloor>" "4 < d" using d by auto
    then have "real_of_int d \<le> sqrt (real_of_int mc / 1024)" by linarith
    then have "(real_of_int d)\<^sup>2 \<le> real_of_int mc / 1024"
      using d4 by (metis abs_of_nonneg mc of_int_0_le_iff order_trans real_le_rsqrt real_sqrt_abs real_sqrt_le_iff zero_le_numeral)
    then have "real_of_int (1024 * d * d) \<le> real_of_int mc" by (simp add: power2_eq_square)
    then show ?thesis using dd by (simp only: of_int_le_iff) simp
  qed (use d in auto)
  have big: "4096 \<le> w \<and> 25600 \<le> mc" if "4 < d" "1024 * d * d \<le> mc"
  proof -
    have "1024 * d \<le> mc div d" using that zdiv_mono1 [of "1024 * d * d" mc d] by simp
    moreover have "25 \<le> d * d" using that(1) mult_mono [of 5 d 5 d] by simp
    then have "25600 \<le> 1024 * (d * d)" by simp
    ultimately show ?thesis using that w' by (simp add: algebra_simps)
  qed
  show "12 \<le> mc \<longleftrightarrow> 3 \<le> w" "mc < 2048 \<longleftrightarrow> w < 512" "mc < 2048 \<Longrightarrow> d = 4"
    using small big w' by (auto; linarith)+
qed

section \<open>Properties\<close>

text \<open>
  For a memory budget below seven million bytes the configuration that is chosen is accepted by the sketch exactly when the budget
  is at least 60 bytes, and its table fits into the budget exactly when the budget is at least 8192 bytes.
\<close>
theorem memory_budget_fits:
  assumes "b < 7000000"
  shows "(constructs (getMemoryBudgetConfig b seed) \<longleftrightarrow> 60 \<le> b) \<and> (cell_bytes (getMemoryBudgetConfig b seed) \<le> real b \<longleftrightarrow> 8192 \<le> b)"
proof -
  define mc where "mc = int (b div 5)"
  define d where "d = max 4 \<lfloor>sqrt (real_of_int mc / 1024)\<rfloor>"
  define w where "w = \<lfloor>real_of_int mc / real_of_int d\<rfloor>"
  have mc: "0 \<le> mc" by (simp add: mc_def)
  note parts = budget_parts [OF mc d_def w_def]
  have c: "getMemoryBudgetConfig b seed =
     \<lparr>rc_width = Fin (real_of_int (max w 512)), rc_depth = Fin (real_of_int d), rc_hashSeed = Fin (real seed),
      rc_errorRate = js_div (exp 1) (real_of_int w), rc_confidence = Fin (1 - exp (- real_of_int d)),
      rc_name = ''memory_budget_'' @ digits (b div 1024) @ ''KB''\<rparr>"
    unfolding getMemoryBudgetConfig_def Let_def budget_cells mc_def [symmetric] d_def [symmetric] w_def [symmetric]
    using parts(1) by simp
  note e = e_bounds
  have rate: "exp 1 / real_of_int w < 1 \<longleftrightarrow> 3 \<le> w" if "0 < w" for w :: int
  proof -
    have "exp 1 / real_of_int w < 1 \<longleftrightarrow> exp 1 < real_of_int w" using that by simp
    also have "\<dots> \<longleftrightarrow> 3 \<le> w" using e by linarith
    finally show ?thesis .
  qed
  have w0: "0 \<le> w" using mc parts(1) by (simp add: w_def)
  have "constructs (getMemoryBudgetConfig b seed) \<longleftrightarrow> 3 \<le> w"
    using parts(1) rate [of w] w0
    by (cases "w = 0")
      (auto simp: constructs_def c sketch_config_of_def js_div_def isl_new_sketch validateConfig_def divide_le_0_iff not_less)
  moreover have "3 \<le> w \<longleftrightarrow> 60 \<le> b" using parts(3) by (auto simp: mc_def)
  moreover have "cell_bytes (getMemoryBudgetConfig b seed) \<le> real b \<longleftrightarrow> 8192 \<le> b"
  proof (cases "mc < 2048")
    case True
    then show ?thesis using parts(4, 5) by (auto simp: cell_bytes_def c max_def)
  next
    case False
    then have "cell_bytes (getMemoryBudgetConfig b seed) = real_of_int (w * d * 4)"
      using parts(4) by (simp add: cell_bytes_def c max_def)
    also have "\<dots> \<le> real_of_int (mc * 4)" using parts(2) by (simp only: of_int_le_iff)
    also have "\<dots> \<le> real b" unfolding mc_def by simp
    finally show ?thesis using False by (simp add: mc_def)
  qed
  ultimately show ?thesis by blast
qed

theorem memory_budget_fits_witness:
  "constructs (getMemoryBudgetConfig 100 0) \<and> \<not> cell_bytes (getMemoryBudgetConfig 100 0) \<le> 100"
  using memory_budget_fits [of 100 0] by simp

end
