(* ===== verification/RateLimitTypes.thy ===== *)
theory RateLimitTypes
  imports Prelude
begin

text \<open>
  The data of the rate limiting subsystem (\<^verbatim>\<open>backend/src/types/rateLimit.d.ts\<close>): the string unions are
  datatypes, the interfaces are records with the fields in the order of the source. Limits and counts are
  integers, factors and rates reals. The free-form \<^verbatim>\<open>metadata\<close> members, which no code reads, are left out.
  A \<^verbatim>\<open>Date\<close> built from a computed number may be invalid: \<open>mk_date\<close> gives \<open>None\<close> then.
\<close>

section \<open>Unions\<close>

text \<open>A value of \<^verbatim>\<open>RateLimitAlgorithm\<close> that arrived from outside may be any other string.\<close>

datatype algorithm = Token_bucket | Sliding_window | Adaptive_hybrid | Unknown_algorithm string

datatype threat_level = Threat_low | Threat_medium | Threat_high | Threat_critical

datatype user_profile = User_new | User_trusted | User_suspicious | User_vip | User_blocked

datatype geographic_zone = Zone_safe | Zone_moderate | Zone_high_risk | Zone_blocked

datatype time_pattern = Peak_hours | Off_hours | Weekend | Holiday | Emergency

datatype violation_action = On_block | On_delay | On_log | On_escalate

section \<open>Interfaces\<close>

record rate_limit_config =
  rl_algorithm :: algorithm
  baseLimit :: int
  timeWindowMs :: int
  burstLimit :: int
  replenishRate :: real
  rl_enabled :: bool
  rl_description :: string

record threat_adjustment =
  ta_threatLevel :: threat_level
  ta_factor :: real
  ta_minLimit :: int
  ta_maxLimit :: int
  ta_cooldown :: int

record user_rate_profile =
  up_userId :: "string option"
  up_sessionId :: "string option"
  up_ipAddress :: string
  up_userProfile :: user_profile
  up_baselineRequests :: int
  up_trustScore :: real
  up_violationCount :: int
  up_lastViolation :: "time_ms option"
  up_currentAdjustment :: real
  up_profileUpdated :: time_ms

record geographic_rule =
  gr_countryCode :: string
  gr_zone :: geographic_zone
  gr_factor :: real
  gr_description :: string
  gr_lastUpdated :: time_ms

record time_range =
  startHour :: int
  endHour :: int
  daysOfWeek :: "int list"

record temporal_rule =
  tr_pattern :: time_pattern
  tr_timeRanges :: "time_range list"
  tr_factor :: real
  tr_description :: string

record rate_limit_request =
  rq_identifier :: string
  rq_endpoint :: string
  rq_method :: string
  rq_ipAddress :: string
  rq_userAgent :: "string option"
  rq_userId :: "string option"
  rq_sessionId :: "string option"
  rq_threatScore :: "real option"
  rq_timestamp :: time_ms

record adjustments =
  threatBased :: real
  userBased :: real
  geographic :: real
  temporal :: real
  adj_final :: real

record result_metadata =
  md_algorithm :: algorithm
  md_windowStart :: time_ms
  md_windowEnd :: "time_ms option"
  md_requestCount :: int
  md_burstUsed :: real

record rate_limit_result =
  allowed :: bool
  remainingRequests :: int
  resetTime :: "time_ms option"
  retryAfter :: "jsnum option"
  limitApplied :: int
  reason :: "string option"
  res_adjustments :: adjustments
  res_metadata :: result_metadata

record policy_conditions =
  pc_endpoints :: "string list option"
  pc_methods :: "string list option"
  pc_threatLevels :: "threat_level list option"
  pc_userProfiles :: "user_profile list option"
  pc_geographicZones :: "geographic_zone list option"
  pc_timePatterns :: "time_pattern list option"

record policy_limits =
  pl_base :: rate_limit_config
  pl_threatAdjustments :: "threat_adjustment list"
  pl_userAdjustments :: "(user_profile, real) js_map"
  pl_geographicAdjustments :: "(geographic_zone, real) js_map"
  pl_temporalAdjustments :: "(time_pattern, real) js_map"

record policy_actions =
  pa_onViolation :: violation_action
  pa_escalationThreshold :: int
  pa_cooldownPeriod :: int
  pa_notifyAdmin :: bool

record rate_limit_policy =
  policyId :: string
  pol_name :: string
  pol_description :: string
  pol_enabled :: bool
  pol_priority :: int
  pol_conditions :: policy_conditions
  pol_limits :: policy_limits
  pol_actions :: policy_actions
  pol_createdAt :: time_ms
  pol_updatedAt :: time_ms

type_synonym request_log = "(time_ms \<times> int) list"

record rate_limit_state =
  st_identifier :: string
  st_algorithm :: algorithm
  tokens :: real
  lastRefill :: time_ms
  requests :: request_log
  st_windowStart :: time_ms
  requestCount :: int
  lastRequest :: time_ms
  currentLimit :: int
  st_violationCount :: int

section \<open>Dates\<close>

text \<open>
  \<^verbatim>\<open>new Date(x)\<close> and \<^verbatim>\<open>getTime\<close>: a number that is not finite or lies beyond 8.64e15 gives an invalid date,
  whose time is NaN; the others are truncated to an integer.
\<close>

definition mk_date :: "jsnum \<Rightarrow> time_ms option" where
  "mk_date v =
     (case v of
        Fin x \<Rightarrow> if \<bar>x\<bar> \<le> 8640000000000000 then Some (if x < 0 then \<lceil>x\<rceil> else \<lfloor>x\<rfloor>) else None
      | _ \<Rightarrow> None)"

lemma mk_date_of_int: "mk_date (Fin (of_int k)) = (if \<bar>k\<bar> \<le> 8640000000000000 then Some k else None)"
proof -
  have "\<bar>of_int k :: real\<bar> \<le> 8640000000000000 \<longleftrightarrow> \<bar>k\<bar> \<le> 8640000000000000" by linarith
  then show ?thesis by (simp add: mk_date_def)
qed

definition getTime :: "time_ms option \<Rightarrow> jsnum" where
  "getTime d = (case d of None \<Rightarrow> NaN | Some t \<Rightarrow> Fin (of_int t))"

text \<open>
  \<^verbatim>\<open>getHours\<close> and \<^verbatim>\<open>getDay\<close> of the local time; \<open>tz\<close> is the offset of the local time zone in
  milliseconds. The epoch was a Thursday.
\<close>

definition getHours :: "int \<Rightarrow> time_ms \<Rightarrow> int" where
  "getHours tz t = ((t + tz) div 3600000) mod 24"

definition getDay :: "int \<Rightarrow> time_ms \<Rightarrow> int" where
  "getDay tz t = ((t + tz) div 86400000 + 4) mod 7"

lemma getHours_range: "0 \<le> getHours tz t \<and> getHours tz t < 24"
  by (simp add: getHours_def)

lemma getDay_range: "0 \<le> getDay tz t \<and> getDay tz t < 7"
  by (simp add: getDay_def)

end
