(* ===== verification/RateLimiter.thy ===== *)
theory RateLimiter
  imports RateLimitTypes
begin

text \<open>
  The adaptive rate limiter (\<^verbatim>\<open>backend/src/core/rateLimit/AdaptiveRateLimiter.ts\<close>): token bucket, sliding
  window and the hybrid of both, under limits adjusted by threat, user, place and time.

  The object is the record \<open>rate_limiter\<close>. Redis is outside the model: the reply to each \<^verbatim>\<open>get\<close> and the
  success of each \<^verbatim>\<open>set\<close> are fields of the record \<open>call_env\<close>, with one field per reading of the clock, and the
  values the call writes to Redis are part of its result. A reply is \<open>Found\<close> when the stored text parses to
  a complete value; everything that raises on the way is \<open>Failed\<close>.

  A state object is shared between the local cache and the running check. Only \<^verbatim>\<open>checkAdaptiveHybrid\<close> works on
  shallow copies: the copies share the request objects of the original, so the one thing that flows back is
  the increment of a request with the current timestamp (\<open>hybrid_state\<close>).

  The sliding window refines the exact specification \<open>spec_allow\<close> over the log of all admitted requests;
  the token bucket obeys the usual rate bound; what the hybrid does is stated at the end.
\<close>

section \<open>The object and its environment\<close>

record rate_limiter =
  lim_config :: rate_limit_config
  threatAdjustments :: "(threat_level, threat_adjustment) js_map"
  userAdjustments :: "(user_profile, real) js_map"
  geographicRules :: "(string, geographic_rule) js_map"
  temporalRules :: "temporal_rule list"
  localCache :: "(string, rate_limit_state) js_map"
  cacheSize :: nat
  timerRunning :: bool

datatype 'a redis_reply = Failed | Missing | Found 'a

datatype redis_write =
    Put_profile string user_rate_profile int
  | Put_state string rate_limit_state int

record call_env =
  env_state :: "rate_limit_state redis_reply"
  env_profile :: "user_rate_profile redis_reply"
  env_profile_set :: bool
  now_profile :: time_ms
  now_create :: time_ms
  now_token :: time_ms
  now_window :: time_ms
  now_fail :: time_ms
  timezone :: int

definition new_limiter ::
  "rate_limit_config \<Rightarrow> threat_adjustment list \<Rightarrow> (user_profile, real) js_map \<Rightarrow>
   geographic_rule list \<Rightarrow> temporal_rule list \<Rightarrow> rate_limiter" where
  "new_limiter cfg threats users geos temps =
     \<lparr>lim_config = cfg,
      threatAdjustments = fold (\<lambda>a. map_set (ta_threatLevel a) a) threats [],
      userAdjustments = users,
      geographicRules = fold (\<lambda>r. map_set (gr_countryCode r) r) geos [],
      temporalRules = temps, localCache = [], cacheSize = 1000, timerRunning = True\<rparr>"

section \<open>Token bucket\<close>

definition checkTokenBucket ::
  "rate_limit_config \<Rightarrow> time_ms \<Rightarrow> rate_limit_state \<Rightarrow> int \<Rightarrow> adjustments \<Rightarrow>
   rate_limit_result \<times> rate_limit_state" where
  "checkTokenBucket cfg now s limit adj =
     (let timeSinceLastRefill = now - lastRefill s;
          tokensToAdd = \<lfloor>of_int timeSinceLastRefill * replenishRate cfg / 1000\<rfloor>;
          s = s\<lparr>tokens := min (of_int limit) (tokens s + of_int tokensToAdd), lastRefill := now\<rparr>;
          allow = (tokens s \<ge> 1);
          s = (if allow
               then s\<lparr>tokens := tokens s - 1, requestCount := requestCount s + 1, lastRequest := now\<rparr>
               else s);
          wait = js_ceil (js_div (1 - tokens s) (replenishRate cfg));
          reset = mk_date (js_add (Fin (of_int now)) (js_scale 1000 wait))
      in (\<lparr>allowed = allow, remainingRequests = \<lfloor>tokens s\<rfloor>, resetTime = reset,
           retryAfter = (if allow then None else Some wait), limitApplied = limit,
           reason = (if allow then None else Some ''Rate limit exceeded (Token Bucket)''),
           res_adjustments = adj,
           res_metadata = \<lparr>md_algorithm = Token_bucket, md_windowStart = st_windowStart s,
             md_windowEnd = reset, md_requestCount = requestCount s,
             md_burstUsed = of_int limit - tokens s\<rparr>\<rparr>, s))"

section \<open>Sliding window\<close>

fun bump_at :: "time_ms \<Rightarrow> request_log \<Rightarrow> request_log" where
  "bump_at now [] = []"
| "bump_at now ((t, c) # rs) = (if t = now then (t, c + 1) # rs else (t, c) # bump_at now rs)"

definition has_request :: "time_ms \<Rightarrow> request_log \<Rightarrow> bool" where
  "has_request now rs \<longleftrightarrow> (\<exists>r\<in>set rs. fst r = now)"

definition record_request :: "time_ms \<Rightarrow> request_log \<Rightarrow> request_log" where
  "record_request now rs = (if has_request now rs then bump_at now rs else rs @ [(now, 1)])"

definition checkSlidingWindow ::
  "rate_limit_config \<Rightarrow> time_ms \<Rightarrow> rate_limit_state \<Rightarrow> int \<Rightarrow> adjustments \<Rightarrow>
   rate_limit_result \<times> rate_limit_state" where
  "checkSlidingWindow cfg now s limit adj =
     (let windowStart = now - timeWindowMs cfg;
          s = s\<lparr>requests := filter (\<lambda>r. fst r \<ge> windowStart) (requests s)\<rparr>;
          currentCount = sum_list (map snd (requests s));
          allow = (currentCount < limit);
          s = (if allow
               then s\<lparr>requests := record_request now (requests s),
                      requestCount := requestCount s + 1, lastRequest := now\<rparr>
               else s);
          reset = mk_date (Fin (of_int
            (case requests s of r # rs \<Rightarrow> fst r + timeWindowMs cfg | [] \<Rightarrow> now + timeWindowMs cfg)))
      in (\<lparr>allowed = allow, remainingRequests = max 0 (limit - currentCount - (if allow then 1 else 0)),
           resetTime = reset,
           retryAfter = (if allow then None
             else Some (js_ceil (js_scale (1/1000) (js_add (getTime reset) (Fin (- of_int now)))))),
           limitApplied = limit,
           reason = (if allow then None else Some ''Rate limit exceeded (Sliding Window)''),
           res_adjustments = adj,
           res_metadata = \<lparr>md_algorithm = Sliding_window, md_windowStart = windowStart,
             md_windowEnd = mk_date (Fin (of_int (now + timeWindowMs cfg))),
             md_requestCount = currentCount + (if allow then 1 else 0), md_burstUsed = 0\<rparr>\<rparr>, s))"

section \<open>Adaptive hybrid\<close>

text \<open>What the sliding window check on a shallow copy leaves in the original: a shared request object.\<close>

definition hybrid_state :: "rate_limit_config \<Rightarrow> time_ms \<Rightarrow> bool \<Rightarrow> rate_limit_state \<Rightarrow> rate_limit_state" where
  "hybrid_state cfg now allow s =
     (if allow \<and> now - timeWindowMs cfg \<le> now then s\<lparr>requests := bump_at now (requests s)\<rparr> else s)"

definition checkAdaptiveHybrid ::
  "rate_limit_config \<Rightarrow> time_ms \<Rightarrow> time_ms \<Rightarrow> rate_limit_state \<Rightarrow> int \<Rightarrow> adjustments \<Rightarrow>
   rate_limit_result \<times> rate_limit_state" where
  "checkAdaptiveHybrid cfg now1 now2 s limit adj =
     (let tokenResult = fst (checkTokenBucket cfg now1 s limit adj);
          windowResult = fst (checkSlidingWindow cfg now2 s limit adj);
          allow = (allowed tokenResult \<and> allowed windowResult);
          restrictive = (if remainingRequests tokenResult < remainingRequests windowResult
                         then tokenResult else windowResult)
      in (\<lparr>allowed = allow,
           remainingRequests = min (remainingRequests tokenResult) (remainingRequests windowResult),
           resetTime = mk_date (js_min (getTime (resetTime tokenResult)) (getTime (resetTime windowResult))),
           retryAfter = (if allow then None
             else Some (js_max (or_zero (retryAfter tokenResult)) (or_zero (retryAfter windowResult)))),
           limitApplied = limit,
           reason = (if allow then None else Some ''Rate limit exceeded (Adaptive Hybrid)''),
           res_adjustments = adj,
           res_metadata = \<lparr>md_algorithm = Adaptive_hybrid,
             md_windowStart = md_windowStart (res_metadata restrictive),
             md_windowEnd = md_windowEnd (res_metadata restrictive),
             md_requestCount = max (md_requestCount (res_metadata tokenResult))
                                   (md_requestCount (res_metadata windowResult)),
             md_burstUsed = md_burstUsed (res_metadata tokenResult)\<rparr>\<rparr>,
          hybrid_state cfg now2 (allowed windowResult) s))"

section \<open>Adjustments\<close>

definition threat_level_of :: "real \<Rightarrow> threat_level" where
  "threat_level_of score =
     (if score < 3/10 then Threat_low else if score < 6/10 then Threat_medium
      else if score < 8/10 then Threat_high else Threat_critical)"

definition calculateThreatAdjustment :: "rate_limiter \<Rightarrow> real \<Rightarrow> real" where
  "calculateThreatAdjustment l score =
     (case map_of (threatAdjustments l) (threat_level_of score) of None \<Rightarrow> 1 | Some a \<Rightarrow> ta_factor a)"

text \<open>\<^verbatim>\<open>userId || sessionId || ipAddress\<close>: an empty string is skipped like an absent one.\<close>

definition or_else :: "string option \<Rightarrow> string \<Rightarrow> string" where
  "or_else v d = (case v of None \<Rightarrow> d | Some s \<Rightarrow> if s = [] then d else s)"

definition profile_key :: "rate_limit_request \<Rightarrow> string" where
  "profile_key rq = ''user_profile:'' @ or_else (rq_userId rq) (or_else (rq_sessionId rq) (rq_ipAddress rq))"

definition new_profile :: "rate_limiter \<Rightarrow> time_ms \<Rightarrow> rate_limit_request \<Rightarrow> user_rate_profile" where
  "new_profile l now rq =
     \<lparr>up_userId = rq_userId rq, up_sessionId = rq_sessionId rq, up_ipAddress = rq_ipAddress rq,
      up_userProfile = User_new, up_baselineRequests = baseLimit (lim_config l), up_trustScore = 1/2,
      up_violationCount = 0, up_lastViolation = None, up_currentAdjustment = 1, up_profileUpdated = now\<rparr>"

definition getUserProfile ::
  "call_env \<Rightarrow> rate_limit_request \<Rightarrow> rate_limiter \<Rightarrow> user_rate_profile option \<times> redis_write list" where
  "getUserProfile env rq l =
     (case env_profile env of
        Failed \<Rightarrow> (None, [])
      | Found p \<Rightarrow> (Some p, [])
      | Missing \<Rightarrow>
          (let p = new_profile l (now_profile env) rq
           in if env_profile_set env then (Some p, [Put_profile (profile_key rq) p 3600]) else (None, [])))"

text \<open>\<^verbatim>\<open>get(...) || 1.0\<close>: an absent factor and a factor of 0 both become 1.\<close>

definition factor_or_1 :: "real option \<Rightarrow> real" where
  "factor_or_1 v = (case v of None \<Rightarrow> 1 | Some f \<Rightarrow> if f = 0 then 1 else f)"

definition calculateUserAdjustment ::
  "call_env \<Rightarrow> rate_limit_request \<Rightarrow> rate_limiter \<Rightarrow> real \<times> redis_write list" where
  "calculateUserAdjustment env rq l =
     (case getUserProfile env rq l of
        (None, ws) \<Rightarrow> (1, ws)
      | (Some p, ws) \<Rightarrow>
          (let baseAdjustment = factor_or_1 (map_of (userAdjustments l) (up_userProfile p));
               trustAdjustment = 1/2 + up_trustScore p * (1/2)
           in (baseAdjustment * trustAdjustment, ws)))"

definition getCountryFromIP :: "string \<Rightarrow> string" where
  "getCountryFromIP ip =
     (if starts_with ip ''192.168.'' \<or> starts_with ip ''10.'' \<or> ip = ''127.0.0.1''
      then ''LOCAL'' else ''XX'')"

definition calculateGeographicAdjustment :: "rate_limiter \<Rightarrow> string \<Rightarrow> real" where
  "calculateGeographicAdjustment l ip =
     (case map_of (geographicRules l) (getCountryFromIP ip) of None \<Rightarrow> 1 | Some r \<Rightarrow> gr_factor r)"

definition getTimePattern :: "int \<Rightarrow> time_ms \<Rightarrow> time_pattern" where
  "getTimePattern tz t =
     (let hour = getHours tz t; dayOfWeek = getDay tz t
      in if hour \<ge> 9 \<and> hour \<le> 17 \<and> dayOfWeek \<ge> 1 \<and> dayOfWeek \<le> 5 then Peak_hours
         else if dayOfWeek = 0 \<or> dayOfWeek = 6 then Weekend
         else Off_hours)"

definition calculateTemporalAdjustment :: "rate_limiter \<Rightarrow> int \<Rightarrow> time_ms \<Rightarrow> real" where
  "calculateTemporalAdjustment l tz t =
     (case find (\<lambda>r. tr_pattern r = getTimePattern tz t) (temporalRules l) of
        None \<Rightarrow> 1 | Some r \<Rightarrow> tr_factor r)"

definition calculateAdjustments ::
  "call_env \<Rightarrow> rate_limit_request \<Rightarrow> rate_limiter \<Rightarrow> adjustments \<times> redis_write list" where
  "calculateAdjustments env rq l =
     (let threat = calculateThreatAdjustment l (case rq_threatScore rq of None \<Rightarrow> 0 | Some x \<Rightarrow> x);
          (user, ws) = calculateUserAdjustment env rq l;
          geo = calculateGeographicAdjustment l (rq_ipAddress rq);
          temp = calculateTemporalAdjustment l (timezone env) (rq_timestamp rq)
      in (\<lparr>threatBased = threat, userBased = user, geographic = geo, temporal = temp,
           adj_final = threat * user * geo * temp\<rparr>, ws))"

section \<open>State and cache\<close>

definition fresh_state :: "rate_limit_config \<Rightarrow> time_ms \<Rightarrow> string \<Rightarrow> rate_limit_state" where
  "fresh_state cfg now ident =
     \<lparr>st_identifier = ident, st_algorithm = rl_algorithm cfg, tokens = of_int (baseLimit cfg),
      lastRefill = now, requests = [], st_windowStart = now, requestCount = 0, lastRequest = now,
      currentLimit = baseLimit cfg, st_violationCount = 0\<rparr>"

definition manageCacheSize :: "rate_limiter \<Rightarrow> rate_limiter" where
  "manageCacheSize l =
     (if length (localCache l) > cacheSize l
      then l\<lparr>localCache := fold map_delete (take (cacheSize l div 4) (map fst (localCache l))) (localCache l)\<rparr>
      else l)"

definition getState :: "call_env \<Rightarrow> string \<Rightarrow> rate_limiter \<Rightarrow> rate_limit_state \<times> rate_limiter" where
  "getState env ident l =
     (let s = (case map_of (localCache l) ident of
                 Some s \<Rightarrow> s
               | None \<Rightarrow>
                   (case env_state env of
                      Found s \<Rightarrow> s
                    | _ \<Rightarrow> fresh_state (lim_config l) (now_create env) ident))
      in (s, manageCacheSize (l\<lparr>localCache := map_set ident s (localCache l)\<rparr>)))"

definition updateState ::
  "string \<Rightarrow> rate_limit_state \<Rightarrow> rate_limiter \<Rightarrow> rate_limiter \<times> redis_write list" where
  "updateState ident s l =
     (l\<lparr>localCache := map_set ident s (localCache l)\<rparr>,
      [Put_state (''rate_limit_state:'' @ ident) s
         (\<lceil>of_int (timeWindowMs (lim_config l)) / (1000::real)\<rceil> + 60)])"

definition createFailOpenResult :: "rate_limit_config \<Rightarrow> time_ms \<Rightarrow> rate_limit_result" where
  "createFailOpenResult cfg now =
     (let end_time = mk_date (Fin (of_int (now + timeWindowMs cfg)))
      in \<lparr>allowed = True, remainingRequests = baseLimit cfg, resetTime = end_time, retryAfter = None,
          limitApplied = baseLimit cfg, reason = Some ''Fail-open due to system error'',
          res_adjustments = \<lparr>threatBased = 1, userBased = 1, geographic = 1, temporal = 1, adj_final = 1\<rparr>,
          res_metadata = \<lparr>md_algorithm = rl_algorithm cfg, md_windowStart = now, md_windowEnd = end_time,
            md_requestCount = 0, md_burstUsed = 0\<rparr>\<rparr>)"

definition final_limit :: "rate_limit_config \<Rightarrow> adjustments \<Rightarrow> int" where
  "final_limit cfg adj = max 1 \<lfloor>of_int (baseLimit cfg) * adj_final adj\<rfloor>"

text \<open>The switch of \<^verbatim>\<open>checkRateLimit\<close>; \<open>None\<close> is the raised \<^verbatim>\<open>Unknown algorithm\<close>.\<close>

definition dispatch ::
  "rate_limit_config \<Rightarrow> call_env \<Rightarrow> rate_limit_state \<Rightarrow> int \<Rightarrow> adjustments \<Rightarrow>
   (rate_limit_result \<times> rate_limit_state) option" where
  "dispatch cfg env s limit adj =
     (case rl_algorithm cfg of
        Token_bucket \<Rightarrow> Some (checkTokenBucket cfg (now_token env) s limit adj)
      | Sliding_window \<Rightarrow> Some (checkSlidingWindow cfg (now_window env) s limit adj)
      | Adaptive_hybrid \<Rightarrow> Some (checkAdaptiveHybrid cfg (now_token env) (now_window env) s limit adj)
      | Unknown_algorithm a \<Rightarrow> None)"

definition checkRateLimit ::
  "call_env \<Rightarrow> rate_limit_request \<Rightarrow> rate_limiter \<Rightarrow>
   rate_limit_result \<times> redis_write list \<times> rate_limiter" where
  "checkRateLimit env rq l =
     (let (s, l) = getState env (rq_identifier rq) l;
          (adj, ws) = calculateAdjustments env rq l;
          limit = final_limit (lim_config l) adj
      in case dispatch (lim_config l) env s limit adj of
           None \<Rightarrow> (createFailOpenResult (lim_config l) (now_fail env), ws, l)
         | Some (result, s') \<Rightarrow>
             (let (l', ws') = updateState (rq_identifier rq) s' l in (result, ws @ ws', l')))"

definition cleanupExpiredEntries :: "time_ms \<Rightarrow> rate_limiter \<Rightarrow> rate_limiter" where
  "cleanupExpiredEntries now l =
     (let expiredKeys = map fst (filter (\<lambda>(k, s). now - lastRequest s > timeWindowMs (lim_config l) * 2)
                                        (localCache l))
      in l\<lparr>localCache := fold map_delete expiredKeys (localCache l)\<rparr>)"

definition getStats :: "rate_limiter \<Rightarrow> nat \<times> algorithm \<times> int \<times> int" where
  "getStats l = (length (localCache l), rl_algorithm (lim_config l), baseLimit (lim_config l),
                 timeWindowMs (lim_config l))"

definition destroy :: "rate_limiter \<Rightarrow> rate_limiter" where
  "destroy l = l\<lparr>timerRunning := False, localCache := []\<rparr>"

section \<open>Sliding window: refinement of the admission log\<close>

text \<open>
  The specification keeps the times of all requests ever admitted and admits a request at \<open>t\<close> when fewer
  than the limit lie in \<open>[t - W, t]\<close>.
\<close>

definition spec_allow :: "int \<Rightarrow> int \<Rightarrow> time_ms list \<Rightarrow> time_ms \<Rightarrow> bool" where
  "spec_allow W limit adm t \<longleftrightarrow> int (length (filter (\<lambda>u. t - W \<le> u) adm)) < limit"

fun spec_run :: "int \<Rightarrow> (time_ms \<times> int) list \<Rightarrow> time_ms list \<Rightarrow> time_ms list" where
  "spec_run W [] adm = adm"
| "spec_run W ((t, limit) # calls) adm =
     spec_run W calls (if spec_allow W limit adm t then adm @ [t] else adm)"

definition count_from :: "time_ms \<Rightarrow> request_log \<Rightarrow> int" where
  "count_from a rs = sum_list (map snd (filter (\<lambda>r. a \<le> fst r) rs))"

definition window_abs :: "time_ms \<Rightarrow> request_log \<Rightarrow> time_ms list \<Rightarrow> bool" where
  "window_abs a0 rs adm \<longleftrightarrow> (\<forall>a\<ge>a0. count_from a rs = int (length (filter (\<lambda>u. a \<le> u) adm)))"

lemma has_request_simps [simp]:
  "has_request now [] \<longleftrightarrow> False" "has_request now ((t, c) # rs) \<longleftrightarrow> t = now \<or> has_request now rs"
  by (auto simp: has_request_def)

lemma count_from_bump:
  "has_request now rs \<Longrightarrow> count_from a (bump_at now rs) = count_from a rs + (if a \<le> now then 1 else 0)"
  by (induction now rs rule: bump_at.induct) (auto simp: count_from_def)

lemma count_from_record:
  "count_from a (record_request now rs) = count_from a rs + (if a \<le> now then 1 else 0)"
  using count_from_bump [of now rs a] by (auto simp: record_request_def count_from_def)

lemma count_from_filter: "b \<le> a \<Longrightarrow> count_from a (filter (\<lambda>r. b \<le> fst r) rs) = count_from a rs"
  unfolding count_from_def filter_filter
  by (rule arg_cong [where f = "\<lambda>xs. sum_list (map snd xs)"], rule filter_cong) auto

lemma window_abs_Nil [simp]: "window_abs a [] []"
  by (simp add: window_abs_def count_from_def)

lemma window_abs_mono: "window_abs a rs adm \<Longrightarrow> a \<le> b \<Longrightarrow> window_abs b rs adm"
  by (auto simp: window_abs_def)

lemma window_allowed:
  "allowed (fst (checkSlidingWindow cfg now s limit adj)) \<longleftrightarrow>
   count_from (now - timeWindowMs cfg) (requests s) < limit"
  by (simp add: checkSlidingWindow_def Let_def count_from_def)

lemma window_requests:
  "requests (snd (checkSlidingWindow cfg now s limit adj)) =
   (let rs = filter (\<lambda>r. now - timeWindowMs cfg \<le> fst r) (requests s)
    in if allowed (fst (checkSlidingWindow cfg now s limit adj)) then record_request now rs else rs)"
  by (simp add: checkSlidingWindow_def Let_def)

lemma window_refines:
  assumes "window_abs a0 (requests s) adm" and "a0 \<le> now - timeWindowMs cfg"
  shows "allowed (fst (checkSlidingWindow cfg now s limit adj)) = spec_allow (timeWindowMs cfg) limit adm now"
    and "window_abs (now - timeWindowMs cfg) (requests (snd (checkSlidingWindow cfg now s limit adj)))
           (if spec_allow (timeWindowMs cfg) limit adm now then adm @ [now] else adm)"
proof -
  show ok: "allowed (fst (checkSlidingWindow cfg now s limit adj)) = spec_allow (timeWindowMs cfg) limit adm now"
    using assms by (simp add: window_allowed spec_allow_def window_abs_def)
  show "window_abs (now - timeWindowMs cfg) (requests (snd (checkSlidingWindow cfg now s limit adj)))
           (if spec_allow (timeWindowMs cfg) limit adm now then adm @ [now] else adm)"
    using assms unfolding window_requests ok
    by (auto simp: window_abs_def count_from_record count_from_filter Let_def)
qed

text \<open>The specification admits at most the limit in every window, wherever the window starts.\<close>

definition in_window :: "time_ms \<Rightarrow> int \<Rightarrow> time_ms list \<Rightarrow> int" where
  "in_window a W adm = int (length (filter (\<lambda>u. a \<le> u \<and> u \<le> a + W) adm))"

lemma length_filter_mono:
  "(\<And>x. P x \<Longrightarrow> Q x) \<Longrightarrow> length (filter P xs) \<le> length (filter Q xs)"
  by (induction xs) (auto simp: le_SucI)

lemma in_window_le: "in_window a W adm \<le> int (length (filter (\<lambda>u. a \<le> u) adm))"
  unfolding in_window_def of_nat_le_iff by (rule length_filter_mono) simp

lemma spec_step_bound:
  assumes "\<And>a. in_window a W adm \<le> L" and "limit \<le> L"
  shows "in_window a W (if spec_allow W limit adm t then adm @ [t] else adm) \<le> L"
proof (cases "spec_allow W limit adm t \<and> a \<le> t \<and> t \<le> a + W")
  case True
  have "in_window a W adm \<le> int (length (filter (\<lambda>u. t - W \<le> u) adm))"
    using True in_window_le [of a W adm] length_filter_mono [of "\<lambda>u. a \<le> u" "\<lambda>u. t - W \<le> u" adm] by force
  then show ?thesis using True assms(2) by (simp add: spec_allow_def in_window_def)
next
  case False
  then show ?thesis using assms(1) [of a] by (auto simp: in_window_def)
qed

section \<open>Token bucket: the rate bound\<close>

lemma bucket_step:
  assumes "lastRefill s \<le> now" and "0 \<le> replenishRate cfg" and "0 \<le> tokens s" and "0 \<le> limit"
  shows "lastRefill (snd (checkTokenBucket cfg now s limit adj)) = now"
    and "0 \<le> tokens (snd (checkTokenBucket cfg now s limit adj))"
    and "tokens (snd (checkTokenBucket cfg now s limit adj)) \<le> of_int limit"
    and "tokens (snd (checkTokenBucket cfg now s limit adj))
           + (if allowed (fst (checkTokenBucket cfg now s limit adj)) then 1 else 0)
         \<le> tokens s + replenishRate cfg * of_int (now - lastRefill s) / 1000"
proof -
  have "0 \<le> replenishRate cfg * of_int (now - lastRefill s) / 1000"
    using assms by simp
  moreover have "of_int \<lfloor>of_int (now - lastRefill s) * replenishRate cfg / 1000\<rfloor>
      \<le> replenishRate cfg * of_int (now - lastRefill s) / 1000"
    by (metis mult.commute of_int_floor_le)
  moreover have "0 \<le> \<lfloor>of_int (now - lastRefill s) * replenishRate cfg / 1000\<rfloor>"
    using assms by simp
  ultimately show "lastRefill (snd (checkTokenBucket cfg now s limit adj)) = now"
    "0 \<le> tokens (snd (checkTokenBucket cfg now s limit adj))"
    "tokens (snd (checkTokenBucket cfg now s limit adj)) \<le> of_int limit"
    "tokens (snd (checkTokenBucket cfg now s limit adj))
           + (if allowed (fst (checkTokenBucket cfg now s limit adj)) then 1 else 0)
         \<le> tokens s + replenishRate cfg * of_int (now - lastRefill s) / 1000"
    using assms(3,4) by (auto simp: checkTokenBucket_def Let_def min_def)
qed

fun bucket_run ::
  "rate_limit_config \<Rightarrow> adjustments \<Rightarrow> (time_ms \<times> int) list \<Rightarrow> rate_limit_state \<Rightarrow> bool list \<times> rate_limit_state" where
  "bucket_run cfg adj [] s = ([], s)"
| "bucket_run cfg adj ((t, limit) # calls) s =
     (let (r, s') = checkTokenBucket cfg t s limit adj; (ds, s'') = bucket_run cfg adj calls s'
      in (allowed r # ds, s''))"

fun times_from :: "time_ms \<Rightarrow> time_ms list \<Rightarrow> bool" where
  "times_from t0 [] \<longleftrightarrow> True"
| "times_from t0 (t # ts) \<longleftrightarrow> t0 \<le> t \<and> times_from t ts"

definition bucket_last :: "time_ms \<Rightarrow> time_ms list \<Rightarrow> time_ms" where
  "bucket_last t0 ts = (if ts = [] then t0 else last ts)"

lemma bucket_run_bound:
  assumes "0 \<le> replenishRate cfg" and "0 \<le> tokens s" and "times_from (lastRefill s) (map fst calls)"
    and "\<forall>(t, limit)\<in>set calls. 0 \<le> limit"
  shows "real (length (filter (\<lambda>d. d) (fst (bucket_run cfg adj calls s)))) + tokens (snd (bucket_run cfg adj calls s))
     \<le> tokens s + replenishRate cfg * of_int (bucket_last (lastRefill s) (map fst calls) - lastRefill s) / 1000
   \<and> 0 \<le> tokens (snd (bucket_run cfg adj calls s))"
  using assms(2-)
proof (induction calls arbitrary: s)
  case Nil
  then show ?case by (simp add: bucket_last_def)
next
  case (Cons c calls)
  obtain t limit where c: "c = (t, limit)" by fastforce
  obtain r s' where step: "checkTokenBucket cfg t s limit adj = (r, s')" by fastforce
  note st = bucket_step [of s t cfg limit adj, unfolded step fst_conv snd_conv]
  have pre: "lastRefill s \<le> t" "0 \<le> limit" using Cons.prems by (auto simp: c)
  note st = st [OF pre(1) assms(1) Cons.prems(1) pre(2)]
  note ih = Cons.IH [of s'] 
  have "times_from (lastRefill s') (map fst calls)" using Cons.prems(2) by (simp add: c st(1))
  with ih st Cons.prems(3) have ih: "real (length (filter (\<lambda>d. d) (fst (bucket_run cfg adj calls s'))))
      + tokens (snd (bucket_run cfg adj calls s'))
     \<le> tokens s' + replenishRate cfg * of_int (bucket_last t (map fst calls) - t) / 1000"
    "0 \<le> tokens (snd (bucket_run cfg adj calls s'))"
    by auto
  have last: "bucket_last (lastRefill s) (map fst (c # calls)) = bucket_last t (map fst calls)"
    by (simp add: bucket_last_def c)
  define x where "x = replenishRate cfg * of_int (bucket_last t (map fst calls) - t) / 1000"
  define y where "y = replenishRate cfg * of_int (t - lastRefill s) / 1000"
  have xy: "replenishRate cfg * of_int (bucket_last t (map fst calls) - lastRefill s) / 1000 = x + y"
    by (simp add: x_def y_def field_simps)
  show ?case
    using ih [folded x_def] st(4) [folded y_def] unfolding last xy
    by (auto simp: c step Let_def split_def split: if_splits)
qed

lemma bucket_starved:
  assumes "0 \<le> of_int (now - lastRefill s) * replenishRate cfg"
    and "of_int (now - lastRefill s) * replenishRate cfg < 1000" and "tokens s < 1"
  shows "\<not> allowed (fst (checkTokenBucket cfg now s limit adj))"
    and "tokens (snd (checkTokenBucket cfg now s limit adj)) < 1"
    and "lastRefill (snd (checkTokenBucket cfg now s limit adj)) = now"
proof -
  have "\<lfloor>of_int (now - lastRefill s) * replenishRate cfg / 1000\<rfloor> = 0"
    using assms(1,2) by (simp add: floor_eq_iff)
  then show "\<not> allowed (fst (checkTokenBucket cfg now s limit adj))"
    "tokens (snd (checkTokenBucket cfg now s limit adj)) < 1"
    "lastRefill (snd (checkTokenBucket cfg now s limit adj)) = now"
    using assms(3) by (auto simp: checkTokenBucket_def Let_def min_def)
qed

section \<open>The limiter as a whole\<close>

lemma final_limit_pos: "1 \<le> final_limit cfg adj"
  by (simp add: final_limit_def)

lemma calculateAdjustments_cache [simp]:
  "calculateAdjustments env rq (l\<lparr>localCache := m\<rparr>) = calculateAdjustments env rq l"
  by (simp add: calculateAdjustments_def calculateThreatAdjustment_def calculateUserAdjustment_def
      getUserProfile_def new_profile_def calculateGeographicAdjustment_def calculateTemporalAdjustment_def
      Let_def split: redis_reply.splits)

definition state_of :: "call_env \<Rightarrow> string \<Rightarrow> rate_limiter \<Rightarrow> rate_limit_state" where
  "state_of env ident l = fst (getState env ident l)"

lemma getState_eq:
  "getState env ident l = (state_of env ident l,
     l\<lparr>localCache := localCache (manageCacheSize (l\<lparr>localCache := map_set ident (state_of env ident l) (localCache l)\<rparr>))\<rparr>)"
  by (simp add: state_of_def getState_def Let_def manageCacheSize_def)

definition limit_for :: "call_env \<Rightarrow> rate_limit_request \<Rightarrow> rate_limiter \<Rightarrow> int" where
  "limit_for env rq l = final_limit (lim_config l) (fst (calculateAdjustments env rq l))"

text \<open>One call that does not raise, written out over the looked-up state.\<close>

lemma checkRateLimit_step:
  assumes "dispatch (lim_config l) env (state_of env (rq_identifier rq) l) (limit_for env rq l)
             (fst (calculateAdjustments env rq l)) = Some (r, s')"
  shows "fst (checkRateLimit env rq l) = r"
    and "snd (snd (checkRateLimit env rq l)) =
      l\<lparr>localCache := map_set (rq_identifier rq) s'
          (localCache (snd (getState env (rq_identifier rq) l)))\<rparr>"
  using assms
  by (simp_all add: checkRateLimit_def getState_eq updateState_def limit_for_def Let_def split_def)

lemma manageCacheSize_small [simp]: "length (localCache l) \<le> cacheSize l \<Longrightarrow> manageCacheSize l = l"
  by (simp add: manageCacheSize_def)

fun run_limiter ::
  "(call_env \<times> rate_limit_request) list \<Rightarrow> rate_limiter \<Rightarrow> rate_limit_result list \<times> rate_limiter" where
  "run_limiter [] l = ([], l)"
| "run_limiter ((env, rq) # calls) l =
     (let (r, ws, l') = checkRateLimit env rq l; (rs, l'') = run_limiter calls l' in (r # rs, l''))"

text \<open>The times at which requests of one identifier were admitted.\<close>

fun admitted :: "string \<Rightarrow> (call_env \<times> rate_limit_request) list \<Rightarrow> rate_limiter \<Rightarrow> time_ms list" where
  "admitted ident [] l = []"
| "admitted ident ((env, rq) # calls) l =
     (let (r, ws, l') = checkRateLimit env rq l
      in (if rq_identifier rq = ident \<and> allowed r then [now_window env] else []) @ admitted ident calls l')"

definition cold :: "call_env \<Rightarrow> bool" where
  "cold env \<longleftrightarrow> (case env_state env of Found s \<Rightarrow> False | _ \<Rightarrow> True)"

lemma state_of_cold:
  "cold env \<Longrightarrow> state_of env ident l =
    (case map_of (localCache l) ident of Some s \<Rightarrow> s | None \<Rightarrow> fresh_state (lim_config l) (now_create env) ident)"
  by (auto simp: state_of_def getState_def cold_def Let_def split: option.splits redis_reply.splits)

section \<open>Sliding window: the whole limiter follows the specification\<close>

definition small_cache :: "string set \<Rightarrow> rate_limiter \<Rightarrow> bool" where
  "small_cache I l \<longleftrightarrow> finite I \<and> card I \<le> cacheSize l \<and> js_map_ok (localCache l) \<and> fst ` set (localCache l) \<subseteq> I"

lemma small_cache_length:
  assumes "small_cache I l"
  shows "length (localCache l) \<le> cacheSize l"
proof -
  have "length (localCache l) = card (fst ` set (localCache l))"
    using assms by (metis small_cache_def js_map_ok_def distinct_card length_map list.set_map)
  also have "\<dots> \<le> card I" using assms by (auto simp: small_cache_def intro: card_mono)
  finally show ?thesis using assms by (simp add: small_cache_def)
qed

lemma small_cache_set:
  "small_cache I l \<Longrightarrow> ident \<in> I \<Longrightarrow> small_cache I (l\<lparr>localCache := map_set ident s (localCache l)\<rparr>)"
  by (simp add: small_cache_def keeps_inv dom_update)

definition tracks :: "string \<Rightarrow> time_ms \<Rightarrow> time_ms list \<Rightarrow> rate_limiter \<Rightarrow> bool" where
  "tracks ident a0 adm l \<longleftrightarrow>
     (case map_of (localCache l) ident of None \<Rightarrow> adm = [] | Some s \<Rightarrow> window_abs a0 (requests s) adm)"

lemma tracks_mono: "tracks ident a adm l \<Longrightarrow> a \<le> b \<Longrightarrow> tracks ident b adm l"
  by (auto simp: tracks_def window_abs_mono split: option.splits)

lemma window_call:
  assumes alg: "rl_algorithm (lim_config l) = Sliding_window" and small: "small_cache I l"
    and id: "rq_identifier rq \<in> I" and cold: "cold env" and tr: "tracks ident a0 adm l"
    and a0: "a0 \<le> now_window env - timeWindowMs (lim_config l)"
  obtains m where "snd (snd (checkRateLimit env rq l)) = l\<lparr>localCache := m\<rparr>"
    and "small_cache I (l\<lparr>localCache := m\<rparr>)"
    and "rq_identifier rq = ident \<longrightarrow> allowed (fst (checkRateLimit env rq l)) =
           spec_allow (timeWindowMs (lim_config l)) (limit_for env rq l) adm (now_window env)"
    and "tracks ident (now_window env - timeWindowMs (lim_config l))
           (if rq_identifier rq = ident \<and> allowed (fst (checkRateLimit env rq l)) then adm @ [now_window env] else adm)
           (l\<lparr>localCache := m\<rparr>)"
proof -
  let ?W = "timeWindowMs (lim_config l)" and ?i = "rq_identifier rq"
  let ?s = "state_of env ?i l"
  obtain r s' where d: "checkSlidingWindow (lim_config l) (now_window env) ?s (limit_for env rq l)
      (fst (calculateAdjustments env rq l)) = (r, s')" by fastforce
  have step: "fst (checkRateLimit env rq l) = r"
    "snd (snd (checkRateLimit env rq l)) =
      l\<lparr>localCache := map_set ?i s' (localCache (snd (getState env ?i l)))\<rparr>"
    using checkRateLimit_step [of l env rq r s'] d alg by (simp_all add: dispatch_def)
  have sm: "small_cache I (l\<lparr>localCache := map_set ?i ?s (localCache l)\<rparr>)"
    using small_cache_set [OF small id] .
  have get: "localCache (snd (getState env ?i l)) = map_set ?i ?s (localCache l)"
    using small_cache_length [OF sm] by (simp add: getState_eq)
  define m where "m = map_set ?i s' (map_set ?i ?s (localCache l))"
  have l': "snd (snd (checkRateLimit env rq l)) = l\<lparr>localCache := m\<rparr>" by (simp add: step get m_def)
  have sm': "small_cache I (l\<lparr>localCache := m\<rparr>)" using small_cache_set [OF sm id, of s'] by (simp add: m_def)
  have look: "map_of m k = (if k = ?i then Some s' else map_of (localCache l) k)" for k
    by (simp add: m_def update_conv')
  have abs: "window_abs a0 (requests ?s) adm" if "?i = ident"
    using tr that state_of_cold [OF cold, of ?i l]
    by (auto simp: tracks_def fresh_state_def split: option.splits)
  note ref = window_refines [OF abs a0, of "limit_for env rq l" "fst (calculateAdjustments env rq l)",
      unfolded d fst_conv snd_conv]
  have tr': "tracks ident (now_window env - ?W) adm (l\<lparr>localCache := m\<rparr>)" if "?i \<noteq> ident"
    using tracks_mono [OF tr a0] that by (simp add: tracks_def look)
  show ?thesis
    using that [OF l' sm'] ref tr' by (cases "?i = ident") (auto simp: step tracks_def look split: if_splits)
qed

definition calls_of ::
  "string \<Rightarrow> (call_env \<times> rate_limit_request) list \<Rightarrow> rate_limiter \<Rightarrow> (time_ms \<times> int) list" where
  "calls_of ident calls l =
     map (\<lambda>(env, rq). (now_window env, limit_for env rq l)) (filter (\<lambda>(env, rq). rq_identifier rq = ident) calls)"

lemma limit_for_cache [simp]: "limit_for env rq (l\<lparr>localCache := m\<rparr>) = limit_for env rq l"
  by (simp add: limit_for_def)

lemma calls_of_cache [simp]: "calls_of ident calls (l\<lparr>localCache := m\<rparr>) = calls_of ident calls l"
  by (simp add: calls_of_def)

lemma admitted_spec:
  assumes "rl_algorithm (lim_config l) = Sliding_window" and "small_cache I l"
    and "rq_identifier ` snd ` set calls \<subseteq> I" and "\<forall>c\<in>set calls. cold (fst c)"
    and "tracks ident (t0 - timeWindowMs (lim_config l)) adm l"
    and "times_from t0 (map (\<lambda>c. now_window (fst c)) calls)"
  shows "adm @ admitted ident calls l = spec_run (timeWindowMs (lim_config l)) (calls_of ident calls l) adm"
  using assms
proof (induction calls arbitrary: l adm t0)
  case Nil
  then show ?case by (simp add: calls_of_def)
next
  case (Cons c calls)
  obtain env rq where c: "c = (env, rq)" by fastforce
  let ?W = "timeWindowMs (lim_config l)" and ?a = "allowed (fst (checkRateLimit env rq l))"
  let ?adm = "if rq_identifier rq = ident \<and> ?a then adm @ [now_window env] else adm"
  have pre: "rq_identifier rq \<in> I" "cold env" "t0 - ?W \<le> now_window env - ?W"
    using Cons.prems by (auto simp: c)
  from window_call [OF Cons.prems(1,2) pre(1,2) Cons.prems(5) pre(3)] obtain m where
    m: "snd (snd (checkRateLimit env rq l)) = l\<lparr>localCache := m\<rparr>" "small_cache I (l\<lparr>localCache := m\<rparr>)"
      "rq_identifier rq = ident \<longrightarrow> ?a = spec_allow ?W (limit_for env rq l) adm (now_window env)"
      "tracks ident (now_window env - ?W) ?adm (l\<lparr>localCache := m\<rparr>)"
    by blast
  have ih: "?adm @ admitted ident calls (l\<lparr>localCache := m\<rparr>) = spec_run ?W (calls_of ident calls l) ?adm"
    using Cons.IH [of "l\<lparr>localCache := m\<rparr>" "now_window env" ?adm] Cons.prems m by (auto simp: c)
  show ?case
    using ih m(1,3) by (cases "rq_identifier rq = ident") (auto simp: c Let_def split_def calls_of_def)
qed

lemma spec_run_bound:
  assumes "\<And>a. in_window a W adm \<le> L" and "\<forall>(t, limit)\<in>set calls. limit \<le> L"
  shows "in_window a W (spec_run W calls adm) \<le> L"
  using assms
proof (induction W calls adm arbitrary: a rule: spec_run.induct)
  case (1 W adm)
  then show ?case by simp
next
  case (2 W t limit calls adm)
  have "in_window b W (if spec_allow W limit adm t then adm @ [t] else adm) \<le> L" for b
    using 2(2,3) by (intro spec_step_bound) auto
  from "2.IH" [OF this] show ?case using 2(3) by simp
qed

lemma new_limiter_simps [simp]:
  "lim_config (new_limiter cfg ths us gs ts) = cfg" "localCache (new_limiter cfg ths us gs ts) = []"
  "cacheSize (new_limiter cfg ths us gs ts) = 1000"
  by (simp_all add: new_limiter_def)

section \<open>Hybrid: the state is never consumed\<close>

definition untouched :: "rate_limit_config \<Rightarrow> time_ms \<Rightarrow> rate_limit_state \<Rightarrow> bool" where
  "untouched cfg t s \<longleftrightarrow> tokens s = of_int (baseLimit cfg) \<and> lastRefill s \<le> t \<and> requests s = []"

lemma hybrid_untouched:
  assumes "untouched cfg t s" and "t \<le> now1" and "0 \<le> replenishRate cfg" and "1 \<le> baseLimit cfg" and "1 \<le> limit"
  shows "allowed (fst (checkAdaptiveHybrid cfg now1 now2 s limit adj))"
    and "snd (checkAdaptiveHybrid cfg now1 now2 s limit adj) = s"
proof -
  obtain k where k: "\<lfloor>(of_int now1 - of_int (lastRefill s)) * replenishRate cfg / 1000\<rfloor> = k" "0 \<le> k"
    using assms by (simp add: untouched_def)
  then have "allowed (fst (checkTokenBucket cfg now1 s limit adj))"
    using assms by (simp add: checkTokenBucket_def Let_def untouched_def)
  then show "allowed (fst (checkAdaptiveHybrid cfg now1 now2 s limit adj))"
    using assms by (simp add: checkAdaptiveHybrid_def Let_def window_allowed untouched_def count_from_def)
  show "snd (checkAdaptiveHybrid cfg now1 now2 s limit adj) = s"
    using assms(1) by (simp add: checkAdaptiveHybrid_def hybrid_state_def Let_def untouched_def)
qed

definition all_untouched :: "time_ms \<Rightarrow> rate_limiter \<Rightarrow> bool" where
  "all_untouched t l \<longleftrightarrow> (\<forall>(k, s)\<in>set (localCache l). untouched (lim_config l) t s)"

lemma all_untouched_set:
  "all_untouched t l \<Longrightarrow> untouched (lim_config l) t s \<Longrightarrow>
   all_untouched t (l\<lparr>localCache := map_set k s (localCache l)\<rparr>)"
  using set_update_subset [of k s "localCache l"] by (fastforce simp: all_untouched_def)

lemma all_untouched_manage: "all_untouched t l \<Longrightarrow> all_untouched t (manageCacheSize l)"
  using set_fold_delete_subset by (fastforce simp: all_untouched_def manageCacheSize_def)

lemma all_untouched_mono: "all_untouched t l \<Longrightarrow> t \<le> t' \<Longrightarrow> all_untouched t' l"
  by (fastforce simp: all_untouched_def untouched_def)

lemma hybrid_call:
  assumes alg: "rl_algorithm (lim_config l) = Adaptive_hybrid" and cold: "cold env"
    and un: "all_untouched t l" and t: "t \<le> now_create env" "now_create env \<le> now_token env"
    and pos: "0 \<le> replenishRate (lim_config l)" "1 \<le> baseLimit (lim_config l)"
  obtains m where "allowed (fst (checkRateLimit env rq l))"
    and "snd (snd (checkRateLimit env rq l)) = l\<lparr>localCache := m\<rparr>"
    and "all_untouched (now_create env) (l\<lparr>localCache := m\<rparr>)"
proof -
  let ?i = "rq_identifier rq" let ?s = "state_of env ?i l"
  have un': "all_untouched (now_create env) l" using all_untouched_mono [OF un t(1)] .
  have s: "untouched (lim_config l) (now_create env) ?s"
    using un' state_of_cold [OF cold, of ?i l]
    by (auto simp: all_untouched_def fresh_state_def untouched_def split: option.splits dest: map_of_SomeD)
  note h = hybrid_untouched [OF s t(2) pos final_limit_pos]
  obtain r where d: "dispatch (lim_config l) env ?s (limit_for env rq l) (fst (calculateAdjustments env rq l))
      = Some (r, ?s)" and r: "allowed r"
    using alg h by (auto simp: dispatch_def limit_for_def prod_eq_iff)
  note step = checkRateLimit_step [OF d]
  have "all_untouched (now_create env) (snd (getState env ?i l))"
    using all_untouched_manage [OF all_untouched_set [OF un' s, of ?i]]
    by (simp add: getState_eq all_untouched_def)
       (auto simp: manageCacheSize_def)
  from all_untouched_set [OF this, of ?s ?i] s
  have "all_untouched (now_create env) (l\<lparr>localCache := map_set ?i ?s (localCache (snd (getState env ?i l)))\<rparr>)"
    by (simp add: getState_eq all_untouched_def)
  then show ?thesis using that step r by simp
qed

lemma hybrid_run:
  assumes "rl_algorithm (lim_config l) = Adaptive_hybrid" and "\<forall>c\<in>set calls. cold (fst c)"
    and "all_untouched t l" and "times_from t (concat (map (\<lambda>c. [now_create (fst c), now_token (fst c)]) calls))"
    and "0 \<le> replenishRate (lim_config l)" and "1 \<le> baseLimit (lim_config l)"
  shows "\<forall>r\<in>set (fst (run_limiter calls l)). allowed r"
  using assms
proof (induction calls arbitrary: l t)
  case Nil
  then show ?case by simp
next
  case (Cons c calls)
  obtain env rq where c: "c = (env, rq)" by fastforce
  have pre: "cold env" "t \<le> now_create env" "now_create env \<le> now_token env" using Cons.prems by (auto simp: c)
  from hybrid_call [OF Cons.prems(1) pre(1) Cons.prems(3) pre(2,3) Cons.prems(5,6)] obtain m where
    m: "allowed (fst (checkRateLimit env rq l))" "snd (snd (checkRateLimit env rq l)) = l\<lparr>localCache := m\<rparr>"
      "all_untouched (now_create env) (l\<lparr>localCache := m\<rparr>)" by blast
  have "\<forall>r\<in>set (fst (run_limiter calls (l\<lparr>localCache := m\<rparr>))). allowed r"
    using Cons.IH [of "l\<lparr>localCache := m\<rparr>" "now_token env"] Cons.prems pre all_untouched_mono [OF m(3)]
    by (auto simp: c)
  then show ?case using m by (simp add: c Let_def split_def)
qed

section \<open>The cache\<close>

inductive reachable_limiter :: "rate_limiter \<Rightarrow> bool" where
  create: "reachable_limiter (new_limiter cfg ths us gs ts)"
| check: "reachable_limiter l \<Longrightarrow> reachable_limiter (snd (snd (checkRateLimit env rq l)))"
| cleanup: "reachable_limiter l \<Longrightarrow> reachable_limiter (cleanupExpiredEntries now l)"
| stop: "reachable_limiter l \<Longrightarrow> reachable_limiter (destroy l)"

definition cache_ok :: "rate_limiter \<Rightarrow> bool" where
  "cache_ok l \<longleftrightarrow> cacheSize l = 1000 \<and> js_map_ok (localCache l) \<and> length (localCache l) \<le> 1000"

lemma manageCacheSize_drop:
  "js_map_ok (localCache l) \<Longrightarrow> length (localCache l) > cacheSize l \<Longrightarrow>
   localCache (manageCacheSize l) = drop (cacheSize l div 4) (localCache l)"
  by (simp add: manageCacheSize_def fold_delete_take)

lemma js_map_ok_drop: "js_map_ok m \<Longrightarrow> js_map_ok (drop n m)"
  by (simp add: js_map_ok_def drop_map [symmetric])

lemma manageCacheSize_cacheSize [simp]: "cacheSize (manageCacheSize l) = cacheSize l"
  by (simp add: manageCacheSize_def)

lemma getState_room:
  assumes "cache_ok l"
  shows "cache_ok (snd (getState env ident l))
    \<and> length (map_set ident s (localCache (snd (getState env ident l)))) \<le> 1000"
proof -
  let ?m = "map_set ident (state_of env ident l) (localCache l)"
  have ok: "js_map_ok ?m" using assms by (simp add: cache_ok_def keeps_inv)
  have len: "length ?m \<le> 1001" using assms by (simp add: cache_ok_def length_update)
  show ?thesis
  proof (cases "length ?m > 1000")
    case True
    then have "localCache (snd (getState env ident l)) = drop 250 ?m"
      using manageCacheSize_drop [of "l\<lparr>localCache := ?m\<rparr>"] assms ok by (simp add: getState_eq cache_ok_def)
    moreover have "length (map_set ident s (drop 250 ?m)) \<le> 752"
      using len length_update [of ident s "drop 250 ?m"] by auto
    ultimately show ?thesis
      using assms ok len by (simp add: cache_ok_def js_map_ok_drop getState_eq)
  next
    case False
    then have "localCache (snd (getState env ident l)) = ?m" using assms by (simp add: getState_eq cache_ok_def)
    then show ?thesis
      using assms ok False by (simp add: cache_ok_def length_update dom_update getState_eq)
  qed
qed

lemma checkRateLimit_cache [keeps_inv]:
  assumes "cache_ok l"
  shows "cache_ok (snd (snd (checkRateLimit env rq l)))"
proof (cases "dispatch (lim_config l) env (state_of env (rq_identifier rq) l) (limit_for env rq l)
    (fst (calculateAdjustments env rq l))")
  case None
  then have "snd (snd (checkRateLimit env rq l)) = snd (getState env (rq_identifier rq) l)"
    by (simp add: checkRateLimit_def getState_eq limit_for_def Let_def split_def)
  then show ?thesis using getState_room [OF assms] by simp
next
  case (Some rs)
  obtain r s' where rs: "rs = (r, s')" by fastforce
  have "snd (snd (checkRateLimit env rq l)) =
      l\<lparr>localCache := map_set (rq_identifier rq) s' (localCache (snd (getState env (rq_identifier rq) l)))\<rparr>"
    using checkRateLimit_step(2) [of l env rq r s'] Some by (simp add: rs)
  then show ?thesis
    using getState_room [OF assms, of env "rq_identifier rq" s'] by (simp add: cache_ok_def keeps_inv getState_eq)
qed

lemma length_fold_delete: "length (fold map_delete ks m) \<le> length m"
proof (induction ks arbitrary: m)
  case (Cons k ks)
  have "length (map_delete k m) \<le> length m" by (induction m) auto
  then show ?case using Cons [of "map_delete k m"] by simp
qed simp

lemma cleanup_cache [keeps_inv]: "cache_ok l \<Longrightarrow> cache_ok (cleanupExpiredEntries now l)"
  using length_fold_delete le_trans
  by (fastforce simp: cache_ok_def cleanupExpiredEntries_def Let_def js_map.ok_fold_del)

lemma reachable_cache_ok: "reachable_limiter l \<Longrightarrow> cache_ok l"
proof (induction rule: reachable_limiter.induct)
  case (create cfg ths us gs ts)
  then show ?case by (simp add: cache_ok_def)
next
  case (stop l)
  then show ?case by (simp add: cache_ok_def destroy_def)
qed (auto intro: keeps_inv)

lemma cleanup_lookup:
  assumes "js_map_ok (localCache l)"
  shows "map_of (localCache (cleanupExpiredEntries now l)) k =
    (case map_of (localCache l) k of None \<Rightarrow> None
     | Some s \<Rightarrow> if now - lastRequest s > timeWindowMs (lim_config l) * 2 then None else Some s)"
proof -
  have "k \<in> fst ` set (filter (\<lambda>(k, s). now - lastRequest s > timeWindowMs (lim_config l) * 2) (localCache l))
    \<longleftrightarrow> (\<exists>s. map_of (localCache l) k = Some s \<and> now - lastRequest s > timeWindowMs (lim_config l) * 2)"
    using assms by (force simp: js_map_ok_def)
  then show ?thesis
    by (auto simp: cleanupExpiredEntries_def Let_def js_map.look_fold_del split: option.splits)
qed

section \<open>Properties\<close>

text \<open>Concrete calls for the witnesses: a small window limiter, no stored profile, factors of 1.\<close>

definition demo_config :: "algorithm \<Rightarrow> rate_limit_config" where
  "demo_config a = \<lparr>rl_algorithm = a, baseLimit = 2, timeWindowMs = 1000, burstLimit = 5, replenishRate = 1,
     rl_enabled = True, rl_description = ''demo''\<rparr>"

definition demo_env :: "time_ms \<Rightarrow> call_env" where
  "demo_env t = \<lparr>env_state = Missing, env_profile = Failed, env_profile_set = False, now_profile = t,
     now_create = t, now_token = t, now_window = t, now_fail = t, timezone = 0\<rparr>"

definition demo_request :: "string \<Rightarrow> rate_limit_request" where
  "demo_request ident = \<lparr>rq_identifier = ident, rq_endpoint = ''/'', rq_method = ''GET'',
     rq_ipAddress = ''1.2.3.4'', rq_userAgent = None, rq_userId = None, rq_sessionId = None,
     rq_threatScore = None, rq_timestamp = 0\<rparr>"

definition demo_calls :: "(call_env \<times> rate_limit_request) list" where
  "demo_calls = map (\<lambda>t. (demo_env t, demo_request ''u'')) [0, 10, 20, 1500]"

definition demo_limiter :: "algorithm \<Rightarrow> rate_limiter" where
  "demo_limiter a = new_limiter (demo_config a) [] [] [] []"

definition unit_adjustments :: adjustments where
  "unit_adjustments = \<lparr>threatBased = 1, userBased = 1, geographic = 1, temporal = 1, adj_final = 1\<rparr>"

lemma demo_adjustments: "fst (calculateAdjustments (demo_env t) (demo_request u) (demo_limiter a)) = unit_adjustments"
  by (simp add: calculateAdjustments_def calculateThreatAdjustment_def calculateUserAdjustment_def
      getUserProfile_def calculateGeographicAdjustment_def calculateTemporalAdjustment_def demo_env_def
      demo_request_def demo_limiter_def new_limiter_def unit_adjustments_def Let_def)

lemma demo_limit: "limit_for (demo_env t) (demo_request u) (demo_limiter a) = 2"
  by (simp add: limit_for_def demo_adjustments final_limit_def unit_adjustments_def)
     (simp add: demo_limiter_def demo_config_def)





text \<open>
  C9. The token bucket keeps the configured rate: over any sequence of checks at times that do not run
  backwards, the number of admitted requests is at most the tokens at the start plus
  \<^verbatim>\<open>replenishRate\<close> tokens per second elapsed, and the tokens never become negative.
\<close>
theorem token_bucket_rate:
  assumes "0 \<le> replenishRate cfg" and "0 \<le> tokens s"
    and "times_from (lastRefill s) (map fst calls)" and "\<forall>(t, limit)\<in>set calls. 0 \<le> limit"
  shows "real (length (filter (\<lambda>d. d) (fst (bucket_run cfg adj calls s))))
     \<le> tokens s + replenishRate cfg * of_int (bucket_last (lastRefill s) (map fst calls) - lastRefill s) / 1000
   \<and> 0 \<le> tokens (snd (bucket_run cfg adj calls s))"
  using bucket_run_bound [OF assms, of adj] by linarith

theorem token_bucket_rate_witness:
  "real (length (filter (\<lambda>d. d) (fst (bucket_run (demo_config Token_bucket) unit_adjustments
      [(0, 2), (10, 2), (20, 2), (3000, 2)] (fresh_state (demo_config Token_bucket) 0 ''u''))))) \<le> 5"
  using token_bucket_rate [of "demo_config Token_bucket" "fresh_state (demo_config Token_bucket) 0 ''u''"
      "[(0, 2), (10, 2), (20, 2), (3000, 2)]" unit_adjustments]
  by (auto simp: fresh_state_def demo_config_def bucket_last_def)

text \<open>
  The refill rounds down and moves \<^verbatim>\<open>lastRefill\<close> on every check, admitted or not, so the fraction of a token
  earned since the last check is lost. A client with less than one token that keeps asking at intervals
  shorter than one token's time is refused forever, although the elapsed time is worth any number of tokens.
\<close>
theorem token_bucket_starvation:
  assumes "0 \<le> replenishRate cfg" and "tokens s < 1" and "0 \<le> gap" and "of_int gap * replenishRate cfg < 1000"
  shows "\<forall>d\<in>set (fst (bucket_run cfg adj
           (map (\<lambda>k. (lastRefill s + gap * int k, limit)) [Suc 0..<Suc n]) s)). \<not> d"
  using assms(2)
proof (induction n arbitrary: s)
  case 0
  then show ?case by simp
next
  case (Suc n)
  let ?r = "checkTokenBucket cfg (lastRefill s + gap) s limit adj"
  have g: "0 \<le> of_int gap * replenishRate cfg" using assms by simp
  have st: "\<not> allowed (fst ?r)" "tokens (snd ?r) < 1" "lastRefill (snd ?r) = lastRefill s + gap"
    using bucket_starved [of "lastRefill s + gap" s cfg limit adj] g assms(4) Suc.prems by auto
  have ks: "[Suc 0..<Suc (Suc n)] = Suc 0 # map Suc [Suc 0..<Suc n]"
    by (simp add: map_Suc_upt upt_conv_Cons del: upt_Suc)
  have calls: "map (\<lambda>k. (lastRefill s + gap * int k, limit)) [Suc 0..<Suc (Suc n)] =
      (lastRefill s + gap, limit) # map (\<lambda>k. (lastRefill (snd ?r) + gap * int k, limit)) [Suc 0..<Suc n]"
    unfolding ks st(3) by (simp add: algebra_simps del: upt_Suc)
  show ?case
    unfolding calls using Suc.IH [OF st(2)] st(1)
    by (simp only: bucket_run.simps Let_def split_def fst_conv list.set ball_simps) auto
qed

theorem token_bucket_starvation_witness:
  "list_all Not (fst (bucket_run (demo_config Token_bucket) unit_adjustments
      (map (\<lambda>k. (0 + 900 * int k, 2)) [Suc 0..<Suc 1000])
      ((fresh_state (demo_config Token_bucket) 0 ''u'')\<lparr>tokens := 0\<rparr>)))"
  using token_bucket_starvation [of "demo_config Token_bucket"
      "(fresh_state (demo_config Token_bucket) 0 ''u'')\<lparr>tokens := 0\<rparr>" 900 unit_adjustments 2 1000]
  by (simp add: demo_config_def fresh_state_def list_all_iff del: upt_Suc bucket_run.simps)

text \<open>
  The adaptive hybrid limits nothing. Its two checks run on copies of the state and no copy is written
  back, so every state a hybrid limiter creates stays as new: with a base limit of at least one, each request
  of each identifier is admitted, however many arrive and whatever the adjusted limits are.
\<close>
theorem hybrid_never_limits:
  assumes "rl_algorithm cfg = Adaptive_hybrid" and "1 \<le> baseLimit cfg" and "0 \<le> replenishRate cfg"
    and "\<forall>c\<in>set calls. cold (fst c)"
    and "times_from start (concat (map (\<lambda>c. [now_create (fst c), now_token (fst c)]) calls))"
  shows "\<forall>r\<in>set (fst (run_limiter calls (new_limiter cfg ths us gs ts))). allowed r"
  using hybrid_run [of "new_limiter cfg ths us gs ts" calls start] assms by (simp add: all_untouched_def)

theorem hybrid_never_limits_witness:
  "list_all allowed (fst (run_limiter (replicate 100 (demo_env 0, demo_request ''u'')) (demo_limiter Adaptive_hybrid)))"
proof -
  have times: "times_from 0 (concat (map (\<lambda>c. [now_create (fst c), now_token (fst c)])
      (replicate n (demo_env 0, demo_request ''u''))))" for n
    by (induction n) (auto simp: demo_env_def)
  show ?thesis
    unfolding demo_limiter_def list_all_iff
    by (rule hybrid_never_limits [where start = 0])
       (use times in \<open>auto simp: demo_config_def cold_def demo_env_def\<close>)
qed

text \<open>
  In every reachable limiter the local cache has one entry per identifier and at most 1000 of them,
  whatever the sequence of checks, cleanups and shutdowns; and a cleanup removes exactly the entries whose
  last admitted request is older than two windows.
\<close>
theorem limiter_cache_bound:
  assumes "reachable_limiter l"
  shows "distinct (map fst (localCache l)) \<and> length (localCache l) \<le> 1000
    \<and> map_of (localCache (cleanupExpiredEntries now l)) k =
        (case map_of (localCache l) k of None \<Rightarrow> None
         | Some s \<Rightarrow> if now - lastRequest s > timeWindowMs (lim_config l) * 2 then None else Some s)"
  using reachable_cache_ok [OF assms] cleanup_lookup [of l now k] by (simp add: cache_ok_def js_map_ok_def)

theorem limiter_cache_bound_witness:
  "length (localCache (snd (snd (checkRateLimit (demo_env 0) (demo_request ''u'') (demo_limiter Token_bucket))))) \<le> 1000"
proof -
  have "reachable_limiter (snd (snd (checkRateLimit (demo_env 0) (demo_request ''u'') (demo_limiter Token_bucket))))"
    unfolding demo_limiter_def by (intro reachable_limiter.intros)
  from limiter_cache_bound [OF this] show ?thesis by simp
qed

text \<open>
  C0. The reset time of the token bucket is computed from \<open>1 - tokens\<close>: when more than \<open>1 + replenishRate\<close>
  tokens are left, the reset time and the end of the window that the result reports lie in the past.
\<close>
theorem token_reset_in_past:
  assumes "0 < replenishRate cfg" and "checkTokenBucket cfg now s limit adj = (r, s')"
    and "1 + replenishRate cfg \<le> tokens s'" and "resetTime r = Some t"
  shows "t \<le> now - 1000 \<and> md_windowEnd (res_metadata r) = Some t"
proof -
  define x where "x = (1 - tokens s') / replenishRate cfg"
  have "x \<le> -1" using assms(1,3) by (simp add: x_def divide_le_eq)
  then have "\<lceil>x\<rceil> \<le> -1" by (simp add: ceiling_le_iff)
  have reset: "resetTime r = mk_date (Fin (of_int now + 1000 * of_int \<lceil>x\<rceil>))"
    "md_windowEnd (res_metadata r) = resetTime r"
    using assms(1,2) by (auto simp: checkTokenBucket_def Let_def js_div_def x_def)
  have int: "of_int now + 1000 * of_int \<lceil>x\<rceil> = (of_int (now + 1000 * \<lceil>x\<rceil>) :: real)" by simp
  have "t = now + 1000 * \<lceil>x\<rceil>"
    using assms(4) unfolding reset(1) int mk_date_of_int by (auto split: if_splits)
  then show ?thesis using \<open>\<lceil>x\<rceil> \<le> -1\<close> reset(2) assms(4) by auto
qed

theorem token_reset_in_past_witness:
  "\<exists>r s'. checkTokenBucket (demo_config Token_bucket) 5000
       ((fresh_state (demo_config Token_bucket) 5000 ''u'')\<lparr>tokens := 10\<rparr>) 10 unit_adjustments = (r, s')
     \<and> resetTime r = Some (-3000) \<and> (-3000::int) \<le> 5000 - 1000"
proof -
  obtain r s' where c: "checkTokenBucket (demo_config Token_bucket) 5000
       ((fresh_state (demo_config Token_bucket) 5000 ''u'')\<lparr>tokens := 10\<rparr>) 10 unit_adjustments = (r, s')"
    by fastforce
  have "1 + replenishRate (demo_config Token_bucket) \<le> tokens s'" "resetTime r = Some (-3000)"
    using c by (auto simp: checkTokenBucket_def Let_def demo_config_def fresh_state_def js_div_def mk_date_def)
  then show ?thesis
    using token_reset_in_past [OF _ c, of "-3000"] c by (auto simp: demo_config_def)
qed

end
