(* ===== verification/RateLimitPolicies.thy ===== *)
theory RateLimitPolicies
  imports RateLimitTypes
begin

text \<open>
  The rate limiting policies (\<^verbatim>\<open>backend/src/core/rateLimit/RateLimitPolicies.ts\<close>): the six default policies as
  data, and the policy store with its priority index.

  The index of the code is an array of references to the policy objects of the map; \<^verbatim>\<open>togglePolicy\<close> mutates
  such an object in place and both see it, every other operation rebuilds the index. The model keeps the
  keys in the index and reads the objects through the map. \<^verbatim>\<open>Array.prototype.sort\<close> is stable, as
  \<open>sort_key\<close> is. A policy reads the clock for its two timestamps, which nothing reads back; all
  timestamps of one call are the argument \<open>now\<close>.

  The index is at every moment a permutation of the keys in order of falling priority, and
  \<^verbatim>\<open>findApplicablePolicies\<close> returns exactly the enabled matching policies in that order.
\<close>

section \<open>The default policies\<close>

definition threat_adj :: "threat_level \<Rightarrow> real \<Rightarrow> int \<Rightarrow> int \<Rightarrow> int \<Rightarrow> threat_adjustment" where
  "threat_adj lvl factor lo hi cooldown =
     \<lparr>ta_threatLevel = lvl, ta_factor = factor, ta_minLimit = lo, ta_maxLimit = hi, ta_cooldown = cooldown\<rparr>"

definition createGeneralAPIPolicy :: "time_ms \<Rightarrow> rate_limit_policy" where
  "createGeneralAPIPolicy now =
     \<lparr>policyId = ''general-api'', pol_name = ''General API Rate Limiting'',
      pol_description = ''Standard rate limiting for general API endpoints'',
      pol_enabled = True, pol_priority = 1,
      pol_conditions = \<lparr>pc_endpoints = Some [''/api/*''],
        pc_methods = Some [''GET'', ''POST'', ''PUT'', ''DELETE''],
        pc_threatLevels = Some [Threat_low, Threat_medium],
        pc_userProfiles = Some [User_new, User_trusted],
        pc_geographicZones = Some [Zone_safe, Zone_moderate],
        pc_timePatterns = Some [Peak_hours, Off_hours]\<rparr>,
      pol_limits = \<lparr>pl_base = \<lparr>rl_algorithm = Adaptive_hybrid, baseLimit = 1000,
          timeWindowMs = 60000, burstLimit = 1200, replenishRate = 1667/100,
          rl_enabled = True, rl_description = ''General API base limits''\<rparr>,
        pl_threatAdjustments =
          [threat_adj Threat_low (6/5) 800 1500 5,
           threat_adj Threat_medium (4/5) 500 1000 10,
           threat_adj Threat_high (3/10) 100 500 30,
           threat_adj Threat_critical (1/10) 10 100 60],
        pl_userAdjustments = [(User_new, 7/10), (User_trusted, 13/10), (User_suspicious, 3/10), (User_vip, 2), (User_blocked, 1/20)],
        pl_geographicAdjustments =
          [(Zone_safe, 6/5), (Zone_moderate, 1), (Zone_high_risk, 1/2), (Zone_blocked, 1/10)],
        pl_temporalAdjustments =
          [(Peak_hours, 4/5), (Off_hours, 6/5), (Weekend, 11/10), (Holiday, 13/10), (Emergency, 1/5)]\<rparr>,
      pol_actions = \<lparr>pa_onViolation = On_delay, pa_escalationThreshold = 5,
        pa_cooldownPeriod = 15, pa_notifyAdmin = False\<rparr>,
      pol_createdAt = now, pol_updatedAt = now\<rparr>"

definition createAuthenticationPolicy :: "time_ms \<Rightarrow> rate_limit_policy" where
  "createAuthenticationPolicy now =
     \<lparr>policyId = ''authentication'', pol_name = ''Authentication Rate Limiting'',
      pol_description = ''Strict rate limiting for authentication endpoints to prevent brute force attacks'',
      pol_enabled = True, pol_priority = 10,
      pol_conditions = \<lparr>pc_endpoints = Some [''/api/auth/login'', ''/api/auth/register'', ''/api/auth/reset-password''],
        pc_methods = Some [''POST''],
        pc_threatLevels = Some [Threat_low, Threat_medium, Threat_high, Threat_critical],
        pc_userProfiles = Some [User_new, User_trusted, User_suspicious, User_blocked],
        pc_geographicZones = Some [Zone_safe, Zone_moderate, Zone_high_risk, Zone_blocked],
        pc_timePatterns = None\<rparr>,
      pol_limits = \<lparr>pl_base = \<lparr>rl_algorithm = Sliding_window, baseLimit = 5,
          timeWindowMs = 300000, burstLimit = 10, replenishRate = 167/10000,
          rl_enabled = True, rl_description = ''Authentication base limits''\<rparr>,
        pl_threatAdjustments =
          [threat_adj Threat_low 1 3 10 5,
           threat_adj Threat_medium (3/5) 2 5 15,
           threat_adj Threat_high (1/5) 1 3 60,
           threat_adj Threat_critical 0 0 1 300],
        pl_userAdjustments = [(User_new, 4/5), (User_trusted, 6/5), (User_suspicious, 1/5), (User_vip, 3/2), (User_blocked, 0)],
        pl_geographicAdjustments =
          [(Zone_safe, 1), (Zone_moderate, 4/5), (Zone_high_risk, 3/10), (Zone_blocked, 0)],
        pl_temporalAdjustments =
          [(Peak_hours, 4/5), (Off_hours, 1), (Weekend, 1), (Holiday, 1), (Emergency, 1/10)]\<rparr>,
      pol_actions = \<lparr>pa_onViolation = On_block, pa_escalationThreshold = 3,
        pa_cooldownPeriod = 60, pa_notifyAdmin = True\<rparr>,
      pol_createdAt = now, pol_updatedAt = now\<rparr>"

definition createHighRiskGeographicPolicy :: "time_ms \<Rightarrow> rate_limit_policy" where
  "createHighRiskGeographicPolicy now =
     \<lparr>policyId = ''high-risk-geographic'', pol_name = ''High-Risk Geographic Zones'',
      pol_description = ''Restrictive rate limiting for requests from high-risk geographic locations'',
      pol_enabled = True, pol_priority = 8,
      pol_conditions = \<lparr>pc_endpoints = None,
        pc_methods = None,
        pc_threatLevels = Some [Threat_medium, Threat_high, Threat_critical],
        pc_userProfiles = None,
        pc_geographicZones = Some [Zone_high_risk, Zone_blocked],
        pc_timePatterns = None\<rparr>,
      pol_limits = \<lparr>pl_base = \<lparr>rl_algorithm = Token_bucket, baseLimit = 100,
          timeWindowMs = 60000, burstLimit = 50, replenishRate = 167/100,
          rl_enabled = True, rl_description = ''High-risk geographic base limits''\<rparr>,
        pl_threatAdjustments =
          [threat_adj Threat_medium (1/2) 25 100 30,
           threat_adj Threat_high (1/5) 10 50 120,
           threat_adj Threat_critical (1/20) 1 10 300],
        pl_userAdjustments = [(User_new, 1/2), (User_trusted, 4/5), (User_suspicious, 1/10), (User_vip, 1), (User_blocked, 0)],
        pl_geographicAdjustments =
          [(Zone_safe, 1), (Zone_moderate, 4/5), (Zone_high_risk, 3/10), (Zone_blocked, 1/20)],
        pl_temporalAdjustments =
          [(Peak_hours, 7/10), (Off_hours, 1), (Weekend, 9/10), (Holiday, 9/10), (Emergency, 1/10)]\<rparr>,
      pol_actions = \<lparr>pa_onViolation = On_block, pa_escalationThreshold = 2,
        pa_cooldownPeriod = 120, pa_notifyAdmin = True\<rparr>,
      pol_createdAt = now, pol_updatedAt = now\<rparr>"

definition createEmergencyResponsePolicy :: "time_ms \<Rightarrow> rate_limit_policy" where
  "createEmergencyResponsePolicy now =
     \<lparr>policyId = ''emergency-response'', pol_name = ''Emergency Response Mode'',
      pol_description = ''Aggressive rate limiting during security incidents or attacks'',
      pol_enabled = False, pol_priority = 15,
      pol_conditions = \<lparr>pc_endpoints = None,
        pc_methods = None,
        pc_threatLevels = Some [Threat_high, Threat_critical],
        pc_userProfiles = None,
        pc_geographicZones = None,
        pc_timePatterns = Some [Emergency]\<rparr>,
      pol_limits = \<lparr>pl_base = \<lparr>rl_algorithm = Sliding_window, baseLimit = 50,
          timeWindowMs = 60000, burstLimit = 25, replenishRate = 83/100,
          rl_enabled = True, rl_description = ''Emergency response base limits''\<rparr>,
        pl_threatAdjustments =
          [threat_adj Threat_high (3/10) 5 25 300,
           threat_adj Threat_critical (1/10) 1 10 600],
        pl_userAdjustments = [(User_new, 1/5), (User_trusted, 1/2), (User_suspicious, 1/20), (User_vip, 4/5), (User_blocked, 0)],
        pl_geographicAdjustments =
          [(Zone_safe, 4/5), (Zone_moderate, 1/2), (Zone_high_risk, 1/10), (Zone_blocked, 0)],
        pl_temporalAdjustments =
          [(Peak_hours, 1/2), (Off_hours, 7/10), (Weekend, 3/5), (Holiday, 3/5), (Emergency, 1/5)]\<rparr>,
      pol_actions = \<lparr>pa_onViolation = On_block, pa_escalationThreshold = 1,
        pa_cooldownPeriod = 300, pa_notifyAdmin = True\<rparr>,
      pol_createdAt = now, pol_updatedAt = now\<rparr>"

definition createVIPUserPolicy :: "time_ms \<Rightarrow> rate_limit_policy" where
  "createVIPUserPolicy now =
     \<lparr>policyId = ''vip-users'', pol_name = ''VIP User Premium Access'',
      pol_description = ''Enhanced rate limits for VIP users with premium access'',
      pol_enabled = True, pol_priority = 5,
      pol_conditions = \<lparr>pc_endpoints = None,
        pc_methods = None,
        pc_threatLevels = Some [Threat_low, Threat_medium],
        pc_userProfiles = Some [User_vip],
        pc_geographicZones = None,
        pc_timePatterns = None\<rparr>,
      pol_limits = \<lparr>pl_base = \<lparr>rl_algorithm = Token_bucket, baseLimit = 5000,
          timeWindowMs = 60000, burstLimit = 6000, replenishRate = 8333/100,
          rl_enabled = True, rl_description = ''VIP user base limits''\<rparr>,
        pl_threatAdjustments =
          [threat_adj Threat_low (3/2) 3000 10000 2,
           threat_adj Threat_medium 1 2000 5000 5,
           threat_adj Threat_high (3/5) 1000 3000 15,
           threat_adj Threat_critical (3/10) 500 1500 30],
        pl_userAdjustments = [(User_new, 4/5), (User_trusted, 1), (User_suspicious, 1/2), (User_vip, 3/2), (User_blocked, 1/10)],
        pl_geographicAdjustments =
          [(Zone_safe, 6/5), (Zone_moderate, 1), (Zone_high_risk, 7/10), (Zone_blocked, 3/10)],
        pl_temporalAdjustments =
          [(Peak_hours, 1), (Off_hours, 6/5), (Weekend, 11/10), (Holiday, 13/10), (Emergency, 1/2)]\<rparr>,
      pol_actions = \<lparr>pa_onViolation = On_delay, pa_escalationThreshold = 10,
        pa_cooldownPeriod = 5, pa_notifyAdmin = False\<rparr>,
      pol_createdAt = now, pol_updatedAt = now\<rparr>"

definition createSuspiciousActivityPolicy :: "time_ms \<Rightarrow> rate_limit_policy" where
  "createSuspiciousActivityPolicy now =
     \<lparr>policyId = ''suspicious-activity'', pol_name = ''Suspicious Activity Detection'',
      pol_description = ''Restrictive rate limiting for users exhibiting suspicious behavior'',
      pol_enabled = True, pol_priority = 12,
      pol_conditions = \<lparr>pc_endpoints = None,
        pc_methods = None,
        pc_threatLevels = Some [Threat_medium, Threat_high, Threat_critical],
        pc_userProfiles = Some [User_suspicious, User_blocked],
        pc_geographicZones = None,
        pc_timePatterns = None\<rparr>,
      pol_limits = \<lparr>pl_base = \<lparr>rl_algorithm = Sliding_window, baseLimit = 20,
          timeWindowMs = 300000, burstLimit = 10, replenishRate = 67/1000,
          rl_enabled = True, rl_description = ''Suspicious activity base limits''\<rparr>,
        pl_threatAdjustments =
          [threat_adj Threat_medium (1/2) 5 20 60,
           threat_adj Threat_high (1/5) 2 10 180,
           threat_adj Threat_critical (1/20) 1 5 600],
        pl_userAdjustments = [(User_new, 7/10), (User_trusted, 1), (User_suspicious, 3/10), (User_vip, 4/5), (User_blocked, 1/10)],
        pl_geographicAdjustments =
          [(Zone_safe, 1), (Zone_moderate, 4/5), (Zone_high_risk, 2/5), (Zone_blocked, 1/10)],
        pl_temporalAdjustments =
          [(Peak_hours, 3/5), (Off_hours, 4/5), (Weekend, 7/10), (Holiday, 7/10), (Emergency, 1/5)]\<rparr>,
      pol_actions = \<lparr>pa_onViolation = On_block, pa_escalationThreshold = 2,
        pa_cooldownPeriod = 180, pa_notifyAdmin = True\<rparr>,
      pol_createdAt = now, pol_updatedAt = now\<rparr>"

section \<open>The store\<close>

record policy_store =
  policies :: "(string, rate_limit_policy) js_map"
  priorityIndex :: "string list"

definition rebuildPriorityIndex :: "policy_store \<Rightarrow> policy_store" where
  "rebuildPriorityIndex st =
     st\<lparr>priorityIndex := map fst (sort_key (\<lambda>kp. - pol_priority (snd kp)) (policies st))\<rparr>"

definition addPolicy :: "rate_limit_policy \<Rightarrow> policy_store \<Rightarrow> policy_store" where
  "addPolicy p st = rebuildPriorityIndex (st\<lparr>policies := map_set (policyId p) p (policies st)\<rparr>)"

definition initializeDefaultPolicies :: "time_ms \<Rightarrow> policy_store \<Rightarrow> policy_store" where
  "initializeDefaultPolicies now st =
     fold addPolicy [createGeneralAPIPolicy now, createAuthenticationPolicy now,
       createHighRiskGeographicPolicy now, createEmergencyResponsePolicy now, createVIPUserPolicy now,
       createSuspiciousActivityPolicy now] st"

definition new_policies :: "time_ms \<Rightarrow> policy_store" where
  "new_policies now = initializeDefaultPolicies now \<lparr>policies = [], priorityIndex = []\<rparr>"

text \<open>\<^verbatim>\<open>Partial<RateLimitPolicy>\<close>: the members that are present overwrite; \<^verbatim>\<open>updatedAt\<close> always becomes now.\<close>

record policy_updates =
  u_policyId :: "string option"
  u_name :: "string option"
  u_description :: "string option"
  u_enabled :: "bool option"
  u_priority :: "int option"
  u_conditions :: "policy_conditions option"
  u_limits :: "policy_limits option"
  u_actions :: "policy_actions option"
  u_createdAt :: "time_ms option"

definition or_old :: "'a option \<Rightarrow> 'a \<Rightarrow> 'a" where
  "or_old v old = (case v of None \<Rightarrow> old | Some x \<Rightarrow> x)"

definition apply_updates :: "policy_updates \<Rightarrow> time_ms \<Rightarrow> rate_limit_policy \<Rightarrow> rate_limit_policy" where
  "apply_updates u now p =
     \<lparr>policyId = or_old (u_policyId u) (policyId p), pol_name = or_old (u_name u) (pol_name p),
      pol_description = or_old (u_description u) (pol_description p),
      pol_enabled = or_old (u_enabled u) (pol_enabled p), pol_priority = or_old (u_priority u) (pol_priority p),
      pol_conditions = or_old (u_conditions u) (pol_conditions p),
      pol_limits = or_old (u_limits u) (pol_limits p), pol_actions = or_old (u_actions u) (pol_actions p),
      pol_createdAt = or_old (u_createdAt u) (pol_createdAt p), pol_updatedAt = now\<rparr>"

definition updatePolicy :: "string \<Rightarrow> policy_updates \<Rightarrow> time_ms \<Rightarrow> policy_store \<Rightarrow> bool \<times> policy_store" where
  "updatePolicy pid u now st =
     (case map_of (policies st) pid of
        None \<Rightarrow> (False, st)
      | Some p \<Rightarrow>
          (True, rebuildPriorityIndex (st\<lparr>policies := map_set pid (apply_updates u now p) (policies st)\<rparr>)))"

definition removePolicy :: "string \<Rightarrow> policy_store \<Rightarrow> bool \<times> policy_store" where
  "removePolicy pid st =
     (case map_of (policies st) pid of
        None \<Rightarrow> (False, st)
      | Some p \<Rightarrow> (True, rebuildPriorityIndex (st\<lparr>policies := map_delete pid (policies st)\<rparr>)))"

definition getPolicy :: "string \<Rightarrow> policy_store \<Rightarrow> rate_limit_policy option" where
  "getPolicy pid st = map_of (policies st) pid"

definition getAllPolicies :: "policy_store \<Rightarrow> rate_limit_policy list" where
  "getAllPolicies st = map snd (policies st)"

definition getPoliciesByPriority :: "policy_store \<Rightarrow> rate_limit_policy list" where
  "getPoliciesByPriority st = List.map_filter (map_of (policies st)) (priorityIndex st)"

definition togglePolicy :: "string \<Rightarrow> bool \<Rightarrow> time_ms \<Rightarrow> policy_store \<Rightarrow> bool \<times> policy_store" where
  "togglePolicy pid on now st =
     (case map_of (policies st) pid of
        None \<Rightarrow> (False, st)
      | Some p \<Rightarrow>
          (True, st\<lparr>policies := map_set pid (p\<lparr>pol_enabled := on, pol_updatedAt := now\<rparr>) (policies st)\<rparr>))"

section \<open>Matching\<close>

record match_conditions =
  mc_endpoint :: "string option"
  mc_method :: "string option"
  mc_threatLevel :: "threat_level option"
  mc_userProfile :: "user_profile option"
  mc_geographicZone :: "geographic_zone option"
  mc_timePattern :: "time_pattern option"

definition pattern_matches :: "string \<Rightarrow> string \<Rightarrow> bool" where
  "pattern_matches endpoint pat =
     (if pat \<noteq> [] \<and> last pat = CHR ''*'' then starts_with endpoint (butlast pat) else endpoint = pat)"

text \<open>
  \<^verbatim>\<open>if (c && list) { if (!list.includes(c)) return false; }\<close>: the test is skipped when either side is
  absent. For strings an empty value counts as absent.
\<close>

definition member_or_absent :: "'a option \<Rightarrow> 'a list option \<Rightarrow> bool" where
  "member_or_absent c xs = (case (c, xs) of (Some v, Some l) \<Rightarrow> v \<in> set l | _ \<Rightarrow> True)"

definition truthy_str :: "string option \<Rightarrow> string option" where
  "truthy_str v = (case v of Some s \<Rightarrow> if s = [] then None else Some s | None \<Rightarrow> None)"

definition endpoint_ok :: "string option \<Rightarrow> string list option \<Rightarrow> bool" where
  "endpoint_ok c pats =
     (case (truthy_str c, pats) of
        (Some e, Some ps) \<Rightarrow> (\<exists>pat\<in>set ps. pattern_matches e pat)
      | _ \<Rightarrow> True)"

definition policy_applies :: "match_conditions \<Rightarrow> rate_limit_policy \<Rightarrow> bool" where
  "policy_applies c p \<longleftrightarrow>
     pol_enabled p
     \<and> endpoint_ok (mc_endpoint c) (pc_endpoints (pol_conditions p))
     \<and> member_or_absent (truthy_str (mc_method c)) (pc_methods (pol_conditions p))
     \<and> member_or_absent (mc_threatLevel c) (pc_threatLevels (pol_conditions p))
     \<and> member_or_absent (mc_userProfile c) (pc_userProfiles (pol_conditions p))
     \<and> member_or_absent (mc_geographicZone c) (pc_geographicZones (pol_conditions p))
     \<and> member_or_absent (mc_timePattern c) (pc_timePatterns (pol_conditions p))"

definition findApplicablePolicies :: "match_conditions \<Rightarrow> policy_store \<Rightarrow> rate_limit_policy list" where
  "findApplicablePolicies c st = filter (policy_applies c) (getPoliciesByPriority st)"

section \<open>Statistics and validation\<close>

record policy_stats =
  ps_total :: nat
  ps_enabled :: nat
  ps_disabled :: nat
  ps_byPriority :: "(int, nat) js_map"

definition getPolicyStats :: "policy_store \<Rightarrow> policy_stats" where
  "getPolicyStats st =
     (let ps = getAllPolicies st;
          enabled = length (filter pol_enabled ps);
          byPriority = fold (\<lambda>p m. map_set (pol_priority p) (get_or0 m (pol_priority p) + 1) m) ps []
      in \<lparr>ps_total = length ps, ps_enabled = enabled, ps_disabled = length ps - enabled,
          ps_byPriority = byPriority\<rparr>)"

text \<open>\<^verbatim>\<open>s.trim() === ''\<close>: only white space of ECMAScript, here its 8-bit part.\<close>

definition is_js_space :: "char \<Rightarrow> bool" where
  "is_js_space c \<longleftrightarrow> (of_char c :: nat) \<in> {9, 10, 11, 12, 13, 32, 160}"

definition blank :: "string \<Rightarrow> bool" where
  "blank s \<longleftrightarrow> list_all is_js_space s"

definition validatePolicy :: "rate_limit_policy \<Rightarrow> string list" where
  "validatePolicy p =
     (if blank (policyId p) then [''Policy ID is required''] else [])
     @ (if blank (pol_name p) then [''Policy name is required''] else [])
     @ (if pol_priority p < 0 \<or> pol_priority p > 20 then [''Policy priority must be between 0 and 20''] else [])
     @ (if baseLimit (pl_base (pol_limits p)) \<le> 0 then [''Base limit must be greater than 0''] else [])
     @ (if timeWindowMs (pl_base (pol_limits p)) \<le> 0 then [''Time window must be greater than 0''] else [])
     @ (if pa_escalationThreshold (pol_actions p) < 1 then [''Escalation threshold must be at least 1''] else [])
     @ (if pa_cooldownPeriod (pol_actions p) < 0 then [''Cooldown period cannot be negative''] else [])"

section \<open>The index invariant\<close>

definition store_inv :: "policy_store \<Rightarrow> bool" where
  "store_inv st \<longleftrightarrow>
     js_map_ok (policies st) \<and> mset (priorityIndex st) = mset (map fst (policies st))
     \<and> sorted (map (\<lambda>k. - pol_priority (the (map_of (policies st) k))) (priorityIndex st))"

lemma rebuild_inv: "js_map_ok (policies st) \<Longrightarrow> store_inv (rebuildPriorityIndex st)"
proof -
  assume ok: "js_map_ok (policies st)"
  let ?f = "\<lambda>kp. - pol_priority (snd kp)"
  let ?xs = "sort_key ?f (policies st)"
  have "map (\<lambda>k. - pol_priority (the (map_of (policies st) k))) (map fst ?xs) = map ?f ?xs"
    using ok by (auto simp: js_map_ok_def)
  moreover have "sorted (map ?f ?xs)" by simp
  ultimately have "sorted (map (\<lambda>k. - pol_priority (the (map_of (policies st) k))) (map fst ?xs))"
    by (simp only:)
  then show ?thesis using ok by (simp add: store_inv_def rebuildPriorityIndex_def)
qed

lemma addPolicy_inv [keeps_inv]: "store_inv st \<Longrightarrow> store_inv (addPolicy p st)"
  unfolding addPolicy_def by (rule rebuild_inv) (simp add: store_inv_def keeps_inv)

lemma updatePolicy_inv [keeps_inv]: "store_inv st \<Longrightarrow> store_inv (snd (updatePolicy pid u now st))"
  by (auto simp: updatePolicy_def intro!: rebuild_inv split: option.splits) (simp add: store_inv_def keeps_inv)

lemma removePolicy_inv [keeps_inv]: "store_inv st \<Longrightarrow> store_inv (snd (removePolicy pid st))"
  by (auto simp: removePolicy_def intro!: rebuild_inv split: option.splits) (simp add: store_inv_def keeps_inv)

lemma map_fst_update: "k \<in> fst ` set m \<Longrightarrow> map fst (map_set k v m) = map fst m"
  by (induction m) auto

lemma togglePolicy_inv [keeps_inv]: "store_inv st \<Longrightarrow> store_inv (snd (togglePolicy pid on now st))"
proof (cases "map_of (policies st) pid")
  case None
  then show "store_inv st \<Longrightarrow> ?thesis" by (simp add: togglePolicy_def)
next
  case (Some p)
  assume inv: "store_inv st"
  let ?m = "map_set pid (p\<lparr>pol_enabled := on, pol_updatedAt := now\<rparr>) (policies st)"
  have keys: "map fst ?m = map fst (policies st)"
    using Some by (intro map_fst_update) (force dest: map_of_SomeD)
  have "pol_priority (the (map_of ?m k)) = pol_priority (the (map_of (policies st) k))" for k
    using Some by (simp add: update_conv')
  then show ?thesis
    using inv Some keys by (simp add: togglePolicy_def store_inv_def keeps_inv)
qed

lemma new_policies_inv [keeps_inv]: "store_inv (new_policies now)"
  by (auto simp: new_policies_def initializeDefaultPolicies_def intro!: keeps_inv) (simp add: store_inv_def)

inductive reachable_store :: "policy_store \<Rightarrow> bool" where
  create: "reachable_store (new_policies now)"
| adding: "reachable_store st \<Longrightarrow> reachable_store (addPolicy p st)"
| updating: "reachable_store st \<Longrightarrow> reachable_store (snd (updatePolicy pid u now st))"
| removing: "reachable_store st \<Longrightarrow> reachable_store (snd (removePolicy pid st))"
| toggling: "reachable_store st \<Longrightarrow> reachable_store (snd (togglePolicy pid on now st))"

lemma reachable_store_inv: "reachable_store st \<Longrightarrow> store_inv st"
  by (induction rule: reachable_store.induct) (auto intro: keeps_inv)

lemma by_priority_eq:
  assumes "store_inv st"
  shows "getPoliciesByPriority st = map (\<lambda>k. the (map_of (policies st) k)) (priorityIndex st)"
proof -
  have "set (priorityIndex st) = fst ` set (policies st)"
    using assms by (metis store_inv_def mset_eq_setD list.set_map)
  then have "\<forall>k\<in>set (priorityIndex st). map_of (policies st) k \<noteq> None"
    by (metis map_of_eq_None_iff)
  then show ?thesis
    unfolding getPoliciesByPriority_def List.map_filter_def
    by (auto intro: map_cong filter_True)
qed

lemma by_priority_sorted:
  "store_inv st \<Longrightarrow> sorted (map (\<lambda>p. - pol_priority p) (getPoliciesByPriority st))"
  by (simp add: by_priority_eq store_inv_def comp_def)

lemma by_priority_mset:
  assumes "store_inv st"
  shows "mset (getPoliciesByPriority st) = mset (getAllPolicies st)"
proof -
  have "mset (getPoliciesByPriority st) = image_mset (\<lambda>k. the (map_of (policies st) k)) (mset (priorityIndex st))"
    by (simp add: by_priority_eq [OF assms])
  also have "\<dots> = mset (map (\<lambda>kp. the (map_of (policies st) (fst kp))) (policies st))"
    using assms by (simp add: store_inv_def multiset.map_comp comp_def)
  also have "map (\<lambda>kp. the (map_of (policies st) (fst kp))) (policies st) = map snd (policies st)"
    using assms by (auto simp: store_inv_def js_map_ok_def)
  finally show ?thesis by (simp add: getAllPolicies_def)
qed

section \<open>Properties\<close>

text \<open>
  C11. In every reachable policy store, whatever policies were added, updated, removed or toggled, the
  priority index lists every policy exactly once, in order of falling priority.
\<close>
theorem policy_index_correct:
  assumes "reachable_store st"
  shows "mset (getPoliciesByPriority st) = mset (getAllPolicies st)
    \<and> sorted (map (\<lambda>p. - pol_priority p) (getPoliciesByPriority st))"
  using reachable_store_inv [OF assms] by_priority_mset by_priority_sorted by blast

theorem policy_index_correct_witness:
  "mset (getPoliciesByPriority (snd (removePolicy ''general-api'' (new_policies 0))))
   = mset (getAllPolicies (snd (removePolicy ''general-api'' (new_policies 0))))"
  using policy_index_correct [OF reachable_store.removing [OF reachable_store.create]] by blast



text \<open>
  The six default policies pass the validation the manager applies to any other policy, and the store
  starts with them ordered from the emergency policy down to the general one.
\<close>
theorem default_policies_valid:
  "(\<forall>p\<in>set (getAllPolicies (new_policies 0)). validatePolicy p = [])
   \<and> map policyId (getPoliciesByPriority (new_policies 0)) =
       [''emergency-response'', ''suspicious-activity'', ''authentication'', ''high-risk-geographic'',
        ''vip-users'', ''general-api'']"
  by code_simp

end
