(* ===== verification/RateLimitManager.thy ===== *)
theory RateLimitManager
  imports RateLimiter RateLimitPolicies
begin

text \<open>
  The rate limit manager (\<^verbatim>\<open>backend/src/services/RateLimitManager.ts\<close>): it classifies a request, picks the
  applicable policy of highest priority, and asks the limiter of that policy, which it creates on demand.

  The limiter objects live in the map \<open>limiters\<close>; a call updates the one it used. The analytics service
  only records (its \<^verbatim>\<open>recordRateLimitEvent\<close> catches every error) and is left out, as are the timers'
  handles beyond their being set. Nothing in \<^verbatim>\<open>checkRateLimit\<close> can raise once the configuration has a
  default policy, so its fail-open branch is unreachable here. The texts of health issues are constructors.

  A request reaches the limiter of its policy and no other one: the requests of one policy see exactly a run
  of that policy's limiter (\<open>mgr_results_run\<close>), which lifts the guarantees of the limiter to the manager.
\<close>

section \<open>Object\<close>

record manager_config =
  defaultPolicy :: rate_limit_policy
  customPolicies :: "rate_limit_policy list"
  maxMemoryUsage :: real
  mc_geographicRules :: "geographic_rule list"
  mc_temporalRules :: "temporal_rule list"

record rate_limit_manager =
  mgr_config :: manager_config
  mgr_policies :: policy_store
  limiters :: "(string, rate_limiter) js_map"
  currentMemoryUsage :: nat
  cleanupTimer :: bool
  healthTimer :: bool

definition new_manager :: "time_ms \<Rightarrow> manager_config \<Rightarrow> rate_limit_manager" where
  "new_manager now cfg =
     \<lparr>mgr_config = cfg, mgr_policies = fold addPolicy (customPolicies cfg) (new_policies now), limiters = [],
      currentMemoryUsage = 0, cleanupTimer = True, healthTimer = True\<rparr>"

definition updateMemoryUsage :: "rate_limit_manager \<Rightarrow> rate_limit_manager" where
  "updateMemoryUsage mgr = mgr\<lparr>currentMemoryUsage := length (limiters mgr) * 1024 * 1024\<rparr>"

definition clearLimiterCache :: "rate_limit_manager \<Rightarrow> rate_limit_manager" where
  "clearLimiterCache mgr = updateMemoryUsage (mgr\<lparr>limiters := []\<rparr>)"

section \<open>Classification\<close>

definition getGeographicZone :: "string \<Rightarrow> geographic_zone" where
  "getGeographicZone countryCode =
     (if countryCode = ''LOCAL'' then Zone_safe
      else if countryCode \<in> {''CN'', ''RU'', ''KP''} then Zone_high_risk else Zone_moderate)"

definition mgr_getCountryFromIP :: "string \<Rightarrow> string" where
  "mgr_getCountryFromIP ip =
     (if starts_with ip ''192.168.'' \<or> starts_with ip ''10.'' \<or> ip = ''127.0.0.1''
      then ''LOCAL'' else ''XX'')"

definition mgr_getTimePattern :: "int \<Rightarrow> time_ms \<Rightarrow> time_pattern" where
  "mgr_getTimePattern tz t =
     (let hour = getHours tz t; dayOfWeek = getDay tz t
      in if hour \<ge> 9 \<and> hour \<le> 17 \<and> dayOfWeek \<ge> 1 \<and> dayOfWeek \<le> 5 then Peak_hours
         else if dayOfWeek = 0 \<or> dayOfWeek = 6 then Weekend
         else Off_hours)"

definition extractConditions :: "int \<Rightarrow> rate_limit_request \<Rightarrow> match_conditions" where
  "extractConditions tz rq =
     \<lparr>mc_endpoint = Some (rq_endpoint rq), mc_method = Some (rq_method rq),
      mc_threatLevel = (case rq_threatScore rq of None \<Rightarrow> None
        | Some score \<Rightarrow> Some (if score < 3/10 then Threat_low else if score < 6/10 then Threat_medium
                             else if score < 8/10 then Threat_high else Threat_critical)),
      mc_userProfile = Some User_new,
      mc_geographicZone = Some (getGeographicZone (mgr_getCountryFromIP (rq_ipAddress rq))),
      mc_timePattern = Some (mgr_getTimePattern tz (rq_timestamp rq))\<rparr>"

section \<open>Checking a request\<close>

definition getLimiter :: "rate_limit_policy \<Rightarrow> rate_limit_manager \<Rightarrow> rate_limiter \<times> rate_limit_manager" where
  "getLimiter p mgr =
     (case map_of (limiters mgr) (policyId p) of
        Some l \<Rightarrow> (l, mgr)
      | None \<Rightarrow>
          (let l = new_limiter (pl_base (pol_limits p)) (pl_threatAdjustments (pol_limits p))
                     (pl_userAdjustments (pol_limits p)) (mc_geographicRules (mgr_config mgr))
                     (mc_temporalRules (mgr_config mgr))
           in (l, updateMemoryUsage (mgr\<lparr>limiters := map_set (policyId p) l (limiters mgr)\<rparr>))))"

definition active_policy :: "int \<Rightarrow> rate_limit_request \<Rightarrow> rate_limit_manager \<Rightarrow> rate_limit_policy" where
  "active_policy tz rq mgr =
     (case findApplicablePolicies (extractConditions tz rq) (mgr_policies mgr) of
        [] \<Rightarrow> defaultPolicy (mgr_config mgr)
      | p # _ \<Rightarrow> p)"

definition mgr_checkRateLimit ::
  "call_env \<Rightarrow> rate_limit_request \<Rightarrow> rate_limit_manager \<Rightarrow>
   rate_limit_result \<times> redis_write list \<times> rate_limit_manager" where
  "mgr_checkRateLimit env rq mgr =
     (let p = active_policy (timezone env) rq mgr;
          (l, mgr) = getLimiter p mgr;
          (result, ws, l') = checkRateLimit env rq l
      in (result, ws, mgr\<lparr>limiters := map_set (policyId p) l' (limiters mgr)\<rparr>))"

section \<open>Policies\<close>

definition mgr_addPolicy :: "rate_limit_policy \<Rightarrow> rate_limit_manager \<Rightarrow> bool \<times> rate_limit_manager" where
  "mgr_addPolicy p mgr =
     (if validatePolicy p \<noteq> [] then (False, mgr)
      else (True, clearLimiterCache (mgr\<lparr>mgr_policies := addPolicy p (mgr_policies mgr)\<rparr>)))"

definition mgr_updatePolicy ::
  "string \<Rightarrow> policy_updates \<Rightarrow> time_ms \<Rightarrow> rate_limit_manager \<Rightarrow> bool \<times> rate_limit_manager" where
  "mgr_updatePolicy pid u now mgr =
     (let (success, st) = updatePolicy pid u now (mgr_policies mgr); mgr = mgr\<lparr>mgr_policies := st\<rparr>
      in (success, if success then clearLimiterCache mgr else mgr))"

definition mgr_removePolicy :: "string \<Rightarrow> rate_limit_manager \<Rightarrow> bool \<times> rate_limit_manager" where
  "mgr_removePolicy pid mgr =
     (let (success, st) = removePolicy pid (mgr_policies mgr); mgr = mgr\<lparr>mgr_policies := st\<rparr>
      in (success, if success then clearLimiterCache mgr else mgr))"

definition mgr_togglePolicy :: "string \<Rightarrow> bool \<Rightarrow> time_ms \<Rightarrow> rate_limit_manager \<Rightarrow> bool \<times> rate_limit_manager" where
  "mgr_togglePolicy pid on now mgr =
     (let (success, st) = togglePolicy pid on now (mgr_policies mgr)
      in (success, mgr\<lparr>mgr_policies := st\<rparr>))"

definition activateEmergencyMode :: "time_ms \<Rightarrow> rate_limit_manager \<Rightarrow> rate_limit_manager" where
  "activateEmergencyMode now mgr =
     clearLimiterCache (mgr\<lparr>mgr_policies := snd (togglePolicy ''emergency-response'' True now (mgr_policies mgr))\<rparr>)"

definition deactivateEmergencyMode :: "time_ms \<Rightarrow> rate_limit_manager \<Rightarrow> rate_limit_manager" where
  "deactivateEmergencyMode now mgr =
     clearLimiterCache (mgr\<lparr>mgr_policies := snd (togglePolicy ''emergency-response'' False now (mgr_policies mgr))\<rparr>)"

section \<open>Health, statistics, cleanup\<close>

datatype health_status = Healthy | Warning | Critical_status | Error_status

datatype health_issue = Redis_unhealthy | Memory_high nat | Slow_response | Same_priority

definition checkPolicyConsistency :: "policy_store \<Rightarrow> health_issue list" where
  "checkPolicyConsistency st =
     (let priorities = map pol_priority (getAllPolicies st);
          duplicatePriorities = filter (\<lambda>(i, p). \<exists>j<i. priorities ! j = p) (enumerate 0 priorities)
      in if duplicatePriorities \<noteq> [] then [Same_priority] else [])"

text \<open>\<open>redis_ok\<close> is the outcome of the ping; the average response time is the constant 5 of the source.\<close>

definition getHealthStatus :: "bool \<Rightarrow> rate_limit_manager \<Rightarrow> health_status \<times> health_issue list" where
  "getHealthStatus redis_ok mgr =
     (let issues = [];
          status = Healthy;
          (issues, status) =
            (if \<not> redis_ok then (issues @ [Redis_unhealthy], Critical_status) else (issues, status));
          (issues, status) =
            (if real (currentMemoryUsage mgr) > maxMemoryUsage (mgr_config mgr) * (9/10)
             then (issues @ [Memory_high (currentMemoryUsage mgr)], if status = Healthy then Warning else status)
             else (issues, status));
          policyIssues = checkPolicyConsistency (mgr_policies mgr);
          (issues, status) =
            (if policyIssues \<noteq> [] then (issues @ policyIssues, if status = Healthy then Warning else status)
             else (issues, status))
      in (status, issues))"

definition mgr_getStatistics :: "rate_limit_manager \<Rightarrow> nat \<times> nat \<times> nat" where
  "mgr_getStatistics mgr =
     (length (limiters mgr), length (getAllPolicies (mgr_policies mgr)), currentMemoryUsage mgr)"

definition performCleanup :: "rate_limit_manager \<Rightarrow> rate_limit_manager" where
  "performCleanup mgr =
     (let activeKeys = set (map policyId (getAllPolicies (mgr_policies mgr)));
          gone = filter (\<lambda>k. k \<notin> activeKeys) (map fst (limiters mgr))
      in updateMemoryUsage (mgr\<lparr>limiters := fold map_delete gone (limiters mgr)\<rparr>))"

definition mgr_destroy :: "rate_limit_manager \<Rightarrow> rate_limit_manager" where
  "mgr_destroy mgr = clearLimiterCache (mgr\<lparr>cleanupTimer := False, healthTimer := False\<rparr>)"

section \<open>Requests of one policy see a run of its limiter\<close>

definition policy_limiter :: "rate_limit_policy \<Rightarrow> rate_limit_manager \<Rightarrow> rate_limiter" where
  "policy_limiter p mgr = fst (getLimiter p mgr)"

fun mgr_results ::
  "string \<Rightarrow> (call_env \<times> rate_limit_request) list \<Rightarrow> rate_limit_manager \<Rightarrow>
   (call_env \<times> rate_limit_request \<times> rate_limit_result) list" where
  "mgr_results pid [] mgr = []"
| "mgr_results pid ((env, rq) # calls) mgr =
     (let (r, ws, mgr') = mgr_checkRateLimit env rq mgr
      in (if policyId (active_policy (timezone env) rq mgr) = pid then [(env, rq, r)] else [])
         @ mgr_results pid calls mgr')"

definition goes_to :: "string \<Rightarrow> rate_limit_manager \<Rightarrow> call_env \<times> rate_limit_request \<Rightarrow> bool" where
  "goes_to pid mgr c \<longleftrightarrow> policyId (active_policy (timezone (fst c)) (snd c) mgr) = pid"

lemma mgr_check_keeps:
  "mgr_policies (snd (snd (mgr_checkRateLimit env rq mgr))) = mgr_policies mgr"
  "mgr_config (snd (snd (mgr_checkRateLimit env rq mgr))) = mgr_config mgr"
  by (auto simp: mgr_checkRateLimit_def getLimiter_def updateMemoryUsage_def Let_def
      split: option.splits prod.splits)

lemma active_policy_keeps [simp]:
  "active_policy tz r (snd (snd (mgr_checkRateLimit env rq mgr))) = active_policy tz r mgr"
  by (simp add: active_policy_def mgr_check_keeps split: list.split)

lemma goes_to_keeps [simp]: "goes_to pid (snd (snd (mgr_checkRateLimit env rq mgr))) = goes_to pid mgr"
  by (simp add: goes_to_def fun_eq_iff)

lemma mgr_check_result:
  "fst (mgr_checkRateLimit env rq mgr) =
   fst (checkRateLimit env rq (policy_limiter (active_policy (timezone env) rq mgr) mgr))"
  by (simp add: mgr_checkRateLimit_def policy_limiter_def Let_def split_def)

lemma mgr_check_limiter:
  "policy_limiter p (snd (snd (mgr_checkRateLimit env rq mgr))) =
   (if policyId p = policyId (active_policy (timezone env) rq mgr)
    then snd (snd (checkRateLimit env rq (policy_limiter (active_policy (timezone env) rq mgr) mgr)))
    else policy_limiter p mgr)"
  by (auto simp: mgr_checkRateLimit_def policy_limiter_def getLimiter_def updateMemoryUsage_def Let_def
      update_conv' split: option.splits prod.splits)

lemma mgr_results_run:
  assumes "\<forall>c\<in>set calls. goes_to (policyId p) mgr c \<longrightarrow> active_policy (timezone (fst c)) (snd c) mgr = p"
  shows "map (\<lambda>(env, rq, r). (env, rq)) (mgr_results (policyId p) calls mgr) = filter (goes_to (policyId p) mgr) calls
    \<and> map (\<lambda>(env, rq, r). r) (mgr_results (policyId p) calls mgr) =
      fst (run_limiter (filter (goes_to (policyId p) mgr) calls) (policy_limiter p mgr))"
  using assms
proof (induction calls arbitrary: mgr)
  case Nil
  then show ?case by simp
next
  case (Cons c calls)
  obtain env rq where c: "c = (env, rq)" by fastforce
  let ?mgr = "snd (snd (mgr_checkRateLimit env rq mgr))"
  let ?sel = "filter (goes_to (policyId p) mgr) calls"
  have ih: "map (\<lambda>(env, rq, r). (env, rq)) (mgr_results (policyId p) calls ?mgr) = ?sel"
    "map (\<lambda>(env, rq, r). r) (mgr_results (policyId p) calls ?mgr) = fst (run_limiter ?sel (policy_limiter p ?mgr))"
    using Cons.IH [of ?mgr] Cons.prems by simp_all
  have res: "mgr_results (policyId p) (c # calls) mgr =
      (if goes_to (policyId p) mgr c then [(env, rq, fst (mgr_checkRateLimit env rq mgr))] else [])
      @ mgr_results (policyId p) calls ?mgr"
    by (simp add: c Let_def split_def goes_to_def)
  show ?case
  proof (cases "goes_to (policyId p) mgr c")
    case True
    then have act: "active_policy (timezone env) rq mgr = p" using Cons.prems by (simp add: c)
    have "policy_limiter p ?mgr = snd (snd (checkRateLimit env rq (policy_limiter p mgr)))"
      using mgr_check_limiter [of p env rq mgr] by (simp add: act)
    then show ?thesis
      unfolding res using ih True mgr_check_result [of env rq mgr] by (simp add: act Let_def split_def) (simp add: c Let_def split_def)
  next
    case False
    then have "policy_limiter p ?mgr = policy_limiter p mgr"
      using mgr_check_limiter [of p env rq mgr] by (simp add: goes_to_def c)
    then show ?thesis unfolding res using ih False by simp
  qed
qed

section \<open>What the default policies select\<close>

lemma default_by_priority:
  "getPoliciesByPriority (new_policies now) =
     [createEmergencyResponsePolicy now, createSuspiciousActivityPolicy now, createAuthenticationPolicy now,
      createHighRiskGeographicPolicy now, createVIPUserPolicy now, createGeneralAPIPolicy now]"
  by code_simp

lemma getGeographicZone_cases: "getGeographicZone (mgr_getCountryFromIP ip) \<in> {Zone_safe, Zone_moderate}"
  by (simp add: getGeographicZone_def mgr_getCountryFromIP_def)

lemma time_pattern_cases: "mgr_getTimePattern tz t \<in> {Peak_hours, Off_hours, Weekend}"
  by (simp add: mgr_getTimePattern_def Let_def)

lemma extractConditions_simps [simp]:
  "mc_endpoint (extractConditions tz rq) = Some (rq_endpoint rq)"
  "mc_method (extractConditions tz rq) = Some (rq_method rq)"
  "mc_userProfile (extractConditions tz rq) = Some User_new"
  "mc_geographicZone (extractConditions tz rq) = Some (getGeographicZone (mgr_getCountryFromIP (rq_ipAddress rq)))"
  "mc_timePattern (extractConditions tz rq) = Some (mgr_getTimePattern tz (rq_timestamp rq))"
  by (simp_all add: extractConditions_def)

lemma never_applies:
  "\<not> policy_applies (extractConditions tz rq) (createEmergencyResponsePolicy now)"
  "\<not> policy_applies (extractConditions tz rq) (createSuspiciousActivityPolicy now)"
  "\<not> policy_applies (extractConditions tz rq) (createHighRiskGeographicPolicy now)"
  "\<not> policy_applies (extractConditions tz rq) (createVIPUserPolicy now)"
  using getGeographicZone_cases [of "rq_ipAddress rq"]
  by (auto simp: policy_applies_def member_or_absent_def createEmergencyResponsePolicy_def
      createSuspiciousActivityPolicy_def createHighRiskGeographicPolicy_def createVIPUserPolicy_def)

lemma default_applicable:
  "findApplicablePolicies (extractConditions tz rq) (new_policies now) =
   filter (policy_applies (extractConditions tz rq)) [createAuthenticationPolicy now, createGeneralAPIPolicy now]"
  by (simp add: findApplicablePolicies_def default_by_priority never_applies)

lemma new_manager_active:
  assumes "customPolicies cfg = []"
  shows "active_policy tz rq (new_manager now cfg) =
    (if policy_applies (extractConditions tz rq) (createAuthenticationPolicy now) then createAuthenticationPolicy now
     else if policy_applies (extractConditions tz rq) (createGeneralAPIPolicy now) then createGeneralAPIPolicy now
     else defaultPolicy cfg)"
  using assms by (simp add: active_policy_def new_manager_def default_applicable)

lemma threat_level_cases: "lvl \<in> {Threat_low, Threat_medium, Threat_high, Threat_critical}"
  by (cases lvl) auto

lemma login_applies:
  assumes "rq_endpoint rq = ''/api/auth/login''" and "rq_method rq = ''POST''"
  shows "policy_applies (extractConditions tz rq) (createAuthenticationPolicy now)"
  using assms getGeographicZone_cases [of "rq_ipAddress rq"] threat_level_cases
  by (auto simp: policy_applies_def member_or_absent_def endpoint_ok_def truthy_str_def pattern_matches_def
      createAuthenticationPolicy_def split: option.splits)

lemma default_ids [simp]:
  "policyId (createAuthenticationPolicy now) = ''authentication''"
  "policyId (createGeneralAPIPolicy now) = ''general-api''"
  by (simp_all add: createAuthenticationPolicy_def createGeneralAPIPolicy_def)

section \<open>Lifting the limiter's guarantees\<close>

definition mgr_admitted ::
  "string \<Rightarrow> string \<Rightarrow> (call_env \<times> rate_limit_request) list \<Rightarrow> rate_limit_manager \<Rightarrow> time_ms list" where
  "mgr_admitted pid ident calls mgr =
     map (\<lambda>(env, rq, r). now_window env)
       (filter (\<lambda>(env, rq, r). rq_identifier rq = ident \<and> allowed r) (mgr_results pid calls mgr))"

lemma admitted_run:
  "map (\<lambda>(env, rq, r). (env, rq)) xs = calls \<Longrightarrow> map (\<lambda>(env, rq, r). r) xs = fst (run_limiter calls l) \<Longrightarrow>
   map (\<lambda>(env, rq, r). now_window env) (filter (\<lambda>(env, rq, r). rq_identifier rq = ident \<and> allowed r) xs)
   = admitted ident calls l"
proof (induction xs arbitrary: calls l)
  case Nil
  then show ?case by simp
next
  case (Cons x xs)
  obtain env rq r where x: "x = (env, rq, r)" by (cases x) auto
  obtain cs where calls: "calls = (env, rq) # cs" "map (\<lambda>(env, rq, r). (env, rq)) xs = cs"
    using Cons.prems(1) by (auto simp: x)
  have "r = fst (checkRateLimit env rq l)"
    "map (\<lambda>(env, rq, r). r) xs = fst (run_limiter cs (snd (snd (checkRateLimit env rq l))))"
    using Cons.prems(2) by (auto simp: x calls(1) Let_def split_def)
  with Cons.IH [OF calls(2)] show ?case by (simp add: x calls(1) Let_def split_def)
qed

lemma mgr_admitted_eq:
  assumes "\<forall>c\<in>set calls. goes_to (policyId p) mgr c \<longrightarrow> active_policy (timezone (fst c)) (snd c) mgr = p"
  shows "mgr_admitted (policyId p) ident calls mgr =
    admitted ident (filter (goes_to (policyId p) mgr) calls) (policy_limiter p mgr)"
  unfolding mgr_admitted_def using mgr_results_run [OF assms] by (intro admitted_run) auto

lemma times_from_weaken: "times_from t xs \<Longrightarrow> t' \<le> t \<Longrightarrow> times_from t' xs"
  by (cases xs) auto

lemma times_from_filter: "times_from t (map f xs) \<Longrightarrow> times_from t (map f (filter P xs))"
  by (induction xs arbitrary: t) (auto intro: times_from_weaken)

lemma times_from_filter_pairs:
  "times_from t (concat (map (\<lambda>c. [f c, g c]) xs)) \<Longrightarrow> times_from t (concat (map (\<lambda>c. [f c, g c]) (filter P xs)))"
  by (induction xs arbitrary: t) (auto intro: times_from_weaken)

lemma policy_limiter_new:
  "policy_limiter p (new_manager now cfg) =
   new_limiter (pl_base (pol_limits p)) (pl_threatAdjustments (pol_limits p)) (pl_userAdjustments (pol_limits p))
     (mc_geographicRules cfg) (mc_temporalRules cfg)"
  by (simp add: policy_limiter_def getLimiter_def new_manager_def Let_def)

section \<open>Toggling a policy that cannot apply\<close>

lemma toggle_applicable:
  assumes "map_of (policies st) pid = Some p"
    and "\<And>b. \<not> policy_applies c (p\<lparr>pol_enabled := b, pol_updatedAt := now\<rparr>)" and "\<not> policy_applies c p"
  shows "findApplicablePolicies c (snd (togglePolicy pid on now st)) = findApplicablePolicies c st"
proof -
  have "filter (policy_applies c) (List.map_filter (map_of (policies (snd (togglePolicy pid on now st)))) ks) =
      filter (policy_applies c) (List.map_filter (map_of (policies st)) ks)" for ks
  proof (induction ks)
    case (Cons k ks)
    then show ?case
      using assms by (cases "k = pid") (auto simp: togglePolicy_def map_filter_simps update_conv' split: option.splits)
  qed simp
  then show ?thesis
    using assms(1) by (simp add: findApplicablePolicies_def getPoliciesByPriority_def togglePolicy_def)
qed

lemma emergency_pattern_never:
  "pc_timePatterns (pol_conditions p) = Some [Emergency] \<Longrightarrow> \<not> policy_applies (extractConditions tz rq) p"
  using time_pattern_cases [of tz "rq_timestamp rq"] by (auto simp: policy_applies_def member_or_absent_def)

section \<open>Properties\<close>


definition demo_manager_config :: manager_config where
  "demo_manager_config = \<lparr>defaultPolicy = (createGeneralAPIPolicy 0)\<lparr>policyId := ''default''\<rparr>,
     customPolicies = [], maxMemoryUsage = 100, mc_geographicRules = [], mc_temporalRules = []\<rparr>"

definition login_request :: rate_limit_request where
  "login_request = (demo_request ''u'')\<lparr>rq_endpoint := ''/api/auth/login'', rq_method := ''POST''\<rparr>"

lemma login_limit_value:
  "limit_for (demo_env t) login_request (policy_limiter (createAuthenticationPolicy 0) (new_manager 0 demo_manager_config)) = 5"
  unfolding policy_limiter_new
  by (simp add: limit_for_def final_limit_def calculateAdjustments_def calculateThreatAdjustment_def
      calculateUserAdjustment_def getUserProfile_def calculateGeographicAdjustment_def threat_level_of_def
      calculateTemporalAdjustment_def demo_env_def login_request_def demo_request_def demo_manager_config_def
      new_limiter_def createAuthenticationPolicy_def threat_adj_def Let_def)


text \<open>
  The general API policy uses the adaptive hybrid and therefore limits nothing: every request the manager
  routes to it is admitted, whoever sends it and however many there are.
\<close>
theorem general_api_unlimited:
  assumes "customPolicies cfg = []" and "policyId (defaultPolicy cfg) \<noteq> ''general-api''"
    and "\<forall>c\<in>set calls. cold (fst c)"
    and "times_from start (concat (map (\<lambda>c. [now_create (fst c), now_token (fst c)]) calls))"
  shows "\<forall>(env, rq, r)\<in>set (mgr_results ''general-api'' calls (new_manager now cfg)). allowed r"
proof -
  let ?p = "createGeneralAPIPolicy now" and ?mgr = "new_manager now cfg"
  let ?sel = "filter (goes_to ''general-api'' ?mgr) calls"
  have "map (\<lambda>(env, rq, r). r) (mgr_results ''general-api'' calls ?mgr) = fst (run_limiter ?sel (policy_limiter ?p ?mgr))"
    using mgr_results_run [of calls ?p ?mgr] assms(2) by (auto simp: goes_to_def new_manager_active [OF assms(1)])
  moreover have "\<forall>r\<in>set (fst (run_limiter ?sel (policy_limiter ?p ?mgr))). allowed r"
    using assms(3) times_from_filter_pairs [OF assms(4)]
    by (intro hybrid_run [where t = start])
       (auto simp: policy_limiter_new all_untouched_def createGeneralAPIPolicy_def)
  ultimately have "\<forall>r\<in>set (map (\<lambda>(env, rq, r). r) (mgr_results ''general-api'' calls ?mgr)). allowed r" by simp
  then show ?thesis by (auto simp: split_def)
qed

theorem general_api_unlimited_witness:
  "list_all (\<lambda>(env, rq, r). allowed r)
     (mgr_results ''general-api'' [(demo_env 0, demo_request ''u''), (demo_env 5, demo_request ''u'')]
       (new_manager 0 demo_manager_config))"
  unfolding list_all_iff by (rule general_api_unlimited [where start = 0]) (simp_all add: demo_manager_config_def cold_def demo_env_def)

text \<open>
  Emergency mode changes no decision. The emergency policy applies to the time pattern emergency only, and
  the manager never classifies a request so: whichever policies the store holds, activating the mode leaves
  the policy enforced for every request what it was.
\<close>
theorem emergency_mode_no_effect:
  assumes "map_of (policies (mgr_policies mgr)) ''emergency-response'' = Some p"
    and "pc_timePatterns (pol_conditions p) = Some [Emergency]"
  shows "active_policy tz rq (activateEmergencyMode now mgr) = active_policy tz rq mgr"
proof -
  have "findApplicablePolicies (extractConditions tz rq)
      (snd (togglePolicy ''emergency-response'' True now (mgr_policies mgr))) =
      findApplicablePolicies (extractConditions tz rq) (mgr_policies mgr)"
    using assms by (intro toggle_applicable) (auto simp: emergency_pattern_never)
  then show ?thesis
    by (simp add: active_policy_def activateEmergencyMode_def clearLimiterCache_def updateMemoryUsage_def
        split: list.split)
qed

theorem emergency_mode_no_effect_witness:
  "active_policy 0 (demo_request ''u'') (activateEmergencyMode 1 (new_manager 0 demo_manager_config))
   = active_policy 0 (demo_request ''u'') (new_manager 0 demo_manager_config)"
proof (rule emergency_mode_no_effect)
  show "map_of (policies (mgr_policies (new_manager 0 demo_manager_config))) ''emergency-response''
      = Some (createEmergencyResponsePolicy 0)"
    by code_simp
  show "pc_timePatterns (pol_conditions (createEmergencyResponsePolicy 0)) = Some [Emergency]"
    by (simp add: createEmergencyResponsePolicy_def)
qed

text \<open>
  Of the six default policies only two are ever enforced: the manager takes every user for a new one and
  every address for a safe or moderate zone, so the emergency, suspicious-activity, high-risk and VIP policies
  are never selected.
\<close>
theorem selectable_policies:
  assumes "customPolicies cfg = []"
  shows "active_policy tz rq (new_manager now cfg)
    \<in> {createAuthenticationPolicy now, createGeneralAPIPolicy now, defaultPolicy cfg}"
  using new_manager_active [OF assms] by simp

theorem selectable_policies_witness:
  "active_policy 0 (demo_request ''u'') (new_manager 0 demo_manager_config)
    \<in> {createAuthenticationPolicy 0, createGeneralAPIPolicy 0, defaultPolicy demo_manager_config}"
  by (rule selectable_policies) (simp add: demo_manager_config_def)

text \<open>
  The authentication policy gives blocked users the factor 0, which the limiter reads as no factor at all:
  a blocked user's adjustment is five times that of a suspicious user with the same trust score.
\<close>
theorem blocked_user_factor_ignored:
  assumes "env_profile env = Found prof"
    and "env_profile env' = Found (prof\<lparr>up_userProfile := User_suspicious\<rparr>)"
    and "up_userProfile prof = User_blocked"
    and "l = policy_limiter (createAuthenticationPolicy now) (new_manager now cfg)"
  shows "userBased (fst (calculateAdjustments env rq l)) = 1/2 + up_trustScore prof / 2
    \<and> userBased (fst (calculateAdjustments env rq l)) = 5 * userBased (fst (calculateAdjustments env' rq l))"
proof -
  have u: "userAdjustments l = [(User_new, 4/5), (User_trusted, 6/5), (User_suspicious, 1/5), (User_vip, 3/2), (User_blocked, 0)]"
    unfolding assms(4) policy_limiter_new by (simp add: new_limiter_def createAuthenticationPolicy_def)
  have ub: "userBased (fst (calculateAdjustments e rq l)) = fst (calculateUserAdjustment e rq l)" for e
    by (simp add: calculateAdjustments_def Let_def split_def)
  show ?thesis
    unfolding ub using assms(1-3)
    by (simp add: calculateUserAdjustment_def getUserProfile_def factor_or_1_def Let_def u)
qed

theorem blocked_user_factor_ignored_witness:
  "\<exists>prof. up_userProfile prof = User_blocked \<and>
     userBased (fst (calculateAdjustments ((demo_env 0)\<lparr>env_profile := Found prof\<rparr>) (demo_request ''u'')
       (policy_limiter (createAuthenticationPolicy 0) (new_manager 0 demo_manager_config)))) = 1"
proof -
  let ?p = "(new_profile (demo_limiter Token_bucket) 0 (demo_request ''u''))\<lparr>up_userProfile := User_blocked, up_trustScore := 1\<rparr>"
  have "userBased (fst (calculateAdjustments ((demo_env 0)\<lparr>env_profile := Found ?p\<rparr>) (demo_request ''u'')
       (policy_limiter (createAuthenticationPolicy 0) (new_manager 0 demo_manager_config)))) = 1/2 + up_trustScore ?p / 2"
    by (rule conjunct1 [OF blocked_user_factor_ignored
        [where env' = "(demo_env 0)\<lparr>env_profile := Found (?p\<lparr>up_userProfile := User_suspicious\<rparr>)\<rparr>"]])
      simp_all
  then show ?thesis by (intro exI [of _ ?p]) simp
qed

end
