(* ===== verification/RateLimitEnforcement.thy ===== *)
theory RateLimitEnforcement
  imports RateLimitManager
begin

text \<open>
  The enforcement service (\<^verbatim>\<open>backend/src/services/RateLimitEnforcementService.ts\<close>): the Express middleware, the
  escalation from violations to blocked addresses, and the block list.

  A request is the part of an Express request the code reads. What the middleware does is a value of
  \<open>outcome\<close>. The configured callbacks are function fields of the object; they are total, so the fail-open
  branch for a raising callback is not modelled. \<^verbatim>\<open>blockedIPs\<close> is a set kept as a list in insertion order.
  The clock is read once per call of an operation that reads it. The values written to Redis for other
  instances are never read back by this service and are left out.
\<close>

section \<open>Requests and responses\<close>

record http_request =
  hr_ip :: "string option"
  hr_connection :: "string option"
  hr_socket :: "string option"
  hr_connection_socket :: "string option"
  hr_headers :: "(string, string) js_map"
  hr_path :: string
  hr_method :: string
  hr_userId :: "string option"

datatype outcome =
    Next
  | Forbidden "time_ms option" "int option"
  | Too_many rate_limit_result

record middleware_options =
  opt_endpoint :: "string option"
  opt_threatScore :: "(http_request \<Rightarrow> real) option"
  opt_user :: "(http_request \<Rightarrow> string option \<times> string option) option"
  opt_skip :: "(http_request \<Rightarrow> bool) option"

record enforcement =
  enf_manager :: rate_limit_manager
  enf_enabled :: bool
  enf_key :: "http_request \<Rightarrow> string"
  enf_skip :: "http_request \<Rightarrow> bool"
  violationCount :: "(string, int) js_map"
  blockedIPs :: "string list"
  blockedExpiry :: "(string, time_ms) js_map"

section \<open>Identifying the client\<close>

definition truthy :: "string option \<Rightarrow> string option" where
  "truthy v = (case v of Some s \<Rightarrow> if s = [] then None else Some s | None \<Rightarrow> None)"

definition trim_str :: "string \<Rightarrow> string" where
  "trim_str s = rev (dropWhile is_js_space (rev (dropWhile is_js_space s)))"

definition forwarded_for :: "http_request \<Rightarrow> string option" where
  "forwarded_for req =
     map_option (\<lambda>v. trim_str (takeWhile (\<lambda>c. c \<noteq> CHR '','') v)) (map_of (hr_headers req) ''X-Forwarded-For'')"

text \<open>The chain of \<^verbatim>\<open>||\<close>: the first candidate that is present and not empty.\<close>

fun first_truthy :: "string option list \<Rightarrow> string \<Rightarrow> string" where
  "first_truthy [] d = d"
| "first_truthy (v # vs) d = (case truthy v of Some s \<Rightarrow> s | None \<Rightarrow> first_truthy vs d)"

definition extractClientIP :: "http_request \<Rightarrow> string" where
  "extractClientIP req =
     first_truthy [hr_ip req, hr_connection req, hr_socket req, hr_connection_socket req, forwarded_for req,
       map_of (hr_headers req) ''X-Real-IP'', map_of (hr_headers req) ''CF-Connecting-IP''] ''127.0.0.1''"

text \<open>
  \<^verbatim>\<open>simpleHash\<close>: the intermediate values stay below \<open>2^53\<close>, so one 32-bit reduction per round is exact and
  the loop is arithmetic on 32-bit words. The absolute value of the signed result is printed in base 36.
\<close>

definition hash_step :: "32 word \<Rightarrow> char \<Rightarrow> 32 word" where
  "hash_step h c = (push_bit 5 h - h) + word_of_int (of_char c)"

definition simple_hash_word :: "string \<Rightarrow> 32 word" where
  "simple_hash_word s = foldl hash_step 0 s"

definition digit36 :: "int \<Rightarrow> char" where
  "digit36 d = char_of (if d < 10 then nat (48 + d) else nat (87 + d))"

function base36 :: "int \<Rightarrow> string" where
  "base36 n = (if n < 36 then [digit36 n] else base36 (n div 36) @ [digit36 (n mod 36)])"
  by pat_completeness auto
termination by (relation "measure nat") auto

declare base36.simps [simp del]

definition simpleHash :: "string \<Rightarrow> string" where
  "simpleHash s = base36 \<bar>sint (simple_hash_word s)\<bar>"

definition defaultKeyGenerator :: "http_request \<Rightarrow> string" where
  "defaultKeyGenerator req =
     (let ip = extractClientIP req;
          userAgent = first_truthy [map_of (hr_headers req) ''User-Agent''] ''unknown''
      in case truthy (hr_userId req) of
           Some uid \<Rightarrow> ''user:'' @ uid
         | None \<Rightarrow> ip @ '':'' @ simpleHash userAgent)"

definition new_enforcement :: "time_ms \<Rightarrow> manager_config \<Rightarrow> enforcement" where
  "new_enforcement now cfg =
     \<lparr>enf_manager = new_manager now cfg, enf_enabled = True, enf_key = defaultKeyGenerator,
      enf_skip = (\<lambda>req. False), violationCount = [], blockedIPs = [], blockedExpiry = []\<rparr>"

section \<open>Blocks\<close>

definition blockIP :: "string \<Rightarrow> int \<Rightarrow> time_ms \<Rightarrow> enforcement \<Rightarrow> enforcement" where
  "blockIP ip durationMs now e =
     e\<lparr>blockedIPs := set_add ip (blockedIPs e), blockedExpiry := map_set ip (now + durationMs) (blockedExpiry e)\<rparr>"

definition unblockIP :: "string \<Rightarrow> enforcement \<Rightarrow> enforcement" where
  "unblockIP ip e =
     e\<lparr>blockedIPs := removeAll ip (blockedIPs e), blockedExpiry := map_delete ip (blockedExpiry e)\<rparr>"

definition isIPBlocked :: "string \<Rightarrow> time_ms \<Rightarrow> enforcement \<Rightarrow> bool \<times> enforcement" where
  "isIPBlocked ip now e =
     (if ip \<notin> set (blockedIPs e) then (False, e)
      else case map_of (blockedExpiry e) ip of
             Some expiry \<Rightarrow>
               if now > expiry
               then (False, e\<lparr>blockedIPs := removeAll ip (blockedIPs e), blockedExpiry := map_delete ip (blockedExpiry e)\<rparr>)
               else (True, e)
           | None \<Rightarrow> (True, e))"

definition handleBlockedIP :: "http_request \<Rightarrow> time_ms \<Rightarrow> enforcement \<Rightarrow> outcome" where
  "handleBlockedIP req now e =
     (let expiry = map_of (blockedExpiry e) (extractClientIP req)
      in Forbidden expiry (map_option (\<lambda>t. \<lceil>of_int (t - now) / (1000::real)\<rceil>) expiry))"

definition cleanupExpiredBlocks :: "time_ms \<Rightarrow> enforcement \<Rightarrow> enforcement" where
  "cleanupExpiredBlocks now e =
     (let expiredIPs = map fst (filter (\<lambda>(ip, expiry). now > expiry) (blockedExpiry e))
      in e\<lparr>blockedIPs := fold removeAll expiredIPs (blockedIPs e),
           blockedExpiry := fold map_delete expiredIPs (blockedExpiry e)\<rparr>)"

section \<open>Checking\<close>

definition createRateLimitRequest ::
  "http_request \<Rightarrow> middleware_options \<Rightarrow> time_ms \<Rightarrow> enforcement \<Rightarrow> rate_limit_request" where
  "createRateLimitRequest req opts now e =
     (let user = (case opt_user opts of None \<Rightarrow> (None, None) | Some f \<Rightarrow> f req)
      in \<lparr>rq_identifier = enf_key e req,
          rq_endpoint = (case truthy (opt_endpoint opts) of Some ep \<Rightarrow> ep | None \<Rightarrow> hr_path req),
          rq_method = hr_method req, rq_ipAddress = extractClientIP req,
          rq_userAgent = map_of (hr_headers req) ''User-Agent'', rq_userId = fst user, rq_sessionId = snd user,
          rq_threatScore = map_option (\<lambda>f. f req) (opt_threatScore opts), rq_timestamp = now\<rparr>)"

definition handleRateLimitViolation ::
  "http_request \<Rightarrow> rate_limit_result \<Rightarrow> time_ms \<Rightarrow> enforcement \<Rightarrow> outcome \<times> enforcement" where
  "handleRateLimitViolation req result now e =
     (let ident = enf_key e req;
          ip = extractClientIP req;
          violations = get_or0 (violationCount e) ident + 1;
          e = e\<lparr>violationCount := map_set ident violations (violationCount e)\<rparr>;
          e = (if violations \<ge> 10 then blockIP ip 300000 now e
               else if violations \<ge> 5 then blockIP ip 60000 now e else e)
      in (Too_many result, e))"

definition limit_check ::
  "http_request \<Rightarrow> middleware_options \<Rightarrow> call_env \<Rightarrow> time_ms \<Rightarrow> enforcement \<Rightarrow> outcome \<times> enforcement" where
  "limit_check req opts env now e =
     (let rq = createRateLimitRequest req opts now e;
          (result, ws, mgr) = mgr_checkRateLimit env rq (enf_manager e);
          e = e\<lparr>enf_manager := mgr\<rparr>
      in if \<not> allowed result then handleRateLimitViolation req result now e else (Next, e))"

definition middleware ::
  "http_request \<Rightarrow> middleware_options \<Rightarrow> call_env \<Rightarrow> time_ms \<Rightarrow> enforcement \<Rightarrow> outcome \<times> enforcement" where
  "middleware req opts env now e =
     (if \<not> enf_enabled e then (Next, e)
      else if enf_skip e req \<or> (case opt_skip opts of Some f \<Rightarrow> f req | None \<Rightarrow> False) then (Next, e)
      else
        let (blocked, e) = isIPBlocked (extractClientIP req) now e
        in if blocked then (handleBlockedIP req now e, e) else limit_check req opts env now e)"

text \<open>\<^verbatim>\<open>enforceRateLimit\<close> is the check without the block list; true means the caller may proceed.\<close>

definition enforceRateLimit ::
  "http_request \<Rightarrow> middleware_options \<Rightarrow> call_env \<Rightarrow> time_ms \<Rightarrow> enforcement \<Rightarrow> bool \<times> enforcement" where
  "enforceRateLimit req opts env now e =
     (let (out, e) = limit_check req opts env now e in (out = Next, e))"

section \<open>Status and statistics\<close>

definition getRateLimitStatus :: "string \<Rightarrow> enforcement \<Rightarrow> bool \<times> int \<times> time_ms option" where
  "getRateLimitStatus ident e =
     (ident \<in> set (blockedIPs e), get_or0 (violationCount e) ident, map_of (blockedExpiry e) ident)"

definition enf_getStatistics :: "enforcement \<Rightarrow> nat \<times> int \<times> nat" where
  "enf_getStatistics e =
     (length (blockedIPs e), sum_list (map snd (violationCount e)), length (violationCount e))"

definition enf_activateEmergencyMode :: "time_ms \<Rightarrow> enforcement \<Rightarrow> enforcement" where
  "enf_activateEmergencyMode now e = e\<lparr>enf_manager := activateEmergencyMode now (enf_manager e)\<rparr>"

definition enf_deactivateEmergencyMode :: "time_ms \<Rightarrow> enforcement \<Rightarrow> enforcement" where
  "enf_deactivateEmergencyMode now e = e\<lparr>enf_manager := deactivateEmergencyMode now (enf_manager e)\<rparr>"

definition enf_destroy :: "enforcement \<Rightarrow> enforcement" where
  "enf_destroy e = e\<lparr>violationCount := [], blockedIPs := [], blockedExpiry := []\<rparr>"

section \<open>The block list invariant\<close>

definition blocks_ok :: "enforcement \<Rightarrow> bool" where
  "blocks_ok e \<longleftrightarrow> js_map_ok (blockedExpiry e) \<and> distinct (blockedIPs e)
     \<and> set (blockedIPs e) = fst ` set (blockedExpiry e)"

lemma dom_delete: "fst ` set (map_delete k m) = fst ` set m - {k}"
  using arg_cong [OF delete_keys [of k m], of set] by simp

lemma blockIP_ok [keeps_inv]: "blocks_ok e \<Longrightarrow> blocks_ok (blockIP ip d now e)"
  by (simp add: blocks_ok_def blockIP_def keeps_inv set_add_simps dom_update)

lemma unblock_ok:
  "blocks_ok e \<Longrightarrow>
   blocks_ok (e\<lparr>blockedIPs := removeAll ip (blockedIPs e), blockedExpiry := map_delete ip (blockedExpiry e)\<rparr>)"
  by (auto simp: blocks_ok_def keeps_inv dom_delete distinct_removeAll)

lemma unblockIP_ok [keeps_inv]: "blocks_ok e \<Longrightarrow> blocks_ok (unblockIP ip e)"
  unfolding unblockIP_def by (rule unblock_ok)

lemma isIPBlocked_ok [keeps_inv]: "blocks_ok e \<Longrightarrow> blocks_ok (snd (isIPBlocked ip now e))"
  by (auto simp: isIPBlocked_def unblock_ok split: option.splits)

lemma cleanup_fold:
  "blocks_ok e \<Longrightarrow>
   blocks_ok (e\<lparr>blockedIPs := fold removeAll ips (blockedIPs e), blockedExpiry := fold map_delete ips (blockedExpiry e)\<rparr>)"
proof (induction ips arbitrary: e)
  case Nil
  then show ?case by simp
next
  case (Cons ip ips)
  from Cons.IH [OF unblock_ok [OF Cons.prems, of ip]] show ?case by simp
qed

lemma cleanupExpiredBlocks_ok [keeps_inv]: "blocks_ok e \<Longrightarrow> blocks_ok (cleanupExpiredBlocks now e)"
  by (simp add: cleanupExpiredBlocks_def Let_def cleanup_fold)

lemma blocks_ok_manager [simp]: "blocks_ok (e\<lparr>enf_manager := mgr\<rparr>) = blocks_ok e"
  by (simp add: blocks_ok_def)

lemma blocks_ok_violations [simp]: "blocks_ok (e\<lparr>violationCount := v\<rparr>) = blocks_ok e"
  by (simp add: blocks_ok_def)

lemma violation_ok [keeps_inv]: "blocks_ok e \<Longrightarrow> blocks_ok (snd (handleRateLimitViolation req r now e))"
  by (simp add: handleRateLimitViolation_def Let_def keeps_inv)

lemma limit_check_ok [keeps_inv]: "blocks_ok e \<Longrightarrow> blocks_ok (snd (limit_check req opts env now e))"
  by (simp add: limit_check_def Let_def split_def keeps_inv)

lemma middleware_ok [keeps_inv]: "blocks_ok e \<Longrightarrow> blocks_ok (snd (middleware req opts env now e))"
  by (simp add: middleware_def Let_def split_def keeps_inv)

inductive reachable_enforcement :: "enforcement \<Rightarrow> bool" where
  create: "reachable_enforcement (new_enforcement now cfg)"
| request: "reachable_enforcement e \<Longrightarrow> reachable_enforcement (snd (middleware req opts env now e))"
| enforce: "reachable_enforcement e \<Longrightarrow> reachable_enforcement (snd (enforceRateLimit req opts env now e))"
| block: "reachable_enforcement e \<Longrightarrow> reachable_enforcement (blockIP ip d now e)"
| unblock: "reachable_enforcement e \<Longrightarrow> reachable_enforcement (unblockIP ip e)"
| tick: "reachable_enforcement e \<Longrightarrow> reachable_enforcement (cleanupExpiredBlocks now e)"
| emergency: "reachable_enforcement e \<Longrightarrow> reachable_enforcement (enf_activateEmergencyMode now e)"
| calm: "reachable_enforcement e \<Longrightarrow> reachable_enforcement (enf_deactivateEmergencyMode now e)"
| stop: "reachable_enforcement e \<Longrightarrow> reachable_enforcement (enf_destroy e)"

lemma reachable_blocks_ok: "reachable_enforcement e \<Longrightarrow> blocks_ok e"
proof (induction rule: reachable_enforcement.induct)
  case (create now cfg)
  then show ?case by (simp add: new_enforcement_def blocks_ok_def)
next
  case (enforce e req opts env now)
  then show ?case by (simp add: enforceRateLimit_def Let_def split_def keeps_inv)
next
  case (stop e)
  then show ?case by (simp add: enf_destroy_def blocks_ok_def)
qed (auto intro: keeps_inv simp: enf_activateEmergencyMode_def enf_deactivateEmergencyMode_def)

lemma blocked_lookup:
  assumes "blocks_ok e"
  shows "ip \<in> set (blockedIPs e) \<longleftrightarrow> (\<exists>t. map_of (blockedExpiry e) ip = Some t)"
  using assms by (simp add: blocks_ok_def) (metis map_of_eq_None_iff not_None_eq)

lemma isIPBlocked_iff:
  "blocks_ok e \<Longrightarrow> fst (isIPBlocked ip now e) \<longleftrightarrow> (\<exists>t. map_of (blockedExpiry e) ip = Some t \<and> now \<le> t)"
  using blocked_lookup [of e ip] by (auto simp: isIPBlocked_def split: option.splits)

lemma cleanup_lookup_blocks:
  assumes "js_map_ok (blockedExpiry e)"
  shows "map_of (blockedExpiry (cleanupExpiredBlocks now e)) ip =
    (case map_of (blockedExpiry e) ip of Some t \<Rightarrow> if now > t then None else Some t | None \<Rightarrow> None)"
proof -
  have "ip \<in> fst ` set (filter (\<lambda>(ip, expiry). now > expiry) (blockedExpiry e))
    \<longleftrightarrow> (\<exists>t. map_of (blockedExpiry e) ip = Some t \<and> now > t)"
    using assms by (force simp: js_map_ok_def)
  then show ?thesis
    by (auto simp: cleanupExpiredBlocks_def Let_def js_map.look_fold_del split: option.splits)
qed

text \<open>How long the violation that makes the count \<open>n\<close> blocks the address.\<close>

definition block_duration :: "int \<Rightarrow> int option" where
  "block_duration n = (if n \<ge> 10 then Some 300000 else if n \<ge> 5 then Some 60000 else None)"

lemma violation_state:
  "snd (handleRateLimitViolation req r now e) =
   (let n = get_or0 (violationCount e) (enf_key e req) + 1;
        e = e\<lparr>violationCount := map_set (enf_key e req) n (violationCount e)\<rparr>
    in case block_duration n of Some d \<Rightarrow> blockIP (extractClientIP req) d now e | None \<Rightarrow> e)"
  by (simp add: handleRateLimitViolation_def block_duration_def Let_def)

lemma blockIP_simps [simp]:
  "enf_enabled (blockIP ip d now e) = enf_enabled e" "enf_skip (blockIP ip d now e) = enf_skip e"
  "map_of (blockedExpiry (blockIP ip d now e)) ip = Some (now + d)"
  by (simp_all add: blockIP_def update_conv')

lemma middleware_blocked:
  assumes "blocks_ok e" and "enf_enabled e" and "\<not> enf_skip e req" and "opt_skip opts = None"
    and "map_of (blockedExpiry e) (extractClientIP req) = Some t" and "now \<le> t"
  shows "middleware req opts env now e = (Forbidden (Some t) (Some \<lceil>of_int (t - now) / (1000::real)\<rceil>), e)"
  using assms blocked_lookup [OF assms(1), of "extractClientIP req"]
  by (auto simp: middleware_def isIPBlocked_def handleBlockedIP_def Let_def)

section \<open>Properties\<close>

text \<open>
  C13. The block list stays consistent: in every reachable service the set of blocked addresses and the table
  of expiry times have the same addresses, an address is refused at a time exactly if it has an expiry that
  has not passed, and the periodic cleanup changes no later answer.
\<close>
theorem enforcement_block_list:
  assumes "reachable_enforcement e"
  shows "set (blockedIPs e) = fst ` set (blockedExpiry e)
    \<and> (fst (isIPBlocked ip now e) \<longleftrightarrow> (\<exists>t. map_of (blockedExpiry e) ip = Some t \<and> now \<le> t))
    \<and> (earlier \<le> now \<longrightarrow> fst (isIPBlocked ip now (cleanupExpiredBlocks earlier e)) = fst (isIPBlocked ip now e))"
proof -
  have ok: "blocks_ok e" using assms by (rule reachable_blocks_ok)
  then have "js_map_ok (blockedExpiry e)" by (simp add: blocks_ok_def)
  then show ?thesis
    using ok isIPBlocked_iff [OF ok] isIPBlocked_iff [OF cleanupExpiredBlocks_ok [OF ok]]
    by (auto simp: blocks_ok_def cleanup_lookup_blocks split: option.splits if_splits)
qed

theorem enforcement_block_list_witness:
  "fst (isIPBlocked ''1.2.3.4'' 50 (blockIP ''1.2.3.4'' 60 0 (new_enforcement 0 demo_manager_config)))"
proof -
  have r: "reachable_enforcement (blockIP ''1.2.3.4'' 60 0 (new_enforcement 0 demo_manager_config))"
    by (intro reachable_enforcement.intros)
  show ?thesis using enforcement_block_list [OF r, of "''1.2.3.4''" 50 0] by simp
qed

text \<open>
  C12. Escalation. A violation that brings the count of an identifier to 5 blocks the client's address for one
  minute, from 10 on for five; until the block expires every request from that address, whatever its
  identifier, is answered 403 with the expiry and the seconds left, and the limiter is not even asked: the
  service does not change. Once the block has expired the address is not refused any more.
\<close>
theorem escalation_blocks:
  assumes "blocks_ok e" and "enf_enabled e" and "\<not> enf_skip e req'" and "opt_skip opts = None"
    and "extractClientIP req' = extractClientIP req"
    and "snd (handleRateLimitViolation req r now e) = e'"
    and "block_duration (get_or0 (violationCount e) (enf_key e req) + 1) = Some d"
  shows "(\<forall>t\<le>now + d. middleware req' opts env t e' =
            (Forbidden (Some (now + d)) (Some \<lceil>of_int (now + d - t) / (1000::real)\<rceil>), e'))
    \<and> (\<forall>t>now + d. \<not> fst (isIPBlocked (extractClientIP req) t e'))"
proof -
  have ok: "blocks_ok e'" using violation_ok [OF assms(1)] assms(6) by auto
  have e': "e' = blockIP (extractClientIP req) d now
      (e\<lparr>violationCount := map_set (enf_key e req) (get_or0 (violationCount e) (enf_key e req) + 1) (violationCount e)\<rparr>)"
    using assms(6,7) by (simp add: violation_state Let_def)
  have look: "map_of (blockedExpiry e') (extractClientIP req) = Some (now + d)" by (simp add: e')
  have cfg: "enf_enabled e'" "\<not> enf_skip e' req'" using assms(2,3) by (simp_all add: e')
  show ?thesis
    using middleware_blocked [OF ok cfg assms(4)] look isIPBlocked_iff [OF ok] assms(5) by auto
qed

definition demo_http :: http_request where
  "demo_http = \<lparr>hr_ip = Some ''1.2.3.4'', hr_connection = None, hr_socket = None, hr_connection_socket = None,
     hr_headers = [(''User-Agent'', ''curl'')], hr_path = ''/api/auth/login'', hr_method = ''POST'', hr_userId = None\<rparr>"

definition demo_options :: middleware_options where
  "demo_options = \<lparr>opt_endpoint = None, opt_threatScore = None, opt_user = None, opt_skip = None\<rparr>"

definition four_violations :: enforcement where
  "four_violations = (new_enforcement 0 demo_manager_config)\<lparr>violationCount := [(defaultKeyGenerator demo_http, 4)]\<rparr>"

theorem escalation_blocks_witness:
  "\<exists>e'. snd (handleRateLimitViolation demo_http (createFailOpenResult (demo_config Token_bucket) 0) 1000 four_violations) = e'
     \<and> middleware demo_http demo_options (demo_env 2000) 2000 e' = (Forbidden (Some 61000) (Some 59), e')"
proof -
  have ok: "blocks_ok four_violations" by (simp add: blocks_ok_def four_violations_def new_enforcement_def)
  have d: "block_duration (get_or0 (violationCount four_violations) (enf_key four_violations demo_http) + 1) = Some 60000"
    by (simp add: four_violations_def new_enforcement_def get_or0_def block_duration_def)
  have cfg: "enf_enabled four_violations" "\<not> enf_skip four_violations demo_http" "opt_skip demo_options = None"
    by (simp_all add: four_violations_def new_enforcement_def demo_options_def)
  show ?thesis
    using conjunct1 [OF escalation_blocks [OF ok cfg refl refl d]] by (simp add: exI)
qed

end
