(* ===== verification/RateLimitConfig.thy ===== *)
theory RateLimitConfig
  imports SketchConfig RateLimitEnforcement "HOL-Library.Monad_Syntax"
begin

text \<open>
  The configurations of rate limiting (\<^verbatim>\<open>backend/src/config/rateLimitConfig.ts\<close>), read from the environment as the sketch configurations are.
  The manager is modelled on numbers, so reading gives \<open>None\<close> when a setting is not a finite number. The record extends the part of the
  configuration that the manager reads by the settings it only carries. The texts of the checks are constructors.

  The last section is about what of a configuration reaches the limiters.
\<close>

section \<open>Settings\<close>

definition int_setting :: "env_vars \<Rightarrow> string \<Rightarrow> string \<Rightarrow> int option" where
  "int_setting env key t = map_option floor (fin (parseInt (env_or env key t)))"

definition float_setting :: "env_vars \<Rightarrow> string \<Rightarrow> string \<Rightarrow> real option" where
  "float_setting env key t = fin (parseFloat (env_or env key t))"

definition env_true :: "env_vars \<Rightarrow> string \<Rightarrow> bool" where
  "env_true env key \<longleftrightarrow> env key = Some ''true''"

definition getDefaultRateLimitConfig :: rate_limit_config where
  "getDefaultRateLimitConfig =
     \<lparr>rl_algorithm = Adaptive_hybrid, baseLimit = 1000, timeWindowMs = 60000, burstLimit = 1200, replenishRate = 1667 / 100,
      rl_enabled = True, rl_description = ''Default rate limiting configuration''\<rparr>"

definition getHighPerformanceRateLimitConfig :: rate_limit_config where
  "getHighPerformanceRateLimitConfig =
     \<lparr>rl_algorithm = Token_bucket, baseLimit = 5000, timeWindowMs = 60000, burstLimit = 6000, replenishRate = 8333 / 100,
      rl_enabled = True, rl_description = ''High-performance rate limiting for VIP users''\<rparr>"

definition getStrictSecurityRateLimitConfig :: rate_limit_config where
  "getStrictSecurityRateLimitConfig =
     \<lparr>rl_algorithm = Sliding_window, baseLimit = 100, timeWindowMs = 60000, burstLimit = 50, replenishRate = 167 / 100,
      rl_enabled = True, rl_description = ''Strict security rate limiting for high-risk scenarios''\<rparr>"

definition getAuthenticationRateLimitConfig :: "env_vars \<Rightarrow> rate_limit_config option" where
  "getAuthenticationRateLimitConfig env =
     do {
       base \<leftarrow> int_setting env ''AUTH_RATE_LIMIT_BASE'' ''5'';
       window \<leftarrow> int_setting env ''AUTH_RATE_LIMIT_WINDOW_MS'' ''300000'';
       burst \<leftarrow> int_setting env ''AUTH_RATE_LIMIT_BURST'' ''10'';
       replenish \<leftarrow> float_setting env ''AUTH_RATE_LIMIT_REPLENISH'' ''0.0167'';
       Some \<lparr>rl_algorithm = Sliding_window, baseLimit = base, timeWindowMs = window, burstLimit = burst, replenishRate = replenish,
             rl_enabled = env_not_false env ''AUTH_RATE_LIMIT_ENABLED'', rl_description = ''Authentication endpoint rate limiting''\<rparr>
     }"

definition getDevelopmentRateLimitConfig :: "env_vars \<Rightarrow> rate_limit_config" where
  "getDevelopmentRateLimitConfig env =
     \<lparr>rl_algorithm = Token_bucket, baseLimit = 10000, timeWindowMs = 60000, burstLimit = 12000, replenishRate = 16667 / 100,
      rl_enabled = env_not_false env ''RATE_LIMIT_ENABLED'', rl_description = ''Development rate limiting with relaxed limits''\<rparr>"

definition threat_setting :: "env_vars \<Rightarrow> threat_level \<Rightarrow> string \<Rightarrow> string \<times> string \<times> string \<times> string \<Rightarrow> threat_adjustment option" where
  "threat_setting env level name d =
     do {
       let (f, lo, hi, c) = d;
       factor \<leftarrow> float_setting env (''RATE_LIMIT_THREAT_'' @ name @ ''_FACTOR'') f;
       minimum \<leftarrow> int_setting env (''RATE_LIMIT_THREAT_'' @ name @ ''_MIN'') lo;
       maximum \<leftarrow> int_setting env (''RATE_LIMIT_THREAT_'' @ name @ ''_MAX'') hi;
       cooldown \<leftarrow> int_setting env (''RATE_LIMIT_THREAT_'' @ name @ ''_COOLDOWN'') c;
       Some (threat_adj level factor minimum maximum cooldown)
     }"

definition getDefaultThreatAdjustments :: "env_vars \<Rightarrow> threat_adjustment list option" where
  "getDefaultThreatAdjustments env =
     those [threat_setting env Threat_low ''LOW'' (''1.2'', ''800'', ''1500'', ''5''),
            threat_setting env Threat_medium ''MEDIUM'' (''0.8'', ''500'', ''1000'', ''10''),
            threat_setting env Threat_high ''HIGH'' (''0.3'', ''100'', ''500'', ''30''),
            threat_setting env Threat_critical ''CRITICAL'' (''0.1'', ''10'', ''100'', ''60'')]"

definition getDefaultUserAdjustments :: "env_vars \<Rightarrow> (user_profile, real) js_map option" where
  "getDefaultUserAdjustments env =
     (let setting = \<lambda>p name d. map_option (Pair p) (float_setting env (''RATE_LIMIT_USER_'' @ name @ ''_FACTOR'') d)
      in those [setting User_new ''NEW'' ''0.7'', setting User_trusted ''TRUSTED'' ''1.3'', setting User_suspicious ''SUSPICIOUS'' ''0.3'',
                setting User_vip ''VIP'' ''2.0'', setting User_blocked ''BLOCKED'' ''0.05''])"

section \<open>Rules\<close>

definition geo_rule :: "time_ms \<Rightarrow> string \<Rightarrow> geographic_zone \<Rightarrow> real \<Rightarrow> string \<Rightarrow> geographic_rule" where
  "geo_rule now code zone f text =
     \<lparr>gr_countryCode = code, gr_zone = zone, gr_factor = f, gr_description = text, gr_lastUpdated = now\<rparr>"

definition getDefaultGeographicRules :: "time_ms \<Rightarrow> geographic_rule list" where
  "getDefaultGeographicRules now =
     [geo_rule now ''US'' Zone_safe (12 / 10) ''United States - Safe zone'',
      geo_rule now ''CA'' Zone_safe (12 / 10) ''Canada - Safe zone'',
      geo_rule now ''GB'' Zone_safe (12 / 10) ''United Kingdom - Safe zone'',
      geo_rule now ''DE'' Zone_safe (11 / 10) ''Germany - Safe zone'',
      geo_rule now ''FR'' Zone_safe (11 / 10) ''France - Safe zone'',
      geo_rule now ''JP'' Zone_safe (11 / 10) ''Japan - Safe zone'',
      geo_rule now ''AU'' Zone_safe (11 / 10) ''Australia - Safe zone'',
      geo_rule now ''BR'' Zone_moderate 1 ''Brazil - Moderate zone'',
      geo_rule now ''IN'' Zone_moderate 1 ''India - Moderate zone'',
      geo_rule now ''MX'' Zone_moderate 1 ''Mexico - Moderate zone'',
      geo_rule now ''CN'' Zone_high_risk (5 / 10) ''China - High risk zone'',
      geo_rule now ''RU'' Zone_high_risk (4 / 10) ''Russia - High risk zone'',
      geo_rule now ''KP'' Zone_blocked (1 / 10) ''North Korea - Blocked zone'',
      geo_rule now ''IR'' Zone_high_risk (3 / 10) ''Iran - High risk zone'',
      geo_rule now ''LOCAL'' Zone_safe (15 / 10) ''Local/Private networks - Safe zone'',
      geo_rule now ''XX'' Zone_moderate (8 / 10) ''Unknown country - Moderate zone'']"

definition weekdays :: "int list" where
  "weekdays = [1, 2, 3, 4, 5]"

definition hours_on :: "int \<Rightarrow> int \<Rightarrow> int list \<Rightarrow> time_range" where
  "hours_on a b days = \<lparr>startHour = a, endHour = b, daysOfWeek = days\<rparr>"

definition temporal_setting :: "env_vars \<Rightarrow> time_pattern \<Rightarrow> time_range list \<Rightarrow> string \<times> string \<Rightarrow> string \<Rightarrow> temporal_rule option" where
  "temporal_setting env p rs d text =
     map_option (\<lambda>f. \<lparr>tr_pattern = p, tr_timeRanges = rs, tr_factor = f, tr_description = text\<rparr>)
       (float_setting env (''RATE_LIMIT_TEMPORAL_'' @ fst d @ ''_FACTOR'') (snd d))"

definition getDefaultTemporalRules :: "env_vars \<Rightarrow> temporal_rule list option" where
  "getDefaultTemporalRules env =
     those [temporal_setting env Peak_hours [hours_on 9 17 weekdays] (''PEAK'', ''0.8'') ''Peak business hours - Reduced limits'',
            temporal_setting env Off_hours [hours_on 18 8 weekdays, hours_on 0 23 [0, 6]] (''OFF'', ''1.2'') ''Off hours - Increased limits'',
            temporal_setting env Weekend [hours_on 0 23 [0, 6]] (''WEEKEND'', ''1.1'') ''Weekend - Slightly increased limits'',
            temporal_setting env Holiday [] (''HOLIDAY'', ''1.3'') ''Holidays - Increased limits'',
            temporal_setting env Emergency [] (''EMERGENCY'', ''0.2'') ''Emergency mode - Severely reduced limits'']"

section \<open>Manager configurations\<close>

definition createDefaultPolicy :: "env_vars \<Rightarrow> time_ms \<Rightarrow> rate_limit_policy option" where
  "createDefaultPolicy env now =
     do {
       threats \<leftarrow> getDefaultThreatAdjustments env;
       users \<leftarrow> getDefaultUserAdjustments env;
       escalation \<leftarrow> int_setting env ''RATE_LIMIT_DEFAULT_ESCALATION_THRESHOLD'' ''5'';
       cooldown \<leftarrow> int_setting env ''RATE_LIMIT_DEFAULT_COOLDOWN_PERIOD'' ''15'';
       Some \<lparr>policyId = ''default-policy'', pol_name = ''Default Rate Limiting Policy'',
             pol_description = ''Default rate limiting applied when no specific policy matches'', pol_enabled = True, pol_priority = 1,
             pol_conditions = \<lparr>pc_endpoints = None, pc_methods = None, pc_threatLevels = None, pc_userProfiles = None,
               pc_geographicZones = None, pc_timePatterns = None\<rparr>,
             pol_limits = \<lparr>pl_base = getDefaultRateLimitConfig, pl_threatAdjustments = threats, pl_userAdjustments = users,
               pl_geographicAdjustments = [(Zone_safe, 12 / 10), (Zone_moderate, 1), (Zone_high_risk, 5 / 10), (Zone_blocked, 1 / 10)],
               pl_temporalAdjustments =
                 [(Peak_hours, 8 / 10), (Off_hours, 12 / 10), (Weekend, 11 / 10), (Holiday, 13 / 10), (Emergency, 2 / 10)]\<rparr>,
             pol_actions = \<lparr>pa_onViolation = On_delay, pa_escalationThreshold = escalation, pa_cooldownPeriod = cooldown,
               pa_notifyAdmin = env_true env ''RATE_LIMIT_DEFAULT_NOTIFY_ADMIN''\<rparr>,
             pol_createdAt = now, pol_updatedAt = now\<rparr>
     }"

record full_config = manager_config +
  enableDistributed :: bool
  redisKeyPrefix :: string
  gs_cleanupInterval :: int
  metricsRetention :: int
  ti_enabled :: bool
  ti_dynamicAdjustment :: bool
  adjustmentSpeed :: real
  minThreatScore :: real
  upr_enabled :: bool
  learningPeriod :: int
  trustBuildingRate :: real
  trustDecayRate :: real
  maxTrustScore :: real

definition getDefaultRateLimitManagerConfig :: "env_vars \<Rightarrow> time_ms \<Rightarrow> full_config option" where
  "getDefaultRateLimitManagerConfig env now =
     do {
       pol \<leftarrow> createDefaultPolicy env now;
       cleanup \<leftarrow> int_setting env ''RATE_LIMIT_CLEANUP_INTERVAL'' ''300000'';
       retention \<leftarrow> int_setting env ''RATE_LIMIT_METRICS_RETENTION_HOURS'' ''24'';
       mb \<leftarrow> int_setting env ''RATE_LIMIT_MAX_MEMORY_MB'' ''500'';
       speed \<leftarrow> float_setting env ''RATE_LIMIT_ADJUSTMENT_SPEED'' ''0.5'';
       minScore \<leftarrow> float_setting env ''RATE_LIMIT_MIN_THREAT_SCORE'' ''0.3'';
       learning \<leftarrow> int_setting env ''RATE_LIMIT_LEARNING_PERIOD_DAYS'' ''7'';
       build \<leftarrow> float_setting env ''RATE_LIMIT_TRUST_BUILDING_RATE'' ''0.1'';
       decay \<leftarrow> float_setting env ''RATE_LIMIT_TRUST_DECAY_RATE'' ''0.05'';
       maxTrust \<leftarrow> float_setting env ''RATE_LIMIT_MAX_TRUST_SCORE'' ''1.0'';
       temporalR \<leftarrow> getDefaultTemporalRules env;
       Some \<lparr>defaultPolicy = pol, customPolicies = [], manager_config.maxMemoryUsage = of_int (mb * 1024 * 1024),
             mc_geographicRules = getDefaultGeographicRules now, mc_temporalRules = temporalR,
             enableDistributed = env_true env ''RATE_LIMIT_DISTRIBUTED_ENABLED'', redisKeyPrefix = env_or env ''RATE_LIMIT_REDIS_PREFIX'' ''rl:'',
             gs_cleanupInterval = cleanup, metricsRetention = retention,
             ti_enabled = env_true env ''RATE_LIMIT_THREAT_INTEGRATION_ENABLED'',
             ti_dynamicAdjustment = env_true env ''RATE_LIMIT_DYNAMIC_ADJUSTMENT_ENABLED'', adjustmentSpeed = speed, minThreatScore = minScore,
             upr_enabled = env_true env ''RATE_LIMIT_USER_PROFILING_ENABLED'', learningPeriod = learning, trustBuildingRate = build,
             trustDecayRate = decay, maxTrustScore = maxTrust\<rparr>
     }"

definition with_limits :: "(policy_limits \<Rightarrow> policy_limits) \<Rightarrow> full_config \<Rightarrow> full_config" where
  "with_limits f c = c\<lparr>defaultPolicy := (defaultPolicy c)\<lparr>pol_limits := f (pol_limits (defaultPolicy c))\<rparr>\<rparr>"

definition getDevelopmentRateLimitManagerConfig :: "env_vars \<Rightarrow> time_ms \<Rightarrow> full_config option" where
  "getDevelopmentRateLimitManagerConfig env now =
     do {
       config \<leftarrow> getDefaultRateLimitManagerConfig env now;
       let config = with_limits (pl_base_update (\<lambda>_. getDevelopmentRateLimitConfig env)) config;
       Some (config\<lparr>manager_config.maxMemoryUsage := 1024 * 1024 * 1024, ti_enabled := True, ti_dynamicAdjustment := True, upr_enabled := True\<rparr>)
     }"

definition getProductionRateLimitManagerConfig :: "env_vars \<Rightarrow> time_ms \<Rightarrow> full_config option" where
  "getProductionRateLimitManagerConfig env now =
     do {
       config \<leftarrow> getDefaultRateLimitManagerConfig env now;
       mb \<leftarrow> int_setting env ''RATE_LIMIT_MAX_MEMORY_MB'' ''200'';
       Some (config\<lparr>enableDistributed := True, ti_enabled := True, upr_enabled := True, manager_config.maxMemoryUsage := of_int (mb * 1024 * 1024)\<rparr>)
     }"

definition getHighSecurityRateLimitManagerConfig :: "env_vars \<Rightarrow> time_ms \<Rightarrow> full_config option" where
  "getHighSecurityRateLimitManagerConfig env now =
     do {
       config \<leftarrow> getProductionRateLimitManagerConfig env now;
       Some (with_limits
         (\<lambda>l. l\<lparr>pl_base := getStrictSecurityRateLimitConfig,
               pl_threatAdjustments :=
                 [threat_adj Threat_low 1 500 1000 10, threat_adj Threat_medium (5 / 10) 250 500 30,
                  threat_adj Threat_high (2 / 10) 50 200 120, threat_adj Threat_critical (5 / 100) 5 50 300],
               pl_geographicAdjustments := [(Zone_safe, 1), (Zone_moderate, 7 / 10), (Zone_high_risk, 2 / 10), (Zone_blocked, 1 / 100)]\<rparr>)
         config)
     }"

definition getRateLimitConfiguration :: "env_vars \<Rightarrow> time_ms \<Rightarrow> full_config option" where
  "getRateLimitConfiguration env now =
     (let environment = env_or env ''NODE_ENV'' ''development'';
          securityMode = env_or env ''RATE_LIMIT_SECURITY_MODE'' ''normal''
      in if environment = ''production''
         then (if securityMode = ''high'' then getHighSecurityRateLimitManagerConfig env now else getProductionRateLimitManagerConfig env now)
         else if environment = ''staging'' then getProductionRateLimitManagerConfig env now
         else getDevelopmentRateLimitManagerConfig env now)"

datatype config_error = Base_limit | Time_window | Memory_limit | Adjustment_speed

datatype config_warning = Short_cleanup | Short_learning

text \<open>A configuration of this type always has a default policy.\<close>

definition validateRateLimitConfiguration :: "full_config \<Rightarrow> bool \<times> config_error list \<times> config_warning list" where
  "validateRateLimitConfiguration c =
     (let base = pl_base (pol_limits (defaultPolicy c));
          errors = (if baseLimit base \<le> 0 then [Base_limit] else []) @ (if timeWindowMs base \<le> 0 then [Time_window] else [])
            @ (if manager_config.maxMemoryUsage c \<le> 0 then [Memory_limit] else [])
            @ (if adjustmentSpeed c < 0 \<or> adjustmentSpeed c > 1 then [Adjustment_speed] else []);
          warnings = (if gs_cleanupInterval c < 60000 then [Short_cleanup] else [])
            @ (if learningPeriod c \<le> 0 then [Short_learning] else [])
      in (errors = [], errors, warnings))"

text \<open>What the manager reads of a configuration.\<close>

definition manager_part :: "full_config \<Rightarrow> manager_config" where
  "manager_part c = manager_config.truncate c"

section \<open>Validity\<close>

lemmas manager_config_defs =
  getDefaultRateLimitManagerConfig_def getDevelopmentRateLimitManagerConfig_def getProductionRateLimitManagerConfig_def
  getHighSecurityRateLimitManagerConfig_def

lemmas base_config_defs = getDefaultRateLimitConfig_def getStrictSecurityRateLimitConfig_def getDevelopmentRateLimitConfig_def

lemma base_positive:
  assumes "getRateLimitConfiguration env now = Some c"
  shows "0 < baseLimit (pl_base (pol_limits (defaultPolicy c)))" and "0 < timeWindowMs (pl_base (pol_limits (defaultPolicy c)))"
  using assms
  by (auto simp: getRateLimitConfiguration_def Let_def manager_config_defs with_limits_def base_config_defs createDefaultPolicy_def
      bind_eq_Some_conv split: if_splits)

text \<open>
  A configuration that was read from the environment passes validation exactly when its memory limit is positive and its adjustment speed
  is between 0 and 1; the base limits cannot fail, because no setting reaches them, and a development configuration has its memory limit fixed.\<close>
theorem read_config_valid:
  assumes "getRateLimitConfiguration env now = Some c"
  shows "(fst (validateRateLimitConfiguration c) \<longleftrightarrow>
      manager_config.maxMemoryUsage c > 0 \<and> 0 \<le> adjustmentSpeed c \<and> adjustmentSpeed c \<le> 1)
    \<and> (env_or env ''NODE_ENV'' ''development'' \<in> {''production'', ''staging''} \<or> manager_config.maxMemoryUsage c = 1024 * 1024 * 1024)"
proof
  show "fst (validateRateLimitConfiguration c) \<longleftrightarrow>
    manager_config.maxMemoryUsage c > 0 \<and> 0 \<le> adjustmentSpeed c \<and> adjustmentSpeed c \<le> 1"
    using base_positive [OF assms] by (auto simp: validateRateLimitConfiguration_def Let_def not_le not_less)
  show "env_or env ''NODE_ENV'' ''development'' \<in> {''production'', ''staging''} \<or> manager_config.maxMemoryUsage c = 1024 * 1024 * 1024"
    using assms by (auto simp: getRateLimitConfiguration_def Let_def getDevelopmentRateLimitManagerConfig_def bind_eq_Some_conv split: if_splits)
qed

section \<open>What reaches the limiters\<close>

lemma read_geographic_rules:
  "getRateLimitConfiguration env now = Some c \<Longrightarrow> mc_geographicRules c = getDefaultGeographicRules now"
  by (auto simp: getRateLimitConfiguration_def Let_def manager_config_defs with_limits_def bind_eq_Some_conv split: if_splits)

lemma fresh_limiter:
  "fst (getLimiter p (new_manager t cfg)) =
     new_limiter (pl_base (pol_limits p)) (pl_threatAdjustments (pol_limits p)) (pl_userAdjustments (pol_limits p)) (mc_geographicRules cfg)
       (mc_temporalRules cfg)"
  by (simp add: getLimiter_def new_manager_def Let_def)

lemma default_rules_found:
  "map_option gr_factor (map_of (fold (\<lambda>r. map_set (gr_countryCode r) r) (getDefaultGeographicRules now) []) ''LOCAL'') = Some (15 / 10)"
  "map_option gr_factor (map_of (fold (\<lambda>r. map_set (gr_countryCode r) r) (getDefaultGeographicRules now) []) ''XX'') = Some (8 / 10)"
  by (simp_all add: getDefaultGeographicRules_def geo_rule_def update_conv')

text \<open>
  With a configuration that was read from the environment, the limiter of any policy multiplies the limit of an address of the local
  networks by 1.5 and that of every other address by 0.8: no rule for a country is ever applied, and neither are the geographic adjustments of
  the policy.\<close>
theorem geography_two_factors:
  assumes "getRateLimitConfiguration env now = Some c"
  shows "calculateGeographicAdjustment (fst (getLimiter p (new_manager t (manager_part c)))) ip
    = (if getCountryFromIP ip = ''LOCAL'' then 15 / 10 else 8 / 10)"
proof -
  have "mc_geographicRules (manager_part c) = getDefaultGeographicRules now"
    using read_geographic_rules [OF assms] by (simp add: manager_part_def manager_config.truncate_def)
  then show ?thesis
    using default_rules_found [of now]
    by (auto simp: fresh_limiter calculateGeographicAdjustment_def new_limiter_def getCountryFromIP_def split: option.splits)
qed

definition flagged :: "bool \<Rightarrow> rate_limiter \<Rightarrow> rate_limiter" where
  "flagged b l = l\<lparr>lim_config := (lim_config l)\<lparr>rl_enabled := b\<rparr>\<rparr>"

lemma flagged_simps [simp]:
  "lim_config (flagged b l) = (lim_config l)\<lparr>rl_enabled := b\<rparr>" "localCache (flagged b l) = localCache l" "cacheSize (flagged b l) = cacheSize l"
  "threatAdjustments (flagged b l) = threatAdjustments l" "userAdjustments (flagged b l) = userAdjustments l"
  "geographicRules (flagged b l) = geographicRules l" "temporalRules (flagged b l) = temporalRules l"
  "(flagged b l)\<lparr>localCache := c\<rparr> = flagged b (l\<lparr>localCache := c\<rparr>)"
  by (simp_all add: flagged_def)

lemma flagged_state: "getState e i (flagged b l) = apsnd (flagged b) (getState e i l)"
  by (simp add: getState_def fresh_state_def manageCacheSize_def Let_def cong: option.case_cong redis_reply.case_cong)

lemma flagged_profile: "getUserProfile e rq (flagged b l) = getUserProfile e rq l"
  by (simp add: getUserProfile_def new_profile_def split: redis_reply.split)

lemma flagged_user: "calculateUserAdjustment e rq (flagged b l) = calculateUserAdjustment e rq l"
  by (simp add: calculateUserAdjustment_def flagged_profile split: prod.split option.split)

lemma flagged_adjustments: "calculateAdjustments e rq (flagged b l) = calculateAdjustments e rq l"
  by (simp add: calculateAdjustments_def calculateThreatAdjustment_def flagged_user
      calculateGeographicAdjustment_def calculateTemporalAdjustment_def)

lemma flagged_checks:
  "checkTokenBucket (cfg\<lparr>rl_enabled := b\<rparr>) now st limit adj = checkTokenBucket cfg now st limit adj"
  "checkSlidingWindow (cfg\<lparr>rl_enabled := b\<rparr>) now st limit adj = checkSlidingWindow cfg now st limit adj"
  by (cases cfg, simp only: checkTokenBucket_def checkSlidingWindow_def rate_limit_config.simps rate_limit_config.update_convs)+

lemma flagged_dispatch: "dispatch (cfg\<lparr>rl_enabled := b\<rparr>) e st limit adj = dispatch cfg e st limit adj"
proof -
  have "rl_algorithm (cfg\<lparr>rl_enabled := b\<rparr>) = rl_algorithm cfg" "timeWindowMs (cfg\<lparr>rl_enabled := b\<rparr>) = timeWindowMs cfg" by simp_all
  then show ?thesis by (simp only: dispatch_def flagged_checks checkAdaptiveHybrid_def hybrid_state_def)
qed

text \<open>
  Switching rate limiting off in the base configuration (\<^verbatim>\<open>RATE_LIMIT_ENABLED=false\<close> in development) changes no answer of a limiter: the flag is
  never read.\<close>
theorem enabled_flag_ignored: "fst (checkRateLimit e rq (flagged b l)) = fst (checkRateLimit e rq l)"
  by (simp add: checkRateLimit_def flagged_state flagged_adjustments flagged_dispatch final_limit_def createFailOpenResult_def updateState_def
      Let_def case_prod_unfold split: option.split)

section \<open>The high-security mode\<close>

text \<open>Production in the high-security mode with every other setting at its default.\<close>

definition hs_env :: env_vars where
  "hs_env = [''NODE_ENV'' \<mapsto> ''production'', ''RATE_LIMIT_SECURITY_MODE'' \<mapsto> ''high'']"

lemma hs_users:
  "getDefaultUserAdjustments hs_env =
     Some [(User_new, 7 / 10), (User_trusted, 13 / 10), (User_suspicious, 3 / 10), (User_vip, 2), (User_blocked, 5 / 100)]"
  by code_simp

lemma hs_temporal:
  "map_option (map (\<lambda>r. (tr_pattern r, tr_factor r))) (getDefaultTemporalRules hs_env) =
     Some [(Peak_hours, 8 / 10), (Off_hours, 12 / 10), (Weekend, 11 / 10), (Holiday, 13 / 10), (Emergency, 2 / 10)]"
  by code_simp

lemma unset_float: "env key = None \<Longrightarrow> float_setting env key t = fin (parseFloat t)"
  by (simp add: float_setting_def env_or_def)

lemma unset_int: "env key = None \<Longrightarrow> int_setting env key t = map_option floor (fin (parseInt t))"
  by (simp add: int_setting_def env_or_def)

lemmas reading = parseInt_def parseFloat_def take_sign_def starts_with_def is_decimal_def decimal_value_def parse_exponent_def space_char_def lower_char_def

lemma hs_threats: "map_option length (getDefaultThreatAdjustments hs_env) = Some 4"
  by (simp add: getDefaultThreatAdjustments_def threat_setting_def unset_float unset_int hs_env_def reading)

lemma hs_ints:
  "those (map (\<lambda>(k, t). int_setting hs_env k t)
     [(''RATE_LIMIT_DEFAULT_ESCALATION_THRESHOLD'', ''5''), (''RATE_LIMIT_DEFAULT_COOLDOWN_PERIOD'', ''15''),
      (''RATE_LIMIT_CLEANUP_INTERVAL'', ''300000''), (''RATE_LIMIT_METRICS_RETENTION_HOURS'', ''24''), (''RATE_LIMIT_MAX_MEMORY_MB'', ''500''),
      (''RATE_LIMIT_MAX_MEMORY_MB'', ''200''), (''RATE_LIMIT_LEARNING_PERIOD_DAYS'', ''7'')])
   = Some [5, 15, 300000, 24, 500, 200, 7]"
  by (simp add: unset_int hs_env_def reading)

lemma hs_floats:
  "those (map (\<lambda>(k, t). float_setting hs_env k t)
     [(''RATE_LIMIT_ADJUSTMENT_SPEED'', ''0.5''), (''RATE_LIMIT_MIN_THREAT_SCORE'', ''0.3''), (''RATE_LIMIT_TRUST_BUILDING_RATE'', ''0.1''),
      (''RATE_LIMIT_TRUST_DECAY_RATE'', ''0.05''), (''RATE_LIMIT_MAX_TRUST_SCORE'', ''1.0'')])
   = Some [5 / 10, 3 / 10, 1 / 10, 5 / 100, 1]"
  by code_simp

lemma hs_read: "\<exists>c. getHighSecurityRateLimitManagerConfig hs_env now = Some c"
  using hs_users hs_temporal hs_threats hs_ints hs_floats
  by (auto simp: manager_config_defs createDefaultPolicy_def split: option.splits)

lemma hs_chosen: "getRateLimitConfiguration hs_env now = getHighSecurityRateLimitManagerConfig hs_env now"
  by (simp add: getRateLimitConfiguration_def hs_env_def env_or_def)

definition hs_limiter :: "time_ms \<Rightarrow> rate_limiter" where
  "hs_limiter now =
     (case getRateLimitConfiguration hs_env now of
        Some c \<Rightarrow> fst (getLimiter (defaultPolicy c) (new_manager now (manager_part c)))
      | None \<Rightarrow> new_limiter getDefaultRateLimitConfig [] [] [] [])"

lemma hs_limiter_parts:
  "lim_config (hs_limiter now) = getStrictSecurityRateLimitConfig"
  "map_of (threatAdjustments (hs_limiter now)) =
     [Threat_low \<mapsto> threat_adj Threat_low 1 500 1000 10, Threat_medium \<mapsto> threat_adj Threat_medium (5 / 10) 250 500 30,
      Threat_high \<mapsto> threat_adj Threat_high (2 / 10) 50 200 120, Threat_critical \<mapsto> threat_adj Threat_critical (5 / 100) 5 50 300]"
  "userAdjustments (hs_limiter now) = [(User_new, 7 / 10), (User_trusted, 13 / 10), (User_suspicious, 3 / 10), (User_vip, 2), (User_blocked, 5 / 100)]"
  "Some (temporalRules (hs_limiter now)) = getDefaultTemporalRules hs_env"
proof -
  obtain c where h: "getHighSecurityRateLimitManagerConfig hs_env now = Some c" using hs_read [of now] by auto
  then have c: "getRateLimitConfiguration hs_env now = Some c" by (simp add: hs_chosen)
  note defs = hs_limiter_def c fresh_limiter new_limiter_def manager_part_def manager_config.truncate_def
  show "lim_config (hs_limiter now) = getStrictSecurityRateLimitConfig"
    using h by (auto simp: defs manager_config_defs with_limits_def bind_eq_Some_conv)
  show "map_of (threatAdjustments (hs_limiter now)) =
     [Threat_low \<mapsto> threat_adj Threat_low 1 500 1000 10, Threat_medium \<mapsto> threat_adj Threat_medium (5 / 10) 250 500 30,
      Threat_high \<mapsto> threat_adj Threat_high (2 / 10) 50 200 120, Threat_critical \<mapsto> threat_adj Threat_critical (5 / 100) 5 50 300]"
    using h by (auto simp: defs manager_config_defs with_limits_def bind_eq_Some_conv threat_adj_def update_conv')
  show "userAdjustments (hs_limiter now) = [(User_new, 7 / 10), (User_trusted, 13 / 10), (User_suspicious, 3 / 10), (User_vip, 2), (User_blocked, 5 / 100)]"
    using h by (auto simp: defs manager_config_defs with_limits_def createDefaultPolicy_def hs_users bind_eq_Some_conv)
  show "Some (temporalRules (hs_limiter now)) = getDefaultTemporalRules hs_env"
    using h by (auto simp: defs manager_config_defs with_limits_def bind_eq_Some_conv)
qed

lemma hs_threat: "0 \<le> calculateThreatAdjustment (hs_limiter now) s \<and> calculateThreatAdjustment (hs_limiter now) s \<le> 1"
  by (simp add: calculateThreatAdjustment_def hs_limiter_parts threat_adj_def threat_level_of_def)

lemma hs_user:
  assumes "\<And>p. env_profile e = Found p \<Longrightarrow> 0 \<le> up_trustScore p \<and> up_trustScore p \<le> 1"
  shows "0 \<le> fst (calculateUserAdjustment e rq (hs_limiter now)) \<and> fst (calculateUserAdjustment e rq (hs_limiter now)) \<le> 2"
proof -
  have f: "0 \<le> factor_or_1 (map_of (userAdjustments (hs_limiter now)) u) \<and> factor_or_1 (map_of (userAdjustments (hs_limiter now)) u) \<le> 2" for u
    by (cases u) (simp_all add: hs_limiter_parts factor_or_1_def)
  have "0 \<le> f * (1 / 2 + t * (1 / 2)) \<and> f * (1 / 2 + t * (1 / 2)) \<le> 2" if "0 \<le> f \<and> f \<le> 2" "0 \<le> t \<and> t \<le> 1" for f t :: real
    using mult_mono [of f 2 "1 / 2 + t * (1 / 2)" 1] that by auto
  then have "0 \<le> factor_or_1 (map_of (userAdjustments (hs_limiter now)) u) * (1 / 2 + t * (1 / 2))
      \<and> factor_or_1 (map_of (userAdjustments (hs_limiter now)) u) * (1 / 2 + t * (1 / 2)) \<le> 2" if "0 \<le> t \<and> t \<le> 1" for u t
    using f that by blast
  from this [of "1 / 2" User_new] this show ?thesis
    using assms
    by (cases "env_profile e") (auto simp: calculateUserAdjustment_def getUserProfile_def new_profile_def Let_def)
qed

lemma hs_time:
  "0 \<le> calculateTemporalAdjustment (hs_limiter now) tz t \<and> calculateTemporalAdjustment (hs_limiter now) tz t \<le> 12 / 10"
proof -
  obtain r1 r2 r3 r4 r5 where r: "temporalRules (hs_limiter now) = [r1, r2, r3, r4, r5]"
    and f: "tr_pattern r1 = Peak_hours" "tr_factor r1 = 8 / 10" "tr_pattern r2 = Off_hours" "tr_factor r2 = 12 / 10"
      "tr_pattern r3 = Weekend" "tr_factor r3 = 11 / 10"
    using hs_temporal unfolding hs_limiter_parts(4) [of now, symmetric] by auto
  show ?thesis unfolding calculateTemporalAdjustment_def r by (simp add: f getTimePattern_def Let_def)
qed

lemma hs_place:
  "0 \<le> calculateGeographicAdjustment (hs_limiter now) ip \<and> calculateGeographicAdjustment (hs_limiter now) ip \<le> 15 / 10"
proof -
  obtain c where h: "getHighSecurityRateLimitManagerConfig hs_env now = Some c" using hs_read [of now] by auto
  then have "mc_geographicRules (manager_part c) = getDefaultGeographicRules now"
    using read_geographic_rules [of hs_env now c] by (simp add: hs_chosen manager_part_def manager_config.truncate_def)
  then show ?thesis using default_rules_found [of now] h
    by (auto simp: hs_limiter_def hs_chosen fresh_limiter calculateGeographicAdjustment_def new_limiter_def getCountryFromIP_def split: option.splits)
qed

lemma product_bound:
  fixes a b c d :: real
  assumes "0 \<le> a \<and> a \<le> 1" "0 \<le> b \<and> b \<le> 2" "0 \<le> c \<and> c \<le> 15 / 10" "0 \<le> d \<and> d \<le> 12 / 10"
  shows "a * b * c * d \<le> 36 / 10"
proof -
  have "a * b \<le> 2" using assms mult_mono [of a 1 b 2] by simp
  then have "a * b * c \<le> 3" using assms mult_mono [of "a * b" 2 c "15 / 10"] by simp
  then show ?thesis using assms mult_mono [of "a * b * c" 3 d "12 / 10"] by simp
qed

text \<open>
  C38. In the high-security mode with default settings every limit that the default policy applies is between 1 and 360, for stored profiles
  with a trust score between 0 and 1, although the mode states minimum 500 for a low threat: the minima of the adjustments are never enforced.\<close>
theorem high_security_below_minimum:
  assumes "\<forall>p. env_profile e = Found p \<longrightarrow> 0 \<le> up_trustScore p \<and> up_trustScore p \<le> 1"
  shows "1 \<le> final_limit (lim_config (hs_limiter now)) (fst (calculateAdjustments e rq (hs_limiter now)))
    \<and> final_limit (lim_config (hs_limiter now)) (fst (calculateAdjustments e rq (hs_limiter now))) \<le> 360
    \<and> map_option ta_minLimit (map_of (threatAdjustments (hs_limiter now)) Threat_low) = Some 500"
proof -
  let ?a = "fst (calculateAdjustments e rq (hs_limiter now))"
  have "adj_final ?a \<le> 36 / 10"
    using product_bound [OF hs_threat hs_user hs_place hs_time] assms
    by (simp add: calculateAdjustments_def Let_def case_prod_unfold)
  then have "\<lfloor>100 * adj_final ?a\<rfloor> \<le> 360" by linarith
  then show ?thesis by (simp add: final_limit_def hs_limiter_parts getStrictSecurityRateLimitConfig_def threat_adj_def)
qed

theorem high_security_below_minimum_witness:
  "final_limit (lim_config (hs_limiter 0)) (fst (calculateAdjustments (demo_env 0) (demo_request ''a'') (hs_limiter 0))) \<le> 360"
  using high_security_below_minimum [of "demo_env 0" 0 "demo_request ''a''"] by (simp add: RateLimiter.demo_env_def)

theorem read_config_valid_witness:
  "\<exists>c. getRateLimitConfiguration hs_env 0 = Some c \<and> fst (validateRateLimitConfiguration c)"
proof -
  obtain c where h: "getHighSecurityRateLimitManagerConfig hs_env 0 = Some c" using hs_read [of 0] by auto
  then have "manager_config.maxMemoryUsage c = 200 * 1024 * 1024" "adjustmentSpeed c = 5 / 10"
    using hs_ints hs_floats by (auto simp: manager_config_defs with_limits_def bind_eq_Some_conv split: option.splits)
  then show ?thesis using read_config_valid [of hs_env 0 c] h by (simp add: hs_chosen)
qed

theorem geography_two_factors_witness:
  "\<exists>c. getRateLimitConfiguration hs_env 0 = Some c
     \<and> calculateGeographicAdjustment (fst (getLimiter (defaultPolicy c) (new_manager 0 (manager_part c)))) ''10.0.0.1'' = 15 / 10"
proof -
  obtain c where "getHighSecurityRateLimitManagerConfig hs_env 0 = Some c" using hs_read [of 0] by auto
  then show ?thesis using geography_two_factors [of hs_env 0 c "defaultPolicy c" 0 "''10.0.0.1''"]
    by (simp add: hs_chosen getCountryFromIP_def starts_with_def)
qed

end
