(* ===== verification/RateLimitAnalytics.thy ===== *)
theory RateLimitAnalytics
  imports RateLimitTypes
begin

text \<open>
  The analytics of rate limiting (\<^verbatim>\<open>backend/src/services/RateLimitAnalytics.ts\<close>): measurements of each endpoint and hour and the list of violations
  are kept in Redis, a list of recent violations in the service. The replies of Redis (whether a key exists, and the value that is read and
  parsed, \<open>None\<close> when there is none or reading fails) are arguments, what is written is returned with its lifetime in
  seconds (writing does not throw: the Redis service absorbs its errors). Operations the service only stubs are stubs here too. Texts with numbers are constructors.
\<close>

section \<open>Data\<close>

datatype violation_severity = Vs_low | Vs_medium | Vs_high | Vs_critical

record rl_violation =
  rv_identifier :: string
  rv_endpoint :: string
  rv_ipAddress :: string
  rv_timestamp :: time_ms
  rv_requestCount :: int
  rv_limitApplied :: int
  rv_exceedBy :: int
  rv_threatScore :: real
  rv_userProfile :: "user_profile option"
  rv_countryCode :: "string option"
  rv_action :: string
  rv_severity :: violation_severity

record rl_metrics =
  rm_totalRequests :: int
  rm_allowedRequests :: int
  rm_blockedRequests :: int
  rm_violationRate :: real
  rm_averageResponseTime :: real
  rm_effectivenessScore :: real
  rm_falsePositiveRate :: real
  rm_memoryUsage :: int
  rm_lastUpdated :: time_ms

datatype rl_insight_type = Ri_abuse_pattern | Ri_policy_optimization | Ri_performance_issue | Ri_geographic_threat | Ri_temporal_anomaly

record rl_insight =
  ri_type :: rl_insight_type
  ri_severity :: violation_severity
  ri_description :: string
  ri_confidence :: real
  ri_recommendations :: "string list"
  ri_timestamp :: time_ms
  ri_affectedRequests :: int

record analytics_config =
  metricsRetentionHours :: int
  violationRetentionHours :: int
  analyticsWindowHours :: int
  insightGenerationInterval :: int
  optimizationThreshold :: real
  falsePositiveThreshold :: real

record rl_analytics =
  rla_config :: analytics_config
  violationsCache :: "rl_violation list"
  insightsCache :: "rl_insight list"

datatype analytics_write = Write_slot string rl_metrics int | Write_violations string "rl_violation list" int

definition new_rl_analytics :: "analytics_config \<Rightarrow> rl_analytics" where
  "new_rl_analytics c = \<lparr>rla_config = c, violationsCache = [], insightsCache = []\<rparr>"

section \<open>Recording\<close>

text \<open>The text of a whole number.\<close>

definition int_text :: "int \<Rightarrow> string" where
  "int_text n = (if n < 0 then CHR ''-'' # digits (nat (- n)) else digits (nat n))"

definition getTimeSlot :: "time_ms \<Rightarrow> string" where
  "getTimeSlot timestamp = int_text (timestamp div (60 * 60 * 1000))"

definition calculateEffectivenessScore :: "rl_metrics \<Rightarrow> real" where
  "calculateEffectivenessScore m =
     (let blockingBalance = min (rm_violationRate m * 2) 1;
          responseTimeScore = max 0 (1 - rm_averageResponseTime m / 50)
      in blockingBalance * (7 / 10) + responseTimeScore * (3 / 10))"

definition calculateViolationSeverity :: "threat_level option \<Rightarrow> int \<Rightarrow> violation_severity" where
  "calculateViolationSeverity level n =
     (if level = Some Threat_critical \<or> n > 10 then Vs_critical
      else if level = Some Threat_high \<or> n > 5 then Vs_high
      else if level = Some Threat_medium \<or> n > 2 then Vs_medium else Vs_low)"

definition getThreatScore :: "threat_level option \<Rightarrow> real" where
  "getThreatScore level =
     (case level of
        Some Threat_low \<Rightarrow> 2 / 10 | Some Threat_medium \<Rightarrow> 5 / 10 | Some Threat_high \<Rightarrow> 8 / 10 | Some Threat_critical \<Rightarrow> 1 | None \<Rightarrow> 0)"

definition first_metrics_of :: "bool \<Rightarrow> real \<Rightarrow> time_ms \<Rightarrow> rl_metrics" where
  "first_metrics_of ok rt now =
     \<lparr>rm_totalRequests = 1, rm_allowedRequests = (if ok then 1 else 0), rm_blockedRequests = (if ok then 0 else 1),
      rm_violationRate = (if ok then 0 else 1), rm_averageResponseTime = rt, rm_effectivenessScore = (if ok then 1 else 0),
      rm_falsePositiveRate = 0, rm_memoryUsage = 0, rm_lastUpdated = now\<rparr>"

definition next_metrics_of :: "bool \<Rightarrow> real \<Rightarrow> time_ms \<Rightarrow> rl_metrics \<Rightarrow> rl_metrics" where
  "next_metrics_of ok rt now m =
     (let m = m\<lparr>rm_totalRequests := rm_totalRequests m + 1,
                rm_allowedRequests := rm_allowedRequests m + (if ok then 1 else 0),
                rm_blockedRequests := rm_blockedRequests m + (if ok then 0 else 1)\<rparr>;
          m = m\<lparr>rm_violationRate := of_int (rm_blockedRequests m) / of_int (rm_totalRequests m)\<rparr>;
          m = m\<lparr>rm_averageResponseTime :=
                 (rm_averageResponseTime m * (of_int (rm_totalRequests m) - 1) + rt) / of_int (rm_totalRequests m)\<rparr>
      in m\<lparr>rm_effectivenessScore := calculateEffectivenessScore m, rm_lastUpdated := now\<rparr>)"

text \<open>\<open>found\<close> tells whether the key exists, \<open>cached\<close> is what is read under it; the result is what is written back, if anything.\<close>

definition updateMetrics :: "bool \<Rightarrow> rl_metrics option \<Rightarrow> bool \<Rightarrow> real \<Rightarrow> time_ms \<Rightarrow> rl_metrics option" where
  "updateMetrics found cached ok rt now =
     (if \<not> found then Some (first_metrics_of ok rt now) else map_option (next_metrics_of ok rt now) cached)"

definition keep_last :: "nat \<Rightarrow> 'a list \<Rightarrow> 'a list" where
  "keep_last n xs = (if length xs > n then drop (length xs - n) xs else xs)"

definition recordViolation :: "rl_violation list option \<Rightarrow> rl_violation \<Rightarrow> rl_analytics \<Rightarrow> analytics_write \<times> rl_analytics" where
  "recordViolation stored v a =
     (let key = ''rate_limit_violations:'' @ getTimeSlot (rv_timestamp v);
          violations = (case stored of None \<Rightarrow> [] | Some vs \<Rightarrow> vs) @ [v]
      in (Write_violations key (keep_last 1000 violations) (violationRetentionHours (rla_config a) * 3600),
          a\<lparr>violationsCache := keep_last 1000 (violationsCache a @ [v])\<rparr>))"

record event_meta =
  em_ipAddress :: string
  em_userProfile :: "user_profile option"
  em_threatLevel :: "threat_level option"
  em_countryCode :: "string option"
  em_violationCount :: "int option"

definition recordRateLimitEvent ::
  "bool \<times> rl_metrics option \<times> rl_violation list option \<Rightarrow> time_ms \<Rightarrow> string \<Rightarrow> string \<Rightarrow> bool \<Rightarrow> int \<Rightarrow> real \<Rightarrow> event_meta \<Rightarrow> rl_analytics
     \<Rightarrow> analytics_write list \<times> rl_analytics" where
  "recordRateLimitEvent replies now ident endpoint ok limit rt meta a =
     (let (found, cached, stored) = replies;
          key = ''rate_limit_metrics:'' @ endpoint @ '':'' @ getTimeSlot now;
          w1 = (case updateMetrics found cached ok rt now of
                  None \<Rightarrow> [] | Some m \<Rightarrow> [Write_slot key m (metricsRetentionHours (rla_config a) * 3600)])
      in if ok then (w1, a)
         else
           let (w2, a) = recordViolation stored
                 \<lparr>rv_identifier = ident, rv_endpoint = endpoint, rv_ipAddress = em_ipAddress meta, rv_timestamp = now, rv_requestCount = 1,
                  rv_limitApplied = limit, rv_exceedBy = 1, rv_threatScore = getThreatScore (em_threatLevel meta),
                  rv_userProfile = em_userProfile meta, rv_countryCode = em_countryCode meta, rv_action = ''blocked'',
                  rv_severity = calculateViolationSeverity (em_threatLevel meta) (case em_violationCount meta of None \<Rightarrow> 0 | Some n \<Rightarrow> n)\<rparr> a
           in (w1 @ [w2], a))"

section \<open>Reports\<close>

definition getOverallMetrics :: "time_ms \<Rightarrow> rl_metrics" where
  "getOverallMetrics now =
     \<lparr>rm_totalRequests = 0, rm_allowedRequests = 0, rm_blockedRequests = 0, rm_violationRate = 0, rm_averageResponseTime = 0,
      rm_effectivenessScore = 8 / 10, rm_falsePositiveRate = 2 / 100, rm_memoryUsage = 0, rm_lastUpdated = now\<rparr>"

definition getGroupedMetrics :: "(string, rl_metrics) js_map" where
  "getGroupedMetrics = []"

definition getViolations :: "time_ms \<Rightarrow> time_ms \<Rightarrow> rl_analytics \<Rightarrow> rl_violation list" where
  "getViolations startTime endTime a = filter (\<lambda>v. rv_timestamp v \<ge> startTime \<and> rv_timestamp v \<le> endTime) (violationsCache a)"

record violator =
  vi_identifier :: string
  vi_ipAddress :: string
  vi_violationCount :: int
  vi_lastViolation :: time_ms
  vi_countryCode :: "string option"

definition count_violation :: "rl_violation \<Rightarrow> (string, violator) js_map \<Rightarrow> (string, violator) js_map" where
  "count_violation v m =
     (let k = rv_identifier v;
          w = (case map_of m k of
                 Some w \<Rightarrow> w
               | None \<Rightarrow> \<lparr>vi_identifier = k, vi_ipAddress = rv_ipAddress v, vi_violationCount = 0, vi_lastViolation = rv_timestamp v,
                          vi_countryCode = rv_countryCode v\<rparr>);
          w = w\<lparr>vi_violationCount := vi_violationCount w + 1\<rparr>;
          w = (if rv_timestamp v > vi_lastViolation w then w\<lparr>vi_lastViolation := rv_timestamp v\<rparr> else w)
      in map_set k w m)"

definition getTopViolators :: "rl_violation list \<Rightarrow> violator list" where
  "getTopViolators violations = take 10 (sort_key (\<lambda>w. - vi_violationCount w) (map snd (fold count_violation violations [])))"

datatype rl_recommendation = Rr_tighten | Rr_optimize | Rr_repeat_violators

definition rla_generateRecommendations :: "rl_metrics \<Rightarrow> rl_violation list \<Rightarrow> rl_recommendation list" where
  "rla_generateRecommendations m violations =
     (if rm_violationRate m > 1 / 10 then [Rr_tighten] else [])
     @ (if rm_averageResponseTime m > 10 then [Rr_optimize] else [])
     @ (if length violations > 100 then [Rr_repeat_violators] else [])"

datatype group_by = By_endpoint | By_country | By_userProfile | By_threatLevel

datatype rl_trend = Tr_stable | Tr_improving | Tr_degrading

datatype volume_trend = Vt_increasing | Vt_decreasing | Vt_stable

definition calculateTrends :: "volume_trend \<times> volume_trend \<times> rl_trend" where
  "calculateTrends = (Vt_stable, Vt_stable, Tr_stable)"

record analytics_report =
  ar_start :: time_ms
  ar_end :: time_ms
  ar_duration :: int
  ar_overallMetrics :: rl_metrics
  ar_groups :: "group_by \<Rightarrow> (string, rl_metrics) js_map"
  ar_topViolators :: "violator list"
  ar_trends :: "volume_trend \<times> volume_trend \<times> rl_trend"
  ar_recommendations :: "rl_recommendation list"

definition rla_getAnalytics :: "time_ms \<Rightarrow> time_ms \<Rightarrow> time_ms \<Rightarrow> group_by \<Rightarrow> rl_analytics \<Rightarrow> analytics_report" where
  "rla_getAnalytics now startTime endTime groupBy a =
     (let overall = getOverallMetrics now; violations = getViolations startTime endTime a
      in \<lparr>ar_start = startTime, ar_end = endTime, ar_duration = endTime - startTime, ar_overallMetrics = overall,
          ar_groups = (\<lambda>g. if g = groupBy then getGroupedMetrics else []),
          ar_topViolators = getTopViolators violations, ar_trends = calculateTrends,
          ar_recommendations = rla_generateRecommendations overall violations\<rparr>)"

definition detectAbusePatterns :: "rl_insight list" where
  "detectAbusePatterns = []"

definition identifyOptimizations :: "rl_insight list" where
  "identifyOptimizations = []"

definition detectPerformanceIssues :: "rl_insight list" where
  "detectPerformanceIssues = []"

definition detectGeographicThreats :: "rl_insight list" where
  "detectGeographicThreats = []"

definition detectTemporalAnomalies :: "rl_insight list" where
  "detectTemporalAnomalies = []"

definition rla_generateInsights :: "rl_analytics \<Rightarrow> rl_insight list \<times> rl_analytics" where
  "rla_generateInsights a =
     (let insights = detectAbusePatterns @ identifyOptimizations @ detectPerformanceIssues @ detectGeographicThreats @ detectTemporalAnomalies
      in (insights, a\<lparr>insightsCache := insights\<rparr>))"

datatype rl_optimization = Op_threshold_tuning real | Op_policy_adjustment real | Op_algorithm_change real

record optimization_report =
  or_currentEffectiveness :: real
  or_optimizations :: "rl_optimization list"
  or_immediate :: "string list"
  or_shortTerm :: "string list"
  or_longTerm :: "string list"

definition getOptimizationRecommendations :: "time_ms \<Rightarrow> rl_analytics \<Rightarrow> optimization_report \<times> rl_analytics" where
  "getOptimizationRecommendations now a =
     (let m = getOverallMetrics now;
          c = rla_config a;
          opts = (if rm_falsePositiveRate m > falsePositiveThreshold c then [Op_threshold_tuning (rm_falsePositiveRate m)] else [])
                 @ (if rm_effectivenessScore m < optimizationThreshold c then [Op_policy_adjustment (rm_effectivenessScore m)] else [])
                 @ (if rm_averageResponseTime m > 10 then [Op_algorithm_change (rm_averageResponseTime m)] else []);
          (insights, a) = rla_generateInsights a;
          of_class = \<lambda>P. fold set_add (concat (map ri_recommendations (filter P insights))) []
      in (\<lparr>or_currentEffectiveness = rm_effectivenessScore m, or_optimizations = opts,
           or_immediate = of_class (\<lambda>i. ri_severity i = Vs_critical), or_shortTerm = of_class (\<lambda>i. ri_severity i = Vs_high),
           or_longTerm = of_class (\<lambda>i. ri_severity i \<noteq> Vs_critical \<and> ri_severity i \<noteq> Vs_high)\<rparr>, a))"

definition trackEffectiveness :: "time_ms \<Rightarrow> real \<times> rl_trend \<times> (time_ms \<times> real) list" where
  "trackEffectiveness now =
     (let historicalData = map (\<lambda>i. (now - i * 60 * 60 * 1000, rm_effectivenessScore (getOverallMetrics now))) (rev [0..24]);
          mean = \<lambda>xs. sum_list xs / real (length xs);
          recentAvg = mean (map snd (js_slice_from (-6) historicalData));
          olderAvg = mean (map snd (js_slice (-12) (-6) historicalData));
          changePct = (recentAvg - olderAvg) / olderAvg
      in (snd (last historicalData),
          if changePct > 5 / 100 then Tr_improving else if changePct < - (5 / 100) then Tr_degrading else Tr_stable, historicalData))"

section \<open>The measurements of a slot\<close>

text \<open>The events of one endpoint and hour, each an answer, a response time and a clock; what was written last is read next.\<close>

type_synonym slot_event = "bool \<times> real \<times> time_ms"

definition slot_step :: "slot_event \<Rightarrow> rl_metrics option \<Rightarrow> rl_metrics option" where
  "slot_step e m = (let (ok, rt, now) = e in updateMetrics (m \<noteq> None) m ok rt now)"

definition slot_metrics :: "slot_event list \<Rightarrow> rl_metrics option" where
  "slot_metrics es = fold slot_step es None"

definition slot_blocked :: "slot_event list \<Rightarrow> nat" where
  "slot_blocked es = length (filter (\<lambda>e. \<not> fst e) es)"

definition slot_time :: "slot_event list \<Rightarrow> real" where
  "slot_time es = sum_list (map (fst \<circ> snd) es)"

definition slot_score :: "slot_event list \<Rightarrow> real" where
  "slot_score es =
     min (real (slot_blocked es) / real (length es) * 2) 1 * (7 / 10) + max 0 (1 - slot_time es / real (length es) / 50) * (3 / 10)"

definition measures :: "slot_event list \<Rightarrow> rl_metrics \<Rightarrow> bool" where
  "measures es m \<longleftrightarrow>
     rm_totalRequests m = int (length es) \<and> rm_blockedRequests m = int (slot_blocked es)
     \<and> rm_allowedRequests m = int (length es) - int (slot_blocked es)
     \<and> rm_violationRate m = real (slot_blocked es) / real (length es)
     \<and> rm_averageResponseTime m = slot_time es / real (length es)"

lemma slot_snoc [simp]:
  "slot_blocked (es @ [e]) = slot_blocked es + (if fst e then 0 else 1)"
  "slot_time (es @ [e]) = slot_time es + fst (snd e)"
  by (simp_all add: slot_blocked_def slot_time_def)

lemma slot_nil [simp]: "slot_blocked [] = 0" "slot_time [] = 0"
  by (simp_all add: slot_blocked_def slot_time_def)

lemma measures_first: "measures [(ok, rt, now)] (first_metrics_of ok rt now)"
  by (simp add: measures_def first_metrics_of_def slot_blocked_def slot_time_def)

lemma next_score: "rm_effectivenessScore (next_metrics_of ok rt now m) = calculateEffectivenessScore (next_metrics_of ok rt now m)"
  by (simp add: next_metrics_of_def calculateEffectivenessScore_def Let_def)

lemma measured_score: "measures es m \<Longrightarrow> calculateEffectivenessScore m = slot_score es"
  by (simp add: measures_def slot_score_def calculateEffectivenessScore_def Let_def)

lemma measures_next:
  assumes "measures es m" and "es \<noteq> []"
  shows "measures (es @ [(ok, rt, now)]) (next_metrics_of ok rt now m)"
    and "rm_effectivenessScore (next_metrics_of ok rt now m) = slot_score (es @ [(ok, rt, now)])"
proof -
  have n: "real (length es) \<noteq> 0" using assms(2) by simp
  show "measures (es @ [(ok, rt, now)]) (next_metrics_of ok rt now m)"
    using assms(1) n by (auto simp: measures_def next_metrics_of_def Let_def add.commute)
  then show "rm_effectivenessScore (next_metrics_of ok rt now m) = slot_score (es @ [(ok, rt, now)])"
    unfolding next_score by (rule measured_score)
qed

lemma slot_metrics_measures:
  "es \<noteq> [] \<Longrightarrow> \<exists>m. slot_metrics es = Some m \<and> measures es m \<and> (length es \<ge> 2 \<longrightarrow> rm_effectivenessScore m = slot_score es)"
proof (induction es rule: rev_induct)
  case (snoc e es)
  obtain ok rt now where e: "e = (ok, rt, now)" by (cases e)
  show ?case
  proof (cases "es = []")
    case True
    then show ?thesis using measures_first by (simp add: slot_metrics_def slot_step_def updateMetrics_def e)
  next
    case False
    with snoc obtain m where "slot_metrics es = Some m" and m: "measures es m" by auto
    then have "slot_metrics (es @ [e]) = Some (next_metrics_of ok rt now m)"
      by (simp add: slot_metrics_def slot_step_def updateMetrics_def e)
    then show ?thesis using measures_next [OF m False] e by auto
  qed
qed simp

lemma slot_time_nonneg: "\<forall>e \<in> set es. 0 \<le> fst (snd e) \<Longrightarrow> 0 \<le> slot_time es"
  unfolding slot_time_def by (intro sum_list_nonneg) auto

lemma slot_speed_bounds:
  assumes "\<forall>e \<in> set es. 0 \<le> fst (snd e)"
  shows "0 \<le> max 0 (1 - slot_time es / real (length es) / 50)" and "max 0 (1 - slot_time es / real (length es) / 50) \<le> 1"
  using slot_time_nonneg [OF assms] by auto

lemma weigh_bounds:
  fixes a b :: real
  assumes "0 \<le> a" "a \<le> 1" "0 \<le> b" "b \<le> 1"
  shows "0 \<le> a * (7 / 10) + b * (3 / 10)" and "a * (7 / 10) + b * (3 / 10) \<le> 1"
  using assms by linarith+

lemma slot_score_bounds:
  assumes "\<forall>e \<in> set es. 0 \<le> fst (snd e)"
  shows "0 \<le> slot_score es" and "slot_score es \<le> 1"
proof -
  have a: "0 \<le> min (real (slot_blocked es) / real (length es) * 2) 1" "min (real (slot_blocked es) / real (length es) * 2) 1 \<le> 1"
    by simp_all
  show "0 \<le> slot_score es" and "slot_score es \<le> 1"
    unfolding slot_score_def by (rule weigh_bounds [OF a slot_speed_bounds [OF assms]])+
qed



text \<open>
  The effectiveness of a slot rewards blocking: an endpoint that blocks nothing scores 1 after its first request and at most 0.3
  from the second on, one that blocks at least half of its requests scores at least 0.7, whoever sent them.\<close>
theorem effectiveness_rewards_blocking:
  assumes "length es \<ge> 2" and "\<forall>e \<in> set es. 0 \<le> fst (snd e)" and "slot_metrics es = Some m"
  shows "(slot_blocked es = 0 \<longrightarrow> rm_effectivenessScore m \<le> 3 / 10 \<and> map_option rm_effectivenessScore (slot_metrics (take 1 es)) = Some 1)
    \<and> (2 * slot_blocked es \<ge> length es \<longrightarrow> rm_effectivenessScore m \<ge> 7 / 10)"
proof (intro conjI impI)
  have ne: "es \<noteq> []" using assms(1) by auto
  have m: "rm_effectivenessScore m = slot_score es" using slot_metrics_measures [OF ne] assms(1,3) by auto
  note speed = slot_speed_bounds [OF assms(2)]
  show "rm_effectivenessScore m \<le> 3 / 10" if "slot_blocked es = 0" using m that speed by (simp add: slot_score_def)
  show "map_option rm_effectivenessScore (slot_metrics (take 1 es)) = Some 1" if "slot_blocked es = 0"
  proof -
    obtain ok rt now r where e: "es = (ok, rt, now) # r" using ne by (cases es) auto
    then have ok using that by (auto simp: slot_blocked_def split: if_splits)
    then show ?thesis by (simp add: e slot_metrics_def slot_step_def updateMetrics_def first_metrics_of_def)
  qed
  show "rm_effectivenessScore m \<ge> 7 / 10" if "2 * slot_blocked es \<ge> length es"
  proof -
    have "real (length es) \<le> real (slot_blocked es) * 2" using that by linarith
    then have "min (real (slot_blocked es) / real (length es) * 2) 1 = 1" using ne by (simp add: min_def pos_le_divide_eq)
    then show ?thesis unfolding m slot_score_def using speed(1) by simp
  qed
qed

theorem effectiveness_rewards_blocking_witness:
  "rm_effectivenessScore (the (slot_metrics [(True, 1, 0), (True, 1, 1)])) \<le> 3 / 10
   \<and> rm_effectivenessScore (the (slot_metrics [(False, 1, 0), (False, 1, 1)])) \<ge> 7 / 10"
  using effectiveness_rewards_blocking [of "[(True, 1, 0), (True, 1, 1)]"] effectiveness_rewards_blocking [of "[(False, 1, 0), (False, 1, 1)]"]
  by (simp add: slot_blocked_def slot_metrics_def slot_step_def updateMetrics_def)

section \<open>Violators\<close>

definition violations_of :: "string \<Rightarrow> rl_violation list \<Rightarrow> rl_violation list" where
  "violations_of k vs = filter (\<lambda>v. rv_identifier v = k) vs"

definition violator_ok :: "rl_violation list \<Rightarrow> string \<Rightarrow> violator \<Rightarrow> bool" where
  "violator_ok vs k w \<longleftrightarrow>
     vi_identifier w = k \<and> violations_of k vs \<noteq> [] \<and> vi_violationCount w = int (length (violations_of k vs))
     \<and> vi_ipAddress w = rv_ipAddress (hd (violations_of k vs)) \<and> vi_countryCode w = rv_countryCode (hd (violations_of k vs))
     \<and> vi_lastViolation w = Max (rv_timestamp ` set (violations_of k vs))"

lemma violations_of_snoc [simp]:
  "violations_of k (vs @ [v]) = (if rv_identifier v = k then violations_of k vs @ [v] else violations_of k vs)"
  by (simp add: violations_of_def)

lemma violations_of_nil [simp]: "violations_of k [] = []"
  by (simp add: violations_of_def)

lemma count_violation_snoc:
  assumes inv: "\<And>k. case map_of m k of None \<Rightarrow> violations_of k vs = [] | Some w \<Rightarrow> violator_ok vs k w"
  shows "case map_of (count_violation v m) k of None \<Rightarrow> violations_of k (vs @ [v]) = [] | Some w \<Rightarrow> violator_ok (vs @ [v]) k w"
proof (cases "rv_identifier v = k")
  case False
  then show ?thesis using inv [of k] by (auto simp: count_violation_def Let_def update_conv' violator_ok_def split: option.splits)
next
  case True
  then show ?thesis using inv [of k]
    by (cases "map_of m k")
       (auto simp: count_violation_def Let_def update_conv' violator_ok_def Max_insert max_def not_less simp del: Max_less_iff Max_ge_iff Max_le_iff Max_gr_iff)
qed

lemma counted_violations:
  "case map_of (fold count_violation vs []) k of None \<Rightarrow> violations_of k vs = [] | Some w \<Rightarrow> violator_ok vs k w"
  by (induction vs arbitrary: k rule: rev_induct) (simp_all add: count_violation_snoc)

lemma counted_distinct: "distinct (map fst (fold count_violation vs []))"
  by (induction vs rule: rev_induct) (simp_all add: count_violation_def Let_def distinct_update)

lemma take_sorted_least:
  fixes f :: "'a \<Rightarrow> 'b::linorder"
  assumes "x \<in> set (take n (sort_key f xs))" and "y \<in> set xs" and "y \<notin> set (take n (sort_key f xs))"
  shows "f x \<le> f y"
proof -
  have "y \<in> set (drop n (sort_key f xs))" using assms(2,3) by (metis Un_iff append_take_drop_id set_append set_sort)
  moreover have "sorted (map f (take n (sort_key f xs) @ drop n (sort_key f xs)))" by simp
  ultimately show ?thesis using assms(1) unfolding map_append sorted_append by auto
qed

lemma counted_member:
  "w \<in> set (map snd (fold count_violation vs [])) \<longleftrightarrow> (\<exists>k. map_of (fold count_violation vs []) k = Some w)"
  using counted_distinct [of vs] by (force simp: image_iff)

lemma counted_known: "w \<in> set (map snd (fold count_violation vs [])) \<Longrightarrow> violator_ok vs (vi_identifier w) w"
  using counted_violations [where vs = vs] unfolding counted_member by (metis option.simps(5) violator_ok_def)

text \<open>
  The top violators: at most ten entries, in descending order of count; each has the number of violations of its identifier,
  the address and country of the first and the time of the latest one; an identifier that is not listed has no more violations than any that
  is.\<close>
theorem top_violators:
  assumes "w \<in> set (getTopViolators vs)"
  shows "length (getTopViolators vs) \<le> 10 \<and> sorted (map (\<lambda>w. - vi_violationCount w) (getTopViolators vs))
    \<and> violator_ok vs (vi_identifier w) w
    \<and> (\<forall>v \<in> set vs. rv_identifier v \<in> vi_identifier ` set (getTopViolators vs)
         \<or> int (length (violations_of (rv_identifier v) vs)) \<le> vi_violationCount w)"
proof (intro conjI ballI)
  let ?all = "map snd (fold count_violation vs [])"
  let ?f = "\<lambda>w. - vi_violationCount w"
  have sub: "set (getTopViolators vs) \<subseteq> set ?all" unfolding getTopViolators_def by (metis set_sort set_take_subset)
  show "length (getTopViolators vs) \<le> 10" by (simp add: getTopViolators_def)
  show "sorted (map ?f (getTopViolators vs))"
    unfolding getTopViolators_def take_map [symmetric] by (rule sorted_wrt_take) simp
  show "violator_ok vs (vi_identifier w) w" using sub assms counted_known by blast
  fix v assume "v \<in> set vs"
  then have "violations_of (rv_identifier v) vs \<noteq> []" by (auto simp: violations_of_def filter_empty_conv)
  then obtain u where u: "map_of (fold count_violation vs []) (rv_identifier v) = Some u" "violator_ok vs (rv_identifier v) u"
    using counted_violations [where vs = vs and k = "rv_identifier v"] by (auto split: option.splits)
  then have "u \<in> set ?all" by (meson counted_member)
  then have "u \<in> set (getTopViolators vs) \<or> ?f w \<le> ?f u"
    using take_sorted_least [of w 10 ?f ?all u] assms unfolding getTopViolators_def by blast
  then show "rv_identifier v \<in> vi_identifier ` set (getTopViolators vs)
      \<or> int (length (violations_of (rv_identifier v) vs)) \<le> vi_violationCount w"
    using u(2) unfolding violator_ok_def by force
qed

definition a_violation :: "string \<Rightarrow> time_ms \<Rightarrow> rl_violation" where
  "a_violation ident t =
     \<lparr>rv_identifier = ident, rv_endpoint = ''/login'', rv_ipAddress = ''10.0.0.1'', rv_timestamp = t, rv_requestCount = 1, rv_limitApplied = 5,
      rv_exceedBy = 1, rv_threatScore = 0, rv_userProfile = None, rv_countryCode = None, rv_action = ''blocked'', rv_severity = Vs_low\<rparr>"

definition some_violations :: "rl_violation list" where
  "some_violations = [a_violation ''a'' 1, a_violation ''b'' 3, a_violation ''b'' 2]"

lemma some_violators: "map vi_identifier (getTopViolators some_violations) = [''b'', ''a'']"
  by code_simp

theorem top_violators_witness: "\<exists>w \<in> set (getTopViolators some_violations). vi_violationCount w = 2 \<and> vi_lastViolation w = 3"
proof -
  have "''b'' \<in> set (map vi_identifier (getTopViolators some_violations))" unfolding some_violators by simp
  then obtain w where w: "w \<in> set (getTopViolators some_violations)" "vi_identifier w = ''b''" unfolding set_map by (metis imageE)
  have "vi_violationCount w = 2 \<and> vi_lastViolation w = 3"
    using top_violators [OF w(1)] w(2) by (simp add: violator_ok_def violations_of_def some_violations_def a_violation_def)
  then show ?thesis using w(1) by blast
qed

section \<open>Stubs\<close>

lemma track_constant: "fst (trackEffectiveness now) = 8 / 10 \<and> fst (snd (trackEffectiveness now)) = Tr_stable"
proof -
  have "rev [0..24] = [24, 23, 22, 21, 20, 19, 18, 17, 16, 15, 14, 13, 12, 11, 10, 9, 8, 7, 6, 5, 4, 3, 2, 1, (0::int)]"
    by (simp add: upto.simps)
  then show ?thesis
    by (simp add: trackEffectiveness_def getOverallMetrics_def js_slice_def js_slice_from_def slice_index_def Let_def del: upto_rec_numeral)
qed

text \<open>
  The reports do not depend on what was recorded: after any violations no insight is produced, the effectiveness is 0.8 with a stable trend, the
  overall measurements are zero, and tuning is proposed only by the two thresholds of the configuration.\<close>
theorem reports_are_constant:
  "fst (rla_generateInsights a) = [] \<and> fst (trackEffectiveness now) = 8 / 10 \<and> fst (snd (trackEffectiveness now)) = Tr_stable
   \<and> (let r = rla_getAnalytics now s e g a in
       rm_totalRequests (ar_overallMetrics r) = 0 \<and> ar_groups r = (\<lambda>_. [])
       \<and> set (ar_recommendations r) \<subseteq> {Rr_repeat_violators})
   \<and> (let r = fst (getOptimizationRecommendations now a) in
       or_currentEffectiveness r = 8 / 10 \<and> or_immediate r = [] \<and> or_shortTerm r = [] \<and> or_longTerm r = []
       \<and> or_optimizations r =
          (if 2 / 100 > falsePositiveThreshold (rla_config a) then [Op_threshold_tuning (2 / 100)] else [])
          @ (if 8 / 10 < optimizationThreshold (rla_config a) then [Op_policy_adjustment (8 / 10)] else []))"
  using track_constant [of now]
  by (auto simp: rla_generateInsights_def detectAbusePatterns_def identifyOptimizations_def detectPerformanceIssues_def
      detectGeographicThreats_def detectTemporalAnomalies_def getOverallMetrics_def
      rla_getAnalytics_def getGroupedMetrics_def rla_generateRecommendations_def getOptimizationRecommendations_def Let_def)

end
