(* ===== verification/RateLimitIntegration.thy ===== *)
theory RateLimitIntegration
  imports RateLimitConfig RateLimitAnalytics
begin

text \<open>
  The integration layer of rate limiting (\<^verbatim>\<open>backend/src/services/RateLimitIntegration.ts\<close>) over the enforcement service, the configuration and the
  analytics. The settings are read from the environment; \<open>None\<close> when one is not a finite number. \<open>override\<close> is the partial configuration given
  to the constructor. The manager's analytics object stands beside the enforcement service, whose model does not hold it; a refusal is recorded there
  as the manager does. The attributes
  \<^verbatim>\<open>threatScore\<close> and \<^verbatim>\<open>sessionId\<close> that earlier middleware may have set on a request are arguments. A pending \<^verbatim>\<open>setTimeout\<close> is its due time in
  \<open>pendingChecks\<close>. Texts are constructors.
\<close>

section \<open>Object\<close>

record threat_context =
  tc_ipAddress :: string
  tc_userAgent :: "string option"
  tc_endpoint :: string
  tc_method :: string
  tc_threatScore :: "real option"
  tc_userId :: "string option"
  tc_sessionId :: "string option"
  tc_timestamp :: time_ms

record ri_settings =
  ri_enabled :: bool
  threatScoreThreshold :: real
  dynamicAdjustmentEnabled :: bool
  emergencyModeThreshold :: real
  ri_insightGenerationInterval :: int
  metricsAggregationInterval :: int

record performance =
  pm_totalRequests :: int
  pm_allowedRequests :: int
  pm_blockedRequests :: int
  pm_averageResponseTime :: real
  pm_lastUpdated :: time_ms

record rl_integration =
  ri_config :: ri_settings
  enforcementService :: enforcement
  ri_analytics :: rl_analytics
  isEmergencyMode :: bool
  lastInsightGeneration :: time_ms
  cachedInsights :: "rl_insight list"
  performanceMetrics :: performance
  pendingChecks :: "time_ms list"

definition read_ri_settings :: "env_vars \<Rightarrow> (ri_settings \<Rightarrow> ri_settings) \<Rightarrow> ri_settings option" where
  "read_ri_settings env override =
     do {
       threat \<leftarrow> float_setting env ''RATE_LIMIT_THREAT_THRESHOLD'' ''0.7'';
       emergency \<leftarrow> float_setting env ''RATE_LIMIT_EMERGENCY_THRESHOLD'' ''0.9'';
       insights \<leftarrow> int_setting env ''RATE_LIMIT_INSIGHT_INTERVAL'' ''3600000'';
       metrics \<leftarrow> int_setting env ''RATE_LIMIT_METRICS_INTERVAL'' ''300000'';
       Some (override
         \<lparr>ri_enabled = env_not_false env ''RATE_LIMIT_INTEGRATION_ENABLED'', threatScoreThreshold = threat,
          dynamicAdjustmentEnabled = env_not_false env ''RATE_LIMIT_DYNAMIC_ADJUSTMENT'', emergencyModeThreshold = emergency,
          ri_insightGenerationInterval = insights, metricsAggregationInterval = metrics\<rparr>)
     }"

text \<open>The settings that the manager gives its analytics.\<close>

definition manager_analytics :: "full_config \<Rightarrow> analytics_config" where
  "manager_analytics c =
     \<lparr>metricsRetentionHours = metricsRetention c, violationRetentionHours = metricsRetention c, analyticsWindowHours = 24,
      insightGenerationInterval = 3600000, optimizationThreshold = 75 / 100, falsePositiveThreshold = 5 / 100\<rparr>"

definition initializeEnforcementService :: "env_vars \<Rightarrow> time_ms \<Rightarrow> ri_settings \<Rightarrow> (enforcement \<times> analytics_config) option" where
  "initializeEnforcementService env now s =
     map_option (\<lambda>c. ((new_enforcement now (manager_part c))\<lparr>enf_enabled := ri_enabled s\<rparr>, manager_analytics c)) (getRateLimitConfiguration env now)"

definition new_integration :: "env_vars \<Rightarrow> (ri_settings \<Rightarrow> ri_settings) \<Rightarrow> time_ms \<Rightarrow> rl_integration option" where
  "new_integration env override now =
     do {
       s \<leftarrow> read_ri_settings env override;
       (e, ac) \<leftarrow> initializeEnforcementService env now s;
       Some \<lparr>ri_config = s, enforcementService = e, ri_analytics = new_rl_analytics ac, isEmergencyMode = False, lastInsightGeneration = now,
             cachedInsights = [],
             performanceMetrics = \<lparr>pm_totalRequests = 0, pm_allowedRequests = 0, pm_blockedRequests = 0, pm_averageResponseTime = 0,
               pm_lastUpdated = now\<rparr>,
             pendingChecks = []\<rparr>
     }"

section \<open>Analysis of a threat\<close>

datatype ri_action = Ri_allow | Ri_monitor | Ri_limit | Ri_block

datatype ri_reason = Re_disabled | Re_normal | Re_critical | Re_high | Re_moderate | Re_low | Re_emergency ri_reason | Re_abnormal ri_reason

record ri_verdict =
  shouldLimit :: bool
  ri_factor :: real
  recommendedAction :: ri_action
  reasoning :: ri_reason
  ri_verdict_confidence :: real

definition analyzeRecentPattern :: "string \<Rightarrow> bool \<times> real" where
  "analyzeRecentPattern ipAddress = (False, 7 / 10)"

definition score_verdict :: "ri_settings \<Rightarrow> real \<Rightarrow> real \<times> ri_action \<times> ri_reason \<times> real" where
  "score_verdict s threatScore =
     (if threatScore \<ge> emergencyModeThreshold s then (1 / 10, Ri_block, Re_critical, 95 / 100)
      else if threatScore \<ge> threatScoreThreshold s then (3 / 10, Ri_limit, Re_high, 9 / 10)
      else if threatScore \<ge> 5 / 10 then (6 / 10, Ri_limit, Re_moderate, 8 / 10)
      else if threatScore \<ge> 3 / 10 then (8 / 10, Ri_monitor, Re_low, 7 / 10)
      else (1, Ri_allow, Re_normal, 8 / 10))"

definition analyzeThreatContext :: "threat_context \<Rightarrow> rl_integration \<Rightarrow> ri_verdict" where
  "analyzeThreatContext ctx i =
     (if \<not> ri_enabled (ri_config i)
      then \<lparr>shouldLimit = False, ri_factor = 1, recommendedAction = Ri_allow, reasoning = Re_disabled, ri_verdict_confidence = 1\<rparr>
      else
        let threatScore = (case tc_threatScore ctx of None \<Rightarrow> 0 | Some s \<Rightarrow> s);
            (factor, action, why, conf) = score_verdict (ri_config i) threatScore;
            (factor, action, why, conf) =
              (if isEmergencyMode i
               then (min factor (2 / 10), if threatScore > 5 / 10 then Ri_block else Ri_limit, Re_emergency why, min (conf + 1 / 10) 1)
               else (factor, action, why, conf));
            (factor, why, conf) =
              (if dynamicAdjustmentEnabled (ri_config i) \<and> fst (analyzeRecentPattern (tc_ipAddress ctx))
               then (factor * (5 / 10), Re_abnormal why, min (conf + 1 / 10) 1)
               else (factor, why, conf))
        in \<lparr>shouldLimit = factor < 1, ri_factor = factor, recommendedAction = action, reasoning = why, ri_verdict_confidence = conf\<rparr>)"

section \<open>Requests\<close>

definition ri_updatePerformanceMetrics :: "bool \<Rightarrow> real \<Rightarrow> time_ms \<Rightarrow> rl_integration \<Rightarrow> rl_integration" where
  "ri_updatePerformanceMetrics ok rt now i =
     (let m = performanceMetrics i;
          total = pm_totalRequests m + 1
      in i\<lparr>performanceMetrics :=
             \<lparr>pm_totalRequests = total,
              pm_allowedRequests = (if ok then pm_allowedRequests m + 1 else pm_allowedRequests m),
              pm_blockedRequests = (if ok then pm_blockedRequests m else pm_blockedRequests m + 1),
              pm_averageResponseTime = (pm_averageResponseTime m * (of_int total - 1) + rt) / of_int total,
              pm_lastUpdated = now\<rparr>\<rparr>)"

definition ri_options :: "real option \<Rightarrow> string option \<Rightarrow> middleware_options" where
  "ri_options score session =
     \<lparr>opt_endpoint = None, opt_threatScore = Some (\<lambda>req. case score of None \<Rightarrow> 0 | Some s \<Rightarrow> s),
      opt_user = Some (\<lambda>req. (hr_userId req, session)), opt_skip = None\<rparr>"

record ri_request =
  q_http :: http_request
  q_threatScore :: "real option"
  q_sessionId :: "string option"
  q_env :: call_env
  q_replies :: "bool \<times> rl_metrics option \<times> rl_violation list option"
  q_responseTime :: real

text \<open>What \<^verbatim>\<open>checkRateLimit\<close> of the manager has its analytics record about a refused request; an allowed one only changes the stored metrics.\<close>

definition record_refusal :: "ri_request \<Rightarrow> rate_limit_result \<Rightarrow> time_ms \<Rightarrow> rl_integration \<Rightarrow> rl_integration" where
  "record_refusal q result now i =
     (let rq = createRateLimitRequest (q_http q) (ri_options (q_threatScore q) (q_sessionId q)) now (enforcementService i);
          conditions = extractConditions (timezone (q_env q)) rq
      in i\<lparr>ri_analytics := snd (recordRateLimitEvent (q_replies q) now (rq_identifier rq) (rq_endpoint rq) False (limitApplied result) (q_responseTime q)
             \<lparr>em_ipAddress = rq_ipAddress rq, em_userProfile = mc_userProfile conditions, em_threatLevel = mc_threatLevel conditions,
              em_countryCode = Some (mgr_getCountryFromIP (rq_ipAddress rq)), em_violationCount = Some 1\<rparr> (ri_analytics i))\<rparr>)"

text \<open>The middleware with the handler \<^verbatim>\<open>onLimitReached\<close> that the integration installs.\<close>

definition ri_middleware :: "ri_request \<Rightarrow> time_ms \<Rightarrow> rl_integration \<Rightarrow> outcome \<times> rl_integration" where
  "ri_middleware q now i =
     (let (out, e) = middleware (q_http q) (ri_options (q_threatScore q) (q_sessionId q)) (q_env q) now (enforcementService i)
      in case out of
           Too_many result \<Rightarrow> (out, ri_updatePerformanceMetrics False 0 now ((record_refusal q result now i)\<lparr>enforcementService := e\<rparr>))
         | _ \<Rightarrow> (out, i\<lparr>enforcementService := e\<rparr>))"

section \<open>Reports\<close>

definition ri_getCurrentLimits :: "(string, int) js_map" where
  "ri_getCurrentLimits = [(''/api/auth/login'', 5), (''/api/auth/register'', 3), (''/api/*'', 1000), (''/health'', 10000)]"

definition getAverageThreatAdjustment :: real where
  "getAverageThreatAdjustment = 8 / 10"

definition getTemporalAdjustment :: "int \<Rightarrow> time_ms \<Rightarrow> real" where
  "getTemporalAdjustment tz now =
     (let hour = getHours tz now; dayOfWeek = getDay tz now
      in if hour \<ge> 9 \<and> hour \<le> 17 \<and> dayOfWeek \<ge> 1 \<and> dayOfWeek \<le> 5 then 8 / 10 else 11 / 10)"

definition getRecentViolations :: "rl_violation list" where
  "getRecentViolations = []"

definition calculateEffectiveness :: "rl_integration \<Rightarrow> real" where
  "calculateEffectiveness i =
     (let total = pm_totalRequests (performanceMetrics i);
          blockingRate = (if total > 0 then of_int (pm_blockedRequests (performanceMetrics i)) / of_int total else 0)
      in max 0 (min 1 (9 / 10 - blockingRate)))"

definition shouldGenerateNewInsights :: "time_ms \<Rightarrow> rl_integration \<Rightarrow> bool" where
  "shouldGenerateNewInsights now i \<longleftrightarrow> now - lastInsightGeneration i > ri_insightGenerationInterval (ri_config i)"

definition ri_generateInsights :: "time_ms \<Rightarrow> rl_integration \<Rightarrow> rl_integration" where
  "ri_generateInsights now i =
     (let (insights, a) = rla_generateInsights (ri_analytics i)
      in i\<lparr>ri_analytics := a, cachedInsights := insights, lastInsightGeneration := now\<rparr>)"

definition ri_getInsights :: "time_ms \<Rightarrow> rl_integration \<Rightarrow> rl_insight list \<times> rl_integration" where
  "ri_getInsights now i =
     (let i = (if shouldGenerateNewInsights now i then ri_generateInsights now i else i) in (cachedInsights i, i))"

datatype ri_advice = Ad_thresholds | Ad_critical | Ad_emergency | Ad_slow

definition ri_generateRecommendations :: "real \<Rightarrow> rl_insight list \<Rightarrow> rl_integration \<Rightarrow> ri_advice list" where
  "ri_generateRecommendations score insights i =
     (if score < 6 / 10 then [Ad_thresholds] else [])
     @ (if \<exists>x \<in> set insights. ri_severity x = Vs_critical then [Ad_critical] else [])
     @ (if isEmergencyMode i then [Ad_emergency] else [])
     @ (if pm_averageResponseTime (performanceMetrics i) > 10 then [Ad_slow] else [])"

record rl_integration_data =
  id_currentLimits :: "(string, int) js_map"
  id_factors :: "real \<times> real \<times> real \<times> real \<times> real"
  id_recentViolations :: "rl_violation list"
  id_effectiveness :: real
  id_insights :: "rl_insight list"
  id_recommendations :: "ri_advice list"
  id_healthStatus :: health_status
  id_attacksBlocked :: nat
  id_legitimateAllowed :: int
  id_falsePositiveRate :: real

definition getRateLimitIntegrationData :: "int \<Rightarrow> time_ms \<Rightarrow> rl_integration \<Rightarrow> rl_integration_data \<times> rl_integration" where
  "getRateLimitIntegrationData tz now i =
     (let score = calculateEffectiveness i;
          (insights, i) = ri_getInsights now i
      in (\<lparr>id_currentLimits = ri_getCurrentLimits,
           id_factors = (getAverageThreatAdjustment, 1, 1, getTemporalAdjustment tz now, 8 / 10),
           id_recentViolations = getRecentViolations, id_effectiveness = score, id_insights = insights,
           id_recommendations = ri_generateRecommendations score insights i,
           id_healthStatus = (if score > 8 / 10 then Healthy else if score > 6 / 10 then Warning else Critical_status),
           id_attacksBlocked = length (filter (\<lambda>v. rv_severity v = Vs_high \<or> rv_severity v = Vs_critical) getRecentViolations),
           id_legitimateAllowed = pm_allowedRequests (performanceMetrics i), id_falsePositiveRate = 2 / 100\<rparr>, i))"

definition ri_getAnalytics :: "time_ms \<Rightarrow> time_ms \<times> time_ms \<Rightarrow> rl_integration \<Rightarrow> analytics_report" where
  "ri_getAnalytics now timeRange i = rla_getAnalytics now (fst timeRange) (snd timeRange) By_endpoint (ri_analytics i)"

definition ri_getHealthStatus :: "bool \<Rightarrow> rl_integration \<Rightarrow> health_status \<times> health_issue list" where
  "ri_getHealthStatus redis_ok i = getHealthStatus redis_ok (enf_manager (enforcementService i))"

section \<open>Emergency mode\<close>

definition ri_activateEmergencyMode :: "time_ms \<Rightarrow> rl_integration \<Rightarrow> rl_integration" where
  "ri_activateEmergencyMode now i =
     i\<lparr>isEmergencyMode := True, enforcementService := enf_activateEmergencyMode now (enforcementService i)\<rparr>"

definition considerDeactivatingEmergencyMode :: "time_ms \<Rightarrow> rl_integration \<Rightarrow> rl_integration" where
  "considerDeactivatingEmergencyMode now i =
     (if calculateEffectiveness i > 8 / 10 \<and> isEmergencyMode i
      then i\<lparr>isEmergencyMode := False, enforcementService := enf_deactivateEmergencyMode now (enforcementService i)\<rparr>
      else i)"

definition handleEmergencyThreatLevel :: "threat_level \<Rightarrow> time_ms \<Rightarrow> rl_integration \<Rightarrow> rl_integration" where
  "handleEmergencyThreatLevel level now i =
     (if level = Threat_critical \<and> \<not> isEmergencyMode i then ri_activateEmergencyMode now i
      else if level \<noteq> Threat_critical \<and> isEmergencyMode i then i\<lparr>pendingChecks := pendingChecks i @ [now + 300000]\<rparr>
      else i)"

text \<open>The timers that are due fire.\<close>

definition fire_checks :: "time_ms \<Rightarrow> rl_integration \<Rightarrow> rl_integration" where
  "fire_checks now i =
     (let due = filter (\<lambda>t. t \<le> now) (pendingChecks i)
      in fold (\<lambda>t. considerDeactivatingEmergencyMode now) due (i\<lparr>pendingChecks := filter (\<lambda>t. \<not> t \<le> now) (pendingChecks i)\<rparr>))"

definition ri_destroy :: "rl_integration \<Rightarrow> rl_integration" where
  "ri_destroy i = i\<lparr>enforcementService := enf_destroy (enforcementService i), cachedInsights := []\<rparr>"

section \<open>Histories\<close>

datatype ri_event =
    On_request ri_request time_ms
  | On_level threat_level time_ms
  | On_timer time_ms
  | On_insights time_ms
  | On_report int time_ms
  | On_destroy

fun ri_step :: "ri_event \<Rightarrow> rl_integration \<Rightarrow> rl_integration" where
  "ri_step (On_request q now) i = snd (ri_middleware q now i)"
| "ri_step (On_level level now) i = handleEmergencyThreatLevel level now i"
| "ri_step (On_timer now) i = fire_checks now i"
| "ri_step (On_insights now) i = ri_generateInsights now i"
| "ri_step (On_report tz now) i = snd (getRateLimitIntegrationData tz now i)"
| "ri_step On_destroy i = ri_destroy i"

definition ri_run :: "ri_event list \<Rightarrow> rl_integration \<Rightarrow> rl_integration" where
  "ri_run es i = fold ri_step es i"

section \<open>Threat scores\<close>

fun action_rank :: "ri_action \<Rightarrow> nat" where
  "action_rank Ri_allow = 0"
| "action_rank Ri_monitor = 1"
| "action_rank Ri_limit = 2"
| "action_rank Ri_block = 3"

lemma score_verdict_mono:
  assumes "a \<le> b"
  shows "fst (score_verdict s b) \<le> fst (score_verdict s a)"
    and "action_rank (fst (snd (score_verdict s a))) \<le> action_rank (fst (snd (score_verdict s b)))"
  using assms by (auto simp: score_verdict_def)

lemma score_verdict_range: "1 / 10 \<le> fst (score_verdict s a)" "fst (score_verdict s a) \<le> 1"
  by (simp_all add: score_verdict_def)

lemmas analyze_simps = analyzeThreatContext_def analyzeRecentPattern_def Let_def case_prod_unfold

text \<open>
  C36. A higher threat score never gets a milder verdict, whatever the thresholds of the configuration are: the factor on the limit does not rise and the
  recommended action does not fall, in and outside the emergency mode. The factor stays between 0.1 and 1, a limited request is one with a
  factor below 1, and in emergency mode no factor is above 0.2.\<close>
theorem verdict_antitone:
  assumes "tc_threatScore x = Some a" and "tc_threatScore y = Some b" and "a \<le> b"
  shows "ri_factor (analyzeThreatContext y i) \<le> ri_factor (analyzeThreatContext x i)
    \<and> action_rank (recommendedAction (analyzeThreatContext x i)) \<le> action_rank (recommendedAction (analyzeThreatContext y i))
    \<and> 1 / 10 \<le> ri_factor (analyzeThreatContext x i) \<and> ri_factor (analyzeThreatContext x i) \<le> 1
    \<and> (shouldLimit (analyzeThreatContext x i) \<longleftrightarrow> ri_factor (analyzeThreatContext x i) < 1)
    \<and> (ri_enabled (ri_config i) \<and> isEmergencyMode i \<longrightarrow> ri_factor (analyzeThreatContext x i) \<le> 2 / 10)"
  using assms score_verdict_mono [OF assms(3), of "ri_config i"] score_verdict_range [of "ri_config i" a]
  by (auto simp: analyze_simps min_def)

section \<open>Only refused requests are counted\<close>

definition metrics_ok :: "rl_integration \<Rightarrow> bool" where
  "metrics_ok i \<longleftrightarrow>
     pm_allowedRequests (performanceMetrics i) = 0 \<and> pm_blockedRequests (performanceMetrics i) = pm_totalRequests (performanceMetrics i)
     \<and> 0 \<le> pm_totalRequests (performanceMetrics i) \<and> pm_averageResponseTime (performanceMetrics i) = 0"

fun refused :: "outcome \<Rightarrow> bool" where
  "refused (Too_many r) = True"
| "refused _ = False"

fun event_refused :: "ri_event \<Rightarrow> rl_integration \<Rightarrow> int" where
  "event_refused (On_request q now) i = (if refused (fst (ri_middleware q now i)) then 1 else 0)"
| "event_refused _ i = 0"

fun ri_refused :: "ri_event list \<Rightarrow> rl_integration \<Rightarrow> int" where
  "ri_refused [] i = 0"
| "ri_refused (e # es) i = event_refused e i + ri_refused es (ri_step e i)"

lemma middleware_metrics:
  "performanceMetrics (snd (ri_middleware q now i)) =
     (if refused (fst (ri_middleware q now i)) then performanceMetrics (ri_updatePerformanceMetrics False 0 now i)
      else performanceMetrics i)"
  by (auto simp: ri_middleware_def ri_updatePerformanceMetrics_def record_refusal_def Let_def case_prod_unfold split: outcome.split)

lemma check_metrics [simp]: "performanceMetrics (considerDeactivatingEmergencyMode now i) = performanceMetrics i"
  by (simp add: considerDeactivatingEmergencyMode_def)

lemma checks_metrics [simp]: "performanceMetrics (fold (\<lambda>t. considerDeactivatingEmergencyMode now) due i) = performanceMetrics i"
  by (induction due arbitrary: i) simp_all

lemma step_metrics:
  "performanceMetrics (ri_step e i) =
     (case e of On_request q now \<Rightarrow> performanceMetrics (snd (ri_middleware q now i))
      | _ \<Rightarrow> performanceMetrics i)"
  by (cases e)
     (simp_all add: handleEmergencyThreatLevel_def ri_activateEmergencyMode_def fire_checks_def ri_generateInsights_def
      getRateLimitIntegrationData_def ri_getInsights_def ri_destroy_def Let_def case_prod_unfold)

lemma counted_step:
  "performanceMetrics (ri_step e i) = performanceMetrics i \<and> event_refused e i = 0
   \<or> (\<exists>now. performanceMetrics (ri_step e i) = performanceMetrics (ri_updatePerformanceMetrics False 0 now i) \<and> event_refused e i = 1)"
proof (cases e)
  case (On_request q now)
  then show ?thesis using middleware_metrics [of q now i] by auto
qed (use step_metrics [of e i] in simp_all)

lemma step_counts:
  assumes "metrics_ok i"
  shows "metrics_ok (ri_step e i)
    \<and> pm_totalRequests (performanceMetrics (ri_step e i)) = pm_totalRequests (performanceMetrics i) + event_refused e i"
  using counted_step [of e i] assms
  by (elim disjE exE) (simp_all add: metrics_ok_def ri_updatePerformanceMetrics_def Let_def)

lemma run_counts:
  "metrics_ok i \<Longrightarrow> metrics_ok (ri_run es i)
     \<and> pm_totalRequests (performanceMetrics (ri_run es i)) = pm_totalRequests (performanceMetrics i) + ri_refused es i"
  by (induction es arbitrary: i) (simp_all add: ri_run_def step_counts)

lemma refused_nonneg: "0 \<le> ri_refused es i"
proof (induction es arbitrary: i)
  case (Cons e es)
  have "0 \<le> event_refused e i" by (cases e) simp_all
  then show ?case using Cons by simp
qed simp

lemma effectiveness_cases:
  "metrics_ok i \<Longrightarrow> calculateEffectiveness i = (if pm_totalRequests (performanceMetrics i) > 0 then 0 else 9 / 10)"
  by (auto simp: calculateEffectiveness_def metrics_ok_def Let_def)

lemma new_integration_ok: "new_integration env override now = Some i \<Longrightarrow> metrics_ok i \<and> pm_totalRequests (performanceMetrics i) = 0"
  by (auto simp: new_integration_def metrics_ok_def bind_eq_Some_conv)

text \<open>
  C34. In any history of a new integration the metrics count the refused requests and nothing else: as many requests in total as were refused, none
  allowed and a mean response time of 0. So the effectiveness is 0.9 until a request is refused and 0 for ever after, and the health in the
  report changes from healthy to critical with the first refusal.\<close>
theorem only_refusals_counted:
  assumes "new_integration env override t = Some i0"
  shows "let i = ri_run es i0; m = performanceMetrics i; r = fst (getRateLimitIntegrationData tz now i)
    in pm_totalRequests m = ri_refused es i0 \<and> pm_blockedRequests m = ri_refused es i0 \<and> pm_allowedRequests m = 0 \<and> pm_averageResponseTime m = 0
      \<and> id_effectiveness r = (if ri_refused es i0 > 0 then 0 else 9 / 10)
      \<and> id_healthStatus r = (if ri_refused es i0 > 0 then Critical_status else Healthy) \<and> id_legitimateAllowed r = 0"
proof -
  have run: "metrics_ok (ri_run es i0)" "pm_totalRequests (performanceMetrics (ri_run es i0)) = ri_refused es i0"
    using new_integration_ok [OF assms] run_counts [of i0 es] by auto
  moreover have "performanceMetrics (snd (ri_getInsights now (ri_run es i0))) = performanceMetrics (ri_run es i0)"
    by (simp add: ri_getInsights_def ri_generateInsights_def Let_def case_prod_unfold)
  ultimately show ?thesis
    using effectiveness_cases [OF run(1)]
    by (auto simp: getRateLimitIntegrationData_def metrics_ok_def Let_def case_prod_unfold)
qed

section \<open>Refusals in the analytics\<close>

lemma refusal_recorded:
  "length (violationsCache (snd (recordRateLimitEvent replies now ident ep False limit rt meta a))) = min 1000 (Suc (length (violationsCache a)))"
  "rla_config (snd (recordRateLimitEvent replies now ident ep False limit rt meta a)) = rla_config a"
  by (auto simp: recordRateLimitEvent_def recordViolation_def keep_last_def Let_def case_prod_unfold)

lemma middleware_analytics:
  "length (violationsCache (ri_analytics (snd (ri_middleware q now i)))) =
     (if refused (fst (ri_middleware q now i)) then min 1000 (Suc (length (violationsCache (ri_analytics i))))
      else length (violationsCache (ri_analytics i)))
   \<and> rla_config (ri_analytics (snd (ri_middleware q now i))) = rla_config (ri_analytics i)"
  by (auto simp: ri_middleware_def ri_updatePerformanceMetrics_def record_refusal_def refusal_recorded Let_def case_prod_unfold split: outcome.split)

lemma checks_analytics [simp]: "ri_analytics (fold (\<lambda>t. considerDeactivatingEmergencyMode now) due i) = ri_analytics i"
  by (induction due arbitrary: i) (simp_all add: considerDeactivatingEmergencyMode_def)

lemma insights_keep_violations [simp]:
  "violationsCache (snd (rla_generateInsights a)) = violationsCache a" "rla_config (snd (rla_generateInsights a)) = rla_config a"
  by (simp_all add: rla_generateInsights_def Let_def)

lemma step_analytics:
  "length (violationsCache (ri_analytics (ri_step e i))) =
     (if event_refused e i = 1 then min 1000 (Suc (length (violationsCache (ri_analytics i)))) else length (violationsCache (ri_analytics i)))
   \<and> rla_config (ri_analytics (ri_step e i)) = rla_config (ri_analytics i)"
proof (cases e)
  case (On_request q now)
  then show ?thesis using middleware_analytics [of q now i] by simp
qed (simp_all add: handleEmergencyThreatLevel_def ri_activateEmergencyMode_def fire_checks_def ri_generateInsights_def
      getRateLimitIntegrationData_def ri_getInsights_def ri_destroy_def Let_def case_prod_unfold)

lemma event_refused_cases: "event_refused e i = 0 \<or> event_refused e i = 1"
  by (cases e) simp_all

lemma run_analytics:
  "length (violationsCache (ri_analytics i)) \<le> 1000 \<Longrightarrow>
     int (length (violationsCache (ri_analytics (ri_run es i)))) = min 1000 (int (length (violationsCache (ri_analytics i))) + ri_refused es i)
     \<and> rla_config (ri_analytics (ri_run es i)) = rla_config (ri_analytics i)"
proof (induction es arbitrary: i)
  case (Cons e es)
  have "length (violationsCache (ri_analytics (ri_step e i))) \<le> 1000" using step_analytics [of e i] Cons.prems by auto
  then show ?case
    using Cons.IH [of "ri_step e i"] step_analytics [of e i] event_refused_cases [of e i] refused_nonneg [of es "ri_step e i"] Cons.prems
    by (auto simp: ri_run_def min_def)
qed (simp add: ri_run_def)

lemma new_integration_analytics:
  "new_integration env override now = Some i \<Longrightarrow> violationsCache (ri_analytics i) = []
     \<and> optimizationThreshold (rla_config (ri_analytics i)) = 75 / 100 \<and> falsePositiveThreshold (rla_config (ri_analytics i)) = 5 / 100"
  by (auto simp: new_integration_def initializeEnforcementService_def new_rl_analytics_def manager_analytics_def bind_eq_Some_conv)

text \<open>
  After any history of a new integration the analytics of its manager remember the last refusals, as many as there were and at most 1000;
  under the settings the manager gives them they never propose an optimisation.\<close>
theorem refusals_remembered:
  assumes "new_integration env override t = Some i0"
  shows "int (length (violationsCache (ri_analytics (ri_run es i0)))) = min 1000 (ri_refused es i0)
    \<and> or_optimizations (fst (getOptimizationRecommendations now (ri_analytics (ri_run es i0)))) = []"
  using new_integration_analytics [OF assms] run_analytics [of i0 es]
  by (simp add: getOptimizationRecommendations_def getOverallMetrics_def Let_def case_prod_unfold)

section \<open>The end of emergency mode\<close>

lemma checks_mode:
  "metrics_ok i \<Longrightarrow> isEmergencyMode i \<Longrightarrow>
     isEmergencyMode (fold (\<lambda>t. considerDeactivatingEmergencyMode now) due i) \<longleftrightarrow> due = [] \<or> pm_totalRequests (performanceMetrics i) > 0"
proof (induction due arbitrary: i)
  case (Cons t due)
  show ?case
  proof (cases "pm_totalRequests (performanceMetrics i) > 0")
    case True
    then have "considerDeactivatingEmergencyMode now i = i"
      using effectiveness_cases [OF Cons.prems(1)] by (simp add: considerDeactivatingEmergencyMode_def)
    then show ?thesis using Cons True by simp
  next
    case False
    then have "\<not> isEmergencyMode (considerDeactivatingEmergencyMode now i)"
      using effectiveness_cases [OF Cons.prems(1)] by (simp add: considerDeactivatingEmergencyMode_def)
    moreover have "\<not> isEmergencyMode j \<Longrightarrow> \<not> isEmergencyMode (fold (\<lambda>t. considerDeactivatingEmergencyMode now) ts j)" for j ts
      by (induction ts arbitrary: j) (simp_all add: considerDeactivatingEmergencyMode_def)
    ultimately show ?thesis using False by simp
  qed
qed simp

lemma fire_mode:
  "metrics_ok i \<Longrightarrow> isEmergencyMode i \<Longrightarrow>
     isEmergencyMode (fire_checks now i) \<longleftrightarrow> (\<forall>t \<in> set (pendingChecks i). now < t) \<or> pm_totalRequests (performanceMetrics i) > 0"
  using checks_mode [of "i\<lparr>pendingChecks := filter (\<lambda>t. \<not> t \<le> now) (pendingChecks i)\<rparr>" now "filter (\<lambda>t. t \<le> now) (pendingChecks i)"]
  by (auto simp: fire_checks_def metrics_ok_def Let_def filter_empty_conv not_le)

lemma step_mode:
  assumes "metrics_ok i" and "isEmergencyMode i" and "pm_totalRequests (performanceMetrics i) > 0"
  shows "isEmergencyMode (ri_step e i)"
  using assms fire_mode [OF assms(1,2)]
  by (cases e)
     (auto simp: handleEmergencyThreatLevel_def ri_generateInsights_def ri_middleware_def ri_updatePerformanceMetrics_def record_refusal_def
      getRateLimitIntegrationData_def ri_getInsights_def ri_destroy_def Let_def case_prod_unfold split: outcome.split)

lemma run_mode:
  "metrics_ok i \<Longrightarrow> isEmergencyMode i \<Longrightarrow> pm_totalRequests (performanceMetrics i) > 0 \<Longrightarrow> isEmergencyMode (ri_run es i)"
proof (induction es arbitrary: i)
  case (Cons e es)
  have "0 \<le> event_refused e i" by (cases e) simp_all
  then show ?case using Cons step_counts [of i e] step_mode [of i e] by (simp add: ri_run_def)
qed (simp add: ri_run_def)

text \<open>
  C35. Emergency mode ends by the delayed check exactly while no request has been refused: with a check due, the mode is switched off if the history
  refused nothing; once a request was refused, no later events of any kind switch it off.\<close>
theorem emergency_ends_only_unrefused:
  assumes "new_integration env override t = Some i0" and "isEmergencyMode (ri_run es i0)"
  shows "if ri_refused es i0 > 0 then isEmergencyMode (ri_run es' (ri_run es i0))
    else (\<exists>d \<in> set (pendingChecks (ri_run es i0)). d \<le> now) \<longrightarrow> \<not> isEmergencyMode (ri_run [On_timer now] (ri_run es i0))"
proof -
  have run: "metrics_ok (ri_run es i0)" "pm_totalRequests (performanceMetrics (ri_run es i0)) = ri_refused es i0"
    using new_integration_ok [OF assms(1)] run_counts [of i0 es] by auto
  then show ?thesis
    using run_mode [OF run(1) assms(2), of es'] fire_mode [OF run(1) assms(2), of now] by (auto simp: ri_run_def)
qed

section \<open>A concrete integration\<close>

lemma hs_settings:
  "float_setting hs_env ''RATE_LIMIT_THREAT_THRESHOLD'' ''0.7'' = Some (7 / 10)"
  "float_setting hs_env ''RATE_LIMIT_EMERGENCY_THRESHOLD'' ''0.9'' = Some (9 / 10)"
  "int_setting hs_env ''RATE_LIMIT_INSIGHT_INTERVAL'' ''3600000'' = Some 3600000"
  "int_setting hs_env ''RATE_LIMIT_METRICS_INTERVAL'' ''300000'' = Some 300000"
  by (simp_all add: unset_float unset_int hs_env_def reading)

lemma hs_switches: "env_not_false hs_env ''RATE_LIMIT_INTEGRATION_ENABLED''" "env_not_false hs_env ''RATE_LIMIT_DYNAMIC_ADJUSTMENT''"
  by (simp_all add: env_not_false_def hs_env_def)

lemma ri_demo:
  "\<exists>i. new_integration hs_env id 0 = Some i \<and> ri_enabled (ri_config i) \<and> \<not> isEmergencyMode i \<and> pendingChecks i = []
     \<and> emergencyModeThreshold (ri_config i) = 9 / 10 \<and> threatScoreThreshold (ri_config i) = 7 / 10"
  using hs_read [of 0]
  by (auto simp: new_integration_def read_ri_settings_def hs_settings initializeEnforcementService_def hs_chosen hs_switches)

definition demo_context :: "real \<Rightarrow> threat_context" where
  "demo_context score =
     \<lparr>tc_ipAddress = ''203.0.113.9'', tc_userAgent = None, tc_endpoint = ''/api/data'', tc_method = ''GET'', tc_threatScore = Some score,
      tc_userId = None, tc_sessionId = None, tc_timestamp = 0\<rparr>"

theorem verdict_antitone_witness:
  "\<exists>i. new_integration hs_env id 0 = Some i
     \<and> ri_factor (analyzeThreatContext (demo_context (95 / 100)) i) \<le> ri_factor (analyzeThreatContext (demo_context (4 / 10)) i)"
proof -
  obtain i where "new_integration hs_env id 0 = Some i" using ri_demo by auto
  then show ?thesis
    using verdict_antitone [of "demo_context (4 / 10)" "4 / 10" "demo_context (95 / 100)" "95 / 100" i] by (auto simp: demo_context_def)
qed

theorem only_refusals_counted_witness:
  "\<exists>i. new_integration hs_env id 0 = Some i
     \<and> id_effectiveness (fst (getRateLimitIntegrationData 0 0 (ri_run [On_level Threat_critical 0] i))) = 9 / 10"
proof -
  obtain i where i: "new_integration hs_env id 0 = Some i" using ri_demo by auto
  then show ?thesis using only_refusals_counted [OF i, of "[On_level Threat_critical 0]" 0 0] by (simp add: Let_def)
qed

theorem emergency_ends_only_unrefused_witness:
  "\<exists>i. new_integration hs_env id 0 = Some i
     \<and> isEmergencyMode (ri_run [On_level Threat_critical 0, On_level Threat_low 10] i)
     \<and> \<not> isEmergencyMode (ri_run [On_timer 300010] (ri_run [On_level Threat_critical 0, On_level Threat_low 10] i))"
proof -
  obtain i where i: "new_integration hs_env id 0 = Some i" "\<not> isEmergencyMode i" using ri_demo by auto
  let ?es = "[On_level Threat_critical 0, On_level Threat_low 10]"
  have "isEmergencyMode (ri_run ?es i)" "300010 \<in> set (pendingChecks (ri_run ?es i))"
    using i(2) by (simp_all add: ri_run_def handleEmergencyThreatLevel_def ri_activateEmergencyMode_def)
  then show ?thesis using emergency_ends_only_unrefused [OF i(1), of ?es "[]" 300010] i(1) by auto
qed

theorem refusals_remembered_witness:
  "\<exists>i. new_integration hs_env id 0 = Some i \<and> violationsCache (ri_analytics (ri_run [On_level Threat_critical 0] i)) = []"
proof -
  obtain i where i: "new_integration hs_env id 0 = Some i" using ri_demo by auto
  then show ?thesis using refusals_remembered [OF i, of "[On_level Threat_critical 0]" 0] by auto
qed

end
