(* ===== verification/ArmLearner.thy ===== *)
theory ArmLearner
  imports Prelude
begin

text \<open>
  The contract both bandits of the program share: an arm has two parameters, and a reward adds one to the first
  when it counts as a success and to the second otherwise, touching no other arm. The code has two learners of
  this kind, \<^verbatim>\<open>core/bandit/ThompsonSampling.ts\<close> (a success is a reward of at least one half) and
  \<^verbatim>\<open>core/bandit/mab.ts\<close> (a success is a positive reward); each interprets the locale below on its own update.
  What any sequence of rewards leaves in an arm is proved here once.
\<close>

type_synonym 'k reward_events = "('k \<times> real) list"

definition wins :: "(real \<Rightarrow> bool) \<Rightarrow> 'k \<Rightarrow> 'k reward_events \<Rightarrow> nat" where
  "wins good k ev = length (filter (\<lambda>(k', r). k' = k \<and> good r) ev)"

definition losses :: "(real \<Rightarrow> bool) \<Rightarrow> 'k \<Rightarrow> 'k reward_events \<Rightarrow> nat" where
  "losses good k ev = length (filter (\<lambda>(k', r). k' = k \<and> \<not> good r) ev)"

lemma wins_losses_simps [simp]:
  "wins good k [] = 0" "losses good k [] = 0"
  "wins good k ((k', r) # ev) = (if k' = k \<and> good r then 1 else 0) + wins good k ev"
  "losses good k ((k', r) # ev) = (if k' = k \<and> \<not> good r then 1 else 0) + losses good k ev"
  by (simp_all add: wins_def losses_def)

lemma wins_plus_losses: "wins good k ev + losses good k ev = length (filter (\<lambda>e. fst e = k) ev)"
  by (induction ev) (auto simp: wins_def losses_def)

locale arm_learner =
  fixes params :: "'s \<Rightarrow> 'k \<Rightarrow> (real \<times> real) option"
    and learn :: "'k \<Rightarrow> real \<Rightarrow> 's \<Rightarrow> 's"
    and good :: "real \<Rightarrow> bool"
  assumes params_learn: "params (learn k r s) k' =
      (if k' = k then map_option (\<lambda>(a, b). if good r then (a + 1, b) else (a, b + 1)) (params s k)
       else params s k')"
begin

lemma params_after:
  "params (fold (\<lambda>(k, r). learn k r) ev s) k =
   map_option (\<lambda>(a, b). (a + real (wins good k ev), b + real (losses good k ev))) (params s k)"
proof (induction ev arbitrary: s)
  case Nil
  show ?case by (cases "params s k") auto
next
  case (Cons e ev)
  show ?case by (cases e; cases "params s k") (auto simp: Cons params_learn)
qed

text \<open>The posterior mean stays strictly between 0 and 1 when it starts there.\<close>

lemma mean_between:
  assumes "params s k = Some (a, b)" and "0 < a" and "0 < b"
    and "params (fold (\<lambda>(k, r). learn k r) ev s) k = Some (a', b')"
  shows "0 < a' / (a' + b') \<and> a' / (a' + b') < 1"
proof -
  have "a' = a + real (wins good k ev)" "b' = b + real (losses good k ev)"
    using assms(1,4) by (simp_all add: params_after)
  with assms(2,3) have "0 < a'" "0 < b'" by auto
  then show ?thesis by simp
qed

end

end
