(* ===== verification/Bandit.thy ===== *)
theory Bandit
  imports ArmLearner
begin

text \<open>
  The contextual bandit that picks a response to a threat: the types of \<^verbatim>\<open>backend/src/types/bandit.ts\<close>, the
  configuration of \<^verbatim>\<open>backend/src/config/banditConfig.ts\<close>, the sampler and learner of
  \<^verbatim>\<open>backend/src/core/bandit/ThompsonSampling.ts\<close> and the reward table of \<^verbatim>\<open>core/bandit/reward.ts\<close>.

  The random generator is a sequence \<open>rng :: nat \<Rightarrow> real\<close> of the numbers it will return and the position of
  the next one is threaded through; a number \<open>rng k\<close> is in \<open>[0, 1)\<close> where that matters (\<open>rng_ok\<close>). The
  sampler computes with real numbers; the two draws at which the code computes with an infinity, a first or
  third draw of 0, are written out. The keys of the state are the strings the code builds; that distinct
  pairs of context and action have distinct keys is proved, not assumed.

  The learner keeps the contract \<open>arm_learner\<close> and so refines a log of rewards (\<open>bandit_run_counts\<close>): the parameters of every arm are the priors plus
  the number of rewards of at least one half and below, respectively.
\<close>

section \<open>Types\<close>

datatype bandit_action =
  Act_allow | Act_monitor | Act_warn | Act_restrict | Act_block | Act_isolate | Act_divert

datatype threat_bucket = Bucket_low | Bucket_medium | Bucket_high

datatype reputation_tier = Tier_trusted | Tier_unknown | Tier_suspicious

record bandit_context =
  threatBucket :: threat_bucket
  reputationTier :: reputation_tier

record beta_state =
  bs_alpha :: real
  bs_beta :: real

definition BANDIT_ACTIONS :: "bandit_action list" where
  "BANDIT_ACTIONS = [Act_allow, Act_monitor, Act_warn, Act_restrict, Act_block, Act_isolate, Act_divert]"

record bandit_stats_entry =
  se_alpha :: real
  se_beta :: real
  se_selectionCount :: int
  se_avgReward :: real

record bandit_stats =
  bst_actions :: "(bandit_action, bandit_stats_entry) js_map"
  bst_context :: string
  bst_totalSelections :: int
  bst_currentBestAction :: "bandit_action option"
  bst_bestActionProbability :: real

section \<open>Configuration\<close>

record reward_weights =
  w_truePositive :: real
  w_falsePositive :: real
  w_userSatisfaction :: real
  w_resourceCost :: real
  w_threatReduction :: real

record bandit_config =
  bc_enabled :: bool
  explorationRate :: real
  warmStartPriors :: "bandit_action \<Rightarrow> beta_state"
  rewardWeights :: reward_weights
  threatBuckets :: "real \<times> real"
  reputationThresholds :: "real \<times> real"
  minSamplesPerAction :: int
  persistenceInterval :: int

fun default_prior :: "bandit_action \<Rightarrow> beta_state" where
  "default_prior Act_allow = \<lparr>bs_alpha = 10, bs_beta = 1\<rparr>"
| "default_prior Act_monitor = \<lparr>bs_alpha = 8, bs_beta = 1\<rparr>"
| "default_prior Act_warn = \<lparr>bs_alpha = 6, bs_beta = 2\<rparr>"
| "default_prior Act_restrict = \<lparr>bs_alpha = 4, bs_beta = 3\<rparr>"
| "default_prior Act_block = \<lparr>bs_alpha = 3, bs_beta = 4\<rparr>"
| "default_prior Act_isolate = \<lparr>bs_alpha = 2, bs_beta = 5\<rparr>"
| "default_prior Act_divert = \<lparr>bs_alpha = 3, bs_beta = 3\<rparr>"

definition default_weights :: reward_weights where
  "default_weights = \<lparr>w_truePositive = 3/10, w_falsePositive = 1/4, w_userSatisfaction = 15/100,
     w_resourceCost = 1/10, w_threatReduction = 2/10\<rparr>"

text \<open>With no environment variable set.\<close>

definition getDefaultBanditConfiguration :: bandit_config where
  "getDefaultBanditConfiguration =
     \<lparr>bc_enabled = True, explorationRate = 15/100, warmStartPriors = default_prior,
      rewardWeights = default_weights, threatBuckets = (3/10, 7/10), reputationThresholds = (4/10, 7/10),
      minSamplesPerAction = 10, persistenceInterval = 300000\<rparr>"

section \<open>Keys\<close>

fun bucket_name :: "threat_bucket \<Rightarrow> string" where
  "bucket_name Bucket_low = ''low''"
| "bucket_name Bucket_medium = ''medium''"
| "bucket_name Bucket_high = ''high''"

fun tier_name :: "reputation_tier \<Rightarrow> string" where
  "tier_name Tier_trusted = ''trusted''"
| "tier_name Tier_unknown = ''unknown''"
| "tier_name Tier_suspicious = ''suspicious''"

fun action_name :: "bandit_action \<Rightarrow> string" where
  "action_name Act_allow = ''allow''"
| "action_name Act_monitor = ''monitor''"
| "action_name Act_warn = ''warn''"
| "action_name Act_restrict = ''restrict''"
| "action_name Act_block = ''block''"
| "action_name Act_isolate = ''isolate''"
| "action_name Act_divert = ''divert''"

definition contextKey :: "bandit_context \<Rightarrow> string" where
  "contextKey ctx = ''threat_'' @ bucket_name (threatBucket ctx) @ ''_reputation_'' @ tier_name (reputationTier ctx)"

definition stateKey :: "bandit_action \<Rightarrow> bandit_context \<Rightarrow> string" where
  "stateKey a ctx = contextKey ctx @ '':'' @ action_name a"

section \<open>The object\<close>

record bandit =
  bd_state :: "(string, beta_state) js_map"
  selectionCounts :: "(string, int) js_map"
  rewardSums :: "(string, real) js_map"
  totalSelections :: int
  bd_config :: bandit_config

definition all_contexts :: "bandit_context list" where
  "all_contexts = concat (map (\<lambda>b. map (\<lambda>t. \<lparr>threatBucket = b, reputationTier = t\<rparr>)
     [Tier_trusted, Tier_unknown, Tier_suspicious]) [Bucket_low, Bucket_medium, Bucket_high])"

definition init_arm :: "bandit_context \<Rightarrow> bandit_action \<Rightarrow> bandit \<Rightarrow> bandit" where
  "init_arm ctx a b =
     (let sk = stateKey a ctx; prior = warmStartPriors (bd_config b) a
      in b\<lparr>bd_state := map_set sk \<lparr>bs_alpha = bs_alpha prior, bs_beta = bs_beta prior\<rparr> (bd_state b),
           selectionCounts := map_set sk 0 (selectionCounts b), rewardSums := map_set sk 0 (rewardSums b)\<rparr>)"

definition initializePriors :: "bandit \<Rightarrow> bandit" where
  "initializePriors b =
     (fold (\<lambda>ctx. fold (init_arm ctx) BANDIT_ACTIONS) all_contexts b)\<lparr>totalSelections := 0\<rparr>"

definition new_bandit :: "bandit_config \<Rightarrow> bandit" where
  "new_bandit cfg =
     initializePriors \<lparr>bd_state = [], selectionCounts = [], rewardSums = [], totalSelections = 0, bd_config = cfg\<rparr>"

definition reset_bandit :: "bandit \<Rightarrow> bandit" where
  "reset_bandit b =
     initializePriors (b\<lparr>bd_state := [], selectionCounts := [], rewardSums := [], totalSelections := 0\<rparr>)"

section \<open>Sampling\<close>

type_synonym rng = "nat \<Rightarrow> real"

text \<open>
  One round of the rejection loop: \<open>Inl\<close> the next position when it rejects, \<open>Inr\<close> the accepted value. A first
  draw of 0 makes \<open>z\<close> infinite (or NaN, then 0.01, when the cosine is 0): the sign of the cosine decides whether
  \<open>w \<le> 0\<close> rejects at once or both tests fail after the third draw. A third draw of 0 has logarithm minus
  infinity and is accepted.
\<close>

definition gamma_round :: "rng \<Rightarrow> real \<Rightarrow> real \<Rightarrow> nat \<Rightarrow> nat + (real \<times> nat)" where
  "gamma_round rng d c pos =
     (let v1 = rng pos; v2 = rng (pos + 1); co = cos (2 * pi * v2)
      in if v1 = 0 \<and> co \<noteq> 0 then Inl (if co > 0 then pos + 3 else pos + 2)
         else
           let z0 = (if v1 = 0 then 0 else sqrt (- 2 * ln v1) * co);
               z = (if z0 = 0 then 1/100 else z0);
               w = 1 + c * z
           in if w \<le> 0 then Inl (pos + 2)
              else
                let u = rng (pos + 2); w3 = w * w * w
                in if u < 1 - 331/10000 * z * z * z * z then Inr (d * w3, pos + 3)
                   else if u = 0 \<or> ln u < 1/2 * z * z + d * (1 - w3 + ln w3) then Inr (d * w3, pos + 3)
                   else Inl (pos + 3))"

fun gamma_loop :: "rng \<Rightarrow> real \<Rightarrow> real \<Rightarrow> nat \<Rightarrow> nat \<Rightarrow> real \<times> nat" where
  "gamma_loop rng d c 0 pos = (d, pos)"
| "gamma_loop rng d c (Suc n) pos =
     (case gamma_round rng d c pos of Inr r \<Rightarrow> r | Inl pos' \<Rightarrow> gamma_loop rng d c n pos')"

definition gamma_large :: "rng \<Rightarrow> real \<Rightarrow> nat \<Rightarrow> real \<times> nat" where
  "gamma_large rng shape pos =
     (let d = shape - 1/3; c = 1 / sqrt (9 * d) in gamma_loop rng d c 100 pos)"

text \<open>For a shape below 1 the code calls itself with \<open>shape + 1\<close>, which is at least 1 for every positive shape.\<close>

definition sampleGamma :: "rng \<Rightarrow> real \<Rightarrow> nat \<Rightarrow> real \<times> nat" where
  "sampleGamma rng shape pos =
     (if shape < 1
      then let u = rng pos; (g, pos') = gamma_large rng (shape + 1) (pos + 1) in (g * u powr (1 / shape), pos')
      else gamma_large rng shape pos)"

definition sampleBeta :: "rng \<Rightarrow> real \<Rightarrow> real \<Rightarrow> nat \<Rightarrow> jsnum \<times> nat" where
  "sampleBeta rng a b pos =
     (if a \<le> 0 \<or> b \<le> 0 then (js_div a (a + b), pos)
      else let (x, pos1) = sampleGamma rng a pos; (y, pos2) = sampleGamma rng b pos1
           in (js_div x (x + y), pos2))"

section \<open>Operations\<close>

text \<open>\<^verbatim>\<open>sample > bestSample\<close>, where the best starts at minus infinity and a comparison with NaN is false.\<close>

fun better :: "jsnum \<Rightarrow> jsnum \<Rightarrow> bool" where
  "better (Fin x) (Fin y) = (x > y)"
| "better (Fin x) NInf = True"
| "better PInf (Fin y) = True"
| "better PInf NInf = True"
| "better _ _ = False"

fun select_loop ::
  "rng \<Rightarrow> bandit \<Rightarrow> bandit_context \<Rightarrow> bandit_action list \<Rightarrow> bandit_action \<Rightarrow> jsnum \<Rightarrow> nat \<Rightarrow> bandit_action \<times> nat" where
  "select_loop rng b ctx [] best bestSample pos = (best, pos)"
| "select_loop rng b ctx (a # as) best bestSample pos =
     (case map_of (bd_state b) (stateKey a ctx) of
        None \<Rightarrow> select_loop rng b ctx as best bestSample pos
      | Some s \<Rightarrow>
          (let (sample, pos') = sampleBeta rng (bs_alpha s) (bs_beta s) pos
           in if better sample bestSample then select_loop rng b ctx as a sample pos'
              else select_loop rng b ctx as best bestSample pos'))"

text \<open>An exploring call indexes the list of actions; \<open>None\<close> is the undefined of an index out of range.\<close>

definition selectAction :: "rng \<Rightarrow> bandit_context \<Rightarrow> nat \<Rightarrow> bandit \<Rightarrow> bandit_action option \<times> nat" where
  "selectAction rng ctx pos b =
     (if rng pos < explorationRate (bd_config b)
      then let i = \<lfloor>rng (pos + 1) * real (length BANDIT_ACTIONS)\<rfloor>
           in (if 0 \<le> i \<and> i < int (length BANDIT_ACTIONS) then Some (BANDIT_ACTIONS ! nat i) else None, pos + 2)
      else let (a, pos') = select_loop rng b ctx BANDIT_ACTIONS Act_allow NInf (pos + 1) in (Some a, pos'))"

definition updateReward :: "bandit_context \<Rightarrow> bandit_action \<Rightarrow> real \<Rightarrow> bandit \<Rightarrow> bandit" where
  "updateReward ctx a reward b =
     (let sk = stateKey a ctx
      in case map_of (bd_state b) sk of
           None \<Rightarrow> b
         | Some s \<Rightarrow>
             (let s' = (if reward \<ge> 1/2 then s\<lparr>bs_alpha := bs_alpha s + 1\<rparr> else s\<lparr>bs_beta := bs_beta s + 1\<rparr>)
              in b\<lparr>bd_state := map_set sk s' (bd_state b),
                   selectionCounts := map_set sk (get_or0 (selectionCounts b) sk + 1) (selectionCounts b),
                   rewardSums := map_set sk (get_or0 (rewardSums b) sk + reward) (rewardSums b),
                   totalSelections := totalSelections b + 1\<rparr>))"

definition stats_entry :: "bandit_context \<Rightarrow> bandit_action \<Rightarrow> bandit \<Rightarrow> bandit_stats_entry" where
  "stats_entry ctx a b =
     (let sk = stateKey a ctx;
          s = map_of (bd_state b) sk;
          selections = get_or0 (selectionCounts b) sk;
          or1 = (\<lambda>v. case v of None \<Rightarrow> 1 | Some x \<Rightarrow> if x = 0 then 1 else x)
      in \<lparr>se_alpha = or1 (map_option bs_alpha s), se_beta = or1 (map_option bs_beta s),
          se_selectionCount = selections,
          se_avgReward = (if selections > 0 then get_or0 (rewardSums b) sk / of_int selections else 0)\<rparr>)"

definition expected_prob :: "bandit_context \<Rightarrow> bandit_action \<Rightarrow> bandit \<Rightarrow> real" where
  "expected_prob ctx a b =
     (case map_of (bd_state b) (stateKey a ctx) of
        None \<Rightarrow> 1/2 | Some s \<Rightarrow> bs_alpha s / (bs_alpha s + bs_beta s))"

definition best_arm :: "bandit_context \<Rightarrow> bandit \<Rightarrow> bandit_action option \<times> real" where
  "best_arm ctx b =
     foldl (\<lambda>(best, prob) a. let p = expected_prob ctx a b in if p > prob then (Some a, p) else (best, prob))
       (None, -1) BANDIT_ACTIONS"

definition bandit_getStats :: "bandit_context \<Rightarrow> bandit \<Rightarrow> bandit_stats" where
  "bandit_getStats ctx b =
     \<lparr>bst_actions = map (\<lambda>a. (a, stats_entry ctx a b)) BANDIT_ACTIONS, bst_context = contextKey ctx,
      bst_totalSelections = totalSelections b, bst_currentBestAction = fst (best_arm ctx b),
      bst_bestActionProbability = snd (best_arm ctx b)\<rparr>"

definition getAllStats :: "bandit \<Rightarrow> (string, bandit_stats) js_map" where
  "getAllStats b = map (\<lambda>ctx. (contextKey ctx, bandit_getStats ctx b)) all_contexts"

definition loadState :: "(string, beta_state) js_map \<Rightarrow> bandit \<Rightarrow> bandit" where
  "loadState st b =
     fold (\<lambda>(k, s) b. if map_of (bd_state b) k \<noteq> None then b\<lparr>bd_state := map_set k s (bd_state b)\<rparr> else b) st b"

definition hasSufficientData :: "bandit_context \<Rightarrow> bandit \<Rightarrow> bool" where
  "hasSufficientData ctx b \<longleftrightarrow>
     list_all (\<lambda>a. get_or0 (selectionCounts b) (stateKey a ctx) \<ge> minSamplesPerAction (bd_config b)) BANDIT_ACTIONS"

definition getSelectionCount :: "bandit_action \<Rightarrow> bandit_context \<Rightarrow> bandit \<Rightarrow> int" where
  "getSelectionCount a ctx b = get_or0 (selectionCounts b) (stateKey a ctx)"

section \<open>The reward table\<close>

record reward_input =
  blockedAttack :: bool
  userImpact :: bool
  missedDetection :: bool

definition computeReward :: "reward_input \<Rightarrow> int" where
  "computeReward inp =
     (if missedDetection inp then -2
      else if blockedAttack inp \<and> \<not> userImpact inp then 1
      else if \<not> blockedAttack inp \<and> userImpact inp then -1
      else if blockedAttack inp \<and> userImpact inp then -1
      else 0)"

section \<open>Keys are injective\<close>

definition all_pairs :: "(bandit_context \<times> bandit_action) list" where
  "all_pairs = List.product all_contexts BANDIT_ACTIONS"

definition pair_key :: "bandit_context \<times> bandit_action \<Rightarrow> string" where
  "pair_key = (\<lambda>(ctx, a). stateKey a ctx)"

lemma distinct_keys: "distinct (map pair_key all_pairs)"
  by code_simp

lemma set_BANDIT_ACTIONS [simp]: "a \<in> set BANDIT_ACTIONS"
  by (cases a) (simp_all add: BANDIT_ACTIONS_def)

lemma set_all_contexts [simp]: "ctx \<in> set all_contexts"
proof -
  obtain b t where "ctx = \<lparr>threatBucket = b, reputationTier = t\<rparr>" by (cases ctx) auto
  then show ?thesis by (cases b; cases t) (simp_all add: all_contexts_def)
qed

lemma set_all_pairs [simp]: "p \<in> set all_pairs"
  by (cases p) (simp add: all_pairs_def)

lemma stateKey_inj [simp]: "stateKey a ctx = stateKey a' ctx' \<longleftrightarrow> a = a' \<and> ctx = ctx'"
proof
  have inj: "inj_on pair_key (set all_pairs)" using distinct_keys by (simp add: distinct_map)
  show "stateKey a ctx = stateKey a' ctx' \<Longrightarrow> a = a' \<and> ctx = ctx'"
    using inj_onD [OF inj, of "(ctx, a)" "(ctx', a')"] by (simp add: pair_key_def)
qed auto

section \<open>A fresh bandit\<close>

lemma fold_product: "fold (\<lambda>x. fold (f x) ys) xs s = fold (\<lambda>(x, y). f x y) (List.product xs ys) s"
  by (induction xs arbitrary: s) (simp_all add: fold_map comp_def)

definition arm :: "bandit_context \<Rightarrow> bandit_action \<Rightarrow> bandit \<Rightarrow> beta_state option" where
  "arm ctx a b = map_of (bd_state b) (stateKey a ctx)"

lemma init_arm_simps:
  "arm ctx' a' (init_arm ctx a b) =
     (if a' = a \<and> ctx' = ctx then Some (warmStartPriors (bd_config b) a) else arm ctx' a' b)"
  "getSelectionCount a' ctx' (init_arm ctx a b) =
     (if a' = a \<and> ctx' = ctx then 0 else getSelectionCount a' ctx' b)"
  "bd_config (init_arm ctx a b) = bd_config b"
  by (auto simp: init_arm_def arm_def getSelectionCount_def Let_def update_conv' get_or0_set)

lemma init_fold:
  "arm ctx a (fold (\<lambda>(ctx, a). init_arm ctx a) ps b) =
     (if (ctx, a) \<in> set ps then Some (warmStartPriors (bd_config b) a) else arm ctx a b)
   \<and> getSelectionCount a ctx (fold (\<lambda>(ctx, a). init_arm ctx a) ps b) =
     (if (ctx, a) \<in> set ps then 0 else getSelectionCount a ctx b)
   \<and> bd_config (fold (\<lambda>(ctx, a). init_arm ctx a) ps b) = bd_config b"
  by (induction ps arbitrary: b) (auto simp: init_arm_simps split: if_splits)

lemma initializePriors_simps [simp]:
  "arm ctx a (initializePriors b) = Some (warmStartPriors (bd_config b) a)"
  "getSelectionCount a ctx (initializePriors b) = 0"
  "bd_config (initializePriors b) = bd_config b" "totalSelections (initializePriors b) = 0"
  using init_fold [of ctx a all_pairs b]
  by (simp_all add: initializePriors_def fold_product all_pairs_def [symmetric] arm_def getSelectionCount_def)

lemma new_bandit_simps [simp]:
  "arm ctx a (new_bandit cfg) = Some (warmStartPriors cfg a)" "getSelectionCount a ctx (new_bandit cfg) = 0"
  "bd_config (new_bandit cfg) = cfg" "totalSelections (new_bandit cfg) = 0"
  by (simp_all add: new_bandit_def)

section \<open>The learner refines the log of rewards\<close>

type_synonym reward_log = "(bandit_context \<times> bandit_action \<times> real) list"

definition run_rewards :: "reward_log \<Rightarrow> bandit \<Rightarrow> bandit" where
  "run_rewards ev b = fold (\<lambda>(ctx, a, r). updateReward ctx a r) ev b"

definition hits :: "bandit_context \<Rightarrow> bandit_action \<Rightarrow> reward_log \<Rightarrow> nat" where
  "hits ctx a ev = length (filter (\<lambda>(c, x, r). c = ctx \<and> x = a \<and> r \<ge> 1/2) ev)"

definition misses :: "bandit_context \<Rightarrow> bandit_action \<Rightarrow> reward_log \<Rightarrow> nat" where
  "misses ctx a ev = length (filter (\<lambda>(c, x, r). c = ctx \<and> x = a \<and> r < 1/2) ev)"

lemma updateReward_simps:
  assumes "arm ctx a b = Some s"
  shows "arm ctx' a' (updateReward ctx a r b) =
      (if a' = a \<and> ctx' = ctx then Some (if r \<ge> 1/2 then s\<lparr>bs_alpha := bs_alpha s + 1\<rparr> else s\<lparr>bs_beta := bs_beta s + 1\<rparr>)
       else arm ctx' a' b)"
    and "getSelectionCount a' ctx' (updateReward ctx a r b) =
      getSelectionCount a' ctx' b + (if a' = a \<and> ctx' = ctx then 1 else 0)"
    and "bd_config (updateReward ctx a r b) = bd_config b"
    and "totalSelections (updateReward ctx a r b) = totalSelections b + 1"
  using assms by (auto simp: updateReward_def arm_def getSelectionCount_def Let_def update_conv' get_or0_set)

definition full :: "bandit \<Rightarrow> bool" where
  "full b \<longleftrightarrow> (\<forall>ctx a. arm ctx a b \<noteq> None)"

definition arm_params :: "bandit \<Rightarrow> bandit_context \<times> bandit_action \<Rightarrow> (real \<times> real) option" where
  "arm_params b k = map_option (\<lambda>s. (bs_alpha s, bs_beta s)) (arm (fst k) (snd k) b)"

definition learn_arm :: "bandit_context \<times> bandit_action \<Rightarrow> real \<Rightarrow> bandit \<Rightarrow> bandit" where
  "learn_arm k r b = updateReward (fst k) (snd k) r b"

lemma updateReward_unknown: "arm ctx a b = None \<Longrightarrow> updateReward ctx a r b = b"
  by (simp add: updateReward_def arm_def Let_def)

interpretation thompson: arm_learner arm_params learn_arm "\<lambda>r. 1/2 \<le> r"
proof
  fix k r b k'
  show "arm_params (learn_arm k r b) k' =
      (if k' = k then map_option (\<lambda>(a, b). if 1/2 \<le> r then (a + 1, b) else (a, b + 1)) (arm_params b k)
       else arm_params b k')"
  proof (cases "arm (fst k) (snd k) b")
    case None
    then show ?thesis by (auto simp: arm_params_def learn_arm_def updateReward_unknown)
  next
    case (Some s)
    then show ?thesis by (auto simp: arm_params_def learn_arm_def updateReward_simps [OF Some] prod_eq_iff)
  qed
qed

definition events_of :: "reward_log \<Rightarrow> (bandit_context \<times> bandit_action) reward_events" where
  "events_of ev = map (\<lambda>(c, a, r). ((c, a), r)) ev"

lemma run_rewards_events: "run_rewards ev b = fold (\<lambda>(k, r). learn_arm k r) (events_of ev) b"
  by (simp add: run_rewards_def events_of_def learn_arm_def [abs_def] fold_map comp_def split_def)

lemma hits_wins: "hits ctx a ev = wins (\<lambda>r. 1/2 \<le> r) (ctx, a) (events_of ev)"
  by (simp add: hits_def wins_def events_of_def filter_map comp_def split_def conj_assoc)

lemma misses_losses: "misses ctx a ev = losses (\<lambda>r. 1/2 \<le> r) (ctx, a) (events_of ev)"
  by (simp add: misses_def losses_def events_of_def filter_map comp_def split_def conj_assoc not_le)

lemma run_rewards_arm:
  "arm ctx a b = Some s \<Longrightarrow> arm ctx a (run_rewards ev b) =
     Some \<lparr>bs_alpha = bs_alpha s + real (hits ctx a ev), bs_beta = bs_beta s + real (misses ctx a ev)\<rparr>"
  using thompson.params_after [of "events_of ev" b "(ctx, a)"]
  by (auto simp: run_rewards_events [symmetric] arm_params_def hits_wins misses_losses)

lemma full_run: "full b \<Longrightarrow> full (run_rewards ev b)"
  unfolding full_def using run_rewards_arm by fastforce

lemma bandit_run_counts:
  assumes "full b"
  shows "full (run_rewards ev b) \<and>
    (\<forall>s. arm ctx a b = Some s \<longrightarrow> arm ctx a (run_rewards ev b) =
       Some \<lparr>bs_alpha = bs_alpha s + real (hits ctx a ev), bs_beta = bs_beta s + real (misses ctx a ev)\<rparr>)
    \<and> getSelectionCount a ctx (run_rewards ev b) = getSelectionCount a ctx b + int (hits ctx a ev + misses ctx a ev)
    \<and> totalSelections (run_rewards ev b) = totalSelections b + int (length ev)
    \<and> bd_config (run_rewards ev b) = bd_config b"
  using assms
proof (induction ev arbitrary: b)
  case Nil
  then show ?case by (simp add: run_rewards_def hits_def misses_def)
next
  case (Cons e ev)
  obtain c x r where e: "e = (c, x, r)" by (cases e) auto
  obtain s0 where s0: "arm c x b = Some s0" using Cons.prems by (auto simp: full_def)
  have f: "full (updateReward c x r b)" using full_run [OF Cons.prems, of "[e]"] by (simp add: run_rewards_def e)
  show ?case
    using Cons.IH [OF f] s0 full_run [OF Cons.prems, of "e # ev"] run_rewards_arm [of ctx a b _ "e # ev"]
    by (auto simp: e run_rewards_def hits_def misses_def updateReward_simps [OF s0])
qed

lemma full_new [simp]: "full (new_bandit cfg)"
  by (simp add: full_def)

section \<open>The sampler\<close>

definition rng_ok :: "rng \<Rightarrow> bool" where
  "rng_ok rng \<longleftrightarrow> (\<forall>k. 0 \<le> rng k \<and> rng k < 1)"

lemma gamma_round_pos:
  "0 < d \<Longrightarrow> gamma_round rng d c pos = Inr (x, pos') \<Longrightarrow> 0 < x"
  by (auto simp: gamma_round_def Let_def split: if_splits)

lemma gamma_loop_pos: "0 < d \<Longrightarrow> 0 < fst (gamma_loop rng d c n pos)"
proof (induction n arbitrary: pos)
  case (Suc n)
  show ?case
  proof (cases "gamma_round rng d c pos")
    case (Inr r)
    then show ?thesis using gamma_round_pos [OF Suc.prems, of rng c pos "fst r" "snd r"] by simp
  qed (simp add: Suc)
qed simp

lemma sampleGamma_pos: "1 \<le> shape \<Longrightarrow> 0 < fst (sampleGamma rng shape pos)"
  by (simp add: sampleGamma_def gamma_large_def Let_def gamma_loop_pos)

lemma sampleBeta_range:
  assumes "1 \<le> a" and "1 \<le> b"
  shows "\<exists>x. fst (sampleBeta rng a b pos) = Fin x \<and> 0 < x \<and> x < 1"
proof -
  obtain x p1 where x: "sampleGamma rng a pos = (x, p1)" by fastforce
  obtain y p2 where y: "sampleGamma rng b p1 = (y, p2)" by fastforce
  have "0 < x" "0 < y" using sampleGamma_pos [OF assms(1), of rng pos] sampleGamma_pos [OF assms(2), of rng p1] x y
    by auto
  then show ?thesis using assms by (simp add: sampleBeta_def x y js_div_def)
qed

section \<open>Selection\<close>

lemma explore_index:
  assumes "rng_ok rng"
  shows "0 \<le> \<lfloor>rng k * real (length BANDIT_ACTIONS)\<rfloor> \<and> \<lfloor>rng k * real (length BANDIT_ACTIONS)\<rfloor> < int (length BANDIT_ACTIONS)"
  using assms by (simp add: rng_ok_def BANDIT_ACTIONS_def floor_less_iff)

lemma selectAction_some: "rng_ok rng \<Longrightarrow> \<exists>a. fst (selectAction rng ctx pos b) = Some a"
  using explore_index [of rng "pos + 1"] by (auto simp: selectAction_def Let_def split: prod.splits)

lemma foldl_best:
  fixes f :: "'a \<Rightarrow> real"
  assumes "foldl (\<lambda>(best, prob) a. let p = f a in if p > prob then (Some a, p) else (best, prob)) (b0, p0) xs = (b, p)"
  shows "p0 \<le> p \<and> (\<forall>a\<in>set xs. f a \<le> p) \<and> (b = b0 \<and> p = p0 \<or> (\<exists>a\<in>set xs. b = Some a \<and> p = f a))"
  using assms
proof (induction xs arbitrary: b0 p0)
  case (Cons x xs)
  show ?case
  proof (cases "f x > p0")
    case True
    then show ?thesis using Cons.IH [of "Some x" "f x"] Cons.prems by auto
  next
    case False
    then show ?thesis using Cons.IH [of b0 p0] Cons.prems by auto
  qed
qed simp

lemma best_arm_correct:
  assumes "best_arm ctx b = (best, p)" and "\<exists>a. -1 < expected_prob ctx a b"
  shows "\<exists>a. best = Some a \<and> p = expected_prob ctx a b \<and> (\<forall>a'. expected_prob ctx a' b \<le> p)"
proof -
  have "-1 \<le> p \<and> (\<forall>a\<in>set BANDIT_ACTIONS. expected_prob ctx a b \<le> p) \<and>
      (best = None \<and> p = -1 \<or> (\<exists>a\<in>set BANDIT_ACTIONS. best = Some a \<and> p = expected_prob ctx a b))"
    using foldl_best [of "\<lambda>a. expected_prob ctx a b" None "-1" BANDIT_ACTIONS best p] assms(1)
    by (simp add: best_arm_def)
  then show ?thesis using assms(2) by (metis not_le set_BANDIT_ACTIONS)
qed

definition priors_ok :: "bandit_config \<Rightarrow> bool" where
  "priors_ok cfg \<longleftrightarrow> (\<forall>a. 1 \<le> bs_alpha (warmStartPriors cfg a) \<and> 1 \<le> bs_beta (warmStartPriors cfg a))"

lemma default_priors_ok: "priors_ok getDefaultBanditConfiguration"
proof -
  have "1 \<le> bs_alpha (default_prior a) \<and> 1 \<le> bs_beta (default_prior a)" for a by (cases a) simp_all
  then show ?thesis by (simp add: priors_ok_def getDefaultBanditConfiguration_def)
qed

lemma arm_after_run:
  "arm ctx a (run_rewards ev (new_bandit cfg)) =
     Some \<lparr>bs_alpha = bs_alpha (warmStartPriors cfg a) + real (hits ctx a ev),
           bs_beta = bs_beta (warmStartPriors cfg a) + real (misses ctx a ev)\<rparr>"
  using bandit_run_counts [of "new_bandit cfg" ev ctx a] by simp

section \<open>Properties\<close>

text \<open>
  C5. The learner keeps exactly what the rewards say: after any sequence of rewards, in any interleaving of
  contexts and actions, the parameters of an arm are its priors plus the number of rewards of at least one
  half and below one half for that context and action, its selection count is their sum, and the total counts
  every reward.
\<close>
theorem bandit_learner_counts:
  "arm ctx a (run_rewards ev (new_bandit cfg)) =
     Some \<lparr>bs_alpha = bs_alpha (warmStartPriors cfg a) + real (hits ctx a ev),
           bs_beta = bs_beta (warmStartPriors cfg a) + real (misses ctx a ev)\<rparr>
   \<and> getSelectionCount a ctx (run_rewards ev (new_bandit cfg)) = int (hits ctx a ev + misses ctx a ev)
   \<and> totalSelections (run_rewards ev (new_bandit cfg)) = int (length ev)"
  using bandit_run_counts [of "new_bandit cfg" ev ctx a] by simp

text \<open>
  Selection is total and the sampler sound: for every sequence of random numbers in \<open>[0, 1)\<close> the bandit
  selects one of the seven actions, and each sample it compares is a finite number strictly between 0 and 1,
  whatever rewards were received, if all priors are at least 1 (the default ones are).
\<close>
theorem bandit_selection_total:
  assumes "rng_ok rng" and "priors_ok cfg"
  shows "(\<exists>a. fst (selectAction rng ctx pos (run_rewards ev (new_bandit cfg))) = Some a \<and> a \<in> set BANDIT_ACTIONS)
    \<and> (\<forall>a s. map_of (bd_state (run_rewards ev (new_bandit cfg))) (stateKey a ctx) = Some s \<longrightarrow>
         (\<exists>x. fst (sampleBeta rng (bs_alpha s) (bs_beta s) pos) = Fin x \<and> 0 < x \<and> x < 1))"
proof (intro conjI allI impI)
  show "\<exists>a. fst (selectAction rng ctx pos (run_rewards ev (new_bandit cfg))) = Some a \<and> a \<in> set BANDIT_ACTIONS"
    using selectAction_some [OF assms(1)] by simp
next
  fix a s
  assume "map_of (bd_state (run_rewards ev (new_bandit cfg))) (stateKey a ctx) = Some s"
  then have "s = \<lparr>bs_alpha = bs_alpha (warmStartPriors cfg a) + real (hits ctx a ev),
      bs_beta = bs_beta (warmStartPriors cfg a) + real (misses ctx a ev)\<rparr>"
    using arm_after_run [of ctx a ev cfg] by (simp add: arm_def)
  then show "\<exists>x. fst (sampleBeta rng (bs_alpha s) (bs_beta s) pos) = Fin x \<and> 0 < x \<and> x < 1"
    using assms(2) by (intro sampleBeta_range) (auto simp: priors_ok_def add_increasing2)
qed

theorem bandit_selection_total_witness:
  "\<exists>a. fst (selectAction (\<lambda>k. 1/2) \<lparr>threatBucket = Bucket_high, reputationTier = Tier_unknown\<rparr> 0
       (run_rewards [] (new_bandit getDefaultBanditConfiguration))) = Some a \<and> a \<in> set BANDIT_ACTIONS"
  using bandit_selection_total [of "\<lambda>k. 1/2" getDefaultBanditConfiguration] default_priors_ok
  by (simp add: rng_ok_def)

text \<open>
  The statistics report the arm with the highest expected success: \<^verbatim>\<open>currentBestAction\<close> is an action whose
  expected probability is the reported one, and no action of the context has a higher one.
\<close>
theorem bandit_best_action:
  assumes "priors_ok cfg"
  shows "\<exists>a. bst_currentBestAction (bandit_getStats ctx (run_rewards ev (new_bandit cfg))) = Some a
    \<and> bst_bestActionProbability (bandit_getStats ctx (run_rewards ev (new_bandit cfg)))
        = expected_prob ctx a (run_rewards ev (new_bandit cfg))
    \<and> (\<forall>a'. expected_prob ctx a' (run_rewards ev (new_bandit cfg))
          \<le> bst_bestActionProbability (bandit_getStats ctx (run_rewards ev (new_bandit cfg))))"
proof -
  have pr: "1 \<le> bs_alpha (warmStartPriors cfg Act_allow)" "1 \<le> bs_beta (warmStartPriors cfg Act_allow)"
    using assms by (auto simp: priors_ok_def)
  have "0 \<le> expected_prob ctx Act_allow (run_rewards ev (new_bandit cfg))"
    using arm_after_run [of ctx Act_allow ev cfg] pr by (simp add: expected_prob_def arm_def)
  then have "\<exists>a. -1 < expected_prob ctx a (run_rewards ev (new_bandit cfg))"
    by (intro exI [of _ Act_allow]) linarith
  from best_arm_correct [OF prod.collapse [symmetric] this] show ?thesis
    by (simp add: bandit_getStats_def)
qed

theorem bandit_best_action_witness:
  "\<exists>a. bst_currentBestAction (bandit_getStats \<lparr>threatBucket = Bucket_low, reputationTier = Tier_trusted\<rparr>
     (run_rewards [] (new_bandit getDefaultBanditConfiguration))) = Some a"
  using bandit_best_action [OF default_priors_ok] by blast

end
