(* ===== verification/BanditServices.thy ===== *)
theory BanditServices
  imports Bandit
begin

text \<open>
  The services around the bandit: \<^verbatim>\<open>services/FeedbackCollector.ts\<close>, \<^verbatim>\<open>services/BanditPersistence.ts\<close>,
  \<^verbatim>\<open>services/UserReputationService.ts\<close> and \<^verbatim>\<open>services/AdaptiveDecisionEngine.ts\<close>.

  All of them share one bandit object, which is passed in and returned. The answer of the graph database is
  a value of \<open>graph_reply\<close>, the file of saved parameters an argument, and whether the response engine or the
  divert action succeeded the record \<open>exec_result\<close>. Readings of the clock are arguments. Log messages and the
  wording of a decision's reason are left out.
\<close>

section \<open>Feedback\<close>

datatype feedback_signal =
    True_positive | False_positive | User_satisfied | User_unsatisfied
  | Cost_low | Cost_high | Threat_reduced | Threat_persisted

record feedback_event =
  fe_action :: bandit_action
  fe_context :: bandit_context
  fe_signals :: "feedback_signal list"
  fe_timestamp :: time_ms
  fe_sessionId :: "string option"
  fe_userId :: "string option"

record feedback_collector =
  fc_config :: bandit_config
  feedbackLog :: "feedback_event list"
  maxLogSize :: nat

definition new_collector :: "bandit_config \<Rightarrow> feedback_collector" where
  "new_collector cfg = \<lparr>fc_config = cfg, feedbackLog = [], maxLogSize = 1000\<rparr>"

fun signal_reward :: "reward_weights \<Rightarrow> feedback_signal \<Rightarrow> real" where
  "signal_reward w True_positive = w_truePositive w"
| "signal_reward w False_positive = - w_falsePositive w"
| "signal_reward w User_satisfied = w_userSatisfaction w"
| "signal_reward w User_unsatisfied = - (w_userSatisfaction w * (1/2))"
| "signal_reward w Cost_low = w_resourceCost w"
| "signal_reward w Cost_high = - (w_resourceCost w * (1/2))"
| "signal_reward w Threat_reduced = w_threatReduction w"
| "signal_reward w Threat_persisted = - (w_threatReduction w * (1/2))"

definition computeRewardFromSignals :: "bandit_config \<Rightarrow> feedback_signal list \<Rightarrow> real" where
  "computeRewardFromSignals cfg signals =
     clamp01 (foldl (\<lambda>reward sg. reward + signal_reward (rewardWeights cfg) sg) 0 signals)"

section \<open>Persistence\<close>

record bandit_persistence =
  saveTimer :: bool
  dirty :: bool

text \<open>The file holds the parameters of the arms; \<open>None\<close> is a missing or unreadable one.\<close>

definition load :: "(string, beta_state) js_map option \<Rightarrow> bandit \<Rightarrow> bandit" where
  "load file b = (case file of None \<Rightarrow> b | Some st \<Rightarrow> loadState st b)"

definition initialize ::
  "(string, beta_state) js_map option \<Rightarrow> bandit \<Rightarrow> bandit_persistence \<Rightarrow> bandit \<times> bandit_persistence" where
  "initialize file b p = (load file b, p\<lparr>saveTimer := True\<rparr>)"

text \<open>\<open>writable\<close> is whether the write succeeds; the result is what the file holds afterwards, if it was written.\<close>

definition save ::
  "bool \<Rightarrow> bandit \<Rightarrow> bandit_persistence \<Rightarrow> (string, beta_state) js_map option \<times> bandit_persistence" where
  "save writable b p = (if writable then (Some (bd_state b), p\<lparr>dirty := False\<rparr>) else (None, p))"

definition markDirty :: "bandit_persistence \<Rightarrow> bandit_persistence" where
  "markDirty p = p\<lparr>dirty := True\<rparr>"

definition shutdown ::
  "bool \<Rightarrow> bandit \<Rightarrow> bandit_persistence \<Rightarrow> (string, beta_state) js_map option \<times> bandit_persistence" where
  "shutdown writable b p =
     (let p = p\<lparr>saveTimer := False\<rparr> in if dirty p then save writable b p else (None, p))"

section \<open>Processing feedback\<close>

definition processFeedback ::
  "feedback_event \<Rightarrow> feedback_collector \<Rightarrow> bandit \<Rightarrow> bandit_persistence \<Rightarrow>
   real \<times> feedback_collector \<times> bandit \<times> bandit_persistence" where
  "processFeedback ev fc b p =
     (let reward = computeRewardFromSignals (fc_config fc) (fe_signals ev);
          b = updateReward (fe_context ev) (fe_action ev) reward b;
          log' = feedbackLog fc @ [ev];
          log' = (if length log' > maxLogSize fc then tl log' else log')
      in (reward, fc\<lparr>feedbackLog := log'\<rparr>, b, markDirty p))"

definition auto_signals :: "bandit_action \<Rightarrow> real \<Rightarrow> bool \<Rightarrow> bool \<Rightarrow> feedback_signal list" where
  "auto_signals a threatScore hadSubsequentThreat userCompletedSuccessfully =
     (if threatScore > 7/10 \<and> a \<noteq> Act_allow then [True_positive] else [])
     @ (if threatScore \<le> 3/10 \<and> a \<noteq> Act_allow then [False_positive] else [])
     @ (if userCompletedSuccessfully then [User_satisfied] else [User_unsatisfied])
     @ (if a = Act_allow \<or> a = Act_monitor then [Cost_low] else [Cost_high])
     @ (if \<not> hadSubsequentThreat then [Threat_reduced] else [Threat_persisted])"

definition submitAutoFeedback ::
  "bandit_action \<Rightarrow> bandit_context \<Rightarrow> real \<Rightarrow> bool \<Rightarrow> bool \<Rightarrow> string option \<Rightarrow> time_ms \<Rightarrow>
   feedback_collector \<Rightarrow> bandit \<Rightarrow> bandit_persistence \<Rightarrow> real \<times> feedback_collector \<times> bandit \<times> bandit_persistence" where
  "submitAutoFeedback a ctx threatScore hadThreat completed sid now fc b p =
     processFeedback \<lparr>fe_action = a, fe_context = ctx, fe_signals = auto_signals a threatScore hadThreat completed,
       fe_timestamp = now, fe_sessionId = sid, fe_userId = None\<rparr> fc b p"

definition submitManualFeedback ::
  "bandit_action \<Rightarrow> bandit_context \<Rightarrow> feedback_signal list \<Rightarrow> string option \<Rightarrow> string option \<Rightarrow> time_ms \<Rightarrow>
   feedback_collector \<Rightarrow> bandit \<Rightarrow> bandit_persistence \<Rightarrow> real \<times> feedback_collector \<times> bandit \<times> bandit_persistence" where
  "submitManualFeedback a ctx signals sid uid now fc b p =
     processFeedback \<lparr>fe_action = a, fe_context = ctx, fe_signals = signals, fe_timestamp = now,
       fe_sessionId = sid, fe_userId = uid\<rparr> fc b p"

definition getRecentFeedback :: "nat \<Rightarrow> feedback_collector \<Rightarrow> feedback_event list" where
  "getRecentFeedback n fc = js_slice_from (- int n) (feedbackLog fc)"

record feedback_stats =
  fs_total :: nat
  fs_actions :: "(bandit_action, nat) js_map"
  fs_signals :: "(feedback_signal, nat) js_map"

definition feedback_getStats :: "feedback_collector \<Rightarrow> feedback_stats" where
  "feedback_getStats fc =
     \<lparr>fs_total = length (feedbackLog fc),
      fs_actions = map (\<lambda>a. (a, length (filter (\<lambda>e. fe_action e = a) (feedbackLog fc)))) BANDIT_ACTIONS,
      fs_signals = fold (\<lambda>e m. fold (\<lambda>sg m. map_set sg (get_or0 m sg + 1) m) (fe_signals e) m) (feedbackLog fc) []\<rparr>"

section \<open>Reputation\<close>

record rep_features =
  rf_riskScore :: "real option"
  rf_totalSessions :: int
  rf_totalFailedLogins :: int
  rf_lastSeen :: "time_ms option"
  rf_daysSinceLastSeen :: int

record reputation_result =
  rr_score :: real
  rr_tier :: reputation_tier
  rr_context :: bandit_context
  rr_features :: rep_features

record graph_row =
  row_riskScore :: "real option"
  row_lastSeen :: "time_ms option"
  row_totalSessions :: "int option"
  row_totalFailedLogins :: "int option"

datatype graph_reply = Not_connected | Query_failed | No_record | Row graph_row

record reputation_service =
  rep_cache :: "(string, reputation_result \<times> time_ms) js_map"
  rep_config :: bandit_config

definition calculateScore :: "rep_features \<Rightarrow> real" where
  "calculateScore f =
     (let score = 7/10;
          score = (case rf_riskScore f of None \<Rightarrow> score | Some r \<Rightarrow> score - r * (3/10));
          score = (if rf_totalFailedLogins f > 0
                   then score - min (of_int (rf_totalFailedLogins f) * (5/100)) (3/10) else score);
          score = (if rf_totalSessions f > 10 then score + 1/10 else score);
          score = (if rf_daysSinceLastSeen f < 7 then score + 1/10
                   else if rf_daysSinceLastSeen f > 90 then score - 1/10 else score)
      in clamp01 score)"

definition getTier :: "bandit_config \<Rightarrow> real \<Rightarrow> reputation_tier" where
  "getTier cfg score =
     (if score > 7/10 then Tier_trusted
      else if score > fst (reputationThresholds cfg) then Tier_unknown else Tier_suspicious)"

definition empty_features :: rep_features where
  "empty_features = \<lparr>rf_riskScore = None, rf_totalSessions = 0, rf_totalFailedLogins = 0, rf_lastSeen = None,
     rf_daysSinceLastSeen = 999\<rparr>"

definition row_features :: "time_ms \<Rightarrow> graph_row \<Rightarrow> rep_features" where
  "row_features now row =
     \<lparr>rf_riskScore = row_riskScore row,
      rf_totalSessions = (case row_totalSessions row of None \<Rightarrow> 0 | Some n \<Rightarrow> n),
      rf_totalFailedLogins = (case row_totalFailedLogins row of None \<Rightarrow> 0 | Some n \<Rightarrow> n),
      rf_lastSeen = row_lastSeen row,
      rf_daysSinceLastSeen = (case row_lastSeen row of None \<Rightarrow> 999
        | Some t \<Rightarrow> max 0 \<lfloor>of_int (now - t) / 86400000 + 1/2 :: real\<rfloor>)\<rparr>"

definition computeReputation :: "string option \<Rightarrow> graph_reply \<Rightarrow> time_ms \<Rightarrow> bandit_config \<Rightarrow> reputation_result" where
  "computeReputation userId reply now cfg =
     (let features = (case userId of
            None \<Rightarrow> empty_features
          | Some u \<Rightarrow> (if u = [] then empty_features
                      else case reply of Row row \<Rightarrow> row_features now row | _ \<Rightarrow> empty_features));
          score = calculateScore features;
          tier = getTier cfg score
      in \<lparr>rr_score = score, rr_tier = tier, rr_context = \<lparr>threatBucket = Bucket_low, reputationTier = tier\<rparr>,
          rr_features = features\<rparr>)"

definition cache_key :: "string option \<Rightarrow> string option \<Rightarrow> string" where
  "cache_key userId ip =
     (let truthy = (\<lambda>v. case v of Some s \<Rightarrow> if s = [] then None else Some s | None \<Rightarrow> None)
      in case truthy userId of Some u \<Rightarrow> u
         | None \<Rightarrow> (case truthy ip of Some i \<Rightarrow> i | None \<Rightarrow> ''anonymous''))"

definition getReputation ::
  "string option \<Rightarrow> string option \<Rightarrow> graph_reply \<Rightarrow> time_ms \<Rightarrow> reputation_service \<Rightarrow> reputation_result \<times> reputation_service" where
  "getReputation userId ip reply now rs =
     (let k = cache_key userId ip;
          fresh = (let r = computeReputation userId reply now (rep_config rs)
                   in (r, rs\<lparr>rep_cache := map_set k (r, now + 30000) (rep_cache rs)\<rparr>))
      in case map_of (rep_cache rs) k of
           Some (r, expiresAt) \<Rightarrow> if expiresAt > now then (r, rs) else fresh
         | None \<Rightarrow> fresh)"

definition updateThreatBucket :: "bandit_config \<Rightarrow> bandit_context \<Rightarrow> real \<Rightarrow> bandit_context" where
  "updateThreatBucket cfg ctx threatScore =
     \<lparr>threatBucket = (if threatScore \<le> fst (threatBuckets cfg) then Bucket_low
        else if threatScore \<le> snd (threatBuckets cfg) then Bucket_medium else Bucket_high),
      reputationTier = reputationTier ctx\<rparr>"

definition invalidateCache :: "string option \<Rightarrow> reputation_service \<Rightarrow> reputation_service" where
  "invalidateCache key rs =
     (case key of
        Some k \<Rightarrow> if k = [] then rs\<lparr>rep_cache := []\<rparr> else rs\<lparr>rep_cache := map_delete k (rep_cache rs)\<rparr>
      | None \<Rightarrow> rs\<lparr>rep_cache := []\<rparr>)"

section \<open>Deciding\<close>

record threat_assessment =
  as_threatScore :: real
  as_sessionId :: string
  as_userId :: "string option"
  as_ipAddress :: "string option"

record exec_result =
  headersSent :: bool
  divert_success :: bool
  engine_success :: "bool option"

record bandit_decision =
  de_action :: "bandit_action option"
  de_contextKey :: string
  de_confidence :: real
  de_sufficientData :: bool
  de_executed :: bool

text \<open>\<open>engine_success\<close> is \<open>None\<close> when no response engine is configured. An undefined action takes the default case.\<close>

definition executeAction :: "bandit_action option \<Rightarrow> exec_result \<Rightarrow> bool" where
  "executeAction a ex =
     (if headersSent ex then False
      else case a of
             Some Act_allow \<Rightarrow> True
           | Some Act_divert \<Rightarrow> divert_success ex
           | _ \<Rightarrow> (case engine_success ex of Some ok \<Rightarrow> ok | None \<Rightarrow> True))"

definition action_index :: "bandit_action \<Rightarrow> nat" where
  "action_index a = length (takeWhile (\<lambda>x. x \<noteq> a) BANDIT_ACTIONS)"

definition computeImmediateReward :: "reward_weights \<Rightarrow> bandit_action \<Rightarrow> threat_assessment \<Rightarrow> bool \<Rightarrow> real" where
  "computeImmediateReward w a assess executed =
     (if \<not> executed then 0
      else
        let actionSeverity = real (action_index a) / real (length BANDIT_ACTIONS - 1);
            reward = 0;
            reward = (if as_threatScore assess > 7/10 \<and> actionSeverity \<ge> 1/2 then reward + w_truePositive w else reward);
            reward = (if as_threatScore assess \<le> 3/10 \<and> a = Act_allow then reward + w_userSatisfaction w else reward);
            reward = (if a = Act_allow then reward + w_resourceCost w else reward);
            reward = reward + w_threatReduction w * (1 - actionSeverity)
        in clamp01 reward)"

definition decideAndExecute ::
  "rng \<Rightarrow> nat \<Rightarrow> threat_assessment \<Rightarrow> graph_reply \<Rightarrow> exec_result \<Rightarrow> time_ms \<Rightarrow> bandit_config \<Rightarrow>
   reputation_service \<Rightarrow> bandit \<Rightarrow> bandit_decision \<times> reputation_service \<times> bandit" where
  "decideAndExecute rng pos assess reply ex now cfg rs b =
     (let (rep, rs) = getReputation (as_userId assess) (as_ipAddress assess) reply now rs;
          ctx = updateThreatBucket (rep_config rs) (rr_context rep) (as_threatScore assess)
      in if \<not> hasSufficientData ctx b
         then (\<lparr>de_action = Some Act_monitor, de_contextKey = contextKey ctx, de_confidence = 0,
                de_sufficientData = False, de_executed = False\<rparr>, rs, b)
         else
           let (a, pos') = selectAction rng ctx pos b;
               result = executeAction a ex
           in case a of
                None \<Rightarrow> (\<lparr>de_action = None, de_contextKey = contextKey ctx, de_confidence = 1/2,
                         de_sufficientData = True, de_executed = result\<rparr>, rs, b)
              | Some act \<Rightarrow>
                  (let reward = computeImmediateReward (rewardWeights cfg) act assess result;
                       b' = updateReward ctx act reward b;
                       entry = stats_entry ctx act b'
                   in (\<lparr>de_action = Some act, de_contextKey = contextKey ctx,
                        de_confidence = se_alpha entry / (se_alpha entry + se_beta entry),
                        de_sufficientData = True, de_executed = result\<rparr>, rs, b')))"

section \<open>Facts\<close>

lemma action_index_values [simp]:
  "action_index Act_allow = 0" "action_index Act_monitor = 1" "action_index Act_warn = 2"
  "action_index Act_restrict = 3" "action_index Act_block = 4" "action_index Act_isolate = 5"
  "action_index Act_divert = 6"
  by (simp_all add: action_index_def BANDIT_ACTIONS_def)

lemma length_BANDIT_ACTIONS [simp]: "length BANDIT_ACTIONS = 7"
  by (simp add: BANDIT_ACTIONS_def)

lemma immediate_reward_low: "computeImmediateReward default_weights a assess executed < 1/2"
  by (cases a) (simp_all add: computeImmediateReward_def Let_def default_weights_def clamp01_def)

lemma processFeedback_log:
  "length (feedbackLog fc) \<le> maxLogSize fc \<Longrightarrow> 0 < maxLogSize fc \<Longrightarrow>
   processFeedback ev fc b p = (r, fc', b', p') \<Longrightarrow>
   length (feedbackLog fc') \<le> maxLogSize fc' \<and> maxLogSize fc' = maxLogSize fc \<and> fc_config fc' = fc_config fc"
  by (auto simp: processFeedback_def Let_def split: if_splits)

lemma computeRewardFromSignals_range: "0 \<le> computeRewardFromSignals cfg sgs \<and> computeRewardFromSignals cfg sgs \<le> 1"
  by (simp add: computeRewardFromSignals_def)

lemma decide_bandit:
  "decideAndExecute rng pos assess reply ex now cfg rs b = (d, rs', b') \<Longrightarrow>
   b' = b \<or> (\<exists>c x e. b' = updateReward c x (computeImmediateReward (rewardWeights cfg) x assess e) b)"
  by (auto simp: decideAndExecute_def Let_def split: prod.splits if_splits option.splits)

lemma insufficient_fresh:
  assumes "1 \<le> minSamplesPerAction (bd_config b)" and "getSelectionCount Act_allow ctx b = 0"
  shows "\<not> hasSufficientData ctx b"
  using assms by (simp add: hasSufficientData_def getSelectionCount_def BANDIT_ACTIONS_def)

lemma snoc_drop_oldest:
  "0 < n \<Longrightarrow> (let xs = drop (length ev - n) ev @ [e] in if length xs > n then tl xs else xs) =
   drop (Suc (length ev) - n) (ev @ [e])"
proof (cases "length ev < n")
  case True
  then show ?thesis by simp
next
  case False
  assume "0 < n"
  then have "tl (drop (length ev - n) ev @ [e]) = drop (Suc (length ev) - n) (ev @ [e])"
    using False by (simp add: Suc_diff_le drop_Suc tl_drop [symmetric] tl_append2)
  then show ?thesis using False by simp
qed

definition run_feedback ::
  "feedback_event list \<Rightarrow> feedback_collector \<Rightarrow> bandit \<Rightarrow> bandit_persistence \<Rightarrow> feedback_collector \<times> bandit \<times> bandit_persistence" where
  "run_feedback evs fc b p = fold (\<lambda>ev (fc, b, p). snd (processFeedback ev fc b p)) evs (fc, b, p)"

definition event_reward :: "bandit_config \<Rightarrow> feedback_event \<Rightarrow> bandit_context \<times> bandit_action \<times> real" where
  "event_reward cfg ev = (fe_context ev, fe_action ev, computeRewardFromSignals cfg (fe_signals ev))"

lemma run_feedback_eq:
  "run_feedback evs (new_collector cfg) b p =
   ((new_collector cfg)\<lparr>feedbackLog := drop (length evs - 1000) evs\<rparr>, run_rewards (map (event_reward cfg) evs) b,
    if evs = [] then p else p\<lparr>dirty := True\<rparr>)"
proof (induction evs rule: rev_induct)
  case Nil
  then show ?case by (simp add: run_feedback_def run_rewards_def new_collector_def)
next
  case (snoc e evs)
  let ?fc = "(new_collector cfg)\<lparr>feedbackLog := drop (length evs - 1000) evs\<rparr>"
  have "snd (processFeedback e ?fc b' p') = (?fc\<lparr>feedbackLog := drop (Suc (length evs) - 1000) (evs @ [e])\<rparr>,
      updateReward (fe_context e) (fe_action e) (computeRewardFromSignals cfg (fe_signals e)) b', p'\<lparr>dirty := True\<rparr>)"
    for b' p'
    using snoc_drop_oldest [of 1000 evs e, unfolded Let_def]
    unfolding processFeedback_def Let_def new_collector_def markDirty_def by (auto simp: tl_append2 split: if_splits)
  then show ?case
    using snoc unfolding run_feedback_def by (simp add: run_rewards_def event_reward_def del: drop_append)
qed

section \<open>Loading\<close>

lemma loadState_simps [simp]:
  "selectionCounts (loadState st b) = selectionCounts b" "bd_config (loadState st b) = bd_config b"
  by (induction st arbitrary: b) (auto simp: loadState_def split_def)

lemma loadState_lookup:
  "js_map_ok st \<Longrightarrow> map_of (bd_state (loadState st b)) k =
   (case map_of (bd_state b) k of None \<Rightarrow> None
    | Some s \<Rightarrow> (case map_of st k of Some s' \<Rightarrow> Some s' | None \<Rightarrow> Some s))"
proof (induction st arbitrary: b)
  case Nil
  then show ?case by (simp add: loadState_def split: option.splits)
next
  case (Cons e st)
  obtain k' s' where e: "e = (k', s')" by fastforce
  let ?b = "if map_of (bd_state b) k' \<noteq> None then b\<lparr>bd_state := map_set k' s' (bd_state b)\<rparr> else b"
  have ok: "js_map_ok st" "map_of st k' = None"
    using Cons.prems by (auto simp: e js_map_ok_def map_of_eq_None_iff)
  have "loadState (e # st) b = loadState st ?b" by (simp add: loadState_def e)
  then show ?case
    using Cons.IH [OF ok(1), of ?b] ok(2) by (auto simp: e update_conv' split: option.splits)
qed

lemma updateReward_map_ok: "js_map_ok (bd_state b) \<Longrightarrow> js_map_ok (bd_state (updateReward ctx a r b))"
  by (auto simp: updateReward_def Let_def keeps_inv split: option.splits)

lemma run_rewards_map_ok: "js_map_ok (bd_state b) \<Longrightarrow> js_map_ok (bd_state (run_rewards ev b))"
  by (induction ev arbitrary: b) (auto simp: run_rewards_def updateReward_map_ok)

lemma init_fold_map_ok:
  "js_map_ok (bd_state b) \<Longrightarrow> js_map_ok (bd_state (fold (\<lambda>(ctx, a). init_arm ctx a) ps b))"
  by (induction ps arbitrary: b) (auto simp: init_arm_def Let_def keeps_inv)

lemma new_bandit_map_ok: "js_map_ok (bd_state (new_bandit cfg))"
  by (simp add: new_bandit_def initializePriors_def fold_product init_fold_map_ok)

section \<open>Properties\<close>

text \<open>
  Feedback reaches the learner unchanged and boundedly: after any sequence of feedback events the bandit is
  the one that received their rewards in order, each reward lies between 0 and 1, the log holds exactly the
  last 1000 events, and the parameters are marked for saving.
\<close>
theorem feedback_applies:
  "run_feedback evs (new_collector cfg) b p =
   ((new_collector cfg)\<lparr>feedbackLog := drop (length evs - 1000) evs\<rparr>, run_rewards (map (event_reward cfg) evs) b,
    if evs = [] then p else p\<lparr>dirty := True\<rparr>)
   \<and> (\<forall>r\<in>set (map (\<lambda>e. snd (snd (event_reward cfg e))) evs). 0 \<le> r \<and> r \<le> 1)"
  using run_feedback_eq computeRewardFromSignals_range by (auto simp: event_reward_def)

theorem feedback_applies_witness:
  "length (feedbackLog (fst (run_feedback (replicate 1500 \<lparr>fe_action = Act_block,
     fe_context = \<lparr>threatBucket = Bucket_high, reputationTier = Tier_unknown\<rparr>, fe_signals = [True_positive],
     fe_timestamp = 0, fe_sessionId = None, fe_userId = None\<rparr>)
     (new_collector getDefaultBanditConfiguration) (new_bandit getDefaultBanditConfiguration)
     \<lparr>saveTimer = True, dirty = False\<rparr>))) = 1000"
  using conjunct1 [OF feedback_applies] by simp

text \<open>
  With the default weights the immediate reward of a decision is always below one half, so the learner
  counts every decision it makes itself as a failure: a decision raises the success parameter of no arm,
  whatever the threat, the action and its outcome.
\<close>
theorem own_decisions_never_succeed:
  assumes "rewardWeights cfg = default_weights" and "full b"
    and "decideAndExecute rng pos assess reply ex now cfg rs b = (d, rs', b')"
    and "arm ctx a b = Some s"
  shows "\<exists>s'. arm ctx a b' = Some s' \<and> bs_alpha s' = bs_alpha s \<and> bs_beta s \<le> bs_beta s'"
proof -
  have "b' = b \<or> (\<exists>c x r. b' = updateReward c x r b \<and> r < 1/2)"
    using decide_bandit [OF assms(3)] assms(1) immediate_reward_low by metis
  then show ?thesis
  proof (elim disjE exE conjE)
    fix c x r
    assume b': "b' = updateReward c x r b" "r < 1/2"
    obtain s0 where s0: "arm c x b = Some s0" using assms(2) by (auto simp: full_def)
    show ?thesis using assms(4) s0 b' by (auto simp: updateReward_simps [OF s0])
  qed (use assms(4) in auto)
qed

definition demo_assessment :: threat_assessment where
  "demo_assessment = \<lparr>as_threatScore = 9/10, as_sessionId = ''s'', as_userId = None, as_ipAddress = None\<rparr>"

definition demo_exec :: exec_result where
  "demo_exec = \<lparr>headersSent = False, divert_success = True, engine_success = Some True\<rparr>"

definition eager_config :: bandit_config where
  "eager_config = getDefaultBanditConfiguration\<lparr>minSamplesPerAction := 0\<rparr>"

theorem own_decisions_never_succeed_witness:
  "\<exists>d rs' b' s'. decideAndExecute (\<lambda>k. 0) 0 demo_assessment Not_connected demo_exec 0 eager_config
       \<lparr>rep_cache = [], rep_config = eager_config\<rparr> (new_bandit eager_config) = (d, rs', b')
     \<and> arm \<lparr>threatBucket = Bucket_high, reputationTier = Tier_unknown\<rparr> Act_allow b' = Some s'
     \<and> bs_alpha s' = 10"
proof -
  obtain d rs' b' where dec: "decideAndExecute (\<lambda>k. 0) 0 demo_assessment Not_connected demo_exec 0 eager_config
       \<lparr>rep_cache = [], rep_config = eager_config\<rparr> (new_bandit eager_config) = (d, rs', b')"
    by (cases "decideAndExecute (\<lambda>k. 0) 0 demo_assessment Not_connected demo_exec 0 eager_config
       \<lparr>rep_cache = [], rep_config = eager_config\<rparr> (new_bandit eager_config)") auto
  have w: "rewardWeights eager_config = default_weights"
    by (simp add: eager_config_def getDefaultBanditConfiguration_def)
  have "arm \<lparr>threatBucket = Bucket_high, reputationTier = Tier_unknown\<rparr> Act_allow (new_bandit eager_config)
      = Some \<lparr>bs_alpha = 10, bs_beta = 1\<rparr>"
    by (simp add: eager_config_def getDefaultBanditConfiguration_def)
  from own_decisions_never_succeed [OF w full_new dec this] show ?thesis using dec by auto
qed

text \<open>
  The decision engine never starts to learn by itself: it selects an action only once every action of the
  context has enough samples, and only a selected action gets a sample. From a new bandit, however many
  requests it decides, every decision is the fallback \<^verbatim>\<open>monitor\<close> without execution and the bandit stays as
  it was.
\<close>
theorem engine_never_bootstraps:
  assumes "1 \<le> minSamplesPerAction cfg"
    and "decideAndExecute rng pos assess reply ex now cfg' rs (new_bandit cfg) = (d, rs', b')"
  shows "de_action d = Some Act_monitor \<and> \<not> de_sufficientData d \<and> \<not> de_executed d \<and> b' = new_bandit cfg"
  using assms(2) insufficient_fresh [of "new_bandit cfg"] assms(1)
  by (auto simp: decideAndExecute_def Let_def split: prod.splits if_splits)

theorem engine_never_bootstraps_witness:
  "\<exists>d rs'. decideAndExecute (\<lambda>k. 0) 0 demo_assessment Not_connected demo_exec 0 getDefaultBanditConfiguration
       \<lparr>rep_cache = [], rep_config = getDefaultBanditConfiguration\<rparr> (new_bandit getDefaultBanditConfiguration)
         = (d, rs', new_bandit getDefaultBanditConfiguration)
     \<and> de_action d = Some Act_monitor"
proof -
  obtain d rs' b' where dec: "decideAndExecute (\<lambda>k. 0) 0 demo_assessment Not_connected demo_exec 0 getDefaultBanditConfiguration
       \<lparr>rep_cache = [], rep_config = getDefaultBanditConfiguration\<rparr> (new_bandit getDefaultBanditConfiguration) = (d, rs', b')"
    by (cases "decideAndExecute (\<lambda>k. 0) 0 demo_assessment Not_connected demo_exec 0 getDefaultBanditConfiguration
       \<lparr>rep_cache = [], rep_config = getDefaultBanditConfiguration\<rparr> (new_bandit getDefaultBanditConfiguration)") auto
  have "1 \<le> minSamplesPerAction getDefaultBanditConfiguration" by (simp add: getDefaultBanditConfiguration_def)
  from engine_never_bootstraps [OF this dec] show ?thesis using dec by auto
qed

text \<open>
  Saving and loading restores the parameters of every arm but not the selection counts: after a restart no
  context has sufficient data, so the engine falls back to monitoring although everything learned is there.
\<close>
theorem restart_keeps_arms_loses_counts:
  assumes "1 \<le> minSamplesPerAction cfg"
    and "save True (run_rewards ev (new_bandit cfg)) p = (file, p')"
  shows "arm ctx a (load file (new_bandit cfg)) = arm ctx a (run_rewards ev (new_bandit cfg))
    \<and> \<not> hasSufficientData ctx (load file (new_bandit cfg))"
proof -
  let ?b = "run_rewards ev (new_bandit cfg)"
  have stored: "file = Some (bd_state ?b)" using assms(2) by (simp add: save_def)
  have "js_map_ok (bd_state ?b)" by (simp add: run_rewards_map_ok new_bandit_map_ok)
  then have "arm ctx a (load file (new_bandit cfg)) = arm ctx a ?b"
    using new_bandit_simps(1) [of ctx a cfg] arm_after_run [of ctx a ev cfg]
    by (simp add: stored load_def arm_def loadState_lookup)
  moreover have "getSelectionCount Act_allow ctx (load file (new_bandit cfg)) = 0"
    using new_bandit_simps(2) [of Act_allow ctx cfg] by (simp add: stored load_def getSelectionCount_def)
  ultimately show ?thesis
    using insufficient_fresh [of "load file (new_bandit cfg)" ctx] assms(1) by (simp add: stored load_def)
qed

theorem restart_keeps_arms_loses_counts_witness:
  "\<exists>file p'. save True (run_rewards [(\<lparr>threatBucket = Bucket_high, reputationTier = Tier_unknown\<rparr>, Act_block, 1)]
       (new_bandit getDefaultBanditConfiguration)) \<lparr>saveTimer = True, dirty = True\<rparr> = (file, p')
     \<and> \<not> hasSufficientData \<lparr>threatBucket = Bucket_high, reputationTier = Tier_unknown\<rparr>
         (load file (new_bandit getDefaultBanditConfiguration))"
  using restart_keeps_arms_loses_counts [of getDefaultBanditConfiguration]
  by (auto simp: getDefaultBanditConfiguration_def save_def)

end
