(* ===== verification/SoarActions.thy ===== *)
theory SoarActions
  imports Prelude "HOL-Library.Sublist"
begin

text \<open>
  The actions of the SOAR playbooks (\<^verbatim>\<open>backend/src/soar/actions\<close>), the audit log (\<^verbatim>\<open>soar/auditLog.ts\<close>), the schema
  (\<^verbatim>\<open>soar/playbook.schema.ts\<close>) and the resolution of parameters (\<^verbatim>\<open>interpolate\<close> and \<^verbatim>\<open>resolveParams\<close> of
  \<^verbatim>\<open>soar/executor.ts\<close>).

  Values of type \<^verbatim>\<open>any\<close> are \<open>js_val\<close>; its numbers are integers (their text is decimal). What the outside does is
  two arguments: \<open>net n\<close> answers the \<open>n\<close>-th HTTP request ever issued, \<open>db n\<close> the \<open>n\<close>-th write of the audit log. The
  \<open>world\<close> records the requests issued and the entries stored.
\<close>

section \<open>Values\<close>

datatype js_val =
  VUndef | VNull | VBool bool | VNum int | VStr string | VArr "js_val list" | VObj "(string \<times> js_val) list"

definition show_int :: "int \<Rightarrow> string" where
  "show_int i = (if i < 0 then ''-'' @ digits (nat (- i)) else digits (nat i))"

fun join_comma :: "string list \<Rightarrow> string" where
  "join_comma [] = []"
| "join_comma [s] = s"
| "join_comma (s # t # ss) = s @ '','' @ join_comma (t # ss)"

text \<open>\<^verbatim>\<open>String(v)\<close>\<close>

fun to_str :: "js_val \<Rightarrow> string" where
  "to_str VUndef = ''undefined''"
| "to_str VNull = ''null''"
| "to_str (VBool b) = (if b then ''true'' else ''false'')"
| "to_str (VNum i) = show_int i"
| "to_str (VStr s) = s"
| "to_str (VArr vs) = join_comma (map (\<lambda>v. if v = VUndef \<or> v = VNull then [] else to_str v) vs)"
| "to_str (VObj _) = ''[object Object]''"

fun val_truthy :: "js_val \<Rightarrow> bool" where
  "val_truthy VUndef = False"
| "val_truthy VNull = False"
| "val_truthy (VBool b) = b"
| "val_truthy (VNum i) = (i \<noteq> 0)"
| "val_truthy (VStr s) = (s \<noteq> [])"
| "val_truthy (VArr _) = True"
| "val_truthy (VObj _) = True"

type_synonym js_object = "(string \<times> js_val) list"

definition obj_get :: "js_object \<Rightarrow> string \<Rightarrow> js_val" where
  "obj_get r k = (case map_of r k of None \<Rightarrow> VUndef | Some v \<Rightarrow> v)"

text \<open>\<^verbatim>\<open>v.k\<close> for any value: undefined for a primitive or an array (the keys used are not array members).\<close>

fun val_get :: "js_val \<Rightarrow> string \<Rightarrow> js_val" where
  "val_get (VObj r) k = obj_get r k"
| "val_get _ k = VUndef"

definition hex_digit :: "nat \<Rightarrow> char" where
  "hex_digit n = (if n < 10 then char_of (48 + n) else char_of (55 + n))"

definition uri_unreserved :: "char \<Rightarrow> bool" where
  "uri_unreserved c \<longleftrightarrow>
     (let n = (of_char c :: nat)
      in 48 \<le> n \<and> n \<le> 57 \<or> 65 \<le> n \<and> n \<le> 90 \<or> 97 \<le> n \<and> n \<le> 122) \<or> c \<in> set ''-_.!~*()'' \<or> (of_char c :: nat) = 39"

definition percent_byte :: "byte \<Rightarrow> string" where
  "percent_byte b = [CHR ''%'', hex_digit (unat b div 16), hex_digit (unat b mod 16)]"

definition encodeURIComponent :: "string \<Rightarrow> string" where
  "encodeURIComponent s =
     concat (map (\<lambda>c. if uri_unreserved c then [c] else concat (map percent_byte (utf8_point (of_char c)))) s)"

section \<open>Playbooks\<close>

record action_step =
  step_id :: string
  step_type :: string
  step_params :: js_object
  step_timeoutMs :: "int option"
  step_retries :: "real option"

record playbook_trigger =
  tr_eventType :: "string option"
  tr_minRiskScore :: "real option"
  tr_minConfidence :: "real option"

record playbook =
  pb_id :: string
  pb_name :: string
  pb_trigger :: playbook_trigger
  pb_steps :: "action_step list"
  pb_rollback :: "action_step list option"
  pb_timeoutMs :: "int option"

datatype soar_error =
  Not_an_object | No_id_or_name | No_steps | Net_error string | Db_error string | Not_a_function
| Unsupported_action string | Action_failed

fun validatePlaybook :: "js_val \<Rightarrow> soar_error option" where
  "validatePlaybook v =
     (if \<not> (case v of VObj _ \<Rightarrow> True | VArr _ \<Rightarrow> True | _ \<Rightarrow> False) then Some Not_an_object
      else if \<not> val_truthy (val_get v ''id'') \<or> \<not> val_truthy (val_get v ''name'') then Some No_id_or_name
      else case val_get v ''steps'' of VArr (_ # _) \<Rightarrow> None | _ \<Rightarrow> Some No_steps)"

text \<open>A playbook as the value \<^verbatim>\<open>validatePlaybook\<close> sees: the fields it reads.\<close>

definition step_value :: "action_step \<Rightarrow> js_val" where
  "step_value s = VObj [(''id'', VStr (step_id s)), (''type'', VStr (step_type s)), (''params'', VObj (step_params s))]"

definition playbook_value :: "playbook \<Rightarrow> js_val" where
  "playbook_value pb =
     VObj [(''id'', VStr (pb_id pb)), (''name'', VStr (pb_name pb)), (''steps'', VArr (map step_value (pb_steps pb)))]"

lemma validatePlaybook_record [simp]:
  "validatePlaybook (playbook_value pb) =
     (if pb_id pb = [] \<or> pb_name pb = [] then Some No_id_or_name
      else if pb_steps pb = [] then Some No_steps else None)"
  by (cases "pb_steps pb") (simp_all add: playbook_value_def obj_get_def)

declare validatePlaybook.simps [simp del]

section \<open>Parameters\<close>

text \<open>\<^verbatim>\<open>/\{\{(\w+)\}\}/\<close> at the start of a string: the key and what follows.\<close>

definition is_word :: "char \<Rightarrow> bool" where
  "is_word c \<longleftrightarrow>
     (let n = (of_char c :: nat)
      in 48 \<le> n \<and> n \<le> 57 \<or> 65 \<le> n \<and> n \<le> 90 \<or> 97 \<le> n \<and> n \<le> 122 \<or> n = 95)"

definition placeholder :: "string \<Rightarrow> (string \<times> string) option" where
  "placeholder s =
     (let key = takeWhile is_word (drop 2 s); rest = dropWhile is_word (drop 2 s)
      in if take 2 s = ''{{'' \<and> key \<noteq> [] \<and> take 2 rest = ''}}'' then Some (key, drop 2 rest) else None)"

definition context_text :: "js_object \<Rightarrow> string \<Rightarrow> string" where
  "context_text ctx k =
     (case obj_get ctx k of VUndef \<Rightarrow> [] | VNull \<Rightarrow> [] | v \<Rightarrow> to_str v)"

lemma placeholder_shorter: "placeholder s = Some (k, rest) \<Longrightarrow> length rest < length s"
proof -
  assume a: "placeholder s = Some (k, rest)"
  then have "length (drop 2 (dropWhile is_word (drop 2 s))) = length rest" "s \<noteq> []"
    by (auto simp: placeholder_def Let_def split: if_splits)
  moreover have "length (dropWhile is_word (drop 2 s)) \<le> length (drop 2 s)" by (rule length_dropWhile_le)
  ultimately show ?thesis by (cases s) auto
qed

function interpolate_str :: "js_object \<Rightarrow> string \<Rightarrow> string" where
  "interpolate_str ctx [] = []"
| "interpolate_str ctx (c # s) =
     (case placeholder (c # s) of
        Some (key, rest) \<Rightarrow> context_text ctx key @ interpolate_str ctx rest
      | None \<Rightarrow> c # interpolate_str ctx s)"
  by pat_completeness auto
termination
  by (relation "measure (\<lambda>(ctx, s). length s)") (auto dest: placeholder_shorter)

fun interpolate :: "js_object option \<Rightarrow> js_val \<Rightarrow> js_val" where
  "interpolate (Some ctx) (VStr s) = VStr (interpolate_str ctx s)"
| "interpolate _ v = v"

definition resolveParams :: "js_object option \<Rightarrow> js_object \<Rightarrow> js_object" where
  "resolveParams ctx params =
     (case ctx of None \<Rightarrow> params | Some _ \<Rightarrow> map (\<lambda>(k, v). (k, interpolate ctx v)) params)"

section \<open>The outside\<close>

record http_post =
  hp_url :: string
  hp_body :: js_val
  hp_token :: "string option"
  hp_timeout :: int

datatype operator = Op_system | Op_human

record audit_entry =
  au_playbook_id :: string
  au_action :: string
  au_timestamp :: time_ms
  au_result :: string
  au_operator :: operator
  au_attempt :: nat
  au_params :: js_object

record world =
  w_posts :: "http_post list"
  w_audit :: "audit_entry list"
  w_writes :: nat

text \<open>
  \<open>Some e\<close> of \<open>net\<close> is a request that fails with the message \<open>e\<close>. The database is not connected, stores the entry
  with the time of the write, or fails.
\<close>

type_synonym network = "nat \<Rightarrow> string option"

datatype db_reply = Db_down | Db_ok time_ms | Db_fail string

type_synonym database = "nat \<Rightarrow> db_reply"

record soar_env =
  PFSENSE_API_URL :: "string option"
  PFSENSE_API_TOKEN :: "string option"
  EDR_API_URL :: "string option"
  EDR_API_TOKEN :: "string option"
  IAM_API_URL :: "string option"
  IAM_API_TOKEN :: "string option"
  SLACK_WEBHOOK_URL :: "string option"
  PAGERDUTY_WEBHOOK_URL :: "string option"
  PAGERDUTY_ROUTING_KEY :: "string option"

text \<open>A variable that is unset or empty is falsy.\<close>

definition env_set :: "string option \<Rightarrow> bool" where
  "env_set v \<longleftrightarrow> v \<noteq> None \<and> v \<noteq> Some []"

type_synonym 'a outcome_of = "(soar_error + 'a) \<times> world"

definition and_then :: "'a outcome_of \<Rightarrow> ('a \<Rightarrow> world \<Rightarrow> 'b outcome_of) \<Rightarrow> 'b outcome_of" where
  "and_then r f = (case r of (Inl e, w) \<Rightarrow> (Inl e, w) | (Inr a, w) \<Rightarrow> f a w)"

lemma and_then_simps [simp]:
  "and_then (Inl e, w) f = (Inl e, w)" "and_then (Inr a, w) f = f a w"
  by (simp_all add: and_then_def)

definition post :: "network \<Rightarrow> http_post \<Rightarrow> world \<Rightarrow> unit outcome_of" where
  "post net p w =
     (case net (length (w_posts w)) of None \<Rightarrow> Inr () | Some e \<Rightarrow> Inl (Net_error e),
      w\<lparr>w_posts := w_posts w @ [p]\<rparr>)"

section \<open>Actions\<close>

record action_result =
  ar_ok :: bool
  ar_detail :: string

definition done_with :: "string \<Rightarrow> world \<Rightarrow> action_result outcome_of" where
  "done_with detail w = (Inr \<lparr>ar_ok = True, ar_detail = detail\<rparr>, w)"

definition firewallBlockAction :: "network \<Rightarrow> soar_env \<Rightarrow> js_object \<Rightarrow> world \<Rightarrow> action_result outcome_of" where
  "firewallBlockAction net env params w =
     (let ip = obj_get params ''sourceIp''
      in if \<not> env_set (PFSENSE_API_URL env) \<or> \<not> env_set (PFSENSE_API_TOKEN env)
         then done_with (''Simulated firewall block for '' @ to_str ip) w
         else and_then
           (post net \<lparr>hp_url = the (PFSENSE_API_URL env) @ ''/api/v1/firewall/block'', hp_body = VObj [(''ip'', ip)],
              hp_token = PFSENSE_API_TOKEN env, hp_timeout = 10000\<rparr> w)
           (\<lambda>_. done_with (''Blocked '' @ to_str ip @ '' at firewall'')))"

definition edrQuarantineAction :: "network \<Rightarrow> soar_env \<Rightarrow> js_object \<Rightarrow> world \<Rightarrow> action_result outcome_of" where
  "edrQuarantineAction net env params w =
     (let host = to_str (obj_get params ''hostId'')
      in if \<not> env_set (EDR_API_URL env) \<or> \<not> env_set (EDR_API_TOKEN env)
         then done_with (''Simulated EDR quarantine for '' @ host) w
         else and_then
           (post net \<lparr>hp_url = the (EDR_API_URL env) @ ''/endpoints/'' @ encodeURIComponent host @ ''/quarantine'',
              hp_body = VObj [], hp_token = EDR_API_TOKEN env, hp_timeout = 10000\<rparr> w)
           (\<lambda>_. done_with (''Quarantined endpoint '' @ host)))"

definition iamResetCredentialAction :: "network \<Rightarrow> soar_env \<Rightarrow> js_object \<Rightarrow> world \<Rightarrow> action_result outcome_of" where
  "iamResetCredentialAction net env params w =
     (let user = to_str (obj_get params ''userId'')
      in if \<not> env_set (IAM_API_URL env) \<or> \<not> env_set (IAM_API_TOKEN env)
         then done_with (''Simulated credential reset for '' @ user) w
         else and_then
           (post net \<lparr>hp_url = the (IAM_API_URL env) @ ''/users/'' @ encodeURIComponent user @ ''/reset-password'',
              hp_body = VObj [], hp_token = IAM_API_TOKEN env, hp_timeout = 10000\<rparr> w)
           (\<lambda>_. done_with (''Forced password reset for '' @ user)))"

text \<open>\<^verbatim>\<open>(params.severity || 'warning').toLowerCase()\<close> raises for a val_truthy value that is not a string.\<close>

definition severity_or :: "string \<Rightarrow> js_object \<Rightarrow> js_val" where
  "severity_or d params = (let v = obj_get params ''severity'' in if val_truthy v then v else VStr d)"

definition slack_post :: "network \<Rightarrow> soar_env \<Rightarrow> js_object \<Rightarrow> world \<Rightarrow> unit outcome_of" where
  "slack_post net env params w =
     (if \<not> env_set (SLACK_WEBHOOK_URL env) then (Inr (), w)
      else post net \<lparr>hp_url = the (SLACK_WEBHOOK_URL env),
        hp_body = VObj [(''text'', VStr (''['' @ to_str (severity_or ''info'' params) @ ''] '' @
          to_str (obj_get params ''message'')))], hp_token = None, hp_timeout = 10000\<rparr> w)"

definition pagerduty_post :: "network \<Rightarrow> soar_env \<Rightarrow> js_object \<Rightarrow> world \<Rightarrow> unit outcome_of" where
  "pagerduty_post net env params w =
     (if \<not> env_set (PAGERDUTY_WEBHOOK_URL env) then (Inr (), w)
      else case severity_or ''warning'' params of
        VStr sev \<Rightarrow>
          post net \<lparr>hp_url = the (PAGERDUTY_WEBHOOK_URL env),
            hp_body = VObj [(''routing_key'', case PAGERDUTY_ROUTING_KEY env of None \<Rightarrow> VUndef | Some k \<Rightarrow> VStr k),
              (''event_action'', VStr ''trigger''),
              (''payload'', VObj [(''summary'', obj_get params ''message''),
                 (''severity'', VStr (map lower_char sev)), (''source'', VStr ''phontomflow'')])],
            hp_token = None, hp_timeout = 10000\<rparr> w
      | _ \<Rightarrow> (Inl Not_a_function, w))"

definition notifyAction :: "network \<Rightarrow> soar_env \<Rightarrow> js_object \<Rightarrow> world \<Rightarrow> action_result outcome_of" where
  "notifyAction net env params w =
     and_then (slack_post net env params w) (\<lambda>_ w.
     and_then (pagerduty_post net env params w) (\<lambda>_.
       done_with ''Notifications dispatched (or simulated).''))"

definition writePlaybookAuditLog ::
  "database \<Rightarrow> (time_ms \<Rightarrow> audit_entry) \<Rightarrow> world \<Rightarrow> unit outcome_of" where
  "writePlaybookAuditLog db entry w =
     (let w' = w\<lparr>w_writes := w_writes w + 1\<rparr>
      in case db (w_writes w) of
           Db_down \<Rightarrow> (Inr (), w')
         | Db_ok t \<Rightarrow> (Inr (), w'\<lparr>w_audit := w_audit w @ [entry t]\<rparr>)
         | Db_fail e \<Rightarrow> (Inl (Db_error e), w'))"

section \<open>The requests of an action\<close>

text \<open>The requests and the log entries only grow; an action leaves the log alone.\<close>

definition grows :: "world \<Rightarrow> world \<Rightarrow> bool" where
  "grows w w' \<longleftrightarrow> prefix (w_posts w) (w_posts w') \<and> prefix (w_audit w) (w_audit w') \<and> w_writes w \<le> w_writes w'"

definition no_log :: "world \<Rightarrow> world \<Rightarrow> bool" where
  "no_log w w' \<longleftrightarrow> w_audit w' = w_audit w \<and> w_writes w' = w_writes w \<and> prefix (w_posts w) (w_posts w')"

lemma no_log_refl [simp]: "no_log w w"
  by (simp add: no_log_def)

lemma no_log_trans: "no_log w w' \<Longrightarrow> no_log w' w'' \<Longrightarrow> no_log w w''"
  by (auto simp: no_log_def)

lemma no_log_grows: "no_log w w' \<Longrightarrow> grows w w'"
  by (simp add: no_log_def grows_def)

lemma no_log_post [simp]: "no_log w (snd (post net p w))"
  by (simp add: post_def no_log_def)

lemma no_log_and_then:
  "no_log w (snd r) \<Longrightarrow> (\<And>a w. no_log w (snd (f a w))) \<Longrightarrow> no_log w (snd (and_then r f))"
  by (cases r) (auto simp: and_then_def split: sum.splits intro: no_log_trans)

lemma no_log_done [simp]: "no_log w (snd (done_with d w))"
  by (simp add: done_with_def)

lemma no_log_actions [simp]:
  "no_log w (snd (firewallBlockAction net env ps w))"
  "no_log w (snd (edrQuarantineAction net env ps w))"
  "no_log w (snd (iamResetCredentialAction net env ps w))"
  "no_log w (snd (notifyAction net env ps w))"
  by (auto simp: firewallBlockAction_def edrQuarantineAction_def iamResetCredentialAction_def notifyAction_def
      slack_post_def pagerduty_post_def Let_def intro!: no_log_and_then split: js_val.splits)

lemma grows_audit: "grows w (snd (writePlaybookAuditLog db entry w))"
  by (simp add: writePlaybookAuditLog_def grows_def Let_def split: db_reply.splits)

section \<open>Interpolation\<close>

lemma placeholder_plain: "c \<noteq> CHR ''{'' \<Longrightarrow> placeholder (c # s) = None"
  by (cases s) (auto simp: placeholder_def Let_def)

lemma interpolate_plain: "CHR ''{'' \<notin> set pre \<Longrightarrow> interpolate_str ctx (pre @ s) = pre @ interpolate_str ctx s"
  by (induction pre) (auto simp: placeholder_plain)

lemma placeholder_key:
  assumes "list_all is_word k" and "k \<noteq> []"
  shows "placeholder (''{{'' @ k @ ''}}'' @ suf) = Some (k, suf)"
proof -
  have nw: "\<not> is_word (CHR ''}'')" by (simp add: is_word_def)
  have "takeWhile is_word (k @ ''}}'' @ suf) = k" "dropWhile is_word (k @ ''}}'' @ suf) = ''}}'' @ suf"
    using assms(1) nw by (simp_all add: takeWhile_append dropWhile_append list_all_iff)
  then show ?thesis using assms(2) by (simp add: placeholder_def Let_def)
qed

end
