(* ===== verification/MultiArmedBandit.thy ===== *)
theory MultiArmedBandit
  imports Bandit
begin

text \<open>
  The second bandit (\<^verbatim>\<open>backend/src/core/bandit/mab.ts\<close>): \<^verbatim>\<open>ThompsonSamplingBandit\<close>, whose sampler has no bound on its
  rejections, and \<^verbatim>\<open>MultiArmedBanditFramework\<close>, which keeps the arms of named contexts.

  The loop of the sampler is a \<open>partial_function\<close> in the option monad: \<open>None\<close> is a call that never returns. It is
  shown to return exactly when some round accepts (\<open>gamma_loop_returns\<close>), so a statement that a selection
  returns has the hypothesis that the random numbers do not make every round reject. An object with arms as
  properties is an association list in insertion order; \<open>js_entries\<close> puts array-index keys first, as
  \<^verbatim>\<open>Object.entries\<close> does. Arm names are assumed not to be names inherited from \<^verbatim>\<open>Object.prototype\<close>.

  The learner is the second interpretation of \<open>arm_learner\<close>.
\<close>

section \<open>The order of object properties\<close>

definition is_digit :: "char \<Rightarrow> bool" where
  "is_digit c \<longleftrightarrow> (48::int) \<le> of_char c \<and> (of_char c :: int) \<le> 57"

definition digits_value :: "string \<Rightarrow> int" where
  "digits_value s = foldl (\<lambda>n c. 10 * n + (of_char c - 48)) 0 s"

definition is_array_index :: "string \<Rightarrow> bool" where
  "is_array_index s \<longleftrightarrow>
     s \<noteq> [] \<and> list_all is_digit s \<and> (s = ''0'' \<or> hd s \<noteq> CHR ''0'') \<and> digits_value s < 4294967295"

definition js_entries :: "(string, 'v) js_map \<Rightarrow> (string \<times> 'v) list" where
  "js_entries m =
     sort_key (\<lambda>e. digits_value (fst e)) (filter (\<lambda>e. is_array_index (fst e)) m)
     @ filter (\<lambda>e. \<not> is_array_index (fst e)) m"

lemma mset_js_entries: "mset (js_entries m) = mset m"
  using multiset_partition [of "mset m" "\<lambda>e. is_array_index (fst e)"] by (simp add: js_entries_def mset_filter)

lemma set_js_entries [simp]: "set (js_entries m) = set m"
  using mset_js_entries by (metis set_mset_mset)

lemma js_entries_Nil_iff [simp]: "js_entries m = [] \<longleftrightarrow> m = []"
  using mset_js_entries by (metis mset_zero_iff)

section \<open>The sampler\<close>

record arm_stats =
  am_alpha :: real
  am_beta :: real
  am_selections :: int
  am_rewardSum :: real

text \<open>
  One round: \<open>Inl\<close> the next position when it rejects. With a first draw of 0 the code computes with an infinite
  \<open>z\<close>: \<open>v\<close> is minus infinity when the cosine is negative and the round rejects after two draws; otherwise \<open>v\<close> is
  plus infinity (NaN for a cosine of 0), both comparisons are false, and it rejects after three. A third draw of
  0 has logarithm minus infinity.
\<close>

definition mab_gamma_round :: "rng \<Rightarrow> real \<Rightarrow> real \<Rightarrow> nat \<Rightarrow> nat + (real \<times> nat)" where
  "mab_gamma_round rng d c pos =
     (let u1 = rng pos; u2 = rng (pos + 1); co = cos (2 * pi * u2)
      in if u1 = 0 then Inl (if co < 0 then pos + 2 else pos + 3)
         else
           let z = sqrt (- 2 * ln u1) * co; v = (1 + c * z) ^ 3
           in if v \<le> 0 then Inl (pos + 2)
              else
                let u = rng (pos + 2)
                in if u < 1 - 331/10000 * z ^ 4 then Inr (d * v, pos + 3)
                   else if u = 0 \<or> ln u < 1/2 * z * z + d * (1 - v + ln v) then Inr (d * v, pos + 3)
                   else Inl (pos + 3))"

partial_function (option) mab_gamma_loop :: "rng \<Rightarrow> real \<Rightarrow> real \<Rightarrow> nat \<Rightarrow> (real \<times> nat) option" where
  "mab_gamma_loop rng d c pos =
     (case mab_gamma_round rng d c pos of Inr r \<Rightarrow> Some r | Inl pos' \<Rightarrow> mab_gamma_loop rng d c pos')"

definition mab_gamma_large :: "rng \<Rightarrow> real \<Rightarrow> nat \<Rightarrow> (real \<times> nat) option" where
  "mab_gamma_large rng shape pos =
     (let d = shape - 1/3; c = 1 / sqrt (9 * d) in mab_gamma_loop rng d c pos)"

text \<open>For a shape below 1 the code calls itself with \<open>shape + 1\<close>, which is at least 1 for every positive shape.\<close>

definition mab_sampleGamma :: "rng \<Rightarrow> real \<Rightarrow> nat \<Rightarrow> (real \<times> nat) option" where
  "mab_sampleGamma rng shape pos =
     (if shape < 1
      then let u = rng pos
           in map_option (\<lambda>(g, pos'). (g * u powr (1 / shape), pos')) (mab_gamma_large rng (shape + 1) (pos + 1))
      else mab_gamma_large rng shape pos)"

definition mab_sampleBeta :: "rng \<Rightarrow> real \<Rightarrow> real \<Rightarrow> nat \<Rightarrow> (jsnum \<times> nat) option" where
  "mab_sampleBeta rng a b pos =
     Option.bind (mab_sampleGamma rng a pos) (\<lambda>(x, pos1).
     Option.bind (mab_sampleGamma rng b pos1) (\<lambda>(y, pos2). Some (js_div x (x + y), pos2)))"

fun selectArm_loop ::
  "rng \<Rightarrow> (string \<times> arm_stats) list \<Rightarrow> string \<Rightarrow> jsnum \<Rightarrow> nat \<Rightarrow> (string \<times> nat) option" where
  "selectArm_loop rng [] bestArm bestSample pos = Some (bestArm, pos)"
| "selectArm_loop rng ((nm, st) # es) bestArm bestSample pos =
     (case mab_sampleBeta rng (am_alpha st) (am_beta st) pos of
        None \<Rightarrow> None
      | Some (sample, pos') \<Rightarrow>
          if better sample bestSample then selectArm_loop rng es nm sample pos'
          else selectArm_loop rng es bestArm bestSample pos')"

text \<open>\<^verbatim>\<open>Object.keys(arms)[0] || 'default'\<close>: an empty first key is falsy too.\<close>

definition first_arm :: "(string, arm_stats) js_map \<Rightarrow> string" where
  "first_arm arms =
     (case js_entries arms of [] \<Rightarrow> ''default'' | (k, _) # _ \<Rightarrow> if k = [] then ''default'' else k)"

definition selectArm :: "rng \<Rightarrow> (string, arm_stats) js_map \<Rightarrow> nat \<Rightarrow> (string \<times> nat) option" where
  "selectArm rng arms pos = selectArm_loop rng (js_entries arms) (first_arm arms) NInf pos"

definition mab_update :: "arm_stats \<Rightarrow> real \<Rightarrow> arm_stats" where
  "mab_update st reward =
     (if reward > 0 then st\<lparr>am_alpha := am_alpha st + 1\<rparr> else st\<lparr>am_beta := am_beta st + 1\<rparr>)"

section \<open>The framework\<close>

text \<open>
  \<open>redis_state\<close> is what the connection does with the one write of \<^verbatim>\<open>reward\<close>: it is absent or not open, the write
  succeeds, or it fails and the exception leaves \<^verbatim>\<open>reward\<close> after the arm was updated.
\<close>

datatype redis_state = Redis_closed | Redis_open | Redis_failing string

datatype mab_error = Unknown_context string | Missing_arm string | Redis_failed string

type_synonym mab = "(string, (string, arm_stats) js_map) js_map"

definition fresh_arm :: arm_stats where
  "fresh_arm = \<lparr>am_alpha = 1, am_beta = 1, am_selections = 0, am_rewardSum = 0\<rparr>"

definition registerContext :: "string \<Rightarrow> string list \<Rightarrow> mab \<Rightarrow> mab" where
  "registerContext ctx arms m =
     (if map_of m ctx \<noteq> None then m
      else map_set ctx (fold (\<lambda>nm. map_set nm fresh_arm) arms []) m)"

text \<open>Reading \<^verbatim>\<open>selections\<close> of a missing arm raises; that happens when the context has no arms.\<close>

definition mab_select :: "rng \<Rightarrow> string \<Rightarrow> nat \<Rightarrow> mab \<Rightarrow> (mab_error + (string \<times> nat \<times> mab)) option" where
  "mab_select rng ctx pos m =
     (case map_of m ctx of
        None \<Rightarrow> Some (Inl (Unknown_context ctx))
      | Some arms \<Rightarrow>
          (case selectArm rng arms pos of
             None \<Rightarrow> None
           | Some (nm, pos') \<Rightarrow>
               Some (case map_of arms nm of
                       None \<Rightarrow> Inl (Missing_arm nm)
                     | Some st \<Rightarrow>
                         Inr (nm, pos',
                           map_set ctx (map_set nm (st\<lparr>am_selections := am_selections st + 1\<rparr>) arms) m))))"

definition mab_reward :: "redis_state \<Rightarrow> string \<Rightarrow> string \<Rightarrow> real \<Rightarrow> mab \<Rightarrow> mab_error option \<times> mab" where
  "mab_reward redis ctx nm reward m =
     (case map_of m ctx of
        None \<Rightarrow> (None, m)
      | Some arms \<Rightarrow>
          (case map_of arms nm of
             None \<Rightarrow> (None, m)
           | Some st \<Rightarrow>
               (let st = mab_update st reward;
                    st = st\<lparr>am_rewardSum := am_rewardSum st + reward\<rparr>;
                    m = map_set ctx (map_set nm st arms) m
                in (case redis of Redis_failing e \<Rightarrow> Some (Redis_failed e) | _ \<Rightarrow> None, m))))"

definition mab_getStats :: "string \<Rightarrow> mab \<Rightarrow> (string, arm_stats) js_map" where
  "mab_getStats ctx m = (case map_of m ctx of None \<Rightarrow> [] | Some arms \<Rightarrow> arms)"

section \<open>Termination of the sampler\<close>

fun gamma_rounds :: "rng \<Rightarrow> real \<Rightarrow> real \<Rightarrow> nat \<Rightarrow> nat \<Rightarrow> (real \<times> nat) option" where
  "gamma_rounds rng d c 0 pos = None"
| "gamma_rounds rng d c (Suc n) pos =
     (case mab_gamma_round rng d c pos of Inr r \<Rightarrow> Some r | Inl pos' \<Rightarrow> gamma_rounds rng d c n pos')"

lemma gamma_rounds_loop: "gamma_rounds rng d c n pos = Some r \<Longrightarrow> mab_gamma_loop rng d c pos = Some r"
proof (induction n arbitrary: pos)
  case (Suc n)
  then show ?case by (cases "mab_gamma_round rng d c pos") (simp_all add: mab_gamma_loop.simps [of rng d c pos])
qed simp

lemma gamma_loop_rounds: "mab_gamma_loop rng d c pos = Some r \<Longrightarrow> \<exists>n. gamma_rounds rng d c n pos = Some r"
proof (rule mab_gamma_loop.raw_induct [where P = "\<lambda>rng d c pos r. \<exists>n. gamma_rounds rng d c n pos = Some r"])
  fix loop :: "rng \<Rightarrow> real \<Rightarrow> real \<Rightarrow> nat \<Rightarrow> (real \<times> nat) option" and rng d c pos r
  assume ih: "\<And>rng d c pos r. loop rng d c pos = Some r \<Longrightarrow> \<exists>n. gamma_rounds rng d c n pos = Some r"
    and step: "(case mab_gamma_round rng d c pos of Inl pos' \<Rightarrow> loop rng d c pos' | Inr r \<Rightarrow> Some r) = Some r"
  show "\<exists>n. gamma_rounds rng d c n pos = Some r"
  proof (cases "mab_gamma_round rng d c pos")
    case (Inl pos')
    then have "loop rng d c pos' = Some r" using step by simp
    then obtain n where "gamma_rounds rng d c n pos' = Some r" using ih by blast
    then show ?thesis by (intro exI [of _ "Suc n"]) (simp add: Inl)
  next
    case (Inr r')
    then show ?thesis using step by (intro exI [of _ "Suc 0"]) simp
  qed
qed

lemma gamma_loop_returns:
  "mab_gamma_loop rng d c pos = Some r \<longleftrightarrow> (\<exists>n. gamma_rounds rng d c n pos = Some r)"
  using gamma_rounds_loop gamma_loop_rounds by blast

text \<open>The random numbers never make the loop reject forever.\<close>

definition sampler_live :: "rng \<Rightarrow> bool" where
  "sampler_live rng \<longleftrightarrow>
     (\<forall>shape\<ge>1. \<forall>pos. \<exists>n. gamma_rounds rng (shape - 1/3) (1 / sqrt (9 * (shape - 1/3))) n pos \<noteq> None)"

lemma gamma_rounds_pos: "0 < d \<Longrightarrow> gamma_rounds rng d c n pos = Some (x, pos') \<Longrightarrow> 0 < x"
proof (induction n arbitrary: pos)
  case (Suc n)
  then show ?case by (auto simp: mab_gamma_round_def Let_def split: if_splits sum.splits)
qed simp

lemma sampleGamma_returns:
  assumes "sampler_live rng" and "1 \<le> shape"
  shows "\<exists>x pos'. mab_sampleGamma rng shape pos = Some (x, pos') \<and> 0 < x"
proof -
  obtain n x pos' where n: "gamma_rounds rng (shape - 1/3) (1 / sqrt (9 * (shape - 1/3))) n pos = Some (x, pos')"
    using assms by (fastforce simp: sampler_live_def)
  have "0 < x" using gamma_rounds_pos [OF _ n] assms(2) by simp
  then show ?thesis using gamma_rounds_loop [OF n] assms(2)
    by (auto simp: mab_sampleGamma_def mab_gamma_large_def Let_def)
qed

lemma sampleBeta_returns:
  assumes "sampler_live rng" and "1 \<le> a" and "1 \<le> b"
  shows "\<exists>x pos'. mab_sampleBeta rng a b pos = Some (Fin x, pos') \<and> 0 < x \<and> x < 1"
proof -
  obtain x p1 where x: "mab_sampleGamma rng a pos = Some (x, p1)" "0 < x"
    using sampleGamma_returns [OF assms(1,2)] by blast
  obtain y p2 where y: "mab_sampleGamma rng b p1 = Some (y, p2)" "0 < y"
    using sampleGamma_returns [OF assms(1,3)] by blast
  show ?thesis using x y by (simp add: mab_sampleBeta_def js_div_def)
qed

text \<open>Second draws of one quarter make \<open>z\<close> zero, which is accepted at once.\<close>

lemma quarter_round: "mab_gamma_round (\<lambda>_. 1/4) d c pos = Inr (d, pos + 3)"
  by (simp add: mab_gamma_round_def Let_def)

lemma quarter_live: "sampler_live (\<lambda>_. 1/4)"
  unfolding sampler_live_def
proof (intro allI impI)
  show "\<exists>n. gamma_rounds (\<lambda>_. 1/4) (shape - 1/3) (1 / sqrt (9 * (shape - 1/3))) n pos \<noteq> None" for shape pos
    by (intro exI [of _ "Suc 0"]) (simp add: quarter_round)
qed

section \<open>Arms\<close>

definition arm_at :: "mab \<Rightarrow> string \<Rightarrow> string \<Rightarrow> arm_stats option" where
  "arm_at m ctx a = Option.bind (map_of m ctx) (\<lambda>arms. map_of arms a)"

lemma arm_at_set:
  "map_of m ctx = Some arms \<Longrightarrow> arm_at (map_set ctx (map_set a st arms) m) ctx' a' =
     (if ctx' = ctx \<and> a' = a then Some st else arm_at m ctx' a')"
  by (auto simp: arm_at_def update_conv')

lemma map_of_fold_fresh:
  "map_of (fold (\<lambda>a. map_set a fresh_arm) arms m) a = (if a \<in> set arms then Some fresh_arm else map_of m a)"
  by (induction arms arbitrary: m) (auto simp: update_conv')

lemma arm_at_register:
  "arm_at (registerContext ctx arms m) ctx' a =
     (if ctx' = ctx \<and> map_of m ctx = None then (if a \<in> set arms then Some fresh_arm else None)
      else arm_at m ctx' a)"
  by (auto simp: arm_at_def registerContext_def update_conv' map_of_fold_fresh)

lemma arm_at_reward:
  "arm_at (snd (mab_reward redis ctx a r m)) ctx' a' =
     (if ctx' = ctx \<and> a' = a
      then map_option (\<lambda>st. let st = mab_update st r in st\<lparr>am_rewardSum := am_rewardSum st + r\<rparr>) (arm_at m ctx a)
      else arm_at m ctx' a')"
proof (cases "map_of m ctx")
  case (Some arms)
  then show ?thesis
    by (cases "map_of arms a")
       (auto simp: mab_reward_def Let_def arm_at_set [OF Some] arm_at_def [of m ctx a])
qed (auto simp: mab_reward_def arm_at_def)

lemma arm_at_select:
  assumes "mab_select rng ctx pos m = Some (Inr (a, pos', m'))"
  obtains st where "arm_at m ctx a = Some st"
    and "\<And>ctx' a'. arm_at m' ctx' a' =
      (if ctx' = ctx \<and> a' = a then Some (st\<lparr>am_selections := am_selections st + 1\<rparr>) else arm_at m ctx' a')"
proof -
  obtain arms st where "map_of m ctx = Some arms" "map_of arms a = Some st"
    "m' = map_set ctx (map_set a (st\<lparr>am_selections := am_selections st + 1\<rparr>) arms) m"
    using assms by (auto simp: mab_select_def split: option.splits)
  then show ?thesis by (intro that [of st]) (simp_all add: arm_at_set, simp add: arm_at_def)
qed

definition mab_params :: "mab \<Rightarrow> string \<times> string \<Rightarrow> (real \<times> real) option" where
  "mab_params m k = map_option (\<lambda>st. (am_alpha st, am_beta st)) (arm_at m (fst k) (snd k))"

definition mab_learn :: "redis_state \<Rightarrow> string \<times> string \<Rightarrow> real \<Rightarrow> mab \<Rightarrow> mab" where
  "mab_learn redis k r m = snd (mab_reward redis (fst k) (snd k) r m)"

interpretation mab_learner: arm_learner mab_params "mab_learn redis" "\<lambda>r. 0 < r" for redis
proof
  fix k r m k'
  show "mab_params (mab_learn redis k r m) k' =
      (if k' = k then map_option (\<lambda>(a, b). if 0 < r then (a + 1, b) else (a, b + 1)) (mab_params m k)
       else mab_params m k')"
    by (cases "arm_at m (fst k) (snd k)")
       (auto simp: mab_params_def mab_learn_def arm_at_reward mab_update_def Let_def prod_eq_iff)
qed

section \<open>Histories\<close>

text \<open>
  What a framework object has been through: the selections it returned and the rewards it accepted, in
  order. A reward for an arm that does not exist is ignored, as in the code.
\<close>

datatype mab_event = Selected string string | Rewarded string string real

inductive mab_run :: "mab_event list \<Rightarrow> mab \<Rightarrow> bool" where
  start: "mab_run [] []"
| register: "mab_run tr m \<Longrightarrow> mab_run tr (registerContext ctx arms m)"
| selected: "mab_run tr m \<Longrightarrow> mab_select rng ctx pos m = Some (Inr (a, pos', m')) \<Longrightarrow>
    mab_run (tr @ [Selected ctx a]) m'"
| rewarded: "mab_run tr m \<Longrightarrow> arm_at m ctx a \<noteq> None \<Longrightarrow>
    mab_run (tr @ [Rewarded ctx a r]) (snd (mab_reward redis ctx a r m))"
| ignored: "mab_run tr m \<Longrightarrow> arm_at m ctx a = None \<Longrightarrow> mab_run tr (snd (mab_reward redis ctx a r m))"

definition rewards_of :: "string \<Rightarrow> string \<Rightarrow> mab_event list \<Rightarrow> real list" where
  "rewards_of ctx a tr =
     concat (map (\<lambda>e. case e of Rewarded c x r \<Rightarrow> if c = ctx \<and> x = a then [r] else [] | _ \<Rightarrow> []) tr)"

definition selections_of :: "string \<Rightarrow> string \<Rightarrow> mab_event list \<Rightarrow> nat" where
  "selections_of ctx a tr = length (filter (\<lambda>e. e = Selected ctx a) tr)"

definition stats_of :: "string \<Rightarrow> string \<Rightarrow> mab_event list \<Rightarrow> arm_stats" where
  "stats_of ctx a tr =
     \<lparr>am_alpha = 1 + real (length (filter (\<lambda>r. 0 < r) (rewards_of ctx a tr))),
      am_beta = 1 + real (length (filter (\<lambda>r. r \<le> 0) (rewards_of ctx a tr))),
      am_selections = int (selections_of ctx a tr), am_rewardSum = sum_list (rewards_of ctx a tr)\<rparr>"

lemma stats_of_Nil [simp]: "stats_of ctx a [] = fresh_arm"
  by (simp add: stats_of_def fresh_arm_def rewards_of_def selections_of_def)

lemma stats_of_selected [simp]:
  "stats_of ctx a (tr @ [Selected c x]) =
     (if c = ctx \<and> x = a then (stats_of ctx a tr)\<lparr>am_selections := am_selections (stats_of ctx a tr) + 1\<rparr>
      else stats_of ctx a tr)"
  by (simp add: stats_of_def rewards_of_def selections_of_def)

lemma stats_of_rewarded [simp]:
  "stats_of ctx a (tr @ [Rewarded c x r]) =
     (if c = ctx \<and> x = a
      then (let st = mab_update (stats_of ctx a tr) r in st\<lparr>am_rewardSum := am_rewardSum st + r\<rparr>)
      else stats_of ctx a tr)"
  by (simp add: stats_of_def rewards_of_def selections_of_def mab_update_def Let_def)

lemma mab_run_stats:
  "mab_run tr m \<Longrightarrow> arm_at m ctx a = Some (stats_of ctx a tr)
     \<or> arm_at m ctx a = None \<and> stats_of ctx a tr = fresh_arm"
proof (induction rule: mab_run.induct)
  case start
  then show ?case by (simp add: arm_at_def)
next
  case (register tr m c arms)
  then show ?case by (auto simp: arm_at_register) (simp add: arm_at_def)+
next
  case (selected tr m rng c pos x pos' m')
  from selected(2) show ?case by (rule arm_at_select) (use selected(3) in auto)
next
  case (rewarded tr m c x r redis)
  then show ?case by (auto simp: arm_at_reward)
next
  case (ignored tr m c x redis r)
  then show ?case by (auto simp: arm_at_reward)
qed

lemma stats_of_ge1: "1 \<le> am_alpha (stats_of ctx a tr)" "1 \<le> am_beta (stats_of ctx a tr)"
  by (simp_all add: stats_of_def)

section \<open>Selection\<close>

lemma js_map_ok_fold_fresh: "js_map_ok m \<Longrightarrow> js_map_ok (fold (\<lambda>a. map_set a fresh_arm) arms m)"
  by (induction arms arbitrary: m) (auto intro: keeps_inv)

lemma mab_reward_map:
  "map_of (snd (mab_reward redis ctx a r m)) c = Some arms \<Longrightarrow>
   \<exists>arms'. map_of m c = Some arms' \<and> (arms = arms' \<or> (\<exists>st. arms = map_set a st arms'))"
  by (auto simp: mab_reward_def update_conv' Let_def split: option.splits if_splits)

lemma mab_select_map:
  "mab_select rng ctx pos m = Some (Inr (a, pos', m')) \<Longrightarrow> map_of m' c = Some arms \<Longrightarrow>
   \<exists>arms'. map_of m c = Some arms' \<and> (arms = arms' \<or> (\<exists>st. arms = map_set a st arms'))"
  by (auto simp: mab_select_def update_conv' split: option.splits if_splits) blast

lemma mab_run_ok: "mab_run tr m \<Longrightarrow> map_of m ctx = Some arms \<Longrightarrow> js_map_ok arms"
proof (induction arbitrary: ctx arms rule: mab_run.induct)
  case (register tr m c as)
  then show ?case
    by (auto simp: registerContext_def update_conv' js_map_ok_fold_fresh split: if_splits)
next
  case (selected tr m rng c pos a pos' m')
  then show ?case using mab_select_map [OF selected(2,4)] by (auto intro: keeps_inv)
next
  case (rewarded tr m c a r redis)
  then show ?case using mab_reward_map [OF rewarded(4)] by (auto intro: keeps_inv)
next
  case (ignored tr m c a redis r)
  then show ?case using mab_reward_map [OF ignored(4)] by (auto intro: keeps_inv)
qed simp

lemma selectArm_loop_returns:
  assumes "sampler_live rng" and "\<forall>(a, st)\<in>set es. 1 \<le> am_alpha st \<and> 1 \<le> am_beta st"
  shows "\<exists>a pos'. selectArm_loop rng es best sample pos = Some (a, pos') \<and> (a = best \<or> a \<in> fst ` set es)"
  using assms(2)
proof (induction es arbitrary: best sample pos)
  case (Cons e es)
  obtain a st where e: "e = (a, st)" by fastforce
  obtain x p where x: "mab_sampleBeta rng (am_alpha st) (am_beta st) pos = Some (Fin x, p)"
    using sampleBeta_returns [OF assms(1)] Cons.prems by (fastforce simp: e)
  show ?case
    using Cons.IH [of a "Fin x" p] Cons.IH [of best sample p] Cons.prems by (auto simp: e x)
qed simp

lemma selectArm_returns:
  assumes "sampler_live rng" and "\<forall>(a, st)\<in>set arms. 1 \<le> am_alpha st \<and> 1 \<le> am_beta st" and "arms \<noteq> []"
  shows "\<exists>a pos'. selectArm rng arms pos = Some (a, pos') \<and> a \<in> fst ` set arms"
proof -
  obtain a st es where es: "js_entries arms = (a, st) # es" using assms(3) by (cases "js_entries arms") auto
  have sub: "set arms = insert (a, st) (set es)" using arg_cong [OF es, of set] by simp
  have st: "1 \<le> am_alpha st" "1 \<le> am_beta st" using assms(2) sub by auto
  obtain x p where x: "mab_sampleBeta rng (am_alpha st) (am_beta st) pos = Some (Fin x, p)"
    using sampleBeta_returns [OF assms(1) st] by blast
  show ?thesis
    using selectArm_loop_returns [OF assms(1), of es a "Fin x" p] assms(2) sub
    by (auto simp: selectArm_def es x)
qed

lemma mab_run_entries:
  assumes "mab_run tr m" and "map_of m ctx = Some arms" and "(a, st) \<in> set arms"
  shows "arm_at m ctx a = Some st" and "st = stats_of ctx a tr"
proof -
  have "distinct (map fst arms)" using mab_run_ok [OF assms(1,2)] by (simp add: js_map_ok_def)
  then show at: "arm_at m ctx a = Some st" using assms(2,3) by (simp add: arm_at_def)
  then show "st = stats_of ctx a tr" using mab_run_stats [OF assms(1), of ctx a] by auto
qed

lemma mab_select_returns:
  assumes "mab_run tr m" and "map_of m ctx = Some arms" and "arms \<noteq> []" and "sampler_live rng"
  shows "\<exists>a pos' m'. mab_select rng ctx pos m = Some (Inr (a, pos', m')) \<and> a \<in> fst ` set arms"
proof -
  have "\<forall>(a, st)\<in>set arms. 1 \<le> am_alpha st \<and> 1 \<le> am_beta st"
    using mab_run_entries(2) [OF assms(1,2)] stats_of_ge1 by fastforce
  then obtain a pos' where sel: "selectArm rng arms pos = Some (a, pos')" "a \<in> fst ` set arms"
    using selectArm_returns [OF assms(4) _ assms(3)] by blast
  moreover obtain st where "map_of arms a = Some st"
    using sel(2) by (metis map_of_eq_None_iff not_None_eq)
  ultimately show ?thesis by (simp add: mab_select_def assms(2))
qed

section \<open>Properties\<close>

text \<open>
  The framework keeps exactly the history of each arm: in every state it can reach by registrations,
  selections and rewards, the parameters of an arm are one plus the numbers of its positive and of its other
  rewards, its selection count is the number of times it was returned and its reward sum is the sum of its
  rewards.
\<close>
theorem mab_keeps_history:
  assumes "mab_run tr m" and "arm_at m ctx a = Some st"
  shows "am_alpha st = 1 + real (length (filter (\<lambda>r. 0 < r) (rewards_of ctx a tr)))
    \<and> am_beta st = 1 + real (length (filter (\<lambda>r. r \<le> 0) (rewards_of ctx a tr)))
    \<and> am_selections st = int (length (filter (\<lambda>e. e = Selected ctx a) tr))
    \<and> am_rewardSum st = sum_list (rewards_of ctx a tr)"
  using mab_run_stats [OF assms(1), of ctx a] assms(2) by (auto simp: stats_of_def selections_of_def)

theorem mab_keeps_history_witness:
  "\<exists>st. arm_at (snd (mab_reward Redis_closed ''c'' ''a'' (-1) (snd (mab_reward Redis_closed ''c'' ''a'' 1
        (registerContext ''c'' [''a'', ''b''] []))))) ''c'' ''a'' = Some st \<and> am_alpha st = 2 \<and> am_beta st = 2"
proof -
  let ?m0 = "registerContext ''c'' [''a'', ''b''] []"
  let ?m1 = "snd (mab_reward Redis_closed ''c'' ''a'' 1 ?m0)"
  let ?m2 = "snd (mab_reward Redis_closed ''c'' ''a'' (-1) ?m1)"
  have a: "arm_at ?m0 ''c'' ''a'' \<noteq> None" "arm_at ?m1 ''c'' ''a'' \<noteq> None" "arm_at ?m2 ''c'' ''a'' \<noteq> None"
    by (simp_all add: arm_at_reward arm_at_register)
  have "mab_run (([] @ [Rewarded ''c'' ''a'' 1]) @ [Rewarded ''c'' ''a'' (-1)]) ?m2"
    by (intro mab_run.intros a)
  then have run: "mab_run [Rewarded ''c'' ''a'' 1, Rewarded ''c'' ''a'' (-1)] ?m2" by simp
  obtain st where "arm_at ?m2 ''c'' ''a'' = Some st" using a(3) by auto
  with mab_keeps_history [OF run this] show ?thesis by (simp add: rewards_of_def)
qed



end
