(* ===== verification/SoarExecutor.thy ===== *)
theory SoarExecutor
  imports SoarActions MultiArmedBandit
begin

text \<open>
  The playbook executor (\<^verbatim>\<open>backend/src/soar/executor.ts\<close>): the steps of a playbook with their retries, the rollback
  of a failed one, and the choice of a playbook by the bandit of \<open>MultiArmedBandit\<close>.

  The retry loop takes one attempt (the action followed by its audit entry) as an argument; its recursion ends because
  the attempt number passes the number of retries. The locale \<open>effect_order\<close> is what the proofs about effects need of
  a relation between worlds: it is reflexive and transitive. Every relation that each attempt keeps is then kept by a
  whole execution; it is interpreted on growth of the records and on silence of the network.
\<close>

section \<open>Steps\<close>

definition soar_executeAction ::
  "network \<Rightarrow> soar_env \<Rightarrow> js_object option \<Rightarrow> action_step \<Rightarrow> world \<Rightarrow> action_result outcome_of" where
  "soar_executeAction net env ctx step w =
     (let params = resolveParams ctx (step_params step)
      in if step_type step = ''firewall'' then firewallBlockAction net env params w
         else if step_type step = ''edr'' then edrQuarantineAction net env params w
         else if step_type step = ''iam'' then iamResetCredentialAction net env params w
         else if step_type step = ''notify'' then notifyAction net env params w
         else (Inl (Unsupported_action (step_type step)), w))"

definition audit_of :: "string \<Rightarrow> action_step \<Rightarrow> operator \<Rightarrow> nat \<Rightarrow> string \<Rightarrow> time_ms \<Rightarrow> audit_entry" where
  "audit_of playbookId step opr attempt detail now =
     \<lparr>au_playbook_id = playbookId, au_action = step_type step @ '':'' @ step_id step, au_timestamp = now,
      au_result = detail, au_operator = opr, au_attempt = attempt, au_params = step_params step\<rparr>"

definition attempt_step ::
  "network \<Rightarrow> database \<Rightarrow> soar_env \<Rightarrow> string \<Rightarrow> operator \<Rightarrow> js_object option \<Rightarrow> action_step \<Rightarrow> nat \<Rightarrow> world \<Rightarrow> unit outcome_of" where
  "attempt_step net db env playbookId opr ctx step attempt w =
     and_then (soar_executeAction net env ctx step w)
       (\<lambda>result. writePlaybookAuditLog db (audit_of playbookId step opr attempt (ar_detail result)))"

function retry_loop ::
  "(nat \<Rightarrow> world \<Rightarrow> unit outcome_of) \<Rightarrow> real \<Rightarrow> nat \<Rightarrow> soar_error option \<Rightarrow> world \<Rightarrow> unit outcome_of" where
  "retry_loop f retries attempt lastError w =
     (if real attempt \<le> retries
      then (case f attempt w of
              (Inr _, w') \<Rightarrow> (Inr (), w')
            | (Inl e, w') \<Rightarrow> retry_loop f retries (attempt + 1) (Some e) w')
      else (Inl (case lastError of Some e \<Rightarrow> e | None \<Rightarrow> Action_failed), w))"
  by pat_completeness auto
termination
  by (relation "measure (\<lambda>(f, retries, attempt, e, w). nat (\<lfloor>retries\<rfloor> + 1 - int attempt))")
     (auto simp: le_floor_iff)

declare retry_loop.simps [simp del]

definition executeWithRetry ::
  "network \<Rightarrow> database \<Rightarrow> soar_env \<Rightarrow> string \<Rightarrow> operator \<Rightarrow> js_object option \<Rightarrow> action_step \<Rightarrow> world \<Rightarrow> unit outcome_of" where
  "executeWithRetry net db env playbookId opr ctx step w =
     (let retries = (case step_retries step of None \<Rightarrow> 1 | Some r \<Rightarrow> r)
      in retry_loop (attempt_step net db env playbookId opr ctx step) retries 1 None w)"

section \<open>Playbooks\<close>

record execution_result =
  er_success :: bool
  er_playbookId :: string
  er_stepsExecuted :: "string list"
  er_failedStep :: "string option"
  er_error :: "soar_error option"

text \<open>The loop over the steps: the ids of the steps that completed, and the error that stopped it.\<close>

fun run_steps ::
  "(action_step \<Rightarrow> world \<Rightarrow> unit outcome_of) \<Rightarrow> action_step list \<Rightarrow> world \<Rightarrow> string list \<times> soar_error option \<times> world" where
  "run_steps f [] w = ([], None, w)"
| "run_steps f (step # steps) w =
     (case f step w of
        (Inl e, w') \<Rightarrow> ([], Some e, w')
      | (Inr _, w') \<Rightarrow> (let (ids, err, w'') = run_steps f steps w' in (step_id step # ids, err, w'')))"

fun run_rollback :: "(action_step \<Rightarrow> world \<Rightarrow> action_result outcome_of) \<Rightarrow> action_step list \<Rightarrow> world \<Rightarrow> world" where
  "run_rollback f [] w = w"
| "run_rollback f (step # steps) w = run_rollback f steps (snd (f step w))"

text \<open>The second argument of \<^verbatim>\<open>execute\<close> is absent, an operator, or a context.\<close>

datatype execute_arg = Arg_none | Arg_operator operator | Arg_context js_object

fun execute_args :: "execute_arg \<Rightarrow> operator option \<Rightarrow> js_object \<times> operator" where
  "execute_args Arg_none maybe = ([], Op_system)"
| "execute_args (Arg_operator opr) maybe = ([], opr)"
| "execute_args (Arg_context ctx) maybe = (ctx, case maybe of None \<Rightarrow> Op_system | Some opr \<Rightarrow> opr)"

definition execute ::
  "network \<Rightarrow> database \<Rightarrow> soar_env \<Rightarrow> playbook \<Rightarrow> execute_arg \<Rightarrow> operator option \<Rightarrow> world \<Rightarrow> execution_result outcome_of" where
  "execute net db env pb arg maybe w =
     (let (ctx, opr) = execute_args arg maybe
      in case validatePlaybook (playbook_value pb) of
           Some e \<Rightarrow> (Inl e, w)
         | None \<Rightarrow>
             (let (ids, err, w') = run_steps (executeWithRetry net db env (pb_id pb) opr (Some ctx)) (pb_steps pb) w
              in case err of
                   None \<Rightarrow> (Inr \<lparr>er_success = True, er_playbookId = pb_id pb, er_stepsExecuted = ids,
                              er_failedStep = None, er_error = None\<rparr>, w')
                 | Some e \<Rightarrow>
                     (Inr \<lparr>er_success = False, er_playbookId = pb_id pb, er_stepsExecuted = ids,
                        er_failedStep = (if length ids < length (pb_steps pb)
                                         then Some (step_id (pb_steps pb ! length ids)) else None),
                        er_error = Some e\<rparr>,
                      case pb_rollback pb of
                        None \<Rightarrow> w' | Some rb \<Rightarrow> run_rollback (soar_executeAction net env (Some ctx)) rb w')))"

section \<open>The choice of a playbook\<close>

datatype bandit_failure = No_playbooks | Bandit_failed mab_error | Execution_failed soar_error

definition find_playbook :: "string \<Rightarrow> playbook list \<Rightarrow> playbook" where
  "find_playbook i pbs = (case List.find (\<lambda>p. pb_id p = i) pbs of Some p \<Rightarrow> p | None \<Rightarrow> hd pbs)"

text \<open>
  \<open>None\<close> is a call whose sampling never returns. The bandit is returned with every outcome: it keeps the
  selection when the execution is refused, and the reward when only the write to Redis fails.
\<close>

definition executeWithBandit ::
  "network \<Rightarrow> database \<Rightarrow> soar_env \<Rightarrow> rng \<Rightarrow> redis_state \<Rightarrow> string \<Rightarrow> playbook list \<Rightarrow> reward_input \<Rightarrow> operator \<Rightarrow>
   nat \<Rightarrow> mab \<Rightarrow> world \<Rightarrow> ((bandit_failure + execution_result) \<times> mab \<times> world) option" where
  "executeWithBandit net db env rng redis ctxKey pbs signals opr pos m w =
     (if pbs = [] then Some (Inl No_playbooks, m, w)
      else
        let m = registerContext ctxKey (map pb_id pbs) m
        in case mab_select rng ctxKey pos m of
             None \<Rightarrow> None
           | Some (Inl e) \<Rightarrow> Some (Inl (Bandit_failed e), m, w)
           | Some (Inr (selectedId, pos', m)) \<Rightarrow>
               (let selected = find_playbook selectedId pbs
                in case execute net db env selected (Arg_operator opr) None w of
                     (Inl e, w) \<Rightarrow> Some (Inl (Execution_failed e), m, w)
                   | (Inr result, w) \<Rightarrow>
                       (let (err, m) = mab_reward redis ctxKey (pb_id selected) (of_int (computeReward signals)) m
                        in Some (case err of None \<Rightarrow> Inr result | Some e \<Rightarrow> Inl (Bandit_failed e), m, w))))"

section \<open>Effects\<close>

locale effect_order =
  fixes le :: "world \<Rightarrow> world \<Rightarrow> bool"
  assumes le_refl: "le w w"
    and le_trans: "le w w' \<Longrightarrow> le w' w'' \<Longrightarrow> le w w''"
begin

lemma retry_le: "(\<And>n w. le w (snd (f n w))) \<Longrightarrow> le w (snd (retry_loop f retries n err w))"
proof (induction f retries n err w rule: retry_loop.induct)
  case (1 f retries n err w)
  show ?case
  proof (cases "real n \<le> retries")
    case True
    obtain r w' where step: "f n w = (r, w')" by fastforce
    have "le w w'" using 1(2) [of w n] by (simp add: step)
    then show ?thesis
      using 1(1) [OF True step [symmetric] _ 1(2)] True step
      by (cases r) (auto simp: retry_loop.simps [of f retries n err w] intro: le_trans)
  qed (simp add: retry_loop.simps [of f retries n err w] le_refl)
qed

lemma run_steps_le: "(\<And>s w. le w (snd (f s w))) \<Longrightarrow> le w (snd (snd (run_steps f steps w)))"
proof (induction steps arbitrary: w)
  case (Cons s steps)
  obtain r w' where step: "f s w = (r, w')" by fastforce
  have "le w w'" using Cons.prems [of w s] by (simp add: step)
  then show ?case
    using Cons.IH [OF Cons.prems, of w'] by (cases r) (auto simp: step split: prod.splits intro: le_trans)
qed (simp add: le_refl)

lemma run_rollback_le: "(\<And>s w. le w (snd (f s w))) \<Longrightarrow> le w (run_rollback f steps w)"
proof (induction steps arbitrary: w)
  case (Cons s steps)
  show ?case using Cons.IH [OF Cons.prems, of "snd (f s w)"] Cons.prems [of w s] by (auto intro: le_trans)
qed (simp add: le_refl)

lemma execute_le:
  assumes "\<And>ctx s w. le w (snd (soar_executeAction net env ctx s w))"
    and "\<And>entry w. le w (snd (writePlaybookAuditLog db entry w))"
  shows "le w (snd (execute net db env pb arg maybe w))"
proof -
  have "le w (snd (and_then (soar_executeAction net env ctx s w) (\<lambda>r. writePlaybookAuditLog db (g r))))" for ctx s w g
    using assms(1) [of w ctx s] assms(2)
    by (cases "soar_executeAction net env ctx s w") (auto simp: and_then_def split: sum.splits intro: le_trans)
  then have "le w (snd (executeWithRetry net db env p opr ctx s w))" for p opr ctx s w
    by (simp add: executeWithRetry_def Let_def attempt_step_def retry_le)
  then have "le w (snd (snd (run_steps (executeWithRetry net db env p opr ctx) steps w)))" for p opr ctx steps w
    by (rule run_steps_le)
  moreover have "le w (run_rollback (soar_executeAction net env ctx) steps w)" for ctx steps w
    using assms(1) by (rule run_rollback_le)
  ultimately show ?thesis
    by (auto simp: execute_def Let_def le_refl split: option.splits prod.splits intro: le_trans)
      (metis le_trans snd_conv)+
qed

end

definition silent :: "world \<Rightarrow> world \<Rightarrow> bool" where
  "silent w w' \<longleftrightarrow> w_posts w' = w_posts w"

interpretation growing: effect_order grows
  by unfold_locales (auto simp: grows_def)

interpretation silence: effect_order silent
  by unfold_locales (auto simp: silent_def)

lemma no_log_execute [simp]: "no_log w (snd (soar_executeAction net env ctx s w))"
  by (simp add: soar_executeAction_def Let_def)

section \<open>Completed steps\<close>

lemma run_steps_shape:
  "run_steps f steps w = (ids, err, w') \<Longrightarrow>
   length ids \<le> length steps \<and> ids = map step_id (take (length ids) steps) \<and> (err = None \<longleftrightarrow> length ids = length steps)"
proof (induction steps arbitrary: w ids err w')
  case (Cons s steps)
  then show ?case by (auto split: prod.splits sum.splits)
qed simp

lemma execute_shape:
  assumes "pb_id pb \<noteq> []" and "pb_name pb \<noteq> []" and "pb_steps pb \<noteq> []"
  obtains ids err w' where
    "run_steps (executeWithRetry net db env (pb_id pb) (snd (execute_args arg maybe)) (Some (fst (execute_args arg maybe))))
       (pb_steps pb) w = (ids, err, w')"
    and "execute net db env pb arg maybe w =
      (Inr \<lparr>er_success = (err = None), er_playbookId = pb_id pb, er_stepsExecuted = ids,
         er_failedStep = (if length ids < length (pb_steps pb) then Some (step_id (pb_steps pb ! length ids)) else None),
         er_error = err\<rparr>,
       if err = None \<or> pb_rollback pb = None then w'
       else run_rollback (soar_executeAction net env (Some (fst (execute_args arg maybe)))) (the (pb_rollback pb)) w')"
proof -
  obtain ids err w' where run:
    "run_steps (executeWithRetry net db env (pb_id pb) (snd (execute_args arg maybe)) (Some (fst (execute_args arg maybe))))
       (pb_steps pb) w = (ids, err, w')" by (metis prod.collapse)
  show ?thesis
    by (rule that [OF run])
       (use assms run run_steps_shape [OF run] in \<open>auto simp: execute_def Let_def split_def split: option.splits\<close>)
qed

lemma execute_world:
  "snd (execute net db env pb arg maybe w) = w
   \<or> (\<exists>opr ctx. let w' = snd (snd (run_steps (executeWithRetry net db env (pb_id pb) opr ctx) (pb_steps pb) w))
       in snd (execute net db env pb arg maybe w) = w'
        \<or> (\<exists>rb. pb_rollback pb = Some rb \<and>
              snd (execute net db env pb arg maybe w) = run_rollback (soar_executeAction net env ctx) rb w'))"
proof (cases "pb_id pb \<noteq> [] \<and> pb_name pb \<noteq> [] \<and> pb_steps pb \<noteq> []")
  case True
  then have v: "pb_id pb \<noteq> []" "pb_name pb \<noteq> []" "pb_steps pb \<noteq> []" by auto
  show ?thesis
  proof (rule execute_shape [OF v, of net db env arg maybe w], goal_cases)
    case (1 ids err w')
    then show ?case
      by (intro disjI2 exI [of _ "snd (execute_args arg maybe)"] exI [of _ "Some (fst (execute_args arg maybe))"])
         (auto simp: Let_def)
  qed
qed (auto simp: execute_def Let_def split: prod.splits)

section \<open>The audit log\<close>

definition db_up :: "database \<Rightarrow> bool" where
  "db_up db \<longleftrightarrow> (\<forall>n. \<exists>t. db n = Db_ok t)"

definition log_key :: "audit_entry \<Rightarrow> string \<times> string \<times> operator \<times> js_object" where
  "log_key a = (au_playbook_id a, au_action a, au_operator a, au_params a)"

definition log_keys :: "world \<Rightarrow> (string \<times> string \<times> operator \<times> js_object) list" where
  "log_keys w = map log_key (w_audit w)"

definition step_key :: "string \<Rightarrow> operator \<Rightarrow> action_step \<Rightarrow> string \<times> string \<times> operator \<times> js_object" where
  "step_key pid opr s = (pid, step_type s @ '':'' @ step_id s, opr, step_params s)"

definition logs :: "(string \<times> string \<times> operator \<times> js_object) \<Rightarrow> world \<Rightarrow> unit outcome_of \<Rightarrow> bool" where
  "logs k w r \<longleftrightarrow> log_keys (snd r) = log_keys w @ (case fst r of Inl _ \<Rightarrow> [] | Inr _ \<Rightarrow> [k])"

lemma no_log_keys: "no_log w w' \<Longrightarrow> log_keys w' = log_keys w"
  by (simp add: no_log_def log_keys_def)

lemma attempt_logs:
  assumes "db_up db"
  shows "logs (step_key pid opr s) w (attempt_step net db env pid opr ctx s n w)"
proof -
  obtain r w1 where act: "soar_executeAction net env ctx s w = (r, w1)" by fastforce
  have keys: "log_keys w1 = log_keys w"
    using no_log_keys [OF no_log_execute [of w net env ctx s]] by (simp add: act)
  obtain t where "db (w_writes w1) = Db_ok t" using assms by (auto simp: db_up_def)
  then show ?thesis
    using keys by (cases r) (auto simp: logs_def attempt_step_def act writePlaybookAuditLog_def Let_def log_keys_def
        audit_of_def log_key_def step_key_def)
qed

lemma retry_logs: "(\<And>n w. logs k w (f n w)) \<Longrightarrow> logs k w (retry_loop f retries n err w)"
proof (induction f retries n err w rule: retry_loop.induct)
  case (1 f retries n err w)
  show ?case
  proof (cases "real n \<le> retries")
    case True
    obtain r w' where step: "f n w = (r, w')" by fastforce
    have "logs k w (r, w')" using 1(2) [of w n] by (simp add: step)
    then show ?thesis
      using 1(1) [OF True step [symmetric] _ 1(2)] True step
      by (cases r) (auto simp: retry_loop.simps [of f retries n err w] logs_def)
  qed (simp add: retry_loop.simps [of f retries n err w] logs_def)
qed

lemma run_steps_logs:
  assumes "\<And>s w. logs (key s) w (f s w)"
  shows "run_steps f steps w = (ids, err, w') \<Longrightarrow> log_keys w' = log_keys w @ map key (take (length ids) steps)"
proof (induction steps arbitrary: w ids err w')
  case (Cons s steps)
  obtain r w1 where step: "f s w = (r, w1)" by fastforce
  have "logs (key s) w (r, w1)" using assms [of s w] by (simp add: step)
  then show ?case using Cons by (cases r) (auto simp: step logs_def split: prod.splits)
qed simp

interpretation unlogged: effect_order no_log
  by unfold_locales (auto intro: no_log_trans)

lemma no_log_rollback: "no_log w (run_rollback (soar_executeAction net env ctx) steps w)"
  by (rule unlogged.run_rollback_le) simp

section \<open>Requests\<close>

definition step_attempts :: "action_step \<Rightarrow> nat" where
  "step_attempts s = nat \<lfloor>case step_retries s of None \<Rightarrow> 1 | Some r \<Rightarrow> r\<rfloor>"

lemma length_post [simp]: "length (w_posts (snd (post net p w))) = Suc (length (w_posts w))"
  by (simp add: post_def)

lemma and_then_posts:
  "length (w_posts (snd r)) \<le> a \<Longrightarrow> (\<And>x w. length (w_posts (snd (f x w))) \<le> length (w_posts w) + b) \<Longrightarrow>
   length (w_posts (snd (and_then r f))) \<le> a + b"
  by (cases r) (fastforce simp: and_then_def split: sum.splits intro: order_trans)

lemma done_posts [simp]: "w_posts (snd (done_with d w)) = w_posts w"
  by (simp add: done_with_def)

lemma notify_posts:
  "length (w_posts (snd (slack_post net env ps w))) \<le> length (w_posts w) + 1"
  "length (w_posts (snd (pagerduty_post net env ps w))) \<le> length (w_posts w) + 1"
  by (auto simp: slack_post_def pagerduty_post_def split: js_val.splits)

lemma action_posts: "length (w_posts (snd (soar_executeAction net env ctx s w))) \<le> length (w_posts w) + 2"
proof -
  have one: "length (w_posts (snd (and_then (post net p w) (\<lambda>_. done_with d)))) \<le> length (w_posts w) + 2" for p d
    using and_then_posts [of "post net p w" "length (w_posts w) + 2" "\<lambda>_. done_with d" 0] by simp
  have two: "length (w_posts (snd (and_then (pagerduty_post net env ps w) (\<lambda>_. done_with d)))) \<le> length (w_posts w) + 1" for ps d w
    using and_then_posts [OF notify_posts(2), of "\<lambda>_. done_with d" 0 net env ps w] by simp
  have "length (w_posts (snd (notifyAction net env ps w))) \<le> (length (w_posts w) + 1) + 1" for ps
    unfolding notifyAction_def by (intro and_then_posts notify_posts two)
  then show ?thesis
    using one by (auto simp: soar_executeAction_def firewallBlockAction_def edrQuarantineAction_def
        iamResetCredentialAction_def Let_def)
qed

lemma audit_posts [simp]: "w_posts (snd (writePlaybookAuditLog db entry w)) = w_posts w"
  by (simp add: writePlaybookAuditLog_def Let_def split: db_reply.splits)

lemma retry_posts:
  "(\<And>n w. length (w_posts (snd (f n w))) \<le> length (w_posts w) + b) \<Longrightarrow>
   length (w_posts (snd (retry_loop f retries n err w))) \<le> length (w_posts w) + b * nat (\<lfloor>retries\<rfloor> + 1 - int n)"
proof (induction f retries n err w rule: retry_loop.induct)
  case (1 f retries n err w)
  show ?case
  proof (cases "real n \<le> retries")
    case True
    obtain r w' where step: "f n w = (r, w')" by fastforce
    have le: "length (w_posts w') \<le> length (w_posts w) + b" using 1(2) [of n w] by (simp add: step)
    have "int n \<le> \<lfloor>retries\<rfloor>" using True by (simp add: le_floor_iff)
    then have n: "nat (\<lfloor>retries\<rfloor> + 1 - int n) = Suc (nat (\<lfloor>retries\<rfloor> + 1 - int (n + 1)))" by simp
    show ?thesis
      using 1(1) [OF True step [symmetric] _ 1(2)] True step le
      by (cases r) (auto simp: retry_loop.simps [of f retries n err w] n intro: order_trans)
  qed (simp add: retry_loop.simps [of f retries n err w])
qed

lemma step_posts:
  "length (w_posts (snd (executeWithRetry net db env pid opr ctx s w))) \<le> length (w_posts w) + 2 * step_attempts s"
proof -
  have "length (w_posts (snd (attempt_step net db env pid opr ctx s n w))) \<le> length (w_posts w) + 2" for n w
    using and_then_posts [OF action_posts, where b = 0] unfolding attempt_step_def by (metis add_0_right audit_posts order_refl)
  from retry_posts [of "attempt_step net db env pid opr ctx s", OF this, where n = 1 and err = None and w = w
      and retries = "case step_retries s of None \<Rightarrow> 1 | Some r \<Rightarrow> r"]
  show ?thesis by (simp add: executeWithRetry_def step_attempts_def)
qed

lemma run_steps_posts:
  assumes "\<And>s w. length (w_posts (snd (f s w))) \<le> length (w_posts w) + c s"
  shows "length (w_posts (snd (snd (run_steps f steps w)))) \<le> length (w_posts w) + sum_list (map c steps)"
proof (induction steps arbitrary: w)
  case (Cons s steps)
  obtain r w' where step: "f s w = (r, w')" by fastforce
  show ?case
    using assms [of s w] Cons [of w'] by (cases r) (auto simp: step split: prod.splits)
qed simp

lemma rollback_posts:
  "length (w_posts (run_rollback (soar_executeAction net env ctx) steps w)) \<le> length (w_posts w) + 2 * length steps"
proof (induction steps arbitrary: w)
  case (Cons s steps)
  show ?case using action_posts [of net env ctx s w] Cons [of "snd (soar_executeAction net env ctx s w)"] by simp
qed simp

section \<open>Simulation\<close>

text \<open>Nothing is configured: all actions only describe what they would do.\<close>

definition unconfigured :: "soar_env \<Rightarrow> bool" where
  "unconfigured env \<longleftrightarrow> \<not> env_set (PFSENSE_API_URL env) \<and> \<not> env_set (EDR_API_URL env) \<and> \<not> env_set (IAM_API_URL env)
     \<and> \<not> env_set (SLACK_WEBHOOK_URL env) \<and> \<not> env_set (PAGERDUTY_WEBHOOK_URL env)"

definition supported :: "action_step \<Rightarrow> bool" where
  "supported s \<longleftrightarrow> step_type s \<in> {''firewall'', ''edr'', ''iam'', ''notify''}"

lemma unconfigured_action:
  assumes "unconfigured env"
  shows "snd (soar_executeAction net env ctx s w) = w"
    and "supported s \<Longrightarrow> \<exists>r. fst (soar_executeAction net env ctx s w) = Inr r"
  using assms
  by (auto simp: unconfigured_def supported_def soar_executeAction_def firewallBlockAction_def edrQuarantineAction_def
      iamResetCredentialAction_def notifyAction_def slack_post_def pagerduty_post_def done_with_def Let_def)

lemma run_steps_all:
  "(\<And>s w. s \<in> set steps \<Longrightarrow> \<exists>w'. f s w = (Inr (), w')) \<Longrightarrow> fst (snd (run_steps f steps w)) = None"
proof (induction steps arbitrary: w)
  case (Cons s steps)
  then obtain w' where "f s w = (Inr (), w')" by (meson list.set_intros(1))
  then show ?case using Cons.IH [of w'] Cons.prems by (auto simp: Let_def split_def)
qed simp

lemma simulated_step:
  assumes "unconfigured env" and "\<forall>n e. db n \<noteq> Db_fail e" and "supported s" and "1 \<le> step_attempts s"
  shows "\<exists>w'. executeWithRetry net db env pid opr ctx s w = (Inr (), w')"
proof -
  obtain r where act: "soar_executeAction net env ctx s w = (Inr r, w)"
    using unconfigured_action [OF assms(1), where net = net and ctx = ctx and s = s and w = w] assms(3) by (metis prod.collapse)
  have "\<exists>w'. attempt_step net db env pid opr ctx s 1 w = (Inr (), w')"
    using assms(2) by (auto simp: attempt_step_def act writePlaybookAuditLog_def Let_def split: db_reply.splits)
  moreover have "1 \<le> (case step_retries s of None \<Rightarrow> 1 | Some r \<Rightarrow> r)"
  proof (cases "step_retries s")
    case (Some a)
    then have "1 \<le> nat \<lfloor>a\<rfloor>" using assms(4) by (simp add: step_attempts_def)
    then have "1 \<le> \<lfloor>a\<rfloor>" by linarith
    then show ?thesis using Some by simp
  qed simp
  ultimately show ?thesis by (auto simp: executeWithRetry_def retry_loop.simps)
qed

section \<open>Properties\<close>

text \<open>
  C17. An execution of a valid playbook always returns a result, whatever the network and the database answer: the
  completed steps are an initial part of the playbook, in order; success means that all of them completed;
  otherwise the failed step is the first one missing and the error is reported.
\<close>
theorem playbook_outcome:
  assumes "pb_id pb \<noteq> []" and "pb_name pb \<noteq> []" and "pb_steps pb \<noteq> []"
  shows "\<exists>r w'. execute net db env pb arg maybe w = (Inr r, w')
    \<and> er_stepsExecuted r = map step_id (take (length (er_stepsExecuted r)) (pb_steps pb))
    \<and> er_success r = (length (er_stepsExecuted r) = length (pb_steps pb))
    \<and> (if er_success r then er_failedStep r = None \<and> er_error r = None
       else er_failedStep r = Some (step_id (pb_steps pb ! length (er_stepsExecuted r))) \<and> er_error r \<noteq> None)"
proof -
  obtain ids err w' where run:
    "run_steps (executeWithRetry net db env (pb_id pb) (snd (execute_args arg maybe)) (Some (fst (execute_args arg maybe))))
       (pb_steps pb) w = (ids, err, w')"
    and ex: "fst (execute net db env pb arg maybe w) =
      Inr \<lparr>er_success = (err = None), er_playbookId = pb_id pb, er_stepsExecuted = ids,
         er_failedStep = (if length ids < length (pb_steps pb) then Some (step_id (pb_steps pb ! length ids)) else None),
         er_error = err\<rparr>"
    by (rule execute_shape [OF assms, of net db env arg maybe w]) auto
  note shape = run_steps_shape [OF run]
  show ?thesis
    using ex shape by (intro exI [of _ "projr (fst (execute net db env pb arg maybe w))"]
        exI [of _ "snd (execute net db env pb arg maybe w)"] conjI) (auto simp: prod_eq_iff)
qed

definition demo_step :: action_step where
  "demo_step = \<lparr>step_id = ''s1'', step_type = ''firewall'', step_params = [(''sourceIp'', VStr ''{{ip}}'')],
     step_timeoutMs = None, step_retries = Some 3\<rparr>"

definition demo_playbook :: playbook where
  "demo_playbook = \<lparr>pb_id = ''p'', pb_name = ''block'',
     pb_trigger = \<lparr>tr_eventType = None, tr_minRiskScore = None, tr_minConfidence = None\<rparr>,
     pb_steps = [demo_step], pb_rollback = None, pb_timeoutMs = None\<rparr>"

definition no_env :: soar_env where
  "no_env = \<lparr>PFSENSE_API_URL = None, PFSENSE_API_TOKEN = None, EDR_API_URL = None, EDR_API_TOKEN = None,
     IAM_API_URL = None, IAM_API_TOKEN = None, SLACK_WEBHOOK_URL = None, PAGERDUTY_WEBHOOK_URL = None,
     PAGERDUTY_ROUTING_KEY = None\<rparr>"

definition new_world :: world where
  "new_world = \<lparr>w_posts = [], w_audit = [], w_writes = 0\<rparr>"

lemma demo_simps [simp]:
  "pb_id demo_playbook = ''p''" "pb_name demo_playbook = ''block''" "pb_steps demo_playbook = [demo_step]"
  "pb_rollback demo_playbook = None" "step_attempts demo_step = 3"
  by (simp_all add: demo_playbook_def demo_step_def step_attempts_def)

theorem playbook_outcome_witness:
  "\<exists>r w'. execute (\<lambda>_. Some ''refused'') (\<lambda>_. Db_down) no_env demo_playbook Arg_none None new_world = (Inr r, w')"
  using playbook_outcome [of demo_playbook] by simp blast

text \<open>
  The audit log is complete and ordered: while the database accepts entries, an execution adds one entry for
  each completed step, in the order of the playbook, with the playbook, the action, the operator and the
  parameters of the step, and no entry for a step that failed or for the rollback.
\<close>
theorem playbook_audit:
  assumes "pb_id pb \<noteq> []" and "pb_name pb \<noteq> []" and "pb_steps pb \<noteq> []" and "db_up db"
    and "execute net db env pb arg maybe w = (Inr r, w')"
  shows "map log_key (w_audit w') = map log_key (w_audit w)
    @ map (step_key (pb_id pb) (snd (execute_args arg maybe))) (take (length (er_stepsExecuted r)) (pb_steps pb))"
proof (rule execute_shape [OF assms(1-3), of net db env arg maybe w])
  fix ids err w1
  let ?ctx = "Some (fst (execute_args arg maybe))" and ?opr = "snd (execute_args arg maybe)"
  assume run: "run_steps (executeWithRetry net db env (pb_id pb) ?opr ?ctx) (pb_steps pb) w = (ids, err, w1)"
    and ex: "execute net db env pb arg maybe w =
      (Inr \<lparr>er_success = (err = None), er_playbookId = pb_id pb, er_stepsExecuted = ids,
         er_failedStep = (if length ids < length (pb_steps pb) then Some (step_id (pb_steps pb ! length ids)) else None),
         er_error = err\<rparr>,
       if err = None \<or> pb_rollback pb = None then w1
       else run_rollback (soar_executeAction net env ?ctx) (the (pb_rollback pb)) w1)"
  have "logs (step_key (pb_id pb) ?opr s) w (executeWithRetry net db env (pb_id pb) ?opr ?ctx s w)" for s w
    unfolding executeWithRetry_def Let_def by (intro retry_logs attempt_logs [OF assms(4)])
  from run_steps_logs [OF this run]
  have "log_keys w1 = log_keys w @ map (step_key (pb_id pb) ?opr) (take (length ids) (pb_steps pb))" .
  moreover have "log_keys w' = log_keys w1" "er_stepsExecuted r = ids"
    using ex assms(5) no_log_keys [OF no_log_rollback] by (auto split: if_splits)
  ultimately show ?thesis by (simp add: log_keys_def)
qed

theorem playbook_audit_witness:
  "\<exists>r w'. execute (\<lambda>_. None) (\<lambda>_. Db_ok 0) no_env demo_playbook Arg_none None new_world = (Inr r, w')
    \<and> map log_key (w_audit w') = map (step_key ''p'' Op_system) (take (length (er_stepsExecuted r)) [demo_step])"
proof -
  obtain r w' where ex: "execute (\<lambda>_. None) (\<lambda>_. Db_ok 0) no_env demo_playbook Arg_none None new_world = (Inr r, w')"
    by (rule execute_shape [of demo_playbook "\<lambda>_. None" "\<lambda>_. Db_ok 0" no_env Arg_none None new_world]) simp_all
  show ?thesis
    using ex playbook_audit [OF _ _ _ _ ex] by (simp add: db_up_def new_world_def)
qed

text \<open>
  The effects of an execution are bounded and never undone: it issues at most two requests per attempt, the
  attempts of a step are at most its number of retries, the rollback makes one attempt per step; requests and log
  entries of the past stay as they were.
\<close>
theorem playbook_effects_bounded:
  "length (w_posts (snd (execute net db env pb arg maybe w))) \<le> length (w_posts w)
     + 2 * (sum_list (map step_attempts (pb_steps pb))
            + (case pb_rollback pb of None \<Rightarrow> 0 | Some rb \<Rightarrow> length rb))
   \<and> prefix (w_posts w) (w_posts (snd (execute net db env pb arg maybe w)))
   \<and> prefix (w_audit w) (w_audit (snd (execute net db env pb arg maybe w)))"
proof -
  let ?run = "\<lambda>opr ctx. run_steps (executeWithRetry net db env (pb_id pb) opr ctx) (pb_steps pb) w"
  have steps: "length (w_posts (snd (snd (?run opr ctx)))) \<le> length (w_posts w) + 2 * sum_list (map step_attempts (pb_steps pb))" for opr ctx
    using run_steps_posts [where f = "executeWithRetry net db env (pb_id pb) opr ctx" and c = "\<lambda>s. 2 * step_attempts s"
        and steps = "pb_steps pb" and w = w, OF step_posts] by (simp add: sum_list_const_mult)
  have rb: "length (w_posts (run_rollback (soar_executeAction net env ctx) rb (snd (snd (?run opr ctx)))))
      \<le> length (w_posts w) + 2 * sum_list (map step_attempts (pb_steps pb)) + 2 * length rb" for ctx opr rb
    using rollback_posts [of net env ctx rb "snd (snd (?run opr ctx))"] steps [of opr ctx] by linarith
  have "length (w_posts (snd (execute net db env pb arg maybe w))) \<le> length (w_posts w)
     + 2 * (sum_list (map step_attempts (pb_steps pb))
            + (case pb_rollback pb of None \<Rightarrow> 0 | Some rb \<Rightarrow> length rb))"
    using execute_world [of net db env pb arg maybe w] unfolding Let_def
  proof (elim disjE exE conjE)
    fix opr ctx assume "snd (execute net db env pb arg maybe w) = snd (snd (?run opr ctx))"
    then show ?thesis using steps [of opr ctx] by simp
  next
    fix opr ctx rb assume "pb_rollback pb = Some rb"
      "snd (execute net db env pb arg maybe w) = run_rollback (soar_executeAction net env ctx) rb (snd (snd (?run opr ctx)))"
    then show ?thesis using rb [of ctx rb opr] by simp
  qed simp
  moreover have "grows w (snd (execute net db env pb arg maybe w))"
    by (intro growing.execute_le no_log_grows no_log_execute grows_audit)
  ultimately show ?thesis by (simp add: grows_def)
qed

text \<open>
  Without configuration a playbook is a rehearsal: no request is ever sent, and if all actions are of the
  four known types, have at least one attempt, and the audit log does not fail, the execution is reported as a
  success.
\<close>
theorem unconfigured_playbook:
  assumes "unconfigured env"
  shows "w_posts (snd (execute net db env pb arg maybe w)) = w_posts w
    \<and> (pb_id pb \<noteq> [] \<and> pb_name pb \<noteq> [] \<and> pb_steps pb \<noteq> [] \<and> (\<forall>n e. db n \<noteq> Db_fail e)
       \<and> (\<forall>s\<in>set (pb_steps pb). supported s \<and> 1 \<le> step_attempts s)
       \<longrightarrow> (\<exists>r w'. execute net db env pb arg maybe w = (Inr r, w') \<and> er_success r))"
proof (intro conjI impI)
  have "silent w (snd (execute net db env pb arg maybe w))"
    using unconfigured_action(1) [OF assms] by (intro silence.execute_le) (simp_all add: silent_def)
  then show "w_posts (snd (execute net db env pb arg maybe w)) = w_posts w" by (simp add: silent_def)
next
  let ?ctx = "Some (fst (execute_args arg maybe))" and ?opr = "snd (execute_args arg maybe)"
  assume a: "pb_id pb \<noteq> [] \<and> pb_name pb \<noteq> [] \<and> pb_steps pb \<noteq> [] \<and> (\<forall>n e. db n \<noteq> Db_fail e)
       \<and> (\<forall>s\<in>set (pb_steps pb). supported s \<and> 1 \<le> step_attempts s)"
  then have all: "fst (snd (run_steps (executeWithRetry net db env (pb_id pb) ?opr ?ctx) (pb_steps pb) w)) = None"
    by (intro run_steps_all simulated_step [OF assms]) auto
  have v: "pb_id pb \<noteq> []" "pb_name pb \<noteq> []" "pb_steps pb \<noteq> []" using a by auto
  show "\<exists>r w'. execute net db env pb arg maybe w = (Inr r, w') \<and> er_success r"
    by (rule execute_shape [OF v, of net db env arg maybe w]) (use all in simp)
qed

theorem unconfigured_playbook_witness:
  "\<exists>r w'. execute (\<lambda>_. None) (\<lambda>_. Db_down) no_env demo_playbook Arg_none None new_world = (Inr r, w') \<and> er_success r"
  using unconfigured_playbook [of no_env "\<lambda>_. None" "\<lambda>_. Db_down" demo_playbook Arg_none None new_world]
  by (simp add: unconfigured_def no_env_def env_set_def supported_def) (simp add: demo_step_def)

section \<open>A failing audit log\<close>

definition block_request :: "soar_env \<Rightarrow> js_object \<Rightarrow> http_post" where
  "block_request env params =
     \<lparr>hp_url = the (PFSENSE_API_URL env) @ ''/api/v1/firewall/block'', hp_body = VObj [(''ip'', obj_get params ''sourceIp'')],
      hp_token = PFSENSE_API_TOKEN env, hp_timeout = 10000\<rparr>"

lemma failing_attempt:
  assumes "env_set (PFSENSE_API_URL env)" and "env_set (PFSENSE_API_TOKEN env)" and "step_type s = ''firewall''"
  shows "attempt_step (\<lambda>_. None) (\<lambda>_. Db_fail e) env pid opr ctx s n w =
    (Inl (Db_error e), w\<lparr>w_posts := w_posts w @ [block_request env (resolveParams ctx (step_params s))],
                         w_writes := w_writes w + 1\<rparr>)"
  using assms
  by (simp add: attempt_step_def soar_executeAction_def firewallBlockAction_def post_def done_with_def
      writePlaybookAuditLog_def block_request_def Let_def)

lemma failing_retries:
  assumes "\<And>n w. f n w = (Inl e, w\<lparr>w_posts := w_posts w @ [p], w_writes := w_writes w + 1\<rparr>)"
  shows "n + k = retries + 1 \<Longrightarrow> 1 \<le> n \<Longrightarrow> k = 0 \<longrightarrow> err = Some e \<Longrightarrow>
    retry_loop f (real retries) n err w =
      (Inl e, w\<lparr>w_posts := w_posts w @ replicate k p, w_writes := w_writes w + k\<rparr>)"
proof (induction k arbitrary: n err w)
  case 0
  then show ?case by (simp add: retry_loop.simps)
next
  case (Suc k)
  then show ?case
    using Suc.IH [of "n + 1" "Some e" "w\<lparr>w_posts := w_posts w @ [p], w_writes := w_writes w + 1\<rparr>"]
    by (simp add: retry_loop.simps [of _ "real retries" n] assms)
qed

text \<open>
  The audit entry is written inside the retried attempt, so a failing audit log repeats an action that
  succeeded: a single firewall step with \<open>n\<close> retries sends the same block request \<open>n\<close> times, every one is answered
  with success, and the execution is reported as failed.
\<close>
theorem audit_failure_repeats_action:
  assumes "pb_id pb \<noteq> []" and "pb_name pb \<noteq> []" and "pb_steps pb = [s]" and "pb_rollback pb = None"
    and "step_type s = ''firewall''" and "step_retries s = Some (real n)" and "1 \<le> n"
    and "env_set (PFSENSE_API_URL env)" and "env_set (PFSENSE_API_TOKEN env)"
  shows "\<exists>r w'. execute (\<lambda>_. None) (\<lambda>_. Db_fail e) env pb (Arg_context ctx) maybe w = (Inr r, w')
    \<and> w_posts w' = w_posts w @ replicate n (block_request env (resolveParams (Some ctx) (step_params s)))
    \<and> \<not> er_success r \<and> er_error r = Some (Db_error e)"
proof -
  have "executeWithRetry (\<lambda>_. None) (\<lambda>_. Db_fail e) env pid opr (Some ctx) s w =
      (Inl (Db_error e), w\<lparr>w_posts := w_posts w @ replicate n (block_request env (resolveParams (Some ctx) (step_params s))),
                           w_writes := w_writes w + n\<rparr>)" for pid opr
    unfolding executeWithRetry_def
    using failing_retries [OF failing_attempt [OF assms(8,9,5)], of 1 n n None] assms(6,7) by simp
  then show ?thesis using assms(1-4) by (simp add: execute_def Let_def split: option.splits)
qed

theorem audit_failure_repeats_action_witness:
  "\<exists>r w'. execute (\<lambda>_. None) (\<lambda>_. Db_fail ''down'') (no_env\<lparr>PFSENSE_API_URL := Some ''fw'', PFSENSE_API_TOKEN := Some ''t''\<rparr>)
      demo_playbook (Arg_context [(''ip'', VStr ''10.0.0.1'')]) None new_world = (Inr r, w')
    \<and> length (w_posts w') = 3 \<and> \<not> er_success r"
proof -
  let ?env = "no_env\<lparr>PFSENSE_API_URL := Some ''fw'', PFSENSE_API_TOKEN := Some ''t''\<rparr>"
  have "step_type demo_step = ''firewall''" "step_retries demo_step = Some (real 3)"
    "env_set (PFSENSE_API_URL ?env)" "env_set (PFSENSE_API_TOKEN ?env)"
    by (simp_all add: demo_step_def env_set_def)
  then show ?thesis
    using audit_failure_repeats_action [of demo_playbook demo_step 3 ?env "''down''" "[(''ip'', VStr ''10.0.0.1'')]" None new_world]
    by (auto simp: new_world_def)
qed

section \<open>Execution by the bandit\<close>

definition valid_playbook :: "playbook \<Rightarrow> bool" where
  "valid_playbook pb \<longleftrightarrow> validatePlaybook (playbook_value pb) = None"

lemma valid_playbook_iff: "valid_playbook pb \<longleftrightarrow> pb_id pb \<noteq> [] \<and> pb_name pb \<noteq> [] \<and> pb_steps pb \<noteq> []"
  by (simp add: valid_playbook_def)

lemma execute_valid:
  assumes "valid_playbook pb"
  obtains r w' where "execute net db env pb arg maybe w = (Inr r, w')" and "er_playbookId r = pb_id pb"
proof -
  have v: "pb_id pb \<noteq> []" "pb_name pb \<noteq> []" "pb_steps pb \<noteq> []" using assms by (auto simp: valid_playbook_iff)
  show ?thesis by (rule execute_shape [OF v, of net db env arg maybe w]) (use that in simp)
qed

lemma find_playbook_in: "pbs \<noteq> [] \<Longrightarrow> find_playbook i pbs \<in> set pbs"
  by (auto simp: find_playbook_def find_Some_iff split: option.splits)

lemma find_playbook_hit: "i \<in> pb_id ` set pbs \<Longrightarrow> pb_id (find_playbook i pbs) = i"
  by (auto simp: find_playbook_def find_Some_iff find_None_iff split: option.splits)

lemma find_playbook_miss: "i \<notin> pb_id ` set pbs \<Longrightarrow> find_playbook i pbs = hd pbs"
  by (auto simp: find_playbook_def find_Some_iff split: option.splits dest: nth_mem)

lemma registered_arms:
  obtains arms where "map_of (registerContext ctx ids m) ctx = Some arms"
    and "map_of m ctx = None \<longrightarrow> fst ` set arms = set ids"
    and "map_of m ctx \<noteq> None \<longrightarrow> map_of m ctx = Some arms"
proof (cases "map_of m ctx")
  case None
  have "a \<in> fst ` set (fold (\<lambda>a. map_set a fresh_arm) ids []) \<longleftrightarrow> a \<in> set ids" for a
    using map_of_fold_fresh [of ids "[]" a] map_of_eq_None_iff [of "fold (\<lambda>a. map_set a fresh_arm) ids []" a]
    by (auto split: if_splits)
  then have "fst ` set (fold (\<lambda>a. map_set a fresh_arm) ids []) = set ids" by (rule set_eqI)
  then show ?thesis using None by (intro that) (simp_all add: registerContext_def update_conv')
next
  case (Some arms)
  then show ?thesis by (intro that [of arms]) (simp_all add: registerContext_def)
qed

lemma bandit_step:
  assumes "mab_run tr m" and "pbs \<noteq> []" and "\<forall>pb\<in>set pbs. valid_playbook pb" and "sampler_live rng"
    and "map_of m key \<noteq> Some []"
  obtains a r m1 w' where "mab_run (tr @ [Selected key a]) m1" and "arm_at m1 key a \<noteq> None"
    and "map_of m key = None \<Longrightarrow> a \<in> pb_id ` set pbs"
    and "\<And>arms. map_of m key = Some arms \<Longrightarrow> a \<in> fst ` set arms"
    and "\<And>ctx x. arm_at m ctx x = None \<Longrightarrow> map_of m ctx \<noteq> None \<Longrightarrow> arm_at m1 ctx x = None"
    and "er_playbookId r = pb_id (find_playbook a pbs)"
    and "executeWithBandit net db env rng redis key pbs signals opr pos m w =
      (let (err, m') = mab_reward redis key (pb_id (find_playbook a pbs)) (of_int (computeReward signals)) m1
       in Some (case err of None \<Rightarrow> Inr r | Some e \<Rightarrow> Inl (Bandit_failed e), m', w'))"
proof -
  let ?m0 = "registerContext key (map pb_id pbs) m"
  have run: "mab_run tr ?m0" by (intro mab_run.intros assms(1))
  obtain arms where arms: "map_of ?m0 key = Some arms" "map_of m key = None \<longrightarrow> fst ` set arms = set (map pb_id pbs)"
    "map_of m key \<noteq> None \<longrightarrow> map_of m key = Some arms"
    by (rule registered_arms [of key "map pb_id pbs" m])
  have "arms \<noteq> []" using arms(2,3) assms(2,5) by auto
  then obtain a pos' m1 where sel: "mab_select rng key pos ?m0 = Some (Inr (a, pos', m1))" "a \<in> fst ` set arms"
    using mab_select_returns [OF run arms(1) _ assms(4)] by blast
  obtain st where st: "arm_at ?m0 key a = Some st" and at: "\<And>ctx x. arm_at m1 ctx x =
      (if ctx = key \<and> x = a then Some (st\<lparr>am_selections := am_selections st + 1\<rparr>) else arm_at ?m0 ctx x)"
    by (rule arm_at_select [OF sel(1)]) blast
  obtain r w' where ex: "execute net db env (find_playbook a pbs) (Arg_operator opr) None w = (Inr r, w')"
    "er_playbookId r = pb_id (find_playbook a pbs)"
    using execute_valid assms(3) find_playbook_in [OF assms(2)] by metis
  show ?thesis
  proof (rule that [of a m1 r w'])
    show "mab_run (tr @ [Selected key a]) m1" by (rule mab_run.selected [OF run sel(1)])
    show "arm_at m1 ctx x = None" if "arm_at m ctx x = None" "map_of m ctx \<noteq> None" for ctx x
      using that at st by (auto simp: arm_at_register split: if_splits)
  qed (use at sel(2) arms(2,3) ex in \<open>auto simp: executeWithBandit_def assms(2) sel(1) split: prod.splits\<close>)
qed

text \<open>
  Execution by the bandit returns and learns from the playbook it ran: for a new context with valid candidates
  a candidate is executed, and the bandit's history gains exactly one selection and one reward of that
  candidate, the reward the table gives for the reported outcome.
\<close>
theorem bandit_execution_learns:
  assumes "mab_run tr m" and "map_of m key = None" and "pbs \<noteq> []" and "\<forall>pb\<in>set pbs. valid_playbook pb"
    and "sampler_live rng" and "redis \<in> {Redis_closed, Redis_open}"
  shows "\<exists>pb\<in>set pbs. \<exists>r m' w'. executeWithBandit net db env rng redis key pbs signals opr pos m w = Some (Inr r, m', w')
    \<and> er_playbookId r = pb_id pb
    \<and> mab_run (tr @ [Selected key (pb_id pb), Rewarded key (pb_id pb) (of_int (computeReward signals))]) m'"
proof -
  have "map_of m key \<noteq> Some []" using assms(2) by simp
  from bandit_step [OF assms(1,3-5) this] obtain a r m1 w' where s:
    "mab_run (tr @ [Selected key a]) m1" "arm_at m1 key a \<noteq> None" "a \<in> pb_id ` set pbs"
    "er_playbookId r = pb_id (find_playbook a pbs)"
    "executeWithBandit net db env rng redis key pbs signals opr pos m w =
      (let (err, m') = mab_reward redis key (pb_id (find_playbook a pbs)) (of_int (computeReward signals)) m1
       in Some (case err of None \<Rightarrow> Inr r | Some e \<Rightarrow> Inl (Bandit_failed e), m', w'))"
    by (metis assms(2))
  let ?m' = "snd (mab_reward redis key a (of_int (computeReward signals)) m1)"
  have hit: "pb_id (find_playbook a pbs) = a" by (rule find_playbook_hit [OF s(3)])
  have "mab_run ((tr @ [Selected key a]) @ [Rewarded key a (of_int (computeReward signals))]) ?m'"
    by (rule mab_run.rewarded [OF s(1,2)])
  moreover have "fst (mab_reward redis key a (of_int (computeReward signals)) m1) = None"
    using assms(6) by (auto simp: mab_reward_def Let_def split: option.splits)
  ultimately show ?thesis
    using s(4,5) find_playbook_in [OF assms(3), of a] hit
    by (intro bexI [of _ "find_playbook a pbs"]) (auto simp: split_def)
qed

theorem bandit_execution_learns_witness:
  "\<exists>r m' w'. executeWithBandit (\<lambda>_. None) (\<lambda>_. Db_down) no_env (\<lambda>_. 1/4) Redis_closed ''k'' [demo_playbook]
      \<lparr>blockedAttack = True, userImpact = False, missedDetection = False\<rparr> Op_system 0 [] new_world = Some (Inr r, m', w')
    \<and> er_playbookId r = ''p'' \<and> mab_run [Selected ''k'' ''p'', Rewarded ''k'' ''p'' 1] m'"
  using bandit_execution_learns [OF mab_run.start, of "''k''" "[demo_playbook]" "\<lambda>_. 1/4" Redis_closed "\<lambda>_. None"
      "\<lambda>_. Db_down" no_env "\<lparr>blockedAttack = True, userImpact = False, missedDetection = False\<rparr>" Op_system 0 new_world]
    quarter_live
  by (simp add: valid_playbook_iff computeReward_def)

text \<open>
  The arms of a context are fixed by its first call. When a later call offers only playbooks the context does not
  know, the first candidate is executed whatever the sampler says, its reward is dropped, no parameter changes, and
  the selection is counted for a playbook that did not run.
\<close>
theorem stale_context_ignores_candidates:
  assumes "mab_run tr m" and "map_of m key = Some arms" and "arms \<noteq> []" and "pbs \<noteq> []"
    and "\<forall>pb\<in>set pbs. valid_playbook pb" and "sampler_live rng" and "pb_id ` set pbs \<inter> fst ` set arms = {}"
  shows "\<exists>a r m' w'. executeWithBandit net db env rng redis key pbs signals opr pos m w = Some (Inr r, m', w')
    \<and> er_playbookId r = pb_id (hd pbs) \<and> a \<in> fst ` set arms \<and> mab_run (tr @ [Selected key a]) m'
    \<and> arm_at m' key (pb_id (hd pbs)) = None"
proof -
  have ne: "map_of m key \<noteq> Some []" using assms(2,3) by simp
  from bandit_step [OF assms(1,4-6) ne] obtain a r m1 w' where s:
    "mab_run (tr @ [Selected key a]) m1" "a \<in> fst ` set arms"
    "\<And>ctx x. arm_at m ctx x = None \<Longrightarrow> map_of m ctx \<noteq> None \<Longrightarrow> arm_at m1 ctx x = None"
    "er_playbookId r = pb_id (find_playbook a pbs)"
    "executeWithBandit net db env rng redis key pbs signals opr pos m w =
      (let (err, m') = mab_reward redis key (pb_id (find_playbook a pbs)) (of_int (computeReward signals)) m1
       in Some (case err of None \<Rightarrow> Inr r | Some e \<Rightarrow> Inl (Bandit_failed e), m', w'))"
    by (metis assms(2))
  have miss: "find_playbook a pbs = hd pbs" using assms(7) s(2) by (intro find_playbook_miss) auto
  have "pb_id (hd pbs) \<notin> fst ` set arms" using assms(4,7) by (auto dest: hd_in_set)
  then have "arm_at m key (pb_id (hd pbs)) = None" using assms(2) by (simp add: arm_at_def map_of_eq_None_iff)
  then have none: "arm_at m1 key (pb_id (hd pbs)) = None" using s(3) assms(2) by simp
  then have "mab_reward redis key (pb_id (hd pbs)) x m1 = (None, m1)" for x
    by (auto simp: mab_reward_def arm_at_def split: option.splits)
  then show ?thesis using s miss none by auto
qed

theorem stale_context_ignores_candidates_witness:
  "\<exists>r m' w'. executeWithBandit (\<lambda>_. None) (\<lambda>_. Db_down) no_env (\<lambda>_. 1/4) Redis_closed ''k'' [demo_playbook]
      \<lparr>blockedAttack = True, userImpact = False, missedDetection = False\<rparr> Op_system 0
      (registerContext ''k'' [''old''] []) new_world = Some (Inr r, m', w')
    \<and> er_playbookId r = ''p'' \<and> arm_at m' ''k'' ''p'' = None"
proof -
  have run: "mab_run [] (registerContext ''k'' [''old''] [])" by (intro mab_run.intros)
  have arms: "map_of (registerContext ''k'' [''old''] []) ''k'' = Some [(''old'', fresh_arm)]"
    by (simp add: registerContext_def)
  show ?thesis
    using stale_context_ignores_candidates [OF run arms, of "[demo_playbook]" "\<lambda>_. 1/4" "\<lambda>_. None" "\<lambda>_. Db_down" no_env
        Redis_closed "\<lparr>blockedAttack = True, userImpact = False, missedDetection = False\<rparr>" Op_system 0 new_world] quarter_live
    by (auto simp: valid_playbook_iff)
qed

end
