(* ===== verification/MarkovTypes.thy ===== *)
theory MarkovTypes
  imports Prelude
begin

text \<open>
  The data of the behavioural models (\<^verbatim>\<open>backend/src/types/markov.d.ts\<close>): actions, contexts, states, sequences and the
  transitions of a chain. String unions are datatypes with their texts as functions. The minimal duration of a
  transition starts at \<^verbatim>\<open>Infinity\<close>; the type of that field is a parameter, because it is \<^verbatim>\<open>null\<close> in a saved chain.
\<close>

datatype behavioral_action =
  Page_view | Page_exit | Redirect | Back_button | Refresh | Scroll
| Login_attempt | Login_success | Login_failure | Logout | Session_timeout
| Search | Click | Form_submit | Download | Upload | Api_call
| Error_404 | Error_500 | Error_403 | Timeout | Network_error
| Rate_limit_hit | Suspicious_activity | Blocked_request | Captcha_challenge
| Idle | Active | Focus_lost | Focus_gained | Tab_switch

datatype behavioral_context = Ctx_normal | Ctx_suspicious | Ctx_authenticated | Ctx_anonymous | Ctx_privileged | Ctx_restricted

fun action_text :: "behavioral_action \<Rightarrow> string" where
  "action_text Page_view = ''page_view''"
| "action_text Page_exit = ''page_exit''"
| "action_text Redirect = ''redirect''"
| "action_text Back_button = ''back_button''"
| "action_text Refresh = ''refresh''"
| "action_text Scroll = ''scroll''"
| "action_text Login_attempt = ''login_attempt''"
| "action_text Login_success = ''login_success''"
| "action_text Login_failure = ''login_failure''"
| "action_text Logout = ''logout''"
| "action_text Session_timeout = ''session_timeout''"
| "action_text Search = ''search''"
| "action_text Click = ''click''"
| "action_text Form_submit = ''form_submit''"
| "action_text Download = ''download''"
| "action_text Upload = ''upload''"
| "action_text Api_call = ''api_call''"
| "action_text Error_404 = ''error_404''"
| "action_text Error_500 = ''error_500''"
| "action_text Error_403 = ''error_403''"
| "action_text Timeout = ''timeout''"
| "action_text Network_error = ''network_error''"
| "action_text Rate_limit_hit = ''rate_limit_hit''"
| "action_text Suspicious_activity = ''suspicious_activity''"
| "action_text Blocked_request = ''blocked_request''"
| "action_text Captcha_challenge = ''captcha_challenge''"
| "action_text Idle = ''idle''"
| "action_text Active = ''active''"
| "action_text Focus_lost = ''focus_lost''"
| "action_text Focus_gained = ''focus_gained''"
| "action_text Tab_switch = ''tab_switch''"

fun context_text_of :: "behavioral_context \<Rightarrow> string" where
  "context_text_of Ctx_normal = ''normal''"
| "context_text_of Ctx_suspicious = ''suspicious''"
| "context_text_of Ctx_authenticated = ''authenticated''"
| "context_text_of Ctx_anonymous = ''anonymous''"
| "context_text_of Ctx_privileged = ''privileged''"
| "context_text_of Ctx_restricted = ''restricted''"

record state_metadata =
  md_path :: "string option"
  md_method :: "string option"
  md_statusCode :: "int option"
  md_userAgent :: "string option"
  md_ipAddress :: "string option"
  md_sessionId :: "string option"
  md_userId :: "string option"
  md_duration :: "real option"
  md_errorType :: "string option"
  md_riskScore :: "real option"

record behavioral_state =
  bv_action :: behavioral_action
  bv_context :: behavioral_context
  bv_timestamp :: time_ms
  bv_metadata :: state_metadata

record state_sequence =
  sq_states :: "behavioral_state list"
  sq_sessionId :: string
  sq_userId :: "string option"
  sq_startTime :: time_ms
  sq_endTime :: time_ms
  sq_totalDuration :: int
  sq_isComplete :: bool
  sq_riskScore :: "real option"

record 'n transition =
  tn_from :: string
  tn_to :: string
  tn_probability :: real
  tn_count :: nat
  tn_lastSeen :: time_ms
  tn_confidence :: real
  tn_avgDuration :: real
  tn_minDuration :: 'n
  tn_maxDuration :: real
  tn_contexts :: "behavioral_context list"
  tn_riskFactors :: "string list"

record 'n transition_matrix =
  tm_order :: nat
  tm_states :: "string list"
  tm_transitions :: "(string, (string, 'n transition) js_map) js_map"
  tm_totalTransitions :: nat
  tm_lastUpdated :: time_ms
  tm_pruningThreshold :: int

record markov_config =
  mk_order :: nat
  smoothingParameter :: real
  pruningThreshold :: int
  maxStates :: int
  memoryLimit :: int
  mk_persistenceInterval :: int
  stateExpiryHours :: int
  minConfidenceThreshold :: real

datatype risk_level = Risk_low | Risk_medium | Risk_high | Risk_critical

section \<open>Keys of states\<close>

text \<open>\<^verbatim>\<open>`${state.action}:${state.context}`\<close>\<close>

definition state_key :: "behavioral_state \<Rightarrow> string" where
  "state_key st = action_text (bv_action st) @ '':'' @ context_text_of (bv_context st)"

definition all_actions :: "behavioral_action list" where
  "all_actions = [Page_view, Page_exit, Redirect, Back_button, Refresh, Scroll, Login_attempt, Login_success,
     Login_failure, Logout, Session_timeout, Search, Click, Form_submit, Download, Upload, Api_call, Error_404,
     Error_500, Error_403, Timeout, Network_error, Rate_limit_hit, Suspicious_activity, Blocked_request,
     Captcha_challenge, Idle, Active, Focus_lost, Focus_gained, Tab_switch]"

lemma all_actions [simp]: "a \<in> set all_actions"
  by (cases a) (simp_all add: all_actions_def)

lemma action_text_inj: "action_text a = action_text b \<longleftrightarrow> a = b"
proof -
  have "distinct (map action_text all_actions)" by code_simp
  then show ?thesis by (auto simp: distinct_map inj_on_def)
qed

lemma action_text_colon: "CHR '':'' \<notin> set (action_text a)"
  by (cases a) simp_all

lemma context_text_inj: "context_text_of a = context_text_of b \<longleftrightarrow> a = b"
  by (cases a; cases b) simp_all

lemma context_text_colon: "CHR '':'' \<notin> set (context_text_of a)"
  by (cases a) simp_all

lemma split_at_colon:
  "c \<notin> set xs \<Longrightarrow> c \<notin> set xs' \<Longrightarrow> xs @ c # ys = xs' @ c # ys' \<longleftrightarrow> xs = xs' \<and> ys = ys'"
  by (induction xs arbitrary: xs') (case_tac xs'; auto)+

text \<open>Two states have the same key exactly when they have the same action and the same context.\<close>

lemma state_key_inj:
  "state_key s = state_key t \<longleftrightarrow> bv_action s = bv_action t \<and> bv_context s = bv_context t"
  by (simp add: state_key_def split_at_colon action_text_colon action_text_inj context_text_inj)

end
