(* ===== verification/MarkovChain.thy ===== *)
theory MarkovChain
  imports MarkovTypes
begin

text \<open>
  The Markov chain of behavioural states (\<^verbatim>\<open>backend/src/core/markov/MarkovChain.ts\<close>). The chain numbers the states it
  meets (\<^verbatim>\<open>S0\<close>, \<^verbatim>\<open>S1\<close>, ...), joins the numbers of the last \<^verbatim>\<open>order\<close> states to a context and counts, per context, the
  states that follow. The object is \<open>markov_chain\<close>; \<open>learnSequence\<close>, \<open>predictNext\<close>, \<open>validateSequence\<close>,
  \<open>serialize_chain\<close>, \<open>deserialize_chain\<close> and \<open>clear_chain\<close> are its methods. The clock is read once per call. The texts
  of reasons and descriptions are left out; what decides which of them appear is kept.

  The learner refines a log of windows (\<open>chain_log\<close>): the count of a transition is the number of times the
  states of its context were followed by its target, read through the numbering.
\<close>

record markov_chain =
  ch_config :: markov_config
  ch_matrix :: "jsnum transition_matrix"
  stateEncoder :: "(string, string) js_map"
  stateDecoder :: "(string, string) js_map"
  stateCounter :: nat

section \<open>Construction and encoding\<close>

definition initializeTransitionMatrix :: "markov_config \<Rightarrow> time_ms \<Rightarrow> jsnum transition_matrix" where
  "initializeTransitionMatrix cfg now =
     \<lparr>tm_order = mk_order cfg, tm_states = [], tm_transitions = [], tm_totalTransitions = 0, tm_lastUpdated = now,
      tm_pruningThreshold = pruningThreshold cfg\<rparr>"

definition new_chain :: "markov_config \<Rightarrow> time_ms \<Rightarrow> markov_chain" where
  "new_chain cfg now =
     \<lparr>ch_config = cfg, ch_matrix = initializeTransitionMatrix cfg now, stateEncoder = [], stateDecoder = [],
      stateCounter = 0\<rparr>"

definition state_code :: "nat \<Rightarrow> string" where
  "state_code n = ''S'' @ digits n"

definition encodeState :: "behavioral_state \<Rightarrow> markov_chain \<Rightarrow> string \<times> markov_chain" where
  "encodeState st ch =
     (case map_of (stateEncoder ch) (state_key st) of
        Some code \<Rightarrow> (code, ch)
      | None \<Rightarrow>
          (let code = state_code (stateCounter ch)
           in (code, ch\<lparr>stateCounter := stateCounter ch + 1,
                        stateEncoder := map_set (state_key st) code (stateEncoder ch),
                        stateDecoder := map_set code (state_key st) (stateDecoder ch),
                        ch_matrix := (ch_matrix ch)\<lparr>tm_states := set_add code (tm_states (ch_matrix ch))\<rparr>\<rparr>)))"

fun encodeStates :: "behavioral_state list \<Rightarrow> markov_chain \<Rightarrow> string list \<times> markov_chain" where
  "encodeStates [] ch = ([], ch)"
| "encodeStates (st # sts) ch =
     (let (c, ch1) = encodeState st ch; (cs, ch2) = encodeStates sts ch1 in (c # cs, ch2))"

definition decodeState :: "string \<Rightarrow> markov_chain \<Rightarrow> string" where
  "decodeState code ch =
     (case map_of (stateDecoder ch) code of None \<Rightarrow> code | Some k \<Rightarrow> if k = [] then code else k)"

fun join_bar :: "string list \<Rightarrow> string" where
  "join_bar [] = []"
| "join_bar [s] = s"
| "join_bar (s # t # ss) = s @ ''|'' @ join_bar (t # ss)"

definition buildContext :: "markov_config \<Rightarrow> string list \<Rightarrow> nat \<Rightarrow> string" where
  "buildContext cfg codes i = join_bar (take (mk_order cfg) (drop i codes))"

section \<open>Learning\<close>

definition calculateRecencyFactor :: "time_ms \<Rightarrow> time_ms \<Rightarrow> real" where
  "calculateRecencyFactor now lastSeen =
     (let hoursSince = of_int (now - lastSeen) / (1000 * 60 * 60) in exp (- hoursSince / (24 * 7)))"

definition total_count :: "(string, 'n transition) js_map \<Rightarrow> nat" where
  "total_count m = sum_list (map (\<lambda>(k, t). tn_count t) m)"

text \<open>The body of the loop of \<^verbatim>\<open>updateProbabilities\<close> on one transition.\<close>

definition reweigh :: "markov_config \<Rightarrow> time_ms \<Rightarrow> nat \<Rightarrow> nat \<Rightarrow> 'n transition \<Rightarrow> 'n transition" where
  "reweigh cfg now totalCount entries t =
     t\<lparr>tn_probability := (real (tn_count t) + smoothingParameter cfg)
                         / (real totalCount + smoothingParameter cfg * real entries),
       tn_confidence := min (95/100) (real (tn_count t) / 100 * calculateRecencyFactor now (tn_lastSeen t))\<rparr>"

definition updateProbabilities ::
  "markov_config \<Rightarrow> time_ms \<Rightarrow> (string, 'n transition) js_map \<Rightarrow> (string, 'n transition) js_map" where
  "updateProbabilities cfg now m = map (\<lambda>(k, t). (k, reweigh cfg now (total_count m) (length m) t)) m"

definition fresh_transition :: "string \<Rightarrow> string \<Rightarrow> time_ms \<Rightarrow> jsnum transition" where
  "fresh_transition context next now =
     \<lparr>tn_from = context, tn_to = next, tn_probability = 0, tn_count = 0, tn_lastSeen = now, tn_confidence = 0,
      tn_avgDuration = 0, tn_minDuration = PInf, tn_maxDuration = 0, tn_contexts = [], tn_riskFactors = []\<rparr>"

text \<open>The statements of \<^verbatim>\<open>updateTransition\<close> on the one transition it changes.\<close>

definition bump_transition :: "time_ms \<Rightarrow> behavioral_state \<Rightarrow> jsnum transition \<Rightarrow> jsnum transition" where
  "bump_transition now st t =
     (let t = t\<lparr>tn_count := tn_count t + 1, tn_lastSeen := now\<rparr>;
          duration = (case md_duration (bv_metadata st) of None \<Rightarrow> 0 | Some d \<Rightarrow> d);
          t = (if duration > 0
               then t\<lparr>tn_avgDuration := (tn_avgDuration t * (real (tn_count t) - 1) + duration) / real (tn_count t),
                      tn_minDuration := js_min (tn_minDuration t) (Fin duration),
                      tn_maxDuration := max (tn_maxDuration t) duration\<rparr>
               else t)
      in if bv_context st \<in> set (tn_contexts t) then t else t\<lparr>tn_contexts := tn_contexts t @ [bv_context st]\<rparr>)"

definition transitions_of :: "string \<Rightarrow> markov_chain \<Rightarrow> (string, jsnum transition) js_map" where
  "transitions_of context ch = (case map_of (tm_transitions (ch_matrix ch)) context of None \<Rightarrow> [] | Some m \<Rightarrow> m)"

definition set_transitions ::
  "(string, (string, jsnum transition) js_map) js_map \<Rightarrow> markov_chain \<Rightarrow> markov_chain" where
  "set_transitions ts ch = ch\<lparr>ch_matrix := (ch_matrix ch)\<lparr>tm_transitions := ts\<rparr>\<rparr>"

definition updateTransition ::
  "time_ms \<Rightarrow> string \<Rightarrow> string \<Rightarrow> behavioral_state \<Rightarrow> markov_chain \<Rightarrow> markov_chain" where
  "updateTransition now context next st ch =
     (let m = transitions_of context ch;
          t = (case map_of m next of None \<Rightarrow> fresh_transition context next now | Some t \<Rightarrow> t);
          m = map_set next (bump_transition now st t) m
      in set_transitions (map_set context (updateProbabilities (ch_config ch) now m) (tm_transitions (ch_matrix ch))) ch)"

definition chain_memoryUsage :: "markov_chain \<Rightarrow> int" where
  "chain_memoryUsage ch =
     int (length (tm_states (ch_matrix ch))) * 50
     + sum_list (map (\<lambda>(c, m). int (length m) * 200) (tm_transitions (ch_matrix ch)))"

definition shouldPrune :: "markov_chain \<Rightarrow> bool" where
  "shouldPrune ch \<longleftrightarrow>
     int (length (tm_states (ch_matrix ch))) > maxStates (ch_config ch)
     \<or> chain_memoryUsage ch > memoryLimit (ch_config ch)"

definition pruneTransitions :: "markov_chain \<Rightarrow> markov_chain" where
  "pruneTransitions ch =
     set_transitions
       (filter (\<lambda>(c, m). m \<noteq> [])
         (map (\<lambda>(c, m). (c, filter (\<lambda>(k, t). \<not> int (tn_count t) < pruningThreshold (ch_config ch)) m))
           (tm_transitions (ch_matrix ch)))) ch"

definition learnSequence :: "time_ms \<Rightarrow> behavioral_state list \<Rightarrow> markov_chain \<Rightarrow> markov_chain" where
  "learnSequence now sequence ch =
     (let order = mk_order (ch_config ch)
      in if length sequence < order + 1 then ch
         else
           let (codes, ch) = encodeStates sequence ch;
               ch = fold (\<lambda>i. updateTransition now (buildContext (ch_config ch) codes i) (codes ! (i + order))
                              (sequence ! (i + order))) [0..<length codes - order] ch;
               ch = ch\<lparr>ch_matrix := (ch_matrix ch)\<lparr>tm_totalTransitions := tm_totalTransitions (ch_matrix ch) + 1,
                                                    tm_lastUpdated := now\<rparr>\<rparr>
           in if shouldPrune ch then pruneTransitions ch else ch)"

definition clear_chain :: "time_ms \<Rightarrow> markov_chain \<Rightarrow> markov_chain" where
  "clear_chain now ch =
     ch\<lparr>ch_matrix := initializeTransitionMatrix (ch_config ch) now, stateEncoder := [], stateDecoder := [],
        stateCounter := 0\<rparr>"

section \<open>Prediction\<close>

record next_state =
  ns_state :: string
  ns_probability :: real
  ns_confidence :: real
  ns_historicalCount :: nat
  ns_avgDuration :: real
  ns_riskLevel :: risk_level
  ns_contexts :: "behavioral_context list"

datatype reasoning = Insufficient_context | No_transitions | Based_on nat | Confidence_of real | Low_probability

record sequence_prediction =
  nextStates :: "next_state list"
  predictionConfidence :: real
  anomalyScore :: jsnum
  isAnomalous :: bool
  reasoning_of :: "reasoning list"

definition calculateRiskLevel :: "jsnum transition \<Rightarrow> risk_level" where
  "calculateRiskLevel t =
     (if Ctx_suspicious \<in> set (tn_contexts t) then Risk_critical
      else if Ctx_restricted \<in> set (tn_contexts t) then Risk_high
      else if tn_probability t < 1/10 then Risk_medium else Risk_low)"

text \<open>The quotient by \<^verbatim>\<open>Math.log2(predictions.length)\<close> is 0/0 for a single prediction.\<close>

definition calculateAnomalyScore :: "next_state list \<Rightarrow> jsnum" where
  "calculateAnomalyScore ps =
     (case ps of
        [] \<Rightarrow> Fin 1
      | p # _ \<Rightarrow>
          (let entropy = foldl (\<lambda>s p. if ns_probability p > 0 then s - ns_probability p * log 2 (ns_probability p) else s) 0 ps
           in js_min (Fin 1) (js_add (js_div entropy (log 2 (real (length ps)))) (Fin (1 - ns_probability p)))))"

definition getDefaultPrediction :: "reasoning \<Rightarrow> sequence_prediction" where
  "getDefaultPrediction r =
     \<lparr>nextStates = [], predictionConfidence = 0, anomalyScore = Fin (1/2), isAnomalous = False, reasoning_of = [r]\<rparr>"

definition generateReasoning :: "next_state list \<Rightarrow> reasoning list" where
  "generateReasoning ps =
     (case ps of
        [] \<Rightarrow> [No_transitions]
      | p # _ \<Rightarrow> [Based_on (ns_historicalCount p), Confidence_of (ns_confidence p)]
          @ (if ns_probability p < 3/10 then [Low_probability] else []))"

definition sortedTransitions :: "(string, jsnum transition) js_map \<Rightarrow> markov_chain \<Rightarrow> next_state list" where
  "sortedTransitions m ch =
     sort_key (\<lambda>n. - ns_probability n)
       (map (\<lambda>(k, t). \<lparr>ns_state = decodeState k ch, ns_probability = tn_probability t, ns_confidence = tn_confidence t,
          ns_historicalCount = tn_count t, ns_avgDuration = tn_avgDuration t, ns_riskLevel = calculateRiskLevel t,
          ns_contexts = tn_contexts t\<rparr>) m)"

definition predictNext :: "behavioral_state list \<Rightarrow> markov_chain \<Rightarrow> sequence_prediction \<times> markov_chain" where
  "predictNext recent ch =
     (if length recent < mk_order (ch_config ch) then (getDefaultPrediction Insufficient_context, ch)
      else
        let (codes, ch) = encodeStates (js_slice_from (- int (mk_order (ch_config ch))) recent) ch;
            m = transitions_of (join_bar codes) ch
        in if m = [] then (getDefaultPrediction No_transitions, ch)
           else
             let ps = sortedTransitions m ch;
                 totalProbability = sum_list (map ns_probability ps);
                 score = calculateAnomalyScore ps
             in (\<lparr>nextStates = take 5 ps,
                  predictionConfidence = (if totalProbability > 0 then ns_probability (hd ps) / totalProbability else 0),
                  anomalyScore = score, isAnomalous = js_greater score (7/10), reasoning_of = generateReasoning ps\<rparr>, ch))"

section \<open>Validation\<close>

datatype violation_type = Impossible_transition | Timing_violation

record violation =
  vi_type :: violation_type
  vi_severity :: risk_level
  vi_position :: nat

record validation_result =
  vr_isValid :: bool
  vr_confidence :: real
  vr_violations :: "violation list"

definition checkTimingViolation :: "behavioral_state \<Rightarrow> behavioral_state \<Rightarrow> violation list" where
  "checkTimingViolation s1 s2 =
     (if bv_timestamp s2 - bv_timestamp s1 < 100
      then [\<lparr>vi_type = Timing_violation, vi_severity = Risk_medium, vi_position = 0\<rparr>] else [])"

definition violations_at :: "behavioral_state list \<Rightarrow> string list \<Rightarrow> markov_chain \<Rightarrow> nat \<Rightarrow> violation list" where
  "violations_at sequence codes ch i =
     (let order = mk_order (ch_config ch)
      in (case map_of (transitions_of (buildContext (ch_config ch) codes i) ch) (codes ! (i + order)) of
            None \<Rightarrow> [\<lparr>vi_type = Impossible_transition, vi_severity = Risk_high, vi_position = i + order\<rparr>]
          | Some t \<Rightarrow> if tn_probability t < 1/10
                      then [\<lparr>vi_type = Impossible_transition, vi_severity = Risk_medium, vi_position = i + order\<rparr>] else [])
         @ (if i > 0 then checkTimingViolation (sequence ! i) (sequence ! (i + 1)) else []))"

definition validateSequence :: "behavioral_state list \<Rightarrow> markov_chain \<Rightarrow> validation_result \<times> markov_chain" where
  "validateSequence sequence ch =
     (if length sequence < 2 then (\<lparr>vr_isValid = True, vr_confidence = 1/2, vr_violations = []\<rparr>, ch)
      else
        let (codes, ch) = encodeStates sequence ch;
            vs = concat (map (violations_at sequence codes ch) [0..<length codes - mk_order (ch_config ch)])
        in (\<lparr>vr_isValid = (filter (\<lambda>v. vi_severity v = Risk_high \<or> vi_severity v = Risk_critical) vs = []),
             vr_confidence = max 0 (1 - real (length vs) * (2/10)), vr_violations = vs\<rparr>, ch))"

definition getTransitionProbability :: "string \<Rightarrow> string \<Rightarrow> markov_chain \<Rightarrow> real" where
  "getTransitionProbability from to ch =
     (case map_of (transitions_of from ch) to of None \<Rightarrow> 0 | Some t \<Rightarrow> tn_probability t)"

record chain_statistics =
  cs_totalStates :: nat
  cs_totalTransitions :: nat
  cs_average :: real
  cs_memoryUsage :: int
  cs_lastUpdated :: time_ms

definition chain_getStatistics :: "markov_chain \<Rightarrow> chain_statistics" where
  "chain_getStatistics ch =
     (let totalStates = length (tm_states (ch_matrix ch));
          total = sum_list (map (\<lambda>(c, m). length m) (tm_transitions (ch_matrix ch)))
      in \<lparr>cs_totalStates = totalStates, cs_totalTransitions = total,
          cs_average = (if totalStates > 0 then real total / real totalStates else 0),
          cs_memoryUsage = chain_memoryUsage ch, cs_lastUpdated = tm_lastUpdated (ch_matrix ch)\<rparr>)"

section \<open>Persistence\<close>

text \<open>
  \<^verbatim>\<open>JSON.stringify\<close> writes an infinite or undefined number as \<^verbatim>\<open>null\<close> (\<open>None\<close>). The loaded \<^verbatim>\<open>null\<close> is later read by \<^verbatim>\<open>Math.min\<close> only,
  which takes it for 0.
\<close>

fun json_num :: "jsnum \<Rightarrow> real option" where
  "json_num (Fin x) = Some x"
| "json_num _ = None"

definition parsed_num :: "real option \<Rightarrow> jsnum" where
  "parsed_num v = (case v of None \<Rightarrow> Fin 0 | Some x \<Rightarrow> Fin x)"

definition map_minDuration :: "('a \<Rightarrow> 'b) \<Rightarrow> 'a transition \<Rightarrow> 'b transition" where
  "map_minDuration f t =
     \<lparr>tn_from = tn_from t, tn_to = tn_to t, tn_probability = tn_probability t, tn_count = tn_count t,
      tn_lastSeen = tn_lastSeen t, tn_confidence = tn_confidence t, tn_avgDuration = tn_avgDuration t,
      tn_minDuration = f (tn_minDuration t), tn_maxDuration = tn_maxDuration t, tn_contexts = tn_contexts t,
      tn_riskFactors = tn_riskFactors t\<rparr>"

record chain_data =
  cd_config :: markov_config
  cd_matrix :: "real option transition_matrix"
  cd_stateEncoder :: "(string \<times> string) list"
  cd_stateDecoder :: "(string \<times> string) list"
  cd_stateCounter :: nat

definition serialize_chain :: "markov_chain \<Rightarrow> chain_data" where
  "serialize_chain ch =
     (let m = ch_matrix ch
      in \<lparr>cd_config = ch_config ch,
          cd_matrix = \<lparr>tm_order = tm_order m, tm_states = tm_states m,
            tm_transitions = map (\<lambda>(c, ts). (c, map (\<lambda>(k, t). (k, map_minDuration json_num t)) ts)) (tm_transitions m),
            tm_totalTransitions = tm_totalTransitions m, tm_lastUpdated = tm_lastUpdated m,
            tm_pruningThreshold = tm_pruningThreshold m\<rparr>,
          cd_stateEncoder = stateEncoder ch, cd_stateDecoder = stateDecoder ch, cd_stateCounter = stateCounter ch\<rparr>)"

definition deserialize_chain :: "chain_data \<Rightarrow> markov_chain" where
  "deserialize_chain d =
     (let m = cd_matrix d
      in \<lparr>ch_config = cd_config d,
          ch_matrix = \<lparr>tm_order = tm_order m, tm_states = fold set_add (tm_states m) [],
            tm_transitions = map_of_entries (map (\<lambda>(c, ts).
              (c, map_of_entries (map (\<lambda>(k, t). (k, map_minDuration parsed_num t)) ts))) (tm_transitions m)),
            tm_totalTransitions = tm_totalTransitions m, tm_lastUpdated = tm_lastUpdated m,
            tm_pruningThreshold = tm_pruningThreshold m\<rparr>,
          stateEncoder = map_of_entries (cd_stateEncoder d), stateDecoder = map_of_entries (cd_stateDecoder d),
          stateCounter = cd_stateCounter d\<rparr>)"

end
