(* ===== verification/MarkovLearning.thy ===== *)
theory MarkovLearning
  imports MarkovChain
begin

text \<open>
  What the Markov chain learns: its numbering of states is a bijection, its counts are those of a log of windows, its
  probabilities form sub-stochastic rows (stochastic ones when nothing is pruned), and what saving and loading keep.
\<close>

section \<open>The numbering of states\<close>

lemma state_code_inj [simp]: "state_code m = state_code n \<longleftrightarrow> m = n"
  by (simp add: state_code_def)

lemma state_code_bar: "CHR ''|'' \<notin> set (state_code n)"
  using digits_chars [of "CHR ''|''" n] by (auto simp: state_code_def)

definition code :: "markov_chain \<Rightarrow> string \<Rightarrow> string option" where
  "code ch k = map_of (stateEncoder ch) k"

definition numbering :: "markov_chain \<Rightarrow> bool" where
  "numbering ch \<longleftrightarrow>
     (\<forall>k c. code ch k = Some c \<longrightarrow> (\<exists>n < stateCounter ch. c = state_code n) \<and> map_of (stateDecoder ch) c = Some k \<and> k \<noteq> [])
     \<and> js_map_ok (stateEncoder ch) \<and> js_map_ok (stateDecoder ch)
     \<and> distinct (tm_states (ch_matrix ch))"

lemma numbering_inj: "numbering ch \<Longrightarrow> code ch k = Some c \<Longrightarrow> code ch k' = Some c \<Longrightarrow> k = k'"
  unfolding numbering_def by (metis option.inject)

lemma numbering_form: "numbering ch \<Longrightarrow> code ch k = Some c \<Longrightarrow> \<exists>n < stateCounter ch. c = state_code n"
  by (simp add: numbering_def)

lemma numbering_decode: "numbering ch \<Longrightarrow> code ch k = Some c \<Longrightarrow> decodeState c ch = k"
  by (auto simp: numbering_def decodeState_def)

lemma state_key_nonempty [simp]: "state_key st \<noteq> []"
  by (simp add: state_key_def)

lemma encodeState_cases:
  obtains c where "code ch (state_key st) = Some c" and "encodeState st ch = (c, ch)"
  | "code ch (state_key st) = None" and "fst (encodeState st ch) = state_code (stateCounter ch)"
    and "code (snd (encodeState st ch)) = (code ch)(state_key st \<mapsto> state_code (stateCounter ch))"
  by (cases "code ch (state_key st)")
     (auto simp: encodeState_def code_def Let_def update_conv' fun_eq_iff)

lemma encodeState_code: "code (snd (encodeState st ch)) (state_key st) = Some (fst (encodeState st ch))"
  by (rule encodeState_cases [of ch st]) auto

lemma encodeState_extends: "code ch k = Some c \<Longrightarrow> code (snd (encodeState st ch)) k = Some c"
  by (rule encodeState_cases [of ch st]) auto

lemma encodeState_keeps:
  "ch_config (snd (encodeState st ch)) = ch_config ch"
  "tm_transitions (ch_matrix (snd (encodeState st ch))) = tm_transitions (ch_matrix ch)"
  by (auto simp: encodeState_def Let_def split: option.splits)

lemma numbering_encode:
  assumes "numbering ch"
  shows "numbering (snd (encodeState st ch))"
proof (cases "code ch (state_key st)")
  case None
  let ?n = "stateCounter ch" and ?ch = "snd (encodeState st ch)"
  have ch: "stateEncoder ?ch = map_set (state_key st) (state_code ?n) (stateEncoder ch)"
    "stateDecoder ?ch = map_set (state_code ?n) (state_key st) (stateDecoder ch)" "stateCounter ?ch = Suc ?n"
    "tm_states (ch_matrix ?ch) = set_add (state_code ?n) (tm_states (ch_matrix ch))"
    using None by (simp_all add: encodeState_def code_def Let_def)
  have "\<exists>m<Suc ?n. c = state_code m" "map_of (stateDecoder ?ch) c = Some k" "k \<noteq> []" if "code ?ch k = Some c" for k c
  proof -
    have "k = state_key st \<and> c = state_code ?n \<or> code ch k = Some c \<and> (\<exists>m<?n. c = state_code m)"
      using that assms by (auto simp: code_def ch update_conv' numbering_def split: if_splits)
    then show "\<exists>m<Suc ?n. c = state_code m" "map_of (stateDecoder ?ch) c = Some k" "k \<noteq> []"
      using assms state_key_nonempty [of st] by (auto simp del: state_key_nonempty simp: ch update_conv' numbering_def less_Suc_eq)
  qed
  then show ?thesis
    using assms unfolding numbering_def by (simp add: ch keeps_inv set_add_simps)
next
  case (Some c)
  then show ?thesis using assms by (simp add: encodeState_def code_def)
qed

definition code_of :: "markov_chain \<Rightarrow> string \<Rightarrow> string" where
  "code_of ch k = the (code ch k)"

lemma encodeStates_spec:
  assumes "encodeStates sts ch = (codes, ch')" and "numbering ch"
  shows "numbering ch' \<and> codes = map (\<lambda>st. code_of ch' (state_key st)) sts
    \<and> (\<forall>st\<in>set sts. code ch' (state_key st) \<noteq> None) \<and> (\<forall>k c. code ch k = Some c \<longrightarrow> code ch' k = Some c)
    \<and> ch_config ch' = ch_config ch \<and> tm_transitions (ch_matrix ch') = tm_transitions (ch_matrix ch)"
  using assms
proof (induction sts arbitrary: ch codes)
  case Nil
  then show ?case by simp
next
  case (Cons st sts)
  obtain cs where cs: "encodeStates sts (snd (encodeState st ch)) = (cs, ch')" "codes = fst (encodeState st ch) # cs"
    using Cons.prems(1) by (cases "encodeStates sts (snd (encodeState st ch))") (auto simp: split_def Let_def)
  note ih = Cons.IH [OF cs(1) numbering_encode [OF Cons.prems(2)]]
  have "code ch' (state_key st) = Some (fst (encodeState st ch))" using ih encodeState_code by blast
  then show ?case using ih encodeState_extends encodeState_keeps by (auto simp: cs(2) code_of_def)
qed

section \<open>Contexts are unambiguous\<close>

lemma join_bar_Cons: "ss \<noteq> [] \<Longrightarrow> join_bar (s # ss) = s @ CHR ''|'' # join_bar ss"
  by (cases ss) simp_all

lemma join_bar_inj:
  assumes "\<forall>s\<in>set xs. CHR ''|'' \<notin> set s" and "\<forall>s\<in>set ys. CHR ''|'' \<notin> set s" and "length xs = length ys"
  shows "join_bar xs = join_bar ys \<longleftrightarrow> xs = ys"
  using assms(3,1,2)
proof (induction xs ys rule: list_induct2)
  case (Cons x xs y ys)
  show ?case
  proof (cases "xs = []")
    case False
    then have "ys \<noteq> []" using Cons.hyps by auto
    then show ?thesis using False Cons by (simp add: join_bar_Cons split_at_colon)
  qed (use Cons.hyps in simp)
qed simp

section \<open>Counts\<close>

definition count_at :: "markov_chain \<Rightarrow> string \<Rightarrow> string \<Rightarrow> nat" where
  "count_at ch c n = (case map_of (transitions_of c ch) n of None \<Rightarrow> 0 | Some t \<Rightarrow> tn_count t)"

lemma reweigh_count [simp]: "tn_count (reweigh cfg now n k t) = tn_count t"
  by (simp add: reweigh_def)

lemma map_of_updateProbabilities:
  "map_of (updateProbabilities cfg now m) k = map_option (reweigh cfg now (total_count m) (length m)) (map_of m k)"
  by (simp add: updateProbabilities_def map_of_map)

lemma bump_count [simp]: "tn_count (bump_transition now st t) = tn_count t + 1"
  by (simp add: bump_transition_def Let_def)

lemma transitions_of_set:
  "transitions_of c (set_transitions (map_set c' m (tm_transitions (ch_matrix ch))) ch) =
   (if c = c' then m else transitions_of c ch)"
  by (simp add: transitions_of_def set_transitions_def update_conv')

lemma set_transitions_keeps [simp]:
  "ch_config (set_transitions ts ch) = ch_config ch" "code (set_transitions ts ch) = code ch"
  "tm_transitions (ch_matrix (set_transitions ts ch)) = ts" "numbering (set_transitions ts ch) = numbering ch"
  by (auto simp: set_transitions_def code_def numbering_def fun_eq_iff)

lemma updateTransition_keeps [simp]:
  "ch_config (updateTransition now c n st ch) = ch_config ch" "code (updateTransition now c n st ch) = code ch"
  "numbering (updateTransition now c n st ch) = numbering ch"
  by (simp_all add: updateTransition_def Let_def)

lemma count_at_update:
  "count_at (updateTransition now c n st ch) c' n' = count_at ch c' n' + (if c' = c \<and> n' = n then 1 else 0)"
  by (auto simp: count_at_def updateTransition_def Let_def transitions_of_set map_of_updateProbabilities update_conv'
      fresh_transition_def split: option.splits)

lemma count_at_fold:
  "count_at (fold (\<lambda>i. updateTransition now (f i) (g i) (h i)) is ch) c n =
   count_at ch c n + length (filter (\<lambda>i. (f i, g i) = (c, n)) is)"
  by (induction "is" arbitrary: ch) (auto simp: count_at_update)

lemma fold_update_keeps [simp]:
  "ch_config (fold (\<lambda>i. updateTransition now (f i) (g i) (h i)) is ch) = ch_config ch"
  "code (fold (\<lambda>i. updateTransition now (f i) (g i) (h i)) is ch) = code ch"
  "numbering (fold (\<lambda>i. updateTransition now (f i) (g i) (h i)) is ch) = numbering ch"
  by (induction "is" arbitrary: ch) auto

section \<open>Rows\<close>

definition row_sum :: "(string, 'n transition) js_map \<Rightarrow> real" where
  "row_sum m = sum_list (map (\<lambda>(k, t). tn_probability t) m)"

definition row_ok :: "markov_config \<Rightarrow> (string, 'n transition) js_map \<Rightarrow> bool" where
  "row_ok cfg m \<longleftrightarrow>
     js_map_ok m \<and> m \<noteq> [] \<and> (\<forall>(k, t)\<in>set m. 1 \<le> tn_count t \<and> 0 < tn_probability t) \<and> row_sum m \<le> 1
     \<and> (pruningThreshold cfg \<le> 1 \<longrightarrow> row_sum m = 1)"

definition chain_ok :: "markov_chain \<Rightarrow> bool" where
  "chain_ok ch \<longleftrightarrow> numbering ch \<and> js_map_ok (tm_transitions (ch_matrix ch))
     \<and> (\<forall>(c, m)\<in>set (tm_transitions (ch_matrix ch)). row_ok (ch_config ch) m)"

lemma row_sum_update:
  assumes "0 \<le> smoothingParameter cfg" and "m \<noteq> []" and "\<forall>(k, t)\<in>set m. 1 \<le> tn_count t"
  shows "row_sum (updateProbabilities cfg now m) = 1"
    and "0 < real (total_count m) + smoothingParameter cfg * real (length m)"
proof -
  let ?s = "smoothingParameter cfg" and ?d = "real (total_count m) + smoothingParameter cfg * real (length m)"
  have "sum_list (map (\<lambda>_. 1) m) \<le> total_count m"
    unfolding total_count_def using assms(3) by (intro sum_list_mono) auto
  then have "length m \<le> total_count m" by (simp add: sum_list_triv)
  then show pos: "0 < ?d" using assms(1,2) by (cases m) (auto intro!: add_pos_nonneg)
  have "row_sum (updateProbabilities cfg now m) = sum_list (map (\<lambda>(k, t). (real (tn_count t) + ?s) / ?d) m)"
    unfolding row_sum_def updateProbabilities_def
    by (simp add: comp_def split_def reweigh_def)
  also have "\<dots> = (\<Sum>(k, t)\<leftarrow>m. real (tn_count t) + ?s) / ?d"
    by (simp add: split_def divide_inverse sum_list_mult_const)
  also have "(\<Sum>(k, t)\<leftarrow>m. real (tn_count t) + ?s) = ?d"
    unfolding total_count_def by (induction m) (auto simp: algebra_simps)
  finally show "row_sum (updateProbabilities cfg now m) = 1" using pos by simp
qed

lemma row_ok_update:
  assumes "0 \<le> smoothingParameter cfg" and "js_map_ok m" and "m \<noteq> []" and "\<forall>(k, t)\<in>set m. 1 \<le> tn_count t"
  shows "row_ok cfg (updateProbabilities cfg now m)"
proof -
  have "0 < (real (tn_count t) + smoothingParameter cfg) / (real (total_count m) + smoothingParameter cfg * real (length m))"
    if "(k, t) \<in> set m" for k t
    using that assms(1,4) row_sum_update(2) [OF assms(1,3,4)] by (intro divide_pos_pos) (auto intro!: add_pos_nonneg)
  then have "\<forall>(k, t)\<in>set (updateProbabilities cfg now m). 1 \<le> tn_count t \<and> 0 < tn_probability t"
    using assms(4) by (auto simp: updateProbabilities_def reweigh_def)
  moreover have "js_map_ok (updateProbabilities cfg now m)" "updateProbabilities cfg now m \<noteq> []"
    using assms(2,3) by (simp_all add: updateProbabilities_def js_map_ok_map split_def)
  ultimately show ?thesis using row_sum_update(1) [OF assms(1,3,4)] by (simp add: row_ok_def)
qed

lemma row_member:
  assumes "row_ok cfg m" and "(k, t) \<in> set m"
  shows "0 < tn_probability t" and "tn_probability t \<le> row_sum m"
proof -
  show "0 < tn_probability t" using assms by (auto simp: row_ok_def)
  have pos: "\<forall>x\<in>set (map (\<lambda>(k, t). tn_probability t) m). 0 \<le> x"
    using assms(1) by (force simp: row_ok_def)
  show "tn_probability t \<le> row_sum m"
    unfolding row_sum_def by (rule sum_list_ge_member [OF pos]) (use assms(2) in force)
qed

lemma row_sum_pos: "row_ok cfg m \<Longrightarrow> 0 < row_sum m"
  using row_member [of cfg m "fst (hd m)" "snd (hd m)"] by (cases m) (auto simp: row_ok_def)

lemma chain_ok_row: "chain_ok ch \<Longrightarrow> transitions_of c ch \<noteq> [] \<Longrightarrow> row_ok (ch_config ch) (transitions_of c ch)"
  by (auto simp: chain_ok_def transitions_of_def dest: map_of_SomeD split: option.splits)

lemma chain_ok_update [keeps_inv]:
  assumes "chain_ok ch" and "0 \<le> smoothingParameter (ch_config ch)"
  shows "chain_ok (updateTransition now c n st ch)"
proof -
  let ?m = "transitions_of c ch"
  have m: "js_map_ok ?m" "\<forall>(k, t)\<in>set ?m. 1 \<le> tn_count t"
    using chain_ok_row [OF assms(1), of c] by (cases "?m = []"; fastforce simp: row_ok_def)+
  define t where "t = (case map_of ?m n of None \<Rightarrow> fresh_transition c n now | Some t \<Rightarrow> t)"
  have "map_set n (bump_transition now st t) ?m \<noteq> []" by (cases ?m) auto
  moreover have "\<forall>(k, t)\<in>set (map_set n (bump_transition now st t) ?m). 1 \<le> tn_count t"
    using m(2) set_update_subset [of n "bump_transition now st t" ?m] by fastforce
  ultimately have row: "row_ok (ch_config ch) (updateProbabilities (ch_config ch) now (map_set n (bump_transition now st t) ?m))"
    using m(1) assms(2) by (intro row_ok_update) (auto intro: keeps_inv)
  show ?thesis
    using assms(1) row set_update_subset unfolding chain_ok_def updateTransition_def Let_def t_def [symmetric]
    by (fastforce intro: keeps_inv)
qed

lemma chain_ok_fold:
  "chain_ok ch \<Longrightarrow> 0 \<le> smoothingParameter (ch_config ch) \<Longrightarrow>
   chain_ok (fold (\<lambda>i. updateTransition now (f i) (g i) (h i)) is ch)"
  by (induction "is" arbitrary: ch) (simp_all add: chain_ok_update)

section \<open>Pruning\<close>

lemma pruneTransitions_keeps [simp]:
  "ch_config (pruneTransitions ch) = ch_config ch" "code (pruneTransitions ch) = code ch"
  "numbering (pruneTransitions ch) = numbering ch"
  by (simp_all add: pruneTransitions_def)

lemma transitions_of_prune:
  assumes "chain_ok ch"
  shows "transitions_of c (pruneTransitions ch) =
    filter (\<lambda>(k, t). \<not> int (tn_count t) < pruningThreshold (ch_config ch)) (transitions_of c ch)"
proof -
  let ?F = "filter (\<lambda>(k, t :: jsnum transition). \<not> int (tn_count t) < pruningThreshold (ch_config ch))"
  let ?ts = "map (\<lambda>(c, m). (c, ?F m)) (tm_transitions (ch_matrix ch))"
  have "js_map_ok ?ts" using assms by (simp add: chain_ok_def js_map_ok_map split_def)
  moreover have "map_of ?ts c = map_option ?F (map_of (tm_transitions (ch_matrix ch)) c)" by (simp add: map_of_map)
  ultimately show ?thesis
    by (auto simp: transitions_of_def pruneTransitions_def map_of_filter_ok split: option.splits)
qed

lemma row_sum_filter: "\<forall>(k, t)\<in>set m. 0 < tn_probability t \<Longrightarrow> row_sum (filter P m) \<le> row_sum m"
  by (induction m) (auto simp: row_sum_def)

lemma row_ok_filter:
  assumes "row_ok cfg m" and "filter P m \<noteq> []" and "pruningThreshold cfg \<le> 1 \<longrightarrow> filter P m = m"
  shows "row_ok cfg (filter P m)"
proof -
  have "row_sum (filter P m) \<le> row_sum m" using assms(1) by (intro row_sum_filter) (auto simp: row_ok_def)
  then show ?thesis using assms by (auto simp: row_ok_def keeps_inv)
qed

lemma low_threshold_keeps:
  assumes "\<forall>(k, t)\<in>set m. 1 \<le> tn_count t" and "pruningThreshold cfg \<le> 1"
  shows "filter (\<lambda>(k, t). \<not> int (tn_count t) < pruningThreshold cfg) m = m"
  using assms by (fastforce intro!: filter_True)

lemma chain_ok_prune [keeps_inv]:
  assumes "chain_ok ch"
  shows "chain_ok (pruneTransitions ch)"
proof -
  let ?F = "filter (\<lambda>(k, t :: jsnum transition). \<not> int (tn_count t) < pruningThreshold (ch_config ch))"
  have "row_ok (ch_config ch) (?F m)" if "(c, m) \<in> set (tm_transitions (ch_matrix ch))" "?F m \<noteq> []" for c m
  proof -
    have row: "row_ok (ch_config ch) m" using assms that by (auto simp: chain_ok_def)
    then show ?thesis using that(2) by (intro row_ok_filter impI low_threshold_keeps) (auto simp: row_ok_def)
  qed
  then show ?thesis using assms
    by (auto simp: chain_ok_def pruneTransitions_def js_map_ok_map split_def intro: keeps_inv)
qed

lemma count_at_prune:
  assumes "chain_ok ch"
  shows "count_at (pruneTransitions ch) c n \<le> count_at ch c n"
    and "pruningThreshold (ch_config ch) \<le> 1 \<Longrightarrow> count_at (pruneTransitions ch) c n = count_at ch c n"
proof -
  have row: "js_map_ok (transitions_of c ch)" "\<forall>(k, t)\<in>set (transitions_of c ch). 1 \<le> tn_count t"
    using chain_ok_row [OF assms, of c] by (cases "transitions_of c ch = []"; fastforce simp: row_ok_def)+
  show "count_at (pruneTransitions ch) c n \<le> count_at ch c n"
    by (simp add: count_at_def transitions_of_prune [OF assms] map_of_filter_ok [OF row(1)] split: option.splits)
  show "count_at (pruneTransitions ch) c n = count_at ch c n" if "pruningThreshold (ch_config ch) \<le> 1"
    by (simp add: count_at_def transitions_of_prune [OF assms] low_threshold_keeps [OF row(2) that])
qed

section \<open>The log of windows\<close>

type_synonym window_log = "(string list \<times> string) list"

definition windows :: "nat \<Rightarrow> 'a list \<Rightarrow> ('a list \<times> 'a) list" where
  "windows n xs = map (\<lambda>i. (take n (drop i xs), xs ! (i + n))) [0..<length xs - n]"

definition coded :: "markov_chain \<Rightarrow> window_log \<Rightarrow> string \<Rightarrow> string \<Rightarrow> nat" where
  "coded ch lg c n = length (filter (\<lambda>(ks, k). join_bar (map (code_of ch) ks) = c \<and> code_of ch k = n) lg)"

definition known :: "markov_chain \<Rightarrow> string list \<times> string \<Rightarrow> bool" where
  "known ch w \<longleftrightarrow> length (fst w) = mk_order (ch_config ch) \<and> (\<forall>x\<in>insert (snd w) (set (fst w)). code ch x \<noteq> None)"

definition chain_log :: "window_log \<Rightarrow> markov_chain \<Rightarrow> bool" where
  "chain_log lg ch \<longleftrightarrow> chain_ok ch \<and> (\<forall>w\<in>set lg. known ch w)
     \<and> (\<forall>c n. count_at ch c n \<le> coded ch lg c n
          \<and> (pruningThreshold (ch_config ch) \<le> 1 \<longrightarrow> count_at ch c n = coded ch lg c n))"

lemma chain_log_count:
  "chain_log lg ch \<Longrightarrow> count_at ch c n \<le> coded ch lg c n
    \<and> (pruningThreshold (ch_config ch) \<le> 1 \<longrightarrow> count_at ch c n = coded ch lg c n)"
  by (simp add: chain_log_def)

lemma coded_append: "coded ch (lg1 @ lg2) c n = coded ch lg1 c n + coded ch lg2 c n"
  by (simp add: coded_def)

lemma coded_cong: "(\<And>w x. w \<in> set lg \<Longrightarrow> x \<in> insert (snd w) (set (fst w)) \<Longrightarrow> code ch' x = code ch x) \<Longrightarrow> coded ch' lg c n = coded ch lg c n"
proof -
  assume same: "\<And>w x. w \<in> set lg \<Longrightarrow> x \<in> insert (snd w) (set (fst w)) \<Longrightarrow> code ch' x = code ch x"
  have "(case w of (ks, k) \<Rightarrow> join_bar (map (code_of ch') ks) = c \<and> code_of ch' k = n) =
      (case w of (ks, k) \<Rightarrow> join_bar (map (code_of ch) ks) = c \<and> code_of ch k = n)" if w: "w \<in> set lg" for w
  proof -
    have "map (code_of ch') (fst w) = map (code_of ch) (fst w)" "code_of ch' (snd w) = code_of ch (snd w)"
      using same [OF w] by (auto simp: code_of_def)
    then show ?thesis by (simp only: split_def)
  qed
  then show ?thesis unfolding coded_def by (simp cong: filter_cong)
qed

lemma coded_windows:
  "coded ch (windows n keys) c k =
   length (filter (\<lambda>i. (join_bar (take n (drop i (map (code_of ch) keys))), map (code_of ch) keys ! (i + n)) = (c, k)) [0..<length keys - n])"
  unfolding coded_def windows_def filter_map length_map
  by (rule arg_cong [where f = length], rule filter_cong) (auto simp: take_map drop_map)

lemma windows_parts: "w \<in> set (windows n xs) \<Longrightarrow> length (fst w) = n \<and> insert (snd w) (set (fst w)) \<subseteq> set xs"
  by (auto simp: windows_def dest!: in_set_takeD dest: in_set_dropD)

lemma known_mono:
  "known ch w \<Longrightarrow> ch_config ch' = ch_config ch \<Longrightarrow> (\<And>k c. code ch k = Some c \<Longrightarrow> code ch' k = Some c) \<Longrightarrow> known ch' w"
  unfolding known_def by (metis not_None_eq)

lemma chain_log_encode:
  assumes "chain_log lg ch" and "encodeStates sq ch = (codes, ch1)"
  shows "chain_log lg ch1"
proof -
  have ok: "chain_ok ch" "numbering ch" using assms(1) by (auto simp: chain_log_def chain_ok_def)
  note e = encodeStates_spec [OF assms(2) ok(2)]
  have "known ch1 w" if "w \<in> set lg" for w
    using that assms(1) e by (intro known_mono [of ch w ch1]) (auto simp: chain_log_def)
  moreover have "coded ch1 lg c n = coded ch lg c n" for c n
    using assms(1) e by (intro coded_cong) (fastforce simp: chain_log_def known_def)
  moreover have "count_at ch1 c n = count_at ch c n" for c n using e by (simp add: count_at_def transitions_of_def)
  moreover have "chain_ok ch1" using ok(1) e by (simp add: chain_ok_def)
  ultimately show ?thesis using assms(1) e by (auto simp: chain_log_def)
qed

lemma chain_log_windows:
  assumes "chain_log lg ch" and "0 \<le> smoothingParameter (ch_config ch)"
    and "\<forall>k\<in>set keys. code ch k \<noteq> None" and "codes = map (code_of ch) keys" and "n = mk_order (ch_config ch)"
  shows "chain_log (lg @ windows n keys)
    (fold (\<lambda>i. updateTransition now (buildContext (ch_config ch) codes i) (codes ! (i + n)) (h i)) [0..<length codes - n] ch)"
    (is "chain_log _ ?ch2")
proof -
  have ch2: "ch_config ?ch2 = ch_config ch" "code ?ch2 = code ch" by simp_all
  have same: "coded ?ch2 = coded ch" "known ?ch2 = known ch"
    by (auto simp: fun_eq_iff coded_def code_of_def [abs_def] known_def ch2)
  have "coded ch (windows n keys) c k =
      length (filter (\<lambda>i. (buildContext (ch_config ch) codes i, codes ! (i + n)) = (c, k)) [0..<length codes - n])" for c k
    unfolding coded_windows by (simp add: assms(4,5) buildContext_def)
  then have at2: "count_at ?ch2 c k = count_at ch c k + coded ch (windows n keys) c k" for c k
    by (simp add: count_at_fold)
  have "known ch w" if "w \<in> set (windows n keys)" for w
    using windows_parts [OF that] assms(3,5) by (auto simp: known_def)
  moreover have "chain_ok ?ch2" using assms(1,2) by (intro chain_ok_fold) (auto simp: chain_log_def)
  ultimately show ?thesis
    using assms(1) unfolding chain_log_def same by (auto simp: at2 coded_append)
qed

lemma chain_log_prune:
  assumes "chain_log lg ch"
  shows "chain_log lg (pruneTransitions ch)"
proof -
  have same: "coded (pruneTransitions ch) = coded ch" "known (pruneTransitions ch) = known ch"
    by (auto simp: fun_eq_iff coded_def code_of_def [abs_def] known_def)
  have ok: "chain_ok ch" using assms by (simp add: chain_log_def)
  have "count_at (pruneTransitions ch) c n \<le> coded ch lg c n" for c n
    using count_at_prune(1) [OF ok, of c n] assms unfolding chain_log_def by (meson le_trans)
  then show ?thesis
    using assms ok count_at_prune(2) [OF ok] unfolding chain_log_def same by (simp add: keeps_inv)
qed

lemma chain_log_stamp:
  "chain_log lg (ch\<lparr>ch_matrix := (ch_matrix ch)\<lparr>tm_totalTransitions := n, tm_lastUpdated := now\<rparr>\<rparr>) = chain_log lg ch"
  unfolding chain_log_def chain_ok_def numbering_def coded_def known_def count_at_def
  by (simp add: code_of_def [abs_def] code_def [abs_def] transitions_of_def)

lemma learnSequence_log:
  assumes "chain_log lg ch" and "0 \<le> smoothingParameter (ch_config ch)"
  shows "chain_log (lg @ windows (mk_order (ch_config ch)) (map state_key sq)) (learnSequence now sq ch)"
proof (cases "length sq < mk_order (ch_config ch) + 1")
  case True
  then show ?thesis using assms(1) by (simp add: learnSequence_def windows_def)
next
  case False
  obtain codes ch1 where enc: "encodeStates sq ch = (codes, ch1)" by fastforce
  have "numbering ch" using assms(1) by (auto simp: chain_log_def chain_ok_def)
  note e = encodeStates_spec [OF enc this]
  have cfg: "ch_config ch1 = ch_config ch" and codes: "codes = map (code_of ch1) (map state_key sq)"
    and keys: "\<forall>k\<in>set (map state_key sq). code ch1 k \<noteq> None" using e by auto
  have "chain_log (lg @ windows (mk_order (ch_config ch)) (map state_key sq))
      (fold (\<lambda>i. updateTransition now (buildContext (ch_config ch1) codes i) (codes ! (i + mk_order (ch_config ch)))
         (sq ! (i + mk_order (ch_config ch)))) [0..<length codes - mk_order (ch_config ch)] ch1)"
    using assms(2) by (intro chain_log_windows chain_log_encode [OF assms(1) enc] keys codes) (simp_all add: cfg)
  then show ?thesis
    using False by (simp add: learnSequence_def enc Let_def cfg chain_log_prune chain_log_stamp)
qed

text \<open>Read through the numbering, a context and a target stand for one window only.\<close>

lemma code_of_bar: "numbering ch \<Longrightarrow> code ch k \<noteq> None \<Longrightarrow> CHR ''|'' \<notin> set (code_of ch k)"
  using numbering_form [of ch k] state_code_bar by (fastforce simp: code_of_def)

lemma code_of_eq: "numbering ch \<Longrightarrow> code ch k \<noteq> None \<Longrightarrow> code ch k' \<noteq> None \<Longrightarrow> code_of ch k = code_of ch k' \<longleftrightarrow> k = k'"
  using numbering_inj [of ch k _ k'] by (auto simp: code_of_def)

lemma map_code_of_eq:
  assumes "numbering ch" and "\<forall>x\<in>set xs. code ch x \<noteq> None" and "\<forall>x\<in>set ys. code ch x \<noteq> None"
  shows "map (code_of ch) xs = map (code_of ch) ys \<longleftrightarrow> xs = ys"
proof -
  have "inj_on (code_of ch) (set xs \<union> set ys)"
    using assms(2,3) code_of_eq [OF assms(1)] unfolding inj_on_def by blast
  then show ?thesis by (auto simp: inj_on_map_eq_map)
qed

lemma coded_count:
  assumes "numbering ch" and "\<forall>w\<in>set lg. known ch w" and "known ch (ks, k)"
  shows "coded ch lg (join_bar (map (code_of ch) ks)) (code_of ch k) = count_list lg (ks, k)"
proof -
  have "(case w of (ks', k') \<Rightarrow> join_bar (map (code_of ch) ks') = join_bar (map (code_of ch) ks) \<and> code_of ch k' = code_of ch k)
      \<longleftrightarrow> w = (ks, k)" if "w \<in> set lg" for w
  proof -
    have w: "known ch w" using that assms(2) by blast
    have "join_bar (map (code_of ch) (fst w)) = join_bar (map (code_of ch) ks) \<longleftrightarrow> map (code_of ch) (fst w) = map (code_of ch) ks"
      using w assms(3) code_of_bar [OF assms(1)] by (intro join_bar_inj) (auto simp: known_def)
    also have "\<dots> \<longleftrightarrow> fst w = ks" using w assms(3) by (intro map_code_of_eq [OF assms(1)]) (auto simp: known_def)
    finally show ?thesis using w assms(3) code_of_eq [OF assms(1), of "snd w" k] by (auto simp: known_def prod_eq_iff split_def)
  qed
  then have "coded ch lg (join_bar (map (code_of ch) ks)) (code_of ch k) = length (filter (\<lambda>w. w = (ks, k)) lg)"
    unfolding coded_def by (simp cong: filter_cong)
  also have "\<dots> = count_list lg (ks, k)" by (induction lg) auto
  finally show ?thesis .
qed

section \<open>Reachable chains\<close>

definition loaded :: "markov_chain \<Rightarrow> markov_chain" where
  "loaded ch = deserialize_chain (serialize_chain ch)"

inductive reachable_chain :: "markov_chain \<Rightarrow> bool" where
  create: "0 \<le> smoothingParameter cfg \<Longrightarrow> reachable_chain (new_chain cfg now)"
| learn: "reachable_chain ch \<Longrightarrow> reachable_chain (learnSequence now sq ch)"
| predict: "reachable_chain ch \<Longrightarrow> reachable_chain (snd (predictNext recent ch))"
| validate: "reachable_chain ch \<Longrightarrow> reachable_chain (snd (validateSequence sq ch))"
| clear: "reachable_chain ch \<Longrightarrow> reachable_chain (clear_chain now ch)"
| reload: "reachable_chain ch \<Longrightarrow> reachable_chain (loaded ch)"

lemma chain_log_new: "chain_log [] (new_chain cfg now)"
  by (simp add: chain_log_def chain_ok_def numbering_def code_def new_chain_def initializeTransitionMatrix_def
      count_at_def transitions_of_def coded_def)

lemma clear_chain_new: "clear_chain now ch = new_chain (ch_config ch) now"
  by (simp add: clear_chain_def new_chain_def)

lemma learnSequence_config [simp]: "ch_config (learnSequence now sq ch) = ch_config ch"
proof -
  obtain codes ch1 where enc: "encodeStates sq ch = (codes, ch1)" by fastforce
  have "ch_config (snd (encodeStates sq ch)) = ch_config ch"
    by (induction sq arbitrary: ch) (simp_all add: split_def Let_def encodeState_keeps)
  then show ?thesis by (simp add: learnSequence_def enc Let_def)
qed

lemma predictNext_chain: "snd (predictNext recent ch) = ch \<or> (\<exists>sts codes. encodeStates sts ch = (codes, snd (predictNext recent ch)))"
  by (auto simp: predictNext_def Let_def split: prod.splits)

lemma validateSequence_chain: "snd (validateSequence sq ch) = ch \<or> (\<exists>sts codes. encodeStates sts ch = (codes, snd (validateSequence sq ch)))"
  by (auto simp: validateSequence_def Let_def split: prod.splits)

definition unset_minimum :: "jsnum \<Rightarrow> jsnum" where
  "unset_minimum v = (case v of Fin x \<Rightarrow> Fin x | _ \<Rightarrow> Fin 0)"

lemma parsed_json: "parsed_num (json_num v) = unset_minimum v"
  by (cases v) (simp_all add: parsed_num_def unset_minimum_def)

lemma loaded_eq:
  assumes "chain_ok ch"
  shows "loaded ch = set_transitions
    (map (\<lambda>(c, m). (c, map (\<lambda>(k, t). (k, map_minDuration unset_minimum t)) m)) (tm_transitions (ch_matrix ch))) ch"
proof -
  let ?g = "\<lambda>m. map (\<lambda>(k, t). (k, map_minDuration unset_minimum t)) m"
  have inner: "map_of_entries (map (\<lambda>(k, t). (k, map_minDuration parsed_num (map_minDuration json_num t))) m) = ?g m"
    if "js_map_ok m" for m
    using that by (subst map_of_entries_id) (auto simp: js_map_ok_map split_def map_minDuration_def parsed_json)
  have rows: "js_map_ok m" if "(c, m) \<in> set (tm_transitions (ch_matrix ch))" for c m
    using that assms by (auto simp: chain_ok_def row_ok_def)
  have "map (\<lambda>(c, m). (c, map_of_entries (map (\<lambda>(k, t). (k, map_minDuration parsed_num (map_minDuration json_num t))) m)))
      (tm_transitions (ch_matrix ch)) = map (\<lambda>(c, m). (c, ?g m)) (tm_transitions (ch_matrix ch))"
    using rows inner by (intro map_cong) auto
  moreover have "js_map_ok (map (\<lambda>(c, m). (c, ?g m)) (tm_transitions (ch_matrix ch)))"
    using assms by (simp add: chain_ok_def js_map_ok_map split_def)
  moreover have states: "fold set_add (tm_states (ch_matrix ch)) [] = tm_states (ch_matrix ch)"
    using assms by (intro fold_set_add [where acc = "[]", simplified]) (simp add: chain_ok_def numbering_def)
  moreover have encs: "map_of_entries (stateEncoder ch) = stateEncoder ch" "map_of_entries (stateDecoder ch) = stateDecoder ch"
    using assms by (simp_all add: chain_ok_def numbering_def map_of_entries_id)
  moreover have "tm_transitions (ch_matrix (loaded ch)) = map_of_entries (map (\<lambda>(c, m).
      (c, map_of_entries (map (\<lambda>(k, t). (k, map_minDuration parsed_num (map_minDuration json_num t))) m))) (tm_transitions (ch_matrix ch)))"
    by (simp add: loaded_def deserialize_chain_def serialize_chain_def Let_def comp_def split_def)
  ultimately have "tm_transitions (ch_matrix (loaded ch)) = map (\<lambda>(c, m). (c, ?g m)) (tm_transitions (ch_matrix ch))"
    by (simp only: map_of_entries_id)
  then show ?thesis using states encs
    by (intro markov_chain.equality transition_matrix.equality)
       (simp_all add: loaded_def deserialize_chain_def serialize_chain_def Let_def set_transitions_def)
qed

lemma map_minDuration_simps [simp]:
  "tn_probability (map_minDuration f t) = tn_probability t" "tn_count (map_minDuration f t) = tn_count t"
  "tn_contexts (map_minDuration f t) = tn_contexts t" "tn_confidence (map_minDuration f t) = tn_confidence t"
  "tn_avgDuration (map_minDuration f t) = tn_avgDuration t" "tn_minDuration (map_minDuration f t) = f (tn_minDuration t)"
  by (simp_all add: map_minDuration_def)

lemma row_ok_minDuration: "row_ok cfg m \<Longrightarrow> row_ok cfg (map (\<lambda>(k, t). (k, map_minDuration f t)) m)"
  by (auto simp: row_ok_def row_sum_def js_map_ok_map split_def comp_def)

lemma transitions_of_loaded:
  assumes "chain_ok ch"
  shows "transitions_of c (loaded ch) = map (\<lambda>(k, t). (k, map_minDuration unset_minimum t)) (transitions_of c ch)"
  by (simp add: loaded_eq [OF assms] transitions_of_def map_of_map split: option.splits)

lemma chain_ok_loaded:
  assumes "chain_ok ch"
  shows "chain_ok (loaded ch)" and "ch_config (loaded ch) = ch_config ch"
  using assms row_ok_minDuration
  by (fastforce simp: chain_ok_def loaded_eq [OF assms] js_map_ok_map split_def)+

lemma chain_ok_encode: "chain_ok ch \<Longrightarrow> encodeStates sts ch = (codes, ch') \<Longrightarrow> chain_ok ch' \<and> ch_config ch' = ch_config ch"
  using encodeStates_spec [of sts ch codes ch'] by (simp add: chain_ok_def)

lemma chain_ok_stamp:
  "chain_ok (ch\<lparr>ch_matrix := (ch_matrix ch)\<lparr>tm_totalTransitions := n, tm_lastUpdated := now\<rparr>\<rparr>) = chain_ok ch"
  by (simp add: chain_ok_def numbering_def code_def)

lemma chain_ok_learn:
  assumes "chain_ok ch" and "0 \<le> smoothingParameter (ch_config ch)"
  shows "chain_ok (learnSequence now sq ch)"
proof -
  obtain codes ch1 where enc: "encodeStates sq ch = (codes, ch1)" by fastforce
  have "chain_ok ch1" "ch_config ch1 = ch_config ch" using chain_ok_encode [OF assms(1) enc] by auto
  then show ?thesis
    using assms by (simp add: learnSequence_def enc Let_def chain_ok_prune chain_ok_stamp chain_ok_fold)
qed

lemma reachable_chain_ok: "reachable_chain ch \<Longrightarrow> chain_ok ch \<and> 0 \<le> smoothingParameter (ch_config ch)"
proof (induction rule: reachable_chain.induct)
  case (create cfg now)
  then show ?case using chain_log_new [of cfg now] by (simp add: chain_log_def new_chain_def)
next
  case (predict ch recent)
  then show ?case using predictNext_chain [of recent ch] chain_ok_encode by metis
next
  case (validate ch sq)
  then show ?case using validateSequence_chain [of sq ch] chain_ok_encode by metis
next
  case (clear ch now)
  then show ?case using chain_log_new [of "ch_config ch" now] by (simp add: clear_chain_new chain_log_def new_chain_def)
qed (simp_all add: chain_ok_learn chain_ok_loaded)

section \<open>Predictions\<close>

lemma sorted_head_max:
  fixes f :: "'a \<Rightarrow> real"
  assumes "sorted (map (\<lambda>x. - f x) xs)" and "x \<in> set xs"
  shows "f x \<le> f (hd xs)"
  using assms by (cases xs) auto

lemma sortedTransitions_simps:
  "mset (map ns_probability (sortedTransitions m ch)) = mset (map (\<lambda>(k, t). tn_probability t) m)"
  "sorted (map (\<lambda>n. - ns_probability n) (sortedTransitions m ch))"
  "sortedTransitions m ch = [] \<longleftrightarrow> m = []"
proof -
  show "mset (map ns_probability (sortedTransitions m ch)) = mset (map (\<lambda>(k, t). tn_probability t) m)"
    by (simp add: sortedTransitions_def split_def comp_def multiset.map_comp)
  show "sorted (map (\<lambda>n. - ns_probability n) (sortedTransitions m ch))" by (simp add: sortedTransitions_def)
  have "length (sortedTransitions m ch) = length m" by (simp add: sortedTransitions_def)
  then show "sortedTransitions m ch = [] \<longleftrightarrow> m = []" by (metis length_0_conv)
qed

lemma sum_sortedTransitions: "sum_list (map ns_probability (sortedTransitions m ch)) = row_sum m"
  by (metis row_sum_def sortedTransitions_simps(1) sum_mset_sum_list)

text \<open>The learned successors of the last states of \<open>recent\<close>, read through the numbering of \<open>ch'\<close>.\<close>

definition successors :: "markov_chain \<Rightarrow> behavioral_state list \<Rightarrow> markov_chain \<Rightarrow> (string, jsnum transition) js_map" where
  "successors ch' recent ch =
     transitions_of (join_bar (map (\<lambda>st. code_of ch' (state_key st)) (js_slice_from (- int (mk_order (ch_config ch))) recent))) ch"

lemma predictNext_spec:
  assumes "chain_ok ch" and "predictNext recent ch = (p, ch')" and "nextStates p \<noteq> []"
  shows "row_ok (ch_config ch) (successors ch' recent ch)"
    and "nextStates p = take 5 (sortedTransitions (successors ch' recent ch) ch')"
    and "predictionConfidence p = ns_probability (hd (nextStates p)) / row_sum (successors ch' recent ch)"
    and "anomalyScore p = calculateAnomalyScore (sortedTransitions (successors ch' recent ch) ch')"
    and "isAnomalous p = js_greater (anomalyScore p) (7/10)"
proof -
  obtain codes ch1 where enc: "encodeStates (js_slice_from (- int (mk_order (ch_config ch))) recent) ch = (codes, ch1)" by fastforce
  have e: "chain_ok ch1" "ch_config ch1 = ch_config ch" "transitions_of c ch1 = transitions_of c ch" for c
    using chain_ok_encode [OF assms(1) enc] encodeStates_spec [OF enc] assms(1)
    by (auto simp: transitions_of_def chain_ok_def)
  let ?m = "transitions_of (join_bar codes) ch"
  have ne: "?m \<noteq> []" and p: "p = \<lparr>nextStates = take 5 (sortedTransitions ?m ch1),
      predictionConfidence = (if sum_list (map ns_probability (sortedTransitions ?m ch1)) > 0
        then ns_probability (hd (sortedTransitions ?m ch1)) / sum_list (map ns_probability (sortedTransitions ?m ch1)) else 0),
      anomalyScore = calculateAnomalyScore (sortedTransitions ?m ch1),
      isAnomalous = js_greater (calculateAnomalyScore (sortedTransitions ?m ch1)) (7/10),
      reasoning_of = generateReasoning (sortedTransitions ?m ch1)\<rparr>" and ch': "ch' = ch1"
    using assms(2,3) by (auto simp: predictNext_def enc e(3) getDefaultPrediction_def Let_def split: if_splits)
  have row: "row_ok (ch_config ch) ?m" by (rule chain_ok_row [OF assms(1) ne])
  have suc: "successors ch1 recent ch = ?m"
    using encodeStates_spec [OF enc] assms(1) by (simp add: successors_def chain_ok_def)
  have "0 < row_sum ?m" using row by (rule row_sum_pos)
  then show "predictionConfidence p = ns_probability (hd (nextStates p)) / row_sum (successors ch' recent ch)"
    using ne by (simp add: suc p ch' sum_sortedTransitions)
  show "row_ok (ch_config ch) (successors ch' recent ch)"
    "nextStates p = take 5 (sortedTransitions (successors ch' recent ch) ch')"
    "anomalyScore p = calculateAnomalyScore (sortedTransitions (successors ch' recent ch) ch')"
    "isAnomalous p = js_greater (anomalyScore p) (7/10)"
    using row by (simp_all add: suc p ch')
qed

text \<open>A loaded chain predicts as the saved one: the minimal duration is not read.\<close>

definition same_shape :: "markov_chain \<Rightarrow> markov_chain \<Rightarrow> bool" where
  "same_shape ch1 ch2 \<longleftrightarrow> ch_config ch1 = ch_config ch2 \<and> stateEncoder ch1 = stateEncoder ch2
     \<and> stateDecoder ch1 = stateDecoder ch2 \<and> stateCounter ch1 = stateCounter ch2
     \<and> (\<forall>c. transitions_of c ch1 = map (\<lambda>(k, t). (k, map_minDuration unset_minimum t)) (transitions_of c ch2))"

lemma same_shape_encode:
  assumes "same_shape ch1 ch2"
  shows "fst (encodeState st ch1) = fst (encodeState st ch2)"
    and "same_shape (snd (encodeState st ch1)) (snd (encodeState st ch2))"
  using assms
  by (auto simp: same_shape_def encodeState_def Let_def transitions_of_def split: option.splits)

lemma same_shape_encodes:
  "same_shape ch1 ch2 \<Longrightarrow> fst (encodeStates sts ch1) = fst (encodeStates sts ch2)
    \<and> same_shape (snd (encodeStates sts ch1)) (snd (encodeStates sts ch2))"
proof (induction sts arbitrary: ch1 ch2)
  case (Cons st sts)
  then show ?case
    using Cons.IH [OF same_shape_encode(2) [OF Cons.prems]] same_shape_encode(1) [OF Cons.prems]
    by (simp add: split_def Let_def)
qed simp

lemma sortedTransitions_minDuration:
  "stateDecoder ch1 = stateDecoder ch2 \<Longrightarrow>
   sortedTransitions (map (\<lambda>(k, t). (k, map_minDuration f t)) m) ch1 = sortedTransitions m ch2"
  unfolding sortedTransitions_def map_map
  by (intro arg_cong [where f = "sort_key _"] map_cong) (auto simp: decodeState_def calculateRiskLevel_def)

lemma same_shape_predicts:
  assumes "same_shape ch1 ch2"
  shows "fst (predictNext recent ch1) = fst (predictNext recent ch2)"
proof -
  have cfg: "ch_config ch1 = ch_config ch2" using assms by (simp add: same_shape_def)
  let ?sts = "js_slice_from (- int (mk_order (ch_config ch2))) recent"
  obtain cs ch1' ch2' where e: "encodeStates ?sts ch1 = (cs, ch1')" "encodeStates ?sts ch2 = (cs, ch2')"
    and sh: "same_shape ch1' ch2'"
    using same_shape_encodes [OF assms, of ?sts] by (metis prod.collapse)
  have tr: "transitions_of c ch1' = map (\<lambda>(k, t). (k, map_minDuration unset_minimum t)) (transitions_of c ch2')"
    and dec: "stateDecoder ch1' = stateDecoder ch2'" for c
    using sh by (auto simp: same_shape_def)
  show ?thesis
    by (simp add: predictNext_def cfg e tr sortedTransitions_minDuration [OF dec] Let_def)
qed

lemma loaded_predicts:
  assumes "chain_ok ch"
  shows "fst (predictNext recent (loaded ch)) = fst (predictNext recent ch)"
proof -
  have "same_shape (loaded ch) ch"
    unfolding same_shape_def by (simp add: transitions_of_loaded [OF assms]) (simp add: loaded_eq [OF assms] set_transitions_def)
  then show ?thesis by (rule same_shape_predicts)
qed

lemma loaded_probability:
  "chain_ok ch \<Longrightarrow> getTransitionProbability c n (loaded ch) = getTransitionProbability c n ch"
  by (simp add: getTransitionProbability_def transitions_of_loaded map_of_map split: option.splits)

section \<open>Properties\<close>

definition run_learn :: "(time_ms \<times> behavioral_state list) list \<Rightarrow> markov_chain \<Rightarrow> markov_chain" where
  "run_learn seqs ch = fold (\<lambda>(now, sq). learnSequence now sq) seqs ch"

definition all_windows :: "nat \<Rightarrow> (time_ms \<times> behavioral_state list) list \<Rightarrow> window_log" where
  "all_windows n seqs = concat (map (\<lambda>(now, sq). windows n (map state_key sq)) seqs)"

lemma run_learn_log:
  "chain_log lg ch \<Longrightarrow> 0 \<le> smoothingParameter (ch_config ch) \<Longrightarrow>
   chain_log (lg @ all_windows (mk_order (ch_config ch)) seqs) (run_learn seqs ch)
   \<and> ch_config (run_learn seqs ch) = ch_config ch"
proof (induction seqs arbitrary: lg ch)
  case (Cons s seqs)
  obtain now sq where s: "s = (now, sq)" by fastforce
  show ?case
    using Cons.IH [OF learnSequence_log [OF Cons.prems, of sq now]] Cons.prems
    by (simp add: s run_learn_def all_windows_def)
qed (simp add: run_learn_def all_windows_def)

text \<open>
  C19. The chain counts what it was shown: after learning any sequences, the count of the transition from the states
  \<open>ks\<close> to the state \<open>k\<close> (identified by action and context) is the number of times \<open>ks\<close> was directly followed by \<open>k\<close> in
  these sequences, exactly so when the pruning threshold is at most one and never more than that otherwise.
\<close>
theorem markov_counts:
  assumes "0 \<le> smoothingParameter cfg" and "ch = run_learn seqs (new_chain cfg now)"
    and "length ks = mk_order cfg" and "\<forall>x\<in>insert k (set ks). code ch x \<noteq> None"
  shows "count_at ch (join_bar (map (code_of ch) ks)) (code_of ch k) \<le> count_list (all_windows (mk_order cfg) seqs) (ks, k)
    \<and> (pruningThreshold cfg \<le> 1 \<longrightarrow>
       count_at ch (join_bar (map (code_of ch) ks)) (code_of ch k) = count_list (all_windows (mk_order cfg) seqs) (ks, k))"
proof -
  have cfg: "ch_config (new_chain cfg now) = cfg" by (simp add: new_chain_def)
  have lg: "chain_log (all_windows (mk_order cfg) seqs) ch" "ch_config ch = cfg"
    using run_learn_log [OF chain_log_new, of cfg now seqs] assms(1) by (simp_all add: assms(2) cfg)
  moreover have "known ch (ks, k)" using assms(3,4) lg(2) by (simp add: known_def)
  ultimately have "coded ch (all_windows (mk_order cfg) seqs) (join_bar (map (code_of ch) ks)) (code_of ch k) =
      count_list (all_windows (mk_order cfg) seqs) (ks, k)"
    by (intro coded_count) (auto simp: chain_log_def chain_ok_def)
  then show ?thesis using chain_log_count [OF lg(1), of "join_bar (map (code_of ch) ks)" "code_of ch k"] lg(2) by simp
qed

definition plain_state :: "behavioral_action \<Rightarrow> behavioral_state" where
  "plain_state a =
     \<lparr>bv_action = a, bv_context = Ctx_normal, bv_timestamp = 0,
      bv_metadata = \<lparr>md_path = None, md_method = None, md_statusCode = None, md_userAgent = None, md_ipAddress = None,
        md_sessionId = None, md_userId = None, md_duration = None, md_errorType = None, md_riskScore = None\<rparr>\<rparr>"

definition small_config :: markov_config where
  "small_config =
     \<lparr>mk_order = 1, smoothingParameter = 1, pruningThreshold = 1, maxStates = 10, memoryLimit = 10000,
      mk_persistenceInterval = 0, stateExpiryHours = 1, minConfidenceThreshold = 0\<rparr>"

text \<open>A chain that has learned one page view followed by a click.\<close>

definition small_chain :: markov_chain where
  "small_chain = run_learn [(0, [plain_state Page_view, plain_state Click])] (new_chain small_config 0)"

lemma small_simps:
  "state_key (plain_state Page_view) = ''page_view:normal''" "state_key (plain_state Click) = ''click:normal''"
  "mk_order small_config = 1" "smoothingParameter small_config = 1"
  "pruningThreshold small_config = 1"
  by (simp_all add: state_key_def plain_state_def small_config_def)

lemma small_codes: "state_code 0 = ''S0''" "state_code (Suc 0) = ''S1''"
  by code_simp+

lemma small_encoders:
  "stateEncoder small_chain = [(''page_view:normal'', ''S0''), (''click:normal'', ''S1'')]"
  "ch_config small_chain = small_config"
  by (simp_all add: small_chain_def run_learn_def learnSequence_def new_chain_def initializeTransitionMatrix_def
      small_simps encodeState_def small_codes Let_def updateTransition_def set_transitions_def pruneTransitions_def)

lemma small_reachable: "reachable_chain small_chain"
  unfolding small_chain_def run_learn_def by (simp add: reachable_chain.intros small_simps)

theorem markov_counts_witness:
  "count_at small_chain ''S0'' ''S1'' = 1 \<and> pruningThreshold small_config \<le> 1"
  using markov_counts [of small_config small_chain "[(0, [plain_state Page_view, plain_state Click])]" 0
      "[''page_view:normal'']" "''click:normal''"]
  by (simp add: small_chain_def [symmetric] small_simps code_def code_of_def small_encoders all_windows_def windows_def)

text \<open>
  C20. In every reachable chain with non-negative smoothing each probability lies between 0 and 1 and the probabilities
  of a context add up to at most 1; they add up to exactly 1 when the pruning threshold is at most one. (Pruning
  removes transitions without renormalising the rest.)
\<close>
theorem markov_rows_stochastic:
  assumes "reachable_chain ch"
  shows "0 \<le> getTransitionProbability c n ch \<and> getTransitionProbability c n ch \<le> 1
    \<and> row_sum (transitions_of c ch) \<le> 1
    \<and> (transitions_of c ch \<noteq> [] \<and> pruningThreshold (ch_config ch) \<le> 1 \<longrightarrow> row_sum (transitions_of c ch) = 1)"
proof (cases "transitions_of c ch = []")
  case True
  then show ?thesis by (simp add: getTransitionProbability_def row_sum_def)
next
  case False
  then have row: "row_ok (ch_config ch) (transitions_of c ch)"
    using reachable_chain_ok [OF assms] chain_ok_row by blast
  have "0 < tn_probability t \<and> tn_probability t \<le> row_sum (transitions_of c ch)" if "map_of (transitions_of c ch) n = Some t" for t
    using row_member [OF row map_of_SomeD [OF that]] by simp
  then show ?thesis using row by (fastforce simp: getTransitionProbability_def row_ok_def split: option.splits)
qed

theorem markov_rows_stochastic_witness:
  "reachable_chain small_chain \<and> getTransitionProbability ''S0'' ''S1'' small_chain \<le> 1"
  using markov_rows_stochastic [OF small_reachable, of "''S0''" "''S1''"] small_reachable by simp

text \<open>
  A prediction lists at most five successors of the last states in falling probability, the first of them is the
  most likely of all their successors, and the confidence is its share, between 0 and 1.
\<close>
theorem markov_prediction:
  assumes "reachable_chain ch" and "predictNext recent ch = (p, ch')" and "nextStates p \<noteq> []"
  shows "length (nextStates p) = min 5 (length (successors ch' recent ch))
    \<and> sorted (map (\<lambda>n. - ns_probability n) (nextStates p))
    \<and> (\<forall>(k, t)\<in>set (successors ch' recent ch). tn_probability t \<le> ns_probability (hd (nextStates p)))
    \<and> 0 < predictionConfidence p \<and> predictionConfidence p \<le> 1"
proof -
  have ok: "chain_ok ch" using reachable_chain_ok [OF assms(1)] by blast
  note c = predictNext_spec [OF ok assms(2,3)]
  let ?m = "successors ch' recent ch"
  let ?ps = "sortedTransitions ?m ch'"
  have sorted: "sorted (map (\<lambda>n. - ns_probability n) ?ps)" by (rule sortedTransitions_simps(2))
  have set: "ns_probability ` set ?ps = (\<lambda>(k, t). tn_probability t) ` set ?m"
    using arg_cong [OF sortedTransitions_simps(1) [of ?m ch'], of set_mset] by simp
  have ne: "?ps \<noteq> []" using c(1) by (simp add: sortedTransitions_simps(3) row_ok_def)
  have hd: "hd (nextStates p) = hd ?ps" using ne by (simp add: c(2))
  have max: "tn_probability t \<le> ns_probability (hd ?ps)" if "(k, t) \<in> set ?m" for k t
  proof -
    from that have "tn_probability t \<in> ns_probability ` set ?ps" unfolding set by force
    then show ?thesis using sorted_head_max [OF sorted] by auto
  qed
  have "ns_probability (hd ?ps) \<in> ns_probability ` set ?ps" using ne by simp
  then obtain k t where t: "(k, t) \<in> set ?m" "ns_probability (hd ?ps) = tn_probability t" unfolding set by auto
  have conf: "0 < predictionConfidence p" "predictionConfidence p \<le> 1"
    using row_member [OF c(1) t(1)] by (simp_all add: c(3) hd t(2))
  have "length (nextStates p) = min 5 (length ?m)" by (simp add: c(2) sortedTransitions_def)
  moreover have "sorted (map (\<lambda>n. - ns_probability n) (nextStates p))"
    unfolding c(2) take_map [symmetric] using sorted by (rule sorted_wrt_take)
  ultimately show ?thesis using max conf unfolding hd by blast
qed

lemma small_transitions:
  "transitions_of ''S0'' small_chain = updateProbabilities small_config 0
     [(''S1'', bump_transition 0 (plain_state Click) (fresh_transition ''S0'' ''S1'' 0))]"
  by (simp add: small_chain_def run_learn_def learnSequence_def new_chain_def initializeTransitionMatrix_def
      small_simps encodeState_def small_codes Let_def updateTransition_def set_transitions_def transitions_of_def
      buildContext_def shouldPrune_def chain_memoryUsage_def set_add_def small_config_def updateProbabilities_def)

lemma small_prediction:
  "nextStates (fst (predictNext [plain_state Page_view] small_chain)) \<noteq> []"
  "snd (predictNext [plain_state Page_view] small_chain) = small_chain"
  by (simp_all add: predictNext_def encodeState_def small_encoders small_simps js_slice_from_def slice_index_def
      small_transitions updateProbabilities_def sortedTransitions_def Let_def)

theorem markov_prediction_witness:
  "0 < predictionConfidence (fst (predictNext [plain_state Page_view] small_chain))
    \<and> predictionConfidence (fst (predictNext [plain_state Page_view] small_chain)) \<le> 1"
  using markov_prediction [OF small_reachable prod.collapse [symmetric] small_prediction(1)] by simp

text \<open>
  When nothing is pruned, a context with exactly one learned successor gets no anomaly score: its entropy 0 is
  divided by \<^verbatim>\<open>log2(1) = 0\<close>, the score is NaN and the behaviour never counts as anomalous.
\<close>
theorem markov_single_nan:
  assumes "reachable_chain ch" and "predictNext recent ch = (p, ch')" and "nextStates p \<noteq> []"
    and "pruningThreshold (ch_config ch) \<le> 1" and "length (successors ch' recent ch) = 1"
  shows "anomalyScore p = NaN \<and> \<not> isAnomalous p"
proof -
  have ok: "chain_ok ch" using reachable_chain_ok [OF assms(1)] by blast
  note c = predictNext_spec [OF ok assms(2,3)]
  obtain k t where m: "successors ch' recent ch = [(k, t)]"
    using assms(5) by (metis One_nat_def length_0_conv length_Suc_conv surj_pair)
  have "tn_probability t = 1" using c(1) assms(4) by (simp add: m row_ok_def row_sum_def)
  then have "anomalyScore p = NaN"
    by (simp add: c(4) m sortedTransitions_def calculateAnomalyScore_def js_div_def)
  then show ?thesis using c(5) by simp
qed

theorem markov_single_nan_witness:
  "anomalyScore (fst (predictNext [plain_state Page_view] small_chain)) = NaN"
proof -
  have "length (successors small_chain [plain_state Page_view] small_chain) = 1"
    by (simp add: successors_def small_encoders small_simps js_slice_from_def slice_index_def code_of_def code_def
        small_transitions updateProbabilities_def)
  then show ?thesis
    using markov_single_nan [OF small_reachable prod.collapse [symmetric] small_prediction(1)]
    by (simp add: small_prediction(2) small_encoders small_simps)
qed

text \<open>
  Saving and loading a chain keeps its configuration, its numbering and every learned transition except its minimal
  duration, and with them every prediction and every probability; an unset minimum (\<^verbatim>\<open>Infinity\<close>) comes back as 0.
\<close>
theorem markov_roundtrip:
  assumes "reachable_chain ch"
  shows "loaded ch = set_transitions
      (map (\<lambda>(c, m). (c, map (\<lambda>(k, t). (k, map_minDuration unset_minimum t)) m)) (tm_transitions (ch_matrix ch))) ch
    \<and> fst (predictNext recent (loaded ch)) = fst (predictNext recent ch)
    \<and> getTransitionProbability c n (loaded ch) = getTransitionProbability c n ch"
proof -
  have ok: "chain_ok ch" using reachable_chain_ok [OF assms] by blast
  show ?thesis
    using loaded_eq [OF ok] loaded_predicts [OF ok] loaded_probability [OF ok] by blast
qed

theorem markov_roundtrip_witness:
  "fst (predictNext [plain_state Page_view] (loaded small_chain)) = fst (predictNext [plain_state Page_view] small_chain)"
  using markov_roundtrip [OF small_reachable] by blast

end
