(* ===== verification/BehavioralStates.thy ===== *)
theory BehavioralStates
  imports MarkovTypes
begin

text \<open>
  The manager of behavioural states (\<^verbatim>\<open>backend/src/core/markov/BehavioralStateManager.ts\<close>): it classifies a request as
  an action in a context (\<open>createBehavioralState\<close>) and keeps, per session, the sequence of its states
  (\<open>addToSequence\<close>), which it shortens when it grows beyond 100 states. The regular expressions of
  \<^verbatim>\<open>initializeActionPatterns\<close> are alternatives of literal texts, matched without regard to case. The \<^verbatim>\<open>catch\<close> branch
  of \<^verbatim>\<open>createBehavioralState\<close> is left out: no statement of its \<^verbatim>\<open>try\<close> block throws on the declared types.

  The locale \<open>compressor\<close> is the contract the four compression algorithms share.
\<close>

record request_data =
  rd_method :: "string option"
  rd_path :: "string option"
  rd_statusCode :: "int option"
  rd_userAgent :: "string option"
  rd_ipAddress :: "string option"
  rd_sessionId :: "string option"
  rd_userId :: "string option"
  rd_timestamp :: "time_ms option"
  rd_duration :: "real option"
  rd_errorType :: "string option"
  rd_riskScore :: "real option"
  rd_contentType :: "string option"
  rd_bodyQuery :: bool

datatype compression_algorithm = By_frequency | By_recency | By_importance | By_hybrid

record compression_config =
  cc_enabled :: bool
  compressionRatio :: real
  preserveImportantStates :: bool
  importanceThreshold :: real
  compressionAlgorithm :: compression_algorithm

record state_manager =
  compressionConfig :: compression_config
  stateHistory :: "(string, state_sequence) js_map"

definition getDefaultCompressionConfig :: compression_config where
  "getDefaultCompressionConfig =
     \<lparr>cc_enabled = True, compressionRatio = 7/10, preserveImportantStates = True, importanceThreshold = 5,
      compressionAlgorithm = By_hybrid\<rparr>"

definition new_state_manager :: "compression_config option \<Rightarrow> state_manager" where
  "new_state_manager c =
     \<lparr>compressionConfig = (case c of None \<Rightarrow> getDefaultCompressionConfig | Some c \<Rightarrow> c), stateHistory = []\<rparr>"

section \<open>Classification\<close>

text \<open>\<^verbatim>\<open>v || d\<close> for an optional text: undefined and the empty text give \<open>d\<close>.\<close>

definition str_or :: "string option \<Rightarrow> string \<Rightarrow> string" where
  "str_or v d = (case v of None \<Rightarrow> d | Some s \<Rightarrow> if s = [] then d else s)"

definition status_or_200 :: "int option \<Rightarrow> int" where
  "status_or_200 v = (case v of None \<Rightarrow> 200 | Some n \<Rightarrow> if n = 0 then 200 else n)"

definition opt_includes :: "string option \<Rightarrow> string \<Rightarrow> bool" where
  "opt_includes v t = (case v of None \<Rightarrow> False | Some s \<Rightarrow> includes_str s t)"

text \<open>The patterns in their order; the first alternative of the first two is anchored at the end.\<close>

definition actionPatterns :: "(behavioral_action \<times> (string \<Rightarrow> bool)) list" where
  "actionPatterns =
     [(Back_button, \<lambda>p. ends_with p ''/back'' \<or> includes_str p ''history.back''),
      (Refresh, \<lambda>p. ends_with p ''/refresh'' \<or> includes_str p ''reload''),
      (Redirect, \<lambda>p. includes_str p ''/redirect''),
      (Scroll, \<lambda>p. includes_str p ''/scroll'' \<or> includes_str p ''pagination''),
      (Click, \<lambda>p. includes_str p ''/click'' \<or> includes_str p ''button'' \<or> includes_str p ''link''),
      (Rate_limit_hit, \<lambda>p. includes_str p ''/rate-limit'' \<or> includes_str p ''429''),
      (Captcha_challenge, \<lambda>p. includes_str p ''/captcha'' \<or> includes_str p ''challenge''),
      (Blocked_request, \<lambda>p. includes_str p ''/blocked'' \<or> includes_str p ''denied'')]"

fun first_pattern :: "(behavioral_action \<times> (string \<Rightarrow> bool)) list \<Rightarrow> string \<Rightarrow> behavioral_action" where
  "first_pattern [] p = Page_view"
| "first_pattern ((a, m) # ps) p = (if m (map lower_char p) then a else first_pattern ps p)"

definition determineAction :: "request_data \<Rightarrow> behavioral_action" where
  "determineAction d =
     (let path = str_or (rd_path d) ''''; method = str_or (rd_method d) ''GET''; statusCode = status_or_200 (rd_statusCode d)
      in if statusCode \<ge> 400 then
           (if statusCode = 404 then Error_404 else if statusCode = 403 then Error_403
            else if statusCode \<ge> 500 then Error_500 else Error_404)
         else if includes_str path ''/auth/'' \<or> includes_str path ''/login'' then
           (if method = ''POST'' then (if statusCode = 200 then Login_success else Login_failure) else Login_attempt)
         else if includes_str path ''/logout'' then Logout
         else if starts_with path ''/api/'' then Api_call
         else if includes_str path ''/search'' \<or> rd_bodyQuery d then Search
         else if method = ''POST'' \<and> \<not> includes_str path ''/api/'' then Form_submit
         else if includes_str path ''/download'' \<or> includes_str path ''.pdf'' \<or> includes_str path ''.zip'' then Download
         else if method = ''POST'' \<and> (includes_str path ''/upload'' \<or> opt_includes (rd_contentType d) ''multipart'') then Upload
         else if method = ''GET'' then first_pattern actionPatterns path
         else if method = ''PUT'' \<or> method = ''PATCH'' then Form_submit
         else if method = ''DELETE'' then Api_call
         else Page_view)"

definition suspicious_ip :: "request_data \<Rightarrow> behavioral_context" where
  "suspicious_ip d =
     (case rd_ipAddress d of
        None \<Rightarrow> Ctx_normal
      | Some ip \<Rightarrow> if starts_with ip ''10.0.0.'' \<or> includes_str ip ''suspicious'' then Ctx_suspicious else Ctx_normal)"

definition privileged_access :: "request_data \<Rightarrow> behavioral_context" where
  "privileged_access d =
     (if opt_includes (rd_path d) ''/admin'' \<or> opt_includes (rd_path d) ''/privileged'' \<or> opt_includes (rd_userId d) ''admin''
      then Ctx_privileged else Ctx_normal)"

definition present :: "string option \<Rightarrow> bool" where
  "present v \<longleftrightarrow> v \<noteq> None \<and> v \<noteq> Some []"

definition anonymous_access :: "request_data \<Rightarrow> behavioral_context" where
  "anonymous_access d = (if \<not> present (rd_userId d) \<and> \<not> present (rd_sessionId d) then Ctx_anonymous else Ctx_normal)"

definition bot_detection :: "request_data \<Rightarrow> behavioral_context" where
  "bot_detection d =
     (let userAgent = map lower_char (str_or (rd_userAgent d) '''')
      in if includes_str userAgent ''bot'' \<or> includes_str userAgent ''crawler'' \<or> includes_str userAgent ''spider''
         then Ctx_suspicious else Ctx_normal)"

definition high_frequency :: "request_data \<Rightarrow> behavioral_context" where
  "high_frequency d = Ctx_normal"

definition contextRules :: "(request_data \<Rightarrow> behavioral_context) list" where
  "contextRules = [suspicious_ip, privileged_access, anonymous_access, bot_detection, high_frequency]"

definition determineContext :: "request_data \<Rightarrow> behavioral_context" where
  "determineContext d =
     (case filter (\<lambda>c. c \<noteq> Ctx_normal) (map (\<lambda>rule. rule d) contextRules) of
        c # _ \<Rightarrow> c
      | [] \<Rightarrow>
          (case rd_riskScore d of
             Some r \<Rightarrow> if r > 8/10 then Ctx_suspicious else if r > 6/10 then Ctx_restricted
                       else if present (rd_userId d) then Ctx_authenticated else Ctx_normal
           | None \<Rightarrow> if present (rd_userId d) then Ctx_authenticated else Ctx_normal))"

definition createBehavioralState :: "time_ms \<Rightarrow> request_data \<Rightarrow> behavioral_state" where
  "createBehavioralState now d =
     \<lparr>bv_action = determineAction d, bv_context = determineContext d,
      bv_timestamp = (case rd_timestamp d of None \<Rightarrow> now | Some t \<Rightarrow> t),
      bv_metadata = \<lparr>md_path = rd_path d, md_method = rd_method d, md_statusCode = rd_statusCode d,
        md_userAgent = rd_userAgent d, md_ipAddress = rd_ipAddress d, md_sessionId = rd_sessionId d,
        md_userId = rd_userId d, md_duration = rd_duration d, md_errorType = rd_errorType d,
        md_riskScore = rd_riskScore d\<rparr>\<rparr>"

section \<open>Compression\<close>

fun importance :: "behavioral_action \<Rightarrow> real" where
  "importance Login_success = 10"
| "importance Login_failure = 9"
| "importance Logout = 8"
| "importance Error_500 = 7"
| "importance Error_403 = 6"
| "importance Error_404 = 5"
| "importance Suspicious_activity = 10"
| "importance Blocked_request = 8"
| "importance Form_submit = 6"
| "importance Api_call = 5"
| "importance Search = 4"
| "importance Page_view = 2"
| "importance Click = 1"
| "importance Scroll = 1"
| "importance Idle = 0"
| "importance Active = 1"
| "importance Focus_lost = 1"
| "importance Focus_gained = 1"
| "importance Page_exit = 3"
| "importance Redirect = 2"
| "importance Back_button = 2"
| "importance Refresh = 2"
| "importance Download = 4"
| "importance Upload = 5"
| "importance Rate_limit_hit = 7"
| "importance Captcha_challenge = 6"
| "importance Session_timeout = 5"
| "importance Tab_switch = 1"
| "importance Login_attempt = 9"
| "importance Timeout = 6"
| "importance Network_error = 6"

definition compressByFrequency :: "nat \<Rightarrow> behavioral_state list \<Rightarrow> behavioral_state list" where
  "compressByFrequency targetLength sts =
     take targetLength (sort_key (\<lambda>s. - int (count_list (map state_key sts) (state_key s))) sts)"

definition compressByRecency :: "nat \<Rightarrow> behavioral_state list \<Rightarrow> behavioral_state list" where
  "compressByRecency targetLength sts = take targetLength (sort_key (\<lambda>s. - bv_timestamp s) sts)"

definition compressByImportance :: "nat \<Rightarrow> behavioral_state list \<Rightarrow> behavioral_state list" where
  "compressByImportance targetLength sts = take targetLength (sort_key (\<lambda>s. - importance (bv_action s)) sts)"

definition hybrid_score :: "time_ms \<Rightarrow> behavioral_state \<Rightarrow> real" where
  "hybrid_score now s =
     importance (bv_action s) * (7/10)
     + max 0 (1 - of_int (now - bv_timestamp s) / (24 * 60 * 60 * 1000)) * (3/10)"

definition compressByHybrid :: "time_ms \<Rightarrow> nat \<Rightarrow> behavioral_state list \<Rightarrow> behavioral_state list" where
  "compressByHybrid now targetLength sts = take targetLength (sort_key (\<lambda>s. - hybrid_score now s) sts)"

text \<open>A negative target counts from the end, as \<^verbatim>\<open>slice\<close> does; a ratio between 0 and 1 never gives one.\<close>

definition compressSequence :: "compression_config \<Rightarrow> time_ms \<Rightarrow> behavioral_state list \<Rightarrow> behavioral_state list" where
  "compressSequence cfg now sts =
     (if \<not> cc_enabled cfg then sts
      else
        let target = \<lfloor>real (length sts) * compressionRatio cfg\<rfloor>;
            n = slice_index (length sts) target
        in if target \<ge> int (length sts) then sts
           else (case compressionAlgorithm cfg of
                   By_frequency \<Rightarrow> compressByFrequency n sts
                 | By_recency \<Rightarrow> compressByRecency n sts
                 | By_importance \<Rightarrow> compressByImportance n sts
                 | By_hybrid \<Rightarrow> compressByHybrid now n sts))"

section \<open>Sequences\<close>

definition session_of :: "behavioral_state \<Rightarrow> string" where
  "session_of st = str_or (md_sessionId (bv_metadata st)) ''unknown''"

definition fresh_sequence :: "behavioral_state \<Rightarrow> state_sequence" where
  "fresh_sequence st =
     \<lparr>sq_states = [], sq_sessionId = session_of st, sq_userId = md_userId (bv_metadata st),
      sq_startTime = bv_timestamp st, sq_endTime = bv_timestamp st, sq_totalDuration = 0, sq_isComplete = False,
      sq_riskScore = None\<rparr>"

definition append_state :: "compression_config \<Rightarrow> time_ms \<Rightarrow> behavioral_state \<Rightarrow> state_sequence \<Rightarrow> state_sequence" where
  "append_state cfg now st sq =
     (let states = sq_states sq @ [st];
          sq = sq\<lparr>sq_states := states, sq_endTime := bv_timestamp st,
                  sq_totalDuration := bv_timestamp st - sq_startTime sq\<rparr>;
          sq = (case md_riskScore (bv_metadata st) of
                  None \<Rightarrow> sq
                | Some r \<Rightarrow> sq\<lparr>sq_riskScore := Some (max (case sq_riskScore sq of None \<Rightarrow> 0 | Some x \<Rightarrow> x) r)\<rparr>)
      in if cc_enabled cfg \<and> length states > 100 then sq\<lparr>sq_states := compressSequence cfg now states\<rparr> else sq)"

definition addToSequence :: "time_ms \<Rightarrow> behavioral_state \<Rightarrow> state_manager \<Rightarrow> state_sequence \<times> state_manager" where
  "addToSequence now st mgr =
     (let sq = (case map_of (stateHistory mgr) (session_of st) of None \<Rightarrow> fresh_sequence st | Some sq \<Rightarrow> sq);
          sq = append_state (compressionConfig mgr) now st sq
      in (sq, mgr\<lparr>stateHistory := map_set (session_of st) sq (stateHistory mgr)\<rparr>))"

definition getSequence :: "string \<Rightarrow> state_manager \<Rightarrow> state_sequence option" where
  "getSequence sessionId mgr = map_of (stateHistory mgr) sessionId"

definition completeSequence :: "time_ms \<Rightarrow> string \<Rightarrow> state_manager \<Rightarrow> state_sequence option \<times> state_manager" where
  "completeSequence now sessionId mgr =
     (case map_of (stateHistory mgr) sessionId of
        None \<Rightarrow> (None, mgr)
      | Some sq \<Rightarrow>
          (let sq = sq\<lparr>sq_isComplete := True, sq_endTime := now\<rparr>
           in (Some sq, mgr\<lparr>stateHistory := map_set sessionId sq (stateHistory mgr)\<rparr>)))"

definition getActiveSequences :: "state_manager \<Rightarrow> state_sequence list" where
  "getActiveSequences mgr = filter (\<lambda>sq. \<not> sq_isComplete sq) (map snd (stateHistory mgr))"

definition getSequencesByUser :: "string \<Rightarrow> state_manager \<Rightarrow> state_sequence list" where
  "getSequencesByUser userId mgr = filter (\<lambda>sq. sq_userId sq = Some userId) (map snd (stateHistory mgr))"

definition cleanupOldSequences :: "time_ms \<Rightarrow> int \<Rightarrow> state_manager \<Rightarrow> nat \<times> state_manager" where
  "cleanupOldSequences now maxAgeHours mgr =
     (let cutoffTime = now - maxAgeHours * 60 * 60 * 1000;
          old = map fst (filter (\<lambda>(k, sq). sq_endTime sq < cutoffTime) (stateHistory mgr))
      in (length old, mgr\<lparr>stateHistory := fold map_delete old (stateHistory mgr)\<rparr>))"

definition manager_memoryUsage :: "state_manager \<Rightarrow> int" where
  "manager_memoryUsage mgr = sum_list (map (\<lambda>(k, sq). int (length (sq_states sq)) * 500 + 200) (stateHistory mgr))"

record manager_statistics =
  ms_totalSequences :: nat
  ms_activeSequences :: nat
  ms_completedSequences :: nat
  ms_averageSequenceLength :: real
  ms_totalStates :: nat
  ms_memoryUsage :: int

definition sm_getStatistics :: "state_manager \<Rightarrow> manager_statistics" where
  "sm_getStatistics mgr =
     (let sqs = map snd (stateHistory mgr);
          totalStates = sum_list (map (\<lambda>sq. length (sq_states sq)) sqs)
      in \<lparr>ms_totalSequences = length sqs, ms_activeSequences = length (filter (\<lambda>sq. \<not> sq_isComplete sq) sqs),
          ms_completedSequences = length (filter sq_isComplete sqs),
          ms_averageSequenceLength = (if length sqs > 0 then real totalStates / real (length sqs) else 0),
          ms_totalStates = totalStates, ms_memoryUsage = manager_memoryUsage mgr\<rparr>)"

section \<open>The contract of compression\<close>

locale compressor =
  fixes score :: "'a list \<Rightarrow> 'a \<Rightarrow> real"
    and compress :: "nat \<Rightarrow> 'a list \<Rightarrow> 'a list"
  assumes compress_length: "length (compress n xs) = min n (length xs)"
    and compress_part: "mset (compress n xs) \<subseteq># mset xs"
    and compress_top: "x \<in> set (compress n xs) \<Longrightarrow> y \<in># mset xs - mset (compress n xs) \<Longrightarrow> score xs y \<le> score xs x"
begin

lemma compress_subset: "set (compress n xs) \<subseteq> set xs"
  using compress_part [of n xs] by (metis set_mset_mono set_mset_mset)

text \<open>Whatever scores above every state that was dropped is still there.\<close>

lemma compress_keeps:
  assumes "x \<in> set xs" and "\<forall>y \<in># mset xs - mset (compress n xs). score xs y < score xs x"
  shows "x \<in> set (compress n xs)"
proof (rule ccontr)
  assume "x \<notin> set (compress n xs)"
  then have "x \<in># mset xs - mset (compress n xs)" using assms(1)
    by (metis count_greater_zero_iff count_mset_0_iff in_diff_count set_mset_mset)
  then show False using assms(2) by auto
qed

end

lemma take_sort_key:
  fixes f :: "'a \<Rightarrow> 'b::linorder"
  shows "length (take n (sort_key f xs)) = min n (length xs)"
    and "mset (take n (sort_key f xs)) \<subseteq># mset xs"
    and "x \<in> set (take n (sort_key f xs)) \<Longrightarrow> y \<in># mset xs - mset (take n (sort_key f xs)) \<Longrightarrow> f x \<le> f y"
proof -
  let ?s = "sort_key f xs"
  have split: "mset xs = mset (take n ?s) + mset (drop n ?s)"
    by (metis append_take_drop_id mset_append mset_sort)
  show "length (take n ?s) = min n (length xs)" by simp
  show "mset (take n ?s) \<subseteq># mset xs" using split by simp
  show "f x \<le> f y" if x: "x \<in> set (take n ?s)" and y: "y \<in># mset xs - mset (take n ?s)"
  proof -
    have "y \<in> set (drop n ?s)" using y unfolding split by simp
    moreover have "sorted (map f (take n ?s @ drop n ?s))" by simp
    ultimately show ?thesis using x unfolding map_append sorted_append by auto
  qed
qed

interpretation frequency: compressor "\<lambda>sts s. real (count_list (map state_key sts) (state_key s))" compressByFrequency
  using take_sort_key(3) [where f = "\<lambda>s. - int (count_list (map state_key _) (state_key s))"]
  by unfold_locales (auto simp: compressByFrequency_def take_sort_key(1,2))

interpretation recency: compressor "\<lambda>sts s. of_int (bv_timestamp s)" compressByRecency
  using take_sort_key(3) [where f = "\<lambda>s. - bv_timestamp s"]
  by unfold_locales (auto simp: compressByRecency_def take_sort_key(1,2))

interpretation importance: compressor "\<lambda>sts s. BehavioralStates.importance (bv_action s)" compressByImportance
  using take_sort_key(3) [where f = "\<lambda>s. - BehavioralStates.importance (bv_action s)"]
  by unfold_locales (auto simp: compressByImportance_def take_sort_key(1,2))

interpretation hybrid: compressor "\<lambda>sts s. hybrid_score now s" "compressByHybrid now" for now
  using take_sort_key(3) [where f = "\<lambda>s. - hybrid_score now s"]
  by unfold_locales (auto simp: compressByHybrid_def take_sort_key(1,2))

section \<open>Sequences stay short\<close>

lemma compressSequence_spec:
  assumes "cc_enabled cfg" and "0 \<le> compressionRatio cfg" and "compressionRatio cfg < 1" and "sts \<noteq> []"
  shows "length (compressSequence cfg now sts) = nat \<lfloor>real (length sts) * compressionRatio cfg\<rfloor>"
    and "length (compressSequence cfg now sts) < length sts"
    and "mset (compressSequence cfg now sts) \<subseteq># mset sts"
proof -
  let ?t = "\<lfloor>real (length sts) * compressionRatio cfg\<rfloor>"
  have "0 \<le> ?t" using assms(2) by simp
  moreover have "real (length sts) * compressionRatio cfg < real (length sts)" using assms(3,4) by simp
  ultimately have t: "0 \<le> ?t" "?t < int (length sts)" by (simp_all add: floor_less_iff)
  then have n: "slice_index (length sts) ?t = nat ?t" by (simp add: slice_index_def)
  show len: "length (compressSequence cfg now sts) = nat ?t"
    using t assms(1) frequency.compress_length recency.compress_length importance.compress_length hybrid.compress_length
    by (simp add: compressSequence_def Let_def n split: compression_algorithm.split)
  show "length (compressSequence cfg now sts) < length sts" using t by (simp add: len nat_less_iff)
  show "mset (compressSequence cfg now sts) \<subseteq># mset sts"
    using t assms(1) frequency.compress_part recency.compress_part importance.compress_part hybrid.compress_part
    by (simp add: compressSequence_def Let_def n split: compression_algorithm.split)
qed

inductive reachable_manager :: "state_manager \<Rightarrow> bool" where
  create: "reachable_manager (new_state_manager c)"
| add: "reachable_manager mgr \<Longrightarrow> reachable_manager (snd (addToSequence now st mgr))"
| complete: "reachable_manager mgr \<Longrightarrow> reachable_manager (snd (completeSequence now sid mgr))"
| cleanup: "reachable_manager mgr \<Longrightarrow> reachable_manager (snd (cleanupOldSequences now hours mgr))"

definition shrinking :: "compression_config \<Rightarrow> bool" where
  "shrinking cfg \<longleftrightarrow> cc_enabled cfg \<and> 0 \<le> compressionRatio cfg \<and> compressionRatio cfg < 1"

definition manager_ok :: "state_manager \<Rightarrow> bool" where
  "manager_ok mgr \<longleftrightarrow> js_map_ok (stateHistory mgr)
     \<and> (\<forall>(k, sq)\<in>set (stateHistory mgr). sq_sessionId sq = k
          \<and> (\<forall>st\<in>set (sq_states sq). session_of st = k)
          \<and> (shrinking (compressionConfig mgr) \<longrightarrow> length (sq_states sq) \<le> 100))"

lemma append_state_simps [simp]:
  "sq_sessionId (append_state cfg now st sq) = sq_sessionId sq"
  "sq_isComplete (append_state cfg now st sq) = sq_isComplete sq"
  "sq_userId (append_state cfg now st sq) = sq_userId sq"
  "sq_startTime (append_state cfg now st sq) = sq_startTime sq"
  "sq_endTime (append_state cfg now st sq) = bv_timestamp st"
  "sq_states (append_state cfg now st sq) =
     (if cc_enabled cfg \<and> length (sq_states sq) \<ge> 100 then compressSequence cfg now (sq_states sq @ [st]) else sq_states sq @ [st])"
  by (auto simp: append_state_def Let_def split: option.splits)

lemma compressSequence_subset: "set (compressSequence cfg now sts) \<subseteq> set sts"
  using frequency.compress_subset recency.compress_subset importance.compress_subset hybrid.compress_subset
  by (auto simp: compressSequence_def Let_def split: compression_algorithm.split dest: subsetD)

lemma append_state_bound:
  assumes "shrinking cfg" and "length (sq_states sq) \<le> 100"
  shows "length (sq_states (append_state cfg now st sq)) \<le> 100"
  using assms compressSequence_spec(2) [of cfg "sq_states sq @ [st]" now] by (auto simp: shrinking_def)

lemma manager_ok_put:
  assumes "manager_ok mgr" and "sq_sessionId sq = k" and "\<forall>st\<in>set (sq_states sq). session_of st = k"
    and "shrinking (compressionConfig mgr) \<longrightarrow> length (sq_states sq) \<le> 100"
  shows "manager_ok (mgr\<lparr>stateHistory := map_set k sq (stateHistory mgr)\<rparr>)"
  using assms set_update_subset [of k sq "stateHistory mgr"] by (fastforce simp: manager_ok_def intro: keeps_inv)

lemma manager_ok_add [keeps_inv]: "manager_ok mgr \<Longrightarrow> manager_ok (snd (addToSequence now st mgr))"
proof -
  assume ok: "manager_ok mgr"
  define sq where "sq = (case map_of (stateHistory mgr) (session_of st) of None \<Rightarrow> fresh_sequence st | Some sq \<Rightarrow> sq)"
  have sq: "sq_sessionId sq = session_of st" "\<forall>s\<in>set (sq_states sq). session_of s = session_of st"
    "shrinking (compressionConfig mgr) \<longrightarrow> length (sq_states sq) \<le> 100"
    using ok by (auto simp: sq_def fresh_sequence_def manager_ok_def dest!: map_of_SomeD split: option.splits)
  have "\<forall>s\<in>set (sq_states (append_state (compressionConfig mgr) now st sq)). session_of s = session_of st"
    using sq(2) compressSequence_subset [of _ _ "sq_states sq @ [st]"] by (auto split: if_splits dest: subsetD)
  moreover have "shrinking (compressionConfig mgr) \<longrightarrow> length (sq_states (append_state (compressionConfig mgr) now st sq)) \<le> 100"
    using sq(3) append_state_bound by blast
  ultimately show ?thesis
    using sq(1) unfolding addToSequence_def sq_def [symmetric] Let_def snd_conv
    by (intro manager_ok_put ok) simp_all
qed

lemma manager_ok_complete [keeps_inv]: "manager_ok mgr \<Longrightarrow> manager_ok (snd (completeSequence now sid mgr))"
  unfolding completeSequence_def Let_def
  by (auto split: option.splits intro!: manager_ok_put) (auto simp: manager_ok_def dest!: map_of_SomeD)

lemma manager_ok_cleanup [keeps_inv]: "manager_ok mgr \<Longrightarrow> manager_ok (snd (cleanupOldSequences now hours mgr))"
  using set_fold_delete_subset js_map.ok_fold_del unfolding cleanupOldSequences_def Let_def manager_ok_def by fastforce

lemma reachable_manager_ok: "reachable_manager mgr \<Longrightarrow> manager_ok mgr"
  by (induction rule: reachable_manager.induct) (auto simp: keeps_inv, simp add: manager_ok_def new_state_manager_def)

section \<open>Properties\<close>

text \<open>
  With compression enabled and a ratio between 0 and 1 (the default is 0.7) no session ever holds more than 100
  states, each session's sequence holds states of that session only, and there is one sequence per session.
\<close>
theorem sequences_bounded:
  assumes "reachable_manager mgr" and "getSequence sid mgr = Some sq"
  shows "sq_sessionId sq = sid \<and> (\<forall>st\<in>set (sq_states sq). session_of st = sid)
    \<and> (shrinking (compressionConfig mgr) \<longrightarrow> length (sq_states sq) \<le> 100)"
  using reachable_manager_ok [OF assms(1)] map_of_SomeD [OF assms(2) [unfolded getSequence_def]]
  by (auto simp: manager_ok_def)

definition run_add :: "(time_ms \<times> behavioral_state) list \<Rightarrow> state_manager \<Rightarrow> state_manager" where
  "run_add evs mgr = fold (\<lambda>(now, st) m. snd (addToSequence now st m)) evs mgr"

definition states_of :: "string \<Rightarrow> state_manager \<Rightarrow> behavioral_state list" where
  "states_of sid mgr = (case getSequence sid mgr of None \<Rightarrow> [] | Some sq \<Rightarrow> sq_states sq)"

lemma states_of_add:
  "states_of sid (snd (addToSequence now st mgr)) =
     (if sid = session_of st
      then (if cc_enabled (compressionConfig mgr) \<and> length (states_of sid mgr) \<ge> 100
            then compressSequence (compressionConfig mgr) now (states_of sid mgr @ [st]) else states_of sid mgr @ [st])
      else states_of sid mgr)"
  by (auto simp: states_of_def getSequence_def addToSequence_def Let_def update_conv' fresh_sequence_def split: option.splits)

lemma run_add_reachable: "reachable_manager mgr \<Longrightarrow> reachable_manager (run_add evs mgr)"
  unfolding run_add_def by (induction evs arbitrary: mgr) (auto intro: reachable_manager.add)

lemma run_add_config: "compressionConfig (run_add evs mgr) = compressionConfig mgr"
  unfolding run_add_def by (induction evs arbitrary: mgr) (auto simp: addToSequence_def Let_def)

text \<open>
  Until a session reaches 101 states its sequence is exactly what was added for it, in order, whatever other
  sessions do in between.
\<close>
theorem session_sequence:
  assumes "length (filter (\<lambda>st. session_of st = sid) (map snd evs)) \<le> 100"
  shows "states_of sid (run_add evs (new_state_manager c)) = filter (\<lambda>st. session_of st = sid) (map snd evs)"
  using assms
proof (induction evs rule: rev_induct)
  case Nil
  then show ?case by (simp add: run_add_def states_of_def getSequence_def new_state_manager_def)
next
  case (snoc e evs)
  obtain now st where e: "e = (now, st)" by fastforce
  have step: "run_add (evs @ [e]) (new_state_manager c) = snd (addToSequence now st (run_add evs (new_state_manager c)))"
    by (simp add: run_add_def e)
  show ?case using snoc by (auto simp: step [unfolded e] states_of_add [of sid now st] e split: if_splits)
qed

definition plain_request :: request_data where
  "plain_request =
     \<lparr>rd_method = None, rd_path = None, rd_statusCode = None, rd_userAgent = None, rd_ipAddress = None, rd_sessionId = None,
      rd_userId = None, rd_timestamp = None, rd_duration = None, rd_errorType = None, rd_riskScore = None,
      rd_contentType = None, rd_bodyQuery = False\<rparr>"

definition two_events :: "(time_ms \<times> behavioral_state) list" where
  "two_events = [(0, createBehavioralState 0 plain_request), (1, createBehavioralState 1 plain_request)]"

theorem session_sequence_witness:
  "map bv_timestamp (states_of ''unknown'' (run_add two_events (new_state_manager None))) = [0, 1]"
proof -
  have "filter (\<lambda>st. session_of st = ''unknown'') (map snd two_events) = map snd two_events"
    by (simp add: two_events_def session_of_def createBehavioralState_def plain_request_def str_or_def)
  then show ?thesis
    using session_sequence [of "''unknown''" two_events None]
    by (simp add: two_events_def createBehavioralState_def plain_request_def)
qed

text \<open>
  A request answered with an error status is classified by the status alone: a refused login (401, 403, ...) is
  never a \<^verbatim>\<open>login_failure\<close>. A request is an \<^verbatim>\<open>upload\<close> only when its path contains \<^verbatim>\<open>/api/\<close> after the start.
\<close>
theorem error_status_hides_action:
  "(determineAction d = Upload \<longrightarrow>
     includes_str (str_or (rd_path d) []) ''/api/'' \<and> \<not> starts_with (str_or (rd_path d) []) ''/api/'')
   \<and> (status_or_200 (rd_statusCode d) \<ge> 400 \<longleftrightarrow> determineAction d \<in> {Error_404, Error_403, Error_500})"
proof -
  have "first_pattern actionPatterns p \<notin> {Upload, Error_404, Error_403, Error_500}" for p
    by (simp add: actionPatterns_def)
  then show ?thesis by (auto simp: determineAction_def Let_def)
qed

theorem error_status_hides_action_witness:
  "determineAction (plain_request\<lparr>rd_method := Some ''POST'', rd_path := Some ''/login'', rd_statusCode := Some 401\<rparr>)
    \<in> {Error_404, Error_403, Error_500}"
proof -
  let ?d = "plain_request\<lparr>rd_method := Some ''POST'', rd_path := Some ''/login'', rd_statusCode := Some 401\<rparr>"
  have "status_or_200 (rd_statusCode ?d) \<ge> 400" by (simp add: status_or_200_def)
  then show ?thesis using error_status_hides_action [of ?d] by blast
qed

text \<open>
  The default compression keeps \<open>n\<close> of the states, none of which scores below a state it drops (importance
  first, then recency); but it returns them in falling score: states that came in with rising scores (a
  session of equal actions less than a day old) come out newest first, so the states added later follow the oldest ones.
\<close>
theorem hybrid_compression:
  assumes "n \<le> length sts"
  shows "length (compressByHybrid now n sts) = n \<and> mset (compressByHybrid now n sts) \<subseteq># mset sts
    \<and> (\<forall>x\<in>set (compressByHybrid now n sts). \<forall>y\<in>#mset sts - mset (compressByHybrid now n sts). hybrid_score now y \<le> hybrid_score now x)
    \<and> (sorted_wrt (<) (map (hybrid_score now) sts) \<longrightarrow> compressByHybrid now n sts = take n (rev sts))"
proof -
  have "compressByHybrid now n sts = take n (rev sts)" if s: "sorted_wrt (<) (map (hybrid_score now) sts)"
  proof -
    have "sorted_wrt (<) (map (\<lambda>s. - hybrid_score now s) (rev sts))"
      using s by (simp add: sorted_wrt_rev sorted_wrt_map rev_map [symmetric])
    then have srt: "sorted (map (\<lambda>s. - hybrid_score now s) (rev sts))" "distinct (map (\<lambda>s. - hybrid_score now s) (rev sts))"
      by (simp_all add: strict_sorted_iff)
    have "sort_key (\<lambda>s. - hybrid_score now s) sts = rev sts"
      using srt by (intro sort_key_inj_key_eq) (auto simp: distinct_map)
    then show ?thesis by (simp add: compressByHybrid_def)
  qed
  then show ?thesis
    using assms hybrid.compress_length hybrid.compress_part hybrid.compress_top by (simp add: min_def)
qed

theorem hybrid_compression_witness:
  "compressByHybrid 1000 1 [createBehavioralState 0 plain_request, createBehavioralState 1000 plain_request]
    = [createBehavioralState 1000 plain_request]"
  using hybrid_compression [of 1 "[createBehavioralState 0 plain_request, createBehavioralState 1000 plain_request]" 1000]
  by (simp add: hybrid_score_def createBehavioralState_def plain_request_def)

theorem sequences_bounded_witness:
  "length (states_of ''unknown'' (run_add two_events (new_state_manager None))) \<le> 100"
proof (cases "getSequence ''unknown'' (run_add two_events (new_state_manager None))")
  case None
  then show ?thesis by (simp add: states_of_def)
next
  case (Some sq)
  then show ?thesis
    using sequences_bounded [OF run_add_reachable [OF reachable_manager.create] Some]
    by (simp add: states_of_def run_add_config shrinking_def new_state_manager_def getDefaultCompressionConfig_def)
qed

end
