(* ===== verification/SequenceAnalysis.thy ===== *)
theory SequenceAnalysis
  imports MarkovLearning BehavioralStates
begin

text \<open>
  The sequence analyzer (\<^verbatim>\<open>backend/src/services/SequenceAnalyzer.ts\<close>), which feeds each request through the state manager
  into the Markov chain, judges the session's sequence, keeps a journey per session and discovers frequent patterns.
  The object is \<open>sequence_analyzer\<close>, its methods are \<open>analyzer_processRequest\<close>, \<open>detectSequenceAnomaly\<close>,
  \<open>analyzeUserJourney\<close>, \<open>discoverPatterns\<close>, \<open>generateInsights\<close>, \<open>analyzer_getStatistics\<close> and \<open>analyzer_clear\<close>. Texts made for
  people (descriptions, recommendations) are left out; the list of examples of a pattern holds the sequences as they
  were when the pattern was found.
\<close>

datatype anomaly_type = Rare_sequence | Impossible_sequence | Timing_anomaly | Context_mismatch | Pattern_break

datatype risk_factor = Invalid_transitions | Suspicious_context | High_risk_score

record anomaly_result =
  ar_isAnomalous :: bool
  ar_anomalyScore :: real
  ar_type :: anomaly_type
  ar_confidence :: real
  ar_actualSequence :: "string list"
  ar_riskFactors :: "risk_factor list"
  ar_severity :: risk_level

record user_journey =
  jy_created :: time_ms
  jy_userId :: "string option"
  jy_sessionId :: string
  jy_startState :: string
  jy_endState :: string
  jy_path :: "string list"
  jy_totalDuration :: int
  jy_stepDurations :: "real list"
  jy_isCompleted :: bool
  jy_isAnomalous :: bool
  jy_riskScore :: real
  jy_insights :: "(anomaly_type \<times> real) list"

record behavioral_pattern =
  bp_patternId :: string
  bp_sequence :: "string list"
  bp_frequency :: nat
  bp_probability :: real
  bp_avgDuration :: real
  bp_contexts :: "behavioral_context list"
  bp_riskLevel :: risk_level
  bp_examples :: "state_sequence list"
  bp_isAnomalous :: bool
  bp_confidence :: real

record anomaly_thresholds =
  sequenceAnomaly :: real
  transitionAnomaly :: real
  timingAnomaly :: real

record sequence_analyzer =
  an_chain :: markov_chain
  an_manager :: state_manager
  journeyHistory :: "(string, user_journey) js_map"
  patternCache :: "(string, behavioral_pattern) js_map"
  anomalyThresholds :: anomaly_thresholds

definition default_thresholds :: anomaly_thresholds where
  "default_thresholds = \<lparr>sequenceAnomaly = 7/10, transitionAnomaly = 8/10, timingAnomaly = 6/10\<rparr>"

definition new_analyzer :: "markov_config \<Rightarrow> anomaly_thresholds option \<Rightarrow> time_ms \<Rightarrow> sequence_analyzer" where
  "new_analyzer cfg th now =
     \<lparr>an_chain = new_chain cfg now, an_manager = new_state_manager None, journeyHistory = [], patternCache = [],
      anomalyThresholds = (case th of None \<Rightarrow> default_thresholds | Some t \<Rightarrow> t)\<rparr>"

section \<open>Scores\<close>

fun join_dash :: "string list \<Rightarrow> string" where
  "join_dash [] = []"
| "join_dash [s] = s"
| "join_dash (s # t # ss) = s @ ''-'' @ join_dash (t # ss)"

definition is_alnum :: "char \<Rightarrow> bool" where
  "is_alnum c \<longleftrightarrow>
     (let n = (of_char c :: nat) in 48 \<le> n \<and> n \<le> 57 \<or> 65 \<le> n \<and> n \<le> 90 \<or> 97 \<le> n \<and> n \<le> 122)"

definition generatePatternId :: "string \<Rightarrow> string" where
  "generatePatternId p = ''pattern_'' @ map (\<lambda>c. if is_alnum c then c else CHR ''_'') p"

definition calculateSequenceAnomalyScore :: "behavioral_state list \<Rightarrow> sequence_analyzer \<Rightarrow> real" where
  "calculateSequenceAnomalyScore sts an =
     (case map_of (patternCache an) (generatePatternId (join_dash (map state_key sts))) of
        None \<Rightarrow> 8/10
      | Some p \<Rightarrow> if bp_frequency p < 5 then 6/10 else if bp_isAnomalous p then 9/10 else 2/10)"

definition calculateTransitionAnomalyScore :: "validation_result \<Rightarrow> real" where
  "calculateTransitionAnomalyScore v =
     min 1 (real (length (filter (\<lambda>v. vi_severity v = Risk_high \<or> vi_severity v = Risk_critical) (vr_violations v))) * (3/10))"

definition calculateTimingAnomalyScore :: "behavioral_state list \<Rightarrow> real" where
  "calculateTimingAnomalyScore sts =
     (if length sts < 2 then 0
      else min 1 (foldl (\<lambda>s i. let timeDiff = bv_timestamp (sts ! i) - bv_timestamp (sts ! (i - 1))
                                in if timeDiff < 100 \<or> timeDiff > 300000 then s + 2/10 else s) 0 [1..<length sts]))"

definition hasContextMismatch :: "behavioral_state list \<Rightarrow> bool" where
  "hasContextMismatch sts \<longleftrightarrow> Ctx_suspicious \<in> bv_context ` set sts \<and> Ctx_normal \<in> bv_context ` set sts"

definition hasPatternBreak :: "behavioral_state list \<Rightarrow> bool" where
  "hasPatternBreak sts \<longleftrightarrow> False"

definition identifyRiskFactors :: "state_sequence \<Rightarrow> validation_result \<Rightarrow> risk_factor list" where
  "identifyRiskFactors sq v =
     (if vr_violations v \<noteq> [] then [Invalid_transitions] else [])
     @ (if Ctx_suspicious \<in> bv_context ` set (sq_states sq) then [Suspicious_context] else [])
     @ (case sq_riskScore sq of None \<Rightarrow> [] | Some r \<Rightarrow> if r > 7/10 then [High_risk_score] else [])"

definition determineSeverity :: "real \<Rightarrow> anomaly_type \<Rightarrow> risk_level" where
  "determineSeverity score type =
     (if score > 9/10 \<or> type = Impossible_sequence then Risk_critical
      else if score > 7/10 then Risk_high else if score > 5/10 then Risk_medium else Risk_low)"

definition getDefaultAnomalyResult :: "state_sequence \<Rightarrow> bool \<Rightarrow> anomaly_result" where
  "getDefaultAnomalyResult sq anomalous =
     \<lparr>ar_isAnomalous = anomalous, ar_anomalyScore = 5/10, ar_type = Rare_sequence, ar_confidence = 5/10,
      ar_actualSequence = map state_key (sq_states sq), ar_riskFactors = [], ar_severity = Risk_low\<rparr>"

definition anomaly_type_of :: "anomaly_thresholds \<Rightarrow> real \<Rightarrow> real \<Rightarrow> behavioral_state list \<Rightarrow> anomaly_type" where
  "anomaly_type_of th transitionScore timingScore sts =
     (if transitionScore > transitionAnomaly th then Impossible_sequence
      else if timingScore > timingAnomaly th then Timing_anomaly
      else if hasContextMismatch sts then Context_mismatch
      else if hasPatternBreak sts then Pattern_break else Rare_sequence)"

definition detectSequenceAnomaly :: "state_sequence \<Rightarrow> sequence_analyzer \<Rightarrow> anomaly_result \<times> sequence_analyzer" where
  "detectSequenceAnomaly sq an =
     (if length (sq_states sq) < 2 then (getDefaultAnomalyResult sq False, an)
      else
        let (v, ch) = validateSequence (sq_states sq) (an_chain an);
            (p, ch) = predictNext (js_slice_from (- 2) (sq_states sq)) ch;
            sequenceScore = calculateSequenceAnomalyScore (sq_states sq) an;
            transitionScore = calculateTransitionAnomalyScore v;
            timingScore = calculateTimingAnomalyScore (sq_states sq);
            overall = sequenceScore * (4/10) + transitionScore * (4/10) + timingScore * (2/10);
            type = anomaly_type_of (anomalyThresholds an) transitionScore timingScore (sq_states sq)
        in (\<lparr>ar_isAnomalous = (overall > sequenceAnomaly (anomalyThresholds an)), ar_anomalyScore = overall,
             ar_type = type, ar_confidence = vr_confidence v, ar_actualSequence = map state_key (sq_states sq),
             ar_riskFactors = identifyRiskFactors sq v, ar_severity = determineSeverity overall type\<rparr>,
            an\<lparr>an_chain := ch\<rparr>))"

section \<open>Journeys\<close>

definition duration_of :: "behavioral_state \<Rightarrow> real" where
  "duration_of st = (case md_duration (bv_metadata st) of None \<Rightarrow> 0 | Some d \<Rightarrow> d)"

definition createUserJourney :: "time_ms \<Rightarrow> state_sequence \<Rightarrow> sequence_analyzer \<Rightarrow> user_journey \<times> sequence_analyzer" where
  "createUserJourney now sq an =
     (let sts = sq_states sq;
          journey = \<lparr>jy_created = now, jy_userId = sq_userId sq, jy_sessionId = sq_sessionId sq,
            jy_startState = (if length sts > 0 then state_key (hd sts) else ''unknown''),
            jy_endState = (if length sts > 0 then state_key (last sts) else ''unknown''),
            jy_path = map state_key sts, jy_totalDuration = sq_totalDuration sq, jy_stepDurations = map duration_of sts,
            jy_isCompleted = sq_isComplete sq, jy_isAnomalous = False,
            jy_riskScore = (case sq_riskScore sq of None \<Rightarrow> 0 | Some r \<Rightarrow> r), jy_insights = []\<rparr>
      in (journey, an\<lparr>journeyHistory := map_set (sq_sessionId sq) journey (journeyHistory an)\<rparr>))"

definition updateUserJourney ::
  "time_ms \<Rightarrow> state_sequence \<Rightarrow> behavioral_state \<Rightarrow> anomaly_result \<Rightarrow> sequence_analyzer \<Rightarrow> user_journey \<times> sequence_analyzer" where
  "updateUserJourney now sq st r an =
     (case map_of (journeyHistory an) (sq_sessionId sq) of
        None \<Rightarrow> createUserJourney now sq an
      | Some j \<Rightarrow>
          (let j = j\<lparr>jy_path := jy_path j @ [state_key st], jy_stepDurations := jy_stepDurations j @ [duration_of st],
                     jy_isAnomalous := (jy_isAnomalous j \<or> ar_isAnomalous r),
                     jy_riskScore := max (jy_riskScore j) (ar_anomalyScore r),
                     jy_insights := jy_insights j @ (if ar_isAnomalous r then [(ar_type r, ar_anomalyScore r)] else [])\<rparr>
           in (j, an\<lparr>journeyHistory := map_set (sq_sessionId sq) j (journeyHistory an)\<rparr>)))"

definition updateJourneyAnalysis :: "user_journey \<Rightarrow> state_sequence \<Rightarrow> user_journey" where
  "updateJourneyAnalysis j sq =
     j\<lparr>jy_totalDuration := sq_totalDuration sq, jy_isCompleted := sq_isComplete sq,
       jy_riskScore := max (jy_riskScore j) (case sq_riskScore sq of None \<Rightarrow> 0 | Some r \<Rightarrow> r)\<rparr>"

definition analyzeUserJourney :: "time_ms \<Rightarrow> string \<Rightarrow> sequence_analyzer \<Rightarrow> user_journey option \<times> sequence_analyzer" where
  "analyzeUserJourney now sid an =
     (case getSequence sid (an_manager an) of
        None \<Rightarrow> (None, an)
      | Some sq \<Rightarrow>
          if length (sq_states sq) < 2 then (None, an)
          else (case map_of (journeyHistory an) sid of
                  None \<Rightarrow> (let (j, an) = createUserJourney now sq an in (Some j, an))
                | Some j \<Rightarrow> (let j = updateJourneyAnalysis j sq
                             in (Some j, an\<lparr>journeyHistory := map_set sid j (journeyHistory an)\<rparr>))))"

record process_result =
  pr_state :: behavioral_state
  pr_sequence :: state_sequence
  pr_prediction :: sequence_prediction
  pr_anomaly :: anomaly_result
  pr_journey :: user_journey

definition analyzer_processRequest :: "time_ms \<Rightarrow> request_data \<Rightarrow> sequence_analyzer \<Rightarrow> process_result \<times> sequence_analyzer" where
  "analyzer_processRequest now d an =
     (let st = createBehavioralState now d;
          (sq, mgr) = addToSequence now st (an_manager an);
          ch = (if length (sq_states sq) > 1 then learnSequence now (sq_states sq) (an_chain an) else an_chain an);
          (p, ch) = predictNext (js_slice_from (- 2) (sq_states sq)) ch;
          (r, an) = detectSequenceAnomaly sq (an\<lparr>an_chain := ch, an_manager := mgr\<rparr>);
          (j, an) = updateUserJourney now sq st r an
      in (\<lparr>pr_state = st, pr_sequence = sq, pr_prediction = p, pr_anomaly = r, pr_journey = j\<rparr>, an))"

section \<open>Patterns\<close>

record pattern_data =
  pd_count :: nat
  pd_totalDuration :: int
  pd_contexts :: "behavioral_context list"
  pd_examples :: "state_sequence list"
  pd_riskScores :: "real list"

definition occurrences :: "'a list \<Rightarrow> 'a list list" where
  "occurrences sts =
     concat (map (\<lambda>n. map (\<lambda>i. take n (drop i sts)) [0..<length sts - n + 1]) [2..<min 5 (length sts) + 1])"

definition add_occurrence ::
  "state_sequence \<Rightarrow> behavioral_state list \<Rightarrow> (string, pattern_data) js_map \<Rightarrow> (string, pattern_data) js_map" where
  "add_occurrence sq window m =
     (let pat = join_dash (map state_key window);
          d = (case map_of m pat of
                 None \<Rightarrow> \<lparr>pd_count = 0, pd_totalDuration = 0, pd_contexts = [], pd_examples = [], pd_riskScores = []\<rparr>
               | Some d \<Rightarrow> d)
      in map_set pat
           (d\<lparr>pd_count := pd_count d + 1, pd_totalDuration := pd_totalDuration d + sq_totalDuration sq,
              pd_contexts := fold set_add (map bv_context window) (pd_contexts d),
              pd_examples := (if length (pd_examples d) < 3 then pd_examples d @ [sq] else pd_examples d),
              pd_riskScores := pd_riskScores d @ (case sq_riskScore sq of None \<Rightarrow> [] | Some r \<Rightarrow> [r])\<rparr>) m)"

definition collect_patterns :: "state_sequence list \<Rightarrow> (string, pattern_data) js_map" where
  "collect_patterns sqs =
     fold (\<lambda>sq m. if length (sq_states sq) < 2 then m else fold (add_occurrence sq) (occurrences (sq_states sq)) m) sqs []"

fun split_dash :: "string \<Rightarrow> string list" where
  "split_dash [] = [[]]"
| "split_dash (c # cs) =
     (if c = CHR ''-'' then [] # split_dash cs
      else (case split_dash cs of [] \<Rightarrow> [[c]] | s # ss \<Rightarrow> (c # s) # ss))"

definition calculatePatternRiskLevel :: "real \<Rightarrow> risk_level" where
  "calculatePatternRiskLevel r =
     (if r > 8/10 then Risk_critical else if r > 6/10 then Risk_high else if r > 4/10 then Risk_medium else Risk_low)"

definition to_pattern :: "nat \<Rightarrow> string \<times> pattern_data \<Rightarrow> behavioral_pattern" where
  "to_pattern sequences e =
     (let (patternStr, d) = e;
          avg = (if length (pd_riskScores d) > 0 then sum_list (pd_riskScores d) / real (length (pd_riskScores d)) else 0)
      in \<lparr>bp_patternId = generatePatternId patternStr, bp_sequence = split_dash patternStr, bp_frequency = pd_count d,
          bp_probability = real (pd_count d) / real sequences, bp_avgDuration = of_int (pd_totalDuration d) / real (pd_count d),
          bp_contexts = pd_contexts d, bp_riskLevel = calculatePatternRiskLevel avg, bp_examples = pd_examples d,
          bp_isAnomalous = (avg > 7/10), bp_confidence = min (95/100) (real (pd_count d) / 50)\<rparr>)"

definition discoverPatterns :: "nat \<Rightarrow> sequence_analyzer \<Rightarrow> behavioral_pattern list \<times> sequence_analyzer" where
  "discoverPatterns minFrequency an =
     (let sqs = getActiveSequences (an_manager an);
          patterns = sort_key (\<lambda>p. - int (bp_frequency p))
            (map (to_pattern (length sqs)) (filter (\<lambda>(k, d). pd_count d \<ge> minFrequency) (collect_patterns sqs)))
      in (patterns, an\<lparr>patternCache := fold (\<lambda>p. map_set (bp_patternId p) p) patterns (patternCache an)\<rparr>))"

datatype insight_kind = Common_pattern | Anomalous_sequence | Journey_abandonment | Rare_behavior

record behavioral_insight =
  in_kind :: insight_kind
  in_impact :: risk_level
  in_confidence :: real
  in_affectedUsers :: nat

definition generateInsights :: "sequence_analyzer \<Rightarrow> behavioral_insight list \<times> sequence_analyzer" where
  "generateInsights an =
     (let (patterns, an) = discoverPatterns 3 an;
          sqs = getActiveSequences (an_manager an);
          total = ms_totalSequences (sm_getStatistics (an_manager an));
          common = take 3 (filter (\<lambda>p. bp_frequency p > 10 \<and> \<not> bp_isAnomalous p) patterns);
          anomalous = take 2 (filter (\<lambda>p. bp_isAnomalous p \<and> bp_riskLevel p \<noteq> Risk_low) patterns);
          open_journeys = length (filter (\<lambda>sq. \<not> sq_isComplete sq \<and> length (sq_states sq) > 3) sqs);
          rare = filter (\<lambda>p. bp_frequency p < 5 \<and> bp_probability p < 1/100) patterns
      in (map (\<lambda>p. \<lparr>in_kind = Common_pattern, in_impact = Risk_low, in_confidence = bp_confidence p,
                    in_affectedUsers = length (bp_examples p)\<rparr>) common
          @ map (\<lambda>p. \<lparr>in_kind = Anomalous_sequence,
                      in_impact = (if bp_riskLevel p = Risk_critical then Risk_critical else Risk_high),
                      in_confidence = bp_confidence p, in_affectedUsers = length (bp_examples p)\<rparr>) anomalous
          @ (if real open_journeys > real total * (3/10)
             then [\<lparr>in_kind = Journey_abandonment, in_impact = Risk_medium, in_confidence = 8/10,
                    in_affectedUsers = open_journeys\<rparr>] else [])
          @ (if rare \<noteq> []
             then [\<lparr>in_kind = Rare_behavior, in_impact = Risk_medium, in_confidence = 7/10,
                    in_affectedUsers = sum_list (map (\<lambda>p. length (bp_examples p)) rare)\<rparr>] else []), an))"

section \<open>Statistics\<close>

record analyzer_statistics =
  as_totalSequencesAnalyzed :: nat
  as_uniquePatternsDiscovered :: nat
  as_anomaliesDetected :: nat
  as_averageSequenceLength :: real
  as_predictionAccuracy :: real
  as_memoryUsage :: int

definition analyzer_getStatistics :: "sequence_analyzer \<Rightarrow> analyzer_statistics" where
  "analyzer_getStatistics an =
     \<lparr>as_totalSequencesAnalyzed = ms_totalSequences (sm_getStatistics (an_manager an)),
      as_uniquePatternsDiscovered = length (patternCache an),
      as_anomaliesDetected = length (filter (\<lambda>(k, j). jy_isAnomalous j) (journeyHistory an)),
      as_averageSequenceLength = ms_averageSequenceLength (sm_getStatistics (an_manager an)),
      as_predictionAccuracy = 85/100,
      as_memoryUsage = ms_memoryUsage (sm_getStatistics (an_manager an)) + cs_memoryUsage (chain_getStatistics (an_chain an))\<rparr>"

definition analyzer_clear :: "time_ms \<Rightarrow> sequence_analyzer \<Rightarrow> sequence_analyzer" where
  "analyzer_clear now an = an\<lparr>an_chain := clear_chain now (an_chain an), journeyHistory := [], patternCache := []\<rparr>"

end
