(* ===== verification/SessionLearning.thy ===== *)
theory SessionLearning
  imports SequenceAnalysis
begin

text \<open>
  What the sequence analyzer learns and reports: the chain of an analyzer refines a log of windows to which every request
  adds all windows of its session so far, so nothing the session has done is ever unknown to the chain when the session
  is judged; the discovered patterns are the frequent windows of the open sessions.
\<close>

section \<open>What the chain of an analyzer has learned\<close>

lemma chain_log_predict: "chain_log lg ch \<Longrightarrow> chain_log lg (snd (predictNext recent ch))"
  using predictNext_chain [of recent ch] chain_log_encode by (metis prod.collapse)

lemma chain_log_validate: "chain_log lg ch \<Longrightarrow> chain_log lg (snd (validateSequence sq ch))"
  using validateSequence_chain [of sq ch] chain_log_encode by (metis prod.collapse)

lemma encodeStates_config: "ch_config (snd (encodeStates sts ch)) = ch_config ch"
proof (induction sts arbitrary: ch)
  case (Cons st sts)
  then show ?case by (simp add: split_def Let_def encodeState_keeps)
qed simp

lemma config_keeps [simp]:
  "ch_config (snd (predictNext recent ch)) = ch_config ch"
  "ch_config (snd (validateSequence sts ch)) = ch_config ch"
  "ch_config (learnSequence now sts ch) = ch_config ch"
  "ch_config (clear_chain now ch) = ch_config ch"
proof -
  show "ch_config (snd (predictNext recent ch)) = ch_config ch"
    using predictNext_chain [of recent ch] encodeStates_config by (metis snd_conv)
  show "ch_config (snd (validateSequence sts ch)) = ch_config ch"
    using validateSequence_chain [of sts ch] encodeStates_config by (metis snd_conv)
  show "ch_config (learnSequence now sts ch) = ch_config ch"
    using encodeStates_config [of sts ch]
    by (cases "encodeStates sts ch") (simp add: learnSequence_def Let_def pruneTransitions_def)
  show "ch_config (clear_chain now ch) = ch_config ch" by (simp add: clear_chain_def)
qed

abbreviation severe :: "violation \<Rightarrow> bool" where
  "severe v \<equiv> vi_severity v = Risk_high \<or> vi_severity v = Risk_critical"

text \<open>A sequence all of whose windows were learned and kept has no severe violation.\<close>

lemma learned_not_severe:
  assumes "chain_log lg ch" and "pruningThreshold (ch_config ch) \<le> 1"
    and "set (windows (mk_order (ch_config ch)) (map state_key sts)) \<subseteq> set lg"
  shows "filter severe (vr_violations (fst (validateSequence sts ch))) = []"
proof (cases "length sts < 2")
  case True
  then show ?thesis by (simp add: validateSequence_def)
next
  case False
  let ?n = "mk_order (ch_config ch)"
  obtain codes ch1 where enc: "encodeStates sts ch = (codes, ch1)" by fastforce
  have log1: "chain_log lg ch1" by (rule chain_log_encode [OF assms(1) enc])
  have "numbering ch" using assms(1) by (auto simp: chain_log_def chain_ok_def)
  note e = encodeStates_spec [OF enc this]
  have cfg: "ch_config ch1 = ch_config ch" and codes: "codes = map (code_of ch1) (map state_key sts)" using e by auto
  have "filter severe (violations_at sts codes ch1 i) = []" if i: "i < length codes - ?n" for i
  proof -
    let ?c = "buildContext (ch_config ch1) codes i" and ?k = "codes ! (i + ?n)"
    have "(take ?n (drop i (map state_key sts)), map state_key sts ! (i + ?n)) \<in> set lg"
      using assms(3) i by (auto simp: windows_def codes)
    moreover have "?c = join_bar (map (code_of ch1) (take ?n (drop i (map state_key sts))))"
      "?k = code_of ch1 (map state_key sts ! (i + ?n))"
      using i by (simp_all add: buildContext_def cfg codes take_map drop_map)
    ultimately have "0 < coded ch1 lg ?c ?k"
      unfolding coded_def by (auto simp: length_greater_0_conv filter_empty_conv)
    then have "0 < count_at ch1 ?c ?k"
      using chain_log_count [OF log1, of ?c ?k] assms(2) by (simp add: cfg)
    then obtain t where "map_of (transitions_of ?c ch1) ?k = Some t" by (auto simp: count_at_def split: option.splits)
    then show ?thesis by (simp add: violations_at_def cfg checkTimingViolation_def)
  qed
  then have "\<forall>v\<in>set (concat (map (violations_at sts codes ch1) [0..<length codes - ?n])). \<not> severe v"
    by (auto simp: filter_empty_conv)
  then have "filter severe (concat (map (violations_at sts codes ch1) [0..<length codes - ?n])) = []"
    by (simp only: filter_empty_conv)
  then show ?thesis using False by (simp add: validateSequence_def enc Let_def cfg)
qed

section \<open>Reachable analyzers\<close>

inductive reachable_analyzer :: "sequence_analyzer \<Rightarrow> bool" where
  create: "0 \<le> smoothingParameter cfg \<Longrightarrow> 1 \<le> mk_order cfg \<Longrightarrow> reachable_analyzer (new_analyzer cfg th now)"
| process: "reachable_analyzer an \<Longrightarrow> reachable_analyzer (snd (analyzer_processRequest now d an))"
| detect: "reachable_analyzer an \<Longrightarrow> reachable_analyzer (snd (detectSequenceAnomaly sq an))"
| journey: "reachable_analyzer an \<Longrightarrow> reachable_analyzer (snd (analyzeUserJourney now sid an))"
| discover: "reachable_analyzer an \<Longrightarrow> reachable_analyzer (snd (discoverPatterns n an))"
| insights: "reachable_analyzer an \<Longrightarrow> reachable_analyzer (snd (generateInsights an))"
| clear: "reachable_analyzer an \<Longrightarrow> reachable_analyzer (analyzer_clear now an)"

definition analyzer_log :: "window_log \<Rightarrow> sequence_analyzer \<Rightarrow> bool" where
  "analyzer_log lg an \<longleftrightarrow> chain_log lg (an_chain an) \<and> 0 \<le> smoothingParameter (ch_config (an_chain an))
     \<and> 1 \<le> mk_order (ch_config (an_chain an))"

lemma journey_keeps [simp]:
  "an_chain (snd (updateUserJourney now sq st r an)) = an_chain an"
  "an_manager (snd (updateUserJourney now sq st r an)) = an_manager an"
  "an_chain (snd (analyzeUserJourney now sid an)) = an_chain an"
  "an_chain (snd (discoverPatterns n an)) = an_chain an"
  "an_chain (snd (generateInsights an)) = an_chain an"
  by (auto simp: updateUserJourney_def createUserJourney_def analyzeUserJourney_def discoverPatterns_def generateInsights_def
      Let_def split: option.splits)

lemma detect_chain:
  "an_chain (snd (detectSequenceAnomaly sq an)) =
     (if length (sq_states sq) < 2 then an_chain an
      else snd (predictNext (js_slice_from (- 2) (sq_states sq)) (snd (validateSequence (sq_states sq) (an_chain an)))))"
  "an_manager (snd (detectSequenceAnomaly sq an)) = an_manager an"
  by (simp_all add: detectSequenceAnomaly_def Let_def split_def)

lemma analyzer_log_detect: "analyzer_log lg an \<Longrightarrow> analyzer_log lg (snd (detectSequenceAnomaly sq an))"
  unfolding analyzer_log_def detect_chain by (auto intro: chain_log_predict chain_log_validate)

definition learned_chain :: "time_ms \<Rightarrow> behavioral_state list \<Rightarrow> markov_chain \<Rightarrow> markov_chain" where
  "learned_chain now sts ch = (if length sts > 1 then learnSequence now sts ch else ch)"

lemma chain_log_learned:
  assumes "chain_log lg ch" and "0 \<le> smoothingParameter (ch_config ch)" and "1 \<le> mk_order (ch_config ch)"
  shows "chain_log (lg @ windows (mk_order (ch_config ch)) (map state_key sts)) (learned_chain now sts ch)"
proof (cases "length sts > 1")
  case True
  then show ?thesis using learnSequence_log [OF assms(1,2)] by (simp add: learned_chain_def)
next
  case False
  then have "windows (mk_order (ch_config ch)) (map state_key sts) = []" using assms(3) by (simp add: windows_def)
  then show ?thesis using False assms(1) by (simp add: learned_chain_def)
qed

text \<open>The analyzer of \<open>analyzer_processRequest\<close> at the moment it judges the sequence \<open>session_after\<close>.\<close>

definition session_after :: "time_ms \<Rightarrow> request_data \<Rightarrow> sequence_analyzer \<Rightarrow> state_sequence" where
  "session_after now d an = fst (addToSequence now (createBehavioralState now d) (an_manager an))"

definition learned_analyzer :: "time_ms \<Rightarrow> request_data \<Rightarrow> sequence_analyzer \<Rightarrow> sequence_analyzer" where
  "learned_analyzer now d an =
     an\<lparr>an_chain := snd (predictNext (js_slice_from (- 2) (sq_states (session_after now d an)))
         (learned_chain now (sq_states (session_after now d an)) (an_chain an))),
       an_manager := snd (addToSequence now (createBehavioralState now d) (an_manager an))\<rparr>"

lemma process_parts:
  "pr_sequence (fst (analyzer_processRequest now d an)) = session_after now d an"
  "pr_anomaly (fst (analyzer_processRequest now d an)) = fst (detectSequenceAnomaly (session_after now d an) (learned_analyzer now d an))"
  "an_chain (snd (analyzer_processRequest now d an)) = an_chain (snd (detectSequenceAnomaly (session_after now d an) (learned_analyzer now d an)))"
  "an_manager (snd (analyzer_processRequest now d an)) = snd (addToSequence now (createBehavioralState now d) (an_manager an))"
  by (simp_all add: analyzer_processRequest_def Let_def split_def session_after_def learned_analyzer_def learned_chain_def detect_chain(2))

lemma learned_analyzer_log:
  assumes "analyzer_log lg an"
  shows "analyzer_log (lg @ windows (mk_order (ch_config (an_chain an))) (map state_key (sq_states (session_after now d an))))
    (learned_analyzer now d an)"
  using assms chain_log_predict [OF chain_log_learned, of lg "an_chain an"]
  by (simp add: analyzer_log_def learned_analyzer_def) (simp add: learned_chain_def)

lemma analyzer_log_process:
  assumes "analyzer_log lg an"
  shows "analyzer_log (lg @ windows (mk_order (ch_config (an_chain an))) (map state_key (sq_states (session_after now d an))))
    (snd (analyzer_processRequest now d an))"
  using analyzer_log_detect [OF learned_analyzer_log [OF assms, of now d], of "session_after now d an"]
  by (simp add: analyzer_log_def process_parts)

lemma reachable_analyzer_log: "reachable_analyzer an \<Longrightarrow> \<exists>lg. analyzer_log lg an"
proof (induction rule: reachable_analyzer.induct)
  case (create cfg th now)
  then show ?case using chain_log_new [of cfg now] by (intro exI [of _ "[]"]) (simp add: analyzer_log_def new_analyzer_def new_chain_def)
next
  case (process an now d)
  then show ?case using analyzer_log_process by blast
next
  case (detect an sq)
  then show ?case using analyzer_log_detect by blast
next
  case (clear an now)
  then show ?case using chain_log_new [of "ch_config (an_chain an)" now]
    by (intro exI [of _ "[]"]) (auto simp: analyzer_log_def analyzer_clear_def clear_chain_new new_chain_def)
qed (simp_all add: analyzer_log_def)

section \<open>Patterns are the frequent windows\<close>

lemma key_no_dash: "CHR ''-'' \<notin> set (state_key st)"
  by (cases "bv_action st"; cases "bv_context st") (simp_all add: state_key_def)

lemma split_dash_append: "CHR ''-'' \<notin> set s \<Longrightarrow> split_dash (s @ CHR ''-'' # t) = s # split_dash t"
  by (induction s) auto

lemma split_dash_plain: "CHR ''-'' \<notin> set s \<Longrightarrow> split_dash s = [s]"
  by (induction s) auto

lemma split_join_dash: "ks \<noteq> [] \<Longrightarrow> \<forall>k\<in>set ks. CHR ''-'' \<notin> set k \<Longrightarrow> split_dash (join_dash ks) = ks"
  by (induction ks rule: join_dash.induct) (auto simp: split_dash_append split_dash_plain)

definition window_text :: "behavioral_state list \<Rightarrow> string" where
  "window_text w = join_dash (map state_key w)"

lemma split_window_text: "w \<noteq> [] \<Longrightarrow> split_dash (window_text w) = map state_key w"
  by (simp add: window_text_def split_join_dash key_no_dash)

definition frequency_of :: "(string, pattern_data) js_map \<Rightarrow> string \<Rightarrow> nat" where
  "frequency_of m k = (case map_of m k of None \<Rightarrow> 0 | Some d \<Rightarrow> pd_count d)"

definition counted :: "string list \<Rightarrow> (string, pattern_data) js_map \<Rightarrow> bool" where
  "counted texts m \<longleftrightarrow> js_map_ok m \<and> (\<forall>k. frequency_of m k = count_list texts k) \<and> (\<forall>(k, d)\<in>set m. 0 < pd_count d)"

lemma counted_add:
  assumes "counted texts m"
  shows "counted (texts @ [window_text w]) (add_occurrence sq w m)"
proof -
  define d where "d = (case map_of m (window_text w) of
      None \<Rightarrow> \<lparr>pd_count = 0, pd_totalDuration = 0, pd_contexts = [], pd_examples = [], pd_riskScores = []\<rparr> | Some d \<Rightarrow> d)"
  obtain d' where m': "add_occurrence sq w m = map_set (window_text w) d' m" and cnt: "pd_count d' = pd_count d + 1"
    unfolding add_occurrence_def Let_def d_def window_text_def [symmetric] by auto
  have "pd_count d = frequency_of m (window_text w)" by (simp add: d_def frequency_of_def split: option.splits)
  then have "frequency_of (add_occurrence sq w m) k = count_list (texts @ [window_text w]) k" for k
    using assms cnt by (simp add: counted_def m' frequency_of_def update_conv')
  then show ?thesis
    using assms cnt set_update_subset [of "window_text w" d' m] by (fastforce simp: counted_def m' intro: keeps_inv)
qed

lemma counted_fold:
  "counted texts m \<Longrightarrow> counted (texts @ map window_text ws) (fold (add_occurrence sq) ws m)"
proof (induction ws arbitrary: texts m)
  case (Cons w ws)
  from Cons.IH [OF counted_add [OF Cons.prems]] show ?case by simp
qed simp

definition session_windows :: "state_sequence list \<Rightarrow> behavioral_state list list" where
  "session_windows sqs = concat (map (\<lambda>sq. occurrences (sq_states sq)) sqs)"

lemma occurrences_short: "length xs < 2 \<Longrightarrow> occurrences xs = []"
  by (simp add: occurrences_def)

lemma counted_collect_from:
  "counted texts m \<Longrightarrow> counted (texts @ map window_text (session_windows sqs))
    (fold (\<lambda>sq m. if length (sq_states sq) < 2 then m else fold (add_occurrence sq) (occurrences (sq_states sq)) m) sqs m)"
proof (induction sqs arbitrary: texts m)
  case (Cons sq sqs)
  have "counted (texts @ map window_text (occurrences (sq_states sq)))
      (if length (sq_states sq) < 2 then m else fold (add_occurrence sq) (occurrences (sq_states sq)) m)"
    using Cons.prems counted_fold by (cases "length (sq_states sq) < 2") (simp_all add: occurrences_short)
  from Cons.IH [OF this] show ?case by (simp add: session_windows_def)
qed (simp add: session_windows_def)

lemma counted_collect: "counted (map window_text (session_windows sqs)) (collect_patterns sqs)"
  using counted_collect_from [of "[]" "[]" sqs] by (simp add: collect_patterns_def counted_def frequency_of_def)

lemma session_windows_ne: "w \<in> set (session_windows sqs) \<Longrightarrow> w \<noteq> []"
  by (auto simp: session_windows_def occurrences_def)

lemma count_window_text:
  assumes "w \<in> set ws" and "\<forall>w\<in>set ws. w \<noteq> []"
  shows "count_list (map window_text ws) (window_text w) = count_list (map (map state_key) ws) (map state_key w)"
proof -
  have "window_text v = window_text w \<longleftrightarrow> map state_key v = map state_key w" if "v \<in> set ws" for v
    using that assms split_window_text [of v] split_window_text [of w] by (metis window_text_def)
  then show ?thesis
    using assms(2) by (induction ws) (auto simp: list.set_intros(2))
qed

section \<open>Properties\<close>

text \<open>
  C21. When nothing is pruned (threshold at most 1, as in the security chain) no request is ever reported as
  anomalous with a sequence threshold of 0.56 or more (the default is 0.7): the session is learned before it is judged,
  so the chain knows all its transitions, and the two remaining scores add up to at most 0.56.
\<close>
theorem no_request_anomalous:
  assumes "reachable_analyzer an" and "pruningThreshold (ch_config (an_chain an)) \<le> 1"
    and "56/100 \<le> sequenceAnomaly (anomalyThresholds an)"
  shows "\<not> ar_isAnomalous (pr_anomaly (fst (analyzer_processRequest now d an)))
    \<and> ar_anomalyScore (pr_anomaly (fst (analyzer_processRequest now d an))) \<le> 56/100"
proof -
  let ?sq = "session_after now d an" and ?an = "learned_analyzer now d an"
  let ?v = "fst (validateSequence (sq_states ?sq) (an_chain ?an))"
  obtain lg where lg: "analyzer_log lg an" using reachable_analyzer_log [OF assms(1)] by blast
  let ?w = "windows (mk_order (ch_config (an_chain an))) (map state_key (sq_states ?sq))"
  have "chain_log (lg @ ?w) (an_chain ?an)" using learned_analyzer_log [OF lg] by (simp add: analyzer_log_def)
  moreover have cfg: "ch_config (an_chain ?an) = ch_config (an_chain an)" "anomalyThresholds ?an = anomalyThresholds an"
    by (simp_all add: learned_analyzer_def learned_chain_def)
  ultimately have "filter severe (vr_violations ?v) = []"
    using assms(2) by (intro learned_not_severe [where lg = "lg @ ?w"]) auto
  then have "calculateTransitionAnomalyScore ?v = 0" by (simp add: calculateTransitionAnomalyScore_def)
  moreover have "calculateSequenceAnomalyScore (sq_states ?sq) ?an \<le> 9/10"
    by (simp add: calculateSequenceAnomalyScore_def split: option.splits)
  moreover have "calculateTimingAnomalyScore (sq_states ?sq) \<le> 1" by (simp add: calculateTimingAnomalyScore_def)
  ultimately show ?thesis
    using assms(3) by (auto simp: process_parts detectSequenceAnomaly_def getDefaultAnomalyResult_def Let_def split_def cfg)
qed

definition security_analyzer :: sequence_analyzer where
  "security_analyzer = new_analyzer (small_config\<lparr>mk_order := 2, smoothingParameter := 1/10\<rparr>) None 0"

theorem no_request_anomalous_witness:
  "\<not> ar_isAnomalous (pr_anomaly (fst (analyzer_processRequest 0 plain_request security_analyzer)))"
proof -
  have "reachable_analyzer security_analyzer"
    unfolding security_analyzer_def by (rule reachable_analyzer.create) simp_all
  then show ?thesis
    using no_request_anomalous [of security_analyzer 0 plain_request]
    by (simp add: security_analyzer_def new_analyzer_def new_chain_def small_config_def default_thresholds_def)
qed

definition run_requests :: "(time_ms \<times> request_data) list \<Rightarrow> sequence_analyzer \<Rightarrow> sequence_analyzer" where
  "run_requests reqs an = fold (\<lambda>(now, d) a. snd (analyzer_processRequest now d a)) reqs an"

definition request_states :: "(time_ms \<times> request_data) list \<Rightarrow> behavioral_state list" where
  "request_states reqs = map (\<lambda>(now, d). createBehavioralState now d) reqs"

definition prefix_windows :: "nat \<Rightarrow> string list \<Rightarrow> window_log" where
  "prefix_windows n keys = concat (map (\<lambda>m. windows n (take (Suc m) keys)) [0..<length keys])"

lemma prefix_windows_snoc: "prefix_windows n (keys @ [k]) = prefix_windows n keys @ windows n (keys @ [k])"
proof -
  have same: "map (\<lambda>m. windows n (take (Suc m) (keys @ [k]))) [0..<length keys] = map (\<lambda>m. windows n (take (Suc m) keys)) [0..<length keys]"
    by (rule map_cong) auto
  show ?thesis unfolding prefix_windows_def length_append list.size add_0 plus_1_eq_Suc [symmetric]
    by (simp add: same del: take_append)
qed

lemma count_list_concat: "count_list (concat xss) x = sum_list (map (\<lambda>xs. count_list xs x) xss)"
  by (induction xss) simp_all

text \<open>A window of the session is in every prefix that reaches its end.\<close>

lemma prefix_windows_count:
  assumes "i + n < length keys"
  shows "length keys - (i + n) \<le> count_list (prefix_windows n keys) (take n (drop i keys), keys ! (i + n))"
proof -
  let ?w = "(take n (drop i keys), keys ! (i + n))" and ?f = "\<lambda>m. count_list (windows n (take (Suc m) keys)) (take n (drop i keys), keys ! (i + n))"
  have "?w \<in> set (windows n (take (Suc m) keys))" if "i + n \<le> m" "m < length keys" for m
    using that by (auto simp: windows_def take_drop min_def intro!: image_eqI [where x = i])
  then have each: "1 \<le> ?f m" if "i + n \<le> m" "m < length keys" for m
    using that by (metis One_nat_def Suc_leI count_list_0_iff gr0I)
  have "length keys - (i + n) = (\<Sum>m\<leftarrow>[i + n..<length keys]. 1)" by (simp add: sum_list_triv)
  also have "\<dots> \<le> (\<Sum>m\<leftarrow>[i + n..<length keys]. ?f m)" using each by (intro sum_list_mono) auto
  also have "\<dots> \<le> (\<Sum>m\<leftarrow>[0..<i + n] @ [i + n..<length keys]. ?f m)" by simp
  also have "[0..<i + n] @ [i + n..<length keys] = [0..<length keys]"
    using assms upt_add_eq_append [of 0 "i + n" "length keys - (i + n)"] by simp
  also have "(\<Sum>m\<leftarrow>[0..<length keys]. ?f m) = count_list (prefix_windows n keys) ?w"
    by (simp add: prefix_windows_def count_list_concat comp_def)
  finally show ?thesis .
qed

lemma session_after_states:
  "session_of (createBehavioralState now d) = sid \<Longrightarrow> length (states_of sid (an_manager an)) < 100 \<Longrightarrow>
   sq_states (session_after now d an) = states_of sid (an_manager an) @ [createBehavioralState now d]"
  by (auto simp: session_after_def addToSequence_def states_of_def getSequence_def Let_def fresh_sequence_def split: option.splits)

lemma run_requests_log:
  assumes "0 \<le> smoothingParameter cfg" and "1 \<le> mk_order cfg" and "length reqs \<le> 100"
    and "\<forall>st\<in>set (request_states reqs). session_of st = sid"
  shows "analyzer_log (prefix_windows (mk_order cfg) (map state_key (request_states reqs))) (run_requests reqs (new_analyzer cfg th t0))
    \<and> states_of sid (an_manager (run_requests reqs (new_analyzer cfg th t0))) = request_states reqs
    \<and> ch_config (an_chain (run_requests reqs (new_analyzer cfg th t0))) = cfg"
  using assms(3,4)
proof (induction reqs rule: rev_induct)
  case Nil
  then show ?case using assms(1,2) chain_log_new [of cfg t0]
    by (simp add: run_requests_def request_states_def prefix_windows_def analyzer_log_def new_analyzer_def new_chain_def
        states_of_def getSequence_def new_state_manager_def)
next
  case (snoc e reqs)
  obtain now d where e: "e = (now, d)" by fastforce
  let ?an = "run_requests reqs (new_analyzer cfg th t0)" and ?st = "createBehavioralState now d"
  have step: "run_requests (reqs @ [(now, d)]) (new_analyzer cfg th t0) = snd (analyzer_processRequest now d ?an)"
    by (simp add: run_requests_def)
  have st: "request_states (reqs @ [(now, d)]) = request_states reqs @ [?st]" by (simp add: request_states_def)
  have sid: "session_of ?st = sid" using snoc.prems(2) by (simp add: e st)
  have ih: "analyzer_log (prefix_windows (mk_order cfg) (map state_key (request_states reqs))) ?an"
    "states_of sid (an_manager ?an) = request_states reqs" "ch_config (an_chain ?an) = cfg"
    using snoc by (simp_all add: e st)
  have len: "length (states_of sid (an_manager ?an)) < 100"
    using snoc.prems(1) by (simp add: ih(2) request_states_def)
  have after: "sq_states (session_after now d ?an) = request_states reqs @ [?st]"
    using session_after_states [OF sid len] ih(2) by simp
  have "states_of sid (snd (addToSequence now ?st (an_manager ?an))) = request_states reqs @ [?st]"
    using len by (simp add: states_of_add sid ih(2))
  moreover have "ch_config (an_chain (snd (analyzer_processRequest now d ?an))) = cfg"
    using ih(3) by (simp add: process_parts detect_chain learned_analyzer_def learned_chain_def)
  ultimately show ?case
    using analyzer_log_process [OF ih(1), of now d]
    by (simp add: e step st process_parts(4) prefix_windows_snoc after ih(3))
qed

text \<open>
  Every request makes the chain learn its whole session again: after up to 100 requests of one session the count of
  a transition is the number of its occurrences in all prefixes of the session, so a transition that happened once,
  \<open>i\<close> steps after the start, has been counted once for every request since.
\<close>
theorem session_prefixes_counted:
  assumes "0 \<le> smoothingParameter cfg" and "1 \<le> mk_order cfg" and "pruningThreshold cfg \<le> 1" and "length reqs \<le> 100"
    and "\<forall>st\<in>set (request_states reqs). session_of st = sid"
    and "ch = an_chain (run_requests reqs (new_analyzer cfg th t0))" and "keys = map state_key (request_states reqs)"
    and "i + mk_order cfg < length reqs"
  shows "count_at ch (join_bar (map (code_of ch) (take (mk_order cfg) (drop i keys)))) (code_of ch (keys ! (i + mk_order cfg)))
      = count_list (prefix_windows (mk_order cfg) keys) (take (mk_order cfg) (drop i keys), keys ! (i + mk_order cfg))
    \<and> length reqs - (i + mk_order cfg) \<le> count_list (prefix_windows (mk_order cfg) keys) (take (mk_order cfg) (drop i keys), keys ! (i + mk_order cfg))"
proof -
  let ?n = "mk_order cfg" and ?w = "(take (mk_order cfg) (drop i keys), keys ! (i + mk_order cfg))"
  have lg: "chain_log (prefix_windows ?n keys) ch" "ch_config ch = cfg"
    using run_requests_log [OF assms(1,2,4,5), of th t0] by (simp_all add: analyzer_log_def assms(6,7))
  have len: "length keys = length reqs" by (simp add: assms(7) request_states_def)
  have "length reqs - (i + ?n) \<le> count_list (prefix_windows ?n keys) ?w"
    using prefix_windows_count [of i ?n keys] assms(8) len by simp
  moreover from this have "?w \<in> set (prefix_windows ?n keys)" using assms(8) by (metis count_notin le_zero_eq not_less zero_less_diff)
  then have "known ch ?w" using lg(1) by (auto simp: chain_log_def)
  then have "coded ch (prefix_windows ?n keys) (join_bar (map (code_of ch) (fst ?w))) (code_of ch (snd ?w)) = count_list (prefix_windows ?n keys) ?w"
    using lg(1) coded_count [of ch "prefix_windows ?n keys" "fst ?w" "snd ?w"] by (auto simp: chain_log_def chain_ok_def)
  ultimately show ?thesis using chain_log_count [OF lg(1)] lg(2) assms(3) by simp
qed



definition three_views :: "(time_ms \<times> request_data) list" where
  "three_views = [(0, plain_request), (1, plain_request\<lparr>rd_path := Some ''/search''\<rparr>), (2, plain_request)]"

text \<open>A page view followed once by a search is counted twice after the third request.\<close>

theorem session_prefixes_counted_witness:
  "\<exists>ch. ch = an_chain (run_requests three_views (new_analyzer small_config None 0))
     \<and> 2 \<le> count_at ch (code_of ch ''page_view:anonymous'') (code_of ch ''search:anonymous'')"
proof -
  have ctx: "determineContext plain_request = Ctx_anonymous" "determineContext (plain_request\<lparr>rd_path := Some ''/search''\<rparr>) = Ctx_anonymous"
    by code_simp+
  have act: "determineAction plain_request = Page_view" "determineAction (plain_request\<lparr>rd_path := Some ''/search''\<rparr>) = Search"
    by code_simp+
  have keys: "map state_key (request_states three_views) = [''page_view:anonymous'', ''search:anonymous'', ''page_view:anonymous'']"
    by (simp add: request_states_def three_views_def createBehavioralState_def state_key_def ctx act)
  have sid: "\<forall>st\<in>set (request_states three_views). session_of st = ''unknown''"
    by (simp add: request_states_def three_views_def createBehavioralState_def session_of_def str_or_def plain_request_def)
  show ?thesis
    using session_prefixes_counted [OF _ _ _ _ sid refl keys [symmetric], of small_config 0 None 0]
    by (simp add: small_config_def three_views_def)
qed

end
