(* ===== verification/MarkovManagement.thy ===== *)
theory MarkovManagement
  imports SessionLearning
begin

text \<open>
  The configurations of the behavioural models (\<^verbatim>\<open>backend/src/config/markovConfig.ts\<close>, with the values they have when no
  environment variable is set) and the manager of the sequence analyzers (\<^verbatim>\<open>backend/src/services/MarkovManager.ts\<close>).
  The analytics engine of the manager holds a reference to the first analyzer; here it is a flag, and its one call in a
  request, \<^verbatim>\<open>generateBehavioralInsights\<close>, runs \<open>generateInsights\<close> on the first analyzer. Timers are flags; their callbacks are
  \<open>persistToStorage\<close>, \<open>mm_performCleanup\<close> and \<open>collectMetrics\<close>. The answers of Redis are arguments.
\<close>

section \<open>Configurations\<close>

definition getDefaultMarkovChainConfig :: markov_config where
  "getDefaultMarkovChainConfig =
     \<lparr>mk_order = 2, smoothingParameter = 1, pruningThreshold = 5, maxStates = 10000, memoryLimit = 100 * 1024 * 1024,
      mk_persistenceInterval = 300000, stateExpiryHours = 168, minConfidenceThreshold = 3/10\<rparr>"

definition getHighAccuracyMarkovConfig :: markov_config where
  "getHighAccuracyMarkovConfig =
     getDefaultMarkovChainConfig\<lparr>mk_order := 3, smoothingParameter := 5/10, pruningThreshold := 10, maxStates := 50000,
       memoryLimit := 500 * 1024 * 1024, minConfidenceThreshold := 5/10\<rparr>"

definition getMemoryEfficientMarkovConfig :: markov_config where
  "getMemoryEfficientMarkovConfig =
     getDefaultMarkovChainConfig\<lparr>mk_order := 1, smoothingParameter := 2, pruningThreshold := 3, maxStates := 5000,
       memoryLimit := 50 * 1024 * 1024, mk_persistenceInterval := 600000, minConfidenceThreshold := 2/10\<rparr>"

definition getDevelopmentMarkovConfig :: markov_config where
  "getDevelopmentMarkovConfig =
     getDefaultMarkovChainConfig\<lparr>mk_order := 2, pruningThreshold := 2, maxStates := 1000, memoryLimit := 20 * 1024 * 1024,
       mk_persistenceInterval := 60000, stateExpiryHours := 24, minConfidenceThreshold := 1/10\<rparr>"

definition getSecurityMarkovConfig :: markov_config where
  "getSecurityMarkovConfig =
     getDefaultMarkovChainConfig\<lparr>mk_order := 2, smoothingParameter := 1/10, pruningThreshold := 1, maxStates := 20000,
       memoryLimit := 200 * 1024 * 1024, mk_persistenceInterval := 180000, stateExpiryHours := 336,
       minConfidenceThreshold := 5/100\<rparr>"

definition getRealTimeMarkovConfig :: markov_config where
  "getRealTimeMarkovConfig =
     getDefaultMarkovChainConfig\<lparr>mk_order := 1, smoothingParameter := 15/10, pruningThreshold := 10, maxStates := 5000,
       memoryLimit := 100 * 1024 * 1024, mk_persistenceInterval := 30000, stateExpiryHours := 72,
       minConfidenceThreshold := 4/10\<rparr>"

definition getStateCompressionConfig :: compression_config where
  "getStateCompressionConfig =
     \<lparr>cc_enabled = False, compressionRatio = 7/10, preserveImportantStates = False, importanceThreshold = 5,
      compressionAlgorithm = By_hybrid\<rparr>"

datatype markov_use_case = Use_default | Use_high_accuracy | Use_memory_efficient | Use_security | Use_realtime

definition getMarkovConfiguration :: "bool \<Rightarrow> markov_use_case option \<Rightarrow> markov_config" where
  "getMarkovConfiguration isDevelopment useCase =
     (if isDevelopment then getDevelopmentMarkovConfig
      else case useCase of
             Some Use_high_accuracy \<Rightarrow> getHighAccuracyMarkovConfig
           | Some Use_memory_efficient \<Rightarrow> getMemoryEfficientMarkovConfig
           | Some Use_security \<Rightarrow> getSecurityMarkovConfig
           | Some Use_realtime \<Rightarrow> getRealTimeMarkovConfig
           | _ \<Rightarrow> getDefaultMarkovChainConfig)"

definition getAnomalyThresholds :: anomaly_thresholds where
  "getAnomalyThresholds = \<lparr>sequenceAnomaly = 7/10, transitionAnomaly = 8/10, timingAnomaly = 6/10\<rparr>"

record chain_entry =
  ce_name :: string
  ce_order :: nat
  ce_config :: markov_config
  ce_enabled :: bool

record markov_global =
  maxMemoryUsage :: int
  gl_persistenceInterval :: int
  gl_cleanupInterval :: int
  enableMetrics :: bool
  enableAnalytics :: bool

record markov_manager_config =
  chains :: "chain_entry list"
  globalConfig :: markov_global

definition getMarkovManagerConfig :: markov_manager_config where
  "getMarkovManagerConfig =
     \<lparr>chains =
        [\<lparr>ce_name = ''primary'', ce_order = 2, ce_config = getDefaultMarkovChainConfig, ce_enabled = True\<rparr>,
         \<lparr>ce_name = ''security'', ce_order = 2, ce_config = getSecurityMarkovConfig, ce_enabled = False\<rparr>,
         \<lparr>ce_name = ''realtime'', ce_order = 1, ce_config = getRealTimeMarkovConfig, ce_enabled = False\<rparr>],
      globalConfig = \<lparr>maxMemoryUsage = 1000 * 1024 * 1024, gl_persistenceInterval = 300000, gl_cleanupInterval = 3600000,
        enableMetrics = True, enableAnalytics = True\<rparr>\<rparr>"

section \<open>The manager\<close>

text \<open>Of the performance metrics only these three are ever written after construction.\<close>

record performance_metrics =
  pm_p50 :: real
  pm_memoryTotal :: int
  pm_sequencesPerSecond :: real

record timers =
  persistenceTimer :: bool
  cleanupTimer :: bool
  metricsTimer :: bool

record markov_manager =
  mm_config :: markov_manager_config
  sequenceAnalyzers :: "(string, sequence_analyzer) js_map"
  mm_analytics :: bool
  mm_timers :: timers
  performanceMetrics :: performance_metrics
  isInitialized :: bool
  lastPersistenceTime :: time_ms
  lastCleanupTime :: time_ms
  processedRequests :: nat
  detectedAnomalies :: nat

definition initializePerformanceMetrics :: performance_metrics where
  "initializePerformanceMetrics = \<lparr>pm_p50 = 0, pm_memoryTotal = 0, pm_sequencesPerSecond = 0\<rparr>"

definition new_markov_manager :: "markov_manager_config \<Rightarrow> time_ms \<Rightarrow> markov_manager" where
  "new_markov_manager cfg now =
     \<lparr>mm_config = cfg, sequenceAnalyzers = [], mm_analytics = False,
      mm_timers = \<lparr>persistenceTimer = False, cleanupTimer = False, metricsTimer = False\<rparr>,
      performanceMetrics = initializePerformanceMetrics, isInitialized = False, lastPersistenceTime = now,
      lastCleanupTime = now, processedRequests = 0, detectedAnomalies = 0\<rparr>"

definition getTotalMemoryUsage :: "markov_manager \<Rightarrow> int" where
  "getTotalMemoryUsage mm = sum_list (map (\<lambda>(k, an). as_memoryUsage (analyzer_getStatistics an)) (sequenceAnalyzers mm))"

definition mm_isMemoryUsageHealthy :: "markov_manager \<Rightarrow> bool" where
  "mm_isMemoryUsageHealthy mm \<longleftrightarrow> getTotalMemoryUsage mm \<le> maxMemoryUsage (globalConfig (mm_config mm))"

text \<open>
  What Redis holds: the saved metrics and the two saved counters (\<^verbatim>\<open>None\<close> when absent). A failed read is the error
  of the first, or of the second call.
\<close>

datatype 'a reply = Failed | Stored "'a option"

definition loadFromPersistence :: "performance_metrics reply \<Rightarrow> (nat \<times> nat) reply \<Rightarrow> markov_manager \<Rightarrow> markov_manager" where
  "loadFromPersistence metrics stats mm =
     (case metrics of
        Failed \<Rightarrow> mm
      | Stored saved \<Rightarrow>
          (let mm = (case saved of None \<Rightarrow> mm | Some p \<Rightarrow> mm\<lparr>performanceMetrics := p\<rparr>)
           in case stats of
                Failed \<Rightarrow> mm
              | Stored None \<Rightarrow> mm
              | Stored (Some (processed, anomalies)) \<Rightarrow> mm\<lparr>processedRequests := processed, detectedAnomalies := anomalies\<rparr>))"

definition startPeriodicTasks :: "markov_manager \<Rightarrow> markov_manager" where
  "startPeriodicTasks mm =
     (let g = globalConfig (mm_config mm); t = mm_timers mm
      in mm\<lparr>mm_timers := \<lparr>persistenceTimer = (persistenceTimer t \<or> gl_persistenceInterval g > 0),
                           cleanupTimer = (cleanupTimer t \<or> gl_cleanupInterval g > 0),
                           metricsTimer = (metricsTimer t \<or> enableMetrics g)\<rparr>\<rparr>)"

definition create_analyzers ::
  "time_ms \<Rightarrow> chain_entry list \<Rightarrow> (string, sequence_analyzer) js_map \<Rightarrow> (string, sequence_analyzer) js_map" where
  "create_analyzers now cs m =
     fold (\<lambda>c m. if ce_enabled c then map_set (ce_name c) (new_analyzer (ce_config c) (Some getAnomalyThresholds) now) m else m) cs m"

definition mm_initialize ::
  "time_ms \<Rightarrow> performance_metrics reply \<Rightarrow> (nat \<times> nat) reply \<Rightarrow> markov_manager \<Rightarrow> markov_manager" where
  "mm_initialize now metrics stats mm =
     (let mm = mm\<lparr>sequenceAnalyzers := create_analyzers now (chains (mm_config mm)) (sequenceAnalyzers mm)\<rparr>;
          mm = (if enableAnalytics (globalConfig (mm_config mm)) \<and> sequenceAnalyzers mm \<noteq> []
                then mm\<lparr>mm_analytics := True\<rparr> else mm)
      in (startPeriodicTasks (loadFromPersistence metrics stats mm))\<lparr>isInitialized := True\<rparr>)"

section \<open>Processing\<close>

record manager_result =
  mr_processed :: bool
  mr_analyzersUsed :: "string list"
  mr_primary :: "process_result option"
  mr_insights :: "behavioral_insight list"
  mr_riskScore :: real

text \<open>The loop over the analyzers: results so far, the highest score, and the analyzers with their new states.\<close>

fun process_all ::
  "time_ms \<Rightarrow> request_data \<Rightarrow> (string, sequence_analyzer) js_map \<Rightarrow> (string \<times> process_result) list \<times> (string, sequence_analyzer) js_map" where
  "process_all now d [] = ([], [])"
| "process_all now d ((name, an) # rest) =
     (let (r, an) = analyzer_processRequest now d an; (rs, m) = process_all now d rest
      in ((name, r) # rs, (name, an) # m))"

fun insights_of_first ::
  "(string, sequence_analyzer) js_map \<Rightarrow> behavioral_insight list \<times> (string, sequence_analyzer) js_map" where
  "insights_of_first [] = ([], [])"
| "insights_of_first ((name, an) # rest) = (let (ins, an) = generateInsights an in (ins, (name, an) # rest))"

definition updatePerformanceMetrics :: "real \<Rightarrow> markov_manager \<Rightarrow> markov_manager" where
  "updatePerformanceMetrics processingTime mm =
     mm\<lparr>performanceMetrics := (performanceMetrics mm)\<lparr>pm_p50 := processingTime, pm_memoryTotal := getTotalMemoryUsage mm\<rparr>\<rparr>"

text \<open>\<^verbatim>\<open>None\<close>: the manager is not initialized and throws.\<close>

definition mm_processRequest ::
  "time_ms \<Rightarrow> real \<Rightarrow> request_data \<Rightarrow> markov_manager \<Rightarrow> (manager_result \<times> markov_manager) option" where
  "mm_processRequest now processingTime d mm =
     (if \<not> isInitialized mm then None
      else
        let (rs, ans) = process_all now d (sequenceAnalyzers mm);
            highest = foldl (\<lambda>h (k, r). if ar_anomalyScore (pr_anomaly r) > h then ar_anomalyScore (pr_anomaly r) else h) 0 rs;
            found = length (filter (\<lambda>(k, r). ar_isAnomalous (pr_anomaly r)) rs);
            mm = mm\<lparr>sequenceAnalyzers := ans, detectedAnomalies := detectedAnomalies mm + found\<rparr>;
            (ins, ans) = (if mm_analytics mm \<and> enableAnalytics (globalConfig (mm_config mm))
                          then insights_of_first (sequenceAnalyzers mm) else ([], sequenceAnalyzers mm));
            mm = updatePerformanceMetrics processingTime (mm\<lparr>sequenceAnalyzers := ans\<rparr>);
            mm = mm\<lparr>processedRequests := processedRequests mm + 1\<rparr>
        in Some (\<lparr>mr_processed = True, mr_analyzersUsed = map fst rs,
                  mr_primary = (case rs of [] \<Rightarrow> None | (k, r) # _ \<Rightarrow> Some r), mr_insights = ins, mr_riskScore = highest\<rparr>, mm))"

definition detectAnomalies :: "markov_manager \<Rightarrow> nat \<times> (string \<times> nat) list \<times> behavioral_insight list \<times> markov_manager" where
  "detectAnomalies mm =
     (let byAnalyzer = map (\<lambda>(k, an). (k, as_anomaliesDetected (analyzer_getStatistics an))) (sequenceAnalyzers mm);
          (ins, ans) = (if mm_analytics mm then insights_of_first (sequenceAnalyzers mm) else ([], sequenceAnalyzers mm))
      in (sum_list (map snd byAnalyzer), byAnalyzer, ins, mm\<lparr>sequenceAnalyzers := ans\<rparr>))"

fun discover_all ::
  "nat \<Rightarrow> (string, sequence_analyzer) js_map \<Rightarrow> (string \<times> behavioral_pattern list) list \<times> (string, sequence_analyzer) js_map" where
  "discover_all n [] = ([], [])"
| "discover_all n ((name, an) # rest) =
     (let (ps, an) = discoverPatterns n an; (pss, m) = discover_all n rest in ((name, ps) # pss, (name, an) # m))"

record discovery =
  dv_total :: nat
  dv_byAnalyzer :: "(string \<times> behavioral_pattern list) list"
  dv_common :: "behavioral_pattern list"
  dv_anomalous :: "behavioral_pattern list"

definition mm_discoverPatterns :: "nat \<Rightarrow> markov_manager \<Rightarrow> discovery \<times> markov_manager" where
  "mm_discoverPatterns minFrequency mm =
     (let (pss, ans) = discover_all minFrequency (sequenceAnalyzers mm); ps = concat (map snd pss)
      in (\<lparr>dv_total = length ps, dv_byAnalyzer = pss,
           dv_common = filter (\<lambda>p. \<not> bp_isAnomalous p \<and> bp_frequency p \<ge> minFrequency) ps,
           dv_anomalous = filter bp_isAnomalous ps\<rparr>, mm\<lparr>sequenceAnalyzers := ans\<rparr>))"

definition mm_anomalyRate :: "markov_manager \<Rightarrow> real" where
  "mm_anomalyRate mm = (if processedRequests mm > 0 then real (detectedAnomalies mm) / real (processedRequests mm) else 0)"

datatype mm_status = Healthy_status | Warning_status | Critical_status
datatype mm_issue = Memory_approaching | High_anomaly_rate | No_analyzers

definition mm_getHealthStatus :: "markov_manager \<Rightarrow> bool \<times> mm_status \<times> mm_issue list" where
  "mm_getHealthStatus mm =
     (let memory = real_of_int (getTotalMemoryUsage mm); limit = real_of_int (maxMemoryUsage (globalConfig (mm_config mm)));
          issues = (if memory > limit * (9/10) then [Memory_approaching] else [])
            @ (if mm_anomalyRate mm > 1/10 then [High_anomaly_rate] else [])
            @ (if sequenceAnalyzers mm = [] then [No_analyzers] else [])
      in (issues = [],
          if issues = [] then Healthy_status
          else if memory > limit \<or> mm_anomalyRate mm > 2/10 then Critical_status else Warning_status, issues))"

section \<open>Maintenance\<close>

definition clear_all :: "time_ms \<Rightarrow> (string, sequence_analyzer) js_map \<Rightarrow> (string, sequence_analyzer) js_map" where
  "clear_all now m = map (\<lambda>(k, an). (k, analyzer_clear now an)) m"

definition mm_performCleanup :: "time_ms \<Rightarrow> markov_manager \<Rightarrow> markov_manager" where
  "mm_performCleanup now mm =
     (let mm = (if \<not> mm_isMemoryUsageHealthy mm then mm\<lparr>sequenceAnalyzers := clear_all now (sequenceAnalyzers mm)\<rparr> else mm)
      in mm\<lparr>lastCleanupTime := now\<rparr>)"

definition collectMetrics :: "markov_manager \<Rightarrow> markov_manager" where
  "collectMetrics mm =
     mm\<lparr>performanceMetrics := (performanceMetrics mm)\<lparr>pm_memoryTotal := getTotalMemoryUsage mm,
        pm_sequencesPerSecond := real (processedRequests mm) / 60\<rparr>\<rparr>"

text \<open>The three writes to Redis succeed or one of them fails.\<close>

definition persistToStorage :: "time_ms \<Rightarrow> bool \<Rightarrow> markov_manager \<Rightarrow> markov_manager" where
  "persistToStorage now redis_ok mm = (if redis_ok then mm\<lparr>lastPersistenceTime := now\<rparr> else mm)"

definition no_timers :: timers where
  "no_timers = \<lparr>persistenceTimer = False, cleanupTimer = False, metricsTimer = False\<rparr>"

definition mm_shutdown :: "time_ms \<Rightarrow> bool \<Rightarrow> markov_manager \<Rightarrow> markov_manager" where
  "mm_shutdown now redis_ok mm =
     (let mm = persistToStorage now redis_ok (mm\<lparr>mm_timers := no_timers\<rparr>)
      in mm\<lparr>sequenceAnalyzers := clear_all now (sequenceAnalyzers mm), isInitialized := False\<rparr>)"

definition mm_updateConfiguration :: "chain_entry list option \<Rightarrow> markov_global option \<Rightarrow> markov_manager \<Rightarrow> markov_manager" where
  "mm_updateConfiguration cs g mm =
     (let c = mm_config mm;
          c = (case cs of None \<Rightarrow> c | Some x \<Rightarrow> c\<lparr>chains := x\<rparr>);
          c = (case g of None \<Rightarrow> c | Some x \<Rightarrow> c\<lparr>globalConfig := x\<rparr>)
      in startPeriodicTasks (mm\<lparr>mm_config := c, mm_timers := no_timers\<rparr>))"

definition mm_reset :: "time_ms \<Rightarrow> markov_manager \<Rightarrow> markov_manager" where
  "mm_reset now mm =
     mm\<lparr>sequenceAnalyzers := clear_all now (sequenceAnalyzers mm), performanceMetrics := initializePerformanceMetrics,
        processedRequests := 0, detectedAnomalies := 0\<rparr>"

section \<open>Sessions are never given up\<close>

definition sessions :: "markov_manager \<Rightarrow> int" where
  "sessions mm = sum_list (map (\<lambda>(k, an). int (length (stateHistory (an_manager an)))) (sequenceAnalyzers mm))"

inductive mm_steps :: "markov_manager \<Rightarrow> markov_manager \<Rightarrow> bool" where
  stay: "mm_steps mm mm"
| process: "mm_steps mm mm1 \<Longrightarrow> mm_processRequest now pt d mm1 = Some (r, mm2) \<Longrightarrow> mm_steps mm mm2"
| detect: "mm_steps mm mm1 \<Longrightarrow> detectAnomalies mm1 = (n, ns, ins, mm2) \<Longrightarrow> mm_steps mm mm2"
| discover: "mm_steps mm mm1 \<Longrightarrow> mm_steps mm (snd (mm_discoverPatterns k mm1))"
| cleanup: "mm_steps mm mm1 \<Longrightarrow> mm_steps mm (mm_performCleanup now mm1)"
| collect: "mm_steps mm mm1 \<Longrightarrow> mm_steps mm (collectMetrics mm1)"
| persist: "mm_steps mm mm1 \<Longrightarrow> mm_steps mm (persistToStorage now redis_ok mm1)"
| reset: "mm_steps mm mm1 \<Longrightarrow> mm_steps mm (mm_reset now mm1)"
| shutdown: "mm_steps mm mm1 \<Longrightarrow> mm_steps mm (mm_shutdown now redis_ok mm1)"

definition history_sizes :: "(string, sequence_analyzer) js_map \<Rightarrow> int" where
  "history_sizes m = sum_list (map (\<lambda>(k, an). int (length (stateHistory (an_manager an)))) m)"

lemma sessions_sizes: "sessions mm = history_sizes (sequenceAnalyzers mm)"
  by (simp add: sessions_def history_sizes_def)

lemma pattern_manager [simp]:
  "an_manager (snd (discoverPatterns n an)) = an_manager an" "an_manager (snd (generateInsights an)) = an_manager an"
  "an_manager (analyzer_clear now an) = an_manager an"
  by (simp_all add: discoverPatterns_def generateInsights_def analyzer_clear_def Let_def)

lemma history_grows:
  "length (stateHistory (an_manager an)) \<le> length (stateHistory (an_manager (snd (analyzer_processRequest now d an))))"
  by (simp add: process_parts addToSequence_def Let_def length_update)

lemma process_all_grows: "history_sizes m \<le> history_sizes (snd (process_all now d m))"
proof (induction m)
  case (Cons e m)
  then show ?case
    using history_grows [of "snd e" now d]
    by (cases e) (auto simp: history_sizes_def split_def Let_def)
qed simp

lemma same_sizes [simp]:
  "history_sizes (snd (insights_of_first m)) = history_sizes m"
  "history_sizes (snd (discover_all n m)) = history_sizes m"
  "history_sizes (clear_all now m) = history_sizes m"
  by (induction m rule: insights_of_first.induct; simp add: history_sizes_def split_def Let_def)
     (induction m; auto simp: history_sizes_def split_def Let_def clear_all_def comp_def)+

lemma sessions_steps: "mm_steps mm mm' \<Longrightarrow> sessions mm \<le> sessions mm' \<and> mm_config mm' = mm_config mm"
proof (induction rule: mm_steps.induct)
  case (process mm mm1 now pt d r mm2)
  have "mm_config mm2 = mm_config mm1"
    using process.hyps(2) by (auto simp: mm_processRequest_def Let_def split_def updatePerformanceMetrics_def split: if_splits)
  moreover have "history_sizes (sequenceAnalyzers mm2) = history_sizes (snd (process_all now d (sequenceAnalyzers mm1)))"
    using process.hyps(2) by (auto simp: mm_processRequest_def Let_def split_def updatePerformanceMetrics_def split: if_splits)
  ultimately show ?case using process.IH process_all_grows [of "sequenceAnalyzers mm1" now d] by (simp add: sessions_sizes)
next
  case (detect mm mm1 n ns ins mm2)
  then show ?case by (auto simp: detectAnomalies_def Let_def split_def sessions_sizes split: if_splits)
qed (auto simp: sessions_sizes mm_discoverPatterns_def mm_performCleanup_def collectMetrics_def persistToStorage_def mm_reset_def
    mm_shutdown_def Let_def split_def)

lemma analyzer_memory: "200 * int (length (stateHistory (an_manager an))) \<le> as_memoryUsage (analyzer_getStatistics an)"
proof -
  have "200 * int (length h) \<le> sum_list (map (\<lambda>(k, sq). int (length (sq_states sq)) * 500 + 200) h)" for h :: "(string, state_sequence) js_map"
    by (induction h) auto
  moreover have "0 \<le> chain_memoryUsage ch" for ch
    by (auto simp: chain_memoryUsage_def intro!: add_nonneg_nonneg sum_list_nonneg)
  ultimately show ?thesis
    by (simp add: analyzer_getStatistics_def sm_getStatistics_def Let_def chain_getStatistics_def manager_memoryUsage_def add_increasing2)
qed

lemma total_memory: "200 * sessions mm \<le> getTotalMemoryUsage mm"
proof -
  have "200 * history_sizes m \<le> sum_list (map (\<lambda>(k, an). as_memoryUsage (analyzer_getStatistics an)) m)" for m
  proof (induction m)
    case (Cons e m)
    then show ?case using analyzer_memory [of "snd e"] by (simp add: history_sizes_def split_def)
  qed (simp add: history_sizes_def)
  then show ?thesis by (simp add: sessions_sizes getTotalMemoryUsage_def)
qed

section \<open>Properties\<close>

text \<open>
  No operation of a running manager gives up a session: clean-up, reset and shutdown clear what the chains have learned
  and keep every sequence. Once the sessions alone need more than the memory limit the manager stays unhealthy
  for ever, and every clean-up erases all learned transitions without freeing what fills the memory.
\<close>
theorem sessions_never_freed:
  assumes "mm_steps mm mm'"
  shows "sessions mm \<le> sessions mm'
    \<and> (200 * sessions mm > maxMemoryUsage (globalConfig (mm_config mm)) \<longrightarrow>
       \<not> mm_isMemoryUsageHealthy mm' \<and> (\<forall>(k, an)\<in>set (sequenceAnalyzers (mm_performCleanup now mm')). tm_transitions (ch_matrix (an_chain an)) = []))"
proof -
  have s: "sessions mm \<le> sessions mm'" "mm_config mm' = mm_config mm" using sessions_steps [OF assms] by auto
  have "\<not> mm_isMemoryUsageHealthy mm'" if "200 * sessions mm > maxMemoryUsage (globalConfig (mm_config mm))"
    using that s total_memory [of mm'] by (simp add: mm_isMemoryUsageHealthy_def)
  moreover have "\<forall>(k, an)\<in>set (sequenceAnalyzers (mm_performCleanup now mm')). tm_transitions (ch_matrix (an_chain an)) = []"
    if "\<not> mm_isMemoryUsageHealthy mm'"
    using that by (auto simp: mm_performCleanup_def clear_all_def analyzer_clear_def clear_chain_def initializeTransitionMatrix_def)
  ultimately show ?thesis using s by blast
qed

definition running_manager :: markov_manager where
  "running_manager = mm_initialize 0 Failed Failed (new_markov_manager getMarkovManagerConfig 0)"

theorem sessions_never_freed_witness:
  "sessions running_manager \<le> sessions (mm_performCleanup 5 (mm_reset 4 running_manager))"
  using sessions_never_freed [of running_manager "mm_performCleanup 5 (mm_reset 4 running_manager)" 6]
  by (blast intro: mm_steps.intros)

end
