(* ===== verification/BehavioralIntegration.thy ===== *)
theory BehavioralIntegration
  imports MarkovManagement SketchConfig
begin

text \<open>
  The integration of the behavioural models into threat analysis (\<^verbatim>\<open>backend/src/services/BehavioralIntegration.ts\<close>) over the Markov manager. The weight that
  is read from the environment may be NaN, so the risk score of a request is a \<open>jsnum\<close>. The catch branches are unreachable here, since the
  model's operations of an initialised manager do not throw. \<^verbatim>\<open>journey.deviations\<close> is created empty and never filled, so it is left out with what
  depends on its length. Texts are constructors, and the pattern in an indicator, which only its text repeats, is left out.
\<close>

section \<open>Object\<close>

record risk_weights =
  rw_sequenceAnomaly :: jsnum
  rw_patternDeviation :: real
  rw_transitionRisk :: real
  rw_contextViolation :: real

record behavioral_integration =
  markovManager :: markov_manager
  bi_initialized :: bool
  riskWeights :: risk_weights

definition new_behavioral_integration :: "env_vars \<Rightarrow> time_ms \<Rightarrow> behavioral_integration" where
  "new_behavioral_integration env now =
     \<lparr>markovManager = new_markov_manager getMarkovManagerConfig now, bi_initialized = False,
      riskWeights = \<lparr>rw_sequenceAnomaly = parseFloat (env_or env ''MARKOV_BEHAVIORAL_ANOMALY_WEIGHT'' ''0.4''), rw_patternDeviation = 3 / 10,
        rw_transitionRisk = 2 / 10, rw_contextViolation = 1 / 10\<rparr>\<rparr>"

definition bi_initialize :: "time_ms \<Rightarrow> performance_metrics reply \<Rightarrow> (nat \<times> nat) reply \<Rightarrow> behavioral_integration \<Rightarrow> behavioral_integration" where
  "bi_initialize now saved stats b =
     b\<lparr>markovManager := mm_initialize now saved stats (markovManager b), bi_initialized := True\<rparr>"

section \<open>Risk of a request\<close>

definition bi_determineRiskLevel :: "jsnum \<Rightarrow> risk_level" where
  "bi_determineRiskLevel score =
     (if js_greater score (8 / 10) then Risk_critical
      else if js_greater score (6 / 10) then Risk_high
      else if js_greater score (4 / 10) then Risk_medium else Risk_low)"

datatype risk_cause = Cause_rare_sequence | Cause_pattern_deviation

record risk_contribution =
  cf_factor :: risk_cause
  cf_weight :: jsnum
  cf_severity :: jsnum

record behavioral_risk =
  br_score :: jsnum
  br_confidence :: real
  br_riskLevel :: risk_level
  br_factors :: "risk_contribution list"
  br_percentile :: real

definition raw_risk :: "risk_weights \<Rightarrow> anomaly_result \<Rightarrow> sequence_prediction \<Rightarrow> user_journey \<Rightarrow> jsnum" where
  "raw_risk w r p j =
     (let s = js_times (Fin (ar_anomalyScore r)) (rw_sequenceAnomaly w);
          s = (if isAnomalous p then js_add s (js_scale (rw_patternDeviation w) (anomalyScore p)) else s);
          transitionRisk = (case nextStates p of [] \<Rightarrow> 5 / 10 | n # _ \<Rightarrow> 1 - ns_probability n);
          s = js_add s (Fin (transitionRisk * rw_transitionRisk w));
          s = (if ar_type r = Context_mismatch then js_add s (Fin (8 / 10 * rw_contextViolation w)) else s)
      in if jy_isAnomalous j then js_add s (Fin (jy_riskScore j * (2 / 10))) else s)"

definition calculateBehavioralRiskScore :: "anomaly_result \<Rightarrow> sequence_prediction \<Rightarrow> user_journey \<Rightarrow> behavioral_integration \<Rightarrow> behavioral_risk" where
  "calculateBehavioralRiskScore r p j b =
     (let w = riskWeights b;
          score = js_min (js_max (raw_risk w r p j) (Fin 0)) (Fin 1)
      in \<lparr>br_score = score, br_confidence = min (95 / 100) (ar_confidence r + 1 / 10), br_riskLevel = bi_determineRiskLevel score,
          br_factors = \<lparr>cf_factor = Cause_rare_sequence, cf_weight = rw_sequenceAnomaly w, cf_severity = Fin (ar_anomalyScore r)\<rparr>
            # (if isAnomalous p
               then [\<lparr>cf_factor = Cause_pattern_deviation, cf_weight = Fin (rw_patternDeviation w), cf_severity = anomalyScore p\<rparr>] else []),
          br_percentile = (if js_greater score (5 / 10) then 8 / 10 else 4 / 10)\<rparr>)"

section \<open>Indicators\<close>

datatype threat_type =
  Tt_sequence_anomaly | Tt_pattern_break | Tt_impossible_transition | Tt_timing_anomaly | Tt_context_violation

fun mapAnomalyToThreatType :: "anomaly_type \<Rightarrow> threat_type" where
  "mapAnomalyToThreatType Rare_sequence = Tt_sequence_anomaly"
| "mapAnomalyToThreatType Impossible_sequence = Tt_impossible_transition"
| "mapAnomalyToThreatType Timing_anomaly = Tt_timing_anomaly"
| "mapAnomalyToThreatType Context_mismatch = Tt_context_violation"
| "mapAnomalyToThreatType Pattern_break = Tt_pattern_break"

record bi_indicator =
  ti_type :: threat_type
  ti_severity :: risk_level
  ti_confidence :: real

definition generateThreatIndicators :: "anomaly_result \<Rightarrow> user_journey \<Rightarrow> bi_indicator list" where
  "generateThreatIndicators r j =
     (if ar_isAnomalous r
      then [\<lparr>ti_type = mapAnomalyToThreatType (ar_type r), ti_severity = ar_severity r, ti_confidence = ar_confidence r\<rparr>] else [])
     @ (if jy_isAnomalous j
        then [\<lparr>ti_type = Tt_sequence_anomaly, ti_severity = (if jy_riskScore j > 8 / 10 then Risk_critical else Risk_high),
               ti_confidence = 8 / 10\<rparr>] else [])"

datatype bi_recommendation =
  Rc_investigate | Rc_block | Rc_monitor_closely | Rc_authenticate | Rc_monitor | Rc_log | Rc_of_anomaly anomaly_result | Rc_unable

text \<open>The recommendations of the anomaly analysis are a function of its result.\<close>

definition bi_generateRecommendations :: "anomaly_result \<Rightarrow> behavioral_risk \<Rightarrow> bi_recommendation list" where
  "bi_generateRecommendations r risk =
     (case br_riskLevel risk of
        Risk_critical \<Rightarrow> [Rc_investigate, Rc_block]
      | Risk_high \<Rightarrow> [Rc_monitor_closely, Rc_authenticate]
      | Risk_medium \<Rightarrow> [Rc_monitor, Rc_log]
      | Risk_low \<Rightarrow> []) @ [Rc_of_anomaly r]"

record sequence_data =
  sd_riskScore :: jsnum
  sd_anomalyScore :: real
  sd_confidence :: real
  sd_riskLevel :: risk_level
  sd_behavioralState :: string
  sd_predictedNextStates :: "(string \<times> real \<times> risk_level) list"
  sd_anomalyDetails :: "anomaly_result option"
  sd_journey :: "user_journey option"
  sd_insights :: "behavioral_insight list"
  sd_recommendations :: "bi_recommendation list"
  sd_threatIndicators :: "bi_indicator list"

definition getDefaultBehavioralData :: sequence_data where
  "getDefaultBehavioralData =
     \<lparr>sd_riskScore = Fin 0, sd_anomalyScore = 0, sd_confidence = 5 / 10, sd_riskLevel = Risk_low, sd_behavioralState = ''unknown'',
      sd_predictedNextStates = [], sd_anomalyDetails = None, sd_journey = None, sd_insights = [], sd_recommendations = [Rc_unable],
      sd_threatIndicators = []\<rparr>"

definition data_of_result :: "process_result \<Rightarrow> behavioral_insight list \<Rightarrow> behavioral_integration \<Rightarrow> sequence_data" where
  "data_of_result pr insights b =
     (let r = pr_anomaly pr; p = pr_prediction pr; j = pr_journey pr; risk = calculateBehavioralRiskScore r p j b
      in \<lparr>sd_riskScore = br_score risk, sd_anomalyScore = ar_anomalyScore r, sd_confidence = br_confidence risk, sd_riskLevel = br_riskLevel risk,
          sd_behavioralState = state_key (pr_state pr),
          sd_predictedNextStates = map (\<lambda>n. (ns_state n, ns_probability n, ns_riskLevel n)) (nextStates p),
          sd_anomalyDetails = Some r, sd_journey = Some j, sd_insights = insights,
          sd_recommendations = bi_generateRecommendations r risk, sd_threatIndicators = generateThreatIndicators r j\<rparr>)"

text \<open>\<open>None\<close>: the integration is not initialised and throws.\<close>

definition bi_processRequest ::
  "time_ms \<Rightarrow> real \<Rightarrow> request_data \<Rightarrow> behavioral_integration \<Rightarrow> (sequence_data \<times> behavioral_integration) option" where
  "bi_processRequest now processingTime d b =
     (if \<not> bi_initialized b then None
      else case mm_processRequest now processingTime d (markovManager b) of
             None \<Rightarrow> Some (getDefaultBehavioralData, b)
           | Some (result, mm) \<Rightarrow>
               (let b = b\<lparr>markovManager := mm\<rparr>
                in case mr_primary result of
                     None \<Rightarrow> Some (getDefaultBehavioralData, b)
                   | Some pr \<Rightarrow> Some (data_of_result pr (mr_insights result) b, b)))"

section \<open>Risk of a session\<close>

definition calculateJourneyRiskScore :: "user_journey \<Rightarrow> real" where
  "calculateJourneyRiskScore j =
     (let s = jy_riskScore j;
          s = (if \<not> jy_isCompleted j \<and> length (jy_path j) > 5 then s + 1 / 10 else s);
          s = (if jy_isAnomalous j then s + 3 / 10 else s)
      in min (max s 0) 1)"

definition bi_identifyRiskFactors :: "user_journey \<Rightarrow> risk_contribution list" where
  "bi_identifyRiskFactors j =
     (if jy_isAnomalous j
      then [\<lparr>cf_factor = Cause_pattern_deviation, cf_weight = Fin (4 / 10),
             cf_severity = Fin (if jy_riskScore j = 0 then 5 / 10 else jy_riskScore j)\<rparr>] else [])
     @ (if \<not> jy_isCompleted j \<and> length (jy_path j) > 5
        then [\<lparr>cf_factor = Cause_pattern_deviation, cf_weight = Fin (2 / 10), cf_severity = Fin (3 / 10)\<rparr>] else [])"

datatype journey_advice = Ja_investigate | Ja_completion

definition generateJourneyRecommendations :: "user_journey \<Rightarrow> journey_advice list" where
  "generateJourneyRecommendations j = (if jy_isAnomalous j then [Ja_investigate] else []) @ (if \<not> jy_isCompleted j then [Ja_completion] else [])"

record risk_assessment =
  ra_score :: real
  ra_confidence :: real
  ra_riskLevel :: risk_level
  ra_factors :: "risk_contribution list"
  ra_recommendations :: "journey_advice list"
  ra_comparison :: "real \<times> real \<times> real"

definition getBehavioralRiskAssessment ::
  "time_ms \<Rightarrow> string \<Rightarrow> behavioral_integration \<Rightarrow> (risk_assessment option \<times> behavioral_integration) option" where
  "getBehavioralRiskAssessment now sid b =
     (if \<not> bi_initialized b then None
      else case map_of (sequenceAnalyzers (markovManager b)) ''primary'' of
             None \<Rightarrow> Some (None, b)
           | Some an \<Rightarrow>
               (let (journey, an) = analyzeUserJourney now sid an;
                    b = b\<lparr>markovManager := (markovManager b)\<lparr>sequenceAnalyzers := map_set ''primary'' an (sequenceAnalyzers (markovManager b))\<rparr>\<rparr>
                in case journey of
                     None \<Rightarrow> Some (None, b)
                   | Some j \<Rightarrow>
                       (let score = calculateJourneyRiskScore j
                        in Some (Some \<lparr>ra_score = score, ra_confidence = 8 / 10, ra_riskLevel = bi_determineRiskLevel (Fin score),
                             ra_factors = bi_identifyRiskFactors j, ra_recommendations = generateJourneyRecommendations j,
                             ra_comparison = (3 / 10, 25 / 100, 7 / 10)\<rparr>, b))))"

section \<open>Risk of the system\<close>

datatype system_threat = St_sequence_anomaly | St_pattern_deviation | St_journey_anomaly

record system_indicator =
  si_type :: system_threat
  si_severity :: risk_level
  si_affectedSessions :: nat
  si_confidence :: real

definition indicator_of_insight :: "behavioral_insight \<Rightarrow> system_indicator list" where
  "indicator_of_insight i =
     (let ind = \<lambda>t s. [\<lparr>si_type = t, si_severity = s, si_affectedSessions = in_affectedUsers i, si_confidence = in_confidence i\<rparr>]
      in case in_kind i of
           Anomalous_sequence \<Rightarrow> ind St_sequence_anomaly (in_impact i)
         | Rare_behavior \<Rightarrow> ind St_pattern_deviation Risk_medium
         | Journey_abandonment \<Rightarrow> ind St_journey_anomaly Risk_medium
         | Common_pattern \<Rightarrow> [])"

definition indicator_of_pattern :: "behavioral_pattern \<Rightarrow> system_indicator list" where
  "indicator_of_pattern p =
     (if bp_riskLevel p = Risk_high \<or> bp_riskLevel p = Risk_critical
      then [\<lparr>si_type = St_pattern_deviation, si_severity = bp_riskLevel p, si_affectedSessions = length (bp_examples p),
             si_confidence = bp_confidence p\<rparr>] else [])"

fun bi_severity_weight :: "risk_level \<Rightarrow> real" where
  "bi_severity_weight Risk_low = 2 / 10"
| "bi_severity_weight Risk_medium = 5 / 10"
| "bi_severity_weight Risk_high = 8 / 10"
| "bi_severity_weight Risk_critical = 1"

definition bi_calculateOverallThreatRisk :: "system_indicator list \<Rightarrow> real" where
  "bi_calculateOverallThreatRisk inds =
     (if inds = [] then 0
      else
        let totalRisk = foldl (\<lambda>s i. s + bi_severity_weight (si_severity i) * si_confidence i) 0 inds;
            totalWeight = foldl (\<lambda>s i. s + si_confidence i) 0 inds
        in if totalWeight > 0 then min (totalRisk / totalWeight) 1 else 0)"

datatype bi_summary = Ts_none | Ts_critical nat nat | Ts_high nat | Ts_moderate nat

definition bi_generateThreatSummary :: "system_indicator list \<Rightarrow> bi_summary" where
  "bi_generateThreatSummary inds =
     (if inds = [] then Ts_none
      else
        let criticalCount = length (filter (\<lambda>i. si_severity i = Risk_critical) inds);
            highCount = length (filter (\<lambda>i. si_severity i = Risk_high) inds)
        in if criticalCount > 0 then Ts_critical criticalCount highCount
           else if highCount > 0 then Ts_high highCount else Ts_moderate (length inds))"

definition getBehavioralThreatIndicators ::
  "behavioral_integration \<Rightarrow> (system_indicator list \<times> real \<times> bi_summary) \<times> behavioral_integration" where
  "getBehavioralThreatIndicators b =
     (let (total, byAnalyzer, insights, mm) = detectAnomalies (markovManager b);
          (dv, mm) = mm_discoverPatterns 3 mm;
          inds = concat (map indicator_of_insight insights) @ concat (map indicator_of_pattern (dv_anomalous dv))
      in ((inds, bi_calculateOverallThreatRisk inds, bi_generateThreatSummary inds), b\<lparr>markovManager := mm\<rparr>))"

record summary_statistics =
  ss_sequences :: nat
  ss_patterns :: nat
  ss_anomalies :: nat
  ss_averageRisk :: real
  ss_highRisk :: int
  ss_memory :: int
  ss_healthy :: bool
  ss_lastAnalysis :: time_ms

definition bi_getSummaryStatistics :: "time_ms \<Rightarrow> behavioral_integration \<Rightarrow> summary_statistics \<times> behavioral_integration" where
  "bi_getSummaryStatistics now b =
     (if \<not> bi_initialized b
      then (\<lparr>ss_sequences = 0, ss_patterns = 0, ss_anomalies = 0, ss_averageRisk = 0, ss_highRisk = 0, ss_memory = 0, ss_healthy = False,
             ss_lastAnalysis = now\<rparr>, b)
      else
        let mm = markovManager b;
            stats = map (\<lambda>(k, an). analyzer_getStatistics an) (sequenceAnalyzers mm);
            anomalies = sum_list (map as_anomaliesDetected stats);
            (dv, mm') = mm_discoverPatterns 1 mm
        in (\<lparr>ss_sequences = sum_list (map as_totalSequencesAnalyzed stats), ss_patterns = dv_total dv, ss_anomalies = anomalies,
             ss_averageRisk = mm_anomalyRate mm * (7 / 10), ss_highRisk = \<lfloor>real anomalies * (3 / 10)\<rfloor>, ss_memory = getTotalMemoryUsage mm,
             ss_healthy = fst (mm_getHealthStatus mm), ss_lastAnalysis = now\<rparr>, b\<lparr>markovManager := mm'\<rparr>))"

definition bi_isHealthy :: "behavioral_integration \<Rightarrow> bool" where
  "bi_isHealthy b \<longleftrightarrow> bi_initialized b \<and> fst (mm_getHealthStatus (markovManager b))"

definition bi_shutdown :: "time_ms \<Rightarrow> bool \<Rightarrow> behavioral_integration \<Rightarrow> behavioral_integration" where
  "bi_shutdown now redis_ok b = b\<lparr>markovManager := mm_shutdown now redis_ok (markovManager b), bi_initialized := False\<rparr>"

section \<open>Bounds of the risk score\<close>

lemma clamp_unit: "v \<noteq> NaN \<Longrightarrow> \<exists>x. js_min (js_max v (Fin 0)) (Fin 1) = Fin x \<and> 0 \<le> x \<and> x \<le> 1"
  by (cases v) auto

lemma min_one_finite: "js_greater (js_min (Fin 1) v) x \<Longrightarrow> \<exists>y. js_min (Fin 1) v = Fin y"
  by (cases v) auto

lemma prediction_finite:
  assumes "isAnomalous (fst (predictNext sts ch))"
  shows "\<exists>x. anomalyScore (fst (predictNext sts ch)) = Fin x"
proof -
  have "\<exists>x. calculateAnomalyScore ps = Fin x" if "js_greater (calculateAnomalyScore ps) (7 / 10)" for ps
    using that min_one_finite by (cases ps) (simp_all add: calculateAnomalyScore_def Let_def)
  then show ?thesis using assms by (auto simp: predictNext_def getDefaultPrediction_def Let_def split_def split: if_splits)
qed

lemma process_prediction: "\<exists>sts ch. pr_prediction (fst (analyzer_processRequest now d an)) = fst (predictNext sts ch)"
  by (auto simp: analyzer_processRequest_def Let_def split_def)

lemma process_all_first: "fst (process_all now d m) = (k, r) # rest \<Longrightarrow> \<exists>an. r = fst (analyzer_processRequest now d an)"
  by (cases m) (auto simp: Let_def split_def)

lemma primary_result:
  "mm_processRequest now pt d mm = Some (result, mm') \<Longrightarrow> mr_primary result = Some pr \<Longrightarrow> \<exists>an. pr = fst (analyzer_processRequest now d an)"
  using process_all_first [of now d "sequenceAnalyzers mm"]
  by (auto simp: mm_processRequest_def Let_def split_def split: if_splits list.splits)

lemma processed_cases:
  assumes "bi_processRequest now pt d b = Some (sd, b')"
  shows "sd = getDefaultBehavioralData \<or> (\<exists>an ins c. riskWeights c = riskWeights b \<and> sd = data_of_result (fst (analyzer_processRequest now d an)) ins c)"
proof (cases "mm_processRequest now pt d (markovManager b)")
  case None
  then show ?thesis using assms by (auto simp: bi_processRequest_def split: if_splits)
next
  case (Some rm)
  obtain result mm where rm: "rm = (result, mm)" by (cases rm)
  show ?thesis
  proof (cases "mr_primary result")
    case None
    then show ?thesis using assms Some rm by (auto simp: bi_processRequest_def split: if_splits)
  next
    case (Some pr)
    then obtain an where "pr = fst (analyzer_processRequest now d an)"
      using primary_result \<open>mm_processRequest now pt d (markovManager b) = Some rm\<close> rm by metis
    moreover have "sd = data_of_result pr (mr_insights result) (b\<lparr>markovManager := mm\<rparr>)"
      using assms Some \<open>mm_processRequest now pt d (markovManager b) = Some rm\<close> rm by (auto simp: bi_processRequest_def Let_def split: if_splits)
    ultimately show ?thesis by (intro disjI2 exI [of _ an] exI [of _ "mr_insights result"] exI [of _ "b\<lparr>markovManager := mm\<rparr>"]) simp
  qed
qed

lemma raw_risk_number:
  assumes "rw_sequenceAnomaly w = Fin x" and "isAnomalous p \<Longrightarrow> \<exists>y. anomalyScore p = Fin y"
  shows "raw_risk w r p j \<noteq> NaN"
  using assms by (cases "isAnomalous p") (auto simp: raw_risk_def Let_def)


text \<open>
  A weight that is not a number (\<^verbatim>\<open>MARKOV_BEHAVIORAL_ANOMALY_WEIGHT=high\<close>, say) silences the integration: the score of every request an analyzer
  processes is NaN and its level is low.\<close>
theorem malformed_weight_silences:
  assumes "rw_sequenceAnomaly (riskWeights b) = NaN" and "bi_processRequest now pt d b = Some (sd, b')"
  shows "sd_riskLevel sd = Risk_low \<and> (sd_anomalyDetails sd \<noteq> None \<longrightarrow> sd_riskScore sd = NaN)"
proof -
  have raw: "raw_risk (riskWeights b) r p j = NaN" for r p j using assms(1) by (simp add: raw_risk_def Let_def)
  show ?thesis using processed_cases [OF assms(2)]
    by (auto simp: getDefaultBehavioralData_def data_of_result_def calculateBehavioralRiskScore_def raw bi_determineRiskLevel_def Let_def)
qed

section \<open>Overall risk\<close>

lemma foldl_sum: "foldl (\<lambda>s i. s + f i) a xs = a + sum_list (map f xs)" for a :: real
  by (induction xs arbitrary: a) simp_all

lemma weighted_between:
  fixes f g :: "'a \<Rightarrow> real"
  assumes "\<forall>i \<in> set xs. lo \<le> f i \<and> f i \<le> hi \<and> 0 \<le> g i"
  shows "lo * sum_list (map g xs) \<le> sum_list (map (\<lambda>i. f i * g i) xs)" and "sum_list (map (\<lambda>i. f i * g i) xs) \<le> hi * sum_list (map g xs)"
  using assms by (induction xs) (auto simp: distrib_left intro!: add_mono mult_right_mono)

lemma overall_between:
  assumes "inds \<noteq> []" and "\<forall>i \<in> set inds. lo \<le> bi_severity_weight (si_severity i) \<and> bi_severity_weight (si_severity i) \<le> hi \<and> 0 < si_confidence i"
    and "hi \<le> 1"
  shows "lo \<le> bi_calculateOverallThreatRisk inds \<and> bi_calculateOverallThreatRisk inds \<le> hi"
proof -
  let ?w = "sum_list (map si_confidence inds)" and ?r = "sum_list (map (\<lambda>i. bi_severity_weight (si_severity i) * si_confidence i) inds)"
  have "0 < ?w" using assms(1,2) by (induction inds) (force intro: add_pos_nonneg sum_list_nonneg)+
  moreover have "lo * ?w \<le> ?r" "?r \<le> hi * ?w"
    using weighted_between [of inds lo "bi_severity_weight \<circ> si_severity" hi si_confidence] assms(2) by (auto simp: less_imp_le)
  ultimately have "lo \<le> ?r / ?w" "?r / ?w \<le> hi" by (simp_all add: pos_le_divide_eq pos_divide_le_eq)
  then show ?thesis using assms(1,3) \<open>0 < ?w\<close> by (simp add: bi_calculateOverallThreatRisk_def Let_def foldl_sum)
qed

lemma discovered_confident: "1 \<le> n \<Longrightarrow> p \<in> set (fst (discoverPatterns n an)) \<Longrightarrow> 0 < bp_confidence p"
  by (auto simp: discoverPatterns_def to_pattern_def Let_def split_def)

lemma insights_confident: "i \<in> set (fst (generateInsights an)) \<Longrightarrow> 0 < in_confidence i \<and> (in_kind i = Anomalous_sequence \<longrightarrow> in_impact i \<in> {Risk_high, Risk_critical})"
  using discovered_confident [of 3 _ an]
  by (auto simp: generateInsights_def Let_def split_def dest!: in_set_takeD split: if_splits)

lemma discover_all_confident:
  "1 \<le> n \<Longrightarrow> (k, ps) \<in> set (fst (discover_all n m)) \<Longrightarrow> p \<in> set ps \<Longrightarrow> 0 < bp_confidence p"
proof (induction m)
  case (Cons e m)
  obtain name an where e: "e = (name, an)" by (cases e)
  then show ?case using Cons discovered_confident [of n p an] by (auto simp: Let_def split_def)
qed simp

lemma first_insights: "i \<in> set (fst (insights_of_first m)) \<Longrightarrow> \<exists>an. i \<in> set (fst (generateInsights an))"
  by (cases m rule: insights_of_first.cases) (auto simp: Let_def split_def)

text \<open>
  The overall behavioural risk of the system is 0 with the summary that there is no threat, or at least 0.5 and at most 1: there is no indicator
  below medium severity.\<close>
theorem system_risk_gap:
  "let ((inds, risk, summary), b') = getBehavioralThreatIndicators b
   in inds = [] \<and> risk = 0 \<and> summary = Ts_none \<or> inds \<noteq> [] \<and> 5 / 10 \<le> risk \<and> risk \<le> 1 \<and> summary \<noteq> Ts_none"
proof -
  obtain inds risk summary b' where g: "getBehavioralThreatIndicators b = ((inds, risk, summary), b')"
    by (cases "getBehavioralThreatIndicators b") auto
  have "5 / 10 \<le> bi_severity_weight (si_severity i) \<and> bi_severity_weight (si_severity i) \<le> 1 \<and> 0 < si_confidence i" if "i \<in> set inds" for i
  proof -
    have "i \<in> set (indicator_of_insight x) \<Longrightarrow> x \<in> set (fst (generateInsights an)) \<Longrightarrow> ?thesis" for x an
      using insights_confident [of x an] by (auto simp: indicator_of_insight_def Let_def split: insight_kind.splits)
    moreover have "i \<in> set (indicator_of_pattern x) \<Longrightarrow> 0 < bp_confidence x \<Longrightarrow> ?thesis" for x
      by (auto simp: indicator_of_pattern_def split: if_splits)
    ultimately show ?thesis using g that
      by (fastforce simp: getBehavioralThreatIndicators_def detectAnomalies_def mm_discoverPatterns_def Let_def split_def
          dest: first_insights discover_all_confident [of 3, rotated] split: if_splits)
  qed
  then have "inds \<noteq> [] \<Longrightarrow> 5 / 10 \<le> bi_calculateOverallThreatRisk inds \<and> bi_calculateOverallThreatRisk inds \<le> 1"
    by (intro overall_between) auto
  moreover have "risk = bi_calculateOverallThreatRisk inds" "summary = bi_generateThreatSummary inds"
    using g by (auto simp: getBehavioralThreatIndicators_def Let_def split_def)
  ultimately show ?thesis unfolding g
    by (cases "inds = []") (auto simp: bi_calculateOverallThreatRisk_def bi_generateThreatSummary_def Let_def)
qed

section \<open>A fresh integration\<close>

definition started :: "env_vars \<Rightarrow> behavioral_integration" where
  "started env = bi_initialize 0 (Stored None) (Stored None) (new_behavioral_integration env 0)"

lemma started_analyzers:
  "sequenceAnalyzers (markovManager (started env)) = [(''primary'', new_analyzer getDefaultMarkovChainConfig (Some getAnomalyThresholds) 0)]"
  "bi_initialized (started env)" "isInitialized (markovManager (started env))"
  "riskWeights (started env) = riskWeights (new_behavioral_integration env 0)"
  by (simp_all add: started_def bi_initialize_def new_behavioral_integration_def mm_initialize_def new_markov_manager_def create_analyzers_def
      getMarkovManagerConfig_def loadFromPersistence_def startPeriodicTasks_def Let_def)

text \<open>The first state of a session is too little for a chain of order 2 and for a judgement.\<close>

lemma fresh_session:
  assumes "stateHistory (an_manager an) = []"
  shows "length (sq_states (session_after now d an)) = 1"
  using assms by (simp add: session_after_def addToSequence_def append_state_def fresh_sequence_def Let_def split: option.splits)

lemma fresh_result:
  assumes "stateHistory (an_manager an) = []" and "journeyHistory an = []" and "mk_order (ch_config (an_chain an)) \<ge> 2"
  shows "pr_anomaly (fst (analyzer_processRequest now d an)) = getDefaultAnomalyResult (session_after now d an) False"
    and "pr_prediction (fst (analyzer_processRequest now d an)) = getDefaultPrediction Insufficient_context"
    and "\<not> jy_isAnomalous (pr_journey (fst (analyzer_processRequest now d an)))"
proof -
  note one = fresh_session [OF assms(1), of now d]
  show "pr_anomaly (fst (analyzer_processRequest now d an)) = getDefaultAnomalyResult (session_after now d an) False"
    using one by (simp add: process_parts detectSequenceAnomaly_def)
  show "pr_prediction (fst (analyzer_processRequest now d an)) = getDefaultPrediction Insufficient_context"
    using one assms(3)
    by (simp add: analyzer_processRequest_def predictNext_def js_slice_from_def slice_index_def session_after_def Let_def split_def)
  show "\<not> jy_isAnomalous (pr_journey (fst (analyzer_processRequest now d an)))"
    using assms(2) one
    by (simp add: analyzer_processRequest_def detectSequenceAnomaly_def updateUserJourney_def createUserJourney_def session_after_def Let_def split_def)
qed

text \<open>
  The first request to a fresh integration without settings, whatever it is, has a risk score of 0.3 at level low with confidence 0.6 and no
  indicator: the score is the default 0.5 for an unjudged sequence and 0.5 for an unknown next state.\<close>
theorem first_request_risk:
  assumes "env ''MARKOV_BEHAVIORAL_ANOMALY_WEIGHT'' = None"
  shows "\<exists>sd b'. bi_processRequest now pt d (started env) = Some (sd, b') \<and> sd_riskScore sd = Fin (3 / 10) \<and> sd_riskLevel sd = Risk_low
    \<and> sd_confidence sd = 6 / 10 \<and> sd_threatIndicators sd = []"
proof -
  let ?an = "new_analyzer getDefaultMarkovChainConfig (Some getAnomalyThresholds) 0"
  have w: "rw_sequenceAnomaly (riskWeights (started env)) = Fin (4 / 10)" "rw_transitionRisk (riskWeights (started env)) = 2 / 10"
    using assms
    by (simp_all add: started_analyzers new_behavioral_integration_def env_or_def parseFloat_def take_sign_def starts_with_def is_decimal_def
        decimal_value_def parse_exponent_def space_char_def)
  have fresh: "stateHistory (an_manager ?an) = []" "journeyHistory ?an = []" "mk_order (ch_config (an_chain ?an)) \<ge> 2"
    by (simp_all add: new_analyzer_def new_state_manager_def new_chain_def getDefaultMarkovChainConfig_def)
  obtain result mm where p: "mm_processRequest now pt d (markovManager (started env)) = Some (result, mm)"
    and r: "mr_primary result = Some (fst (analyzer_processRequest now d ?an))"
    by (simp add: mm_processRequest_def started_analyzers Let_def split_def)
  show ?thesis
    using w p r fresh_result [OF fresh, of now d]
    by (simp add: bi_processRequest_def started_analyzers(2) Let_def data_of_result_def calculateBehavioralRiskScore_def raw_risk_def
        getDefaultAnomalyResult_def getDefaultPrediction_def bi_determineRiskLevel_def generateThreatIndicators_def)
qed

theorem first_request_risk_witness:
  "map_option (\<lambda>x. sd_riskScore (fst x)) (bi_processRequest 0 0 plain_request (started (\<lambda>_. None))) = Some (Fin (3 / 10))"
  using first_request_risk [of "\<lambda>_. None" 0 0 plain_request] by auto

lemma started_answers: "\<exists>sd b'. bi_processRequest now pt d (started env) = Some (sd, b')"
  by (simp add: bi_processRequest_def mm_processRequest_def started_analyzers Let_def split_def)


theorem malformed_weight_silences_witness:
  "\<exists>sd b'. bi_processRequest 0 0 plain_request (started [''MARKOV_BEHAVIORAL_ANOMALY_WEIGHT'' \<mapsto> ''high'']) = Some (sd, b')
     \<and> sd_riskLevel sd = Risk_low"
proof -
  let ?env = "[''MARKOV_BEHAVIORAL_ANOMALY_WEIGHT'' \<mapsto> ''high'']"
  obtain sd b' where s: "bi_processRequest 0 0 plain_request (started ?env) = Some (sd, b')" using started_answers by blast
  have "rw_sequenceAnomaly (riskWeights (started ?env)) = NaN"
    by (simp add: started_analyzers new_behavioral_integration_def env_or_def parseFloat_def take_sign_def starts_with_def is_decimal_def
        space_char_def)
  then show ?thesis using malformed_weight_silences [OF _ s] s by blast
qed

end
