(* ===== verification/MarkovAnalytics.thy ===== *)
theory MarkovAnalytics
  imports MarkovManagement
begin

text \<open>
  The analytics over a sequence analyzer (\<^verbatim>\<open>backend/src/core/markov/MarkovAnalytics.ts\<close>): reports, trends, clusters of anomalous patterns and the export.
  The analyzer, which the code refers to, is a field. The clock, the measured latency and the random numbers of the trend estimate are
  arguments; constants the source reports as estimates are constants here. Recommendations are constructors.
\<close>

section \<open>Object\<close>

record transition_stats =
  ts_totalTransitions :: nat
  ts_averageProbability :: real
  ts_highConfidence :: nat
  ts_lowConfidence :: nat

record behavior_insights =
  bh_commonJourneys :: "user_journey list"
  bh_abandonmentPoints :: "string list"
  bh_conversionPaths :: "string list"
  bh_riskPatterns :: "string list"

record prediction_accuracy =
  pa_overall :: real
  pa_byOrder :: "(string, real) js_map"
  pa_byContext :: "(string, real) js_map"

record markov_report =
  mp_totalSequences :: nat
  mp_uniquePatterns :: nat
  mp_averageSequenceLength :: real
  mp_mostCommonPatterns :: "behavioral_pattern list"
  mp_anomalousPatterns :: "behavioral_pattern list"
  mp_transitionStats :: transition_stats
  mp_behavior :: behavior_insights
  mp_accuracy :: prediction_accuracy
  mp_start :: time_ms
  mp_end :: time_ms
  mp_duration :: int
  mp_sequenceCount :: nat
  mp_anomalyRate :: real

record analytics_metrics =
  ak_p50 :: real
  ak_memoryTotal :: int

record markov_analytics =
  ma_analyzer :: sequence_analyzer
  analyticsHistory :: "(int \<times> time_ms, markov_report) js_map"
  ma_metrics :: analytics_metrics
  lastAnalysisTime :: time_ms

text \<open>Of the performance metrics only these two are written after construction.\<close>

definition ma_initializePerformanceMetrics :: analytics_metrics where
  "ma_initializePerformanceMetrics = \<lparr>ak_p50 = 0, ak_memoryTotal = 0\<rparr>"

definition new_markov_analytics :: "sequence_analyzer \<Rightarrow> time_ms \<Rightarrow> markov_analytics" where
  "new_markov_analytics an now =
     \<lparr>ma_analyzer = an, analyticsHistory = [], ma_metrics = ma_initializePerformanceMetrics, lastAnalysisTime = now\<rparr>"

section \<open>Report\<close>

definition calculateTransitionStatistics :: transition_stats where
  "calculateTransitionStatistics =
     \<lparr>ts_totalTransitions = 1500, ts_averageProbability = 15 / 100, ts_highConfidence = 1200, ts_lowConfidence = 300\<rparr>"

definition analyzeUserBehavior :: behavior_insights where
  "analyzeUserBehavior =
     \<lparr>bh_commonJourneys = [], bh_abandonmentPoints = [''login_attempt'', ''form_submit'', ''search''],
      bh_conversionPaths = [''page_view'', ''search'', ''click'', ''form_submit''],
      bh_riskPatterns = [''login_failure'', ''error_403'', ''suspicious_activity'']\<rparr>"

definition ma_calculatePredictionAccuracy :: prediction_accuracy where
  "ma_calculatePredictionAccuracy =
     \<lparr>pa_overall = 85 / 100, pa_byOrder = [(''1'', 78 / 100), (''2'', 87 / 100), (''3'', 82 / 100)],
      pa_byContext = [(''normal'', 89 / 100), (''authenticated'', 91 / 100), (''suspicious'', 76 / 100), (''anonymous'', 82 / 100),
        (''privileged'', 88 / 100), (''restricted'', 79 / 100)]\<rparr>"

definition ma_updatePerformanceMetrics :: "real \<Rightarrow> markov_analytics \<Rightarrow> markov_analytics" where
  "ma_updatePerformanceMetrics latency a =
     a\<lparr>ma_metrics := \<lparr>ak_p50 = latency, ak_memoryTotal = as_memoryUsage (analyzer_getStatistics (ma_analyzer a))\<rparr>\<rparr>"

definition generateAnalyticsReport :: "time_ms \<Rightarrow> real \<Rightarrow> int \<Rightarrow> markov_analytics \<Rightarrow> markov_report \<times> markov_analytics" where
  "generateAnalyticsReport now latency hours a =
     (let (ps, an) = discoverPatterns 2 (ma_analyzer a);
          by_frequency = sort_key (\<lambda>p. - int (bp_frequency p));
          stats = analyzer_getStatistics an;
          r = \<lparr>mp_totalSequences = as_totalSequencesAnalyzed stats, mp_uniquePatterns = as_uniquePatternsDiscovered stats,
               mp_averageSequenceLength = as_averageSequenceLength stats,
               mp_mostCommonPatterns = take 10 (by_frequency (filter (\<lambda>p. \<not> bp_isAnomalous p) ps)),
               mp_anomalousPatterns = take 5 (by_frequency (filter bp_isAnomalous ps)),
               mp_transitionStats = calculateTransitionStatistics, mp_behavior = analyzeUserBehavior, mp_accuracy = ma_calculatePredictionAccuracy,
               mp_start = now - hours * 60 * 60 * 1000, mp_end = now, mp_duration = hours * 60 * 60 * 1000,
               mp_sequenceCount = as_totalSequencesAnalyzed stats,
               mp_anomalyRate = real (as_anomaliesDetected stats) / real (max (as_totalSequencesAnalyzed stats) 1)\<rparr>
      in (r, ma_updatePerformanceMetrics latency
               (a\<lparr>ma_analyzer := an, analyticsHistory := map_set (hours, now) r (analyticsHistory a), lastAnalysisTime := now\<rparr>)))"

section \<open>Trends\<close>

datatype behavior_trend = Bt_improving | Bt_stable | Bt_degrading

datatype trend_advice =
    Ta_improving | Ta_continue | Ta_less_sensitive | Ta_more_monitoring | Ta_investigate_changes | Ta_more_measures | Ta_maintain | Ta_review
  | Ta_high_anomaly_rate

definition generateTrendRecommendations :: "behavior_trend \<Rightarrow> real \<Rightarrow> trend_advice list" where
  "generateTrendRecommendations trend anomalyRate =
     (case trend of
        Bt_improving \<Rightarrow> [Ta_improving, Ta_continue, Ta_less_sensitive]
      | Bt_degrading \<Rightarrow> [Ta_more_monitoring, Ta_investigate_changes, Ta_more_measures]
      | Bt_stable \<Rightarrow> [Ta_maintain, Ta_review])
     @ (if anomalyRate > 1 / 10 then [Ta_high_anomaly_rate] else [])"

record trend_period =
  tp_sequenceCount :: int
  tp_anomalyRate :: real
  tp_topPatterns :: "string list"
  tp_riskScore :: real

definition trend_period_of :: "real \<times> real \<times> real \<Rightarrow> trend_period" where
  "trend_period_of u =
     (let (u1, u2, u3) = u
      in \<lparr>tp_sequenceCount = \<lfloor>u1 * 100\<rfloor> + 50, tp_anomalyRate = u2 * (1 / 10),
          tp_topPatterns = [''page_view:normal'', ''click:normal'', ''search:normal''], tp_riskScore = u3 * (3 / 10)\<rparr>)"

text \<open>\<open>draws\<close>: three random numbers for each period, the latest first. The start of a period is determined by its position.\<close>

definition analyzeBehavioralTrends :: "(real \<times> real \<times> real) list \<Rightarrow> trend_period list \<times> behavior_trend \<times> trend_advice list" where
  "analyzeBehavioralTrends draws =
     (let trends = map trend_period_of draws;
          rate = \<lambda>ts. sum_list (map tp_anomalyRate ts) / 3;
          recent = rate (js_slice 0 3 trends);
          older = rate (js_slice_from (- 3) trends);
          trend = (if recent < older * (8 / 10) then Bt_improving else if recent > older * (12 / 10) then Bt_degrading else Bt_stable)
      in (trends, trend, generateTrendRecommendations trend recent))"

section \<open>Clusters\<close>

text \<open>The key of a cluster is the text of the risk level and of the contexts, which no other pair has.\<close>

definition cluster_add ::
  "behavioral_pattern \<Rightarrow> (risk_level \<times> behavioral_context list, behavioral_pattern list) js_map
     \<Rightarrow> (risk_level \<times> behavioral_context list, behavioral_pattern list) js_map" where
  "cluster_add p m =
     (let key = (bp_riskLevel p, bp_contexts p)
      in map_set key ((case map_of m key of None \<Rightarrow> [] | Some ps \<Rightarrow> ps) @ [p]) m)"

definition clusterPatterns :: "behavioral_pattern list \<Rightarrow> behavioral_pattern list list" where
  "clusterPatterns ps = map snd (fold cluster_add ps [])"

definition calculateClusterSeverity :: "behavioral_pattern list \<Rightarrow> risk_level" where
  "calculateClusterSeverity cluster =
     (let criticalCount = length (filter (\<lambda>p. bp_riskLevel p = Risk_critical) cluster);
          highCount = length (filter (\<lambda>p. bp_riskLevel p = Risk_high) cluster)
      in if criticalCount > 0 then Risk_critical
         else if real highCount > real (length cluster) * (5 / 10) then Risk_high
         else if highCount > 0 then Risk_medium else Risk_low)"

definition count_key :: "'a \<Rightarrow> ('a, nat) js_map \<Rightarrow> ('a, nat) js_map" where
  "count_key k m = map_set k ((case map_of m k of None \<Rightarrow> 0 | Some n \<Rightarrow> n) + 1) m"

definition action_part :: "string \<Rightarrow> string" where
  "action_part s = takeWhile (\<lambda>c. c \<noteq> CHR '':'') s"

definition findCommonActions :: "behavioral_pattern list \<Rightarrow> string list" where
  "findCommonActions ps =
     map fst (filter (\<lambda>(a, n). real n > real (length ps) * (6 / 10))
       (fold (\<lambda>p. fold count_key (map action_part (bp_sequence p))) ps []))"

datatype cluster_attribute = Common_context behavioral_context | Common_actions "string list"

definition extractCommonAttributes :: "behavioral_pattern list \<Rightarrow> cluster_attribute list" where
  "extractCommonAttributes cluster =
     (let counts = fold count_key (concat (map bp_contexts cluster)) [];
          actions = findCommonActions cluster
      in map (\<lambda>(c, n). Common_context c) (filter (\<lambda>(c, n). real n > real (length cluster) * (5 / 10)) counts)
         @ (if length actions > 0 then [Common_actions actions] else []))"

record anomaly_cluster =
  cl_index :: nat
  cl_patterns :: "behavioral_pattern list"
  cl_severity :: risk_level
  cl_affectedUsers :: nat
  cl_commonAttributes :: "cluster_attribute list"
  cl_riskScore :: real

definition pattern_risk :: "behavioral_pattern \<Rightarrow> real" where
  "pattern_risk p = (if bp_riskLevel p = Risk_critical then 1 else if bp_riskLevel p = Risk_high then 7 / 10 else 3 / 10)"

definition detectAnomalyClusters :: "markov_analytics \<Rightarrow> (anomaly_cluster list \<times> nat \<times> nat) \<times> markov_analytics" where
  "detectAnomalyClusters a =
     (let (ps, an) = discoverPatterns 1 (ma_analyzer a);
          clusters = clusterPatterns (filter bp_isAnomalous ps);
          processed = map (\<lambda>(i, cl).
            \<lparr>cl_index = i + 1, cl_patterns = cl, cl_severity = calculateClusterSeverity cl,
             cl_affectedUsers = sum_list (map (\<lambda>p. length (bp_examples p)) cl), cl_commonAttributes = extractCommonAttributes cl,
             cl_riskScore = sum_list (map pattern_risk cl) / real (length cl)\<rparr>) (enumerate 0 clusters)
      in ((processed, length clusters, length (filter (\<lambda>c. cl_severity c = Risk_high \<or> cl_severity c = Risk_critical) processed)),
          a\<lparr>ma_analyzer := an\<rparr>))"

section \<open>Insights, estimates and export\<close>

definition generateBehavioralInsights :: "markov_analytics \<Rightarrow> behavioral_insight list \<times> markov_analytics" where
  "generateBehavioralInsights a = (let (ins, an) = generateInsights (ma_analyzer a) in (ins, a\<lparr>ma_analyzer := an\<rparr>))"

record prediction_metrics =
  pmx_overall :: real
  pmx_byLength :: "(string, real) js_map"
  pmx_byContext :: "(string, real) js_map"
  pmx_distribution :: "real \<times> real \<times> real"

definition calculatePredictionMetrics :: prediction_metrics where
  "calculatePredictionMetrics =
     \<lparr>pmx_overall = 85 / 100, pmx_byLength = [(''short (2-3)'', 78 / 100), (''medium (4-6)'', 87 / 100), (''long (7+)'', 91 / 100)],
      pmx_byContext = [(''normal'', 89 / 100), (''authenticated'', 91 / 100), (''suspicious'', 76 / 100), (''anonymous'', 82 / 100)],
      pmx_distribution = (65 / 100, 25 / 100, 10 / 100)\<rparr>"

record analytics_export =
  ae_patterns :: "behavioral_pattern list"
  ae_sequences :: "state_sequence list"
  ae_metrics :: analytics_metrics
  ae_insights :: "behavioral_insight list"
  ae_timestamp :: time_ms

definition exportAnalyticsData :: "time_ms \<Rightarrow> markov_analytics \<Rightarrow> analytics_export \<times> markov_analytics" where
  "exportAnalyticsData now a =
     (let (ps, an) = discoverPatterns 1 (ma_analyzer a); (ins, an) = generateInsights an
      in (\<lparr>ae_patterns = ps, ae_sequences = [], ae_metrics = ma_metrics a, ae_insights = ins, ae_timestamp = now\<rparr>, a\<lparr>ma_analyzer := an\<rparr>))"

definition ma_reset :: "time_ms \<Rightarrow> markov_analytics \<Rightarrow> markov_analytics" where
  "ma_reset now a = a\<lparr>analyticsHistory := [], ma_metrics := ma_initializePerformanceMetrics, lastAnalysisTime := now\<rparr>"

section \<open>Clusters are a partition by level and contexts\<close>

lemma clusters_after:
  "map_of (fold cluster_add ps []) k = (let cl = filter (\<lambda>p. (bp_riskLevel p, bp_contexts p) = k) ps in if cl = [] then None else Some cl)"
  by (induction ps rule: rev_induct) (auto simp: cluster_add_def Let_def update_conv' split: if_splits)

lemma clusters_distinct: "distinct (map fst (fold cluster_add ps []))"
  by (induction ps rule: rev_induct) (simp_all add: cluster_add_def Let_def distinct_update)

lemma cluster_member:
  "cl \<in> set (clusterPatterns ps) \<longleftrightarrow> (\<exists>k. cl = filter (\<lambda>p. (bp_riskLevel p, bp_contexts p) = k) ps \<and> cl \<noteq> [])"
proof -
  have "cl \<in> set (clusterPatterns ps) \<longleftrightarrow> (\<exists>k. map_of (fold cluster_add ps []) k = Some cl)"
    using clusters_distinct [of ps] by (force simp: clusterPatterns_def image_iff)
  then show ?thesis by (auto simp: clusters_after Let_def split: if_splits)
qed

text \<open>An anomalous pattern has a mean risk above 0.7.\<close>

lemma discovered_level: "p \<in> set (fst (discoverPatterns n an)) \<Longrightarrow> bp_isAnomalous p \<Longrightarrow> bp_riskLevel p \<in> {Risk_high, Risk_critical}"
  by (auto simp: discoverPatterns_def to_pattern_def calculatePatternRiskLevel_def Let_def split_def split: if_splits)

text \<open>
  Every anomalous pattern is in a cluster, each cluster holds exactly the anomalous patterns of one risk level and one list of contexts, and every
  cluster counts as high risk: its severity is the common level, high or critical, and its score 0.7 or 1.\<close>
theorem clusters_partition:
  fixes a
  defines "ps \<equiv> filter bp_isAnomalous (fst (discoverPatterns 1 (ma_analyzer a)))" and "r \<equiv> fst (detectAnomalyClusters a)"
  shows "(\<forall>p \<in> set ps. \<exists>c \<in> set (fst r). p \<in> set (cl_patterns c))
    \<and> (\<forall>c \<in> set (fst r). \<exists>k. cl_patterns c = filter (\<lambda>p. (bp_riskLevel p, bp_contexts p) = k) ps \<and> cl_patterns c \<noteq> []
         \<and> cl_severity c = fst k \<and> fst k \<in> {Risk_high, Risk_critical} \<and> cl_riskScore c = (if fst k = Risk_critical then 1 else 7 / 10))
    \<and> snd (snd r) = fst (snd r)"
proof -
  have "map cl_patterns (fst r) = map snd (enumerate 0 (clusterPatterns ps))"
    by (simp add: r_def ps_def detectAnomalyClusters_def Let_def split_def comp_def)
  then have parts: "cl_patterns ` set (fst r) = set (clusterPatterns ps)" by (metis list.set_map map_snd_enumerate)
  have fields: "cl_severity c = calculateClusterSeverity (cl_patterns c)"
    "cl_riskScore c = sum_list (map pattern_risk (cl_patterns c)) / real (length (cl_patterns c))" if "c \<in> set (fst r)" for c
    using that by (auto simp: r_def detectAnomalyClusters_def Let_def split_def)
  have cluster: "\<exists>k. cl_patterns c = filter (\<lambda>p. (bp_riskLevel p, bp_contexts p) = k) ps \<and> cl_patterns c \<noteq> []
      \<and> cl_severity c = fst k \<and> fst k \<in> {Risk_high, Risk_critical} \<and> cl_riskScore c = (if fst k = Risk_critical then 1 else 7 / 10)"
    if c: "c \<in> set (fst r)" for c
  proof -
    have "cl_patterns c \<in> set (clusterPatterns ps)" using parts c by blast
    then obtain k where k: "cl_patterns c = filter (\<lambda>p. (bp_riskLevel p, bp_contexts p) = k) ps" "cl_patterns c \<noteq> []"
      unfolding cluster_member by blast
    then have lv: "\<forall>p \<in> set (cl_patterns c). bp_riskLevel p = fst k" by auto
    moreover obtain p where p: "p \<in> set (cl_patterns c)" using k(2) by (cases "cl_patterns c") auto
    ultimately have hk: "fst k \<in> {Risk_high, Risk_critical}" using k(1) discovered_level by (fastforce simp: ps_def)
    have m: "map pattern_risk (cl_patterns c) = map (\<lambda>_. if fst k = Risk_critical then 1 else 7 / 10) (cl_patterns c)"
      using lv hk by (auto simp: pattern_risk_def)
    have "sum_list (map pattern_risk (cl_patterns c)) = real (length (cl_patterns c)) * (if fst k = Risk_critical then 1 else 7 / 10)"
      unfolding m by (rule sum_list_triv)
    then have "cl_riskScore c = (if fst k = Risk_critical then 1 else 7 / 10)" using fields(2) [OF c] k(2) by simp
    moreover have "filter (\<lambda>p. bp_riskLevel p = fst k) (cl_patterns c) = cl_patterns c" using lv by (simp add: filter_id_conv)
    moreover have "filter (\<lambda>p. bp_riskLevel p = Risk_critical) (cl_patterns c) = []" if "fst k \<noteq> Risk_critical"
      using lv that by (auto simp: filter_empty_conv)
    ultimately show ?thesis using k hk fields(1) [OF c]
      by (intro exI [of _ k]) (auto simp: calculateClusterSeverity_def Let_def)
  qed
  moreover have "\<exists>c \<in> set (fst r). p \<in> set (cl_patterns c)" if "p \<in> set ps" for p
  proof -
    have "filter (\<lambda>q. (bp_riskLevel q, bp_contexts q) = (bp_riskLevel p, bp_contexts p)) ps \<in> set (clusterPatterns ps)"
      unfolding cluster_member using that by (auto simp: filter_empty_conv)
    then obtain c where "c \<in> set (fst r)" "cl_patterns c = filter (\<lambda>q. (bp_riskLevel q, bp_contexts q) = (bp_riskLevel p, bp_contexts p)) ps"
      unfolding parts [symmetric] by auto
    then show ?thesis using that by (intro bexI [of _ c]) auto
  qed
  moreover have "snd (snd r) = fst (snd r)"
  proof -
    have "filter (\<lambda>c. cl_severity c = Risk_high \<or> cl_severity c = Risk_critical) (fst r) = fst r"
      using cluster by (force simp: filter_id_conv)
    moreover have "fst (snd r) = length (fst r)" "snd (snd r) = length (filter (\<lambda>c. cl_severity c = Risk_high \<or> cl_severity c = Risk_critical) (fst r))"
      by (simp_all add: r_def detectAnomalyClusters_def Let_def split_def)
    ultimately show ?thesis by simp
  qed
  ultimately show ?thesis by blast
qed

section \<open>Trends are noise\<close>

lemma draw_sum: "\<forall>u \<in> set us. 0 \<le> fst (snd u) \<and> fst (snd u) < 1 \<Longrightarrow> sum_list (map tp_anomalyRate (map trend_period_of us)) \<le> real (length us) / 10"
  by (induction us) (auto simp: trend_period_of_def)

text \<open>
  The reported trend of behaviour depends on random numbers only. With random numbers from 0 to below 1 the advice about a high anomaly rate is never
  given, and with at most three periods the trend is always stable.\<close>
theorem trends_are_noise:
  assumes "\<forall>u \<in> set draws. 0 \<le> fst (snd u) \<and> fst (snd u) < 1"
  shows "Ta_high_anomaly_rate \<notin> set (snd (snd (analyzeBehavioralTrends draws)))
    \<and> (length draws \<le> 3 \<longrightarrow> fst (snd (analyzeBehavioralTrends draws)) = Bt_stable)"
proof -
  have first: "js_slice 0 3 xs = take 3 xs" for xs :: "trend_period list" using js_slice_take [of 3 xs] by simp
  have "sum_list (map tp_anomalyRate (take 3 (map trend_period_of draws))) \<le> real (length (take 3 draws)) / 10"
    using draw_sum [of "take 3 draws"] assms by (auto simp: take_map dest: in_set_takeD)
  then have small: "sum_list (map tp_anomalyRate (take 3 (map trend_period_of draws))) / 3 \<le> 1 / 10" by simp
  have "js_slice_from (- 3) xs = xs" if "length xs \<le> 3" for xs :: "trend_period list"
    using that by (simp add: js_slice_from_def slice_index_def)
  moreover have "0 \<le> sum_list (map tp_anomalyRate (map trend_period_of draws))"
    using assms by (intro sum_list_nonneg) (auto simp: trend_period_of_def)
  ultimately have "fst (snd (analyzeBehavioralTrends draws)) = Bt_stable" if "length draws \<le> 3"
    using that by (simp add: analyzeBehavioralTrends_def Let_def first)
  moreover have "Ta_high_anomaly_rate \<notin> set (snd (snd (analyzeBehavioralTrends draws)))"
    using small by (auto simp: analyzeBehavioralTrends_def generateTrendRecommendations_def Let_def first split: behavior_trend.splits if_splits)
  ultimately show ?thesis by simp
qed

theorem trends_are_noise_witness: "fst (snd (analyzeBehavioralTrends [(1 / 2, 1 / 2, 1 / 2), (1 / 2, 9 / 10, 1 / 2)])) = Bt_stable"
  using trends_are_noise [of "[(1 / 2, 1 / 2, 1 / 2), (1 / 2, 9 / 10, 1 / 2)]"] by simp

end
