(* ===== verification/Ewma.thy ===== *)
theory Ewma
  imports Prelude
begin

text \<open>
  Exponentially weighted moving averages (\<^verbatim>\<open>backend/src/core/ewma/EWMA.ts\<close>, with its types from \<^verbatim>\<open>types/ewma.d.ts\<close> and its
  configurations from \<^verbatim>\<open>config/ewmaConfig.ts\<close>, as they are when no environment variable is set). The object is
  \<open>ewma\<close>; \<open>ewma_update\<close> is \<^verbatim>\<open>update\<close>, statement by statement. Explanatory texts are left out. The denominator of a
  slope is positive for two values or more, so the test for NaN in \<^verbatim>\<open>calculateSlope\<close> never applies.
\<close>

datatype ewma_variant = Simple | Double | Adaptive
datatype time_window = Min1 | Min5 | Min15 | Min60
datatype trend_direction = Increasing | Decreasing | Stable | Volatile

record ewma_config =
  variant :: ewma_variant
  alpha :: real
  adaptiveAlpha :: bool
  minAlpha :: real
  maxAlpha :: real
  windowSize :: nat
  timeWindow :: time_window
  volatilityThreshold :: real
  changeDetectionThreshold :: real
  enableTrendAnalysis :: bool
  enableOutlierDetection :: bool

record data_point =
  dp_value :: real
  dp_timestamp :: time_ms

record adaptive_parameters =
  ap_alpha :: real
  ap_lastUpdate :: time_ms
  ap_volatility :: real
  ap_history :: "real list"

record ewma =
  ew_config :: ewma_config
  currentValue :: real
  previousValue :: real
  trendValue :: real
  ew_variance :: real
  dataPoints :: "data_point list"
  ew_lastUpdate :: time_ms
  initialized :: bool
  adaptiveParams :: adaptive_parameters

section \<open>Configurations\<close>

definition getDefaultEWMAConfig :: ewma_config where
  "getDefaultEWMAConfig =
     \<lparr>variant = Simple, alpha = 2/10, adaptiveAlpha = False, minAlpha = 5/100, maxAlpha = 5/10, windowSize = 100,
      timeWindow = Min5, volatilityThreshold = 15/100, changeDetectionThreshold = 6/10, enableTrendAnalysis = True,
      enableOutlierDetection = True\<rparr>"

definition getSimpleEWMAConfig :: ewma_config where
  "getSimpleEWMAConfig = getDefaultEWMAConfig\<lparr>variant := Simple, alpha := 2/10, adaptiveAlpha := False, enableTrendAnalysis := True\<rparr>"

definition getDoubleEWMAConfig :: ewma_config where
  "getDoubleEWMAConfig =
     getDefaultEWMAConfig\<lparr>variant := Double, alpha := 15/100, adaptiveAlpha := False, enableTrendAnalysis := True, windowSize := 200\<rparr>"

definition getAdaptiveEWMAConfig :: ewma_config where
  "getAdaptiveEWMAConfig =
     getDefaultEWMAConfig\<lparr>variant := Adaptive, alpha := 2/10, adaptiveAlpha := True, minAlpha := 5/100, maxAlpha := 8/10,
       volatilityThreshold := 2/10, changeDetectionThreshold := 5/10\<rparr>"

definition getDevelopmentEWMAConfig :: ewma_config where
  "getDevelopmentEWMAConfig =
     getDefaultEWMAConfig\<lparr>alpha := 3/10, windowSize := 50, volatilityThreshold := 1/10, changeDetectionThreshold := 8/10,
       enableTrendAnalysis := True, enableOutlierDetection := True\<rparr>"

definition getProductionEWMAConfig :: ewma_config where
  "getProductionEWMAConfig =
     getDefaultEWMAConfig\<lparr>alpha := 15/100, windowSize := 500, volatilityThreshold := 2/10, changeDetectionThreshold := 4/10,
       adaptiveAlpha := False\<rparr>"

definition getHighFrequencyEWMAConfig :: ewma_config where
  "getHighFrequencyEWMAConfig =
     getDefaultEWMAConfig\<lparr>alpha := 4/10, windowSize := 60, volatilityThreshold := 1/10, changeDetectionThreshold := 9/10,
       adaptiveAlpha := True, enableOutlierDetection := True\<rparr>"

definition getLowFrequencyEWMAConfig :: ewma_config where
  "getLowFrequencyEWMAConfig =
     getDefaultEWMAConfig\<lparr>alpha := 5/100, windowSize := 1000, volatilityThreshold := 3/10, changeDetectionThreshold := 2/10,
       adaptiveAlpha := False, enableTrendAnalysis := True\<rparr>"

section \<open>Construction\<close>

definition initializeAdaptiveParameters :: "ewma_config \<Rightarrow> time_ms \<Rightarrow> adaptive_parameters" where
  "initializeAdaptiveParameters cfg now =
     \<lparr>ap_alpha = alpha cfg, ap_lastUpdate = now, ap_volatility = volatilityThreshold cfg, ap_history = []\<rparr>"

definition new_ewma :: "ewma_config \<Rightarrow> time_ms \<Rightarrow> ewma" where
  "new_ewma cfg now =
     \<lparr>ew_config = cfg, currentValue = 0, previousValue = 0, trendValue = 0, ew_variance = 0, dataPoints = [],
      ew_lastUpdate = now, initialized = False, adaptiveParams = initializeAdaptiveParameters cfg now\<rparr>"

definition ewma_reset :: "time_ms \<Rightarrow> ewma \<Rightarrow> ewma" where
  "ewma_reset now ew =
     ew\<lparr>currentValue := 0, previousValue := 0, trendValue := 0, ew_variance := 0, dataPoints := [], initialized := False,
        adaptiveParams := initializeAdaptiveParameters (ew_config ew) now\<rparr>"

section \<open>Statistics of recent values\<close>

definition mean_of :: "real list \<Rightarrow> real" where
  "mean_of vs = sum_list vs / real (length vs)"

definition variance_of :: "real list \<Rightarrow> real" where
  "variance_of vs = sum_list (map (\<lambda>v. (v - mean_of vs)\<^sup>2) vs) / real (length vs)"

definition recent :: "nat \<Rightarrow> ewma \<Rightarrow> real list" where
  "recent n ew = map dp_value (js_slice_from (- int n) (dataPoints ew))"

definition calculateVolatility :: "ewma \<Rightarrow> real" where
  "calculateVolatility ew =
     (if length (dataPoints ew) < 2 then 0
      else let vs = recent 10 ew in if length vs < 2 then 0 else sqrt (variance_of vs))"

definition calculateSlope :: "real list \<Rightarrow> real" where
  "calculateSlope values =
     (if length values < 2 then 0
      else
        let n = real (length values);
            sumX = n * (n - 1) / 2;
            sumY = sum_list values;
            sumXY = sum_list (map2 (\<lambda>i v. real i * v) [0..<length values] values);
            sumX2 = n * (n - 1) * (2 * n - 1) / 6
        in (n * sumXY - sumX * sumY) / (n * sumX2 - sumX * sumX))"

definition detectChangePoint :: "ewma \<Rightarrow> bool" where
  "detectChangePoint ew =
     (if length (dataPoints ew) < 10 then False
      else
        let recentMean = sum_list (map dp_value (js_slice_from (- 5) (dataPoints ew))) / 5;
            historicalMean = sum_list (map dp_value (js_slice (- 15) (- 5) (dataPoints ew))) / 10
        in \<bar>recentMean - historicalMean\<bar> > sqrt (ew_variance ew) * changeDetectionThreshold (ew_config ew))"

definition calculateTimeFactor :: "time_ms \<Rightarrow> ewma \<Rightarrow> real" where
  "calculateTimeFactor now ew =
     (if dataPoints ew = [] then 5/10
      else max (1/10) (exp (- (of_int (now - dp_timestamp (last (dataPoints ew))) / (1000 * 60)) / 60)))"

definition ew_calculateConfidence :: "time_ms \<Rightarrow> ewma \<Rightarrow> real" where
  "ew_calculateConfidence now ew =
     (if length (dataPoints ew) < 5 then 3/10
      else min (95/100) (min 1 (real (length (dataPoints ew)) / 50) * max (1/10) (1 - calculateVolatility ew / 10)
                         * calculateTimeFactor now ew))"

definition calculatePredictionAccuracy :: "ewma \<Rightarrow> real" where
  "calculatePredictionAccuracy ew =
     (if length (dataPoints ew) < 10 then 5/10
      else
        let vs = recent 10 ew;
            correct = length (filter (\<lambda>i. \<bar>vs ! (i - 1) - vs ! i\<bar> \<le> sqrt (ew_variance ew)) [1..<length vs])
        in real correct / (real (length vs) - 1))"

section \<open>The update\<close>

definition maintainWindowSize :: "ewma \<Rightarrow> ewma" where
  "maintainWindowSize ew =
     (if length (dataPoints ew) > windowSize (ew_config ew)
      then ew\<lparr>dataPoints := js_slice_from (- int (windowSize (ew_config ew))) (dataPoints ew)\<rparr> else ew)"

definition ewma_initialize :: "real \<Rightarrow> ewma \<Rightarrow> ewma" where
  "ewma_initialize v ew = ew\<lparr>currentValue := v, previousValue := v, trendValue := 0, ew_variance := 0, initialized := True\<rparr>"

definition updateAdaptiveParameters :: "ewma \<Rightarrow> ewma" where
  "updateAdaptiveParameters ew =
     (let h = ap_history (adaptiveParams ew) @ [calculateVolatility ew];
          h = (if length h > 100 then tl h else h);
          ap = (adaptiveParams ew)\<lparr>ap_history := h\<rparr>
      in ew\<lparr>adaptiveParams := (if length h > 20 then ap\<lparr>ap_volatility := sort h ! nat \<lfloor>real (length h) * (95/100)\<rfloor>\<rparr> else ap)\<rparr>)"

definition calculateSimpleEWMA :: "real \<Rightarrow> real \<Rightarrow> ewma \<Rightarrow> real" where
  "calculateSimpleEWMA v a ew = a * v + (1 - a) * currentValue ew"

definition calculateDoubleEWMA :: "real \<Rightarrow> real \<Rightarrow> ewma \<Rightarrow> real \<times> ewma" where
  "calculateDoubleEWMA v a ew =
     (let newLevel = a * v + (1 - a) * (currentValue ew + trendValue ew)
      in (newLevel, ew\<lparr>trendValue := a * (newLevel - currentValue ew) + (1 - a) * trendValue ew\<rparr>))"

definition calculateAdaptiveEWMA :: "time_ms \<Rightarrow> real \<Rightarrow> ewma \<Rightarrow> real \<times> ewma" where
  "calculateAdaptiveEWMA now v ew =
     (let cfg = ew_config ew;
          a = (if calculateVolatility ew > volatilityThreshold cfg \<or> detectChangePoint ew
               then min (maxAlpha cfg) (alpha cfg * (15/10)) else max (minAlpha cfg) (alpha cfg * (95/100)));
          ew = ew\<lparr>adaptiveParams := (adaptiveParams ew)\<lparr>ap_alpha := a, ap_lastUpdate := now\<rparr>\<rparr>
      in (calculateSimpleEWMA v a ew, ew))"

definition calculateEWMA :: "time_ms \<Rightarrow> real \<Rightarrow> ewma \<Rightarrow> real \<times> ewma" where
  "calculateEWMA now v ew =
     (let a = (if adaptiveAlpha (ew_config ew) then ap_alpha (adaptiveParams ew) else alpha (ew_config ew))
      in case variant (ew_config ew) of
           Simple \<Rightarrow> (calculateSimpleEWMA v a ew, ew)
         | Double \<Rightarrow> calculateDoubleEWMA v a ew
         | Adaptive \<Rightarrow> calculateAdaptiveEWMA now v ew)"

definition updateVariance :: "real \<Rightarrow> ewma \<Rightarrow> ewma" where
  "updateVariance v ew =
     (let err = v - currentValue ew; a = alpha (ew_config ew)
      in ew\<lparr>ew_variance := a * (err * err) + (1 - a) * ew_variance ew\<rparr>)"

record trend_result =
  tr_direction :: trend_direction
  tr_strength :: real
  tr_changePoint :: bool
  tr_duration :: nat

definition direction_of :: "real \<Rightarrow> real \<Rightarrow> trend_direction" where
  "direction_of slope threshold = (if \<bar>slope\<bar> < threshold then Stable else if slope > 0 then Increasing else Decreasing)"

definition detectTrend :: "ewma \<Rightarrow> trend_result" where
  "detectTrend ew =
     (if length (dataPoints ew) < 5 then \<lparr>tr_direction = Stable, tr_strength = 0, tr_changePoint = False, tr_duration = 0\<rparr>
      else
        let slope = calculateSlope (recent 10 ew)
        in \<lparr>tr_direction = (if calculateVolatility ew > volatilityThreshold (ew_config ew) * 2 then Volatile
                            else direction_of slope (sqrt (ew_variance ew) * (1/10))),
            tr_strength = min 1 (\<bar>slope\<bar> / (sqrt (ew_variance ew) + 1/1000)),
            tr_changePoint = detectChangePoint ew, tr_duration = 5\<rparr>)"

record outlier_result =
  ol_isOutlier :: bool
  ol_score :: real
  ol_confidence :: real

definition detectOutlier :: "real \<Rightarrow> ewma \<Rightarrow> outlier_result" where
  "detectOutlier v ew =
     (if length (dataPoints ew) < 10 then \<lparr>ol_isOutlier = False, ol_score = 0, ol_confidence = 5/10\<rparr>
      else
        let zScore = \<bar>v - mean_of (recent 20 ew)\<bar> / (sqrt (ew_variance ew) + 1/1000)
        in \<lparr>ol_isOutlier = (zScore > 25/10), ol_score = min 1 (zScore / (25/10)),
            ol_confidence = min (95/100) (real (length (dataPoints ew)) / 50)\<rparr>)"

record ew_prediction =
  ep_nextValue :: real
  ep_confidence :: real
  ep_min :: real
  ep_max :: real

definition generatePrediction :: "ewma \<Rightarrow> ew_prediction" where
  "generatePrediction ew =
     (let nextValue = (if variant (ew_config ew) = Double then currentValue ew + trendValue ew else currentValue ew);
          stdDev = sqrt (ew_variance ew)
      in \<lparr>ep_nextValue = nextValue, ep_confidence = min (95/100) (calculatePredictionAccuracy ew),
          ep_min = nextValue - 2 * stdDev, ep_max = nextValue + 2 * stdDev\<rparr>)"

record ew_statistics =
  es_mean :: real
  es_variance :: real
  es_standardDeviation :: real
  es_volatility :: real

definition calculateStatistics :: "ewma \<Rightarrow> ew_statistics" where
  "calculateStatistics ew =
     (if dataPoints ew = [] then \<lparr>es_mean = 0, es_variance = 0, es_standardDeviation = 0, es_volatility = 0\<rparr>
      else \<lparr>es_mean = mean_of (map dp_value (dataPoints ew)), es_variance = ew_variance ew,
            es_standardDeviation = sqrt (ew_variance ew), es_volatility = calculateVolatility ew\<rparr>)"

record ew_anomaly =
  ea_isAnomalous :: bool
  ea_score :: real
  ea_threshold :: real
  ea_confidence :: real

definition detectAnomaly :: "real \<Rightarrow> real \<Rightarrow> ewma \<Rightarrow> ew_anomaly" where
  "detectAnomaly actual smoothed ew =
     (let deviation = \<bar>actual - smoothed\<bar>; threshold = sqrt (ew_variance ew) * (25/10)
      in \<lparr>ea_isAnomalous = (deviation > threshold), ea_score = min 1 (deviation / (threshold + 1/1000)),
          ea_threshold = threshold, ea_confidence = min (95/100) (real (length (dataPoints ew)) / 30)\<rparr>)"

record ewma_value =
  ev_value :: real
  ev_timestamp :: time_ms
  ev_confidence :: real
  ev_trend :: trend_direction
  ev_volatility :: real
  ev_isOutlier :: bool

record ewma_result =
  er_current :: ewma_value
  er_previous :: ewma_value
  er_prediction :: ew_prediction
  er_statistics :: ew_statistics
  er_trend :: trend_result
  er_anomaly :: ew_anomaly

definition ewma_update :: "time_ms \<Rightarrow> data_point \<Rightarrow> ewma \<Rightarrow> ewma_result \<times> ewma" where
  "ewma_update now p ew =
     (let v = dp_value p;
          ew = maintainWindowSize (ew\<lparr>dataPoints := dataPoints ew @ [p]\<rparr>);
          ew = (if \<not> initialized ew then ewma_initialize v ew else ew);
          ew = (if adaptiveAlpha (ew_config ew) then updateAdaptiveParameters ew else ew);
          (ewmaValue, ew) = calculateEWMA now v ew;
          ew = updateVariance v ew;
          trend = detectTrend ew;
          outlier = detectOutlier v ew;
          current = \<lparr>ev_value = ewmaValue, ev_timestamp = dp_timestamp p, ev_confidence = ew_calculateConfidence now ew,
            ev_trend = tr_direction trend, ev_volatility = calculateVolatility ew, ev_isOutlier = ol_isOutlier outlier\<rparr>;
          prediction = generatePrediction ew;
          statistics = calculateStatistics ew;
          anomaly = detectAnomaly v ewmaValue ew;
          ew = ew\<lparr>previousValue := currentValue ew, currentValue := ewmaValue, ew_lastUpdate := dp_timestamp p\<rparr>
      in (\<lparr>er_current = current,
           er_previous = \<lparr>ev_value = previousValue ew, ev_timestamp = ew_lastUpdate ew,
             ev_confidence = ew_calculateConfidence now ew, ev_trend = tr_direction trend,
             ev_volatility = calculateVolatility ew, ev_isOutlier = False\<rparr>,
           er_prediction = prediction, er_statistics = statistics, er_trend = trend, er_anomaly = anomaly\<rparr>, ew))"

section \<open>Other operations\<close>

text \<open>\<open>x < v\<close> for a real \<open>x\<close>: false for NaN.\<close>

fun less_num :: "real \<Rightarrow> jsnum \<Rightarrow> bool" where
  "less_num x (Fin b) = (x < b)"
| "less_num x PInf = True"
| "less_num x _ = False"

fun greater_num :: "real \<Rightarrow> jsnum \<Rightarrow> bool" where
  "greater_num x (Fin b) = (x > b)"
| "greater_num x NInf = True"
| "greater_num x _ = False"

datatype volatility_regime = Low_regime | Medium_regime | High_regime | Extreme_regime

record volatility_analysis =
  va_current :: real
  va_average :: jsnum
  va_trend :: trend_direction
  va_spikes :: "(time_ms \<times> jsnum) list"
  va_regime :: volatility_regime

definition calculateVolatilityHistory :: "real list \<Rightarrow> real list" where
  "calculateVolatilityHistory vs = map (\<lambda>i. sqrt (variance_of (take 5 (drop (i - 5) vs)))) [5..<length vs]"

definition detectVolatilitySpikes :: "time_ms \<Rightarrow> real list \<Rightarrow> (time_ms \<times> jsnum) list" where
  "detectVolatilitySpikes now vols =
     (let threshold = sum_list vols / real (length vols) * 2
      in map (\<lambda>i. (now - (int (length vols) - int i) * 60000, js_div (vols ! i) threshold))
           (filter (\<lambda>i. vols ! i > threshold) [0..<length vols]))"

definition getVolatilityAnalysis :: "time_ms \<Rightarrow> ewma \<Rightarrow> volatility_analysis" where
  "getVolatilityAnalysis now ew =
     (let vols = calculateVolatilityHistory (recent 20 ew);
          current = calculateVolatility ew;
          average = js_div (sum_list vols) (real (length vols))
      in \<lparr>va_current = current, va_average = average,
          va_trend = (if greater_num current average then Increasing else if less_num current average then Decreasing else Stable),
          va_spikes = detectVolatilitySpikes now vols,
          va_regime = (if less_num current (js_scale (5/10) average) then Low_regime
                       else if less_num current (js_scale (15/10) average) then Medium_regime
                       else if less_num current (js_scale 3 average) then High_regime else Extreme_regime)\<rparr>)"

datatype ewma_issue = Alpha_out_of_range | Window_too_small | Low_accuracy real

definition ewma_validate :: "ewma \<Rightarrow> bool \<times> ewma_issue list \<times> real" where
  "ewma_validate ew =
     (let cfg = ew_config ew; accuracy = calculatePredictionAccuracy ew;
          issues = (if alpha cfg \<le> 0 \<or> alpha cfg \<ge> 1 then [Alpha_out_of_range] else [])
            @ (if windowSize cfg < 10 then [Window_too_small] else [])
            @ (if accuracy < 7/10 then [Low_accuracy accuracy] else [])
      in (issues = [], issues, accuracy))"

definition ewma_memoryUsage :: "ewma \<Rightarrow> nat" where
  "ewma_memoryUsage ew = 500 + length (dataPoints ew) * 100"

section \<open>One update of the simple variant\<close>

definition effective_alpha :: "ewma \<Rightarrow> real" where
  "effective_alpha ew = (if adaptiveAlpha (ew_config ew) then ap_alpha (adaptiveParams ew) else alpha (ew_config ew))"

lemma adaptive_keeps [simp]:
  "ew_config (updateAdaptiveParameters ew) = ew_config ew" "currentValue (updateAdaptiveParameters ew) = currentValue ew"
  "ew_variance (updateAdaptiveParameters ew) = ew_variance ew" "dataPoints (updateAdaptiveParameters ew) = dataPoints ew"
  "initialized (updateAdaptiveParameters ew) = initialized ew"
  "ap_alpha (adaptiveParams (updateAdaptiveParameters ew)) = ap_alpha (adaptiveParams ew)"
  by (simp_all add: updateAdaptiveParameters_def Let_def)

lemma calculate_keeps [simp]:
  "ew_config (snd (calculateEWMA now v ew)) = ew_config ew" "currentValue (snd (calculateEWMA now v ew)) = currentValue ew"
  "ew_variance (snd (calculateEWMA now v ew)) = ew_variance ew" "dataPoints (snd (calculateEWMA now v ew)) = dataPoints ew"
  "initialized (snd (calculateEWMA now v ew)) = initialized ew"
  by (simp_all add: calculateEWMA_def calculateDoubleEWMA_def calculateAdaptiveEWMA_def Let_def split: ewma_variant.split)

lemma calculate_simple:
  "variant (ew_config ew) = Simple \<Longrightarrow> calculateEWMA now v ew = (calculateSimpleEWMA v (effective_alpha ew) ew, ew)"
  by (simp add: calculateEWMA_def effective_alpha_def)

lemma initialize_keeps [simp]:
  "ew_config (ewma_initialize v ew) = ew_config ew" "adaptiveParams (ewma_initialize v ew) = adaptiveParams ew"
  "dataPoints (ewma_initialize v ew) = dataPoints ew" "initialized (ewma_initialize v ew)"
  "currentValue (ewma_initialize v ew) = v" "ew_variance (ewma_initialize v ew) = 0"
  by (simp_all add: ewma_initialize_def)

lemma maintain_keeps [simp]:
  "ew_config (maintainWindowSize ew) = ew_config ew" "currentValue (maintainWindowSize ew) = currentValue ew"
  "ew_variance (maintainWindowSize ew) = ew_variance ew" "initialized (maintainWindowSize ew) = initialized ew"
  "adaptiveParams (maintainWindowSize ew) = adaptiveParams ew"
  by (simp_all add: maintainWindowSize_def)

definition base_value :: "real \<Rightarrow> ewma \<Rightarrow> real" where
  "base_value v ew = (if initialized ew then currentValue ew else v)"

definition base_variance :: "ewma \<Rightarrow> real" where
  "base_variance ew = (if initialized ew then ew_variance ew else 0)"

definition kept_points :: "data_point \<Rightarrow> ewma \<Rightarrow> data_point list" where
  "kept_points p ew = dataPoints (maintainWindowSize (ew\<lparr>dataPoints := dataPoints ew @ [p]\<rparr>))"

text \<open>The object after the first three statements of \<open>ewma_update\<close>.\<close>

definition prepared :: "data_point \<Rightarrow> ewma \<Rightarrow> ewma" where
  "prepared p ew =
     (let ew = maintainWindowSize (ew\<lparr>dataPoints := dataPoints ew @ [p]\<rparr>);
          ew = (if \<not> initialized ew then ewma_initialize (dp_value p) ew else ew)
      in if adaptiveAlpha (ew_config ew) then updateAdaptiveParameters ew else ew)"

lemma prepared_simps [simp]:
  "ew_config (prepared p ew) = ew_config ew" "initialized (prepared p ew)" "dataPoints (prepared p ew) = kept_points p ew"
  "currentValue (prepared p ew) = base_value (dp_value p) ew" "ew_variance (prepared p ew) = base_variance ew"
  "effective_alpha (prepared p ew) = effective_alpha ew" "ap_alpha (adaptiveParams (prepared p ew)) = ap_alpha (adaptiveParams ew)"
  by (simp_all add: prepared_def Let_def kept_points_def base_value_def base_variance_def effective_alpha_def)

lemma update_prepared:
  "ewma_update now p ew =
     (let (ewmaValue, ew1) = calculateEWMA now (dp_value p) (prepared p ew);
          ew2 = updateVariance (dp_value p) ew1;
          ew3 = ew2\<lparr>previousValue := currentValue ew2, currentValue := ewmaValue, ew_lastUpdate := dp_timestamp p\<rparr>
      in (\<lparr>er_current = \<lparr>ev_value = ewmaValue, ev_timestamp = dp_timestamp p, ev_confidence = ew_calculateConfidence now ew2,
             ev_trend = tr_direction (detectTrend ew2), ev_volatility = calculateVolatility ew2,
             ev_isOutlier = ol_isOutlier (detectOutlier (dp_value p) ew2)\<rparr>,
           er_previous = \<lparr>ev_value = previousValue ew3, ev_timestamp = ew_lastUpdate ew3,
             ev_confidence = ew_calculateConfidence now ew3, ev_trend = tr_direction (detectTrend ew2),
             ev_volatility = calculateVolatility ew3, ev_isOutlier = False\<rparr>,
           er_prediction = generatePrediction ew2, er_statistics = calculateStatistics ew2, er_trend = detectTrend ew2,
           er_anomaly = detectAnomaly (dp_value p) ewmaValue ew2\<rparr>, ew3))"
  unfolding ewma_update_def prepared_def Let_def by (rule refl)

lemma variance_keeps [simp]:
  "ew_config (updateVariance v ew) = ew_config ew" "currentValue (updateVariance v ew) = currentValue ew"
  "dataPoints (updateVariance v ew) = dataPoints ew" "initialized (updateVariance v ew) = initialized ew"
  "adaptiveParams (updateVariance v ew) = adaptiveParams ew"
  "ew_variance (updateVariance v ew) =
     alpha (ew_config ew) * (v - currentValue ew)\<^sup>2 + (1 - alpha (ew_config ew)) * ew_variance ew"
  by (simp_all add: updateVariance_def Let_def power2_eq_square)

lemma update_common:
  "ew_config (snd (ewma_update now p ew)) = ew_config ew"
  "initialized (snd (ewma_update now p ew))"
  "dataPoints (snd (ewma_update now p ew)) = kept_points p ew"
  by (simp_all add: update_prepared Let_def split_def)

lemma update_variance:
  "ew_variance (snd (ewma_update now p ew)) =
     alpha (ew_config ew) * (dp_value p - base_value (dp_value p) ew)\<^sup>2 + (1 - alpha (ew_config ew)) * base_variance ew"
  by (simp add: update_prepared Let_def split_def)

lemma update_simple:
  assumes "variant (ew_config ew) = Simple"
  shows "currentValue (snd (ewma_update now p ew)) =
      effective_alpha ew * dp_value p + (1 - effective_alpha ew) * base_value (dp_value p) ew"
    and "effective_alpha (snd (ewma_update now p ew)) = effective_alpha ew"
proof -
  have calc: "calculateEWMA now (dp_value p) (prepared p ew) =
      (effective_alpha ew * dp_value p + (1 - effective_alpha ew) * base_value (dp_value p) ew, prepared p ew)"
    using assms by (simp add: calculate_simple calculateSimpleEWMA_def)
  show "currentValue (snd (ewma_update now p ew)) =
      effective_alpha ew * dp_value p + (1 - effective_alpha ew) * base_value (dp_value p) ew"
    by (simp add: update_prepared calc Let_def)
  show "effective_alpha (snd (ewma_update now p ew)) = effective_alpha ew"
    by (simp add: update_prepared calc Let_def effective_alpha_def)
qed

lemma update_anomaly:
  "ea_isAnomalous (er_anomaly (fst (ewma_update now p ew))) \<longleftrightarrow>
    \<bar>dp_value p - currentValue (snd (ewma_update now p ew))\<bar> > sqrt (ew_variance (snd (ewma_update now p ew))) * (25/10)"
  by (simp add: update_prepared Let_def split_def detectAnomaly_def)

definition run_ewma :: "(time_ms \<times> data_point) list \<Rightarrow> ewma \<Rightarrow> ewma" where
  "run_ewma ps ew = fold (\<lambda>(now, p) e. snd (ewma_update now p e)) ps ew"

definition point_values :: "(time_ms \<times> data_point) list \<Rightarrow> real list" where
  "point_values ps = map (\<lambda>(now, p). dp_value p) ps"

lemma run_ewma_snoc: "run_ewma (ps @ [(now, p)]) ew = snd (ewma_update now p (run_ewma ps ew))"
  by (simp add: run_ewma_def)

lemma run_ewma_common:
  "ew_config (run_ewma ps (new_ewma cfg t0)) = cfg" "initialized (run_ewma ps (new_ewma cfg t0)) \<longleftrightarrow> ps \<noteq> []"
  by (induction ps rule: rev_induct) (auto simp: run_ewma_def new_ewma_def update_common)

lemma run_ewma_alpha:
  "variant cfg = Simple \<Longrightarrow> effective_alpha (run_ewma ps (new_ewma cfg t0)) = alpha cfg"
proof (induction ps rule: rev_induct)
  case Nil
  then show ?case by (simp add: run_ewma_def new_ewma_def effective_alpha_def initializeAdaptiveParameters_def)
next
  case (snoc e ps)
  then show ?case by (cases e) (simp add: run_ewma_snoc update_simple(2) run_ewma_common(1))
qed

lemma run_ewma_value:
  assumes "variant cfg = Simple" and "point_values ps = x # xs"
  shows "currentValue (run_ewma ps (new_ewma cfg t0)) = foldl (\<lambda>s v. alpha cfg * v + (1 - alpha cfg) * s) x xs"
  using assms(2)
proof (induction ps arbitrary: xs rule: rev_induct)
  case Nil
  then show ?case by (simp add: point_values_def)
next
  case (snoc e ps)
  obtain now p where e: "e = (now, p)" by fastforce
  let ?ew = "run_ewma ps (new_ewma cfg t0)"
  have step: "currentValue (run_ewma (ps @ [(now, p)]) (new_ewma cfg t0)) =
      alpha cfg * dp_value p + (1 - alpha cfg) * base_value (dp_value p) ?ew"
    using assms(1) by (simp add: run_ewma_snoc update_simple(1) run_ewma_common(1) run_ewma_alpha)
  show ?case
  proof (cases "ps = []")
    case True
    then show ?thesis using snoc.prems run_ewma_common(2) [of ps cfg t0]
      unfolding e step by (simp add: point_values_def e base_value_def algebra_simps)
  next
    case False
    have "point_values ps @ [dp_value p] = x # xs" using snoc.prems by (simp add: point_values_def e)
    then obtain ys where ys: "point_values ps = x # ys" "xs = ys @ [dp_value p]"
      using False by (cases "point_values ps") (auto simp: point_values_def)
    then show ?thesis
      using snoc.IH [OF ys(1)] False unfolding e step by (simp add: base_value_def run_ewma_common(2))
  qed
qed

section \<open>Slopes\<close>

lemma sum_idx: "sum_list (map real [0..<n]) = real n * (real n - 1) / 2"
  by (induction n) (auto simp: field_simps)

lemma sum_idx_sq: "sum_list (map (\<lambda>i. real i * real i) [0..<n]) = real n * (real n - 1) * (2 * real n - 1) / 6"
  by (induction n) (auto simp: field_simps)

lemma slope_denominator: "2 \<le> n \<Longrightarrow>
  real n * (real n * (real n - 1) * (2 * real n - 1) / 6) - (real n * (real n - 1) / 2) * (real n * (real n - 1) / 2)
  = (real n)\<^sup>2 * ((real n)\<^sup>2 - 1) / 12"
  by (simp add: field_simps power2_eq_square)

lemma slope_affine: "2 \<le> n \<Longrightarrow> calculateSlope (map (\<lambda>i. a + b * real i) [0..<n]) = b"
proof -
  assume n: "2 \<le> n"
  let ?xs = "map (\<lambda>i. a + b * real i) [0..<n]" and ?m = "real n"
  have sy: "sum_list ?xs = a * ?m + b * (?m * (?m - 1) / 2)"
    using sum_idx [of n] by (simp add: sum_list_addf sum_list_const_mult sum_list_triv)
  have "map2 (\<lambda>i v. real i * v) [0..<n] ?xs = map (\<lambda>i. a * real i + b * (real i * real i)) [0..<n]"
    by (rule nth_equalityI) (simp_all add: algebra_simps)
  then have sxy: "sum_list (map2 (\<lambda>i v. real i * v) [0..<n] ?xs) = a * (?m * (?m - 1) / 2) + b * (?m * (?m - 1) * (2 * ?m - 1) / 6)"
    by (simp only: sum_list_addf sum_list_const_mult sum_idx sum_idx_sq)
  let ?d = "?m * (?m * (?m - 1) * (2 * ?m - 1) / 6) - (?m * (?m - 1) / 2) * (?m * (?m - 1) / 2)"
  have "1 < ?m" using n by simp
  then have "0 < ?m\<^sup>2 * (?m\<^sup>2 - 1) / 12" by (simp add: power2_eq_square less_1_mult)
  then have d: "?d \<noteq> 0" using slope_denominator [OF n] by (metis less_irrefl)
  have "?m * (a * (?m * (?m - 1) / 2) + b * (?m * (?m - 1) * (2 * ?m - 1) / 6)) - (?m * (?m - 1) / 2) * (a * ?m + b * (?m * (?m - 1) / 2)) = b * ?d"
    by (simp add: field_simps)
  then have "(?m * (a * (?m * (?m - 1) / 2) + b * (?m * (?m - 1) * (2 * ?m - 1) / 6)) - (?m * (?m - 1) / 2) * (a * ?m + b * (?m * (?m - 1) / 2))) / ?d = b"
    using d by (metis nonzero_mult_div_cancel_right)
  then show ?thesis using n unfolding calculateSlope_def Let_def sy by (simp only: length_map length_upt diff_zero sxy) simp
qed

section \<open>Constant streams\<close>

lemma trend_of_update: "er_trend (fst (ewma_update now p ew)) = detectTrend (snd (ewma_update now p ew))"
  by (simp add: update_prepared Let_def split_def detectTrend_def recent_def calculateVolatility_def detectChangePoint_def)

lemma run_ewma_points:
  "length ps \<le> windowSize cfg \<Longrightarrow> dataPoints (run_ewma ps (new_ewma cfg t0)) = map snd ps"
proof (induction ps rule: rev_induct)
  case Nil
  then show ?case by (simp add: run_ewma_def new_ewma_def)
next
  case (snoc e ps)
  obtain now p where e: "e = (now, p)" by fastforce
  show ?case using snoc by (simp add: e run_ewma_snoc update_common kept_points_def maintainWindowSize_def run_ewma_common(1))
qed

lemma foldl_constant: "set xs \<subseteq> {c} \<Longrightarrow> foldl (\<lambda>s v. a * v + (1 - a) * s) c xs = (c :: real)"
  by (induction xs) (auto simp: algebra_simps)

lemma constant_run:
  assumes "variant cfg = Simple" and "set (point_values ps) \<subseteq> {c}"
  shows "ps \<noteq> [] \<longrightarrow> currentValue (run_ewma ps (new_ewma cfg t0)) = c" and "ew_variance (run_ewma ps (new_ewma cfg t0)) = 0"
proof -
  have current: "currentValue (run_ewma qs (new_ewma cfg t0)) = c" if ne: "qs \<noteq> []" and cs: "set (point_values qs) \<subseteq> {c}" for qs
  proof -
    obtain x xs where x: "point_values qs = x # xs" using ne by (cases qs) (auto simp: point_values_def)
    then show ?thesis using cs run_ewma_value [OF assms(1) x] foldl_constant [of xs c] by simp
  qed
  then show "ps \<noteq> [] \<longrightarrow> currentValue (run_ewma ps (new_ewma cfg t0)) = c" using assms(2) by blast
  show "ew_variance (run_ewma ps (new_ewma cfg t0)) = 0" using assms(2)
  proof (induction ps rule: rev_induct)
    case Nil
    then show ?case by (simp add: run_ewma_def new_ewma_def)
  next
    case (snoc e ps)
    obtain now p where e: "e = (now, p)" by fastforce
    have "base_value c (run_ewma ps (new_ewma cfg t0)) = c" "dp_value p = c"
      using snoc.prems current [of ps] by (auto simp: base_value_def run_ewma_common(2) e point_values_def)
    moreover have "base_variance (run_ewma ps (new_ewma cfg t0)) = 0"
      using snoc by (simp add: base_variance_def point_values_def)
    ultimately show ?case by (simp add: e run_ewma_snoc update_variance)
  qed
qed

lemma constant_recent:
  assumes "length ps \<le> windowSize cfg" and "set (point_values ps) \<subseteq> {c}"
  shows "map dp_value (dataPoints (run_ewma ps (new_ewma cfg t0))) = replicate (length ps) c"
  using assms by (fastforce simp: run_ewma_points point_values_def intro!: replicate_eqI)

lemma slice_replicate:
  "js_slice_from i (replicate n c) = replicate (n - slice_index n i) c"
  "js_slice i j (replicate n c) = replicate (slice_index n j - slice_index n i) c"
  by (auto simp: js_slice_from_def js_slice_def slice_index_def Let_def min_def)

lemma map_js_slice: "map f (js_slice_from i xs) = js_slice_from i (map f xs)" "map f (js_slice i j xs) = js_slice i j (map f xs)"
  by (simp_all add: js_slice_from_def js_slice_def drop_map take_map Let_def)

lemma variance_replicate [simp]: "variance_of (replicate n c) = 0"
  by (simp add: variance_of_def mean_of_def sum_list_replicate)

lemma slope_replicate [simp]: "calculateSlope (replicate n c) = 0"
proof (cases "2 \<le> n")
  case True
  have "replicate n c = map (\<lambda>i. c + 0 * real i) [0..<n]" by (simp add: map_replicate_trivial)
  then show ?thesis using slope_affine [OF True, of c 0] by simp
qed (simp add: calculateSlope_def)

lemma constant_trend:
  assumes "map dp_value (dataPoints ew) = replicate n c" and "ew_variance ew = 0" and "0 \<le> volatilityThreshold (ew_config ew)" and "5 \<le> n"
  shows "tr_direction (detectTrend ew) = Decreasing"
    and "10 \<le> n \<Longrightarrow> n < 15 \<Longrightarrow> c \<noteq> 0 \<Longrightarrow> tr_changePoint (detectTrend ew)"
proof -
  have len: "length (dataPoints ew) = n" using arg_cong [OF assms(1), of length] by simp
  have vs: "recent k ew = replicate (n - slice_index n (- int k)) c" for k
    by (simp add: recent_def map_js_slice assms(1) slice_replicate)
  then have "calculateVolatility ew = 0" by (simp add: calculateVolatility_def Let_def)
  then show "tr_direction (detectTrend ew) = Decreasing"
    using assms(2-4) by (simp add: detectTrend_def len vs direction_of_def Let_def)
  show "tr_changePoint (detectTrend ew)" if n: "10 \<le> n" "n < 15" and c: "c \<noteq> 0"
  proof -
    have "slice_index n (- 5) = n - 5" "slice_index n (- 15) = 0" using n by (simp_all add: slice_index_def nat_diff_distrib)
    then have "sum_list (map dp_value (js_slice_from (- 5) (dataPoints ew))) = 5 * c"
      "sum_list (map dp_value (js_slice (- 15) (- 5) (dataPoints ew))) = real (n - 5) * c"
      using n by (simp_all add: map_js_slice assms(1) slice_replicate sum_list_replicate)
    moreover have "5 * c / 5 - real (n - 5) * c / 10 = c * (15 - real n) / 10" using n by (simp add: field_simps of_nat_diff)
    moreover have "c * (15 - real n) / 10 \<noteq> 0" using n c by simp
    ultimately show ?thesis using n by (simp add: detectTrend_def detectChangePoint_def len assms(2) Let_def)
  qed
qed

section \<open>Averages that raise no alarm\<close>

definition quiet :: "ewma \<Rightarrow> bool" where
  "quiet ew \<longleftrightarrow> variant (ew_config ew) = Simple \<and> effective_alpha ew = alpha (ew_config ew) \<and> 0 \<le> ew_variance ew
     \<and> 0 \<le> alpha (ew_config ew) \<and> alpha (ew_config ew) \<le> 1 \<and> (1 - alpha (ew_config ew))\<^sup>2 \<le> 25/4 * alpha (ew_config ew)"

lemma quiet_new:
  "variant cfg = Simple \<Longrightarrow> 0 \<le> alpha cfg \<Longrightarrow> alpha cfg \<le> 1 \<Longrightarrow> (1 - alpha cfg)\<^sup>2 \<le> 25/4 * alpha cfg \<Longrightarrow> quiet (new_ewma cfg t0)"
  by (simp add: quiet_def new_ewma_def effective_alpha_def initializeAdaptiveParameters_def)

lemma quiet_update [keeps_inv]: "quiet ew \<Longrightarrow> quiet (snd (ewma_update now p ew))"
  by (simp add: quiet_def update_common update_simple(2) update_variance base_variance_def)

lemma quiet_reset [keeps_inv]: "quiet ew \<Longrightarrow> quiet (ewma_reset now ew)"
  by (simp add: quiet_def ewma_reset_def effective_alpha_def initializeAdaptiveParameters_def)

lemma quiet_run: "quiet ew \<Longrightarrow> quiet (run_ewma ps ew)"
  unfolding run_ewma_def by (induction ps arbitrary: ew) (auto intro: keeps_inv)

lemma quiet_not_anomalous:
  assumes "quiet ew"
  shows "\<not> ea_isAnomalous (er_anomaly (fst (ewma_update now p ew)))"
proof -
  let ?a = "alpha (ew_config ew)" and ?v = "dp_value p"
  let ?e = "?v - base_value ?v ew"
  have q: "variant (ew_config ew) = Simple" "effective_alpha ew = ?a" "0 \<le> ew_variance ew" "?a \<le> 1" "(1 - ?a)\<^sup>2 \<le> 25/4 * ?a"
    using assms by (simp_all add: quiet_def)
  have "\<bar>?v - currentValue (snd (ewma_update now p ew))\<bar> = \<bar>(1 - ?a) * ?e\<bar>"
    using q(1,2) by (simp add: update_simple(1) algebra_simps)
  also have "\<dots> = sqrt ((1 - ?a)\<^sup>2 * ?e\<^sup>2)" by (simp add: real_sqrt_mult abs_mult)
  also have "\<dots> \<le> sqrt (25/4 * (?a * ?e\<^sup>2 + (1 - ?a) * base_variance ew))"
  proof (rule real_sqrt_le_mono)
    have "(1 - ?a)\<^sup>2 * ?e\<^sup>2 \<le> 25/4 * ?a * ?e\<^sup>2" using q(5) by (rule mult_right_mono) simp
    moreover have "0 \<le> (1 - ?a) * base_variance ew" using q(3,4) by (simp add: base_variance_def)
    ultimately show "(1 - ?a)\<^sup>2 * ?e\<^sup>2 \<le> 25/4 * (?a * ?e\<^sup>2 + (1 - ?a) * base_variance ew)" by simp
  qed
  also have "\<dots> = sqrt (ew_variance (snd (ewma_update now p ew))) * (25/10)"
  proof -
    have "sqrt (25/4) = (25/10 :: real)" by (rule real_sqrt_unique) (simp_all add: power2_eq_square)
    then show ?thesis unfolding real_sqrt_mult by (simp add: update_variance)
  qed
  finally show ?thesis by (simp add: update_anomaly)
qed

section \<open>Properties\<close>

text \<open>
  C23. The simple average is the weighted mean of its inputs: after values \<open>x\<close>, \<open>xs\<close> it is
  \<open>(1 - \<alpha>)\<^sup>n x + \<Sum>i. \<alpha> (1 - \<alpha>)\<^sup>i x\<^sub>n\<^sub>-\<^sub>i\<close>, whatever the window size and the adaptive setting, and with \<open>0 \<le> \<alpha> \<le> 1\<close> it
  stays between any bounds of the inputs.
\<close>
theorem ewma_weighted_mean:
  assumes "variant cfg = Simple" and "point_values ps = x # xs"
  shows "currentValue (run_ewma ps (new_ewma cfg t0)) =
      (1 - alpha cfg) ^ length xs * x + (\<Sum>i<length xs. alpha cfg * (1 - alpha cfg) ^ i * rev xs ! i)
    \<and> (0 \<le> alpha cfg \<and> alpha cfg \<le> 1 \<and> (\<forall>v\<in>set (x # xs). lo \<le> v \<and> v \<le> hi) \<longrightarrow>
       lo \<le> currentValue (run_ewma ps (new_ewma cfg t0)) \<and> currentValue (run_ewma ps (new_ewma cfg t0)) \<le> hi)"
proof -
  let ?a = "alpha cfg" and ?f = "\<lambda>s v. alpha cfg * v + (1 - alpha cfg) * s"
  have "foldl ?f x xs = (1 - ?a) ^ length xs * x + (\<Sum>i<length xs. ?a * (1 - ?a) ^ i * rev xs ! i)"
  proof (induction xs rule: rev_induct)
    case (snoc v xs)
    have "(\<Sum>i<length (xs @ [v]). ?a * (1 - ?a) ^ i * rev (xs @ [v]) ! i) =
        ?a * v + (1 - ?a) * (\<Sum>i<length xs. ?a * (1 - ?a) ^ i * rev xs ! i)"
      by (simp add: sum.lessThan_Suc_shift sum_distrib_left algebra_simps del: sum.lessThan_Suc)
    then show ?case using snoc by (simp add: algebra_simps)
  qed simp
  moreover have "lo \<le> foldl ?f x xs \<and> foldl ?f x xs \<le> hi"
    if "0 \<le> ?a" "?a \<le> 1" "\<forall>v\<in>set (x # xs). lo \<le> v \<and> v \<le> hi" using that
  proof (induction xs rule: rev_induct)
    case (snoc v xs)
    have "?a * lo + (1 - ?a) * lo \<le> ?a * v + (1 - ?a) * foldl ?f x xs" "?a * v + (1 - ?a) * foldl ?f x xs \<le> ?a * hi + (1 - ?a) * hi"
      using snoc by (intro add_mono mult_left_mono; simp)+
    then show ?case by (simp add: algebra_simps)
  qed simp
  ultimately show ?thesis using run_ewma_value [OF assms, of t0] by simp
qed

text \<open>
  A simple average whose smoothing satisfies \<open>(1 - \<alpha>)\<^sup>2 \<le> 6.25 \<alpha>\<close> (every \<open>\<alpha>\<close> from 0.124, in particular the default
  0.2) reports no data point as anomalous, whatever the data: the point has already raised the variance it is
  measured with.
\<close>
theorem ewma_never_anomalous:
  assumes "variant cfg = Simple" and "0 \<le> alpha cfg" and "alpha cfg \<le> 1" and "(1 - alpha cfg)\<^sup>2 \<le> 25/4 * alpha cfg"
  shows "\<not> ea_isAnomalous (er_anomaly (fst (ewma_update now p (run_ewma ps (new_ewma cfg t0)))))"
  by (rule quiet_not_anomalous, rule quiet_run) (use assms in \<open>simp add: quiet_new\<close>)

text \<open>
  A constant stream is reported as falling from the fifth value on (the slope 0 is not below the threshold 0), and
  from the tenth to the fourteenth value as a change of level, unless it is constantly 0 (the mean of the five to nine
  earlier values is taken over ten).
\<close>
theorem constant_stream_misjudged:
  assumes "variant cfg = Simple" and "0 \<le> volatilityThreshold cfg" and "length ps < windowSize cfg"
    and "set (point_values (ps @ [(now, p)])) \<subseteq> {c}" and "4 \<le> length ps"
  shows "tr_direction (er_trend (fst (ewma_update now p (run_ewma ps (new_ewma cfg t0))))) = Decreasing
    \<and> (9 \<le> length ps \<and> length ps < 14 \<and> c \<noteq> 0 \<longrightarrow> tr_changePoint (er_trend (fst (ewma_update now p (run_ewma ps (new_ewma cfg t0))))))"
proof -
  let ?qs = "ps @ [(now, p)]"
  have tr: "er_trend (fst (ewma_update now p (run_ewma ps (new_ewma cfg t0)))) = detectTrend (run_ewma ?qs (new_ewma cfg t0))"
    by (simp add: trend_of_update run_ewma_snoc)
  have "map dp_value (dataPoints (run_ewma ?qs (new_ewma cfg t0))) = replicate (length ps + 1) c"
    using constant_recent [of ?qs cfg c t0] assms(3,4) by simp
  moreover have "ew_variance (run_ewma ?qs (new_ewma cfg t0)) = 0" by (rule constant_run(2) [OF assms(1,4)])
  ultimately show ?thesis
    using constant_trend [of "run_ewma ?qs (new_ewma cfg t0)" "length ps + 1" c] assms(2,5) unfolding tr
    by (simp add: run_ewma_common(1))
qed

definition level :: "real \<Rightarrow> time_ms \<times> data_point" where
  "level v = (0, \<lparr>dp_value = v, dp_timestamp = 0\<rparr>)"

theorem ewma_weighted_mean_witness:
  "currentValue (run_ewma [level 1, level 2] (new_ewma getDefaultEWMAConfig 0)) = 12/10"
  using ewma_weighted_mean [of getDefaultEWMAConfig "[level 1, level 2]" 1 "[2]" 0 1 2]
  by (simp add: getDefaultEWMAConfig_def level_def point_values_def)

theorem ewma_never_anomalous_witness:
  "\<not> ea_isAnomalous (er_anomaly (fst (ewma_update 0 (snd (level 1000000)) (run_ewma [level 0, level 0] (new_ewma getDefaultEWMAConfig 0)))))"
  by (rule ewma_never_anomalous) (simp_all add: getDefaultEWMAConfig_def power2_eq_square)

theorem constant_stream_misjudged_witness:
  "tr_direction (er_trend (fst (ewma_update 0 (snd (level 7)) (run_ewma (replicate 9 (level 7)) (new_ewma getDefaultEWMAConfig 0))))) = Decreasing
   \<and> tr_changePoint (er_trend (fst (ewma_update 0 (snd (level 7)) (run_ewma (replicate 9 (level 7)) (new_ewma getDefaultEWMAConfig 0)))))"
  using constant_stream_misjudged [of getDefaultEWMAConfig "replicate 9 (level 7)" 0 "snd (level 7)" 7 0]
  by (simp add: getDefaultEWMAConfig_def level_def point_values_def)

end
