(* ===== verification/EwmaModels.thy ===== *)
theory EwmaModels
  imports Ewma
begin

text \<open>
  The statistical models behind the moving averages (\<^verbatim>\<open>backend/src/core/ewma/EWMAStatisticalModels.ts\<close>): trends, seasonality, change
  points, forecasts and outliers over a bounded history. \<^verbatim>\<open>calculateLinearTrend\<close> has the statements of \<^verbatim>\<open>calculateSlope\<close>. The local
  hour of a time stamp (\<^verbatim>\<open>getHours\<close>) depends on the time zone of the host and is the argument \<open>hourOf\<close>.
\<close>

record statistical_models =
  dataHistory :: "data_point list"
  maxHistorySize :: nat

definition new_models :: "nat \<Rightarrow> statistical_models" where
  "new_models n = \<lparr>dataHistory = [], maxHistorySize = n\<rparr>"

definition addDataPoint :: "data_point \<Rightarrow> statistical_models \<Rightarrow> statistical_models" where
  "addDataPoint p m =
     (let h = dataHistory m @ [p]
      in m\<lparr>dataHistory := (if length h > maxHistorySize m then js_slice_from (- int (maxHistorySize m)) h else h)\<rparr>)"

definition models_clear :: "statistical_models \<Rightarrow> statistical_models" where
  "models_clear m = m\<lparr>dataHistory := []\<rparr>"

definition models_memoryUsage :: "statistical_models \<Rightarrow> nat" where
  "models_memoryUsage m = length (dataHistory m) * 100"

definition calculateLinearTrend :: "real list \<Rightarrow> real" where
  "calculateLinearTrend values =
     (if length values < 2 then 0
      else
        let n = real (length values);
            sumX = n * (n - 1) / 2;
            sumY = sum_list values;
            sumXY = sum_list (map2 (\<lambda>i v. real i * v) [0..<length values] values);
            sumX2 = n * (n - 1) * (2 * n - 1) / 6
        in (n * sumXY - sumX * sumY) / (n * sumX2 - sumX * sumX))"

definition calculateVariance :: "real list \<Rightarrow> real" where
  "calculateVariance vs = (if length vs < 2 then 0 else variance_of vs)"

section \<open>Trends\<close>

record trend_metrics =
  tm_trend :: trend_direction
  tm_strength :: real
  tm_durationMinutes :: real
  tm_confidence :: real

definition calculateTrendMetrics :: "data_point list \<Rightarrow> trend_metrics" where
  "calculateTrendMetrics data =
     (if length data < 3 then \<lparr>tm_trend = Stable, tm_strength = 0, tm_durationMinutes = 0, tm_confidence = 3/10\<rparr>
      else
        let vs = map dp_value data; slope = calculateLinearTrend vs; stdDev = sqrt (calculateVariance vs)
        in \<lparr>tm_trend = direction_of slope (stdDev * (1/10)), tm_strength = min 1 (\<bar>slope\<bar> / (stdDev + 1/1000)),
            tm_durationMinutes = of_int (dp_timestamp (last data) - dp_timestamp (hd data)) / (1000 * 60),
            tm_confidence = min (95/100) (real (length data) / 20)\<rparr>)"

definition determineTrendDirection :: "real list \<Rightarrow> trend_direction" where
  "determineTrendDirection vs =
     (if length vs < 3 then Stable else direction_of (calculateLinearTrend vs) (sqrt (calculateVariance vs) * (1/10)))"

record seasonality =
  se_detected :: bool
  se_period :: nat
  se_strength :: real
  se_confidence :: real

definition calculateHourlyAverages :: "(time_ms \<Rightarrow> nat) \<Rightarrow> data_point list \<Rightarrow> real list" where
  "calculateHourlyAverages hourOf data =
     map (\<lambda>hour. let vs = map dp_value (filter (\<lambda>p. hourOf (dp_timestamp p) = hour) data)
                 in if vs \<noteq> [] then mean_of vs else 0) [0..<24]"

definition detectSeasonality :: "(time_ms \<Rightarrow> nat) \<Rightarrow> data_point list \<Rightarrow> seasonality" where
  "detectSeasonality hourOf data =
     (if length data < 60 then \<lparr>se_detected = False, se_period = 0, se_strength = 0, se_confidence = 0\<rparr>
      else
        let strength = calculateVariance (calculateHourlyAverages hourOf data) / (calculateVariance (map dp_value data) + 1/1000)
        in \<lparr>se_detected = (strength > 3/10), se_period = 60, se_strength = min 1 strength,
            se_confidence = min (8/10) (real (length data) / 200)\<rparr>)"

text \<open>The time of a change, its size relative to the threshold (infinite when the data do not vary) and the confidence.\<close>

definition detectChangePoints :: "data_point list \<Rightarrow> (time_ms \<times> jsnum \<times> real) list" where
  "detectChangePoints data =
     (if length data < 20 then []
      else
        let vs = map dp_value data; w = max 5 (length data div 10); threshold = sqrt (calculateVariance vs) * (15/10);
            change = (\<lambda>i. \<bar>mean_of (take w (drop i vs)) - mean_of (take w (drop (i - w) vs))\<bar>)
        in map (\<lambda>i. (dp_timestamp (data ! i), js_div (change i) threshold, min (9/10) (real w / 10)))
             (filter (\<lambda>i. change i > threshold) [w..<length vs - w]))"

record trend_analysis =
  ta_shortTerm :: trend_metrics
  ta_longTerm :: trend_metrics
  ta_seasonality :: seasonality
  ta_changePoints :: "(time_ms \<times> jsnum \<times> real) list"

definition getDefaultTrendAnalysis :: trend_analysis where
  "getDefaultTrendAnalysis =
     \<lparr>ta_shortTerm = \<lparr>tm_trend = Stable, tm_strength = 0, tm_durationMinutes = 0, tm_confidence = 3/10\<rparr>,
      ta_longTerm = \<lparr>tm_trend = Stable, tm_strength = 0, tm_durationMinutes = 0, tm_confidence = 3/10\<rparr>,
      ta_seasonality = \<lparr>se_detected = False, se_period = 0, se_strength = 0, se_confidence = 0\<rparr>, ta_changePoints = []\<rparr>"

definition analyzeTrend :: "(time_ms \<Rightarrow> nat) \<Rightarrow> time_ms \<Rightarrow> int \<Rightarrow> statistical_models \<Rightarrow> trend_analysis" where
  "analyzeTrend hourOf now windowMinutes m =
     (if length (dataHistory m) < 10 then getDefaultTrendAnalysis
      else
        let windowData = filter (\<lambda>p. dp_timestamp p \<ge> now - windowMinutes * 60 * 1000) (dataHistory m)
        in if length windowData < 5 then getDefaultTrendAnalysis
           else \<lparr>ta_shortTerm = calculateTrendMetrics (js_slice_from (- \<lfloor>real (length windowData) * (25/100)\<rfloor>) windowData),
                 ta_longTerm = calculateTrendMetrics windowData, ta_seasonality = detectSeasonality hourOf windowData,
                 ta_changePoints = detectChangePoints windowData\<rparr>)"

section \<open>Forecasts\<close>

definition getConfidenceMultiplier :: "real \<Rightarrow> real" where
  "getConfidenceMultiplier c =
     (if c \<ge> 99/100 then 2576/1000 else if c \<ge> 95/100 then 196/100 else if c \<ge> 90/100 then 1645/1000
      else if c \<ge> 80/100 then 1282/1000 else 1)"

definition calculateForecastAccuracy :: "real list \<Rightarrow> real" where
  "calculateForecastAccuracy vs =
     (if length vs < 10 then 6/10
      else
        let recentTrend = calculateLinearTrend (js_slice_from (- 10) vs); overallTrend = calculateLinearTrend vs
        in max (3/10) (min (9/10) (1 - \<bar>recentTrend - overallTrend\<bar> / (\<bar>overallTrend\<bar> + 1/1000))))"

record forecast_point =
  fp_timestamp :: time_ms
  fp_value :: real
  fp_confidence :: real
  fp_min :: real
  fp_max :: real

record forecast =
  fc_horizon :: int
  fc_predictions :: "forecast_point list"
  fc_expected :: real
  fc_confidence :: real

definition getDefaultForecast :: "time_ms \<Rightarrow> int \<Rightarrow> forecast" where
  "getDefaultForecast now horizonMinutes =
     \<lparr>fc_horizon = horizonMinutes,
      fc_predictions = [\<lparr>fp_timestamp = now + horizonMinutes * 60 * 1000, fp_value = 0, fp_confidence = 3/10, fp_min = -1, fp_max = 1\<rparr>],
      fc_expected = 3/10, fc_confidence = 3/10\<rparr>"

definition generateForecast :: "time_ms \<Rightarrow> int \<Rightarrow> real \<Rightarrow> statistical_models \<Rightarrow> forecast" where
  "generateForecast now horizonMinutes conf m =
     (if length (dataHistory m) < 20 then getDefaultForecast now horizonMinutes
      else
        let recentData = js_slice_from (- 50) (dataHistory m);
            vs = map dp_value recentData;
            trend = calculateLinearTrend vs;
            intervalMinutes = max 1 (horizonMinutes div 10);
            spread = getConfidenceMultiplier conf * sqrt (calculateVariance vs);
            point = (\<lambda>i. let futureMinutes = int i * intervalMinutes; v = last vs + trend * of_int futureMinutes
                         in \<lparr>fp_timestamp = dp_timestamp (last recentData) + futureMinutes * 60 * 1000, fp_value = v,
                             fp_confidence = max (1/10) (conf - real i * (5/100)), fp_min = v - spread, fp_max = v + spread\<rparr>)
        in \<lparr>fc_horizon = horizonMinutes, fc_predictions = map point [1..<11],
            fc_expected = calculateForecastAccuracy vs, fc_confidence = conf\<rparr>)"

definition calculateConfidenceInterval :: "real \<Rightarrow> real \<Rightarrow> real \<Rightarrow> real \<times> real" where
  "calculateConfidenceInterval v var conf =
     (v - getConfidenceMultiplier conf * sqrt var, v + getConfidenceMultiplier conf * sqrt var)"

section \<open>Outliers and rolling statistics\<close>

definition calculatePercentile :: "real list \<Rightarrow> real \<Rightarrow> real" where
  "calculatePercentile sorted_vs percentile =
     (let index = percentile / 100 * (real (length sorted_vs) - 1); lower = nat \<lfloor>index\<rfloor>; upper = nat \<lceil>index\<rceil>
      in if lower = upper then sorted_vs ! lower
         else sorted_vs ! lower * (1 - (index - real lower)) + sorted_vs ! upper * (index - real lower))"

definition zscore_outliers :: "real list \<Rightarrow> (nat \<times> real) list" where
  "zscore_outliers vs =
     (if length vs < 5 then []
      else
        let z = (\<lambda>v. \<bar>v - mean_of vs\<bar> / (sqrt (calculateVariance vs) + 1/1000))
        in map (\<lambda>i. (i, z (vs ! i))) (filter (\<lambda>i. z (vs ! i) > 25/10) [0..<length vs]))"

definition iqr_outliers :: "real list \<Rightarrow> (nat \<times> jsnum) list" where
  "iqr_outliers vs =
     (if length vs < 5 then []
      else
        let srt = sort vs; q1 = calculatePercentile srt 25; q3 = calculatePercentile srt 75; iqr = q3 - q1;
            lowerBound = q1 - 15/10 * iqr; upperBound = q3 + 15/10 * iqr
        in map (\<lambda>i. (i, js_max (js_div \<bar>vs ! i - lowerBound\<bar> iqr) (js_div \<bar>vs ! i - upperBound\<bar> iqr)))
             (filter (\<lambda>i. vs ! i < lowerBound \<or> vs ! i > upperBound) [0..<length vs]))"

definition calculateRollingStatistics :: "real list \<Rightarrow> nat \<Rightarrow> (real \<times> real \<times> trend_direction) list" where
  "calculateRollingStatistics vs windowSz =
     map (\<lambda>i. let w = take windowSz (drop (i + 1 - windowSz) vs) in (mean_of w, variance_of w, determineTrendDirection w))
       [windowSz - 1..<length vs]"

section \<open>Samples too small for a z-score\<close>

lemma sum_deviations: "vs \<noteq> [] \<Longrightarrow> sum_list (map (\<lambda>v. v - mean_of vs) vs) = 0"
  by (simp add: sum_list_subtractf sum_list_triv mean_of_def)

lemma sum_list_square_le:
  fixes xs :: "real list"
  shows "(sum_list xs)\<^sup>2 \<le> real (length xs) * sum_list (map (\<lambda>x. x\<^sup>2) xs)"
proof (induction xs)
  case (Cons x xs)
  let ?s = "sum_list xs" and ?q = "sum_list (map (\<lambda>x. x\<^sup>2) xs)" and ?n = "real (length xs)"
  have cross: "2 * (x * ?s) \<le> ?n * x\<^sup>2 + ?q"
  proof (cases "xs = []")
    case False
    then have n: "0 < ?n" by simp
    have "0 \<le> (?n * x - ?s)\<^sup>2" by simp
    then have "2 * (?n * x * ?s) \<le> (?n * x)\<^sup>2 + ?s\<^sup>2" by (simp add: power2_diff algebra_simps)
    also have "\<dots> \<le> (?n * x)\<^sup>2 + ?n * ?q" using Cons by simp
    finally have "?n * (2 * (x * ?s)) \<le> ?n * (?n * x\<^sup>2 + ?q)" by (simp add: algebra_simps power2_eq_square)
    then show ?thesis using n by simp
  qed simp
  have "(sum_list (x # xs))\<^sup>2 = x\<^sup>2 + 2 * (x * ?s) + ?s\<^sup>2" by (simp add: power2_sum)
  also have "\<dots> \<le> x\<^sup>2 + (?n * x\<^sup>2 + ?q) + ?n * ?q" using Cons cross by simp
  also have "\<dots> = real (length (x # xs)) * sum_list (map (\<lambda>x. x\<^sup>2) (x # xs))" by (simp add: algebra_simps)
  finally show ?case .
qed simp

text \<open>Samuelson's inequality.\<close>

lemma deviation_bound:
  assumes "i < length vs"
  shows "(vs ! i - mean_of vs)\<^sup>2 \<le> (real (length vs) - 1) * variance_of vs"
proof -
  let ?n = "real (length vs)" and ?ds = "map (\<lambda>v. v - mean_of vs) vs"
  define d rest where "d = ?ds ! i" and "rest = take i ?ds @ drop (Suc i) ?ds"
  have split: "?ds = take i ?ds @ d # drop (Suc i) ?ds" unfolding d_def using assms by (intro id_take_nth_drop) simp
  have n: "0 < ?n" using assms by (cases vs) simp_all
  have "sum_list ?ds = d + sum_list rest" by (subst split) (simp add: rest_def)
  then have zero: "sum_list rest = - d" using sum_deviations [of vs] assms by fastforce
  have "sum_list (map (\<lambda>x. x\<^sup>2) ?ds) = d\<^sup>2 + sum_list (map (\<lambda>x. x\<^sup>2) rest)" by (subst split) (simp add: rest_def)
  moreover have "sum_list (map (\<lambda>x. x\<^sup>2) ?ds) = ?n * variance_of vs" using n by (simp add: variance_of_def comp_def)
  ultimately have q: "sum_list (map (\<lambda>x. x\<^sup>2) rest) = ?n * variance_of vs - d\<^sup>2" by simp
  have len: "real (length rest) = ?n - 1" using assms by (simp add: rest_def of_nat_diff)
  have "d\<^sup>2 \<le> (?n - 1) * (?n * variance_of vs - d\<^sup>2)"
    using sum_list_square_le [of rest] by (simp add: zero q len)
  then have "?n * d\<^sup>2 \<le> ?n * ((?n - 1) * variance_of vs)" by (simp add: algebra_simps)
  then have "d\<^sup>2 \<le> (?n - 1) * variance_of vs" using n by simp
  then show ?thesis using assms by (simp add: d_def)
qed

section \<open>Properties\<close>

text \<open>
  In a sample of at most seven values no value is ever an outlier by the z-score test, however extreme: no value
  is further than \<open>\<surd>(n - 1)\<close> standard deviations from the mean of its own sample, and the limit is 2.5.
\<close>
theorem zscore_small_samples:
  assumes "length vs \<le> 7"
  shows "zscore_outliers vs = []"
proof -
  have "\<bar>vs ! i - mean_of vs\<bar> / (sqrt (calculateVariance vs) + 1/1000) \<le> 25/10" if i: "i < length vs" "5 \<le> length vs" for i
  proof -
    have v: "0 \<le> variance_of vs" by (auto simp: variance_of_def intro!: divide_nonneg_nonneg sum_list_nonneg)
    have "(vs ! i - mean_of vs)\<^sup>2 \<le> (25/10)\<^sup>2 * variance_of vs"
      using deviation_bound [OF i(1)] mult_right_mono [OF _ v, of "real (length vs) - 1" "(25/10)\<^sup>2"] assms
      by (simp add: power2_eq_square)
    then have "\<bar>vs ! i - mean_of vs\<bar> \<le> 25/10 * sqrt (variance_of vs)"
      by (metis abs_numeral abs_divide real_sqrt_abs real_sqrt_le_mono real_sqrt_mult)
    also have "\<dots> \<le> 25/10 * (sqrt (calculateVariance vs) + 1/1000)" using i(2) by (simp add: calculateVariance_def)
    finally have le: "\<bar>vs ! i - mean_of vs\<bar> \<le> 25/10 * (sqrt (calculateVariance vs) + 1/1000)" .
    have "0 \<le> sqrt (calculateVariance vs)" using v by (simp add: calculateVariance_def)
    then have "0 < sqrt (calculateVariance vs) + 1/1000" by linarith
    then show ?thesis using le by (simp only: pos_divide_le_eq)
  qed
  then show ?thesis by (auto simp: zscore_outliers_def Let_def not_less filter_empty_conv)
qed

theorem zscore_small_samples_witness: "zscore_outliers [0, 0, 0, 0, 0, 0, 1000000] = []"
  by (rule zscore_small_samples) simp

text \<open>
  Sixty or more points of a constant value of at least 1 in size within one hour of the day count as seasonal: hours without data
  enter the hourly averages as 0.
\<close>
theorem constant_data_seasonal:
  assumes "60 \<le> length data" and "\<forall>p\<in>set data. dp_value p = c \<and> hourOf (dp_timestamp p) = h" and "h < 24" and "1 \<le> \<bar>c\<bar>"
  shows "se_detected (detectSeasonality hourOf data)"
proof -
  have ne: "data \<noteq> []" using assms(1) by auto
  have vs: "map dp_value data = replicate (length data) c" using assms(2) by (intro replicate_eqI) auto
  have sel: "filter (\<lambda>p. hourOf (dp_timestamp p) = k) data = (if k = h then data else [])" for k
    using assms(2) by (auto simp: filter_empty_conv intro: filter_True)
  let ?avg = "map (\<lambda>k. if k = h then c else 0) [0..<24]"
  have avg: "calculateHourlyAverages hourOf data = ?avg"
    using ne by (simp add: calculateHourlyAverages_def sel Let_def vs mean_of_def sum_list_replicate del: upt_conv_Cons)
  have sums: "sum_list (map (\<lambda>k. if k = h then a else b) [0..<24]) = a + 23 * b" for a b :: real
    using assms(3) by (auto simp: numeral_eq_Suc less_Suc_eq)
  have mean: "mean_of ?avg = c / 24" using sums [of c 0] by (simp add: mean_of_def del: upt_conv_Cons)
  have "map (\<lambda>v. (v - mean_of ?avg)\<^sup>2) ?avg = map (\<lambda>k. if k = h then (c - c / 24)\<^sup>2 else (c / 24)\<^sup>2) [0..<24]"
    unfolding mean map_map by (intro map_cong) (auto simp: power2_eq_square)
  then have "variance_of ?avg = sum_list (map (\<lambda>k. if k = h then (c - c / 24)\<^sup>2 else (c / 24)\<^sup>2) [0..<24]) / 24"
    unfolding variance_of_def by (simp only: length_map length_upt) simp
  also have "\<dots> = ((c - c / 24)\<^sup>2 + 23 * (c / 24)\<^sup>2) / 24" by (simp only: sums)
  also have "\<dots> = 23 / 576 * c\<^sup>2" by (simp add: power2_eq_square field_simps)
  finally have var: "calculateVariance ?avg = 23 / 576 * c\<^sup>2" by (simp add: calculateVariance_def del: upt_conv_Cons)
  have "1 \<le> c\<^sup>2" using assms(4) by (metis abs_ge_zero one_le_power power2_abs)
  moreover have "calculateVariance (map dp_value data) = 0" using assms(1) by (simp add: calculateVariance_def vs)
  ultimately show ?thesis using assms(1) by (simp add: detectSeasonality_def avg var Let_def del: upt_conv_Cons)
qed

theorem constant_data_seasonal_witness:
  "se_detected (detectSeasonality (\<lambda>t. 3) (replicate 60 \<lparr>dp_value = 5, dp_timestamp = 0\<rparr>))"
  by (rule constant_data_seasonal [of _ 5 _ 3]) simp_all

end
