(* ===== verification/EwmaManagement.thy ===== *)
theory EwmaManagement
  imports EwmaModels
begin

text \<open>
  The analytics over several moving averages (\<^verbatim>\<open>backend/src/core/ewma/EWMAAnalytics.ts\<close>) and the manager that runs one average per
  time window (\<^verbatim>\<open>backend/src/services/EWMAManager.ts\<close>). The analytics engine and the manager share the averages, under names made
  from the windows; here the manager owns them and passes them on. A recommendation is a constructor; descriptions
  are texts and left out. The performance metrics the engine starts with are constants that are never lowered, so no performance insight is ever raised
  (\<open>analyzePerformanceIssues\<close>).
\<close>

section \<open>Analytics\<close>

definition countOccurrences :: "'a list \<Rightarrow> ('a, nat) js_map" where
  "countOccurrences xs = fold (\<lambda>x m. map_set x (get_or0 m x + 1) m) xs []"

definition getMostCommon :: "('a, nat) js_map \<Rightarrow> 'a option" where
  "getMostCommon counts =
     fst (foldl (\<lambda>(best, n) (x, c). if c > n then (Some x, c) else (best, n)) (None, 0) counts)"

definition determineOverallTrend :: "trend_direction list \<Rightarrow> trend_direction" where
  "determineOverallTrend ts =
     (case ts of [] \<Rightarrow> Stable | _ \<Rightarrow> the (getMostCommon (countOccurrences ts)))"

record consensus =
  co_trend :: trend_direction
  co_anomalyScore :: real
  co_confidence :: real
  co_agreement :: real

definition analyzeMultiWindowConsensus :: "(time_window, ewma_result) js_map \<Rightarrow> consensus" where
  "analyzeMultiWindowConsensus rs =
     (if length rs < 2 then \<lparr>co_trend = Stable, co_anomalyScore = 0, co_confidence = 3/10, co_agreement = 0\<rparr>
      else
        let n = real (length rs);
            counts = countOccurrences (map (\<lambda>(w, r). tr_direction (er_trend r)) rs);
            maxCount = Max (set (map snd counts));
            agreement = real maxCount / n;
            avgScore = sum_list (map (\<lambda>(w, r). ea_score (er_anomaly r)) rs) / n;
            avgConfidence = sum_list (map (\<lambda>(w, r). if ev_confidence (er_current r) = 0 then 5/10 else ev_confidence (er_current r)) rs) / n
        in \<lparr>co_trend = the (getMostCommon counts), co_anomalyScore = avgScore, co_confidence = avgConfidence * agreement,
            co_agreement = agreement\<rparr>)"

datatype insight_type = Trend_change | Volatility_spike | Performance_degradation

record ewma_insight =
  ei_type :: insight_type
  ei_high :: bool
  ei_confidence :: real
  ei_currentValue :: real
  ei_expectedValue :: real

definition getTrend :: "ewma \<Rightarrow> trend_direction" where
  "getTrend ew = tr_direction (detectTrend ew)"

definition analyzeTrendChanges :: "ewma list \<Rightarrow> ewma_insight list" where
  "analyzeTrendChanges ews =
     (let n = real (length ews); cnt = (\<lambda>t. real (count_list (map getTrend ews) t))
      in if ews = [] then []
         else (if cnt Increasing > n * (7/10)
               then [\<lparr>ei_type = Trend_change, ei_high = False, ei_confidence = 8/10, ei_currentValue = cnt Increasing,
                      ei_expectedValue = n * (3/10)\<rparr>] else [])
            @ (if cnt Volatile > n * (5/10)
               then [\<lparr>ei_type = Volatility_spike, ei_high = True, ei_confidence = 9/10, ei_currentValue = cnt Volatile,
                      ei_expectedValue = n * (2/10)\<rparr>] else []))"

definition analyzeVolatilitySpikes :: "time_ms \<Rightarrow> ewma list \<Rightarrow> ewma_insight list" where
  "analyzeVolatilitySpikes now ews =
     (let n = real (length ews);
          high = real (length (filter (\<lambda>ew. va_regime (getVolatilityAnalysis now ew) \<in> {High_regime, Extreme_regime}) ews))
      in if high > n * (3/10)
         then [\<lparr>ei_type = Volatility_spike, ei_high = True, ei_confidence = 85/100, ei_currentValue = high,
                ei_expectedValue = n * (1/10)\<rparr>] else [])"

definition analyzePerformanceIssues :: "real \<Rightarrow> ewma_insight list" where
  "analyzePerformanceIssues prediction =
     (if prediction < 7/10
      then [\<lparr>ei_type = Performance_degradation, ei_high = False, ei_confidence = 8/10, ei_currentValue = prediction,
             ei_expectedValue = 8/10\<rparr>] else [])"

definition ea_generateInsights :: "time_ms \<Rightarrow> ewma list \<Rightarrow> ewma_insight list" where
  "ea_generateInsights now ews = analyzeTrendChanges ews @ analyzeVolatilitySpikes now ews @ analyzePerformanceIssues (8/10)"

datatype validation_error = Instance_invalid | Low_average_accuracy | Low_speed

text \<open>Whether no error is of high severity, the average accuracy, the errors, and the memory used.\<close>

definition validatePerformance :: "ewma list \<Rightarrow> bool \<times> real \<times> validation_error list \<times> nat" where
  "validatePerformance ews =
     (let invalid = map (\<lambda>_. Instance_invalid) (filter (\<lambda>ew. \<not> fst (ewma_validate ew)) ews);
          n = real (length ews);
          avgAccuracy = (if ews \<noteq> [] then sum_list (map (\<lambda>ew. snd (snd (ewma_validate ew))) ews) / n else 0);
          avgSpeed = (if ews \<noteq> [] then n * 100 / n else 0);
          errors = invalid @ (if avgAccuracy < 7/10 then [Low_average_accuracy] else []) @ (if avgSpeed < 50 then [Low_speed] else [])
      in (Low_average_accuracy \<notin> set errors, avgAccuracy, errors, sum_list (map ewma_memoryUsage ews)))"

datatype validation_advice = Address_high_errors | Review_configuration | Optimize_performance | Monitor_resources | Validation_passed

definition generateValidationRecommendations :: "validation_error list \<Rightarrow> validation_advice list" where
  "generateValidationRecommendations errors =
     (if Low_average_accuracy \<in> set errors then [Address_high_errors, Review_configuration] else [])
     @ (if Instance_invalid \<in> set errors \<or> Low_speed \<in> set errors then [Optimize_performance, Monitor_resources] else [])
     @ (if errors = [] then [Validation_passed] else [])"

datatype analytics_advice = No_instances | Add_instances | Improve_accuracy | Optimize_memory | Address_insights | Operating_normally

definition ea_generateRecommendations :: "nat \<Rightarrow> real \<Rightarrow> real \<Rightarrow> ewma_insight list \<Rightarrow> analytics_advice list" where
  "ea_generateRecommendations instances prediction efficiency ins =
     (let recs = (if instances = 0 then [No_instances] else if instances < 3 then [Add_instances] else [])
            @ (if prediction < 7/10 then [Improve_accuracy] else [])
            @ (if efficiency < 8/10 then [Optimize_memory] else [])
            @ (if list_ex ei_high ins then [Address_insights] else [])
      in if recs = [] then [Operating_normally] else recs)"

record analytics_summary =
  as_instances :: nat
  as_averageAccuracy :: real
  as_totalAnomalies :: nat
  as_overallTrend :: trend_direction
  as_insights :: "ewma_insight list"
  as_recommendations :: "analytics_advice list"

text \<open>The accuracy is the constant 0.8 of every instance, and each instance counts as one anomaly.\<close>

definition generateAnalytics :: "time_ms \<Rightarrow> ewma list \<Rightarrow> analytics_summary" where
  "generateAnalytics now ews =
     (let n = length ews; ins = ea_generateInsights now ews
      in \<lparr>as_instances = n, as_averageAccuracy = (if n > 0 then real n * (8/10) / real n else 0), as_totalAnomalies = n,
          as_overallTrend = determineOverallTrend (map getTrend ews), as_insights = ins,
          as_recommendations = ea_generateRecommendations n (8/10) (8/10) ins\<rparr>)"

definition ea_generateForecast :: "time_ms \<Rightarrow> data_point list \<Rightarrow> int \<Rightarrow> statistical_models \<Rightarrow> forecast \<times> statistical_models" where
  "ea_generateForecast now ps horizonMinutes m =
     (let m = fold addDataPoint ps m in (generateForecast now horizonMinutes (8/10) m, m))"

datatype trend_pattern = Increasing_trend | Decreasing_trend | Stable_pattern | Seasonal_pattern

definition trend_patterns :: "trend_analysis \<Rightarrow> (trend_pattern \<times> real) list" where
  "trend_patterns ta =
     (let long = ta_longTerm ta; season = ta_seasonality ta
      in map snd (filter fst
           [(tm_trend long = Increasing, Increasing_trend, tm_confidence long),
            (tm_trend long = Decreasing, Decreasing_trend, tm_confidence long),
            (tm_trend long = Stable, Stable_pattern, tm_confidence long),
            (se_detected season, Seasonal_pattern, se_confidence season)]))"

definition analyzeTrendPatterns ::
  "(time_ms \<Rightarrow> nat) \<Rightarrow> time_ms \<Rightarrow> int \<Rightarrow> statistical_models \<Rightarrow> (trend_pattern \<times> real) list \<times> trend_pattern option \<times> real" where
  "analyzeTrendPatterns hourOf now windowMinutes m =
     (let ta = analyzeTrend hourOf now windowMinutes m; ps = trend_patterns ta;
          dominant = (case ps of [] \<Rightarrow> None
            | p # rest \<Rightarrow> Some (fst (foldl (\<lambda>prev curr. if snd prev > snd curr then prev else curr) p rest)))
      in (ps, dominant, max 0 (1 - real (length (ta_changePoints ta)) / 10)))"

section \<open>The manager\<close>

record ewma_manager_config =
  em_windows :: "time_window list"
  defaultConfig :: ewma_config
  windowConfigs :: "(time_window, ewma_config) js_map"
  em_maxMemoryUsage :: int
  em_persistenceInterval :: int
  em_cleanupInterval :: int
  em_enableMetrics :: bool

definition getEWMAManagerConfig :: ewma_manager_config where
  "getEWMAManagerConfig =
     \<lparr>em_windows = [Min1, Min5, Min15, Min60], defaultConfig = getDefaultEWMAConfig,
      windowConfigs = [(Min1, getHighFrequencyEWMAConfig), (Min5, getDefaultEWMAConfig), (Min15, getDefaultEWMAConfig),
        (Min60, getLowFrequencyEWMAConfig)],
      em_maxMemoryUsage = 100 * 1024 * 1024, em_persistenceInterval = 300000, em_cleanupInterval = 3600000,
      em_enableMetrics = True\<rparr>"

definition window_parameters :: "time_window \<Rightarrow> ewma_config \<Rightarrow> ewma_config" where
  "window_parameters w cfg =
     (case w of
        Min1 \<Rightarrow> cfg\<lparr>alpha := 3/10, windowSize := 60, volatilityThreshold := 1/10, changeDetectionThreshold := 8/10\<rparr>
      | Min5 \<Rightarrow> cfg\<lparr>alpha := 2/10, windowSize := 300, volatilityThreshold := 15/100, changeDetectionThreshold := 6/10\<rparr>
      | Min15 \<Rightarrow> cfg\<lparr>alpha := 1/10, windowSize := 900, volatilityThreshold := 2/10, changeDetectionThreshold := 4/10\<rparr>
      | Min60 \<Rightarrow> cfg\<lparr>alpha := 5/100, windowSize := 3600, volatilityThreshold := 3/10, changeDetectionThreshold := 3/10\<rparr>)"

text \<open>A configuration of a window holds every field, so it replaces the default one.\<close>

definition getWindowConfig :: "ewma_manager_config \<Rightarrow> time_window \<Rightarrow> ewma_config" where
  "getWindowConfig cfg w =
     (window_parameters w (case map_of (windowConfigs cfg) w of None \<Rightarrow> defaultConfig cfg | Some c \<Rightarrow> c))\<lparr>timeWindow := w\<rparr>"

record ewma_manager =
  em_config :: ewma_manager_config
  ewmaInstances :: "(time_window, ewma) js_map"
  em_insights :: "ewma_insight list"
  em_models :: statistical_models
  em_isInitialized :: bool
  em_lastPersistence :: time_ms
  em_lastCleanup :: time_ms
  processedDataPoints :: nat
  em_detectedAnomalies :: nat

definition new_ewma_manager :: "ewma_manager_config \<Rightarrow> time_ms \<Rightarrow> ewma_manager" where
  "new_ewma_manager cfg now =
     \<lparr>em_config = cfg, ewmaInstances = [], em_insights = [], em_models = new_models 1000, em_isInitialized = False,
      em_lastPersistence = now, em_lastCleanup = now, processedDataPoints = 0, em_detectedAnomalies = 0\<rparr>"

text \<open>The saved counters, if the read from Redis succeeds and finds them.\<close>

definition em_loadFromPersistence :: "(nat \<times> nat) option \<Rightarrow> ewma_manager \<Rightarrow> ewma_manager" where
  "em_loadFromPersistence saved em =
     (case saved of None \<Rightarrow> em | Some (n, a) \<Rightarrow> em\<lparr>processedDataPoints := n, em_detectedAnomalies := a\<rparr>)"

definition em_initialize :: "time_ms \<Rightarrow> (nat \<times> nat) option \<Rightarrow> ewma_manager \<Rightarrow> ewma_manager" where
  "em_initialize now saved em =
     (em_loadFromPersistence saved
        (em\<lparr>ewmaInstances := fold (\<lambda>w. map_set w (new_ewma (getWindowConfig (em_config em) w) now)) (em_windows (em_config em))
              (ewmaInstances em)\<rparr>))\<lparr>em_isInitialized := True\<rparr>"

fun update_all ::
  "time_ms \<Rightarrow> data_point \<Rightarrow> (time_window, ewma) js_map \<Rightarrow> (time_window, ewma_result) js_map \<times> (time_window, ewma) js_map" where
  "update_all now p [] = ([], [])"
| "update_all now p ((w, ew) # rest) =
     (let (r, ew) = ewma_update now p ew; (rs, m) = update_all now p rest in ((w, r) # rs, (w, ew) # m))"

datatype manager_advice =
    Low_consensus | High_consensus | High_anomaly_score | Moderate_anomaly | Watch_capacity | Watch_degradation
  | Watch_stability | Collect_more_data | Normal_patterns

definition em_generateRecommendations :: "consensus \<Rightarrow> manager_advice list" where
  "em_generateRecommendations c =
     (let recs = (if co_agreement c < 5/10 then [Low_consensus] else if co_agreement c > 9/10 then [High_consensus] else [])
            @ (if co_anomalyScore c > 8/10 then [High_anomaly_score] else if co_anomalyScore c > 6/10 then [Moderate_anomaly] else [])
            @ (case co_trend c of Increasing \<Rightarrow> [Watch_capacity] | Decreasing \<Rightarrow> [Watch_degradation]
                 | Volatile \<Rightarrow> [Watch_stability] | Stable \<Rightarrow> [])
            @ (if co_confidence c < 5/10 then [Collect_more_data] else [])
      in if recs = [] then [Normal_patterns] else recs)"

record multi_window =
  mw_windows :: "(time_window, ewma_result) js_map"
  mw_consensus :: consensus
  mw_recommendations :: "manager_advice list"

text \<open>\<open>None\<close>: the manager is not initialized and throws.\<close>

definition processDataPoint ::
  "time_ms \<Rightarrow> data_point \<Rightarrow> ewma_manager \<Rightarrow> (multi_window \<times> ewma_manager) option" where
  "processDataPoint now p em =
     (if \<not> em_isInitialized em then None
      else
        let (rs, ews) = update_all now p (ewmaInstances em);
            found = length (filter (\<lambda>(w, r). ea_isAnomalous (er_anomaly r)) rs);
            c = analyzeMultiWindowConsensus rs
        in Some (\<lparr>mw_windows = rs, mw_consensus = c, mw_recommendations = em_generateRecommendations c\<rparr>,
                 em\<lparr>ewmaInstances := ews, em_detectedAnomalies := em_detectedAnomalies em + found,
                    processedDataPoints := processedDataPoints em + 1\<rparr>))"

definition em_getTotalMemoryUsage :: "ewma_manager \<Rightarrow> int" where
  "em_getTotalMemoryUsage em = sum_list (map (\<lambda>(w, ew). int (ewma_memoryUsage ew)) (ewmaInstances em))"

definition em_isMemoryUsageHealthy :: "ewma_manager \<Rightarrow> bool" where
  "em_isMemoryUsageHealthy em \<longleftrightarrow> em_getTotalMemoryUsage em \<le> em_maxMemoryUsage (em_config em)"

text \<open>\<^verbatim>\<open>getStatistics\<close> runs the analytics, which replaces the insights.\<close>

record ewma_statistics =
  es_totalDataPoints :: nat
  es_windowsActive :: nat
  es_averageAccuracy :: real
  es_trendAccuracy :: real
  es_anomaliesDetected :: nat
  es_falsePositives :: int
  es_memoryUsage :: int

definition em_getStatistics :: "time_ms \<Rightarrow> ewma_manager \<Rightarrow> ewma_statistics \<times> ewma_manager" where
  "em_getStatistics now em =
     (let a = generateAnalytics now (map snd (ewmaInstances em))
      in (\<lparr>es_totalDataPoints = processedDataPoints em, es_windowsActive = length (ewmaInstances em),
           es_averageAccuracy = as_averageAccuracy a, es_trendAccuracy = 85/100, es_anomaliesDetected = em_detectedAnomalies em,
           es_falsePositives = \<lfloor>real (em_detectedAnomalies em) * (5/100)\<rfloor>, es_memoryUsage = em_getTotalMemoryUsage em\<rparr>,
          em\<lparr>em_insights := as_insights a\<rparr>))"

definition em_persistToStorage :: "time_ms \<Rightarrow> bool \<Rightarrow> ewma_manager \<Rightarrow> ewma_manager" where
  "em_persistToStorage now redis_ok em =
     (let em = snd (em_getStatistics now em) in if redis_ok then em\<lparr>em_lastPersistence := now\<rparr> else em)"

definition reset_all :: "time_ms \<Rightarrow> (time_window, ewma) js_map \<Rightarrow> (time_window, ewma) js_map" where
  "reset_all now m = map (\<lambda>(w, ew). (w, ewma_reset now ew)) m"

definition em_performCleanup :: "time_ms \<Rightarrow> ewma_manager \<Rightarrow> ewma_manager" where
  "em_performCleanup now em =
     (let em = (if \<not> em_isMemoryUsageHealthy em then em\<lparr>ewmaInstances := reset_all now (ewmaInstances em)\<rparr> else em)
      in em\<lparr>em_lastCleanup := now\<rparr>)"

definition em_reset :: "time_ms \<Rightarrow> ewma_manager \<Rightarrow> ewma_manager" where
  "em_reset now em =
     em\<lparr>ewmaInstances := reset_all now (ewmaInstances em), em_insights := [], em_models := models_clear (em_models em),
        processedDataPoints := 0, em_detectedAnomalies := 0\<rparr>"

definition em_shutdown :: "time_ms \<Rightarrow> bool \<Rightarrow> ewma_manager \<Rightarrow> ewma_manager" where
  "em_shutdown now redis_ok em = (em_persistToStorage now redis_ok em)\<lparr>em_isInitialized := False\<rparr>"

datatype health_component = Comp_memory | Comp_accuracy | Comp_calculation
datatype em_status = Em_healthy | Em_warning | Em_error | Em_critical

definition getHealthCheck :: "ewma_manager \<Rightarrow> bool \<times> em_status \<times> health_component list" where
  "getHealthCheck em =
     (let issues = (if real_of_int (em_getTotalMemoryUsage em) > real_of_int (em_maxMemoryUsage (em_config em)) * (9/10) then [Comp_memory] else [])
            @ (if \<not> fst (validatePerformance (map snd (ewmaInstances em))) then [Comp_accuracy] else [])
            @ (if ewmaInstances em = [] then [Comp_calculation] else [])
      in (issues = [],
          if Comp_calculation \<in> set issues then Em_critical else if Comp_memory \<in> set issues then Em_error
          else if issues \<noteq> [] then Em_warning else Em_healthy, issues))"

datatype health_advice = Fix_critical | Fix_high | Optimize_memory_use | Adjust_parameters | System_healthy

definition generateHealthRecommendations :: "health_component list \<Rightarrow> health_advice list" where
  "generateHealthRecommendations issues =
     (if Comp_calculation \<in> set issues then [Fix_critical] else []) @ (if Comp_memory \<in> set issues then [Fix_high] else [])
     @ (if Comp_memory \<in> set issues then [Optimize_memory_use] else []) @ (if Comp_accuracy \<in> set issues then [Adjust_parameters] else [])
     @ (if issues = [] then [System_healthy] else [])"

section \<open>Counting\<close>

lemma countOccurrences_from:
  "js_map_ok m \<Longrightarrow>
   js_map_ok (fold (\<lambda>x m. map_set x (get_or0 m x + 1) m) xs m) \<and>
   get_or0 (fold (\<lambda>x m. map_set x (get_or0 m x + 1) m) xs m) y = get_or0 m y + count_list xs y \<and>
   fst ` set (fold (\<lambda>x m. map_set x (get_or0 m x + 1) m) xs m) = fst ` set m \<union> set xs"
proof (induction xs arbitrary: m)
  case (Cons x xs)
  have "fst ` set (map_set x (get_or0 m x + 1) m) = insert x (fst ` set m)" by (simp add: dom_update)
  then show ?case using Cons.IH [OF js_map_ok_set [OF Cons.prems]] by (simp add: get_or0_set)
qed simp

lemma countOccurrences_spec:
  "(x, c) \<in> set (countOccurrences xs) \<longleftrightarrow> x \<in> set xs \<and> c = count_list xs x"
proof -
  let ?m = "countOccurrences xs"
  have ok: "js_map_ok ?m" and get: "get_or0 ?m y = count_list xs y" and dom: "fst ` set ?m = set xs" for y
    using countOccurrences_from [of "[]" xs y] by (simp_all add: countOccurrences_def get_or0_def)
  have "(x, c) \<in> set ?m \<longleftrightarrow> map_of ?m x = Some c" by (rule js_map_ok_in [OF ok])
  also have "\<dots> \<longleftrightarrow> x \<in> set xs \<and> c = count_list xs x"
  proof (cases "map_of ?m x")
    case None
    then have "x \<notin> set xs" unfolding map_of_eq_None_iff dom .
    with None show ?thesis by simp
  next
    case (Some d)
    then have "x \<in> set xs" unfolding dom [symmetric] by (force dest: map_of_SomeD)
    with Some show ?thesis using get [of x] by (auto simp: get_or0_def)
  qed
  finally show ?thesis .
qed

lemma most_common_from:
  "case foldl (\<lambda>(best, n) (x, c). if c > n then (Some x, c) else (best, n)) (bst, hi :: nat) m of
    (best, n) \<Rightarrow> hi \<le> n \<and> (\<forall>(x, c)\<in>set m. c \<le> n) \<and> ((best, n) = (bst, hi) \<or> (\<exists>x. best = Some x \<and> (x, n) \<in> set m))"
proof (induction m arbitrary: bst hi)
  case (Cons e m)
  obtain x c where e: "e = (x, c)" by fastforce
  show ?case
  proof (cases "c > hi")
    case True
    then show ?thesis using Cons.IH [where hi = c and bst = "Some x"] by (auto simp: e split: prod.splits)
  next
    case False
    then show ?thesis using Cons.IH [where hi = hi and bst = bst] by (auto simp: e split: prod.splits)
  qed
qed simp

lemma getMostCommon_spec:
  assumes "xs \<noteq> []"
  obtains x where "getMostCommon (countOccurrences xs) = Some x" and "x \<in> set xs" and "\<forall>y. count_list xs y \<le> count_list xs x"
    and "Max (set (map snd (countOccurrences xs))) = count_list xs x"
proof -
  let ?m = "countOccurrences xs"
  obtain best n where f: "foldl (\<lambda>(best, n) (x, c). if c > n then (Some x, c) else (best, n)) (None, 0) ?m = (best, n)" by fastforce
  have r: "\<forall>(x, c)\<in>set ?m. c \<le> n" "(best, n) = (None, 0) \<or> (\<exists>x. best = Some x \<and> (x, n) \<in> set ?m)"
    using most_common_from [where bst = None and hi = 0 and m = ?m] f by auto
  obtain z where z: "z \<in> set xs" using assms by (cases xs) auto
  have "0 < count_list xs z" using z by (metis count_list_0_iff gr0I)
  moreover have "count_list xs z \<le> n" using r(1) z countOccurrences_spec [of z _ xs] by fastforce
  ultimately obtain x where x: "best = Some x" "(x, n) \<in> set ?m" using r(2) by auto
  have xs: "x \<in> set xs" "n = count_list xs x" using x(2) by (simp_all add: countOccurrences_spec)
  have "count_list xs y \<le> count_list xs x" for y
    using r(1) countOccurrences_spec [of y "count_list xs y" xs] xs(2) by (cases "y \<in> set xs") auto
  moreover have "Max (set (map snd ?m)) = count_list xs x"
  proof (rule Max_eqI)
    show "count_list xs x \<in> set (map snd ?m)" using x(2) xs(2) by force
    show "c \<le> count_list xs x" if "c \<in> set (map snd ?m)" for c using that r(1) xs(2) by auto
  qed simp
  ultimately show ?thesis using that [of x] x(1) xs(1) f by (simp add: getMostCommon_def)
qed

lemma update_all_parts:
  "map fst (fst (update_all now p m)) = map fst m"
  "(w, r) \<in> set (fst (update_all now p m)) \<Longrightarrow> \<exists>ew. (w, ew) \<in> set m \<and> r = fst (ewma_update now p ew)"
  "(w, ew') \<in> set (snd (update_all now p m)) \<Longrightarrow> \<exists>ew. (w, ew) \<in> set m \<and> ew' = snd (ewma_update now p ew)"
proof -
  show "map fst (fst (update_all now p m)) = map fst m"
    by (induction m) (auto simp: split_def Let_def)
  show "\<exists>ew. (w, ew) \<in> set m \<and> r = fst (ewma_update now p ew)" if "(w, r) \<in> set (fst (update_all now p m))"
    using that by (induction m) (fastforce simp: split_def Let_def)+
  show "\<exists>ew. (w, ew) \<in> set m \<and> ew' = snd (ewma_update now p ew)" if "(w, ew') \<in> set (snd (update_all now p m))"
    using that by (induction m) (fastforce simp: split_def Let_def)+
qed

section \<open>Properties\<close>

text \<open>
  The consensus of at least two windows names a direction that no other direction outnumbers, and the agreement is
  that direction's share of the windows, above 0 and at most 1.
\<close>
theorem consensus_is_plurality:
  assumes "2 \<le> length rs" and "ts = map (\<lambda>(w, r). tr_direction (er_trend r)) rs"
  shows "co_trend (analyzeMultiWindowConsensus rs) \<in> set ts
    \<and> (\<forall>t. count_list ts t \<le> count_list ts (co_trend (analyzeMultiWindowConsensus rs)))
    \<and> co_agreement (analyzeMultiWindowConsensus rs) = real (count_list ts (co_trend (analyzeMultiWindowConsensus rs))) / real (length rs)
    \<and> 0 < co_agreement (analyzeMultiWindowConsensus rs) \<and> co_agreement (analyzeMultiWindowConsensus rs) \<le> 1"
proof -
  have "ts \<noteq> []" using assms by (cases rs) auto
  then obtain t where t: "getMostCommon (countOccurrences ts) = Some t" "t \<in> set ts" "\<forall>y. count_list ts y \<le> count_list ts t"
    "Max (set (map snd (countOccurrences ts))) = count_list ts t" using getMostCommon_spec by blast
  have "0 < count_list ts t" using t(2) by (metis count_list_0_iff gr0I)
  moreover have "count_list ts t \<le> length rs" using count_le_length [of ts t] assms(2) by simp
  moreover have "co_trend (analyzeMultiWindowConsensus rs) = t"
    "co_agreement (analyzeMultiWindowConsensus rs) = real (count_list ts t) / real (length rs)"
    using assms(1) t(1,4) unfolding analyzeMultiWindowConsensus_def assms(2) [symmetric] Let_def by simp_all
  moreover have "0 < real (length rs)" "rs \<noteq> []" using assms(1) by auto
  ultimately show ?thesis using t(2,3) by (simp add: divide_le_eq_1)
qed

definition streamed :: "(time_ms \<times> data_point) list \<Rightarrow> ewma_manager \<Rightarrow> ewma_manager" where
  "streamed ps em = fold (\<lambda>(now, p) e. case processDataPoint now p e of None \<Rightarrow> e | Some (r, e') \<Rightarrow> e') ps em"

definition short_quiet :: "ewma_manager \<Rightarrow> bool" where
  "short_quiet em \<longleftrightarrow> (\<forall>(w, ew)\<in>set (ewmaInstances em). w = Min1 \<or> w = Min5 \<longrightarrow> quiet ew)"

lemma short_quiet_init: "short_quiet (em_initialize t0 saved (new_ewma_manager getEWMAManagerConfig t0))"
  by (auto simp: short_quiet_def em_initialize_def em_loadFromPersistence_def new_ewma_manager_def getEWMAManagerConfig_def
      getWindowConfig_def window_parameters_def getHighFrequencyEWMAConfig_def getDefaultEWMAConfig_def power2_eq_square
      intro!: quiet_new split: option.splits)

lemma short_quiet_process: "short_quiet em \<Longrightarrow> processDataPoint now p em = Some (mw, em') \<Longrightarrow> short_quiet em'"
  using update_all_parts(3) [of _ _ now p "ewmaInstances em"]
  by (fastforce simp: processDataPoint_def short_quiet_def Let_def split_def split: if_splits intro: keeps_inv)

lemma short_quiet_streamed: "short_quiet em \<Longrightarrow> short_quiet (streamed ps em)"
  unfolding streamed_def
proof (induction ps arbitrary: em)
  case (Cons e ps)
  then show ?case by (cases e) (auto split: option.splits intro: short_quiet_process)
qed simp

text \<open>
  In the default set-up the one-minute and the five-minute windows never report an anomaly, whatever is streamed through the
  manager; only the two slow windows can.
\<close>
theorem short_windows_silent:
  assumes "em = streamed ps (em_initialize t0 saved (new_ewma_manager getEWMAManagerConfig t0))"
    and "processDataPoint now p em = Some (mw, em')"
  shows "\<forall>(w, r)\<in>set (mw_windows mw). ea_isAnomalous (er_anomaly r) \<longrightarrow> w = Min15 \<or> w = Min60"
proof -
  have q: "short_quiet em" unfolding assms(1) by (rule short_quiet_streamed [OF short_quiet_init])
  have rs: "mw_windows mw = fst (update_all now p (ewmaInstances em))"
    using assms(2) by (auto simp: processDataPoint_def Let_def split_def split: if_splits)
  show ?thesis
  proof (clarify)
    fix w r assume r: "(w, r) \<in> set (mw_windows mw)" "ea_isAnomalous (er_anomaly r)" "w \<noteq> Min60"
    obtain ew where "(w, ew) \<in> set (ewmaInstances em)" "r = fst (ewma_update now p ew)"
      using update_all_parts(2) r(1) unfolding rs by blast
    then show "w = Min15" using q r(2,3) quiet_not_anomalous by (cases w) (auto simp: short_quiet_def)
  qed
qed

definition default_manager :: ewma_manager where
  "default_manager = em_initialize 0 None (new_ewma_manager getEWMAManagerConfig 0)"

theorem short_windows_silent_witness:
  "list_all (\<lambda>(w, r). ea_isAnomalous (er_anomaly r) \<longrightarrow> w = Min15 \<or> w = Min60)
     (mw_windows (fst (the (processDataPoint 0 (snd (level 5)) default_manager))))"
proof -
  have "em_isInitialized default_manager" by (simp add: default_manager_def em_initialize_def)
  then obtain mw em' where "processDataPoint 0 (snd (level 5)) default_manager = Some (mw, em')"
    by (auto simp: processDataPoint_def Let_def split_def)
  then show ?thesis
    using short_windows_silent [of default_manager "[]" 0 None 0 "snd (level 5)" mw em']
    by (simp add: streamed_def default_manager_def list_all_iff)
qed

theorem consensus_is_plurality_witness:
  "co_agreement (analyzeMultiWindowConsensus (fst (update_all 0 (snd (level 5)) (ewmaInstances default_manager)))) \<le> 1"
proof -
  have "length (ewmaInstances default_manager) = 4"
    by (simp add: default_manager_def em_initialize_def em_loadFromPersistence_def new_ewma_manager_def getEWMAManagerConfig_def)
  then have "2 \<le> length (fst (update_all 0 (snd (level 5)) (ewmaInstances default_manager)))"
    using arg_cong [OF update_all_parts(1), of length 0 "snd (level 5)" "ewmaInstances default_manager"] by simp
  then show ?thesis using consensus_is_plurality [OF _ refl] by blast
qed

end
