(* ===== verification/Ingestion.thy ===== *)
theory Ingestion
  imports Patterns
begin

text \<open>
  The ingestion pipeline (\<^verbatim>\<open>backend/ingestion\<close>): raw events of any source are normalised to one schema
  (\<^verbatim>\<open>normaliser.ts\<close>), enriched with a location, threat-intelligence scores and the asset (\<^verbatim>\<open>enrichment/*.ts\<close>) and published to
  Kafka (\<^verbatim>\<open>kafka.ts\<close>).

  The clock, the random identifier, the environment variables, the location data base, the replies of the two
  services, the asset data base and the broker are arguments. \<open>number_text\<close> is the decimal text of a number.
\<close>

section \<open>The schema\<close>

text \<open>
  \<^verbatim>\<open>severityMap[raw] ?? 'low'\<close> reads an object literal, which inherits from \<^verbatim>\<open>Object.prototype\<close>: the names \<^verbatim>\<open>constructor\<close> and
  \<^verbatim>\<open>__proto__\<close>, the only inherited ones without a capital letter, give a function or an object. \<open>Inherited\<close> stands for such a
  value.
\<close>

datatype event_severity = Sev_low | Sev_medium | Sev_high | Sev_critical | Inherited string

record geo =
  geo_country :: string
  geo_region :: string
  geo_city :: string
  geo_timezone :: string
  geo_ll :: "real \<times> real"

datatype verdict = Clean | Suspicious | Malicious

record threat_intel =
  virustotal_score :: "real option"
  abuseipdb_score :: "real option"
  ti_tags :: "string list"
  ti_verdict :: verdict

record asset =
  as_asset_id :: "string option"
  as_hostname :: "string option"
  as_owner :: "string option"
  as_environment :: "string option"
  criticality_score :: real

record unified_event =
  ue_event_id :: string
  ue_source :: string
  ue_src_ip :: string
  ue_dst_ip :: "string option"
  ue_timestamp :: string
  ue_event_type :: string
  ue_severity :: event_severity
  ue_raw_payload :: "(string \<times> json) list"
  ue_user_id :: "string option"
  ue_host :: "string option"
  ue_geo :: "geo option"
  ue_threat_intel :: "threat_intel option"
  ue_asset :: "asset option"
  ue_original_keys :: "string list"
  ue_normalized_at :: string

record normalization_input =
  ni_source :: string
  ni_payload :: "(string \<times> json) list option"

section \<open>Normalisation\<close>

definition severityMap :: "string \<Rightarrow> event_severity option" where
  "severityMap raw =
     (if raw \<in> {''constructor'', ''__proto__''} then Some (Inherited raw)
      else map_of [(''info'', Sev_low), (''low'', Sev_low), (''medium'', Sev_medium), (''high'', Sev_high),
        (''critical'', Sev_critical), (''warn'', Sev_medium), (''warning'', Sev_medium), (''error'', Sev_high)] raw)"

definition asString :: "json option \<Rightarrow> string \<Rightarrow> string" where
  "asString v fallback =
     (case v of Some (JStr s) \<Rightarrow> s | Some (JNum n) \<Rightarrow> n | Some (JBool b) \<Rightarrow> (if b then ''true'' else ''false'') | _ \<Rightarrow> fallback)"

definition or_str :: "string \<Rightarrow> string \<Rightarrow> string" where
  "or_str a b = (if a = [] then b else a)"

definition opt_str :: "string \<Rightarrow> string option" where
  "opt_str s = (if s = [] then None else Some s)"

definition normalizeSeverity :: "(string \<times> json) list \<Rightarrow> event_severity" where
  "normalizeSeverity payload =
     (let raw = map lower_char (asString (or_json (or_json (map_of payload ''severity'') (map_of payload ''level'')) (map_of payload ''priority'')) ''low'')
      in case severityMap raw of Some s \<Rightarrow> s | None \<Rightarrow> Sev_low)"

definition normalizeEvent :: "string \<Rightarrow> string \<Rightarrow> normalization_input \<Rightarrow> unified_event" where
  "normalizeEvent uuid nowIso input =
     (let payload = (case ni_payload input of None \<Rightarrow> [] | Some p \<Rightarrow> p);
          field = map_of payload;
          text_of = (\<lambda>k. asString (field k) []);
          srcIp = or_str (or_str (or_str (or_str (or_str (text_of ''src_ip'') (text_of ''srcIp'')) (text_of ''source_ip'')) (text_of ''client_ip''))
            (text_of ''ip'')) ''0.0.0.0'';
          dstIp = or_str (or_str (or_str (text_of ''dst_ip'') (text_of ''dstIp'')) (text_of ''destination_ip'')) (text_of ''target_ip'');
          ts = asString (or_json (or_json (field ''timestamp'') (field ''time'')) (field ''event_time'')) nowIso;
          eventType = or_str (or_str (or_str (text_of ''event_type'') (text_of ''eventType'')) (text_of ''action'')) (asString (field ''type'') ''unknown'')
      in \<lparr>ue_event_id = asString (or_json (field ''event_id'') (field ''id'')) uuid, ue_source = ni_source input, ue_src_ip = srcIp,
          ue_dst_ip = opt_str dstIp, ue_timestamp = ts, ue_event_type = eventType, ue_severity = normalizeSeverity payload,
          ue_raw_payload = payload, ue_user_id = opt_str (asString (or_json (field ''user_id'') (field ''userId'')) []),
          ue_host = opt_str (asString (or_json (or_json (field ''host'') (field ''hostname'')) (field ''device'')) []),
          ue_geo = None, ue_threat_intel = None, ue_asset = None, ue_original_keys = map fst payload, ue_normalized_at = nowIso\<rparr>)"

section \<open>Enrichment\<close>

definition enrichWithGeoIp :: "(string \<Rightarrow> geo option) \<Rightarrow> unified_event \<Rightarrow> unified_event" where
  "enrichWithGeoIp lookup event =
     (case lookup (ue_src_ip event) of None \<Rightarrow> event | Some g \<Rightarrow> event\<lparr>ue_geo := Some g\<rparr>)"

record intel_enricher =
  virusTotalApiKey :: "string option"
  abuseIpDbApiKey :: "string option"

definition or_key :: "string option \<Rightarrow> string option \<Rightarrow> string option" where
  "or_key a b = (case a of Some k \<Rightarrow> if k = [] then b else a | None \<Rightarrow> b)"

definition new_enricher :: "string option \<Rightarrow> string option \<Rightarrow> string option \<Rightarrow> string option \<Rightarrow> intel_enricher" where
  "new_enricher optVt optAbuse envVt envAbuse = \<lparr>virusTotalApiKey = or_key optVt envVt, abuseIpDbApiKey = or_key optAbuse envAbuse\<rparr>"

definition has_key :: "string option \<Rightarrow> bool" where
  "has_key k \<longleftrightarrow> (case k of None \<Rightarrow> False | Some k \<Rightarrow> k \<noteq> [])"

text \<open>The numbers of malicious and of suspicious verdicts (each 0 if absent), or \<open>None\<close> if the request fails.\<close>

definition fetchVirusTotalScore :: "(string \<Rightarrow> (real \<times> real) option) \<Rightarrow> intel_enricher \<Rightarrow> string \<Rightarrow> real option" where
  "fetchVirusTotalScore vt en ip =
     (if \<not> has_key (virusTotalApiKey en) then None
      else case vt ip of None \<Rightarrow> None | Some (malicious, suspicious) \<Rightarrow> Some (min 100 (malicious * 10 + suspicious * 5)))"

definition fetchAbuseIpDbScore :: "(string \<Rightarrow> real option) \<Rightarrow> intel_enricher \<Rightarrow> string \<Rightarrow> real option" where
  "fetchAbuseIpDbScore abuse en ip = (if \<not> has_key (abuseIpDbApiKey en) then None else abuse ip)"

definition buildTags :: "real option \<Rightarrow> real option \<Rightarrow> string list" where
  "buildTags vt abuse =
     (case vt of Some v \<Rightarrow> if v \<ge> 60 then [''virustotal-high-risk''] else [] | None \<Rightarrow> [])
     @ (case abuse of Some v \<Rightarrow> if v \<ge> 60 then [''abuseipdb-high-confidence''] else [] | None \<Rightarrow> [])"

definition enrich_intel ::
  "(string \<Rightarrow> (real \<times> real) option) \<Rightarrow> (string \<Rightarrow> real option) \<Rightarrow> intel_enricher \<Rightarrow> unified_event \<Rightarrow> unified_event" where
  "enrich_intel vt abuse en event =
     (let vtScore = fetchVirusTotalScore vt en (ue_src_ip event); abuseScore = fetchAbuseIpDbScore abuse en (ue_src_ip event);
          or0 = (\<lambda>s. case s of None \<Rightarrow> 0 | Some v \<Rightarrow> v);
          maxScore = max (or0 vtScore) (or0 abuseScore)
      in event\<lparr>ue_threat_intel := Some \<lparr>virustotal_score = vtScore, abuseipdb_score = abuseScore, ti_tags = buildTags vtScore abuseScore,
           ti_verdict = (if maxScore \<ge> 80 then Malicious else if maxScore \<ge> 40 then Suspicious else Clean)\<rparr>\<rparr>)"

record asset_row =
  ar_asset_id :: "string option"
  ar_hostname :: "string option"
  ar_owner :: "string option"
  ar_environment :: "string option"
  ar_criticality :: "real option"

definition unknown_asset :: asset where
  "unknown_asset = \<lparr>as_asset_id = None, as_hostname = None, as_owner = None, as_environment = None, criticality_score = 1\<rparr>"

text \<open>\<open>find\<close> is the query for a row with this address or host name; it is only run when the data base is connected.\<close>

definition enrichWithAssetContext :: "bool \<Rightarrow> (string \<Rightarrow> string option \<Rightarrow> asset_row option) \<Rightarrow> unified_event \<Rightarrow> unified_event" where
  "enrichWithAssetContext ready findOne event =
     (if \<not> ready then event\<lparr>ue_asset := Some unknown_asset\<rparr>
      else case findOne (ue_src_ip event) (ue_host event) of
        None \<Rightarrow> event\<lparr>ue_asset := Some unknown_asset\<rparr>
      | Some row \<Rightarrow> event\<lparr>ue_asset := Some \<lparr>as_asset_id = ar_asset_id row, as_hostname = ar_hostname row, as_owner = ar_owner row,
          as_environment = ar_environment row, criticality_score = (case ar_criticality row of None \<Rightarrow> 1 | Some c \<Rightarrow> c)\<rparr>\<rparr>)"

section \<open>The JSON form of an event\<close>

fun severity_json :: "event_severity \<Rightarrow> (string \<times> json) list" where
  "severity_json Sev_low = [(''severity'', JStr ''low'')]"
| "severity_json Sev_medium = [(''severity'', JStr ''medium'')]"
| "severity_json Sev_high = [(''severity'', JStr ''high'')]"
| "severity_json Sev_critical = [(''severity'', JStr ''critical'')]"
| "severity_json (Inherited n) = (if n = ''__proto__'' then [(''severity'', JObj [])] else [])"

fun verdict_text :: "verdict \<Rightarrow> string" where
  "verdict_text Clean = ''clean''"
| "verdict_text Suspicious = ''suspicious''"
| "verdict_text Malicious = ''malicious''"

definition opt_member :: "string \<Rightarrow> ('a \<Rightarrow> json) \<Rightarrow> 'a option \<Rightarrow> (string \<times> json) list" where
  "opt_member k f v = (case v of None \<Rightarrow> [] | Some x \<Rightarrow> [(k, f x)])"

definition geo_json :: "(real \<Rightarrow> string) \<Rightarrow> geo \<Rightarrow> json" where
  "geo_json number_text g =
     JObj [(''country'', JStr (geo_country g)), (''region'', JStr (geo_region g)), (''city'', JStr (geo_city g)),
       (''timezone'', JStr (geo_timezone g)), (''ll'', JArr [JNum (number_text (fst (geo_ll g))), JNum (number_text (snd (geo_ll g)))])]"

definition intel_json :: "(real \<Rightarrow> string) \<Rightarrow> threat_intel \<Rightarrow> json" where
  "intel_json number_text t =
     JObj (opt_member ''virustotal_score'' (JNum \<circ> number_text) (virustotal_score t)
       @ opt_member ''abuseipdb_score'' (JNum \<circ> number_text) (abuseipdb_score t)
       @ [(''tags'', JArr (map JStr (ti_tags t))), (''verdict'', JStr (verdict_text (ti_verdict t)))])"

definition asset_json :: "(real \<Rightarrow> string) \<Rightarrow> asset \<Rightarrow> json" where
  "asset_json number_text a =
     JObj (opt_member ''asset_id'' JStr (as_asset_id a) @ opt_member ''hostname'' JStr (as_hostname a) @ opt_member ''owner'' JStr (as_owner a)
       @ opt_member ''environment'' JStr (as_environment a) @ [(''criticality_score'', JNum (number_text (criticality_score a)))])"

definition event_members :: "(real \<Rightarrow> string) \<Rightarrow> unified_event \<Rightarrow> (string \<times> json) list" where
  "event_members number_text e =
     [(''event_id'', JStr (ue_event_id e)), (''source'', JStr (ue_source e)), (''src_ip'', JStr (ue_src_ip e))]
     @ opt_member ''dst_ip'' JStr (ue_dst_ip e)
     @ [(''timestamp'', JStr (ue_timestamp e)), (''event_type'', JStr (ue_event_type e))]
     @ severity_json (ue_severity e) @ [(''raw_payload'', JObj (ue_raw_payload e))]
     @ opt_member ''user_id'' JStr (ue_user_id e) @ opt_member ''host'' JStr (ue_host e)
     @ [(''metadata'', JObj [(''original_keys'', JArr (map JStr (ue_original_keys e))), (''normalized_at'', JStr (ue_normalized_at e))])]
     @ opt_member ''geo'' (geo_json number_text) (ue_geo e)
     @ opt_member ''threat_intel'' (intel_json number_text) (ue_threat_intel e)
     @ opt_member ''asset'' (asset_json number_text) (ue_asset e)"

section \<open>The Kafka pipeline\<close>

record kafka_config =
  clientId :: string
  brokers :: "string list"
  topic :: string
  groupId :: string

definition split_comma :: "string \<Rightarrow> string list" where
  "split_comma s = foldr (\<lambda>c ws. if c = CHR '','' then [] # ws else (c # hd ws) # tl ws) s [[]]"

definition pick :: "string option \<Rightarrow> string option \<Rightarrow> string \<Rightarrow> string" where
  "pick given env dflt = (case or_key given (or_key env (Some dflt)) of Some s \<Rightarrow> s | None \<Rightarrow> dflt)"

definition pipeline_config ::
  "string option \<Rightarrow> string list option \<Rightarrow> string option \<Rightarrow> string option \<Rightarrow> (string \<Rightarrow> string option) \<Rightarrow> kafka_config" where
  "pipeline_config cId bs tp gId env =
     \<lparr>clientId = pick cId (env ''KAFKA_CLIENT_ID'') ''phontomflow-ingestion'',
      brokers = (case bs of Some b \<Rightarrow> b
        | None \<Rightarrow> (case env ''KAFKA_BROKERS'' of Some s \<Rightarrow> split_comma s | None \<Rightarrow> [''localhost:9092''])),
      topic = pick tp (env ''KAFKA_UNIFIED_TOPIC'') ''phontomflow.unified.events.v1'',
      groupId = pick gId (env ''KAFKA_GROUP_ID'') ''phontomflow-normaliser-group''\<rparr>"

record pipeline =
  pl_config :: kafka_config
  pl_enricher :: intel_enricher
  producer_connected :: bool
  topic_log :: "(string \<times> string \<times> string) list"

datatype kafka_error = Connect_failed | Send_failed | Disconnect_failed

text \<open>The surroundings of one publication.\<close>

record surroundings =
  su_uuid :: string
  su_now :: string
  su_geo :: "string \<Rightarrow> geo option"
  su_vt :: "string \<Rightarrow> (real \<times> real) option"
  su_abuse :: "string \<Rightarrow> real option"
  su_db_ready :: bool
  su_asset :: "string \<Rightarrow> string option \<Rightarrow> asset_row option"
  su_failure :: "kafka_error option"

definition enriched :: "surroundings \<Rightarrow> intel_enricher \<Rightarrow> normalization_input \<Rightarrow> unified_event" where
  "enriched su en input =
     enrichWithAssetContext (su_db_ready su) (su_asset su)
       (enrich_intel (su_vt su) (su_abuse su) en (enrichWithGeoIp (su_geo su) (normalizeEvent (su_uuid su) (su_now su) input)))"

definition publishRawEvent ::
  "(real \<Rightarrow> string) \<Rightarrow> surroundings \<Rightarrow> normalization_input \<Rightarrow> pipeline \<Rightarrow> (kafka_error + unified_event) \<times> pipeline" where
  "publishRawEvent number_text su input pl =
     (let event = enriched su (pl_enricher pl) input;
          message = (topic (pl_config pl), ue_event_id event, stringify (JObj (event_members number_text event)))
      in case su_failure su of
           Some Connect_failed \<Rightarrow> (Inl Connect_failed, pl)
         | Some Send_failed \<Rightarrow> (Inl Send_failed, pl\<lparr>producer_connected := True\<rparr>)
         | Some Disconnect_failed \<Rightarrow> (Inl Disconnect_failed, pl\<lparr>producer_connected := True, topic_log := topic_log pl @ [message]\<rparr>)
         | None \<Rightarrow> (Inr event, pl\<lparr>producer_connected := False, topic_log := topic_log pl @ [message]\<rparr>))"

text \<open>A message of the topic: skipped if it has no value, an error if it is not JSON, else handed to the callback.\<close>

definition eachMessage :: "(string \<Rightarrow> json option) \<Rightarrow> (json \<Rightarrow> 's \<Rightarrow> 's) \<Rightarrow> string option \<Rightarrow> 's \<Rightarrow> 's option" where
  "eachMessage parse onEvent value_text s =
     (case value_text of None \<Rightarrow> Some s
      | Some t \<Rightarrow> (case parse t of None \<Rightarrow> None | Some j \<Rightarrow> Some (onEvent j s)))"

section \<open>Lemmas\<close>

lemma or_str_empty [simp]: "or_str a b = [] \<longleftrightarrow> a = [] \<and> b = []"
  by (simp add: or_str_def)

lemma or_str_first: "a \<noteq> [] \<Longrightarrow> or_str a b = a"
  by (simp add: or_str_def)

lemma or_json_first [simp]: "or_json (Some (JStr s)) b = (if s = [] then b else Some (JStr s))"
  by (simp add: or_json_def)

lemma asString_str [simp]: "asString (Some (JStr s)) f = s" "asString None f = f"
  by (simp_all add: asString_def)

lemma opt_str_simps [simp]: "opt_str s = None \<longleftrightarrow> s = []" "opt_str s = Some t \<longleftrightarrow> s = t \<and> t \<noteq> []"
  by (auto simp: opt_str_def)

text \<open>Reading a member of the JSON form.\<close>

lemma map_of_opt_member: "map_of (opt_member k f v) k' = (if k' = k then map_option f v else None)"
  by (auto simp: opt_member_def split: option.splits)

lemma map_of_severity_json: "k \<noteq> ''severity'' \<Longrightarrow> map_of (severity_json s) k = None"
  by (cases s) auto

lemma event_fields:
  "map_of (event_members nt e) ''event_id'' = Some (JStr (ue_event_id e))"
  "map_of (event_members nt e) ''src_ip'' = Some (JStr (ue_src_ip e))"
  "map_of (event_members nt e) ''dst_ip'' = map_option JStr (ue_dst_ip e)"
  "map_of (event_members nt e) ''timestamp'' = Some (JStr (ue_timestamp e))"
  "map_of (event_members nt e) ''event_type'' = Some (JStr (ue_event_type e))"
  "map_of (event_members nt e) ''severity'' = map_of (severity_json (ue_severity e)) ''severity''"
  "map_of (event_members nt e) ''user_id'' = map_option JStr (ue_user_id e)"
  "map_of (event_members nt e) ''host'' = map_option JStr (ue_host e)"
  by (simp_all add: event_members_def map_of_opt_member map_of_severity_json map_add_def option.case_eq_if)

lemma event_fields_absent:
  "map_of (event_members nt e) ''dstIp'' = None"
  "map_of (event_members nt e) ''destination_ip'' = None"
  "map_of (event_members nt e) ''target_ip'' = None"
  "map_of (event_members nt e) ''userId'' = None"
  "map_of (event_members nt e) ''hostname'' = None"
  "map_of (event_members nt e) ''device'' = None"
  by (simp_all add: event_members_def map_of_opt_member map_of_severity_json map_add_def)

lemma opt_str_field:
  assumes "v \<noteq> Some []"
  shows "opt_str (asString (or_json (map_option JStr v) None) []) = v" "opt_str (asString (map_option JStr v) []) = v"
  using assms by (cases v; simp add: or_json_def opt_str_def)+

lemma or_str_Nil [simp]: "or_str a [] = a"
  by (simp add: or_str_def)

lemma or_json_None [simp]: "or_json (or_json a None) None = or_json a None"
  by (auto simp: or_json_def split: option.splits)

lemma closed_severity: "normalizeSeverity p = Inherited n \<Longrightarrow> n = ''constructor'' \<or> n = ''__proto__''"
  unfolding normalizeSeverity_def severityMap_def Let_def by (auto split: if_splits option.splits)

lemma severity_members:
  assumes "\<forall>n. s \<noteq> Inherited n" and "map_of p ''severity'' = map_of (severity_json s) ''severity''"
  shows "normalizeSeverity p = s"
  using assms by (cases s) (simp_all add: normalizeSeverity_def severityMap_def lower_char_def)

lemma enriched_keeps:
  "ue_event_id (enriched su en i) = ue_event_id (normalizeEvent (su_uuid su) (su_now su) i)"
  "ue_source (enriched su en i) = ue_source (normalizeEvent (su_uuid su) (su_now su) i)"
  "ue_src_ip (enriched su en i) = ue_src_ip (normalizeEvent (su_uuid su) (su_now su) i)"
  "ue_dst_ip (enriched su en i) = ue_dst_ip (normalizeEvent (su_uuid su) (su_now su) i)"
  "ue_timestamp (enriched su en i) = ue_timestamp (normalizeEvent (su_uuid su) (su_now su) i)"
  "ue_event_type (enriched su en i) = ue_event_type (normalizeEvent (su_uuid su) (su_now su) i)"
  "ue_severity (enriched su en i) = ue_severity (normalizeEvent (su_uuid su) (su_now su) i)"
  "ue_raw_payload (enriched su en i) = ue_raw_payload (normalizeEvent (su_uuid su) (su_now su) i)"
  "ue_user_id (enriched su en i) = ue_user_id (normalizeEvent (su_uuid su) (su_now su) i)"
  "ue_host (enriched su en i) = ue_host (normalizeEvent (su_uuid su) (su_now su) i)"
  by (simp_all add: enriched_def enrichWithAssetContext_def enrich_intel_def enrichWithGeoIp_def Let_def split: option.splits)

text \<open>Fields that are absent or hold a non-empty text.\<close>

lemma normalize_parts:
  "ue_src_ip (normalizeEvent u t i) \<noteq> []"
  "ue_dst_ip (normalizeEvent u t i) \<noteq> Some []"
  "ue_user_id (normalizeEvent u t i) \<noteq> Some []"
  "ue_host (normalizeEvent u t i) \<noteq> Some []"
  by (simp_all add: normalizeEvent_def Let_def)

section \<open>Properties\<close>

text \<open>
  A published event is normalised and enriched and nothing more: the enrichment keeps every field of the
  normalised event, adds the asset with a criticality and the threat intelligence, whose verdict is malicious exactly when one of the scores is
  at least 80, and one message whose key is the event's identifier is appended to the topic.
\<close>
theorem publish_enriches:
  assumes "publishRawEvent nt su input pl = (Inr e, pl')" and "n = normalizeEvent (su_uuid su) (su_now su) input"
  shows "ue_event_id e = ue_event_id n \<and> ue_src_ip e = ue_src_ip n \<and> ue_event_type e = ue_event_type n \<and> ue_severity e = ue_severity n
      \<and> ue_raw_payload e = ue_raw_payload n \<and> ue_user_id e = ue_user_id n \<and> ue_host e = ue_host n
      \<and> ue_asset e \<noteq> None
      \<and> (\<exists>ti. ue_threat_intel e = Some ti
      \<and> (ti_verdict ti = Malicious \<longleftrightarrow> (\<exists>s \<in> {virustotal_score ti, abuseipdb_score ti}. s \<noteq> None \<and> the s \<ge> 80)))
      \<and> \<not> producer_connected pl' \<and> topic_log pl' = topic_log pl @ [(topic (pl_config pl), ue_event_id n, stringify (JObj (event_members nt e)))]"
proof -
  have e: "e = enriched su (pl_enricher pl) input" and pl': "su_failure su = None"
    "pl' = pl\<lparr>producer_connected := False, topic_log := topic_log pl @ [(topic (pl_config pl), ue_event_id e, stringify (JObj (event_members nt e)))]\<rparr>"
    using assms(1) unfolding publishRawEvent_def Let_def by (auto split: option.splits kafka_error.splits)
  have "ue_asset e \<noteq> None" unfolding e by (simp add: enriched_def enrichWithAssetContext_def split: option.splits)
  moreover have "\<exists>ti. ue_threat_intel e = Some ti
      \<and> (ti_verdict ti = Malicious \<longleftrightarrow> (\<exists>s \<in> {virustotal_score ti, abuseipdb_score ti}. s \<noteq> None \<and> the s \<ge> 80))"
    unfolding e enriched_def enrichWithAssetContext_def enrich_intel_def Let_def by (auto split: option.splits)
  ultimately show ?thesis unfolding pl' by (simp add: e assms(2) enriched_keeps)
qed

text \<open>
  Normalising is idempotent: an event fed back as a raw payload keeps its identifier, addresses, time, type, severity, user
  and host, provided its identifier, time and type are not empty and its severity is one of the four.
\<close>
theorem renormalize:
  assumes "e = normalizeEvent u t i" and "ue_event_id e \<noteq> []" and "ue_timestamp e \<noteq> []" and "ue_event_type e \<noteq> []"
    and "\<forall>n. ue_severity e \<noteq> Inherited n"
    and "e' = normalizeEvent u' t' \<lparr>ni_source = ue_source e, ni_payload = Some (event_members nt e)\<rparr>"
  shows "ue_event_id e' = ue_event_id e \<and> ue_source e' = ue_source e \<and> ue_src_ip e' = ue_src_ip e \<and> ue_dst_ip e' = ue_dst_ip e
    \<and> ue_timestamp e' = ue_timestamp e \<and> ue_event_type e' = ue_event_type e \<and> ue_severity e' = ue_severity e
    \<and> ue_user_id e' = ue_user_id e \<and> ue_host e' = ue_host e"
proof -
  have ne: "ue_src_ip e \<noteq> []" "ue_dst_ip e \<noteq> Some []" "ue_user_id e \<noteq> Some []" "ue_host e \<noteq> Some []"
    unfolding assms(1) by (rule normalize_parts)+
  have sev: "normalizeSeverity (event_members nt e) = ue_severity e"
    using assms(5) by (intro severity_members) (simp_all add: event_fields)
  show ?thesis
    using ne sev assms(2-4)
    by (simp add: assms(6) normalizeEvent_def Let_def event_fields event_fields_absent or_str_first opt_str_field)
qed


section \<open>Witnesses\<close>

definition demo_input :: normalization_input where
  "demo_input = \<lparr>ni_source = ''splunk'', ni_payload = Some [(''srcIp'', JStr ''8.8.8.8''), (''level'', JStr ''Error''), (''action'', JStr ''login'')]\<rparr>"

definition demo_su :: surroundings where
  "demo_su = \<lparr>su_uuid = ''id-1'', su_now = ''2025'', su_geo = \<lambda>_. None, su_vt = \<lambda>_. Some (9, 0), su_abuse = \<lambda>_. None, su_db_ready = False,
     su_asset = \<lambda>_ _. None, su_failure = None\<rparr>"

definition demo_pipeline :: pipeline where
  "demo_pipeline = \<lparr>pl_config = pipeline_config None None None None (\<lambda>_. None), pl_enricher = new_enricher (Some ''key'') None None None,
     producer_connected = False, topic_log = []\<rparr>"

lemma demo_event:
  "normalizeEvent ''id-1'' ''2025'' demo_input =
     \<lparr>ue_event_id = ''id-1'', ue_source = ''splunk'', ue_src_ip = ''8.8.8.8'', ue_dst_ip = None, ue_timestamp = ''2025'', ue_event_type = ''login'',
      ue_severity = Sev_high, ue_raw_payload = the (ni_payload demo_input), ue_user_id = None, ue_host = None, ue_geo = None,
      ue_threat_intel = None, ue_asset = None, ue_original_keys = [''srcIp'', ''level'', ''action''], ue_normalized_at = ''2025''\<rparr>"
  by code_simp

theorem publish_enriches_witness:
  "length (topic_log (snd (publishRawEvent (\<lambda>_. ''90'') demo_su demo_input demo_pipeline))) = 1"
proof -
  obtain e pl' where "publishRawEvent (\<lambda>_. ''90'') demo_su demo_input demo_pipeline = (Inr e, pl')"
    by (simp add: publishRawEvent_def Let_def demo_su_def)
  then show ?thesis using publish_enriches [OF _ refl] by (simp add: demo_pipeline_def)
qed

theorem renormalize_witness:
  "ue_severity (normalizeEvent ''x'' ''y'' \<lparr>ni_source = ''splunk'',
     ni_payload = Some (event_members (\<lambda>_. ''0'') (normalizeEvent ''id-1'' ''2025'' demo_input))\<rparr>) = Sev_high"
  using renormalize [OF refl, where u = "''id-1''" and t = "''2025''" and i = demo_input and u' = "''x''" and t' = "''y''" and nt = "\<lambda>_. ''0''"]
  by (simp add: demo_event)

end
