(* ===== verification/Detection.thy ===== *)
theory Detection
  imports Ingestion
begin

text \<open>
  The detectors of \<^verbatim>\<open>backend/detection\<close>: the payload heuristics (\<^verbatim>\<open>payloadHeuristics.ts\<close>), the Sigma rules (\<^verbatim>\<open>sigma.ts\<close>), the
  YARA scan with its fallback (\<^verbatim>\<open>yara.ts\<close>), the mapping to techniques (\<^verbatim>\<open>ttp_mapper.ts\<close>) and the graph query's score
  (\<^verbatim>\<open>relationshipAnalyzer.ts\<close>). The reply of the Python process, of the graph data base and the text of a rule file are
  arguments.
\<close>

section \<open>Payload heuristics\<close>

datatype payload_level = Level_low | Level_medium | Level_high | Level_critical

record analyzer_result =
  hr_riskScore :: real
  hr_threatLevel :: payload_level
  hr_confidence :: real
  hr_threatType :: "string list"

definition keyword :: "string \<Rightarrow> rx" where
  "keyword w = rx_seq [Bound, rx_lit w, Bound]"

definition not_line_end :: "char \<Rightarrow> bool" where
  "not_line_end c \<longleftrightarrow> \<not> line_end c"

definition sqli :: rx where
  "sqli = rx_any
     [rx_seq [Bound, rx_lit ''union'', Bound, Many not_line_end, Bound, rx_lit ''select'', Bound],
      rx_seq [Bound, rx_lit ''or'', rx_some space_char, rx_lit ''1=1'', Bound],
      rx_lit ''--'', rx_lit ''/*'', keyword ''drop'', keyword ''insert'', keyword ''delete'']"

definition xss_markers :: "string list" where
  "xss_markers = [''<script'', ''javascript:'', ''onerror='', ''onload='', ''<img'', ''<svg'']"

definition xss :: rx where
  "xss = rx_any (map rx_lit xss_markers)"

definition shell_separator :: "char \<Rightarrow> bool" where
  "shell_separator c \<longleftrightarrow> c \<in> {CHR '';'', CHR ''&'', CHR ''|'', char_of (96 :: nat)}"

definition cmdi :: rx where
  "cmdi = rx_any
     [rx_seq [Bound, rx_any (map rx_lit [''cat'', ''ls'', ''whoami'', ''wget'', ''curl'', ''powershell'', ''cmd.exe'']), Bound],
      rx_seq [One shell_separator, Many space_char, rx_some word_char]]"

definition pathTraversal :: rx where
  "pathTraversal = rx_any
     [rx_lit ''../'', rx_lit (''..'' @ [char_of (92 :: nat)]), rx_lit ''%2e%2e%2f'', rx_lit (''%2e%2e'' @ [char_of (92 :: nat)])]"

record heuristics_request =
  hq_body :: "json option"
  hq_headers :: "json option"
  hq_requestPath :: "string option"
  hq_query :: "json option"

definition request_sample :: "heuristics_request \<Rightarrow> string" where
  "request_sample r =
     stringify (or_empty (hq_body r)) @ [char_of (10 :: nat)] @ stringify (or_empty (hq_headers r)) @ [char_of (10 :: nat)]
     @ (case hq_requestPath r of None \<Rightarrow> [] | Some p \<Rightarrow> p) @ ''?'' @ stringify (or_empty (hq_query r))"

definition suspicious_char :: "char \<Rightarrow> bool" where
  "suspicious_char c \<longleftrightarrow>
     c \<in> {CHR ''<'', CHR ''>'', char_of (39 :: nat), char_of (34 :: nat), char_of (96 :: nat), CHR '';'', CHR ''$'', CHR ''|'', CHR ''&''}"

definition threat_types :: "string \<Rightarrow> string list" where
  "threat_types t =
     (if rx_test sqli t then [''sql_injection''] else []) @ (if rx_test xss t then [''xss''] else [])
     @ (if rx_test cmdi t then [''command_injection''] else []) @ (if rx_test pathTraversal t then [''path_traversal''] else [])"

definition pattern_score :: "string \<Rightarrow> real" where
  "pattern_score t =
     (if rx_test sqli t then 35/100 else 0) + (if rx_test xss t then 25/100 else 0)
     + (if rx_test cmdi t then 3/10 else 0) + (if rx_test pathTraversal t then 25/100 else 0)"

definition heuristics_analyze :: "heuristics_request \<Rightarrow> analyzer_result" where
  "heuristics_analyze r =
     (let t = request_sample r;
          score = pattern_score t + min (2/10) (real (length (filter suspicious_char t)) / 500);
          riskScore = min 1 score
      in \<lparr>hr_riskScore = riskScore,
          hr_threatLevel = (if riskScore \<ge> 85/100 then Level_critical else if riskScore \<ge> 65/100 then Level_high
                            else if riskScore \<ge> 4/10 then Level_medium else Level_low),
          hr_confidence = min 1 (5/10 + riskScore / 2),
          hr_threatType = (if threat_types t = [] then [''none''] else threat_types t)\<rparr>)"

section \<open>Sigma rules\<close>

record sigma_rule =
  sr_id :: string
  sr_title :: string
  sr_level :: string
  sr_eventType :: "string option"
  sr_contains :: "string list option"

record sigma_match =
  sm_ruleId :: string
  sm_title :: string
  sm_level :: string
  sm_matchedFields :: "string list"

definition trim_start :: "string \<Rightarrow> string" where
  "trim_start s = dropWhile space_char s"

definition trim :: "string \<Rightarrow> string" where
  "trim s = rev (dropWhile space_char (rev (trim_start s)))"

definition quote_char :: "char \<Rightarrow> bool" where
  "quote_char c \<longleftrightarrow> c = char_of (34 :: nat) \<or> c = char_of (39 :: nat)"

definition strip_quotes :: "string \<Rightarrow> string" where
  "strip_quotes s =
     (let s = (case s of [] \<Rightarrow> [] | c # r \<Rightarrow> if quote_char c then r else s)
      in if s \<noteq> [] \<and> quote_char (last s) then butlast s else s)"

text \<open>The text from each beginning of a line on.\<close>

fun line_starts :: "bool \<Rightarrow> string \<Rightarrow> string list" where
  "line_starts b [] = (if b then [[]] else [])"
| "line_starts b (c # s) = (if b then [c # s] else []) @ line_starts (line_end c) s"

text \<open>
  \<^verbatim>\<open>^key:\s*(.+)$\<close> at the beginning of a line: the white space after the colon is skipped, the ends of lines included, and
  the rest of the line that follows is the value. If only white space follows, the code gets an empty value or none; both
  select the default, and no later line can match.
\<close>

definition field_at :: "string \<Rightarrow> string \<Rightarrow> string option" where
  "field_at key s =
     (if starts_with s (key @ '':'') \<and> trim_start (drop (length key + 1) s) \<noteq> []
      then Some (takeWhile not_line_end (trim_start (drop (length key + 1) s))) else None)"

definition rule_field :: "string \<Rightarrow> string \<Rightarrow> string option" where
  "rule_field key raw =
     (case List.find (\<lambda>s. field_at key s \<noteq> None) (line_starts True raw) of None \<Rightarrow> None
      | Some s \<Rightarrow> (case strip_quotes (trim (the (field_at key s))) of [] \<Rightarrow> None | v \<Rightarrow> Some v))"

fun split_lines :: "string \<Rightarrow> string list" where
  "split_lines [] = [[]]"
| "split_lines (c # s) = (if c = char_of (10 :: nat) then [] # split_lines s else (c # hd (split_lines s)) # tl (split_lines s))"

definition list_items :: "string \<Rightarrow> string list" where
  "list_items raw =
     filter (\<lambda>s. s \<noteq> []) (map (\<lambda>l. trim (drop 2 (trim l))) (filter (\<lambda>l. starts_with (trim l) ''- '') (split_lines raw)))"

definition or_default :: "string option \<Rightarrow> string \<Rightarrow> string" where
  "or_default v d = (case v of None \<Rightarrow> d | Some s \<Rightarrow> s)"

definition parseRuleText :: "nat \<Rightarrow> string \<Rightarrow> sigma_rule" where
  "parseRuleText now raw =
     \<lparr>sr_id = or_default (rule_field ''id'' raw) (''sigma-'' @ digits now), sr_title = or_default (rule_field ''title'' raw) ''Untitled Sigma Rule'',
      sr_level = or_default (rule_field ''level'' raw) ''medium'', sr_eventType = rule_field ''event_type'' raw,
      sr_contains = (if list_items raw \<noteq> [] then Some (list_items raw) else None)\<rparr>"

definition includes_ci :: "string \<Rightarrow> string \<Rightarrow> bool" where
  "includes_ci haystack needle = includes_str (map lower_char haystack) (map lower_char needle)"

definition matchRule :: "unified_event \<Rightarrow> sigma_rule \<Rightarrow> sigma_match option" where
  "matchRule event rule =
     (let wanted = (case sr_eventType rule of None \<Rightarrow> [] | Some t \<Rightarrow> t); needles = (case sr_contains rule of None \<Rightarrow> [] | Some ns \<Rightarrow> ns)
      in if wanted \<noteq> [] \<and> wanted \<noteq> ue_event_type event then None
         else if needles \<noteq> [] \<and> \<not> list_all (includes_ci (stringify (JObj (ue_raw_payload event)))) needles then None
         else Some \<lparr>sm_ruleId = sr_id rule, sm_title = sr_title rule, sm_level = sr_level rule,
           sm_matchedFields = (if wanted \<noteq> [] then [''event_type''] else []) @ (if needles \<noteq> [] then [''raw_payload''] else [])\<rparr>)"

definition evaluate_rules :: "sigma_rule list \<Rightarrow> unified_event \<Rightarrow> sigma_match list" where
  "evaluate_rules rules event = List.map_filter (matchRule event) rules"

text \<open>The directory: \<open>None\<close> if it does not exist, else its files with their texts and the clock at each parse.\<close>

definition loadRulesFromDirectory :: "(string \<times> nat \<times> string) list option \<Rightarrow> sigma_rule list \<Rightarrow> sigma_rule list" where
  "loadRulesFromDirectory dir rules =
     (case dir of None \<Rightarrow> rules
      | Some files \<Rightarrow> map (\<lambda>(f, now, raw). parseRuleText now raw) (filter (\<lambda>(f, _). ends_with f ''.yml'' \<or> ends_with f ''.yaml'') files))"

section \<open>YARA\<close>

datatype yara_engine = Python_yara | Heuristic_fallback

record yara_result =
  yr_matched :: bool
  yr_rules :: "json list"
  yr_engine :: yara_engine

text \<open>The exit of the process: its code and its output; \<open>parse\<close> is \<^verbatim>\<open>JSON.parse\<close>. \<open>None\<close> is a rejected promise.\<close>

definition executePython :: "(string \<Rightarrow> json option) \<Rightarrow> int \<Rightarrow> string \<Rightarrow> json option" where
  "executePython parse exit_code out =
     (if exit_code \<noteq> 0 \<and> out = [] then None else parse (if trim out = [] then ''{}'' else trim out))"

definition suspicious_payload :: rx where
  "suspicious_payload = rx_any (map rx_lit [''powershell'', ''cmd.exe'', ''mimikatz'', ''base64''])"

definition fallback_scan :: "string \<Rightarrow> yara_result" where
  "fallback_scan payload =
     (let matched = rx_test suspicious_payload payload
      in \<lparr>yr_matched = matched, yr_rules = (if matched then [JStr ''heuristic.suspicious_payload''] else []), yr_engine = Heuristic_fallback\<rparr>)"

fun member :: "string \<Rightarrow> json \<Rightarrow> json option" where
  "member k (JObj ms) = map_of ms k"
| "member k _ = None"

text \<open>Reading a property of \<^verbatim>\<open>null\<close> throws, inside the same \<^verbatim>\<open>try\<close>.\<close>

definition scanPayload :: "(string \<Rightarrow> json option) \<Rightarrow> int \<Rightarrow> string \<Rightarrow> string \<Rightarrow> yara_result" where
  "scanPayload parse exit_code out payload =
     (case executePython parse exit_code out of
        Some result \<Rightarrow> if result = JNull then fallback_scan payload
          else \<lparr>yr_matched = (case member ''matched'' result of None \<Rightarrow> False | Some v \<Rightarrow> json_truthy v),
                yr_rules = (case member ''rules'' result of Some (JArr rs) \<Rightarrow> rs | _ \<Rightarrow> []), yr_engine = Python_yara\<rparr>
      | None \<Rightarrow> fallback_scan payload)"

section \<open>Techniques and relations\<close>

record analyzer_outputs =
  behavioralScore :: real
  statisticalScore :: real
  relationshipScore :: real

datatype rationale = Account_behaviour | Service_abuse | Pivot | Brute_force | Exfiltration

record ttp_result =
  ttpIds :: "string list"
  tt_confidence :: real
  tt_rationale :: "rationale list"

definition mapAnalyzersToTtp :: "analyzer_outputs \<Rightarrow> ttp_result" where
  "mapAnalyzersToTtp o' =
     (let b = behavioralScore o'; s = statisticalScore o'; r = relationshipScore o';
          hits = (if b > 7/10 then [(''T1078'', Account_behaviour)] else []) @ (if s > 7/10 then [(''T1499'', Service_abuse)] else [])
            @ (if r > 7/10 then [(''T1021'', Pivot)] else []) @ (if b > 8/10 \<and> s > 8/10 then [(''T1110'', Brute_force)] else [])
            @ (if r > 75/100 \<and> s > 75/100 then [(''T1041'', Exfiltration)] else [])
      in \<lparr>ttpIds = fold set_add (map fst hits) [], tt_confidence = min 1 ((b + s + r) / 3), tt_rationale = map snd hits\<rparr>)"

record relationship_result =
  rr_riskScore :: real
  rr_relatedNodes :: real
  rr_pivotPaths :: real

text \<open>The reply of the graph data base: \<open>None\<close> if the query throws; a record may be missing.\<close>

definition relationship_analyze :: "(real \<times> real) option option \<Rightarrow> relationship_result option" where
  "relationship_analyze reply =
     (case reply of None \<Rightarrow> None
      | Some rec \<Rightarrow> (let (nodes, paths) = (case rec of None \<Rightarrow> (0, 0) | Some p \<Rightarrow> p)
          in Some \<lparr>rr_riskScore = min 1 (nodes * (2/100) + paths * (1/100)), rr_relatedNodes = nodes, rr_pivotPaths = paths\<rparr>))"

section \<open>Texts inside a request\<close>

definition request_strings :: "heuristics_request \<Rightarrow> string list" where
  "request_strings r = json_strings (or_empty (hq_body r)) @ json_strings (or_empty (hq_headers r)) @ json_strings (or_empty (hq_query r))"

lemma sublist_sample:
  assumes "s \<in> set (request_strings r)" and "sublist t s" and "list_all plain_char t"
  shows "sublist t (request_sample r)"
proof -
  let ?p = "case hq_requestPath r of None \<Rightarrow> [] | Some p \<Rightarrow> p" and ?nl = "[char_of (10 :: nat)] :: string"
  let ?b = "stringify (or_empty (hq_body r))" and ?h = "stringify (or_empty (hq_headers r))" and ?q = "stringify (or_empty (hq_query r))"
  consider "sublist t ?b" | "sublist t ?h" | "sublist t ?q"
    using assms sublist_stringify unfolding request_strings_def by (metis Un_iff set_append)
  then show ?thesis
  proof cases
    case 1
    from sublist_surround [OF this, of "[]" "?nl @ ?h @ ?nl @ ?p @ ''?'' @ ?q"] show ?thesis by (simp add: request_sample_def)
  next
    case 2
    from sublist_surround [OF this, of "?b @ ?nl" "?nl @ ?p @ ''?'' @ ?q"] show ?thesis by (simp add: request_sample_def)
  next
    case 3
    from sublist_surround [OF this, of "?b @ ?nl @ ?h @ ?nl @ ?p @ ''?''" "[]"] show ?thesis by (simp add: request_sample_def)
  qed
qed

lemma plain_lower:
  assumes "lower_char d = lower_char c" and "plain_char c"
  shows "plain_char d"
proof -
  have of_lower: "(of_char (lower_char x) :: nat) =
      (if 65 \<le> (of_char x :: nat) \<and> (of_char x :: nat) \<le> 90 \<or> 192 \<le> (of_char x :: nat) \<and> (of_char x :: nat) \<le> 222 \<and> (of_char x :: nat) \<noteq> 215
       then of_char x + 32 else of_char x)" for x
    by (auto simp: lower_char_def Let_def of_char_of)
  have "(of_char (lower_char d) :: nat) = of_char (lower_char c)" using assms(1) by simp
  then show ?thesis using assms(2) unfolding of_lower plain_char_def Let_def by (auto split: if_splits)
qed

lemma plain_lower_list: "map lower_char t' = map lower_char t \<Longrightarrow> list_all plain_char t \<Longrightarrow> list_all plain_char t'"
proof (induction t' arbitrary: t)
  case (Cons d t')
  then show ?case using plain_lower by (cases t) auto
qed simp

lemma lit_in_sample:
  assumes "s \<in> set (request_strings r)" and "rx_test (rx_lit t) s" and "list_all plain_char t"
  shows "rx_test (rx_lit t) (request_sample r)"
proof -
  obtain a b where "map lower_char s = a @ map lower_char t @ b" using assms(2) by (auto simp: rx_test_lit sublist_def)
  then obtain a' u b' where s: "s = a' @ u @ b'" and u: "map lower_char u = map lower_char t"
    by (metis append_eq_map_conv)
  have "sublist u (request_sample r)"
    using sublist_sample [OF assms(1)] plain_lower_list [OF u assms(3)] s by (metis sublist_appendI)
  then show ?thesis unfolding rx_test_lit u [symmetric] by (rule map_mono_sublist)
qed

lemma plain_markers: "list_all (list_all plain_char) xss_markers" "list_all plain_char ''--''" "list_all plain_char ''../''"
  by code_simp+

lemma marker_found:
  assumes "s \<in> set (request_strings r)"
  shows "t \<in> set xss_markers \<Longrightarrow> rx_test (rx_lit t) s \<Longrightarrow> rx_test xss (request_sample r)"
    and "rx_test (rx_lit ''--'') s \<Longrightarrow> rx_test sqli (request_sample r)"
    and "rx_test (rx_lit ''../'') s \<Longrightarrow> rx_test pathTraversal (request_sample r)"
proof -
  show "rx_test xss (request_sample r)" if t: "t \<in> set xss_markers" "rx_test (rx_lit t) s"
  proof -
    have "list_all plain_char t" using plain_markers(1) t(1) by (simp add: list_all_iff)
    with lit_in_sample [OF assms t(2)] t(1) show ?thesis unfolding xss_def rx_test_any list_ex_iff by auto
  qed
  show "rx_test (rx_lit ''--'') s \<Longrightarrow> rx_test sqli (request_sample r)"
    using lit_in_sample [OF assms _ plain_markers(2)] unfolding sqli_def rx_test_any by simp
  show "rx_test (rx_lit ''../'') s \<Longrightarrow> rx_test pathTraversal (request_sample r)"
    using lit_in_sample [OF assms _ plain_markers(3)] unfolding pathTraversal_def rx_test_any by simp
qed

lemma separator_ends:
  assumes "word_char c"
  shows "rx_ends (rx_seq [One shell_separator, Many space_char, rx_some word_char]) (b, CHR '';'' # c # q) \<noteq> []"
proof -
  obtain e es where "many_ends word_char (Some c) q = e # es" by (meson many_ends_ne neq_Nil_conv)
  then show ?thesis using assms by (simp add: rx_seq_def rx_some_def shell_separator_def)
qed

lemma separator_found:
  assumes "s \<in> set (request_strings r)" and "sublist [CHR '';'', c] s" and "word_char c"
  shows "rx_test cmdi (request_sample r)"
proof -
  have "list_all plain_char [CHR '';'', c]" using assms(3) by (auto simp: plain_char_def word_char_def Let_def)
  then have "sublist [CHR '';'', c] (request_sample r)" using sublist_sample assms(1,2) by blast
  then obtain p q where s: "request_sample r = p @ CHR '';'' # c # q" by (auto simp: sublist_def)
  let ?r = "rx_seq [One shell_separator, Many space_char, rx_some word_char]"
  have "test_from ?r None (p @ CHR '';'' # c # q)" using separator_ends [OF assms(3)] by (intro test_from_at)
  then show ?thesis unfolding cmdi_def rx_test_any s by (simp add: rx_test_def)
qed

section \<open>Sigma rule texts\<close>

definition unlines :: "string list \<Rightarrow> string" where
  "unlines ls = concat (map (\<lambda>l. l @ [char_of (10 :: nat)]) ls)"

definition one_line :: "string \<Rightarrow> bool" where
  "one_line l \<longleftrightarrow> list_all not_line_end l"

text \<open>A text that survives \<^verbatim>\<open>trim\<close>, and one that survives the removal of quotes too.\<close>

definition trimmed :: "string \<Rightarrow> bool" where
  "trimmed v \<longleftrightarrow> v \<noteq> [] \<and> one_line v \<and> \<not> space_char (hd v) \<and> \<not> space_char (last v)"

definition plain_value :: "string \<Rightarrow> bool" where
  "plain_value v \<longleftrightarrow> trimmed v \<and> \<not> quote_char (hd v) \<and> \<not> quote_char (last v)"

lemma newline_facts [simp]: "line_end (char_of (10 :: nat))" "space_char (char_of (10 :: nat))" "\<not> not_line_end (char_of (10 :: nat))"
  by (simp_all add: line_end_def space_char_def not_line_end_def)

lemma starts_with_prefix: "starts_with s p \<longleftrightarrow> prefix p s"
  unfolding starts_with_def by (metis append_eq_conv_conj prefix_def take_is_prefix)

lemma trim_start_id: "s \<noteq> [] \<Longrightarrow> \<not> space_char (hd s) \<Longrightarrow> trim_start (s @ t) = s @ t"
  by (cases s) (auto simp: trim_start_def)

lemma trim_id: "trimmed v \<Longrightarrow> trim v = v"
  using trim_start_id [of v "[]"] by (cases v rule: rev_cases) (auto simp: trim_def trimmed_def)

lemma strip_quotes_id: "plain_value v \<Longrightarrow> strip_quotes v = v"
  by (cases v) (auto simp: strip_quotes_def plain_value_def trimmed_def)

lemma line_starts_line:
  "one_line l \<Longrightarrow> line_starts b (l @ char_of (10 :: nat) # s) = (if b then [l @ char_of (10 :: nat) # s] else []) @ line_starts True s"
  by (induction l arbitrary: b) (auto simp: one_line_def not_line_end_def)

lemma prefix_line:
  assumes "one_line p"
  shows "prefix p (l @ char_of (10 :: nat) # s) \<longleftrightarrow> prefix p l"
  using assms unfolding one_line_def prefix_append by (auto simp: prefix_Cons)

lemma field_at_other: "one_line (key @ '':'') \<Longrightarrow> \<not> prefix (key @ '':'') l \<Longrightarrow> field_at key (l @ char_of (10 :: nat) # s) = None"
  by (simp add: field_at_def starts_with_prefix prefix_line)

lemma field_at_value:
  assumes "plain_value v"
  shows "field_at key ((key @ '': '' @ v) @ char_of (10 :: nat) # s) = Some v"
proof -
  have v: "v \<noteq> []" "\<not> space_char (hd v)" "one_line v" using assms by (auto simp: plain_value_def trimmed_def)
  have "trim_start ('' '' @ v @ char_of (10 :: nat) # s) = v @ char_of (10 :: nat) # s"
    using trim_start_id [OF v(1,2)] by (simp add: trim_start_def space_char_def)
  moreover have "takeWhile not_line_end (v @ char_of (10 :: nat) # s) = v"
    using v(3) unfolding one_line_def by (induction v) auto
  ultimately show ?thesis using v(1) by (simp add: field_at_def starts_with_prefix prefix_def)
qed

lemma rule_field_none:
  assumes "one_line (key @ '':'')" and "list_all one_line ls" and "list_all (\<lambda>l. \<not> prefix (key @ '':'') l) ls"
  shows "List.find (\<lambda>s. field_at key s \<noteq> None) (line_starts True (unlines ls)) = None"
  using assms(2,3)
proof (induction ls)
  case (Cons l ls)
  then show ?case using field_at_other [OF assms(1)] by (simp add: unlines_def line_starts_line)
qed (simp add: unlines_def field_at_def starts_with_def)

lemma rule_field_some:
  assumes "one_line (key @ '':'')" and "list_all one_line ls" and "list_all (\<lambda>l. \<not> prefix (key @ '':'') l) ls" and "plain_value v"
  shows "rule_field key (unlines (ls @ (key @ '': '' @ v) # ls')) = Some v"
proof -
  have one: "one_line (key @ '': '' @ v)"
    using assms(1,4) by (auto simp: one_line_def plain_value_def trimmed_def not_line_end_def line_end_def)
  have "List.find (\<lambda>s. field_at key s \<noteq> None) (line_starts True (unlines (ls @ (key @ '': '' @ v) # ls')))
    = Some ((key @ '': '' @ v) @ char_of (10 :: nat) # unlines ls')"
    using assms(2,3)
  proof (induction ls)
    case Nil
    then show ?case using line_starts_line [OF one, of True "unlines ls'"] field_at_value [OF assms(4), of key "unlines ls'"]
      by (simp add: unlines_def)
  next
    case (Cons l ls)
    then show ?case using field_at_other [OF assms(1)] by (simp add: unlines_def line_starts_line)
  qed
  moreover have "strip_quotes (trim v) = v" "v \<noteq> []"
    using assms(4) by (simp_all add: strip_quotes_id trim_id plain_value_def trimmed_def)
  ultimately show ?thesis
    unfolding rule_field_def using field_at_value [OF assms(4)] by (simp add: neq_Nil_conv split: list.splits)
qed

lemma split_lines_line:
  "one_line l \<Longrightarrow> split_lines (l @ char_of (10 :: nat) # s) = l # split_lines s"
  by (induction l) (auto simp: one_line_def not_line_end_def line_end_def)

lemma split_unlines: "list_all one_line ls \<Longrightarrow> split_lines (unlines ls) = ls @ [[]]"
  by (induction ls) (simp_all add: unlines_def split_lines_line)

text \<open>The canonical text of a rule.\<close>

definition member_line :: "string \<Rightarrow> string \<Rightarrow> string" where
  "member_line k v = k @ '': '' @ v"

definition item_line :: "string \<Rightarrow> string" where
  "item_line n = ''  - '' @ n"

definition rule_lines :: "sigma_rule \<Rightarrow> string list" where
  "rule_lines r =
     [member_line ''id'' (sr_id r), member_line ''title'' (sr_title r), member_line ''level'' (sr_level r)]
     @ (case sr_eventType r of None \<Rightarrow> [] | Some t \<Rightarrow> [member_line ''event_type'' t])
     @ (case sr_contains r of None \<Rightarrow> [] | Some ns \<Rightarrow> ''contains:'' # map item_line ns)"

definition printable :: "sigma_rule \<Rightarrow> bool" where
  "printable r \<longleftrightarrow> plain_value (sr_id r) \<and> plain_value (sr_title r) \<and> plain_value (sr_level r)
     \<and> (case sr_eventType r of None \<Rightarrow> True | Some t \<Rightarrow> plain_value t)
     \<and> (case sr_contains r of None \<Rightarrow> True | Some ns \<Rightarrow> ns \<noteq> [] \<and> list_all trimmed ns)"

definition key_ok :: "string \<Rightarrow> bool" where
  "key_ok k \<longleftrightarrow> k \<noteq> [] \<and> one_line k \<and> \<not> space_char (hd k) \<and> hd k \<noteq> CHR ''-'' \<and> CHR '':'' \<notin> set k"

lemma keys_ok: "key_ok ''id''" "key_ok ''title''" "key_ok ''level''" "key_ok ''event_type''"
  by code_simp+

lemma one_line_append [simp]: "one_line (a @ b) \<longleftrightarrow> one_line a \<and> one_line b" "one_line (c # b) \<longleftrightarrow> not_line_end c \<and> one_line b" "one_line []"
  by (simp_all add: one_line_def)

lemma colon_facts [simp]: "not_line_end CHR '':''" "not_line_end CHR '' ''" "not_line_end CHR ''-''" "space_char CHR '' ''" "\<not> space_char CHR ''-''"
  by (simp_all add: not_line_end_def line_end_def space_char_def)

lemma member_line_facts:
  assumes "key_ok k" and "plain_value v"
  shows "one_line (member_line k v)" and "trim (member_line k v) = member_line k v" and "\<not> starts_with (member_line k v) ''- ''"
proof -
  have v: "trimmed v" using assms(2) by (simp add: plain_value_def)
  show "one_line (member_line k v)" using assms(1) v by (simp add: member_line_def key_ok_def trimmed_def)
  show "trim (member_line k v) = member_line k v"
    using assms(1) v by (intro trim_id) (simp add: member_line_def key_ok_def trimmed_def)
  show "\<not> starts_with (member_line k v) ''- ''"
    using assms(1) by (cases k) (auto simp: member_line_def key_ok_def starts_with_prefix)
qed

lemma item_line_facts:
  assumes "trimmed n"
  shows "one_line (item_line n)" and "trim (item_line n) = ''- '' @ n"
proof -
  show "one_line (item_line n)" using assms by (simp add: item_line_def trimmed_def)
  have "trim_start (item_line n) = ''- '' @ n" by (simp add: item_line_def trim_start_def)
  moreover have "trim (''- '' @ n) = ''- '' @ n" using assms by (intro trim_id) (simp add: trimmed_def)
  ultimately show "trim (item_line n) = ''- '' @ n" by (simp add: trim_def trim_start_def)
qed

lemma same_before: "c \<notin> set a \<Longrightarrow> c \<notin> set b \<Longrightarrow> a @ c # u = b @ c # w \<Longrightarrow> a = b"
proof (induction a arbitrary: b)
  case (Cons x a)
  then show ?case by (cases b) auto
qed (auto simp: Cons_eq_append_conv)

lemma prefix_member_line:
  assumes "key_ok key" and "key_ok k"
  shows "prefix (key @ '':'') (member_line k v) \<longleftrightarrow> key = k"
proof
  assume "prefix (key @ '':'') (member_line k v)"
  then obtain u where "key @ CHR '':'' # u = k @ CHR '':'' # CHR '' '' # v" by (auto simp: prefix_def member_line_def)
  moreover have "CHR '':'' \<notin> set key" "CHR '':'' \<notin> set k" using assms by (auto simp: key_ok_def)
  ultimately show "key = k" using same_before [of "CHR '':''" key k u] by blast
qed (simp add: prefix_def member_line_def)

lemma prefix_item_line: "key_ok key \<Longrightarrow> \<not> prefix (key @ '':'') (item_line n)"
  by (cases key) (auto simp: key_ok_def item_line_def)

lemma prefix_header: "key_ok key \<Longrightarrow> hd key \<noteq> CHR ''c'' \<Longrightarrow> \<not> prefix (key @ '':'') ''contains:''"
  by (cases key) (auto simp: key_ok_def)

definition tail_lines :: "sigma_rule \<Rightarrow> string list" where
  "tail_lines r = (case sr_contains r of None \<Rightarrow> [] | Some ns \<Rightarrow> ''contains:'' # map item_line ns)"

lemma header_facts: "one_line ''contains:''" "\<not> starts_with (trim ''contains:'') ''- ''"
  by code_simp+

lemma tail_lines_facts:
  assumes "printable r"
  shows "list_all one_line (tail_lines r)"
    and "key_ok key \<Longrightarrow> hd key \<noteq> CHR ''c'' \<Longrightarrow> list_all (\<lambda>l. \<not> prefix (key @ '':'') l) (tail_lines r)"
    and "map (\<lambda>l. trim (drop 2 (trim l))) (filter (\<lambda>l. starts_with (trim l) ''- '') (tail_lines r)) = (case sr_contains r of None \<Rightarrow> [] | Some ns \<Rightarrow> ns)"
proof -
  have items: "list_all trimmed ns" if "sr_contains r = Some ns" for ns
    using assms that by (simp add: printable_def)
  show "list_all one_line (tail_lines r)"
    by (cases "sr_contains r") (use header_facts(1) item_line_facts(1) items in \<open>auto simp: tail_lines_def list_all_iff\<close>)
  show "list_all (\<lambda>l. \<not> prefix (key @ '':'') l) (tail_lines r)" if "key_ok key" "hd key \<noteq> CHR ''c''"
    using prefix_header [OF that] prefix_item_line [OF that(1)] unfolding tail_lines_def list_all_iff
    by (auto split: option.splits)
  have "map (\<lambda>l. trim (drop 2 (trim l))) (filter (\<lambda>l. starts_with (trim l) ''- '') (map item_line ns)) = ns" if "list_all trimmed ns" for ns
    using that by (induction ns) (simp_all add: item_line_facts starts_with_prefix trim_id)
  then show "map (\<lambda>l. trim (drop 2 (trim l))) (filter (\<lambda>l. starts_with (trim l) ''- '') (tail_lines r)) = (case sr_contains r of None \<Rightarrow> [] | Some ns \<Rightarrow> ns)"
    using items header_facts(2) unfolding tail_lines_def by (auto split: option.splits)
qed

lemma rule_lines_split:
  "rule_lines r = [member_line ''id'' (sr_id r), member_line ''title'' (sr_title r), member_line ''level'' (sr_level r)]
     @ (case sr_eventType r of None \<Rightarrow> [] | Some t \<Rightarrow> [member_line ''event_type'' t]) @ tail_lines r"
  by (simp add: rule_lines_def tail_lines_def)

lemma rule_lines_facts:
  assumes "printable r"
  shows "list_all one_line (rule_lines r)"
    and "filter (\<lambda>l. starts_with (trim l) ''- '') (rule_lines r) = filter (\<lambda>l. starts_with (trim l) ''- '') (tail_lines r)"
    and "sr_eventType r = None \<Longrightarrow> list_all (\<lambda>l. \<not> prefix (''event_type'' @ '':'') l) (rule_lines r)"
proof -
  have vs: "plain_value (sr_id r)" "plain_value (sr_title r)" "plain_value (sr_level r)" "\<And>t. sr_eventType r = Some t \<Longrightarrow> plain_value t"
    using assms by (auto simp: printable_def)
  note ms = member_line_facts [OF keys_ok(1) vs(1)] member_line_facts [OF keys_ok(2) vs(2)] member_line_facts [OF keys_ok(3) vs(3)]
    member_line_facts [OF keys_ok(4) vs(4)]
  show "list_all one_line (rule_lines r)"
    unfolding rule_lines_split using ms tail_lines_facts(1) [OF assms] by (simp split: option.splits)
  show "filter (\<lambda>l. starts_with (trim l) ''- '') (rule_lines r) = filter (\<lambda>l. starts_with (trim l) ''- '') (tail_lines r)"
    unfolding rule_lines_split using ms by (simp split: option.splits)
  show "list_all (\<lambda>l. \<not> prefix (''event_type'' @ '':'') l) (rule_lines r)" if "sr_eventType r = None"
    unfolding rule_lines_split that
    using tail_lines_facts(2) [OF assms keys_ok(4)] prefix_member_line [OF keys_ok(4)] keys_ok by simp
qed

lemma parse_fields:
  assumes "printable r"
  shows "rule_field ''id'' (unlines (rule_lines r)) = Some (sr_id r)"
    and "rule_field ''title'' (unlines (rule_lines r)) = Some (sr_title r)"
    and "rule_field ''level'' (unlines (rule_lines r)) = Some (sr_level r)"
    and "rule_field ''event_type'' (unlines (rule_lines r)) = sr_eventType r"
proof -
  have vs: "plain_value (sr_id r)" "plain_value (sr_title r)" "plain_value (sr_level r)" "\<And>t. sr_eventType r = Some t \<Longrightarrow> plain_value t"
    using assms by (auto simp: printable_def)
  let ?a = "member_line ''id'' (sr_id r)" and ?b = "member_line ''title'' (sr_title r)" and ?c = "member_line ''level'' (sr_level r)"
  let ?et = "case sr_eventType r of None \<Rightarrow> [] | Some t \<Rightarrow> [member_line ''event_type'' t]"
  have ones: "one_line ?a" "one_line ?b" "one_line ?c" using member_line_facts(1) keys_ok vs by blast+
  have colon: "one_line (k @ '':'')" if "key_ok k" for k using that by (simp add: key_ok_def)
  have other: "\<not> prefix (k @ '':'') (member_line k' v)" if "key_ok k" "key_ok k'" "k \<noteq> k'" for k k' v
    using prefix_member_line that by blast
  show "rule_field ''id'' (unlines (rule_lines r)) = Some (sr_id r)"
    using rule_field_some [OF colon [OF keys_ok(1)], of "[]" "sr_id r" "[?b, ?c] @ ?et @ tail_lines r"] vs(1)
    unfolding rule_lines_split member_line_def by simp
  have "rule_field ''title'' (unlines ([?a] @ (''title'' @ '': '' @ sr_title r) # [?c] @ ?et @ tail_lines r)) = Some (sr_title r)"
    using vs(2) ones other [OF keys_ok(2,1)] by (intro rule_field_some colon keys_ok) simp_all
  then show "rule_field ''title'' (unlines (rule_lines r)) = Some (sr_title r)" unfolding rule_lines_split by (simp add: member_line_def)
  have "rule_field ''level'' (unlines ([?a, ?b] @ (''level'' @ '': '' @ sr_level r) # ?et @ tail_lines r)) = Some (sr_level r)"
    using vs(3) ones other [OF keys_ok(3,1)] other [OF keys_ok(3,2)] by (intro rule_field_some colon keys_ok) simp_all
  then show "rule_field ''level'' (unlines (rule_lines r)) = Some (sr_level r)" unfolding rule_lines_split by (simp add: member_line_def)
  show "rule_field ''event_type'' (unlines (rule_lines r)) = sr_eventType r"
  proof (cases "sr_eventType r")
    case None
    then show ?thesis
      using rule_field_none [OF colon [OF keys_ok(4)] rule_lines_facts(1,3) [OF assms]] by (simp add: rule_field_def)
  next
    case (Some t)
    have "rule_field ''event_type'' (unlines ([?a, ?b, ?c] @ (''event_type'' @ '': '' @ t) # tail_lines r)) = Some t"
      using vs(4) [OF Some] ones other [OF keys_ok(4,1)] other [OF keys_ok(4,2)] other [OF keys_ok(4,3)]
      by (intro rule_field_some colon keys_ok) simp_all
    then show ?thesis unfolding rule_lines_split Some by (simp add: member_line_def)
  qed
qed

lemma parse_items: "printable r \<Longrightarrow> list_items (unlines (rule_lines r)) = (case sr_contains r of None \<Rightarrow> [] | Some ns \<Rightarrow> ns)"
proof -
  assume p: "printable r"
  have "\<not> starts_with (trim []) ''- ''" by (simp add: trim_def trim_start_def starts_with_def)
  then have "list_items (unlines (rule_lines r)) = filter (\<lambda>s. s \<noteq> []) (case sr_contains r of None \<Rightarrow> [] | Some ns \<Rightarrow> ns)"
    unfolding list_items_def split_unlines [OF rule_lines_facts(1) [OF p]] by (simp add: rule_lines_facts(2) [OF p] tail_lines_facts(3) [OF p])
  then show ?thesis using p by (auto simp: printable_def list_all_iff trimmed_def filter_id_conv split: option.splits)
qed

section \<open>Properties\<close>


text \<open>
  C25. A Sigma rule written out as text is read back unchanged, and the loaded rule matches exactly the events of its
  type whose payload text contains all its needles, letter case ignored; a rule with neither matches every event.
\<close>
theorem sigma_rule_text:
  assumes "printable r"
  shows "parseRuleText now (unlines (rule_lines r)) = r
    \<and> (evaluate_rules [parseRuleText now (unlines (rule_lines r))] e \<noteq> []
        \<longleftrightarrow> (case sr_eventType r of None \<Rightarrow> True | Some t \<Rightarrow> t = ue_event_type e)
          \<and> (case sr_contains r of None \<Rightarrow> True | Some ns \<Rightarrow> list_all (includes_ci (stringify (JObj (ue_raw_payload e)))) ns))"
proof -
  have p: "parseRuleText now (unlines (rule_lines r)) = r"
    using assms parse_fields [OF assms] parse_items [OF assms]
    by (cases r) (auto simp: parseRuleText_def or_default_def printable_def split: option.splits)
  have "plain_value t \<Longrightarrow> t \<noteq> []" for t by (simp add: plain_value_def trimmed_def)
  then show ?thesis unfolding p using assms
    by (auto simp: evaluate_rules_def map_filter_def matchRule_def printable_def split: option.splits)
qed

definition demo_rule :: sigma_rule where
  "demo_rule = \<lparr>sr_id = ''r1'', sr_title = ''Auth failure'', sr_level = ''high'', sr_eventType = Some ''login_failed'', sr_contains = Some [''password'']\<rparr>"

theorem sigma_rule_text_witness: "parseRuleText 0 (unlines (rule_lines demo_rule)) = demo_rule"
proof -
  have "printable demo_rule" by code_simp
  then show ?thesis using sigma_rule_text by blast
qed

definition demo_request :: heuristics_request where
  "demo_request = \<lparr>hq_body = Some (JObj [(''q'', JStr ''a <SCRIPT'')]), hq_headers = Some (JObj [(''accept'', JStr ''text/html;q=1'')]),
     hq_requestPath = None, hq_query = None\<rparr>"


end
