(* ===== verification/Triage.thy ===== *)
theory Triage
  imports Detection RedisService MultiArmedBandit
begin

text \<open>
  Triage and what surrounds it: the decision engine and the whitelist (\<^verbatim>\<open>backend/triage\<close>), the kill-chain
  query (\<^verbatim>\<open>backend/graph/killchain.ts\<close>) and the bandit's metrics (\<^verbatim>\<open>backend/metrics/bandit.ts\<close>). The whitelist stores its rules through the Redis
  wrapper; \<open>parse\<close> is \<^verbatim>\<open>JSON.parse\<close> (\<open>None\<close>: it throws), \<open>number_text\<close> and \<open>number_value\<close> print and read a number. The replies of the graph
  data base are arguments.
\<close>

section \<open>Decisions\<close>

datatype triage_outcome = Close | Auto_respond | Escalate

datatype triage_reason = Likely_false_positive | High_severity | Known_profile | Insufficient_confidence

record triage_input =
  ti_riskScore :: real
  ti_confidence :: real
  ti_threatLevel :: "payload_level option"

definition decide :: "triage_input \<Rightarrow> triage_outcome \<times> triage_reason" where
  "decide i =
     (if ti_riskScore i < 35/100 \<and> ti_confidence i < 5/10 then (Close, Likely_false_positive)
      else if ti_threatLevel i = Some Level_critical \<or> ti_riskScore i \<ge> 8/10 \<and> ti_confidence i \<ge> 75/100 then (Escalate, High_severity)
      else if ti_riskScore i \<ge> 5/10 \<and> ti_confidence i \<ge> 6/10 then (Auto_respond, Known_profile)
      else (Close, Insufficient_confidence))"

section \<open>The whitelist\<close>

datatype whitelist_field = Field_src_ip | Field_user_id | Field_event_type | Field_rule_id

record whitelist_rule =
  wl_id :: string
  wl_field :: whitelist_field
  wl_value :: string
  wl_tuneFactor :: "real option"

fun field_text :: "whitelist_field \<Rightarrow> string" where
  "field_text Field_src_ip = ''src_ip''"
| "field_text Field_user_id = ''user_id''"
| "field_text Field_event_type = ''event_type''"
| "field_text Field_rule_id = ''rule_id''"

definition whitelist_key :: "string \<Rightarrow> string" where
  "whitelist_key ruleId = ''triage:whitelist:'' @ ruleId"

definition rule_json :: "(real \<Rightarrow> string) \<Rightarrow> whitelist_rule \<Rightarrow> json" where
  "rule_json number_text r =
     JObj ([(''id'', JStr (wl_id r)), (''field'', JStr (field_text (wl_field r))), (''value'', JStr (wl_value r))]
       @ opt_member ''tuneFactor'' (JNum \<circ> number_text) (wl_tuneFactor r))"

definition putRule ::
  "(string \<Rightarrow> string \<Rightarrow> (unit, 'c) client_op) \<Rightarrow> (string \<Rightarrow> nat \<Rightarrow> string \<Rightarrow> (unit, 'c) client_op) \<Rightarrow> (real \<Rightarrow> string)
   \<Rightarrow> whitelist_rule \<Rightarrow> 'c redis \<Rightarrow> 'c redis" where
  "putRule cset csetEx number_text r rd =
     snd (redis_set cset csetEx (whitelist_key (wl_id r)) (stringify (rule_json number_text r)) (Some (60 * 60 * 24 * 30)) rd)"

text \<open>\<open>Some None\<close>: there is no rule; \<open>None\<close>: the stored text is not JSON and the call throws.\<close>

definition getRule ::
  "(string \<Rightarrow> (string option, 'c) client_op) \<Rightarrow> (string \<Rightarrow> json option) \<Rightarrow> string \<Rightarrow> 'c redis \<Rightarrow> json option option \<times> 'c redis" where
  "getRule cget parse ruleId rd =
     (let (raw, rd) = redis_get cget (whitelist_key ruleId) rd
      in (case raw of None \<Rightarrow> Some None | Some t \<Rightarrow> if t = [] then Some None else map_option Some (parse t), rd))"

definition shouldSuppress ::
  "(string \<Rightarrow> (string option, 'c) client_op) \<Rightarrow> (string \<Rightarrow> json option) \<Rightarrow> (string \<Rightarrow> real) \<Rightarrow> string \<Rightarrow> string \<Rightarrow> 'c redis
   \<Rightarrow> bool option \<times> 'c redis" where
  "shouldSuppress cget parse number_value ruleId observed rd =
     (let (found, rd) = getRule cget parse ruleId rd
      in (case found of None \<Rightarrow> None
          | Some None \<Rightarrow> Some False
          | Some (Some j) \<Rightarrow>
              if \<not> json_truthy j then Some False
              else if member ''value'' j \<noteq> Some (JStr observed) then Some False
              else Some ((case member ''tuneFactor'' j of Some (JNum t) \<Rightarrow> number_value t | _ \<Rightarrow> 2/10) \<le> 5/10), rd))"

section \<open>Graph queries\<close>

record graph_node =
  gn_value :: string
  gn_labels :: "string list"
  gn_properties :: "(string \<times> json) list"

record path_segment =
  ps_start :: graph_node
  ps_end :: graph_node
  ps_type :: string

text \<open>\<^verbatim>\<open>{ label: labels[0], ...properties }\<close>: a property named label replaces the label.\<close>

definition node_object :: "graph_node \<Rightarrow> (string \<times> json) list" where
  "node_object n =
     fold (\<lambda>(k, v). map_set k v) (gn_properties n) (case gn_labels n of [] \<Rightarrow> [] | l # _ \<Rightarrow> [(''label'', JStr l)])"

definition add_segment ::
  "path_segment \<Rightarrow> (string, (string \<times> json) list) js_map \<times> (string \<times> string \<times> string) list
   \<Rightarrow> (string, (string \<times> json) list) js_map \<times> (string \<times> string \<times> string) list" where
  "add_segment seg acc =
     (map_set (gn_value (ps_end seg)) (node_object (ps_end seg)) (map_set (gn_value (ps_start seg)) (node_object (ps_start seg)) (fst acc)),
      snd acc @ [(gn_value (ps_start seg), gn_value (ps_end seg), ps_type seg)])"

text \<open>The reply of the query: the segments of each path, or \<open>None\<close> if it throws.\<close>

definition queryKillChainSubgraph ::
  "path_segment list list option \<Rightarrow> ((string \<times> json) list list \<times> (string \<times> string \<times> string) list) option" where
  "queryKillChainSubgraph reply =
     (case reply of None \<Rightarrow> None
      | Some paths \<Rightarrow> (let (nodes, edges) = fold add_segment (concat paths) ([], []) in Some (map snd (js_entries nodes), edges)))"

section \<open>Metrics of the bandit\<close>

record metric_point =
  mp_timestamp :: string
  mp_context :: string
  mp_arm :: string
  mp_reward :: real
  mp_cumulativeReward :: real
  mp_exploitationRate :: real
  mp_regret :: real

record metrics_collector =
  mc_history :: "metric_point list"
  cumulativeRewardByContext :: "(string, real) js_map"

definition new_metrics :: metrics_collector where
  "new_metrics = \<lparr>mc_history = [], cumulativeRewardByContext = []\<rparr>"

definition record_metric :: "string \<Rightarrow> string \<Rightarrow> string \<Rightarrow> real \<Rightarrow> real \<Rightarrow> real \<Rightarrow> metrics_collector \<Rightarrow> metrics_collector" where
  "record_metric nowIso ctx armName reward rate regret mc =
     (let next' = get_or0 (cumulativeRewardByContext mc) ctx + reward
      in \<lparr>mc_history = mc_history mc @ [\<lparr>mp_timestamp = nowIso, mp_context = ctx, mp_arm = armName, mp_reward = reward,
            mp_cumulativeReward = next', mp_exploitationRate = rate, mp_regret = regret\<rparr>],
          cumulativeRewardByContext = map_set ctx next' (cumulativeRewardByContext mc)\<rparr>)"

definition getRecent :: "int \<Rightarrow> metrics_collector \<Rightarrow> metric_point list" where
  "getRecent limit mc = js_slice_from (- limit) (mc_history mc)"

section \<open>Lemmas\<close>

lemma put_unavailable: "\<not> isRedisAvailable rd \<Longrightarrow> putRule cset csetEx nt r rd = rd"
  by (simp add: putRule_def redis_set_def safe_unavailable)

lemma suppress_unavailable: "\<not> isRedisAvailable rd \<Longrightarrow> shouldSuppress cget parse nv i v rd = (Some False, rd)"
  by (simp add: shouldSuppress_def getRule_def redis_get_def safe_unavailable)

lemma fold_segments:
  "fst ` set (fst (fold add_segment segs acc)) = fst ` set (fst acc) \<union> (\<Union>s\<in>set segs. {gn_value (ps_start s), gn_value (ps_end s)})
   \<and> snd (fold add_segment segs acc) = snd acc @ map (\<lambda>s. (gn_value (ps_start s), gn_value (ps_end s), ps_type s)) segs
   \<and> (js_map_ok (fst acc) \<longrightarrow> js_map_ok (fst (fold add_segment segs acc)))"
proof (induction segs arbitrary: acc)
  case (Cons s segs)
  from Cons.IH [of "add_segment s acc"] show ?case by (auto simp: add_segment_def dom_update keeps_inv)
qed simp

section \<open>Properties\<close>

text \<open>
  The decision on a heuristically analysed request depends on its risk score alone: it is escalated from 0.8 on, answered
  automatically from 0.5 on, and closed below, always for lack of confidence: the branch for a likely false positive is never taken. A request that
  matches two of the four patterns is never closed.
\<close>
theorem payload_triage:
  assumes "a = heuristics_analyze r"
    and "d = decide \<lparr>ti_riskScore = hr_riskScore a, ti_confidence = hr_confidence a, ti_threatLevel = Some (hr_threatLevel a)\<rparr>"
  shows "d = (if hr_riskScore a \<ge> 8/10 then (Escalate, High_severity) else if hr_riskScore a \<ge> 5/10 then (Auto_respond, Known_profile)
              else (Close, Insufficient_confidence))
    \<and> 0 \<le> hr_riskScore a \<and> hr_riskScore a \<le> 1
    \<and> (2 \<le> length (threat_types (request_sample r)) \<longrightarrow> fst d \<noteq> Close)"
proof -
  let ?t = "request_sample r"
  define s where "s = pattern_score ?t + min (2/10) (real (length (filter suspicious_char ?t)) / 500)"
  have pos: "0 \<le> pattern_score ?t" and two: "2 \<le> length (threat_types ?t) \<Longrightarrow> 5/10 \<le> pattern_score ?t"
    by (auto simp: pattern_score_def threat_types_def split: if_splits)
  have s: "pattern_score ?t \<le> s" by (simp add: s_def)
  define m where "m = min 1 s"
  have m: "0 \<le> m" "m \<le> 1" "2 \<le> length (threat_types ?t) \<Longrightarrow> 5/10 \<le> m" using pos two s by (auto simp: m_def)
  have a: "hr_riskScore a = m" "hr_confidence a = min 1 (5/10 + m / 2)" "hr_threatLevel a = Level_critical \<longleftrightarrow> m \<ge> 85/100"
    unfolding assms(1) heuristics_analyze_def Let_def m_def s_def by simp_all
  have "d = (if m \<ge> 8/10 then (Escalate, High_severity) else if m \<ge> 5/10 then (Auto_respond, Known_profile)
              else (Close, Insufficient_confidence))"
    using m(1,2) unfolding assms(2) decide_def by (auto simp: a)
  then show ?thesis unfolding a using m by auto
qed

text \<open>
  A whitelist engine built without a Redis service uses one that nobody connects: however many rules are put, none is stored and
  nothing is ever suppressed.
\<close>
theorem whitelist_unconnected:
  "fst (shouldSuppress cget parse nv ruleId v (fold (putRule cset csetEx nt) rules (new_redis c))) = Some False"
proof -
  have "fold (putRule cset csetEx nt) rules (new_redis c) = new_redis c"
    by (induction rules) (simp_all add: put_unavailable [OF new_unavailable])
  then show ?thesis by (simp add: suppress_unavailable [OF new_unavailable])
qed

text \<open>
  With a connected service whose client returns what was stored last under a key, and a JSON text that is read back as it was written, a rule that was put suppresses exactly the
  observations of its value, unless its factor is above 0.5.
\<close>
theorem whitelist_suppresses:
  assumes "isRedisAvailable rd"
    and "\<And>k t v c. fst (csetEx k t v c) = Some () \<and> fst (cget k (snd (csetEx k t v c))) = Some (Some v)"
    and "parse (stringify (rule_json nt r)) = Some (rule_json nt r)" and "\<And>f. wl_tuneFactor r = Some f \<Longrightarrow> nv (nt f) = f"
  shows "fst (shouldSuppress cget parse nv (wl_id r) v (putRule cset csetEx nt r rd))
    = Some (v = wl_value r \<and> (case wl_tuneFactor r of None \<Rightarrow> True | Some f \<Rightarrow> f \<le> 5/10))"
proof -
  let ?t = "stringify (rule_json nt r)" and ?k = "whitelist_key (wl_id r)" and ?rd = "putRule cset csetEx nt r rd"
  let ?set = "safeOperation (csetEx ?k (60 * 60 * 24 * 30) ?t) () rd"
  have ne: "?t \<noteq> []" by (simp add: rule_json_def)
  have put: "?rd = snd ?set" by (simp add: putRule_def redis_set_def)
  have av: "isRedisAvailable ?rd" and c: "rd_client ?rd = snd (csetEx ?k (60 * 60 * 24 * 30) ?t (rd_client rd))"
    unfolding put by (rule safe_available [OF assms(1)])+
  have "fst (redis_get cget ?k ?rd) = Some ?t"
    using assms(2) by (simp add: redis_get_def safe_available(1) [OF av] c)
  then have "fst (getRule cget parse (wl_id r) ?rd) = Some (Some (rule_json nt r))"
    using assms(3) ne by (simp add: getRule_def split_def)
  then show ?thesis
    using assms(4) by (auto simp: shouldSuppress_def split_def rule_json_def opt_member_def split: option.splits)
qed

text \<open>
  The kill-chain subgraph is closed: it has one edge per segment, in order, and exactly one node for each end of an edge.
\<close>
theorem killchain_closed:
  assumes "queryKillChainSubgraph (Some paths) = Some (nodes, edges)"
  shows "edges = map (\<lambda>s. (gn_value (ps_start s), gn_value (ps_end s), ps_type s)) (concat paths)
    \<and> length nodes = card (fst ` set edges \<union> (fst \<circ> snd) ` set edges)"
proof -
  obtain m es where f: "fold add_segment (concat paths) ([], []) = (m, es)" by fastforce
  note facts = fold_segments [of "concat paths" "([], [])", unfolded f]
  have n: "nodes = map snd (js_entries m)" "edges = es" using assms by (simp_all add: queryKillChainSubgraph_def f)
  have es: "es = map (\<lambda>s. (gn_value (ps_start s), gn_value (ps_end s), ps_type s)) (concat paths)"
    and ks: "fst ` set m = (\<Union>s\<in>set (concat paths). {gn_value (ps_start s), gn_value (ps_end s)})" and ok: "js_map_ok m"
    using facts by simp_all
  have "length nodes = length m" using mset_js_entries [of m] n(1) by (metis length_map size_mset)
  also have "\<dots> = card (fst ` set m)" using ok by (metis distinct_card js_map_ok_def length_map list.set_map)
  also have "fst ` set m = fst ` set es \<union> (fst \<circ> snd) ` set es" unfolding ks es set_map image_image comp_def fst_conv snd_conv by blast
  finally show ?thesis using es n(2) by simp
qed

definition rewards_of :: "string \<Rightarrow> metric_point list \<Rightarrow> real" where
  "rewards_of ctx h = sum_list (map mp_reward (filter (\<lambda>p. mp_context p = ctx) h))"

definition recorded :: "(string \<times> string \<times> string \<times> real \<times> real \<times> real) list \<Rightarrow> metrics_collector" where
  "recorded xs = fold (\<lambda>(t, c, a, r, e, g). record_metric t c a r e g) xs new_metrics"

lemma recorded_snoc: "recorded (xs @ [(t, c, a, r, e, g)]) = record_metric t c a r e g (recorded xs)"
  by (simp add: recorded_def)

text \<open>
  The cumulative reward of a recorded point is the sum of the rewards of its context up to that point.
\<close>
theorem metrics_cumulative:
  "mp_cumulativeReward (mc_history (recorded xs) ! i) = rewards_of (mp_context (mc_history (recorded xs) ! i)) (take (i + 1) (mc_history (recorded xs)))
   \<or> length xs \<le> i"
proof -
  have "length (mc_history (recorded xs)) = length xs \<and> (\<forall>c. get_or0 (cumulativeRewardByContext (recorded xs)) c = rewards_of c (mc_history (recorded xs)))
    \<and> (\<forall>i < length xs. mp_cumulativeReward (mc_history (recorded xs) ! i)
         = rewards_of (mp_context (mc_history (recorded xs) ! i)) (take (i + 1) (mc_history (recorded xs))))"
  proof (induction xs rule: rev_induct)
    case Nil
    then show ?case by (simp add: recorded_def new_metrics_def get_or0_def rewards_of_def)
  next
    case (snoc x xs)
    obtain t c a r e g where x: "x = (t, c, a, r, e, g)" by (cases x)
    show ?case unfolding x recorded_snoc using snoc
      by (auto simp: record_metric_def Let_def get_or0_set rewards_of_def nth_append less_Suc_eq)
  qed
  then show ?thesis by (meson not_less)
qed

section \<open>Witnesses\<close>

theorem payload_triage_witness:
  "0 \<le> hr_riskScore (heuristics_analyze demo_request)
   \<and> fst (decide \<lparr>ti_riskScore = hr_riskScore (heuristics_analyze demo_request), ti_confidence = hr_confidence (heuristics_analyze demo_request),
        ti_threatLevel = Some (hr_threatLevel (heuristics_analyze demo_request))\<rparr>) \<noteq> Close"
proof -
  have "''a <SCRIPT'' \<in> set (request_strings demo_request)" "''text/html;q=1'' \<in> set (request_strings demo_request)"
    "''<script'' \<in> set xss_markers" "rx_test (rx_lit ''<script'') ''a <SCRIPT''" "includes_str ''text/html;q=1'' [CHR '';'', CHR ''q'']" "word_char CHR ''q''"
    by code_simp+
  then have "rx_test xss (request_sample demo_request)" "rx_test cmdi (request_sample demo_request)"
    using marker_found(1) separator_found unfolding includes_sublist by blast+
  then have "2 \<le> length (threat_types (request_sample demo_request))" by (simp add: threat_types_def)
  then show ?thesis using payload_triage [OF refl refl, of demo_request] by blast
qed

type_synonym demo_client = "string \<rightharpoonup> string"

definition demo_setEx :: "string \<Rightarrow> nat \<Rightarrow> string \<Rightarrow> (unit, demo_client) client_op" where
  "demo_setEx k t v c = (Some (), c(k \<mapsto> v))"

definition demo_get :: "string \<Rightarrow> (string option, demo_client) client_op" where
  "demo_get k c = (Some (c k), c)"

definition demo_whitelist_rule :: whitelist_rule where
  "demo_whitelist_rule = \<lparr>wl_id = ''r1'', wl_field = Field_src_ip, wl_value = ''10.0.0.1'', wl_tuneFactor = Some (3/10)\<rparr>"

theorem whitelist_suppresses_witness:
  "fst (shouldSuppress demo_get (\<lambda>_. Some (rule_json (\<lambda>_. ''0.3'') demo_whitelist_rule)) (\<lambda>_. 3/10) ''r1'' ''10.0.0.1''
     (putRule (\<lambda>_ _ c. (Some (), c)) demo_setEx (\<lambda>_. ''0.3'') demo_whitelist_rule \<lparr>rd_isConnected = True, rd_isOpen = True, rd_client = Map.empty\<rparr>))
   = Some True"
  using whitelist_suppresses [where r = demo_whitelist_rule and nt = "\<lambda>_. ''0.3''" and nv = "\<lambda>_. 3/10" and cget = demo_get
      and csetEx = demo_setEx and parse = "\<lambda>_. Some (rule_json (\<lambda>_. ''0.3'') demo_whitelist_rule)" and v = "''10.0.0.1''"
      and rd = "\<lparr>rd_isConnected = True, rd_isOpen = True, rd_client = Map.empty\<rparr>" and cset = "\<lambda>_ _ c. (Some (), c)"]
  by (simp add: demo_setEx_def demo_get_def demo_whitelist_rule_def isRedisAvailable_def)

definition demo_segment :: path_segment where
  "demo_segment = \<lparr>ps_start = \<lparr>gn_value = ''10.0.0.1'', gn_labels = [''IP''], gn_properties = []\<rparr>,
     ps_end = \<lparr>gn_value = ''web'', gn_labels = [''Host''], gn_properties = []\<rparr>, ps_type = ''ACCESSED''\<rparr>"

theorem killchain_closed_witness:
  "length (fst (the (queryKillChainSubgraph (Some [[demo_segment, demo_segment]])))) = 2"
proof -
  obtain nodes edges where q: "queryKillChainSubgraph (Some [[demo_segment, demo_segment]]) = Some (nodes, edges)"
    by (auto simp: queryKillChainSubgraph_def split_def Let_def)
  have "card {''10.0.0.1'', ''web''} = 2" by simp
  then show ?thesis using killchain_closed [OF q] q by (simp add: demo_segment_def insert_commute)
qed

end
