(* ===== verification/RequestData.thy ===== *)
theory RequestData
  imports Prelude
begin

text \<open>
  What the analyzers of the threat detection engine share: the request data that \<^verbatim>\<open>extractRequestData\<close> of
  \<^verbatim>\<open>backend/src/core/ThreatDetectionEngine.ts\<close> builds, the geographic data base (a package the sources only call: an argument
  that locates an address, does not know it, or throws), and the interface every analyzer has towards the engine.

  \<^verbatim>\<open>requestData\<close> is untyped in the code. The record has a field for every property some analyzer reads; those that
  \<^verbatim>\<open>extractRequestData\<close> never sets are optional.
\<close>

type_synonym address = "string option"

record geo_entry =
  gi_country :: string
  gi_region :: string
  gi_city :: string
  gi_ll :: "(real \<times> real) option"

datatype geo_reply = Located geo_entry | Unlocated | Lookup_throws

record threat_request_data =
  q_ipAddress :: address
  q_userAgent :: string
  q_sessionId :: string
  q_userId :: "string option"
  q_requestPath :: string
  q_requestMethod :: string
  q_referer :: "string option"
  q_body :: bool
  q_timestamp :: time_ms
  q_json :: string
  q_requestFrequency :: "real option"
  q_sessionStartTime :: "time_ms option"
  q_pageSequenceAnomalies :: "real option"
  q_sessionDuration :: "real option"
  q_requestCount :: "real option"
  q_errorCount :: "real option"
  q_privilegeLevel :: "string option"
  q_hashedFingerprint :: "string option"
  q_responseTime :: "real option"
  q_isError :: bool
  q_contentLength :: "real option"

text \<open>\<^verbatim>\<open>v || d\<close> on an optional number and on an optional text.\<close>

definition num_or :: "'a::zero option \<Rightarrow> 'a \<Rightarrow> 'a" where
  "num_or v d = (case v of None \<Rightarrow> d | Some x \<Rightarrow> if x = 0 then d else x)"

definition text_or :: "string option \<Rightarrow> string \<Rightarrow> string" where
  "text_or v d = (case v of None \<Rightarrow> d | Some x \<Rightarrow> if x = [] then d else x)"

definition given :: "string option \<Rightarrow> bool" where
  "given v \<longleftrightarrow> v \<noteq> None \<and> v \<noteq> Some []"

lemma num_or_simps [simp]: "num_or None d = d" "num_or (Some x) 0 = x"
  by (simp_all add: num_or_def)

lemma text_or_None [simp]: "text_or None d = d"
  by (simp add: text_or_def)

lemma given_None [simp]: "\<not> given None"
  by (simp add: given_def)

section \<open>A request\<close>

record incoming_request =
  hq_ip :: address
  hq_remoteAddress :: address
  hq_userAgent :: "string option"
  hq_path :: string
  hq_method :: string
  hq_referer :: "string option"
  hq_body :: bool

text \<open>The two pieces of the session identifier come from \<^verbatim>\<open>Math.random\<close>; \<open>json\<close> is the JSON text of the result.\<close>

definition generateSessionId :: "string \<Rightarrow> string \<Rightarrow> string" where
  "generateSessionId r1 r2 = js_slice 2 15 r1 @ js_slice 2 15 r2"

definition extractRequestData :: "string \<Rightarrow> time_ms \<Rightarrow> string \<Rightarrow> incoming_request \<Rightarrow> threat_request_data" where
  "extractRequestData sid now json req =
     \<lparr>q_ipAddress = (if given (hq_ip req) then hq_ip req else hq_remoteAddress req), q_userAgent = text_or (hq_userAgent req) [], q_sessionId = sid, q_userId = None,
      q_requestPath = hq_path req, q_requestMethod = hq_method req, q_referer = hq_referer req, q_body = hq_body req, q_timestamp = now,
      q_json = json, q_requestFrequency = None, q_sessionStartTime = None, q_pageSequenceAnomalies = None, q_sessionDuration = None,
      q_requestCount = None, q_errorCount = None, q_privilegeLevel = None, q_hashedFingerprint = None, q_responseTime = None,
      q_isError = False, q_contentLength = None\<rparr>"

text \<open>What the analyzers know of such data.\<close>

definition extracted :: "threat_request_data \<Rightarrow> bool" where
  "extracted q \<longleftrightarrow> q_userId q = None \<and> q_requestFrequency q = None \<and> q_sessionStartTime q = None \<and> q_sessionDuration q = None \<and> q_requestCount q = None
     \<and> q_responseTime q = None \<and> \<not> q_isError q \<and> q_contentLength q = None"

lemma extracted_data [simp]: "extracted (extractRequestData sid now json req)"
  by (simp add: extracted_def extractRequestData_def)

lemma extractRequestData_simps [simp]:
  "q_sessionId (extractRequestData sid now json req) = sid" "q_userAgent (extractRequestData sid now json req) = text_or (hq_userAgent req) []"
  "q_ipAddress (extractRequestData sid now json req) = (if given (hq_ip req) then hq_ip req else hq_remoteAddress req)"
  "q_userId (extractRequestData sid now json req) = None"
  by (simp_all add: extractRequestData_def)

section \<open>The interface of an analyzer\<close>

text \<open>
  An analyzer keeps a state, receives an input (the request data with the readings of clock and random numbers) and gives a score. Its contract: scores
  lie between 0 and 1 while its invariant holds, and the invariant is kept.
\<close>

fun feed :: "('i \<Rightarrow> 's \<Rightarrow> 'r \<times> 's) \<Rightarrow> 'i list \<Rightarrow> 's \<Rightarrow> 'r list \<times> 's" where
  "feed step [] s = ([], s)"
| "feed step (x # xs) s = (let (r, s) = step x s; (rs, s) = feed step xs s in (r # rs, s))"

lemma feed_append: "feed step (xs @ ys) s = (fst (feed step xs s) @ fst (feed step ys (snd (feed step xs s))), snd (feed step ys (snd (feed step xs s))))"
  by (induction xs arbitrary: s) (auto simp: split_def Let_def)

lemma feed_snoc: "snd (feed step (xs @ [x]) s) = snd (step x (snd (feed step xs s)))"
  by (simp add: feed_append split_def Let_def)

lemma length_feed [simp]: "length (fst (feed step xs s)) = length xs"
  by (induction xs arbitrary: s) (simp_all add: split_def Let_def)

locale risk_source =
  fixes step :: "'i \<Rightarrow> 's \<Rightarrow> real \<times> 's"
    and ok :: "'s \<Rightarrow> bool"
    and fit :: "'i \<Rightarrow> bool"
  assumes step_score: "ok s \<Longrightarrow> fit i \<Longrightarrow> 0 \<le> fst (step i s) \<and> fst (step i s) \<le> 1"
    and step_ok: "ok s \<Longrightarrow> fit i \<Longrightarrow> ok (snd (step i s))"
begin

lemma feed_scores: "ok s \<Longrightarrow> list_all fit xs \<Longrightarrow> list_all (\<lambda>r. 0 \<le> r \<and> r \<le> 1) (fst (feed step xs s)) \<and> ok (snd (feed step xs s))"
proof (induction xs arbitrary: s)
  case (Cons x xs)
  then show ?case using step_score [of s x] step_ok [of s x] by (auto simp: split_def Let_def)
qed simp

end

end
