(* ===== verification/RiskScoring.thy ===== *)
theory RiskScoring
  imports RequestData
begin

text \<open>
  Contextual risk scoring: \<^verbatim>\<open>backend/src/core/RiskScoringEngine.ts\<close> with the types of \<^verbatim>\<open>backend/src/types/risk.d.ts\<close> and the default
  configuration of \<^verbatim>\<open>ThreatDetectionEngine.getDefaultRiskScoringConfig\<close>.

  The hour and the day of the week are arguments, since they depend on the server's time zone. Nothing the calculation calls throws (the lookup of an
  address is guarded where it is made), so the fallback in its \<^verbatim>\<open>catch\<close> is not reached and not modelled; log entries and the name of the time zone are left out.
\<close>

section \<open>Types\<close>

record temporal_context =
  tc_timeOfDay :: int
  tc_dayOfWeek :: int
  tc_isBusinessHours :: bool
  tc_isWeekend :: bool
  tc_requestFrequency :: real

record geographic_context =
  gc_country :: string
  gc_region :: string
  gc_city :: string
  gc_coordinates :: "(real \<times> real) option"
  gc_isVpn :: bool
  gc_isProxy :: bool
  gc_isTor :: bool
  gc_riskScore :: real

datatype user_type = New_user | Returning_user | Frequent_user | Suspicious_user
datatype navigation_pattern = Linear | Random | Targeted | Scanning
datatype interaction_level = High_level | Medium_level | Low_level | Bot_like

record risk_behavioral_context =
  bc_userType :: user_type
  bc_sessionAge :: int
  bc_pageSequenceAnomalies :: real
  bc_navigationPattern :: navigation_pattern
  bc_interactionLevel :: interaction_level
  bc_deviceConsistency :: bool

record session_context =
  sc_sessionId :: string
  sc_userId :: "string option"
  sc_isAuthenticated :: bool
  sc_sessionDuration :: real
  sc_requestCount :: real
  sc_errorCount :: real
  sc_privilegeLevel :: string
  sc_hashedFingerprint :: string

datatype connection_type = Residential | Datacenter | Mobile | Unknown_connection

record network_context =
  nc_ipReputation :: real
  nc_asnNumber :: int
  nc_asnOrganization :: string
  nc_connectionType :: connection_type
  nc_isKnownThreat :: bool
  nc_threatSources :: "string list"

record risk_context =
  rx_temporal :: temporal_context
  rx_geographic :: geographic_context
  rx_behavioral :: risk_behavioral_context
  rx_session :: session_context
  rx_network :: network_context

record temporal_multipliers =
  tm_offHours :: real
  tm_weekend :: real
  tm_highFrequency :: real
  tm_nightTime :: real

record geographic_multipliers =
  gm_highRiskCountry :: real
  gm_vpnUsage :: real
  gm_proxyUsage :: real
  gm_torUsage :: real
  gm_unknownLocation :: real

record behavioral_multipliers =
  bm_newUser :: real
  bm_suspiciousUser :: real
  bm_botLikeBehavior :: real
  bm_rapidNavigation :: real
  bm_inconsistentDevice :: real

record session_multipliers =
  sm_unauthenticated :: real
  sm_shortSession :: real
  sm_highErrorRate :: real
  sm_privilegedAccount :: real
  sm_anonymousSession :: real

record network_multipliers =
  nm_knownThreat :: real
  nm_datacenterOrigin :: real
  nm_poorReputation :: real
  nm_newInfrastructure :: real

record context_multipliers =
  cm_temporal :: temporal_multipliers
  cm_geographic :: geographic_multipliers
  cm_behavioral :: behavioral_multipliers
  cm_session :: session_multipliers
  cm_network :: network_multipliers

record scoring_weights =
  sw_behavioral :: real
  sw_statistical :: real
  sw_relationship :: real
  sw_contextMultipliers :: context_multipliers

record risk_config =
  rk_weights :: scoring_weights
  rk_low :: real
  rk_medium :: real
  rk_high :: real
  rk_critical :: real
  rk_contextSensitivity :: real
  rk_confidenceThreshold :: real
  rk_adaptiveLearning :: bool

datatype assessed_level = Low_risk | Medium_risk | High_risk | Critical_risk

record contributing_factor =
  cf_factor :: string
  cf_weight :: real
  cf_impact :: real
  cf_description :: string

record contextual_risk =
  cr_baseScore :: real
  cr_contextualScore :: real
  cr_confidence :: real
  cr_riskLevel :: assessed_level
  cr_factors :: "contributing_factor list"
  cr_recommendations :: "string list"

record base_scores =
  b_behavioral :: real
  b_statistical :: real
  b_relationship :: real

record risk_engine =
  rk_config :: risk_config
  rk_contextCache :: "(string, risk_context) js_map"

section \<open>Configuration\<close>

definition getDefaultRiskScoringConfig :: risk_config where
  "getDefaultRiskScoringConfig =
     \<lparr>rk_weights =
        \<lparr>sw_behavioral = 4/10, sw_statistical = 3/10, sw_relationship = 3/10,
         sw_contextMultipliers =
           \<lparr>cm_temporal = \<lparr>tm_offHours = 12/10, tm_weekend = 11/10, tm_highFrequency = 15/10, tm_nightTime = 13/10\<rparr>,
            cm_geographic = \<lparr>gm_highRiskCountry = 14/10, gm_vpnUsage = 13/10, gm_proxyUsage = 12/10, gm_torUsage = 18/10, gm_unknownLocation = 11/10\<rparr>,
            cm_behavioral = \<lparr>bm_newUser = 11/10, bm_suspiciousUser = 16/10, bm_botLikeBehavior = 18/10, bm_rapidNavigation = 13/10, bm_inconsistentDevice = 12/10\<rparr>,
            cm_session = \<lparr>sm_unauthenticated = 12/10, sm_shortSession = 11/10, sm_highErrorRate = 14/10, sm_privilegedAccount = 9/10, sm_anonymousSession = 13/10\<rparr>,
            cm_network = \<lparr>nm_knownThreat = 2, nm_datacenterOrigin = 12/10, nm_poorReputation = 15/10, nm_newInfrastructure = 11/10\<rparr>\<rparr>\<rparr>,
      rk_low = 3/10, rk_medium = 5/10, rk_high = 7/10, rk_critical = 85/100, rk_contextSensitivity = 7/10, rk_confidenceThreshold = 5/10,
      rk_adaptiveLearning = True\<rparr>"

definition new_risk_engine :: "risk_config \<Rightarrow> risk_engine" where
  "new_risk_engine cfg = \<lparr>rk_config = cfg, rk_contextCache = []\<rparr>"

section \<open>Context\<close>

definition detectVpnUsage :: "threat_request_data \<Rightarrow> bool" where
  "detectVpnUsage q = False"

definition detectProxyUsage :: "threat_request_data \<Rightarrow> bool" where
  "detectProxyUsage q = False"

definition detectTorUsage :: "threat_request_data \<Rightarrow> bool" where
  "detectTorUsage q = False"

definition calculateGeographicRisk :: "string \<Rightarrow> real" where
  "calculateGeographicRisk country = (if country \<in> set [''CN'', ''RU'', ''KP'', ''IR''] then 8/10 else 2/10)"

definition determineUserType :: "threat_request_data \<Rightarrow> user_type" where
  "determineUserType q =
     (if \<not> given (q_userId q) then New_user
      else case q_requestCount q of None \<Rightarrow> New_user
           | Some n \<Rightarrow> if n > 100 then Frequent_user else if n > 10 then Returning_user else New_user)"

definition analyzeNavigationPattern :: "threat_request_data \<Rightarrow> navigation_pattern" where
  "analyzeNavigationPattern q = Linear"

definition determineInteractionLevel :: "threat_request_data \<Rightarrow> interaction_level" where
  "determineInteractionLevel q = Medium_level"

definition checkDeviceConsistency :: "threat_request_data \<Rightarrow> bool" where
  "checkDeviceConsistency q = True"

definition determineConnectionType :: "threat_request_data \<Rightarrow> connection_type" where
  "determineConnectionType q = Unknown_connection"

definition getIpReputation :: "address \<Rightarrow> real" where
  "getIpReputation ip = 1/10"

definition extractTemporalContext :: "int \<Rightarrow> int \<Rightarrow> threat_request_data \<Rightarrow> temporal_context" where
  "extractTemporalContext timeOfDay dayOfWeek q =
     \<lparr>tc_timeOfDay = timeOfDay, tc_dayOfWeek = dayOfWeek,
      tc_isBusinessHours = (timeOfDay \<ge> 9 \<and> timeOfDay \<le> 17 \<and> dayOfWeek \<ge> 1 \<and> dayOfWeek \<le> 5),
      tc_isWeekend = (dayOfWeek = 0 \<or> dayOfWeek = 6), tc_requestFrequency = num_or (q_requestFrequency q) 0\<rparr>"

definition unknown_location :: geographic_context where
  "unknown_location = \<lparr>gc_country = ''unknown'', gc_region = ''unknown'', gc_city = ''unknown'', gc_coordinates = None,
     gc_isVpn = False, gc_isProxy = False, gc_isTor = False, gc_riskScore = 5/10\<rparr>"

definition extractGeographicContext :: "(address \<Rightarrow> geo_reply) \<Rightarrow> threat_request_data \<Rightarrow> geographic_context" where
  "extractGeographicContext lookup q =
     (case lookup (q_ipAddress q) of
        Located g \<Rightarrow>
          \<lparr>gc_country = gi_country g, gc_region = (if gi_region g = [] then ''unknown'' else gi_region g),
           gc_city = (if gi_city g = [] then ''unknown'' else gi_city g), gc_coordinates = gi_ll g,
           gc_isVpn = detectVpnUsage q, gc_isProxy = detectProxyUsage q, gc_isTor = detectTorUsage q,
           gc_riskScore = calculateGeographicRisk (gi_country g)\<rparr>
      | Unlocated \<Rightarrow> unknown_location
      | Lookup_throws \<Rightarrow> unknown_location)"

definition extractBehavioralContext :: "time_ms \<Rightarrow> threat_request_data \<Rightarrow> risk_behavioral_context" where
  "extractBehavioralContext now q =
     \<lparr>bc_userType = determineUserType q, bc_sessionAge = now - num_or (q_sessionStartTime q) now,
      bc_pageSequenceAnomalies = num_or (q_pageSequenceAnomalies q) 0, bc_navigationPattern = analyzeNavigationPattern q,
      bc_interactionLevel = determineInteractionLevel q, bc_deviceConsistency = checkDeviceConsistency q\<rparr>"

definition extractSessionContext :: "threat_request_data \<Rightarrow> session_context" where
  "extractSessionContext q =
     \<lparr>sc_sessionId = q_sessionId q, sc_userId = q_userId q, sc_isAuthenticated = given (q_userId q),
      sc_sessionDuration = num_or (q_sessionDuration q) 0, sc_requestCount = num_or (q_requestCount q) 1,
      sc_errorCount = num_or (q_errorCount q) 0, sc_privilegeLevel = text_or (q_privilegeLevel q) ''guest'',
      sc_hashedFingerprint = text_or (q_hashedFingerprint q) ''unknown''\<rparr>"

definition extractNetworkContext :: "threat_request_data \<Rightarrow> network_context" where
  "extractNetworkContext q =
     (let ipReputation = getIpReputation (q_ipAddress q)
      in \<lparr>nc_ipReputation = ipReputation, nc_asnNumber = 0, nc_asnOrganization = ''unknown'', nc_connectionType = determineConnectionType q,
          nc_isKnownThreat = (ipReputation > 7/10), nc_threatSources = []\<rparr>)"

record moment =
  mo_now :: time_ms
  mo_hours :: int
  mo_day :: int

definition extractRiskContext :: "(address \<Rightarrow> geo_reply) \<Rightarrow> moment \<Rightarrow> threat_request_data \<Rightarrow> risk_context" where
  "extractRiskContext lookup t q =
     \<lparr>rx_temporal = extractTemporalContext (mo_hours t) (mo_day t) q, rx_geographic = extractGeographicContext lookup q,
      rx_behavioral = extractBehavioralContext (mo_now t) q, rx_session = extractSessionContext q, rx_network = extractNetworkContext q\<rparr>"

section \<open>Score\<close>

definition calculateBaseScore :: "risk_config \<Rightarrow> base_scores \<Rightarrow> real" where
  "calculateBaseScore cfg b =
     b_behavioral b * sw_behavioral (rk_weights cfg) + b_statistical b * sw_statistical (rk_weights cfg)
       + b_relationship b * sw_relationship (rk_weights cfg)"

definition mult_if :: "bool \<Rightarrow> real \<Rightarrow> real \<Rightarrow> real" where
  "mult_if c f m = (if c then m * f else m)"

definition temporal_factor :: "temporal_multipliers \<Rightarrow> temporal_context \<Rightarrow> real \<Rightarrow> real" where
  "temporal_factor m c x =
     (let x = mult_if (\<not> tc_isBusinessHours c) (tm_offHours m) x;
          x = mult_if (tc_isWeekend c) (tm_weekend m) x;
          x = mult_if (tc_timeOfDay c \<ge> 0 \<and> tc_timeOfDay c \<le> 6) (tm_nightTime m) x
      in mult_if (tc_requestFrequency c > 60) (tm_highFrequency m) x)"

definition geographic_factor :: "geographic_multipliers \<Rightarrow> geographic_context \<Rightarrow> real \<Rightarrow> real" where
  "geographic_factor m c x =
     (let x = mult_if (gc_isVpn c) (gm_vpnUsage m) x;
          x = mult_if (gc_isProxy c) (gm_proxyUsage m) x;
          x = mult_if (gc_isTor c) (gm_torUsage m) x
      in mult_if (gc_riskScore c > 7/10) (gm_highRiskCountry m) x)"

definition behavioral_factor :: "behavioral_multipliers \<Rightarrow> risk_behavioral_context \<Rightarrow> real \<Rightarrow> real" where
  "behavioral_factor m c x =
     (let x = mult_if (bc_userType c = New_user) (bm_newUser m) x;
          x = mult_if (bc_userType c = Suspicious_user) (bm_suspiciousUser m) x
      in mult_if (bc_interactionLevel c = Bot_like) (bm_botLikeBehavior m) x)"

definition session_factor :: "session_multipliers \<Rightarrow> session_context \<Rightarrow> real \<Rightarrow> real" where
  "session_factor m c x =
     (let x = mult_if (\<not> sc_isAuthenticated c) (sm_unauthenticated m) x
      in mult_if (sc_sessionDuration c < 30000) (sm_shortSession m) x)"

definition network_factor :: "network_multipliers \<Rightarrow> network_context \<Rightarrow> real \<Rightarrow> real" where
  "network_factor m c x =
     (let x = mult_if (nc_isKnownThreat c) (nm_knownThreat m) x
      in mult_if (nc_ipReputation c > 5/10) (nm_poorReputation m) x)"

definition multiplier :: "context_multipliers \<Rightarrow> risk_context \<Rightarrow> real" where
  "multiplier m c =
     network_factor (cm_network m) (rx_network c) (session_factor (cm_session m) (rx_session c)
       (behavioral_factor (cm_behavioral m) (rx_behavioral c) (geographic_factor (cm_geographic m) (rx_geographic c)
         (temporal_factor (cm_temporal m) (rx_temporal c) 1))))"

definition sensitizedMultiplier :: "risk_config \<Rightarrow> risk_context \<Rightarrow> real" where
  "sensitizedMultiplier cfg c = 1 + (multiplier (sw_contextMultipliers (rk_weights cfg)) c - 1) * rk_contextSensitivity cfg"

definition applyContextualMultipliers :: "risk_config \<Rightarrow> real \<Rightarrow> risk_context \<Rightarrow> real" where
  "applyContextualMultipliers cfg baseScore c = min (baseScore * sensitizedMultiplier cfg c) 1"

definition rk_calculateConfidence :: "risk_context \<Rightarrow> real" where
  "rk_calculateConfidence c =
     (let x = 5/10;
          x = (if sc_requestCount (rx_session c) > 10 then x + 1/10 else x);
          x = (if bc_sessionAge (rx_behavioral c) > 300000 then x + 1/10 else x);
          x = (if gc_country (rx_geographic c) \<noteq> ''unknown'' then x + 1/10 else x);
          x = (if sc_isAuthenticated (rx_session c) then x + 15/100 else x);
          x = (if \<not> bc_deviceConsistency (rx_behavioral c) then x - 1/10 else x);
          x = (if gc_country (rx_geographic c) = ''unknown'' then x - 1/10 else x)
      in max (1/10) (min x 1))"

definition rk_determineRiskLevel :: "risk_config \<Rightarrow> real \<Rightarrow> assessed_level" where
  "rk_determineRiskLevel cfg score =
     (if score \<ge> rk_critical cfg then Critical_risk else if score \<ge> rk_high cfg then High_risk
      else if score \<ge> rk_medium cfg then Medium_risk else Low_risk)"

definition identifyContributingFactors :: "risk_config \<Rightarrow> risk_context \<Rightarrow> base_scores \<Rightarrow> contributing_factor list" where
  "identifyContributingFactors cfg c b =
     (if b_behavioral b > 7/10
      then [\<lparr>cf_factor = ''behavioral_anomaly'', cf_weight = sw_behavioral (rk_weights cfg), cf_impact = b_behavioral b,
             cf_description = ''Suspicious behavioral patterns detected''\<rparr>] else [])
     @ (if gc_isVpn (rx_geographic c) \<or> gc_isProxy (rx_geographic c)
        then [\<lparr>cf_factor = ''anonymization_tools'', cf_weight = 3/10, cf_impact = 8/10, cf_description = ''VPN or proxy usage detected''\<rparr>] else [])
     @ (if \<not> tc_isBusinessHours (rx_temporal c)
        then [\<lparr>cf_factor = ''off_hours_access'', cf_weight = 2/10, cf_impact = 6/10, cf_description = ''Access outside business hours''\<rparr>] else [])"

fun level_recommendations :: "assessed_level \<Rightarrow> string list" where
  "level_recommendations Critical_risk = [''Block request immediately'', ''Trigger security alert'', ''Log detailed forensic data'']"
| "level_recommendations High_risk = [''Apply enhanced authentication'', ''Increase monitoring'', ''Rate limit aggressively'']"
| "level_recommendations Medium_risk = [''Monitor closely'', ''Apply standard rate limiting'']"
| "level_recommendations Low_risk = [''Allow with normal monitoring'']"

definition rk_generateRecommendations :: "risk_context \<Rightarrow> assessed_level \<Rightarrow> string list" where
  "rk_generateRecommendations c l =
     level_recommendations l
     @ (if gc_isVpn (rx_geographic c) then [''Verify user identity due to VPN usage''] else [])
     @ (if \<not> sc_isAuthenticated (rx_session c) \<and> l \<noteq> Low_risk then [''Encourage user authentication''] else [])"

text \<open>An empty first key is falsy and not removed.\<close>

definition cacheContext :: "string \<Rightarrow> risk_context \<Rightarrow> risk_engine \<Rightarrow> risk_engine" where
  "cacheContext sid c e =
     (let m = map_set sid c (rk_contextCache e);
          m = (if length m > 1000 then (let k = fst (hd m) in if k = [] then m else map_delete k m) else m)
      in e\<lparr>rk_contextCache := m\<rparr>)"

definition calculateContextualRisk :: "(address \<Rightarrow> geo_reply) \<Rightarrow> moment \<Rightarrow> base_scores \<Rightarrow> threat_request_data \<Rightarrow> risk_engine \<Rightarrow> contextual_risk \<times> risk_engine" where
  "calculateContextualRisk lookup t b q e =
     (let cfg = rk_config e; c = extractRiskContext lookup t q; baseScore = calculateBaseScore cfg b;
          contextualScore = applyContextualMultipliers cfg baseScore c; riskLevel = rk_determineRiskLevel cfg contextualScore
      in (\<lparr>cr_baseScore = baseScore, cr_contextualScore = contextualScore, cr_confidence = rk_calculateConfidence c,
           cr_riskLevel = riskLevel, cr_factors = identifyContributingFactors cfg c b, cr_recommendations = rk_generateRecommendations c riskLevel\<rparr>,
          cacheContext (q_sessionId q) c e))"

definition getCachedContext :: "string \<Rightarrow> risk_engine \<Rightarrow> risk_context option" where
  "getCachedContext sid e = map_of (rk_contextCache e) sid"

text \<open>The given members of a partial configuration replace the old ones.\<close>

record partial_risk_config =
  pk_weights :: "scoring_weights option"
  pk_thresholds :: "(real \<times> real \<times> real \<times> real) option"
  pk_contextSensitivity :: "real option"
  pk_confidenceThreshold :: "real option"
  pk_adaptiveLearning :: "bool option"

definition updateRiskConfig :: "partial_risk_config \<Rightarrow> risk_engine \<Rightarrow> risk_engine" where
  "updateRiskConfig p e =
     (let c = rk_config e;
          c = (case pk_weights p of None \<Rightarrow> c | Some w \<Rightarrow> c\<lparr>rk_weights := w\<rparr>);
          c = (case pk_thresholds p of None \<Rightarrow> c | Some (l, m, h, x) \<Rightarrow> c\<lparr>rk_low := l, rk_medium := m, rk_high := h, rk_critical := x\<rparr>);
          c = (case pk_contextSensitivity p of None \<Rightarrow> c | Some v \<Rightarrow> c\<lparr>rk_contextSensitivity := v\<rparr>);
          c = (case pk_confidenceThreshold p of None \<Rightarrow> c | Some v \<Rightarrow> c\<lparr>rk_confidenceThreshold := v\<rparr>);
          c = (case pk_adaptiveLearning p of None \<Rightarrow> c | Some v \<Rightarrow> c\<lparr>rk_adaptiveLearning := v\<rparr>)
      in e\<lparr>rk_config := c\<rparr>)"

section \<open>Multipliers\<close>

lemma mult_if_ge1: "1 \<le> x \<Longrightarrow> 1 \<le> f \<Longrightarrow> 1 \<le> mult_if c f x"
  using mult_mono [of 1 x 1 f] by (auto simp: mult_if_def)

text \<open>The multipliers the calculation reads.\<close>

definition multipliers_ge1 :: "context_multipliers \<Rightarrow> bool" where
  "multipliers_ge1 m \<longleftrightarrow>
     list_all (\<lambda>x. 1 \<le> x) [tm_offHours (cm_temporal m), tm_weekend (cm_temporal m), tm_nightTime (cm_temporal m), tm_highFrequency (cm_temporal m),
       gm_vpnUsage (cm_geographic m), gm_proxyUsage (cm_geographic m), gm_torUsage (cm_geographic m), gm_highRiskCountry (cm_geographic m),
       bm_newUser (cm_behavioral m), bm_suspiciousUser (cm_behavioral m), bm_botLikeBehavior (cm_behavioral m),
       sm_unauthenticated (cm_session m), sm_shortSession (cm_session m), nm_knownThreat (cm_network m), nm_poorReputation (cm_network m)]"

lemma multiplier_ge1: "multipliers_ge1 m \<Longrightarrow> 1 \<le> multiplier m c"
  by (simp add: multipliers_ge1_def multiplier_def temporal_factor_def geographic_factor_def behavioral_factor_def session_factor_def
      network_factor_def Let_def mult_if_ge1)

definition risk_config_ok :: "risk_config \<Rightarrow> bool" where
  "risk_config_ok cfg \<longleftrightarrow> 0 \<le> sw_behavioral (rk_weights cfg) \<and> 0 \<le> sw_statistical (rk_weights cfg) \<and> 0 \<le> sw_relationship (rk_weights cfg)
     \<and> sw_behavioral (rk_weights cfg) + sw_statistical (rk_weights cfg) + sw_relationship (rk_weights cfg) \<le> 1
     \<and> 0 \<le> rk_contextSensitivity cfg \<and> multipliers_ge1 (sw_contextMultipliers (rk_weights cfg))"

lemma default_risk_config_ok: "risk_config_ok getDefaultRiskScoringConfig"
  by (simp add: risk_config_ok_def getDefaultRiskScoringConfig_def multipliers_ge1_def)

definition scores_ok :: "base_scores \<Rightarrow> bool" where
  "scores_ok b \<longleftrightarrow> list_all (\<lambda>x. 0 \<le> x \<and> x \<le> 1) [b_behavioral b, b_statistical b, b_relationship b]"

lemma sensitized_ge1: "risk_config_ok cfg \<Longrightarrow> 1 \<le> sensitizedMultiplier cfg c"
  by (simp add: sensitizedMultiplier_def risk_config_ok_def multiplier_ge1)

lemma base_score_bounds:
  assumes "risk_config_ok cfg" and "scores_ok b"
  shows "0 \<le> calculateBaseScore cfg b" and "calculateBaseScore cfg b \<le> 1"
proof -
  let ?w = "rk_weights cfg"
  have "b_behavioral b * sw_behavioral ?w \<le> 1 * sw_behavioral ?w" "b_statistical b * sw_statistical ?w \<le> 1 * sw_statistical ?w"
    "b_relationship b * sw_relationship ?w \<le> 1 * sw_relationship ?w"
    using assms unfolding scores_ok_def risk_config_ok_def by (intro mult_right_mono; simp)+
  then show "calculateBaseScore cfg b \<le> 1" using assms(1) by (simp add: calculateBaseScore_def risk_config_ok_def)
  show "0 \<le> calculateBaseScore cfg b" using assms by (simp add: calculateBaseScore_def risk_config_ok_def scores_ok_def)
qed

lemma contextual_bounds:
  assumes "risk_config_ok cfg" and "0 \<le> x" and "x \<le> 1"
  shows "x \<le> applyContextualMultipliers cfg x c" and "applyContextualMultipliers cfg x c \<le> 1"
  using assms mult_left_mono [OF sensitized_ge1 [OF assms(1)] assms(2), of c] by (auto simp: applyContextualMultipliers_def)

lemma contextual_mono:
  "risk_config_ok cfg \<Longrightarrow> x \<le> y \<Longrightarrow> applyContextualMultipliers cfg x c \<le> applyContextualMultipliers cfg y c"
  using sensitized_ge1 [of cfg c] by (auto simp: applyContextualMultipliers_def min_def intro!: mult_right_mono) (meson dual_order.trans mult_right_mono order_trans zero_le_one linear)+

text \<open>
  With weights that sum to at most 1 and multipliers of at least 1, as in the default configuration, the contextual score is a score, is never
  below the base score, and grows with every analyzer's score in an unchanged context.
\<close>
theorem contextual_score_bounds:
  assumes "risk_config_ok (rk_config e)" and "scores_ok b" and "scores_ok b'"
    and "b_behavioral b \<le> b_behavioral b'" and "b_statistical b \<le> b_statistical b'" and "b_relationship b \<le> b_relationship b'"
  shows "let r = fst (calculateContextualRisk lookup t b q e); r' = fst (calculateContextualRisk lookup t b' q e)
    in 0 \<le> cr_baseScore r \<and> cr_baseScore r \<le> cr_contextualScore r \<and> cr_contextualScore r \<le> cr_contextualScore r' \<and> cr_contextualScore r' \<le> 1"
proof -
  let ?cfg = "rk_config e"
  have "calculateBaseScore ?cfg b \<le> calculateBaseScore ?cfg b'"
    unfolding calculateBaseScore_def using assms by (intro add_mono mult_right_mono) (simp_all add: risk_config_ok_def)
  then show ?thesis
    using base_score_bounds [OF assms(1,2)] base_score_bounds [OF assms(1,3)] contextual_bounds [OF assms(1)] contextual_mono [OF assms(1)]
    by (simp add: calculateContextualRisk_def Let_def)
qed

section \<open>What the request path reaches\<close>

text \<open>The multiplier of extracted request data: the hour, the day and the country are all that matters.\<close>

definition high_risk_place :: "geo_reply \<Rightarrow> bool" where
  "high_risk_place r \<longleftrightarrow> (case r of Located g \<Rightarrow> gi_country g \<in> set [''CN'', ''RU'', ''KP'', ''IR''] | _ \<Rightarrow> False)"

lemma geographic_high: "gc_riskScore (extractGeographicContext lookup q) > 7/10 \<longleftrightarrow> high_risk_place (lookup (q_ipAddress q))"
  by (simp add: extractGeographicContext_def calculateGeographicRisk_def high_risk_place_def unknown_location_def split: geo_reply.split)

lemma never_detected: "\<not> gc_isVpn (extractGeographicContext lookup q)" "\<not> gc_isProxy (extractGeographicContext lookup q)" "\<not> gc_isTor (extractGeographicContext lookup q)"
  by (simp_all add: extractGeographicContext_def detectVpnUsage_def detectProxyUsage_def detectTorUsage_def unknown_location_def split: geo_reply.split)

lemma geographic_factor_reached:
  "geographic_factor m (extractGeographicContext lookup q) x = mult_if (high_risk_place (lookup (q_ipAddress q))) (gm_highRiskCountry m) x"
  unfolding geographic_factor_def Let_def geographic_high by (simp add: never_detected mult_if_def)

lemma network_factor_reached: "network_factor m (extractNetworkContext q) x = x"
  by (simp add: network_factor_def extractNetworkContext_def getIpReputation_def mult_if_def)

lemma behavioral_factor_reached: "extracted q \<Longrightarrow> behavioral_factor m (extractBehavioralContext now q) x = x * bm_newUser m"
  by (simp add: behavioral_factor_def extractBehavioralContext_def determineUserType_def determineInteractionLevel_def extracted_def mult_if_def)

lemma session_factor_reached: "extracted q \<Longrightarrow> session_factor m (extractSessionContext q) x = x * sm_unauthenticated m * sm_shortSession m"
  by (simp add: session_factor_def extractSessionContext_def extracted_def mult_if_def)

definition off_hours :: "moment \<Rightarrow> bool" where
  "off_hours t \<longleftrightarrow> \<not> (9 \<le> mo_hours t \<and> mo_hours t \<le> 17 \<and> 1 \<le> mo_day t \<and> mo_day t \<le> 5)"

definition time_factor :: "temporal_multipliers \<Rightarrow> moment \<Rightarrow> real" where
  "time_factor m t =
     mult_if (0 \<le> mo_hours t \<and> mo_hours t \<le> 6) (tm_nightTime m) (mult_if (mo_day t = 0 \<or> mo_day t = 6) (tm_weekend m) (mult_if (off_hours t) (tm_offHours m) 1))"

lemma temporal_factor_reached: "extracted q \<Longrightarrow> temporal_factor m (extractTemporalContext (mo_hours t) (mo_day t) q) 1 = time_factor m t"
  by (simp add: temporal_factor_def extractTemporalContext_def extracted_def time_factor_def off_hours_def mult_if_def Let_def)

lemma multiplier_extracted:
  "extracted q \<Longrightarrow> multiplier m (extractRiskContext lookup t q) =
    mult_if (high_risk_place (lookup (q_ipAddress q))) (gm_highRiskCountry (cm_geographic m)) (time_factor (cm_temporal m) t)
      * bm_newUser (cm_behavioral m) * sm_unauthenticated (cm_session m) * sm_shortSession (cm_session m)"
  by (simp add: multiplier_def extractRiskContext_def geographic_factor_reached network_factor_reached behavioral_factor_reached
      session_factor_reached temporal_factor_reached)

text \<open>
  Of the fifteen multipliers only seven can apply to a request: three always do (new user, unauthenticated, short session) and four by the hour, the
  day and the country; the multipliers for high frequency, VPN, proxy, Tor, suspicious users, bots and known threats have no effect, however they are configured.
\<close>
theorem dead_multipliers:
  assumes "extracted q"
    and "tm_offHours (cm_temporal m) = tm_offHours (cm_temporal m')" and "tm_weekend (cm_temporal m) = tm_weekend (cm_temporal m')"
    and "tm_nightTime (cm_temporal m) = tm_nightTime (cm_temporal m')"
    and "gm_highRiskCountry (cm_geographic m) = gm_highRiskCountry (cm_geographic m')" and "bm_newUser (cm_behavioral m) = bm_newUser (cm_behavioral m')"
    and "sm_unauthenticated (cm_session m) = sm_unauthenticated (cm_session m')" and "sm_shortSession (cm_session m) = sm_shortSession (cm_session m')"
  shows "multiplier m (extractRiskContext lookup t q) = multiplier m' (extractRiskContext lookup t q)"
  using assms by (simp add: multiplier_extracted time_factor_def)

section \<open>The cache of contexts\<close>

inductive reachable_risk :: "risk_config \<Rightarrow> risk_engine \<Rightarrow> bool" where
  start: "reachable_risk cfg (new_risk_engine cfg)"
| scored: "reachable_risk cfg e \<Longrightarrow> q_sessionId q \<noteq> [] \<Longrightarrow> reachable_risk cfg (snd (calculateContextualRisk lookup t b q e))"

lemma length_delete_hd: "m \<noteq> [] \<Longrightarrow> length (map_delete (fst (hd m)) m) < length m"
  by (cases m) (auto simp: AList.delete_eq less_Suc_eq_le intro: length_filter_le)

lemma cacheContext_bound:
  assumes "length (rk_contextCache e) \<le> 1000" and "[] \<notin> fst ` set (rk_contextCache e)" and "sid \<noteq> []"
  shows "length (rk_contextCache (cacheContext sid c e)) \<le> 1000 \<and> [] \<notin> fst ` set (rk_contextCache (cacheContext sid c e))"
proof -
  let ?m = "map_set sid c (rk_contextCache e)"
  have keys: "[] \<notin> fst ` set ?m" using assms(2,3) set_update_subset [of sid c "rk_contextCache e"] by fastforce
  have len: "length ?m \<le> 1001" using assms(1) by (simp add: length_update)
  show ?thesis
  proof (cases "length ?m > 1000")
    case True
    then have "?m \<noteq> []" by auto
    then have "fst (hd ?m) \<noteq> []" using keys by (metis hd_in_set image_eqI)
    then show ?thesis using True len length_delete_hd [OF \<open>?m \<noteq> []\<close>] keys set_delete_subset [of "fst (hd ?m)" ?m]
      by (auto simp: cacheContext_def Let_def)
  qed (use keys in \<open>simp add: cacheContext_def\<close>)
qed

lemma risk_cache_bounded: "reachable_risk cfg e \<Longrightarrow> rk_config e = cfg \<and> length (rk_contextCache e) \<le> 1000 \<and> [] \<notin> fst ` set (rk_contextCache e)"
proof (induction rule: reachable_risk.induct)
  case (scored cfg e q lookup t b)
  then show ?case using cacheContext_bound [of e "q_sessionId q"] by (simp add: calculateContextualRisk_def Let_def cacheContext_def)
qed (simp add: new_risk_engine_def)

text \<open>
  The engine never keeps more than 1000 contexts, as long as no session identifier is empty.
\<close>
theorem context_cache_bound:
  assumes "reachable_risk cfg e"
  shows "length (rk_contextCache e) \<le> 1000"
  using risk_cache_bounded [OF assms] by simp

section \<open>Witnesses\<close>

definition demo_q :: threat_request_data where
  "demo_q = extractRequestData ''s1'' 0 [] \<lparr>hq_ip = Some ''8.8.8.8'', hq_remoteAddress = None, hq_userAgent = Some ''Mozilla'', hq_path = ''/'', hq_method = ''GET'',
     hq_referer = None, hq_body = False\<rparr>"

definition demo_moment :: moment where
  "demo_moment = \<lparr>mo_now = 0, mo_hours = 12, mo_day = 1\<rparr>"

theorem contextual_score_bounds_witness:
  "let r = fst (calculateContextualRisk (\<lambda>_. Unlocated) demo_moment \<lparr>b_behavioral = 1/10, b_statistical = 0, b_relationship = 0\<rparr> demo_q (new_risk_engine getDefaultRiskScoringConfig));
       r' = fst (calculateContextualRisk (\<lambda>_. Unlocated) demo_moment \<lparr>b_behavioral = 1, b_statistical = 6/10, b_relationship = 2/10\<rparr> demo_q (new_risk_engine getDefaultRiskScoringConfig))
   in 0 \<le> cr_baseScore r \<and> cr_baseScore r \<le> cr_contextualScore r \<and> cr_contextualScore r \<le> cr_contextualScore r' \<and> cr_contextualScore r' \<le> 1"
  by (rule contextual_score_bounds) (simp_all add: scores_ok_def new_risk_engine_def default_risk_config_ok)

theorem dead_multipliers_witness:
  "let m = sw_contextMultipliers (rk_weights getDefaultRiskScoringConfig); m' = m\<lparr>cm_network := (cm_network m)\<lparr>nm_knownThreat := 100\<rparr>\<rparr>
   in multiplier m (extractRiskContext (\<lambda>_. Unlocated) demo_moment demo_q) = multiplier m' (extractRiskContext (\<lambda>_. Unlocated) demo_moment demo_q)"
  unfolding Let_def by (rule dead_multipliers) (auto simp: demo_q_def)

theorem context_cache_bound_witness:
  "length (rk_contextCache (snd (calculateContextualRisk (\<lambda>_. Unlocated) demo_moment \<lparr>b_behavioral = 1/10, b_statistical = 0, b_relationship = 0\<rparr> demo_q
     (new_risk_engine getDefaultRiskScoringConfig)))) \<le> 1000"
  by (rule context_cache_bound [of getDefaultRiskScoringConfig], rule scored, rule start) (simp add: demo_q_def)

end
