(* ===== verification/BehavioralAnalysis.thy ===== *)
theory BehavioralAnalysis
  imports RequestData
begin

text \<open>
  The behavioral analyzer, \<^verbatim>\<open>backend/src/core/BehavioralAnalyzer.ts\<close>: a pattern per session, updated by every request, and risk indicators over it.

  The clock is read three times during one analysis (when the pattern is stamped, for the timing and for the interaction); the readings, the hour, the day and
  the two random draws are the \<open>reading\<close> of a request. What Redis holds for a session is an argument (the analyzer's own client is never connected,
  so it is \<open>None\<close> there); the pattern is written back to it but only read for a session that is not cached. An address that is undefined
  makes \<^verbatim>\<open>startsWith\<close> throw; the exception ends the analysis with the score 0.1.
\<close>

section \<open>Types\<close>

record request_pattern =
  rp_path :: string
  rp_method :: string
  rp_frequency :: nat
  rp_timeOfDay :: int
  rp_dayOfWeek :: int

record timing_pattern =
  tp_averageTimeBetweenRequests :: real
  tp_burstRequests :: nat
  tp_idlePeriods :: nat
  tp_sessionDuration :: int

record page_navigation =
  np_pageSequence :: "string list"
  np_backButtonUsage :: nat
  np_directAccess :: nat
  np_referrerPatterns :: "string list"

record interaction_pattern =
  ip_mouseMovements :: nat
  ip_keyboardPatterns :: "string list"
  ip_formInteractions :: nat
  ip_scrollBehavior :: nat

datatype indicator_type = Request_frequency | Timing_anomaly | Navigation_suspicious | Interaction_robotic | Session_anomaly

record risk_indicator =
  ri_type :: indicator_type
  ri_score :: real

record behavior_pattern =
  bp_sessionId :: string
  bp_userId :: "string option"
  bp_ipAddress :: address
  bp_userAgent :: string
  bp_requestPatterns :: "request_pattern list"
  bp_timing :: timing_pattern
  bp_navigation :: page_navigation
  bp_interaction :: interaction_pattern
  bp_riskIndicators :: "risk_indicator list"
  bp_timestamp :: time_ms

type_synonym behavior_cache = "(string, behavior_pattern) js_map"

record reading =
  cl_stamp :: time_ms
  cl_timing :: time_ms
  cl_interaction :: time_ms
  cl_hours :: int
  cl_day :: int
  cl_mouse :: nat
  cl_scroll :: nat

section \<open>Patterns\<close>

fun riskThreshold :: "indicator_type \<Rightarrow> real" where
  "riskThreshold Request_frequency = 8/10"
| "riskThreshold Timing_anomaly = 7/10"
| "riskThreshold Navigation_suspicious = 6/10"
| "riskThreshold Interaction_robotic = 9/10"
| "riskThreshold Session_anomaly = 75/100"

definition createNewBehaviorPattern :: "string \<Rightarrow> time_ms \<Rightarrow> behavior_pattern" where
  "createNewBehaviorPattern sid now =
     \<lparr>bp_sessionId = sid, bp_userId = None, bp_ipAddress = Some [], bp_userAgent = [], bp_requestPatterns = [],
      bp_timing = \<lparr>tp_averageTimeBetweenRequests = 0, tp_burstRequests = 0, tp_idlePeriods = 0, tp_sessionDuration = 0\<rparr>,
      bp_navigation = \<lparr>np_pageSequence = [], np_backButtonUsage = 0, np_directAccess = 0, np_referrerPatterns = []\<rparr>,
      bp_interaction = \<lparr>ip_mouseMovements = 0, ip_keyboardPatterns = [], ip_formInteractions = 0, ip_scrollBehavior = 0\<rparr>,
      bp_riskIndicators = [], bp_timestamp = now\<rparr>"

definition getBehaviorPattern :: "behavior_pattern option \<Rightarrow> time_ms \<Rightarrow> string \<Rightarrow> behavior_cache \<Rightarrow> behavior_pattern \<times> behavior_cache" where
  "getBehaviorPattern stored now sid cache =
     (case map_of cache sid of Some p \<Rightarrow> (p, cache)
      | None \<Rightarrow> (case stored of Some p \<Rightarrow> (p, map_set sid p cache) | None \<Rightarrow> (createNewBehaviorPattern sid now, cache)))"

fun count_request :: "string \<Rightarrow> string \<Rightarrow> int \<Rightarrow> int \<Rightarrow> request_pattern list \<Rightarrow> request_pattern list" where
  "count_request path method hours day [] = [\<lparr>rp_path = path, rp_method = method, rp_frequency = 1, rp_timeOfDay = hours, rp_dayOfWeek = day\<rparr>]"
| "count_request path method hours day (p # ps) =
     (if rp_path p = path \<and> rp_method p = method then p\<lparr>rp_frequency := rp_frequency p + 1\<rparr> # ps else p # count_request path method hours day ps)"

definition updateRequestPatterns :: "reading \<Rightarrow> threat_request_data \<Rightarrow> behavior_pattern \<Rightarrow> behavior_pattern" where
  "updateRequestPatterns r q p =
     p\<lparr>bp_requestPatterns := count_request (q_requestPath q) (q_requestMethod q) (cl_hours r) (cl_day r) (bp_requestPatterns p)\<rparr>"

definition total_requests :: "behavior_pattern \<Rightarrow> nat" where
  "total_requests p = sum_list (map rp_frequency (bp_requestPatterns p))"

definition updateTimingPatterns :: "reading \<Rightarrow> behavior_pattern \<Rightarrow> behavior_pattern" where
  "updateTimingPatterns r p =
     (let timeDiff = cl_timing r - bp_timestamp p; t = bp_timing p;
          t = t\<lparr>tp_sessionDuration := timeDiff\<rparr>;
          t = (if timeDiff < 1000 then t\<lparr>tp_burstRequests := tp_burstRequests t + 1\<rparr> else t);
          t = (if timeDiff > 300000 then t\<lparr>tp_idlePeriods := tp_idlePeriods t + 1\<rparr> else t);
          n = total_requests p;
          t = (if n > 1 then t\<lparr>tp_averageTimeBetweenRequests := of_int (tp_sessionDuration t) / real n\<rparr> else t)
      in p\<lparr>bp_timing := t\<rparr>)"

definition updateNavigationPatterns :: "threat_request_data \<Rightarrow> behavior_pattern \<Rightarrow> behavior_pattern" where
  "updateNavigationPatterns q p =
     (let v = bp_navigation p; v = v\<lparr>np_pageSequence := np_pageSequence v @ [q_requestPath q]\<rparr>;
          v = (if \<not> given (q_referer q) then v\<lparr>np_directAccess := np_directAccess v + 1\<rparr>
               else v\<lparr>np_referrerPatterns := np_referrerPatterns v @ [the (q_referer q)]\<rparr>);
          v = (if length (np_pageSequence v) > 20 then v\<lparr>np_pageSequence := js_slice_from (- 20) (np_pageSequence v)\<rparr> else v)
      in p\<lparr>bp_navigation := v\<rparr>)"

definition updateInteractionPatterns :: "reading \<Rightarrow> threat_request_data \<Rightarrow> behavior_pattern \<Rightarrow> behavior_pattern" where
  "updateInteractionPatterns r q p =
     (let timeDiff = cl_interaction r - bp_timestamp p; v = bp_interaction p;
          v = (if timeDiff < 1000 then v\<lparr>ip_mouseMovements := ip_mouseMovements v + cl_mouse r\<rparr> else v);
          v = (if q_requestMethod q = ''POST'' \<and> q_body q then v\<lparr>ip_formInteractions := ip_formInteractions v + 1\<rparr> else v);
          v = v\<lparr>ip_scrollBehavior := ip_scrollBehavior v + cl_scroll r\<rparr>
      in p\<lparr>bp_interaction := v\<rparr>)"

section \<open>Indicators\<close>

definition requestsPerMinute :: "behavior_pattern \<Rightarrow> real" where
  "requestsPerMinute p = real (total_requests p) / max (of_int (tp_sessionDuration (bp_timing p)) / 60000) 1"

definition avgMouseMovements :: "behavior_pattern \<Rightarrow> real" where
  "avgMouseMovements p = real (ip_mouseMovements (bp_interaction p)) / max (real (length (bp_requestPatterns p))) 1"

definition calculateRiskIndicators :: "behavior_pattern \<Rightarrow> risk_indicator list" where
  "calculateRiskIndicators p =
     (if requestsPerMinute p > 60 then [\<lparr>ri_type = Request_frequency, ri_score = min (requestsPerMinute p / 100) 1\<rparr>] else [])
     @ (if tp_burstRequests (bp_timing p) > 10
        then [\<lparr>ri_type = Timing_anomaly, ri_score = min (real (tp_burstRequests (bp_timing p)) / 20) 1\<rparr>] else [])
     @ (if np_directAccess (bp_navigation p) > 5
        then [\<lparr>ri_type = Navigation_suspicious, ri_score = min (real (np_directAccess (bp_navigation p)) / 10) 1\<rparr>] else [])
     @ (if avgMouseMovements p < 2 then [\<lparr>ri_type = Interaction_robotic, ri_score = 9/10\<rparr>] else [])
     @ (if tp_sessionDuration (bp_timing p) > 3600000 then [\<lparr>ri_type = Session_anomaly, ri_score = 7/10\<rparr>] else [])"

definition updateBehaviorPattern :: "reading \<Rightarrow> threat_request_data \<Rightarrow> behavior_pattern \<Rightarrow> behavior_pattern" where
  "updateBehaviorPattern r q p =
     (let p = p\<lparr>bp_ipAddress := q_ipAddress q, bp_userAgent := q_userAgent q, bp_userId := q_userId q, bp_timestamp := cl_stamp r\<rparr>;
          p = updateRequestPatterns r q p;
          p = updateTimingPatterns r p;
          p = updateNavigationPatterns q p;
          p = updateInteractionPatterns r q p
      in p\<lparr>bp_riskIndicators := calculateRiskIndicators p\<rparr>)"

section \<open>Score\<close>

definition isSuspiciousUserAgent :: "string \<Rightarrow> bool" where
  "isSuspiciousUserAgent ua \<longleftrightarrow>
     list_ex (includes_str (map lower_char ua)) [''bot'', ''crawler'', ''spider'', ''scraper'', ''curl'', ''wget'', ''python'', ''java'', ''perl'', ''ruby'', ''php'']"

definition isSuspiciousIP :: "string \<Rightarrow> bool" where
  "isSuspiciousIP ip \<longleftrightarrow>
     list_ex (starts_with ip) [''10.'', ''192.168.'', ''172.16.'', ''172.17.'', ''172.18.'', ''172.19.'', ''172.20.'', ''172.21.'', ''172.22.'', ''172.23.'', ''172.24.'',
       ''172.25.'', ''172.26.'', ''172.27.'', ''172.28.'', ''172.29.'', ''172.30.'', ''172.31.'']"

definition averageScore :: "risk_indicator list \<Rightarrow> real" where
  "averageScore is = sum_list (map (\<lambda>i. ri_score i * riskThreshold (ri_type i)) is) / real (length is)"

text \<open>\<open>None\<close>: the address is undefined and \<^verbatim>\<open>startsWith\<close> throws.\<close>

definition calculateBehavioralRisk :: "behavior_pattern \<Rightarrow> real option" where
  "calculateBehavioralRisk p =
     (if bp_riskIndicators p = [] then Some (1/10)
      else let s = averageScore (bp_riskIndicators p);
               s = (if length (bp_requestPatterns p) < 5 then s * (12/10) else s);
               s = (if isSuspiciousUserAgent (bp_userAgent p) then s * (13/10) else s)
           in case bp_ipAddress p of None \<Rightarrow> None
              | Some ip \<Rightarrow> Some (min (if isSuspiciousIP ip then s * (14/10) else s) 1))"

text \<open>
  The pattern of a cached session is updated in place, so the update survives an exception; a pattern that was just created or parsed
  is cached only at the end, or when it was read from Redis.
\<close>

definition behavioral_analyze :: "reading \<times> behavior_pattern option \<times> threat_request_data \<Rightarrow> behavior_cache \<Rightarrow> real \<times> behavior_cache" where
  "behavioral_analyze i cache =
     (let (r, stored, q) = i; sid = q_sessionId q; (p, cache) = getBehaviorPattern stored (cl_stamp r) sid cache;
          p = updateBehaviorPattern r q p; kept = (case map_of cache sid of None \<Rightarrow> cache | Some _ \<Rightarrow> map_set sid p cache)
      in case calculateBehavioralRisk p of None \<Rightarrow> (1/10, kept) | Some s \<Rightarrow> (s, map_set sid p cache))"

definition clearCache :: "behavior_cache \<Rightarrow> behavior_cache" where
  "clearCache cache = []"

section \<open>Scores are bounded\<close>

lemma indicator_scores: "i \<in> set (calculateRiskIndicators p) \<Longrightarrow> 0 \<le> ri_score i"
  by (auto simp: calculateRiskIndicators_def requestsPerMinute_def split: if_splits)

lemma riskThreshold_nonneg: "0 \<le> riskThreshold t"
  by (cases t) simp_all

lemma averageScore_nonneg: "(\<And>i. i \<in> set is \<Longrightarrow> 0 \<le> ri_score i) \<Longrightarrow> 0 \<le> averageScore is"
  by (auto simp: averageScore_def riskThreshold_nonneg intro!: divide_nonneg_nonneg sum_list_nonneg)

lemma behavioral_risk_bounds:
  assumes "calculateBehavioralRisk p = Some s" and "\<And>i. i \<in> set (bp_riskIndicators p) \<Longrightarrow> 0 \<le> ri_score i"
  shows "0 \<le> s \<and> s \<le> 1"
  using assms(1) averageScore_nonneg [OF assms(2)] by (auto simp: calculateBehavioralRisk_def Let_def split: if_splits option.splits)

lemma update_indicators: "i \<in> set (bp_riskIndicators (updateBehaviorPattern r q p)) \<Longrightarrow> 0 \<le> ri_score i"
  by (auto simp: updateBehaviorPattern_def Let_def dest: indicator_scores)

lemma behavioral_score_bounds: "0 \<le> fst (behavioral_analyze i cache) \<and> fst (behavioral_analyze i cache) \<le> 1"
  using behavioral_risk_bounds [OF _ update_indicators]
  by (auto simp: behavioral_analyze_def Let_def split: option.splits prod.splits)

interpretation behavioral: risk_source behavioral_analyze "\<lambda>_. True" "\<lambda>_. True"
  by unfold_locales (use behavioral_score_bounds in auto)

section \<open>A session's history\<close>

lemma total_count_request: "sum_list (map rp_frequency (count_request path method h d ps)) = Suc (sum_list (map rp_frequency ps))"
  by (induction ps) auto

lemma length_count_request: "length (count_request path method h d ps) \<le> Suc (length ps)" "count_request path method h d ps \<noteq> []"
  by (induction ps) auto

text \<open>What one update does to the fields the indicators read.\<close>

lemma update_fields:
  "bp_requestPatterns (updateBehaviorPattern r q p) = count_request (q_requestPath q) (q_requestMethod q) (cl_hours r) (cl_day r) (bp_requestPatterns p)"
  "tp_sessionDuration (bp_timing (updateBehaviorPattern r q p)) = cl_timing r - cl_stamp r"
  "tp_burstRequests (bp_timing (updateBehaviorPattern r q p)) = tp_burstRequests (bp_timing p) + (if cl_timing r - cl_stamp r < 1000 then 1 else 0)"
  "tp_idlePeriods (bp_timing (updateBehaviorPattern r q p)) = tp_idlePeriods (bp_timing p) + (if cl_timing r - cl_stamp r > 300000 then 1 else 0)"
  "np_directAccess (bp_navigation (updateBehaviorPattern r q p)) = np_directAccess (bp_navigation p) + (if given (q_referer q) then 0 else 1)"
  "ip_mouseMovements (bp_interaction (updateBehaviorPattern r q p))
     = ip_mouseMovements (bp_interaction p) + (if cl_interaction r - cl_stamp r < 1000 then cl_mouse r else 0)"
  "bp_ipAddress (updateBehaviorPattern r q p) = q_ipAddress q" "bp_userAgent (updateBehaviorPattern r q p) = q_userAgent q"
  by (simp_all add: updateBehaviorPattern_def updateRequestPatterns_def updateTimingPatterns_def updateNavigationPatterns_def updateInteractionPatterns_def Let_def)

lemma update_riskIndicators: "bp_riskIndicators (updateBehaviorPattern r q p) = calculateRiskIndicators (updateBehaviorPattern r q p)"
  by (simp add: updateBehaviorPattern_def Let_def calculateRiskIndicators_def requestsPerMinute_def avgMouseMovements_def total_requests_def)

lemma update_total: "total_requests (updateBehaviorPattern r q p) = Suc (total_requests p)"
  by (simp add: total_requests_def update_fields total_count_request)

text \<open>A request that is analyzed within a second of its arrival.\<close>

definition prompt :: "string \<Rightarrow> reading \<times> behavior_pattern option \<times> threat_request_data \<Rightarrow> bool" where
  "prompt sid i \<longleftrightarrow> (case i of (r, stored, q) \<Rightarrow> q_sessionId q = sid \<and> stored = None \<and> 0 \<le> cl_timing r - cl_stamp r \<and> cl_timing r - cl_stamp r < 1000
     \<and> q_ipAddress q \<noteq> None)"

definition ba_counted :: "nat \<Rightarrow> behavior_pattern \<Rightarrow> bool" where
  "ba_counted n p \<longleftrightarrow> total_requests p = n \<and> tp_burstRequests (bp_timing p) = n \<and> tp_idlePeriods (bp_timing p) = 0
     \<and> tp_sessionDuration (bp_timing p) < 1000"

lemma ba_counted_new: "ba_counted 0 (createNewBehaviorPattern sid now)"
  by (simp add: ba_counted_def createNewBehaviorPattern_def total_requests_def)

lemma ba_counted_update: "ba_counted n p \<Longrightarrow> cl_timing r - cl_stamp r < 1000 \<Longrightarrow> ba_counted (Suc n) (updateBehaviorPattern r q p)"
  by (auto simp: ba_counted_def update_fields update_total)

lemma risk_given: "bp_ipAddress p \<noteq> None \<Longrightarrow> \<exists>s. calculateBehavioralRisk p = Some s"
proof -
  assume "bp_ipAddress p \<noteq> None"
  then have "calculateBehavioralRisk p \<noteq> None" by (simp add: calculateBehavioralRisk_def Let_def split: option.split del: not_None_eq)
  then show ?thesis by blast
qed

lemma analyze_step:
  assumes "q_ipAddress q \<noteq> None"
  shows "map_of (snd (behavioral_analyze (r, stored, q) cache)) (q_sessionId q)
    = Some (updateBehaviorPattern r q (fst (getBehaviorPattern stored (cl_stamp r) (q_sessionId q) cache)))"
  using assms risk_given [of "updateBehaviorPattern r q (fst (getBehaviorPattern stored (cl_stamp r) (q_sessionId q) cache))"]
  by (auto simp: behavioral_analyze_def split_def Let_def update_fields update_conv')

lemma history_counted:
  "list_all (prompt sid) is \<Longrightarrow> (case map_of (snd (feed behavioral_analyze is [])) sid of None \<Rightarrow> is = [] | Some p \<Rightarrow> ba_counted (length is) p)"
proof (induction "is" rule: rev_induct)
  case (snoc i "is")
  obtain r stored q where i: "i = (r, stored, q)" by (metis prod.exhaust)
  have pr: "q_sessionId q = sid" "stored = None" "cl_timing r - cl_stamp r < 1000" "q_ipAddress q \<noteq> None"
    using snoc.prems by (auto simp: prompt_def i)
  let ?c = "snd (feed behavioral_analyze is [])"
  have "ba_counted (length is) (fst (getBehaviorPattern None (cl_stamp r) sid ?c))"
    using snoc.IH snoc.prems ba_counted_new by (auto simp: getBehaviorPattern_def split: option.splits)
  from ba_counted_update [OF this pr(3), of q] show ?case
    using analyze_step [OF pr(4), of r stored ?c] by (simp add: feed_snoc i pr)
qed simp

lemma ba_counted_rate: "ba_counted n p \<Longrightarrow> requestsPerMinute p = real n"
  by (simp add: ba_counted_def requestsPerMinute_def max_def)

section \<open>Properties\<close>

text \<open>
  The time stamp is overwritten before the gap is measured, so every request of a session counts as a burst however far apart they are, idle periods are never
  seen, and the rate per minute is the number of all requests the session ever made.
\<close>
theorem every_request_a_burst:
  assumes "list_all (prompt sid) is" and "is \<noteq> []"
  shows "\<exists>p. map_of (snd (feed behavioral_analyze is [])) sid = Some p \<and> tp_burstRequests (bp_timing p) = length is \<and> tp_idlePeriods (bp_timing p) = 0
    \<and> requestsPerMinute p = real (length is)"
  using history_counted [OF assms(1)] assms(2) ba_counted_rate by (auto simp: ba_counted_def split: option.splits)

lemma fresh_indicators:
  assumes "cl_timing r - cl_stamp r < 1000" and "cl_interaction r - cl_stamp r < 1000"
  shows "calculateRiskIndicators (updateBehaviorPattern r q (createNewBehaviorPattern sid now))
    = (if cl_mouse r < 2 then [\<lparr>ri_type = Interaction_robotic, ri_score = 9/10\<rparr>] else [])"
proof -
  let ?p = "updateBehaviorPattern r q (createNewBehaviorPattern sid now)"
  have c: "ba_counted 1 ?p" using ba_counted_update [OF ba_counted_new assms(1)] by simp
  have "avgMouseMovements ?p = real (cl_mouse r)"
    using assms(2) by (simp add: avgMouseMovements_def update_fields createNewBehaviorPattern_def)
  moreover have "\<not> requestsPerMinute ?p > 60" "\<not> tp_burstRequests (bp_timing ?p) > 10" "\<not> tp_sessionDuration (bp_timing ?p) > 3600000"
    using c ba_counted_rate [OF c] by (auto simp: ba_counted_def)
  moreover have "\<not> np_directAccess (bp_navigation ?p) > 5" by (simp add: update_fields createNewBehaviorPattern_def)
  ultimately show ?thesis by (simp add: calculateRiskIndicators_def)
qed

lemma fresh_session_score:
  assumes "map_of cache (q_sessionId q) = None" and "q_ipAddress q = Some ip"
    and "\<not> isSuspiciousUserAgent (q_userAgent q)" and "\<not> isSuspiciousIP ip"
    and "cl_timing r - cl_stamp r < 1000" and "cl_interaction r - cl_stamp r < 1000"
  shows "fst (behavioral_analyze (r, None, q) cache) = (if cl_mouse r < 2 then 972/1000 else 1/10)"
proof -
  let ?p = "updateBehaviorPattern r q (createNewBehaviorPattern (q_sessionId q) (cl_stamp r))"
  have "length (bp_requestPatterns ?p) = 1" by (simp add: update_fields createNewBehaviorPattern_def)
  then have "calculateBehavioralRisk ?p = Some (if cl_mouse r < 2 then 972/1000 else 1/10)"
    using assms(2-4) fresh_indicators [OF assms(5,6), of q "q_sessionId q" "cl_stamp r"]
    by (auto simp: calculateBehavioralRisk_def update_riskIndicators update_fields averageScore_def)
  then show ?thesis using assms(1) by (simp add: behavioral_analyze_def getBehaviorPattern_def Let_def)
qed

text \<open>
  For the first request of a session from an ordinary browser and a public address the score depends on a random draw only: 0.972 when the
  simulated number of mouse movements is 0 or 1, and 0.1 otherwise.
\<close>
theorem first_request_random:
  assumes "map_of cache (q_sessionId q) = None" and "q_ipAddress q = Some ip"
    and "\<not> isSuspiciousUserAgent (q_userAgent q)" and "\<not> isSuspiciousIP ip"
    and "cl_timing r - cl_stamp r < 1000" and "cl_interaction r - cl_stamp r < 1000"
  shows "fst (behavioral_analyze (r, None, q) cache) = (if cl_mouse r < 2 then 972/1000 else 1/10)"
  by (rule fresh_session_score [OF assms])

section \<open>Witnesses\<close>

definition ba_reading :: "time_ms \<Rightarrow> nat \<Rightarrow> reading" where
  "ba_reading now mouse = \<lparr>cl_stamp = now, cl_timing = now + 1, cl_interaction = now + 1, cl_hours = 12, cl_day = 1, cl_mouse = mouse, cl_scroll = 0\<rparr>"

definition ba_q :: threat_request_data where
  "ba_q = extractRequestData ''s1'' 0 [] \<lparr>hq_ip = Some ''8.8.8.8'', hq_remoteAddress = None, hq_userAgent = Some ''Mozilla'', hq_path = ''/'', hq_method = ''GET'',
     hq_referer = None, hq_body = False\<rparr>"

lemma ba_q_simps: "q_sessionId ba_q = ''s1''" "q_ipAddress ba_q = Some ''8.8.8.8''" "q_userAgent ba_q = ''Mozilla''"
  by (simp_all add: ba_q_def text_or_def given_def)

lemma ba_q_plain: "\<not> isSuspiciousUserAgent ''Mozilla''" "\<not> isSuspiciousIP ''8.8.8.8''"
  by code_simp+

theorem every_request_a_burst_witness:
  "\<exists>p. map_of (snd (feed behavioral_analyze [(ba_reading 0 5, None, ba_q), (ba_reading 86400000 5, None, ba_q)] [])) ''s1'' = Some p
     \<and> tp_burstRequests (bp_timing p) = 2"
  using every_request_a_burst [of "''s1''" "[(ba_reading 0 5, None, ba_q), (ba_reading 86400000 5, None, ba_q)]"]
  by (auto simp: prompt_def ba_reading_def ba_q_simps)

theorem first_request_random_witness:
  "fst (behavioral_analyze (ba_reading 0 1, None, ba_q) []) = 972/1000 \<and> fst (behavioral_analyze (ba_reading 0 2, None, ba_q) []) = 1/10"
  using first_request_random [of "[]" ba_q "''8.8.8.8''" "ba_reading 0 1"] first_request_random [of "[]" ba_q "''8.8.8.8''" "ba_reading 0 2"]
  by (simp add: ba_q_simps ba_q_plain ba_reading_def)

end
