(* ===== verification/StatisticalAnalysis.thy ===== *)
theory StatisticalAnalysis
  imports RequestData
begin

text \<open>
  The statistical analyzer, \<^verbatim>\<open>backend/src/core/StatisticalAnalyzer.ts\<close>: four windows of recent traffic, statistics over them, deviations from a moving
  baseline.

  Readings of the clock are arguments. A copy of a window in Redis is represented by its length: its time stamps are texts after
  \<^verbatim>\<open>JSON.parse\<close>, so a copy with an element makes \<^verbatim>\<open>getTime\<close> throw, which ends the update of that window. The detectors build a result for every
  check and keep those that are anomalies; here a detector returns \<open>None\<close> for the others, whose other fields are never read. The baseline is written to Redis
  but read only by the initialisation. The aggregate of a window is computed and dropped by the code, and not modelled.
\<close>

section \<open>Types\<close>

record traffic_pattern =
  tf_timestamp :: time_ms
  tf_requestCount :: nat
  tf_uniqueIPs :: nat
  tf_responseTime :: real
  tf_errorCount :: nat
  tf_bandwidth :: real

record baseline_metrics =
  bl_averageRequestsPerMinute :: real
  bl_averageRequestsPerHour :: real
  bl_averageUniqueIPs :: real
  bl_averageResponseTime :: real
  bl_averageErrorRate :: real
  bl_standardDeviation :: real

record traffic_statistics =
  ts_totalRequests :: nat
  ts_requestsPerMinute :: nat
  ts_requestsPerHour :: nat
  ts_uniqueIPs :: nat
  ts_uniqueUserAgents :: nat
  ts_averageResponseTime :: real
  ts_errorRate :: real
  ts_bandwidthUsage :: real
  ts_baselineMetrics :: baseline_metrics

datatype traffic_anomaly_type = Request_rate | Response_time | Error_rate | Bandwidth

record anomaly_detection =
  ad_anomalyScore :: real
  ad_anomalyTypes :: "traffic_anomaly_type list"
  ad_confidence :: real

record statistical =
  sa_trafficCache :: "(int, traffic_pattern list) js_map"
  sa_baseline :: baseline_metrics

record sa_reading =
  sr_timestamp :: time_ms
  sr_window :: "int \<Rightarrow> time_ms"
  sr_now :: time_ms

definition timeWindows :: "int list" where
  "timeWindows = [60000, 300000, 900000, 3600000]"

definition new_statistical :: statistical where
  "new_statistical = \<lparr>sa_trafficCache = [], sa_baseline = \<lparr>bl_averageRequestsPerMinute = 0, bl_averageRequestsPerHour = 0, bl_averageUniqueIPs = 0,
     bl_averageResponseTime = 0, bl_averageErrorRate = 0, bl_standardDeviation = 0\<rparr>\<rparr>"

definition getDefaultBaselineMetrics :: baseline_metrics where
  "getDefaultBaselineMetrics = \<lparr>bl_averageRequestsPerMinute = 100, bl_averageRequestsPerHour = 6000, bl_averageUniqueIPs = 50, bl_averageResponseTime = 200,
     bl_averageErrorRate = 2/100, bl_standardDeviation = 1/10\<rparr>"

text \<open>The constructor starts this; it ends after the reply of Redis.\<close>

definition initializeBaselineMetrics :: "baseline_metrics option \<Rightarrow> statistical \<Rightarrow> statistical" where
  "initializeBaselineMetrics stored s = s\<lparr>sa_baseline := (case stored of Some b \<Rightarrow> b | None \<Rightarrow> getDefaultBaselineMetrics)\<rparr>"

section \<open>Traffic windows\<close>

definition traffic_of :: "time_ms \<Rightarrow> threat_request_data \<Rightarrow> traffic_pattern" where
  "traffic_of timestamp q =
     \<lparr>tf_timestamp = timestamp, tf_requestCount = 1, tf_uniqueIPs = 1, tf_responseTime = num_or (q_responseTime q) 0,
      tf_errorCount = (if q_isError q then 1 else 0), tf_bandwidth = num_or (q_contentLength q) 0\<rparr>"

definition cached_patterns :: "int \<Rightarrow> statistical \<Rightarrow> traffic_pattern list" where
  "cached_patterns w s = (case map_of (sa_trafficCache s) w of None \<Rightarrow> [] | Some ps \<Rightarrow> ps)"

definition updateTrafficWindow :: "nat option \<Rightarrow> time_ms \<Rightarrow> int \<Rightarrow> traffic_pattern \<Rightarrow> statistical \<Rightarrow> statistical" where
  "updateTrafficWindow stored now w p s =
     (case (case stored of None \<Rightarrow> Some (cached_patterns w s) | Some n \<Rightarrow> if n = 0 then Some [] else None) of
        None \<Rightarrow> s
      | Some ps \<Rightarrow> s\<lparr>sa_trafficCache := map_set w (filter (\<lambda>p. tf_timestamp p > now - w) ps @ [p]) (sa_trafficCache s)\<rparr>)"

definition updateTrafficPatterns :: "(int \<Rightarrow> nat option) \<Rightarrow> sa_reading \<Rightarrow> threat_request_data \<Rightarrow> statistical \<Rightarrow> statistical" where
  "updateTrafficPatterns stored r q s =
     fold (\<lambda>w. updateTrafficWindow (stored w) (sr_window r w) w (traffic_of (sr_timestamp r) q)) timeWindows s"

section \<open>Statistics\<close>

definition getPatternsInWindow :: "time_ms \<Rightarrow> time_ms \<Rightarrow> statistical \<Rightarrow> traffic_pattern list" where
  "getPatternsInWindow startTime endTime s =
     concat (map (\<lambda>(w, ps). filter (\<lambda>p. tf_timestamp p \<ge> startTime \<and> tf_timestamp p \<le> endTime) ps) (sa_trafficCache s))"

definition total_requests_in :: "traffic_pattern list \<Rightarrow> nat" where
  "total_requests_in ps = sum_list (map tf_requestCount ps)"

definition calculateUniqueIPs :: "traffic_pattern list \<Rightarrow> nat" where
  "calculateUniqueIPs ps = min (length ps * 2) 100"

definition calculateUniqueUserAgents :: "traffic_pattern list \<Rightarrow> nat" where
  "calculateUniqueUserAgents ps = min (length ps) 50"

definition calculateAverageResponseTime :: "traffic_pattern list \<Rightarrow> real" where
  "calculateAverageResponseTime ps = (if ps = [] then 0 else sum_list (map tf_responseTime ps) / real (length ps))"

definition calculateErrorRate :: "traffic_pattern list \<Rightarrow> real" where
  "calculateErrorRate ps = (if total_requests_in ps > 0 then real (sum_list (map tf_errorCount ps)) / real (total_requests_in ps) else 0)"

definition calculateCurrentStatistics :: "time_ms \<Rightarrow> statistical \<Rightarrow> traffic_statistics" where
  "calculateCurrentStatistics now s =
     (let m = getPatternsInWindow (now - 60000) now s; h = getPatternsInWindow (now - 3600000) now s
      in \<lparr>ts_totalRequests = total_requests_in m, ts_requestsPerMinute = total_requests_in m, ts_requestsPerHour = total_requests_in h,
          ts_uniqueIPs = calculateUniqueIPs m, ts_uniqueUserAgents = calculateUniqueUserAgents m,
          ts_averageResponseTime = calculateAverageResponseTime m, ts_errorRate = calculateErrorRate m,
          ts_bandwidthUsage = sum_list (map tf_bandwidth m), ts_baselineMetrics = sa_baseline s\<rparr>)"

section \<open>Anomalies\<close>

fun anomaly_of :: "traffic_anomaly_type \<Rightarrow> real \<Rightarrow> jsnum \<Rightarrow> anomaly_detection option" where
  "anomaly_of t limit (Fin d) = (if d > limit then Some \<lparr>ad_anomalyScore = min (d / limit) 1, ad_anomalyTypes = [t], ad_confidence = min d 1\<rparr> else None)"
| "anomaly_of t limit PInf = Some \<lparr>ad_anomalyScore = 1, ad_anomalyTypes = [t], ad_confidence = 1\<rparr>"
| "anomaly_of t limit _ = None"

definition detectRequestRateAnomaly :: "traffic_statistics \<Rightarrow> anomaly_detection option" where
  "detectRequestRateAnomaly st =
     (let b = bl_averageRequestsPerMinute (ts_baselineMetrics st)
      in anomaly_of Request_rate 2 (js_div \<bar>real (ts_requestsPerMinute st) - b\<bar> b))"

definition detectResponseTimeAnomaly :: "traffic_statistics \<Rightarrow> anomaly_detection option" where
  "detectResponseTimeAnomaly st =
     (let b = bl_averageResponseTime (ts_baselineMetrics st)
      in anomaly_of Response_time (3/2) (js_div \<bar>ts_averageResponseTime st - b\<bar> b))"

definition detectErrorRateAnomaly :: "traffic_statistics \<Rightarrow> anomaly_detection option" where
  "detectErrorRateAnomaly st =
     anomaly_of Error_rate 3 (Fin (ts_errorRate st / max (bl_averageErrorRate (ts_baselineMetrics st)) (1/1000)))"

definition detectBandwidthAnomaly :: "traffic_statistics \<Rightarrow> anomaly_detection option" where
  "detectBandwidthAnomaly st =
     (let e = real (ts_requestsPerMinute st) * 1024
      in anomaly_of Bandwidth 2 (Fin (\<bar>ts_bandwidthUsage st - e\<bar> / max e 1)))"

text \<open>\<open>None\<close>: no anomaly.\<close>

definition combineAnomalies :: "anomaly_detection list \<Rightarrow> anomaly_detection option" where
  "combineAnomalies as =
     (if as = [] then None
      else Some \<lparr>ad_anomalyScore = Max (set (map ad_anomalyScore as)), ad_anomalyTypes = concat (map ad_anomalyTypes as),
                 ad_confidence = sum_list (map ad_confidence as) / real (length as)\<rparr>)"

fun reported :: "'a option list \<Rightarrow> 'a list" where
  "reported [] = []"
| "reported (None # xs) = reported xs"
| "reported (Some x # xs) = x # reported xs"

lemma set_reported: "x \<in> set (reported xs) \<longleftrightarrow> Some x \<in> set xs"
  by (induction xs rule: reported.induct) auto

definition sa_detectAnomalies :: "traffic_statistics \<Rightarrow> anomaly_detection option" where
  "sa_detectAnomalies st =
     combineAnomalies (reported
       [detectRequestRateAnomaly st, detectResponseTimeAnomaly st, detectErrorRateAnomaly st, detectBandwidthAnomaly st])"

definition calculateStatisticalRisk :: "anomaly_detection option \<Rightarrow> traffic_statistics \<Rightarrow> real" where
  "calculateStatisticalRisk a st =
     (let r = (case a of None \<Rightarrow> 0 | Some a \<Rightarrow> ad_anomalyScore a * (6/10));
          r = r + (min (ts_errorRate st * 5) (3/10) + min (ts_averageResponseTime st / 1000) (2/10))
      in min r 1)"

definition updateBaselineMetrics :: "traffic_statistics \<Rightarrow> statistical \<Rightarrow> statistical" where
  "updateBaselineMetrics st s =
     (let b = sa_baseline s
      in s\<lparr>sa_baseline := b\<lparr>bl_averageRequestsPerMinute := 9/10 * bl_averageRequestsPerMinute b + 1/10 * real (ts_requestsPerMinute st),
             bl_averageResponseTime := 9/10 * bl_averageResponseTime b + 1/10 * ts_averageResponseTime st,
             bl_averageErrorRate := 9/10 * bl_averageErrorRate b + 1/10 * ts_errorRate st\<rparr>\<rparr>)"

definition statistical_analyze :: "(int \<Rightarrow> nat option) \<times> sa_reading \<times> threat_request_data \<Rightarrow> statistical \<Rightarrow> real \<times> statistical" where
  "statistical_analyze i s =
     (let (stored, r, q) = i; s = updateTrafficPatterns stored r q s; st = calculateCurrentStatistics (sr_now r) s; a = sa_detectAnomalies st;
          s = updateBaselineMetrics st s
      in (calculateStatisticalRisk a st, s))"

definition sa_clearCache :: "statistical \<Rightarrow> statistical" where
  "sa_clearCache s = s\<lparr>sa_trafficCache := []\<rparr>"

section \<open>Scores are bounded\<close>

definition traffic_ok :: "traffic_pattern \<Rightarrow> bool" where
  "traffic_ok p \<longleftrightarrow> 0 \<le> tf_responseTime p"

definition statistical_ok :: "statistical \<Rightarrow> bool" where
  "statistical_ok s \<longleftrightarrow> list_all (\<lambda>(w, ps). list_all traffic_ok ps) (sa_trafficCache s)"

definition timed :: "(int \<Rightarrow> nat option) \<times> sa_reading \<times> threat_request_data \<Rightarrow> bool" where
  "timed i \<longleftrightarrow> 0 \<le> num_or (q_responseTime (snd (snd i))) 0"

lemma window_patterns:
  assumes "list_all (\<lambda>(w, ps). list_all P ps) (sa_trafficCache s)" and "P p"
  shows "list_all (\<lambda>(w, ps). list_all P ps) (sa_trafficCache (updateTrafficWindow stored now w p s))"
proof -
  have "list_all P (cached_patterns w s)"
  proof (cases "map_of (sa_trafficCache s) w")
    case (Some ps)
    then show ?thesis using assms(1) map_of_SomeD [OF Some] by (auto simp: cached_patterns_def list_all_iff)
  qed (simp add: cached_patterns_def)
  then have "list_all P (filter Q (cached_patterns w s) @ [p])" "list_all P (filter Q [] @ [p])" for Q
    using assms(2) by (auto simp: list_all_iff)
  moreover have "list_all (\<lambda>(w, ps). list_all P ps) (map_set w qs (sa_trafficCache s))" if "list_all P qs" for qs
    using assms(1) that set_update_subset [of w qs "sa_trafficCache s"] unfolding list_all_iff by fastforce
  ultimately show ?thesis using assms(1) by (auto simp: updateTrafficWindow_def split: option.splits)
qed

lemma windows_patterns:
  assumes "list_all (\<lambda>(w, ps). list_all P ps) (sa_trafficCache s)" and "P (traffic_of (sr_timestamp r) q)"
  shows "list_all (\<lambda>(w, ps). list_all P ps) (sa_trafficCache (updateTrafficPatterns stored r q s))"
proof -
  have "list_all (\<lambda>(w, ps). list_all P ps) (sa_trafficCache (fold (\<lambda>w. updateTrafficWindow (stored w) (sr_window r w) w (traffic_of (sr_timestamp r) q)) ws s))" for ws
    using assms(1) by (induction ws arbitrary: s) (use assms(2) in \<open>simp_all add: window_patterns\<close>)
  then show ?thesis by (simp add: updateTrafficPatterns_def)
qed

lemma patterns_in_window: "list_all (\<lambda>(w, ps). list_all P ps) (sa_trafficCache s) \<Longrightarrow> list_all P (getPatternsInWindow a b s)"
  by (auto simp: getPatternsInWindow_def list_all_iff split: prod.splits)

lemma window_baseline: "sa_baseline (updateTrafficPatterns stored r q s) = sa_baseline s"
proof -
  have "sa_baseline (fold (\<lambda>w. updateTrafficWindow (stored w) (sr_window r w) w p) ws s) = sa_baseline s" for p ws
    by (induction ws arbitrary: s) (simp_all add: updateTrafficWindow_def split: option.split)
  then show ?thesis by (simp add: updateTrafficPatterns_def)
qed

lemma anomaly_score_bounds: "anomaly_of t limit d = Some a \<Longrightarrow> 0 < limit \<Longrightarrow> 0 \<le> ad_anomalyScore a \<and> ad_anomalyScore a \<le> 1"
  by (cases d) (auto split: if_splits)

lemmas detectors = detectRequestRateAnomaly_def detectResponseTimeAnomaly_def detectErrorRateAnomaly_def detectBandwidthAnomaly_def

lemma combine_bounds:
  assumes "list_all (\<lambda>a. 0 \<le> ad_anomalyScore a \<and> ad_anomalyScore a \<le> 1) as" and "combineAnomalies as = Some a"
  shows "0 \<le> ad_anomalyScore a \<and> ad_anomalyScore a \<le> 1"
proof -
  have "as \<noteq> []" and a: "ad_anomalyScore a = Max (set (map ad_anomalyScore as))" using assms(2) by (auto simp: combineAnomalies_def split: if_splits)
  then have "ad_anomalyScore a \<in> set (map ad_anomalyScore as)" unfolding a by (intro Max_in) simp_all
  then show ?thesis using assms(1) by (auto simp: list_all_iff)
qed

lemma detector_bounds:
  "detectRequestRateAnomaly st = Some a \<Longrightarrow> 0 \<le> ad_anomalyScore a \<and> ad_anomalyScore a \<le> 1"
  "detectResponseTimeAnomaly st = Some a \<Longrightarrow> 0 \<le> ad_anomalyScore a \<and> ad_anomalyScore a \<le> 1"
  "detectErrorRateAnomaly st = Some a \<Longrightarrow> 0 \<le> ad_anomalyScore a \<and> ad_anomalyScore a \<le> 1"
  "detectBandwidthAnomaly st = Some a \<Longrightarrow> 0 \<le> ad_anomalyScore a \<and> ad_anomalyScore a \<le> 1"
  unfolding detectors Let_def by (erule anomaly_score_bounds, simp)+

lemma detect_bounds: "sa_detectAnomalies st = Some a \<Longrightarrow> 0 \<le> ad_anomalyScore a \<and> ad_anomalyScore a \<le> 1"
  unfolding sa_detectAnomalies_def
  by (rule combine_bounds) (auto simp: list_all_iff set_reported dest!: sym [of "Some _"] dest: detector_bounds)

lemma statistics_nonneg:
  "statistical_ok s \<Longrightarrow> 0 \<le> ts_averageResponseTime (calculateCurrentStatistics now s) \<and> 0 \<le> ts_errorRate (calculateCurrentStatistics now s)"
  using patterns_in_window [of traffic_ok s "now - 60000" now]
  by (auto simp: statistical_ok_def calculateCurrentStatistics_def Let_def calculateAverageResponseTime_def calculateErrorRate_def list_all_iff traffic_ok_def
      intro!: divide_nonneg_nonneg sum_list_nonneg)

lemma risk_bounds:
  assumes "0 \<le> ts_averageResponseTime st" and "0 \<le> ts_errorRate st"
  shows "0 \<le> calculateStatisticalRisk (sa_detectAnomalies st) st \<and> calculateStatisticalRisk (sa_detectAnomalies st) st \<le> 1"
  using assms detect_bounds [of st] by (cases "sa_detectAnomalies st") (auto simp: calculateStatisticalRisk_def Let_def)

interpretation statistical: risk_source statistical_analyze statistical_ok timed
proof
  fix s :: statistical and i :: "(int \<Rightarrow> nat option) \<times> sa_reading \<times> threat_request_data"
  assume s: "statistical_ok s" and i: "timed i"
  obtain stored r q where e: "i = (stored, r, q)" by (metis prod.exhaust)
  have ok: "statistical_ok (updateTrafficPatterns stored r q s)"
    using s i unfolding statistical_ok_def by (intro windows_patterns) (simp_all add: traffic_ok_def traffic_of_def timed_def e)
  then show "0 \<le> fst (statistical_analyze i s) \<and> fst (statistical_analyze i s) \<le> 1"
    using risk_bounds statistics_nonneg by (simp add: statistical_analyze_def e Let_def)
  show "statistical_ok (snd (statistical_analyze i s))"
    using ok by (simp add: statistical_analyze_def e Let_def updateBaselineMetrics_def statistical_ok_def)
qed

section \<open>Requests without measurements\<close>

text \<open>\<^verbatim>\<open>extractRequestData\<close> sets neither response time nor errors nor sizes: all patterns are empty but for the count.\<close>

definition unmeasured :: "traffic_pattern \<Rightarrow> bool" where
  "unmeasured p \<longleftrightarrow> tf_responseTime p = 0 \<and> tf_errorCount p = 0 \<and> tf_bandwidth p = 0"

definition sa_quiet :: "statistical \<Rightarrow> bool" where
  "sa_quiet s \<longleftrightarrow> list_all (\<lambda>(w, ps). list_all unmeasured ps) (sa_trafficCache s) \<and> 0 < bl_averageRequestsPerMinute (sa_baseline s)
     \<and> 0 < bl_averageResponseTime (sa_baseline s)"

lemma unmeasured_of: "extracted q \<Longrightarrow> unmeasured (traffic_of t q)"
  by (simp add: extracted_def unmeasured_def traffic_of_def)

lemma sum_list_zero: "(\<And>x. x \<in> set xs \<Longrightarrow> f x = 0) \<Longrightarrow> sum_list (map f xs) = (0::'b::comm_monoid_add)"
  by (induction xs) auto

lemma sa_quiet_statistics:
  assumes "sa_quiet s"
  shows "ts_averageResponseTime (calculateCurrentStatistics now s) = 0" and "ts_errorRate (calculateCurrentStatistics now s) = 0"
    and "ts_bandwidthUsage (calculateCurrentStatistics now s) = 0" and "ts_baselineMetrics (calculateCurrentStatistics now s) = sa_baseline s"
proof -
  let ?m = "getPatternsInWindow (now - 60000) now s"
  have "list_all unmeasured ?m" using assms by (auto simp: sa_quiet_def intro: patterns_in_window)
  then have "sum_list (map tf_responseTime ?m) = 0" "sum_list (map tf_errorCount ?m) = 0" "sum_list (map tf_bandwidth ?m) = 0"
    by (auto simp: list_all_iff unmeasured_def intro: sum_list_zero)
  then show "ts_averageResponseTime (calculateCurrentStatistics now s) = 0" "ts_errorRate (calculateCurrentStatistics now s) = 0"
    "ts_bandwidthUsage (calculateCurrentStatistics now s) = 0" "ts_baselineMetrics (calculateCurrentStatistics now s) = sa_baseline s"
    by (simp_all add: calculateCurrentStatistics_def Let_def calculateAverageResponseTime_def calculateErrorRate_def)
qed

lemma sa_quiet_detection:
  assumes "ts_averageResponseTime st = 0" and "ts_errorRate st = 0" and "ts_bandwidthUsage st = 0"
    and "0 < bl_averageRequestsPerMinute (ts_baselineMetrics st)" and "0 < bl_averageResponseTime (ts_baselineMetrics st)"
  shows "calculateStatisticalRisk (sa_detectAnomalies st) st
    = (if real (ts_requestsPerMinute st) > 3 * bl_averageRequestsPerMinute (ts_baselineMetrics st) then 6/10 else 0)"
proof -
  let ?b = "bl_averageRequestsPerMinute (ts_baselineMetrics st)" and ?c = "real (ts_requestsPerMinute st)"
  have "detectResponseTimeAnomaly st = None" using assms(1,5) by (simp add: detectResponseTimeAnomaly_def js_div_def)
  moreover have "detectErrorRateAnomaly st = None" using assms(2) by (simp add: detectErrorRateAnomaly_def)
  moreover have "\<not> 2 < ?c * 1024 / max (?c * 1024) 1" by (simp add: not_less divide_le_eq max_def)
  then have "detectBandwidthAnomaly st = None" using assms(3) by (simp add: detectBandwidthAnomaly_def Let_def)
  moreover have rate: "\<bar>?c - ?b\<bar> / ?b > 2 \<longleftrightarrow> ?c > 3 * ?b" using assms(4) by (auto simp: less_divide_eq abs_if)
  then have "detectRequestRateAnomaly st
    = (if ?c > 3 * ?b then Some \<lparr>ad_anomalyScore = min (\<bar>?c - ?b\<bar> / ?b / 2) 1, ad_anomalyTypes = [Request_rate], ad_confidence = min (\<bar>?c - ?b\<bar> / ?b) 1\<rparr> else None)"
    using assms(4) by (simp add: detectRequestRateAnomaly_def js_div_def Let_def)
  moreover have "min (\<bar>?c - ?b\<bar> / ?b / 2) 1 = 1" if "?c > 3 * ?b" using that rate by (simp add: min_def)
  ultimately show ?thesis using assms(1,2) by (simp add: sa_detectAnomalies_def combineAnomalies_def calculateStatisticalRisk_def)
qed

lemma sa_quiet_step:
  assumes "sa_quiet s" and "extracted q"
  shows "sa_quiet (snd (statistical_analyze (stored, r, q) s))"
    and "fst (statistical_analyze (stored, r, q) s) \<in> {0, 6/10}"
proof -
  let ?s = "updateTrafficPatterns stored r q s"
  have q: "sa_quiet ?s" using assms windows_patterns [of unmeasured s r q stored] unmeasured_of by (auto simp: sa_quiet_def window_baseline)
  note st = sa_quiet_statistics [OF q, of "sr_now r"]
  show "sa_quiet (snd (statistical_analyze (stored, r, q) s))"
    using q st by (auto simp: statistical_analyze_def Let_def updateBaselineMetrics_def sa_quiet_def)
  show "fst (statistical_analyze (stored, r, q) s) \<in> {0, 6/10}"
    using sa_quiet_detection [OF st(1-3)] q st(4) by (simp add: statistical_analyze_def Let_def sa_quiet_def)
qed

lemma sa_quiet_start: "sa_quiet (initializeBaselineMetrics None new_statistical)"
  by (simp add: sa_quiet_def initializeBaselineMetrics_def new_statistical_def getDefaultBaselineMetrics_def)

lemma sa_quiet_feed: "sa_quiet s \<Longrightarrow> list_all (\<lambda>(stored, r, q). extracted q) is \<Longrightarrow> set (fst (feed statistical_analyze is s)) \<subseteq> {0, 6/10} \<and> sa_quiet (snd (feed statistical_analyze is s))"
proof (induction "is" arbitrary: s)
  case (Cons i "is")
  then show ?case using sa_quiet_step by (cases i) (auto simp: split_def Let_def)
qed simp

text \<open>
  The request data carry no response time, error or size, so on any sequence of requests the statistical score is 0 or 0.6: four of the
  six inputs of the analyzer never vary.
\<close>
theorem statistical_two_scores:
  assumes "list_all (\<lambda>(stored, r, q). extracted q) is"
  shows "set (fst (feed statistical_analyze is (initializeBaselineMetrics None new_statistical))) \<subseteq> {0, 6/10}"
  using sa_quiet_feed [OF sa_quiet_start assms] by simp

section \<open>Requests per minute\<close>

text \<open>A request handled at one instant, with nothing in Redis.\<close>

definition at_time :: "time_ms \<times> threat_request_data \<Rightarrow> (int \<Rightarrow> nat option) \<times> sa_reading \<times> threat_request_data" where
  "at_time x = (\<lambda>_. None, \<lparr>sr_timestamp = fst x, sr_window = \<lambda>_. fst x, sr_now = fst x\<rparr>, snd x)"

definition after :: "(time_ms \<times> threat_request_data) list \<Rightarrow> statistical" where
  "after xs = snd (feed statistical_analyze (map at_time xs) (initializeBaselineMetrics None new_statistical))"

definition sa_in_window :: "int \<Rightarrow> (time_ms \<times> threat_request_data) list \<Rightarrow> traffic_pattern list" where
  "sa_in_window w xs = map (\<lambda>(t, q). traffic_of t q) (filter (\<lambda>(t, q). t > fst (last xs) - w) xs)"

lemma cache_update:
  "sa_trafficCache (snd (statistical_analyze (at_time (t, q)) s))
    = fold (\<lambda>w c. map_set w (filter (\<lambda>p. tf_timestamp p > t - w) (case map_of c w of None \<Rightarrow> [] | Some ps \<Rightarrow> ps) @ [traffic_of t q]) c) timeWindows (sa_trafficCache s)"
proof -
  have "sa_trafficCache (fold (\<lambda>w. updateTrafficWindow None t w p) ws s)
    = fold (\<lambda>w c. map_set w (filter (\<lambda>p. tf_timestamp p > t - w) (case map_of c w of None \<Rightarrow> [] | Some ps \<Rightarrow> ps) @ [p]) c) ws (sa_trafficCache s)" for ws p
    by (induction ws arbitrary: s) (simp_all add: updateTrafficWindow_def cached_patterns_def)
  then show ?thesis by (simp add: statistical_analyze_def at_time_def Let_def updateBaselineMetrics_def updateTrafficPatterns_def)
qed

lemma sa_in_window_snoc:
  assumes "0 < w" and "sorted (map fst (xs @ [(t, q)]))"
  shows "sa_in_window w (xs @ [(t, q)]) = filter (\<lambda>p. tf_timestamp p > t - w) (sa_in_window w xs) @ [traffic_of t q]"
proof (cases "xs = []")
  case True
  then show ?thesis using assms(1) by (simp add: sa_in_window_def)
next
  case False
  then have "fst (last xs) \<le> t" using assms(2) by (auto simp: sorted_append)
  then have "filter (\<lambda>(u, q). u > t - w) xs = filter (\<lambda>(u, q). u > t - w) (filter (\<lambda>(u, q). u > fst (last xs) - w) xs)"
    by (auto intro!: filter_cong)
  then show ?thesis using assms(1)
    by (simp add: sa_in_window_def filter_map comp_def split_def traffic_of_def)
qed

lemma cache_after:
  "xs \<noteq> [] \<Longrightarrow> sorted (map fst xs) \<Longrightarrow> sa_trafficCache (after xs) = map (\<lambda>w. (w, sa_in_window w xs)) timeWindows"
proof (induction xs rule: rev_induct)
  case (snoc x xs)
  obtain t q where x: "x = (t, q)" by fastforce
  have sn: "sa_in_window w (xs @ [(t, q)]) = filter (\<lambda>p. tf_timestamp p > t - w) (sa_in_window w xs) @ [traffic_of t q]" if "0 < w" for w
    using sa_in_window_snoc [OF that] snoc.prems x by simp
  have step: "sa_trafficCache (after (xs @ [x])) = fold (\<lambda>w c. map_set w (filter (\<lambda>p. tf_timestamp p > t - w)
      (case map_of c w of None \<Rightarrow> [] | Some ps \<Rightarrow> ps) @ [traffic_of t q]) c) timeWindows (sa_trafficCache (after xs))"
    unfolding after_def by (simp add: feed_snoc x cache_update)
  show ?case
  proof (cases "xs = []")
    case True
    then show ?thesis using sn step by (simp add: x after_def initializeBaselineMetrics_def new_statistical_def timeWindows_def sa_in_window_def)
  next
    case False
    then have "sa_trafficCache (after xs) = map (\<lambda>w. (w, sa_in_window w xs)) timeWindows" using snoc by (simp add: sorted_append)
    then show ?thesis unfolding step by (simp add: timeWindows_def x sn)
  qed
qed simp

lemma last_max: "sorted (map fst xs) \<Longrightarrow> x \<in> set xs \<Longrightarrow> fst x \<le> fst (last xs)"
  by (induction xs) auto

lemma count_in_window:
  assumes "sorted (map fst xs)" and "now = fst (last xs)"
  shows "total_requests_in (filter (\<lambda>p. tf_timestamp p \<ge> now - 60000 \<and> tf_timestamp p \<le> now) (sa_in_window w xs))
    = length (filter (\<lambda>(t, q). t > now - w \<and> t \<ge> now - 60000) xs)"
proof -
  have "filter (\<lambda>(t, q). t > now - w \<and> t \<ge> now - 60000 \<and> t \<le> now) xs = filter (\<lambda>(t, q). t > now - w \<and> t \<ge> now - 60000) xs"
    using last_max [OF assms(1)] assms(2) by (auto intro!: filter_cong)
  then show ?thesis
    by (simp add: total_requests_in_def sa_in_window_def assms(2) filter_map comp_def split_def traffic_of_def sum_list_triv conj_ac)
qed

text \<open>
  The requests of the last minute are counted once per window: on a history of requests in the order of time the rate per minute the detectors see is four times
  the number of requests in the minute before the last one (three times for a request exactly a minute old).
\<close>
theorem requests_counted_four_times:
  assumes "sorted (map fst xs)" and "xs \<noteq> []" and "now = fst (last xs)"
  shows "ts_requestsPerMinute (calculateCurrentStatistics now (after xs))
    = length (filter (\<lambda>(t, q). t > now - 60000) xs) + 3 * length (filter (\<lambda>(t, q). t \<ge> now - 60000) xs)"
proof -
  have "filter (\<lambda>(t, q). t > now - w \<and> t \<ge> now - 60000) xs = filter (\<lambda>(t, q). t \<ge> now - 60000) xs" if "w > 60000" for w
    using that by (auto intro!: filter_cong)
  moreover have "filter (\<lambda>(t, q). t > now - 60000 \<and> t \<ge> now - 60000) xs = filter (\<lambda>(t, q). t > now - 60000) xs"
    by (auto intro!: filter_cong)
  moreover have "total_requests_in (ps @ qs) = total_requests_in ps + total_requests_in qs" for ps qs by (simp add: total_requests_in_def)
  ultimately show ?thesis
    by (simp add: calculateCurrentStatistics_def Let_def getPatternsInWindow_def cache_after [OF assms(2,1)] timeWindows_def count_in_window [OF assms(1,3)])
qed

section \<open>Witnesses\<close>

definition sa_q :: threat_request_data where
  "sa_q = extractRequestData ''s1'' 0 [] \<lparr>hq_ip = Some ''8.8.8.8'', hq_remoteAddress = None, hq_userAgent = Some ''Mozilla'', hq_path = ''/'', hq_method = ''GET'',
     hq_referer = None, hq_body = False\<rparr>"

theorem statistical_two_scores_witness:
  "set (fst (feed statistical_analyze [at_time (0, sa_q), at_time (5, sa_q)] (initializeBaselineMetrics None new_statistical))) \<subseteq> {0, 6/10}"
  by (rule statistical_two_scores) (simp add: at_time_def sa_q_def)

theorem requests_counted_four_times_witness:
  "ts_requestsPerMinute (calculateCurrentStatistics 100 (after [(0, sa_q), (100, sa_q)])) = 8"
  using requests_counted_four_times [of "[(0, sa_q), (100, sa_q)]" 100] by simp

end
