(* ===== verification/RelationshipAnalysis.thy ===== *)
theory RelationshipAnalysis
  imports RequestData
begin

text \<open>
  The relationship analyzer, \<^verbatim>\<open>backend/src/core/RelationshipAnalyzer.ts\<close>: relationships between addresses and users, geographic clusters, coordinated attacks
  found by a bounded search in the graph of related addresses.

  The retrieval helpers that the code leaves as stubs returning nothing are the constant definitions they are. Copies written to Redis are never read and left out;
  the identifier of an attack (clock and random) is an argument, as are the readings of the clock and the geographic data base.
\<close>

section \<open>Types\<close>

datatype relation_type = Direct | Indirect | Coordinated

record relationship_metadata =
  md_commonUserAgents :: "string list"
  md_commonPaths :: "string list"
  md_timeCorrelation :: real
  md_geographicProximity :: real
  md_behaviorSimilarity :: real
  md_attackPatterns :: "string list"

record network_relationship =
  nr_sourceIP :: address
  nr_targetIP :: address
  nr_relationshipType :: relation_type
  nr_strength :: real
  nr_timestamp :: time_ms
  nr_metadata :: relationship_metadata

datatype user_relation_type = Session_sharing | Behavior_similarity | Geographic_proximity

record user_relationship =
  ur_userId :: string
  ur_relatedUsers :: "string list"
  ur_relationshipType :: user_relation_type
  ur_strength :: real
  ur_timestamp :: time_ms

record geographic_cluster =
  cl_country :: string
  cl_region :: string
  cl_city :: string
  cl_ipAddresses :: "address list"
  cl_threatLevel :: real
  cl_attackPatterns :: "string list"
  cl_timestamp :: time_ms

datatype attack_severity = Low_severity | Medium_severity | High_severity | Critical_severity

record coordinated_attack =
  at_attackId :: string
  at_participants :: "address list"
  at_attackType :: string
  at_startTime :: time_ms
  at_severity :: attack_severity
  at_patterns :: "string list"
  at_confidence :: real

type_synonym 'a graph = "('a, 'a list) js_map"

record relationship_analyzer =
  ry_networkGraph :: "address graph"
  ry_userGraph :: "string graph"
  ry_clusters :: "(string, geographic_cluster) js_map"
  ry_attacks :: "(string, coordinated_attack) js_map"
  ry_relationshipCache :: "(address, network_relationship list) js_map"

definition new_relationship_analyzer :: relationship_analyzer where
  "new_relationship_analyzer = \<lparr>ry_networkGraph = [], ry_userGraph = [], ry_clusters = [], ry_attacks = [], ry_relationshipCache = []\<rparr>"

type_synonym geo_lookup = "address \<Rightarrow> geo_reply"

section \<open>Stubs\<close>

definition getRecentRequests :: "time_ms \<Rightarrow> threat_request_data list" where
  "getRecentRequests timeWindow = []"

definition getRecentUserRequests :: "time_ms \<Rightarrow> threat_request_data list" where
  "getRecentUserRequests timeWindow = []"

definition getRecentRequestsFromIPs :: "address list \<Rightarrow> threat_request_data list" where
  "getRecentRequestsFromIPs ips = []"

definition isSuspiciousRequest :: "threat_request_data \<Rightarrow> bool" where
  "isSuspiciousRequest q = False"

section \<open>Relationships between two requests\<close>

text \<open>\<^verbatim>\<open>s.split(c)\<close> for a single character.\<close>

fun split_char :: "char \<Rightarrow> string \<Rightarrow> string list" where
  "split_char c [] = [[]]"
| "split_char c (x # xs) = (if x = c then [] # split_char c xs else (case split_char c xs of [] \<Rightarrow> [[x]] | p # ps \<Rightarrow> (x # p) # ps))"

definition findCommonUserAgents :: "string \<Rightarrow> string \<Rightarrow> string list" where
  "findCommonUserAgents ua1 ua2 =
     filter (\<lambda>part. part \<in> set (split_char CHR '' '' (map lower_char ua2)) \<and> length part > 3) (split_char CHR '' '' (map lower_char ua1))"

definition findCommonPaths :: "string \<Rightarrow> string \<Rightarrow> string list" where
  "findCommonPaths path1 path2 =
     filter (\<lambda>part. part \<in> set (filter (\<lambda>p. length p > 0) (split_char CHR ''/'' path2))) (filter (\<lambda>p. length p > 0) (split_char CHR ''/'' path1))"

definition calculateTimeCorrelation :: "time_ms \<Rightarrow> time_ms \<Rightarrow> real" where
  "calculateTimeCorrelation t1 t2 = (let timeDiff = \<bar>t1 - t2\<bar> in if timeDiff > 300000 then 0 else 1 - of_int timeDiff / 300000)"

definition calculateGeographicProximity :: "geo_lookup \<Rightarrow> address \<Rightarrow> address \<Rightarrow> real" where
  "calculateGeographicProximity lookup ip1 ip2 =
     (case lookup ip1 of
        Located g1 \<Rightarrow>
          (case lookup ip2 of
             Located g2 \<Rightarrow>
               (if gi_country g1 = gi_country g2
                then (if gi_region g1 = gi_region g2 then (if gi_city g1 = gi_city g2 then 1 else 8/10) else 6/10)
                else 1/10)
           | _ \<Rightarrow> 0)
      | _ \<Rightarrow> 0)"

definition calculateBehaviorSimilarity :: "threat_request_data \<Rightarrow> threat_request_data \<Rightarrow> real" where
  "calculateBehaviorSimilarity q1 q2 =
     (let x = 0;
          x = (if q_requestMethod q1 = q_requestMethod q2 then x + 2/10 else x);
          x = (if q_userAgent q1 = q_userAgent q2 then x + 3/10 else x);
          d = \<bar>q_timestamp q1 - q_timestamp q2\<bar>;
          x = (if d < 1000 then x + 3/10 else if d < 10000 then x + 1/10 else x);
          x = (if includes_str (q_requestPath q1) (q_requestPath q2) \<or> includes_str (q_requestPath q2) (q_requestPath q1) then x + 2/10 else x)
      in min x 1)"

definition shares_pattern :: "string \<Rightarrow> string \<Rightarrow> string list \<Rightarrow> bool" where
  "shares_pattern s1 s2 ps \<longleftrightarrow> list_ex (\<lambda>p. includes_str s1 p \<and> includes_str s2 p) ps"

definition detectAttackPatterns :: "threat_request_data \<Rightarrow> threat_request_data \<Rightarrow> string list" where
  "detectAttackPatterns q1 q2 =
     (let s1 = map lower_char (q_json q1); s2 = map lower_char (q_json q2)
      in (if shares_pattern s1 s2 [''union'', ''select'', ''drop'', ''insert'', ''delete'', ''update'', ''--'', ''/*'', ''*/''] then [''sql_injection''] else [])
         @ (if shares_pattern s1 s2 [''<script'', ''javascript:'', ''onload'', ''onerror'', ''onclick''] then [''xss''] else [])
         @ (if shares_pattern s1 s2 [''../'', ''..'' @ [char_of (92 :: nat)], ''%2e%2e'', ''%2e%2e%2f''] then [''directory_traversal''] else []))"

definition determineRelationshipType :: "string list \<Rightarrow> real \<Rightarrow> real \<Rightarrow> real \<Rightarrow> relation_type" where
  "determineRelationshipType agents time geo behavior =
     (let total = real (length agents) * (2/10) + time + geo + behavior
      in if total > 25/10 then Coordinated else if total > 15/10 then Direct else Indirect)"

definition calculateRelationshipStrength :: "string list \<Rightarrow> string list \<Rightarrow> real \<Rightarrow> real \<Rightarrow> real \<Rightarrow> string list \<Rightarrow> real" where
  "calculateRelationshipStrength agents paths time geo behavior attacks =
     min (real (length agents) * (1/10) + real (length paths) * (15/100) + time * (25/100) + geo * (2/10) + behavior * (3/10)
       + (if length attacks > 0 then 2/10 else 0)) 1"

definition analyzeIPRelationship :: "geo_lookup \<Rightarrow> time_ms \<Rightarrow> address \<Rightarrow> address \<Rightarrow> threat_request_data \<Rightarrow> threat_request_data \<Rightarrow> network_relationship" where
  "analyzeIPRelationship lookup now ip1 ip2 q1 q2 =
     (let agents = findCommonUserAgents (q_userAgent q1) (q_userAgent q2); paths = findCommonPaths (q_requestPath q1) (q_requestPath q2);
          time = calculateTimeCorrelation (q_timestamp q1) (q_timestamp q2); geo = calculateGeographicProximity lookup ip1 ip2;
          behavior = calculateBehaviorSimilarity q1 q2; attacks = detectAttackPatterns q1 q2
      in \<lparr>nr_sourceIP = ip1, nr_targetIP = ip2, nr_relationshipType = determineRelationshipType agents time geo behavior,
          nr_strength = calculateRelationshipStrength agents paths time geo behavior attacks, nr_timestamp = now,
          nr_metadata = \<lparr>md_commonUserAgents = agents, md_commonPaths = paths, md_timeCorrelation = time, md_geographicProximity = geo,
                         md_behaviorSimilarity = behavior, md_attackPatterns = attacks\<rparr>\<rparr>)"

definition analyzeUserRelationship :: "geo_lookup \<Rightarrow> time_ms \<Rightarrow> string \<Rightarrow> string \<Rightarrow> threat_request_data \<Rightarrow> threat_request_data \<Rightarrow> user_relationship" where
  "analyzeUserRelationship lookup now u1 u2 q1 q2 =
     (let behavior = calculateBehaviorSimilarity q1 q2; geo = calculateGeographicProximity lookup (q_ipAddress q1) (q_ipAddress q2);
          time = calculateTimeCorrelation (q_timestamp q1) (q_timestamp q2);
          (t, strength) = (if time > 8/10 then (Session_sharing, time * (6/10) + behavior * (4/10))
                           else if behavior > 7/10 then (Behavior_similarity, behavior * (7/10) + geo * (3/10))
                           else (Geographic_proximity, geo * (8/10) + behavior * (2/10)))
      in \<lparr>ur_userId = u1, ur_relatedUsers = [u2], ur_relationshipType = t, ur_strength = strength, ur_timestamp = now\<rparr>)"

section \<open>Graphs\<close>

definition neighbors :: "'a graph \<Rightarrow> 'a \<Rightarrow> 'a list" where
  "neighbors g x = (case map_of g x of None \<Rightarrow> [] | Some ns \<Rightarrow> ns)"

definition ensure_node :: "'a \<Rightarrow> 'a graph \<Rightarrow> 'a graph" where
  "ensure_node x g = (case map_of g x of None \<Rightarrow> map_set x [] g | Some _ \<Rightarrow> g)"

definition add_arc :: "'a \<Rightarrow> 'a \<Rightarrow> 'a graph \<Rightarrow> 'a graph" where
  "add_arc x y g = map_set x (set_add y (neighbors g x)) g"

definition updateNetworkGraph :: "'a \<Rightarrow> 'a \<Rightarrow> 'a graph \<Rightarrow> 'a graph" where
  "updateNetworkGraph ip1 ip2 g = add_arc ip2 ip1 (add_arc ip1 ip2 (ensure_node ip2 (ensure_node ip1 g)))"

text \<open>The search of \<^verbatim>\<open>findRelatedIPs\<close>: the first argument is 3 minus the depth, the last the visited addresses and the result.\<close>

primrec dfs :: "nat \<Rightarrow> 'a graph \<Rightarrow> 'a \<Rightarrow> 'a \<Rightarrow> 'a list \<times> 'a list \<Rightarrow> 'a list \<times> 'a list" where
  "dfs 0 g sourceIP ip st = st"
| "dfs (Suc k) g sourceIP ip st =
     (if ip \<in> set (fst st) then st
      else fold (\<lambda>n st. if n \<notin> set (fst st) \<and> n \<noteq> sourceIP then dfs k g sourceIP n (fst st, snd st @ [n]) else st)
             (neighbors g ip) (set_add ip (fst st), snd st))"

definition findRelatedIPs :: "'a graph \<Rightarrow> 'a \<Rightarrow> 'a list" where
  "findRelatedIPs g sourceIP = snd (dfs 3 g sourceIP sourceIP ([], []))"

section \<open>Updates\<close>

definition updateNetworkRelationships :: "geo_lookup \<Rightarrow> time_ms \<Rightarrow> threat_request_data \<Rightarrow> relationship_analyzer \<Rightarrow> relationship_analyzer" where
  "updateNetworkRelationships lookup now q s =
     fold (\<lambda>r s. if q_ipAddress r \<noteq> q_ipAddress q
                 then (if nr_strength (analyzeIPRelationship lookup now (q_ipAddress q) (q_ipAddress r) q r) > 3/10
                       then s\<lparr>ry_networkGraph := updateNetworkGraph (q_ipAddress q) (q_ipAddress r) (ry_networkGraph s)\<rparr> else s)
                 else s)
       (getRecentRequests (now - 300000)) s"

definition updateUserRelationships :: "geo_lookup \<Rightarrow> time_ms \<Rightarrow> string \<Rightarrow> threat_request_data \<Rightarrow> relationship_analyzer \<Rightarrow> relationship_analyzer" where
  "updateUserRelationships lookup now user q s =
     fold (\<lambda>r s. case q_userId r of None \<Rightarrow> s
               | Some other \<Rightarrow>
                   if other \<noteq> [] \<and> other \<noteq> user
                   then (if ur_strength (analyzeUserRelationship lookup now user other q r) > 3/10
                         then s\<lparr>ry_userGraph := updateNetworkGraph user other (ry_userGraph s)\<rparr> else s)
                   else s)
       (getRecentUserRequests (now - 300000)) s"

definition calculateGeographicThreatLevel :: "geographic_cluster \<Rightarrow> threat_request_data \<Rightarrow> real" where
  "calculateGeographicThreatLevel c q =
     (let t = cl_threatLevel c;
          t = (if isSuspiciousRequest q then t + 1/10 else t);
          t = (if length (cl_ipAddresses c) > 10 then t + 5/100 else t)
      in min t 1)"

definition clusterKey :: "geo_entry \<Rightarrow> string" where
  "clusterKey g = gi_country g @ ''-'' @ gi_region g @ ''-'' @ gi_city g"

definition updateGeographicClusters :: "geo_lookup \<Rightarrow> time_ms \<Rightarrow> threat_request_data \<Rightarrow> relationship_analyzer \<Rightarrow> relationship_analyzer" where
  "updateGeographicClusters lookup now q s =
     (case lookup (q_ipAddress q) of
        Located g \<Rightarrow>
          let c = (case map_of (ry_clusters s) (clusterKey g) of Some c \<Rightarrow> c
                   | None \<Rightarrow> \<lparr>cl_country = gi_country g, cl_region = gi_region g, cl_city = gi_city g, cl_ipAddresses = [], cl_threatLevel = 0,
                             cl_attackPatterns = [], cl_timestamp = now\<rparr>);
              c = c\<lparr>cl_ipAddresses := set_add (q_ipAddress q) (cl_ipAddresses c)\<rparr>;
              c = c\<lparr>cl_threatLevel := calculateGeographicThreatLevel c q\<rparr>
          in s\<lparr>ry_clusters := map_set (clusterKey g) c (ry_clusters s)\<rparr>
      | _ \<Rightarrow> s)"

section \<open>Attacks and risk\<close>

definition analyzeAttackPatterns :: "address list \<Rightarrow> string list" where
  "analyzeAttackPatterns relatedIPs =
     (let recent = getRecentRequestsFromIPs relatedIPs
      in (if length relatedIPs > 5 then [''ddos''] else [])
         @ (if length recent > 100 then [''brute_force''] else [])
         @ (if length (remdups (map q_requestPath recent)) > 50 then [''port_scanning''] else []))"

definition determineAttackSeverity :: "string list \<Rightarrow> attack_severity" where
  "determineAttackSeverity ps =
     (if ''ddos'' \<in> set ps then Critical_severity else if ''brute_force'' \<in> set ps then High_severity
      else if ''port_scanning'' \<in> set ps then Medium_severity else Low_severity)"

definition calculateAttackConfidence :: "address list \<Rightarrow> string list \<Rightarrow> real" where
  "calculateAttackConfidence ips ps = min (min (real (length ips) / 10) (4/10) + real (length ps) * (2/10)) 1"

definition detectCoordinatedAttacks :: "string \<Rightarrow> time_ms \<Rightarrow> threat_request_data \<Rightarrow> relationship_analyzer \<Rightarrow> coordinated_attack option \<times> relationship_analyzer" where
  "detectCoordinatedAttacks attackId now q s =
     (case List.find (\<lambda>(k, a). q_ipAddress q \<in> set (at_participants a)) (ry_attacks s) of
        Some (k, a) \<Rightarrow> (Some a, s)
      | None \<Rightarrow>
          let related = findRelatedIPs (ry_networkGraph s) (q_ipAddress q); ps = analyzeAttackPatterns related
          in if length related \<ge> 3 \<and> ps \<noteq> []
             then let a = \<lparr>at_attackId = attackId, at_participants = q_ipAddress q # related, at_attackType = hd ps, at_startTime = now,
                          at_severity = determineAttackSeverity ps, at_patterns = ps, at_confidence = calculateAttackConfidence related ps\<rparr>
                  in (Some a, s\<lparr>ry_attacks := map_set attackId a (ry_attacks s)\<rparr>)
             else (None, s))"

fun severity_risk :: "attack_severity \<Rightarrow> real" where
  "severity_risk Critical_severity = 8/10"
| "severity_risk High_severity = 6/10"
| "severity_risk Medium_severity = 4/10"
| "severity_risk Low_severity = 2/10"

definition getNetworkRelationships :: "address \<Rightarrow> relationship_analyzer \<Rightarrow> network_relationship list" where
  "getNetworkRelationships ip s = (case map_of (ry_relationshipCache s) ip of None \<Rightarrow> [] | Some rs \<Rightarrow> rs)"

text \<open>\<open>None\<close>: the lookup throws.\<close>

definition calculateRelationshipRisk :: "geo_lookup \<Rightarrow> threat_request_data \<Rightarrow> coordinated_attack option \<Rightarrow> relationship_analyzer \<Rightarrow> real option" where
  "calculateRelationshipRisk lookup q attack s =
     (let x = (case attack of None \<Rightarrow> 0 | Some a \<Rightarrow> severity_risk (at_severity a)); rs = getNetworkRelationships (q_ipAddress q) s;
          x = (if rs \<noteq> [] then x + sum_list (map nr_strength rs) / real (length rs) * (3/10) else x)
      in case lookup (q_ipAddress q) of Lookup_throws \<Rightarrow> None
         | Unlocated \<Rightarrow> Some (min x 1)
         | Located g \<Rightarrow>
             Some (min (case map_of (ry_clusters s) (clusterKey g) of None \<Rightarrow> x
                        | Some c \<Rightarrow> if cl_threatLevel c > 5/10 then x + cl_threatLevel c * (2/10) else x) 1))"

record relationship_input =
  rj_lookup :: geo_lookup
  rj_now :: time_ms
  rj_attackId :: string
  rj_data :: threat_request_data

definition rel_analyze :: "relationship_input \<Rightarrow> relationship_analyzer \<Rightarrow> real \<times> relationship_analyzer" where
  "rel_analyze i s =
     (let q = rj_data i; s = updateNetworkRelationships (rj_lookup i) (rj_now i) q s;
          s = (case q_userId q of None \<Rightarrow> s | Some u \<Rightarrow> if u = [] then s else updateUserRelationships (rj_lookup i) (rj_now i) u q s);
          s = updateGeographicClusters (rj_lookup i) (rj_now i) q s;
          (attack, s) = detectCoordinatedAttacks (rj_attackId i) (rj_now i) q s
      in ((case calculateRelationshipRisk (rj_lookup i) q attack s of None \<Rightarrow> 1/10 | Some r \<Rightarrow> r), s))"

section \<open>The search for related addresses\<close>

primrec reach_in :: "nat \<Rightarrow> 'a graph \<Rightarrow> 'a \<Rightarrow> 'a \<Rightarrow> bool" where
  "reach_in 0 g x y \<longleftrightarrow> x = y"
| "reach_in (Suc n) g x y \<longleftrightarrow> list_ex (\<lambda>z. reach_in n g z y) (neighbors g x)"

text \<open>Everything the search adds has a property, and every visited address but the source is in the result.\<close>

definition extends :: "('a \<Rightarrow> bool) \<Rightarrow> 'a \<Rightarrow> 'a list \<times> 'a list \<Rightarrow> 'a list \<times> 'a list \<Rightarrow> bool" where
  "extends P src st st' \<longleftrightarrow> set (snd st) \<subseteq> set (snd st') \<and> (\<forall>y\<in>set (snd st'). y \<in> set (snd st) \<or> P y)
     \<and> (set (fst st) \<subseteq> insert src (set (snd st)) \<longrightarrow> set (fst st') \<subseteq> insert src (set (snd st')))"

lemma extends_refl: "extends P src st st"
  by (simp add: extends_def)

lemma extends_trans: "extends P src a b \<Longrightarrow> extends P src b c \<Longrightarrow> extends P src a c"
  unfolding extends_def by blast

lemma extends_mono: "extends P src a b \<Longrightarrow> (\<And>y. P y \<Longrightarrow> Q y) \<Longrightarrow> extends Q src a b"
  unfolding extends_def by blast

lemma extends_push: "P z \<Longrightarrow> extends P src st (fst st, snd st @ [z])"
  by (auto simp: extends_def)

lemma extends_mark: "ip = src \<or> ip \<in> set (snd st) \<Longrightarrow> extends P src st (set_add ip (fst st), snd st)"
  by (auto simp: extends_def set_add_simps)

lemma extends_fold: "(\<And>n st. n \<in> set ns \<Longrightarrow> extends P src st (f n st)) \<Longrightarrow> extends P src st (fold f ns st)"
proof (induction ns arbitrary: st)
  case (Cons n ns)
  have "extends P src st (f n st)" "extends P src (f n st) (fold f ns (f n st))" using Cons by simp_all
  from extends_trans [OF this] show ?case by simp
qed (simp add: extends_refl)

definition near :: "'a graph \<Rightarrow> 'a \<Rightarrow> nat \<Rightarrow> 'a \<Rightarrow> 'a \<Rightarrow> bool" where
  "near g src k ip y \<longleftrightarrow> y \<noteq> src \<and> (\<exists>n. 0 < n \<and> n \<le> k \<and> reach_in n g ip y)"

lemma near_step: "z \<in> set (neighbors g ip) \<Longrightarrow> z \<noteq> src \<Longrightarrow> near g src (Suc k) ip z"
  "z \<in> set (neighbors g ip) \<Longrightarrow> near g src k z y \<Longrightarrow> near g src (Suc k) ip y"
proof -
  show "z \<in> set (neighbors g ip) \<Longrightarrow> z \<noteq> src \<Longrightarrow> near g src (Suc k) ip z"
    by (auto simp: near_def list_ex_iff intro!: exI [of _ "Suc 0"])
next
  assume z: "z \<in> set (neighbors g ip)" and "near g src k z y"
  then obtain n where "y \<noteq> src" "n \<le> k" "reach_in n g z y" by (auto simp: near_def)
  then have "reach_in (Suc n) g ip y" using z by (auto simp: list_ex_iff)
  then show "near g src (Suc k) ip y" unfolding near_def using \<open>y \<noteq> src\<close> \<open>n \<le> k\<close> by blast
qed

lemma dfs_extends: "ip = src \<or> ip \<in> set (snd st) \<Longrightarrow> extends (near g src k ip) src st (dfs k g src ip st)"
proof (induction k arbitrary: ip st)
  case (Suc k)
  let ?f = "\<lambda>n st. if n \<notin> set (fst st) \<and> n \<noteq> src then dfs k g src n (fst st, snd st @ [n]) else st"
  have step: "extends (near g src (Suc k) ip) src st (?f n st)" if "n \<in> set (neighbors g ip)" for n st
  proof (cases "n \<notin> set (fst st) \<and> n \<noteq> src")
    case True
    have "extends (near g src k n) src (fst st, snd st @ [n]) (dfs k g src n (fst st, snd st @ [n]))" by (rule Suc.IH) simp
    then have later: "extends (near g src (Suc k) ip) src (fst st, snd st @ [n]) (dfs k g src n (fst st, snd st @ [n]))"
      by (rule extends_mono) (rule near_step(2) [OF that])
    have "extends (near g src (Suc k) ip) src st (fst st, snd st @ [n])" using True near_step(1) [OF that] by (intro extends_push) simp
    from extends_trans [OF this later] show ?thesis using True by simp
  next
    case False
    then have "?f n st = st" by auto
    then show ?thesis by (simp only: extends_refl)
  qed
  show ?case
  proof (cases "ip \<in> set (fst st)")
    case False
    then show ?thesis using extends_trans [OF extends_mark [OF Suc.prems] extends_fold [OF step]] by simp
  qed (simp add: extends_refl)
qed (simp add: extends_refl)

lemma fold_visits:
  assumes "\<And>n st. set (snd st) \<subseteq> set (snd (f n st))" and "\<And>n st. n \<in> A \<Longrightarrow> n \<in> set (snd (f n st)) \<or> n \<in> set (fst st)"
    and "\<And>n st. I st \<Longrightarrow> I (f n st)" and "\<And>n st. I st \<Longrightarrow> n \<in> A \<Longrightarrow> n \<in> set (fst st) \<Longrightarrow> n \<in> set (snd st)"
  shows "I st \<Longrightarrow> set ns \<inter> A \<subseteq> set (snd (fold f ns st)) \<and> set (snd st) \<subseteq> set (snd (fold f ns st))"
proof (induction ns arbitrary: st)
  case (Cons n ns)
  have "I (f n st)" using assms(3) Cons.prems by blast
  note IH = Cons.IH [OF this]
  moreover have "n \<in> set (snd (f n st))" if "n \<in> A" using assms(1,2,4) Cons.prems that by blast
  ultimately show ?case using assms(1) [of st n] by auto
qed simp

lemma source_neighbors: "set (neighbors g src) - {src} \<subseteq> set (findRelatedIPs g src)"
proof -
  let ?f = "\<lambda>n st. if n \<notin> set (fst st) \<and> n \<noteq> src then dfs 2 g src n (fst st, snd st @ [n]) else st"
  let ?I = "\<lambda>st. set (fst st) \<subseteq> insert src (set (snd st))"
  have d: "extends (near g src 2 n) src (fst st, snd st @ [n]) (dfs 2 g src n (fst st, snd st @ [n]))" for n st by (rule dfs_extends) simp
  have "set (neighbors g src) \<inter> - {src} \<subseteq> set (snd (fold ?f (neighbors g src) ([src], [])))"
  proof (rule conjunct1 [OF fold_visits [where I = ?I]])
    fix n and st :: "'a list \<times> 'a list"
    show "set (snd st) \<subseteq> set (snd (?f n st))" using d [of n st] by (auto simp: extends_def)
    show "n \<in> - {src} \<Longrightarrow> n \<in> set (snd (?f n st)) \<or> n \<in> set (fst st)" using d [of n st] by (auto simp: extends_def)
    show "?I st \<Longrightarrow> ?I (?f n st)" using d [of n st] by (auto simp: extends_def)
    show "?I st \<Longrightarrow> n \<in> - {src} \<Longrightarrow> n \<in> set (fst st) \<Longrightarrow> n \<in> set (snd st)" by auto
  qed simp
  moreover have "dfs (Suc 2) g src src ([], []) = fold ?f (neighbors g src) ([src], [])" by (simp only: dfs.simps) (simp add: set_add_def)
  ultimately show ?thesis by (auto simp: findRelatedIPs_def eval_nat_numeral)
qed


text \<open>The last step of the search does not mark what it finds, so an address can be counted twice.\<close>

lemma related_duplicates:
  "findRelatedIPs [(1::nat, [2]), (2, [1, 3, 4]), (3, [2, 5]), (4, [2, 5]), (5, [3, 4])] 1 = [2, 3, 5, 4, 5]"
  by code_simp

section \<open>What the request path reaches\<close>

lemma no_recent [simp]: "getRecentRequests t = []" "getRecentUserRequests t = []" "getRecentRequestsFromIPs ips = []" "isSuspiciousRequest q = False"
  by (simp_all add: getRecentRequests_def getRecentUserRequests_def getRecentRequestsFromIPs_def isSuspiciousRequest_def)

lemma updates_nothing [simp]: "updateNetworkRelationships lookup now q s = s" "updateUserRelationships lookup now u q s = s"
  by (simp_all add: updateNetworkRelationships_def updateUserRelationships_def)

text \<open>The analyzer knows clusters only; a cluster's level has risen only while it had more than ten addresses.\<close>

definition cluster_ok :: "geographic_cluster \<Rightarrow> bool" where
  "cluster_ok c \<longleftrightarrow> 0 \<le> cl_threatLevel c \<and> cl_threatLevel c \<le> 1 \<and> (length (cl_ipAddresses c) \<le> 10 \<longrightarrow> cl_threatLevel c = 0)"

definition clusters_only :: "relationship_analyzer \<Rightarrow> bool" where
  "clusters_only s \<longleftrightarrow> ry_networkGraph s = [] \<and> ry_userGraph s = [] \<and> ry_attacks s = [] \<and> ry_relationshipCache s = []
     \<and> list_all (\<lambda>(k, c). cluster_ok c) (ry_clusters s)"

lemma threat_ok: "cluster_ok c \<Longrightarrow> cluster_ok (c\<lparr>cl_ipAddresses := set_add ip (cl_ipAddresses c),
    cl_threatLevel := calculateGeographicThreatLevel (c\<lparr>cl_ipAddresses := set_add ip (cl_ipAddresses c)\<rparr>) q\<rparr>)"
  by (auto simp: cluster_ok_def calculateGeographicThreatLevel_def set_add_def Let_def split: if_splits)

lemma cluster_found: "clusters_only s \<Longrightarrow> map_of (ry_clusters s) k = Some c \<Longrightarrow> cluster_ok c"
  by (auto simp: clusters_only_def list_all_iff dest!: map_of_SomeD)

lemma clusters_only_update: "clusters_only s \<Longrightarrow> clusters_only (updateGeographicClusters lookup now q s)"
proof (cases "lookup (q_ipAddress q)")
  case (Located g)
  assume s: "clusters_only s"
  let ?c = "case map_of (ry_clusters s) (clusterKey g) of Some c \<Rightarrow> c
    | None \<Rightarrow> \<lparr>cl_country = gi_country g, cl_region = gi_region g, cl_city = gi_city g, cl_ipAddresses = [], cl_threatLevel = 0, cl_attackPatterns = [], cl_timestamp = now\<rparr>"
  have "cluster_ok ?c" using cluster_found [OF s] by (auto simp: cluster_ok_def split: option.split)
  note t = threat_ok [OF this, of "q_ipAddress q" q]
  have "list_all (\<lambda>(k, c). cluster_ok c) (map_set (clusterKey g) c' (ry_clusters s))" if "cluster_ok c'" for c'
    using s that set_update_subset [of "clusterKey g" c' "ry_clusters s"] unfolding clusters_only_def list_all_iff by fastforce
  from this [OF t] s show ?thesis by (simp add: updateGeographicClusters_def Located Let_def clusters_only_def)
qed (simp_all add: updateGeographicClusters_def)

lemma no_related: "findRelatedIPs [] x = []"
  by (simp add: findRelatedIPs_def neighbors_def numeral_3_eq_3)

lemma no_attack: "clusters_only s \<Longrightarrow> detectCoordinatedAttacks aid now q s = (None, s)"
  by (simp add: detectCoordinatedAttacks_def clusters_only_def no_related)

lemma analyze_clusters:
  assumes "clusters_only s"
  shows "snd (rel_analyze i s) = updateGeographicClusters (rj_lookup i) (rj_now i) (rj_data i) s"
    and "fst (rel_analyze i s) =
      (case rj_lookup i (q_ipAddress (rj_data i)) of Lookup_throws \<Rightarrow> 1/10 | Unlocated \<Rightarrow> 0
       | Located g \<Rightarrow> (case map_of (ry_clusters (snd (rel_analyze i s))) (clusterKey g) of None \<Rightarrow> 0
           | Some c \<Rightarrow> if cl_threatLevel c > 5/10 then cl_threatLevel c * (2/10) else 0))"
proof -
  let ?s = "updateGeographicClusters (rj_lookup i) (rj_now i) (rj_data i) s"
  have s: "clusters_only ?s" using clusters_only_update [OF assms] .
  have e: "rel_analyze i s = ((case calculateRelationshipRisk (rj_lookup i) (rj_data i) None ?s of None \<Rightarrow> 1/10 | Some r \<Rightarrow> r), ?s)"
    by (simp add: rel_analyze_def Let_def no_attack [OF s] split: option.split)
  then show "snd (rel_analyze i s) = ?s" by simp
  have "getNetworkRelationships ip ?s = []" for ip using s by (simp add: getNetworkRelationships_def clusters_only_def)
  then show "fst (rel_analyze i s) =
      (case rj_lookup i (q_ipAddress (rj_data i)) of Lookup_throws \<Rightarrow> 1/10 | Unlocated \<Rightarrow> 0
       | Located g \<Rightarrow> (case map_of (ry_clusters (snd (rel_analyze i s))) (clusterKey g) of None \<Rightarrow> 0
           | Some c \<Rightarrow> if cl_threatLevel c > 5/10 then cl_threatLevel c * (2/10) else 0))"
    using cluster_found [OF s] by (force simp: e calculateRelationshipRisk_def Let_def cluster_ok_def min_def split: geo_reply.split option.split)
qed

lemma relationship_score_bound: "clusters_only s \<Longrightarrow> 0 \<le> fst (rel_analyze i s) \<and> fst (rel_analyze i s) \<le> 2/10"
  using cluster_found [OF clusters_only_update] unfolding analyze_clusters
  by (fastforce simp: cluster_ok_def split: geo_reply.split option.split)

interpretation relationship: risk_source rel_analyze clusters_only "\<lambda>_. True"
proof
  fix s i assume "clusters_only s"
  then show "0 \<le> fst (rel_analyze i s) \<and> fst (rel_analyze i s) \<le> 1" "clusters_only (snd (rel_analyze i s))"
    using relationship_score_bound [of s i] clusters_only_update by (simp_all add: analyze_clusters)
qed

lemma clusters_only_new: "clusters_only new_relationship_analyzer"
  by (simp add: clusters_only_def new_relationship_analyzer_def)

text \<open>
  On no sequence of requests does the analyzer find a relationship or a coordinated attack: its graphs and its attacks stay empty, because the
  requests they are built from are never retrieved, and its score never exceeds 0.2.
\<close>
theorem no_coordinated_attack:
  "ry_networkGraph (snd (feed rel_analyze is new_relationship_analyzer)) = []
    \<and> ry_attacks (snd (feed rel_analyze is new_relationship_analyzer)) = []
    \<and> list_all (\<lambda>r. r \<le> 2/10) (fst (feed rel_analyze is new_relationship_analyzer))"
proof -
  have "clusters_only s \<Longrightarrow> list_all (\<lambda>r. r \<le> 2/10) (fst (feed rel_analyze is s))" for s
  proof (induction "is" arbitrary: s)
    case (Cons i "is")
    then show ?case using relationship_score_bound [of s i] relationship.step_ok [of s i] by (simp add: split_def Let_def)
  qed simp
  moreover have "clusters_only (snd (feed rel_analyze is new_relationship_analyzer))"
    using relationship.feed_scores [OF clusters_only_new, of "is"] by (simp add: list_all_iff)
  ultimately show ?thesis using clusters_only_new by (simp add: clusters_only_def)
qed

end
