(* ===== verification/ResponseActions.thy ===== *)
theory ResponseActions
  imports Prelude
begin

text \<open>
  The actions a response consists of (\<^verbatim>\<open>backend/src/core/response/ResponseActions.ts\<close>) and the configuration types
  (\<^verbatim>\<open>backend/src/types/response.d.ts\<close>).

  An action instance is its state: two of the classes keep a map, the others keep nothing. Its class and its configuration are
  the key under which the engine keeps it. The HTTP response is the reply sent so far: sending a second one throws, as
  Express does, and every \<^verbatim>\<open>execute\<close> turns the exception into a failed result. All readings of the clock during one action are one argument;
  the random part of a challenge token is an argument; log entries are left out.
\<close>

section \<open>Types\<close>

datatype action_type =
    Allow | Log_only | Rate_limit | Challenge_response | Step_up_auth | Deception_redirect | Temporary_block | Permanent_block
  | Quarantine | Alert_admin | Honeypot_engage | Divert

record rate_settings =
  rs_requests :: int
  rs_window :: int
  rs_burst :: "int option"

datatype challenge_type = Captcha | Javascript | Proof_of_work

record challenge_settings =
  cs_type :: challenge_type
  cs_difficulty :: int
  cs_timeout :: int

record block_settings =
  bs_duration :: int
  bs_message :: string
  bs_redirectUrl :: "string option"

record deception_settings =
  ds_honeypotUrl :: string
  ds_logLevel :: string
  ds_trackingDuration :: int

record alert_settings =
  al_channels :: "string list"
  al_priority :: string
  al_aggregation :: bool

record action_config =
  ac_rateLimit :: "rate_settings option"
  ac_challenge :: "challenge_settings option"
  ac_block :: "block_settings option"
  ac_deception :: "deception_settings option"
  ac_alert :: "alert_settings option"

definition no_settings :: action_config where
  "no_settings = \<lparr>ac_rateLimit = None, ac_challenge = None, ac_block = None, ac_deception = None, ac_alert = None\<rparr>"

section \<open>Replies\<close>

datatype reply_body =
    Rate_exceeded int int int
  | Access_blocked string time_ms int "string option"
  | Challenge_required challenge_type string
  | Redirect_to string
  | Session_blocked string

record http_reply =
  hp_status :: int
  hp_body :: reply_body

type_synonym http_response = "http_reply option"

definition send_reply :: "int \<Rightarrow> reply_body \<Rightarrow> http_response \<Rightarrow> http_response option" where
  "send_reply status body res = (case res of None \<Rightarrow> Some (Some \<lparr>hp_status = status, hp_body = body\<rparr>) | Some _ \<Rightarrow> None)"

section \<open>Actions\<close>

record action_context =
  cx_sessionId :: string
  cx_riskScore :: real
  cx_userId :: "string option"
  cx_ipAddress :: string

datatype action_outcome =
    Failed
  | Logged
  | Limited bool "int option"
  | Block_applied int
  | Alert_sent "string list"
  | Allowed
  | Redirected string
  | Challenged challenge_type

definition outcome_success :: "action_outcome \<Rightarrow> bool" where
  "outcome_success r \<longleftrightarrow> r \<noteq> Failed"

record rate_entry =
  rt_count :: int
  rt_resetTime :: time_ms

record block_entry =
  bk_blockedUntil :: time_ms
  bk_reason :: string

datatype action_state =
    Stateless
  | Rate_store "(string, rate_entry) js_map"
  | Block_store "(string, block_entry) js_map"

definition context_key :: "string \<Rightarrow> string \<Rightarrow> string" where
  "context_key ip session = ip @ '':'' @ session"

definition ra_cleanupExpiredEntries :: "time_ms \<Rightarrow> (string, rate_entry) js_map \<Rightarrow> (string, rate_entry) js_map" where
  "ra_cleanupExpiredEntries windowStart m = filter (\<lambda>(k, e). \<not> rt_resetTime e < windowStart) m"

definition ceil_seconds :: "int \<Rightarrow> int" where
  "ceil_seconds ms = \<lceil>real_of_int ms / 1000\<rceil>"

definition rate_execute ::
  "action_config \<Rightarrow> time_ms \<Rightarrow> action_context \<Rightarrow> (string, rate_entry) js_map \<Rightarrow> http_response
   \<Rightarrow> action_outcome \<times> (string, rate_entry) js_map \<times> http_response" where
  "rate_execute cfg now cx store res =
     (case ac_rateLimit cfg of None \<Rightarrow> (Failed, store, res)
      | Some rc \<Rightarrow>
          let key = context_key (cx_ipAddress cx) (cx_sessionId cx);
              store = ra_cleanupExpiredEntries (now - rs_window rc) store;
              current = (case map_of store key of Some e \<Rightarrow> e | None \<Rightarrow> \<lparr>rt_count = 0, rt_resetTime = now + rs_window rc\<rparr>)
          in if rt_count current \<ge> rs_requests rc
             then (case send_reply 429 (Rate_exceeded (ceil_seconds (rt_resetTime current - now)) (rs_requests rc) (rs_window rc)) res of
                     None \<Rightarrow> (Failed, store, res) | Some res \<Rightarrow> (Limited True None, store, res))
             else let current = current\<lparr>rt_count := rt_count current + 1\<rparr>
                  in (Limited False (Some (rt_count current)), map_set key current store, res))"

definition ra_cleanupExpiredBlocks :: "time_ms \<Rightarrow> (string, block_entry) js_map \<Rightarrow> (string, block_entry) js_map" where
  "ra_cleanupExpiredBlocks now m = filter (\<lambda>(k, b). \<not> now > bk_blockedUntil b) m"

definition block_reason :: "block_settings \<Rightarrow> string" where
  "block_reason bc = (if bs_message bc = [] then ''Access temporarily restricted due to security concerns'' else bs_message bc)"

definition block_execute ::
  "action_config \<Rightarrow> time_ms \<Rightarrow> action_context \<Rightarrow> (string, block_entry) js_map \<Rightarrow> http_response
   \<Rightarrow> action_outcome \<times> (string, block_entry) js_map \<times> http_response" where
  "block_execute cfg now cx store res =
     (case ac_block cfg of None \<Rightarrow> (Failed, store, res)
      | Some bc \<Rightarrow>
          let key = context_key (cx_ipAddress cx) (cx_sessionId cx); until = now + bs_duration bc; reason = block_reason bc;
              store = ra_cleanupExpiredBlocks now (map_set key \<lparr>bk_blockedUntil = until, bk_reason = reason\<rparr> store)
          in (case send_reply 403 (Access_blocked reason until (bs_duration bc) (bs_redirectUrl bc)) res of
                None \<Rightarrow> (Failed, store, res) | Some res \<Rightarrow> (Block_applied (bs_duration bc), store, res)))"

definition isBlocked :: "time_ms \<Rightarrow> string \<Rightarrow> string \<Rightarrow> (string, block_entry) js_map \<Rightarrow> bool \<times> (string, block_entry) js_map" where
  "isBlocked now ip session store =
     (let key = context_key ip session
      in case map_of store key of None \<Rightarrow> (False, store)
         | Some b \<Rightarrow> if now > bk_blockedUntil b then (False, map_delete key store) else (True, store))"

definition alert_execute :: "action_config \<Rightarrow> action_outcome" where
  "alert_execute cfg = (case ac_alert cfg of None \<Rightarrow> Failed | Some a \<Rightarrow> Alert_sent (al_channels a))"

definition divert_execute :: "action_config \<Rightarrow> http_response \<Rightarrow> action_outcome \<times> http_response" where
  "divert_execute cfg res =
     (let url = (case ac_deception cfg of None \<Rightarrow> ''/honeypot'' | Some d \<Rightarrow> if ds_honeypotUrl d = [] then ''/honeypot'' else ds_honeypotUrl d)
      in case send_reply 302 (Redirect_to url) res of None \<Rightarrow> (Failed, res) | Some res \<Rightarrow> (Redirected url, res))"

definition challenge_execute :: "action_config \<Rightarrow> string \<Rightarrow> http_response \<Rightarrow> action_outcome \<times> http_response" where
  "challenge_execute cfg token res =
     (let c = (case ac_challenge cfg of None \<Rightarrow> \<lparr>cs_type = Javascript, cs_difficulty = 5, cs_timeout = 60000\<rparr> | Some c \<Rightarrow> c)
      in case send_reply 401 (Challenge_required (cs_type c) token) res of
           None \<Rightarrow> (Failed, res) | Some res \<Rightarrow> (Challenged (cs_type c), res))"

text \<open>The factory; \<open>None\<close>: the type is not supported and the factory throws.\<close>

fun createAction :: "action_type \<Rightarrow> action_state option" where
  "createAction Allow = Some Stateless"
| "createAction Log_only = Some Stateless"
| "createAction Rate_limit = Some (Rate_store [])"
| "createAction Temporary_block = Some (Block_store [])"
| "createAction Alert_admin = Some Stateless"
| "createAction Challenge_response = Some Stateless"
| "createAction Divert = Some Stateless"
| "createAction _ = None"

text \<open>The \<^verbatim>\<open>execute\<close> of the class of each type.\<close>

fun action_execute ::
  "action_type \<Rightarrow> action_config \<Rightarrow> time_ms \<Rightarrow> string \<Rightarrow> action_context \<Rightarrow> action_state \<Rightarrow> http_response
   \<Rightarrow> action_outcome \<times> action_state \<times> http_response" where
  "action_execute Rate_limit cfg now token cx (Rate_store m) res =
     (let (r, m, res) = rate_execute cfg now cx m res in (r, Rate_store m, res))"
| "action_execute Temporary_block cfg now token cx (Block_store m) res =
     (let (r, m, res) = block_execute cfg now cx m res in (r, Block_store m, res))"
| "action_execute Alert_admin cfg now token cx st res = (alert_execute cfg, st, res)"
| "action_execute Divert cfg now token cx st res = (let (r, res) = divert_execute cfg res in (r, st, res))"
| "action_execute Challenge_response cfg now token cx st res = (let (r, res) = challenge_execute cfg token res in (r, st, res))"
| "action_execute Allow cfg now token cx st res = (Allowed, st, res)"
| "action_execute Log_only cfg now token cx st res = (Logged, st, res)"
| "action_execute _ cfg now token cx st res = (Failed, st, res)"

section \<open>Blocks\<close>

lemma block_execute_store:
  assumes "ac_block cfg = Some bc" and "0 \<le> bs_duration bc"
  shows "map_of (fst (snd (block_execute cfg now cx store res))) (context_key (cx_ipAddress cx) (cx_sessionId cx))
    = Some \<lparr>bk_blockedUntil = now + bs_duration bc, bk_reason = block_reason bc\<rparr>"
proof -
  let ?k = "context_key (cx_ipAddress cx) (cx_sessionId cx)" and ?b = "\<lparr>bk_blockedUntil = now + bs_duration bc, bk_reason = block_reason bc\<rparr>"
  have "map_of (filter (\<lambda>(k, b). \<not> now > bk_blockedUntil b) (map_set ?k ?b store)) ?k = Some ?b"
    using assms(2) by (induction store) auto
  then show ?thesis using assms(1)
    by (simp add: block_execute_def Let_def ra_cleanupExpiredBlocks_def split: option.splits)
qed

text \<open>
  A duration of -1, which the configuration documents as a permanent block, blocks nothing: the entry is dropped by the cleanup that
  follows it, while the reply tells the client that it is blocked.
\<close>
theorem permanent_block_lost:
  assumes "ac_block cfg = Some bc" and "bs_duration bc < 0" and "js_map_ok store"
  shows "fst (isBlocked now' (cx_ipAddress cx) (cx_sessionId cx) (fst (snd (block_execute cfg now cx store None)))) = False
    \<and> fst (block_execute cfg now cx store None) = Block_applied (bs_duration bc)"
proof -
  let ?k = "context_key (cx_ipAddress cx) (cx_sessionId cx)" and ?b = "\<lparr>bk_blockedUntil = now + bs_duration bc, bk_reason = block_reason bc\<rparr>"
  have "map_of (ra_cleanupExpiredBlocks now (map_set ?k ?b store)) ?k = None"
    using assms(2) js_map_ok_set [OF assms(3)] by (simp add: ra_cleanupExpiredBlocks_def map_of_filter_ok update_conv')
  then show ?thesis using assms(1) by (simp add: block_execute_def Let_def isBlocked_def send_reply_def)
qed

section \<open>Rate limits\<close>

text \<open>
  The rate limit of a response counts over two windows, not one: once a client has used up its requests it is refused
  until a window after the announced reset, with a retry time that is no longer positive in the second window.
\<close>
theorem rate_action_two_windows:
  assumes "ac_rateLimit cfg = Some rc" and "js_map_ok store"
    and "map_of store (context_key (cx_ipAddress cx) (cx_sessionId cx)) = Some e" and "rs_requests rc \<le> rt_count e"
    and "rt_resetTime e \<le> now" and "now \<le> rt_resetTime e + rs_window rc"
  shows "\<exists>secs. rate_execute cfg now cx store None
      = (Limited True None, ra_cleanupExpiredEntries (now - rs_window rc) store,
         Some \<lparr>hp_status = 429, hp_body = Rate_exceeded secs (rs_requests rc) (rs_window rc)\<rparr>) \<and> secs \<le> 0"
proof -
  have "map_of (ra_cleanupExpiredEntries (now - rs_window rc) store) (context_key (cx_ipAddress cx) (cx_sessionId cx)) = Some e"
    using assms(2,3,6) by (simp add: ra_cleanupExpiredEntries_def map_of_filter_ok)
  moreover have "ceil_seconds (rt_resetTime e - now) \<le> 0" using assms(5) by (simp add: ceil_seconds_def ceiling_le_zero)
  ultimately show ?thesis using assms(1,4) by (simp add: rate_execute_def Let_def send_reply_def)
qed

section \<open>Witnesses\<close>

definition demo_cx :: action_context where
  "demo_cx = \<lparr>cx_sessionId = ''s'', cx_riskScore = 8/10, cx_userId = None, cx_ipAddress = ''10.0.0.1''\<rparr>"

theorem permanent_block_lost_witness:
  "fst (isBlocked 1 ''10.0.0.1'' ''s'' (fst (snd (block_execute
     (no_settings\<lparr>ac_block := Some \<lparr>bs_duration = -1, bs_message = ''no'', bs_redirectUrl = None\<rparr>\<rparr>) 0 demo_cx [] None)))) = False"
  using permanent_block_lost [of "no_settings\<lparr>ac_block := Some \<lparr>bs_duration = -1, bs_message = ''no'', bs_redirectUrl = None\<rparr>\<rparr>"
      "\<lparr>bs_duration = -1, bs_message = ''no'', bs_redirectUrl = None\<rparr>" "[]" 1 demo_cx 0]
  by (simp add: demo_cx_def)

theorem rate_action_two_windows_witness:
  "fst (rate_execute (no_settings\<lparr>ac_rateLimit := Some \<lparr>rs_requests = 1, rs_window = 1000, rs_burst = None\<rparr>\<rparr>) 1500 demo_cx
     [(context_key ''10.0.0.1'' ''s'', \<lparr>rt_count = 1, rt_resetTime = 1000\<rparr>)] None) = Limited True None"
  using rate_action_two_windows [of "no_settings\<lparr>ac_rateLimit := Some \<lparr>rs_requests = 1, rs_window = 1000, rs_burst = None\<rparr>\<rparr>"
      "\<lparr>rs_requests = 1, rs_window = 1000, rs_burst = None\<rparr>" "[(context_key ''10.0.0.1'' ''s'', \<lparr>rt_count = 1, rt_resetTime = 1000\<rparr>)]" demo_cx
      "\<lparr>rt_count = 1, rt_resetTime = 1000\<rparr>" 1500]
  by (auto simp: demo_cx_def js_map_ok_def)

end
