(* ===== verification/ResponseEngine.thy ===== *)
theory ResponseEngine
  imports ResponseActions
begin

text \<open>
  The graduated response (\<^verbatim>\<open>backend/src/core/response/ResponseEngine.ts\<close>, \<^verbatim>\<open>backend/src/config/responseConfig.ts\<close>): a tier
  chosen by the risk score, escalated by the session's history, whose actions run in the order of their severity until a blocking one
  succeeds.

  The engine's state is a record: the configuration, the history per session, the metrics and the action instances, keyed by type and
  configuration (the code's key is the type and the JSON text of the configuration). One request is handled at one time \<open>now\<close>; the measured latency
  is an argument. The copy of the history in Redis is write-only and left out, as are the texts of reasons. \<open>parseFloat\<close> of an environment
  variable is an argument of the configuration.
\<close>

section \<open>Types\<close>

datatype response_level = Monitor | Warn | Restrict | Block | Isolate

record response_action =
  ra_type :: action_type
  ra_severity :: real
  ra_enabled :: bool
  ra_config :: action_config

record response_tier =
  rt_level :: response_level
  rt_min :: real
  rt_max :: real
  rt_actions :: "response_action list"
  rt_escalationDelay :: int
  rt_cooldownPeriod :: int

record response_configuration =
  rc_enabled :: bool
  rc_tiers :: "response_tier list"

record response_history =
  rh_timestamp :: time_ms
  rh_tier :: response_level
  rh_actions :: "action_type list"
  rh_effectiveness :: real
  rh_duration :: int

record response_metrics =
  rm_totalResponses :: nat
  rm_responsesByTier :: "response_level \<Rightarrow> nat"
  rm_averageResponseTime :: real

record response_decision =
  rd_tier :: response_tier
  rd_actions :: "response_action list"
  rd_confidence :: jsnum
  rd_timestamp :: time_ms
  rd_sessionId :: string
  rd_riskScore :: real
  rd_escalationPath :: "response_level list"
  rd_cooldownStatus :: bool

datatype executed_step = Executed action_type | Session_block_enforced

text \<open>\<open>er_rejected\<close>: the call throws instead of returning a result.\<close>

record execution_report =
  er_rejected :: bool
  er_success :: bool
  er_actionsExecuted :: "executed_step list"
  er_actionResults :: "(action_type, action_outcome) js_map"

type_synonym instances = "(action_type \<times> action_config, action_state) js_map"

record response_engine =
  rg_config :: response_configuration
  rg_history :: "(string, response_history list) js_map"
  rg_metrics :: response_metrics
  rg_instances :: instances

section \<open>Configuration\<close>

definition log_action :: response_action where
  "log_action = \<lparr>ra_type = Log_only, ra_severity = 1, ra_enabled = True, ra_config = no_settings\<rparr>"

definition rate_action :: "int \<Rightarrow> int \<Rightarrow> response_action" where
  "rate_action requests burst =
     \<lparr>ra_type = Rate_limit, ra_severity = 2, ra_enabled = True,
      ra_config = no_settings\<lparr>ac_rateLimit := Some \<lparr>rs_requests = requests, rs_window = 60000, rs_burst = Some burst\<rparr>\<rparr>\<rparr>"

definition block_action :: "real \<Rightarrow> int \<Rightarrow> string \<Rightarrow> string \<Rightarrow> response_action" where
  "block_action severity duration message url =
     \<lparr>ra_type = Temporary_block, ra_severity = severity, ra_enabled = True,
      ra_config = no_settings\<lparr>ac_block := Some \<lparr>bs_duration = duration, bs_message = message, bs_redirectUrl = Some url\<rparr>\<rparr>\<rparr>"

definition alert_action :: "real \<Rightarrow> string \<Rightarrow> bool \<Rightarrow> response_action" where
  "alert_action severity priority aggregation =
     \<lparr>ra_type = Alert_admin, ra_severity = severity, ra_enabled = True,
      ra_config = no_settings\<lparr>ac_alert := Some \<lparr>al_channels = [''email'', ''webhook''], al_priority = priority, al_aggregation = aggregation\<rparr>\<rparr>\<rparr>"

definition default_tiers :: "real \<Rightarrow> real \<Rightarrow> real \<Rightarrow> real \<Rightarrow> response_tier list" where
  "default_tiers low medium high critical =
     [\<lparr>rt_level = Monitor, rt_min = 0, rt_max = low, rt_actions = [log_action], rt_escalationDelay = 300000, rt_cooldownPeriod = 60000\<rparr>,
      \<lparr>rt_level = Warn, rt_min = low, rt_max = medium, rt_actions = [log_action, rate_action 100 10],
       rt_escalationDelay = 180000, rt_cooldownPeriod = 120000\<rparr>,
      \<lparr>rt_level = Restrict, rt_min = medium, rt_max = high, rt_actions = [log_action, rate_action 30 5, alert_action 4 ''medium'' True],
       rt_escalationDelay = 120000, rt_cooldownPeriod = 300000\<rparr>,
      \<lparr>rt_level = Block, rt_min = high, rt_max = critical,
       rt_actions = [log_action, block_action 8 900000 ''Access temporarily restricted due to suspicious activity'' ''/security-notice'',
         alert_action 9 ''high'' False],
       rt_escalationDelay = 60000, rt_cooldownPeriod = 600000\<rparr>,
      \<lparr>rt_level = Isolate, rt_min = critical, rt_max = 1,
       rt_actions = [log_action, block_action 10 3600000 ''Access denied due to security violation. Contact administrator.'' ''/security-violation'',
         alert_action 10 ''critical'' False],
       rt_escalationDelay = 30000, rt_cooldownPeriod = 1800000\<rparr>]"

definition getDefaultResponseConfiguration :: response_configuration where
  "getDefaultResponseConfiguration = \<lparr>rc_enabled = True, rc_tiers = default_tiers (3/10) (5/10) (7/10) (85/100)\<rparr>"

definition lenient_action :: "response_action \<Rightarrow> response_action" where
  "lenient_action a =
     (let a = (if ra_type a = Temporary_block
               then a\<lparr>ra_config := (ra_config a)\<lparr>ac_block := map_option (\<lambda>b. b\<lparr>bs_duration := min (bs_duration b) 60000\<rparr>) (ac_block (ra_config a))\<rparr>\<rparr> else a);
          a = (if ra_type a = Rate_limit
               then a\<lparr>ra_config := (ra_config a)\<lparr>ac_rateLimit := map_option (\<lambda>r. r\<lparr>rs_requests := rs_requests r * 2\<rparr>) (ac_rateLimit (ra_config a))\<rparr>\<rparr> else a)
      in if ra_type a = Alert_admin then a\<lparr>ra_enabled := False\<rparr> else a)"

definition getDevelopmentResponseConfiguration :: response_configuration where
  "getDevelopmentResponseConfiguration =
     getDefaultResponseConfiguration\<lparr>rc_tiers := map (\<lambda>t. t\<lparr>rt_actions := map lenient_action (rt_actions t),
       rt_cooldownPeriod := min (if rt_cooldownPeriod t = 0 then 60000 else rt_cooldownPeriod t) 30000\<rparr>) (rc_tiers getDefaultResponseConfiguration)\<rparr>"

definition getResponseConfiguration :: "bool \<Rightarrow> response_configuration" where
  "getResponseConfiguration isDevelopment =
     (if isDevelopment then getDevelopmentResponseConfiguration else getDefaultResponseConfiguration)"

section \<open>Choosing a tier\<close>

definition rg_initializeMetrics :: response_metrics where
  "rg_initializeMetrics = \<lparr>rm_totalResponses = 0, rm_responsesByTier = \<lambda>_. 0, rm_averageResponseTime = 0\<rparr>"

definition new_engine :: "response_configuration \<Rightarrow> response_engine" where
  "new_engine cfg = \<lparr>rg_config = cfg, rg_history = [], rg_metrics = rg_initializeMetrics, rg_instances = []\<rparr>"

definition getResponseHistory :: "string \<Rightarrow> response_engine \<Rightarrow> response_history list" where
  "getResponseHistory sid g = (case map_of (rg_history g) sid of None \<Rightarrow> [] | Some h \<Rightarrow> h)"

definition matching_tier :: "real \<Rightarrow> response_tier list \<Rightarrow> response_tier option" where
  "matching_tier riskScore ts = List.find (\<lambda>t. riskScore \<ge> rt_min t \<and> riskScore \<le> rt_max t) ts"

fun getNextEscalationLevel :: "response_level \<Rightarrow> response_level" where
  "getNextEscalationLevel Monitor = Warn"
| "getNextEscalationLevel Warn = Restrict"
| "getNextEscalationLevel Restrict = Block"
| "getNextEscalationLevel Block = Isolate"
| "getNextEscalationLevel Isolate = Isolate"

definition recent_violations :: "time_ms \<Rightarrow> response_history list \<Rightarrow> response_history list" where
  "recent_violations now h = filter (\<lambda>r. now - rh_timestamp r < 300000) h"

definition applyEscalationLogic :: "time_ms \<Rightarrow> response_configuration \<Rightarrow> response_tier \<Rightarrow> response_history list \<Rightarrow> response_tier" where
  "applyEscalationLogic now cfg baseTier h =
     (if length (recent_violations now h) \<ge> 3
      then (case List.find (\<lambda>t. rt_level t = getNextEscalationLevel (rt_level baseTier)) (rc_tiers cfg) of
              Some t \<Rightarrow> t | None \<Rightarrow> baseTier)
      else baseTier)"

definition calculateEscalationPath :: "response_history list \<Rightarrow> response_tier \<Rightarrow> response_level list" where
  "calculateEscalationPath h t =
     fold (\<lambda>r path. if rh_tier r \<in> set path then path else path @ [rh_tier r]) (js_slice_from (- 5) h) [rt_level t]"

definition checkCooldownStatus :: "time_ms \<Rightarrow> response_history list \<Rightarrow> response_tier \<Rightarrow> bool" where
  "checkCooldownStatus now h t =
     (if rt_cooldownPeriod t = 0 \<or> h = [] then False else now - rh_timestamp (last h) < rt_cooldownPeriod t)"

definition rg_calculateConfidence :: "response_tier \<Rightarrow> real \<Rightarrow> response_history list \<Rightarrow> jsnum" where
  "rg_calculateConfidence t riskScore h =
     (let c = js_add (Fin (5/10)) (js_scale (3/10) (js_div (riskScore - rt_min t) (rt_max t - rt_min t)));
          c = (if length h \<ge> 3
               then js_add c (Fin (real (length (filter (\<lambda>r. rh_tier r = rt_level t) (js_slice_from (- 3) h))) / 3 * (2/10))) else c)
      in js_min (js_max c (Fin 0)) (Fin 1))"

definition selectResponseTier :: "time_ms \<Rightarrow> real \<Rightarrow> string \<Rightarrow> response_engine \<Rightarrow> response_decision option" where
  "selectResponseTier now riskScore sid g =
     (case matching_tier riskScore (rc_tiers (rg_config g)) of None \<Rightarrow> None
      | Some t \<Rightarrow>
          let h = getResponseHistory sid g; final = applyEscalationLogic now (rg_config g) t h
          in Some \<lparr>rd_tier = final, rd_actions = filter ra_enabled (rt_actions final), rd_confidence = rg_calculateConfidence final riskScore h,
               rd_timestamp = now, rd_sessionId = sid, rd_riskScore = riskScore, rd_escalationPath = calculateEscalationPath h t,
               rd_cooldownStatus = checkCooldownStatus now h t\<rparr>)"

section \<open>Executing a response\<close>

definition isBlockingAction :: "action_type \<Rightarrow> bool" where
  "isBlockingAction t \<longleftrightarrow> t \<in> {Temporary_block, Permanent_block, Deception_redirect, Challenge_response, Divert}"

text \<open>\<open>None\<close>: the factory throws.\<close>

definition getActionInstance :: "action_type \<Rightarrow> action_config \<Rightarrow> instances \<Rightarrow> (action_state \<times> instances) option" where
  "getActionInstance t cfg m =
     (case map_of m (t, cfg) of Some st \<Rightarrow> Some (st, m)
      | None \<Rightarrow> (case createAction t of None \<Rightarrow> None | Some st \<Rightarrow> Some (st, map_set (t, cfg) st m)))"

fun run_actions ::
  "time_ms \<Rightarrow> string \<Rightarrow> action_context \<Rightarrow> response_action list \<Rightarrow> execution_report \<Rightarrow> instances \<Rightarrow> http_response
   \<Rightarrow> execution_report \<times> instances \<times> http_response" where
  "run_actions now token cx [] rep m res = (rep, m, res)"
| "run_actions now token cx (a # as) rep m res =
     (case getActionInstance (ra_type a) (ra_config a) m of
        None \<Rightarrow> run_actions now token cx as
          (rep\<lparr>er_success := False, er_actionResults := map_set (ra_type a) Failed (er_actionResults rep)\<rparr>) m res
      | Some (st, m) \<Rightarrow>
          let (r, st, res) = action_execute (ra_type a) (ra_config a) now token cx st res;
              m = map_set (ra_type a, ra_config a) st m;
              rep = rep\<lparr>er_success := er_success rep \<and> outcome_success r, er_actionsExecuted := er_actionsExecuted rep @ [Executed (ra_type a)],
                        er_actionResults := map_set (ra_type a) r (er_actionResults rep)\<rparr>
          in if outcome_success r \<and> isBlockingAction (ra_type a) then (rep, m, res) else run_actions now token cx as rep m res)"

definition empty_report :: execution_report where
  "empty_report = \<lparr>er_rejected = False, er_success = True, er_actionsExecuted = [], er_actionResults = []\<rparr>"

definition executeResponseActions ::
  "time_ms \<Rightarrow> string \<Rightarrow> action_context \<Rightarrow> response_decision \<Rightarrow> instances \<Rightarrow> http_response \<Rightarrow> execution_report \<times> instances \<times> http_response" where
  "executeResponseActions now token cx d m res = run_actions now token cx (sort_key ra_severity (rd_actions d)) empty_report m res"

definition recordResponse :: "response_decision \<Rightarrow> int \<Rightarrow> response_engine \<Rightarrow> response_engine" where
  "recordResponse d latency g =
     (let entry = \<lparr>rh_timestamp = rd_timestamp d, rh_tier = rt_level (rd_tier d), rh_actions = map ra_type (rd_actions d),
            rh_effectiveness = 1, rh_duration = latency\<rparr>;
          h = getResponseHistory (rd_sessionId d) g @ [entry];
          h = (if length h > 50 then drop (length h - 50) h else h)
      in g\<lparr>rg_history := map_set (rd_sessionId d) h (rg_history g)\<rparr>)"

definition rg_updateMetrics :: "response_decision \<Rightarrow> int \<Rightarrow> response_metrics \<Rightarrow> response_metrics" where
  "rg_updateMetrics d latency m =
     (let n = rm_totalResponses m + 1; l = rt_level (rd_tier d)
      in \<lparr>rm_totalResponses = n, rm_responsesByTier = (rm_responsesByTier m)(l := rm_responsesByTier m l + 1),
          rm_averageResponseTime = (rm_averageResponseTime m * (real n - 1) + of_int latency) / real n\<rparr>)"

text \<open>The instances are asked in order; an expired entry is removed on the way.\<close>

fun isSessionBlocked :: "time_ms \<Rightarrow> string \<Rightarrow> string \<Rightarrow> instances \<Rightarrow> bool \<times> instances" where
  "isSessionBlocked now ip sid [] = (False, [])"
| "isSessionBlocked now ip sid ((k, Block_store s) # m) =
     (let (b, s) = isBlocked now ip sid s
      in if b then (True, (k, Block_store s) # m)
         else let (b, m) = isSessionBlocked now ip sid m in (b, (k, Block_store s) # m))"
| "isSessionBlocked now ip sid ((k, st) # m) = (let (b, m) = isSessionBlocked now ip sid m in (b, (k, st) # m))"

text \<open>The promise of \<^verbatim>\<open>handleBlockedSession\<close> is returned without being awaited, so its exception is not caught in \<^verbatim>\<open>executeResponse\<close>.\<close>

definition rejected_report :: execution_report where
  "rejected_report = \<lparr>er_rejected = True, er_success = False, er_actionsExecuted = [], er_actionResults = []\<rparr>"

definition handleBlockedSession :: "string \<Rightarrow> http_response \<Rightarrow> execution_report \<times> http_response" where
  "handleBlockedSession sid res =
     (case send_reply 403 (Session_blocked sid) res of None \<Rightarrow> (rejected_report, res)
      | Some res \<Rightarrow> (empty_report\<lparr>er_actionsExecuted := [Session_block_enforced]\<rparr>, res))"

record response_request =
  rq_now :: time_ms
  rq_latency :: int
  rq_token :: string
  rq_risk :: real
  rq_session :: string
  rq_user :: "string option"
  rq_ip :: string

definition executeResponse :: "response_request \<Rightarrow> http_response \<Rightarrow> response_engine \<Rightarrow> execution_report \<times> http_response \<times> response_engine" where
  "executeResponse rq res g =
     (if \<not> rc_enabled (rg_config g) then (empty_report, res, g)
      else
        let (blocked, m) = isSessionBlocked (rq_now rq) (rq_ip rq) (rq_session rq) (rg_instances g); g = g\<lparr>rg_instances := m\<rparr>
        in if blocked then (let (rep, res) = handleBlockedSession (rq_session rq) res in (rep, res, g))
           else case selectResponseTier (rq_now rq) (rq_risk rq) (rq_session rq) g of
             None \<Rightarrow> (empty_report, res, g)
           | Some d \<Rightarrow>
               let cx = \<lparr>cx_sessionId = rq_session rq, cx_riskScore = rd_riskScore d, cx_userId = rq_user rq, cx_ipAddress = rq_ip rq\<rparr>;
                   (rep, m, res) = executeResponseActions (rq_now rq) (rq_token rq) cx d (rg_instances g) res;
                   g = recordResponse d (rq_latency rq) (g\<lparr>rg_instances := m\<rparr>)
               in (rep, res, g\<lparr>rg_metrics := rg_updateMetrics d (rq_latency rq) (rg_metrics g)\<rparr>))"

text \<open>The given members of a partial configuration replace the old ones.\<close>

definition updateConfiguration :: "bool option \<Rightarrow> response_tier list option \<Rightarrow> response_engine \<Rightarrow> response_engine" where
  "updateConfiguration en ts g =
     g\<lparr>rg_config := \<lparr>rc_enabled = (case en of Some b \<Rightarrow> b | None \<Rightarrow> rc_enabled (rg_config g)),
                   rc_tiers = (case ts of Some l \<Rightarrow> l | None \<Rightarrow> rc_tiers (rg_config g))\<rparr>\<rparr>"

section \<open>The instances keep the class of their type\<close>

definition same_class :: "action_state \<Rightarrow> action_state \<Rightarrow> bool" where
  "same_class st st' \<longleftrightarrow> (case (st, st') of (Stateless, Stateless) \<Rightarrow> True | (Rate_store _, Rate_store _) \<Rightarrow> True
     | (Block_store _, Block_store _) \<Rightarrow> True | _ \<Rightarrow> False)"

definition instances_ok :: "instances \<Rightarrow> bool" where
  "instances_ok m \<longleftrightarrow> (\<forall>t c st. map_of m (t, c) = Some st \<longrightarrow> (\<exists>st'. createAction t = Some st' \<and> same_class st' st))"

lemma same_class_refl [simp]: "same_class st st"
  by (cases st) (simp_all add: same_class_def)

lemma same_class_trans: "same_class a b \<Longrightarrow> same_class b c \<Longrightarrow> same_class a c"
  by (cases a; cases b; cases c) (simp_all add: same_class_def)

lemma execute_class: "same_class st (fst (snd (action_execute t cfg now token cx st res)))"
  by (induction t cfg now token cx st res rule: action_execute.induct) (simp_all add: split_def Let_def same_class_def split: action_state.splits)

lemma getActionInstance_ok:
  assumes "instances_ok m" and "getActionInstance t c m = Some (st, m')"
  shows "\<exists>st'. createAction t = Some st' \<and> same_class st' st" and "instances_ok (map_set (t, c) st' m') \<longleftrightarrow> (\<exists>st''. createAction t = Some st'' \<and> same_class st'' st')"
    and "map_of (map_set (t, c) st' m') = (map_of m)((t, c) \<mapsto> st')"
proof -
  consider "map_of m (t, c) = Some st" "m' = m" | "createAction t = Some st" "m' = map_set (t, c) st m"
    using assms(2) by (auto simp: getActionInstance_def split: option.splits)
  note cases = this
  then show "\<exists>st'. createAction t = Some st' \<and> same_class st' st"
    using assms(1) by cases (auto simp: instances_ok_def)
  show upd: "map_of (map_set (t, c) st' m') = (map_of m)((t, c) \<mapsto> st')" using cases by cases (auto simp: update_conv')
  show "instances_ok (map_set (t, c) st' m') \<longleftrightarrow> (\<exists>st''. createAction t = Some st'' \<and> same_class st'' st')"
    using assms(1) unfolding instances_ok_def upd by auto
qed

lemma run_actions_ok [keeps_inv]:
  "instances_ok m \<Longrightarrow> instances_ok (fst (snd (run_actions now token cx as rep m res)))"
proof (induction as arbitrary: rep m res)
  case (Cons a as)
  show ?case
  proof (cases "getActionInstance (ra_type a) (ra_config a) m")
    case (Some p)
    obtain st m' where p: "p = (st, m')" by fastforce
    obtain r st2 res2 where e: "action_execute (ra_type a) (ra_config a) now token cx st res = (r, st2, res2)" by (metis prod.exhaust)
    have "same_class st st2" using execute_class [of st "ra_type a" "ra_config a" now token cx res] by (simp add: e)
    then have "instances_ok (map_set (ra_type a, ra_config a) st2 m')"
      using getActionInstance_ok(1,2) [OF Cons.prems Some [unfolded p]] same_class_trans by blast
    then show ?thesis using Cons.IH by (simp add: Some p e Let_def)
  qed (use Cons in simp)
qed simp

text \<open>One step of the check, as equations for its two results.\<close>

definition checked :: "time_ms \<Rightarrow> string \<Rightarrow> string \<Rightarrow> action_state \<Rightarrow> bool \<times> action_state" where
  "checked now ip sid st = (case st of Block_store s \<Rightarrow> (fst (isBlocked now ip sid s), Block_store (snd (isBlocked now ip sid s))) | _ \<Rightarrow> (False, st))"

lemma isSessionBlocked_Cons:
  "isSessionBlocked now ip sid ((k, st) # m) =
     (if fst (checked now ip sid st) then (True, (k, snd (checked now ip sid st)) # m)
      else (fst (isSessionBlocked now ip sid m), (k, snd (checked now ip sid st)) # snd (isSessionBlocked now ip sid m)))"
  by (cases st) (simp_all add: checked_def split_def Let_def)

lemma checked_class: "same_class st (snd (checked now ip sid st))"
  by (cases st) (simp_all add: checked_def same_class_def)

lemma isSessionBlocked_class:
  "map_of (snd (isSessionBlocked now ip sid m)) key = Some st' \<Longrightarrow> \<exists>st. map_of m key = Some st \<and> same_class st st'"
proof (induction m)
  case (Cons e m)
  then show ?case by (cases e) (auto simp: isSessionBlocked_Cons checked_class split: if_splits)
qed simp

lemma isSessionBlocked_ok [keeps_inv]: "instances_ok m \<Longrightarrow> instances_ok (snd (isSessionBlocked now ip sid m))"
  unfolding instances_ok_def using isSessionBlocked_class same_class_trans by meson

section \<open>A stored block stays in force\<close>

definition holds_block :: "string \<Rightarrow> time_ms \<Rightarrow> instances \<Rightarrow> bool" where
  "holds_block k u m \<longleftrightarrow> (\<exists>key s b. map_of m key = Some (Block_store s) \<and> map_of s k = Some b \<and> u \<le> bk_blockedUntil b)"

lemma isBlocked_in_force:
  "map_of s (context_key ip sid) = Some b \<Longrightarrow> now \<le> bk_blockedUntil b \<Longrightarrow> isBlocked now ip sid s = (True, s)"
  by (simp add: isBlocked_def)

lemma isBlocked_keeps:
  "map_of s k = Some b \<Longrightarrow> now \<le> bk_blockedUntil b \<Longrightarrow> map_of (snd (isBlocked now ip sid s)) k = Some b"
  by (auto simp: isBlocked_def Let_def delete_conv' split: option.splits)

lemma checked_in_force:
  assumes "map_of s k = Some b" and "now \<le> bk_blockedUntil b"
  shows "\<exists>s'. snd (checked now ip sid (Block_store s)) = Block_store s' \<and> map_of s' k = Some b"
    and "k = context_key ip sid \<Longrightarrow> fst (checked now ip sid (Block_store s))"
  using assms isBlocked_keeps [OF assms] isBlocked_in_force by (simp_all add: checked_def)

lemma block_found:
  "map_of m key = Some (Block_store s) \<Longrightarrow> map_of s (context_key ip sid) = Some b \<Longrightarrow> now \<le> bk_blockedUntil b
   \<Longrightarrow> fst (isSessionBlocked now ip sid m)"
proof (induction m)
  case (Cons e m)
  then show ?case using checked_in_force(2) [OF Cons.prems(2,3) refl]
    by (cases e) (auto simp: isSessionBlocked_Cons split: if_splits)
qed simp

lemma block_kept:
  "map_of m key = Some (Block_store s) \<Longrightarrow> map_of s k = Some b \<Longrightarrow> now \<le> bk_blockedUntil b
   \<Longrightarrow> \<exists>s'. map_of (snd (isSessionBlocked now ip sid m)) key = Some (Block_store s') \<and> map_of s' k = Some b"
proof (induction m)
  case (Cons e m)
  then show ?case using checked_in_force(1) [OF Cons.prems(2,3), of ip sid]
    by (cases e) (auto simp: isSessionBlocked_Cons split: if_splits)
qed simp

lemma holds_block_found: "holds_block (context_key ip sid) u m \<Longrightarrow> now \<le> u \<Longrightarrow> fst (isSessionBlocked now ip sid m)"
  unfolding holds_block_def using block_found by (meson order_trans)

lemma holds_block_check: "holds_block k u m \<Longrightarrow> now \<le> u \<Longrightarrow> holds_block k u (snd (isSessionBlocked now ip sid m))"
  unfolding holds_block_def using block_kept by (meson order_trans)

lemma map_of_filter_keep: "map_of s k = Some b \<Longrightarrow> P (k, b) \<Longrightarrow> map_of (filter P s) k = Some b"
  by (induction s) auto

lemma block_execute_keeps:
  assumes "map_of s k = Some b" and "now \<le> bk_blockedUntil b" and "k \<noteq> context_key (cx_ipAddress cx) (cx_sessionId cx)"
  shows "map_of (fst (snd (block_execute cfg now cx s res))) k = Some b"
  using assms by (auto simp: block_execute_def Let_def ra_cleanupExpiredBlocks_def update_conv' intro!: map_of_filter_keep split: option.splits)

lemma execute_keeps_block:
  assumes "map_of s k = Some b" and "now \<le> bk_blockedUntil b" and "k \<noteq> context_key (cx_ipAddress cx) (cx_sessionId cx)"
  shows "\<exists>s'. fst (snd (action_execute t cfg now token cx (Block_store s) res)) = Block_store s' \<and> map_of s' k = Some b"
  using assms block_execute_keeps by (cases t) (auto simp: split_def Let_def)

lemma run_keeps_block:
  assumes "now \<le> u" and "k \<noteq> context_key (cx_ipAddress cx) (cx_sessionId cx)"
  shows "holds_block k u m \<Longrightarrow> instances_ok m \<Longrightarrow> holds_block k u (fst (snd (run_actions now token cx as rep m res)))"
proof (induction as arbitrary: rep m res)
  case (Cons a as)
  show ?case
  proof (cases "getActionInstance (ra_type a) (ra_config a) m")
    case (Some p)
    let ?key = "(ra_type a, ra_config a)"
    obtain st m' where p: "p = (st, m')" by fastforce
    obtain r st2 res2 where e: "action_execute (ra_type a) (ra_config a) now token cx st res = (r, st2, res2)" by (metis prod.exhaust)
    note inst = getActionInstance_ok [OF Cons.prems(2) Some [unfolded p]]
    obtain key s b where h: "map_of m key = Some (Block_store s)" "map_of s k = Some b" "u \<le> bk_blockedUntil b"
      using Cons.prems(1) by (auto simp: holds_block_def)
    have "holds_block k u (map_set ?key st2 m')"
    proof (cases "key = ?key")
      case True
      then have "st = Block_store s" using Some h(1) p by (simp add: getActionInstance_def)
      then obtain s' where "st2 = Block_store s'" "map_of s' k = Some b"
        using execute_keeps_block [of s k b now cx "ra_type a" "ra_config a" token res] h assms e by auto
      then show ?thesis unfolding holds_block_def inst(3) using h(3) by (metis fun_upd_same)
    next
      case False
      then show ?thesis unfolding holds_block_def inst(3) using h by (metis fun_upd_other)
    qed
    moreover have "same_class st st2" using execute_class [of st "ra_type a" "ra_config a" now token cx res] by (simp add: e)
    then have "instances_ok (map_set ?key st2 m')" using inst(1,2) same_class_trans by blast
    ultimately show ?thesis using Cons.IH by (simp add: Some p e Let_def)
  qed (use Cons in simp)
qed simp

section \<open>Requests\<close>

definition request_context :: "response_request \<Rightarrow> action_context" where
  "request_context rq = \<lparr>cx_sessionId = rq_session rq, cx_riskScore = rq_risk rq, cx_userId = rq_user rq, cx_ipAddress = rq_ip rq\<rparr>"

definition request_key :: "response_request \<Rightarrow> string" where
  "request_key rq = context_key (rq_ip rq) (rq_session rq)"

lemma selectResponseTier_risk: "selectResponseTier now r sid g = Some d \<Longrightarrow> rd_riskScore d = r \<and> rd_sessionId d = sid \<and> rd_timestamp d = now"
  by (auto simp: selectResponseTier_def Let_def split: option.splits)

text \<open>The four ways a request is handled.\<close>

lemma executeResponse_cases:
  assumes "executeResponse rq res g = (rep, res', g')"
  obtains (disabled) "\<not> rc_enabled (rg_config g)" "g' = g" "rep = empty_report"
  | (blocked) m where "isSessionBlocked (rq_now rq) (rq_ip rq) (rq_session rq) (rg_instances g) = (True, m)" "g' = g\<lparr>rg_instances := m\<rparr>"
      "(rep, res') = handleBlockedSession (rq_session rq) res"
  | (no_tier) m where "isSessionBlocked (rq_now rq) (rq_ip rq) (rq_session rq) (rg_instances g) = (False, m)" "g' = g\<lparr>rg_instances := m\<rparr>"
      "selectResponseTier (rq_now rq) (rq_risk rq) (rq_session rq) (g\<lparr>rg_instances := m\<rparr>) = None" "rep = empty_report"
  | (responded) m d m' where "isSessionBlocked (rq_now rq) (rq_ip rq) (rq_session rq) (rg_instances g) = (False, m)"
      "selectResponseTier (rq_now rq) (rq_risk rq) (rq_session rq) (g\<lparr>rg_instances := m\<rparr>) = Some d"
      "executeResponseActions (rq_now rq) (rq_token rq) (request_context rq) d m res = (rep, m', res')"
      "g' = (recordResponse d (rq_latency rq) (g\<lparr>rg_instances := m'\<rparr>))\<lparr>rg_metrics := rg_updateMetrics d (rq_latency rq) (rg_metrics g)\<rparr>"
proof (cases "rc_enabled (rg_config g)")
  case False
  then show ?thesis using assms by (intro disabled) (auto simp: executeResponse_def)
next
  case True
  obtain b m where s: "isSessionBlocked (rq_now rq) (rq_ip rq) (rq_session rq) (rg_instances g) = (b, m)" by fastforce
  show ?thesis
  proof (cases b)
    case True
    with \<open>rc_enabled (rg_config g)\<close> s assms show ?thesis by (intro blocked) (auto simp: executeResponse_def split_def Let_def)
  next
    case nb: False
    show ?thesis
    proof (cases "selectResponseTier (rq_now rq) (rq_risk rq) (rq_session rq) (g\<lparr>rg_instances := m\<rparr>)")
      case None
      with True s nb assms show ?thesis by (intro no_tier) (auto simp: executeResponse_def)
    next
      case (Some d)
      obtain rep' m' res'' where e: "executeResponseActions (rq_now rq) (rq_token rq) (request_context rq) d m res = (rep', m', res'')"
        by (metis prod.exhaust)
      have "(rep', res'', (recordResponse d (rq_latency rq) (g\<lparr>rg_instances := m'\<rparr>))\<lparr>rg_metrics := rg_updateMetrics d (rq_latency rq) (rg_metrics g)\<rparr>)
        = (rep, res', g')"
        using True s nb assms Some e selectResponseTier_risk [OF Some]
        by (simp add: executeResponse_def request_context_def Let_def recordResponse_def)
      with s nb Some e show ?thesis by (intro responded) auto
    qed
  qed
qed

lemma recordResponse_simps [simp]:
  "rg_instances (recordResponse d l g) = rg_instances g" "rg_config (recordResponse d l g) = rg_config g"
  "rg_metrics (recordResponse d l g) = rg_metrics g"
  by (simp_all add: recordResponse_def Let_def)

lemma executeResponse_config: "executeResponse rq res g = (rep, res', g') \<Longrightarrow> rg_config g' = rg_config g"
  by (erule executeResponse_cases) simp_all

lemma executeResponse_ok [keeps_inv]:
  assumes "executeResponse rq res g = (rep, res', g')" and "instances_ok (rg_instances g)"
  shows "instances_ok (rg_instances g')"
  using assms(1)
proof (cases rule: executeResponse_cases)
  case (responded m d m')
  then show ?thesis
    using isSessionBlocked_ok [OF assms(2), of "rq_now rq" "rq_ip rq" "rq_session rq"]
      run_actions_ok [of m "rq_now rq" "rq_token rq" "request_context rq" "sort_key ra_severity (rd_actions d)" empty_report res]
    by (simp add: executeResponseActions_def)
qed (use assms(2) isSessionBlocked_ok [OF assms(2), of "rq_now rq" "rq_ip rq" "rq_session rq"] in simp_all)

lemma executeResponse_keeps_block:
  assumes "executeResponse rq res g = (rep, res', g')" and "instances_ok (rg_instances g)"
    and "holds_block k u (rg_instances g)" and "rq_now rq \<le> u"
  shows "holds_block k u (rg_instances g')"
  using assms(1)
proof (cases rule: executeResponse_cases)
  case (responded m d m')
  have "k \<noteq> request_key rq"
    using responded(1) holds_block_found [OF _ assms(4)] assms(3) by (fastforce simp: request_key_def)
  then show ?thesis
    using responded holds_block_check [OF assms(3,4), of "rq_ip rq" "rq_session rq"]
      isSessionBlocked_ok [OF assms(2), of "rq_now rq" "rq_ip rq" "rq_session rq"]
      run_keeps_block [OF assms(4), of k "request_context rq" m "rq_token rq" "sort_key ra_severity (rd_actions d)" empty_report res]
    by (simp add: executeResponseActions_def request_key_def request_context_def)
qed (use assms(3) holds_block_check [OF assms(3,4), of "rq_ip rq" "rq_session rq"] in simp_all)

inductive reachable_engine :: "response_engine \<Rightarrow> bool" where
  start: "reachable_engine (new_engine cfg)"
| respond: "reachable_engine g \<Longrightarrow> executeResponse rq res g = (rep, res', g') \<Longrightarrow> reachable_engine g'"
| configure: "reachable_engine g \<Longrightarrow> reachable_engine (updateConfiguration en ts g)"

lemma reachable_instances_ok: "reachable_engine g \<Longrightarrow> instances_ok (rg_instances g)"
  by (induction rule: reachable_engine.induct)
     (auto simp: new_engine_def instances_ok_def updateConfiguration_def dest: executeResponse_ok [unfolded instances_ok_def])

section \<open>The default tiers\<close>

definition tier_level :: "real \<Rightarrow> response_level" where
  "tier_level r = (if r \<le> 3/10 then Monitor else if r \<le> 5/10 then Warn else if r \<le> 7/10 then Restrict else if r \<le> 85/100 then Block else Isolate)"

lemma find_default_level:
  "List.find (\<lambda>t. rt_level t = l) (default_tiers a b c d) = Some t \<Longrightarrow> rt_level t = l"
  "\<exists>t. List.find (\<lambda>t. rt_level t = l) (default_tiers a b c d) = Some t"
proof -
  show "rt_level t = l" if "List.find (\<lambda>t. rt_level t = l) (default_tiers a b c d) = Some t"
    using that by (auto simp: find_Some_iff)
  show "\<exists>t. List.find (\<lambda>t. rt_level t = l) (default_tiers a b c d) = Some t"
    by (cases l) (simp_all add: default_tiers_def)
qed

lemma matching_default:
  assumes "0 \<le> r" and "r \<le> 1"
  shows "\<exists>t. matching_tier r (rc_tiers getDefaultResponseConfiguration) = Some t \<and> rt_level t = tier_level r"
proof -
  consider "r \<le> 3/10" | "3/10 < r" "r \<le> 5/10" | "5/10 < r" "r \<le> 7/10" | "7/10 < r" "r \<le> 85/100" | "85/100 < r" by linarith
  then show ?thesis
    using assms by cases (simp_all add: matching_tier_def getDefaultResponseConfiguration_def default_tiers_def tier_level_def)
qed

lemma default_tier_of:
  assumes "selectResponseTier now r sid g = Some d" and "rg_config g = getDefaultResponseConfiguration"
  shows "rd_tier d \<in> set (rc_tiers getDefaultResponseConfiguration)" and "rd_actions d = rt_actions (rd_tier d)"
proof -
  have mem: "List.find P xs = Some x \<Longrightarrow> x \<in> set xs" for P :: "response_tier \<Rightarrow> bool" and x xs by (auto simp: find_Some_iff)
  obtain t where t: "matching_tier r (rc_tiers getDefaultResponseConfiguration) = Some t"
    and d: "rd_tier d = applyEscalationLogic now getDefaultResponseConfiguration t (getResponseHistory sid g)"
      "rd_actions d = filter ra_enabled (rt_actions (rd_tier d))"
    using assms by (auto simp: selectResponseTier_def Let_def split: option.splits)
  then show tier: "rd_tier d \<in> set (rc_tiers getDefaultResponseConfiguration)"
    by (auto simp: applyEscalationLogic_def matching_tier_def dest: mem split: option.splits)
  have "\<forall>t \<in> set (rc_tiers getDefaultResponseConfiguration). \<forall>a \<in> set (rt_actions t). ra_enabled a"
    by (simp add: getDefaultResponseConfiguration_def default_tiers_def log_action_def rate_action_def block_action_def alert_action_def)
  then show "rd_actions d = rt_actions (rd_tier d)" using tier unfolding d(2) by (simp add: filter_id_conv)
qed

lemma blocking_tier_actions:
  assumes "t \<in> set (rc_tiers getDefaultResponseConfiguration)" and "rt_level t = Block \<or> rt_level t = Isolate"
  obtains sv dur msg url al where "rt_actions t = [log_action, block_action sv dur msg url, al]" "1 \<le> sv" "sv \<le> ra_severity al" "900000 \<le> dur"
  using assms unfolding getDefaultResponseConfiguration_def default_tiers_def by (auto simp: alert_action_def)

lemma sorted_blocking:
  "1 \<le> sv \<Longrightarrow> sv \<le> ra_severity al \<Longrightarrow> sort_key ra_severity [log_action, block_action sv dur msg url, al] = [log_action, block_action sv dur msg url, al]"
  by (rule sort_key_id_if_sorted) (simp add: log_action_def block_action_def)

lemma run_blocking:
  assumes "instances_ok m" and "0 \<le> dur"
  shows "\<exists>rep m' res. run_actions now token cx [log_action, block_action sv dur msg url, al] empty_report m None = (rep, m', Some res)
    \<and> er_success rep \<and> er_actionsExecuted rep = [Executed Log_only, Executed Temporary_block] \<and> hp_status res = 403
    \<and> holds_block (context_key (cx_ipAddress cx) (cx_sessionId cx)) (now + dur) m'"
proof -
  let ?lg = "(Log_only, no_settings)"
  define bc where "bc = \<lparr>bs_duration = dur, bs_message = msg, bs_redirectUrl = Some url\<rparr>"
  define cfg where "cfg = no_settings\<lparr>ac_block := Some bc\<rparr>"
  obtain st m1 where g1: "getActionInstance Log_only no_settings m = Some (st, m1)"
    by (cases "map_of m ?lg") (simp_all add: getActionInstance_def)
  define m2 where "m2 = map_set ?lg st m1"
  have ok2: "instances_ok m2" using getActionInstance_ok(1,2) [OF assms(1) g1] by (simp add: m2_def)
  obtain st' m3 where g2: "getActionInstance Temporary_block cfg m2 = Some (st', m3)"
    by (cases "map_of m2 (Temporary_block, cfg)") (simp_all add: getActionInstance_def)
  then obtain s where st': "st' = Block_store s"
    using getActionInstance_ok(1) [OF ok2 g2] by (cases st') (simp_all add: same_class_def)
  obtain r s' res where e: "block_execute cfg now cx s None = (r, s', res)" by (metis prod.exhaust)
  have r: "r = Block_applied dur" "\<exists>hp. res = Some hp \<and> hp_status hp = 403"
    using e by (auto simp: block_execute_def cfg_def bc_def Let_def send_reply_def)
  have "map_of s' (context_key (cx_ipAddress cx) (cx_sessionId cx)) = Some \<lparr>bk_blockedUntil = now + dur, bk_reason = block_reason bc\<rparr>"
    using block_execute_store [of cfg bc now cx s None] assms(2) e by (simp add: cfg_def bc_def)
  then have "holds_block (context_key (cx_ipAddress cx) (cx_sessionId cx)) (now + dur) (map_set (Temporary_block, cfg) (Block_store s') m3)"
    unfolding holds_block_def getActionInstance_ok(3) [OF ok2 g2] by (metis block_entry.select_convs(1) fun_upd_same order_refl)
  with r show ?thesis
    by (auto simp: log_action_def block_action_def g1 g2 st' e empty_report_def isBlockingAction_def outcome_success_def Let_def
        simp flip: m2_def cfg_def bc_def)
qed

text \<open>A request that the default tiers answer with a block.\<close>

lemma respond_with_block:
  assumes "executeResponse rq None g = (rep, res, g')" and "instances_ok (rg_instances g)"
    and "rg_config g = getDefaultResponseConfiguration"
    and "isSessionBlocked (rq_now rq) (rq_ip rq) (rq_session rq) (rg_instances g) = (False, m)"
    and "selectResponseTier (rq_now rq) (rq_risk rq) (rq_session rq) (g\<lparr>rg_instances := m\<rparr>) = Some d"
    and "rt_level (rd_tier d) = Block \<or> rt_level (rd_tier d) = Isolate"
  shows "er_success rep \<and> er_actionsExecuted rep = [Executed Log_only, Executed Temporary_block] \<and> map_option hp_status res = Some 403
    \<and> holds_block (request_key rq) (rq_now rq + 900000) (rg_instances g')"
proof -
  have cfg: "rg_config (g\<lparr>rg_instances := m\<rparr>) = getDefaultResponseConfiguration" using assms(3) by simp
  obtain sv dur msg url al where a: "rt_actions (rd_tier d) = [log_action, block_action sv dur msg url, al]" "1 \<le> sv" "sv \<le> ra_severity al" "900000 \<le> dur"
    using blocking_tier_actions [OF default_tier_of(1) [OF assms(5) cfg] assms(6)] by blast
  have ok: "instances_ok m" using isSessionBlocked_ok [OF assms(2), of "rq_now rq" "rq_ip rq" "rq_session rq"] assms(4) by simp
  obtain rep' m' hp where run: "executeResponseActions (rq_now rq) (rq_token rq) (request_context rq) d m None = (rep', m', Some hp)"
    "er_success rep'" "er_actionsExecuted rep' = [Executed Log_only, Executed Temporary_block]" "hp_status hp = 403"
    "holds_block (context_key (cx_ipAddress (request_context rq)) (cx_sessionId (request_context rq))) (rq_now rq + dur) m'"
    using run_blocking [OF ok, of dur "rq_now rq" "rq_token rq" "request_context rq" sv msg url al] a(4)
    unfolding executeResponseActions_def default_tier_of(2) [OF assms(5) cfg] a(1) sorted_blocking [OF a(2,3)] by auto
  have hold: "holds_block (request_key rq) (rq_now rq + 900000) m'"
    using run(5) a(4) unfolding holds_block_def request_key_def request_context_def by fastforce
  from assms(1) show ?thesis
  proof (cases rule: executeResponse_cases)
    case (responded n d' n')
    have "n = m" using responded(1) assms(4) by simp
    moreover have "d' = d" using responded(2) assms(5) unfolding \<open>n = m\<close> by simp
    ultimately show ?thesis using responded(3,4) run hold by auto
  qed (use assms(3-5) in \<open>auto simp: getDefaultResponseConfiguration_def\<close>)
qed

lemma run_executed: "Executed t \<in> set (er_actionsExecuted (fst (run_actions now token cx as rep m res)))
  \<Longrightarrow> Executed t \<in> set (er_actionsExecuted rep) \<or> t \<in> ra_type ` set as"
proof (induction as arbitrary: rep m res)
  case (Cons a as)
  show ?case
  proof (cases "getActionInstance (ra_type a) (ra_config a) m")
    case None
    then show ?thesis using Cons.prems Cons.IH by fastforce
  next
    case (Some p)
    obtain r st2 res2 where e: "action_execute (ra_type a) (ra_config a) now token cx (fst p) res = (r, st2, res2)" by (metis prod.exhaust)
    from Cons.prems show ?thesis
      by (cases p; cases "outcome_success r \<and> isBlockingAction (ra_type a)") (use e in \<open>auto simp: Some Let_def dest!: Cons.IH\<close>)
  qed
qed simp

text \<open>Only the two highest default tiers have a blocking action.\<close>

lemma only_blocking_tiers:
  assumes "selectResponseTier now r sid g = Some d" and "rg_config g = getDefaultResponseConfiguration"
    and "run_actions now' token cx (sort_key ra_severity (rd_actions d)) empty_report m res = (rep, m', res')"
    and "Executed Temporary_block \<in> set (er_actionsExecuted rep)"
  shows "rt_level (rd_tier d) = Block \<or> rt_level (rd_tier d) = Isolate"
proof -
  have "Temporary_block \<in> ra_type ` set (rt_actions (rd_tier d))"
    using run_executed [of Temporary_block now' token cx "sort_key ra_severity (rd_actions d)" empty_report m res] assms(3,4)
    unfolding default_tier_of(2) [OF assms(1,2)] by (simp add: empty_report_def)
  then show ?thesis using default_tier_of(1) [OF assms(1,2)]
    by (auto simp: getDefaultResponseConfiguration_def default_tiers_def log_action_def rate_action_def alert_action_def)
qed

lemma response_tier_of:
  assumes "0 \<le> r" and "r \<le> 1" and "rg_config g = getDefaultResponseConfiguration"
  shows "\<exists>d. selectResponseTier now r sid g = Some d
    \<and> rt_level (rd_tier d) = (if 3 \<le> length (recent_violations now (getResponseHistory sid g)) then getNextEscalationLevel (tier_level r) else tier_level r)"
proof -
  obtain t where t: "matching_tier r (rc_tiers (rg_config g)) = Some t" "rt_level t = tier_level r"
    using matching_default [OF assms(1,2)] assms(3) by auto
  obtain e where e: "List.find (\<lambda>u. rt_level u = getNextEscalationLevel (tier_level r)) (rc_tiers (rg_config g)) = Some e"
    and "rt_level e = getNextEscalationLevel (tier_level r)"
    using find_default_level [of "getNextEscalationLevel (tier_level r)" "3/10" "5/10" "7/10" "85/100"]
    unfolding assms(3) getDefaultResponseConfiguration_def response_configuration.select_convs by blast
  then show ?thesis by (simp add: selectResponseTier_def t Let_def applyEscalationLogic_def)
qed

section \<open>Properties\<close>

text \<open>
  With the default configuration every risk score between 0 and 1 selects a tier, a score on a boundary the milder one, and the tier is one
  level higher when the session has had three or more responses in the last five minutes, whatever these were.
\<close>
theorem response_tier_table:
  assumes "0 \<le> r" and "r \<le> 1" and "rg_config g = getDefaultResponseConfiguration"
  shows "\<exists>d. selectResponseTier now r sid g = Some d
    \<and> rt_level (rd_tier d) = (if 3 \<le> length (recent_violations now (getResponseHistory sid g)) then getNextEscalationLevel (tier_level r) else tier_level r)"
  by (rule response_tier_of [OF assms])

text \<open>
  In the two highest default tiers the administrators are never alerted: the temporary block runs before the alert, succeeds, and
  ends the loop.
\<close>
theorem block_silences_alert:
  assumes "reachable_engine g" and "rg_config g = getDefaultResponseConfiguration" and "0 \<le> rq_risk rq" and "rq_risk rq \<le> 1"
    and "7/10 < rq_risk rq" and "executeResponse rq None g = (rep, res, g')"
  shows "er_actionsExecuted rep = [Session_block_enforced] \<or> er_actionsExecuted rep = [Executed Log_only, Executed Temporary_block]"
proof -
  obtain b m where s: "isSessionBlocked (rq_now rq) (rq_ip rq) (rq_session rq) (rg_instances g) = (b, m)" by fastforce
  have en: "rc_enabled (rg_config g)" by (simp add: assms(2) getDefaultResponseConfiguration_def)
  show ?thesis
  proof (cases b)
    case True
    then show ?thesis using assms(6) s en by (auto simp: executeResponse_def handleBlockedSession_def send_reply_def empty_report_def)
  next
    case False
    have cfg: "rg_config (g\<lparr>rg_instances := m\<rparr>) = getDefaultResponseConfiguration" using assms(2) by simp
    obtain d where d: "selectResponseTier (rq_now rq) (rq_risk rq) (rq_session rq) (g\<lparr>rg_instances := m\<rparr>) = Some d"
      "rt_level (rd_tier d) = Block \<or> rt_level (rd_tier d) = Isolate"
      using response_tier_of [OF assms(3,4) cfg, of "rq_now rq" "rq_session rq"] assms(5) by (auto simp: tier_level_def split: if_splits)
    then show ?thesis using respond_with_block [OF assms(6) reachable_instances_ok [OF assms(1)] assms(2) _ d] s False by simp
  qed
qed

definition answer_requests :: "(response_request \<times> http_response) list \<Rightarrow> response_engine \<Rightarrow> response_engine" where
  "answer_requests rqs g = fold (\<lambda>(rq, res) g. snd (snd (executeResponse rq res g))) rqs g"

lemma answer_requests_keeps:
  assumes "holds_block k u (rg_instances g)" and "instances_ok (rg_instances g)" and "list_all (\<lambda>(rq, res). rq_now rq \<le> u) rqs"
  shows "holds_block k u (rg_instances (answer_requests rqs g)) \<and> rg_config (answer_requests rqs g) = rg_config g"
  using assms unfolding answer_requests_def
proof (induction rqs arbitrary: g)
  case (Cons x rqs)
  obtain rq res where x: "x = (rq, res)" by fastforce
  obtain rep res' g' where e: "executeResponse rq res g = (rep, res', g')" by (metis prod.exhaust)
  have "holds_block k u (rg_instances g')" "instances_ok (rg_instances g')" "rg_config g' = rg_config g"
    using executeResponse_keeps_block [OF e Cons.prems(2,1)] executeResponse_ok [OF e Cons.prems(2)] executeResponse_config [OF e] Cons.prems(3) x
    by auto
  then show ?case using Cons.IH [of g'] Cons.prems(3) by (simp add: x e)
qed simp

text \<open>
  C27. A block is in force for its time: once a request has been answered by a block under the default configuration, every request of
  the same address and session in the following fifteen minutes gets the 403 of a blocked session, whatever its risk and whatever requests of
  this or other sessions come in between.
\<close>
theorem block_enforced:
  assumes "reachable_engine g" and "rg_config g = getDefaultResponseConfiguration"
    and "executeResponse rq None g = (rep, res, g')" and "Executed Temporary_block \<in> set (er_actionsExecuted rep)"
    and "list_all (\<lambda>(q, r). rq_now q \<le> rq_now rq + 900000) rqs" and "rq_now rq' \<le> rq_now rq + 900000"
    and "rq_ip rq' = rq_ip rq" and "rq_session rq' = rq_session rq"
  shows "er_actionsExecuted (fst (executeResponse rq' None (answer_requests rqs g'))) = [Session_block_enforced]
    \<and> map_option hp_status (fst (snd (executeResponse rq' None (answer_requests rqs g')))) = Some 403"
proof -
  have hold: "holds_block (request_key rq) (rq_now rq + 900000) (rg_instances g')"
    using assms(3)
  proof (cases rule: executeResponse_cases)
    case (responded m d m')
    have "rt_level (rd_tier d) = Block \<or> rt_level (rd_tier d) = Isolate"
      using responded(2,3) assms(2,4) only_blocking_tiers by (simp add: executeResponseActions_def)
    then show ?thesis
      using respond_with_block [OF assms(3) reachable_instances_ok [OF assms(1)] assms(2) responded(1,2)] by simp
  qed (use assms(4) in \<open>auto simp: empty_report_def handleBlockedSession_def send_reply_def\<close>)
  let ?g = "answer_requests rqs g'"
  have ok: "instances_ok (rg_instances g')" using executeResponse_ok [OF assms(3) reachable_instances_ok [OF assms(1)]] .
  have "fst (isSessionBlocked (rq_now rq') (rq_ip rq') (rq_session rq') (rg_instances ?g))"
    using answer_requests_keeps [OF hold ok assms(5)] holds_block_found assms(6-8) by (metis request_key_def)
  moreover have "rc_enabled (rg_config ?g)"
    using answer_requests_keeps [OF hold ok assms(5)] executeResponse_config [OF assms(3)] assms(2) by (simp add: getDefaultResponseConfiguration_def)
  ultimately show ?thesis
    by (auto simp: executeResponse_def handleBlockedSession_def send_reply_def empty_report_def split_def Let_def)
qed

text \<open>
  In every reachable engine the history of a session has at most 50 entries and the counts of the five levels add up to the total.
\<close>
theorem engine_invariant:
  assumes "reachable_engine g"
  shows "list_all (\<lambda>(sid, h). length h \<le> 50) (rg_history g)
    \<and> sum_list (map (rm_responsesByTier (rg_metrics g)) [Monitor, Warn, Restrict, Block, Isolate]) = rm_totalResponses (rg_metrics g)"
  using assms
proof (induction rule: reachable_engine.induct)
  case (start cfg)
  then show ?case by (simp add: new_engine_def rg_initializeMetrics_def)
next
  case (respond g rq res rep res' g')
  from respond.hyps(2) show ?case
  proof (cases rule: executeResponse_cases)
    case (responded m d m')
    have "length (getResponseHistory sid g) \<le> 50" for sid
      using respond.IH by (auto simp: getResponseHistory_def list_all_iff dest!: map_of_SomeD split: option.splits)
    then have "list_all (\<lambda>(sid, h). length h \<le> 50) (rg_history g')"
      using respond.IH set_update_subset unfolding responded(4) recordResponse_def list_all_iff Let_def by (fastforce simp: getResponseHistory_def)
    moreover have "sum_list (map (rm_responsesByTier (rg_metrics g')) [Monitor, Warn, Restrict, Block, Isolate]) = rm_totalResponses (rg_metrics g')"
      using respond.IH unfolding responded(4) by (cases "rt_level (rd_tier d)") (simp_all add: rg_updateMetrics_def Let_def)
    ultimately show ?thesis by simp
  qed (use respond.IH in simp_all)
qed (simp add: updateConfiguration_def)

section \<open>Witnesses\<close>

definition demo_engine :: response_engine where
  "demo_engine = new_engine getDefaultResponseConfiguration"

definition demo_rq :: response_request where
  "demo_rq = \<lparr>rq_now = 0, rq_latency = 5, rq_token = [], rq_risk = 8/10, rq_session = ''s'', rq_user = None, rq_ip = ''10.0.0.1''\<rparr>"

lemma demo_rq_simps:
  "rq_now demo_rq = 0" "rq_risk demo_rq = 8/10" "rq_session demo_rq = ''s''" "rq_ip demo_rq = ''10.0.0.1''"
  by (simp_all add: demo_rq_def)

lemma demo_engine_simps: "reachable_engine demo_engine" "rg_config demo_engine = getDefaultResponseConfiguration" "rg_instances demo_engine = []"
  by (simp_all add: demo_engine_def start) (simp_all add: new_engine_def)

lemma demo_blocked: "er_actionsExecuted (fst (executeResponse demo_rq None demo_engine)) = [Executed Log_only, Executed Temporary_block]"
proof -
  obtain rep res g' where e: "executeResponse demo_rq None demo_engine = (rep, res, g')" by (metis prod.exhaust)
  have cfg: "rg_config (demo_engine\<lparr>rg_instances := []\<rparr>) = getDefaultResponseConfiguration" by (simp add: demo_engine_simps)
  have h: "getResponseHistory ''s'' (demo_engine\<lparr>rg_instances := []\<rparr>) = []" by (simp add: getResponseHistory_def demo_engine_def new_engine_def)
  obtain d where "selectResponseTier 0 (8/10) ''s'' (demo_engine\<lparr>rg_instances := []\<rparr>) = Some d" "rt_level (rd_tier d) = Block"
    using response_tier_of [of "8/10" "demo_engine\<lparr>rg_instances := []\<rparr>" 0 "''s''"] cfg h by (auto simp: recent_violations_def tier_level_def)
  then show ?thesis
    using respond_with_block [OF e, of "[]" d] demo_engine_simps by (simp add: e demo_rq_simps instances_ok_def)
qed

lemma demo_history: "getResponseHistory sid demo_engine = []"
  by (simp add: getResponseHistory_def demo_engine_def new_engine_def)

lemma tier_level_half: "tier_level (1/2) = Warn"
  by (simp add: tier_level_def)

theorem response_tier_table_witness:
  "\<exists>d. selectResponseTier 0 (1/2) ''s'' demo_engine = Some d \<and> rt_level (rd_tier d) = Warn"
  using response_tier_table [of "1/2" demo_engine 0 "''s''"]
  by (simp add: demo_engine_simps recent_violations_def demo_history tier_level_half)

theorem block_silences_alert_witness: "Executed Alert_admin \<notin> set (er_actionsExecuted (fst (executeResponse demo_rq None demo_engine)))"
proof -
  obtain rep res g' where e: "executeResponse demo_rq None demo_engine = (rep, res, g')" by (metis prod.exhaust)
  have "0 \<le> rq_risk demo_rq" "rq_risk demo_rq \<le> 1" "7/10 < rq_risk demo_rq" by (simp_all add: demo_rq_def)
  from block_silences_alert [OF demo_engine_simps(1,2) this e] show ?thesis by (auto simp: e)
qed

theorem block_enforced_witness:
  "er_actionsExecuted (fst (executeResponse (demo_rq\<lparr>rq_now := 900000, rq_risk := 0\<rparr>) None
     (answer_requests [(demo_rq\<lparr>rq_session := ''t''\<rparr>, None)] (snd (snd (executeResponse demo_rq None demo_engine)))))) = [Session_block_enforced]"
proof -
  obtain rep res g' where e: "executeResponse demo_rq None demo_engine = (rep, res, g')" by (metis prod.exhaust)
  have "Executed Temporary_block \<in> set (er_actionsExecuted rep)" using demo_blocked by (simp add: e)
  from block_enforced [OF demo_engine_simps(1,2) e this, of "[(demo_rq\<lparr>rq_session := ''t''\<rparr>, None)]" "demo_rq\<lparr>rq_now := 900000, rq_risk := 0\<rparr>"]
  show ?thesis by (simp add: e demo_rq_simps)
qed

theorem engine_invariant_witness:
  "list_all (\<lambda>(sid, h). length h \<le> 50) (rg_history (snd (snd (executeResponse demo_rq None demo_engine))))"
proof -
  obtain rep res g' where e: "executeResponse demo_rq None demo_engine = (rep, res, g')" by (metis prod.exhaust)
  from engine_invariant [OF respond [OF demo_engine_simps(1) e]] show ?thesis by (simp add: e)
qed

end
