(* ===== verification/ThreatDetection.thy ===== *)
theory ThreatDetection
  imports RiskScoring BehavioralAnalysis StatisticalAnalysis RelationshipAnalysis ResponseEngine
begin

text \<open>
  The threat detection engine, \<^verbatim>\<open>backend/src/core/ThreatDetectionEngine.ts\<close>: one request goes through the three analyzers, the risk scoring and
  the response engine.

  The neural network (TensorFlow) is a package the sources call; the method that would ask it is not used by the request path, and its prediction is an
  argument here. Everything a request reads from clocks, random numbers and the geographic data base is the record \<open>threat_input\<close>. The analyzers' own Redis clients
  are created and never connected, so they have nothing stored. The analyzers and the risk scoring catch their exceptions; what remains for the
  \<^verbatim>\<open>catch\<close> of \<^verbatim>\<open>detectThreats\<close> is a response engine that rejects.
\<close>

section \<open>Types\<close>

record scoring_breakdown =
  sb_scores :: base_scores
  sb_contextualAdjustment :: real

record td_assessment =
  ta_threatScore :: real
  ta_confidence :: real
  ta_threatType :: "string list"
  ta_recommendations :: "string list"
  ta_riskLevel :: assessed_level
  ta_timestamp :: time_ms
  ta_sessionId :: string
  ta_userId :: "string option"
  ta_ipAddress :: address
  ta_userAgent :: string
  ta_requestPath :: string
  ta_requestMethod :: string
  ta_contextualRisk :: "contextual_risk option"
  ta_riskContext :: "risk_context option"
  ta_scoringBreakdown :: "scoring_breakdown option"
  ta_responseExecution :: "execution_report option"

record detection_metrics =
  dm_totalRequests :: nat
  dm_threatsDetected :: nat
  dm_falsePositives :: nat
  dm_averageResponseTime :: real
  dm_accuracy :: real

record threat_engine =
  te_behavioral :: behavior_cache
  te_statistical :: statistical
  te_relationship :: relationship_analyzer
  te_risk :: risk_engine
  te_response :: response_engine
  te_metrics :: detection_metrics

record threat_input =
  ti_request :: incoming_request
  ti_sessionId :: string
  ti_json :: string
  ti_lookup :: geo_lookup
  ti_now :: time_ms
  ti_behavior :: reading
  ti_statistics :: sa_reading
  ti_attackId :: string
  ti_moment :: moment
  ti_responseTime :: int
  ti_latency :: int
  ti_token :: string
  ti_errorSessionId :: string

definition new_threat_engine :: "risk_config option \<Rightarrow> bool \<Rightarrow> threat_engine" where
  "new_threat_engine cfg isDevelopment =
     \<lparr>te_behavioral = [], te_statistical = initializeBaselineMetrics None new_statistical, te_relationship = new_relationship_analyzer,
      te_risk = new_risk_engine (case cfg of Some c \<Rightarrow> c | None \<Rightarrow> getDefaultRiskScoringConfig),
      te_response = new_engine (getResponseConfiguration isDevelopment),
      te_metrics = \<lparr>dm_totalRequests = 0, dm_threatsDetected = 0, dm_falsePositives = 0, dm_averageResponseTime = 0, dm_accuracy = 0\<rparr>\<rparr>"

section \<open>Assessment\<close>

definition identifyThreatTypes :: "real \<Rightarrow> string list" where
  "identifyThreatTypes score =
     (if score > 8/10 then [''malicious_behavior''] else []) @ (if score > 6/10 then [''suspicious_pattern''] else [])
     @ (if score > 4/10 then [''anomaly_detected''] else [])"

definition generateEnhancedThreatAssessment ::
  "time_ms \<Rightarrow> contextual_risk \<Rightarrow> threat_request_data \<Rightarrow> base_scores \<Rightarrow> risk_engine \<Rightarrow> td_assessment" where
  "generateEnhancedThreatAssessment now c q b e =
     \<lparr>ta_threatScore = cr_contextualScore c, ta_confidence = cr_confidence c, ta_threatType = identifyThreatTypes (cr_contextualScore c),
      ta_recommendations = cr_recommendations c, ta_riskLevel = cr_riskLevel c, ta_timestamp = now, ta_sessionId = q_sessionId q, ta_userId = q_userId q,
      ta_ipAddress = q_ipAddress q, ta_userAgent = q_userAgent q, ta_requestPath = q_requestPath q, ta_requestMethod = q_requestMethod q,
      ta_contextualRisk = Some c, ta_riskContext = getCachedContext (q_sessionId q) e,
      ta_scoringBreakdown = Some \<lparr>sb_scores = b, sb_contextualAdjustment = cr_contextualScore c - cr_baseScore c\<rparr>, ta_responseExecution = None\<rparr>"

definition te_updateMetrics :: "td_assessment \<Rightarrow> int \<Rightarrow> detection_metrics \<Rightarrow> detection_metrics" where
  "te_updateMetrics a responseTime m =
     (let n = dm_totalRequests m + 1
      in m\<lparr>dm_totalRequests := n, dm_threatsDetected := (if ta_threatScore a > 7/10 then dm_threatsDetected m + 1 else dm_threatsDetected m),
           dm_averageResponseTime := (dm_averageResponseTime m * (real n - 1) + of_int responseTime) / real n\<rparr>)"

definition getDefaultAssessment :: "time_ms \<Rightarrow> string \<Rightarrow> incoming_request \<Rightarrow> td_assessment" where
  "getDefaultAssessment now sid req =
     \<lparr>ta_threatScore = 1/10, ta_confidence = 5/10, ta_threatType = [], ta_recommendations = [''Continue monitoring''], ta_riskLevel = Low_risk,
      ta_timestamp = now, ta_sessionId = sid, ta_userId = None, ta_ipAddress = Some (text_or (hq_ip req) ''unknown''), ta_userAgent = text_or (hq_userAgent req) [],
      ta_requestPath = hq_path req, ta_requestMethod = hq_method req, ta_contextualRisk = None, ta_riskContext = None, ta_scoringBreakdown = None,
      ta_responseExecution = None\<rparr>"

definition detectThreats :: "threat_input \<Rightarrow> threat_engine \<Rightarrow> (td_assessment \<times> http_response) \<times> threat_engine" where
  "detectThreats i e =
     (let q = extractRequestData (ti_sessionId i) (ti_now i) (ti_json i) (ti_request i);
          (behavioralScore, bc) = behavioral_analyze (ti_behavior i, None, q) (te_behavioral e);
          (statisticalScore, sa) = statistical_analyze (\<lambda>_. None, ti_statistics i, q) (te_statistical e);
          (relationshipScore, ry) = rel_analyze \<lparr>rj_lookup = ti_lookup i, rj_now = ti_now i, rj_attackId = ti_attackId i, rj_data = q\<rparr> (te_relationship e);
          b = \<lparr>b_behavioral = behavioralScore, b_statistical = statisticalScore, b_relationship = relationshipScore\<rparr>;
          (c, rk) = calculateContextualRisk (ti_lookup i) (ti_moment i) b q (te_risk e);
          a = generateEnhancedThreatAssessment (ti_now i) c q b rk;
          metrics = te_updateMetrics a (ti_responseTime i) (te_metrics e);
          (rep, res, rg) = executeResponse \<lparr>rq_now = ti_now i, rq_latency = ti_latency i, rq_token = ti_token i, rq_risk = cr_contextualScore c,
             rq_session = ta_sessionId a, rq_user = ta_userId a, rq_ip = text_or (hq_ip (ti_request i)) ''unknown''\<rparr> None (te_response e);
          e = \<lparr>te_behavioral = bc, te_statistical = sa, te_relationship = ry, te_risk = rk, te_response = rg, te_metrics = metrics\<rparr>
      in if er_rejected rep then ((getDefaultAssessment (ti_now i) (ti_errorSessionId i) (ti_request i), res), e)
         else ((a\<lparr>ta_responseExecution := Some rep\<rparr>, res), e))"

section \<open>Combination by the network\<close>

definition weightedAverage :: "real list \<Rightarrow> jsnum" where
  "weightedAverage scores =
     fold js_add (map (\<lambda>(s, w). Fin (s * w)) (zip scores [4/10, 35/100, 25/100]) @ replicate (length scores - 3) NaN) (Fin 0)"

text \<open>\<open>predict\<close>: the network's answer on the twenty features; \<open>None\<close>: there is no model or it throws. The 17 further features are random.\<close>

definition combineScores :: "(real list \<Rightarrow> jsnum option) \<Rightarrow> real list \<Rightarrow> base_scores \<Rightarrow> jsnum" where
  "combineScores predict features b =
     (case predict ([b_behavioral b, b_statistical b, b_relationship b] @ features) of Some x \<Rightarrow> x
      | None \<Rightarrow> weightedAverage [b_behavioral b, b_statistical b, b_relationship b])"

definition te_calculateConfidence :: "real \<Rightarrow> real" where
  "te_calculateConfidence score = (if score < 3/10 then 9/10 else if score < 7/10 then 7/10 else 95/100)"

definition te_determineRiskLevel :: "real \<Rightarrow> assessed_level" where
  "te_determineRiskLevel score =
     (if score < 3/10 then Low_risk else if score < 6/10 then Medium_risk else if score < 8/10 then High_risk else Critical_risk)"

fun te_generateRecommendations :: "assessed_level \<Rightarrow> string list" where
  "te_generateRecommendations Critical_risk = [''Immediate blocking recommended'', ''Enable enhanced monitoring'']"
| "te_generateRecommendations High_risk = [''Apply rate limiting'', ''Enable CAPTCHA challenge'']"
| "te_generateRecommendations Medium_risk = [''Monitor closely'', ''Log detailed activity'']"
| "te_generateRecommendations Low_risk = []"

definition generateThreatAssessment :: "real \<Rightarrow> time_ms \<Rightarrow> threat_request_data \<Rightarrow> td_assessment" where
  "generateThreatAssessment combinedScore now q =
     (let threatScore = min combinedScore 1; l = te_determineRiskLevel threatScore
      in \<lparr>ta_threatScore = threatScore, ta_confidence = te_calculateConfidence threatScore, ta_threatType = identifyThreatTypes threatScore,
          ta_recommendations = te_generateRecommendations l, ta_riskLevel = l, ta_timestamp = now, ta_sessionId = q_sessionId q, ta_userId = q_userId q,
          ta_ipAddress = q_ipAddress q, ta_userAgent = q_userAgent q, ta_requestPath = q_requestPath q, ta_requestMethod = q_requestMethod q,
          ta_contextualRisk = None, ta_riskContext = None, ta_scoringBreakdown = None, ta_responseExecution = None\<rparr>)"

section \<open>Sessions the response engine has not seen\<close>

text \<open>\<open>clear_of k\<close>: no counter and no block for the key in an instance.\<close>

definition clear_of :: "string \<Rightarrow> action_state \<Rightarrow> bool" where
  "clear_of k st \<longleftrightarrow> (case st of Stateless \<Rightarrow> True | Rate_store s \<Rightarrow> map_of s k = None | Block_store s \<Rightarrow> map_of s k = None)"

definition unseen :: "string \<Rightarrow> response_engine \<Rightarrow> bool" where
  "unseen sid g \<longleftrightarrow> map_of (rg_history g) sid = None \<and> (\<forall>(key, st)\<in>set (rg_instances g). \<forall>ip. clear_of (context_key ip sid) st)"

lemma map_of_filter_None: "map_of m k = None \<Longrightarrow> map_of (filter P m) k = None"
  by (auto simp: map_of_eq_None_iff)

lemma execute_clear:
  assumes "clear_of k st" and "k \<noteq> context_key (cx_ipAddress cx) (cx_sessionId cx)"
  shows "clear_of k (fst (snd (action_execute t cfg now token cx st res)))"
  using assms
  by (induction t cfg now token cx st res rule: action_execute.induct)
     (auto simp: clear_of_def rate_execute_def block_execute_def ra_cleanupExpiredEntries_def ra_cleanupExpiredBlocks_def split_def Let_def update_conv'
       map_of_filter_None split: option.split)

lemma createAction_clear: "createAction t = Some st \<Longrightarrow> clear_of k st"
  by (cases t) (auto simp: clear_of_def)

lemma instance_clear:
  assumes "\<forall>(key, st)\<in>set m. clear_of k st" and "getActionInstance t c m = Some (st, m')"
  shows "clear_of k st" and "clear_of k st2 \<Longrightarrow> \<forall>(key, st)\<in>set (map_set (t, c) st2 m'). clear_of k st"
proof -
  have st: "clear_of k st \<and> (\<forall>(key, st)\<in>set m'. clear_of k st)"
  proof (cases "map_of m (t, c)")
    case (Some st')
    then show ?thesis using assms map_of_SomeD [OF Some] by (auto simp: getActionInstance_def)
  next
    case None
    then obtain "createAction t = Some st" "m' = map_set (t, c) st m" using assms(2) by (auto simp: getActionInstance_def split: option.splits)
    then show ?thesis using createAction_clear assms(1) set_update_subset [of "(t, c)" st m] by fastforce
  qed
  then show "clear_of k st" by simp
  show "\<forall>(key, st)\<in>set (map_set (t, c) st2 m'). clear_of k st" if "clear_of k st2"
    using st that set_update_subset [of "(t, c)" st2 m'] by fastforce
qed

lemma run_clear:
  assumes "k \<noteq> context_key (cx_ipAddress cx) (cx_sessionId cx)"
  shows "\<forall>(key, st)\<in>set m. clear_of k st \<Longrightarrow> \<forall>(key, st)\<in>set (fst (snd (run_actions now token cx as rep m res))). clear_of k st"
proof (induction as arbitrary: rep m res)
  case (Cons a as)
  show ?case
  proof (cases "getActionInstance (ra_type a) (ra_config a) m")
    case (Some p)
    obtain st m' where p: "p = (st, m')" by fastforce
    obtain r st2 res2 where e: "action_execute (ra_type a) (ra_config a) now token cx st res = (r, st2, res2)" by (metis prod.exhaust)
    have "clear_of k st" using instance_clear(1) [OF Cons.prems] Some p by blast
    then have "clear_of k st2" using execute_clear [OF _ assms, of st "ra_type a" "ra_config a" now token res] by (simp add: e)
    then have "\<forall>(key, st)\<in>set (map_set (ra_type a, ra_config a) st2 m'). clear_of k st"
      using instance_clear(2) [OF Cons.prems] Some p by blast
    then show ?thesis using Cons.IH by (simp add: Some p e Let_def)
  qed (use Cons in simp)
qed simp

lemma checked_clear: "clear_of k st \<Longrightarrow> clear_of k (snd (checked now ip sid st))"
  by (cases st) (auto simp: clear_of_def checked_def isBlocked_def Let_def delete_conv' split: option.split)

lemma isSessionBlocked_clear: "\<forall>(key, st)\<in>set m. clear_of k st \<Longrightarrow> \<forall>(key, st)\<in>set (snd (isSessionBlocked now ip sid m)). clear_of k st"
proof (induction m)
  case (Cons e m)
  then show ?case using checked_clear by (cases e) (auto simp: isSessionBlocked_Cons)
qed simp

lemma unseen_not_blocked: "unseen sid g \<Longrightarrow> isSessionBlocked now ip sid (rg_instances g) = (False, rg_instances g)"
proof -
  have "\<forall>(key, st)\<in>set m. clear_of (context_key ip sid) st \<Longrightarrow> isSessionBlocked now ip sid m = (False, m)" for m
  proof (induction m)
    case (Cons e m)
    have "checked now ip sid (snd e) = (False, snd e)"
      using Cons.prems by (cases e; cases "snd e") (auto simp: checked_def clear_of_def isBlocked_def)
    then show ?case using Cons by (cases e) (simp add: isSessionBlocked_Cons)
  qed simp
  then show "unseen sid g \<Longrightarrow> ?thesis" by (fastforce simp: unseen_def)
qed

text \<open>Keys of different sessions differ: session identifiers have no colon.\<close>

lemma context_key_inj:
  assumes "context_key ip sid = context_key ip' sid'" and "CHR '':'' \<notin> set sid" and "CHR '':'' \<notin> set sid'"
  shows "sid = sid'"
proof -
  have "takeWhile (\<lambda>c. c \<noteq> CHR '':'') (rev (context_key ip s)) = rev s" if "CHR '':'' \<notin> set s" for ip s
    using that by (simp add: context_key_def takeWhile_append)
  from this [OF assms(2), of ip] this [OF assms(3), of ip'] show ?thesis using assms(1) by simp
qed

lemma unseen_kept:
  assumes "executeResponse rq res g = (rep, res', g')" and "unseen sid g" and "sid \<noteq> rq_session rq" and "CHR '':'' \<notin> set sid" and "CHR '':'' \<notin> set (rq_session rq)"
  shows "unseen sid g'"
proof -
  have key: "context_key ip sid \<noteq> context_key (cx_ipAddress (request_context rq)) (cx_sessionId (request_context rq))" for ip
    using context_key_inj assms(3-5) by (fastforce simp: request_context_def)
  have inst: "\<forall>(key, st)\<in>set (rg_instances g). clear_of (context_key ip sid) st" for ip using assms(2) by (fastforce simp: unseen_def)
  have chk: "\<forall>(key, st)\<in>set (snd (isSessionBlocked (rq_now rq) (rq_ip rq) (rq_session rq) (rg_instances g))). clear_of (context_key ip sid) st" for ip
    by (rule isSessionBlocked_clear [OF inst])
  from assms(1) show ?thesis
  proof (cases rule: executeResponse_cases)
    case (responded m d m')
    have "rd_sessionId d = rq_session rq" using selectResponseTier_risk responded(2) by blast
    moreover have "\<forall>(key, st)\<in>set m'. clear_of (context_key ip sid) st" for ip
      using run_clear [OF key [of ip], of m "rq_now rq" "rq_token rq" "sort_key ra_severity (rd_actions d)" empty_report res] chk [of ip] responded(1,3)
      by (simp add: executeResponseActions_def)
    ultimately show ?thesis using assms(2,3) responded(4) by (auto simp: unseen_def recordResponse_def Let_def update_conv')
  qed (use assms(2) chk in \<open>auto simp: unseen_def\<close>)
qed

section \<open>The response to an unseen session\<close>

fun tier_steps :: "response_level \<Rightarrow> executed_step list" where
  "tier_steps Monitor = [Executed Log_only]"
| "tier_steps Warn = [Executed Log_only, Executed Rate_limit]"
| "tier_steps Restrict = [Executed Log_only, Executed Rate_limit, Executed Alert_admin]"
| "tier_steps Block = [Executed Log_only, Executed Temporary_block]"
| "tier_steps Isolate = [Executed Log_only, Executed Temporary_block]"

lemma run_rejected: "er_rejected (fst (run_actions now token cx as rep m res)) = er_rejected rep"
proof (induction as arbitrary: rep m res)
  case (Cons a as)
  then show ?case by (auto simp: split_def Let_def split: option.split)
qed simp

text \<open>Actions that neither reply nor end the loop for a client without a counter.\<close>

definition mild :: "response_action \<Rightarrow> bool" where
  "mild a \<longleftrightarrow> ra_type a = Log_only \<or> (ra_type a = Alert_admin \<and> ac_alert (ra_config a) \<noteq> None)
     \<or> (ra_type a = Rate_limit \<and> (case ac_rateLimit (ra_config a) of None \<Rightarrow> False | Some rc \<Rightarrow> rs_requests rc > 0))"

lemma mild_execute:
  assumes "mild a" and "createAction (ra_type a) = Some st'" and "same_class st' st" and "clear_of (context_key (cx_ipAddress cx) (cx_sessionId cx)) st"
  shows "\<exists>r st2. action_execute (ra_type a) (ra_config a) now token cx st res = (r, st2, res) \<and> outcome_success r \<and> same_class st st2 \<and> \<not> isBlockingAction (ra_type a)"
proof (cases "ra_type a = Rate_limit")
  case True
  then obtain s where st: "st = Rate_store s" using assms(2,3) by (cases st) (auto simp: same_class_def)
  have "map_of (ra_cleanupExpiredEntries w s) (context_key (cx_ipAddress cx) (cx_sessionId cx)) = None" for w
    using assms(4) by (auto simp: st clear_of_def ra_cleanupExpiredEntries_def intro: map_of_filter_None)
  then show ?thesis using assms(1) True
    by (auto simp: mild_def st rate_execute_def Let_def outcome_success_def same_class_def isBlockingAction_def split: option.splits)
next
  case False
  then show ?thesis using assms(1) by (auto simp: mild_def alert_execute_def outcome_success_def isBlockingAction_def)
qed

lemma run_mild:
  "list_all mild as \<Longrightarrow> distinct (map ra_type as) \<Longrightarrow> instances_ok m
   \<Longrightarrow> (\<And>a st. a \<in> set as \<Longrightarrow> map_of m (ra_type a, ra_config a) = Some st \<Longrightarrow> clear_of (context_key (cx_ipAddress cx) (cx_sessionId cx)) st)
   \<Longrightarrow> er_actionsExecuted (fst (run_actions now token cx as rep m res)) = er_actionsExecuted rep @ map (Executed \<circ> ra_type) as"
proof (induction as arbitrary: rep m)
  case (Cons a as)
  let ?key = "(ra_type a, ra_config a)"
  have "createAction (ra_type a) \<noteq> None" using Cons.prems(1) by (auto simp: mild_def)
  then obtain st m' where g: "getActionInstance (ra_type a) (ra_config a) m = Some (st, m')"
    by (cases "map_of m ?key") (auto simp: getActionInstance_def)
  note inst = getActionInstance_ok [OF Cons.prems(3) g]
  obtain st' where st': "createAction (ra_type a) = Some st'" "same_class st' st" using inst(1) by blast
  have "clear_of (context_key (cx_ipAddress cx) (cx_sessionId cx)) st"
    using g Cons.prems(4) [of a] createAction_clear by (auto simp: getActionInstance_def split: option.splits)
  then obtain r st2 where e: "action_execute (ra_type a) (ra_config a) now token cx st res = (r, st2, res)" "outcome_success r" "same_class st st2" "\<not> isBlockingAction (ra_type a)"
    using mild_execute [OF _ st'] Cons.prems(1) by fastforce
  have "instances_ok (map_set ?key st2 m')" using inst(2) same_class_trans st' e(3) by blast
  moreover have "clear_of (context_key (cx_ipAddress cx) (cx_sessionId cx)) st3"
    if "b \<in> set as" "map_of (map_set ?key st2 m') (ra_type b, ra_config b) = Some st3" for b st3
  proof -
    have "ra_type b \<noteq> ra_type a" using Cons.prems(2) that(1) by (auto simp: image_iff)
    then show ?thesis using that Cons.prems(4) [of b st3] by (simp add: inst(3))
  qed
  ultimately show ?case using Cons.IH [of "map_set ?key st2 m'"] Cons.prems(1,2) by (simp add: g e Let_def)
qed simp

lemma mild_tier:
  assumes "t \<in> set (rc_tiers getDefaultResponseConfiguration)" and "rt_level t = l" and "l \<noteq> Block" and "l \<noteq> Isolate"
  shows "sort_key ra_severity (rt_actions t) = rt_actions t" and "list_all mild (rt_actions t)" and "distinct (map ra_type (rt_actions t))"
    and "map (Executed \<circ> ra_type) (rt_actions t) = tier_steps l"
proof -
  consider "rt_actions t = [log_action]" "l = Monitor" | "rt_actions t = [log_action, rate_action 100 10]" "l = Warn"
    | "rt_actions t = [log_action, rate_action 30 5, alert_action 4 ''medium'' True]" "l = Restrict"
    using assms unfolding getDefaultResponseConfiguration_def default_tiers_def by auto
  note tiers = this
  show "sort_key ra_severity (rt_actions t) = rt_actions t"
    by (rule sort_key_id_if_sorted) (use tiers in cases, simp_all add: log_action_def rate_action_def alert_action_def)
  show "list_all mild (rt_actions t)" "distinct (map ra_type (rt_actions t))" "map (Executed \<circ> ra_type) (rt_actions t) = tier_steps l"
    by (use tiers in \<open>cases, simp_all add: mild_def log_action_def rate_action_def alert_action_def\<close>)+
qed

lemma unseen_response:
  assumes "executeResponse rq None g = (rep, res, g')" and "unseen (rq_session rq) g" and "instances_ok (rg_instances g)"
    and "rg_config g = getDefaultResponseConfiguration" and "0 \<le> rq_risk rq" and "rq_risk rq \<le> 1"
  shows "er_actionsExecuted rep = tier_steps (tier_level (rq_risk rq)) \<and> \<not> er_rejected rep"
proof -
  let ?g = "g\<lparr>rg_instances := rg_instances g\<rparr>" and ?l = "tier_level (rq_risk rq)"
  note free = unseen_not_blocked [OF assms(2), of "rq_now rq" "rq_ip rq"]
  have "getResponseHistory (rq_session rq) g = []" using assms(2) by (simp add: unseen_def getResponseHistory_def)
  then obtain d where d: "selectResponseTier (rq_now rq) (rq_risk rq) (rq_session rq) ?g = Some d" "rt_level (rd_tier d) = ?l"
    using response_tier_of [OF assms(5,6), of g "rq_now rq" "rq_session rq"] assms(4) by (auto simp: recent_violations_def)
  have rj: "\<not> er_rejected rep"
    using assms(1)
  proof (cases rule: executeResponse_cases)
    case (responded m d' m')
    then show ?thesis
      using run_rejected [of "rq_now rq" "rq_token rq" "request_context rq" "sort_key ra_severity (rd_actions d')" empty_report m None]
      by (simp add: executeResponseActions_def empty_report_def)
  qed (use free in \<open>auto simp: empty_report_def\<close>)
  have "er_actionsExecuted rep = tier_steps ?l"
  proof (cases "?l = Block \<or> ?l = Isolate")
    case True
    then show ?thesis using respond_with_block [OF assms(1,3,4) free d(1)] d(2) by auto
  next
    case False
    note t = default_tier_of [OF d(1)] assms(4)
    note mt = mild_tier [OF t(1) d(2)]
    have "clear_of (context_key (rq_ip rq) (rq_session rq)) st" if "map_of (rg_instances g) k = Some st" for k st
      using assms(2) map_of_SomeD [OF that] by (fastforce simp: unseen_def)
    then have "er_actionsExecuted (fst (run_actions (rq_now rq) (rq_token rq) (request_context rq) (sort_key ra_severity (rd_actions d)) empty_report (rg_instances g) None))
      = tier_steps ?l"
      using run_mild [OF mt(2,3) assms(3), of "request_context rq" "rq_now rq" "rq_token rq" empty_report None] mt(1,4) t False
      by (simp add: request_context_def empty_report_def)
    moreover from assms(1) obtain m' where "run_actions (rq_now rq) (rq_token rq) (request_context rq) (sort_key ra_severity (rd_actions d)) empty_report (rg_instances g) None = (rep, m', res)"
    proof (cases rule: executeResponse_cases)
      case (responded m d' m')
      have "m = rg_instances g" using responded(1) free by simp
      moreover have "d' = d" using responded(2) d(1) unfolding \<open>m = rg_instances g\<close> by simp
      ultimately show ?thesis using responded(3) that by (simp add: executeResponseActions_def)
    qed (use free d(1) assms(4) in \<open>auto simp: getDefaultResponseConfiguration_def\<close>)
    ultimately show ?thesis by simp
  qed
  then show ?thesis using rj by simp
qed

section \<open>The engine over a sequence of requests\<close>

definition engine_ok :: "string set \<Rightarrow> threat_engine \<Rightarrow> bool" where
  "engine_ok seen e \<longleftrightarrow> rg_config (te_response e) = getDefaultResponseConfiguration \<and> instances_ok (rg_instances (te_response e))
     \<and> sa_quiet (te_statistical e) \<and> clusters_only (te_relationship e) \<and> rk_config (te_risk e) = getDefaultRiskScoringConfig
     \<and> (\<forall>sid. CHR '':'' \<notin> set sid \<longrightarrow> sid \<notin> seen \<longrightarrow> unseen sid (te_response e))"

definition input_data :: "threat_input \<Rightarrow> threat_request_data" where
  "input_data i = extractRequestData (ti_sessionId i) (ti_now i) (ti_json i) (ti_request i)"

definition input_scores :: "threat_input \<Rightarrow> threat_engine \<Rightarrow> base_scores" where
  "input_scores i e =
     \<lparr>b_behavioral = fst (behavioral_analyze (ti_behavior i, None, input_data i) (te_behavioral e)),
      b_statistical = fst (statistical_analyze (\<lambda>_. None, ti_statistics i, input_data i) (te_statistical e)),
      b_relationship = fst (rel_analyze \<lparr>rj_lookup = ti_lookup i, rj_now = ti_now i, rj_attackId = ti_attackId i, rj_data = input_data i\<rparr> (te_relationship e))\<rparr>"

definition input_risk :: "threat_input \<Rightarrow> threat_engine \<Rightarrow> contextual_risk" where
  "input_risk i e = fst (calculateContextualRisk (ti_lookup i) (ti_moment i) (input_scores i e) (input_data i) (te_risk e))"

definition input_response :: "threat_input \<Rightarrow> threat_engine \<Rightarrow> response_request" where
  "input_response i e = \<lparr>rq_now = ti_now i, rq_latency = ti_latency i, rq_token = ti_token i, rq_risk = cr_contextualScore (input_risk i e),
     rq_session = ti_sessionId i, rq_user = None, rq_ip = text_or (hq_ip (ti_request i)) ''unknown''\<rparr>"

text \<open>The parts of a request's processing, named.\<close>

lemma detectThreats_parts:
  "te_statistical (snd (detectThreats i e)) = snd (statistical_analyze (\<lambda>_. None, ti_statistics i, input_data i) (te_statistical e))"
  "te_relationship (snd (detectThreats i e))
     = snd (rel_analyze \<lparr>rj_lookup = ti_lookup i, rj_now = ti_now i, rj_attackId = ti_attackId i, rj_data = input_data i\<rparr> (te_relationship e))"
  "rk_config (te_risk (snd (detectThreats i e))) = rk_config (te_risk e)"
  "te_response (snd (detectThreats i e)) = snd (snd (executeResponse (input_response i e) None (te_response e)))"
  "\<not> er_rejected (fst (executeResponse (input_response i e) None (te_response e)))
     \<Longrightarrow> ta_threatScore (fst (fst (detectThreats i e))) = cr_contextualScore (input_risk i e)
       \<and> ta_responseExecution (fst (fst (detectThreats i e))) = Some (fst (executeResponse (input_response i e) None (te_response e)))"
  by (simp_all add: detectThreats_def split_def Let_def input_response_def input_risk_def input_scores_def input_data_def
      generateEnhancedThreatAssessment_def calculateContextualRisk_def cacheContext_def)

lemma input_scores_ok: "engine_ok seen e \<Longrightarrow> scores_ok (input_scores i e)"
  using behavioral_score_bounds [of "(ti_behavior i, None, input_data i)" "te_behavioral e"]
    sa_quiet_step(2) [of "te_statistical e" "input_data i" "\<lambda>_. None" "ti_statistics i"]
    relationship_score_bound [of "te_relationship e" "\<lparr>rj_lookup = ti_lookup i, rj_now = ti_now i, rj_attackId = ti_attackId i, rj_data = input_data i\<rparr>"]
  by (auto simp: scores_ok_def input_scores_def engine_ok_def input_data_def)

lemma input_risk_bounds:
  assumes "engine_ok seen e"
  shows "0 \<le> cr_contextualScore (input_risk i e) \<and> cr_contextualScore (input_risk i e) \<le> 1"
proof -
  have c: "risk_config_ok (rk_config (te_risk e))" using assms default_risk_config_ok by (simp add: engine_ok_def)
  note b = base_score_bounds [OF c input_scores_ok [OF assms, of i]]
  show ?thesis using b contextual_bounds [OF c b, of "extractRiskContext (ti_lookup i) (ti_moment i) (input_data i)"]
    by (simp add: input_risk_def calculateContextualRisk_def Let_def)
qed

lemma detect_step:
  assumes "engine_ok seen e" and "ti_sessionId i \<notin> seen" and "CHR '':'' \<notin> set (ti_sessionId i)"
  shows "engine_ok (insert (ti_sessionId i) seen) (snd (detectThreats i e))"
    and "ta_threatScore (fst (fst (detectThreats i e))) = cr_contextualScore (input_risk i e)"
    and "\<exists>rep. ta_responseExecution (fst (fst (detectThreats i e))) = Some rep \<and> er_actionsExecuted rep = tier_steps (tier_level (cr_contextualScore (input_risk i e)))"
proof -
  obtain rep res g' where x: "executeResponse (input_response i e) None (te_response e) = (rep, res, g')" by (metis prod.exhaust)
  have sid: "rq_session (input_response i e) = ti_sessionId i" "rq_risk (input_response i e) = cr_contextualScore (input_risk i e)"
    by (simp_all add: input_response_def)
  have ok: "unseen (ti_sessionId i) (te_response e)" "instances_ok (rg_instances (te_response e))" "rg_config (te_response e) = getDefaultResponseConfiguration"
    using assms by (auto simp: engine_ok_def)
  have r: "er_actionsExecuted rep = tier_steps (tier_level (cr_contextualScore (input_risk i e)))" "\<not> er_rejected rep"
    using unseen_response [OF x] ok input_risk_bounds [OF assms(1), of i] by (simp_all add: sid)
  show "ta_threatScore (fst (fst (detectThreats i e))) = cr_contextualScore (input_risk i e)"
    "\<exists>rep. ta_responseExecution (fst (fst (detectThreats i e))) = Some rep \<and> er_actionsExecuted rep = tier_steps (tier_level (cr_contextualScore (input_risk i e)))"
    using detectThreats_parts(5) [of i e] r x by auto
  have "unseen s g'" if "CHR '':'' \<notin> set s" "s \<notin> insert (ti_sessionId i) seen" for s
    using unseen_kept [OF x, of s] that assms by (auto simp: engine_ok_def sid)
  then show "engine_ok (insert (ti_sessionId i) seen) (snd (detectThreats i e))"
    using assms(1) executeResponse_ok [OF x ok(2)] executeResponse_config [OF x] sa_quiet_step(1) [of "te_statistical e" "input_data i"] relationship.step_ok
    by (auto simp: engine_ok_def detectThreats_parts x input_data_def)
qed

lemma engine_ok_new: "engine_ok {} (new_threat_engine None False)"
  by (simp add: engine_ok_def new_threat_engine_def new_engine_def getResponseConfiguration_def instances_ok_def sa_quiet_start clusters_only_new
      new_risk_engine_def unseen_def)

lemma feed_detect:
  "engine_ok seen e \<Longrightarrow> distinct (map ti_sessionId is) \<Longrightarrow> set (map ti_sessionId is) \<inter> seen = {} \<Longrightarrow> list_all (\<lambda>i. CHR '':'' \<notin> set (ti_sessionId i)) is
   \<Longrightarrow> list_all (\<lambda>(a, res). \<exists>rep. ta_responseExecution a = Some rep \<and> er_actionsExecuted rep = tier_steps (tier_level (ta_threatScore a)))
        (fst (feed detectThreats is e))"
proof (induction "is" arbitrary: seen e)
  case (Cons i "is")
  note st = detect_step [of seen e i]
  have "list_all (\<lambda>(a, res). \<exists>rep. ta_responseExecution a = Some rep \<and> er_actionsExecuted rep = tier_steps (tier_level (ta_threatScore a)))
    (fst (feed detectThreats is (snd (detectThreats i e))))"
    using Cons.prems by (intro Cons.IH [of "insert (ti_sessionId i) seen"] st(1)) auto
  then show ?case using st Cons.prems by (simp add: split_def Let_def)
qed simp

section \<open>Properties\<close>

text \<open>
  C28. Every request gets a new random session identifier, so no session is ever recognised: on any sequence of requests with different identifiers the actions taken for a
  request are those of its own score alone. No earlier block is enforced and nothing is escalated.
\<close>
theorem sessions_never_recognised:
  assumes "distinct (map ti_sessionId is)" and "list_all (\<lambda>i. CHR '':'' \<notin> set (ti_sessionId i)) is"
  shows "list_all (\<lambda>(a, res). \<exists>rep. ta_responseExecution a = Some rep \<and> er_actionsExecuted rep = tier_steps (tier_level (ta_threatScore a)))
    (fst (feed detectThreats is (new_threat_engine None False)))"
  by (rule feed_detect [OF engine_ok_new assms(1) _ assms(2)]) simp

text \<open>
  An ordinary request in business hours (a browser, a public address in no listed country, quiet traffic) is logged, or rate limited and reported to the administrators, by a
  random number: the simulated count of mouse movements.
\<close>
theorem ordinary_request_random:
  assumes "engine_ok seen e" and "ti_sessionId i \<notin> seen" and "CHR '':'' \<notin> set (ti_sessionId i)" and "map_of (te_behavioral e) (ti_sessionId i) = None"
    and "hq_ip (ti_request i) = Some ip" and "ip \<noteq> []" and "\<not> isSuspiciousIP ip" and "\<not> isSuspiciousUserAgent (text_or (hq_userAgent (ti_request i)) [])"
    and "cl_timing (ti_behavior i) - cl_stamp (ti_behavior i) < 1000" and "cl_interaction (ti_behavior i) - cl_stamp (ti_behavior i) < 1000"
    and "\<not> off_hours (ti_moment i)" and "\<not> high_risk_place (ti_lookup i (Some ip))"
    and "b_statistical (input_scores i e) = 0" and "b_relationship (input_scores i e) = 0"
  shows "\<exists>rep. ta_responseExecution (fst (fst (detectThreats i e))) = Some rep
    \<and> er_actionsExecuted rep = (if cl_mouse (ti_behavior i) < 2 then [Executed Log_only, Executed Rate_limit, Executed Alert_admin] else [Executed Log_only])"
proof -
  let ?cfg = "getDefaultRiskScoringConfig"
  have q: "extracted (input_data i)" "q_ipAddress (input_data i) = Some ip" "q_userAgent (input_data i) = text_or (hq_userAgent (ti_request i)) []"
    "q_sessionId (input_data i) = ti_sessionId i"
    using assms(5,6) by (simp_all add: input_data_def given_def)
  have b: "b_behavioral (input_scores i e) = (if cl_mouse (ti_behavior i) < 2 then 972/1000 else 1/10)"
    using fresh_session_score [of "te_behavioral e" "input_data i" ip "ti_behavior i"] assms(4,7-10) q by (simp add: input_scores_def)
  have "time_factor m (ti_moment i) = 1" for m using assms(11) by (auto simp: time_factor_def off_hours_def mult_if_def)
  then have "sensitizedMultiplier ?cfg (extractRiskContext (ti_lookup i) (ti_moment i) (input_data i)) = 13164/10000"
    using assms(12) q by (simp add: sensitizedMultiplier_def multiplier_extracted mult_if_def getDefaultRiskScoringConfig_def)
  then have "cr_contextualScore (input_risk i e) = (if cl_mouse (ti_behavior i) < 2 then 51181632/100000000 else 52656/1000000)"
    using assms(1,13,14) b
    by (simp add: input_risk_def calculateContextualRisk_def Let_def applyContextualMultipliers_def calculateBaseScore_def engine_ok_def)
      (simp add: getDefaultRiskScoringConfig_def)
  then show ?thesis using detect_step(3) [OF assms(1-3)] by (auto simp: tier_level_def)
qed

section \<open>Witnesses\<close>

definition td_input :: "string \<Rightarrow> nat \<Rightarrow> threat_input" where
  "td_input sid mouse =
     \<lparr>ti_request = \<lparr>hq_ip = Some ''8.8.8.8'', hq_remoteAddress = None, hq_userAgent = Some ''Mozilla'', hq_path = ''/'', hq_method = ''GET'', hq_referer = None, hq_body = False\<rparr>,
      ti_sessionId = sid, ti_json = [], ti_lookup = \<lambda>_. Unlocated, ti_now = 0, ti_behavior = ba_reading 0 mouse,
      ti_statistics = \<lparr>sr_timestamp = 0, sr_window = \<lambda>_. 0, sr_now = 0\<rparr>, ti_attackId = [], ti_moment = \<lparr>mo_now = 0, mo_hours = 12, mo_day = 1\<rparr>,
      ti_responseTime = 1, ti_latency = 1, ti_token = [], ti_errorSessionId = []\<rparr>"

theorem sessions_never_recognised_witness:
  "list_all (\<lambda>(a, res). \<exists>rep. ta_responseExecution a = Some rep \<and> er_actionsExecuted rep = tier_steps (tier_level (ta_threatScore a)))
    (fst (feed detectThreats [td_input ''a1'' 0, td_input ''b2'' 5] (new_threat_engine None False)))"
  by (rule sessions_never_recognised) (simp_all add: td_input_def)

lemma demo_statistical: "b_statistical (input_scores (td_input sid mouse) (new_threat_engine None False)) = 0"
proof -
  let ?s = "initializeBaselineMetrics None new_statistical" and ?q = "input_data (td_input sid mouse)"
    and ?r = "\<lparr>sr_timestamp = 0, sr_window = \<lambda>_. 0, sr_now = 0\<rparr>"
  let ?u = "updateTrafficPatterns (\<lambda>_. None) ?r ?q ?s"
  have e: "extracted ?q" by (simp add: input_data_def)
  have q: "sa_quiet ?u" using sa_quiet_start windows_patterns [of unmeasured ?s ?r ?q "\<lambda>_. None"] unmeasured_of [OF e] by (auto simp: sa_quiet_def window_baseline)
  have c: "sa_trafficCache ?u = map (\<lambda>w. (w, [traffic_of 0 ?q])) timeWindows"
    by (simp add: updateTrafficPatterns_def updateTrafficWindow_def timeWindows_def cached_patterns_def initializeBaselineMetrics_def new_statistical_def)
  have "ts_requestsPerMinute (calculateCurrentStatistics 0 ?u) = 4"
    by (simp add: calculateCurrentStatistics_def Let_def getPatternsInWindow_def c timeWindows_def total_requests_in_def traffic_of_def)
  moreover have "bl_averageRequestsPerMinute (sa_baseline ?u) = 100"
    by (simp add: window_baseline initializeBaselineMetrics_def getDefaultBaselineMetrics_def)
  ultimately have "fst (statistical_analyze (\<lambda>_. None, ?r, ?q) ?s) = 0"
    using sa_quiet_detection [OF sa_quiet_statistics(1-3) [OF q, of 0]] q sa_quiet_statistics(4) [OF q, of 0]
    by (simp add: statistical_analyze_def Let_def sa_quiet_def)
  then show ?thesis by (simp add: input_scores_def new_threat_engine_def td_input_def)
qed

lemma demo_relationship: "b_relationship (input_scores (td_input sid mouse) (new_threat_engine None False)) = 0"
  by (simp add: input_scores_def new_threat_engine_def analyze_clusters [OF clusters_only_new] td_input_def)

theorem ordinary_request_random_witness:
  "\<exists>rep. ta_responseExecution (fst (fst (detectThreats (td_input ''a1'' 1) (new_threat_engine None False)))) = Some rep
    \<and> er_actionsExecuted rep = [Executed Log_only, Executed Rate_limit, Executed Alert_admin]"
  using ordinary_request_random [OF engine_ok_new, of "td_input ''a1'' 1" "''8.8.8.8''"] demo_statistical demo_relationship ba_q_plain
  by (simp add: td_input_def new_threat_engine_def ba_reading_def off_hours_def high_risk_place_def text_or_def)

end
