(* ===== verification/Deception.thy ===== *)
theory Deception
  imports RequestData
begin

text \<open>
  The deception service, \<^verbatim>\<open>backend/src/services/DeceptionService.ts\<close>: traps, the events of accessing them, and the address of a deception environment.

  The list of events is the Redis list \<^verbatim>\<open>deception:events\<close>; whether a command of the wrapper reaches Redis is an argument (the wrapper swallows errors). The notified
  payloads are the calls of \<^verbatim>\<open>onHoneypotTriggered\<close>. Identifiers (clock and random number) are arguments; single copies of events, traps and sessions are written to Redis
  but never read, and left out.
\<close>

section \<open>Types\<close>

datatype deception_level = DLow | DMedium | DHigh | DCritical

datatype deception_event_type = Honeypot_access | Credential_trap | Decoy_file_access | Fake_endpoint_hit

record deception_details =
  dd_userAgent :: "string option"
  dd_ipAddress :: "string option"
  dd_requestMethod :: "string option"
  dd_bodyKeys :: "nat option"
  dd_path :: "string option"
  dd_credential :: "string option"
  dd_filename :: "string option"

record deception_event =
  de_id :: string
  de_type :: deception_event_type
  de_ipAddress :: string
  de_userAgent :: string
  de_timestamp :: time_ms
  de_details :: deception_details
  de_threatLevel :: deception_level

record honeypot_payload =
  hp_eventId :: string
  hp_honeypotId :: string
  hp_honeypotType :: deception_event_type
  hp_clientIp :: string
  hp_endpoint :: string
  hp_userAgent :: string
  hp_threatLevel :: real
  hp_timestamp :: time_ms

record deception_config =
  dc_enabled :: bool
  dc_honeypotEndpoints :: "string list"
  dc_fakeCredentials :: "string list"
  dc_decoyFiles :: "string list"
  dc_trapThreshold :: real
  dc_notify :: bool

record trap =
  tr_type :: string
  tr_created :: time_ms
  tr_accessCount :: nat

record deception =
  ds_config :: deception_config
  ds_activeTraps :: "(string, trap) js_map"
  ds_events :: "deception_event list"
  ds_notified :: "honeypot_payload list"

definition new_deception :: "deception_config \<Rightarrow> deception" where
  "new_deception cfg = \<lparr>ds_config = cfg, ds_activeTraps = [], ds_events = [], ds_notified = []\<rparr>"

section \<open>Traps\<close>

definition set_traps :: "string \<Rightarrow> time_ms \<Rightarrow> string list \<Rightarrow> deception \<Rightarrow> deception" where
  "set_traps t now ids d =
     d\<lparr>ds_activeTraps := fold (\<lambda>i. map_set i \<lparr>tr_type = t, tr_created = now, tr_accessCount = 0\<rparr>) ids (ds_activeTraps d)\<rparr>"

definition setupHoneypots :: "time_ms \<Rightarrow> deception \<Rightarrow> deception" where
  "setupHoneypots now d = set_traps ''honeypot'' now (dc_honeypotEndpoints (ds_config d)) d"

definition createDecoyFiles :: "time_ms \<Rightarrow> deception \<Rightarrow> deception" where
  "createDecoyFiles now d = set_traps ''decoy_file'' now (dc_decoyFiles (ds_config d)) d"

definition setupCredentialTraps :: "time_ms \<Rightarrow> deception \<Rightarrow> deception" where
  "setupCredentialTraps now d = set_traps ''credential_trap'' now (dc_fakeCredentials (ds_config d)) d"

definition initialize_deception :: "time_ms \<Rightarrow> deception \<Rightarrow> deception" where
  "initialize_deception now d =
     (if \<not> dc_enabled (ds_config d) then d else setupCredentialTraps now (createDecoyFiles now (setupHoneypots now d)))"

definition isHoneypotEndpoint :: "string \<Rightarrow> deception \<Rightarrow> bool" where
  "isHoneypotEndpoint path d \<longleftrightarrow> path \<in> set (dc_honeypotEndpoints (ds_config d))"

definition isDecoyFile :: "string \<Rightarrow> deception \<Rightarrow> bool" where
  "isDecoyFile file d \<longleftrightarrow> file \<in> set (dc_decoyFiles (ds_config d))"

definition isFakeCredential :: "string \<Rightarrow> deception \<Rightarrow> bool" where
  "isFakeCredential c d \<longleftrightarrow> c \<in> set (dc_fakeCredentials (ds_config d))"

definition updateTrapAccess :: "string \<Rightarrow> deception \<Rightarrow> deception" where
  "updateTrapAccess i d =
     (case map_of (ds_activeTraps d) i of None \<Rightarrow> d
      | Some t \<Rightarrow> d\<lparr>ds_activeTraps := map_set i (t\<lparr>tr_accessCount := tr_accessCount t + 1\<rparr>) (ds_activeTraps d)\<rparr>)"

record trap_config =
  tg_type :: string
  tg_path :: "string option"
  tg_credential :: "string option"
  tg_filename :: "string option"

definition createTrap :: "time_ms \<Rightarrow> string \<Rightarrow> trap_config \<Rightarrow> deception \<Rightarrow> deception" where
  "createTrap now fresh c d =
     (let i = text_or (tg_path c) (text_or (tg_credential c) (text_or (tg_filename c) fresh))
      in d\<lparr>ds_activeTraps := map_set i \<lparr>tr_type = tg_type c, tr_created = now, tr_accessCount = 0\<rparr> (ds_activeTraps d)\<rparr>)"

text \<open>\<open>None\<close>: the trap is not found and the call throws.\<close>

definition updateTrap :: "string \<Rightarrow> (trap \<Rightarrow> trap) \<Rightarrow> deception \<Rightarrow> deception option" where
  "updateTrap i updates d =
     (case map_of (ds_activeTraps d) i of None \<Rightarrow> None
      | Some t \<Rightarrow> Some (d\<lparr>ds_activeTraps := map_set i (updates t) (ds_activeTraps d)\<rparr>))"

definition deleteTrap :: "string \<Rightarrow> deception \<Rightarrow> deception option" where
  "deleteTrap i d =
     (case map_of (ds_activeTraps d) i of None \<Rightarrow> None | Some _ \<Rightarrow> Some (d\<lparr>ds_activeTraps := map_delete i (ds_activeTraps d)\<rparr>))"

section \<open>Events\<close>

definition agent_includes :: "deception_details \<Rightarrow> string \<Rightarrow> bool" where
  "agent_includes x w \<longleftrightarrow> (case dd_userAgent x of None \<Rightarrow> False | Some ua \<Rightarrow> includes_str (map lower_char ua) w)"

definition calculateThreatLevel :: "deception_details \<Rightarrow> deception_level" where
  "calculateThreatLevel x =
     (let score = (if agent_includes x ''bot'' then 2 else 0) + (if agent_includes x ''curl'' then 3 else 0) + (if agent_includes x ''python'' then 3 else 0)
            + (case dd_ipAddress x of None \<Rightarrow> 0 | Some ip \<Rightarrow> if starts_with ip ''192.168.'' then 1 else 0)
            + (if dd_requestMethod x = Some ''POST'' then 1 else 0) + (case dd_bodyKeys x of None \<Rightarrow> 0 | Some n \<Rightarrow> if n > 0 then 1 else (0::nat))
      in if score \<ge> 5 then DCritical else if score \<ge> 3 then DHigh else if score \<ge> 1 then DMedium else DLow)"

text \<open>\<open>pushed\<close>, \<open>trimmed\<close>: the command reached Redis.\<close>

definition storeDeceptionEvent :: "bool \<Rightarrow> bool \<Rightarrow> deception_event \<Rightarrow> deception \<Rightarrow> deception" where
  "storeDeceptionEvent pushed trimmed ev d =
     (let es = (if pushed then ev # ds_events d else ds_events d); es = (if trimmed then take 1000 es else es) in d\<lparr>ds_events := es\<rparr>)"

fun level_number :: "deception_level \<Rightarrow> real" where
  "level_number DLow = 25/100"
| "level_number DMedium = 5/10"
| "level_number DHigh = 75/100"
| "level_number DCritical = 1"

record recording =
  rc_id :: string
  rc_now :: time_ms
  rc_pushed :: bool
  rc_trimmed :: bool

definition honeypot_id :: "string \<Rightarrow> string" where
  "honeypot_id path = ''honeypot:'' @ map (\<lambda>c. if c = CHR ''/'' then CHR ''_'' else c) path"

definition recordHoneypotAccess :: "recording \<Rightarrow> string \<Rightarrow> string \<Rightarrow> string \<Rightarrow> deception_details \<Rightarrow> deception \<Rightarrow> deception_event \<times> deception" where
  "recordHoneypotAccess r path ip ua x d =
     (let ev = \<lparr>de_id = rc_id r, de_type = Honeypot_access, de_ipAddress = ip, de_userAgent = ua, de_timestamp = rc_now r, de_details = x,
            de_threatLevel = calculateThreatLevel x\<rparr>;
          d = updateTrapAccess path (storeDeceptionEvent (rc_pushed r) (rc_trimmed r) ev d)
      in (ev, if dc_notify (ds_config d)
              then d\<lparr>ds_notified := ds_notified d @ [\<lparr>hp_eventId = de_id ev, hp_honeypotId = honeypot_id path, hp_honeypotType = de_type ev, hp_clientIp = ip,
                     hp_endpoint = path, hp_userAgent = ua, hp_threatLevel = level_number (de_threatLevel ev), hp_timestamp = rc_now r\<rparr>]\<rparr>
              else d))"

definition recordCredentialTrap :: "recording \<Rightarrow> string \<Rightarrow> string \<Rightarrow> string \<Rightarrow> deception_details \<Rightarrow> deception \<Rightarrow> deception_event \<times> deception" where
  "recordCredentialTrap r credential ip ua x d =
     (let ev = \<lparr>de_id = rc_id r, de_type = Credential_trap, de_ipAddress = ip, de_userAgent = ua, de_timestamp = rc_now r, de_details = x, de_threatLevel = DCritical\<rparr>
      in (ev, updateTrapAccess credential (storeDeceptionEvent (rc_pushed r) (rc_trimmed r) ev d)))"

definition recordDecoyFileAccess :: "recording \<Rightarrow> string \<Rightarrow> string \<Rightarrow> string \<Rightarrow> deception_details \<Rightarrow> deception \<Rightarrow> deception_event \<times> deception" where
  "recordDecoyFileAccess r file ip ua x d =
     (let ev = \<lparr>de_id = rc_id r, de_type = Decoy_file_access, de_ipAddress = ip, de_userAgent = ua, de_timestamp = rc_now r, de_details = x,
            de_threatLevel = calculateThreatLevel x\<rparr>
      in (ev, updateTrapAccess file (storeDeceptionEvent (rc_pushed r) (rc_trimmed r) ev d)))"

definition triggerEvent :: "recording \<Rightarrow> string \<Rightarrow> string \<Rightarrow> string \<Rightarrow> deception_details \<Rightarrow> deception \<Rightarrow> deception_event \<times> deception" where
  "triggerEvent r t ip ua x d =
     (if t = ''honeypot_access'' then recordHoneypotAccess r (text_or (dd_path x) ''/unknown'') ip ua x d
      else if t = ''credential_trap'' then recordCredentialTrap r (text_or (dd_credential x) ''unknown'') ip ua x d
      else if t = ''decoy_file_access'' then recordDecoyFileAccess r (text_or (dd_filename x) ''unknown'') ip ua x d
      else recordHoneypotAccess r ''/manual'' ip ua x d)"

text \<open>\<^verbatim>\<open>lrange 0 (limit - 1)\<close>: a limit of 0 asks for the elements up to the last; \<open>reachable\<close>: Redis answers.\<close>

definition getDeceptionEvents :: "bool \<Rightarrow> int \<Rightarrow> deception \<Rightarrow> deception_event list" where
  "getDeceptionEvents reachable limit d =
     (if \<not> reachable then []
      else let n = int (length (ds_events d)); stop = limit - 1; stop = (if stop < 0 then n + stop else stop) in rev (take (nat (stop + 1)) (ds_events d)))"

record deception_stats =
  dx_totalEvents :: nat
  dx_activeTraps :: nat
  dx_trapStats :: "(string \<times> trap) list"

definition getDeceptionStats :: "bool \<Rightarrow> deception \<Rightarrow> deception_stats" where
  "getDeceptionStats reachable d =
     \<lparr>dx_totalEvents = (if reachable then length (ds_events d) else 0), dx_activeTraps = length (ds_activeTraps d), dx_trapStats = ds_activeTraps d\<rparr>"

definition createDeceptionEnvironment :: "string \<Rightarrow> string" where
  "createDeceptionEnvironment deceptionId = ''/deception/'' @ deceptionId"

section \<open>Access counts\<close>

datatype access = Honeypot string deception_details | Credential string deception_details | File string deception_details

fun access_id :: "access \<Rightarrow> string" where
  "access_id (Honeypot p x) = p"
| "access_id (Credential c x) = c"
| "access_id (File f x) = f"

fun record_access :: "recording \<times> access \<Rightarrow> deception \<Rightarrow> deception_event \<times> deception" where
  "record_access (r, Honeypot p x) d = recordHoneypotAccess r p [] [] x d"
| "record_access (r, Credential c x) d = recordCredentialTrap r c [] [] x d"
| "record_access (r, File f x) d = recordDecoyFileAccess r f [] [] x d"

definition accesses :: "string \<Rightarrow> deception \<Rightarrow> nat option" where
  "accesses i d = map_option tr_accessCount (map_of (ds_activeTraps d) i)"

lemma record_access_parts:
  "ds_activeTraps (snd (record_access (r, a) d)) = ds_activeTraps (updateTrapAccess (access_id a) d)"
  "ds_events (snd (record_access (r, a) d)) = ds_events (storeDeceptionEvent (rc_pushed r) (rc_trimmed r) (fst (record_access (r, a) d)) d)"
  by (cases a; simp add: recordHoneypotAccess_def recordCredentialTrap_def recordDecoyFileAccess_def Let_def updateTrapAccess_def storeDeceptionEvent_def split: option.split)+

lemma accesses_record: "accesses i (snd (record_access (r, a) d)) = (if access_id a = i then map_option Suc (accesses i d) else accesses i d)"
  by (auto simp: accesses_def record_access_parts updateTrapAccess_def update_conv' split: option.split)

lemma accesses_feed:
  "accesses i (snd (feed record_access xs d)) = map_option (\<lambda>n. n + length (filter (\<lambda>(r, a). access_id a = i) xs)) (accesses i d)"
proof (induction xs arbitrary: d)
  case Nil
  then show ?case by (simp add: option.map_ident)
next
  case (Cons x xs)
  then show ?case by (cases x; cases "accesses i d") (auto simp: split_def Let_def accesses_record)
qed

text \<open>
  The access count of a trap is the number of recorded accesses of its identifier, whatever else is recorded.
\<close>
theorem trap_counts:
  assumes "accesses i d = Some 0"
  shows "accesses i (snd (feed record_access xs d)) = Some (length (filter (\<lambda>(r, a). access_id a = i) xs))"
  using assms by (simp add: accesses_feed)

lemma events_feed:
  assumes "list_all (\<lambda>(r, a). rc_pushed r \<and> rc_trimmed r) xs"
  shows "ds_events (snd (feed record_access xs d)) = take 1000 (rev (fst (feed record_access xs d)) @ ds_events d) \<or> xs = []"
  using assms
proof (induction xs rule: rev_induct)
  case (snoc x xs)
  obtain r a where x: "x = (r, a)" by fastforce
  have "ds_events (snd (feed record_access xs d)) = take 1000 (rev (fst (feed record_access xs d)) @ ds_events d) \<or> xs = []"
    using snoc by simp
  moreover have "take 1000 (y # take 1000 ys) = take 1000 (y # ys)" for y and ys :: "deception_event list" by (simp add: take_Cons')
  ultimately show ?case using snoc.prems
    by (auto simp: feed_append split_def Let_def x record_access_parts storeDeceptionEvent_def min_def)
qed simp

text \<open>
  While Redis accepts commands, the event list is the last thousand recorded events, and asking for a positive number returns the newest of them, oldest first.
\<close>
theorem recent_events:
  assumes "list_all (\<lambda>(r, a). rc_pushed r \<and> rc_trimmed r) xs" and "ds_events d = []" and "0 < limit" and "limit \<le> 1000"
  shows "getDeceptionEvents True (int limit) (snd (feed record_access xs d)) = rev (take limit (rev (fst (feed record_access xs d))))"
proof (cases "xs = []")
  case True
  then show ?thesis using assms(2) by (simp add: getDeceptionEvents_def Let_def)
next
  case False
  then have "ds_events (snd (feed record_access xs d)) = take 1000 (rev (fst (feed record_access xs d)))"
    using events_feed [OF assms(1), of d] assms(2) by simp
  then show ?thesis using assms(3,4) by (simp add: getDeceptionEvents_def Let_def min_def)
qed

text \<open>
  Traps and their recognition are separate: an endpoint added as a trap is not recognised as a honeypot, and a deleted honeypot still is.
\<close>
theorem trap_management_ineffective:
  "isHoneypotEndpoint p (createTrap now fresh c d) = isHoneypotEndpoint p d
    \<and> (case deleteTrap i d of None \<Rightarrow> True | Some d' \<Rightarrow> isHoneypotEndpoint p d' = isHoneypotEndpoint p d)"
  by (simp add: isHoneypotEndpoint_def createTrap_def Let_def deleteTrap_def split: option.split)

section \<open>Witnesses\<close>

definition demo_deception :: deception where
  "demo_deception = initialize_deception 0 (new_deception \<lparr>dc_enabled = True, dc_honeypotEndpoints = [''/admin''], dc_fakeCredentials = [], dc_decoyFiles = [],
     dc_trapThreshold = 8/10, dc_notify = False\<rparr>)"

definition demo_access :: "recording \<times> access" where
  "demo_access = (\<lparr>rc_id = ''e'', rc_now = 0, rc_pushed = True, rc_trimmed = True\<rparr>, Honeypot ''/admin'' \<lparr>dd_userAgent = None, dd_ipAddress = None, dd_requestMethod = None,
     dd_bodyKeys = None, dd_path = None, dd_credential = None, dd_filename = None\<rparr>)"

lemma demo_deception_simps: "accesses ''/admin'' demo_deception = Some 0" "ds_events demo_deception = []"
  by (simp_all add: accesses_def demo_deception_def initialize_deception_def new_deception_def setupHoneypots_def setupCredentialTraps_def createDecoyFiles_def set_traps_def)

theorem trap_counts_witness: "accesses ''/admin'' (snd (feed record_access [demo_access, demo_access] demo_deception)) = Some 2"
  using trap_counts [OF demo_deception_simps(1), of "[demo_access, demo_access]"] by (simp add: demo_access_def)

theorem recent_events_witness:
  "getDeceptionEvents True 1 (snd (feed record_access [demo_access, demo_access] demo_deception))
    = rev (take 1 (rev (fst (feed record_access [demo_access, demo_access] demo_deception))))"
  using recent_events [of "[demo_access, demo_access]" demo_deception 1] by (simp add: demo_access_def demo_deception_simps)

end
