(* ===== verification/ThreatMiddleware.thy ===== *)
theory ThreatMiddleware
  imports ThreatDetection Deception
begin

text \<open>
  The threat detection middleware of \<^verbatim>\<open>backend/src/index.ts\<close>: assess the request, send critical ones to a deception environment, pass the others on.

  The response starts unsent. The published events, the remote analyses, the bandit's decision and the graph are started without waiting for them and left out here (the bandit
  is in \<open>BanditServices\<close>). A redirect after a reply has been sent throws, as Express does; the surrounding \<^verbatim>\<open>catch\<close> passes the request on.
\<close>

datatype passage = Passed_on | Sent_to string

definition skipPaths :: "string list" where
  "skipPaths = [''/graph'', ''/bandit'', ''/docs'', ''/playbooks'', ''/l2'']"

definition threat_middleware :: "string \<Rightarrow> threat_input \<Rightarrow> threat_engine \<Rightarrow> passage \<times> http_response \<times> threat_engine" where
  "threat_middleware deceptionId i e =
     (if list_ex (starts_with (hq_path (ti_request i))) skipPaths then (Passed_on, None, e)
      else let ((a, res), e) = detectThreats i e
           in if ta_riskLevel a = Critical_risk
              then (let url = createDeceptionEnvironment deceptionId
                    in case send_reply 302 (Redirect_to url) res of None \<Rightarrow> (Passed_on, res, e) | Some res \<Rightarrow> (Sent_to url, res, e))
              else (Passed_on, res, e))"

section \<open>Composition\<close>

lemma detect_level:
  assumes "engine_ok seen e" and "ti_sessionId i \<notin> seen" and "CHR '':'' \<notin> set (ti_sessionId i)"
  shows "ta_riskLevel (fst (fst (detectThreats i e))) = rk_determineRiskLevel getDefaultRiskScoringConfig (ta_threatScore (fst (fst (detectThreats i e))))"
    and "7/10 < ta_threatScore (fst (fst (detectThreats i e))) \<Longrightarrow> map_option hp_status (snd (fst (detectThreats i e))) = Some 403"
proof -
  obtain rep res g' where x: "executeResponse (input_response i e) None (te_response e) = (rep, res, g')" by (metis prod.exhaust)
  have ok: "unseen (ti_sessionId i) (te_response e)" "instances_ok (rg_instances (te_response e))" "rg_config (te_response e) = getDefaultResponseConfiguration"
    using assms by (auto simp: engine_ok_def)
  have sid: "rq_session (input_response i e) = ti_sessionId i" "rq_risk (input_response i e) = cr_contextualScore (input_risk i e)"
    by (simp_all add: input_response_def)
  have r: "\<not> er_rejected rep"
    using unseen_response [OF x] ok input_risk_bounds [OF assms(1), of i] by (simp add: sid)
  have eq: "fst (fst (detectThreats i e)) = (generateEnhancedThreatAssessment (ti_now i) (input_risk i e) (input_data i) (input_scores i e)
      (snd (calculateContextualRisk (ti_lookup i) (ti_moment i) (input_scores i e) (input_data i) (te_risk e))))\<lparr>ta_responseExecution := Some rep\<rparr>"
    and res: "snd (fst (detectThreats i e)) = res"
    using r x by (simp_all add: detectThreats_def split_def Let_def input_response_def input_risk_def input_scores_def input_data_def generateEnhancedThreatAssessment_def)
  show "ta_riskLevel (fst (fst (detectThreats i e))) = rk_determineRiskLevel getDefaultRiskScoringConfig (ta_threatScore (fst (fst (detectThreats i e))))"
    using assms(1) by (simp add: eq generateEnhancedThreatAssessment_def input_risk_def calculateContextualRisk_def Let_def engine_ok_def)
  assume "7/10 < ta_threatScore (fst (fst (detectThreats i e)))"
  then have hi: "7/10 < rq_risk (input_response i e)" by (simp add: eq generateEnhancedThreatAssessment_def sid)
  have "unseen (rq_session (input_response i e)) (te_response e)" using ok(1) by (simp add: sid)
  note free = unseen_not_blocked [OF this, of "rq_now (input_response i e)" "rq_ip (input_response i e)"]
  obtain d where d: "selectResponseTier (rq_now (input_response i e)) (rq_risk (input_response i e)) (rq_session (input_response i e))
      ((te_response e)\<lparr>rg_instances := rg_instances (te_response e)\<rparr>) = Some d" "rt_level (rd_tier d) = Block \<or> rt_level (rd_tier d) = Isolate"
    using response_tier_of [of "rq_risk (input_response i e)" "te_response e" "rq_now (input_response i e)" "rq_session (input_response i e)"] ok(3) hi
      input_risk_bounds [OF assms(1), of i] by (auto simp: tier_level_def sid split: if_splits)
  show "map_option hp_status (snd (fst (detectThreats i e))) = Some 403"
    unfolding res using respond_with_block [OF x ok(2,3) free d] by simp
qed

text \<open>
  C29. The middleware passes every request on to the application and never sends one to a deception environment: a critical request has already been answered with 403 by the response
  engine, so the redirect throws and the exception handler passes the request on.
\<close>
theorem deception_never_entered:
  assumes "engine_ok seen e" and "ti_sessionId i \<notin> seen" and "CHR '':'' \<notin> set (ti_sessionId i)"
  shows "fst (threat_middleware deceptionId i e) = Passed_on
    \<and> (7/10 < ta_threatScore (fst (fst (detectThreats i e))) \<longrightarrow> list_ex (starts_with (hq_path (ti_request i))) skipPaths
        \<or> map_option hp_status (fst (snd (threat_middleware deceptionId i e))) = Some 403)"
proof -
  obtain a res e' where d: "detectThreats i e = ((a, res), e')" by (metis prod.exhaust)
  note l = detect_level [OF assms]
  have "ta_riskLevel a = Critical_risk \<Longrightarrow> 7/10 < ta_threatScore a"
    using l(1) by (simp add: d rk_determineRiskLevel_def getDefaultRiskScoringConfig_def split: if_splits)
  then show ?thesis using l(2) by (auto simp: threat_middleware_def d send_reply_def Let_def)
qed

section \<open>Witnesses\<close>

theorem deception_never_entered_witness: "fst (threat_middleware ''x'' (td_input ''a1'' 1) (new_threat_engine None False)) = Passed_on"
  using deception_never_entered [OF engine_ok_new, of "td_input ''a1'' 1" "''x''"] by (simp add: td_input_def)

end
