(* ===== verification/SketchManagement.thy ===== *)
theory SketchManagement
  imports SketchConfig
begin

text \<open>
  The sketch manager (\<^verbatim>\<open>backend/src/services/SketchManager.ts\<close>): it owns a frequency analyzer and an anomaly detector, sends the parts of
  a request through both, and runs three periodic tasks. Interval timers are numbered; \<open>running\<close> are the timers the event loop holds,
  the three handles are the fields of the class. Clock readings, the texts \<^verbatim>\<open>JSON.stringify\<close> makes and the replies of Redis are arguments.
\<close>

section \<open>Data\<close>

record sketch_accuracy =
  truePositives :: nat
  falsePositives :: nat
  trueNegatives :: nat
  falseNegatives :: nat
  sp_precision :: real
  sp_recall :: real
  f1Score :: real

record sketch_performance =
  insertsPerSecond :: real
  queriesPerSecond :: real
  insertLatency :: "real \<times> real \<times> real"
  queryLatency :: "real \<times> real \<times> real"
  accuracy :: sketch_accuracy
  totalMemory :: int
  memoryPerItem :: real
  compressionRatio :: real

datatype timer_task = Persist_task | Cleanup_task | Metrics_task

record sketch_manager =
  sm_config :: sketch_manager_config
  sm_analyzer :: freq_analyzer
  sm_detector :: anomaly_detector
  persistenceTimer :: "nat option"
  cleanupTimer :: "nat option"
  metricsCollectionTimer :: "nat option"
  nextTimer :: nat
  running :: "(nat \<times> timer_task) list"
  sm_performance :: sketch_performance
  sm_isInitialized :: bool
  lastPersistenceTime :: time_ms
  lastCleanupTime :: time_ms

record sketch_request =
  sq_ipAddress :: "string option"
  sq_userAgent :: "string option"
  sq_path :: "string option"
  sq_sessionId :: "string option"
  sq_query :: "(string \<times> string) list option"
  sq_timestamp :: "time_ms option"

text \<open>The work of one request: the objects it changes and what it has found; an error ends it.\<close>

record request_work =
  wk_analyzer :: freq_analyzer
  wk_detector :: anomaly_detector
  wk_analyses :: "(string, frequency_result) js_map"
  wk_anomalies :: "sketch_anomaly list"
  wk_error :: "frequency_error option"

datatype manager_error = NotInitialized | TrackingFailed frequency_error

record sketch_outcome =
  so_analyses :: "(string, frequency_result) js_map"
  so_anomalies :: "sketch_anomaly list"
  so_riskScore :: real

section \<open>Construction and timers\<close>

definition sm_initializePerformanceMetrics :: sketch_performance where
  "sm_initializePerformanceMetrics =
     \<lparr>insertsPerSecond = 0, queriesPerSecond = 0, insertLatency = (0, 0, 0), queryLatency = (0, 0, 0),
      accuracy = \<lparr>truePositives = 0, falsePositives = 0, trueNegatives = 0, falseNegatives = 0, sp_precision = 0, sp_recall = 0, f1Score = 0\<rparr>,
      totalMemory = 0, memoryPerItem = 0, compressionRatio = 0\<rparr>"

text \<open>\<open>c\<close> is the configuration after the caller's changes; \<open>now\<close> are the two clock readings of the constructor.\<close>

definition new_sketch_manager ::
  "sketch_manager_config \<Rightarrow> anomaly_config \<Rightarrow> int \<Rightarrow> time_ms \<times> time_ms \<Rightarrow> frequency_error + sketch_manager" where
  "new_sketch_manager c detection seed now =
     (case new_freq_analyzer seed of
        Inl e \<Rightarrow> Inl e
      | Inr a \<Rightarrow> Inr
          \<lparr>sm_config = c, sm_analyzer = a, sm_detector = \<lparr>ad_config = detection, detectionHistory = []\<rparr>,
           persistenceTimer = None, cleanupTimer = None, metricsCollectionTimer = None, nextTimer = 0, running = [],
           sm_performance = sm_initializePerformanceMetrics, sm_isInitialized = False,
           lastPersistenceTime = fst now, lastCleanupTime = snd now\<rparr>)"

text \<open>\<^verbatim>\<open>setInterval\<close> and \<^verbatim>\<open>clearInterval\<close>.\<close>

definition setInterval :: "timer_task \<Rightarrow> sketch_manager \<Rightarrow> nat \<times> sketch_manager" where
  "setInterval task m = (nextTimer m, m\<lparr>nextTimer := nextTimer m + 1, running := running m @ [(nextTimer m, task)]\<rparr>)"

definition clearTimer :: "nat option \<Rightarrow> sketch_manager \<Rightarrow> sketch_manager" where
  "clearTimer handle m =
     (case handle of None \<Rightarrow> m | Some t \<Rightarrow> m\<lparr>running := filter (\<lambda>r. fst r \<noteq> t) (running m)\<rparr>)"

definition sm_startPeriodicTasks :: "sketch_manager \<Rightarrow> sketch_manager" where
  "sm_startPeriodicTasks m =
     (let m = (if js_greater (persistenceInterval (sm_config m)) 0
               then (let (t, m) = setInterval Persist_task m in m\<lparr>persistenceTimer := Some t\<rparr>) else m);
          m = (if js_greater (cleanupInterval (sm_config m)) 0
               then (let (t, m) = setInterval Cleanup_task m in m\<lparr>cleanupTimer := Some t\<rparr>) else m)
      in if enableMetrics (sm_config m)
         then (let (t, m) = setInterval Metrics_task m in m\<lparr>metricsCollectionTimer := Some t\<rparr>) else m)"

text \<open>\<open>change\<close> is the spread of the partial configuration.\<close>

definition sm_updateConfiguration :: "(sketch_manager_config \<Rightarrow> sketch_manager_config) \<Rightarrow> sketch_manager \<Rightarrow> sketch_manager" where
  "sm_updateConfiguration change m =
     (let m = m\<lparr>sm_config := change (sm_config m)\<rparr>;
          m = clearTimer (persistenceTimer m) m;
          m = clearTimer (cleanupTimer m) m
      in sm_startPeriodicTasks m)"

section \<open>Requests\<close>

definition getSketchNameForTracker :: "tracker_type \<Rightarrow> string" where
  "getSketchNameForTracker t =
     (case t of Tr_ip_address \<Rightarrow> ''ip_addresses'' | Tr_user_agent \<Rightarrow> ''user_agents'' | Tr_request_path \<Rightarrow> ''request_paths''
      | Tr_session_id \<Rightarrow> ''session_ids'' | Tr_parameter \<Rightarrow> ''parameters'')"

definition tracker_key :: "tracker_type \<Rightarrow> string" where
  "tracker_key t =
     (case t of Tr_ip_address \<Rightarrow> ''ip_address'' | Tr_user_agent \<Rightarrow> ''user_agent'' | Tr_request_path \<Rightarrow> ''request_path''
      | Tr_session_id \<Rightarrow> ''session_id'' | Tr_parameter \<Rightarrow> ''parameter'')"

definition truthy_text :: "string option \<Rightarrow> string option" where
  "truthy_text t = (if t = Some [] then None else t)"

text \<open>Track, record the analysis under its key, and look for anomalies.\<close>

definition check_item ::
  "string \<Rightarrow> string \<Rightarrow> (freq_analyzer \<Rightarrow> (frequency_error + frequency_result) \<times> freq_analyzer) \<Rightarrow> time_ms \<times> time_ms
   \<Rightarrow> request_work \<Rightarrow> request_work" where
  "check_item key name track clocks wk =
     (if wk_error wk \<noteq> None then wk
      else case track (wk_analyzer wk) of
        (Inl e, a) \<Rightarrow> wk\<lparr>wk_analyzer := a, wk_error := Some e\<rparr>
      | (Inr r, a) \<Rightarrow>
          (let (ans, d) = analyzeFrequency name r clocks a (wk_detector wk)
           in wk\<lparr>wk_analyzer := a, wk_detector := d, wk_analyses := map_set key r (wk_analyses wk),
                  wk_anomalies := wk_anomalies wk @ ans\<rparr>))"

text \<open>\<open>env\<close> gives the readings of the step that records an analysis under a key.\<close>

definition process_tracker where
  "process_tracker parsed rq ts env tracker wk =
     (let t = tr_type tracker; name = getSketchNameForTracker t; key = tracker_key t;
          tracked_text = \<lambda>text track.
            (case truthy_text text of None \<Rightarrow> wk | Some x \<Rightarrow> check_item key name (track x (Some ts) (fst (env key))) (snd (env key)) wk)
      in case t of
           Tr_ip_address \<Rightarrow> tracked_text (sq_ipAddress rq) trackIPAddress
         | Tr_user_agent \<Rightarrow> tracked_text (sq_userAgent rq) trackUserAgent
         | Tr_request_path \<Rightarrow> tracked_text (sq_path rq) (trackRequestPath parsed)
         | Tr_session_id \<Rightarrow> tracked_text (sq_sessionId rq) trackSessionID
         | Tr_parameter \<Rightarrow>
             fold (\<lambda>(k, v). check_item (''param_'' @ k) ''parameters''
                 (trackParameter k v (Some ts) (fst (env (''param_'' @ k)))) (snd (env (''param_'' @ k))))
               (case sq_query rq of None \<Rightarrow> [] | Some kvs \<Rightarrow> kvs) wk)"

definition analysis_weight :: "string \<Rightarrow> real" where
  "analysis_weight type =
     (if type = ''ip_address'' then 3 / 10
      else if type = ''user_agent'' then 2 / 10
      else if type = ''request_path'' then 3 / 10
      else if type = ''session_id'' then 2 / 10
      else if starts_with type ''param_'' then 1 / 10
      else 1)"

definition calculateOverallRiskScore :: "(string, frequency_result) js_map \<Rightarrow> sketch_anomaly list \<Rightarrow> real" where
  "calculateOverallRiskScore analyses anomalies =
     (let maxAnalysisRisk = foldl (\<lambda>m (type, an). max m (fr_riskScore an)) 0 analyses;
          weightedRisk = sum_list (map (\<lambda>(type, an). fr_riskScore an * analysis_weight type) analyses);
          totalWeight = sum_list (map (\<lambda>(type, an). analysis_weight type) analyses);
          analysisRisk = (if totalWeight > 0 then weightedRisk / totalWeight else 0);
          count = \<lambda>s. real (length (filter (\<lambda>an. an_severity an = s) anomalies));
          anomalyBoost = count An_critical * (3 / 10) + count An_high * (2 / 10) + count An_medium * (1 / 10);
          finalRisk = min (analysisRisk + anomalyBoost) 1
      in max finalRisk maxAnalysisRisk)"

definition ratio_or_zero :: "real \<Rightarrow> real \<Rightarrow> real" where
  "ratio_or_zero a b = (if b = 0 then 0 else a / b)"

definition sm_getTotalMemoryUsage :: "sketch_manager \<Rightarrow> int" where
  "sm_getTotalMemoryUsage m = fa_getTotalMemoryUsage (sm_analyzer m)"

definition sm_updatePerformanceMetrics :: "sketch_anomaly list \<Rightarrow> sketch_manager \<Rightarrow> sketch_manager" where
  "sm_updatePerformanceMetrics anomalies m =
     (let pm = sm_performance m;
          ac = accuracy pm;
          sure = length (filter (\<lambda>an. an_confidence an > 8 / 10) anomalies);
          ac = (if anomalies \<noteq> []
                then ac\<lparr>truePositives := truePositives ac + sure, falsePositives := falsePositives ac + (length anomalies - sure)\<rparr>
                else ac\<lparr>trueNegatives := trueNegatives ac + 1\<rparr>);
          tp = real (truePositives ac); fp = real (falsePositives ac); fn = real (falseNegatives ac);
          total = tp + fp + real (trueNegatives ac) + fn;
          p = ratio_or_zero tp (tp + fp); r = ratio_or_zero tp (tp + fn);
          ac = (if total > 0 then ac\<lparr>sp_precision := p, sp_recall := r, f1Score := ratio_or_zero (2 * (p * r)) (p + r)\<rparr> else ac)
      in m\<lparr>sm_performance := pm\<lparr>totalMemory := sm_getTotalMemoryUsage m, accuracy := ac\<rparr>\<rparr>)"

definition start_work :: "sketch_manager \<Rightarrow> request_work" where
  "start_work m =
     \<lparr>wk_analyzer = sm_analyzer m, wk_detector = sm_detector m, wk_analyses = [], wk_anomalies = [], wk_error = None\<rparr>"

definition request_steps where
  "request_steps parsed rq now env m =
     (let ts = (case sq_timestamp rq of None \<Rightarrow> now | Some t \<Rightarrow> t)
      in fold (process_tracker parsed rq ts env) (filter tr_enabled (trackers (sm_config m))) (start_work m))"

definition sm_processRequest ::
  "(string \<Rightarrow> string option) \<Rightarrow> sketch_request \<Rightarrow> time_ms \<Rightarrow> (string \<Rightarrow> track_env \<times> time_ms \<times> time_ms) \<Rightarrow> sketch_manager
   \<Rightarrow> (manager_error + sketch_outcome) \<times> sketch_manager" where
  "sm_processRequest parsed rq now env m =
     (if \<not> sm_isInitialized m then (Inl NotInitialized, m)
      else let wk = request_steps parsed rq now env m;
               m = m\<lparr>sm_analyzer := wk_analyzer wk, sm_detector := wk_detector wk\<rparr>
           in case wk_error wk of
                Some e \<Rightarrow> (Inl (TrackingFailed e), m)
              | None \<Rightarrow>
                  (Inr \<lparr>so_analyses = wk_analyses wk, so_anomalies = wk_anomalies wk,
                        so_riskScore = calculateOverallRiskScore (wk_analyses wk) (wk_anomalies wk)\<rparr>,
                   sm_updatePerformanceMetrics (wk_anomalies wk) m))"

section \<open>Persistence, cleanup and life cycle\<close>

definition sm_isMemoryUsageHealthy :: "sketch_manager \<Rightarrow> bool" where
  "sm_isMemoryUsageHealthy m = js_ge (maxMemoryUsage (sm_config m)) (real_of_int (sm_getTotalMemoryUsage m))"

definition sm_persistToPersistence where
  "sm_persistToPersistence cset csetEx text config_text metrics_text saved_at now m rd =
     (let rd = fa_persistToRedis cset csetEx text saved_at (sm_analyzer m) rd;
          rd = snd (redis_set cset csetEx ''sketch_manager:config'' (config_text (sm_config m)) (Some 3600) rd);
          rd = snd (redis_set cset csetEx ''sketch_manager:metrics'' (metrics_text (sm_performance m)) (Some 3600) rd)
      in (m\<lparr>lastPersistenceTime := now\<rparr>, rd))"

text \<open>\<open>merged\<close> reads a saved text and lays it over the metrics; \<open>None\<close> when it cannot be parsed.\<close>

definition sm_loadFromPersistence where
  "sm_loadFromPersistence cget parse merged m rd =
     (let (a, rd) = fa_loadFromRedis cget parse (sm_analyzer m) rd;
          m = m\<lparr>sm_analyzer := a\<rparr>;
          (saved, rd) = redis_get cget ''sketch_manager:metrics'' rd
      in case truthy_text saved of
           None \<Rightarrow> (m, rd)
         | Some t \<Rightarrow> (case merged t (sm_performance m) of None \<Rightarrow> (m, rd) | Some pm \<Rightarrow> (m\<lparr>sm_performance := pm\<rparr>, rd)))"

definition sm_initialize where
  "sm_initialize cget parse merged m rd =
     (let (m, rd) = sm_loadFromPersistence cget parse merged m rd
      in ((sm_startPeriodicTasks m)\<lparr>sm_isInitialized := True\<rparr>, rd))"

definition sm_stop_timers :: "sketch_manager \<Rightarrow> sketch_manager" where
  "sm_stop_timers m =
     (let m = clearTimer (persistenceTimer m) m; m = clearTimer (cleanupTimer m) m in clearTimer (metricsCollectionTimer m) m)"

definition sm_shutdown where
  "sm_shutdown cset csetEx text config_text metrics_text saved_at now m rd =
     (let (m, rd) = sm_persistToPersistence cset csetEx text config_text metrics_text saved_at now (sm_stop_timers m) rd
      in (m\<lparr>sm_isInitialized := False\<rparr>, rd))"

definition sm_performCleanup :: "time_ms \<Rightarrow> sketch_manager \<Rightarrow> sketch_manager" where
  "sm_performCleanup now m =
     (let m = (if sm_isMemoryUsageHealthy m then m else m\<lparr>sm_analyzer := fa_clearAll (sm_analyzer m)\<rparr>);
          d = fold (\<lambda>name. clearHistory (Some name)) (getSketchNames (sm_analyzer m)) (sm_detector m)
      in m\<lparr>sm_detector := d, lastCleanupTime := now\<rparr>)"

definition sm_reset :: "sketch_manager \<Rightarrow> sketch_manager" where
  "sm_reset m =
     m\<lparr>sm_analyzer := fa_clearAll (sm_analyzer m), sm_performance := sm_initializePerformanceMetrics,
       sm_detector := clearHistory None (sm_detector m)\<rparr>"

record sketch_manager_statistics =
  st_isInitialized :: bool
  st_totalMemoryUsage :: int
  st_enabledTrackers :: nat
  st_sketchMetrics :: "(string, sketch_metrics option) js_map"
  st_performance :: sketch_performance
  st_lastPersistence :: time_ms
  st_lastCleanup :: time_ms

definition getManagerStatistics :: "sketch_manager \<Rightarrow> sketch_manager_statistics" where
  "getManagerStatistics m =
     \<lparr>st_isInitialized = sm_isInitialized m, st_totalMemoryUsage = sm_getTotalMemoryUsage m,
      st_enabledTrackers = length (filter tr_enabled (trackers (sm_config m))),
      st_sketchMetrics = fold (\<lambda>name. map_set name (getSketchMetrics name (sm_analyzer m))) (getSketchNames (sm_analyzer m)) [],
      st_performance = sm_performance m, st_lastPersistence = lastPersistenceTime m, st_lastCleanup = lastCleanupTime m\<rparr>"

section \<open>A request as a sequence of checks\<close>

record check_step =
  cs_key :: string
  cs_sketch :: string
  cs_item :: string
  cs_time :: time_ms
  cs_env :: track_env
  cs_clocks :: "time_ms \<times> time_ms"

definition run_check :: "check_step \<Rightarrow> request_work \<Rightarrow> request_work" where
  "run_check st = check_item (cs_key st) (cs_sketch st) (trackItem (cs_sketch st) (cs_item st) (Some (cs_time st)) (cs_env st)) (cs_clocks st)"

definition tracker_checks where
  "tracker_checks parsed rq ts env tracker =
     (let t = tr_type tracker; key = tracker_key t;
          one = \<lambda>text item. case truthy_text text of None \<Rightarrow> []
            | Some x \<Rightarrow> [\<lparr>cs_key = key, cs_sketch = getSketchNameForTracker t, cs_item = item x, cs_time = ts,
                          cs_env = fst (env key), cs_clocks = snd (env key)\<rparr>]
      in case t of
           Tr_ip_address \<Rightarrow> one (sq_ipAddress rq) id
         | Tr_user_agent \<Rightarrow> one (sq_userAgent rq) normalizeUserAgent
         | Tr_request_path \<Rightarrow> one (sq_path rq) (fa_normalizePath parsed)
         | Tr_session_id \<Rightarrow> one (sq_sessionId rq) id
         | Tr_parameter \<Rightarrow> map (\<lambda>(k, v). \<lparr>cs_key = ''param_'' @ k, cs_sketch = ''parameters'', cs_item = k @ ''='' @ v, cs_time = ts,
               cs_env = fst (env (''param_'' @ k)), cs_clocks = snd (env (''param_'' @ k))\<rparr>) (case sq_query rq of None \<Rightarrow> [] | Some kvs \<Rightarrow> kvs))"

lemma process_tracker_checks: "process_tracker parsed rq ts env tracker wk = fold run_check (tracker_checks parsed rq ts env tracker) wk"
  by (cases "tr_type tracker")
    (auto simp: process_tracker_def tracker_checks_def run_check_def fold_map comp_def case_prod_beta Let_def
      trackIPAddress_def trackUserAgent_def trackRequestPath_def trackSessionID_def trackParameter_def getSketchNameForTracker_def
      split: option.splits intro!: fold_cong)

definition request_checks where
  "request_checks parsed rq now env ts =
     concat (map (tracker_checks parsed rq (case sq_timestamp rq of None \<Rightarrow> now | Some t \<Rightarrow> t) env) (filter tr_enabled ts))"

lemma fold_trackers:
  "fold (process_tracker parsed rq ts env) trs wk = fold run_check (concat (map (tracker_checks parsed rq ts env) trs)) wk"
  by (induction trs arbitrary: wk) (simp_all add: process_tracker_checks)

lemma request_steps_checks:
  "request_steps parsed rq now env m = fold run_check (request_checks parsed rq now env (trackers (sm_config m))) (start_work m)"
  by (simp add: request_steps_def request_checks_def Let_def fold_trackers)

text \<open>What every check keeps, every request keeps.\<close>

locale check_invariant =
  fixes inv :: "freq_analyzer \<Rightarrow> anomaly_detector \<Rightarrow> bool" and allowed :: "check_step \<Rightarrow> bool"
    and good :: "sketch_anomaly \<Rightarrow> bool" and fine :: "frequency_result \<Rightarrow> bool"
  assumes tracked_fails: "inv a d \<Longrightarrow> allowed st \<Longrightarrow>
      trackItem (cs_sketch st) (cs_item st) (Some (cs_time st)) (cs_env st) a = (Inl e, a') \<Longrightarrow> inv a' d"
    and tracked_ok: "inv a d \<Longrightarrow> allowed st \<Longrightarrow>
      trackItem (cs_sketch st) (cs_item st) (Some (cs_time st)) (cs_env st) a = (Inr r, a') \<Longrightarrow>
      analyzeFrequency (cs_sketch st) r (cs_clocks st) a' d = (ans, d') \<Longrightarrow> inv a' d' \<and> (\<forall>an\<in>set ans. good an) \<and> fine r"
begin

definition work_inv :: "request_work \<Rightarrow> bool" where
  "work_inv wk \<longleftrightarrow> inv (wk_analyzer wk) (wk_detector wk) \<and> (\<forall>an\<in>set (wk_anomalies wk). good an)
     \<and> (\<forall>kr\<in>set (wk_analyses wk). fine (snd kr))"

lemma run_check_inv:
  assumes wk: "work_inv wk" and st: "allowed st"
  shows "work_inv (run_check st wk)"
proof (cases "wk_error wk = None")
  case True
  have inv: "inv (wk_analyzer wk) (wk_detector wk)" using wk by (simp add: work_inv_def)
  obtain res a' where t: "trackItem (cs_sketch st) (cs_item st) (Some (cs_time st)) (cs_env st) (wk_analyzer wk) = (res, a')" by fastforce
  show ?thesis
  proof (cases res)
    case (Inl e)
    then show ?thesis using wk True t tracked_fails [OF inv st] by (simp add: run_check_def check_item_def work_inv_def)
  next
    case (Inr r)
    obtain ans d' where f: "analyzeFrequency (cs_sketch st) r (cs_clocks st) a' (wk_detector wk) = (ans, d')" by fastforce
    have "inv a' d' \<and> (\<forall>an\<in>set ans. good an) \<and> fine r" using tracked_ok [OF inv st _ f] t Inr by simp
    then show ?thesis
      using wk True t f Inr set_update_subset [of "cs_key st" r "wk_analyses wk"]
      by (auto simp: run_check_def check_item_def work_inv_def)
  qed
qed (use wk in \<open>simp add: run_check_def check_item_def\<close>)

lemma run_checks_inv: "work_inv wk \<Longrightarrow> (\<And>st. st \<in> set sts \<Longrightarrow> allowed st) \<Longrightarrow> work_inv (fold run_check sts wk)"
  by (induction sts arbitrary: wk) (simp_all add: run_check_inv)

lemma request_inv:
  assumes "inv (sm_analyzer m) (sm_detector m)" and "\<And>st. st \<in> set (request_checks parsed rq now env (trackers (sm_config m))) \<Longrightarrow> allowed st"
  shows "inv (sm_analyzer (snd (sm_processRequest parsed rq now env m))) (sm_detector (snd (sm_processRequest parsed rq now env m)))"
    and "fst (sm_processRequest parsed rq now env m) = Inr out \<Longrightarrow>
      (\<forall>an\<in>set (so_anomalies out). good an) \<and> (\<forall>kr\<in>set (so_analyses out). fine (snd kr))"
proof -
  have "work_inv (start_work m)" using assms(1) by (simp add: work_inv_def start_work_def)
  then have "work_inv (request_steps parsed rq now env m)"
    unfolding request_steps_checks using assms(2) by (rule run_checks_inv)
  then show "inv (sm_analyzer (snd (sm_processRequest parsed rq now env m))) (sm_detector (snd (sm_processRequest parsed rq now env m)))"
    "fst (sm_processRequest parsed rq now env m) = Inr out \<Longrightarrow>
      (\<forall>an\<in>set (so_anomalies out). good an) \<and> (\<forall>kr\<in>set (so_analyses out). fine (snd kr))"
    using assms(1)
    by (auto simp: sm_processRequest_def Let_def work_inv_def sm_updatePerformanceMetrics_def split: option.splits if_splits)
qed

end

section \<open>Invariants of the checks\<close>

type_synonym request_input =
  "(string \<Rightarrow> string option) \<times> sketch_request \<times> time_ms \<times> (string \<Rightarrow> track_env \<times> time_ms \<times> time_ms)"

fun sm_request :: "request_input \<Rightarrow> sketch_manager \<Rightarrow> (manager_error + sketch_outcome) \<times> sketch_manager" where
  "sm_request (parsed, rq, now, env) m = sm_processRequest parsed rq now env m"

fun input_checks :: "request_input \<Rightarrow> frequency_tracker list \<Rightarrow> check_step list" where
  "input_checks (parsed, rq, now, env) ts = request_checks parsed rq now env ts"

definition sm_run :: "request_input list \<Rightarrow> sketch_manager \<Rightarrow> sketch_manager" where
  "sm_run qs m = fold (\<lambda>q m. snd (sm_request q m)) qs m"

lemma request_config [simp]: "sm_config (snd (sm_request q m)) = sm_config m"
  by (cases q) (auto simp: sm_processRequest_def sm_updatePerformanceMetrics_def Let_def split: option.splits)

lemma run_config [simp]: "sm_config (sm_run qs m) = sm_config m"
  by (induction qs arbitrary: m) (simp_all add: sm_run_def)

context check_invariant
begin

lemma sm_run_inv:
  assumes "inv (sm_analyzer m) (sm_detector m)" and "\<And>q st. q \<in> set qs \<Longrightarrow> st \<in> set (input_checks q (trackers (sm_config m))) \<Longrightarrow> allowed st"
  shows "inv (sm_analyzer (sm_run qs m)) (sm_detector (sm_run qs m))"
  using assms
proof (induction qs arbitrary: m)
  case (Cons q qs)
  obtain parsed rq now env where q: "q = (parsed, rq, now, env)" by (cases q)
  have "inv (sm_analyzer (snd (sm_request q m))) (sm_detector (snd (sm_request q m)))"
    using request_inv(1) [OF Cons.prems(1), of parsed rq now env] Cons.prems(2) [of q] q by simp
  moreover have "allowed st" if "q' \<in> set qs" "st \<in> set (input_checks q' (trackers (sm_config (snd (sm_request q m)))))" for q' st
    using Cons.prems(2) [of q' st] that by simp
  ultimately show ?case using Cons.IH [of "snd (sm_request q m)"] by (simp add: sm_run_def)
qed (simp add: sm_run_def)

lemma sm_request_good:
  assumes "inv (sm_analyzer m) (sm_detector m)" and "\<And>st. st \<in> set (input_checks q (trackers (sm_config m))) \<Longrightarrow> allowed st"
    and "fst (sm_request q m) = Inr out"
  shows "(\<forall>an\<in>set (so_anomalies out). good an) \<and> (\<forall>kr\<in>set (so_analyses out). fine (snd kr))"
proof (cases q)
  case (fields parsed rq now env)
  then show ?thesis using request_inv(2) [OF assms(1), of parsed rq now env out] assms(2, 3) by simp
qed

end

text \<open>Every score is a number between 0 and 1.\<close>

lemma track_score: "trackItem name item ts env a = (Inr r, a') \<Longrightarrow> 0 \<le> fr_riskScore r \<and> fr_riskScore r \<le> 1"
  by (auto simp: trackItem_def Let_def case_prod_beta calculateFreqScore_def split: option.splits)

interpretation scores: check_invariant "\<lambda>a d. True" "\<lambda>st. True" "\<lambda>an. True" "\<lambda>r. 0 \<le> fr_riskScore r \<and> fr_riskScore r \<le> 1"
  by unfold_locales (auto dest: track_score)

text \<open>No check changes the size of the sketches.\<close>

lemma sizes_update:
  "map_of m k = Some s \<Longrightarrow> config s' = config s \<Longrightarrow>
    map (\<lambda>(name, s). getMemoryUsage (config s)) (map_set k s' m) = map (\<lambda>(name, s). getMemoryUsage (config s)) m"
  by (induction m) (auto split: if_splits)

lemma memory_track: "fa_getTotalMemoryUsage (snd (trackItem name item ts env a)) = fa_getTotalMemoryUsage a"
  by (auto simp: fa_getTotalMemoryUsage_def track_sketches sizes_update split: option.splits)

interpretation memory: check_invariant "\<lambda>a d. fa_getTotalMemoryUsage a = size" "\<lambda>st. True" "\<lambda>an. True" "\<lambda>r. True" for size
  by unfold_locales (metis memory_track snd_conv)+

lemma new_manager_parts:
  assumes "new_sketch_manager c detection seed now = Inr m"
  shows "new_freq_analyzer seed = Inr (sm_analyzer m)" "sm_config m = c" "sm_detector m = \<lparr>ad_config = detection, detectionHistory = []\<rparr>"
    "sm_isInitialized m = False" "persistenceTimer m = None" "cleanupTimer m = None" "metricsCollectionTimer m = None"
    "nextTimer m = 0" "running m = []"
  using assms by (auto simp: new_sketch_manager_def split: sum.splits)

lemma new_memory: "new_freq_analyzer seed = Inr a \<Longrightarrow> fa_getTotalMemoryUsage a = 496640"
  by (simp add: fa_getTotalMemoryUsage_def new_analyzer_parts(1) fa_default_sketches_def getMemoryUsage_def fa_defaultConfig_def)

section \<open>Timers\<close>

text \<open>Timers are numbered in order, and the two handles that are cleared are not those of a metrics timer.\<close>

definition timers_ok :: "nat \<Rightarrow> sketch_manager \<Rightarrow> bool" where
  "timers_ok n m \<longleftrightarrow>
     length (filter (\<lambda>r. snd r = Metrics_task) (running m)) = n \<and> distinct (map fst (running m))
     \<and> (\<forall>r\<in>set (running m). fst r < nextTimer m \<and> (snd r = Metrics_task \<longrightarrow> persistenceTimer m \<noteq> Some (fst r) \<and> cleanupTimer m \<noteq> Some (fst r)))
     \<and> (\<forall>t. persistenceTimer m = Some t \<or> cleanupTimer m = Some t \<longrightarrow> t < nextTimer m)"

definition metrics_handled :: "sketch_manager \<Rightarrow> bool" where
  "metrics_handled m \<longleftrightarrow> (\<exists>t. metricsCollectionTimer m = Some t \<and> (t, Metrics_task) \<in> set (running m))"

lemma timers_ok_clear:
  assumes "timers_ok n m" and "handle = persistenceTimer m \<or> handle = cleanupTimer m"
  shows "timers_ok n (clearTimer handle m)"
proof (cases handle)
  case (Some t)
  have "filter (\<lambda>r. snd r = Metrics_task) (filter (\<lambda>r. fst r \<noteq> t) (running m)) = filter (\<lambda>r. snd r = Metrics_task) (running m)"
    unfolding filter_filter using assms Some by (intro filter_cong) (auto simp: timers_ok_def)
  then show ?thesis using assms(1) Some by (auto simp: timers_ok_def clearTimer_def distinct_map_filter)
qed (use assms in \<open>simp add: clearTimer_def\<close>)

lemma clearTimer_simps [simp]:
  "persistenceTimer (clearTimer h m) = persistenceTimer m" "cleanupTimer (clearTimer h m) = cleanupTimer m"
  "metricsCollectionTimer (clearTimer h m) = metricsCollectionTimer m" "sm_config (clearTimer h m) = sm_config m"
  by (simp_all add: clearTimer_def split: option.splits)

lemma running_cleared: "running (clearTimer (Some t) m) = filter (\<lambda>r. fst r \<noteq> t) (running m)"
  by (simp add: clearTimer_def)

lemma timers_ok_start:
  assumes "timers_ok n m" and "enableMetrics (sm_config m)"
  shows "timers_ok (Suc n) (sm_startPeriodicTasks m) \<and> metrics_handled (sm_startPeriodicTasks m)"
  using assms unfolding timers_ok_def metrics_handled_def sm_startPeriodicTasks_def setInterval_def
  by (auto simp: Let_def less_Suc_eq)

lemma timers_ok_config: "timers_ok n (m\<lparr>sm_config := c\<rparr>) = timers_ok n m"
  by (simp add: timers_ok_def)

lemma timers_ok_update:
  assumes "timers_ok n m" and "enableMetrics (change (sm_config m))"
  shows "timers_ok (Suc n) (sm_updateConfiguration change m) \<and> metrics_handled (sm_updateConfiguration change m)"
  unfolding sm_updateConfiguration_def Let_def
  using assms by (intro timers_ok_start timers_ok_clear) (simp_all add: timers_ok_config)

lemma timers_stopped:
  assumes "timers_ok (Suc n) m" and "metrics_handled m"
  shows "length (filter (\<lambda>r. snd r = Metrics_task) (running (sm_stop_timers m))) = n"
proof -
  let ?m = "clearTimer (cleanupTimer m) (clearTimer (persistenceTimer m) m)"
  obtain t where t: "metricsCollectionTimer m = Some t" "(t, Metrics_task) \<in> set (running m)"
    using assms(2) by (auto simp: metrics_handled_def)
  have ok: "timers_ok (Suc n) ?m" using timers_ok_clear [OF timers_ok_clear [OF assms(1)]] by simp
  have "persistenceTimer m \<noteq> Some t" "cleanupTimer m \<noteq> Some t" using assms(1) t(2) by (fastforce simp: timers_ok_def)+
  then have mem: "(t, Metrics_task) \<in> set (running ?m)" using t(2) by (auto simp: clearTimer_def split: option.splits)
  define rs where "rs = filter (\<lambda>r. snd r = Metrics_task) (running ?m)"
  have rs: "length rs = Suc n" "distinct (map fst rs)" "(t, Metrics_task) \<in> set rs"
    using ok mem by (simp_all add: timers_ok_def rs_def distinct_map_filter)
  have "running (sm_stop_timers m) = filter (\<lambda>r. fst r \<noteq> t) (running ?m)"
    using t(1) by (simp add: sm_stop_timers_def Let_def running_cleared)
  then have "filter (\<lambda>r. snd r = Metrics_task) (running (sm_stop_timers m)) = filter (\<lambda>r. fst r \<noteq> t) rs"
    by (simp add: rs_def filter_filter conj_commute)
  moreover have "length (filter (\<lambda>r. fst r \<noteq> t) rs) = n"
  proof -
    obtain xs ys where split: "rs = xs @ (t, Metrics_task) # ys" using rs(3) by (meson split_list)
    have "t \<notin> fst ` set xs" "t \<notin> fst ` set ys" using rs(2) unfolding split by auto
    then have "filter (\<lambda>r. fst r \<noteq> t) xs = xs" "filter (\<lambda>r. fst r \<noteq> t) ys = ys" by (auto simp: filter_id_conv)
    then have "filter (\<lambda>r. fst r \<noteq> t) rs = xs @ ys" unfolding split by simp
    then show ?thesis using rs(1) unfolding split by simp
  qed
  ultimately show ?thesis by simp
qed

section \<open>One item within one minute\<close>

definition item_detections :: "string \<Rightarrow> sketch_anomaly list \<Rightarrow> sketch_anomaly list" where
  "item_detections item ans = filter (\<lambda>an. item \<in> set (affectedItems an)) ans"

text \<open>Every window of the item is of one minute, and its history holds at most one detection, none before the item was tracked.\<close>

definition flood_inv :: "string \<Rightarrow> time_ms \<Rightarrow> freq_analyzer \<Rightarrow> anomaly_detector \<Rightarrow> bool" where
  "flood_inv item w a d \<longleftrightarrow>
     (\<exists>hist. fa_counts hist a
       \<and> (\<forall>name ws. map_of (fa_timeWindows a) name = Some ws \<longrightarrow>
            distinct (map window_key ws) \<and> (\<forall>v\<in>set ws. tw_item v = item \<longrightarrow> tw_start v = w))
       \<and> (\<forall>name. length (item_detections item (getDetectionHistory name d)) \<le> (if item \<in> set (hist name) then 1 else 0)))"

lemma one_window:
  assumes "distinct (map window_key ws)" and "\<And>v. v \<in> set ws \<Longrightarrow> tw_item v = item \<Longrightarrow> tw_start v = w"
  shows "length (filter (\<lambda>v. tw_item v = item) ws) < 2"
proof -
  let ?ws = "filter (\<lambda>v. tw_item v = item) ws"
  have "window_key ` set ?ws \<subseteq> {(item, w)}" using assms(2) by (auto simp: window_key_def)
  then have "card (window_key ` set ?ws) \<le> 1" by (metis card.empty card_insert_if card_mono empty_iff finite.emptyI finite.insertI One_nat_def)
  moreover have "distinct (map window_key ?ws)" using assms(1) by (rule distinct_map_filter)
  then have "length ?ws = card (window_key ` set ?ws)" by (metis distinct_card length_map list.set_map)
  ultimately show ?thesis by simp
qed

lemma flood_windows:
  assumes "\<And>n ws. map_of (fa_timeWindows a) n = Some ws \<Longrightarrow> distinct (map window_key ws) \<and> (\<forall>v\<in>set ws. tw_item v = item \<longrightarrow> tw_start v = w)"
    and "i = item \<Longrightarrow> windowStart ts = w" and "map_of (fa_timeWindows (snd (trackItem name i (Some ts) env a))) n = Some ws"
  shows "distinct (map window_key ws) \<and> (\<forall>v\<in>set ws. tw_item v = item \<longrightarrow> tw_start v = w)"
proof (cases "map_of (fa_timeWindows a) n = Some ws")
  case False
  then obtain ws0 f where n: "n = name" and ws0: "map_of (fa_timeWindows a) name = Some ws0"
    and ws: "ws = filter (\<lambda>v. tw_start v > ts - 3600000) (put_window i (windowStart ts) f ws0)"
    using assms(3)
    by (auto simp: trackItem_def updateTimeWindow_def Let_def case_prod_beta update_conv' split: option.splits if_splits)
  note old = assms(1) [OF ws0]
  then have "distinct (map window_key (put_window i (windowStart ts) f ws0))" by (simp add: put_window_keys)
  then have "distinct (map window_key ws)" unfolding ws by (rule distinct_map_filter)
  moreover have "tw_start v = w" if "v \<in> set ws" "tw_item v = item" for v
  proof -
    have "v \<in> set (put_window i (windowStart ts) f ws0)" using that(1) by (simp add: ws)
    from put_window_mem [OF _ this] old that(2) assms(2) show ?thesis by (auto simp: window_key_def)
  qed
  ultimately show ?thesis by blast
qed (use assms(1) in blast)

lemma length_filter_conj:
  "length (filter (\<lambda>x. P x \<and> Q x) xs) \<le> length (filter P xs)" "length (filter (\<lambda>x. P x \<and> Q x) xs) \<le> length (filter Q xs)"
  by (induction xs) simp_all

lemma run_checks_length: "length (fst (run_checks cs)) \<le> length (filter (\<lambda>c. \<exists>an. c = Inr (Some an)) cs)"
  by (induction cs rule: run_checks.induct) (auto simp: case_prod_beta Let_def split: option.splits)

text \<open>An item without a pattern and with fewer than three detections is at most a rare item, and one that is not new is nothing.\<close>

lemma flood_analysis:
  assumes steady: "\<And>p. analyzePattern name (fr_item r) a = Inr p \<Longrightarrow> pt_type p = Pt_steady"
    and few: "length (item_detections (fr_item r) (getDetectionHistory name d)) < 3"
    and f: "analyzeFrequency name r clocks a d = (ans, d')"
  shows "(\<forall>an\<in>set ans. anomalyType an = Rare_item) \<and> length ans \<le> (if currentFrequency r = 1 then 1 else 0)"
proof -
  have "length (recent_detections name (fr_item r) (fst clocks) d) \<le> length (item_detections (fr_item r) (getDetectionHistory name d))"
    unfolding recent_detections_def item_detections_def by (rule length_filter_conj)
  then have no: "detectFrequencySpike name r a d \<noteq> Inr (Some an)" "detectBurstPattern name r a d \<noteq> Inr (Some an)"
    "detectSustainedHighActivity name r (fst clocks) a d \<noteq> Inr (Some an)" for an
    using steady few by (auto dest!: checks_found)
  have rare: "currentFrequency r = 1 \<and> anomalyType an = Rare_item" if "an \<in> set ans" for an
    using anomaly_found [of an name r clocks a d] that f no rare_found by auto
  define cs where "cs = [when_enabled (enableFrequencySpikes (ad_config d)) (detectFrequencySpike name r a d),
     when_enabled (enableRareItemDetection (ad_config d)) (Inr (detectRareItem name r a d)),
     when_enabled (enableBurstPatterns (ad_config d)) (detectBurstPattern name r a d),
     when_enabled (enableSustainedHighActivity (ad_config d)) (detectSustainedHighActivity name r (fst clocks) a d)]"
  have ans: "ans = fst (run_checks cs)" using f by (simp add: analyzeFrequency_def Let_def case_prod_beta cs_def)
  have "length (filter (\<lambda>c. \<exists>an. c = Inr (Some an)) cs) \<le> 1" using no by (simp add: cs_def when_enabled_def)
  then have "length ans \<le> 1" unfolding ans by (rule order_trans [OF run_checks_length])
  then show ?thesis using rare by (cases ans) auto
qed

lemma steady_window:
  assumes "\<And>ws. map_of (fa_timeWindows a) name = Some ws \<Longrightarrow> distinct (map window_key ws) \<and> (\<forall>v\<in>set ws. tw_item v = item \<longrightarrow> tw_start v = w)"
    and p: "analyzePattern name item a = Inr p"
  shows "pt_type p = Pt_steady"
proof (cases "map_of (fa_timeWindows a) name")
  case (Some ws)
  then show ?thesis using p one_window [of ws item w] assms(1) [OF Some] by (auto simp: analyzePattern_def Let_def)
qed (use p in \<open>simp add: analyzePattern_def\<close>)

lemma tracked_found:
  assumes "trackItem name item ts env a = (Inr r, a')"
  shows "\<exists>s th. map_of (fa_sketches a) name = Some s \<and> map_of (fa_thresholds a) name = Some th"
  using assms by (auto simp: trackItem_def Let_def case_prod_beta split: option.splits)

lemma tracked_again:
  assumes "fa_counts hist a" and "trackItem name item ts env a = (Inr r, a')" and "item \<in> set (hist name)"
  shows "currentFrequency r \<noteq> 1"
proof -
  obtain s th where s: "map_of (fa_sketches a) name = Some s" "map_of (fa_thresholds a) name = Some th"
    using tracked_found [OF assms(2)] by blast
  then have f: "currentFrequency r = table_estimate (config s) (hist name @ [item]) item"
    using track_result [OF assms(1) s, of item ts env] assms(2) by auto
  have "validateConfig (config s) = None" using assms(1) s(1) by (simp add: fa_counts_def)
  from table_estimate_bounds(1) [OF this, of "hist name @ [item]" item]
  have "real (count_list (hist name) item + 1) \<le> currentFrequency r" unfolding f by simp
  moreover have "count_list (hist name) item \<noteq> 0" using assms(3) by (simp add: count_list_0_iff)
  ultimately show ?thesis by linarith
qed

lemma flood_step:
  assumes inv: "flood_inv item w a d" and st: "i = item \<Longrightarrow> windowStart ts = w"
    and t: "trackItem name i (Some ts) env a = (Inr r, a')" and f: "analyzeFrequency name r clocks a' d = (ans, d')"
  shows "flood_inv item w a' d' \<and> (\<forall>an\<in>set ans. item \<in> set (affectedItems an) \<longrightarrow> anomalyType an = Rare_item)"
proof -
  obtain hist where c: "fa_counts hist a"
    and ws: "\<And>n ws. map_of (fa_timeWindows a) n = Some ws \<Longrightarrow> distinct (map window_key ws) \<and> (\<forall>v\<in>set ws. tw_item v = item \<longrightarrow> tw_start v = w)"
    and few: "\<And>n. length (item_detections item (getDetectionHistory n d)) \<le> (if item \<in> set (hist n) then 1 else 0)"
    using inv unfolding flood_inv_def by blast
  let ?hist = "hist(name := hist name @ [i])"
  have c': "fa_counts ?hist a'" using fa_counts_track [OF c, of name i "Some ts" env] t by simp
  have ws': "distinct (map window_key ws) \<and> (\<forall>v\<in>set ws. tw_item v = item \<longrightarrow> tw_start v = w)"
    if "map_of (fa_timeWindows a') n = Some ws" for n ws
    using flood_windows [OF ws st, where name = name and env = env and n = n and ws = ws] that t by simp
  have item: "fr_item r = i" using t by (auto simp: trackItem_def Let_def case_prod_beta split: option.splits)
  have found: "length (item_detections item ans) \<le> (if i = item \<and> item \<notin> set (hist name) then 1 else 0)
      \<and> (\<forall>an\<in>set ans. item \<in> set (affectedItems an) \<longrightarrow> anomalyType an = Rare_item)"
  proof (cases "i = item")
    case False
    have "affectedItems an = [i]" if "an \<in> set ans" for an using anomaly_items that f item by (metis fst_conv)
    then show ?thesis using False by (auto simp: item_detections_def filter_empty_conv)
  next
    case True
    have "pt_type p = Pt_steady" if "analyzePattern name (fr_item r) a' = Inr p" for p
      using steady_window [of a' name item w p] ws' that True item by blast
    moreover have "length (item_detections (fr_item r) (getDetectionHistory name d)) < 3"
      using few [of name] True item by (simp split: if_splits)
    ultimately show ?thesis
      using flood_analysis [OF _ _ f] tracked_again [OF c, of name item "Some ts" env r a'] t True
      by (auto simp: item_detections_def split: if_splits intro: order_trans [OF length_filter_le])
  qed
  have "length (item_detections item (getDetectionHistory n d')) \<le> (if item \<in> set (?hist n) then 1 else 0)" for n
  proof (cases "d' = d")
    case True
    then show ?thesis using few [of n] by (auto split: if_splits)
  next
    case False
    then have d': "d' = storeDetectionHistory name ans (snd clocks) d" using analyze_history [of name r clocks a' d] f by auto
    have "length (item_detections item (filter P (xs @ ys))) \<le> length (item_detections item xs) + length (item_detections item ys)" for P xs ys
      unfolding item_detections_def filter_append length_append filter_filter
      by (intro add_mono length_filter_conj)
    from this [of "\<lambda>an. snd clocks - 86400000 < an_end an" "getDetectionHistory name d" ans] show ?thesis
      using few [of n] found unfolding d' history_store by (auto split: if_splits)
  qed
  then show ?thesis unfolding flood_inv_def using c' ws' found by blast
qed

lemma flood_track_fails:
  assumes inv: "flood_inv item w a d" and st: "i = item \<Longrightarrow> windowStart ts = w" and t: "trackItem name i (Some ts) env a = (Inl e, a')"
  shows "flood_inv item w a' d"
proof -
  obtain hist where c: "fa_counts hist a"
    and ws: "\<And>n ws. map_of (fa_timeWindows a) n = Some ws \<Longrightarrow> distinct (map window_key ws) \<and> (\<forall>v\<in>set ws. tw_item v = item \<longrightarrow> tw_start v = w)"
    and few: "\<And>n. length (item_detections item (getDetectionHistory n d)) \<le> (if item \<in> set (hist n) then 1 else 0)"
    using inv unfolding flood_inv_def by blast
  have "fa_counts (hist(name := hist name @ [i])) a'" using fa_counts_track [OF c, of name i "Some ts" env] t by simp
  moreover have "distinct (map window_key ws) \<and> (\<forall>v\<in>set ws. tw_item v = item \<longrightarrow> tw_start v = w)"
    if "map_of (fa_timeWindows a') n = Some ws" for n ws
    using flood_windows [OF ws st, where name = name and env = env and n = n and ws = ws] that t by simp
  moreover have "length (item_detections item (getDetectionHistory n d)) \<le> (if item \<in> set ((hist(name := hist name @ [i])) n) then 1 else 0)" for n
    using few [of n] by (auto split: if_splits)
  ultimately show ?thesis unfolding flood_inv_def by blast
qed

interpretation flood: check_invariant "flood_inv item w" "\<lambda>st. cs_item st = item \<longrightarrow> windowStart (cs_time st) = w"
  "\<lambda>an. item \<in> set (affectedItems an) \<longrightarrow> anomalyType an = Rare_item" "\<lambda>r. True" for item w
  by unfold_locales (blast intro: flood_track_fails, use flood_step in blast)

lemma flood_new:
  assumes "new_freq_analyzer seed = Inr a"
  shows "flood_inv item w a \<lparr>ad_config = c, detectionHistory = []\<rparr>"
proof -
  have "ws = []" if "map_of (fa_timeWindows a) name = Some ws" for name ws
    using that by (auto simp: new_analyzer_parts(2) [OF assms] dest!: map_of_SomeD)
  then show ?thesis
    unfolding flood_inv_def using new_analyzer_counts [OF assms]
    by (intro exI [of _ "\<lambda>_. []"]) (fastforce simp: getDetectionHistory_def item_detections_def)
qed

lemma max_risk_bounds:
  assumes "b \<le> 1" and "\<And>kr. kr \<in> set xs \<Longrightarrow> fr_riskScore (snd kr) \<le> 1"
  shows "b \<le> foldl (\<lambda>m (type, an). max m (fr_riskScore an)) b xs \<and> foldl (\<lambda>m (type, an). max m (fr_riskScore an)) b xs \<le> 1
    \<and> (\<forall>kr\<in>set xs. fr_riskScore (snd kr) \<le> foldl (\<lambda>m (type, an). max m (fr_riskScore an)) b xs)"
  using assms
proof (induction xs arbitrary: b)
  case (Cons kr xs)
  from Cons.IH [of "max b (fr_riskScore (snd kr))"] Cons.prems show ?case by (auto simp: case_prod_beta)
qed simp

lemma overall_risk_bounds:
  assumes "\<forall>kr\<in>set xs. 0 \<le> fr_riskScore (snd kr) \<and> fr_riskScore (snd kr) \<le> 1"
  shows "0 \<le> calculateOverallRiskScore xs ans \<and> calculateOverallRiskScore xs ans \<le> 1
    \<and> (\<forall>kr\<in>set xs. fr_riskScore (snd kr) \<le> calculateOverallRiskScore xs ans)"
  using max_risk_bounds [of 0 xs] assms
  unfolding calculateOverallRiskScore_def Let_def by (auto intro: max.coboundedI2)

section \<open>Properties\<close>

text \<open>
  From a new manager, whatever requests it has processed, an item all of whose requests fall into one minute is never reported as a
  spike, a burst or a sustained activity, however many there are: only the report of a rare item can name it. The pattern of an
  item is taken over whole minutes, and one minute is no pattern.
\<close>
theorem flood_unreported:
  assumes "new_sketch_manager c detection seed now = Inr m"
    and "\<forall>q\<in>set (qs @ [q0]). \<forall>st\<in>set (input_checks q (trackers c)). cs_item st = item \<longrightarrow> windowStart (cs_time st) = w"
    and "sm_request q0 (sm_run qs (m\<lparr>sm_isInitialized := True\<rparr>)) = (Inr out, m')"
  shows "\<forall>an\<in>set (so_anomalies out). item \<in> set (affectedItems an) \<longrightarrow> anomalyType an = Rare_item"
proof -
  note m = new_manager_parts [OF assms(1)]
  have start: "flood_inv item w (sm_analyzer (m\<lparr>sm_isInitialized := True\<rparr>)) (sm_detector (m\<lparr>sm_isInitialized := True\<rparr>))"
    using flood_new [OF m(1)] m(3) by simp
  have "flood_inv item w (sm_analyzer (sm_run qs (m\<lparr>sm_isInitialized := True\<rparr>))) (sm_detector (sm_run qs (m\<lparr>sm_isInitialized := True\<rparr>)))"
    using assms(2) m(2) by (intro flood.sm_run_inv [OF start]) auto
  from flood.sm_request_good [OF this, of q0 out] assms(2, 3) m(2) show ?thesis by auto
qed

text \<open>
  The memory of a new manager is 496640 bytes and requests do not change it. With a limit of at least that, as in both default
  configurations, the periodic cleanup never clears the sketches, so their counts grow for as long as the process runs; it does
  forget the detections of every sketch.
\<close>
theorem cleanup_keeps_counts:
  assumes "new_sketch_manager c detection seed now = Inr m" and "js_ge (maxMemoryUsage c) 496640"
  shows "sm_getTotalMemoryUsage (sm_run qs m) = 496640 \<and> sm_analyzer (sm_performCleanup t (sm_run qs m)) = sm_analyzer (sm_run qs m)"
proof -
  note m = new_manager_parts [OF assms(1)]
  have "fa_getTotalMemoryUsage (sm_analyzer (sm_run qs m)) = 496640"
    by (rule memory.sm_run_inv) (simp_all add: new_memory [OF m(1)])
  then show ?thesis using assms(2) m(2)
    by (simp add: sm_getTotalMemoryUsage_def sm_performCleanup_def sm_isMemoryUsageHealthy_def Let_def)
qed

text \<open>
  The risk score of a request is a number between 0 and 1 and at least the score of each of its parts, in every state of the
  manager.
\<close>
theorem request_risk_bounds:
  assumes "sm_request q m = (Inr out, m')"
  shows "0 \<le> so_riskScore out \<and> so_riskScore out \<le> 1 \<and> (\<forall>kr\<in>set (so_analyses out). fr_riskScore (snd kr) \<le> so_riskScore out)"
proof -
  have "\<forall>kr\<in>set (so_analyses out). 0 \<le> fr_riskScore (snd kr) \<and> fr_riskScore (snd kr) \<le> 1"
    using scores.sm_request_good [where m = m and q = q and out = out] assms by simp
  moreover have "so_riskScore out = calculateOverallRiskScore (so_analyses out) (so_anomalies out)"
    using assms by (cases q) (auto simp: sm_processRequest_def Let_def split: if_splits option.splits)
  ultimately show ?thesis using overall_risk_bounds [of "so_analyses out" "so_anomalies out"] by simp
qed

text \<open>
  A request sees of the configured trackers only their types and whether they are enabled: the sketch sizes, thresholds and time
  windows that the environment sets have no effect on any result.
\<close>
theorem tracker_settings_ignored:
  assumes "map (\<lambda>t. (tr_type t, tr_enabled t)) ts = map (\<lambda>t. (tr_type t, tr_enabled t)) ts'"
  shows "fst (sm_request q (m\<lparr>sm_config := (sm_config m)\<lparr>trackers := ts\<rparr>\<rparr>)) = fst (sm_request q (m\<lparr>sm_config := (sm_config m)\<lparr>trackers := ts'\<rparr>\<rparr>))"
proof -
  obtain parsed rq now env where q: "q = (parsed, rq, now, env)" by (cases q)
  have "request_checks parsed rq now env ts = request_checks parsed rq now env ts'"
    using assms
  proof (induction ts arbitrary: ts')
    case (Cons t ts)
    then obtain t' ts'' where "ts' = t' # ts''" "tr_type t' = tr_type t" "tr_enabled t' = tr_enabled t"
      "map (\<lambda>t. (tr_type t, tr_enabled t)) ts = map (\<lambda>t. (tr_type t, tr_enabled t)) ts''" by (cases ts') auto
    then show ?case using Cons.IH [of ts''] by (simp add: request_checks_def tracker_checks_def)
  qed (simp add: request_checks_def)
  then have "request_steps parsed rq now env (m\<lparr>sm_config := (sm_config m)\<lparr>trackers := ts\<rparr>\<rparr>)
      = request_steps parsed rq now env (m\<lparr>sm_config := (sm_config m)\<lparr>trackers := ts'\<rparr>\<rparr>)"
    by (simp add: request_steps_checks start_work_def)
  then show ?thesis by (simp add: q sm_processRequest_def Let_def split: option.splits)
qed

text \<open>
  Every change of the configuration leaves one more metrics timer running: after the first start and \<open>n\<close> changes that keep metrics
  enabled, stopping the manager stops one of them and \<open>n\<close> run on.
\<close>
theorem metrics_timers_leak:
  assumes "new_sketch_manager c detection seed now = Inr m" and "enableMetrics c" and "\<forall>ch\<in>set changes. \<forall>c. enableMetrics (ch c)"
  shows "length (filter (\<lambda>r. snd r = Metrics_task)
    (running (sm_stop_timers (fold sm_updateConfiguration changes (sm_startPeriodicTasks m))))) = length changes"
proof -
  note m = new_manager_parts [OF assms(1)]
  have "timers_ok 0 m" using m by (simp add: timers_ok_def)
  then have "timers_ok (Suc 0) (sm_startPeriodicTasks m) \<and> metrics_handled (sm_startPeriodicTasks m)"
    using timers_ok_start assms(2) m(2) by simp
  moreover have "timers_ok (Suc (k + length chs)) (fold sm_updateConfiguration chs m') \<and> metrics_handled (fold sm_updateConfiguration chs m')"
    if "timers_ok (Suc k) m' \<and> metrics_handled m'" "\<forall>ch\<in>set chs. \<forall>c. enableMetrics (ch c)" for k chs m'
    using that
  proof (induction chs arbitrary: k m')
    case (Cons ch chs)
    then show ?case using Cons.IH [of "Suc k" "sm_updateConfiguration ch m'"] timers_ok_update [of "Suc k" m' ch] by simp
  qed simp
  ultimately have "timers_ok (Suc (length changes)) (fold sm_updateConfiguration changes (sm_startPeriodicTasks m))"
    "metrics_handled (fold sm_updateConfiguration changes (sm_startPeriodicTasks m))"
    using assms(3) by (metis add_0)+
  then show ?thesis by (rule timers_stopped)
qed

section \<open>Witnesses\<close>

definition demo_tracker :: frequency_tracker where
  "demo_tracker =
     \<lparr>tr_type = Tr_ip_address, tr_sketch = getPerformanceTunedConfig 10 0, tr_baseline = Fin 10, tr_suspicious = Fin 50, tr_anomalous = Fin 100,
      tr_critical = Fin 500, tr_timeWindow = Fin 300000, tr_enabled = True\<rparr>"

definition demo_manager_config :: sketch_manager_config where
  "demo_manager_config =
     \<lparr>trackers = [demo_tracker], persistenceInterval = Fin 300000, cleanupInterval = Fin 900000, maxMemoryUsage = Fin 209715200, enableMetrics = True\<rparr>"

definition demo_input :: "time_ms \<Rightarrow> request_input" where
  "demo_input t =
     (\<lambda>p. Some p, \<lparr>sq_ipAddress = Some ''10.0.0.1'', sq_userAgent = None, sq_path = None, sq_sessionId = None, sq_query = None, sq_timestamp = Some t\<rparr>,
      0, \<lambda>k. (demo_env, (t, t)))"

lemma demo_manager: "\<exists>m. new_sketch_manager demo_manager_config default_anomaly_config 7 (0, 0) = Inr m"
  using new_freq_analyzer_ok [of 7] by (auto simp: new_sketch_manager_def)

lemma demo_checks: "input_checks (demo_input t) [demo_tracker] =
    [\<lparr>cs_key = ''ip_address'', cs_sketch = ''ip_addresses'', cs_item = ''10.0.0.1'', cs_time = t, cs_env = demo_env, cs_clocks = (t, t)\<rparr>]"
  by (simp add: demo_input_def request_checks_def tracker_checks_def demo_tracker_def truthy_text_def tracker_key_def getSketchNameForTracker_def)

text \<open>Tracking with the two configured parts present always succeeds.\<close>

definition ip_ready :: "freq_analyzer \<Rightarrow> anomaly_detector \<Rightarrow> bool" where
  "ip_ready a d \<longleftrightarrow> map_of (fa_sketches a) ''ip_addresses'' \<noteq> None \<and> map_of (fa_thresholds a) ''ip_addresses'' \<noteq> None"

interpretation ready: check_invariant ip_ready "\<lambda>st. True" "\<lambda>an. True" "\<lambda>r. True"
proof
  have kept: "ip_ready (snd (trackItem name i ts env a)) d'" if ready: "ip_ready a d" for a d name i ts env d'
  proof -
    obtain s where "map_of (fa_sketches a) ''ip_addresses'' = Some s" using ready by (auto simp: ip_ready_def)
    from track_sketch_kept [OF this, of name i ts env] ready show ?thesis by (auto simp: ip_ready_def)
  qed
  show "ip_ready a' d" if "ip_ready a d" "trackItem (cs_sketch st) (cs_item st) (Some (cs_time st)) (cs_env st) a = (Inl e, a')" for a d st e a'
    using kept [OF that(1)] that(2) by (metis snd_conv)
  show "ip_ready a' d' \<and> (\<forall>an\<in>set ans. True) \<and> True"
    if "ip_ready a d" "trackItem (cs_sketch st) (cs_item st) (Some (cs_time st)) (cs_env st) a = (Inr r, a')" for a d st r a' d' ans
    using kept [OF that(1)] that(2) by (metis snd_conv)
qed

lemma initialized_run: "sm_isInitialized m \<Longrightarrow> sm_isInitialized (sm_run qs m)"
proof (induction qs arbitrary: m)
  case (Cons q qs)
  then have "sm_isInitialized (snd (sm_request q m))"
    by (cases q) (auto simp: sm_processRequest_def sm_updatePerformanceMetrics_def Let_def split: option.splits)
  then show ?case using Cons.IH by (simp add: sm_run_def)
qed (simp add: sm_run_def)

lemma demo_request_returns:
  assumes "new_sketch_manager demo_manager_config d 7 (0, 0) = Inr m"
  shows "\<exists>out m'. sm_request (demo_input t) (sm_run qs (m\<lparr>sm_isInitialized := True\<rparr>)) = (Inr out, m')"
proof -
  let ?m = "sm_run qs (m\<lparr>sm_isInitialized := True\<rparr>)"
  note m = new_manager_parts [OF assms]
  have "ip_ready (sm_analyzer m) (sm_detector m)"
    using new_analyzer_named(1) [OF m(1) demo_thresholds] by (auto simp: ip_ready_def new_analyzer_parts(3) [OF m(1)] demo_thresholds)
  then have "ip_ready (sm_analyzer ?m) (sm_detector ?m)" by (intro ready.sm_run_inv) simp_all
  then obtain s th where s: "map_of (fa_sketches (sm_analyzer ?m)) ''ip_addresses'' = Some s" "map_of (fa_thresholds (sm_analyzer ?m)) ''ip_addresses'' = Some th"
    by (auto simp: ip_ready_def)
  have "request_checks (\<lambda>p. Some p) (fst (snd (demo_input t))) 0 (\<lambda>k. (demo_env, (t, t))) [demo_tracker] = input_checks (demo_input t) [demo_tracker]"
    by (simp add: demo_input_def)
  then have steps: "request_steps (\<lambda>p. Some p) (fst (snd (demo_input t))) 0 (\<lambda>k. (demo_env, (t, t))) ?m =
      check_item ''ip_address'' ''ip_addresses'' (trackItem ''ip_addresses'' ''10.0.0.1'' (Some t) demo_env) (t, t) (start_work ?m)"
    unfolding request_steps_checks by (simp add: m(2) demo_manager_config_def demo_checks run_check_def)
  obtain r a' where "trackItem ''ip_addresses'' ''10.0.0.1'' (Some t) demo_env (sm_analyzer ?m) = (Inr r, a')"
    using trackItem_found [OF s] by metis
  then have "wk_error (request_steps (\<lambda>p. Some p) (fst (snd (demo_input t))) 0 (\<lambda>k. (demo_env, (t, t))) ?m) = None"
    unfolding steps by (simp add: check_item_def start_work_def case_prod_beta)
  then show ?thesis
    using initialized_run [of "m\<lparr>sm_isInitialized := True\<rparr>" qs] by (simp add: demo_input_def sm_processRequest_def Let_def)
qed

text \<open>Ten thousand requests of one address within a minute.\<close>

theorem flood_unreported_witness:
  "\<exists>m out m'. new_sketch_manager demo_manager_config default_anomaly_config 7 (0, 0) = Inr m
    \<and> sm_request (demo_input 1000) (sm_run (replicate 10000 (demo_input 1000)) (m\<lparr>sm_isInitialized := True\<rparr>)) = (Inr out, m')
    \<and> (\<forall>an\<in>set (so_anomalies out). ''10.0.0.1'' \<in> set (affectedItems an) \<longrightarrow> anomalyType an = Rare_item)"
proof -
  obtain m where m: "new_sketch_manager demo_manager_config default_anomaly_config 7 (0, 0) = Inr m" using demo_manager by blast
  obtain out m' where o: "sm_request (demo_input 1000) (sm_run (replicate 10000 (demo_input 1000)) (m\<lparr>sm_isInitialized := True\<rparr>)) = (Inr out, m')"
    using demo_request_returns [OF m] by blast
  have "\<forall>q\<in>set (replicate 10000 (demo_input 1000) @ [demo_input 1000]). \<forall>st\<in>set (input_checks q (trackers demo_manager_config)).
      cs_item st = ''10.0.0.1'' \<longrightarrow> windowStart (cs_time st) = 0"
    by (simp add: demo_manager_config_def demo_checks windowStart_def windowDuration_def)
  from flood_unreported [OF m this o] m o show ?thesis by blast
qed

theorem cleanup_keeps_counts_witness:
  "\<exists>m. new_sketch_manager demo_manager_config default_anomaly_config 7 (0, 0) = Inr m
    \<and> sm_getTotalMemoryUsage (sm_run [demo_input 0] m) = 496640"
proof -
  obtain m where m: "new_sketch_manager demo_manager_config default_anomaly_config 7 (0, 0) = Inr m" using demo_manager by blast
  from cleanup_keeps_counts [OF m, of "[demo_input 0]"] m show ?thesis by (auto simp: demo_manager_config_def)
qed

theorem request_risk_bounds_witness:
  "\<exists>m out m'. sm_request (demo_input 0) m = (Inr out, m') \<and> so_riskScore out \<le> 1"
proof -
  obtain m where m: "new_sketch_manager demo_manager_config default_anomaly_config 7 (0, 0) = Inr m" using demo_manager by blast
  obtain out m' where o: "sm_request (demo_input 0) (sm_run [] (m\<lparr>sm_isInitialized := True\<rparr>)) = (Inr out, m')"
    using demo_request_returns [OF m] by blast
  from request_risk_bounds [OF o] o show ?thesis by blast
qed

theorem tracker_settings_ignored_witness:
  "\<exists>m. fst (sm_request (demo_input 0) (m\<lparr>sm_config := (sm_config m)\<lparr>trackers := [demo_tracker]\<rparr>\<rparr>))
    = fst (sm_request (demo_input 0) (m\<lparr>sm_config := (sm_config m)\<lparr>trackers := [demo_tracker\<lparr>tr_critical := Fin 1\<rparr>]\<rparr>\<rparr>))"
proof -
  obtain m where m: "new_sketch_manager demo_manager_config default_anomaly_config 7 (0, 0) = Inr m" using demo_manager by blast
  have "map (\<lambda>t. (tr_type t, tr_enabled t)) [demo_tracker] = map (\<lambda>t. (tr_type t, tr_enabled t)) [demo_tracker\<lparr>tr_critical := Fin 1\<rparr>]" by simp
  from tracker_settings_ignored [OF this] show ?thesis by blast
qed

theorem metrics_timers_leak_witness:
  "\<exists>m. new_sketch_manager demo_manager_config default_anomaly_config 7 (0, 0) = Inr m
    \<and> length (filter (\<lambda>r. snd r = Metrics_task) (running (sm_stop_timers (fold sm_updateConfiguration
        [\<lambda>c. c\<lparr>enableMetrics := True\<rparr>, \<lambda>c. c\<lparr>enableMetrics := True\<rparr>] (sm_startPeriodicTasks m))))) = 2"
proof -
  obtain m where m: "new_sketch_manager demo_manager_config default_anomaly_config 7 (0, 0) = Inr m" using demo_manager by blast
  have "enableMetrics demo_manager_config" by (simp add: demo_manager_config_def)
  moreover have "\<forall>ch\<in>set [\<lambda>c. c\<lparr>enableMetrics := True\<rparr>, \<lambda>c. c\<lparr>enableMetrics := True\<rparr>]. \<forall>c :: sketch_manager_config. enableMetrics (ch c)" by simp
  ultimately show ?thesis using metrics_timers_leak [OF m] m by fastforce
qed

end
