(* ===== verification/SketchMetrics.thy ===== *)
theory SketchMetrics
  imports SketchDetection
begin

text \<open>
  The metrics collector of the sketches (\<^verbatim>\<open>backend/src/core/sketch/SketchMetrics.ts\<close>): latency histograms, time series, counters, alerts and the reports
  over them. The clock is an argument. The latency of an operation is in microseconds. The text and the data of an alert are a constructor with its
  numbers. The metadata that callers may pass are never read and are left out, as are the two renderings of the exported metrics.
\<close>

section \<open>Latency histogram\<close>

type_synonym histogram = "real list"

definition hist_add :: "real \<Rightarrow> histogram \<Rightarrow> histogram" where
  "hist_add v h = (let h = h @ [v] in if length h > 1000 then tl h else h)"

datatype percentile = P50 | P95 | P99

fun percent :: "percentile \<Rightarrow> real" where
  "percent P50 = 50"
| "percent P95 = 95"
| "percent P99 = 99"

definition getPercentile :: "percentile \<Rightarrow> histogram \<Rightarrow> real" where
  "getPercentile p h =
     (if h = [] then 0
      else let sorted = sort h; index = \<lceil>percent p / 100 * real (length sorted)\<rceil> - 1 in sorted ! nat (max 0 index))"

section \<open>Time series\<close>

type_synonym series = "(time_ms \<times> real) list"

definition series_add :: "time_ms \<Rightarrow> real \<Rightarrow> series \<Rightarrow> series" where
  "series_add now v s = filter (\<lambda>dp. fst dp > now - 86400000) (s @ [(now, v)])"

definition series_getRecent :: "time_ms \<Rightarrow> int \<Rightarrow> series \<Rightarrow> series" where
  "series_getRecent now minutes s = filter (\<lambda>dp. fst dp > now - minutes * 60 * 1000) s"

definition series_getAverage :: "time_ms \<Rightarrow> int \<Rightarrow> series \<Rightarrow> real" where
  "series_getAverage now minutes s =
     (let recent = series_getRecent now minutes s in if recent = [] then 0 else sum_list (map snd recent) / real (length recent))"

definition series_getMax :: "time_ms \<Rightarrow> int \<Rightarrow> series \<Rightarrow> real" where
  "series_getMax now minutes s = (let recent = series_getRecent now minutes s in if recent = [] then 0 else Max (set (map snd recent)))"

definition series_getMin :: "time_ms \<Rightarrow> int \<Rightarrow> series \<Rightarrow> real" where
  "series_getMin now minutes s = (let recent = series_getRecent now minutes s in if recent = [] then 0 else Min (set (map snd recent)))"

definition series_getTrend :: "time_ms \<Rightarrow> int \<Rightarrow> series \<Rightarrow> real" where
  "series_getTrend now minutes s =
     (let recent = series_getRecent now minutes s
      in if length recent < 2 then 0
         else let first = snd (hd recent); final = snd (last recent) in if first = 0 then 0 else (final - first) / first)"

section \<open>The collector\<close>

datatype alert_type = High_latency | High_memory | High_error_rate | Low_accuracy

datatype sketch_operation = Op_insert | Op_query

datatype alert_data = Latency_of sketch_operation real real | Memory_of real real jsnum | Accuracy_of real real nat

record performance_alert =
  al_timestamp :: time_ms
  al_type :: alert_type
  al_severity :: anomaly_severity
  al_data :: alert_data

record accuracy_metrics =
  truePositives :: nat
  falsePositives :: nat
  trueNegatives :: nat
  falseNegatives :: nat

record sketch_metrics_collector =
  insertLatency :: histogram
  queryLatency :: histogram
  operationsPerSecond :: series
  mc_memoryUsage :: series
  mc_errorRate :: series
  mc_anomalyRate :: series
  totalInserts :: nat
  totalQueries :: nat
  totalErrors :: nat
  totalAnomalies :: nat
  accuracyMetrics :: accuracy_metrics
  performanceAlerts :: "performance_alert list"
  mc_timer :: bool

definition no_accuracy :: accuracy_metrics where
  "no_accuracy = \<lparr>truePositives = 0, falsePositives = 0, trueNegatives = 0, falseNegatives = 0\<rparr>"

definition new_metrics_collector :: sketch_metrics_collector where
  "new_metrics_collector =
     \<lparr>insertLatency = [], queryLatency = [], operationsPerSecond = [], mc_memoryUsage = [], mc_errorRate = [], mc_anomalyRate = [], totalInserts = 0,
      totalQueries = 0, totalErrors = 0, totalAnomalies = 0, accuracyMetrics = no_accuracy, performanceAlerts = [], mc_timer = True\<rparr>"

definition addPerformanceAlert :: "time_ms \<Rightarrow> alert_type \<Rightarrow> anomaly_severity \<Rightarrow> alert_data \<Rightarrow> sketch_metrics_collector \<Rightarrow> sketch_metrics_collector" where
  "addPerformanceAlert now type severity d c =
     c\<lparr>performanceAlerts := filter (\<lambda>a. al_timestamp a > now - 86400000)
         (performanceAlerts c @ [\<lparr>al_timestamp = now, al_type = type, al_severity = severity, al_data = d\<rparr>])\<rparr>"

definition checkLatencyAlert :: "time_ms \<Rightarrow> sketch_operation \<Rightarrow> real \<Rightarrow> sketch_metrics_collector \<Rightarrow> sketch_metrics_collector" where
  "checkLatencyAlert now op latency c =
     (let threshold = (if op = Op_insert then 5000 else 2000)
      in if latency > threshold * 2 then addPerformanceAlert now High_latency An_high (Latency_of op latency threshold) c else c)"

definition recordInsert :: "time_ms \<Rightarrow> real \<Rightarrow> bool \<Rightarrow> sketch_metrics_collector \<Rightarrow> sketch_metrics_collector" where
  "recordInsert now latency success c =
     (let c = c\<lparr>totalInserts := totalInserts c + 1\<rparr>;
          c = (if success then c\<lparr>insertLatency := hist_add latency (insertLatency c)\<rparr> else c\<lparr>totalErrors := totalErrors c + 1\<rparr>)
      in checkLatencyAlert now Op_insert latency c)"

definition recordQuery :: "time_ms \<Rightarrow> real \<Rightarrow> bool \<Rightarrow> sketch_metrics_collector \<Rightarrow> sketch_metrics_collector" where
  "recordQuery now latency success c =
     (let c = c\<lparr>totalQueries := totalQueries c + 1\<rparr>;
          c = (if success then c\<lparr>queryLatency := hist_add latency (queryLatency c)\<rparr> else c\<lparr>totalErrors := totalErrors c + 1\<rparr>)
      in checkLatencyAlert now Op_query latency c)"

definition total_predictions :: "accuracy_metrics \<Rightarrow> nat" where
  "total_predictions m = truePositives m + falsePositives m + trueNegatives m + falseNegatives m"

definition am_precision :: "accuracy_metrics \<Rightarrow> real" where
  "am_precision m =
     (if truePositives m + falsePositives m > 0 then real (truePositives m) / real (truePositives m + falsePositives m) else 0)"

definition checkAccuracyAlert :: "time_ms \<Rightarrow> sketch_metrics_collector \<Rightarrow> sketch_metrics_collector" where
  "checkAccuracyAlert now c =
     (let m = accuracyMetrics c; total = total_predictions m
      in if total > 100 \<and> total mod 50 = 0
         then let accuracy = real (truePositives m + trueNegatives m) / real total
              in if accuracy < 7 / 10
                 then addPerformanceAlert now Low_accuracy (if accuracy < 5 / 10 then An_critical else An_high)
                        (Accuracy_of accuracy (am_precision m) total) c
                 else c
         else c)"

definition high_confidence :: "sketch_anomaly list \<Rightarrow> bool" where
  "high_confidence rs \<longleftrightarrow> (\<exists>r \<in> set rs. an_confidence r > 8 / 10 \<and> (an_severity r = An_high \<or> an_severity r = An_critical))"

definition recordAnomalyDetection :: "time_ms \<Rightarrow> sketch_anomaly list \<Rightarrow> bool \<Rightarrow> sketch_metrics_collector \<Rightarrow> sketch_metrics_collector" where
  "recordAnomalyDetection now rs actualThreat c =
     (let has = high_confidence rs; m = accuracyMetrics c;
          m = (if has \<and> actualThreat then m\<lparr>truePositives := truePositives m + 1\<rparr>
               else if has \<and> \<not> actualThreat then m\<lparr>falsePositives := falsePositives m + 1\<rparr>
               else if \<not> has \<and> \<not> actualThreat then m\<lparr>trueNegatives := trueNegatives m + 1\<rparr>
               else m\<lparr>falseNegatives := falseNegatives m + 1\<rparr>);
          c = c\<lparr>accuracyMetrics := m\<rparr>;
          c = (if length rs > 0 then c\<lparr>totalAnomalies := totalAnomalies c + 1\<rparr> else c)
      in checkAccuracyAlert now c)"

definition mc_recordMemoryUsage :: "time_ms \<Rightarrow> real \<Rightarrow> real \<Rightarrow> sketch_metrics_collector \<Rightarrow> sketch_metrics_collector" where
  "mc_recordMemoryUsage now bytes maxBytes c =
     (let c = c\<lparr>mc_memoryUsage := series_add now bytes (mc_memoryUsage c)\<rparr>; ratio = js_div bytes maxBytes
      in if js_greater ratio (9 / 10)
         then addPerformanceAlert now High_memory (if js_greater ratio (95 / 100) then An_critical else An_high) (Memory_of bytes maxBytes ratio) c
         else c)"

section \<open>Reports\<close>

record performance_report =
  pf_inserts :: nat
  pf_queries :: nat
  pf_insertLatency :: "percentile \<Rightarrow> real"
  pf_queryLatency :: "percentile \<Rightarrow> real"
  pf_accuracy :: accuracy_metrics
  pf_precision :: real
  pf_recall :: real
  pf_f1Score :: real
  pf_totalMemory :: real
  pf_memoryPerItem :: real
  pf_compressionRatio :: real

definition calculateOpsPerSecond :: "time_ms \<Rightarrow> sketch_metrics_collector \<Rightarrow> nat" where
  "calculateOpsPerSecond now c = length (series_getRecent now 1 (operationsPerSecond c))"

definition current_memory :: "time_ms \<Rightarrow> sketch_metrics_collector \<Rightarrow> real" where
  "current_memory now c = (case series_getRecent now 1 (mc_memoryUsage c) of [] \<Rightarrow> 0 | dp # _ \<Rightarrow> snd dp)"

definition total_ops :: "sketch_metrics_collector \<Rightarrow> nat" where
  "total_ops c = totalInserts c + totalQueries c"

definition calculateCompressionRatio :: "time_ms \<Rightarrow> sketch_metrics_collector \<Rightarrow> real" where
  "calculateCompressionRatio now c =
     (let memory = current_memory now c in if total_ops c = 0 \<or> memory = 0 then 0 else real (total_ops c * 100) / memory)"

definition mc_getPerformanceMetrics :: "time_ms \<Rightarrow> sketch_metrics_collector \<Rightarrow> performance_report" where
  "mc_getPerformanceMetrics now c =
     (let m = accuracyMetrics c;
          p = am_precision m;
          recall = (if truePositives m + falseNegatives m > 0 then real (truePositives m) / real (truePositives m + falseNegatives m) else 0);
          f1 = (if p + recall > 0 then 2 * (p * recall) / (p + recall) else 0)
      in \<lparr>pf_inserts = calculateOpsPerSecond now c, pf_queries = calculateOpsPerSecond now c,
          pf_insertLatency = (\<lambda>q. getPercentile q (insertLatency c)), pf_queryLatency = (\<lambda>q. getPercentile q (queryLatency c)),
          pf_accuracy = m, pf_precision = p, pf_recall = recall, pf_f1Score = f1, pf_totalMemory = current_memory now c,
          pf_memoryPerItem = (if total_ops c > 0 then current_memory now c / real (total_ops c) else 0),
          pf_compressionRatio = calculateCompressionRatio now c\<rparr>)"

definition error_rate :: "sketch_metrics_collector \<Rightarrow> real" where
  "error_rate c = (if total_ops c > 0 then real (totalErrors c) / real (total_ops c) else 0)"

datatype collector_issue = Issue_latency | Issue_errors | Issue_accuracy | Issue_memory

datatype collector_status = Collector_healthy | Collector_warning | Collector_critical

definition calculateHealthScore :: "time_ms \<Rightarrow> sketch_metrics_collector \<Rightarrow> collector_status \<times> collector_issue list \<times> int" where
  "calculateHealthScore now c =
     (let m = accuracyMetrics c; total = total_predictions m;
          (issues, score) = ([], 100);
          (issues, score) =
            (if getPercentile P95 (insertLatency c) > 10000 \<or> getPercentile P95 (queryLatency c) > 5000
             then (issues @ [Issue_latency], score - 20) else (issues, score));
          (issues, score) = (if error_rate c > 1 / 100 then (issues @ [Issue_errors], score - 30) else (issues, score));
          (issues, score) =
            (if total > 100 \<and> real (truePositives m + trueNegatives m) / real total < 8 / 10
             then (issues @ [Issue_accuracy], score - 25) else (issues, score));
          (issues, score) = (if series_getTrend now 60 (mc_memoryUsage c) > 1 / 10 then (issues @ [Issue_memory], score - 15) else (issues, score))
      in (if score \<ge> 80 then Collector_healthy else if score \<ge> 60 then Collector_warning else Collector_critical, issues, max 0 score))"

definition mc_calculateTrends :: "time_ms \<Rightarrow> sketch_metrics_collector \<Rightarrow> real \<times> real \<times> real \<times> real" where
  "mc_calculateTrends now c =
     (series_getTrend now 60 (operationsPerSecond c), 0, series_getTrend now 60 (mc_memoryUsage c), series_getTrend now 60 (mc_errorRate c))"

definition mc_getRecentAlerts :: "time_ms \<Rightarrow> int \<Rightarrow> sketch_metrics_collector \<Rightarrow> performance_alert list" where
  "mc_getRecentAlerts now minutes c = filter (\<lambda>a. al_timestamp a > now - minutes * 60 * 1000) (performanceAlerts c)"

definition getMetricsSummary ::
  "time_ms \<Rightarrow> sketch_metrics_collector \<Rightarrow>
   performance_report \<times> (collector_status \<times> collector_issue list \<times> int) \<times> (real \<times> real \<times> real \<times> real) \<times> performance_alert list" where
  "getMetricsSummary now c = (mc_getPerformanceMetrics now c, calculateHealthScore now c, mc_calculateTrends now c, mc_getRecentAlerts now 60 c)"

section \<open>Maintenance\<close>

definition collectPeriodicMetrics :: "time_ms \<Rightarrow> sketch_metrics_collector \<Rightarrow> sketch_metrics_collector" where
  "collectPeriodicMetrics now c =
     c\<lparr>operationsPerSecond := series_add now (real (total_ops c)) (operationsPerSecond c),
       mc_errorRate := series_add now (error_rate c) (mc_errorRate c),
       mc_anomalyRate := series_add now (if total_ops c > 0 then real (totalAnomalies c) / real (total_ops c) else 0) (mc_anomalyRate c)\<rparr>"

definition mc_reset :: "sketch_metrics_collector \<Rightarrow> sketch_metrics_collector" where
  "mc_reset c =
     c\<lparr>insertLatency := [], queryLatency := [], operationsPerSecond := [], mc_memoryUsage := [], mc_errorRate := [], mc_anomalyRate := [],
       totalInserts := 0, totalQueries := 0, totalErrors := 0, totalAnomalies := 0, accuracyMetrics := no_accuracy, performanceAlerts := []\<rparr>"

definition mc_shutdown :: "sketch_metrics_collector \<Rightarrow> sketch_metrics_collector" where
  "mc_shutdown c = c\<lparr>mc_timer := False\<rparr>"

section \<open>Percentiles\<close>

lemma histogram_recent: "fold hist_add vs [] = drop (length vs - 1000) vs"
proof (induction vs rule: rev_induct)
  case (snoc v vs)
  show ?case
  proof (cases "length vs < 1000")
    case True
    then show ?thesis using snoc by (simp add: hist_add_def)
  next
    case False
    then have "drop (length vs - 1000) vs \<noteq> []" by simp
    then have "tl (drop (length vs - 1000) vs @ [v]) = drop (Suc (length vs - 1000)) vs @ [v]" by (simp add: tl_append2 drop_Suc tl_drop)
    moreover have "Suc (length vs - 1000) = Suc (length vs) - 1000" using False by simp
    ultimately show ?thesis using snoc False by (simp add: hist_add_def Let_def)
  qed
qed simp

lemma sorted_at_most:
  assumes "sorted xs" and "k < length xs"
  shows "Suc k \<le> length (filter (\<lambda>x. x \<le> xs ! k) xs)"
proof -
  have "filter (\<lambda>x. x \<le> xs ! k) (take (Suc k) xs) = take (Suc k) xs"
    using assms sorted_nth_mono [of xs _ k] by (auto simp: filter_id_conv in_set_conv_nth less_Suc_eq_le)
  then have "length (filter (\<lambda>x. x \<le> xs ! k) (take (Suc k) xs)) = Suc k" using assms(2) by simp
  then show ?thesis by (metis append_take_drop_id filter_append le_add1 length_append)
qed

lemma sorted_below:
  assumes "sorted xs" and "k < length xs"
  shows "length (filter (\<lambda>x. x < xs ! k) xs) \<le> k"
proof -
  have "filter (\<lambda>x. x < xs ! k) (drop k xs) = []"
    using assms sorted_nth_mono [of xs k] by (auto simp: filter_empty_conv in_set_conv_nth not_less)
  then have "filter (\<lambda>x. x < xs ! k) xs = filter (\<lambda>x. x < xs ! k) (take k xs)" by (metis append.right_neutral append_take_drop_id filter_append)
  then show ?thesis by (metis length_filter_le length_take min.cobounded2 order_trans)
qed

lemma percentile_index:
  assumes "h \<noteq> []"
  obtains k where "getPercentile p h = sort h ! k" "k < length h" "real k < percent p / 100 * real (length h)" "percent p / 100 * real (length h) \<le> real (Suc k)"
proof -
  let ?x = "percent p / 100 * real (length h)"
  have pos: "0 < ?x" and less: "?x \<le> real (length h)" using assms by (cases p; simp)+
  define k where "k = nat (max 0 (\<lceil>?x\<rceil> - 1))"
  have c: "1 \<le> \<lceil>?x\<rceil>" "\<lceil>?x\<rceil> \<le> int (length h)" using pos less by linarith+
  then have k: "int k = \<lceil>?x\<rceil> - 1" by (simp add: k_def)
  then have "real k < ?x" "?x \<le> real (Suc k)" "k < length h" using c by linarith+
  moreover have "getPercentile p h = sort h ! k" using assms by (simp add: getPercentile_def k_def Let_def)
  ultimately show thesis using that by blast
qed

lemma sort_filter_length: "length (filter P (sort h)) = length (filter P h)"
  by (metis mset_filter mset_sort size_mset)

text \<open>
  C40. The histogram holds the last 1000 of the latencies added to it, and a reported percentile is one of them: at least the given share of them are at most
  the reported value, less than that share are below it.\<close>
theorem latency_percentile:
  fixes p vs
  defines "h \<equiv> drop (length vs - 1000) vs" and "v \<equiv> getPercentile p (fold hist_add vs [])"
  assumes "vs \<noteq> []"
  shows "v \<in> set h \<and> percent p / 100 * real (length h) \<le> real (length (filter (\<lambda>x. x \<le> v) h))
    \<and> real (length (filter (\<lambda>x. x < v) h)) < percent p / 100 * real (length h)"
proof -
  have "0 < length vs" using assms(3) by simp
  then have "h \<noteq> []" unfolding h_def by (metis diff_less drop_eq_Nil leD zero_less_numeral)
  then obtain k where k: "getPercentile p h = sort h ! k" "k < length h" "real k < percent p / 100 * real (length h)"
    "percent p / 100 * real (length h) \<le> real (Suc k)" using percentile_index by blast
  have v: "v = sort h ! k" using k(1) by (simp add: v_def histogram_recent h_def)
  then have "v \<in> set h" using k(2) by (metis length_sort nth_mem set_sort)
  moreover have "Suc k \<le> length (filter (\<lambda>x. x \<le> v) h)"
    using sorted_at_most [of "sort h" k] k(2) by (simp add: v sort_filter_length)
  moreover have "length (filter (\<lambda>x. x < v) h) \<le> k" using sorted_below [of "sort h" k] k(2) by (simp add: v sort_filter_length)
  ultimately show ?thesis using k(3,4) by linarith
qed

theorem latency_percentile_witness:
  "getPercentile P50 (fold hist_add [3, 1, 2] []) \<in> {1, 2, 3}"
  using conjunct1 [OF latency_percentile [of "[3, 1, 2]" P50]] by auto

section \<open>Histories\<close>

datatype mc_event =
    Ev_insert time_ms real bool
  | Ev_query time_ms real bool
  | Ev_detect time_ms "sketch_anomaly list" bool
  | Ev_memory time_ms real real
  | Ev_collect time_ms

fun mc_step :: "mc_event \<Rightarrow> sketch_metrics_collector \<Rightarrow> sketch_metrics_collector" where
  "mc_step (Ev_insert now l ok) c = recordInsert now l ok c"
| "mc_step (Ev_query now l ok) c = recordQuery now l ok c"
| "mc_step (Ev_detect now rs threat) c = recordAnomalyDetection now rs threat c"
| "mc_step (Ev_memory now b m) c = mc_recordMemoryUsage now b m c"
| "mc_step (Ev_collect now) c = collectPeriodicMetrics now c"

definition mc_run :: "mc_event list \<Rightarrow> sketch_metrics_collector \<Rightarrow> sketch_metrics_collector" where
  "mc_run es c = fold mc_step es c"

lemma mc_run_snoc [simp]: "mc_run (es @ [e]) c = mc_step e (mc_run es c)" "mc_run [] c = c"
  by (simp_all add: mc_run_def)

lemmas mc_defs = recordInsert_def recordQuery_def recordAnomalyDetection_def mc_recordMemoryUsage_def collectPeriodicMetrics_def
  checkLatencyAlert_def checkAccuracyAlert_def addPerformanceAlert_def Let_def

text \<open>The detections of a history: whether one was reported with high confidence, and whether it was a threat.\<close>

fun detection_of :: "mc_event \<Rightarrow> (bool \<times> bool) list" where
  "detection_of (Ev_detect now rs threat) = [(high_confidence rs, threat)]"
| "detection_of _ = []"

definition detections :: "mc_event list \<Rightarrow> (bool \<times> bool) list" where
  "detections es = concat (map detection_of es)"

definition confusion :: "(bool \<times> bool) list \<Rightarrow> accuracy_metrics" where
  "confusion ds =
     \<lparr>truePositives = count_list ds (True, True), falsePositives = count_list ds (True, False), trueNegatives = count_list ds (False, False),
      falseNegatives = count_list ds (False, True)\<rparr>"

lemma alert_accuracy [simp]:
  "accuracyMetrics (addPerformanceAlert now type severity d c) = accuracyMetrics c"
  "accuracyMetrics (checkLatencyAlert now op l c) = accuracyMetrics c"
  "accuracyMetrics (checkAccuracyAlert now c) = accuracyMetrics c"
  by (simp_all add: addPerformanceAlert_def checkLatencyAlert_def checkAccuracyAlert_def Let_def)

lemma step_accuracy:
  assumes "accuracyMetrics c = confusion ds"
  shows "accuracyMetrics (mc_step e c) = confusion (ds @ detection_of e)"
proof (cases e)
  case (Ev_detect now rs threat)
  then show ?thesis using assms
    by (cases "high_confidence rs"; cases threat) (simp_all add: recordAnomalyDetection_def confusion_def Let_def)
qed (use assms in \<open>simp_all add: recordInsert_def recordQuery_def mc_recordMemoryUsage_def collectPeriodicMetrics_def Let_def\<close>)

lemma run_accuracy: "accuracyMetrics (mc_run es new_metrics_collector) = confusion (detections es)"
proof (induction es rule: rev_induct)
  case Nil
  then show ?case by (simp add: new_metrics_collector_def no_accuracy_def detections_def confusion_def)
next
  case (snoc e es)
  then show ?case using step_accuracy [OF snoc, of e] by (simp add: detections_def)
qed

lemma harmonic_mean:
  fixes a b :: real
  assumes "0 \<le> a" "a \<le> 1" "0 \<le> b" "b \<le> 1" "0 < a + b"
  shows "0 \<le> 2 * (a * b) / (a + b)" and "2 * (a * b) / (a + b) \<le> 1"
proof -
  show "0 \<le> 2 * (a * b) / (a + b)" using assms by simp
  have "a * b \<le> a" "a * b \<le> b" using assms by (simp_all add: mult_left_le mult_left_le_one_le)
  then show "2 * (a * b) / (a + b) \<le> 1" using assms(5) by (simp add: pos_divide_le_eq)
qed

text \<open>
  In any history without a reset the accuracy counters are the confusion matrix of the recorded detections, and precision, recall and F1 score computed
  from them lie between 0 and 1.\<close>
theorem accuracy_is_confusion:
  fixes es now
  defines "r \<equiv> mc_getPerformanceMetrics now (mc_run es new_metrics_collector)"
  shows "pf_accuracy r = confusion (detections es) \<and> total_predictions (pf_accuracy r) = length (detections es)
    \<and> 0 \<le> pf_precision r \<and> pf_precision r \<le> 1 \<and> 0 \<le> pf_recall r \<and> pf_recall r \<le> 1 \<and> 0 \<le> pf_f1Score r \<and> pf_f1Score r \<le> 1"
proof -
  have pr: "0 \<le> pf_precision r" "pf_precision r \<le> 1" "0 \<le> pf_recall r" "pf_recall r \<le> 1"
    by (auto simp: r_def mc_getPerformanceMetrics_def am_precision_def Let_def)
  have f: "pf_f1Score r = (if pf_precision r + pf_recall r > 0 then 2 * (pf_precision r * pf_recall r) / (pf_precision r + pf_recall r) else 0)"
    by (simp add: r_def mc_getPerformanceMetrics_def Let_def)
  have "0 \<le> pf_f1Score r" "pf_f1Score r \<le> 1" using harmonic_mean [OF pr] unfolding f by auto
  moreover have "pf_accuracy r = confusion (detections es)" by (simp add: r_def mc_getPerformanceMetrics_def run_accuracy Let_def)
  moreover have "total_predictions (confusion ds) = length ds" for ds
    by (induction ds) (auto simp: confusion_def total_predictions_def)
  ultimately show ?thesis using pr by simp
qed

section \<open>What the collector does not see\<close>

lemma step_alerts:
  assumes "\<forall>a \<in> set (performanceAlerts c). al_type a \<noteq> High_error_rate"
  shows "\<forall>a \<in> set (performanceAlerts (mc_step e c)). al_type a \<noteq> High_error_rate"
  using assms by (cases e) (auto simp: mc_defs)

fun collect_time :: "mc_event \<Rightarrow> time_ms list" where
  "collect_time (Ev_collect now) = [now]"
| "collect_time _ = []"

definition collect_times :: "mc_event list \<Rightarrow> time_ms list" where
  "collect_times es = concat (map collect_time es)"

lemma step_operations:
  "operationsPerSecond (mc_step e c) = (case e of Ev_collect now \<Rightarrow> series_add now (real (total_ops c)) (operationsPerSecond c) | _ \<Rightarrow> operationsPerSecond c)"
  by (cases e) (simp_all add: mc_defs)

lemma run_samples:
  assumes "\<forall>t \<in> set (collect_times es). t \<le> now"
  shows "map fst (series_getRecent now 1 (operationsPerSecond (mc_run es new_metrics_collector))) = filter (\<lambda>t. t > now - 60000) (collect_times es)"
  using assms
proof (induction es rule: rev_induct)
  case Nil
  then show ?case by (simp add: new_metrics_collector_def series_getRecent_def collect_times_def)
next
  case (snoc e es)
  then have IH: "map fst (series_getRecent now 1 (operationsPerSecond (mc_run es new_metrics_collector))) = filter (\<lambda>t. t > now - 60000) (collect_times es)"
    by (simp add: collect_times_def)
  show ?case
  proof (cases e)
    case (Ev_collect t)
    then have "t \<le> now" using snoc.prems by (simp add: collect_times_def)
    then have "series_getRecent now 1 (series_add t v xs) = series_getRecent now 1 (xs @ [(t, v)])" for v xs
      by (auto simp: series_getRecent_def series_add_def intro!: filter_cong)
    moreover have "operationsPerSecond (mc_step e c) = series_add t (real (total_ops c)) (operationsPerSecond c)" for c
      using Ev_collect step_operations [of e c] by simp
    ultimately show ?thesis using IH Ev_collect by (simp add: collect_times_def series_getRecent_def del: mc_step.simps)
  qed (use IH in \<open>simp_all add: step_operations collect_times_def del: mc_step.simps\<close>)
qed

text \<open>
  The operations per second that are reported do not depend on the operations: inserts and queries are both the number of periodic samples of the last
  minute. No alert about a high error rate is ever raised.\<close>
theorem operations_not_measured:
  assumes "\<forall>t \<in> set (collect_times es). t \<le> now"
  shows "pf_inserts (mc_getPerformanceMetrics now (mc_run es new_metrics_collector)) = length (filter (\<lambda>t. t > now - 60000) (collect_times es))
    \<and> pf_queries (mc_getPerformanceMetrics now (mc_run es new_metrics_collector)) = length (filter (\<lambda>t. t > now - 60000) (collect_times es))
    \<and> (\<forall>a \<in> set (performanceAlerts (mc_run es new_metrics_collector)). al_type a \<noteq> High_error_rate)"
proof -
  have "\<forall>a \<in> set (performanceAlerts (mc_run es new_metrics_collector)). al_type a \<noteq> High_error_rate"
  proof (induction es rule: rev_induct)
    case (snoc e es)
    then show ?case using step_alerts by simp
  qed (simp add: new_metrics_collector_def)
  then show ?thesis using arg_cong [OF run_samples [OF assms], of length]
    by (simp add: mc_getPerformanceMetrics_def calculateOpsPerSecond_def Let_def)
qed

theorem operations_not_measured_witness:
  "pf_inserts (mc_getPerformanceMetrics 60010 (mc_run [Ev_insert 1 5 True, Ev_insert 2 5 True, Ev_collect 60000] new_metrics_collector)) = 1"
  using operations_not_measured [of "[Ev_insert 1 5 True, Ev_insert 2 5 True, Ev_collect 60000]" 60010] by (simp add: collect_times_def)

text \<open>
  The memory that is reported as current is the oldest measurement of the last minute: of two measurements less than a minute apart the first is
  reported.\<close>
theorem memory_report_stale:
  assumes "mc_memoryUsage c = []" and "t1 \<le> t2" and "t2 < t1 + 60000"
  shows "pf_totalMemory (mc_getPerformanceMetrics t2 (mc_recordMemoryUsage t2 b2 m (mc_recordMemoryUsage t1 b1 m c))) = b1"
  using assms
  by (auto simp: mc_getPerformanceMetrics_def current_memory_def series_getRecent_def series_add_def mc_recordMemoryUsage_def addPerformanceAlert_def Let_def)

theorem memory_report_stale_witness:
  "pf_totalMemory (mc_getPerformanceMetrics 30000 (mc_recordMemoryUsage 30000 900 1000 (mc_recordMemoryUsage 0 100 1000 new_metrics_collector))) = 100"
  using memory_report_stale [of new_metrics_collector 0 30000 900 1000 100] by (simp add: new_metrics_collector_def)

text \<open>
  The health score is 100 less the penalties of the issues found and never below 10; the status is healthy from 80 and critical below 60.\<close>
theorem health_score_issues:
  "let (status, issues, score) = calculateHealthScore now c
   in 10 \<le> score \<and> score \<le> 100 \<and> distinct issues
     \<and> score = 100 - sum_list (map (\<lambda>i. case i of Issue_latency \<Rightarrow> 20 | Issue_errors \<Rightarrow> 30 | Issue_accuracy \<Rightarrow> 25 | Issue_memory \<Rightarrow> 15) issues)
     \<and> (status = Collector_healthy \<longleftrightarrow> score \<ge> 80) \<and> (status = Collector_critical \<longleftrightarrow> score < 60)"
  by (simp add: calculateHealthScore_def Let_def)

end
