(* ===== verification/BaselineAdaptation.thy ===== *)
theory BaselineAdaptation
  imports EwmaManagement
begin

text \<open>
  The baseline adaptation service (\<^verbatim>\<open>backend/src/services/BaselineAdaptationService.ts\<close>): baselines per metric that follow the data when
  the fifteen-minute average of the EWMA manager has drifted away, a validation period after each adaptation, and rollback. Clock
  readings of one call are an \<open>adaptation_clock\<close>. A history read back from Redis holds its times as texts, on which
  \<^verbatim>\<open>getTime\<close> raises an error. Reasons are data that hold the number they show.
\<close>

section \<open>Data\<close>

record adaptation_config =
  bl_enabled :: bool
  adaptationRate :: real
  driftThreshold :: real
  validationPeriod :: int
  rollbackThreshold :: real
  lastAdaptation :: time_ms
  adaptationCount :: nat

datatype drift_direction = Drift_upward | Drift_downward | Drift_volatile

datatype drift_advice = Adapt | Monitor | Rollback

record drift_result =
  driftDetected :: bool
  driftMagnitude :: jsnum
  driftDirection :: drift_direction
  dr_confidence :: jsnum
  dr_recommendation :: drift_advice

datatype adaptation_reason = Drift_reason drift_direction jsnum | Validation_failed | Manual_reason string

datatype history_stamp = Stamp time_ms | Stamp_text string

record adaptation_entry =
  ah_timestamp :: history_stamp
  ah_metric :: string
  ah_oldBaseline :: real
  ah_newBaseline :: real
  ah_reason :: adaptation_reason
  ah_confidence :: jsnum

record adaptation_result =
  ar_reason :: adaptation_reason
  ar_confidence :: jsnum
  ar_oldBaseline :: real
  ar_newBaseline :: real
  ar_validationPeriod :: int
  ar_rollbackThreshold :: real

record baseline_validation =
  vd_adaptedBaseline :: real
  vd_start :: time_ms
  vd_end :: time_ms
  vd_performance :: "jsnum list"
  vd_isValidated :: bool

record baseline_service =
  bl_config :: adaptation_config
  bl_baselines :: "(string, real) js_map"
  bl_history :: "adaptation_entry list"
  bl_validation :: "(string, baseline_validation) js_map"
  bl_isInitialized :: bool

record adaptation_clock =
  ac_entry :: time_ms
  ac_config :: time_ms
  ac_validation :: time_ms

datatype adaptation_error = NoAdaptationHistory string | StampNotADate

section \<open>Baselines and history\<close>

definition default_baselines :: "(string \<times> real) list" where
  "default_baselines =
     [(''request_rate'', 100), (''response_time'', 200), (''error_rate'', 1 / 100), (''cpu_usage'', 5 / 10), (''memory_usage'', 6 / 10),
      (''disk_usage'', 4 / 10), (''network_throughput'', 1000)]"

definition initializeDefaultBaselines :: "baseline_service \<Rightarrow> baseline_service" where
  "initializeDefaultBaselines b = b\<lparr>bl_baselines := fold (\<lambda>(m, v). map_set m v) default_baselines (bl_baselines b)\<rparr>"

definition new_baseline_service :: "adaptation_config \<Rightarrow> baseline_service" where
  "new_baseline_service c = \<lparr>bl_config = c, bl_baselines = [], bl_history = [], bl_validation = [], bl_isInitialized = False\<rparr>"

text \<open>
  \<open>baselines\<close> and \<open>history\<close> are the replies of Redis to the two reads, parsed: \<open>None\<close> nothing stored, \<open>Some None\<close> not parsable, which
  ends the load.
\<close>

definition loadBaselines ::
  "(string, real) js_map option option \<Rightarrow> adaptation_entry list option option \<Rightarrow> baseline_service \<Rightarrow> baseline_service" where
  "loadBaselines baselines history b =
     (let load_history = \<lambda>b. (case history of Some (Some h) \<Rightarrow> b\<lparr>bl_history := h\<rparr> | _ \<Rightarrow> b)
      in case baselines of
           None \<Rightarrow> load_history b
         | Some None \<Rightarrow> b
         | Some (Some m) \<Rightarrow> load_history (b\<lparr>bl_baselines := m\<rparr>))"

definition bl_initialize ::
  "(string, real) js_map option option \<Rightarrow> adaptation_entry list option option \<Rightarrow> baseline_service \<Rightarrow> baseline_service" where
  "bl_initialize baselines history b =
     (let b = loadBaselines baselines history b
      in (if bl_baselines b = [] then initializeDefaultBaselines b else b)\<lparr>bl_isInitialized := True\<rparr>)"

text \<open>What is written to Redis: dates become texts (\<open>isoText\<close>), the last hundred entries are kept.\<close>

definition saved_entry :: "(time_ms \<Rightarrow> string) \<Rightarrow> adaptation_entry \<Rightarrow> adaptation_entry" where
  "saved_entry isoText e = e\<lparr>ah_timestamp := (case ah_timestamp e of Stamp t \<Rightarrow> Stamp_text (isoText t) | Stamp_text s \<Rightarrow> Stamp_text s)\<rparr>"

definition persistBaselines :: "(time_ms \<Rightarrow> string) \<Rightarrow> baseline_service \<Rightarrow> (string, real) js_map \<times> adaptation_entry list" where
  "persistBaselines isoText b = (bl_baselines b, map (saved_entry isoText) (js_slice_from (-100) (bl_history b)))"

definition bl_shutdown :: "(time_ms \<Rightarrow> string) \<Rightarrow> baseline_service \<Rightarrow> ((string, real) js_map \<times> adaptation_entry list) \<times> baseline_service" where
  "bl_shutdown isoText b = (persistBaselines isoText b, b\<lparr>bl_isInitialized := False\<rparr>)"

definition bl_reset :: "baseline_service \<Rightarrow> baseline_service" where
  "bl_reset b = initializeDefaultBaselines (b\<lparr>bl_baselines := [], bl_history := [], bl_validation := []\<rparr>)"

definition setBaseline :: "string \<Rightarrow> real \<Rightarrow> baseline_service \<Rightarrow> baseline_service" where
  "setBaseline metric v b = b\<lparr>bl_baselines := map_set metric v (bl_baselines b)\<rparr>"

text \<open>An empty metric is falsy.\<close>

definition getAdaptationHistory :: "string option \<Rightarrow> baseline_service \<Rightarrow> adaptation_entry list" where
  "getAdaptationHistory metric b =
     (case metric of Some m \<Rightarrow> if m = [] then bl_history b else filter (\<lambda>h. ah_metric h = m) (bl_history b) | None \<Rightarrow> bl_history b)"

definition recordAdaptation ::
  "string \<Rightarrow> real \<Rightarrow> real \<Rightarrow> adaptation_reason \<Rightarrow> jsnum \<Rightarrow> adaptation_clock \<Rightarrow> baseline_service \<Rightarrow> baseline_service" where
  "recordAdaptation metric old new reason conf clock b =
     (let h = bl_history b @ [\<lparr>ah_timestamp = Stamp (ac_entry clock), ah_metric = metric, ah_oldBaseline = old, ah_newBaseline = new,
                ah_reason = reason, ah_confidence = conf\<rparr>];
          c = bl_config b
      in b\<lparr>bl_history := (if length h > 1000 then js_slice_from (-1000) h else h),
           bl_config := c\<lparr>lastAdaptation := ac_config clock, adaptationCount := adaptationCount c + 1\<rparr>\<rparr>)"

definition startValidationPeriod :: "string \<Rightarrow> real \<Rightarrow> adaptation_clock \<Rightarrow> baseline_service \<Rightarrow> baseline_service" where
  "startValidationPeriod metric new clock b =
     b\<lparr>bl_validation := map_set metric
         \<lparr>vd_adaptedBaseline = new, vd_start = ac_validation clock, vd_end = ac_validation clock + validationPeriod (bl_config b) * 60 * 1000,
          vd_performance = [], vd_isValidated = False\<rparr> (bl_validation b)\<rparr>"

section \<open>Drift\<close>

fun js_quot :: "jsnum \<Rightarrow> real \<Rightarrow> jsnum" where
  "js_quot (Fin x) y = js_div x y"
| "js_quot NaN y = NaN"
| "js_quot PInf y = (if y < 0 then NInf else PInf)"
| "js_quot NInf y = (if y < 0 then PInf else NInf)"

definition relative_distance :: "real \<Rightarrow> real \<Rightarrow> jsnum" where
  "relative_distance v baseline = js_div \<bar>v - baseline\<bar> (baseline + 1 / 1000)"

definition detectConceptDrift :: "ewma_manager \<Rightarrow> real \<Rightarrow> baseline_service \<Rightarrow> drift_result" where
  "detectConceptDrift em baseline b =
     (case map_of (ewmaInstances em) Min15 of
        None \<Rightarrow> \<lparr>driftDetected = False, driftMagnitude = Fin 0, driftDirection = Drift_upward, dr_confidence = Fin (3 / 10), dr_recommendation = Monitor\<rparr>
      | Some ew \<Rightarrow>
          (let v = currentValue ew;
               trend = getTrend ew;
               c = bl_config b;
               magnitude = relative_distance v baseline;
               direction = (if trend = Volatile then Drift_volatile else if v > baseline then Drift_upward else Drift_downward);
               detected = js_greater magnitude (driftThreshold c);
               trendConfidence = (if trend = Stable then 5 / 10 else if trend = Volatile then 3 / 10 else 8 / 10);
               magnitudeConfidence = js_min (Fin 1) (js_quot magnitude (driftThreshold c));
               conf = js_scale (1 / 2) (js_add (Fin trendConfidence) magnitudeConfidence);
               advice = (if detected \<and> js_greater conf (7 / 10) then Adapt
                         else if detected \<and> js_greater conf (4 / 10) then Monitor
                         else if js_greater magnitude (rollbackThreshold c) then Rollback
                         else Monitor)
           in \<lparr>driftDetected = detected, driftMagnitude = magnitude, driftDirection = direction, dr_confidence = conf, dr_recommendation = advice\<rparr>))"

definition adaptBaseline ::
  "string \<Rightarrow> real \<Rightarrow> real \<Rightarrow> drift_result \<Rightarrow> adaptation_clock \<Rightarrow> baseline_service \<Rightarrow> adaptation_result \<times> baseline_service" where
  "adaptBaseline metric target baseline drift clock b =
     (let c = bl_config b;
          new = baseline + adaptationRate c * (target - baseline);
          reason = Drift_reason (driftDirection drift) (js_scale 100 (driftMagnitude drift));
          b = b\<lparr>bl_baselines := map_set metric new (bl_baselines b)\<rparr>;
          b = recordAdaptation metric baseline new reason (dr_confidence drift) clock b
      in (\<lparr>ar_reason = reason, ar_confidence = dr_confidence drift, ar_oldBaseline = baseline, ar_newBaseline = new,
           ar_validationPeriod = validationPeriod c, ar_rollbackThreshold = rollbackThreshold c\<rparr>,
          startValidationPeriod metric new clock b))"

definition stamp_time :: "adaptation_entry \<Rightarrow> time_ms option" where
  "stamp_time e = (case ah_timestamp e of Stamp t \<Rightarrow> Some t | Stamp_text s \<Rightarrow> None)"

text \<open>Newest first. A comparison of two entries reads both times; every entry of a longer list is compared.\<close>

definition newest_first :: "adaptation_entry list \<Rightarrow> adaptation_entry list option" where
  "newest_first es =
     (if length es < 2 then Some es
      else if list_all (\<lambda>e. stamp_time e \<noteq> None) es
      then Some (sort_key (\<lambda>e. case stamp_time e of None \<Rightarrow> 0 | Some t \<Rightarrow> - t) es)
      else None)"

definition rollbackAdaptation ::
  "string \<Rightarrow> real \<Rightarrow> adaptation_clock \<Rightarrow> baseline_service \<Rightarrow> (adaptation_error + adaptation_result) \<times> baseline_service" where
  "rollbackAdaptation metric baseline clock b =
     (case newest_first (filter (\<lambda>h. ah_metric h = metric) (bl_history b)) of
        None \<Rightarrow> (Inl StampNotADate, b)
      | Some [] \<Rightarrow> (Inl (NoAdaptationHistory metric), b)
      | Some (e # _) \<Rightarrow>
          (let old = ah_oldBaseline e;
               b = b\<lparr>bl_baselines := map_set metric old (bl_baselines b)\<rparr>;
               b = recordAdaptation metric baseline old Validation_failed (Fin 1) clock b;
               b = b\<lparr>bl_validation := map_delete metric (bl_validation b)\<rparr>
           in (Inr \<lparr>ar_reason = Validation_failed, ar_confidence = Fin 1, ar_oldBaseline = baseline, ar_newBaseline = old,
                    ar_validationPeriod = 0, ar_rollbackThreshold = rollbackThreshold (bl_config b)\<rparr>, b)))"

definition updateValidationData :: "string \<Rightarrow> real \<Rightarrow> time_ms \<Rightarrow> baseline_service \<Rightarrow> baseline_service" where
  "updateValidationData metric v now b =
     (case map_of (bl_validation b) metric of
        None \<Rightarrow> b
      | Some vd \<Rightarrow>
          if vd_isValidated vd then b
          else if vd_start vd \<le> now \<and> now \<le> vd_end vd
          then (let performance = js_max (Fin 0) (js_add (Fin 1) (js_quot (relative_distance v (vd_adaptedBaseline vd)) (-1)));
                    ps = vd_performance vd @ [performance];
                    ps = (if length ps > 1000 then js_slice_from (-1000) ps else ps)
                in b\<lparr>bl_validation := map_set metric (vd\<lparr>vd_performance := ps\<rparr>) (bl_validation b)\<rparr>)
          else b)"

text \<open>A baseline of 0 is falsy. An error of the rollback is caught and the result is null.\<close>

definition bl_processDataPoint ::
  "string \<Rightarrow> real \<Rightarrow> ewma_manager \<Rightarrow> adaptation_clock \<Rightarrow> baseline_service \<Rightarrow> adaptation_result option \<times> baseline_service" where
  "bl_processDataPoint metric v em clock b =
     (if \<not> bl_isInitialized b \<or> \<not> bl_enabled (bl_config b) then (None, b)
      else
        let baseline = (case map_of (bl_baselines b) metric of None \<Rightarrow> v | Some x \<Rightarrow> if x = 0 then v else x);
            drift = detectConceptDrift em baseline b
        in case dr_recommendation drift of
             Adapt \<Rightarrow> (let (r, b) = adaptBaseline metric v baseline drift clock b in (Some r, b))
           | Rollback \<Rightarrow> (case rollbackAdaptation metric baseline clock b of (Inl e, b) \<Rightarrow> (None, b) | (Inr r, b) \<Rightarrow> (Some r, b))
           | Monitor \<Rightarrow> (None, updateValidationData metric v (ac_validation clock) b))"

definition forceAdaptation ::
  "string \<Rightarrow> real \<Rightarrow> string \<Rightarrow> adaptation_clock \<Rightarrow> baseline_service \<Rightarrow> adaptation_result \<times> baseline_service" where
  "forceAdaptation metric new reason clock b =
     (let old = (case map_of (bl_baselines b) metric of None \<Rightarrow> 0 | Some x \<Rightarrow> x);
          c = bl_config b;
          b = b\<lparr>bl_baselines := map_set metric new (bl_baselines b)\<rparr>;
          b = recordAdaptation metric old new (Manual_reason reason) (Fin 1) clock b
      in (\<lparr>ar_reason = Manual_reason reason, ar_confidence = Fin 1, ar_oldBaseline = old, ar_newBaseline = new,
           ar_validationPeriod = validationPeriod c, ar_rollbackThreshold = rollbackThreshold c\<rparr>,
          startValidationPeriod metric new clock b))"

section \<open>Validation\<close>

definition evaluateValidationSuccess :: "baseline_validation \<Rightarrow> baseline_service \<Rightarrow> bool" where
  "evaluateValidationSuccess vd b =
     (if length (vd_performance vd) < 10 then False
      else js_greater (js_quot (foldl js_add (Fin 0) (vd_performance vd)) (real (length (vd_performance vd)))) (1 - rollbackThreshold (bl_config b)))"

record validation_report =
  vr_validated :: "string list"
  vr_failed :: "string list"
  vr_pending :: "string list"

text \<open>One pass over the metrics under validation; an error of a rollback ends it.\<close>

fun validate_metrics ::
  "(string \<Rightarrow> time_ms \<times> adaptation_clock) \<Rightarrow> (string \<times> baseline_validation) list \<Rightarrow> validation_report \<Rightarrow> baseline_service
   \<Rightarrow> (adaptation_error + validation_report) \<times> baseline_service" where
  "validate_metrics clocks [] rep b = (Inr rep, b)"
| "validate_metrics clocks ((metric, vd) # rest) rep b =
     (if fst (clocks metric) > vd_end vd
      then if evaluateValidationSuccess vd b
           then validate_metrics clocks rest (rep\<lparr>vr_validated := vr_validated rep @ [metric]\<rparr>)
                  (b\<lparr>bl_validation := map_set metric (vd\<lparr>vd_isValidated := True\<rparr>) (bl_validation b)\<rparr>)
           else (case rollbackAdaptation metric (vd_adaptedBaseline vd) (snd (clocks metric)) b of
                   (Inl e, b) \<Rightarrow> (Inl e, b)
                 | (Inr r, b) \<Rightarrow> validate_metrics clocks rest (rep\<lparr>vr_failed := vr_failed rep @ [metric]\<rparr>) b)
      else validate_metrics clocks rest (rep\<lparr>vr_pending := vr_pending rep @ [metric]\<rparr>) b)"

definition validateAdaptations ::
  "(string \<Rightarrow> time_ms \<times> adaptation_clock) \<Rightarrow> baseline_service \<Rightarrow> (adaptation_error + validation_report) \<times> baseline_service" where
  "validateAdaptations clocks b = validate_metrics clocks (bl_validation b) \<lparr>vr_validated = [], vr_failed = [], vr_pending = []\<rparr> b"

record adaptation_statistics =
  as_total :: nat
  as_successful :: nat
  as_failed :: nat
  as_averageConfidence :: jsnum
  as_last :: "history_stamp option"
  as_metricsTracked :: nat
  as_adaptationRate :: real

definition getAdaptationStatistics :: "baseline_service \<Rightarrow> adaptation_statistics" where
  "getAdaptationStatistics b =
     (let h = bl_history b; ok = length (filter (\<lambda>e. js_greater (ah_confidence e) (7 / 10)) h)
      in \<lparr>as_total = length h, as_successful = ok, as_failed = length h - ok,
          as_averageConfidence = (if length h > 0 then js_quot (foldl js_add (Fin 0) (map ah_confidence h)) (real (length h)) else Fin 0),
          as_last = (if h = [] then None else Some (ah_timestamp (last h))), as_metricsTracked = length (bl_baselines b),
          as_adaptationRate = adaptationRate (bl_config b)\<rparr>)"

section \<open>Facts about the history\<close>

definition drift_of :: "real \<Rightarrow> real \<Rightarrow> real" where
  "drift_of v baseline = \<bar>v - baseline\<bar> / (baseline + 1 / 1000)"

lemma relative_distance_Fin: "0 \<le> baseline \<Longrightarrow> relative_distance v baseline = Fin (drift_of v baseline)"
  by (simp add: relative_distance_def js_div_def drift_of_def)

lemma sort_key_newest:
  assumes "\<And>x. x \<in> set xs \<Longrightarrow> f y < f x"
  shows "\<exists>zs. sort_key f (xs @ [y]) = y # zs"
proof -
  obtain z zs where z: "sort_key f (xs @ [y]) = z # zs"
    by (metis length_0_conv length_sort neq_Nil_conv snoc_eq_iff_butlast)
  have "z \<in> set (xs @ [y])" "y \<in> set (z # zs)" by (metis z list.set_intros(1) set_sort) (metis z in_set_conv_decomp set_sort)
  moreover have "f z \<le> f y" using sorted_sort_key [of f "xs @ [y]"] calculation(2) unfolding z by auto
  ultimately have "z = y" using assms by force
  then show ?thesis using z by simp
qed

text \<open>The entries of a metric after a recording: some of the old ones and the new one at the end.\<close>

lemma recorded_entries:
  "\<exists>es. filter (\<lambda>h. ah_metric h = metric) (bl_history (recordAdaptation metric old new reason conf clock b)) =
     es @ [\<lparr>ah_timestamp = Stamp (ac_entry clock), ah_metric = metric, ah_oldBaseline = old, ah_newBaseline = new, ah_reason = reason, ah_confidence = conf\<rparr>]
     \<and> set es \<subseteq> set (filter (\<lambda>h. ah_metric h = metric) (bl_history b))"
proof -
  let ?e = "\<lparr>ah_timestamp = Stamp (ac_entry clock), ah_metric = metric, ah_oldBaseline = old, ah_newBaseline = new, ah_reason = reason, ah_confidence = conf\<rparr>"
  have "\<exists>hs. bl_history (recordAdaptation metric old new reason conf clock b) = hs @ [?e] \<and> set hs \<subseteq> set (bl_history b)"
  proof (cases "length (bl_history b @ [?e]) > 1000")
    case True
    then have "js_slice_from (-1000) (bl_history b @ [?e]) = drop (length (bl_history b) - 999) (bl_history b) @ [?e]"
      using js_slice_from_last [of 1000 "bl_history b @ [?e]"] by simp
    then show ?thesis using True by (auto simp: recordAdaptation_def Let_def dest: in_set_dropD)
  qed (auto simp: recordAdaptation_def Let_def)
  then show ?thesis by auto
qed

lemma newest_recorded:
  assumes "set es \<subseteq> set es'" and "\<And>e. e \<in> set es' \<Longrightarrow> \<exists>t. ah_timestamp e = Stamp t \<and> t < ac_entry clock" and "ah_timestamp e = Stamp (ac_entry clock)"
  shows "\<exists>zs. newest_first (es @ [e]) = Some (e # zs)"
proof (cases "es = []")
  case False
  have old: "\<exists>t. stamp_time x = Some t \<and> t < ac_entry clock" if "x \<in> set es" for x
    using assms(1, 2) that by (fastforce simp: stamp_time_def)
  have "\<exists>zs. sort_key (\<lambda>e. case stamp_time e of None \<Rightarrow> 0 | Some t \<Rightarrow> - t) (es @ [e]) = e # zs"
    by (rule sort_key_newest) (use old assms(3) in \<open>fastforce simp: stamp_time_def\<close>)
  moreover have "list_all (\<lambda>e. stamp_time e \<noteq> None) (es @ [e])" using old assms(3) by (fastforce simp: list_all_iff stamp_time_def)
  moreover have "2 \<le> length (es @ [e])" using False by (cases es) auto
  ultimately show ?thesis by (simp add: newest_first_def)
qed (simp add: newest_first_def)

section \<open>Properties\<close>

text \<open>
  For a baseline that is not negative and a positive drift threshold: a drift beyond the threshold leads to an adaptation unless the
  trend is volatile, in which case nothing happens; a rollback is advised only for a drift between the rollback threshold and the
  drift threshold. With a rollback threshold at or above the drift threshold, as in the default configuration, a rollback is never advised.
\<close>
theorem drift_recommendation:
  assumes "map_of (ewmaInstances em) Min15 = Some ew" and "0 \<le> baseline" and "0 < driftThreshold (bl_config b)"
    and "m = drift_of (currentValue ew) baseline"
  shows "dr_recommendation (detectConceptDrift em baseline b) =
      (if m > driftThreshold (bl_config b) then (if getTrend ew = Volatile then Monitor else Adapt)
       else if m > rollbackThreshold (bl_config b) then Rollback else Monitor)
    \<and> (driftThreshold (bl_config b) \<le> rollbackThreshold (bl_config b) \<longrightarrow> dr_recommendation (detectConceptDrift em baseline b) \<noteq> Rollback)"
proof -
  have m: "relative_distance (currentValue ew) baseline = Fin m" using assms(2, 4) by (simp add: relative_distance_Fin)
  have "m / driftThreshold (bl_config b) > 1" if "m > driftThreshold (bl_config b)" using that assms(3) by simp
  then show ?thesis
    using assms(1, 3) by (cases "m > driftThreshold (bl_config b)") (auto simp: detectConceptDrift_def m Let_def js_div_def)
qed

text \<open>
  A rollback is recorded as an adaptation, so a second rollback of the metric restores the baseline that the first one took back.
\<close>
theorem rollback_undone:
  assumes "\<forall>e\<in>set (bl_history b). \<exists>t. ah_timestamp e = Stamp t \<and> t < ac_entry clock"
    and "rollbackAdaptation metric x clock b = (Inr r, b')"
  shows "\<exists>r' b''. rollbackAdaptation metric y clock' b' = (Inr r', b'') \<and> ar_newBaseline r' = x \<and> map_of (bl_baselines b'') metric = Some x"
proof -
  let ?es = "filter (\<lambda>h. ah_metric h = metric) (bl_history b)"
  obtain e zs where "newest_first ?es = Some (e # zs)"
    using assms(2) by (auto simp: rollbackAdaptation_def split: option.splits list.splits)
  then have h: "bl_history b' = bl_history (recordAdaptation metric x (ah_oldBaseline e) Validation_failed (Fin 1) clock b)"
    using assms(2) by (auto simp: rollbackAdaptation_def recordAdaptation_def Let_def)
  obtain es where es: "filter (\<lambda>h. ah_metric h = metric) (bl_history b') = es @ [\<lparr>ah_timestamp = Stamp (ac_entry clock), ah_metric = metric,
      ah_oldBaseline = x, ah_newBaseline = ah_oldBaseline e, ah_reason = Validation_failed, ah_confidence = Fin 1\<rparr>]" "set es \<subseteq> set ?es"
    unfolding h using recorded_entries by blast
  have "\<exists>zs. newest_first (filter (\<lambda>h. ah_metric h = metric) (bl_history b')) = Some (\<lparr>ah_timestamp = Stamp (ac_entry clock), ah_metric = metric,
      ah_oldBaseline = x, ah_newBaseline = ah_oldBaseline e, ah_reason = Validation_failed, ah_confidence = Fin 1\<rparr> # zs)"
    unfolding es(1) by (rule newest_recorded [OF es(2)]) (use assms(1) in auto)
  then show ?thesis by (auto simp: rollbackAdaptation_def recordAdaptation_def Let_def update_conv')
qed

text \<open>
  After a restart no adaptation of a metric with at least two saved entries can be rolled back: the times of the saved history come back
  as texts, and every attempt ends in an error that leaves the baseline as it is.
\<close>
theorem rollback_after_restart_fails:
  assumes "persistBaselines isoText b = (m, h)" and "b' = bl_initialize (Some (Some m)) (Some (Some h)) (new_baseline_service c)"
    and "2 \<le> length (filter (\<lambda>e. ah_metric e = metric) h)"
  shows "rollbackAdaptation metric x clock b' = (Inl StampNotADate, b')"
proof -
  have "stamp_time e = None" if "e \<in> set h" for e
    using that assms(1) by (auto simp: persistBaselines_def saved_entry_def stamp_time_def split: history_stamp.splits)
  then have "\<not> list_all (\<lambda>e. stamp_time e \<noteq> None) (filter (\<lambda>e. ah_metric e = metric) h)"
    using assms(3) by (cases "filter (\<lambda>e. ah_metric e = metric) h") (auto simp: list_all_iff filter_eq_Cons_iff)
  moreover have "bl_history b' = h"
    by (simp add: assms(2) bl_initialize_def loadBaselines_def Let_def initializeDefaultBaselines_def)
  ultimately show ?thesis using assms(3) by (simp add: rollbackAdaptation_def newest_first_def)
qed

section \<open>Witnesses\<close>

definition demo_adaptation :: adaptation_config where
  "demo_adaptation = \<lparr>bl_enabled = True, adaptationRate = 1 / 10, driftThreshold = 3 / 10, validationPeriod = 15, rollbackThreshold = 8 / 10,
     lastAdaptation = 0, adaptationCount = 0\<rparr>"

definition demo_baselines :: baseline_service where
  "demo_baselines = bl_initialize None None (new_baseline_service demo_adaptation)"

definition at_time :: "time_ms \<Rightarrow> adaptation_clock" where
  "at_time t = \<lparr>ac_entry = t, ac_config = t, ac_validation = t\<rparr>"

lemma default_instance:
  "map_of (ewmaInstances default_manager) Min15 = Some (new_ewma (getWindowConfig getEWMAManagerConfig Min15) 0)"
  by (simp add: default_manager_def em_initialize_def em_loadFromPersistence_def new_ewma_manager_def getEWMAManagerConfig_def)

theorem drift_recommendation_witness: "dr_recommendation (detectConceptDrift default_manager 100 demo_baselines) = Adapt"
proof -
  let ?ew = "new_ewma (getWindowConfig getEWMAManagerConfig Min15) 0"
  have c: "driftThreshold (bl_config demo_baselines) = 3 / 10" "0 < driftThreshold (bl_config demo_baselines)"
    by (simp_all add: demo_baselines_def bl_initialize_def loadBaselines_def new_baseline_service_def initializeDefaultBaselines_def demo_adaptation_def)
  have "drift_of (currentValue ?ew) 100 > 3 / 10" by (simp add: drift_of_def new_ewma_def)
  moreover have "getTrend ?ew = Stable" by (simp add: getTrend_def detectTrend_def new_ewma_def)
  ultimately show ?thesis using drift_recommendation [OF default_instance _ c(2) refl, of 100] c(1) by simp
qed

definition demo_forced :: baseline_service where
  "demo_forced = snd (forceAdaptation ''cpu_usage'' 2 ''a'' (at_time 2) (snd (forceAdaptation ''cpu_usage'' 1 ''b'' (at_time 1) demo_baselines)))"

lemma demo_forced_history:
  "map (\<lambda>e. (ah_timestamp e, ah_metric e, ah_oldBaseline e)) (bl_history demo_forced) =
    [(Stamp 1, ''cpu_usage'', 1 / 2), (Stamp 2, ''cpu_usage'', 1)]"
  by (simp add: demo_forced_def forceAdaptation_def recordAdaptation_def startValidationPeriod_def at_time_def Let_def demo_baselines_def bl_initialize_def
      loadBaselines_def new_baseline_service_def initializeDefaultBaselines_def default_baselines_def)

lemma demo_forced_entries:
  obtains e e' where "bl_history demo_forced = [e, e']" "ah_timestamp e = Stamp 1" "ah_timestamp e' = Stamp 2"
    "ah_metric e = ''cpu_usage''" "ah_metric e' = ''cpu_usage''"
  using demo_forced_history by (auto simp: map_eq_Cons_conv)

theorem rollback_undone_witness:
  "\<exists>r b' r' b''. rollbackAdaptation ''cpu_usage'' 2 (at_time 3) demo_forced = (Inr r, b')
    \<and> rollbackAdaptation ''cpu_usage'' 1 (at_time 4) b' = (Inr r', b'') \<and> ar_newBaseline r' = 2"
proof -
  obtain e e' where h: "bl_history demo_forced = [e, e']" "ah_timestamp e = Stamp 1" "ah_timestamp e' = Stamp 2"
    "ah_metric e = ''cpu_usage''" "ah_metric e' = ''cpu_usage''" by (rule demo_forced_entries)
  have past: "\<forall>e\<in>set (bl_history demo_forced). \<exists>t. ah_timestamp e = Stamp t \<and> t < ac_entry (at_time 3)"
    using h by (simp add: at_time_def)
  obtain r b' where r: "rollbackAdaptation ''cpu_usage'' 2 (at_time 3) demo_forced = (Inr r, b')"
    using h by (simp add: rollbackAdaptation_def newest_first_def stamp_time_def Let_def)
  from rollback_undone [OF past r, of 1 "at_time 4"] r show ?thesis by blast
qed

theorem rollback_after_restart_fails_witness:
  "\<exists>m h. persistBaselines (\<lambda>t. ''2024-01-01T00:00:00.000Z'') demo_forced = (m, h)
    \<and> fst (rollbackAdaptation ''cpu_usage'' 2 (at_time 3) (bl_initialize (Some (Some m)) (Some (Some h)) (new_baseline_service demo_adaptation)))
      = Inl StampNotADate"
proof -
  obtain m h where p: "persistBaselines (\<lambda>t. ''2024-01-01T00:00:00.000Z'') demo_forced = (m, h)" by fastforce
  obtain e e' where "bl_history demo_forced = [e, e']" "ah_metric e = ''cpu_usage''" "ah_metric e' = ''cpu_usage''"
    using demo_forced_entries by metis
  then have "2 \<le> length (filter (\<lambda>e. ah_metric e = ''cpu_usage'') h)"
    using p js_slice_from_last [of 100 "[e, e']"] by (auto simp: persistBaselines_def saved_entry_def)
  from rollback_after_restart_fails [OF p refl this] p show ?thesis by (metis fst_conv)
qed

end
