(* ===== verification/EwmaIntegration.thy ===== *)
theory EwmaIntegration
  imports BaselineAdaptation
begin

text \<open>
  The layer between the EWMA analysis and threat detection (\<^verbatim>\<open>backend/src/services/EWMAIntegration.ts\<close>): a value of a metric goes through the
  EWMA manager and the baseline adaptation, and the results are combined into a risk score, a health status, insights and
  recommendations. The weights of the score, which the environment can change, are part of the state. Texts are constructors.
\<close>

section \<open>Data\<close>

record integration_weights =
  iw_anomalyScore :: real
  iw_trendScore :: real
  iw_volatilityScore :: real
  iw_baselineScore :: real

record ewma_integration =
  ig_manager :: ewma_manager
  ig_adaptation :: baseline_service
  ig_isInitialized :: bool
  ig_weights :: integration_weights

datatype ig_insight_kind = Ig_low_consensus | Ig_baseline_adapted adaptation_reason

datatype ig_severity = Ig_low | Ig_medium | Ig_high | Ig_critical

record integration_insight =
  ii_kind :: ig_insight_kind
  ii_severity :: ig_severity
  ii_confidence :: jsnum
  ii_metric :: string
  ii_currentValue :: real
  ii_expectedValue :: real
  ii_deviation :: real
  ii_duration :: int

datatype ig_advice =
    Ig_investigate | Ig_check_attacks | Ig_monitor_closely | Ig_review_changes | Ig_continue_monitoring | Ig_review_quality
  | Ig_adaptation_running | Ig_stability | Ig_capacity | Ig_degradation | Ig_normal | Ig_unable string

datatype ig_health = Ig_healthy | Ig_warning | Ig_critical_health

record integration_data =
  ix_baseline :: real
  ix_trend :: trend_direction
  ix_volatility :: real
  ix_anomalyScore :: real
  ix_confidence :: real
  ix_nextValue :: real
  ix_nextConfidence :: real
  ix_insights :: "integration_insight list"
  ix_recommendations :: "ig_advice list"
  ix_riskScore :: jsnum
  ix_healthStatus :: ig_health

section \<open>Scores\<close>

definition ig_default_weights :: integration_weights where
  "ig_default_weights = \<lparr>iw_anomalyScore = 4 / 10, iw_trendScore = 2 / 10, iw_volatilityScore = 2 / 10, iw_baselineScore = 3 / 10\<rparr>"

definition new_ewma_integration :: "ewma_manager_config \<Rightarrow> adaptation_config \<Rightarrow> integration_weights \<Rightarrow> time_ms \<Rightarrow> ewma_integration" where
  "new_ewma_integration c ac ws now =
     \<lparr>ig_manager = new_ewma_manager c now, ig_adaptation = new_baseline_service ac, ig_isInitialized = False, ig_weights = ws\<rparr>"

definition ig_initialize where
  "ig_initialize now saved baselines history ig =
     ig\<lparr>ig_manager := em_initialize now saved (ig_manager ig), ig_adaptation := bl_initialize baselines history (ig_adaptation ig),
        ig_isInitialized := True\<rparr>"

definition calculateTrendRisk :: "trend_direction \<Rightarrow> real" where
  "calculateTrendRisk t = (case t of Volatile \<Rightarrow> 8 / 10 | Increasing \<Rightarrow> 4 / 10 | Decreasing \<Rightarrow> 4 / 10 | Stable \<Rightarrow> 1 / 10)"

definition calculateVolatilityRisk :: "real \<Rightarrow> real" where
  "calculateVolatilityRisk v = min 1 (v / 10)"

fun js_mult :: "jsnum \<Rightarrow> real \<Rightarrow> jsnum" where
  "js_mult (Fin x) y = Fin (x * y)"
| "js_mult NaN y = NaN"
| "js_mult PInf y = (if y = 0 then NaN else if y > 0 then PInf else NInf)"
| "js_mult NInf y = (if y = 0 then NaN else if y > 0 then NInf else PInf)"

definition calculateIntegratedRiskScore :: "integration_weights \<Rightarrow> real \<Rightarrow> consensus \<Rightarrow> real \<Rightarrow> real \<Rightarrow> jsnum" where
  "calculateIntegratedRiskScore ws volatility c baseline v =
     (let plain = co_anomalyScore c * iw_anomalyScore ws + calculateTrendRisk (co_trend c) * iw_trendScore ws
                  + calculateVolatilityRisk volatility * iw_volatilityScore ws;
          baselineRisk = js_min (Fin 1) (relative_distance v baseline);
          total = js_add (Fin plain) (js_mult baselineRisk (iw_baselineScore ws));
          adjusted = js_mult total (max (5 / 10) (co_confidence c))
      in js_min (js_max adjusted (Fin 0)) (Fin 1))"

definition generateIntegrationInsights ::
  "string \<Rightarrow> consensus \<Rightarrow> adaptation_result option \<Rightarrow> integration_insight list" where
  "generateIntegrationInsights metric c adapted =
     (if co_agreement c < 5 / 10
      then [\<lparr>ii_kind = Ig_low_consensus, ii_severity = Ig_medium, ii_confidence = Fin (1 - co_agreement c), ii_metric = metric,
             ii_currentValue = co_agreement c, ii_expectedValue = 7 / 10, ii_deviation = 7 / 10 - co_agreement c, ii_duration = 5\<rparr>]
      else [])
     @ (case adapted of
          None \<Rightarrow> []
        | Some r \<Rightarrow> [\<lparr>ii_kind = Ig_baseline_adapted (ar_reason r), ii_severity = (if js_greater (ar_confidence r) (8 / 10) then Ig_low else Ig_medium),
             ii_confidence = ar_confidence r, ii_metric = metric, ii_currentValue = ar_newBaseline r, ii_expectedValue = ar_oldBaseline r,
             ii_deviation = \<bar>ar_newBaseline r - ar_oldBaseline r\<bar>, ii_duration = ar_validationPeriod r\<rparr>])"

definition generateIntegrationRecommendations :: "consensus \<Rightarrow> adaptation_result option \<Rightarrow> jsnum \<Rightarrow> ig_advice list" where
  "generateIntegrationRecommendations c adapted risk =
     (let recs = (if js_greater risk (8 / 10) then [Ig_investigate, Ig_check_attacks]
                  else if js_greater risk (6 / 10) then [Ig_monitor_closely, Ig_review_changes]
                  else if js_greater risk (4 / 10) then [Ig_continue_monitoring] else [])
            @ (if co_agreement c < 5 / 10 then [Ig_review_quality] else [])
            @ (if adapted \<noteq> None then [Ig_adaptation_running] else [])
            @ (case co_trend c of Volatile \<Rightarrow> [Ig_stability] | Increasing \<Rightarrow> [Ig_capacity] | Decreasing \<Rightarrow> [Ig_degradation] | Stable \<Rightarrow> [])
      in if recs = [] then [Ig_normal] else recs)"

definition determineHealthStatus :: "jsnum \<Rightarrow> consensus \<Rightarrow> ig_health" where
  "determineHealthStatus risk c =
     (if js_greater risk (8 / 10) \<or> co_anomalyScore c > 9 / 10 then Ig_critical_health
      else if js_greater risk (6 / 10) \<or> co_anomalyScore c > 7 / 10 \<or> co_agreement c < 4 / 10 then Ig_warning
      else Ig_healthy)"

definition getDefaultIntegrationData :: "string \<Rightarrow> real \<Rightarrow> real \<Rightarrow> integration_data" where
  "getDefaultIntegrationData metric v baseline =
     \<lparr>ix_baseline = baseline, ix_trend = Stable, ix_volatility = 0, ix_anomalyScore = 0, ix_confidence = 5 / 10, ix_nextValue = v,
      ix_nextConfidence = 3 / 10, ix_insights = [], ix_recommendations = [Ig_unable metric], ix_riskScore = Fin 0, ix_healthStatus = Ig_warning\<rparr>"

section \<open>Processing a value\<close>

text \<open>\<open>None\<close>: not initialized. A manager that inds not initialized raises an error, which inds caught.\<close>

definition processMetric ::
  "string \<Rightarrow> data_point \<Rightarrow> time_ms \<Rightarrow> adaptation_clock \<Rightarrow> ewma_integration \<Rightarrow> (integration_data \<times> ewma_integration) option" where
  "processMetric metric p now clock ig =
     (if \<not> ig_isInitialized ig then None
      else Some (case processDataPoint now p (ig_manager ig) of
          None \<Rightarrow> (getDefaultIntegrationData metric (dp_value p) (dp_value p), ig)
        | Some (mw, em) \<Rightarrow>
            (let v = dp_value p;
                 (adapted, b) = bl_processDataPoint metric v em clock (ig_adaptation ig);
                 ig = ig\<lparr>ig_manager := em, ig_adaptation := b\<rparr>;
                 baseline = (case map_of (bl_baselines b) metric of None \<Rightarrow> v | Some x \<Rightarrow> if x = 0 then v else x);
                 c = mw_consensus mw
             in case map_of (mw_windows mw) Min5 of
                  None \<Rightarrow> (getDefaultIntegrationData metric v baseline, ig)
                | Some r \<Rightarrow>
                    (let volatility = es_volatility (er_statistics r);
                         risk = calculateIntegratedRiskScore (ig_weights ig) volatility c baseline v
                     in (\<lparr>ix_baseline = baseline, ix_trend = co_trend c, ix_volatility = volatility, ix_anomalyScore = co_anomalyScore c,
                          ix_confidence = co_confidence c, ix_nextValue = ep_nextValue (er_prediction r),
                          ix_nextConfidence = ep_confidence (er_prediction r), ix_insights = generateIntegrationInsights metric c adapted,
                          ix_recommendations = generateIntegrationRecommendations c adapted risk, ix_riskScore = risk,
                          ix_healthStatus = determineHealthStatus risk c\<rparr>, ig)))))"

section \<open>Threat indicators\<close>

datatype threat_indicator_type = Ind_baseline_drift | Ind_trend_anomaly | Ind_volatility_spike | Ind_prediction_failure

record threat_indicator =
  ti_type :: threat_indicator_type
  ti_severity :: ig_severity
  ti_confidence :: real
  ti_value :: real
  ti_threshold :: real

definition insight_indicator :: "ewma_insight \<Rightarrow> threat_indicator" where
  "insight_indicator i =
     \<lparr>ti_type = (case ei_type i of Trend_change \<Rightarrow> Ind_trend_anomaly | Volatility_spike \<Rightarrow> Ind_volatility_spike
                  | Performance_degradation \<Rightarrow> Ind_prediction_failure),
      ti_severity = (if ei_high i then Ig_high else Ig_medium), ti_confidence = ei_confidence i, ti_value = ei_currentValue i,
      ti_threshold = ei_expectedValue i\<rparr>"

definition severity_weight :: "ig_severity \<Rightarrow> real" where
  "severity_weight s = (case s of Ig_low \<Rightarrow> 2 / 10 | Ig_medium \<Rightarrow> 5 / 10 | Ig_high \<Rightarrow> 8 / 10 | Ig_critical \<Rightarrow> 1)"

definition calculateOverallThreatRisk :: "threat_indicator list \<Rightarrow> real" where
  "calculateOverallThreatRisk inds =
     (let totalRisk = sum_list (map (\<lambda>i. severity_weight (ti_severity i) * ti_confidence i) inds);
          totalWeight = sum_list (map ti_confidence inds)
      in if inds = [] then 0 else if totalWeight > 0 then min (totalRisk / totalWeight) 1 else 0)"

datatype threat_summary = No_threats | Critical_threats nat nat | High_threats nat | Moderate_anomalies nat

definition generateThreatSummary :: "threat_indicator list \<Rightarrow> threat_summary" where
  "generateThreatSummary inds =
     (let criticalCount = length (filter (\<lambda>i. ti_severity i = Ig_critical) inds); highCount = length (filter (\<lambda>i. ti_severity i = Ig_high) inds)
      in if inds = [] then No_threats
         else if criticalCount > 0 then Critical_threats criticalCount highCount
         else if highCount > 0 then High_threats highCount
         else Moderate_anomalies (length inds))"

definition getThreatIndicators :: "ewma_integration \<Rightarrow> threat_indicator list \<times> real \<times> threat_summary" where
  "getThreatIndicators ig =
     (let stats = getAdaptationStatistics (ig_adaptation ig);
          inds = map insight_indicator (em_insights (ig_manager ig))
            @ (if as_failed stats > as_successful stats
               then [\<lparr>ti_type = Ind_baseline_drift, ti_severity = Ig_medium, ti_confidence = 8 / 10, ti_value = real (as_failed stats),
                      ti_threshold = real (as_successful stats)\<rparr>]
               else [])
      in (inds, calculateOverallThreatRisk inds, generateThreatSummary inds))"

record integration_summary =
  sy_ewmaWindows :: nat
  sy_totalDataPoints :: nat
  sy_averageAccuracy :: real
  sy_anomaliesDetected :: nat
  sy_baselineAdaptations :: nat
  sy_memoryUsage :: int
  sy_isHealthy :: bool

text \<open>The statistics of the manager run its analytics, which replaces the insights.\<close>

definition ig_getSummaryStatistics :: "time_ms \<Rightarrow> ewma_integration \<Rightarrow> integration_summary \<times> ewma_integration" where
  "ig_getSummaryStatistics now ig =
     (if \<not> ig_isInitialized ig
      then (\<lparr>sy_ewmaWindows = 0, sy_totalDataPoints = 0, sy_averageAccuracy = 0, sy_anomaliesDetected = 0, sy_baselineAdaptations = 0,
             sy_memoryUsage = 0, sy_isHealthy = False\<rparr>, ig)
      else (let (es, em) = em_getStatistics now (ig_manager ig)
            in (\<lparr>sy_ewmaWindows = es_windowsActive es, sy_totalDataPoints = es_totalDataPoints es, sy_averageAccuracy = es_averageAccuracy es,
                 sy_anomaliesDetected = es_anomaliesDetected es, sy_baselineAdaptations = as_total (getAdaptationStatistics (ig_adaptation ig)),
                 sy_memoryUsage = es_memoryUsage es, sy_isHealthy = fst (getHealthCheck em)\<rparr>, ig\<lparr>ig_manager := em\<rparr>)))"

definition ig_isHealthy :: "ewma_integration \<Rightarrow> bool" where
  "ig_isHealthy ig \<longleftrightarrow> ig_isInitialized ig \<and> fst (getHealthCheck (ig_manager ig))"

definition ig_shutdown where
  "ig_shutdown now redis_ok isoText ig =
     (let (saved, b) = bl_shutdown isoText (ig_adaptation ig)
      in (saved, ig\<lparr>ig_manager := em_shutdown now redis_ok (ig_manager ig), ig_adaptation := b, ig_isInitialized := False\<rparr>))"

section \<open>Properties\<close>

definition ig_run :: "(string \<times> data_point \<times> time_ms \<times> adaptation_clock) list \<Rightarrow> ewma_integration \<Rightarrow> ewma_integration" where
  "ig_run xs ig = fold (\<lambda>(metric, p, now, clock) ig. case processMetric metric p now clock ig of None \<Rightarrow> ig | Some (d, ig') \<Rightarrow> ig') xs ig"

lemma processMetric_manager:
  assumes "processMetric metric p now clock ig = Some (d, ig')"
  shows "ig_isInitialized ig'" "ig_weights ig' = ig_weights ig"
    "ig_manager ig' = (case processDataPoint now p (ig_manager ig) of None \<Rightarrow> ig_manager ig | Some (mw, em) \<Rightarrow> em)"
  using assms by (auto simp: processMetric_def Let_def case_prod_beta split: if_splits option.splits)

definition ig_values :: "(string \<times> data_point \<times> time_ms \<times> adaptation_clock) list \<Rightarrow> (data_point \<times> time_ms) list" where
  "ig_values xs = map (\<lambda>(metric, p, now, clock). (p, now)) xs"

lemma ig_run_manager:
  assumes "ig_values xs = ig_values ys" and "ig_manager ig = ig_manager ig'" and "ig_isInitialized ig" "ig_isInitialized ig'"
  shows "ig_manager (ig_run xs ig) = ig_manager (ig_run ys ig')"
  using assms
proof (induction xs arbitrary: ys ig ig')
  case (Cons x xs)
  obtain metric p now clock where x: "x = (metric, p, now, clock)" by (cases x)
  obtain metric' clock' ys' where ys: "ys = (metric', p, now, clock') # ys'" and vs: "ig_values xs = ig_values ys'"
    using Cons.prems(1) x by (cases ys) (auto simp: ig_values_def)
  obtain d ig1 where s: "processMetric metric p now clock ig = Some (d, ig1)" using Cons.prems(3) by (fastforce simp: processMetric_def)
  obtain d' ig1' where s': "processMetric metric' p now clock' ig' = Some (d', ig1')" using Cons.prems(4) by (fastforce simp: processMetric_def)
  have "ig_manager ig1 = ig_manager ig1'"
    unfolding processMetric_manager(3) [OF s] processMetric_manager(3) [OF s'] Cons.prems(2) ..
  then have "ig_manager (ig_run xs ig1) = ig_manager (ig_run ys' ig1')"
    using Cons.IH [OF vs] processMetric_manager(1) [OF s] processMetric_manager(1) [OF s'] by simp
  then show ?case using s s' by (simp add: ig_run_def x ys)
qed (simp add: ig_run_def ig_values_def)

text \<open>
  All metrics share one set of averages: two histories with the same values at the same times lead to the same manager and the same
  verdict about drift for every metric and baseline, whichever metrics the values belong to.
\<close>
theorem metrics_share_averages:
  assumes "ig_isInitialized ig" and "ig_values xs = ig_values ys"
  shows "detectConceptDrift (ig_manager (ig_run xs ig)) baseline b = detectConceptDrift (ig_manager (ig_run ys ig)) baseline b"
  using ig_run_manager [OF assms(2) refl assms(1) assms(1)] by simp

theorem metrics_share_averages_witness:
  "\<exists>ig. ig_isInitialized ig \<and>
    detectConceptDrift (ig_manager (ig_run [(''request_rate'', snd (level 500), 0, at_time 0)] ig)) (1 / 2) demo_baselines
      = detectConceptDrift (ig_manager (ig_run [(''cpu_usage'', snd (level 500), 0, at_time 0)] ig)) (1 / 2) demo_baselines"
proof -
  define ig where "ig = ig_initialize 0 None None None (new_ewma_integration getEWMAManagerConfig demo_adaptation ig_default_weights 0)"
  have i: "ig_isInitialized ig" by (simp add: ig_def ig_initialize_def)
  have "ig_values [(''request_rate'', snd (level 500), 0, at_time 0)] = ig_values [(''cpu_usage'', snd (level 500), 0, at_time 0)]"
    by (simp add: ig_values_def)
  from metrics_share_averages [OF i this] i show ?thesis by blast
qed

text \<open>The score is a number between 0 and 1 when the baseline is not negative, and a score beyond 0.8 is critical.\<close>

lemma integrated_risk_bounds:
  assumes "0 \<le> baseline"
  obtains r where "calculateIntegratedRiskScore ws volatility c baseline v = Fin r" "0 \<le> r" "r \<le> 1"
    "r > 8 / 10 \<Longrightarrow> determineHealthStatus (Fin r) c = Ig_critical_health"
  using assms by (auto simp: calculateIntegratedRiskScore_def Let_def relative_distance_Fin determineHealthStatus_def min_def max_def intro!: that)

text \<open>
  Whatever has been processed, the overall risk of the threat indicators is between 0 and 1, and it is 0 only when there are none.
\<close>
theorem threat_risk_bounds:
  assumes "getThreatIndicators ig = (inds, risk, summary)" and "\<forall>i\<in>set (em_insights (ig_manager ig)). 0 < ei_confidence i"
  shows "0 \<le> risk \<and> risk \<le> 1 \<and> (risk = 0 \<longleftrightarrow> inds = []) \<and> (summary = No_threats \<longleftrightarrow> inds = [])"
proof -
  have conf: "0 < ti_confidence i" if "i \<in> set inds" for i
    using assms that by (auto simp: getThreatIndicators_def Let_def insight_indicator_def split: if_splits)
  have w: "0 < severity_weight s" for s by (cases s) (simp_all add: severity_weight_def)
  have pos: "0 < sum_list (map f js)" if "js \<noteq> []" "\<And>i. i \<in> set js \<Longrightarrow> 0 < f i" for f :: "threat_indicator \<Rightarrow> real" and js
    using that by (induction js rule: list_nonempty_induct) (auto simp: add_pos_pos)
  have "risk = calculateOverallThreatRisk inds" "summary = generateThreatSummary inds"
    using assms(1) by (auto simp: getThreatIndicators_def Let_def)
  moreover have "0 < sum_list (map ti_confidence inds)" "0 < sum_list (map (\<lambda>i. severity_weight (ti_severity i) * ti_confidence i) inds)"
    if "inds \<noteq> []" using pos [OF that] conf w by simp_all
  ultimately show ?thesis by (auto simp: calculateOverallThreatRisk_def generateThreatSummary_def Let_def min_def)
qed

theorem threat_risk_bounds_witness:
  "\<exists>ig inds risk summary. getThreatIndicators ig = (inds, risk, summary) \<and> 0 \<le> risk \<and> risk \<le> 1"
proof -
  define ig where "ig = new_ewma_integration getEWMAManagerConfig demo_adaptation ig_default_weights 0"
  obtain inds risk summary where g: "getThreatIndicators ig = (inds, risk, summary)" by (cases "getThreatIndicators ig")
  have "\<forall>i\<in>set (em_insights (ig_manager ig)). 0 < ei_confidence i" by (simp add: ig_def new_ewma_integration_def new_ewma_manager_def)
  from threat_risk_bounds [OF g this] g show ?thesis by blast
qed

end
