(* ===== verification/HllConfig.thy ===== *)
theory HllConfig
  imports SketchConfig HyperLogLog
begin

text \<open>
  The HyperLogLog configurations (\<^verbatim>\<open>backend/src/config/hyperloglogConfig.ts\<close>), read from the environment as the sketch configurations are.
  A name that is built from numbers is a constructor with these numbers. The last section relates the sizes a configuration is given to
  the memory and the error of the HyperLogLog that is built from it.
\<close>

section \<open>Configurations\<close>

datatype hll_name = Hll_named string | Hll_optimal real real | Hll_performance real | Hll_memory_budget real

record raw_hll_config =
  rh_precision :: jsnum
  rh_hashFunction :: hash_type
  rh_biasCorrection :: bool
  rh_sparseMode :: bool
  rh_maxMemoryMB :: jsnum
  rh_name :: hll_name

definition hash_type_of :: "string \<Rightarrow> hash_type" where
  "hash_type_of t =
     (if t = ''murmur3'' then Murmur3 else if t = ''xxhash'' then Xxhash else if t = ''fnv1a'' then Fnv1a else UnsupportedHash t)"

definition getDefaultHLLConfig :: "env_vars \<Rightarrow> raw_hll_config" where
  "getDefaultHLLConfig env =
     \<lparr>rh_precision = parseInt (env_or env ''HLL_DEFAULT_PRECISION'' (dev_or env ''10'' ''12'')),
      rh_hashFunction = hash_type_of (env_or env ''HLL_HASH_FUNCTION'' ''murmur3''),
      rh_biasCorrection = env_not_false env ''HLL_BIAS_CORRECTION'',
      rh_sparseMode = env_not_false env ''HLL_SPARSE_MODE'',
      rh_maxMemoryMB = parseInt (env_or env ''HLL_MAX_MEMORY_MB'' (dev_or env ''10'' ''50'')),
      rh_name = Hll_named ''default''\<rparr>"

definition getHighPrecisionHLLConfig :: "env_vars \<Rightarrow> raw_hll_config" where
  "getHighPrecisionHLLConfig env =
     \<lparr>rh_precision = parseInt (env_or env ''HLL_HIGH_PRECISION'' ''14''), rh_hashFunction = Murmur3, rh_biasCorrection = True,
      rh_sparseMode = True, rh_maxMemoryMB = parseInt (env_or env ''HLL_HIGH_MEMORY_MB'' ''100''),
      rh_name = Hll_named ''high_precision''\<rparr>"

definition getMemoryEfficientHLLConfig :: "env_vars \<Rightarrow> raw_hll_config" where
  "getMemoryEfficientHLLConfig env =
     \<lparr>rh_precision = parseInt (env_or env ''HLL_MEMORY_PRECISION'' ''8''), rh_hashFunction = Fnv1a, rh_biasCorrection = False,
      rh_sparseMode = True, rh_maxMemoryMB = parseInt (env_or env ''HLL_MEMORY_LIMIT_MB'' ''5''),
      rh_name = Hll_named ''memory_efficient''\<rparr>"

definition getDevelopmentHLLConfig :: "env_vars \<Rightarrow> raw_hll_config" where
  "getDevelopmentHLLConfig env =
     \<lparr>rh_precision = parseInt (env_or env ''HLL_DEV_PRECISION'' ''8''), rh_hashFunction = Fnv1a, rh_biasCorrection = False,
      rh_sparseMode = True, rh_maxMemoryMB = parseInt (env_or env ''HLL_DEV_MEMORY_MB'' ''5''),
      rh_name = Hll_named ''development''\<rparr>"

datatype hll_use_case = Hu_ip_tracking | Hu_session_tracking | Hu_visitor_tracking | Hu_path_tracking | Hu_general

definition getHLLConfigForUseCase :: "env_vars \<Rightarrow> hll_use_case \<Rightarrow> raw_hll_config" where
  "getHLLConfigForUseCase env useCase =
     (let baseConfig = (if isDevelopment env then getDevelopmentHLLConfig env else getDefaultHLLConfig env);
          sized = \<lambda>pkey p mkey m name.
            baseConfig\<lparr>rh_precision := parseInt (env_or env pkey p), rh_maxMemoryMB := parseInt (env_or env mkey m), rh_name := Hll_named name\<rparr>
      in case useCase of
           Hu_ip_tracking \<Rightarrow> sized ''HLL_IP_PRECISION'' (dev_or env ''10'' ''12'') ''HLL_IP_MEMORY_MB'' (dev_or env ''8'' ''30'') ''ip_tracker''
         | Hu_session_tracking \<Rightarrow>
             sized ''HLL_SESSION_PRECISION'' (dev_or env ''8'' ''10'') ''HLL_SESSION_MEMORY_MB'' (dev_or env ''5'' ''20'') ''session_tracker''
         | Hu_visitor_tracking \<Rightarrow>
             (sized ''HLL_VISITOR_PRECISION'' (dev_or env ''10'' ''14'') ''HLL_VISITOR_MEMORY_MB'' (dev_or env ''10'' ''50'') ''visitor_tracker'')
               \<lparr>rh_biasCorrection := True\<rparr>
         | Hu_path_tracking \<Rightarrow>
             sized ''HLL_PATH_PRECISION'' (dev_or env ''8'' ''10'') ''HLL_PATH_MEMORY_MB'' (dev_or env ''5'' ''15'') ''path_tracker''
         | Hu_general \<Rightarrow> baseConfig)"

record visitor_config =
  trackIPs :: bool
  trackSessions :: bool
  trackUserAgents :: bool
  trackGeolocation :: bool
  trackPaths :: bool
  vc_timeWindows :: "jsnum list"
  vc_enabled :: bool

definition getDefaultVisitorTrackingConfig :: "env_vars \<Rightarrow> visitor_config" where
  "getDefaultVisitorTrackingConfig env =
     \<lparr>trackIPs = env_not_false env ''VISITOR_TRACK_IPS'', trackSessions = env_not_false env ''VISITOR_TRACK_SESSIONS'',
      trackUserAgents = env_not_false env ''VISITOR_TRACK_USER_AGENTS'', trackGeolocation = env_not_false env ''VISITOR_TRACK_GEOLOCATION'',
      trackPaths = env_not_false env ''VISITOR_TRACK_PATHS'',
      vc_timeWindows =
        [parseInt (env_or env ''VISITOR_WINDOW_1MIN'' ''60000''), parseInt (env_or env ''VISITOR_WINDOW_5MIN'' ''300000''),
         parseInt (env_or env ''VISITOR_WINDOW_1HOUR'' ''3600000''), parseInt (env_or env ''VISITOR_WINDOW_1DAY'' ''86400000'')],
      vc_enabled = env_not_false env ''VISITOR_TRACKING_ENABLED''\<rparr>"

record hll_tracker_config =
  ht_name :: string
  ht_config :: raw_hll_config
  ht_visitorConfig :: visitor_config
  ht_enabled :: bool

record hll_manager_config =
  hm_trackers :: "hll_tracker_config list"
  hm_persistenceInterval :: jsnum
  hm_cleanupInterval :: jsnum
  hm_maxMemoryUsage :: jsnum
  hm_enableMetrics :: bool
  hm_enableAnalytics :: bool

definition getHLLManagerConfig :: "env_vars \<Rightarrow> hll_manager_config" where
  "getHLLManagerConfig env =
     (let visitors = getDefaultVisitorTrackingConfig env
      in \<lparr>hm_trackers =
            [\<lparr>ht_name = ''unique_ips'', ht_config = getHLLConfigForUseCase env Hu_ip_tracking,
              ht_visitorConfig = visitors\<lparr>trackSessions := False, trackUserAgents := False, trackGeolocation := False, trackPaths := False\<rparr>,
              ht_enabled = env_not_false env ''HLL_TRACK_IPS''\<rparr>,
             \<lparr>ht_name = ''unique_sessions'', ht_config = getHLLConfigForUseCase env Hu_session_tracking,
              ht_visitorConfig = visitors\<lparr>trackIPs := False, trackUserAgents := False, trackGeolocation := False, trackPaths := False\<rparr>,
              ht_enabled = env_not_false env ''HLL_TRACK_SESSIONS''\<rparr>,
             \<lparr>ht_name = ''unique_visitors'', ht_config = getHLLConfigForUseCase env Hu_visitor_tracking, ht_visitorConfig = visitors,
              ht_enabled = env_not_false env ''HLL_TRACK_VISITORS''\<rparr>,
             \<lparr>ht_name = ''unique_paths'', ht_config = getHLLConfigForUseCase env Hu_path_tracking,
              ht_visitorConfig = visitors\<lparr>trackIPs := False, trackSessions := False, trackUserAgents := False, trackGeolocation := False\<rparr>,
              ht_enabled = env_not_false env ''HLL_TRACK_PATHS''\<rparr>],
          hm_persistenceInterval = parseInt (env_or env ''HLL_PERSISTENCE_INTERVAL'' (dev_or env ''60000'' ''300000'')),
          hm_cleanupInterval = parseInt (env_or env ''HLL_CLEANUP_INTERVAL'' (dev_or env ''300000'' ''900000'')),
          hm_maxMemoryUsage = js_scale 1024 (js_scale 1024 (parseInt (env_or env ''HLL_TOTAL_MEMORY_MB'' (dev_or env ''50'' ''200'')))),
          hm_enableMetrics = env_not_false env ''HLL_ENABLE_METRICS'', hm_enableAnalytics = env_not_false env ''HLL_ENABLE_ANALYTICS''\<rparr>)"

section \<open>Sizing\<close>

fun js_gt :: "jsnum \<Rightarrow> jsnum \<Rightarrow> bool" where
  "js_gt (Fin x) (Fin y) = (x > y)"
| "js_gt PInf v = (v \<noteq> PInf \<and> v \<noteq> NaN)"
| "js_gt (Fin x) v = (v = NInf)"
| "js_gt _ _ = False"

fun js_neg :: "jsnum \<Rightarrow> jsnum" where
  "js_neg (Fin x) = Fin (- x)"
| "js_neg PInf = NInf"
| "js_neg NInf = PInf"
| "js_neg NaN = NaN"

definition js_sub :: "jsnum \<Rightarrow> jsnum \<Rightarrow> jsnum" where
  "js_sub a b = js_add a (js_neg b)"

fun js_pow2 :: "jsnum \<Rightarrow> jsnum" where
  "js_pow2 (Fin x) = Fin (2 powr x)"
| "js_pow2 NInf = Fin 0"
| "js_pow2 v = v"

text \<open>A tolerance of 0 divides 1.04 into infinity, whose logarithm the minimum cuts to 16.\<close>

definition getOptimalHLLConfig :: "real \<Rightarrow> real \<Rightarrow> raw_hll_config" where
  "getOptimalHLLConfig expectedCardinality errorTolerance =
     (let requiredPrecision = (if errorTolerance = 0 then PInf else Fin (of_int \<lceil>log 2 ((104 / 100 / errorTolerance) ^ 2)\<rceil>));
          p = js_max (Fin 4) (js_min (Fin 16) requiredPrecision);
          memoryMB = js_ceil (js_scale (6 / 8 / 1024 / 1024) (js_pow2 p))
      in \<lparr>rh_precision = p, rh_hashFunction = Murmur3, rh_biasCorrection = expectedCardinality < 100000,
          rh_sparseMode = expectedCardinality < 10000, rh_maxMemoryMB = js_max (Fin 5) (js_scale 2 memoryMB),
          rh_name = Hll_optimal expectedCardinality errorTolerance\<rparr>)"

definition getPerformanceTunedHLLConfig :: "real \<Rightarrow> raw_hll_config" where
  "getPerformanceTunedHLLConfig rps =
     (let (p, mb, h) = (if rps < 100 then (10, 10, Murmur3) else if rps < 1000 then (12, 30, Murmur3)
                        else if rps < 10000 then (14, 100, Murmur3) else (12, 50, Fnv1a))
      in \<lparr>rh_precision = Fin p, rh_hashFunction = h, rh_biasCorrection = rps < 1000, rh_sparseMode = True, rh_maxMemoryMB = Fin mb,
          rh_name = Hll_performance rps\<rparr>)"

text \<open>The logarithm of a negative budget is NaN, that of 0 minus infinity.\<close>

definition getMemoryBudgetHLLConfig :: "real \<Rightarrow> raw_hll_config" where
  "getMemoryBudgetHLLConfig mb =
     (let maxPrecision = (if mb > 0 then Fin (of_int \<lfloor>log 2 (mb * 1024 * 1024 / (3 / 4))\<rfloor>) else if mb = 0 then NInf else NaN)
      in \<lparr>rh_precision = js_max (Fin 4) (js_min (Fin 16) maxPrecision), rh_hashFunction = Fnv1a, rh_biasCorrection = False,
          rh_sparseMode = True, rh_maxMemoryMB = Fin mb, rh_name = Hll_memory_budget mb\<rparr>)"

datatype hll_config_problem = Hp_precision | Hp_memory | Hp_hash | Hp_may_exceed jsnum jsnum

definition validateHLLConfig :: "raw_hll_config \<Rightarrow> hll_config_problem list" where
  "validateHLLConfig c =
     (let estimatedMemoryMB = js_scale (6 / 8 / 1024 / 1024) (js_pow2 (rh_precision c))
      in (if num_less (rh_precision c) 4 \<or> num_greater (rh_precision c) 16 then [Hp_precision] else [])
         @ (if js_le (rh_maxMemoryMB c) 0 then [Hp_memory] else [])
         @ (if rh_hashFunction c \<in> {Murmur3, Xxhash, Fnv1a} then [] else [Hp_hash])
         @ (if js_gt estimatedMemoryMB (rh_maxMemoryMB c) then [Hp_may_exceed estimatedMemoryMB (rh_maxMemoryMB c)] else []))"

text \<open>The requirements; a value that is absent or 0 is falsy. \<open>errorTolerance\<close> is 0.02 and \<open>environment\<close> production by default.\<close>

record hll_requirements =
  rq_expectedCardinality :: "real option"
  rq_requestsPerSecond :: "real option"
  rq_memoryBudgetMB :: "real option"
  rq_errorTolerance :: "real option"
  rq_environment :: "deploy_environment option"

definition getRecommendedHLLConfig :: "env_vars \<Rightarrow> hll_requirements \<Rightarrow> raw_hll_config" where
  "getRecommendedHLLConfig env r =
     (let given = \<lambda>n. case n of None \<Rightarrow> 0 | Some x \<Rightarrow> x;
          tolerance = (case rq_errorTolerance r of None \<Rightarrow> 2 / 100 | Some x \<Rightarrow> x)
      in if given (rq_memoryBudgetMB r) \<noteq> 0 then getMemoryBudgetHLLConfig (given (rq_memoryBudgetMB r))
         else if given (rq_expectedCardinality r) \<noteq> 0 then getOptimalHLLConfig (given (rq_expectedCardinality r)) tolerance
         else if given (rq_requestsPerSecond r) \<noteq> 0 then getPerformanceTunedHLLConfig (given (rq_requestsPerSecond r))
         else case rq_environment r of
           Some Dep_development \<Rightarrow> getDevelopmentHLLConfig env
         | Some Dep_testing \<Rightarrow> getMemoryEfficientHLLConfig env
         | _ \<Rightarrow> getDefaultHLLConfig env)"

text \<open>The configuration a HyperLogLog is built from, when its numbers are finite and its precision whole.\<close>

definition hll_config_of :: "raw_hll_config \<Rightarrow> hll_config option" where
  "hll_config_of c =
     (case (fin (rh_precision c), fin (rh_maxMemoryMB c)) of
        (Some p, Some mb) \<Rightarrow>
          if isInteger (Fin p)
          then Some \<lparr>precision = \<lfloor>p\<rfloor>, hashFunctionType = rh_hashFunction c, biasCorrection = rh_biasCorrection c,
                     sparseMode = rh_sparseMode c, maxMemoryMB = mb\<rparr> else None
      | _ \<Rightarrow> None)"

section \<open>What the sizes give\<close>

lemma dense_memory:
  assumes "hll_inv s" and "\<not> isSparse (registers s)"
  shows "isMemoryUsageHealthy s \<longleftrightarrow> 2 ^ (prec (hll_cfg s) + 2) \<le> maxMemoryMB (hll_cfg s) * 2 ^ 20"
proof (cases "registers s")
  case (DenseRegisters q xs)
  then have "length xs = 2 ^ prec (hll_cfg s)" using assms(1) by (simp add: hll_inv_def)
  then show ?thesis using DenseRegisters by (simp add: isMemoryUsageHealthy_def)
qed (use assms(2) in simp)

lemma clamp_precision: "js_max (Fin 4) (js_min (Fin 16) (Fin (real_of_int k))) = Fin (real_of_int (max 4 (min 16 k)))"
  using of_int_max [of 4 "min 16 k", where ?'a = real] of_int_min [of 16 k, where ?'a = real] by simp

lemma log_bounds:
  assumes "(x :: real) > 0"
  shows "2 powr \<lfloor>log 2 x\<rfloor> \<le> x" "x < 2 powr (\<lfloor>log 2 x\<rfloor> + 1)" "x \<le> 2 powr \<lceil>log 2 x\<rceil>"
  using assms by (simp_all add: powr_le_iff less_powr_iff le_powr_iff)

definition budget_precision :: "real \<Rightarrow> int" where
  "budget_precision mb = max 4 (min 16 \<lfloor>log 2 (mb * 1024 * 1024 / (3 / 4))\<rfloor>)"

lemma budget_config:
  assumes "mb > 0"
  shows "hll_config_of (getMemoryBudgetHLLConfig mb) =
    Some \<lparr>precision = budget_precision mb, hashFunctionType = Fnv1a, biasCorrection = False, sparseMode = True, maxMemoryMB = mb\<rparr>"
proof -
  have "\<not> mb = 0" "\<not> mb \<le> 0" using assms by simp_all
  then show ?thesis using assms
    by (simp only: hll_config_of_def getMemoryBudgetHLLConfig_def budget_precision_def Let_def if_True fin.simps raw_hll_config.simps
        isInteger.simps prod.case option.case floor_of_int clamp_precision simp_thms)
qed

lemma budget_exceeded:
  assumes "mb > 0"
  shows "2 ^ (nat (budget_precision mb) + 2) \<le> mb * 2 ^ 20 \<longleftrightarrow> 1 / 4 \<le> mb"
proof -
  let ?x = "mb * 1024 * 1024 / (3 / 4)"
  let ?k = "\<lfloor>log 2 ?x\<rfloor>"
  have x: "?x > 0" using assms by simp
  note k = log_bounds(1,2) [OF x]
  consider "?k \<ge> 16" | "4 \<le> ?k" "?k < 16" | "?k < 4" by linarith
  then show ?thesis
  proof cases
    case 1
    then show ?thesis by (auto simp: budget_precision_def)
  next
    case 2
    then have p: "budget_precision mb = ?k" by (simp add: budget_precision_def)
    have "2 powr (?k + 1) = 2 * 2 ^ nat ?k" using 2 by (simp add: powr_add powr_real_of_int)
    moreover have "nat ?k \<le> 15" using 2 by linarith
    then have "(2 :: real) ^ nat ?k \<le> 2 ^ 15" by (rule power_increasing) simp
    ultimately show ?thesis using k(2) p assms by (simp add: power_add)
  next
    case 3
    then have "real_of_int (?k + 1) \<le> 4" by linarith
    then have "2 powr (?k + 1) \<le> (2 :: real) powr 4" by (rule powr_mono) simp
    then have "mb * 2 ^ 20 < 16" using k(2) by simp
    then show ?thesis using 3 by (simp add: budget_precision_def)
  qed
qed

text \<open>
  The budget configuration counts 6 bits for a register, the dense registers take 4 bytes each. So a HyperLogLog that is built for a
  budget of \<open>mb\<close> megabytes is accepted, and once its registers are dense it stays within its budget exactly if the budget is at least a
  quarter of a megabyte: every smaller budget is exceeded.
\<close>
theorem hll_memory_budget:
  assumes "mb > 0" and "hll_config_of (getMemoryBudgetHLLConfig mb) = Some (hll_cfg s)"
    and "hll_inv s" and "\<not> isSparse (registers s)"
  shows "hll_validateConfig (hll_cfg s) = None \<and> (isMemoryUsageHealthy s \<longleftrightarrow> 1 / 4 \<le> mb)"
proof -
  have "hll_cfg s =
      \<lparr>precision = budget_precision mb, hashFunctionType = Fnv1a, biasCorrection = False, sparseMode = True, maxMemoryMB = mb\<rparr>"
    using assms(2) budget_config [OF assms(1)] by simp
  then show ?thesis
    using assms(1) budget_exceeded [OF assms(1)] dense_memory [OF assms(3,4)]
    by (simp add: hll_validateConfig_def budget_precision_def prec_def)
qed

theorem hll_memory_budget_witness:
  "\<exists>c s. hll_config_of (getMemoryBudgetHLLConfig (1 / 8)) = Some c \<and> new_hll 0 c = Inr s \<and> \<not> isMemoryUsageHealthy (convertToDense s)"
proof -
  let ?c = "\<lparr>precision = budget_precision (1 / 8), hashFunctionType = Fnv1a, biasCorrection = False, sparseMode = True, maxMemoryMB = 1 / 8\<rparr>"
  have c: "hll_config_of (getMemoryBudgetHLLConfig (1 / 8)) = Some ?c" by (rule budget_config) simp
  have "hll_validateConfig ?c = None" by (simp add: hll_validateConfig_def budget_precision_def)
  then obtain s where s: "new_hll 0 ?c = Inr s" by (simp add: new_hll_def createHashFunction_def)
  have "hll_cfg (convertToDense s) = ?c" "\<not> isSparse (registers (convertToDense s))"
    using s by (auto simp: new_hll_Inr convertToDense_def fresh_registers_def)
  then have "\<not> isMemoryUsageHealthy (convertToDense s)"
    using hll_memory_budget [of "1 / 8" "convertToDense s"] c convertToDense_inv [OF new_hll_inv [OF s]] by simp
  then show ?thesis using c s by blast
qed

lemma optimal_config:
  assumes "104 / 25600 \<le> tol"
  shows "\<exists>c. hll_config_of (getOptimalHLLConfig n tol) = Some c"
    and "hll_config_of (getOptimalHLLConfig n tol) = Some c \<Longrightarrow>
      precision c = max 4 \<lceil>log 2 ((104 / 100 / tol) ^ 2)\<rceil> \<and> precision c \<le> 16 \<and> maxMemoryMB c > 0"
proof -
  let ?y = "(104 / 100 / tol) ^ 2"
  let ?k = "\<lceil>log 2 ?y\<rceil>"
  have tol: "tol > 0" using assms by linarith
  have y: "?y > 0" using tol by simp
  have "104 / 100 / tol \<le> 256" using assms tol by (simp add: field_simps)
  then have "?y \<le> 256 ^ 2" using tol by (intro power_mono) simp_all
  then have "?y \<le> 2 powr 16" by simp
  then have "log 2 ?y \<le> 16" using y by (simp only: log_le_iff one_less_numeral_iff semiring_norm)
  then have k16: "?k \<le> 16" by (simp add: ceiling_le_iff)
  then have "min 16 ?k = ?k" by simp
  then have p: "rh_precision (getOptimalHLLConfig n tol) = Fin (real_of_int (max 4 ?k))"
    using tol by (simp only: getOptimalHLLConfig_def Let_def raw_hll_config.simps if_False less_irrefl clamp_precision
        order.strict_implies_not_eq [OF tol, symmetric])
  have mb: "\<exists>m\<ge>5. rh_maxMemoryMB (getOptimalHLLConfig n tol) = Fin m"
    using p by (simp add: getOptimalHLLConfig_def Let_def)
  then show "\<exists>c. hll_config_of (getOptimalHLLConfig n tol) = Some c"
    using p by (auto simp: hll_config_of_def simp del: of_int_max of_int_numeral)
  show "precision c = max 4 ?k \<and> precision c \<le> 16 \<and> maxMemoryMB c > 0" if "hll_config_of (getOptimalHLLConfig n tol) = Some c"
    using that p mb k16 by (auto simp: hll_config_of_def simp del: of_int_max of_int_numeral)
qed

text \<open>
  A configuration for an error tolerance of at least 1.04/256, the error of the highest precision, has a theoretical error within
  the tolerance.
\<close>
theorem optimal_error:
  assumes "104 / 25600 \<le> tol" and "hll_config_of (getOptimalHLLConfig n tol) = Some c"
  shows "hll_validateConfig c = None \<and> getTheoreticalError c \<le> tol"
proof -
  let ?y = "(104 / 100 / tol) ^ 2"
  have tol: "tol > 0" using assms(1) by linarith
  have y: "?y > 0" using tol by simp
  note c = optimal_config(2) [OF assms]
  have "?y \<le> 2 powr \<lceil>log 2 ?y\<rceil>" by (rule log_bounds(3) [OF y])
  also have "\<dots> \<le> 2 powr (real (prec c))" using c by (simp add: prec_def)
  finally have "?y \<le> 2 ^ prec c" by (simp add: powr_realpow)
  then have "104 / 100 / tol \<le> sqrt (2 ^ prec c)" by (rule real_le_rsqrt)
  then show ?thesis using tol c by (simp add: getTheoreticalError_def hll_validateConfig_def field_simps)
qed

theorem optimal_error_witness:
  "\<exists>c. hll_config_of (getOptimalHLLConfig 1000 (2 / 100)) = Some c \<and> getTheoreticalError c \<le> 2 / 100"
proof -
  obtain c where "hll_config_of (getOptimalHLLConfig 1000 (2 / 100)) = Some c" using optimal_config by fastforce
  then show ?thesis using optimal_error [of "2 / 100" 1000 c] by auto
qed

section \<open>Counting nothing\<close>

lemma calculateAlpha_ge: "hll_validateConfig c = None \<Longrightarrow> 67 / 100 \<le> calculateAlpha c"
proof -
  assume v: "hll_validateConfig c = None"
  have "67 / 100 \<le> calculateAlpha c" if "precision c \<ge> 7"
  proof -
    have "(2 :: real) ^ 7 \<le> 2 ^ prec c" using that by (intro power_increasing) (auto simp: prec_def)
    then have "(1079 / 1000) / 2 ^ prec c \<le> (1079 / 1000 :: real) / 128" by (intro divide_left_mono) auto
    then have "(7213 / 10000 :: real) / (1 + 1079 / 1000 / 128) \<le> 7213 / 10000 / (1 + 1079 / 1000 / 2 ^ prec c)"
      by (intro divide_left_mono) (auto intro!: add_pos_pos mult_pos_pos)
    then show ?thesis using that by (simp add: calculateAlpha_def)
  qed
  then show ?thesis using v by (auto simp: hll_validateConfig_def calculateAlpha_def split: if_splits)
qed

lemma empty_register_sum: "new_hll now c = Inr s \<Longrightarrow> register_sum s = 2 ^ prec c"
proof -
  assume "new_hll now c = Inr s"
  then have "register_sum s = sum_list (map (\<lambda>i. 1) [0..<2 ^ prec c])"
    unfolding register_sum_def
    by (intro arg_cong [where f = sum_list] map_cong) (auto simp: new_hll_Inr fresh_registers_get)
  then show ?thesis by (simp add: sum_list_triv)
qed

text \<open>
  Without the correction for small counts, which the development and the memory-efficient configuration turn off, a HyperLogLog that holds
  nothing reports a positive count: the constant of its precision times the number of registers, at least 11.
\<close>
theorem empty_count_uncorrected:
  assumes "new_hll now c = Inr s" and "\<not> biasCorrection c"
  shows "est_count (fst (cardinality q n s)) = Fin (of_int \<lfloor>calculateAlpha c * 2 ^ prec c + 1 / 2\<rfloor>)
     \<and> 11 \<le> \<lfloor>calculateAlpha c * 2 ^ prec c + 1 / 2\<rfloor>"
proof -
  have s: "hll_cfg s = c" "alpha s = calculateAlpha c" "hll_validateConfig c = None" using assms(1) by (auto simp: new_hll_Inr)
  have raw: "calculateRawEstimate s = calculateAlpha c * 2 ^ prec c"
    using s empty_register_sum [OF assms(1)] by (simp add: calculateRawEstimate_def Let_def)
  have "(2 :: real) ^ 4 \<le> 2 ^ prec c" using prec_range [OF s(3)] by (intro power_increasing) auto
  then have "67 / 100 * 2 ^ 4 \<le> calculateAlpha c * 2 ^ prec c" using calculateAlpha_ge [OF s(3)] by (intro mult_mono) auto
  then have "11 \<le> \<lfloor>calculateAlpha c * 2 ^ prec c + 1 / 2\<rfloor>" by (simp add: le_floor_iff)
  then show ?thesis
    using assms(2) s raw by (simp add: cardinality_def Let_def count_estimate_def js_round_def)
qed

text \<open>In development the tracker of addresses reports 738 addresses before the first request.\<close>

theorem empty_count_uncorrected_witness:
  "\<exists>c s. hll_config_of (getHLLConfigForUseCase [''NODE_ENV'' \<mapsto> ''development''] Hu_ip_tracking) = Some c
     \<and> new_hll 0 c = Inr s \<and> est_count (fst (cardinality 0 0 s)) = Fin 738"
proof -
  let ?c = "\<lparr>precision = 10, hashFunctionType = Fnv1a, biasCorrection = False, sparseMode = True, maxMemoryMB = 8\<rparr>"
  have c: "hll_config_of (getHLLConfigForUseCase [''NODE_ENV'' \<mapsto> ''development''] Hu_ip_tracking) = Some ?c"
    by (simp add: getHLLConfigForUseCase_def getDevelopmentHLLConfig_def hll_config_of_def isDevelopment_def dev_or_def env_or_def
        parseInt_def take_sign_def space_char_def is_decimal_def decimal_value_def starts_with_def lower_char_def Let_def)
  obtain s where s: "new_hll 0 ?c = Inr s" by (simp add: new_hll_def hll_validateConfig_def createHashFunction_def)
  have "\<lfloor>calculateAlpha ?c * 2 ^ prec ?c + 1 / 2\<rfloor> = 738"
    by (simp add: calculateAlpha_def prec_def floor_eq_iff)
  then show ?thesis using c s empty_count_uncorrected [OF s, of 0 0] by auto
qed

end
