(* ===== verification/VisitorTracking.thy ===== *)
theory VisitorTracking
  imports HllConfig
begin

text \<open>
  The visitor tracker (\<^verbatim>\<open>backend/src/services/VisitorTracker.ts\<close>): one HyperLogLog for each kind of item that is tracked, and one for each
  time window of each kind. The configurations of the use cases and the platform's \<^verbatim>\<open>URL\<close> parser are arguments, as are the clock
  readings: \<open>ve_now\<close> is the time stamp a request without one gets, \<open>ve_clock kind w\<close> the reading at the test for window \<open>w\<close> of a kind,
  \<open>ve_elapsed\<close> the time an addition takes. A window is its length in milliseconds, as it was read from the environment.

  The abstract state of a tracker is the history of the items of each kind and of each window; \<open>vt_tracks\<close> is the refinement relation.
\<close>

section \<open>State\<close>

record visitor_tracker =
  vt_config :: visitor_config
  vt_hlls :: "(string, hll) js_map"
  vt_windows :: "(string, (jsnum, hll) js_map) js_map"
  vt_isInitialized :: bool

record visitor_request =
  vr_ipAddress :: "string option"
  vr_sessionId :: "string option"
  vr_userAgent :: "string option"
  vr_country :: "string option"
  vr_region :: "string option"
  vr_city :: "string option"
  vr_path :: "string option"
  vr_timestamp :: "time_ms option"

record visit_env =
  ve_now :: time_ms
  ve_clock :: "string \<Rightarrow> jsnum \<Rightarrow> time_ms"
  ve_elapsed :: "string \<Rightarrow> jsnum option \<Rightarrow> real"
  ve_parsed :: "string \<Rightarrow> string option"

section \<open>Construction\<close>

fun initializeTimeWindows :: "time_ms \<Rightarrow> hll_config \<Rightarrow> jsnum list \<Rightarrow> (jsnum, hll) js_map \<Rightarrow> hll_error + (jsnum, hll) js_map" where
  "initializeTimeWindows now c [] windowMap = Inr windowMap"
| "initializeTimeWindows now c (w # ws) windowMap =
     (case new_hll now c of
        Inl e \<Rightarrow> Inl e
      | Inr h \<Rightarrow> initializeTimeWindows now c ws (map_set w h windowMap))"

text \<open>The kinds in the order of the code, with the setting that turns each on and the use case of its configuration.\<close>

definition tracking_kinds :: "(string \<times> (visitor_config \<Rightarrow> bool) \<times> hll_use_case) list" where
  "tracking_kinds =
     [(''ips'', trackIPs, Hu_ip_tracking), (''sessions'', trackSessions, Hu_session_tracking),
      (''user_agents'', trackUserAgents, Hu_general), (''locations'', trackGeolocation, Hu_general), (''paths'', trackPaths, Hu_path_tracking)]"

definition initialize_kind ::
  "time_ms \<Rightarrow> (hll_use_case \<Rightarrow> hll_config) \<Rightarrow> string \<Rightarrow> hll_use_case \<Rightarrow> visitor_tracker \<Rightarrow> hll_error + visitor_tracker" where
  "initialize_kind now cfgs kind u t =
     (case new_hll now (cfgs u) of
        Inl e \<Rightarrow> Inl e
      | Inr h \<Rightarrow>
          (case initializeTimeWindows now (cfgs Hu_general) (vc_timeWindows (vt_config t)) [] of
             Inl e \<Rightarrow> Inl e
           | Inr ws \<Rightarrow> Inr (t\<lparr>vt_hlls := map_set kind h (vt_hlls t), vt_windows := map_set kind ws (vt_windows t)\<rparr>)))"

fun initialize_kinds ::
  "time_ms \<Rightarrow> (hll_use_case \<Rightarrow> hll_config) \<Rightarrow> (string \<times> (visitor_config \<Rightarrow> bool) \<times> hll_use_case) list \<Rightarrow> visitor_tracker
     \<Rightarrow> hll_error + visitor_tracker" where
  "initialize_kinds now cfgs [] t = Inr t"
| "initialize_kinds now cfgs ((kind, on, u) # ks) t =
     (if on (vt_config t)
      then case initialize_kind now cfgs kind u t of Inl e \<Rightarrow> Inl e | Inr t' \<Rightarrow> initialize_kinds now cfgs ks t'
      else initialize_kinds now cfgs ks t)"

definition initializeHLLs :: "time_ms \<Rightarrow> (hll_use_case \<Rightarrow> hll_config) \<Rightarrow> visitor_tracker \<Rightarrow> hll_error + visitor_tracker" where
  "initializeHLLs now cfgs t =
     (case initialize_kinds now cfgs tracking_kinds t of Inl e \<Rightarrow> Inl e | Inr t' \<Rightarrow> Inr (t'\<lparr>vt_isInitialized := True\<rparr>))"

definition new_visitor_tracker ::
  "time_ms \<Rightarrow> (hll_use_case \<Rightarrow> hll_config) \<Rightarrow> visitor_config \<Rightarrow> hll_error + visitor_tracker" where
  "new_visitor_tracker now cfgs c =
     initializeHLLs now cfgs \<lparr>vt_config = c, vt_hlls = [], vt_windows = [], vt_isInitialized = False\<rparr>"

section \<open>Tracking\<close>

fun isWithinTimeWindow :: "time_ms \<Rightarrow> time_ms \<Rightarrow> jsnum \<Rightarrow> bool" where
  "isWithinTimeWindow now timestamp (Fin w) \<longleftrightarrow> of_int timestamp \<ge> of_int now - w"
| "isWithinTimeWindow now timestamp PInf \<longleftrightarrow> True"
| "isWithinTimeWindow now timestamp _ \<longleftrightarrow> False"

definition addToTracking :: "visit_env \<Rightarrow> string \<Rightarrow> string \<Rightarrow> time_ms \<Rightarrow> visitor_tracker \<Rightarrow> visitor_tracker" where
  "addToTracking env kind item timestamp t =
     (let t = (case map_of (vt_hlls t) kind of
                 None \<Rightarrow> t
               | Some h \<Rightarrow> t\<lparr>vt_hlls := map_set kind (add (js item) (ve_elapsed env kind None) h) (vt_hlls t)\<rparr>)
      in case map_of (vt_windows t) kind of
           None \<Rightarrow> t
         | Some ws \<Rightarrow>
             t\<lparr>vt_windows :=
                 map_set kind
                   (map (\<lambda>(w, h). (w, if isWithinTimeWindow (ve_clock env kind w) timestamp w
                                      then add (js item) (ve_elapsed env kind (Some w)) h else h)) ws)
                   (vt_windows t)\<rparr>)"

definition text_given :: "string option \<Rightarrow> string option" where
  "text_given v = (case v of Some t \<Rightarrow> if t = [] then None else Some t | None \<Rightarrow> None)"

definition buildLocationKey :: "string \<Rightarrow> string option \<Rightarrow> string option \<Rightarrow> string" where
  "buildLocationKey country region city =
     (let part = \<lambda>v. (case text_given v of None \<Rightarrow> [] | Some t \<Rightarrow> CHR ''|'' # t)
      in map lower_char (country @ part region @ part city))"

definition trackVisitor :: "visit_env \<Rightarrow> visitor_request \<Rightarrow> visitor_tracker \<Rightarrow> visitor_tracker" where
  "trackVisitor env r t =
     (if \<not> vt_isInitialized t \<or> \<not> vc_enabled (vt_config t) then t
      else
        let timestamp = (case vr_timestamp r of None \<Rightarrow> ve_now env | Some ts \<Rightarrow> ts);
            c = vt_config t;
            track = \<lambda>on kind value item t.
              (case text_given value of Some v \<Rightarrow> if on then addToTracking env kind (item v) timestamp t else t | None \<Rightarrow> t);
            t = track (trackIPs c) ''ips'' (vr_ipAddress r) id t;
            t = track (trackSessions c) ''sessions'' (vr_sessionId r) id t;
            t = track (trackUserAgents c) ''user_agents'' (vr_userAgent r) normalizeUserAgent t;
            t = track (trackGeolocation c) ''locations'' (vr_country r) (\<lambda>v. buildLocationKey v (vr_region r) (vr_city r)) t
        in track (trackPaths c) ''paths'' (vr_path r) (fa_normalizePath (ve_parsed env)) t)"

section \<open>Reading\<close>

fun num_truthy :: "jsnum \<Rightarrow> bool" where
  "num_truthy (Fin x) \<longleftrightarrow> x \<noteq> 0"
| "num_truthy NaN \<longleftrightarrow> False"
| "num_truthy _ \<longleftrightarrow> True"

definition window_given :: "jsnum option \<Rightarrow> jsnum option" where
  "window_given w = (case w of Some x \<Rightarrow> if num_truthy x then Some x else None | None \<Rightarrow> None)"

text \<open>Counting updates the statistics of the HyperLogLog that is asked. \<open>q\<close> is the time the query takes, \<open>now\<close> the clock.\<close>

definition count_main :: "real \<Rightarrow> time_ms \<Rightarrow> string \<Rightarrow> visitor_tracker \<Rightarrow> cardinality_estimate option \<times> visitor_tracker" where
  "count_main q now kind t =
     (case map_of (vt_hlls t) kind of
        None \<Rightarrow> (None, t)
      | Some h \<Rightarrow> (let (e, h') = cardinality q now h in (Some e, t\<lparr>vt_hlls := map_set kind h' (vt_hlls t)\<rparr>)))"

definition count_window ::
  "real \<Rightarrow> time_ms \<Rightarrow> string \<Rightarrow> jsnum \<Rightarrow> (jsnum, hll) js_map \<Rightarrow> visitor_tracker \<Rightarrow> cardinality_estimate option \<times> visitor_tracker" where
  "count_window q now kind w ws t =
     (case map_of ws w of
        None \<Rightarrow> (None, t)
      | Some h \<Rightarrow> (let (e, h') = cardinality q now h in (Some e, t\<lparr>vt_windows := map_set kind (map_set w h' ws) (vt_windows t)\<rparr>)))"

definition vt_getCardinality ::
  "real \<Rightarrow> time_ms \<Rightarrow> string \<Rightarrow> jsnum option \<Rightarrow> visitor_tracker \<Rightarrow> cardinality_estimate option \<times> visitor_tracker" where
  "vt_getCardinality q now kind timeWindowMs t =
     (case (window_given timeWindowMs, map_of (vt_windows t) kind) of
        (Some w, Some ws) \<Rightarrow> count_window q now kind w ws t
      | _ \<Rightarrow> count_main q now kind t)"

record visitor_metrics =
  vm_start :: "time_ms option"
  vm_end :: time_ms
  vm_duration :: jsnum
  vm_total :: jsnum
  vm_ips :: jsnum
  vm_sessions :: jsnum
  vm_userAgents :: jsnum
  vm_locations :: jsnum
  vm_paths :: jsnum
  vm_growthRate :: real
  vm_confidence :: real

text \<open>\<^verbatim>\<open>new Date(x)\<close>: the number is cut to a whole one; \<open>None\<close> is an invalid date.\<close>

definition date_of :: "jsnum \<Rightarrow> time_ms option" where
  "date_of v =
     (case v of
        Fin x \<Rightarrow> if \<bar>x\<bar> > 8640000000000000 then None else Some (if x \<ge> 0 then \<lfloor>x\<rfloor> else \<lceil>x\<rceil>)
      | _ \<Rightarrow> None)"

definition vt_calculateGrowthRate :: "jsnum option \<Rightarrow> real" where
  "vt_calculateGrowthRate timeWindowMs = 0"

definition empty_metrics :: "time_ms \<Rightarrow> jsnum option \<Rightarrow> visitor_metrics" where
  "empty_metrics now timeWindowMs =
     \<lparr>vm_start = (case window_given timeWindowMs of None \<Rightarrow> Some 0 | Some w \<Rightarrow> date_of (js_sub (Fin (of_int now)) w)),
      vm_end = now,
      vm_duration = (case window_given timeWindowMs of None \<Rightarrow> Fin (of_int now) | Some w \<Rightarrow> w),
      vm_total = Fin 0, vm_ips = Fin 0, vm_sessions = Fin 0, vm_userAgents = Fin 0, vm_locations = Fin 0, vm_paths = Fin 0,
      vm_growthRate = 0, vm_confidence = 0\<rparr>"

definition put_metric :: "string \<Rightarrow> jsnum \<Rightarrow> visitor_metrics \<Rightarrow> visitor_metrics" where
  "put_metric kind n m =
     (if kind = ''sessions'' then m\<lparr>vm_sessions := n\<rparr> else if kind = ''user_agents'' then m\<lparr>vm_userAgents := n\<rparr>
      else if kind = ''locations'' then m\<lparr>vm_locations := n\<rparr> else if kind = ''paths'' then m\<lparr>vm_paths := n\<rparr> else m)"

definition populateMetricsForType ::
  "real \<Rightarrow> time_ms \<Rightarrow> jsnum option \<Rightarrow> string \<Rightarrow> visitor_metrics \<times> visitor_tracker \<Rightarrow> visitor_metrics \<times> visitor_tracker" where
  "populateMetricsForType q now timeWindowMs kind mt =
     (let (m, t) = mt;
          (e, t) = (case (window_given timeWindowMs, map_of (vt_windows t) kind) of
                      (Some w, Some ws) \<Rightarrow> count_window q now kind w ws t
                    | _ \<Rightarrow> count_main q now kind t)
      in case e of
           None \<Rightarrow> (m, t)
         | Some e \<Rightarrow> (let m = put_metric kind (est_count e) m in (m\<lparr>vm_confidence := max (vm_confidence m) (est_conf e)\<rparr>, t)))"

definition getVisitorMetrics :: "real \<Rightarrow> time_ms \<Rightarrow> jsnum option \<Rightarrow> visitor_tracker \<Rightarrow> visitor_metrics \<times> visitor_tracker" where
  "getVisitorMetrics q now timeWindowMs t =
     (let m = empty_metrics now timeWindowMs;
          (e, t) = (case (window_given timeWindowMs, map_of (vt_windows t) ''ips'') of
                      (Some w, Some ws) \<Rightarrow> count_window q now ''ips'' w ws t
                    | _ \<Rightarrow> count_main q now ''ips'' t);
          m = (case e of
                 None \<Rightarrow> m
               | Some e \<Rightarrow> m\<lparr>vm_ips := est_count e, vm_confidence := max (vm_confidence m) (est_conf e)\<rparr>);
          (m, t) = fold (populateMetricsForType q now timeWindowMs) [''sessions'', ''user_agents'', ''locations'', ''paths''] (m, t)
      in (m\<lparr>vm_total := vm_ips m, vm_growthRate := vt_calculateGrowthRate timeWindowMs\<rparr>, t))"

record geographic_distribution =
  gd_country :: string
  gd_region :: string
  gd_uniqueVisitors :: jsnum
  gd_percentage :: real
  gd_confidence :: real

fun js_floor :: "jsnum \<Rightarrow> jsnum" where
  "js_floor (Fin x) = Fin (of_int \<lfloor>x\<rfloor>)"
| "js_floor v = v"

definition getGeographicDistribution ::
  "real \<Rightarrow> time_ms \<Rightarrow> int \<Rightarrow> visitor_tracker \<Rightarrow> geographic_distribution list \<times> visitor_tracker" where
  "getGeographicDistribution q now limit t =
     (let (e, t) = count_main q now ''locations'' t; totalVisitors = or_zero (map_option est_count e)
      in (js_slice 0 limit
            [\<lparr>gd_country = ''United States'', gd_region = ''North America'', gd_uniqueVisitors = js_floor (js_scale (4 / 10) totalVisitors),
              gd_percentage = 40, gd_confidence = 95 / 100\<rparr>,
             \<lparr>gd_country = ''Germany'', gd_region = ''Europe'', gd_uniqueVisitors = js_floor (js_scale (2 / 10) totalVisitors),
              gd_percentage = 20, gd_confidence = 90 / 100\<rparr>], t))"

record user_agent_analysis =
  ua_category :: string
  ua_name :: string
  ua_version :: "string option"
  ua_uniqueCount :: jsnum
  ua_percentage :: real
  ua_riskScore :: real

definition analyzeUserAgents :: "real \<Rightarrow> time_ms \<Rightarrow> int \<Rightarrow> visitor_tracker \<Rightarrow> user_agent_analysis list \<times> visitor_tracker" where
  "analyzeUserAgents q now limit t =
     (let (e, t) = count_main q now ''user_agents'' t; total = or_zero (map_option est_count e)
      in (js_slice 0 limit
            [\<lparr>ua_category = ''browser'', ua_name = ''Chrome'', ua_version = Some ''91+'', ua_uniqueCount = js_floor (js_scale (6 / 10) total),
              ua_percentage = 60, ua_riskScore = 1 / 10\<rparr>,
             \<lparr>ua_category = ''browser'', ua_name = ''Firefox'', ua_version = None, ua_uniqueCount = js_floor (js_scale (2 / 10) total),
              ua_percentage = 20, ua_riskScore = 1 / 10\<rparr>,
             \<lparr>ua_category = ''bot'', ua_name = ''Googlebot'', ua_version = None, ua_uniqueCount = js_floor (js_scale (5 / 100) total),
              ua_percentage = 5, ua_riskScore = 0\<rparr>], t))"

section \<open>Management\<close>

definition vt_clear :: "visitor_tracker \<Rightarrow> visitor_tracker" where
  "vt_clear t =
     t\<lparr>vt_hlls := map (apsnd clear_hll) (vt_hlls t), vt_windows := map (apsnd (map (apsnd clear_hll))) (vt_windows t)\<rparr>"

definition vt_getMemoryUsage :: "visitor_tracker \<Rightarrow> nat" where
  "vt_getMemoryUsage t =
     sum_list (map (\<lambda>(_, h). reg_memoryUsage (registers h)) (vt_hlls t))
     + sum_list (map (\<lambda>(_, ws). sum_list (map (\<lambda>(_, h). reg_memoryUsage (registers h)) ws)) (vt_windows t))"

text \<open>The new configuration is the old one with the given fields replaced; only an uninitialised tracker builds its objects again.\<close>

definition vt_updateConfiguration ::
  "time_ms \<Rightarrow> (hll_use_case \<Rightarrow> hll_config) \<Rightarrow> (visitor_config \<Rightarrow> visitor_config) \<Rightarrow> visitor_tracker \<Rightarrow> hll_error + visitor_tracker" where
  "vt_updateConfiguration now cfgs change t =
     (let t = t\<lparr>vt_config := change (vt_config t)\<rparr> in if \<not> vt_isInitialized t then initializeHLLs now cfgs t else Inr t)"

definition getTrackingTypes :: "visitor_tracker \<Rightarrow> string list" where
  "getTrackingTypes t = map fst (vt_hlls t)"

section \<open>The abstract tracker\<close>

text \<open>What a request contributes to a kind, and the time stamp it is counted under.\<close>

definition item_of :: "visit_env \<Rightarrow> visitor_request \<Rightarrow> string \<Rightarrow> string option" where
  "item_of env r kind =
     (if kind = ''ips'' then text_given (vr_ipAddress r)
      else if kind = ''sessions'' then text_given (vr_sessionId r)
      else if kind = ''user_agents'' then map_option normalizeUserAgent (text_given (vr_userAgent r))
      else if kind = ''locations'' then map_option (\<lambda>v. buildLocationKey v (vr_region r) (vr_city r)) (text_given (vr_country r))
      else if kind = ''paths'' then map_option (fa_normalizePath (ve_parsed env)) (text_given (vr_path r))
      else None)"

definition visit_stamp :: "visit_env \<Rightarrow> visitor_request \<Rightarrow> time_ms" where
  "visit_stamp env r = (case vr_timestamp r of None \<Rightarrow> ve_now env | Some ts \<Rightarrow> ts)"

definition kind_on :: "visitor_config \<Rightarrow> string \<Rightarrow> bool" where
  "kind_on c kind \<longleftrightarrow> (\<exists>k\<in>set tracking_kinds. fst k = kind \<and> fst (snd k) c)"

definition use_of :: "string \<Rightarrow> hll_use_case" where
  "use_of kind = (case map_of tracking_kinds kind of Some (_, u) \<Rightarrow> u | None \<Rightarrow> Hu_general)"

datatype vt_op = Op_visit visit_env visitor_request | Op_clear | Op_count real time_ms string "jsnum option"

definition vt_step :: "vt_op \<Rightarrow> visitor_tracker \<Rightarrow> visitor_tracker" where
  "vt_step x t =
     (case x of
        Op_visit env r \<Rightarrow> trackVisitor env r t
      | Op_clear \<Rightarrow> vt_clear t
      | Op_count q now kind w \<Rightarrow> snd (vt_getCardinality q now kind w t))"

text \<open>The items of a kind since the last clearing, and those that were within a window when they were added.\<close>

definition main_step :: "string \<Rightarrow> vt_op \<Rightarrow> string set \<Rightarrow> string set" where
  "main_step kind x S =
     (case x of
        Op_visit env r \<Rightarrow> S \<union> set_option (item_of env r kind)
      | Op_clear \<Rightarrow> {}
      | Op_count _ _ _ _ \<Rightarrow> S)"

definition window_step :: "string \<Rightarrow> jsnum \<Rightarrow> vt_op \<Rightarrow> string set \<Rightarrow> string set" where
  "window_step kind w x S =
     (case x of
        Op_visit env r \<Rightarrow>
          if isWithinTimeWindow (ve_clock env kind w) (visit_stamp env r) w then S \<union> set_option (item_of env r kind) else S
      | Op_clear \<Rightarrow> {}
      | Op_count _ _ _ _ \<Rightarrow> S)"

definition vt_tracks ::
  "(hll_use_case \<Rightarrow> hll_config) \<Rightarrow> (string \<Rightarrow> string set) \<Rightarrow> (string \<Rightarrow> jsnum \<Rightarrow> string set) \<Rightarrow> visitor_tracker \<Rightarrow> bool" where
  "vt_tracks cfgs S W t \<longleftrightarrow>
     (\<forall>kind h. map_of (vt_hlls t) kind = Some h \<longrightarrow> represents h (js ` S kind) \<and> hll_cfg h = cfgs (use_of kind))
     \<and> (\<forall>kind ws w h. map_of (vt_windows t) kind = Some ws \<longrightarrow> map_of ws w = Some h \<longrightarrow>
          represents h (js ` W kind w) \<and> hll_cfg h = cfgs Hu_general)"

text \<open>Which objects there are: one for each kind that was on when the tracker was built, with one for each window.\<close>

definition vt_shape :: "visitor_config \<Rightarrow> visitor_tracker \<Rightarrow> bool" where
  "vt_shape c t \<longleftrightarrow>
     vt_config t = c \<and> vt_isInitialized t
     \<and> (\<forall>kind. map_of (vt_hlls t) kind = None \<longleftrightarrow> \<not> kind_on c kind)
     \<and> (\<forall>kind. map_of (vt_windows t) kind = None \<longleftrightarrow> \<not> kind_on c kind)
     \<and> (\<forall>kind ws w. map_of (vt_windows t) kind = Some ws \<longrightarrow> (map_of ws w = None \<longleftrightarrow> w \<notin> set (vc_timeWindows c)))"

section \<open>Refinement\<close>

lemma represents_cardinality: "represents h X \<Longrightarrow> represents (snd (cardinality q now h)) X"
  using cardinality_inv by (simp add: represents_def)

lemma represents_clear: "represents h X \<Longrightarrow> represents (clear_hll h) {}"
  using clear_hll_inv by (simp add: represents_def ideal_register_empty) (simp add: clear_hll_def fresh_registers_get)

lemma map_of_map_key: "map_of (map (\<lambda>(k, v). (k, f k v)) m) k = map_option (f k) (map_of m k)"
  by (induction m) auto

lemma map_of_map_apsnd: "map_of (map (apsnd f) m) k = map_option f (map_of m k)"
  by (induction m) auto

lemma addToTracking_look:
  "map_of (vt_hlls (addToTracking env kind x ts t)) k =
     (if k = kind then map_option (add (js x) (ve_elapsed env kind None)) (map_of (vt_hlls t) k) else map_of (vt_hlls t) k)"
  "map_of (vt_windows (addToTracking env kind x ts t)) k =
     (if k = kind
      then map_option (map (\<lambda>(w, h). (w, if isWithinTimeWindow (ve_clock env kind w) ts w
                                         then add (js x) (ve_elapsed env kind (Some w)) h else h))) (map_of (vt_windows t) k)
      else map_of (vt_windows t) k)"
  "vt_config (addToTracking env kind x ts t) = vt_config t"
  "vt_isInitialized (addToTracking env kind x ts t) = vt_isInitialized t"
  by (auto simp: addToTracking_def Let_def update_conv' split: option.splits)

lemma addToTracking_shape: "vt_shape c t \<Longrightarrow> vt_shape c (addToTracking env kind x ts t)"
  by (auto simp: vt_shape_def addToTracking_look map_of_map_key)

lemma addToTracking_tracks:
  assumes "vt_tracks cfgs S W t"
  shows "vt_tracks cfgs (S(kind := insert x (S kind)))
    (W(kind := (\<lambda>w. if isWithinTimeWindow (ve_clock env kind w) ts w then insert x (W kind w) else W kind w)))
    (addToTracking env kind x ts t)"
  using assms by (auto simp: vt_tracks_def addToTracking_look map_of_map_key represents_add)

definition track_kind :: "visit_env \<Rightarrow> visitor_request \<Rightarrow> visitor_config \<Rightarrow> string \<Rightarrow> visitor_tracker \<Rightarrow> visitor_tracker" where
  "track_kind env r c kind t =
     (case item_of env r kind of
        Some x \<Rightarrow> if kind_on c kind then addToTracking env kind x (visit_stamp env r) t else t
      | None \<Rightarrow> t)"

lemma kind_on_simps [simp]:
  "kind_on c ''ips'' = trackIPs c" "kind_on c ''sessions'' = trackSessions c" "kind_on c ''user_agents'' = trackUserAgents c"
  "kind_on c ''locations'' = trackGeolocation c" "kind_on c ''paths'' = trackPaths c"
  by (simp_all add: kind_on_def tracking_kinds_def)

lemma track_kind_simps:
  "track_kind env r c ''ips'' t =
     (case text_given (vr_ipAddress r) of
        Some v \<Rightarrow> if trackIPs c then addToTracking env ''ips'' (id v) (visit_stamp env r) t else t | None \<Rightarrow> t)"
  "track_kind env r c ''sessions'' t =
     (case text_given (vr_sessionId r) of
        Some v \<Rightarrow> if trackSessions c then addToTracking env ''sessions'' (id v) (visit_stamp env r) t else t | None \<Rightarrow> t)"
  "track_kind env r c ''user_agents'' t =
     (case text_given (vr_userAgent r) of
        Some v \<Rightarrow> if trackUserAgents c then addToTracking env ''user_agents'' (normalizeUserAgent v) (visit_stamp env r) t else t | None \<Rightarrow> t)"
  "track_kind env r c ''locations'' t =
     (case text_given (vr_country r) of
        Some v \<Rightarrow> if trackGeolocation c
                  then addToTracking env ''locations'' (buildLocationKey v (vr_region r) (vr_city r)) (visit_stamp env r) t else t
      | None \<Rightarrow> t)"
  "track_kind env r c ''paths'' t =
     (case text_given (vr_path r) of
        Some v \<Rightarrow> if trackPaths c then addToTracking env ''paths'' (fa_normalizePath (ve_parsed env) v) (visit_stamp env r) t else t
      | None \<Rightarrow> t)"
  by (simp_all add: track_kind_def item_of_def split: option.split)

lemma trackVisitor_fold:
  assumes "vt_isInitialized t" and "vc_enabled (vt_config t)"
  shows "trackVisitor env r t = fold (track_kind env r (vt_config t)) (map fst tracking_kinds) t"
proof -
  have "map fst tracking_kinds = [''ips'', ''sessions'', ''user_agents'', ''locations'', ''paths'']"
    by (simp add: tracking_kinds_def)
  then show ?thesis
    using assms by (simp only: trackVisitor_def visit_stamp_def track_kind_simps Let_def fold_simps simp_thms if_False)
qed

lemma track_kind_shape: "vt_shape c t \<Longrightarrow> vt_shape c (track_kind env r c kind t)"
  by (simp add: track_kind_def addToTracking_shape split: option.split)

lemma track_kind_tracks:
  assumes "vt_shape c t" and "vt_tracks cfgs S W t"
  shows "vt_tracks cfgs (S(kind := main_step kind (Op_visit env r) (S kind)))
    (W(kind := (\<lambda>w. window_step kind w (Op_visit env r) (W kind w)))) (track_kind env r c kind t)"
proof (cases "kind_on c kind")
  case True
  show ?thesis
  proof (cases "item_of env r kind")
    case None
    then show ?thesis using assms(2) by (auto simp: track_kind_def main_step_def window_step_def vt_tracks_def)
  next
    case (Some x)
    then show ?thesis
      using True addToTracking_tracks [OF assms(2), of kind x env "visit_stamp env r"]
      by (simp add: track_kind_def main_step_def window_step_def insert_is_Un [symmetric] Un_insert_right cong: if_cong)
  qed
next
  case False
  then have "track_kind env r c kind t = t" "map_of (vt_hlls t) kind = None" "map_of (vt_windows t) kind = None"
    using assms(1) by (auto simp: track_kind_def vt_shape_def split: option.split)
  then show ?thesis using assms(2) by (auto simp: vt_tracks_def)
qed

lemma track_kinds_tracks:
  assumes "distinct ks" and "vt_shape c t" and "vt_tracks cfgs S W t"
  shows "vt_shape c (fold (track_kind env r c) ks t)
    \<and> vt_tracks cfgs (\<lambda>k. if k \<in> set ks then main_step k (Op_visit env r) (S k) else S k)
        (\<lambda>k w. if k \<in> set ks then window_step k w (Op_visit env r) (W k w) else W k w) (fold (track_kind env r c) ks t)"
  using assms
proof (induction ks arbitrary: t S W)
  case Nil
  then show ?case by simp
next
  case (Cons k ks)
  let ?S = "S(k := main_step k (Op_visit env r) (S k))"
  let ?W = "W(k := (\<lambda>w. window_step k w (Op_visit env r) (W k w)))"
  note IH = Cons.IH [of "track_kind env r c k t" ?S ?W]
  have "(\<lambda>k'. if k' \<in> set ks then main_step k' (Op_visit env r) (?S k') else ?S k') =
      (\<lambda>k'. if k' \<in> set (k # ks) then main_step k' (Op_visit env r) (S k') else S k')"
    "(\<lambda>k' w. if k' \<in> set ks then window_step k' w (Op_visit env r) (?W k' w) else ?W k' w) =
      (\<lambda>k' w. if k' \<in> set (k # ks) then window_step k' w (Op_visit env r) (W k' w) else W k' w)"
    using Cons.prems(1) by (auto simp: fun_eq_iff)
  moreover note IH [OF _ track_kind_shape [OF Cons.prems(2)] track_kind_tracks [OF Cons.prems(2,3)]]
  ultimately show ?case using Cons.prems(1) by (simp only: fold_simps distinct.simps simp_thms)
qed

lemma item_of_other: "kind \<notin> set (map fst tracking_kinds) \<Longrightarrow> item_of env r kind = None"
  by (simp add: item_of_def tracking_kinds_def)

lemma trackVisitor_tracks:
  assumes "vt_shape c t" and "vc_enabled c" and "vt_tracks cfgs S W t"
  shows "vt_shape c (trackVisitor env r t)
    \<and> vt_tracks cfgs (\<lambda>k. main_step k (Op_visit env r) (S k)) (\<lambda>k w. window_step k w (Op_visit env r) (W k w)) (trackVisitor env r t)"
proof -
  have "(\<lambda>k. if k \<in> set (map fst tracking_kinds) then main_step k (Op_visit env r) (S k) else S k) = (\<lambda>k. main_step k (Op_visit env r) (S k))"
    "(\<lambda>k w. if k \<in> set (map fst tracking_kinds) then window_step k w (Op_visit env r) (W k w) else W k w) =
      (\<lambda>k w. window_step k w (Op_visit env r) (W k w))"
    by (auto simp: fun_eq_iff main_step_def window_step_def item_of_other)
  moreover have "distinct (map fst tracking_kinds)" by (simp add: tracking_kinds_def)
  moreover have "trackVisitor env r t = fold (track_kind env r c) (map fst tracking_kinds) t"
    using trackVisitor_fold [of t] assms(1,2) by (simp add: vt_shape_def)
  ultimately show ?thesis
    using track_kinds_tracks [OF _ assms(1,3), of "map fst tracking_kinds" env r] by simp
qed

lemma vt_clear_look:
  "map_of (vt_hlls (vt_clear t)) k = map_option clear_hll (map_of (vt_hlls t) k)"
  "map_of (vt_windows (vt_clear t)) k = map_option (map (apsnd clear_hll)) (map_of (vt_windows t) k)"
  "vt_config (vt_clear t) = vt_config t" "vt_isInitialized (vt_clear t) = vt_isInitialized t"
  by (simp_all add: vt_clear_def map_of_map_apsnd)

lemma clear_hll_cfg [simp]: "hll_cfg (clear_hll h) = hll_cfg h"
  by (simp add: clear_hll_def)

lemma vt_clear_shape: "vt_shape c t \<Longrightarrow> vt_shape c (vt_clear t)"
  by (auto simp: vt_shape_def vt_clear_look map_of_map_apsnd)

lemma vt_clear_tracks: "vt_tracks cfgs S W t \<Longrightarrow> vt_tracks cfgs (\<lambda>_. {}) (\<lambda>_ _. {}) (vt_clear t)"
  by (auto simp: vt_tracks_def vt_clear_look map_of_map_apsnd) (blast intro: represents_clear)+

lemma count_main_look:
  "map_of (vt_hlls (snd (count_main q now kind t))) k =
     (if k = kind then map_option (\<lambda>h. snd (cardinality q now h)) (map_of (vt_hlls t) k) else map_of (vt_hlls t) k)"
  "vt_windows (snd (count_main q now kind t)) = vt_windows t"
  "vt_config (snd (count_main q now kind t)) = vt_config t" "vt_isInitialized (snd (count_main q now kind t)) = vt_isInitialized t"
  by (auto simp: count_main_def update_conv' split: option.splits prod.splits)

lemma count_window_look:
  assumes "map_of (vt_windows t) kind = Some ws"
  shows "map_of (vt_windows (snd (count_window q now kind w ws t))) k =
      (if k = kind then Some (case map_of ws w of None \<Rightarrow> ws | Some h \<Rightarrow> map_set w (snd (cardinality q now h)) ws) else map_of (vt_windows t) k)"
    "vt_hlls (snd (count_window q now kind w ws t)) = vt_hlls t"
    "vt_config (snd (count_window q now kind w ws t)) = vt_config t"
    "vt_isInitialized (snd (count_window q now kind w ws t)) = vt_isInitialized t"
  using assms by (auto simp: count_window_def update_conv' split: option.splits prod.splits)

lemma count_main_tracks:
  assumes "vt_shape c t" and "vt_tracks cfgs S W t"
  shows "vt_shape c (snd (count_main q now kind t)) \<and> vt_tracks cfgs S W (snd (count_main q now kind t))"
  using assms by (auto simp: vt_shape_def vt_tracks_def count_main_look represents_cardinality)

lemma count_window_tracks:
  assumes "vt_shape c t" and "vt_tracks cfgs S W t" and "map_of (vt_windows t) kind = Some ws"
  shows "vt_shape c (snd (count_window q now kind w ws t)) \<and> vt_tracks cfgs S W (snd (count_window q now kind w ws t))"
proof
  have "kind_on c kind" "\<And>w. map_of ws w = None \<longleftrightarrow> w \<notin> set (vc_timeWindows c)"
    using assms(1,3) unfolding vt_shape_def by (metis option.simps(3), blast)
  then show "vt_shape c (snd (count_window q now kind w ws t))"
    using assms(1,3) by (auto simp: vt_shape_def count_window_look update_conv' split: option.split) (metis option.simps(3))
  show "vt_tracks cfgs S W (snd (count_window q now kind w ws t))"
    using assms(2,3) by (auto simp: vt_tracks_def count_window_look update_conv' represents_cardinality split: option.splits if_splits)
qed

lemma count_tracks:
  assumes "vt_shape c t" and "vt_tracks cfgs S W t"
  shows "vt_shape c (snd (vt_getCardinality q now kind w t)) \<and> vt_tracks cfgs S W (snd (vt_getCardinality q now kind w t))"
  using count_main_tracks [OF assms] count_window_tracks [OF assms]
  by (simp add: vt_getCardinality_def split: option.split)

text \<open>A new tracker has empty objects of the right shape.\<close>

lemma new_windows:
  assumes "initializeTimeWindows now c ws m = Inr m'" and "\<And>h. new_hll now c = Inr h \<Longrightarrow> P h"
    and "\<And>w h. map_of m w = Some h \<Longrightarrow> P h"
  shows "(\<forall>w h. map_of m' w = Some h \<longrightarrow> P h) \<and> (\<forall>w. map_of m' w = None \<longleftrightarrow> map_of m w = None \<and> w \<notin> set ws)"
  using assms
proof (induction ws arbitrary: m)
  case Nil
  then show ?case by auto
next
  case (Cons w ws)
  then obtain h where h: "new_hll now c = Inr h" by (auto split: sum.splits)
  have "(\<forall>w h. map_of m' w = Some h \<longrightarrow> P h) \<and> (\<forall>v. map_of m' v = None \<longleftrightarrow> map_of (map_set w h m) v = None \<and> v \<notin> set ws)"
    using Cons.prems h by (intro Cons.IH) (auto simp: update_conv' split: if_splits)
  then show ?case by (auto simp: update_conv')
qed

definition fresh_shape :: "(string \<Rightarrow> bool) \<Rightarrow> (hll_use_case \<Rightarrow> hll_config) \<Rightarrow> visitor_config \<Rightarrow> visitor_tracker \<Rightarrow> bool" where
  "fresh_shape on cfgs c t \<longleftrightarrow>
     vt_config t = c \<and> vt_tracks cfgs (\<lambda>_. {}) (\<lambda>_ _. {}) t
     \<and> (\<forall>kind. map_of (vt_hlls t) kind = None \<longleftrightarrow> \<not> on kind) \<and> (\<forall>kind. map_of (vt_windows t) kind = None \<longleftrightarrow> \<not> on kind)
     \<and> (\<forall>kind ws w. map_of (vt_windows t) kind = Some ws \<longrightarrow> (map_of ws w = None \<longleftrightarrow> w \<notin> set (vc_timeWindows c)))"

lemma initialize_kind_fresh:
  assumes "initialize_kind now cfgs kind u t = Inr t'" and "fresh_shape on cfgs c t" and "use_of kind = u"
  shows "fresh_shape (on(kind := True)) cfgs c t'"
proof -
  from assms(1,2) obtain h ws where h: "new_hll now (cfgs u) = Inr h"
    and ws: "initializeTimeWindows now (cfgs Hu_general) (vc_timeWindows c) [] = Inr ws"
    and t': "t' = t\<lparr>vt_hlls := map_set kind h (vt_hlls t), vt_windows := map_set kind ws (vt_windows t)\<rparr>"
    by (auto simp: initialize_kind_def fresh_shape_def split: sum.splits)
  have new: "represents h {} \<and> hll_cfg h = cfgs v" if "new_hll now (cfgs v) = Inr h" for h v
    using that represents_new by (auto simp: new_hll_Inr)
  have "(\<forall>w h. map_of ws w = Some h \<longrightarrow> represents h {} \<and> hll_cfg h = cfgs Hu_general)
      \<and> (\<forall>w. map_of ws w = None \<longleftrightarrow> w \<notin> set (vc_timeWindows c))"
    using new_windows [OF ws, where P = "\<lambda>h. represents h {} \<and> hll_cfg h = cfgs Hu_general"] new by simp
  with new [OF h] show ?thesis
    using assms(2,3) t' by (auto simp: fresh_shape_def vt_tracks_def update_conv')
qed

lemma initialize_kinds_fresh:
  assumes "initialize_kinds now cfgs ks t = Inr t'" and "fresh_shape on cfgs c t"
    and "\<forall>(kind, f, u)\<in>set ks. use_of kind = u"
  shows "fresh_shape (\<lambda>kind. on kind \<or> (\<exists>k\<in>set ks. fst k = kind \<and> fst (snd k) c)) cfgs c t'"
  using assms
proof (induction ks arbitrary: t on)
  case Nil
  then show ?case by simp
next
  case (Cons k ks)
  obtain kind f u where k: "k = (kind, f, u)" by (cases k)
  show ?case
  proof (cases "f c")
    case True
    then obtain t1 where t1: "initialize_kind now cfgs kind u t = Inr t1" "initialize_kinds now cfgs ks t1 = Inr t'"
      using Cons.prems(1,2) k by (auto simp: fresh_shape_def split: sum.splits)
    have "(\<lambda>x. (on(kind := True)) x \<or> (\<exists>k\<in>set ks. fst k = x \<and> fst (snd k) c)) =
        (\<lambda>x. on x \<or> (\<exists>k'\<in>set (k # ks). fst k' = x \<and> fst (snd k') c))"
      using True k by (auto simp: fun_eq_iff)
    moreover have "fresh_shape (on(kind := True)) cfgs c t1"
      using initialize_kind_fresh [OF t1(1) Cons.prems(2)] Cons.prems(3) k by simp
    from Cons.IH [OF t1(2) this] have "fresh_shape (\<lambda>x. (on(kind := True)) x \<or> (\<exists>k\<in>set ks. fst k = x \<and> fst (snd k) c)) cfgs c t'"
      using Cons.prems(3) by simp
    ultimately show ?thesis by simp
  next
    case False
    then have "initialize_kinds now cfgs ks t = Inr t'" using Cons.prems(1,2) k by (simp add: fresh_shape_def)
    from Cons.IH [OF this Cons.prems(2)] show ?thesis
      using Cons.prems(3) False k by simp
  qed
qed

lemma new_tracker_tracks:
  assumes "new_visitor_tracker now cfgs c = Inr t"
  shows "vt_shape c t \<and> vt_tracks cfgs (\<lambda>_. {}) (\<lambda>_ _. {}) t"
proof -
  obtain t0 where t0: "initialize_kinds now cfgs tracking_kinds \<lparr>vt_config = c, vt_hlls = [], vt_windows = [], vt_isInitialized = False\<rparr> = Inr t0"
    and t: "t = t0\<lparr>vt_isInitialized := True\<rparr>"
    using assms by (auto simp: new_visitor_tracker_def initializeHLLs_def split: sum.splits)
  have "fresh_shape (\<lambda>kind. False \<or> (\<exists>k\<in>set tracking_kinds. fst k = kind \<and> fst (snd k) c)) cfgs c t0"
    by (rule initialize_kinds_fresh [OF t0]) (auto simp: fresh_shape_def vt_tracks_def tracking_kinds_def use_of_def)
  then show ?thesis using t by (simp add: fresh_shape_def vt_shape_def vt_tracks_def kind_on_def)
qed

lemma vt_step_tracks:
  assumes "vt_shape c t" and "vc_enabled c" and "vt_tracks cfgs S W t"
  shows "vt_shape c (vt_step x t) \<and> vt_tracks cfgs (\<lambda>k. main_step k x (S k)) (\<lambda>k w. window_step k w x (W k w)) (vt_step x t)"
proof (cases x)
  case (Op_visit env r)
  then show ?thesis using trackVisitor_tracks [OF assms] by (simp add: vt_step_def)
next
  case Op_clear
  then show ?thesis
    using vt_clear_shape [OF assms(1)] vt_clear_tracks [OF assms(3)] by (simp add: vt_step_def main_step_def window_step_def)
next
  case (Op_count q now kind w)
  then show ?thesis using count_tracks [OF assms(1,3)] by (simp add: vt_step_def main_step_def window_step_def)
qed

lemma vt_run_tracks:
  assumes "vt_shape c t" and "vc_enabled c" and "vt_tracks cfgs S W t"
  shows "vt_shape c (fold vt_step xs t)
    \<and> vt_tracks cfgs (\<lambda>k. fold (main_step k) xs (S k)) (\<lambda>k w. fold (window_step k w) xs (W k w)) (fold vt_step xs t)"
  using assms
proof (induction xs arbitrary: t S W)
  case (Cons x xs)
  have "vt_shape c (vt_step x t) \<and> vt_tracks cfgs (\<lambda>k. main_step k x (S k)) (\<lambda>k w. window_step k w x (W k w)) (vt_step x t)"
    using Cons.prems by (rule vt_step_tracks)
  from Cons.IH [OF conjunct1 [OF this] Cons.prems(2) conjunct2 [OF this]] show ?case by simp
qed simp

lemma new_tracker_run:
  assumes "new_visitor_tracker now cfgs c = Inr t" and "vc_enabled c"
  shows "vt_shape c (fold vt_step xs t)"
    and "vt_tracks cfgs (\<lambda>k. fold (main_step k) xs {}) (\<lambda>k w. fold (window_step k w) xs {}) (fold vt_step xs t)"
  using vt_run_tracks [OF _ assms(2), of t cfgs "\<lambda>_. {}" "\<lambda>_ _. {}" xs] new_tracker_tracks [OF assms(1)] by auto

lemma count_of_set:
  assumes "represents h X" and "represents h' X" and "hll_cfg h = hll_cfg h'"
  shows "est_count (fst (cardinality q n h)) = est_count (fst (cardinality q n h'))"
  using estimate_of_set [OF assms] by (simp add: cardinality_def Let_def)

lemma reference_count:
  assumes "new_hll now c = Inr h" and "set items = X"
  shows "represents (run_adds (map (\<lambda>i. (js i, 0)) items) h) (js ` X)" and "hll_cfg (run_adds (map (\<lambda>i. (js i, 0)) items) h) = c"
  using represents_run [OF represents_new [OF assms(1)], of "map (\<lambda>i. (js i, 0)) items"] assms
  by (auto simp: image_image new_hll_Inr)

lemma windows_as_main:
  assumes "\<forall>x\<in>set xs. case x of Op_visit env r \<Rightarrow> isWithinTimeWindow (ve_clock env kind w) (visit_stamp env r) w | _ \<Rightarrow> True"
  shows "fold (window_step kind w) xs S = fold (main_step kind) xs S"
  using assms by (induction xs arbitrary: S) (auto simp: window_step_def main_step_def split: vt_op.splits)

section \<open>Properties\<close>

text \<open>
  C32. The tracker implements sets: after any sequence of requests, countings and clearings, the count of a kind that is tracked is that of
  a HyperLogLog of the kind's configuration that holds exactly the items of this kind since the last clearing, each once.
\<close>
theorem visitor_counts:
  assumes "new_visitor_tracker now cfgs c = Inr t" and "vc_enabled c" and "kind_on c kind"
    and "new_hll now0 (cfgs (use_of kind)) = Inr h" and "set items = fold (main_step kind) xs {}"
  shows "\<exists>e t'. vt_getCardinality q n kind None (fold vt_step xs t) = (Some e, t')
     \<and> est_count e = est_count (fst (cardinality q n (run_adds (map (\<lambda>i. (js i, 0)) items) h)))"
proof -
  note run = new_tracker_run [OF assms(1,2), of xs]
  obtain g where g: "map_of (vt_hlls (fold vt_step xs t)) kind = Some g" using run(1) assms(3) by (fastforce simp: vt_shape_def)
  then have "represents g (js ` fold (main_step kind) xs {})" "hll_cfg g = cfgs (use_of kind)" using run(2) by (auto simp: vt_tracks_def)
  from count_of_set [OF this(1) reference_count(1) [OF assms(4,5)]] this(2) reference_count(2) [OF assms(4,5)]
  show ?thesis using g by (auto simp: vt_getCardinality_def window_given_def count_main_def Let_def split_beta)
qed

text \<open>
  A time window never forgets: items are tested against the window only when they are added. If every request was current when it was
  tracked, the count of a window of any length is at every later time that of all items since the last clearing.
\<close>
theorem windows_never_expire:
  assumes "new_visitor_tracker now cfgs c = Inr t" and "vc_enabled c" and "kind_on c kind"
    and "w \<in> set (vc_timeWindows c)" and "num_truthy w"
    and "\<forall>x\<in>set xs. case x of Op_visit env r \<Rightarrow> isWithinTimeWindow (ve_clock env kind w) (visit_stamp env r) w | _ \<Rightarrow> True"
    and "new_hll now0 (cfgs Hu_general) = Inr h" and "set items = fold (main_step kind) xs {}"
  shows "\<exists>e t'. vt_getCardinality q later kind (Some w) (fold vt_step xs t) = (Some e, t')
     \<and> est_count e = est_count (fst (cardinality q later (run_adds (map (\<lambda>i. (js i, 0)) items) h)))"
proof -
  note run = new_tracker_run [OF assms(1,2), of xs]
  obtain ws where ws: "map_of (vt_windows (fold vt_step xs t)) kind = Some ws" using run(1) assms(3) by (fastforce simp: vt_shape_def)
  then obtain g where g: "map_of ws w = Some g" using run(1) assms(4) by (fastforce simp: vt_shape_def)
  have "represents g (js ` fold (window_step kind w) xs {})" "hll_cfg g = cfgs Hu_general"
    using ws g run(2) by (auto simp: vt_tracks_def)
  with count_of_set [OF _ reference_count(1) [OF assms(7,8)], of g] reference_count(2) [OF assms(7,8)]
  show ?thesis using ws g assms(5) windows_as_main [OF assms(6)]
    by (auto simp: vt_getCardinality_def window_given_def count_window_def Let_def split_beta)
qed

text \<open>A kind that is turned on later has no objects, so it is never counted.\<close>

lemma late_kind_ignored:
  assumes "map_of (vt_hlls t) kind = None" and "map_of (vt_windows t) kind = None"
  shows "addToTracking env kind item ts t = t" and "fst (vt_getCardinality q n kind w t) = None"
  using assms by (auto simp: addToTracking_def vt_getCardinality_def count_main_def split: option.splits)

definition demo_visitors :: visitor_config where
  "demo_visitors =
     \<lparr>trackIPs = True, trackSessions = False, trackUserAgents = False, trackGeolocation = False, trackPaths = False,
      vc_timeWindows = [Fin 60000], vc_enabled = True\<rparr>"

definition demo_visit :: "string \<Rightarrow> vt_op" where
  "demo_visit ip =
     Op_visit \<lparr>ve_now = 0, ve_clock = (\<lambda>_ _. 0), ve_elapsed = (\<lambda>_ _. 0), ve_parsed = (\<lambda>_. None)\<rparr>
       \<lparr>vr_ipAddress = Some ip, vr_sessionId = None, vr_userAgent = None, vr_country = None, vr_region = None, vr_city = None,
        vr_path = None, vr_timestamp = None\<rparr>"

lemma demo_tracker: "\<exists>t. new_visitor_tracker 0 (\<lambda>_. hll_small_config) demo_visitors = Inr t"
  using new_hll_small
  by (auto simp: new_visitor_tracker_def initializeHLLs_def tracking_kinds_def demo_visitors_def initialize_kind_def)

lemma demo_main: "fold (main_step ''ips'') [demo_visit ''a'', demo_visit ''b'', demo_visit ''a''] {} = {''a'', ''b''}"
  by (simp add: main_step_def demo_visit_def item_of_def text_given_def insert_commute)

lemma demo_on: "vc_enabled demo_visitors" "kind_on demo_visitors ''ips''" "Fin 60000 \<in> set (vc_timeWindows demo_visitors)"
  by (simp_all add: demo_visitors_def)

theorem visitor_counts_witness:
  "\<exists>t h e t'. new_visitor_tracker 0 (\<lambda>_. hll_small_config) demo_visitors = Inr t \<and> new_hll 0 hll_small_config = Inr h
     \<and> vt_getCardinality 0 0 ''ips'' None (fold vt_step [demo_visit ''a'', demo_visit ''b'', demo_visit ''a''] t) = (Some e, t')
     \<and> est_count e = est_count (fst (cardinality 0 0 (run_adds (map (\<lambda>i. (js i, 0)) [''a'', ''b'']) h)))"
proof -
  obtain t where t: "new_visitor_tracker 0 (\<lambda>_. hll_small_config) demo_visitors = Inr t" using demo_tracker ..
  obtain h where h: "new_hll 0 hll_small_config = Inr h" using new_hll_small ..
  have items: "set [''a'', ''b''] = fold (main_step ''ips'') [demo_visit ''a'', demo_visit ''b'', demo_visit ''a''] {}"
    unfolding demo_main by simp
  from visitor_counts [OF t demo_on(1,2) h items, of 0 0] show ?thesis using t h by blast
qed

theorem windows_never_expire_witness:
  "\<exists>t h e t'. new_visitor_tracker 0 (\<lambda>_. hll_small_config) demo_visitors = Inr t \<and> new_hll 0 hll_small_config = Inr h
     \<and> vt_getCardinality 0 86400000 ''ips'' (Some (Fin 60000)) (fold vt_step [demo_visit ''a'', demo_visit ''b'', demo_visit ''a''] t) = (Some e, t')
     \<and> est_count e = est_count (fst (cardinality 0 86400000 (run_adds (map (\<lambda>i. (js i, 0)) [''a'', ''b'']) h)))"
proof -
  obtain t where t: "new_visitor_tracker 0 (\<lambda>_. hll_small_config) demo_visitors = Inr t" using demo_tracker ..
  obtain h where h: "new_hll 0 hll_small_config = Inr h" using new_hll_small ..
  have items: "set [''a'', ''b''] = fold (main_step ''ips'') [demo_visit ''a'', demo_visit ''b'', demo_visit ''a''] {}"
    unfolding demo_main by simp
  have current: "\<forall>x\<in>set [demo_visit ''a'', demo_visit ''b'', demo_visit ''a''].
      case x of Op_visit env r \<Rightarrow> isWithinTimeWindow (ve_clock env ''ips'' (Fin 60000)) (visit_stamp env r) (Fin 60000) | _ \<Rightarrow> True"
    by (simp add: demo_visit_def visit_stamp_def)
  have "num_truthy (Fin 60000)" by simp
  from windows_never_expire [OF t demo_on this current h items, of 0 86400000] show ?thesis using t h by blast
qed

end
