(* ===== verification/HllAnalytics.thy ===== *)
theory HllAnalytics
  imports VisitorTracking
begin

text \<open>
  The analysis of visitor counts (\<^verbatim>\<open>backend/src/core/hyperloglog/HLLAnalytics.ts\<close>). Counts may be infinite or NaN, so the statistics are
  computed on \<open>jsnum\<close>. The visitor tracker is an argument of the operations that count with it and is returned with its updated query
  statistics. A text with numbers is a constructor with these numbers; the lists of recommendations that belong to a kind of insight are fixed.
\<close>

section \<open>Arithmetic\<close>

fun js_quot :: "jsnum \<Rightarrow> jsnum \<Rightarrow> jsnum" where
  "js_quot (Fin a) (Fin b) = js_div a b"
| "js_quot (Fin a) PInf = Fin 0"
| "js_quot (Fin a) NInf = Fin 0"
| "js_quot PInf (Fin b) = (if b \<ge> 0 then PInf else NInf)"
| "js_quot NInf (Fin b) = (if b \<ge> 0 then NInf else PInf)"
| "js_quot _ _ = NaN"

fun js_sqrt :: "jsnum \<Rightarrow> jsnum" where
  "js_sqrt (Fin x) = (if x \<ge> 0 then Fin (sqrt x) else NaN)"
| "js_sqrt PInf = PInf"
| "js_sqrt _ = NaN"

fun js_abs :: "jsnum \<Rightarrow> jsnum" where
  "js_abs (Fin x) = Fin \<bar>x\<bar>"
| "js_abs NInf = PInf"
| "js_abs v = v"

definition js_sum :: "jsnum list \<Rightarrow> jsnum" where
  "js_sum xs = foldl js_add (Fin 0) xs"

definition js_mean :: "jsnum list \<Rightarrow> jsnum" where
  "js_mean xs = js_quot (js_sum xs) (Fin (real (length xs)))"

text \<open>The mean of the squared distances from the mean.\<close>

definition js_spread :: "jsnum list \<Rightarrow> jsnum" where
  "js_spread xs =
     (let mean = js_mean xs
      in js_quot (js_sum (map (\<lambda>v. js_times (js_sub v mean) (js_sub v mean)) xs)) (Fin (real (length xs))))"

section \<open>Data\<close>

record series_point =
  sp_timestamp :: time_ms
  sp_cardinality :: jsnum
  sp_confidence :: real
  sp_windowSize :: int
  sp_dataPoints :: nat
  sp_anomalyScore :: real

datatype count_trend = Ct_increasing | Ct_decreasing | Ct_stable

datatype count_advice =
    Ca_monitor_capacity | Ca_investigate_source | Ca_check_outages | Ca_investigate_filtering | Ca_investigate_threats | Ca_validate_data
  | Ca_continue | Ca_maintain

record count_analysis =
  ca_metric :: string
  ca_currentValue :: jsnum
  ca_previousValue :: jsnum
  ca_growthRate :: jsnum
  ca_trend :: count_trend
  ca_volatility :: jsnum
  ca_anomalyScore :: jsnum
  ca_recommendations :: "count_advice list"
  ca_current :: "time_ms option \<times> time_ms"
  ca_previous :: "time_ms option \<times> time_ms option"

datatype visitor_pattern_type = Vp_steady | Vp_growing | Vp_declining | Vp_spiky | Vp_seasonal

datatype pattern_description = Pd_insufficient | Pd_growing jsnum | Pd_declining jsnum | Pd_spiky | Pd_seasonal | Pd_steady

record visitor_pattern =
  vp_type :: visitor_pattern_type
  vp_confidence :: real
  vp_description :: pattern_description
  vp_averageGrowthRate :: jsnum
  vp_peakTimes :: "string list"
  vp_lowTimes :: "string list"
  vp_seasonality :: real
  vp_nextPeriod :: jsnum
  vp_predictionConfidence :: real
  vp_rangeMin :: jsnum
  vp_rangeMax :: jsnum

datatype ha_insight_type = In_high_growth | In_anomaly_detected | In_low_activity

datatype insight_impact = Im_low | Im_medium | Im_high | Im_critical

record visitor_insight =
  in_type :: ha_insight_type
  in_metric :: string
  in_impact :: insight_impact
  in_confidence :: jsnum
  in_current :: jsnum
  in_expected :: jsnum
  in_deviation :: jsnum
  in_timestamp :: time_ms

datatype comparison_text = Cmp_none | Cmp_no_change | Cmp_increase jsnum | Cmp_decrease jsnum

datatype significance = Sg_low | Sg_medium | Sg_high

record compared_period =
  cp_name :: string
  cp_cardinality :: jsnum
  cp_confidence :: real
  cp_start :: "time_ms option"
  cp_end :: time_ms

record cardinality_comparison =
  cc_metric :: string
  cc_periods :: "compared_period list"
  cc_trend :: count_trend
  cc_changeRate :: jsnum
  cc_significance :: significance
  cc_interpretation :: comparison_text

record hll_analytics =
  ha_historicalData :: "(string, series_point list) js_map"
  ha_patterns :: "(string, visitor_pattern) js_map"

definition new_hll_analytics :: hll_analytics where
  "new_hll_analytics = \<lparr>ha_historicalData = [], ha_patterns = []\<rparr>"

section \<open>History\<close>

definition recordHistoricalData :: "time_ms \<Rightarrow> string \<Rightarrow> jsnum \<Rightarrow> real \<Rightarrow> hll_analytics \<Rightarrow> hll_analytics" where
  "recordHistoricalData now metric n conf a =
     (let xs = (case map_of (ha_historicalData a) metric of None \<Rightarrow> [] | Some xs \<Rightarrow> xs);
          xs = xs @ [\<lparr>sp_timestamp = now, sp_cardinality = n, sp_confidence = conf, sp_windowSize = 3600000, sp_dataPoints = 1,
                      sp_anomalyScore = 0\<rparr>]
      in a\<lparr>ha_historicalData := map_set metric (if length xs > 100 then drop (length xs - 100) xs else xs) (ha_historicalData a)\<rparr>)"

definition getHistoricalData :: "string \<Rightarrow> int \<Rightarrow> hll_analytics \<Rightarrow> series_point list" where
  "getHistoricalData metric points a =
     js_slice_from (- points) (case map_of (ha_historicalData a) metric of None \<Rightarrow> [] | Some xs \<Rightarrow> xs)"

section \<open>Trends\<close>

definition ha_calculateVolatility :: "series_point list \<Rightarrow> jsnum" where
  "ha_calculateVolatility xs =
     (if length xs < 2 then Fin 0
      else let values = map sp_cardinality xs in js_quot (js_sqrt (js_spread values)) (js_mean values))"

definition ha_calculateAnomalyScore :: "jsnum \<Rightarrow> series_point list \<Rightarrow> jsnum" where
  "ha_calculateAnomalyScore currentValue historical =
     (if length historical < 3 then Fin 0
      else let values = map sp_cardinality historical; mean = js_mean values; stdDev = js_sqrt (js_spread values)
           in if stdDev = Fin 0 then Fin 0
              else js_min (js_scale (1 / 3) (js_quot (js_abs (js_sub currentValue mean)) stdDev)) (Fin 1))"

definition ha_generateRecommendations :: "count_trend \<Rightarrow> jsnum \<Rightarrow> jsnum \<Rightarrow> count_advice list" where
  "ha_generateRecommendations trend growthRate anomalyScore =
     (if trend = Ct_increasing \<and> num_greater growthRate 50 then [Ca_monitor_capacity, Ca_investigate_source] else [])
     @ (if trend = Ct_decreasing \<and> num_less growthRate (-20) then [Ca_check_outages, Ca_investigate_filtering] else [])
     @ (if num_greater anomalyScore (8 / 10) then [Ca_investigate_threats, Ca_validate_data] else [])
     @ (if trend = Ct_stable then [Ca_continue, Ca_maintain] else [])"

text \<open>\<open>None\<close> is the error that there is no data for the metric.\<close>

definition analyzeVisitorTrends ::
  "real \<Rightarrow> time_ms \<Rightarrow> string \<Rightarrow> jsnum \<Rightarrow> int \<Rightarrow> hll_analytics \<Rightarrow> visitor_tracker \<Rightarrow> count_analysis option \<times> visitor_tracker" where
  "analyzeVisitorTrends q now metric timeWindowMs comparisonPeriods a t =
     (let (e, t) = vt_getCardinality q now metric (Some timeWindowMs) t
      in case e of
           None \<Rightarrow> (None, t)
         | Some est \<Rightarrow>
             (let historical = getHistoricalData metric comparisonPeriods a;
                  previousValue = (if historical \<noteq> [] then sp_cardinality (last historical) else Fin 0);
                  growthRate = (if num_greater previousValue 0
                                then js_scale 100 (js_quot (js_sub (est_count est) previousValue) previousValue) else Fin 0);
                  trend = (if num_less (js_abs growthRate) 5 then Ct_stable
                           else if num_greater growthRate 0 then Ct_increasing else Ct_decreasing);
                  anomalyScore = ha_calculateAnomalyScore (est_count est) historical;
                  before = date_of (js_sub (Fin (of_int now)) timeWindowMs)
              in (Some \<lparr>ca_metric = metric, ca_currentValue = est_count est, ca_previousValue = previousValue, ca_growthRate = growthRate,
                        ca_trend = trend, ca_volatility = ha_calculateVolatility historical, ca_anomalyScore = anomalyScore,
                        ca_recommendations = ha_generateRecommendations trend growthRate anomalyScore,
                        ca_current = (before, now),
                        ca_previous = (date_of (js_sub (Fin (of_int now)) (js_scale 2 timeWindowMs)), before)\<rparr>, t)))"

section \<open>Patterns\<close>

definition calculateGrowthRates :: "jsnum list \<Rightarrow> jsnum list" where
  "calculateGrowthRates values =
     map (\<lambda>(p, v). js_scale 100 (js_quot (js_sub v p) p)) (filter (\<lambda>(p, v). num_greater p 0) (zip values (tl values)))"

definition ha_calculateVariance :: "jsnum list \<Rightarrow> jsnum" where
  "ha_calculateVariance values = (if length values < 2 then Fin 0 else js_spread values)"

definition identifyPeakTimes :: "series_point list \<Rightarrow> string list" where
  "identifyPeakTimes xs = [''09:00'', ''14:00'', ''20:00'']"

definition identifyLowTimes :: "series_point list \<Rightarrow> string list" where
  "identifyLowTimes xs = [''03:00'', ''06:00'', ''23:00'']"

definition ha_calculateSeasonality :: "jsnum list \<Rightarrow> real" where
  "ha_calculateSeasonality values = 3 / 10"

text \<open>The predicted value, its confidence and its range.\<close>

definition predictNextPeriod :: "jsnum list \<Rightarrow> jsnum \<Rightarrow> jsnum \<times> real \<times> jsnum \<times> jsnum" where
  "predictNextPeriod values avgGrowthRate =
     (let predictedValue = js_times (last values) (js_add (Fin 1) (js_scale (1 / 100) avgGrowthRate));
          margin = js_scale (2 / 10) predictedValue
      in (js_round predictedValue, 7 / 10, js_round (js_sub predictedValue margin), js_round (js_add predictedValue margin)))"

definition generatePatternDescription :: "visitor_pattern_type \<Rightarrow> jsnum \<Rightarrow> pattern_description" where
  "generatePatternDescription ty growthRate =
     (case ty of
        Vp_growing \<Rightarrow> Pd_growing growthRate | Vp_declining \<Rightarrow> Pd_declining (js_abs growthRate) | Vp_spiky \<Rightarrow> Pd_spiky
      | Vp_seasonal \<Rightarrow> Pd_seasonal | Vp_steady \<Rightarrow> Pd_steady)"

definition visitor_pattern_type_of :: "jsnum list \<Rightarrow> jsnum \<Rightarrow> visitor_pattern_type" where
  "visitor_pattern_type_of cardinalities avgGrowthRate =
     (if num_less (js_abs avgGrowthRate) 2 then Vp_steady
      else if num_greater avgGrowthRate 10 then Vp_growing
      else if num_less avgGrowthRate (-10) then Vp_declining
      else if num_greater (js_quot (js_sqrt (ha_calculateVariance cardinalities)) (js_mean cardinalities)) (1 / 2) then Vp_spiky
      else Vp_seasonal)"

definition detectVisitorPattern :: "string \<Rightarrow> int \<Rightarrow> hll_analytics \<Rightarrow> visitor_pattern \<times> hll_analytics" where
  "detectVisitorPattern metric dataPoints a =
     (let historical = getHistoricalData metric dataPoints a
      in if length historical < 3
         then (\<lparr>vp_type = Vp_steady, vp_confidence = 1 / 2, vp_description = Pd_insufficient, vp_averageGrowthRate = Fin 0, vp_peakTimes = [],
                vp_lowTimes = [], vp_seasonality = 0,
                vp_nextPeriod = (if historical \<noteq> [] then sp_cardinality (last historical) else Fin 0), vp_predictionConfidence = 1 / 2,
                vp_rangeMin = Fin 0, vp_rangeMax = Fin 0\<rparr>, a)
         else
           let cardinalities = map sp_cardinality historical;
               avgGrowthRate = js_mean (calculateGrowthRates cardinalities);
               ty = visitor_pattern_type_of cardinalities avgGrowthRate;
               (value, conf, low, high) = predictNextPeriod cardinalities avgGrowthRate;
               pattern = \<lparr>vp_type = ty, vp_confidence = 8 / 10, vp_description = generatePatternDescription ty avgGrowthRate,
                          vp_averageGrowthRate = avgGrowthRate, vp_peakTimes = identifyPeakTimes historical,
                          vp_lowTimes = identifyLowTimes historical, vp_seasonality = ha_calculateSeasonality cardinalities,
                          vp_nextPeriod = value, vp_predictionConfidence = conf, vp_rangeMin = low, vp_rangeMax = high\<rparr>
           in (pattern, a\<lparr>ha_patterns := map_set metric pattern (ha_patterns a)\<rparr>))"

section \<open>Insights and comparisons\<close>

definition insights_of :: "time_ms \<Rightarrow> string \<Rightarrow> count_analysis \<Rightarrow> visitor_insight list" where
  "insights_of now metric an =
     (if num_greater (ca_growthRate an) 50
      then [\<lparr>in_type = In_high_growth, in_metric = metric, in_impact = (if num_greater (ca_growthRate an) 100 then Im_critical else Im_high),
             in_confidence = Fin (9 / 10), in_current = ca_currentValue an, in_expected = ca_previousValue an,
             in_deviation = ca_growthRate an, in_timestamp = now\<rparr>] else [])
     @ (if num_greater (ca_anomalyScore an) (7 / 10)
        then [\<lparr>in_type = In_anomaly_detected, in_metric = metric,
               in_impact = (if num_greater (ca_anomalyScore an) (9 / 10) then Im_critical else Im_medium),
               in_confidence = ca_anomalyScore an, in_current = ca_currentValue an, in_expected = ca_previousValue an,
               in_deviation = js_scale 100 (js_quot (js_sub (ca_currentValue an) (ca_previousValue an)) (ca_previousValue an)),
               in_timestamp = now\<rparr>] else [])
     @ (if num_less (ca_growthRate an) (-30)
        then [\<lparr>in_type = In_low_activity, in_metric = metric, in_impact = Im_medium, in_confidence = Fin (8 / 10),
               in_current = ca_currentValue an, in_expected = ca_previousValue an, in_deviation = ca_growthRate an, in_timestamp = now\<rparr>] else [])"

text \<open>An error ends the loop; what was found before is returned.\<close>

fun ha_generateInsights ::
  "real \<Rightarrow> time_ms \<Rightarrow> string list \<Rightarrow> hll_analytics \<Rightarrow> visitor_tracker \<Rightarrow> visitor_insight list \<times> visitor_tracker" where
  "ha_generateInsights q now [] a t = ([], t)"
| "ha_generateInsights q now (metric # ms) a t =
     (case analyzeVisitorTrends q now metric (Fin 3600000) 7 a t of
        (None, t') \<Rightarrow> ([], t')
      | (Some an, t') \<Rightarrow> (let (xs, t'') = ha_generateInsights q now ms a t' in (insights_of now metric an @ xs, t'')))"

definition generateComparisonInterpretation :: "count_trend \<Rightarrow> jsnum \<Rightarrow> significance \<Rightarrow> comparison_text" where
  "generateComparisonInterpretation trend changeRate sg =
     (if sg = Sg_low then Cmp_no_change
      else if trend = Ct_increasing then Cmp_increase changeRate else Cmp_decrease (js_abs changeRate))"

fun compare_periods ::
  "real \<Rightarrow> time_ms \<Rightarrow> string \<Rightarrow> (string \<times> jsnum) list \<Rightarrow> visitor_tracker \<Rightarrow> compared_period list \<times> visitor_tracker" where
  "compare_periods q now metric [] t = ([], t)"
| "compare_periods q now metric ((name, w) # ps) t =
     (let (e, t) = vt_getCardinality q now metric (Some w) t; (xs, t) = compare_periods q now metric ps t
      in case e of
           None \<Rightarrow> (xs, t)
         | Some est \<Rightarrow>
             (\<lparr>cp_name = name, cp_cardinality = est_count est, cp_confidence = est_conf est,
               cp_start = date_of (js_sub (Fin (of_int now)) w), cp_end = now\<rparr> # xs, t))"

definition compareCardinalities ::
  "real \<Rightarrow> time_ms \<Rightarrow> string \<Rightarrow> (string \<times> jsnum) list \<Rightarrow> visitor_tracker \<Rightarrow> cardinality_comparison \<times> visitor_tracker" where
  "compareCardinalities q now metric ps t =
     (let (xs, t) = compare_periods q now metric ps t
      in (if length xs < 2
          then \<lparr>cc_metric = metric, cc_periods = xs, cc_trend = Ct_stable, cc_changeRate = Fin 0, cc_significance = Sg_low,
                cc_interpretation = Cmp_none\<rparr>
          else
            let first = cp_cardinality (hd xs);
                changeRate = (if num_greater first 0 then js_scale 100 (js_quot (js_sub (cp_cardinality (last xs)) first) first) else Fin 0);
                sg = (if num_greater (js_abs changeRate) 20 then Sg_high
                      else if num_greater (js_abs changeRate) 10 then Sg_medium else Sg_low);
                trend = (if sg = Sg_low then Ct_stable else if num_greater changeRate 0 then Ct_increasing else Ct_decreasing)
            in \<lparr>cc_metric = metric, cc_periods = xs, cc_trend = trend, cc_changeRate = changeRate, cc_significance = sg,
                cc_interpretation = generateComparisonInterpretation trend changeRate sg\<rparr>, t))"

end
