(* ===== verification/HllManagement.thy ===== *)
theory HllManagement
  imports HllAnalytics
begin

text \<open>
  The HyperLogLog manager (\<^verbatim>\<open>backend/src/services/HyperLogLogManager.ts\<close>): it builds the visitor trackers of its configuration, sends every
  request to each of them, combines their counts and asks the analysis for insights. The analysis works on the first tracker, which is
  named here, since both refer to the same object. A manager is initialised once. Clock readings, the durations of counting and the replies
  of Redis are arguments; what is written to Redis is returned.
\<close>

section \<open>State\<close>

record hll_performance =
  hp_adds :: real
  hp_queries :: real
  hp_addLatency :: "real \<times> real \<times> real"
  hp_queryLatency :: "real \<times> real \<times> real"
  hp_estimatedError :: real
  hp_biasCorrection :: bool
  hp_sparseEfficiency :: real
  hp_totalUsage :: nat
  hp_perHLL :: real
  hp_sparseRatio :: real
  hp_compressionRatio :: real

datatype hll_task = Hk_persist | Hk_cleanup | Hk_metrics

record hll_manager =
  hg_config :: hll_manager_config
  hg_trackers :: "(string, visitor_tracker) js_map"
  hg_analytics :: "(string \<times> hll_analytics) option"
  hg_persistenceTimer :: "nat option"
  hg_cleanupTimer :: "nat option"
  hg_metricsTimer :: "nat option"
  hg_nextTimer :: nat
  hg_running :: "(nat \<times> hll_task) list"
  hg_performance :: hll_performance
  hg_isInitialized :: bool
  hg_lastPersistenceTime :: time_ms
  hg_lastCleanupTime :: time_ms

datatype hll_manager_error = Hm_not_initialized | Hm_tracker hll_error

datatype hll_write = Write_config hll_manager_config | Write_metrics hll_performance

definition hg_initializePerformanceMetrics :: hll_performance where
  "hg_initializePerformanceMetrics =
     \<lparr>hp_adds = 0, hp_queries = 0, hp_addLatency = (0, 0, 0), hp_queryLatency = (0, 0, 0), hp_estimatedError = 2 / 100,
      hp_biasCorrection = True, hp_sparseEfficiency = 8 / 10, hp_totalUsage = 0, hp_perHLL = 0, hp_sparseRatio = 7 / 10,
      hp_compressionRatio = 100\<rparr>"

text \<open>\<open>c\<close> is the configuration after the caller's changes; \<open>now\<close> are the two clock readings of the constructor.\<close>

definition new_hll_manager :: "hll_manager_config \<Rightarrow> time_ms \<times> time_ms \<Rightarrow> hll_manager" where
  "new_hll_manager c now =
     \<lparr>hg_config = c, hg_trackers = [], hg_analytics = None, hg_persistenceTimer = None, hg_cleanupTimer = None, hg_metricsTimer = None,
      hg_nextTimer = 0, hg_running = [], hg_performance = hg_initializePerformanceMetrics, hg_isInitialized = False,
      hg_lastPersistenceTime = fst now, hg_lastCleanupTime = snd now\<rparr>"

section \<open>Timers\<close>

definition hg_setInterval :: "hll_task \<Rightarrow> hll_manager \<Rightarrow> nat \<times> hll_manager" where
  "hg_setInterval task m = (hg_nextTimer m, m\<lparr>hg_nextTimer := hg_nextTimer m + 1, hg_running := hg_running m @ [(hg_nextTimer m, task)]\<rparr>)"

definition hg_clearTimer :: "nat option \<Rightarrow> hll_manager \<Rightarrow> hll_manager" where
  "hg_clearTimer handle m =
     (case handle of None \<Rightarrow> m | Some t \<Rightarrow> m\<lparr>hg_running := filter (\<lambda>r. fst r \<noteq> t) (hg_running m)\<rparr>)"

definition hg_startPeriodicTasks :: "hll_manager \<Rightarrow> hll_manager" where
  "hg_startPeriodicTasks m =
     (let m = (if num_greater (hm_persistenceInterval (hg_config m)) 0
               then (let (t, m) = hg_setInterval Hk_persist m in m\<lparr>hg_persistenceTimer := Some t\<rparr>) else m);
          m = (if num_greater (hm_cleanupInterval (hg_config m)) 0
               then (let (t, m) = hg_setInterval Hk_cleanup m in m\<lparr>hg_cleanupTimer := Some t\<rparr>) else m)
      in if hm_enableMetrics (hg_config m)
         then (let (t, m) = hg_setInterval Hk_metrics m in m\<lparr>hg_metricsTimer := Some t\<rparr>) else m)"

definition hg_updateConfiguration :: "(hll_manager_config \<Rightarrow> hll_manager_config) \<Rightarrow> hll_manager \<Rightarrow> hll_manager" where
  "hg_updateConfiguration change m =
     (let m = m\<lparr>hg_config := change (hg_config m)\<rparr>;
          m = hg_clearTimer (hg_persistenceTimer m) m;
          m = hg_clearTimer (hg_cleanupTimer m) m
      in hg_startPeriodicTasks m)"

section \<open>Initialisation\<close>

fun build_trackers ::
  "time_ms \<Rightarrow> (hll_use_case \<Rightarrow> hll_config) \<Rightarrow> hll_tracker_config list \<Rightarrow> (string, visitor_tracker) js_map
     \<Rightarrow> hll_error + (string, visitor_tracker) js_map" where
  "build_trackers now cfgs [] ts = Inr ts"
| "build_trackers now cfgs (c # cs) ts =
     (if ht_enabled c
      then case new_visitor_tracker now cfgs (ht_visitorConfig c) of
             Inl e \<Rightarrow> Inl e
           | Inr t \<Rightarrow> build_trackers now cfgs cs (map_set (ht_name c) t ts)
      else build_trackers now cfgs cs ts)"

text \<open>
  \<open>saved\<close> is what the text stored in Redis changes in the measurements when it is parsed and spread over them; \<open>None\<close> when there is no
  such text or an error is raised.
\<close>

definition hg_loadFromPersistence :: "(hll_performance \<Rightarrow> hll_performance) option \<Rightarrow> hll_manager \<Rightarrow> hll_manager" where
  "hg_loadFromPersistence saved m =
     (case saved of None \<Rightarrow> m | Some change \<Rightarrow> m\<lparr>hg_performance := change (hg_performance m)\<rparr>)"

definition hg_initialize ::
  "time_ms \<Rightarrow> (hll_use_case \<Rightarrow> hll_config) \<Rightarrow> (hll_performance \<Rightarrow> hll_performance) option \<Rightarrow> hll_manager \<Rightarrow> hll_manager_error + hll_manager" where
  "hg_initialize now cfgs saved m =
     (case build_trackers now cfgs (hm_trackers (hg_config m)) (hg_trackers m) of
        Inl e \<Rightarrow> Inl (Hm_tracker e)
      | Inr ts \<Rightarrow>
          (let m = m\<lparr>hg_trackers := ts\<rparr>;
               m = (if hm_enableAnalytics (hg_config m) \<and> ts \<noteq> [] then m\<lparr>hg_analytics := Some (fst (hd ts), new_hll_analytics)\<rparr> else m);
               m = hg_startPeriodicTasks (hg_loadFromPersistence saved m)
           in Inr (m\<lparr>hg_isInitialized := True\<rparr>)))"

section \<open>Counting\<close>

definition aggregate_step :: "visitor_metrics \<Rightarrow> visitor_metrics \<Rightarrow> visitor_metrics" where
  "aggregate_step r m =
     r\<lparr>vm_total := js_max (vm_total r) (vm_total m), vm_ips := js_max (vm_ips r) (vm_ips m),
       vm_sessions := js_max (vm_sessions r) (vm_sessions m), vm_userAgents := js_max (vm_userAgents r) (vm_userAgents m),
       vm_locations := js_max (vm_locations r) (vm_locations m), vm_paths := js_max (vm_paths r) (vm_paths m),
       vm_confidence := max (vm_confidence r) (vm_confidence m), vm_growthRate := (vm_growthRate r + vm_growthRate m) / 2\<rparr>"

fun aggregate_trackers ::
  "real \<Rightarrow> time_ms \<Rightarrow> jsnum option \<Rightarrow> (string, visitor_tracker) js_map \<Rightarrow> visitor_metrics
     \<Rightarrow> visitor_metrics \<times> (string, visitor_tracker) js_map" where
  "aggregate_trackers q now w [] r = (r, [])"
| "aggregate_trackers q now w ((name, t) # ts) r =
     (let (m, t') = getVisitorMetrics q now w t; (r', ts') = aggregate_trackers q now w ts (aggregate_step r m) in (r', (name, t') # ts'))"

definition getAggregatedMetrics :: "real \<Rightarrow> time_ms \<Rightarrow> jsnum option \<Rightarrow> hll_manager \<Rightarrow> visitor_metrics \<times> hll_manager" where
  "getAggregatedMetrics q now w m =
     (let (r, ts) = aggregate_trackers q now w (hg_trackers m) (empty_metrics now w) in (r, m\<lparr>hg_trackers := ts\<rparr>))"

definition hg_getTotalMemoryUsage :: "hll_manager \<Rightarrow> nat" where
  "hg_getTotalMemoryUsage m = sum_list (map (\<lambda>(_, t). vt_getMemoryUsage t) (hg_trackers m))"

definition hg_isMemoryUsageHealthy :: "hll_manager \<Rightarrow> bool" where
  "hg_isMemoryUsageHealthy m \<longleftrightarrow> js_ge (hm_maxMemoryUsage (hg_config m)) (real (hg_getTotalMemoryUsage m))"

definition hg_updatePerformanceMetrics :: "real \<Rightarrow> hll_manager \<Rightarrow> hll_manager" where
  "hg_updatePerformanceMetrics processingTime m =
     m\<lparr>hg_performance :=
         (hg_performance m)\<lparr>hp_addLatency := (processingTime, snd (hp_addLatency (hg_performance m))), hp_totalUsage := hg_getTotalMemoryUsage m\<rparr>\<rparr>"

record hll_outcome =
  ho_processed :: bool
  ho_trackersUsed :: "string list"
  ho_metrics :: visitor_metrics
  ho_insights :: "visitor_insight list option"

text \<open>\<open>envs name\<close> are the readings of the tracker \<open>name\<close>. Nothing in the body raises an error.\<close>

definition run_analytics ::
  "(hll_analytics \<Rightarrow> visitor_tracker \<Rightarrow> 'r \<times> visitor_tracker) \<Rightarrow> hll_manager \<Rightarrow> 'r option \<times> hll_manager" where
  "run_analytics f m =
     (case hg_analytics m of
        None \<Rightarrow> (None, m)
      | Some (primary, a) \<Rightarrow>
          (case map_of (hg_trackers m) primary of
             None \<Rightarrow> (None, m)
           | Some t \<Rightarrow> (let (r, t') = f a t in (Some r, m\<lparr>hg_trackers := map_set primary t' (hg_trackers m)\<rparr>))))"

definition hg_processRequest ::
  "(string \<Rightarrow> visit_env) \<Rightarrow> real \<Rightarrow> time_ms \<Rightarrow> real \<Rightarrow> visitor_request \<Rightarrow> hll_manager \<Rightarrow> hll_manager_error + (hll_outcome \<times> hll_manager)" where
  "hg_processRequest envs q now processingTime r m =
     (if \<not> hg_isInitialized m then Inl Hm_not_initialized
      else
        let m = m\<lparr>hg_trackers := map (\<lambda>(name, t). (name, trackVisitor (envs name) r t)) (hg_trackers m)\<rparr>;
            used = map fst (hg_trackers m);
            (metrics, m) = getAggregatedMetrics q now None m;
            (insights, m) = (if hm_enableAnalytics (hg_config m) then run_analytics (ha_generateInsights q now [''ips'', ''sessions'']) m
                             else (None, m))
        in Inr (\<lparr>ho_processed = True, ho_trackersUsed = used, ho_metrics = metrics, ho_insights = insights\<rparr>,
                hg_updatePerformanceMetrics processingTime m))"

definition hg_getAnalytics :: "real \<Rightarrow> time_ms \<Rightarrow> string \<Rightarrow> jsnum \<Rightarrow> hll_manager \<Rightarrow> count_analysis option \<times> hll_manager" where
  "hg_getAnalytics q now metric w m =
     (let (r, m) = run_analytics (analyzeVisitorTrends q now metric w 7) m
      in (case r of None \<Rightarrow> None | Some an \<Rightarrow> an, m))"

section \<open>Periodic tasks\<close>

text \<open>\<open>stored\<close> tells of each of the two writes whether Redis accepts it; a refused write ends the task.\<close>

definition persistToPersistence :: "bool \<times> bool \<Rightarrow> real \<Rightarrow> time_ms \<Rightarrow> hll_manager \<Rightarrow> hll_write list \<times> hll_manager" where
  "persistToPersistence stored q now m =
     (if \<not> fst stored then ([], m)
      else if \<not> snd stored then ([Write_config (hg_config m)], m)
      else
        let writes = [Write_config (hg_config m), Write_metrics (hg_performance m)];
            m = (case hg_analytics m of
                   None \<Rightarrow> m
                 | Some (primary, a) \<Rightarrow>
                     (let (r, m) = getAggregatedMetrics q now (Some (Fin 3600000)) m;
                          a = recordHistoricalData now ''total_visitors'' (vm_total r) (95 / 100) a;
                          a = recordHistoricalData now ''unique_ips'' (vm_ips r) (95 / 100) a;
                          a = recordHistoricalData now ''unique_sessions'' (vm_sessions r) (95 / 100) a
                      in m\<lparr>hg_analytics := Some (primary, a)\<rparr>))
        in (writes, m\<lparr>hg_lastPersistenceTime := now\<rparr>))"

definition hg_clear_trackers :: "hll_manager \<Rightarrow> hll_manager" where
  "hg_clear_trackers m = m\<lparr>hg_trackers := map (\<lambda>(name, t). (name, vt_clear t)) (hg_trackers m)\<rparr>"

definition hg_performCleanup :: "time_ms \<Rightarrow> hll_manager \<Rightarrow> hll_manager" where
  "hg_performCleanup now m =
     (let m = (if hg_isMemoryUsageHealthy m then m else hg_clear_trackers m) in m\<lparr>hg_lastCleanupTime := now\<rparr>)"

definition hg_collectMetrics :: "hll_manager \<Rightarrow> hll_manager" where
  "hg_collectMetrics m =
     (let usage = hg_getTotalMemoryUsage m
      in m\<lparr>hg_performance :=
             (hg_performance m)\<lparr>hp_totalUsage := usage, hp_perHLL := real usage / real (max (length (hg_trackers m)) 1)\<rparr>\<rparr>)"

definition hg_shutdown :: "bool \<times> bool \<Rightarrow> real \<Rightarrow> time_ms \<Rightarrow> hll_manager \<Rightarrow> hll_write list \<times> hll_manager" where
  "hg_shutdown stored q now m =
     (let m = hg_clearTimer (hg_persistenceTimer m) m;
          m = hg_clearTimer (hg_cleanupTimer m) m;
          m = hg_clearTimer (hg_metricsTimer m) m;
          (writes, m) = persistToPersistence stored q now m
      in (writes, m\<lparr>hg_isInitialized := False\<rparr>))"

definition hg_reset :: "hll_manager \<Rightarrow> hll_manager" where
  "hg_reset m = (hg_clear_trackers m)\<lparr>hg_performance := hg_initializePerformanceMetrics\<rparr>"

record hll_manager_statistics =
  hs_isInitialized :: bool
  hs_activeTrackers :: nat
  hs_totalMemoryUsage :: nat
  hs_performance :: hll_performance
  hs_trackerDetails :: "(string \<times> nat \<times> string list) list"
  hs_lastPersistence :: time_ms
  hs_lastCleanup :: time_ms

definition hg_getManagerStatistics :: "hll_manager \<Rightarrow> hll_manager_statistics" where
  "hg_getManagerStatistics m =
     \<lparr>hs_isInitialized = hg_isInitialized m, hs_activeTrackers = length (hg_trackers m), hs_totalMemoryUsage = hg_getTotalMemoryUsage m,
      hs_performance = hg_performance m,
      hs_trackerDetails = map (\<lambda>(name, t). (name, vt_getMemoryUsage t, getTrackingTypes t)) (hg_trackers m),
      hs_lastPersistence = hg_lastPersistenceTime m, hs_lastCleanup = hg_lastCleanupTime m\<rparr>"

section \<open>Histories of operations\<close>

datatype hg_op =
    Hq_request "string \<Rightarrow> visit_env" real time_ms real visitor_request
  | Hq_count real time_ms "jsnum option"
  | Hq_analytics real time_ms string jsnum
  | Hq_persist "bool \<times> bool" real time_ms
  | Hq_cleanup time_ms
  | Hq_collect
  | Hq_configure "hll_manager_config \<Rightarrow> hll_manager_config"
  | Hq_reset

definition hg_step :: "hg_op \<Rightarrow> hll_manager \<Rightarrow> hll_manager" where
  "hg_step x m =
     (case x of
        Hq_request envs q now pt r \<Rightarrow> (case hg_processRequest envs q now pt r m of Inl e \<Rightarrow> m | Inr (_, m') \<Rightarrow> m')
      | Hq_count q now w \<Rightarrow> snd (getAggregatedMetrics q now w m)
      | Hq_analytics q now metric w \<Rightarrow> snd (hg_getAnalytics q now metric w m)
      | Hq_persist stored q now \<Rightarrow> snd (persistToPersistence stored q now m)
      | Hq_cleanup now \<Rightarrow> hg_performCleanup now m
      | Hq_collect \<Rightarrow> hg_collectMetrics m
      | Hq_configure change \<Rightarrow> hg_updateConfiguration change m
      | Hq_reset \<Rightarrow> hg_reset m)"

text \<open>The addresses that are counted: those since the last reset and the last cleanup that found too much memory in use.\<close>

definition ips_step :: "hg_op \<Rightarrow> hll_manager \<Rightarrow> string set \<Rightarrow> string set" where
  "ips_step x m X =
     (case x of
        Hq_request _ _ _ _ r \<Rightarrow> X \<union> set_option (text_given (vr_ipAddress r))
      | Hq_cleanup _ \<Rightarrow> if hg_isMemoryUsageHealthy m then X else {}
      | Hq_reset \<Rightarrow> {}
      | _ \<Rightarrow> X)"

fun counted_ips :: "hg_op list \<Rightarrow> hll_manager \<Rightarrow> string set \<Rightarrow> string set" where
  "counted_ips [] m X = X"
| "counted_ips (x # xs) m X = counted_ips xs (hg_step x m) (ips_step x m X)"

section \<open>Counting a tracker keeps what it counts\<close>

definition counts_ips :: "(hll_use_case \<Rightarrow> hll_config) \<Rightarrow> string set \<Rightarrow> visitor_tracker \<Rightarrow> bool" where
  "counts_ips cfgs X t \<longleftrightarrow>
     vc_enabled (vt_config t) \<and> vt_shape (vt_config t) t \<and> (\<exists>S W. vt_tracks cfgs S W t \<and> S ''ips'' = X)"

lemma shape_config: "vt_shape c t \<Longrightarrow> vt_config t = c"
  by (simp add: vt_shape_def)

lemma estimate_read:
  assumes "vt_shape c t" and "vt_tracks cfgs S W t"
  shows "vt_shape c (snd (case (window_given w, map_of (vt_windows t) kind) of (Some w, Some ws) \<Rightarrow> count_window q now kind w ws t
                                                                           | _ \<Rightarrow> count_main q now kind t))"
    and "vt_tracks cfgs S W (snd (case (window_given w, map_of (vt_windows t) kind) of (Some w, Some ws) \<Rightarrow> count_window q now kind w ws t
                                                                           | _ \<Rightarrow> count_main q now kind t))"
  using count_tracks [OF assms, of q now kind w] by (simp_all add: vt_getCardinality_def)

lemma populate_keeps:
  assumes "vt_shape c (snd mt)" and "vt_tracks cfgs S W (snd mt)"
  shows "vt_shape c (snd (populateMetricsForType q now w kind mt))" and "vt_tracks cfgs S W (snd (populateMetricsForType q now w kind mt))"
    and "vm_ips (fst (populateMetricsForType q now w kind mt)) = vm_ips (fst mt)"
    and "vm_growthRate (fst (populateMetricsForType q now w kind mt)) = vm_growthRate (fst mt)"
  using estimate_read [OF assms, where w = w and kind = kind and q = q and now = now]
  by (auto simp: populateMetricsForType_def put_metric_def Let_def split_beta split: option.splits)

lemma populate_all_keeps:
  assumes "vt_shape c (snd mt)" and "vt_tracks cfgs S W (snd mt)"
  shows "vt_shape c (snd (fold (populateMetricsForType q now w) ks mt)) \<and> vt_tracks cfgs S W (snd (fold (populateMetricsForType q now w) ks mt))
    \<and> vm_ips (fst (fold (populateMetricsForType q now w) ks mt)) = vm_ips (fst mt)"
  using assms by (induction ks arbitrary: mt) (auto simp: populate_keeps)

text \<open>The metrics after the addresses are counted; the other kinds are counted after them.\<close>

definition first_metrics :: "real \<Rightarrow> time_ms \<Rightarrow> jsnum option \<Rightarrow> visitor_tracker \<Rightarrow> visitor_metrics" where
  "first_metrics q now w t =
     (case fst (vt_getCardinality q now ''ips'' w t) of
        None \<Rightarrow> empty_metrics now w
      | Some e \<Rightarrow> (empty_metrics now w)\<lparr>vm_ips := est_count e, vm_confidence := max (vm_confidence (empty_metrics now w)) (est_conf e)\<rparr>)"

definition all_metrics :: "real \<Rightarrow> time_ms \<Rightarrow> jsnum option \<Rightarrow> visitor_tracker \<Rightarrow> visitor_metrics \<times> visitor_tracker" where
  "all_metrics q now w t =
     fold (populateMetricsForType q now w) [''sessions'', ''user_agents'', ''locations'', ''paths'']
       (first_metrics q now w t, snd (vt_getCardinality q now ''ips'' w t))"

lemma getVisitorMetrics_eq:
  "getVisitorMetrics q now w t =
     ((fst (all_metrics q now w t))\<lparr>vm_total := vm_ips (fst (all_metrics q now w t)), vm_growthRate := 0\<rparr>, snd (all_metrics q now w t))"
  unfolding getVisitorMetrics_def vt_getCardinality_def first_metrics_def all_metrics_def Let_def split_beta vt_calculateGrowthRate_def
  by (rule refl)

lemma getVisitorMetrics_parts:
  assumes "vt_shape c t" and "vt_tracks cfgs S W t"
  shows "vt_shape c (snd (getVisitorMetrics q now w t))" and "vt_tracks cfgs S W (snd (getVisitorMetrics q now w t))"
    and "vm_total (fst (getVisitorMetrics q now w t)) =
      (case fst (vt_getCardinality q now ''ips'' w t) of None \<Rightarrow> Fin 0 | Some e \<Rightarrow> est_count e)"
    and "vm_growthRate (fst (getVisitorMetrics q now w t)) = 0"
proof -
  have k: "vt_shape c (snd (all_metrics q now w t)) \<and> vt_tracks cfgs S W (snd (all_metrics q now w t))
      \<and> vm_ips (fst (all_metrics q now w t)) = vm_ips (first_metrics q now w t)"
    unfolding all_metrics_def
    using populate_all_keeps [of c "(first_metrics q now w t, snd (vt_getCardinality q now ''ips'' w t))" cfgs S W q now w
        "[''sessions'', ''user_agents'', ''locations'', ''paths'']"]
      count_tracks [OF assms, of q now "''ips''" w] by simp
  then show "vt_shape c (snd (getVisitorMetrics q now w t))" "vt_tracks cfgs S W (snd (getVisitorMetrics q now w t))"
    by (simp_all add: getVisitorMetrics_eq)
  show "vm_total (fst (getVisitorMetrics q now w t)) = (case fst (vt_getCardinality q now ''ips'' w t) of None \<Rightarrow> Fin 0 | Some e \<Rightarrow> est_count e)"
    using k by (simp add: getVisitorMetrics_eq first_metrics_def empty_metrics_def split: option.splits)
  show "vm_growthRate (fst (getVisitorMetrics q now w t)) = 0" by (simp add: getVisitorMetrics_eq)
qed

lemma counts_ipsI:
  assumes "vc_enabled (vt_config t)" and "vt_shape (vt_config t) t'" and "vt_tracks cfgs S W t'" and "S ''ips'' = X"
  shows "counts_ips cfgs X t'" and "vt_config t' = vt_config t"
  using assms shape_config [OF assms(2)] by (auto simp: counts_ips_def)

lemma counts_ipsE:
  assumes "counts_ips cfgs X t"
  obtains S W where "vc_enabled (vt_config t)" "vt_shape (vt_config t) t" "vt_tracks cfgs S W t" "S ''ips'' = X"
  using assms by (auto simp: counts_ips_def)

lemma counts_ips_metrics:
  assumes "counts_ips cfgs X t"
  shows "counts_ips cfgs X (snd (getVisitorMetrics q now w t))" and "vt_config (snd (getVisitorMetrics q now w t)) = vt_config t"
  using assms by (auto elim!: counts_ipsE intro: counts_ipsI getVisitorMetrics_parts(1,2))

lemma counts_ips_track:
  assumes "counts_ips cfgs X t"
  shows "counts_ips cfgs (X \<union> set_option (text_given (vr_ipAddress r))) (trackVisitor env r t)" and "vt_config (trackVisitor env r t) = vt_config t"
proof -
  obtain S W where t: "vc_enabled (vt_config t)" "vt_shape (vt_config t) t" "vt_tracks cfgs S W t" "S ''ips'' = X"
    using assms by (rule counts_ipsE)
  have "main_step ''ips'' (Op_visit env r) (S ''ips'') = X \<union> set_option (text_given (vr_ipAddress r))"
    using t(4) by (simp add: main_step_def item_of_def)
  from counts_ipsI [OF t(1) conjunct1 [OF trackVisitor_tracks [OF t(2,1,3)]] conjunct2 [OF trackVisitor_tracks [OF t(2,1,3)]] this]
  show "counts_ips cfgs (X \<union> set_option (text_given (vr_ipAddress r))) (trackVisitor env r t)"
    and "vt_config (trackVisitor env r t) = vt_config t" by blast+
qed

lemma counts_ips_clear:
  assumes "counts_ips cfgs X t"
  shows "counts_ips cfgs {} (vt_clear t)" and "vt_config (vt_clear t) = vt_config t"
  using assms by (auto elim!: counts_ipsE intro!: counts_ipsI(1) [OF _ vt_clear_shape vt_clear_tracks] simp: vt_clear_look)

lemma counts_ips_count:
  assumes "counts_ips cfgs X t"
  shows "counts_ips cfgs X (snd (vt_getCardinality q now kind w t))" and "vt_config (snd (vt_getCardinality q now kind w t)) = vt_config t"
  using assms by (auto elim!: counts_ipsE intro: counts_ipsI conjunct1 [OF count_tracks] conjunct2 [OF count_tracks])

lemma counts_ips_analyze:
  assumes "counts_ips cfgs X t"
  shows "counts_ips cfgs X (snd (analyzeVisitorTrends q now metric w n a t))"
    and "vt_config (snd (analyzeVisitorTrends q now metric w n a t)) = vt_config t"
  using counts_ips_count [OF assms, of q now metric "Some w"] by (simp_all add: analyzeVisitorTrends_def Let_def split_beta split: option.split)

lemma counts_ips_insights:
  assumes "counts_ips cfgs X t"
  shows "counts_ips cfgs X (snd (ha_generateInsights q now ms a t)) \<and> vt_config (snd (ha_generateInsights q now ms a t)) = vt_config t"
  using assms
proof (induction ms arbitrary: t)
  case (Cons metric ms)
  obtain an t' where r: "analyzeVisitorTrends q now metric (Fin 3600000) 7 a t = (an, t')" by fastforce
  then have "counts_ips cfgs X t'" "vt_config t' = vt_config t"
    using counts_ips_analyze [OF Cons.prems, of q now metric "Fin 3600000" 7 a] by simp_all
  then show ?case using Cons.IH [of t'] r by (cases an) (auto simp: split_beta Let_def)
qed simp

section \<open>The manager counts addresses\<close>

definition mgr_ok :: "(hll_use_case \<Rightarrow> hll_config) \<Rightarrow> visitor_config list \<Rightarrow> string set \<Rightarrow> (string, visitor_tracker) js_map \<Rightarrow> bool" where
  "mgr_ok cfgs cs X ts \<longleftrightarrow> map (vt_config \<circ> snd) ts = cs \<and> (\<forall>p\<in>set ts. counts_ips cfgs X (snd p))"

lemma mgr_ok_map:
  assumes "mgr_ok cfgs cs X ts"
    and "\<And>name t. counts_ips cfgs X t \<Longrightarrow> counts_ips cfgs Y (f name t) \<and> vt_config (f name t) = vt_config t"
  shows "mgr_ok cfgs cs Y (map (\<lambda>(name, t). (name, f name t)) ts)"
proof -
  have "counts_ips cfgs Y (f a t) \<and> vt_config (f a t) = vt_config t" if "(a, t) \<in> set ts" for a t
    using assms(2) [of t a] assms(1) that by (auto simp: mgr_ok_def)
  then show ?thesis using assms(1) by (auto simp: mgr_ok_def)
qed

lemma mgr_ok_set:
  assumes "mgr_ok cfgs cs X ts" and "map_of ts k = Some t" and "counts_ips cfgs X t'" and "vt_config t' = vt_config t"
  shows "mgr_ok cfgs cs X (map_set k t' ts)"
proof -
  have "map (vt_config \<circ> snd) (map_set k t' ts) = map (vt_config \<circ> snd) ts"
    using assms(2,4) by (induction ts) (auto split: if_splits)
  then show ?thesis using assms(1,3) set_update_subset [of k t' ts] by (auto simp: mgr_ok_def)
qed

lemma aggregate_snd:
  "snd (aggregate_trackers q now w ts r) = map (\<lambda>(name, t). (name, snd (getVisitorMetrics q now w t))) ts"
  by (induction ts arbitrary: r) (auto simp: Let_def split_beta)

lemma aggregate_total:
  "vm_total (fst (aggregate_trackers q now w ts r)) =
     foldl js_max (vm_total r) (map (\<lambda>(name, t). vm_total (fst (getVisitorMetrics q now w t))) ts)"
  by (induction ts arbitrary: r) (auto simp: Let_def split_beta aggregate_step_def)

lemma getAggregatedMetrics_parts:
  "hg_trackers (snd (getAggregatedMetrics q now w m)) = map (\<lambda>(name, t). (name, snd (getVisitorMetrics q now w t))) (hg_trackers m)"
  "hg_analytics (snd (getAggregatedMetrics q now w m)) = hg_analytics m"
  "hg_config (snd (getAggregatedMetrics q now w m)) = hg_config m"
  "hg_isInitialized (snd (getAggregatedMetrics q now w m)) = hg_isInitialized m"
  "fst (getAggregatedMetrics q now w m) = fst (aggregate_trackers q now w (hg_trackers m) (empty_metrics now w))"
  by (simp_all add: getAggregatedMetrics_def split_beta aggregate_snd)

lemma mgr_ok_aggregate:
  "mgr_ok cfgs cs X (hg_trackers m) \<Longrightarrow> mgr_ok cfgs cs X (hg_trackers (snd (getAggregatedMetrics q now w m)))"
  unfolding getAggregatedMetrics_parts by (rule mgr_ok_map) (blast intro: counts_ips_metrics)+

lemma run_analytics_parts [simp]:
  "hg_analytics (snd (run_analytics f m)) = hg_analytics m" "hg_config (snd (run_analytics f m)) = hg_config m"
  "hg_isInitialized (snd (run_analytics f m)) = hg_isInitialized m"
  by (auto simp: run_analytics_def Let_def split: option.splits prod.splits)

lemma mgr_ok_analytics:
  assumes "mgr_ok cfgs cs X (hg_trackers m)"
    and "\<And>a t. counts_ips cfgs X t \<Longrightarrow> counts_ips cfgs X (snd (f a t)) \<and> vt_config (snd (f a t)) = vt_config t"
  shows "mgr_ok cfgs cs X (hg_trackers (snd (run_analytics f m)))"
proof -
  have "mgr_ok cfgs cs X (map_set k (snd (f a t)) (hg_trackers m))" if k: "map_of (hg_trackers m) k = Some t" for k a t
  proof -
    have "counts_ips cfgs X t" using assms(1) map_of_SomeD [OF k] by (auto simp: mgr_ok_def)
    with assms(2) have "counts_ips cfgs X (snd (f a t))" "vt_config (snd (f a t)) = vt_config t" by blast+
    then show ?thesis by (rule mgr_ok_set [OF assms(1) k])
  qed
  then show ?thesis using assms(1) by (auto simp: run_analytics_def Let_def split_beta split: option.splits)
qed

lemma timers_keep [simp]:
  "hg_trackers (hg_updateConfiguration f m) = hg_trackers m" "hg_analytics (hg_updateConfiguration f m) = hg_analytics m"
  "hg_isInitialized (hg_updateConfiguration f m) = hg_isInitialized m"
  by (simp_all add: hg_updateConfiguration_def hg_startPeriodicTasks_def hg_setInterval_def hg_clearTimer_def Let_def split: option.split)

lemma persist_parts [simp]:
  "hg_isInitialized (snd (persistToPersistence stored q now m)) = hg_isInitialized m"
  "hg_trackers (snd (persistToPersistence stored q now m)) =
     (if fst stored \<and> snd stored \<and> hg_analytics m \<noteq> None then hg_trackers (snd (getAggregatedMetrics q now (Some (Fin 3600000)) m))
      else hg_trackers m)"
  by (auto simp: persistToPersistence_def Let_def split_beta getAggregatedMetrics_parts split: option.splits)

lemma processRequest_parts:
  assumes "hg_processRequest envs q now pt r m = Inr (out, m')"
  defines "m1 \<equiv> m\<lparr>hg_trackers := map (\<lambda>(name, t). (name, trackVisitor (envs name) r t)) (hg_trackers m)\<rparr>"
  shows "hg_isInitialized m' = hg_isInitialized m" and "hg_analytics m' = hg_analytics m"
    and "hg_trackers m' =
      hg_trackers (if hm_enableAnalytics (hg_config m)
        then snd (run_analytics (ha_generateInsights q now [''ips'', ''sessions'']) (snd (getAggregatedMetrics q now None m1)))
        else snd (getAggregatedMetrics q now None m1))"
    and "ho_insights out =
      (if hm_enableAnalytics (hg_config m)
       then fst (run_analytics (ha_generateInsights q now [''ips'', ''sessions'']) (snd (getAggregatedMetrics q now None m1))) else None)"
    and "ho_metrics out = fst (getAggregatedMetrics q now None m1)"
  using assms(1) unfolding m1_def
  by (auto simp: hg_processRequest_def hg_updatePerformanceMetrics_def Let_def split_beta getAggregatedMetrics_parts split: if_splits)

lemma mgr_ok_request:
  assumes "mgr_ok cfgs cs X (hg_trackers m)" and "hg_processRequest envs q now pt r m = Inr (out, m')"
  shows "mgr_ok cfgs cs (X \<union> set_option (text_given (vr_ipAddress r))) (hg_trackers m')"
proof -
  have "mgr_ok cfgs cs (X \<union> set_option (text_given (vr_ipAddress r))) (map (\<lambda>(name, t). (name, trackVisitor (envs name) r t)) (hg_trackers m))"
    using assms(1) by (rule mgr_ok_map) (blast intro: counts_ips_track)
  then have "mgr_ok cfgs cs (X \<union> set_option (text_given (vr_ipAddress r)))
      (hg_trackers (snd (getAggregatedMetrics q now None
        (m\<lparr>hg_trackers := map (\<lambda>(name, t). (name, trackVisitor (envs name) r t)) (hg_trackers m)\<rparr>))))"
    by (intro mgr_ok_aggregate) simp
  from this mgr_ok_analytics [OF this counts_ips_insights] show ?thesis
    unfolding processRequest_parts(3) [OF assms(2)] by simp
qed

lemma mgr_ok_step:
  assumes "mgr_ok cfgs cs X (hg_trackers m)" and "hg_isInitialized m"
  shows "mgr_ok cfgs cs (ips_step x m X) (hg_trackers (hg_step x m)) \<and> hg_isInitialized (hg_step x m)"
proof (cases x)
  case (Hq_request envs q now pt r)
  obtain out m' where p: "hg_processRequest envs q now pt r m = Inr (out, m')"
    using assms(2) by (simp add: hg_processRequest_def split_beta Let_def)
  then show ?thesis
    using Hq_request mgr_ok_request [OF assms(1) p] processRequest_parts(1) [OF p] assms(2) by (simp add: hg_step_def ips_step_def)
next
  case (Hq_count q now w)
  then show ?thesis using assms mgr_ok_aggregate by (simp add: hg_step_def ips_step_def getAggregatedMetrics_parts(4))
next
  case (Hq_analytics q now metric w)
  then show ?thesis using assms
    by (simp add: hg_step_def ips_step_def hg_getAnalytics_def split_beta mgr_ok_analytics counts_ips_analyze)
next
  case (Hq_persist stored q now)
  then show ?thesis using assms mgr_ok_aggregate by (simp add: hg_step_def ips_step_def)
next
  case (Hq_cleanup now)
  then show ?thesis using assms
    by (auto simp: hg_step_def ips_step_def hg_performCleanup_def hg_clear_trackers_def Let_def intro!: mgr_ok_map counts_ips_clear)
next
  case Hq_reset
  then show ?thesis using assms
    by (auto simp: hg_step_def ips_step_def hg_reset_def hg_clear_trackers_def intro!: mgr_ok_map counts_ips_clear)
qed (use assms in \<open>simp_all add: hg_step_def ips_step_def hg_collectMetrics_def Let_def\<close>)

lemma hg_initialized_run: "hg_isInitialized m \<Longrightarrow> hg_isInitialized (fold hg_step xs m)"
proof (induction xs arbitrary: m)
  case (Cons x xs)
  have "hg_isInitialized (hg_step x m)"
    using Cons.prems processRequest_parts(1)
    by (cases x) (auto simp: hg_step_def getAggregatedMetrics_parts hg_getAnalytics_def split_beta hg_performCleanup_def hg_clear_trackers_def
        hg_collectMetrics_def hg_reset_def Let_def split: sum.split)
  then show ?case using Cons.IH by simp
qed simp

lemma mgr_ok_run:
  assumes "mgr_ok cfgs cs X (hg_trackers m)" and "hg_isInitialized m"
  shows "mgr_ok cfgs cs (counted_ips xs m X) (hg_trackers (fold hg_step xs m))"
  using assms by (induction xs arbitrary: m X) (auto simp: mgr_ok_step)

lemma build_trackers_ok:
  assumes "build_trackers now cfgs ks ts = Inr ts'" and "\<forall>p\<in>set ts. counts_ips cfgs {} (snd p)"
    and "\<forall>k\<in>set ks. ht_enabled k \<longrightarrow> vc_enabled (ht_visitorConfig k)"
  shows "\<forall>p\<in>set ts'. counts_ips cfgs {} (snd p)"
  using assms
proof (induction ks arbitrary: ts)
  case (Cons k ks)
  show ?case
  proof (cases "ht_enabled k")
    case True
    then obtain t where t: "new_visitor_tracker now cfgs (ht_visitorConfig k) = Inr t"
      and rest: "build_trackers now cfgs ks (map_set (ht_name k) t ts) = Inr ts'"
      using Cons.prems(1) by (auto split: sum.splits)
    have "counts_ips cfgs {} t"
      using new_tracker_tracks [OF t] Cons.prems(3) True shape_config by (fastforce simp: counts_ips_def)
    then have "\<forall>p\<in>set (map_set (ht_name k) t ts). counts_ips cfgs {} (snd p)"
      using Cons.prems(2) set_update_subset [of "ht_name k" t ts] by auto
    then show ?thesis using Cons.IH [OF rest] Cons.prems(3) by simp
  next
    case False
    then show ?thesis using Cons.IH [of ts] Cons.prems by simp
  qed
qed simp

lemma startPeriodicTasks_keep [simp]:
  "hg_trackers (hg_startPeriodicTasks m) = hg_trackers m" "hg_analytics (hg_startPeriodicTasks m) = hg_analytics m"
  by (simp_all add: hg_startPeriodicTasks_def hg_setInterval_def Let_def)

lemma load_keep [simp]:
  "hg_trackers (hg_loadFromPersistence saved m) = hg_trackers m" "hg_analytics (hg_loadFromPersistence saved m) = hg_analytics m"
  by (simp_all add: hg_loadFromPersistence_def split: option.split)

lemma initialize_parts:
  assumes "hg_initialize now cfgs saved (new_hll_manager c clocks) = Inr m"
  shows "build_trackers now cfgs (hm_trackers c) [] = Inr (hg_trackers m)" and "hg_isInitialized m"
    and "hg_analytics m = None \<or> (\<exists>p. hg_analytics m = Some (p, new_hll_analytics))"
  using assms by (auto simp: hg_initialize_def new_hll_manager_def Let_def split: sum.splits if_splits)

lemma foldl_max:
  assumes "set vs \<subseteq> {Fin 0, e}" and "r = Fin 0 \<or> r = js_max (Fin 0) e"
  shows "foldl js_max r vs = (if e \<in> set vs then js_max (Fin 0) e else r)"
  using assms
proof (induction vs arbitrary: r)
  case (Cons v vs)
  have "js_max (js_max (Fin 0) e) e = js_max (Fin 0) e" "js_max (js_max (Fin 0) e) (Fin 0) = js_max (Fin 0) e"
    "js_max (Fin 0) (Fin 0) = Fin 0" by (cases e; simp)+
  with Cons show ?case by (auto split: if_splits)
qed simp

lemma tracker_total:
  assumes "counts_ips cfgs X t" and "new_hll now0 (cfgs Hu_ip_tracking) = Inr h" and "set items = X"
  shows "vm_total (fst (getVisitorMetrics q n None t)) =
    (if trackIPs (vt_config t) then est_count (fst (cardinality q n (run_adds (map (\<lambda>i. (js i, 0)) items) h))) else Fin 0)"
proof -
  obtain S W where t: "vt_shape (vt_config t) t" "vt_tracks cfgs S W t" "S ''ips'' = X" using assms(1) by (rule counts_ipsE)
  have total: "vm_total (fst (getVisitorMetrics q n None t)) = (case fst (count_main q n ''ips'' t) of None \<Rightarrow> Fin 0 | Some e \<Rightarrow> est_count e)"
    using getVisitorMetrics_parts(3) [OF t(1,2)] by (simp add: vt_getCardinality_def window_given_def)
  show ?thesis
  proof (cases "map_of (vt_hlls t) ''ips''")
    case None
    moreover from this have "\<not> trackIPs (vt_config t)" using t(1) unfolding vt_shape_def by (metis kind_on_simps(1))
    ultimately show ?thesis using total by (simp add: count_main_def)
  next
    case (Some g)
    then have "trackIPs (vt_config t)" using t(1) unfolding vt_shape_def by (metis kind_on_simps(1) option.distinct(1))
    moreover have "represents g (js ` X)" "hll_cfg g = cfgs Hu_ip_tracking"
      using t(2,3) Some by (auto simp: vt_tracks_def use_of_def tracking_kinds_def)
    then have "est_count (fst (cardinality q n g)) = est_count (fst (cardinality q n (run_adds (map (\<lambda>i. (js i, 0)) items) h)))"
      using count_of_set reference_count [OF assms(2,3)] by metis
    ultimately show ?thesis using total Some by (simp add: count_main_def split_beta Let_def)
  qed
qed

section \<open>The analysis never sees its history\<close>

text \<open>No points are recorded under the names of the metrics that are analysed.\<close>

definition unrecorded :: "hll_manager \<Rightarrow> bool" where
  "unrecorded m \<longleftrightarrow>
     (\<forall>p a. hg_analytics m = Some (p, a) \<longrightarrow> map_of (ha_historicalData a) ''ips'' = None \<and> map_of (ha_historicalData a) ''sessions'' = None)"

lemma recorded_look:
  "metric \<noteq> k \<Longrightarrow> map_of (ha_historicalData (recordHistoricalData now metric n conf a)) k = map_of (ha_historicalData a) k"
  by (simp add: recordHistoricalData_def Let_def update_conv')

lemma unrecorded_step: "unrecorded m \<Longrightarrow> unrecorded (hg_step x m)"
proof (cases x)
  case (Hq_request envs q now pt r)
  assume "unrecorded m"
  then show ?thesis
    using Hq_request processRequest_parts(2) [of envs q now pt r m]
    by (auto simp: hg_step_def unrecorded_def split: sum.split)
next
  case (Hq_persist stored q now)
  assume "unrecorded m"
  then show ?thesis
    using Hq_persist
    by (auto simp: hg_step_def unrecorded_def persistToPersistence_def Let_def split_beta recorded_look getAggregatedMetrics_parts split: option.splits)
qed (auto simp: hg_step_def unrecorded_def getAggregatedMetrics_parts hg_getAnalytics_def split_beta hg_performCleanup_def
    hg_clear_trackers_def hg_collectMetrics_def hg_reset_def Let_def)

lemma unrecorded_run: "unrecorded m \<Longrightarrow> unrecorded (fold hg_step xs m)"
  by (induction xs arbitrary: m) (auto simp: unrecorded_step)

lemma no_history_no_insight:
  assumes "map_of (ha_historicalData a) metric = None" and "analyzeVisitorTrends q now metric w n a t = (Some an, t')"
  shows "ca_anomalyScore an = Fin 0" and "ca_growthRate an = Fin 0" and "insights_of now metric an = []"
proof -
  have "getHistoricalData metric n a = []" using assms(1) by (simp add: getHistoricalData_def js_slice_from_def)
  then show s: "ca_anomalyScore an = Fin 0" "ca_growthRate an = Fin 0"
    using assms(2)
    by (auto simp: analyzeVisitorTrends_def Let_def ha_calculateAnomalyScore_def num_greater_def split: option.splits prod.splits)
  show "insights_of now metric an = []" by (simp add: insights_of_def s num_greater_def num_less_def)
qed

lemma no_history_no_insights:
  assumes "\<forall>metric\<in>set ms. map_of (ha_historicalData a) metric = None"
  shows "fst (ha_generateInsights q now ms a t) = []"
  using assms
proof (induction ms arbitrary: t)
  case (Cons metric ms)
  then show ?case using no_history_no_insight(3) [of a metric q now "Fin 3600000" 7 t] by (auto split: prod.splits option.splits)
qed simp

lemma insights_empty:
  assumes "unrecorded m" and "hg_processRequest envs q n pt r m = Inr (out, m')"
  shows "ho_insights out = None \<or> ho_insights out = Some []"
proof -
  have "fst (run_analytics (ha_generateInsights q n [''ips'', ''sessions'']) mm) \<in> {None, Some []}"
    if "hg_analytics mm = hg_analytics m" for mm
    using that assms(1) no_history_no_insights [of "[''ips'', ''sessions'']"]
    by (auto simp: run_analytics_def unrecorded_def split_beta Let_def split: option.splits)
  then show ?thesis
    using processRequest_parts(4) [OF assms(2)] by (simp add: getAggregatedMetrics_parts(2))
qed

lemma analytics_score:
  assumes "unrecorded m" and "fst (hg_getAnalytics q n ''ips'' w m) = Some an"
  shows "ca_anomalyScore an = Fin 0"
  using assms no_history_no_insight(1) [of _ "''ips''" q n w 7]
  by (fastforce simp: hg_getAnalytics_def run_analytics_def unrecorded_def split_beta Let_def prod_eq_iff split: option.splits)

section \<open>Properties\<close>

text \<open>
  C33. The manager counts the addresses of its requests: from any initialised manager, after any sequence of requests, countings, analyses,
  persistence, cleanups and changes of the configuration, the total it reports is that of a HyperLogLog that holds exactly the addresses since the last reset
  and the last cleanup that cleared, however many of the trackers count them.
\<close>
theorem manager_counts_addresses:
  assumes "hg_initialize now cfgs saved (new_hll_manager c clocks) = Inr m"
    and "\<forall>k\<in>set (hm_trackers c). ht_enabled k \<longrightarrow> vc_enabled (ht_visitorConfig k)"
    and "\<exists>p\<in>set (hg_trackers m). trackIPs (vt_config (snd p))"
    and "new_hll now0 (cfgs Hu_ip_tracking) = Inr h" and "set items = counted_ips xs m {}"
  shows "vm_total (fst (getAggregatedMetrics q n None (fold hg_step xs m))) =
    js_max (Fin 0) (est_count (fst (cardinality q n (run_adds (map (\<lambda>i. (js i, 0)) items) h))))"
proof -
  let ?ts = "hg_trackers (fold hg_step xs m)"
  let ?e = "est_count (fst (cardinality q n (run_adds (map (\<lambda>i. (js i, 0)) items) h)))"
  let ?vs = "map (\<lambda>(name, t). vm_total (fst (getVisitorMetrics q n None t))) ?ts"
  have "mgr_ok cfgs (map (vt_config \<circ> snd) (hg_trackers m)) {} (hg_trackers m)"
    using build_trackers_ok [OF initialize_parts(1) [OF assms(1)]] assms(2) by (simp add: mgr_ok_def)
  from mgr_ok_run [OF this initialize_parts(2) [OF assms(1)], of xs]
  have ok: "map (vt_config \<circ> snd) ?ts = map (vt_config \<circ> snd) (hg_trackers m)" "\<forall>p\<in>set ?ts. counts_ips cfgs (set items) (snd p)"
    using assms(5) by (auto simp: mgr_ok_def)
  have vs: "?vs = map (\<lambda>p. if trackIPs (vt_config (snd p)) then ?e else Fin 0) ?ts"
    using ok(2) tracker_total [where cfgs = cfgs and items = items and X = "set items", OF _ assms(4)] by auto
  have "\<exists>c\<in>set (map (vt_config \<circ> snd) ?ts). trackIPs c" using assms(3) unfolding ok(1) by auto
  then have "?e \<in> set ?vs" "set ?vs \<subseteq> {Fin 0, ?e}" unfolding vs by auto
  then have "foldl js_max (Fin 0) ?vs = js_max (Fin 0) ?e" using foldl_max [of ?vs ?e "Fin 0"] by simp
  then show ?thesis by (simp add: getAggregatedMetrics_parts(5) aggregate_total empty_metrics_def)
qed

text \<open>
  The manager never gives an insight. Its history is recorded under other names than those the analysis looks up, so every metric looks
  as if it had no past: no request, after any sequence of operations, yields an insight, however the numbers of visitors change.
\<close>
theorem no_insight_ever:
  assumes "hg_initialize now cfgs saved (new_hll_manager c clocks) = Inr m"
    and "hg_processRequest envs q n pt r (fold hg_step xs m) = Inr (out, m')"
  shows "ho_insights out = None \<or> ho_insights out = Some []"
proof -
  have "unrecorded m" using initialize_parts(3) [OF assms(1)] by (auto simp: unrecorded_def new_hll_analytics_def)
  then have "unrecorded (fold hg_step xs m)" by (rule unrecorded_run)
  then show ?thesis using assms(2) by (rule insights_empty)
qed

text \<open>A cleanup that finds too much memory in use forgets every visitor.\<close>

lemma cleanup_forgets:
  assumes "mgr_ok cfgs cs X (hg_trackers m)" and "\<not> hg_isMemoryUsageHealthy m"
  shows "mgr_ok cfgs cs {} (hg_trackers (hg_performCleanup now m))"
  using assms by (auto simp: hg_performCleanup_def hg_clear_trackers_def Let_def intro!: mgr_ok_map counts_ips_clear)

definition demo_hll_config :: hll_manager_config where
  "demo_hll_config =
     \<lparr>hm_trackers = [\<lparr>ht_name = ''unique_ips'', ht_config = getHLLConfigForUseCase (\<lambda>_. None) Hu_ip_tracking, ht_visitorConfig = demo_visitors,
                       ht_enabled = True\<rparr>],
      hm_persistenceInterval = Fin 300000, hm_cleanupInterval = Fin 900000, hm_maxMemoryUsage = Fin 1000000, hm_enableMetrics = True,
      hm_enableAnalytics = True\<rparr>"

definition demo_hll_request :: "string \<Rightarrow> hg_op" where
  "demo_hll_request ip =
     Hq_request (\<lambda>_. \<lparr>ve_now = 0, ve_clock = (\<lambda>_ _. 0), ve_elapsed = (\<lambda>_ _. 0), ve_parsed = (\<lambda>_. None)\<rparr>) 0 0 1
       \<lparr>vr_ipAddress = Some ip, vr_sessionId = None, vr_userAgent = None, vr_country = None, vr_region = None, vr_city = None,
        vr_path = None, vr_timestamp = None\<rparr>"

lemma demo_initialized:
  "\<exists>m. hg_initialize 0 (\<lambda>_. hll_small_config) None (new_hll_manager demo_hll_config (0, 0)) = Inr m
     \<and> (\<exists>p\<in>set (hg_trackers m). trackIPs (vt_config (snd p)))"
proof -
  obtain t where t: "new_visitor_tracker 0 (\<lambda>_. hll_small_config) demo_visitors = Inr t" using demo_tracker ..
  then have "trackIPs (vt_config t)" using new_tracker_tracks [OF t] shape_config by (fastforce simp: demo_visitors_def)
  then show ?thesis using t by (simp add: hg_initialize_def new_hll_manager_def demo_hll_config_def Let_def)
qed

lemma demo_all_enabled: "\<forall>k\<in>set (hm_trackers demo_hll_config). ht_enabled k \<longrightarrow> vc_enabled (ht_visitorConfig k)"
  by (simp add: demo_hll_config_def demo_visitors_def)

theorem manager_counts_addresses_witness:
  "\<exists>m h. hg_initialize 0 (\<lambda>_. hll_small_config) None (new_hll_manager demo_hll_config (0, 0)) = Inr m \<and> new_hll 0 hll_small_config = Inr h
     \<and> vm_total (fst (getAggregatedMetrics 0 0 None (fold hg_step [demo_hll_request ''a'', demo_hll_request ''b'', demo_hll_request ''a''] m))) =
       js_max (Fin 0) (est_count (fst (cardinality 0 0 (run_adds (map (\<lambda>i. (js i, 0)) [''a'', ''b'']) h))))"
proof -
  obtain m where m: "hg_initialize 0 (\<lambda>_. hll_small_config) None (new_hll_manager demo_hll_config (0, 0)) = Inr m"
    "\<exists>p\<in>set (hg_trackers m). trackIPs (vt_config (snd p))" using demo_initialized by blast
  obtain h where h: "new_hll 0 hll_small_config = Inr h" using new_hll_small ..
  have "set [''a'', ''b''] = counted_ips [demo_hll_request ''a'', demo_hll_request ''b'', demo_hll_request ''a''] m {}"
    by (simp add: demo_hll_request_def ips_step_def text_given_def insert_commute)
  from manager_counts_addresses [OF m(1) demo_all_enabled m(2) h this, of 0 0] show ?thesis using m(1) h by blast
qed

theorem no_insight_ever_witness:
  "\<exists>m out m'. hg_initialize 0 (\<lambda>_. hll_small_config) None (new_hll_manager demo_hll_config (0, 0)) = Inr m
     \<and> hg_processRequest (\<lambda>_. \<lparr>ve_now = 0, ve_clock = (\<lambda>_ _. 0), ve_elapsed = (\<lambda>_ _. 0), ve_parsed = (\<lambda>_. None)\<rparr>) 0 0 1
         \<lparr>vr_ipAddress = Some ''c'', vr_sessionId = None, vr_userAgent = None, vr_country = None, vr_region = None, vr_city = None,
          vr_path = None, vr_timestamp = None\<rparr>
         (fold hg_step [demo_hll_request ''a'', Hq_persist (True, True) 0 0, demo_hll_request ''b''] m) = Inr (out, m')
     \<and> (ho_insights out = None \<or> ho_insights out = Some [])"
proof -
  obtain m where m: "hg_initialize 0 (\<lambda>_. hll_small_config) None (new_hll_manager demo_hll_config (0, 0)) = Inr m"
    using demo_initialized by blast
  let ?xs = "[demo_hll_request ''a'', Hq_persist (True, True) 0 0, demo_hll_request ''b'']"
  let ?r = "\<lparr>vr_ipAddress = Some ''c'', vr_sessionId = None, vr_userAgent = None, vr_country = None, vr_region = None, vr_city = None,
          vr_path = None, vr_timestamp = None\<rparr> :: visitor_request"
  let ?envs = "\<lambda>_ :: string. \<lparr>ve_now = 0, ve_clock = (\<lambda>_ _. 0), ve_elapsed = (\<lambda>_ _. 0), ve_parsed = (\<lambda>_. None)\<rparr> :: visit_env"
  have "hg_isInitialized (fold hg_step ?xs m)" using hg_initialized_run [OF initialize_parts(2) [OF m]] .
  then obtain out m' where p: "hg_processRequest ?envs 0 0 1 ?r (fold hg_step ?xs m) = Inr (out, m')"
    by (simp add: hg_processRequest_def split_beta Let_def del: fold_simps fold.simps)
  with no_insight_ever [OF m p] show ?thesis using m by blast
qed

end
