(* ===== verification/CardinalityIntegration.thy ===== *)
theory CardinalityIntegration
  imports HllManagement
begin

text \<open>
  The layer between the HyperLogLog manager and threat detection (\<^verbatim>\<open>backend/src/services/CardinalityIntegration.ts\<close>): the counts of visitors become
  a risk score, an anomaly score and threat indicators. The texts of the indicators are determined by their kind and value.
\<close>

section \<open>State and data\<close>

record cardinality_integration =
  ci_manager :: hll_manager
  ci_isInitialized :: bool

record cardinality_data =
  cd_total :: jsnum
  cd_ips :: jsnum
  cd_sessions :: jsnum
  cd_userAgents :: jsnum
  cd_locations :: jsnum
  cd_paths :: jsnum
  cd_confidence :: real
  cd_riskScore :: real
  cd_anomalyScore :: jsnum
  cd_insights :: "visitor_insight list"
  cd_start :: "time_ms option"
  cd_end :: time_ms
  cd_duration :: jsnum

datatype ci_error = Ci_not_initialized | Ci_manager hll_manager_error

definition new_cardinality_integration :: "env_vars \<Rightarrow> time_ms \<times> time_ms \<Rightarrow> cardinality_integration" where
  "new_cardinality_integration env clocks = \<lparr>ci_manager = new_hll_manager (getHLLManagerConfig env) clocks, ci_isInitialized = False\<rparr>"

definition ci_initialize ::
  "time_ms \<Rightarrow> (hll_use_case \<Rightarrow> hll_config) \<Rightarrow> (hll_performance \<Rightarrow> hll_performance) option \<Rightarrow> cardinality_integration
     \<Rightarrow> ci_error + cardinality_integration" where
  "ci_initialize now cfgs saved i =
     (case hg_initialize now cfgs saved (ci_manager i) of
        Inl e \<Rightarrow> Inl (Ci_manager e)
      | Inr m \<Rightarrow> Inr (i\<lparr>ci_manager := m, ci_isInitialized := True\<rparr>))"

section \<open>Scores\<close>

definition count_ratio :: "jsnum \<Rightarrow> jsnum \<Rightarrow> jsnum" where
  "count_ratio a b = (if num_greater b 0 then js_quot a b else Fin 0)"

definition calculateCardinalityRiskScore :: "visitor_metrics \<Rightarrow> real" where
  "calculateCardinalityRiskScore m =
     (let ipSessionRatio = count_ratio (vm_ips m) (vm_sessions m);
          uaIpRatio = count_ratio (vm_userAgents m) (vm_ips m);
          locationIpRatio = count_ratio (vm_locations m) (vm_ips m);
          pathSessionRatio = count_ratio (vm_paths m) (vm_sessions m);
          riskScore = (if num_greater ipSessionRatio (8 / 10) then 3 / 10 else if num_less ipSessionRatio (1 / 10) then 2 / 10 else 0);
          riskScore = riskScore + (if num_less uaIpRatio (1 / 10) then 4 / 10 else if num_greater uaIpRatio 2 then 2 / 10 else 0);
          riskScore = riskScore + (if num_greater locationIpRatio (1 / 2) then 2 / 10 else 0);
          riskScore = riskScore + (if num_greater pathSessionRatio 10 then 3 / 10 else 0);
          riskScore = riskScore + (if vm_growthRate m > 200 then 4 / 10 else if vm_growthRate m > 100 then 2 / 10 else 0);
          riskScore = (if vm_confidence m < 7 / 10 then riskScore * (7 / 10) else riskScore)
      in min (max riskScore 0) 1)"

definition extractAnomalyScore :: "visitor_insight list \<Rightarrow> jsnum" where
  "extractAnomalyScore insights =
     foldl (\<lambda>score x. if in_type x = In_anomaly_detected then js_max score (in_confidence x)
                      else if in_impact x = Im_critical then js_max score (Fin (9 / 10))
                      else if in_impact x = Im_high then js_max score (Fin (7 / 10)) else score) (Fin 0) insights"

definition getDefaultCardinalityData :: "time_ms \<Rightarrow> cardinality_data" where
  "getDefaultCardinalityData now =
     \<lparr>cd_total = Fin 0, cd_ips = Fin 0, cd_sessions = Fin 0, cd_userAgents = Fin 0, cd_locations = Fin 0, cd_paths = Fin 0,
      cd_confidence = 1 / 2, cd_riskScore = 0, cd_anomalyScore = Fin 0, cd_insights = [], cd_start = Some (now - 3600000), cd_end = now,
      cd_duration = Fin 3600000\<rparr>"

definition data_of :: "visitor_metrics \<Rightarrow> jsnum \<Rightarrow> visitor_insight list \<Rightarrow> cardinality_data" where
  "data_of m score insights =
     \<lparr>cd_total = vm_total m, cd_ips = vm_ips m, cd_sessions = vm_sessions m, cd_userAgents = vm_userAgents m, cd_locations = vm_locations m,
      cd_paths = vm_paths m, cd_confidence = vm_confidence m, cd_riskScore = calculateCardinalityRiskScore m, cd_anomalyScore = score,
      cd_insights = insights, cd_start = vm_start m, cd_end = vm_end m, cd_duration = vm_duration m\<rparr>"

section \<open>Operations\<close>

text \<open>A processed request carries metrics; when the manager refuses the request, the default is returned.\<close>

definition processRequestForThreatAnalysis ::
  "(string \<Rightarrow> visit_env) \<Rightarrow> real \<Rightarrow> time_ms \<Rightarrow> real \<Rightarrow> visitor_request \<Rightarrow> cardinality_integration
     \<Rightarrow> ci_error + (cardinality_data \<times> cardinality_integration)" where
  "processRequestForThreatAnalysis envs q now pt r i =
     (if \<not> ci_isInitialized i then Inl Ci_not_initialized
      else case hg_processRequest envs q now pt r (ci_manager i) of
             Inl e \<Rightarrow> Inr (getDefaultCardinalityData now, i)
           | Inr (out, m) \<Rightarrow>
               (let insights = (case ho_insights out of None \<Rightarrow> [] | Some xs \<Rightarrow> xs)
                in Inr (data_of (ho_metrics out) (extractAnomalyScore insights) insights, i\<lparr>ci_manager := m\<rparr>)))"

definition getCardinalityMetrics ::
  "real \<Rightarrow> time_ms \<Rightarrow> jsnum \<Rightarrow> cardinality_integration \<Rightarrow> ci_error + (cardinality_data \<times> cardinality_integration)" where
  "getCardinalityMetrics q now w i =
     (if \<not> ci_isInitialized i then Inl Ci_not_initialized
      else
        let (metrics, m) = getAggregatedMetrics q now (Some w) (ci_manager i);
            (an, m) = hg_getAnalytics q now ''ips'' w m
        in Inr (data_of metrics (case an of None \<Rightarrow> Fin 0 | Some a \<Rightarrow> ca_anomalyScore a) [], i\<lparr>ci_manager := m\<rparr>))"

datatype ci_indicator_type = Ti_cardinality_anomaly | Ti_ip_session_ratio | Ti_user_agent_ratio

record ci_indicator =
  ti_type :: ci_indicator_type
  ti_severity :: insight_impact
  ti_value :: jsnum
  ti_threshold :: real
  ti_confidence :: real

definition ci_indicators :: "cardinality_data \<Rightarrow> ci_indicator list" where
  "ci_indicators d =
     (let ipSessionRatio = count_ratio (cd_ips d) (cd_sessions d); uaIpRatio = count_ratio (cd_userAgents d) (cd_ips d)
      in (if num_greater ipSessionRatio (8 / 10)
          then [\<lparr>ti_type = Ti_ip_session_ratio, ti_severity = (if num_greater ipSessionRatio (95 / 100) then Im_critical else Im_high),
                 ti_value = ipSessionRatio, ti_threshold = 8 / 10, ti_confidence = cd_confidence d\<rparr>] else [])
         @ (if num_less uaIpRatio (1 / 10) \<and> num_greater (cd_ips d) 10
            then [\<lparr>ti_type = Ti_user_agent_ratio, ti_severity = (if num_less uaIpRatio (5 / 100) then Im_critical else Im_high),
                   ti_value = uaIpRatio, ti_threshold = 1 / 10, ti_confidence = cd_confidence d\<rparr>] else [])
         @ (if num_greater (cd_anomalyScore d) (7 / 10)
            then [\<lparr>ti_type = Ti_cardinality_anomaly, ti_severity = (if num_greater (cd_anomalyScore d) (9 / 10) then Im_critical else Im_high),
                   ti_value = cd_anomalyScore d, ti_threshold = 7 / 10, ti_confidence = cd_confidence d\<rparr>] else []))"

definition ci_getThreatIndicators ::
  "real \<Rightarrow> time_ms \<Rightarrow> cardinality_integration \<Rightarrow> (ci_indicator list \<times> jsnum) \<times> cardinality_integration" where
  "ci_getThreatIndicators q now i =
     (case getCardinalityMetrics q now (Fin 3600000) i of
        Inl e \<Rightarrow> (([], Fin 0), i)
      | Inr (d, i') \<Rightarrow> ((ci_indicators d, js_max (Fin (cd_riskScore d)) (cd_anomalyScore d)), i'))"

definition ci_isHealthy :: "cardinality_integration \<Rightarrow> bool" where
  "ci_isHealthy i \<longleftrightarrow> ci_isInitialized i \<and> hg_isMemoryUsageHealthy (ci_manager i)"

record ci_summary =
  cs_totalUniqueVisitors :: jsnum
  cs_uniqueIPs :: jsnum
  cs_uniqueSessions :: jsnum
  cs_confidenceLevel :: real
  cs_riskScore :: real
  cs_memoryUsage :: nat
  cs_isHealthy :: bool

definition getSummaryStatistics :: "real \<Rightarrow> time_ms \<Rightarrow> cardinality_integration \<Rightarrow> ci_summary \<times> cardinality_integration" where
  "getSummaryStatistics q now i =
     (case getCardinalityMetrics q now (Fin 3600000) i of
        Inl e \<Rightarrow> (\<lparr>cs_totalUniqueVisitors = Fin 0, cs_uniqueIPs = Fin 0, cs_uniqueSessions = Fin 0, cs_confidenceLevel = 0, cs_riskScore = 0,
                   cs_memoryUsage = 0, cs_isHealthy = False\<rparr>, i)
      | Inr (d, i') \<Rightarrow>
          (let stats = hg_getManagerStatistics (ci_manager i')
           in (\<lparr>cs_totalUniqueVisitors = cd_total d, cs_uniqueIPs = cd_ips d, cs_uniqueSessions = cd_sessions d,
                cs_confidenceLevel = cd_confidence d, cs_riskScore = cd_riskScore d, cs_memoryUsage = hs_totalMemoryUsage stats,
                cs_isHealthy = (hs_isInitialized stats \<and> hg_isMemoryUsageHealthy (ci_manager i'))\<rparr>, i')))"

definition ci_shutdown :: "bool \<times> bool \<Rightarrow> real \<Rightarrow> time_ms \<Rightarrow> cardinality_integration \<Rightarrow> hll_write list \<times> cardinality_integration" where
  "ci_shutdown stored q now i =
     (let (writes, m) = hg_shutdown stored q now (ci_manager i) in (writes, i\<lparr>ci_manager := m, ci_isInitialized := False\<rparr>))"

section \<open>An idle system\<close>

lemma empty_count_corrected:
  assumes "new_hll now c = Inr s" and "biasCorrection c"
  shows "est_count (fst (cardinality q n s)) = Fin 0"
proof -
  have s: "hll_cfg s = c" "alpha s = calculateAlpha c" using assms(1) by (auto simp: new_hll_Inr)
  have raw: "calculateRawEstimate s = calculateAlpha c * 2 ^ prec c"
    using s empty_register_sum [OF assms(1)] by (simp add: calculateRawEstimate_def Let_def)
  have "calculateAlpha c \<le> 5 / 2" by (simp add: calculateAlpha_def divide_le_eq)
  then have small: "calculateRawEstimate s \<le> 5 / 2 * 2 ^ prec c" unfolding raw by (intro mult_right_mono) auto
  have "filter (\<lambda>i. reg_get (registers s) i = 0) [0..<2 ^ prec c] = [0..<2 ^ prec c]"
    using assms(1) by (auto simp: new_hll_Inr fresh_registers_get filter_id_conv)
  then have "zero_registers s = 2 ^ prec c" using s by (simp add: zero_registers_def)
  then show ?thesis
    using small s assms(2) by (simp add: cardinality_def Let_def count_estimate_def applyBiasCorrection_def js_round_def)
qed

lemma represents_nothing:
  assumes "represents h {}" and "biasCorrection (hll_cfg h)"
  shows "est_count (fst (cardinality q n h)) = Fin 0"
proof -
  have "hll_inv h" using assms(1) by (simp add: represents_def)
  then obtain s where s: "new_hll 0 (hll_cfg h) = Inr s" by (auto simp: hll_inv_def new_hll_Inr)
  have "hll_cfg s = hll_cfg h" using s by (auto simp: new_hll_Inr)
  then show ?thesis
    using count_of_set [OF assms(1) represents_new [OF s]] empty_count_corrected [OF s assms(2)] by simp
qed

definition idle :: "(hll_use_case \<Rightarrow> hll_config) \<Rightarrow> visitor_tracker \<Rightarrow> bool" where
  "idle cfgs t \<longleftrightarrow> vt_shape (vt_config t) t \<and> vt_tracks cfgs (\<lambda>_. {}) (\<lambda>_ _. {}) t"

lemma idle_count:
  assumes "idle cfgs t" and "\<forall>u. biasCorrection (cfgs u)"
  shows "idle cfgs (snd (vt_getCardinality q now kind w t))"
    and "fst (vt_getCardinality q now kind w t) = Some e \<Longrightarrow> est_count e = Fin 0"
proof -
  have t: "vt_shape (vt_config t) t" "vt_tracks cfgs (\<lambda>_. {}) (\<lambda>_ _. {}) t" using assms(1) by (auto simp: idle_def)
  show "idle cfgs (snd (vt_getCardinality q now kind w t))"
    using count_tracks [OF t, of q now kind w] shape_config by (fastforce simp: idle_def)
  have "est_count (fst (cardinality q now h)) = Fin 0"
    if "map_of (vt_hlls t) kind = Some h \<or> (\<exists>ws w. map_of (vt_windows t) kind = Some ws \<and> map_of ws w = Some h)" for h
  proof -
    have "represents h {}" "biasCorrection (hll_cfg h)" using that t(2) assms(2) by (auto simp: vt_tracks_def)
    then show ?thesis by (rule represents_nothing)
  qed
  then show "est_count e = Fin 0" if "fst (vt_getCardinality q now kind w t) = Some e"
    using that by (auto simp: vt_getCardinality_def count_main_def count_window_def split_beta Let_def split: option.splits)
qed

definition no_visitors :: "visitor_metrics \<Rightarrow> bool" where
  "no_visitors m \<longleftrightarrow> vm_ips m = Fin 0 \<and> vm_sessions m = Fin 0 \<and> vm_growthRate m = 0"

lemma populate_idle:
  assumes "\<forall>u. biasCorrection (cfgs u)" and "idle cfgs (snd mt)" and "no_visitors (fst mt)"
  shows "idle cfgs (snd (populateMetricsForType q now w kind mt)) \<and> no_visitors (fst (populateMetricsForType q now w kind mt))"
proof -
  have "populateMetricsForType q now w kind mt =
      (let (e, t) = vt_getCardinality q now kind w (snd mt)
       in case e of None \<Rightarrow> (fst mt, t)
          | Some e \<Rightarrow> (let m = put_metric kind (est_count e) (fst mt) in (m\<lparr>vm_confidence := max (vm_confidence m) (est_conf e)\<rparr>, t)))"
    by (simp add: populateMetricsForType_def vt_getCardinality_def split_beta Let_def)
  then show ?thesis
    using idle_count [OF assms(2,1), of q now kind w] assms(3)
    by (auto simp: split_beta Let_def no_visitors_def put_metric_def split: option.split)
qed

lemma populate_all_idle:
  assumes "\<forall>u. biasCorrection (cfgs u)" and "idle cfgs (snd mt)" and "no_visitors (fst mt)"
  shows "idle cfgs (snd (fold (populateMetricsForType q now w) ks mt)) \<and> no_visitors (fst (fold (populateMetricsForType q now w) ks mt))"
  using assms(2,3) by (induction ks arbitrary: mt) (auto simp: populate_idle [OF assms(1)])

lemma metrics_idle:
  assumes "\<forall>u. biasCorrection (cfgs u)" and "idle cfgs t"
  shows "no_visitors (fst (getVisitorMetrics q now w t))"
proof -
  have "no_visitors (first_metrics q now w t)"
    using idle_count(2) [OF assms(2,1), of q now "''ips''" w] by (auto simp: no_visitors_def first_metrics_def empty_metrics_def split: option.split)
  then have "no_visitors (fst (all_metrics q now w t))"
    unfolding all_metrics_def
    using idle_count(1) [OF assms(2,1)] by (intro conjunct2 [OF populate_all_idle [OF assms(1)]]) simp_all
  then show ?thesis by (simp add: getVisitorMetrics_eq no_visitors_def)
qed

lemma no_visitors_risk:
  "no_visitors m \<Longrightarrow> calculateCardinalityRiskScore m = (if vm_confidence m < 7 / 10 then 42 / 100 else 6 / 10)"
  by (simp add: no_visitors_def calculateCardinalityRiskScore_def count_ratio_def num_greater_def num_less_def Let_def)

lemma aggregate_idle:
  assumes "\<forall>p\<in>set ts. no_visitors (fst (getVisitorMetrics q now w (snd p)))" and "no_visitors r"
  shows "no_visitors (fst (aggregate_trackers q now w ts r))"
  using assms by (induction ts arbitrary: r) (auto simp: split_beta Let_def no_visitors_def aggregate_step_def)

lemma build_idle:
  assumes "build_trackers now cfgs ks ts = Inr ts'" and "\<forall>p\<in>set ts. idle cfgs (snd p)"
  shows "\<forall>p\<in>set ts'. idle cfgs (snd p)"
  using assms
proof (induction ks arbitrary: ts)
  case (Cons k ks)
  show ?case
  proof (cases "ht_enabled k")
    case True
    then obtain t where t: "new_visitor_tracker now cfgs (ht_visitorConfig k) = Inr t"
      and rest: "build_trackers now cfgs ks (map_set (ht_name k) t ts) = Inr ts'"
      using Cons.prems(1) by (auto split: sum.splits)
    have "idle cfgs t" using new_tracker_tracks [OF t] shape_config by (fastforce simp: idle_def)
    then have "\<forall>p\<in>set (map_set (ht_name k) t ts). idle cfgs (snd p)"
      using Cons.prems(2) set_update_subset [of "ht_name k" t ts] by auto
    then show ?thesis using Cons.IH [OF rest] by simp
  next
    case False
    then show ?thesis using Cons.IH [of ts] Cons.prems by simp
  qed
qed simp

lemma initialized_parts:
  assumes "ci_initialize now cfgs saved (new_cardinality_integration env clocks) = Inr i"
  shows "hg_initialize now cfgs saved (new_hll_manager (getHLLManagerConfig env) clocks) = Inr (ci_manager i)" and "ci_isInitialized i"
  using assms by (auto simp: ci_initialize_def new_cardinality_integration_def split: sum.splits)

section \<open>Properties\<close>

text \<open>
  The anomaly score is always 0: after any sequence of operations of the manager, neither a request nor a reading of the metrics gives
  another score, and no threat indicator reports an anomaly of the counts.
\<close>
theorem anomaly_score_zero:
  assumes "ci_initialize now cfgs saved (new_cardinality_integration env clocks) = Inr i"
  shows "(\<forall>d i'. processRequestForThreatAnalysis envs q n pt r (i\<lparr>ci_manager := fold hg_step xs (ci_manager i)\<rparr>) = Inr (d, i')
            \<longrightarrow> cd_anomalyScore d = Fin 0)
     \<and> (\<forall>d i'. getCardinalityMetrics q n w (i\<lparr>ci_manager := fold hg_step xs (ci_manager i)\<rparr>) = Inr (d, i') \<longrightarrow> cd_anomalyScore d = Fin 0)
     \<and> Ti_cardinality_anomaly \<notin> ti_type ` set (fst (fst (ci_getThreatIndicators q n (i\<lparr>ci_manager := fold hg_step xs (ci_manager i)\<rparr>))))"
proof -
  note init = initialized_parts [OF assms]
  let ?m = "fold hg_step xs (ci_manager i)"
  have un: "unrecorded ?m"
    using initialize_parts(3) [OF init(1)] by (intro unrecorded_run) (auto simp: unrecorded_def new_hll_analytics_def)
  have request: "cd_anomalyScore d = Fin 0"
    if p: "processRequestForThreatAnalysis envs q n pt r (i\<lparr>ci_manager := ?m\<rparr>) = Inr (d, i')" for d i'
  proof (cases "hg_processRequest envs q n pt r ?m")
    case (Inl e)
    then show ?thesis using p init(2) by (auto simp: processRequestForThreatAnalysis_def getDefaultCardinalityData_def)
  next
    case (Inr om)
    then obtain out m' where om: "hg_processRequest envs q n pt r ?m = Inr (out, m')" by (cases om) auto
    have "ho_insights out = None \<or> ho_insights out = Some []" by (rule insights_empty [OF un om])
    then show ?thesis
      using p init(2) om by (auto simp: processRequestForThreatAnalysis_def data_of_def extractAnomalyScore_def Let_def)
  qed
  have metrics: "cd_anomalyScore d = Fin 0" if p: "getCardinalityMetrics q n v (i\<lparr>ci_manager := ?m\<rparr>) = Inr (d, i')" for v d i'
    using p init(2) analytics_score [of "snd (getAggregatedMetrics q n (Some v) ?m)" q n v] un
    by (auto simp: getCardinalityMetrics_def data_of_def Let_def split_beta unrecorded_def getAggregatedMetrics_parts split: option.splits)
  have "Ti_cardinality_anomaly \<notin> ti_type ` set (ci_indicators d)" if "cd_anomalyScore d = Fin 0" for d
    using that by (auto simp: ci_indicators_def Let_def num_greater_def)
  then have "Ti_cardinality_anomaly \<notin> ti_type ` set (fst (fst (ci_getThreatIndicators q n (i\<lparr>ci_manager := ?m\<rparr>))))"
    using metrics by (auto simp: ci_getThreatIndicators_def split: sum.split)
  with request metrics show ?thesis by blast
qed

text \<open>
  An idle system is rated as risky. With the correction for small counts, the metrics of an integration that has seen no request
  give a risk score of 0.6, or 0.42 when the confidence is low: a ratio over a count of 0 is taken as 0, which the score reads as suspicious.
\<close>
theorem idle_risk:
  assumes "ci_initialize now cfgs saved (new_cardinality_integration env clocks) = Inr i" and "\<forall>u. biasCorrection (cfgs u)"
  shows "\<exists>d i'. getCardinalityMetrics q n w i = Inr (d, i') \<and> cd_ips d = Fin 0
     \<and> cd_riskScore d = (if cd_confidence d < 7 / 10 then 42 / 100 else 6 / 10)"
proof -
  note init = initialized_parts [OF assms(1)]
  have "\<forall>p\<in>set (hg_trackers (ci_manager i)). idle cfgs (snd p)" using build_idle [OF initialize_parts(1) [OF init(1)]] by simp
  then have "no_visitors (fst (getAggregatedMetrics q n (Some w) (ci_manager i)))"
    unfolding getAggregatedMetrics_parts
    using metrics_idle [OF assms(2)] by (intro aggregate_idle) (auto simp: no_visitors_def empty_metrics_def)
  then show ?thesis
    using init(2) by (simp add: getCardinalityMetrics_def data_of_def split_beta Let_def no_visitors_risk) (simp add: no_visitors_def)
qed

lemma demo_integration:
  "\<exists>i. ci_initialize 0 (\<lambda>_. hll_small_config) None (new_cardinality_integration (\<lambda>_. None) (0, 0)) = Inr i"
proof -
  have windows: "\<exists>ws'. initializeTimeWindows 0 hll_small_config ws m = Inr ws'" for ws m
    using new_hll_small by (induction ws arbitrary: m) auto
  have kinds: "\<exists>t'. initialize_kinds 0 (\<lambda>_. hll_small_config) ks t = Inr t'" for ks t
  proof (induction ks arbitrary: t)
    case (Cons k ks)
    obtain h where h: "new_hll 0 hll_small_config = Inr h" using new_hll_small ..
    obtain ws where "initializeTimeWindows 0 hll_small_config (vc_timeWindows (vt_config t)) [] = Inr ws" using windows by blast
    then show ?case using Cons h by (cases k) (auto simp: initialize_kind_def)
  qed simp
  have tracker: "\<exists>t. new_visitor_tracker 0 (\<lambda>_. hll_small_config) c = Inr t" for c
    using kinds [of tracking_kinds] by (auto simp: new_visitor_tracker_def initializeHLLs_def split: sum.split) (metis sum.simps(4))
  have "\<exists>ts'. build_trackers 0 (\<lambda>_. hll_small_config) ks ts = Inr ts'" for ks ts
  proof (induction ks arbitrary: ts)
    case (Cons k ks)
    obtain t where "new_visitor_tracker 0 (\<lambda>_. hll_small_config) (ht_visitorConfig k) = Inr t" using tracker by blast
    then show ?case using Cons by simp
  qed simp
  then obtain ts where "build_trackers 0 (\<lambda>_. hll_small_config) (hm_trackers (getHLLManagerConfig (\<lambda>_. None))) [] = Inr ts" by blast
  then show ?thesis by (simp add: ci_initialize_def new_cardinality_integration_def hg_initialize_def new_hll_manager_def Let_def)
qed

theorem anomaly_score_zero_witness:
  "\<exists>i d i'. ci_initialize 0 (\<lambda>_. hll_small_config) None (new_cardinality_integration (\<lambda>_. None) (0, 0)) = Inr i
     \<and> getCardinalityMetrics 0 0 (Fin 3600000) (i\<lparr>ci_manager := fold hg_step [demo_hll_request ''a''] (ci_manager i)\<rparr>) = Inr (d, i')
     \<and> cd_anomalyScore d = Fin 0"
proof -
  obtain i where i: "ci_initialize 0 (\<lambda>_. hll_small_config) None (new_cardinality_integration (\<lambda>_. None) (0, 0)) = Inr i"
    using demo_integration ..
  obtain d i' where d: "getCardinalityMetrics 0 0 (Fin 3600000) (i\<lparr>ci_manager := fold hg_step [demo_hll_request ''a''] (ci_manager i)\<rparr>) = Inr (d, i')"
    using initialized_parts(2) [OF i] by (simp add: getCardinalityMetrics_def split_beta Let_def del: fold_simps fold.simps)
  then show ?thesis using i anomaly_score_zero [OF i] by blast
qed

theorem idle_risk_witness:
  "\<exists>i d i'. ci_initialize 0 (\<lambda>_. hll_small_config) None (new_cardinality_integration (\<lambda>_. None) (0, 0)) = Inr i
     \<and> getCardinalityMetrics 0 0 (Fin 3600000) i = Inr (d, i') \<and> cd_ips d = Fin 0 \<and> 42 / 100 \<le> cd_riskScore d"
proof -
  obtain i where i: "ci_initialize 0 (\<lambda>_. hll_small_config) None (new_cardinality_integration (\<lambda>_. None) (0, 0)) = Inr i"
    using demo_integration ..
  have "\<forall>u :: hll_use_case. biasCorrection hll_small_config" by (simp add: hll_small_config_def)
  from idle_risk [OF i this, of 0 0 "Fin 3600000"] show ?thesis using i by (auto split: if_splits)
qed

end
