(* ===== verification/Spec2Isabelle.thy ===== *)
theory Spec2Isabelle
  imports CountMinSketch HyperLogLog RateLimitIntegration BanditServices SoarExecutor BehavioralIntegration MarkovAnalytics EwmaManagement Triage ThreatMiddleware SketchManagement SketchMetrics EwmaIntegration CardinalityIntegration
begin

text \<open>
  A verification library for the backend of PhantomFlow (\<^verbatim>\<open>src/backend\<close>), a request-security pipeline in
  TypeScript.

  \<^bold>\<open>The program.\<close> A request that reaches the backend is counted by probabilistic structures (a Count-Min
  Sketch for frequencies, a HyperLogLog for distinct visitors), admitted or refused by an adaptive rate
  limiter under a policy chosen for it, scored by behavioural, statistical, relational and contextual analyses, compared with
  models of normal behaviour (Markov chains over sessions, exponentially weighted averages over measurements), and answered by a
  tier of response actions; a Thompson-sampling bandit and a playbook executor choose and carry out countermeasures. Beside the
  request path, security events are normalised, enriched, matched against rules and triaged.

  \<^bold>\<open>Theories and code.\<close> Paths are below \<^verbatim>\<open>src/backend/src\<close> unless they start with \<^verbatim>\<open>backend\<close>.
  \<^item> \<open>Prelude\<close>: JavaScript numbers, strings, maps with insertion order; the locale \<open>keyed_store\<close>, the contract
    of a \<^verbatim>\<open>Map\<close>, interpreted on association lists. \<open>Patterns\<close>: JSON values and their text, regular expressions.
  \<^item> \<open>MurmurHash3\<close> and \<open>CountMinSketch\<close>: \<^verbatim>\<open>core/sketch/CountMinSketch.ts\<close>. The state \<open>sketch\<close> has the matrix,
    the configuration and the metrics of the class; \<open>insert_item\<close>, \<open>query\<close>, \<open>queryBatch\<close>, \<open>getTopK\<close>, \<open>merge\<close>,
    \<open>clear\<close>, \<open>serialize\<close>, \<open>deserialize\<close> and \<open>createOptimalConfig\<close> are its methods. The locale \<open>row_hashing\<close> states
    what the estimates need of the row hashes (they stay inside a row), is interpreted on the seeded hash of the
    code, and carries the estimate bounds.
  \<^item> \<open>FrequencyAnalysis\<close> (\<^verbatim>\<open>services/FrequencyAnalyzer.ts\<close>), \<open>SketchDetection\<close> (\<^verbatim>\<open>core/sketch/SketchAnomalyDetector.ts\<close>),
    \<open>SketchConfig\<close> (\<^verbatim>\<open>config/sketchConfig.ts\<close>) \<open>SketchManagement\<close> (\<^verbatim>\<open>services/SketchManager.ts\<close>)
    and \<open>SketchMetrics\<close> (\<^verbatim>\<open>core/sketch/SketchMetrics.ts\<close>): the clients of the sketch. The locale
    \<open>check_invariant\<close> carries what every check of an item keeps through requests and sequences of requests; it is interpreted for scores,
    memory, floods and readiness.
  \<^item> \<open>HLLHashFunctions\<close> and \<open>HyperLogLog\<close>: the files of the same names in \<^verbatim>\<open>core/hyperloglog\<close>. The sparse and the
    dense register classes are the constructors of \<open>hll_registers\<close>; the locale \<open>register_file\<close> is the interface
    both implement, interpreted once for either. \<open>add\<close>, \<open>cardinality\<close>, \<open>merge_hll\<close> and the persistence
    operations are the methods.
  \<^item> The clients of the HyperLogLog: \<open>HllConfig\<close> (\<^verbatim>\<open>config/hyperloglogConfig.ts\<close>), \<open>VisitorTracking\<close> (\<^verbatim>\<open>services/VisitorTracker.ts\<close>),
    \<open>HllAnalytics\<close> (\<^verbatim>\<open>core/hyperloglog/HLLAnalytics.ts\<close>), \<open>HllManagement\<close> (\<^verbatim>\<open>services/HyperLogLogManager.ts\<close>) and \<open>CardinalityIntegration\<close>
    (\<^verbatim>\<open>services/CardinalityIntegration.ts\<close>).
  \<^item> \<open>RateLimitTypes\<close> (\<^verbatim>\<open>types/rateLimit.d.ts\<close>), \<open>RateLimiter\<close> (\<^verbatim>\<open>core/rateLimit/AdaptiveRateLimiter.ts\<close>: the three algorithms, the
    adjustment of limits, the cache of states with its Redis fallbacks), \<open>RateLimitPolicies\<close> (\<^verbatim>\<open>core/rateLimit/RateLimitPolicies.ts\<close>: the
    default policies as data, the store with its two indexes, the choice of the applicable policies), \<open>RateLimitManager\<close>
    (\<^verbatim>\<open>services/RateLimitManager.ts\<close>), \<open>RateLimitEnforcement\<close> (\<^verbatim>\<open>services/RateLimitEnforcementService.ts\<close>: middleware, violation counts,
    escalation, block list). Each calls the ones before it. \<open>RateLimitConfig\<close> (\<^verbatim>\<open>config/rateLimitConfig.ts\<close>), \<open>RateLimitAnalytics\<close>
    (\<^verbatim>\<open>services/RateLimitAnalytics.ts\<close>) and \<open>RateLimitIntegration\<close> (\<^verbatim>\<open>services/RateLimitIntegration.ts\<close>: configuration, enforcement and analytics
    composed, with histories of requests, threat levels and timers).
  \<^item> \<open>Bandit\<close> (\<^verbatim>\<open>types/bandit.ts\<close>, \<^verbatim>\<open>config/banditConfig.ts\<close>, \<^verbatim>\<open>core/bandit/ThompsonSampling.ts\<close>), \<open>MultiArmedBandit\<close>
    (\<^verbatim>\<open>core/bandit/mab.ts\<close>) and \<open>ArmLearner\<close>, the locale \<open>arm_learner\<close> that both learners implement (interpretations \<open>thompson\<close> and
    \<open>mab_learner\<close>); \<open>BanditServices\<close>: \<^verbatim>\<open>services/FeedbackCollector.ts\<close>, \<^verbatim>\<open>BanditPersistence.ts\<close>, \<^verbatim>\<open>UserReputationService.ts\<close> and
    \<^verbatim>\<open>AdaptiveDecisionEngine.ts\<close>.
  \<^item> \<open>SoarActions\<close> and \<open>SoarExecutor\<close>: the files of \<^verbatim>\<open>soar\<close>: actions, interpolation of parameters, retries, audit, rollback, and the
    execution through the bandit. The locale \<open>effect_order\<close> relates the effects of an execution before and after, interpreted for
    growth, silence and the absence of log entries.
  \<^item> \<open>MarkovTypes\<close>, \<open>MarkovChain\<close>, \<open>MarkovLearning\<close> (\<^verbatim>\<open>core/markov/MarkovChain.ts\<close>), \<open>BehavioralStates\<close>
    (\<^verbatim>\<open>core/markov/BehavioralStateManager.ts\<close>, with the locale \<open>compressor\<close> for its four ways to compress a sequence), \<open>SequenceAnalysis\<close> and
    \<open>SessionLearning\<close> (\<^verbatim>\<open>services/SequenceAnalyzer.ts\<close>), \<open>MarkovManagement\<close> (\<^verbatim>\<open>services/MarkovManager.ts\<close>, \<^verbatim>\<open>config/markovConfig.ts\<close>),
    \<open>MarkovAnalytics\<close> (\<^verbatim>\<open>core/markov/MarkovAnalytics.ts\<close>), \<open>BehavioralIntegration\<close> (\<^verbatim>\<open>services/BehavioralIntegration.ts\<close>).
  \<^item> \<open>Ewma\<close> (\<^verbatim>\<open>core/ewma/EWMACore.ts\<close>), \<open>EwmaModels\<close> (\<^verbatim>\<open>core/ewma/EWMAStatisticalModels.ts\<close>), \<open>EwmaManagement\<close> (analytics and manager),
    \<open>BaselineAdaptation\<close> (\<^verbatim>\<open>services/BaselineAdaptationService.ts\<close>), \<open>EwmaIntegration\<close> (\<^verbatim>\<open>services/EWMAIntegration.ts\<close>).
  \<^item> \<open>Ingestion\<close>, \<open>Detection\<close>, \<open>RedisService\<close>, \<open>Triage\<close>: \<^verbatim>\<open>backend/ingestion\<close>, \<^verbatim>\<open>backend/detection\<close>,
    \<^verbatim>\<open>services/RedisService.ts\<close>, \<^verbatim>\<open>backend/triage\<close> and \<^verbatim>\<open>backend/graph/killchain.ts\<close>.
  \<^item> \<open>RequestData\<close>, \<open>RiskScoring\<close>, \<open>BehavioralAnalysis\<close>, \<open>StatisticalAnalysis\<close>, \<open>RelationshipAnalysis\<close>: \<^verbatim>\<open>core/RiskScoringEngine.ts\<close> and
    the three analyzers of \<^verbatim>\<open>core\<close>, over the request that \<^verbatim>\<open>core/ThreatDetectionEngine.ts\<close> extracts. The locale \<open>risk_source\<close> is what the
    engine relies on in an analyzer (a score between 0 and 1 from every state), interpreted for each of the three.
  \<^item> \<open>ResponseActions\<close> and \<open>ResponseEngine\<close>: \<^verbatim>\<open>core/response\<close> and \<^verbatim>\<open>config/responseConfig.ts\<close>. \<open>ThreatDetection\<close> composes the analyzers and the
    response engine as \<^verbatim>\<open>core/ThreatDetectionEngine.ts\<close> does; \<open>Deception\<close> is \<^verbatim>\<open>services/DeceptionService.ts\<close>; \<open>ThreatMiddleware\<close> is the
    middleware of \<^verbatim>\<open>index.ts\<close> over both.

  \<^bold>\<open>What the lemmas show.\<close>
  \<^item> Count-Min Sketch: for any history of insertions an estimate is at least the true count and at most the
    total inserted, exact when some row has no collision; merging is counting the concatenated histories;
    an invariant of every reachable sketch; saving and loading is the identity. Its clients: tracked frequencies have the same bounds and
    never fall, windows are bounded, a flood within one minute is not reported, clearing silences the detector, which memory budgets fit,
    reported percentiles are percentiles of the last measurements, accuracy counters are a confusion matrix.
  \<^item> HyperLogLog: the registers are a function of the set of the added items (order and repetition do not
    matter), merging is union of sets, and the count depends on the set only, in both representations; an
    invariant of reachable states; a round trip. Its clients: a tracker counts the sets of what was seen since it was cleared, its time windows never
    forget, the total of the manager is the count of the addresses since the last reset, no insight is ever given, which memory budgets and tolerances
    a configuration meets, what is reported without visitors.
  \<^item> Rate limiting: the sliding window admits a request exactly when fewer than the limit were admitted inside the
    window; token buckets admit at most capacity plus refill; policy choice and policy indexes are correct; the
    cache of states stays bounded; blocks and their lifting behave as a block list; the manager enforces the login
    limit end to end. Stored measurements are the counts and means of their hour, the top violators are those with most violations; verdicts are
    monotone in the threat score; which settings reach a limiter at all; the integration counts refusals only, so emergency mode ends by its check
    exactly while nothing was refused.
  \<^item> Bandits: the parameters of an arm are the prior plus the numbers of rewarded and unrewarded events; a choice is
    always made and is an action of the context, also by the sampler whose loop has no bound; feedback reaches the learner in order.
  \<^item> Playbooks: every execution returns, completed steps are an initial part, the audit log names exactly these, one selection and one reward per
    execution through the bandit.
  \<^item> Markov chains: counts are the numbers of occurrences, rows are stochastic, saving and loading keeps predictions, discovered patterns are exactly
    the frequent windows, sequences stay bounded; clusters of patterns are a partition; behavioural risk scores stay between 0 and 1.
  \<^item> EWMA: the value is the weighted mean of the stream; consensus is a plurality; which windows can report at all; when a drift
    leads to which advice, what a rollback restores, that all metrics share one set of averages.
  \<^item> Events: normalisation keeps a schema, publication enriches and keeps every field, markers of attacks are found anywhere in a payload, Sigma rules
    survive their text form, triage is a function of the score.
  \<^item> Threat response: every score selects a tier and a block once given is enforced on every later request of its duration; scores are bounded and
    monotone; the search for related addresses is correct; traps count their accesses.
  \<^item> Properties that record where the code does not do what it means to (for example: the hybrid algorithm
    never limits, a new session identifier resets every response, the deception environment is never entered) are stated as theorems
    of the model too.

  \<^bold>\<open>Modelling choices.\<close>
  \<^item> A number that carries a score, rate, or count is a \<open>real\<close> with exact arithmetic; rounding of doubles is modelled
    only where the code depends on it (the products of the 32-bit hash). Where a value can become infinite or
    undefined it is a \<open>jsnum\<close>. Bits are machine words or integers with the masks of the code; times are
    integers in milliseconds.
  \<^item> The clock, random draws, replies of Redis and of the graph database, environment variables and file contents are arguments of the
    operations that use them, so the theorems hold for every reply. A thrown exception is \<open>Inl\<close> or \<open>None\<close>.
  \<^item> Awaited calls run one after another: two requests inside the same handler are not interleaved.
  \<^item> Bounds are those of the code: the gamma sampler of the Thompson bandit tries at most 100 times, the cache of limiter states is trimmed
    at 1000 entries, the feedback log keeps 1000 events. The sampler of \<^verbatim>\<open>mab.ts\<close> may loop for ever and is a
    \<open>partial_function\<close>, with a theorem that it returns unless every draw is rejected. No definition uses fuel of its own: all other
    recursion is over data or over these bounds.

  \<^bold>\<open>Not modelled.\<close> Logging, the rendering of exported metrics, HTTP headers, the clients of databases (Neo4j, PostgreSQL, InfluxDB) and of message
  brokers, routes and sockets, which only pass data on to services outside the repository, and the frontend; the programs in other languages.
\<close>

end
